(* ===== verification/Prelude.thy ===== *)
theory Prelude
  imports Main "HOL-Library.Signed_Division"
begin

text \<open>
  Vocabulary shared by every component: the result monad for code that throws, the
  string primitives of JavaScript the sources call (\<open>trim\<close>, \<open>padStart\<close>, decimal
  regular expressions, \<open>BigInt\<close> parsing and printing), the stable comparator sort of
  \<open>Array.prototype.sort\<close>, and two interfaces as locales: comparators that are
  consistent on a set, and codecs that round-trip on a domain.

  Strings are lists of UTF-16 code units below 256 (Latin-1).  \<open>trim\<close>, \<open>toLowerCase\<close>
  and \<open>toUpperCase\<close> are exact on that alphabet, but for \<open>toUpperCase\<close> of the micro
  sign and of y-diaeresis, whose images lie outside it and which are left as they are.
\<close>

section \<open>Results: a thrown error or a value\<close>

named_theorems result_simps \<open>inversion of the result monad\<close>
named_theorems text_eval \<open>evaluation of the string primitives on literals, by the simplifier\<close>

fun bindR :: "'e + 'a \<Rightarrow> ('a \<Rightarrow> 'e + 'b) \<Rightarrow> 'e + 'b" where
  "bindR (Inl e) f = Inl e"
| "bindR (Inr x) f = f x"

fun mapR :: "('a \<Rightarrow> 'e + 'b) \<Rightarrow> 'a list \<Rightarrow> 'e + 'b list" where
  "mapR f [] = Inr []"
| "mapR f (x # xs) = bindR (f x) (\<lambda>y. bindR (mapR f xs) (\<lambda>ys. Inr (y # ys)))"

fun is_ok :: "'e + 'a \<Rightarrow> bool" where
  "is_ok (Inl e) = False"
| "is_ok (Inr x) = True"

lemma bindR_cong [fundef_cong]:
  "m = m' \<Longrightarrow> (\<And>x. m' = Inr x \<Longrightarrow> f x = g x) \<Longrightarrow> bindR m f = bindR m' g"
  by (cases m') auto

lemma bindR_Inr_iff [result_simps]: "bindR m f = Inr y \<longleftrightarrow> (\<exists>x. m = Inr x \<and> f x = Inr y)"
  by (cases m) auto

lemma bindR_InrE: "bindR m f = Inr y \<Longrightarrow> (\<And>x. m = Inr x \<Longrightarrow> f x = Inr y \<Longrightarrow> P) \<Longrightarrow> P"
  by (cases m) auto

lemma bindR_Inl_iff: "bindR m f = Inl e \<longleftrightarrow> m = Inl e \<or> (\<exists>x. m = Inr x \<and> f x = Inl e)"
  by (cases m) auto

lemma bindR_assoc: "bindR (bindR m f) g = bindR m (\<lambda>x. bindR (f x) g)"
  by (cases m) auto

lemma bindR_Inr_right [simp]: "bindR m Inr = m"
  by (cases m) auto

lemma is_ok_bindR: "is_ok (bindR m f) \<longleftrightarrow> (\<exists>x. m = Inr x \<and> is_ok (f x))"
  by (cases m) auto

lemma is_ok_iff: "is_ok m \<longleftrightarrow> (\<exists>x. m = Inr x)"
  by (cases m) auto

lemma mapR_Inr_iff: "mapR f xs = Inr ys \<longleftrightarrow> list_all2 (\<lambda>x y. f x = Inr y) xs ys"
proof (induction xs arbitrary: ys)
  case Nil
  then show ?case by auto
next
  case (Cons x xs)
  then show ?case by (auto simp: bindR_Inr_iff list_all2_Cons1)
qed

lemma mapR_cong [fundef_cong]:
  "xs = ys \<Longrightarrow> (\<And>x. x \<in> set ys \<Longrightarrow> f x = g x) \<Longrightarrow> mapR f xs = mapR g ys"
proof (induction ys arbitrary: xs)
  case Nil
  then show ?case by simp
next
  case (Cons y ys)
  then show ?case by simp
qed

lemma mapR_values: "mapR f xs = Inr ys \<Longrightarrow> (\<And>x y. f x = Inr y \<Longrightarrow> P y) \<Longrightarrow> y \<in> set ys \<Longrightarrow> P y"
  by (induction xs arbitrary: ys) (auto simp: bindR_Inr_iff)

lemma mapR_length: "mapR f xs = Inr ys \<Longrightarrow> length ys = length xs"
  by (simp add: mapR_Inr_iff list_all2_lengthD)

lemma mapR_map_ok: "(\<And>x. x \<in> set xs \<Longrightarrow> f x = Inr (g x)) \<Longrightarrow> mapR f xs = Inr (map g xs)"
  by (induction xs) auto

text \<open>The errors the pure modules throw, one constructor per \<open>throw\<close> site.\<close>

datatype js_error =
    InvalidMoney string
  | SubPaisePrecision string
  | InvalidRate string
  | DenominatorNotPositive
  | NegativeComponent
  | DivisorNotPositive
  | InvalidWeight string
  | InvalidDimension string
  | InvalidDivisor string
  | DefaultProfileCount nat
  | InvalidTimeZone string

text \<open>Values of \<open>JSON.parse\<close>; the numbers the sources inspect are integers.\<close>

datatype json =
    JNull
  | JBool bool
  | JNum int
  | JStr string
  | JArr "json list"
  | JObj "(string \<times> json) list"

section \<open>Characters and strings\<close>

definition is_digit :: "char \<Rightarrow> bool" where
  "is_digit c \<longleftrightarrow> 48 \<le> (of_char c :: nat) \<and> (of_char c :: nat) \<le> 57"

definition digit_val :: "char \<Rightarrow> nat" where
  "digit_val c = of_char c - 48"

definition digit_char :: "nat \<Rightarrow> char" where
  "digit_char d = char_of (48 + d)"

definition is_ws :: "char \<Rightarrow> bool" where
  "is_ws c \<longleftrightarrow> (of_char c :: nat) \<in> {9, 10, 11, 12, 13, 32, 160}"

definition trim :: "string \<Rightarrow> string" where
  "trim s = rev (dropWhile is_ws (rev (dropWhile is_ws s)))"

definition lower_char :: "char \<Rightarrow> char" where
  "lower_char c = (let n = (of_char c :: nat) in
     if (65 \<le> n \<and> n \<le> 90) \<or> (192 \<le> n \<and> n \<le> 222 \<and> n \<noteq> 215) then char_of (n + 32) else c)"

definition upper_char :: "char \<Rightarrow> string" where
  "upper_char c = (let n = (of_char c :: nat) in
     if n = 223 then ''SS''
     else if (97 \<le> n \<and> n \<le> 122) \<or> (224 \<le> n \<and> n \<le> 254 \<and> n \<noteq> 247) then [char_of (n - 32)]
     else [c])"

definition to_lower :: "string \<Rightarrow> string" where
  "to_lower s = map lower_char s"

definition to_upper :: "string \<Rightarrow> string" where
  "to_upper s = concat (map upper_char s)"

definition pad_start :: "nat \<Rightarrow> char \<Rightarrow> string \<Rightarrow> string" where
  "pad_start k c s = replicate (k - length s) c @ s"

definition pad_end :: "nat \<Rightarrow> char \<Rightarrow> string \<Rightarrow> string" where
  "pad_end k c s = s @ replicate (k - length s) c"

fun starts_with :: "string \<Rightarrow> string \<Rightarrow> bool" where
  "starts_with p [] = (p = [])"
| "starts_with [] (c # s) = True"
| "starts_with (d # p) (c # s) = (d = c \<and> starts_with p s)"

fun includes_str :: "string \<Rightarrow> string \<Rightarrow> bool" where
  "includes_str p [] = (p = [])"
| "includes_str p (c # s) = (starts_with p (c # s) \<or> includes_str p s)"

subsection \<open>Unsigned decimals: \<open>BigInt(digits)\<close> and its \<open>toString\<close>\<close>

definition dec_val :: "string \<Rightarrow> nat" where
  "dec_val s = foldl (\<lambda>a c. 10 * a + digit_val c) 0 s"

fun show_nat :: "nat \<Rightarrow> string" where
  "show_nat n = (if n < 10 then [digit_char n] else show_nat (n div 10) @ [digit_char (n mod 10)])"

declare show_nat.simps [simp del]

definition show_int :: "int \<Rightarrow> string" where
  "show_int i = (if i < 0 then CHR ''-'' # show_nat (nat (- i)) else show_nat (nat i))"

lemma of_char_digit_char: "d < 10 \<Longrightarrow> (of_char (digit_char d) :: nat) = 48 + d"
  by (simp add: digit_char_def)

lemma is_digit_digit_char [simp]: "d < 10 \<Longrightarrow> is_digit (digit_char d)"
  by (simp add: is_digit_def of_char_digit_char)

lemma digit_val_digit_char [simp]: "d < 10 \<Longrightarrow> digit_val (digit_char d) = d"
  by (simp add: digit_val_def of_char_digit_char)

lemma dec_val_Nil [simp]: "dec_val [] = 0"
  by (simp add: dec_val_def)

lemma dec_val_snoc [simp]: "dec_val (s @ [c]) = 10 * dec_val s + digit_val c"
  by (simp add: dec_val_def)

lemma dec_val_append: "dec_val (s @ t) = dec_val s * 10 ^ length t + dec_val t"
proof (induction t rule: rev_induct)
  case Nil
  then show ?case by simp
next
  case (snoc c t)
  then show ?case by (simp flip: append_assoc)
qed

lemma dec_val_zeros [simp]: "dec_val (replicate k (CHR ''0'')) = 0"
proof (induction k)
  case 0
  then show ?case by simp
next
  case (Suc k)
  have "replicate (Suc k) (CHR ''0'') = replicate k (CHR ''0'') @ [CHR ''0'']"
    by (simp add: replicate_append_same)
  with Suc show ?case by (simp add: digit_val_def del: replicate_Suc)
qed

lemma dec_val_bound: "dec_val s < 10 ^ length s" if "list_all is_digit s"
  using that
proof (induction s rule: rev_induct)
  case Nil
  then show ?case by simp
next
  case (snoc c s)
  then have "digit_val c \<le> 9" by (auto simp: is_digit_def digit_val_def)
  with snoc show ?case by simp
qed

lemma show_nat_digits [simp]: "list_all is_digit (show_nat n)"
proof (induction n rule: show_nat.induct)
  case (1 n)
  then show ?case by (subst show_nat.simps) simp
qed

lemma show_nat_nonempty [simp]: "show_nat n \<noteq> []"
  by (subst show_nat.simps) simp

lemma dec_val_show_nat [simp]: "dec_val (show_nat n) = n"
proof (induction n rule: show_nat.induct)
  case (1 n)
  show ?case
  proof (cases "n < 10")
    case True
    then show ?thesis by (subst show_nat.simps) (simp add: dec_val_def)
  next
    case False
    with 1 show ?thesis by (subst show_nat.simps) simp
  qed
qed

lemma length_show_nat: "0 < k \<Longrightarrow> n < 10 ^ k \<Longrightarrow> length (show_nat n) \<le> k"
proof (induction n arbitrary: k rule: show_nat.induct)
  case (1 n)
  show ?case
  proof (cases "n < 10")
    case True
    with "1.prems" show ?thesis by (subst show_nat.simps) simp
  next
    case False
    have "k \<noteq> 1" using "1.prems"(2) False by auto
    with "1.prems"(1) obtain j where j: "k = Suc j" "0 < j"
      by (cases k) auto
    with "1.prems" have "n div 10 < 10 ^ j" by (simp add: less_mult_imp_div_less)
    with "1.IH" [OF False j(2)] False j show ?thesis by (subst show_nat.simps) simp
  qed
qed


subsection \<open>Trimming\<close>

lemma dropWhile_none: "list_all (\<lambda>c. \<not> P c) s \<Longrightarrow> dropWhile P s = s"
  by (cases s) auto

lemma trim_no_ws: "list_all (\<lambda>c. \<not> is_ws c) s \<Longrightarrow> trim s = s"
  by (simp add: trim_def dropWhile_none list_all_iff)

lemma trim_Nil [simp]: "trim [] = []"
  by (simp add: trim_def)

lemma is_digit_not_ws: "is_digit c \<Longrightarrow> \<not> is_ws c"
  by (auto simp: is_digit_def is_ws_def)

lemma digits_no_ws: "list_all is_digit s \<Longrightarrow> list_all (\<lambda>c. \<not> is_ws c) s"
  by (auto simp: list_all_iff is_digit_not_ws)

lemma last_trim: "trim s \<noteq> [] \<Longrightarrow> \<not> is_ws (last (trim s))"
  by (simp add: trim_def last_rev hd_dropWhile)

lemma dropWhile_rev_dropWhile:
  "dropWhile P (rev (dropWhile P (rev (dropWhile P s)))) = rev (dropWhile P (rev (dropWhile P s)))"
proof (cases "dropWhile P s")
  case Nil
  then show ?thesis by (simp only: rev.simps dropWhile.simps)
next
  case (Cons c t)
  then have "\<not> P c" by (metis hd_dropWhile list.distinct(1) list.sel(1))
  then have "\<exists>t'. rev (dropWhile P (rev (c # t))) = c # t'"
    by (simp add: dropWhile_append3)
  with Cons \<open>\<not> P c\<close> show ?thesis by auto
qed

lemma trim_trim [simp]: "trim (trim s) = trim s"
  by (simp add: trim_def dropWhile_rev_dropWhile)

subsection \<open>Fixed-point decimals\<close>

text \<open>
  \<open>dec_re k\<close> is the regular expression \<open>^(\d+)(?:\.(\d{1,k}))?$\<close> with its two capture
  groups (the second defaults to the empty string, as every use of it does).
\<close>

definition dec_re :: "nat \<Rightarrow> string \<Rightarrow> (string \<times> string) option" where
  "dec_re k s =
     (let w = takeWhile is_digit s; r = dropWhile is_digit s in
      if w = [] then None
      else case r of
        [] \<Rightarrow> Some (w, [])
      | c # f \<Rightarrow> (if c = CHR ''.'' \<and> f \<noteq> [] \<and> length f \<le> k \<and> list_all is_digit f
                  then Some (w, f) else None))"

text \<open>\<open>BigInt(whole) * 10^k + BigInt((frac + '0...0').slice(0, k))\<close>.\<close>

definition scaled :: "nat \<Rightarrow> string \<Rightarrow> string \<Rightarrow> int" where
  "scaled k w f = int (dec_val w) * 10 ^ k + int (dec_val (take k (f @ replicate k (CHR ''0''))))"

definition parse_fixed :: "nat \<Rightarrow> string \<Rightarrow> int option" where
  "parse_fixed k s = (case dec_re k (trim s) of None \<Rightarrow> None | Some (w, f) \<Rightarrow> Some (scaled k w f))"

text \<open>\<open>`${x / 10^k}.${(x % 10^k).toString().padStart(k, '0')}`\<close>; \<open>BigInt\<close> division truncates.\<close>

definition show_fixed :: "nat \<Rightarrow> int \<Rightarrow> string" where
  "show_fixed k x = show_int (x sdiv 10 ^ k) @ ''.'' @ pad_start k (CHR ''0'') (show_int (x smod 10 ^ k))"

lemma dec_re_show:
  "list_all is_digit w \<Longrightarrow> w \<noteq> [] \<Longrightarrow> list_all is_digit f \<Longrightarrow> f \<noteq> [] \<Longrightarrow> length f \<le> k \<Longrightarrow>
   dec_re k (w @ CHR ''.'' # f) = Some (w, f)"
  by (simp add: dec_re_def list_all_iff is_digit_def)

lemma pad_start_digits [simp]:
  "list_all is_digit s \<Longrightarrow> list_all is_digit (pad_start k (CHR ''0'') s)"
  by (auto simp: pad_start_def list_all_iff is_digit_def)

lemma length_pad_start [simp]: "length (pad_start k c s) = max k (length s)"
  by (simp add: pad_start_def)

lemma dec_val_pad_start [simp]: "dec_val (pad_start k (CHR ''0'') s) = dec_val s"
  by (simp add: pad_start_def dec_val_append)

lemma show_int_nonneg: "0 \<le> i \<Longrightarrow> show_int i = show_nat (nat i)"
  by (simp add: show_int_def)

lemma sdiv_pos: "0 \<le> (x::int) \<Longrightarrow> 0 < n \<Longrightarrow> x sdiv n = x div n"
  by (cases "x = 0") (simp_all add: signed_divide_int_def)

lemma smod_pos: "0 \<le> (x::int) \<Longrightarrow> 0 < n \<Longrightarrow> x smod n = x mod n"
  by (cases "x = 0") (simp_all add: signed_modulo_int_def signed_divide_int_def)

lemma show_fixed_nonneg:
  "0 \<le> x \<Longrightarrow> show_fixed k x =
     show_nat (nat (x div 10 ^ k)) @ CHR ''.'' # pad_start k (CHR ''0'') (show_nat (nat (x mod 10 ^ k)))"
  by (simp add: show_fixed_def sdiv_pos smod_pos show_int_nonneg pos_imp_zdiv_nonneg_iff)

lemma frac_length: "0 < k \<Longrightarrow> length (pad_start k c (show_nat (nat (x mod 10 ^ k)))) = k"
proof -
  assume k: "0 < k"
  have "nat (x mod 10 ^ k) < 10 ^ k" by (simp add: nat_less_iff)
  with k have "length (show_nat (nat (x mod 10 ^ k))) \<le> k" by (rule length_show_nat)
  then show ?thesis by simp
qed

lemma scaled_show:
  assumes "0 \<le> x" and "0 < k" and "k \<le> m"
  shows "scaled m (show_nat (nat (x div 10 ^ k)))
      (pad_start k (CHR ''0'') (show_nat (nat (x mod 10 ^ k)))) = x * 10 ^ (m - k)"
proof -
  let ?f = "pad_start k (CHR ''0'') (show_nat (nat (x mod 10 ^ k)))"
  have len: "length ?f = k" using assms(2) by (rule frac_length)
  have split: "(10::int) ^ m = 10 ^ k * 10 ^ (m - k)"
    using assms(3) by (simp flip: power_add)
  have pos: "0 \<le> x div 10 ^ k" using assms(1) by (simp add: pos_imp_zdiv_nonneg_iff)
  have "take m (?f @ replicate m (CHR ''0'')) = ?f @ replicate (m - k) (CHR ''0'')"
    using len assms(3) by (simp add: take_replicate min_def)
  then have "scaled m (show_nat (nat (x div 10 ^ k))) ?f
      = (x div 10 ^ k) * 10 ^ m + (x mod 10 ^ k) * 10 ^ (m - k)"
    using pos by (simp add: scaled_def dec_val_append)
  also have "\<dots> = ((x div 10 ^ k) * 10 ^ k + x mod 10 ^ k) * 10 ^ (m - k)"
    by (simp only: split distrib_right mult.assoc)
  also have "(x div 10 ^ k) * 10 ^ k + x mod 10 ^ k = x" by (rule div_mult_mod_eq)
  finally show ?thesis .
qed

lemma dot_not_ws [simp]: "\<not> is_ws (CHR ''.'')"
  by (simp add: is_ws_def)

lemma minus_not_ws [simp]: "\<not> is_ws (CHR ''-'')"
  by (simp add: is_ws_def)

lemma show_fixed_no_ws: "0 \<le> x \<Longrightarrow> list_all (\<lambda>c. \<not> is_ws c) (show_fixed k x)"
  by (simp add: show_fixed_nonneg digits_no_ws)

text \<open>A printed fixed-point value parses back, at its own scale or at a finer one.\<close>

lemma parse_show_fixed:
  assumes "0 \<le> x" and "0 < k" and "k \<le> m"
  shows "parse_fixed m (show_fixed k x) = Some (x * 10 ^ (m - k))"
proof -
  let ?w = "show_nat (nat (x div 10 ^ k))"
  let ?f = "pad_start k (CHR ''0'') (show_nat (nat (x mod 10 ^ k)))"
  have len: "length ?f = k" using assms(2) by (rule frac_length)
  then have "dec_re m (?w @ CHR ''.'' # ?f) = Some (?w, ?f)"
    using assms(2,3) by (intro dec_re_show) (simp_all flip: length_greater_0_conv)
  then show ?thesis
    using assms by (simp add: parse_fixed_def trim_no_ws show_fixed_no_ws)
      (simp add: show_fixed_nonneg scaled_show)
qed

lemma parse_show_fixed_same: "0 \<le> x \<Longrightarrow> 0 < k \<Longrightarrow> parse_fixed k (show_fixed k x) = Some x"
  by (simp add: parse_show_fixed)

lemma parse_fixed_nonneg: "parse_fixed k s = Some x \<Longrightarrow> 0 \<le> x"
  by (auto simp: parse_fixed_def scaled_def split: option.splits)

lemma replicate_numeral_eval: "replicate (numeral k) x = x # replicate (pred_numeral k) x"
  by (simp add: numeral_eq_Suc)

lemma show_nat_numeral_eval:
  "show_nat (numeral k) = (if (numeral k :: nat) < 10 then [digit_char (numeral k)]
     else show_nat (numeral k div 10) @ [digit_char (numeral k mod 10)])"
  by (rule show_nat.simps)

lemma show_nat_0_1_eval: "show_nat 0 = ''0''" "show_nat (Suc 0) = ''1''"
  by (simp_all add: show_nat.simps digit_char_def char_of_def bit_0)

lemmas [text_eval] = Let_def trim_def dec_re_def is_digit_def is_ws_def dec_val_def digit_val_def
  parse_fixed_def scaled_def replicate_numeral_eval show_fixed_def show_int_def pad_start_def
  pad_end_def show_nat_numeral_eval show_nat_0_1_eval digit_char_def char_of_def bit_0 to_lower_def to_upper_def
  lower_char_def upper_char_def

section \<open>The stable sort of \<open>Array.prototype.sort\<close>\<close>

text \<open>
  \<open>js_sort cmp\<close> is a stable insertion sort: for a comparator that is a total preorder on
  the elements the result is the one every conforming engine computes.
\<close>

fun js_insert :: "('a \<Rightarrow> 'a \<Rightarrow> int) \<Rightarrow> 'a \<Rightarrow> 'a list \<Rightarrow> 'a list" where
  "js_insert cmp x [] = [x]"
| "js_insert cmp x (y # ys) = (if cmp x y \<le> 0 then x # y # ys else y # js_insert cmp x ys)"

fun js_sort :: "('a \<Rightarrow> 'a \<Rightarrow> int) \<Rightarrow> 'a list \<Rightarrow> 'a list" where
  "js_sort cmp [] = []"
| "js_sort cmp (x # xs) = js_insert cmp x (js_sort cmp xs)"

lemma set_js_insert [simp]: "set (js_insert cmp x ys) = insert x (set ys)"
  by (induction ys) auto

lemma set_js_sort [simp]: "set (js_sort cmp xs) = set xs"
  by (induction xs) auto

lemma length_js_insert [simp]: "length (js_insert cmp x ys) = Suc (length ys)"
  by (induction ys) auto

lemma length_js_sort [simp]: "length (js_sort cmp xs) = length xs"
  by (induction xs) auto

lemma js_sort_Nil_iff [simp]: "js_sort cmp xs = [] \<longleftrightarrow> xs = []"
  by (metis length_0_conv length_js_sort)

lemma js_insert_key: "js_insert (\<lambda>a b. f a - (f b :: int)) x ys = insort_key f x ys"
  by (induction ys) auto

lemma js_sort_key: "js_sort (\<lambda>a b. f a - (f b :: int)) xs = sort_key f xs"
  by (induction xs) (auto simp: js_insert_key sort_key_def)

text \<open>The first element in sort order that satisfies a predicate, in terms of the unsorted list.\<close>

lemma find_insort_key:
  "sorted (map f ys) \<Longrightarrow> List.find P (insort_key f x ys) =
     (if P x then (case List.find P ys of None \<Rightarrow> Some x | Some r \<Rightarrow> Some (if f x \<le> f r then x else r))
      else List.find P ys)"
proof (induction ys)
  case Nil
  then show ?case by simp
next
  case (Cons y ys)
  have "\<forall>r. List.find P (y # ys) = Some r \<longrightarrow> f y \<le> f r"
    using Cons.prems by (auto simp: find_Some_iff nth_Cons split: nat.splits)
  with Cons show ?case by (auto split: option.splits)
qed

lemma find_sorted_least:
  "sorted (map f ys) \<Longrightarrow> List.find P ys = Some q \<Longrightarrow> \<forall>s \<in> set ys. \<not> P s \<or> f q \<le> f s"
proof (induction ys)
  case Nil
  then show ?case by simp
next
  case (Cons y ys)
  show ?case
  proof (cases "P y")
    case True
    with Cons.prems show ?thesis by auto
  next
    case False
    with Cons show ?thesis by simp
  qed
qed

lemma find_sort_key_decomp:
  "List.find P (sort_key f xs) = Some r \<Longrightarrow> \<exists>pre post. xs = pre @ r # post \<and> P r
     \<and> (\<forall>s \<in> set pre. \<not> P s \<or> f r < f s) \<and> (\<forall>s \<in> set post. \<not> P s \<or> f r \<le> f s)"
proof (induction xs)
  case Nil
  then show ?case by simp
next
  case (Cons x xs)
  have none: "List.find P (sort_key f xs) = None \<Longrightarrow> \<forall>s \<in> set xs. \<not> P s"
    by (simp add: find_None_iff)
  have step: "List.find P (sort_key f (x # xs)) =
     (if P x then (case List.find P (sort_key f xs) of None \<Rightarrow> Some x
        | Some q \<Rightarrow> Some (if f x \<le> f q then x else q))
      else List.find P (sort_key f xs))"
    by (simp add: sort_key_def find_insort_key flip: sort_key_def)
  consider (head) "P x" "r = x" "\<forall>q. List.find P (sort_key f xs) = Some q \<longrightarrow> f x \<le> f q"
    | (tail) "List.find P (sort_key f xs) = Some r" "\<not> P x \<or> f r < f x"
  proof (cases "P x")
    case False
    with Cons.prems step that(2) show thesis by simp
  next
    case True
    with Cons.prems step that show thesis
      by (cases "List.find P (sort_key f xs)") (auto split: if_splits)
  qed
  then show ?case
  proof cases
    case head
    have "\<forall>s \<in> set xs. \<not> P s \<or> f x \<le> f s"
    proof (cases "List.find P (sort_key f xs)")
      case None
      with none show ?thesis by blast
    next
      case (Some q)
      have "\<forall>s \<in> set (sort_key f xs). \<not> P s \<or> f q \<le> f s"
        by (rule find_sorted_least [OF _ Some]) simp
      moreover have "f x \<le> f q" using head(3) Some by blast
      ultimately show ?thesis by (auto dest: order_trans)
    qed
    with head show ?thesis by (intro exI [of _ "[]"] exI [of _ xs]) auto
  next
    case tail
    then obtain pre post where "xs = pre @ r # post" "P r"
      "\<forall>s \<in> set pre. \<not> P s \<or> f r < f s" "\<forall>s \<in> set post. \<not> P s \<or> f r \<le> f s"
      using Cons.IH by blast
    with tail(2) show ?thesis by (intro exI [of _ "x # pre"] exI [of _ post]) auto
  qed
qed

lemma find_sort_key:
  "List.find P (sort_key f xs) = Some r \<longleftrightarrow> (\<exists>pre post. xs = pre @ r # post \<and> P r
     \<and> (\<forall>s \<in> set pre. \<not> P s \<or> f r < f s) \<and> (\<forall>s \<in> set post. \<not> P s \<or> f r \<le> f s))"
proof
  assume "\<exists>pre post. xs = pre @ r # post \<and> P r
     \<and> (\<forall>s \<in> set pre. \<not> P s \<or> f r < f s) \<and> (\<forall>s \<in> set post. \<not> P s \<or> f r \<le> f s)"
  then obtain pre post where d: "xs = pre @ r # post" "P r"
    "\<forall>s \<in> set pre. \<not> P s \<or> f r < f s" "\<forall>s \<in> set post. \<not> P s \<or> f r \<le> f s" by blast
  then have "List.find P (sort_key f xs) \<noteq> None" by (auto simp: find_None_iff)
  then obtain q where q: "List.find P (sort_key f xs) = Some q" by blast
  from find_sort_key_decomp [OF q] obtain pre' post' where e: "xs = pre' @ q # post'" "P q"
    "\<forall>s \<in> set pre'. \<not> P s \<or> f q < f s" "\<forall>s \<in> set post'. \<not> P s \<or> f q \<le> f s" by blast
  have "q = r"
  proof -
    from d(1) e(1) have "pre @ r # post = pre' @ q # post'" by simp
    then consider "pre = pre'" "r = q" | "q \<in> set pre" "r \<in> set post'" | "r \<in> set pre'" "q \<in> set post"
      by (auto simp: append_eq_append_conv2 append_eq_Cons_conv Cons_eq_append_conv)
    then show ?thesis
      using d e by cases force+
  qed
  with q show "List.find P (sort_key f xs) = Some r" by simp
qed (rule find_sort_key_decomp)

locale js_comparator =
  fixes A :: "'a set" and cmp :: "'a \<Rightarrow> 'a \<Rightarrow> int"
  assumes total: "a \<in> A \<Longrightarrow> b \<in> A \<Longrightarrow> cmp a b \<le> 0 \<or> cmp b a \<le> 0"
    and trans: "a \<in> A \<Longrightarrow> b \<in> A \<Longrightarrow> c \<in> A \<Longrightarrow> cmp a b \<le> 0 \<Longrightarrow> cmp b c \<le> 0 \<Longrightarrow> cmp a c \<le> 0"
begin

lemma sorted_insert:
  "x \<in> A \<Longrightarrow> set ys \<subseteq> A \<Longrightarrow> sorted_wrt (\<lambda>a b. cmp a b \<le> 0) ys \<Longrightarrow>
   sorted_wrt (\<lambda>a b. cmp a b \<le> 0) (js_insert cmp x ys)"
proof (induction ys)
  case Nil
  then show ?case by simp
next
  case (Cons y ys)
  show ?case
  proof (cases "cmp x y \<le> 0")
    case True
    with Cons.prems show ?thesis by (auto intro: trans [of x y])
  next
    case False
    with Cons.prems have "cmp y x \<le> 0" using total [of x y] by auto
    with False Cons show ?thesis by auto
  qed
qed

lemma sorted_sort: "set xs \<subseteq> A \<Longrightarrow> sorted_wrt (\<lambda>a b. cmp a b \<le> 0) (js_sort cmp xs)"
  by (induction xs) (simp_all add: sorted_insert)

text \<open>The element the callers pick, \<open>sorted[0]\<close>, is a least one.\<close>

lemma hd_sort_least:
  assumes "set xs \<subseteq> A" and "x \<in> set xs"
  shows "hd (js_sort cmp xs) \<in> set xs \<and> cmp (hd (js_sort cmp xs)) x \<le> 0"
proof (cases "js_sort cmp xs")
  case Nil
  with assms show ?thesis by simp
next
  case (Cons y ys)
  have "sorted_wrt (\<lambda>a b. cmp a b \<le> 0) (y # ys)"
    using sorted_sort [OF assms(1)] Cons by simp
  moreover have "set (y # ys) = set xs" using Cons by (metis set_js_sort)
  moreover have "cmp y y \<le> 0" using calculation assms(1) total [of y y] by auto
  ultimately show ?thesis using assms(2) Cons by (metis list.sel(1) set_ConsD sorted_wrt.simps(2) list.set_intros(1))
qed

end

text \<open>Every sort by a numeric field is a comparator on all elements.\<close>

interpretation by_key: js_comparator UNIV "\<lambda>a b. f a - (f b :: int)" for f
  by unfold_locales auto

section \<open>The insertion-ordered \<open>Map\<close>\<close>

text \<open>
  A JavaScript \<open>Map\<close> iterates in insertion order, and setting a present key keeps its place:
  an association list with in-place update.
\<close>

fun map_set :: "'k \<Rightarrow> 'v \<Rightarrow> ('k \<times> 'v) list \<Rightarrow> ('k \<times> 'v) list" where
  "map_set k v [] = [(k, v)]"
| "map_set k v ((k', v') # m) = (if k = k' then (k, v) # m else (k', v') # map_set k v m)"

definition map_from :: "('k \<times> 'v) list \<Rightarrow> ('k \<times> 'v) list" where
  "map_from kvs = foldl (\<lambda>m (k, v). map_set k v m) [] kvs"

lemma map_of_map_set: "map_of (map_set k v m) = (map_of m)(k \<mapsto> v)"
  by (induction m) auto

lemma keys_map_set: "map fst (map_set k v m) = (if k \<in> fst ` set m then map fst m else map fst m @ [k])"
  by (induction m) (auto simp: rev_image_eqI)

lemma distinct_map_set: "distinct (map fst m) \<Longrightarrow> distinct (map fst (map_set k v m))"
  by (simp add: keys_map_set)

lemma set_map_set_subset: "set (map_set k v m) \<subseteq> insert (k, v) (set m)"
proof (induction m)
  case Nil
  then show ?case by simp
next
  case (Cons e m)
  then show ?case by (cases e) (auto split: if_splits)
qed

lemma map_from_snoc: "map_from (kvs @ [(k, v)]) = map_set k v (map_from kvs)"
  by (simp add: map_from_def)

lemma map_of_map_from: "map_of (map_from kvs) = map_of (rev kvs)"
  by (induction kvs rule: rev_induct) (auto simp: map_from_snoc map_of_map_set, simp add: map_from_def)

lemma distinct_map_from: "distinct (map fst (map_from kvs))"
  by (induction kvs rule: rev_induct) (auto simp: map_from_snoc distinct_map_set, simp add: map_from_def)

lemma keys_map_from: "fst ` set (map_from kvs) = fst ` set kvs"
proof (induction kvs rule: rev_induct)
  case Nil
  then show ?case by (simp add: map_from_def)
next
  case (snoc kv kvs)
  have "fst ` set (map_set k v m) = insert k (fst ` set m)" for k v and m :: "('a \<times> 'b) list"
    using keys_map_set [of k v m] by (metis (no_types) insert_absorb list.set_map rotate1.simps(2) set_rotate1 list.simps(15))
  with snoc show ?case by (cases kv) (simp add: map_from_snoc)
qed

lemma set_map_from_subset: "set (map_from kvs) \<subseteq> set kvs"
proof (induction kvs rule: rev_induct)
  case Nil
  then show ?case by (simp add: map_from_def)
next
  case (snoc kv kvs)
  then show ?case using set_map_set_subset by (cases kv) (fastforce simp: map_from_snoc)
qed

section \<open>Codecs between numbers and their database text\<close>

locale codec =
  fixes enc :: "'v \<Rightarrow> string" and dec :: "string \<Rightarrow> 'e + 'v" and valid :: "'v \<Rightarrow> bool"
  assumes dec_enc: "valid v \<Longrightarrow> dec (enc v) = Inr v"
begin

lemma enc_eq_iff: "valid a \<Longrightarrow> valid b \<Longrightarrow> enc a = enc b \<longleftrightarrow> a = b"
  by (metis dec_enc sum.inject(2))

lemma mapR_dec_enc: "(\<And>v. v \<in> set vs \<Longrightarrow> valid v) \<Longrightarrow> mapR dec (map enc vs) = Inr vs"
  by (induction vs) (auto simp: dec_enc)

lemma dec_ok: "valid v \<Longrightarrow> is_ok (dec (enc v))"
  by (simp add: dec_enc)

end

section \<open>Invariants of step relations\<close>

locale invariant_system =
  fixes step :: "'s \<Rightarrow> 's \<Rightarrow> bool" and inv :: "'s \<Rightarrow> bool"
  assumes keeps: "step s s' \<Longrightarrow> inv s \<Longrightarrow> inv s'"
begin

lemma reachable: "step\<^sup>*\<^sup>* s s' \<Longrightarrow> inv s \<Longrightarrow> inv s'"
  by (induction rule: rtranclp_induct) (auto dest: keeps)

end

text \<open>\<open>Array.prototype.join\<close>.\<close>

fun joinStr :: "string \<Rightarrow> string list \<Rightarrow> string" where
  "joinStr sep [] = []"
| "joinStr sep [x] = x"
| "joinStr sep (x # xs) = x @ sep @ joinStr sep xs"

end
