(* ===== verification/Money.thy ===== *)
theory Money
  imports Prelude
begin

text \<open>
  \<open>src/common/money.ts\<close>: amounts are integer paise, rates integer millionths, both
  unbounded (\<open>bigint\<close>) and so \<open>int\<close> here.  The database text of an amount has two
  decimals (up to four are read), that of a rate six.  The lemmas show that text and
  number are inverse, and that the division rounds half up, is monotone and bounded.
\<close>

section \<open>Text to number and back\<close>

definition rupeesToPaise :: "string \<Rightarrow> js_error + int" where
  "rupeesToPaise value =
     (let trimmed = trim value;
          sign = (trimmed \<noteq> [] \<and> hd trimmed = CHR ''-'')
      in case dec_re 4 (if sign then tl trimmed else trimmed) of
        None \<Rightarrow> Inl (InvalidMoney value)
      | Some (whole, frac) \<Rightarrow>
          (let fracPadded = take 4 (frac @ ''0000'') in
           if drop 2 fracPadded \<noteq> ''00'' then Inl (SubPaisePrecision value)
           else (let paise = int (dec_val whole) * 100 + int (dec_val (take 2 fracPadded))
                 in Inr (if sign then - paise else paise))))"

definition paiseToRupees :: "int \<Rightarrow> string" where
  "paiseToRupees paise =
     (let neg = paise < 0; abs = (if neg then - paise else paise);
          whole = abs sdiv 100; frac = abs smod 100
      in (if neg then ''-'' else '''') @ show_int whole @ ''.'' @ pad_start 2 (CHR ''0'') (show_int frac))"

definition rateToMillionths :: "string \<Rightarrow> js_error + int" where
  "rateToMillionths value =
     (case parse_fixed 6 value of None \<Rightarrow> Inl (InvalidRate value) | Some r \<Rightarrow> Inr r)"

section \<open>Arithmetic\<close>

definition divRoundHalfUp :: "int \<Rightarrow> int \<Rightarrow> js_error + int" where
  "divRoundHalfUp numerator denominator =
     (if denominator \<le> 0 then Inl DenominatorNotPositive
      else if numerator < 0 then Inl NegativeComponent
      else (let q = numerator sdiv denominator; r = numerator smod denominator
            in Inr (if r * 2 \<ge> denominator then q + 1 else q)))"

definition applyRate :: "int \<Rightarrow> int \<Rightarrow> js_error + int" where
  "applyRate amount rate = divRoundHalfUp (amount * rate) 1000000"

definition sumComponents :: "int list \<Rightarrow> int" where
  "sumComponents components = foldl (+) 0 components"

definition ceilDiv :: "int \<Rightarrow> int \<Rightarrow> js_error + int" where
  "ceilDiv a b =
     (if b \<le> 0 then Inl DivisorNotPositive
      else if a \<le> 0 then Inr 0
      else Inr ((a + b - 1) sdiv b))"

section \<open>Rounding\<close>

text \<open>The rounded quotient as one floor division; all bounds follow from it.\<close>

lemma round_half_up_floor:
  fixes n d :: int
  assumes "0 < d"
  shows "(if n mod d * 2 \<ge> d then n div d + 1 else n div d) = (2 * n + d) div (2 * d)"
proof -
  define q r where "q = n div d" and "r = n mod d"
  note qr = q_def r_def
  have n: "n = q * d + r" unfolding qr by simp
  have r: "0 \<le> r" "r < d" unfolding qr using assms by auto
  have "2 * n + d = 2 * r + d + q * (2 * d)"
    using n by (simp add: algebra_simps)
  then have "(2 * n + d) div (2 * d) = (2 * r + d + q * (2 * d)) div (2 * d)"
    by (rule arg_cong [where f = "\<lambda>t. t div (2 * d)"])
  also have "\<dots> = q + (2 * r + d) div (2 * d)"
    using assms by simp
  also have "(2 * r + d) div (2 * d) = (if r * 2 \<ge> d then 1 else 0)"
  proof (cases "r * 2 \<ge> d")
    case True
    with r have "(2 * r + d) div (2 * d) = 1"
      by (intro int_div_pos_eq [where r = "2 * r - d"]) auto
    with True show ?thesis by simp
  next
    case False
    with r have "(2 * r + d) div (2 * d) = 0"
      by (intro div_pos_pos_trivial) auto
    with False show ?thesis by simp
  qed
  finally show ?thesis unfolding qr [symmetric] by auto
qed

lemma divRoundHalfUp_eq:
  "0 < d \<Longrightarrow> 0 \<le> n \<Longrightarrow> divRoundHalfUp n d = Inr ((2 * n + d) div (2 * d))"
  by (simp add: divRoundHalfUp_def Let_def sdiv_pos smod_pos round_half_up_floor)

lemma divRoundHalfUp_Inr_iff:
  "divRoundHalfUp n d = Inr q \<longleftrightarrow> 0 < d \<and> 0 \<le> n \<and> q = (2 * n + d) div (2 * d)"
proof (cases "0 < d \<and> 0 \<le> n")
  case True
  then show ?thesis by (auto simp: divRoundHalfUp_eq)
next
  case False
  then show ?thesis by (auto simp: divRoundHalfUp_def)
qed

lemma divRoundHalfUp_nearest:
  assumes "divRoundHalfUp n d = Inr q"
  shows "2 * n - d < 2 * (q * d) \<and> 2 * (q * d) \<le> 2 * n + d \<and> 0 \<le> q"
proof -
  from assms have d: "0 < d" "0 \<le> n" and q: "q = (2 * n + d) div (2 * d)"
    by (auto simp: divRoundHalfUp_Inr_iff)
  have "q * (2 * d) + (2 * n + d) mod (2 * d) = 2 * n + d" unfolding q by (rule div_mult_mod_eq)
  moreover have "0 \<le> (2 * n + d) mod (2 * d)" "(2 * n + d) mod (2 * d) < 2 * d"
    using d by auto
  moreover have "0 \<le> q" unfolding q using d by (simp add: pos_imp_zdiv_nonneg_iff)
  ultimately show ?thesis by (simp add: algebra_simps)
qed

lemma divRoundHalfUp_mono:
  assumes "divRoundHalfUp m d = Inr p" "divRoundHalfUp n d = Inr q" "m \<le> n"
  shows "p \<le> q"
  using assms by (auto simp: divRoundHalfUp_Inr_iff intro: zdiv_mono1)

lemma applyRate_eq: "0 \<le> a * r \<Longrightarrow> applyRate a r = Inr ((a * r + 500000) div 1000000)"
proof -
  assume "0 \<le> a * r"
  then have "applyRate a r = Inr ((2 * (a * r) + 1000000) div (2 * 1000000))"
    unfolding applyRate_def by (intro divRoundHalfUp_eq) auto
  also have "2 * (a * r) + 1000000 = 2 * (a * r + 500000)" by simp
  also have "2 * (a * r + 500000) div (2 * 1000000) = (a * r + 500000) div 1000000"
    by (rule div_mult_mult1) simp
  finally show ?thesis .
qed

lemma applyRate_Inr_iff:
  "applyRate a r = Inr x \<longleftrightarrow> 0 \<le> a * r \<and> x = (a * r + 500000) div 1000000"
proof (cases "0 \<le> a * r")
  case True
  then show ?thesis by (auto simp: applyRate_eq)
next
  case False
  then show ?thesis by (auto simp: applyRate_def divRoundHalfUp_def)
qed

lemma applyRate_nonneg: "applyRate a r = Inr x \<Longrightarrow> 0 \<le> x"
  by (auto simp: applyRate_Inr_iff pos_imp_zdiv_nonneg_iff)

lemma applyRate_le: "applyRate a r = Inr x \<Longrightarrow> 0 \<le> a \<Longrightarrow> r \<le> 1000000 \<Longrightarrow> x \<le> a"
proof -
  assume x: "applyRate a r = Inr x" and a: "0 \<le> a" and r: "r \<le> 1000000"
  have "a * r \<le> a * 1000000" using a r by (intro mult_left_mono)
  then have "(a * r + 500000) div 1000000 \<le> (a * 1000000 + 500000) div 1000000"
    by (intro zdiv_mono1) auto
  also have "\<dots> = a" by simp
  finally show "x \<le> a" using x by (simp add: applyRate_Inr_iff)
qed

lemma applyRate_mono:
  "applyRate a r = Inr x \<Longrightarrow> applyRate b s = Inr y \<Longrightarrow> a * r \<le> b * s \<Longrightarrow> x \<le> y"
  by (auto simp: applyRate_Inr_iff intro: zdiv_mono1)

lemma applyRate_ok: "0 \<le> a \<Longrightarrow> 0 \<le> r \<Longrightarrow> \<exists>x. applyRate a r = Inr x"
  by (simp add: applyRate_Inr_iff)

lemma foldl_plus: "foldl (+) (a::int) xs = a + sum_list xs"
  by (induction xs arbitrary: a) auto

lemma sumComponents_eq [simp]: "sumComponents xs = sum_list xs"
  by (simp add: sumComponents_def foldl_plus)

lemma ceilDiv_eq: "0 < b \<Longrightarrow> 0 \<le> a \<Longrightarrow> ceilDiv a b = Inr ((a + b - 1) div b)"
  by (cases "a = 0") (simp_all add: ceilDiv_def sdiv_pos div_pos_pos_trivial)

lemma ceilDiv_least:
  assumes "ceilDiv a b = Inr k"
  shows "0 \<le> k \<and> a \<le> k * b \<and> (0 < a \<longrightarrow> (k - 1) * b < a)"
proof -
  from assms have b: "0 < b" by (auto simp: ceilDiv_def split: if_splits)
  show ?thesis
  proof (cases "a \<le> 0")
    case True
    with assms b show ?thesis by (auto simp: ceilDiv_def)
  next
    case False
    with assms b have k: "k = (a + b - 1) div b" by (auto simp: ceilDiv_eq)
    have "k * b + (a + b - 1) mod b = a + b - 1" unfolding k by simp
    moreover have "0 \<le> (a + b - 1) mod b" "(a + b - 1) mod b < b" using b by auto
    moreover have "0 \<le> k" unfolding k using False b by (simp add: pos_imp_zdiv_nonneg_iff)
    ultimately show ?thesis by (simp add: algebra_simps)
  qed
qed

lemma ceilDiv_mono:
  assumes "ceilDiv a c = Inr p" "ceilDiv b c = Inr q" "a \<le> b"
  shows "p \<le> q"
proof (cases "0 \<le> a")
  case True
  from assms(1) have "0 < c" by (auto simp: ceilDiv_def split: if_splits)
  with True assms show ?thesis by (auto simp: ceilDiv_eq intro!: zdiv_mono1)
next
  case False
  with assms(1) have "p = 0" by (auto simp: ceilDiv_def split: if_splits)
  with ceilDiv_least [OF assms(2)] show ?thesis by simp
qed

section \<open>Round trips\<close>

lemma show_nat_hd_digit: "is_digit (hd (show_nat n))"
  by (metis hd_in_set list_all_iff show_nat_digits show_nat_nonempty)

lemma paiseToRupees_abs:
  "paiseToRupees p = (if p < 0 then ''-'' else '''') @ show_fixed 2 \<bar>p\<bar>"
  by (simp add: paiseToRupees_def Let_def show_fixed_def abs_if)

lemma hd_show_fixed: "0 \<le> x \<Longrightarrow> hd (show_fixed k x) \<noteq> CHR ''-'' \<and> show_fixed k x \<noteq> []"
proof -
  assume "0 \<le> x"
  then have "hd (show_fixed k x) = hd (show_nat (nat (x div 10 ^ k)))"
    by (simp add: show_fixed_nonneg)
  moreover have "\<not> is_digit (CHR ''-'')" by (simp add: is_digit_def)
  ultimately show ?thesis using show_nat_hd_digit \<open>0 \<le> x\<close>
    by (metis Nil_is_append_conv show_fixed_nonneg show_nat_nonempty)
qed

lemma dec_re_show_fixed2:
  assumes "0 \<le> x"
  shows "dec_re 4 (show_fixed 2 x) = Some (show_nat (nat (x div 100)),
           pad_start 2 (CHR ''0'') (show_nat (nat (x mod 100))))"
proof -
  have len: "length (pad_start 2 (CHR ''0'') (show_nat (nat (x mod 10 ^ 2)))) = 2"
    by (rule frac_length) simp
  have "dec_re 4 (show_nat (nat (x div 10 ^ 2)) @ CHR ''.'' #
          pad_start 2 (CHR ''0'') (show_nat (nat (x mod 10 ^ 2))))
        = Some (show_nat (nat (x div 10 ^ 2)), pad_start 2 (CHR ''0'') (show_nat (nat (x mod 10 ^ 2))))"
    using len by (intro dec_re_show) (simp_all flip: length_greater_0_conv)
  with assms show ?thesis by (simp add: show_fixed_nonneg)
qed

lemma frac2_take: "length f = 2 \<Longrightarrow> take 4 (f @ ''0000'') = f @ ''00''"
  by (simp add: numeral_eq_Suc)

lemma rupeesToPaise_core:
  assumes "0 \<le> x" and that: "s = '''' \<or> s = ''-''"
  shows "rupeesToPaise (s @ show_fixed 2 x) = (if s = ''-'' then Inr (- x) else Inr x)"
proof -
  define w f where "w = show_nat (nat (x div 100))"
    and "f = pad_start 2 (CHR ''0'') (show_nat (nat (x mod 100)))"
  have len: "length f = 2" using frac_length [of 2 "CHR ''0''" x] by (simp add: f_def)
  have re: "dec_re 4 (show_fixed 2 x) = Some (w, f)"
    using dec_re_show_fixed2 [OF assms(1)] by (simp add: w_def f_def)
  have "list_all (\<lambda>c. \<not> is_ws c) (s @ show_fixed 2 x)"
    using assms by (auto simp: show_fixed_no_ws)
  then have trim: "trim (s @ show_fixed 2 x) = s @ show_fixed 2 x" by (rule trim_no_ws)
  have sign: "s @ show_fixed 2 x \<noteq> [] \<and> hd (s @ show_fixed 2 x) = CHR ''-'' \<longleftrightarrow> s = ''-''"
    using that hd_show_fixed [OF assms(1), of 2] by auto
  have rest: "(if s = ''-'' then tl (s @ show_fixed 2 x) else s @ show_fixed 2 x) = show_fixed 2 x"
    using that by auto
  have "int (dec_val w) * 100 + int (dec_val f) = x"
    using assms by (simp add: w_def f_def pos_imp_zdiv_nonneg_iff)
  then show ?thesis
    unfolding rupeesToPaise_def Let_def trim sign rest re
    by (simp add: frac2_take len)
qed

lemma rupeesToPaise_of_paise [simp]: "rupeesToPaise (paiseToRupees p) = Inr p"
  using rupeesToPaise_core [of "\<bar>p\<bar>" "if p < 0 then ''-'' else ''''"]
  by (auto simp: paiseToRupees_abs split: if_splits)

interpretation money: codec paiseToRupees rupeesToPaise "\<lambda>_. True"
  by unfold_locales simp

lemma sum_of_texts:
  "mapR rupeesToPaise (map paiseToRupees xs) = Inr xs"
  by (rule money.mapR_dec_enc) simp

lemma rateToMillionths_show: "0 \<le> r \<Longrightarrow> rateToMillionths (show_fixed 6 r) = Inr r"
  by (simp add: rateToMillionths_def parse_show_fixed_same)

lemma rateToMillionths_nonneg: "rateToMillionths s = Inr r \<Longrightarrow> 0 \<le> r"
  by (auto simp: rateToMillionths_def dest: parse_fixed_nonneg split: option.splits)

lemmas [text_eval] = rupeesToPaise_def rateToMillionths_def paiseToRupees_def

section \<open>Properties\<close>

text \<open>
  The database text of an amount determines it: every number of paise, negative ones
  included, is read back unchanged from the text it is stored as, and two amounts have the
  same text only when they are equal.
\<close>

theorem money_text_roundtrip:
  "rupeesToPaise (paiseToRupees p) = Inr p \<and> (paiseToRupees p = paiseToRupees q \<longleftrightarrow> p = q)"
  by (simp add: money.dec_enc money.enc_eq_iff)

text \<open>
  A rate is applied by rounding half up to the paise: for an amount and a rate of at
  most one the result exists, lies between zero and the amount, and is the integer nearest
  to the exact product, the larger one on a tie.
\<close>

theorem applyRate_half_up:
  assumes "0 \<le> amount" and "0 \<le> rate" and "rate \<le> 1000000"
  shows "\<exists>x. applyRate amount rate = Inr x \<and> 0 \<le> x \<and> x \<le> amount
     \<and> 2 * (amount * rate) < 2 * (x * 1000000) + 1000000
     \<and> 2 * (x * 1000000) \<le> 2 * (amount * rate) + 1000000"
proof -
  obtain x where x: "applyRate amount rate = Inr x" using applyRate_ok assms(1,2) by blast
  then have "divRoundHalfUp (amount * rate) 1000000 = Inr x" by (simp add: applyRate_def)
  from divRoundHalfUp_nearest [OF this] applyRate_le [OF x assms(1,3)] x show ?thesis by simp
qed

lemma applyRate_half_up_witness:
  "\<exists>x. applyRate 25 180000 = Inr x \<and> x = 5"
  using applyRate_half_up [of 25 180000] by auto

end
