(* ===== verification/Weight.thy ===== *)
theory Weight
  imports Money
begin

text \<open>
  \<open>src/modules/order-derivation/weight.ts\<close>: the dead weight F-24 of a parcel.  Kilograms
  are text with three decimals, arithmetic is on integer grams.  A line takes its per-unit
  weight from the first non-blank rung (SKU override, line override, Shopify); the lines
  are summed, the parcel default replaces a zero sum, and the package tare is added once.
\<close>

definition kgToGrams :: "string \<Rightarrow> js_error + int" where
  "kgToGrams value =
     (case parse_fixed 3 value of None \<Rightarrow> Inl (InvalidWeight value) | Some g \<Rightarrow> Inr g)"

definition gramsToKg :: "int \<Rightarrow> string" where
  "gramsToKg grams = show_fixed 3 grams"

datatype WeightSource = SKU_OVERRIDE | LINE_OVERRIDE | SHOPIFY | NO_SOURCE

record DeadWeightLineInput =
  dwi_orderLineId :: "string option"
  dwi_sku :: "string option"
  dwi_quantity :: int
  dwi_skuOverrideWeightKg :: "string option"
  dwi_lineOverrideWeightKg :: "string option"
  dwi_shopifyWeightKg :: "string option"

record DeadWeightLineResult =
  dwr_orderLineId :: "string option"
  dwr_sku :: "string option"
  dwr_quantity :: int
  dwr_perUnitWeightKg :: string
  dwr_lineWeightKg :: string
  dwr_source :: WeightSource
  dwr_noWeight :: bool

record DeadWeightResult =
  dw_deadWeightKg :: string
  dw_lineWeightTotalKg :: string
  dw_tareKg :: string
  dw_usedDefaultParcelWeight :: bool
  dw_lines :: "DeadWeightLineResult list"

text \<open>The \<open>for ... of rungs\<close> loop: the first rung with non-blank text decides.\<close>

fun firstRung :: "(WeightSource \<times> string option) list \<Rightarrow> js_error + int \<times> WeightSource" where
  "firstRung [] = Inr (0, NO_SOURCE)"
| "firstRung ((source, value) # rungs) =
     (case value of
        Some v \<Rightarrow> (if trim v \<noteq> '''' then bindR (kgToGrams v) (\<lambda>g. Inr (g, source)) else firstRung rungs)
      | None \<Rightarrow> firstRung rungs)"

definition resolvePerUnit :: "DeadWeightLineInput \<Rightarrow> js_error + int \<times> WeightSource" where
  "resolvePerUnit line =
     firstRung [(SKU_OVERRIDE, dwi_skuOverrideWeightKg line),
                (LINE_OVERRIDE, dwi_lineOverrideWeightKg line),
                (SHOPIFY, dwi_shopifyWeightKg line)]"

definition deadWeightLine :: "DeadWeightLineInput \<Rightarrow> js_error + DeadWeightLineResult" where
  "deadWeightLine line =
     bindR (resolvePerUnit line) (\<lambda>(grams, source).
       (let lineGrams = grams * dwi_quantity line in
        Inr \<lparr>dwr_orderLineId = dwi_orderLineId line, dwr_sku = dwi_sku line,
             dwr_quantity = dwi_quantity line,
             dwr_perUnitWeightKg = gramsToKg grams, dwr_lineWeightKg = gramsToKg lineGrams,
             dwr_source = source, dwr_noWeight = (source = NO_SOURCE)\<rparr>))"

definition deriveDeadWeight ::
  "DeadWeightLineInput list \<Rightarrow> string \<Rightarrow> string \<Rightarrow> js_error + DeadWeightResult" where
  "deriveDeadWeight lines tareKg defaultParcelWeightKg =
     bindR (mapR deadWeightLine lines) (\<lambda>results.
     bindR (mapR (\<lambda>l. kgToGrams (dwr_lineWeightKg l)) results) (\<lambda>gs.
     (let lineWeightTotal = foldl (+) 0 gs;
          usedDefault = (lineWeightTotal = 0)
      in bindR (if usedDefault then kgToGrams defaultParcelWeightKg else Inr lineWeightTotal) (\<lambda>content.
         bindR (kgToGrams tareKg) (\<lambda>tare.
         Inr \<lparr>dw_deadWeightKg = gramsToKg (content + tare),
              dw_lineWeightTotalKg = gramsToKg lineWeightTotal,
              dw_tareKg = gramsToKg tare,
              dw_usedDefaultParcelWeight = usedDefault,
              dw_lines = results\<rparr>)))))"

section \<open>Grams and kilograms\<close>

lemma kgToGrams_nonneg: "kgToGrams s = Inr g \<Longrightarrow> 0 \<le> g"
  by (auto simp: kgToGrams_def dest: parse_fixed_nonneg split: option.splits)

lemma kgToGrams_gramsToKg [simp]: "0 \<le> g \<Longrightarrow> kgToGrams (gramsToKg g) = Inr g"
  by (simp add: kgToGrams_def gramsToKg_def parse_show_fixed_same)

interpretation grams: codec gramsToKg kgToGrams "\<lambda>g. 0 \<le> g"
  by unfold_locales simp

lemmas [text_eval] = kgToGrams_def gramsToKg_def

section \<open>The ladder and the parcel weight\<close>

text \<open>What the ladder is meant to read: the first non-blank text, if there is one.\<close>

definition rungText :: "DeadWeightLineInput \<Rightarrow> string option" where
  "rungText line = List.find (\<lambda>v. trim v \<noteq> '''')
     (List.map_filter id [dwi_skuOverrideWeightKg line, dwi_lineOverrideWeightKg line,
                          dwi_shopifyWeightKg line])"

definition unitGrams :: "DeadWeightLineInput \<Rightarrow> js_error + int" where
  "unitGrams line = (case rungText line of None \<Rightarrow> Inr 0 | Some v \<Rightarrow> kgToGrams v)"

lemma resolvePerUnit_grams:
  "bindR (resolvePerUnit line) (\<lambda>(g, src). Inr g) = unitGrams line"
  by (auto simp: resolvePerUnit_def unitGrams_def rungText_def map_filter_simps bindR_assoc
      split: option.splits)

lemma resolvePerUnit_source:
  "resolvePerUnit line = Inr (g, src) \<Longrightarrow> src = NO_SOURCE \<longleftrightarrow> rungText line = None"
  by (auto simp: resolvePerUnit_def rungText_def map_filter_simps bindR_Inr_iff
      split: option.splits if_splits)

lemma unitGrams_nonneg: "unitGrams line = Inr g \<Longrightarrow> 0 \<le> g"
  by (auto simp: unitGrams_def dest: kgToGrams_nonneg split: option.splits)

lemma deadWeightLine_ok:
  assumes "unitGrams line = Inr g"
  shows "\<exists>r. deadWeightLine line = Inr r \<and> dwr_lineWeightKg r = gramsToKg (g * dwi_quantity line)
     \<and> (dwr_noWeight r \<longleftrightarrow> rungText line = None) \<and> dwr_perUnitWeightKg r = gramsToKg g"
proof -
  from assms obtain src where src: "resolvePerUnit line = Inr (g, src)"
    by (auto simp: resolvePerUnit_grams [symmetric] bindR_Inr_iff)
  then show ?thesis
    by (simp add: deadWeightLine_def Let_def resolvePerUnit_source)
qed

lemma deadWeightLines_ok:
  assumes "mapR unitGrams lines = Inr us"
    and "\<forall>l \<in> set lines. 0 \<le> dwi_quantity l"
  shows "\<exists>rs. mapR deadWeightLine lines = Inr rs
     \<and> mapR (\<lambda>l. kgToGrams (dwr_lineWeightKg l)) rs
       = Inr (map2 (\<lambda>g l. g * dwi_quantity l) us lines)
     \<and> map dwr_noWeight rs = map (\<lambda>l. rungText l = None) lines"
  using assms
proof (induction lines arbitrary: us)
  case Nil
  then show ?case by simp
next
  case (Cons l ls)
  then obtain g gs where g: "unitGrams l = Inr g" "mapR unitGrams ls = Inr gs" "us = g # gs"
    by (auto simp: bindR_Inr_iff)
  with Cons obtain rs where "mapR deadWeightLine ls = Inr rs"
    "mapR (\<lambda>l. kgToGrams (dwr_lineWeightKg l)) rs = Inr (map2 (\<lambda>g l. g * dwi_quantity l) gs ls)"
    "map dwr_noWeight rs = map (\<lambda>l. rungText l = None) ls"
    by auto
  moreover obtain r where "deadWeightLine l = Inr r" "dwr_lineWeightKg r = gramsToKg (g * dwi_quantity l)"
    "dwr_noWeight r \<longleftrightarrow> rungText l = None"
    using deadWeightLine_ok [OF g(1)] by auto
  moreover have "0 \<le> g * dwi_quantity l"
    using Cons.prems(2) unitGrams_nonneg [OF g(1)] by simp
  ultimately show ?case using g(3) by simp
qed

text \<open>
  Whenever every line's ladder text parses and no quantity is negative, the derivation
  returns, and the dead weight it returns is the weighted sum of the per-unit weights, or
  the parcel default exactly when that sum is zero, plus the package tare once; a line is
  listed as "no weight" exactly when all of its rungs are blank.
\<close>

theorem deriveDeadWeight_correct:
  assumes us: "mapR unitGrams lines = Inr us"
    and q: "\<forall>l \<in> set lines. 0 \<le> dwi_quantity l"
    and t: "kgToGrams tareKg = Inr t"
    and d: "kgToGrams defaultKg = Inr d"
    and S: "S = sum_list (map2 (\<lambda>g l. g * dwi_quantity l) us lines)"
  shows "\<exists>r. deriveDeadWeight lines tareKg defaultKg = Inr r
     \<and> kgToGrams (dw_deadWeightKg r) = Inr ((if S = 0 then d else S) + t)
     \<and> dw_usedDefaultParcelWeight r = (S = 0)
     \<and> map dwr_noWeight (dw_lines r) = map (\<lambda>l. rungText l = None) lines"
proof -
  obtain rs where rs: "mapR deadWeightLine lines = Inr rs"
    "mapR (\<lambda>l. kgToGrams (dwr_lineWeightKg l)) rs
      = Inr (map2 (\<lambda>g l. g * dwi_quantity l) us lines)"
    "map dwr_noWeight rs = map (\<lambda>l. rungText l = None) lines"
    using deadWeightLines_ok [OF us q] by blast
  have "0 \<le> S" unfolding S
  proof (rule sum_list_nonneg)
    fix x
    assume "x \<in> set (map2 (\<lambda>g l. g * dwi_quantity l) us lines)"
    then obtain g l where "x = g * dwi_quantity l" "(g, l) \<in> set (zip us lines)" by auto
    moreover have "\<forall>g \<in> set us. 0 \<le> g"
      using us by (auto simp: mapR_Inr_iff list_all2_conv_all_nth in_set_conv_nth dest!: unitGrams_nonneg)
    ultimately show "0 \<le> x"
      using q by (metis mult_nonneg_nonneg set_zip_leftD set_zip_rightD)
  qed
  moreover have "0 \<le> t" "0 \<le> d" using t d by (auto dest: kgToGrams_nonneg)
  ultimately show ?thesis
    using rs t d S by (simp add: deriveDeadWeight_def Let_def foldl_plus)
qed

definition exampleLine :: "string \<Rightarrow> int \<Rightarrow> DeadWeightLineInput" where
  "exampleLine kg n = \<lparr>dwi_orderLineId = None, dwi_sku = None, dwi_quantity = n,
     dwi_skuOverrideWeightKg = None, dwi_lineOverrideWeightKg = Some ''  '',
     dwi_shopifyWeightKg = Some kg\<rparr>"

lemma deriveDeadWeight_correct_witness:
  "\<exists>r. deriveDeadWeight [exampleLine ''0.450'' 3, exampleLine ''0.1'' 2] ''0.080'' ''0.500'' = Inr r
     \<and> kgToGrams (dw_deadWeightKg r) = Inr 1630"
proof -
  have us: "mapR unitGrams [exampleLine ''0.450'' 3, exampleLine ''0.1'' 2] = Inr [450, 100]"
    by code_simp
  have t: "kgToGrams ''0.080'' = Inr 80" and d: "kgToGrams ''0.500'' = Inr 500"
    by code_simp+
  show ?thesis
    using deriveDeadWeight_correct [OF us _ t d refl] by (auto simp: exampleLine_def)
qed

end
