(* ===== verification/Pricing.thy ===== *)
theory Pricing
  imports Weight
begin

text \<open>
  \<open>src/modules/rate-engine/pricing.ts\<close>: the rate-card engine.  Weights F-1 to F-3, the zone
  resolution F-4, the freight components F-5 to F-11 with the surcharge rows F-8, and the
  return-to-origin charge F-12.  Every amount is rounded where it is computed and stored as
  text; a missing term makes a lane unpriceable, never free.
\<close>

section \<open>Data\<close>

datatype ZoneCode = ZA | ZB | ZC | ZD | ZE

datatype RtoBasis = SAME_AS_FORWARD | PERCENT_OF_FORWARD

datatype ComponentBasis =
    FLAT
  | PERCENT_OF_BASE_FREIGHT
  | PERCENT_OF_PRE_TAX_SUBTOTAL
  | PER_KG_BILLABLE
  | PERCENT_OF_DECLARED_VALUE

datatype UnpriceableReason =
    RATE_CARD_MISSING | RATE_CARD_VERSION_MISSING | SERVICE_VERSION_MISSING | DIVISOR_MISSING
  | ORIGIN_MISSING | ZONE_NOT_MATCHED | SLAB_MISSING

datatype payment_mode = PREPAID | COD | UNRESOLVED

section \<open>Weight: F-1, F-2, F-3\<close>

definition cmToHundredths :: "string \<Rightarrow> js_error + int" where
  "cmToHundredths value =
     (case parse_fixed 2 value of None \<Rightarrow> Inl (InvalidDimension value) | Some h \<Rightarrow> Inr h)"

definition divisorToTenThousandths :: "string \<Rightarrow> js_error + int" where
  "divisorToTenThousandths value =
     (case parse_fixed 4 value of None \<Rightarrow> Inl (InvalidDivisor value) | Some d \<Rightarrow> Inr d)"

definition volumetricWeightKg ::
  "string \<Rightarrow> string \<Rightarrow> string \<Rightarrow> string option \<Rightarrow> js_error + string option" where
  "volumetricWeightKg lengthCm widthCm heightCm divisor =
     (case divisor of None \<Rightarrow> Inr None
      | Some dv \<Rightarrow>
          bindR (divisorToTenThousandths dv) (\<lambda>d.
          if d \<le> 0 then Inr None
          else bindR (cmToHundredths lengthCm) (\<lambda>l.
               bindR (cmToHundredths widthCm) (\<lambda>w.
               bindR (cmToHundredths heightCm) (\<lambda>h.
               bindR (divRoundHalfUp (l * w * h * 10) d) (\<lambda>g. Inr (Some (gramsToKg g))))))))"

definition rawChargeableWeightKg :: "string \<Rightarrow> string \<Rightarrow> js_error + string" where
  "rawChargeableWeightKg deadWeightKg volumetricKg =
     bindR (kgToGrams deadWeightKg) (\<lambda>dead.
     bindR (kgToGrams volumetricKg) (\<lambda>volumetric.
     Inr (gramsToKg (if dead > volumetric then dead else volumetric))))"

definition billableWeightKg ::
  "string \<Rightarrow> string option \<Rightarrow> string option \<Rightarrow> js_error + string option" where
  "billableWeightKg rawChargeableKg minBillableKg incrementKg =
     (case (minBillableKg, incrementKg) of
        (Some mb, Some inc) \<Rightarrow>
          bindR (kgToGrams inc) (\<lambda>increment.
          if increment \<le> 0 then Inr None
          else bindR (kgToGrams rawChargeableKg) (\<lambda>raw.
               bindR (kgToGrams mb) (\<lambda>min.
               bindR (ceilDiv raw increment) (\<lambda>steps.
               let stepped = steps * increment in
               Inr (Some (gramsToKg (if stepped > min then stepped else min)))))))
      | _ \<Rightarrow> Inr None)"

record WeightTerms =
  wt_deadWeightKg :: string
  wt_lengthCm :: string
  wt_widthCm :: string
  wt_heightCm :: string
  wt_divisor :: "string option"
  wt_minBillableKg :: "string option"
  wt_incrementKg :: "string option"

record WeightBreakdown =
  wb_volumetricWeightKg :: string
  wb_rawChargeableKg :: string
  wb_billableWeightKg :: string

definition computeWeights :: "WeightTerms \<Rightarrow> js_error + WeightBreakdown option" where
  "computeWeights a =
     bindR (volumetricWeightKg (wt_lengthCm a) (wt_widthCm a) (wt_heightCm a) (wt_divisor a)) (\<lambda>r1.
     case r1 of None \<Rightarrow> Inr None
     | Some f1 \<Rightarrow>
         bindR (rawChargeableWeightKg (wt_deadWeightKg a) f1) (\<lambda>f2.
         bindR (billableWeightKg f2 (wt_minBillableKg a) (wt_incrementKg a)) (\<lambda>r3.
         case r3 of None \<Rightarrow> Inr None
         | Some f3 \<Rightarrow> Inr (Some \<lparr>wb_volumetricWeightKg = f1, wb_rawChargeableKg = f2,
                                  wb_billableWeightKg = f3\<rparr>))))"

section \<open>Zones: F-4\<close>

definition matcherAttributes :: "string list" where
  "matcherAttributes = [''pincode'', ''city'', ''district'', ''state'', ''region'',
                        ''is_metro'', ''is_special'']"

definition isJStr :: "json \<Rightarrow> bool" where
  "isJStr v = (case v of JStr _ \<Rightarrow> True | _ \<Rightarrow> False)"

text \<open>The body of the loop of \<open>validateMatcher\<close>: \<open>continue\<close> is \<open>True\<close>, \<open>return false\<close> is \<open>False\<close>.\<close>

definition validPredicate :: "string \<Rightarrow> json \<Rightarrow> bool" where
  "validPredicate key predicate =
     (if key \<notin> set matcherAttributes then False
      else (let flag = (key = ''is_metro'' \<or> key = ''is_special'') in
        case predicate of
          JBool _ \<Rightarrow> flag
        | _ \<Rightarrow> (if flag then False
               else (case predicate of
                  JStr _ \<Rightarrow> True
                | JArr vs \<Rightarrow> vs \<noteq> [] \<and> list_all isJStr vs
                | JObj kvs \<Rightarrow>
                    (case kvs of
                       [(k, p)] \<Rightarrow> k = ''prefix'' \<and>
                         (case p of JStr _ \<Rightarrow> True
                          | JArr ps \<Rightarrow> ps \<noteq> [] \<and> list_all isJStr ps
                          | _ \<Rightarrow> False)
                     | _ \<Rightarrow> False)
                | _ \<Rightarrow> False))))"

definition validateMatcher :: "json \<Rightarrow> bool" where
  "validateMatcher value =
     (case value of JObj entries \<Rightarrow> list_all (\<lambda>(key, predicate). validPredicate key predicate) entries
      | _ \<Rightarrow> False)"

datatype MatcherAttribute =
  A_pincode | A_city | A_district | A_state | A_region | A_is_metro | A_is_special

datatype MatcherPredicate =
    PExact string
  | PAnyOf "string list"
  | PFlag bool
  | PPrefix string
  | PPrefixAnyOf "string list"

type_synonym ZoneMatcher = "(MatcherAttribute \<times> MatcherPredicate) list"

record PincodeAttributes =
  pa_pincode :: string
  pa_city :: "string option"
  pa_district :: "string option"
  pa_state :: "string option"
  pa_region :: "string option"
  pa_isMetro :: "bool option"
  pa_isSpecial :: "bool option"

record ZoneRuleInput =
  zr_originMatcher :: ZoneMatcher
  zr_destinationMatcher :: ZoneMatcher
  zr_zone :: ZoneCode
  zr_position :: int

definition foldText :: "string \<Rightarrow> string" where
  "foldText text = to_lower (trim text)"

definition attributeText :: "MatcherAttribute \<Rightarrow> PincodeAttributes \<Rightarrow> string option" where
  "attributeText attribute attrs =
     (case attribute of
        A_pincode \<Rightarrow> Some (pa_pincode attrs)
      | A_city \<Rightarrow> pa_city attrs
      | A_district \<Rightarrow> pa_district attrs
      | A_state \<Rightarrow> pa_state attrs
      | _ \<Rightarrow> pa_region attrs)"

definition predicateMatches ::
  "MatcherAttribute \<Rightarrow> MatcherPredicate \<Rightarrow> PincodeAttributes \<Rightarrow> bool" where
  "predicateMatches attribute predicate attrs =
     (if attribute = A_is_metro \<or> attribute = A_is_special then
        (case (if attribute = A_is_metro then pa_isMetro attrs else pa_isSpecial attrs) of
           None \<Rightarrow> False
         | Some actual \<Rightarrow> predicate = PFlag actual)
      else (case attributeText attribute attrs of
           None \<Rightarrow> False
         | Some actualRaw \<Rightarrow>
             (let actual = foldText actualRaw in
              case predicate of
                PExact p \<Rightarrow> actual = foldText p
              | PAnyOf vs \<Rightarrow> list_ex (\<lambda>v. actual = foldText v) vs
              | PFlag _ \<Rightarrow> False
              | PPrefix p \<Rightarrow> starts_with (foldText p) actual
              | PPrefixAnyOf ps \<Rightarrow> list_ex (\<lambda>p. starts_with (foldText p) actual) ps)))"

definition matcherMatches :: "ZoneMatcher \<Rightarrow> PincodeAttributes \<Rightarrow> bool" where
  "matcherMatches matcher attrs =
     list_all (\<lambda>(attribute, predicate). predicateMatches attribute predicate attrs) matcher"

text \<open>
  A lane end: the pincode and its row of the frozen postal master, if it has one.  The
  missing row leaves every attribute but the pincode itself null.
\<close>

definition laneAttributes :: "string \<Rightarrow> PincodeAttributes option \<Rightarrow> PincodeAttributes" where
  "laneAttributes pincode attributes =
     (case attributes of
        None \<Rightarrow> \<lparr>pa_pincode = pincode, pa_city = None, pa_district = None, pa_state = None,
                pa_region = None, pa_isMetro = None, pa_isSpecial = None\<rparr>
      | Some a \<Rightarrow> a\<lparr>pa_pincode := pincode\<rparr>)"

fun firstZone :: "ZoneRuleInput list \<Rightarrow> PincodeAttributes \<Rightarrow> PincodeAttributes \<Rightarrow> ZoneCode option" where
  "firstZone [] originAttrs destinationAttrs = None"
| "firstZone (rule # rules) originAttrs destinationAttrs =
     (if matcherMatches (zr_originMatcher rule) originAttrs
         \<and> matcherMatches (zr_destinationMatcher rule) destinationAttrs
      then Some (zr_zone rule) else firstZone rules originAttrs destinationAttrs)"

definition resolveZone ::
  "ZoneRuleInput list \<Rightarrow> string \<times> PincodeAttributes option \<Rightarrow> string \<times> PincodeAttributes option
   \<Rightarrow> ZoneCode option" where
  "resolveZone rules origin destination =
     (let originAttrs = laneAttributes (fst origin) (snd origin);
          destinationAttrs = laneAttributes (fst destination) (snd destination);
          ordered = js_sort (\<lambda>a b. zr_position a - zr_position b) rules
      in firstZone ordered originAttrs destinationAttrs)"

section \<open>Freight: F-5 to F-11\<close>

record SlabInput =
  sl_zone :: ZoneCode
  sl_baseWeightKg :: string
  sl_baseRate :: string
  sl_additionalStepKg :: string
  sl_additionalRate :: string

record ComponentRowInput =
  cr_code :: string
  cr_label :: string
  cr_basis :: ComponentBasis
  cr_value :: string
  cr_isTaxable :: bool
  cr_position :: int

record TariffInput =
  tf_fuelPct :: string
  tf_codFlat :: string
  tf_codPct :: string
  tf_gstPct :: string
  tf_taxableComponents :: "string list"
  tf_slabs :: "SlabInput list"
  tf_components :: "ComponentRowInput list"

record PricedComponent =
  pc_code :: string
  pc_label :: string
  pc_amount :: string
  pc_taxable :: bool

record FreightBreakdown =
  fb_f5BaseFreight :: string
  fb_f6Fuel :: string
  fb_f7Cod :: string
  fb_f8Other :: string
  fb_f9PreTaxSubtotal :: string
  fb_f10Gst :: string
  fb_f11Total :: string
  fb_components :: "PricedComponent list"

datatype FreightResult = Priceable FreightBreakdown | Unpriceable UnpriceableReason

record FreightArgs =
  fa_zone :: "ZoneCode option"
  fa_billableWeightKg :: string
  fa_paymentMode :: payment_mode
  fa_collectible :: string
  fa_declaredValue :: string

record SurchargeBases =
  sb_f5 :: int
  sb_f6 :: int
  sb_f7 :: int
  sb_billableGrams :: int
  sb_declaredValue :: int

definition surchargeAmount :: "ComponentRowInput \<Rightarrow> SurchargeBases \<Rightarrow> js_error + int" where
  "surchargeAmount row bases =
     (case cr_basis row of
        FLAT \<Rightarrow> rupeesToPaise (cr_value row)
      | PERCENT_OF_BASE_FREIGHT \<Rightarrow>
          bindR (rateToMillionths (cr_value row)) (\<lambda>r. applyRate (sb_f5 bases) r)
      | PERCENT_OF_PRE_TAX_SUBTOTAL \<Rightarrow>
          bindR (rateToMillionths (cr_value row)) (\<lambda>r. applyRate (sb_f5 bases + sb_f6 bases + sb_f7 bases) r)
      | PER_KG_BILLABLE \<Rightarrow>
          bindR (rupeesToPaise (cr_value row)) (\<lambda>v. divRoundHalfUp (v * sb_billableGrams bases) 1000)
      | PERCENT_OF_DECLARED_VALUE \<Rightarrow>
          bindR (rateToMillionths (cr_value row)) (\<lambda>r. applyRate (sb_declaredValue bases) r))"

definition codCharge :: "TariffInput \<Rightarrow> payment_mode \<Rightarrow> int \<Rightarrow> js_error + int" where
  "codCharge tariff paymentMode collectiblePaise =
     (if paymentMode \<noteq> COD \<or> collectiblePaise \<le> 0 then Inr 0
      else bindR (rateToMillionths (tf_codPct tariff)) (\<lambda>rate.
           bindR (applyRate collectiblePaise rate) (\<lambda>pct.
           bindR (rupeesToPaise (tf_codFlat tariff)) (\<lambda>flat.
           Inr (if pct > flat then pct else flat)))))"

text \<open>The taxable share of the surcharge rows: \<open>F-8\<close> is the master switch (section 4.4).\<close>

definition taxableRowSum :: "bool \<Rightarrow> ComponentRowInput list \<Rightarrow> int list \<Rightarrow> int" where
  "taxableRowSum taxF8 rows rowAmounts =
     foldl (\<lambda>acc (row, a). acc + (if taxF8 \<and> cr_isTaxable row then a else 0)) 0 (zip rows rowAmounts)"

definition rowComponents ::
  "bool \<Rightarrow> ComponentRowInput list \<Rightarrow> int list \<Rightarrow> PricedComponent list" where
  "rowComponents taxF8 rows rowAmounts =
     map (\<lambda>(row, a). \<lparr>pc_code = cr_code row, pc_label = cr_label row, pc_amount = paiseToRupees a,
                      pc_taxable = (taxF8 \<and> cr_isTaxable row)\<rparr>) (zip rows rowAmounts)"

definition sortedRows :: "TariffInput \<Rightarrow> ComponentRowInput list" where
  "sortedRows tariff = js_sort (\<lambda>a b. cr_position a - cr_position b) (tf_components tariff)"

definition computeFreight :: "TariffInput \<Rightarrow> FreightArgs \<Rightarrow> js_error + FreightResult" where
  "computeFreight tariff args =
    (case fa_zone args of None \<Rightarrow> Inr (Unpriceable ZONE_NOT_MATCHED) | Some zone \<Rightarrow>
    (case List.find (\<lambda>s. sl_zone s = zone) (tf_slabs tariff) of
       None \<Rightarrow> Inr (Unpriceable SLAB_MISSING)
     | Some slab \<Rightarrow>
     bindR (kgToGrams (fa_billableWeightKg args)) (\<lambda>w.
     bindR (kgToGrams (sl_baseWeightKg slab)) (\<lambda>baseW.
     bindR (kgToGrams (sl_additionalStepKg slab)) (\<lambda>step.
     bindR (if w > baseW then ceilDiv (w - baseW) step else Inr 0) (\<lambda>additionalSteps.
     bindR (rupeesToPaise (sl_baseRate slab)) (\<lambda>baseRate.
     bindR (rupeesToPaise (sl_additionalRate slab)) (\<lambda>additionalRate.
     let f5 = baseRate + additionalSteps * additionalRate in
     bindR (rateToMillionths (tf_fuelPct tariff)) (\<lambda>fuelPct.
     bindR (applyRate f5 fuelPct) (\<lambda>f6.
     bindR (rupeesToPaise (fa_collectible args)) (\<lambda>collectiblePaise.
     bindR (codCharge tariff (fa_paymentMode args) collectiblePaise) (\<lambda>f7.
     bindR (rupeesToPaise (fa_declaredValue args)) (\<lambda>declaredValue.
     let rows = sortedRows tariff in
     bindR (mapR (\<lambda>row. surchargeAmount row
              \<lparr>sb_f5 = f5, sb_f6 = f6, sb_f7 = f7, sb_billableGrams = w,
               sb_declaredValue = declaredValue\<rparr>) rows) (\<lambda>rowAmounts.
     let f8 = foldl (+) 0 rowAmounts;
         f9 = f5 + f6 + f7 + f8;
         taxable = (\<lambda>c. c \<in> set (tf_taxableComponents tariff));
         taxF8 = taxable ''F-8'';
         taxableBase = (if taxable ''F-5'' then f5 else 0) + (if taxable ''F-6'' then f6 else 0)
                       + (if taxable ''F-7'' then f7 else 0) + taxableRowSum taxF8 rows rowAmounts
     in
     bindR (rateToMillionths (tf_gstPct tariff)) (\<lambda>gstPct.
     bindR (applyRate taxableBase gstPct) (\<lambda>f10.
     let f11 = f9 + f10 in
     Inr (Priceable
       \<lparr>fb_f5BaseFreight = paiseToRupees f5, fb_f6Fuel = paiseToRupees f6,
        fb_f7Cod = paiseToRupees f7, fb_f8Other = paiseToRupees f8,
        fb_f9PreTaxSubtotal = paiseToRupees f9, fb_f10Gst = paiseToRupees f10,
        fb_f11Total = paiseToRupees f11,
        fb_components =
          [\<lparr>pc_code = ''F-5'', pc_label = ''Base freight'', pc_amount = paiseToRupees f5,
            pc_taxable = taxable ''F-5''\<rparr>,
           \<lparr>pc_code = ''F-6'', pc_label = ''Fuel surcharge'', pc_amount = paiseToRupees f6,
            pc_taxable = taxable ''F-6''\<rparr>,
           \<lparr>pc_code = ''F-7'', pc_label = ''COD charge'', pc_amount = paiseToRupees f7,
            pc_taxable = taxable ''F-7''\<rparr>]
          @ rowComponents taxF8 rows rowAmounts
          @ [\<lparr>pc_code = ''F-10'', pc_label = ''GST'', pc_amount = paiseToRupees f10,
              pc_taxable = False\<rparr>]\<rparr>)))))))))))))))))"

text \<open>F-23: the same function, under the name the reconciliation uses.\<close>

definition auditedQuote :: "TariffInput \<Rightarrow> FreightArgs \<Rightarrow> js_error + FreightResult" where
  "auditedQuote = computeFreight"

section \<open>Return to origin: F-12\<close>

datatype NoExpectationReason = NO_RTO_RULE | RTO_PCT_MISSING

datatype RtoExpectation = Expected string FreightBreakdown | NoExpectation NoExpectationReason

record RtoRule =
  rr_basis :: RtoBasis
  rr_pct :: "string option"

record RtoSnapshot =
  rs_f5BaseFreight :: string
  rs_billableWeightKg :: string
  rs_declaredValue :: string

definition rtoCharge ::
  "int \<Rightarrow> RtoSnapshot \<Rightarrow> TariffInput \<Rightarrow> js_error + RtoExpectation" where
  "rtoCharge rtoBase snapshot tariff =
     bindR (rateToMillionths (tf_fuelPct tariff)) (\<lambda>fuelPct.
     bindR (applyRate rtoBase fuelPct) (\<lambda>fuel.
     bindR (kgToGrams (rs_billableWeightKg snapshot)) (\<lambda>w.
     bindR (rupeesToPaise (rs_declaredValue snapshot)) (\<lambda>declaredValue.
     let rows = sortedRows tariff in
     bindR (mapR (\<lambda>row. surchargeAmount row
              \<lparr>sb_f5 = rtoBase, sb_f6 = fuel, sb_f7 = 0, sb_billableGrams = w,
               sb_declaredValue = declaredValue\<rparr>) rows) (\<lambda>rowAmounts.
     let other = foldl (+) 0 rowAmounts;
         subtotal = rtoBase + fuel + other;
         taxable = (\<lambda>c. c \<in> set (tf_taxableComponents tariff));
         taxF8 = taxable ''F-8'';
         taxableBase = (if taxable ''F-5'' then rtoBase else 0) + (if taxable ''F-6'' then fuel else 0)
                       + taxableRowSum taxF8 rows rowAmounts
     in
     bindR (rateToMillionths (tf_gstPct tariff)) (\<lambda>gstPct.
     bindR (applyRate taxableBase gstPct) (\<lambda>gst.
     let total = subtotal + gst in
     Inr (Expected (paiseToRupees rtoBase)
       \<lparr>fb_f5BaseFreight = paiseToRupees rtoBase, fb_f6Fuel = paiseToRupees fuel,
        fb_f7Cod = ''0.00'', fb_f8Other = paiseToRupees other,
        fb_f9PreTaxSubtotal = paiseToRupees subtotal, fb_f10Gst = paiseToRupees gst,
        fb_f11Total = paiseToRupees total,
        fb_components =
          [\<lparr>pc_code = ''F-12'', pc_label = ''RTO base charge'', pc_amount = paiseToRupees rtoBase,
            pc_taxable = taxable ''F-5''\<rparr>,
           \<lparr>pc_code = ''F-6'', pc_label = ''Fuel surcharge'', pc_amount = paiseToRupees fuel,
            pc_taxable = taxable ''F-6''\<rparr>]
          @ rowComponents taxF8 rows rowAmounts
          @ [\<lparr>pc_code = ''F-10'', pc_label = ''GST'', pc_amount = paiseToRupees gst,
              pc_taxable = False\<rparr>]\<rparr>))))))))"

definition computeRtoExpectation ::
  "RtoRule option \<Rightarrow> RtoSnapshot \<Rightarrow> TariffInput \<Rightarrow> js_error + RtoExpectation" where
  "computeRtoExpectation rtoRule snapshot tariff =
     (case rtoRule of None \<Rightarrow> Inr (NoExpectation NO_RTO_RULE)
      | Some rule \<Rightarrow>
          bindR (rupeesToPaise (rs_f5BaseFreight snapshot)) (\<lambda>forwardF5.
          case rr_basis rule of
            SAME_AS_FORWARD \<Rightarrow> rtoCharge forwardF5 snapshot tariff
          | PERCENT_OF_FORWARD \<Rightarrow>
              (case rr_pct rule of None \<Rightarrow> Inr (NoExpectation RTO_PCT_MISSING)
               | Some pct \<Rightarrow>
                   bindR (rateToMillionths pct) (\<lambda>rate.
                   bindR (applyRate forwardF5 rate) (\<lambda>rtoBase. rtoCharge rtoBase snapshot tariff)))))"

end
