(* ===== verification/Payment.thy ===== *)
theory Payment
  imports Pricing
begin

text \<open>
  \<open>src/modules/order-derivation/payment.ts\<close>: the outstanding cash-on-delivery balance F-15
  and the payment mode of an order.  The lemmas classify the mode completely and follow the
  composition of the two derivations.
\<close>

record CodOutstandingInput =
  ci_orderAmountF17 :: "string option"
  ci_totalOutstandingShopMoney :: "string option"
  ci_hasCodMappedGateway :: bool

datatype CodOutstandingBasis = TOTAL_OUTSTANDING | COD_GATEWAY | PREPAID_GATEWAYS | UNDETERMINED

record CodOutstandingResult =
  co_codOutstanding :: "string option"
  co_basis :: CodOutstandingBasis

definition deriveCodOutstanding :: "CodOutstandingInput \<Rightarrow> js_error + CodOutstandingResult" where
  "deriveCodOutstanding inp =
     (case ci_totalOutstandingShopMoney inp of
        Some ttl \<Rightarrow>
          bindR (rupeesToPaise ttl) (\<lambda>paise.
          Inr \<lparr>co_codOutstanding = Some (paiseToRupees (if paise > 0 then paise else 0)),
               co_basis = TOTAL_OUTSTANDING\<rparr>)
      | None \<Rightarrow>
          (if ci_hasCodMappedGateway inp then
             (case ci_orderAmountF17 inp of
                None \<Rightarrow> Inr \<lparr>co_codOutstanding = None, co_basis = UNDETERMINED\<rparr>
              | Some amount \<Rightarrow>
                  bindR (rupeesToPaise amount) (\<lambda>paise.
                  Inr \<lparr>co_codOutstanding = Some (paiseToRupees (if paise > 0 then paise else 0)),
                       co_basis = COD_GATEWAY\<rparr>))
           else Inr \<lparr>co_codOutstanding = Some (paiseToRupees 0), co_basis = PREPAID_GATEWAYS\<rparr>))"

record PaymentModeInput =
  pm_gatewayNames :: "string list"
  pm_codGatewayMap :: "string list"
  pm_codOutstanding :: "string option"

definition derivePaymentMode :: "PaymentModeInput \<Rightarrow> js_error + payment_mode" where
  "derivePaymentMode inp =
     (let codSet = set (pm_codGatewayMap inp);
          hasCod = list_ex (\<lambda>g. g \<in> codSet) (pm_gatewayNames inp);
          hasPrepaid = list_ex (\<lambda>g. g \<notin> codSet) (pm_gatewayNames inp)
      in if length (pm_gatewayNames inp) = 0 then Inr UNRESOLVED
         else if hasCod \<and> hasPrepaid then Inr UNRESOLVED
         else if hasCod then
           (case pm_codOutstanding inp of None \<Rightarrow> Inr UNRESOLVED
            | Some c \<Rightarrow> bindR (rupeesToPaise c) (\<lambda>p. Inr (if p > 0 then COD else PREPAID)))
         else
           (case pm_codOutstanding inp of None \<Rightarrow> Inr UNRESOLVED
            | Some c \<Rightarrow> bindR (rupeesToPaise c) (\<lambda>p. Inr (if p > 0 then UNRESOLVED else PREPAID))))"

lemma deriveCodOutstanding_floor:
  "deriveCodOutstanding inp = Inr r \<Longrightarrow> co_codOutstanding r = Some c \<Longrightarrow>
     \<exists>p. 0 \<le> p \<and> c = paiseToRupees p"
  by (auto simp: deriveCodOutstanding_def bindR_Inr_iff split: option.splits if_splits)
     (rule exI conjI less_imp_le refl | assumption)+

text \<open>
  The two derivations compose safely.  Whatever balance F-15 the first one returns, the
  second accepts it without throwing, and the order is cash on delivery exactly when it
  names at least one gateway, all of its gateways are on the merchant's COD list, and the
  balance is known and positive; an order without gateways or with both kinds is never
  given a mode.
\<close>

theorem payment_mode_classified:
  assumes "deriveCodOutstanding inp = Inr r"
  shows "\<exists>mode. derivePaymentMode \<lparr>pm_gatewayNames = gs, pm_codGatewayMap = m,
             pm_codOutstanding = co_codOutstanding r\<rparr> = Inr mode
     \<and> (mode = COD \<longleftrightarrow> gs \<noteq> [] \<and> set gs \<subseteq> set m
          \<and> (\<exists>p. co_codOutstanding r = Some (paiseToRupees p) \<and> 0 < p))
     \<and> (mode = PREPAID \<longleftrightarrow> gs \<noteq> [] \<and> (set gs \<subseteq> set m \<or> set gs \<inter> set m = {})
          \<and> co_codOutstanding r = Some (paiseToRupees 0))"
proof (cases "co_codOutstanding r")
  case None
  then show ?thesis by (auto simp: derivePaymentMode_def Let_def)
next
  case (Some c)
  then obtain p where p: "0 \<le> p" "c = paiseToRupees p"
    using deriveCodOutstanding_floor [OF assms] by blast
  have zero: "paiseToRupees p = paiseToRupees q \<longleftrightarrow> p = q" for q
    by (simp add: money.enc_eq_iff)
  have cod: "list_ex (\<lambda>g. g \<in> set m) gs \<longleftrightarrow> set gs \<inter> set m \<noteq> {}"
    and prep: "list_ex (\<lambda>g. g \<notin> set m) gs \<longleftrightarrow> \<not> set gs \<subseteq> set m"
    by (auto simp: list_ex_iff)
  have none: "set gs \<inter> set m = {} \<Longrightarrow> set gs \<subseteq> set m \<Longrightarrow> gs = []"
    by (metis inf.absorb1 set_empty)
  show ?thesis
    using Some p none by (auto simp: derivePaymentMode_def Let_def cod prep zero)
qed

lemma payment_mode_classified_witness:
  "derivePaymentMode \<lparr>pm_gatewayNames = [''COD''], pm_codGatewayMap = [''COD'', ''cod''],
     pm_codOutstanding = Some (paiseToRupees 49900)\<rparr> = Inr COD"
proof -
  let ?i = "\<lparr>ci_orderAmountF17 = Some ''499.00'', ci_totalOutstandingShopMoney = None,
             ci_hasCodMappedGateway = True\<rparr>"
  have "deriveCodOutstanding ?i
      = Inr \<lparr>co_codOutstanding = Some (paiseToRupees 49900), co_basis = COD_GATEWAY\<rparr>"
    by (simp add: deriveCodOutstanding_def text_eval)
  from payment_mode_classified [OF this, of "[''COD'']" "[''COD'', ''cod'']"]
  show ?thesis by auto
qed

end
