(* ===== verification/Eligibility.thy ===== *)
theory Eligibility
  imports Weight Payment "HOL-Library.Sublist"
begin

text \<open>
  \<open>src/modules/order-derivation/eligibility.ts\<close>: the hard blocks of INV-7 that drive an
  imported order between incomplete and ready.  The lemmas put the phone, pincode and
  dimension checks in normal form and characterise readiness of an order whose weight
  and collectible come from the derivations of this code base.
\<close>

section \<open>Definitions\<close>

datatype EligibilityCheck =
    RECIPIENT_NAME | RECIPIENT_ADDRESS | RECIPIENT_PINCODE | RECIPIENT_PHONE | ALLOCATED_LINES
  | POSITIVE_WEIGHT | POSITIVE_DIMENSIONS | PICKUP_LOCATION | PAYMENT_MODE | COLLECTIBLE
  | SERVICE_SERVICEABLE | COURIER_CREDENTIALS

record EligibilityRecipient =
  er_name :: "string option"
  er_addressLines :: "string list"
  er_pincode :: "string option"
  er_phone :: "string option"

record DimensionsCm =
  dim_lengthCm :: string
  dim_widthCm :: string
  dim_heightCm :: string

record EligibilityInput =
  ei_recipient :: "EligibilityRecipient option"
  ei_allocatedLineCount :: int
  ei_deadWeightKg :: "string option"
  ei_dimensionsCm :: "DimensionsCm option"
  ei_pickupLocationId :: "string option"
  ei_paymentMode :: payment_mode
  ei_collectible :: "string option"

record EligibilityResult =
  eres_ready :: bool
  eres_failures :: "EligibilityCheck list"

definition nonBlank :: "string option \<Rightarrow> bool" where
  "nonBlank value \<longleftrightarrow> (case value of None \<Rightarrow> False | Some v \<Rightarrow> trim v \<noteq> [])"

definition validPincode :: "string option \<Rightarrow> bool" where
  "validPincode pincode \<longleftrightarrow> (case pincode of None \<Rightarrow> False
     | Some p \<Rightarrow> length (trim p) = 6 \<and> list_all is_digit (trim p))"

definition validPhone :: "string option \<Rightarrow> bool" where
  "validPhone phone \<longleftrightarrow> (case phone of None \<Rightarrow> False
     | Some p \<Rightarrow> (let digits = filter is_digit p in
         if length digits = 10 then True
         else if length digits = 11 \<and> starts_with ''0'' digits then True
         else if length digits = 12 \<and> starts_with ''91'' digits then True
         else False))"

definition positiveDimension :: "string \<Rightarrow> bool" where
  "positiveDimension value \<longleftrightarrow> (case dec_re 2 (trim value) of None \<Rightarrow> False
     | Some (w, f) \<Rightarrow> dec_val w > 0 \<or> dec_val (take 2 (f @ ''00'')) > 0)"

definition failing :: "bool \<Rightarrow> EligibilityCheck \<Rightarrow> EligibilityCheck list" where
  "failing cond code = (if cond then [code] else [])"

definition evaluateEligibility :: "EligibilityInput \<Rightarrow> js_error + EligibilityResult" where
  "evaluateEligibility inp =
     bindR (case ei_deadWeightKg inp of None \<Rightarrow> Inr True
            | Some kg \<Rightarrow> bindR (kgToGrams kg) (\<lambda>g. Inr (g \<le> 0))) (\<lambda>noWeight.
     bindR (case ei_collectible inp of None \<Rightarrow> Inr True
            | Some c \<Rightarrow> bindR (rupeesToPaise c) (\<lambda>p. Inr (p < 0))) (\<lambda>badCollectible.
     (let rec = ei_recipient inp;
          serviceServiceable = True;
          courierCredentialsValid = True;
          failures =
            failing (\<not> nonBlank (Option.bind rec er_name)) RECIPIENT_NAME
          @ failing (case rec of None \<Rightarrow> True
              | Some r \<Rightarrow> \<not> list_ex (\<lambda>l. nonBlank (Some l)) (er_addressLines r)) RECIPIENT_ADDRESS
          @ failing (\<not> validPincode (Option.bind rec er_pincode)) RECIPIENT_PINCODE
          @ failing (\<not> validPhone (Option.bind rec er_phone)) RECIPIENT_PHONE
          @ failing (ei_allocatedLineCount inp \<le> 0) ALLOCATED_LINES
          @ failing noWeight POSITIVE_WEIGHT
          @ failing (case ei_dimensionsCm inp of None \<Rightarrow> True
              | Some d \<Rightarrow> \<not> positiveDimension (dim_lengthCm d) \<or> \<not> positiveDimension (dim_widthCm d)
                  \<or> \<not> positiveDimension (dim_heightCm d)) POSITIVE_DIMENSIONS
          @ failing (ei_pickupLocationId inp = None) PICKUP_LOCATION
          @ failing (ei_paymentMode inp = UNRESOLVED) PAYMENT_MODE
          @ failing badCollectible COLLECTIBLE
          @ failing (\<not> serviceServiceable) SERVICE_SERVICEABLE
          @ failing (\<not> courierCredentialsValid) COURIER_CREDENTIALS
      in Inr \<lparr>eres_ready = (length failures = 0), eres_failures = failures\<rparr>)))"

section \<open>Normal forms of the checks\<close>

lemma starts_with_iff: "starts_with p s \<longleftrightarrow> (\<exists>t. s = p @ t)"
  by (induction p s rule: starts_with.induct) auto

lemma validPhone_iff:
  "validPhone (Some p) \<longleftrightarrow> (\<exists>ten. length ten = 10
     \<and> filter is_digit p \<in> {ten, CHR ''0'' # ten, CHR ''9'' # CHR ''1'' # ten})"
proof
  assume "validPhone (Some p)"
  then consider "length (filter is_digit p) = 10"
    | t where "filter is_digit p = CHR ''0'' # t" "length t = 10"
    | t where "filter is_digit p = CHR ''9'' # CHR ''1'' # t" "length t = 10"
    by (auto simp: validPhone_def Let_def starts_with_iff split: if_splits)
  then show "\<exists>ten. length ten = 10
     \<and> filter is_digit p \<in> {ten, CHR ''0'' # ten, CHR ''9'' # CHR ''1'' # ten}"
    by cases blast+
next
  assume "\<exists>ten. length ten = 10
     \<and> filter is_digit p \<in> {ten, CHR ''0'' # ten, CHR ''9'' # CHR ''1'' # ten}"
  then show "validPhone (Some p)"
    by (auto simp: validPhone_def Let_def starts_with_iff)
qed

lemma positiveDimension_iff:
  "positiveDimension v \<longleftrightarrow> (\<exists>h. parse_fixed 2 v = Some h \<and> 0 < h)"
proof -
  have pos: "0 < scaled 2 w f \<longleftrightarrow> dec_val w > 0 \<or> dec_val (take 2 (f @ ''00'')) > 0" for w f
    by (auto simp: scaled_def replicate_numeral_eval)
  show ?thesis
    by (auto simp: positiveDimension_def parse_fixed_def pos split: option.splits)
qed

definition inv7Order :: "EligibilityCheck list" where
  "inv7Order = [RECIPIENT_NAME, RECIPIENT_ADDRESS, RECIPIENT_PINCODE, RECIPIENT_PHONE,
     ALLOCATED_LINES, POSITIVE_WEIGHT, POSITIVE_DIMENSIONS, PICKUP_LOCATION, PAYMENT_MODE,
     COLLECTIBLE, SERVICE_SERVICEABLE, COURIER_CREDENTIALS]"

lemma failing_prefix: "subseq xs ys \<Longrightarrow> subseq (failing b c @ xs) (c # ys)"
  by (auto simp: failing_def)

lemma failing_last: "subseq (failing b c) [c]"
  by (auto simp: failing_def)

lemma failing_Nil [simp]: "failing b c = [] \<longleftrightarrow> \<not> b"
  by (simp add: failing_def)

lemma deriveDeadWeight_text_ok:
  "deriveDeadWeight ls t d = Inr w \<Longrightarrow> mapR unitGrams ls = Inr us
     \<Longrightarrow> \<forall>l \<in> set ls. 0 \<le> dwi_quantity l \<Longrightarrow> \<exists>g. kgToGrams (dw_deadWeightKg w) = Inr g \<and> 0 \<le> g"
proof -
  assume w: "deriveDeadWeight ls t d = Inr w" and us: "mapR unitGrams ls = Inr us"
    and q: "\<forall>l \<in> set ls. 0 \<le> dwi_quantity l"
  from deadWeightLines_ok [OF us q] obtain rs where rs: "mapR deadWeightLine ls = Inr rs"
    "mapR (\<lambda>l. kgToGrams (dwr_lineWeightKg l)) rs = Inr (map2 (\<lambda>g l. g * dwi_quantity l) us ls)" by blast
  have nn: "\<forall>g \<in> set (map2 (\<lambda>g l. g * dwi_quantity l) us ls). 0 \<le> g"
    using mapR_values [OF rs(2), of "\<lambda>g. 0 \<le> g"] kgToGrams_nonneg by blast
  let ?S = "sum_list (map2 (\<lambda>g l. g * dwi_quantity l) us ls)"
  have S: "0 \<le> ?S" using nn by (intro sum_list_nonneg) blast
  obtain content tr where "0 \<le> content" "0 \<le> tr" "dw_deadWeightKg w = gramsToKg (content + tr)"
    using w S by (auto simp: deriveDeadWeight_def Let_def bindR_Inr_iff foldl_plus rs
        split: if_splits dest!: kgToGrams_nonneg)
  then show ?thesis by simp
qed

section \<open>Readiness\<close>

text \<open>
  C3: INV-7 on the data this code base derives.  When the weight is F-24 of the lines and
  the collectible is a stored amount, the evaluation never throws, the failures it reports
  are in INV-7 order without repetition, and the order is ready exactly when the recipient
  has a name, an address, a six-digit pincode and a phone of ten digits behind an optional
  0 or 91, and the parcel has lines, a positive weight and positive dimensions, a pickup
  location, a resolved payment mode and a collectible that is not negative.
\<close>

theorem eligibility_of_derived_order:
  assumes w: "deriveDeadWeight ls tare dflt = Inr w" and us: "mapR unitGrams ls = Inr us"
    and q: "\<forall>l \<in> set ls. 0 \<le> dwi_quantity l"
    and i: "inp = \<lparr>ei_recipient = rec, ei_allocatedLineCount = n, ei_deadWeightKg = Some (dw_deadWeightKg w),
       ei_dimensionsCm = dims, ei_pickupLocationId = loc, ei_paymentMode = mode,
       ei_collectible = Some (paiseToRupees c)\<rparr>"
  shows "\<exists>r. evaluateEligibility inp = Inr r \<and> subseq (eres_failures r) inv7Order \<and>
     (eres_ready r \<longleftrightarrow>
       (\<exists>a p ph ten. rec = Some a \<and> (\<exists>nm. er_name a = Some nm \<and> trim nm \<noteq> [])
          \<and> list_ex (\<lambda>l. trim l \<noteq> []) (er_addressLines a)
          \<and> er_pincode a = Some p \<and> length (trim p) = 6 \<and> list_all is_digit (trim p)
          \<and> er_phone a = Some ph \<and> length ten = 10
          \<and> filter is_digit ph \<in> {ten, CHR ''0'' # ten, CHR ''9'' # CHR ''1'' # ten})
       \<and> 0 < n \<and> kgToGrams (dw_deadWeightKg w) \<noteq> Inr 0
       \<and> (\<exists>d. dims = Some d \<and> list_all (\<lambda>v. \<exists>h. parse_fixed 2 v = Some h \<and> 0 < h)
              [dim_lengthCm d, dim_widthCm d, dim_heightCm d])
       \<and> loc \<noteq> None \<and> mode \<noteq> UNRESOLVED \<and> 0 \<le> c)"
proof -
  from deriveDeadWeight_text_ok [OF w us q] obtain g
    where g: "kgToGrams (dw_deadWeightKg w) = Inr g" "0 \<le> g" by blast
  let ?fails = "failing (\<not> nonBlank (Option.bind rec er_name)) RECIPIENT_NAME
          @ failing (case rec of None \<Rightarrow> True
              | Some r \<Rightarrow> \<not> list_ex (\<lambda>l. nonBlank (Some l)) (er_addressLines r)) RECIPIENT_ADDRESS
          @ failing (\<not> validPincode (Option.bind rec er_pincode)) RECIPIENT_PINCODE
          @ failing (\<not> validPhone (Option.bind rec er_phone)) RECIPIENT_PHONE
          @ failing (n \<le> 0) ALLOCATED_LINES
          @ failing (g \<le> 0) POSITIVE_WEIGHT
          @ failing (case dims of None \<Rightarrow> True
              | Some d \<Rightarrow> \<not> positiveDimension (dim_lengthCm d) \<or> \<not> positiveDimension (dim_widthCm d)
                  \<or> \<not> positiveDimension (dim_heightCm d)) POSITIVE_DIMENSIONS
          @ failing (loc = None) PICKUP_LOCATION
          @ failing (mode = UNRESOLVED) PAYMENT_MODE
          @ failing (c < 0) COLLECTIBLE
          @ failing (\<not> True) SERVICE_SERVICEABLE
          @ failing (\<not> True) COURIER_CREDENTIALS"
  have eval: "evaluateEligibility inp = Inr \<lparr>eres_ready = (?fails = []), eres_failures = ?fails\<rparr>"
    by (simp add: evaluateEligibility_def i g Let_def)
  have order: "subseq ?fails inv7Order"
    unfolding inv7Order_def by (intro failing_prefix failing_last)
  have rcp: "nonBlank (Option.bind rec er_name)
       \<and> \<not> (case rec of None \<Rightarrow> True | Some r \<Rightarrow> \<not> list_ex (\<lambda>l. nonBlank (Some l)) (er_addressLines r))
       \<and> validPincode (Option.bind rec er_pincode) \<and> validPhone (Option.bind rec er_phone)
     \<longleftrightarrow> (\<exists>a p ph ten. rec = Some a \<and> (\<exists>nm. er_name a = Some nm \<and> trim nm \<noteq> [])
          \<and> list_ex (\<lambda>l. trim l \<noteq> []) (er_addressLines a)
          \<and> er_pincode a = Some p \<and> length (trim p) = 6 \<and> list_all is_digit (trim p)
          \<and> er_phone a = Some ph \<and> length ten = 10
          \<and> filter is_digit ph \<in> {ten, CHR ''0'' # ten, CHR ''9'' # CHR ''1'' # ten})"
  proof (cases rec)
    case None
    then show ?thesis by (simp add: nonBlank_def)
  next
    case (Some a)
    then show ?thesis
      by (cases "er_phone a"; cases "er_pincode a"; cases "er_name a")
        (simp_all add: nonBlank_def validPincode_def validPhone_iff validPhone_def [of None])
  qed
  have dim: "\<not> (case dims of None \<Rightarrow> True
              | Some d \<Rightarrow> \<not> positiveDimension (dim_lengthCm d) \<or> \<not> positiveDimension (dim_widthCm d)
                  \<or> \<not> positiveDimension (dim_heightCm d))
     \<longleftrightarrow> (\<exists>d. dims = Some d \<and> list_all (\<lambda>v. \<exists>h. parse_fixed 2 v = Some h \<and> 0 < h)
              [dim_lengthCm d, dim_widthCm d, dim_heightCm d])"
    by (cases dims) (auto simp: positiveDimension_iff)
  have wt: "\<not> g \<le> 0 \<longleftrightarrow> kgToGrams (dw_deadWeightKg w) \<noteq> Inr 0" using g by auto
  show ?thesis
    unfolding eval by (rule exI, rule conjI [OF refl], unfold EligibilityResult.simps, rule conjI [OF order])
      (simp only: append_is_Nil_conv failing_Nil rcp [symmetric] dim [symmetric] wt [symmetric]
         not_le not_less not_not simp_thms de_Morgan_conj conj_assoc)
qed

lemma eligibility_of_derived_order_witness:
  "\<exists>w r. deriveDeadWeight [exampleLine ''0.450'' 3] ''0.080'' ''0.500'' = Inr w
     \<and> evaluateEligibility \<lparr>ei_recipient = Some \<lparr>er_name = Some ''Asha'', er_addressLines = ['' '', ''12 MG Road''],
           er_pincode = Some '' 560001'', er_phone = Some ''+91 98450-12345''\<rparr>,
         ei_allocatedLineCount = 1, ei_deadWeightKg = Some (dw_deadWeightKg w),
         ei_dimensionsCm = Some \<lparr>dim_lengthCm = ''20'', dim_widthCm = ''10.5'', dim_heightCm = ''4.00''\<rparr>,
         ei_pickupLocationId = Some ''loc'', ei_paymentMode = PREPAID,
         ei_collectible = Some (paiseToRupees 0)\<rparr> = Inr r
     \<and> eres_ready r"
proof -
  have us: "mapR unitGrams [exampleLine ''0.450'' 3] = Inr [450]" by code_simp
  have t: "kgToGrams ''0.080'' = Inr 80" and d: "kgToGrams ''0.500'' = Inr 500" by code_simp+
  have q: "\<forall>l \<in> set [exampleLine ''0.450'' 3]. 0 \<le> dwi_quantity l" by (simp add: exampleLine_def)
  from deriveDeadWeight_correct [OF us q t d refl] obtain w
    where w: "deriveDeadWeight [exampleLine ''0.450'' 3] ''0.080'' ''0.500'' = Inr w"
      "kgToGrams (dw_deadWeightKg w) = Inr 1430"
    by (auto simp: exampleLine_def)
  let ?inp = "\<lparr>ei_recipient = Some \<lparr>er_name = Some ''Asha'', er_addressLines = ['' '', ''12 MG Road''],
           er_pincode = Some '' 560001'', er_phone = Some ''+91 98450-12345''\<rparr>,
         ei_allocatedLineCount = 1, ei_deadWeightKg = Some (dw_deadWeightKg w),
         ei_dimensionsCm = Some \<lparr>dim_lengthCm = ''20'', dim_widthCm = ''10.5'', dim_heightCm = ''4.00''\<rparr>,
         ei_pickupLocationId = Some ''loc'', ei_paymentMode = PREPAID,
         ei_collectible = Some (paiseToRupees 0)\<rparr>"
  have dims: "parse_fixed 2 ''20'' = Some 2000" "parse_fixed 2 ''10.5'' = Some 1050"
    "parse_fixed 2 ''4.00'' = Some 400"
    by (simp_all add: text_eval)
  have pin: "trim '' 560001'' = ''560001''" "list_all is_digit ''560001''" by code_simp+
  have nm: "trim ''Asha'' \<noteq> []" "trim ''12 MG Road'' \<noteq> []" by code_simp+

  obtain r where "evaluateEligibility ?inp = Inr r" "eres_ready r"
  proof (use eligibility_of_derived_order [OF w(1) us q, of ?inp, OF refl] in \<open>elim exE conjE\<close>,
      rule that, assumption, erule iffD2, rule conjI)
    let ?rcp = "\<lparr>er_name = Some ''Asha'', er_addressLines = ['' '', ''12 MG Road''],
           er_pincode = Some '' 560001'', er_phone = Some ''+91 98450-12345''\<rparr>"
    show "\<exists>a p ph ten. Some ?rcp = Some a \<and> (\<exists>nm. er_name a = Some nm \<and> trim nm \<noteq> [])
          \<and> list_ex (\<lambda>l. trim l \<noteq> []) (er_addressLines a)
          \<and> er_pincode a = Some p \<and> length (trim p) = 6 \<and> list_all is_digit (trim p)
          \<and> er_phone a = Some ph \<and> length ten = 10
          \<and> filter is_digit ph \<in> {ten, CHR ''0'' # ten, CHR ''9'' # CHR ''1'' # ten}"
      by (rule exI [of _ ?rcp], rule exI [of _ "'' 560001''"],
          rule exI [of _ "''+91 98450-12345''"], rule exI [of _ "''9845012345''"]) (simp add: pin nm is_digit_def)
  qed (simp_all add: w(2) dims)
  with w(1) show ?thesis by blast
qed

end
