(* ===== verification/OrderStatus.thy ===== *)
theory OrderStatus
  imports Money
begin

text \<open>
  \<open>src/modules/order-derivation/order-status.ts\<close>: the COD assignment state of an order
  (INV-9) and its derived shipping status F-22.  State codes are the database's text.
\<close>

section \<open>Definitions\<close>

datatype CodAssignmentState = COD_NOT_APPLICABLE | COD_ASSIGNED | COD_UNASSIGNED

record ShipmentCodInput =
  sc_bookingState :: string
  sc_awbNormalized :: "string option"
  sc_collectible :: string

definition hasActiveAwb :: "ShipmentCodInput \<Rightarrow> bool" where
  "hasActiveAwb s \<longleftrightarrow> sc_awbNormalized s \<noteq> None \<and> sc_bookingState s \<noteq> ''VOID''"

text \<open>\<open>active.filter((s) => rupeesToPaise(s.collectible) > 0n)\<close> with its parsed amounts.\<close>

definition codCarriers :: "ShipmentCodInput list \<Rightarrow> js_error + int list" where
  "codCarriers active =
     bindR (mapR (\<lambda>s. rupeesToPaise (sc_collectible s)) active) (\<lambda>ps. Inr (filter (\<lambda>p. p > 0) ps))"

definition deriveCodAssignmentState ::
  "string option \<Rightarrow> ShipmentCodInput list \<Rightarrow> js_error + CodAssignmentState" where
  "deriveCodAssignmentState codOutstanding shipments =
     bindR (rupeesToPaise (case codOutstanding of None \<Rightarrow> ''0.00'' | Some c \<Rightarrow> c)) (\<lambda>outstanding.
     if outstanding \<le> 0 then Inr COD_NOT_APPLICABLE
     else (let active = filter hasActiveAwb shipments in
       bindR (codCarriers active) (\<lambda>carriers.
       if length carriers = 1 \<and> hd carriers = outstanding then Inr COD_ASSIGNED
       else if length active \<ge> 1 then Inr COD_UNASSIGNED
       else Inr COD_NOT_APPLICABLE)))"

record ShipmentStatusInput =
  ss_bookingState :: string
  ss_movementState :: string
  ss_custodyState :: string

definition terminalMovement :: "string set" where
  "terminalMovement = {''DELIVERED'', ''RTO_DELIVERED'', ''LOST_OR_DAMAGED'', ''CANCELLED_BY_COURIER''}"

definition rtoInProgress :: "string set" where
  "rtoInProgress = {''RTO_INITIATED'', ''RTO_IN_TRANSIT'', ''RTO_OUT_FOR_DELIVERY''}"

definition inFlightOrder :: "string list" where
  "inFlightOrder = [''NOT_SHIPPED'', ''IN_TRANSIT'', ''OUT_FOR_DELIVERY'']"

definition isCancelled :: "ShipmentStatusInput \<Rightarrow> bool" where
  "isCancelled s \<longleftrightarrow> ss_bookingState s = ''VOID'' \<or> ss_custodyState s = ''CANCELLED''
     \<or> ss_movementState s = ''CANCELLED_BY_COURIER''"

definition inFlightAt :: "string \<Rightarrow> ShipmentStatusInput \<Rightarrow> bool" where
  "inFlightAt state s \<longleftrightarrow> \<not> isCancelled s \<and> ss_movementState s \<notin> terminalMovement
     \<and> ss_movementState s = state"

definition deriveOrderShippingStatus :: "string \<Rightarrow> ShipmentStatusInput list \<Rightarrow> string" where
  "deriveOrderShippingStatus orderState shipments =
     (if shipments = [] then orderState
      else if list_ex (\<lambda>s. ss_bookingState s = ''NEEDS_MANUAL_ASSIGNMENT'') shipments
        then ''MANUAL_ASSIGNMENT_NEEDED''
      else if list_ex (\<lambda>s. ss_movementState s = ''NDR'') shipments then ''NDR''
      else if list_ex (\<lambda>s. ss_movementState s \<in> rtoInProgress) shipments then ''RTO_IN_PROGRESS''
      else if list_ex (\<lambda>s. ss_bookingState s = ''FAILED'') shipments then ''BOOKING_FAILED''
      else (case List.find (\<lambda>state. list_ex (inFlightAt state) shipments) inFlightOrder of
         Some state \<Rightarrow> state
       | None \<Rightarrow>
          (if list_all (\<lambda>s. ss_movementState s = ''DELIVERED'') shipments then ''DELIVERED''
           else if list_all isCancelled shipments then ''CANCELLED''
           else ''PARTIALLY_DELIVERED'')))"

section \<open>The single carrier of the collectible\<close>

text \<open>
  INV-9.  The assignment state is ASSIGNED exactly when the outstanding balance is
  positive, exactly one active shipment carries a positive collectible, and it carries the
  whole balance; it is UNASSIGNED exactly when the balance is positive, some shipment is
  active, and that is not so.
\<close>

theorem cod_assignment_exact:
  assumes o: "rupeesToPaise c = Inr out"
    and ps: "mapR (\<lambda>s. rupeesToPaise (sc_collectible s)) (filter hasActiveAwb shipments) = Inr ps"
  shows "\<exists>st. deriveCodAssignmentState (Some c) shipments = Inr st
     \<and> (st = COD_ASSIGNED \<longleftrightarrow> 0 < out \<and> filter (\<lambda>p. 0 < p) ps = [out])
     \<and> (st = COD_UNASSIGNED \<longleftrightarrow> 0 < out \<and> ps \<noteq> [] \<and> filter (\<lambda>p. 0 < p) ps \<noteq> [out])"
proof -
  have one: "length xs = Suc 0 \<and> hd xs = out \<longleftrightarrow> xs = [out]" for xs
    by (cases xs) auto
  have "ps = [] \<longleftrightarrow> filter hasActiveAwb shipments = []"
    using mapR_length [OF ps] by (metis length_0_conv)
  then have ne: "length (filter hasActiveAwb shipments) \<ge> Suc 0 \<longleftrightarrow> ps \<noteq> []"
    by (cases "filter hasActiveAwb shipments") auto
  have "deriveCodAssignmentState (Some c) shipments = Inr
     (if out \<le> 0 then COD_NOT_APPLICABLE else if filter (\<lambda>p. 0 < p) ps = [out] then COD_ASSIGNED
      else if ps \<noteq> [] then COD_UNASSIGNED else COD_NOT_APPLICABLE)"
    using o ps by (simp add: deriveCodAssignmentState_def codCarriers_def Let_def one ne)
  then show ?thesis by auto
qed

lemma cod_assignment_exact_witness:
  "deriveCodAssignmentState (Some ''499.00'')
     [\<lparr>sc_bookingState = ''BOOKED'', sc_awbNormalized = Some ''A1'', sc_collectible = ''499.00''\<rparr>,
      \<lparr>sc_bookingState = ''VOID'', sc_awbNormalized = Some ''A2'', sc_collectible = ''10.00''\<rparr>]
   = Inr COD_ASSIGNED"
proof -
  let ?ss = "[\<lparr>sc_bookingState = ''BOOKED'', sc_awbNormalized = Some ''A1'', sc_collectible = ''499.00''\<rparr>,
      \<lparr>sc_bookingState = ''VOID'', sc_awbNormalized = Some ''A2'', sc_collectible = ''10.00''\<rparr>]"
  have "rupeesToPaise ''499.00'' = Inr 49900" by (simp add: text_eval)
  moreover from this have "mapR (\<lambda>s. rupeesToPaise (sc_collectible s)) (filter hasActiveAwb ?ss) = Inr [49900]"
    by (simp add: hasActiveAwb_def)
  ultimately show ?thesis using cod_assignment_exact by fastforce
qed

section \<open>The derived status\<close>

text \<open>The eleven movement states of the database enum.\<close>

definition movementCodes :: "string list" where
  "movementCodes = [''NOT_SHIPPED'', ''IN_TRANSIT'', ''OUT_FOR_DELIVERY'', ''NDR'', ''DELIVERED'',
     ''RTO_INITIATED'', ''RTO_IN_TRANSIT'', ''RTO_OUT_FOR_DELIVERY'', ''RTO_DELIVERED'',
     ''LOST_OR_DAMAGED'', ''CANCELLED_BY_COURIER'']"

text \<open>A shipment that is over: terminal movement, or cancelled before it moved.\<close>

definition settled :: "ShipmentStatusInput \<Rightarrow> bool" where
  "settled s \<longleftrightarrow> ss_movementState s \<in> terminalMovement
     \<or> (isCancelled s \<and> ss_movementState s \<notin> insert ''NDR'' rtoInProgress)"

definition attention :: "ShipmentStatusInput \<Rightarrow> bool" where
  "attention s \<longleftrightarrow> ss_bookingState s = ''NEEDS_MANUAL_ASSIGNMENT'' \<or> ss_bookingState s = ''FAILED''"

lemma not_in_flight_iff:
  assumes "ss_movementState s \<in> set movementCodes"
    and "ss_movementState s \<noteq> ''NDR''" "ss_movementState s \<notin> rtoInProgress"
  shows "list_all (\<lambda>state. \<not> inFlightAt state s) inFlightOrder \<longleftrightarrow> settled s"
  using assms
  by (auto simp: movementCodes_def inFlightOrder_def inFlightAt_def settled_def terminalMovement_def
      rtoInProgress_def)

lemma in_flight_codes: "List.find P inFlightOrder = Some st \<Longrightarrow> st \<in> {''NOT_SHIPPED'', ''IN_TRANSIT'', ''OUT_FOR_DELIVERY''}"
  by (auto simp: inFlightOrder_def split: if_splits)

text \<open>
  F-22 reports a final status (DELIVERED, CANCELLED or PARTIALLY_DELIVERED) exactly
  when the order has shipments, none of them needs attention and every one of them is over;
  in particular a shipment still in flight, in NDR or on its way back always shows.
\<close>

theorem final_status_iff_all_settled:
  assumes ne: "shipments \<noteq> []"
    and codes: "list_all (\<lambda>s. ss_movementState s \<in> set movementCodes) shipments"
  shows "deriveOrderShippingStatus st shipments \<in> {''DELIVERED'', ''CANCELLED'', ''PARTIALLY_DELIVERED''}
     \<longleftrightarrow> list_all (\<lambda>s. settled s \<and> \<not> attention s) shipments"
proof (cases "list_ex (\<lambda>s. attention s \<or> ss_movementState s = ''NDR'' \<or> ss_movementState s \<in> rtoInProgress) shipments")
  case True
  have "\<not> (ss_movementState s = ''NDR'' \<or> ss_movementState s \<in> rtoInProgress)" if "settled s" for s
    using that by (auto simp: settled_def terminalMovement_def rtoInProgress_def)
  with True have "\<not> list_all (\<lambda>s. settled s \<and> \<not> attention s) shipments"
    by (auto simp: list_all_iff list_ex_iff)
  moreover have "deriveOrderShippingStatus st shipments \<in> {''MANUAL_ASSIGNMENT_NEEDED'', ''NDR'',
      ''RTO_IN_PROGRESS'', ''BOOKING_FAILED''}"
    using True ne by (auto simp: deriveOrderShippingStatus_def attention_def list_ex_iff)
  ultimately show ?thesis by auto
next
  case False
  then have calm: "s \<in> set shipments \<Longrightarrow> \<not> attention s \<and> ss_movementState s \<noteq> ''NDR''
      \<and> ss_movementState s \<notin> rtoInProgress" for s
    by (auto simp: list_ex_iff)
  have "List.find (\<lambda>state. list_ex (inFlightAt state) shipments) inFlightOrder = None
      \<longleftrightarrow> list_all (\<lambda>s. list_all (\<lambda>state. \<not> inFlightAt state s) inFlightOrder) shipments"
    by (auto simp: find_None_iff list_all_iff list_ex_iff)
  also have "\<dots> \<longleftrightarrow> list_all settled shipments"
    using calm codes by (auto simp: list_all_iff not_in_flight_iff [unfolded list_all_iff])
  finally have none: "List.find (\<lambda>state. list_ex (inFlightAt state) shipments) inFlightOrder = None
      \<longleftrightarrow> list_all settled shipments" .
  have simped: "deriveOrderShippingStatus st shipments =
     (case List.find (\<lambda>state. list_ex (inFlightAt state) shipments) inFlightOrder of
         Some state \<Rightarrow> state
       | None \<Rightarrow> if list_all (\<lambda>s. ss_movementState s = ''DELIVERED'') shipments then ''DELIVERED''
           else if list_all isCancelled shipments then ''CANCELLED'' else ''PARTIALLY_DELIVERED'')"
    using calm ne by (auto simp: deriveOrderShippingStatus_def attention_def list_ex_iff)
  have "list_all (\<lambda>s. settled s \<and> \<not> attention s) shipments \<longleftrightarrow> list_all settled shipments"
    using calm by (auto simp: list_all_iff)
  moreover have "deriveOrderShippingStatus st shipments \<in> {''DELIVERED'', ''CANCELLED'', ''PARTIALLY_DELIVERED''}
    \<longleftrightarrow> List.find (\<lambda>state. list_ex (inFlightAt state) shipments) inFlightOrder = None"
  proof (cases "List.find (\<lambda>state. list_ex (inFlightAt state) shipments) inFlightOrder")
    case None
    then show ?thesis unfolding simped by simp
  next
    case (Some state)
    then have "state \<notin> {''DELIVERED'', ''CANCELLED'', ''PARTIALLY_DELIVERED''}"
      by (elim in_flight_codes [THEN insertE] insertE) simp_all
    with Some show ?thesis unfolding simped by simp
  qed
  ultimately show ?thesis by (simp only: none)
qed

lemma final_status_iff_all_settled_witness:
  "deriveOrderShippingStatus ''FULLY_BOOKED''
     [\<lparr>ss_bookingState = ''BOOKED'', ss_movementState = ''DELIVERED'', ss_custodyState = ''IN_CUSTODY''\<rparr>,
      \<lparr>ss_bookingState = ''VOID'', ss_movementState = ''NOT_SHIPPED'', ss_custodyState = ''CANCELLED''\<rparr>]
   \<in> {''DELIVERED'', ''CANCELLED'', ''PARTIALLY_DELIVERED''}"
  by (subst final_status_iff_all_settled)
     (simp_all add: movementCodes_def settled_def attention_def terminalMovement_def isCancelled_def
        rtoInProgress_def)

text \<open>
  A returned parcel reads as a partial delivery: an order whose only shipment came back
  to the sender has status PARTIALLY_DELIVERED, although nothing of it was delivered.
\<close>

theorem returned_only_shipment_status:
  "deriveOrderShippingStatus st
     [\<lparr>ss_bookingState = ''BOOKED'', ss_movementState = ''RTO_DELIVERED'', ss_custodyState = ''IN_CUSTODY''\<rparr>]
   = ''PARTIALLY_DELIVERED''"
  by (simp add: deriveOrderShippingStatus_def rtoInProgress_def inFlightOrder_def inFlightAt_def
      terminalMovement_def isCancelled_def)

end
