(* ===== verification/PackageSelection.thy ===== *)
theory PackageSelection
  imports Weight
begin

text \<open>
  \<open>src/modules/order-derivation/package-selection.ts\<close>: the F-20 ladder that picks the package
  profile of a parcel (SKU override, then selection rule, then the shop's default).  The
  rule texts may be malformed, in which case the code throws; the lemmas give the winner of
  every rung in terms of the unsorted input.
\<close>

section \<open>Definitions\<close>

record PackageProfileInput =
  pp_packageProfileId :: string
  pp_lengthCm :: string
  pp_widthCm :: string
  pp_heightCm :: string
  pp_tareKg :: string
  pp_isDefault :: bool

record PackageRuleInput =
  pr_packageRuleId :: string
  pr_position :: int
  pr_minDeadKg :: "string option"
  pr_maxDeadKg :: "string option"
  pr_minItems :: "int option"
  pr_maxItems :: "int option"
  pr_packageProfileId :: string

record SkuOverrideProfile =
  so_sku :: string
  so_profile :: PackageProfileInput

record PackageSelectionInput =
  ps_lineSkus :: "string option list"
  ps_skuOverrideProfiles :: "SkuOverrideProfile list"
  ps_rules :: "PackageRuleInput list"
  ps_profiles :: "PackageProfileInput list"
  ps_contentWeightKg :: string
  ps_totalItems :: int

datatype PackageSelectionSource = SKU_OVERRIDE | SELECTION_RULE | DEFAULT

record PackageSelectionResult =
  pz_profile :: PackageProfileInput
  pz_source :: PackageSelectionSource
  pz_matchedRuleId :: "string option"
  pz_conflictResolvedByVolume :: bool

definition profileCmToHundredths :: "string \<Rightarrow> js_error + int" where
  "profileCmToHundredths value =
     (case parse_fixed 2 value of None \<Rightarrow> Inl (InvalidDimension value) | Some h \<Rightarrow> Inr h)"

definition profileVolume :: "PackageProfileInput \<Rightarrow> js_error + int" where
  "profileVolume profile =
     bindR (profileCmToHundredths (pp_lengthCm profile)) (\<lambda>l.
     bindR (profileCmToHundredths (pp_widthCm profile)) (\<lambda>w.
     bindR (profileCmToHundredths (pp_heightCm profile)) (\<lambda>h. Inr (l * w * h))))"

definition ruleMatches :: "PackageRuleInput \<Rightarrow> int \<Rightarrow> int \<Rightarrow> js_error + bool" where
  "ruleMatches rule contentGrams totalItems =
     bindR (case pr_minDeadKg rule of None \<Rightarrow> Inr False
            | Some kg \<Rightarrow> bindR (kgToGrams kg) (\<lambda>g. Inr (contentGrams < g))) (\<lambda>below.
     if below then Inr False else
     bindR (case pr_maxDeadKg rule of None \<Rightarrow> Inr False
            | Some kg \<Rightarrow> bindR (kgToGrams kg) (\<lambda>g. Inr (contentGrams > g))) (\<lambda>above.
     if above then Inr False else
     if (case pr_minItems rule of None \<Rightarrow> False | Some n \<Rightarrow> totalItems < n) then Inr False else
     if (case pr_maxItems rule of None \<Rightarrow> False | Some n \<Rightarrow> totalItems > n) then Inr False else
     Inr True))"

text \<open>The \<open>winner\<close> loop over \<open>distinct.values()\<close>; volumes are only read to compare.\<close>

fun pickLargest ::
  "PackageProfileInput option \<Rightarrow> PackageProfileInput list \<Rightarrow> js_error + PackageProfileInput option" where
  "pickLargest winner [] = Inr winner"
| "pickLargest None (profile # rest) = pickLargest (Some profile) rest"
| "pickLargest (Some winner) (profile # rest) =
     bindR (profileVolume profile) (\<lambda>v.
     bindR (profileVolume winner) (\<lambda>w.
     pickLargest (Some (if v > w then profile else winner)) rest))"

fun firstRule ::
  "(string \<times> PackageProfileInput) list \<Rightarrow> int \<Rightarrow> int \<Rightarrow> PackageRuleInput list
     \<Rightarrow> js_error + (PackageRuleInput \<times> PackageProfileInput) option" where
  "firstRule byId contentGrams totalItems [] = Inr None"
| "firstRule byId contentGrams totalItems (rule # rest) =
     bindR (ruleMatches rule contentGrams totalItems) (\<lambda>matches.
     if \<not> matches then firstRule byId contentGrams totalItems rest
     else (case map_of byId (pr_packageProfileId rule) of
             None \<Rightarrow> firstRule byId contentGrams totalItems rest
           | Some profile \<Rightarrow> Inr (Some (rule, profile))))"

definition overrideHits :: "PackageSelectionInput \<Rightarrow> PackageProfileInput list" where
  "overrideHits inp =
     map so_profile (filter (\<lambda>over. so_sku over \<noteq> [] \<and> Some (so_sku over) \<in> set (ps_lineSkus inp))
       (ps_skuOverrideProfiles inp))"

definition profilesById :: "PackageProfileInput list \<Rightarrow> (string \<times> PackageProfileInput) list" where
  "profilesById ps = map_from (map (\<lambda>p. (pp_packageProfileId p, p)) ps)"

definition selectPackageProfile :: "PackageSelectionInput \<Rightarrow> js_error + PackageSelectionResult" where
  "selectPackageProfile inp =
     (let hits = overrideHits inp in
      if length hits > 0 then
        (let distincts = profilesById hits in
         bindR (pickLargest None (map snd distincts)) (\<lambda>winner.
         Inr \<lparr>pz_profile = the winner, pz_source = SKU_OVERRIDE, pz_matchedRuleId = None,
              pz_conflictResolvedByVolume = (length distincts > 1)\<rparr>))
      else
        bindR (kgToGrams (ps_contentWeightKg inp)) (\<lambda>contentGrams.
        bindR (firstRule (profilesById (ps_profiles inp)) contentGrams (ps_totalItems inp)
                 (js_sort (\<lambda>a b. pr_position a - pr_position b) (ps_rules inp))) (\<lambda>picked.
        case picked of
          Some (rule, profile) \<Rightarrow>
            Inr \<lparr>pz_profile = profile, pz_source = SELECTION_RULE,
                 pz_matchedRuleId = Some (pr_packageRuleId rule), pz_conflictResolvedByVolume = False\<rparr>
        | None \<Rightarrow>
            (let defaults = filter pp_isDefault (ps_profiles inp) in
             if length defaults \<noteq> 1 then Inl (DefaultProfileCount (length defaults))
             else Inr \<lparr>pz_profile = hd defaults, pz_source = DEFAULT, pz_matchedRuleId = None,
                       pz_conflictResolvedByVolume = False\<rparr>))))"

section \<open>The first rung: the largest overriding profile\<close>

lemma pickLargest_Some:
  "pickLargest (Some w) ps = Inr r \<Longrightarrow> \<exists>q. r = Some q \<and> q \<in> insert w (set ps)
     \<and> (ps \<noteq> [] \<longrightarrow> (\<exists>m. profileVolume q = Inr m
          \<and> (\<forall>p \<in> insert w (set ps). \<exists>v. profileVolume p = Inr v \<and> v \<le> m)))"
proof (induction ps arbitrary: w)
  case Nil
  then show ?case by simp
next
  case (Cons p ps)
  then obtain v x where vx: "profileVolume p = Inr v" "profileVolume w = Inr x"
    and rest: "pickLargest (Some (if v > x then p else w)) ps = Inr r"
    by (auto simp: bindR_Inr_iff)
  let ?w = "if v > x then p else w"
  from Cons.IH [OF rest] obtain q where q: "r = Some q" "q \<in> insert ?w (set ps)"
    "ps \<noteq> [] \<Longrightarrow> \<exists>m. profileVolume q = Inr m
       \<and> (\<forall>p \<in> insert ?w (set ps). \<exists>v. profileVolume p = Inr v \<and> v \<le> m)" by blast
  show ?case
  proof (cases "ps = []")
    case True
    with q vx show ?thesis by (auto split: if_splits)
  next
    case False
    from q(3) [OF this] obtain m where m: "profileVolume q = Inr m"
      "\<forall>p \<in> insert ?w (set ps). \<exists>v. profileVolume p = Inr v \<and> v \<le> m" by blast
    have "\<forall>p' \<in> {w, p}. \<exists>v. profileVolume p' = Inr v \<and> v \<le> m"
      using m(2) vx by (auto split: if_splits)
    with m q show ?thesis by (auto split: if_splits)
  qed
qed

lemma profilesById_values:
  "snd ` set (profilesById ps) \<subseteq> set ps" "fst ` set (profilesById ps) = pp_packageProfileId ` set ps"
  "(k, p) \<in> set (profilesById ps) \<Longrightarrow> k = pp_packageProfileId p"
  using set_map_from_subset [of "map (\<lambda>p. (pp_packageProfileId p, p)) ps"]
  by (auto simp: profilesById_def keys_map_from image_image)

lemma profilesById_all:
  assumes "inj_on pp_packageProfileId (set ps)"
  shows "snd ` set (profilesById ps) = set ps"
proof (rule antisym [OF profilesById_values(1)])
  show "set ps \<subseteq> snd ` set (profilesById ps)"
  proof
    fix p assume p: "p \<in> set ps"
    then have "pp_packageProfileId p \<in> fst ` set (profilesById ps)"
      by (simp add: profilesById_values(2))
    then obtain q where q: "(pp_packageProfileId p, q) \<in> set (profilesById ps)" by auto
    then have "q \<in> set ps" "pp_packageProfileId p = pp_packageProfileId q"
      using profilesById_values(1,3) by force+
    with assms p have "q = p" by (auto dest: inj_onD)
    with q show "p \<in> snd ` set (profilesById ps)" by force
  qed
qed

lemma length_profilesById: "length (profilesById ps) = card (pp_packageProfileId ` set ps)"
proof -
  have "distinct (map fst (profilesById ps))" by (simp add: profilesById_def distinct_map_from)
  from distinct_card [OF this] show ?thesis by (simp add: profilesById_values(2))
qed

text \<open>
  RV-14.  When a line's SKU has an override, the profile returned is one of the
  overriding ones, no other overriding profile has a larger volume whenever two of them
  compete, and the conflict flag is set exactly when they name more than one profile.
\<close>

theorem sku_override_largest_volume:
  assumes "selectPackageProfile inp = Inr r" and "overrideHits inp \<noteq> []"
    and "inj_on pp_packageProfileId (set (overrideHits inp))"
  shows "pz_source r = SKU_OVERRIDE \<and> pz_profile r \<in> set (overrideHits inp)
     \<and> (pz_conflictResolvedByVolume r \<longleftrightarrow> 1 < card (set (overrideHits inp)))
     \<and> (pz_conflictResolvedByVolume r \<longrightarrow> (\<exists>m. profileVolume (pz_profile r) = Inr m
          \<and> (\<forall>p \<in> set (overrideHits inp). \<exists>v. profileVolume p = Inr v \<and> v \<le> m)))"
proof -
  let ?d = "profilesById (overrideHits inp)"
  obtain w where w: "pickLargest None (map snd ?d) = Inr w"
    and r: "r = \<lparr>pz_profile = the w, pz_source = SKU_OVERRIDE, pz_matchedRuleId = None,
              pz_conflictResolvedByVolume = (length ?d > 1)\<rparr>"
    using assms(1,2) by (auto simp: selectPackageProfile_def Let_def bindR_Inr_iff)
  have vals: "set (map snd ?d) = set (overrideHits inp)"
    using profilesById_all [OF assms(3)] by simp
  then have "map snd ?d \<noteq> []" using assms(2) by (metis set_empty)
  then obtain p ps where d: "map snd ?d = p # ps" by (cases "map snd ?d") auto
  with w have "pickLargest (Some p) ps = Inr w" by simp
  from pickLargest_Some [OF this] obtain q where q: "w = Some q" "q \<in> set (map snd ?d)"
    "ps \<noteq> [] \<longrightarrow> (\<exists>m. profileVolume q = Inr m
       \<and> (\<forall>p \<in> set (map snd ?d). \<exists>v. profileVolume p = Inr v \<and> v \<le> m))"
    unfolding d by auto
  have len: "length ?d = card (set (overrideHits inp))"
    by (simp add: length_profilesById card_image [OF assms(3)])
  have "ps \<noteq> [] \<longleftrightarrow> length (map snd ?d) > 1" unfolding d by (cases ps) auto
  then have "ps \<noteq> [] \<longleftrightarrow> length ?d > 1" by simp
  then show ?thesis using q [unfolded vals] unfolding r len by simp
qed

definition profileA :: PackageProfileInput where
  "profileA = \<lparr>pp_packageProfileId = ''a'', pp_lengthCm = ''10'', pp_widthCm = ''10.00'',
     pp_heightCm = ''2.50'', pp_tareKg = ''0.050'', pp_isDefault = True\<rparr>"

definition profileB :: PackageProfileInput where
  "profileB = profileA\<lparr>pp_packageProfileId := ''b'', pp_heightCm := ''2.51'', pp_isDefault := False\<rparr>"

definition exampleSelection :: PackageSelectionInput where
  "exampleSelection = \<lparr>ps_lineSkus = [Some ''X'', None, Some ''Y''],
     ps_skuOverrideProfiles = [\<lparr>so_sku = ''Y'', so_profile = profileA\<rparr>, \<lparr>so_sku = ''X'', so_profile = profileB\<rparr>],
     ps_rules = [], ps_profiles = [profileA, profileB], ps_contentWeightKg = ''1.250'', ps_totalItems = 2\<rparr>"

lemma profileVolume_examples:
  "profileVolume profileA = Inr 250000000" "profileVolume profileB = Inr 251000000"
  by (simp_all add: profileVolume_def profileCmToHundredths_def profileA_def profileB_def text_eval)

lemma sku_override_largest_volume_witness:
  "\<exists>r. selectPackageProfile exampleSelection = Inr r \<and> pz_profile r = profileB"
proof -
  have hits: "overrideHits exampleSelection = [profileA, profileB]"
    by (simp add: overrideHits_def exampleSelection_def)
  have ids: "pp_packageProfileId profileA = ''a''" "pp_packageProfileId profileB = ''b''"
    by (simp_all add: profileA_def profileB_def)
  have "\<exists>r. selectPackageProfile exampleSelection = Inr r"
    by (simp add: selectPackageProfile_def hits profilesById_def map_from_def ids
        profileVolume_examples)
  then obtain r where r: "selectPackageProfile exampleSelection = Inr r" ..
  have ne: "profileA \<noteq> profileB" using ids by auto
  from sku_override_largest_volume [OF r] hits ids ne
  have "pz_profile r \<in> {profileA, profileB} \<and> (\<exists>m. profileVolume (pz_profile r) = Inr m \<and> 251000000 \<le> m)"
    by (auto simp: profileVolume_examples)
  then have "pz_profile r = profileB" by (auto simp: profileVolume_examples)
  with r show ?thesis by blast
qed

section \<open>The lower rungs\<close>

text \<open>A rule the loop stops at: within its bounds and with an existing target.\<close>

definition ruleApplies :: "PackageSelectionInput \<Rightarrow> int \<Rightarrow> PackageRuleInput \<Rightarrow> bool" where
  "ruleApplies inp g r \<longleftrightarrow> ruleMatches r g (ps_totalItems inp) = Inr True
     \<and> pr_packageProfileId r \<in> pp_packageProfileId ` set (ps_profiles inp)"

lemma map_of_profilesById_None:
  "map_of (profilesById ps) k = None \<longleftrightarrow> k \<notin> pp_packageProfileId ` set ps"
  by (simp add: map_of_eq_None_iff profilesById_values(2))

lemma map_of_profilesById_Some:
  "map_of (profilesById ps) k = Some p \<Longrightarrow> p \<in> set ps \<and> pp_packageProfileId p = k"
  using profilesById_values(1) [of ps] profilesById_values(3) [of k p ps] by (force dest: map_of_SomeD)

lemma firstRule_find:
  "list_all (\<lambda>r. is_ok (ruleMatches r g (ps_totalItems inp))) rules \<Longrightarrow>
   firstRule (profilesById (ps_profiles inp)) g (ps_totalItems inp) rules =
     Inr (case List.find (ruleApplies inp g) rules of None \<Rightarrow> None
          | Some r \<Rightarrow> Some (r, the (map_of (profilesById (ps_profiles inp)) (pr_packageProfileId r))))"
proof (induction rules)
  case Nil
  then show ?case by simp
next
  case (Cons r rules)
  then obtain b where "ruleMatches r g (ps_totalItems inp) = Inr b" by (auto simp: is_ok_iff)
  with Cons map_of_profilesById_None [of "ps_profiles inp" "pr_packageProfileId r"] show ?case
    by (cases b) (auto simp: ruleApplies_def split: option.splits)
qed

text \<open>
  Without an overriding SKU, and when the stored texts are well formed, the parcel gets
  the profile of the applicable rule that is least in position (the earliest listed among
  equals) and that rule is recorded; with no applicable rule the result is the shop's only
  default profile, and the code throws exactly when the shop has no default or several.
\<close>

theorem package_rule_or_default:
  assumes "overrideHits inp = []" and "kgToGrams (ps_contentWeightKg inp) = Inr g"
    and "list_all (\<lambda>r. is_ok (ruleMatches r g (ps_totalItems inp))) (ps_rules inp)"
  shows "case selectPackageProfile inp of
      Inr res \<Rightarrow> pz_profile res \<in> set (ps_profiles inp) \<and>
        ((\<exists>pre r post. ps_rules inp = pre @ r # post \<and> ruleApplies inp g r
            \<and> (\<forall>s \<in> set pre. \<not> ruleApplies inp g s \<or> pr_position r < pr_position s)
            \<and> (\<forall>s \<in> set post. \<not> ruleApplies inp g s \<or> pr_position r \<le> pr_position s)
            \<and> pz_source res = SELECTION_RULE \<and> pz_matchedRuleId res = Some (pr_packageRuleId r)
            \<and> pp_packageProfileId (pz_profile res) = pr_packageProfileId r)
         \<or> (list_all (\<lambda>r. \<not> ruleApplies inp g r) (ps_rules inp) \<and> pz_source res = DEFAULT
            \<and> filter pp_isDefault (ps_profiles inp) = [pz_profile res]))
    | Inl e \<Rightarrow> list_all (\<lambda>r. \<not> ruleApplies inp g r) (ps_rules inp)
        \<and> e = DefaultProfileCount (length (filter pp_isDefault (ps_profiles inp)))
        \<and> length (filter pp_isDefault (ps_profiles inp)) \<noteq> 1"
proof -
  let ?ds = "filter pp_isDefault (ps_profiles inp)"
  let ?find = "List.find (ruleApplies inp g) (sort_key pr_position (ps_rules inp))"
  have ok: "list_all (\<lambda>r. is_ok (ruleMatches r g (ps_totalItems inp))) (sort_key pr_position (ps_rules inp))"
    using assms(3) by (simp add: list_all_iff)
  note eq = selectPackageProfile_def Let_def assms(1,2) js_sort_key firstRule_find [OF ok]
  show ?thesis
  proof (cases ?find)
    case None
    then have none: "list_all (\<lambda>r. \<not> ruleApplies inp g r) (ps_rules inp)"
      by (simp add: find_None_iff list_all_iff)
    show ?thesis
    proof (cases "length ?ds = 1")
      case True
      then obtain p where p: "?ds = [p]" by (auto simp: length_Suc_conv)
      then have "p \<in> set (ps_profiles inp)" by (metis filter_is_subset list.set_intros(1) subsetD)
      with None none p show ?thesis by (simp add: eq)
    next
      case False
      with None none show ?thesis by (simp add: eq)
    qed
  next
    case (Some r)
    note pos = Some [unfolded find_sort_key]
    then have "ruleApplies inp g r" by blast
    then obtain p where p: "map_of (profilesById (ps_profiles inp)) (pr_packageProfileId r) = Some p"
      using map_of_profilesById_None [of "ps_profiles inp" "pr_packageProfileId r"]
      by (auto simp: ruleApplies_def)
    from map_of_profilesById_Some [OF this] Some p pos show ?thesis by (simp add: eq) blast
  qed
qed

lemma package_rule_or_default_witness:
  "\<exists>res. selectPackageProfile (exampleSelection\<lparr>ps_lineSkus := [],
       ps_rules := [\<lparr>pr_packageRuleId = ''heavy'', pr_position = 0, pr_minDeadKg = Some ''2'',
         pr_maxDeadKg = None, pr_minItems = None, pr_maxItems = None, pr_packageProfileId = ''a''\<rparr>]\<rparr>) = Inr res
     \<and> pz_source res = DEFAULT \<and> pz_profile res = profileA"
proof -
  let ?r = "\<lparr>pr_packageRuleId = ''heavy'', pr_position = 0, pr_minDeadKg = Some ''2'',
         pr_maxDeadKg = None, pr_minItems = None, pr_maxItems = None, pr_packageProfileId = ''a''\<rparr>"
  let ?i = "exampleSelection\<lparr>ps_lineSkus := [], ps_rules := [?r]\<rparr>"
  have none: "overrideHits ?i = []" and kg: "kgToGrams (ps_contentWeightKg ?i) = Inr 1250"
    by (simp_all add: overrideHits_def exampleSelection_def text_eval)
  have no: "ruleMatches ?r 1250 n = Inr False" for n
    by (simp add: ruleMatches_def text_eval)
  have ds: "filter pp_isDefault (ps_profiles ?i) = [profileA]"
    by (simp add: exampleSelection_def profileA_def profileB_def)
  have rules: "ps_rules ?i = [?r]" by (simp add: exampleSelection_def)
  have ok: "list_all (\<lambda>r. is_ok (ruleMatches r 1250 (ps_totalItems ?i))) (ps_rules ?i)"
    by (simp add: rules no)
  have napp: "\<not> ruleApplies ?i 1250 ?r" by (simp add: ruleApplies_def no)
  from package_rule_or_default [OF none kg ok] show ?thesis
    by (cases "selectPackageProfile ?i") (use ds napp in \<open>auto simp: rules Cons_eq_append_conv\<close>)
qed

end
