(* ===== verification/Dates.thy ===== *)
theory Dates
  imports Prelude
begin

text \<open>
  The standard library's dates as the sources use them.  \<open>Date.parse\<close> is modelled on the
  date-time format of the language standard; what it does on any other text is up to the host
  and is the parameter \<open>legacyParse\<close>.  Instants are milliseconds since the epoch, \<open>None\<close>
  stands for \<open>NaN\<close>; \<open>toISOString\<close> prints an instant of the years 0 to 9999.
\<close>

section \<open>Definitions\<close>

text \<open>Days from 1 January 1970 of a proleptic Gregorian date, \<open>MakeDay\<close> of the standard.\<close>

definition civilDays :: "int \<Rightarrow> int \<Rightarrow> int \<Rightarrow> int" where
  "civilDays y m d =
     (let y' = (if m \<le> 2 then y - 1 else y);
          era = y' div 400; yoe = y' mod 400;
          doy = (153 * ((m + 9) mod 12) + 2) div 5 + d - 1
      in era * 146097 + yoe * 365 + yoe div 4 - yoe div 100 + doy - 719468)"

definition digits_int :: "string \<Rightarrow> int option" where
  "digits_int s = (if s \<noteq> [] \<and> list_all is_digit s then Some (int (dec_val s)) else None)"

text \<open>\<open>YYYY-MM-DD\<close>, as days.\<close>

definition isoDay :: "string \<Rightarrow> int option" where
  "isoDay s =
     (if length s = 10 \<and> s ! 4 = CHR ''-'' \<and> s ! 7 = CHR ''-'' then
        (case (digits_int (take 4 s), digits_int (take 2 (drop 5 s)), digits_int (drop 8 s)) of
           (Some y, Some m, Some d) \<Rightarrow>
             if 1 \<le> m \<and> m \<le> 12 \<and> 1 \<le> d \<and> d \<le> 31 then Some (civilDays y m d) else None
         | _ \<Rightarrow> None)
      else None)"

text \<open>\<open>HH:MM\<close>, \<open>HH:MM:SS\<close> or \<open>HH:MM:SS.sss\<close>, as milliseconds.\<close>

definition isoTime :: "string \<Rightarrow> int option" where
  "isoTime s =
     (let hh = digits_int (take 2 s); mm = digits_int (take 2 (drop 3 s));
          ss = (if length s = 5 then Some 0 else digits_int (take 2 (drop 6 s)));
          ms = (if length s \<le> 8 then Some 0 else digits_int (drop 9 s))
      in if (length s = 5 \<or> length s = 8 \<or> length s = 12) \<and> s ! 2 = CHR '':''
            \<and> (length s = 5 \<or> s ! 5 = CHR '':'') \<and> (length s \<noteq> 12 \<or> s ! 8 = CHR ''.'') then
           (case (hh, mm, ss, ms) of
              (Some h, Some m, Some sec, Some ms) \<Rightarrow>
                if (h \<le> 23 \<and> m \<le> 59 \<and> sec \<le> 59) \<or> (h = 24 \<and> m = 0 \<and> sec = 0 \<and> ms = 0)
                then Some (((h * 60 + m) * 60 + sec) * 1000 + ms) else None
            | _ \<Rightarrow> None)
         else None)"

text \<open>\<open>Z\<close> or \<open>+HH:MM\<close> or \<open>-HH:MM\<close>, as milliseconds east of UTC.\<close>

definition isoZone :: "string \<Rightarrow> int option" where
  "isoZone s =
     (if s = ''Z'' then Some 0
      else if length s = 6 \<and> (hd s = CHR ''+'' \<or> hd s = CHR ''-'') \<and> s ! 3 = CHR '':'' then
        (case (digits_int (take 2 (tl s)), digits_int (drop 4 s)) of
           (Some h, Some m) \<Rightarrow> if h \<le> 23 \<and> m \<le> 59
              then Some ((if hd s = CHR ''-'' then - 1 else 1) * (h * 60 + m) * 60000) else None
         | _ \<Rightarrow> None)
      else None)"

definition isoParse :: "string \<Rightarrow> int option" where
  "isoParse s =
     (if length s = 10 then map_option (\<lambda>d. d * 86400000) (isoDay s)
      else if length s > 10 \<and> s ! 10 = CHR ''T'' then
        (let t = drop 11 s; zl = (if last s = CHR ''Z'' then 1 else 6)
         in case (isoDay (take 10 s), isoTime (take (length t - zl) t), isoZone (drop (length t - zl) t)) of
              (Some d, Some ms, Some z) \<Rightarrow> Some (d * 86400000 + ms - z)
            | _ \<Rightarrow> None)
      else None)"

text \<open>\<open>Date.parse\<close>; \<open>None\<close> is \<open>NaN\<close>.\<close>

definition dateParse :: "(string \<Rightarrow> int option) \<Rightarrow> string \<Rightarrow> int option" where
  "dateParse legacyParse s = (case isoParse s of Some t \<Rightarrow> Some t | None \<Rightarrow> legacyParse s)"

text \<open>Year, month and day of a day number; the inverse of \<open>civilDays\<close>.\<close>

definition civilDate :: "int \<Rightarrow> int \<times> int \<times> int" where
  "civilDate z =
     (let z' = z + 719468; era = z' div 146097; doe = z' mod 146097;
          yoe = (doe - doe div 1460 + doe div 36524 - doe div 146096) div 365;
          doy = doe - (365 * yoe + yoe div 4 - yoe div 100);
          mp = (5 * doy + 2) div 153;
          d = doy - (153 * mp + 2) div 5 + 1;
          m = (if mp < 10 then mp + 3 else mp - 9)
      in (yoe + era * 400 + (if m \<le> 2 then 1 else 0), m, d))"

definition pad_int :: "nat \<Rightarrow> int \<Rightarrow> string" where
  "pad_int k i = pad_start k (CHR ''0'') (show_int i)"

definition toISOString :: "int \<Rightarrow> string" where
  "toISOString t =
     (let (y, m, d) = civilDate (t div 86400000); ms = t mod 86400000
      in pad_int 4 y @ ''-'' @ pad_int 2 m @ ''-'' @ pad_int 2 d @ ''T''
         @ pad_int 2 (ms div 3600000) @ '':'' @ pad_int 2 (ms div 60000 mod 60) @ '':''
         @ pad_int 2 (ms div 1000 mod 60) @ ''.'' @ pad_int 3 (ms mod 1000) @ ''Z'')"

end
