(* ===== verification/RuleConditions.thy ===== *)
theory RuleConditions
  imports Pricing Dates
begin

text \<open>
  The first half of \<open>src/modules/rules/evaluate.ts\<close>: the rule and order data, exact decimal
  comparison, shop-local time, and the matching of one condition against the order
  (sections 3.9 and ADD-01 to ADD-12 of the product specification).

  \<open>Date.parse\<close> is the one of \<open>Dates\<close>.  The offset of a time zone at an instant is data of
  the host and is the parameter \<open>tzOffset\<close> (seconds east of UTC, none for a name the host
  does not know, on which \<open>Intl\<close> throws).
\<close>

section \<open>Rule data\<close>

datatype RuleActionType = PRIORITY_CHAIN | CHEAPEST | FASTEST | MANUAL_ONLY

datatype RuleConditionField =
    WEIGHT | ORDER_AMOUNT | PAYMENT_MODE | PINCODE | SKU | TAG | DEST_STATE | DEST_CITY | ZONE
  | COD_AMOUNT | ESTIMATED_FREIGHT | CHECKOUT_SHIPPING_TITLE | CHECKOUT_SHIPPING_AMOUNT
  | ITEM_COUNT | PRODUCT | VENDOR | COLLECTION | VOLUMETRIC_WEIGHT | RISK_FLAG | WEEKDAY
  | TIME_OF_DAY

datatype RuleOperator =
    EQUALS | BETWEEN | GTE | LTE | IN_LIST | NOT_IN_LIST | IN_SAVED_ZONE | CSV_UPLOAD
  | IS_COD | IS_PREPAID | CONTAINS | IS_HIGH | IS_NOT_HIGH

record ConditionValue =
  cv_value :: "string option"
  cv_min :: "string option"
  cv_max :: "string option"
  cv_list :: "string list option"
  cv_pincodes :: "string list option"
  cv_zoneId :: "string option"

record ConditionDef =
  cd_field :: RuleConditionField
  cd_operator :: RuleOperator
  cd_value :: ConditionValue

record ConditionGroupDef =
  cg_position :: int
  cg_conditions :: "ConditionDef list"

record RuleDef =
  rd_ruleId :: string
  rd_name :: string
  rd_version :: int
  rd_isActive :: bool
  rd_position :: int
  rd_actionType :: RuleActionType
  rd_excludedServiceIds :: "string list"
  rd_activeFrom :: "string option"
  rd_activeTo :: "string option"
  rd_groups :: "ConditionGroupDef list"
  rd_actionServiceIds :: "string list"

record OrderFacts =
  of_deadWeightKg :: "string option"
  of_orderAmount :: "string option"
  of_paymentMode :: payment_mode
  of_destinationPincode :: "string option"
  of_skus :: "string option list"
  of_tags :: "string list"
  of_destState :: "string option"
  of_destCity :: "string option"
  of_codAmount :: "string option"
  of_checkoutShippingTitle :: "string option"
  of_checkoutShippingAmount :: "string option"
  of_itemCount :: "int option"
  of_products :: "string option list"
  of_vendors :: "string option list"
  of_collections :: "string option list"
  of_riskFlag :: "string option"

section \<open>Decimal comparison\<close>

definition parseDecimal :: "string \<Rightarrow> int option" where
  "parseDecimal value =
     (let s = trim value;
          negative = (s \<noteq> [] \<and> hd s = CHR ''-'')
      in case dec_re 6 (if negative then tl s else s) of
           None \<Rightarrow> None
         | Some (w, f) \<Rightarrow> Some (if negative then - scaled 6 w f else scaled 6 w f))"

definition cmpDecimal :: "string \<Rightarrow> string \<Rightarrow> int option" where
  "cmpDecimal a b =
     (case (parseDecimal a, parseDecimal b) of
        (Some x, Some y) \<Rightarrow> Some (if x < y then - 1 else if x > y then 1 else 0)
      | _ \<Rightarrow> None)"

section \<open>Shop-local time\<close>

datatype WeekdayCode = MON | TUE | WED | THU | FRI | SAT | SUN

definition weekdays :: "WeekdayCode list" where
  "weekdays = [MON, TUE, WED, THU, FRI, SAT, SUN]"

definition weekdayFromShort :: "(string \<times> WeekdayCode) list" where
  "weekdayFromShort = [(''mon'', MON), (''tue'', TUE), (''wed'', WED), (''thu'', THU),
     (''fri'', FRI), (''sat'', SAT), (''sun'', SUN)]"

definition weekdayText :: "WeekdayCode \<Rightarrow> string" where
  "weekdayText w = (case w of MON \<Rightarrow> ''MON'' | TUE \<Rightarrow> ''TUE'' | WED \<Rightarrow> ''WED'' | THU \<Rightarrow> ''THU''
     | FRI \<Rightarrow> ''FRI'' | SAT \<Rightarrow> ''SAT'' | SUN \<Rightarrow> ''SUN'')"

record LocalParts =
  lp_weekday :: WeekdayCode
  lp_minutesOfDay :: int

text \<open>The first day of the epoch was a Thursday.\<close>

definition shopLocalParts ::
  "(string \<Rightarrow> int \<Rightarrow> int option) \<Rightarrow> int \<Rightarrow> string \<Rightarrow> js_error + LocalParts" where
  "shopLocalParts tzOffset now timeZone =
     (case tzOffset timeZone now of
        None \<Rightarrow> Inl (InvalidTimeZone timeZone)
      | Some off \<Rightarrow> (let secs = now div 1000 + off in
          Inr \<lparr>lp_weekday = weekdays ! nat ((secs div 86400 + 3) mod 7),
               lp_minutesOfDay = (secs mod 86400) div 60\<rparr>))"

text \<open>
  \<open>Number(v)\<close> when it is an integer, on decimal literals without exponent (the empty text
  reads as 0); hexadecimal and exponent forms are not modelled.
\<close>

definition numberInteger :: "string \<Rightarrow> int option" where
  "numberInteger v =
     (let neg = (v \<noteq> [] \<and> hd v = CHR ''-'');
          body = (if v \<noteq> [] \<and> (hd v = CHR ''-'' \<or> hd v = CHR ''+'') then tl v else v);
          w = takeWhile is_digit body; r = dropWhile is_digit body
      in if v = [] then Some 0
         else if (r = [] \<and> w \<noteq> []) \<or> (r \<noteq> [] \<and> hd r = CHR ''.'' \<and> list_all is_digit (tl r)
                 \<and> (w \<noteq> [] \<or> tl r \<noteq> []) \<and> dec_val (tl r) = 0)
         then Some (if neg then - int (dec_val w) else int (dec_val w))
         else None)"

definition normalizeWeekday :: "string \<Rightarrow> WeekdayCode option" where
  "normalizeWeekday value =
     (let v = to_upper (trim value); short = to_lower (take 3 v) in
      case map_of weekdayFromShort short of
        Some w \<Rightarrow> Some w
      | None \<Rightarrow> (case numberInteger v of
           Some n \<Rightarrow> if 1 \<le> n \<and> n \<le> 7 then Some (weekdays ! nat (n - 1)) else None
         | None \<Rightarrow> None))"

text \<open>The regular expression \<open>^([01]?\d|2[0-3]):([0-5]\d)$\<close>.\<close>

definition parseTimeOfDay :: "string \<Rightarrow> int option" where
  "parseTimeOfDay value =
     (let s = trim value; h = takeWhile (\<lambda>c. c \<noteq> CHR '':'') s; m = drop (Suc (length h)) s in
      if length h < length s \<and> list_all is_digit h \<and> (length h = 1 \<or> length h = 2) \<and> dec_val h \<le> 23
         \<and> length m = 2 \<and> list_all is_digit m \<and> dec_val m \<le> 59
      then Some (int (dec_val h) * 60 + int (dec_val m)) else None)"

section \<open>Conditions\<close>

definition candidateLevelFields :: "RuleConditionField list" where
  "candidateLevelFields = [ESTIMATED_FREIGHT, VOLUMETRIC_WEIGHT, ZONE]"

definition ruleFold :: "string \<Rightarrow> string" where
  "ruleFold value = to_lower (trim value)"

datatype Operand = NoOperand | TextOperand string | CountOperand int | ValuesOperand "string option list"

datatype TraceNote = OK | MISSING_DATA | DEFERRED_TO_CANDIDATES

record ConditionOutcome =
  oc_matched :: bool
  oc_operand :: Operand
  oc_note :: TraceNote

definition MISSING :: ConditionOutcome where
  "MISSING = \<lparr>oc_matched = False, oc_operand = NoOperand, oc_note = MISSING_DATA\<rparr>"

definition numericMatch :: "RuleOperator \<Rightarrow> string \<Rightarrow> ConditionValue \<Rightarrow> bool option" where
  "numericMatch operator operand val =
     (case operator of
        EQUALS \<Rightarrow> (case cv_value val of None \<Rightarrow> None | Some v \<Rightarrow> map_option (\<lambda>c. c = 0) (cmpDecimal operand v))
      | BETWEEN \<Rightarrow> (case (cv_min val, cv_max val) of
           (Some mn, Some mx) \<Rightarrow>
             (case (cmpDecimal operand mn, cmpDecimal operand mx) of
                (Some lo, Some hi) \<Rightarrow> Some (lo \<ge> 0 \<and> hi \<le> 0) | _ \<Rightarrow> None)
         | _ \<Rightarrow> None)
      | GTE \<Rightarrow> (case cv_value val of None \<Rightarrow> None | Some v \<Rightarrow> map_option (\<lambda>c. c \<ge> 0) (cmpDecimal operand v))
      | LTE \<Rightarrow> (case cv_value val of None \<Rightarrow> None | Some v \<Rightarrow> map_option (\<lambda>c. c \<le> 0) (cmpDecimal operand v))
      | _ \<Rightarrow> None)"

definition anyNoneMatch :: "RuleOperator \<Rightarrow> string option list \<Rightarrow> string list \<Rightarrow> bool \<Rightarrow> bool option" where
  "anyNoneMatch operator values items caseFold =
     (let norm = (\<lambda>v. if caseFold then ruleFold v else trim v);
          wanted = set (map norm items);
          present = map norm (filter (\<lambda>v. trim v \<noteq> []) (List.map_filter id values))
      in if length present = 0 then None
         else (let anyHit = list_ex (\<lambda>v. v \<in> wanted) present
               in Some (if operator = IN_LIST then anyHit else \<not> anyHit)))"

text \<open>The shape every numeric field and every list field shares: an outcome or missing data.\<close>

definition numericOutcome ::
  "RuleOperator \<Rightarrow> ConditionValue \<Rightarrow> string \<Rightarrow> Operand \<Rightarrow> ConditionOutcome" where
  "numericOutcome operator val text shown =
     (case numericMatch operator text val of
        None \<Rightarrow> MISSING
      | Some m \<Rightarrow> \<lparr>oc_matched = m, oc_operand = shown, oc_note = OK\<rparr>)"

definition listOutcome ::
  "RuleOperator \<Rightarrow> string list \<Rightarrow> string option list \<Rightarrow> ConditionOutcome" where
  "listOutcome operator items values =
     (case anyNoneMatch operator values items False of
        None \<Rightarrow> MISSING
      | Some m \<Rightarrow> \<lparr>oc_matched = m, oc_operand = ValuesOperand values, oc_note = OK\<rparr>)"

definition foldedOutcome :: "RuleOperator \<Rightarrow> string list \<Rightarrow> string \<Rightarrow> ConditionOutcome" where
  "foldedOutcome operator items operand =
     (let inside = ruleFold operand \<in> set (map ruleFold items)
      in \<lparr>oc_matched = (if operator = NOT_IN_LIST then \<not> inside else inside),
          oc_operand = TextOperand operand, oc_note = OK\<rparr>)"

definition evalCondition :: "ConditionDef \<Rightarrow> OrderFacts \<Rightarrow> LocalParts \<Rightarrow> ConditionOutcome" where
  "evalCondition cond order localParts =
     (let operator = cd_operator cond; val = cd_value cond;
          items = (case cv_list val of None \<Rightarrow> [] | Some l \<Rightarrow> l);
          numeric = (\<lambda>operand. case operand of None \<Rightarrow> MISSING
             | Some t \<Rightarrow> numericOutcome operator val t (TextOperand t))
      in if cd_field cond \<in> set candidateLevelFields
         then \<lparr>oc_matched = True, oc_operand = NoOperand, oc_note = DEFERRED_TO_CANDIDATES\<rparr>
         else (case cd_field cond of
           WEIGHT \<Rightarrow> numeric (of_deadWeightKg order)
         | ORDER_AMOUNT \<Rightarrow> numeric (of_orderAmount order)
         | COD_AMOUNT \<Rightarrow> numeric (of_codAmount order)
         | CHECKOUT_SHIPPING_AMOUNT \<Rightarrow> numeric (of_checkoutShippingAmount order)
         | ITEM_COUNT \<Rightarrow> (case of_itemCount order of None \<Rightarrow> MISSING
             | Some n \<Rightarrow> numericOutcome operator val (show_int n) (CountOperand n))
         | PAYMENT_MODE \<Rightarrow>
             (let shown = TextOperand (case of_paymentMode order of PREPAID \<Rightarrow> ''PREPAID''
                 | COD \<Rightarrow> ''COD'' | UNRESOLVED \<Rightarrow> ''UNRESOLVED'')
              in if operator = IS_COD then \<lparr>oc_matched = (of_paymentMode order = COD), oc_operand = shown, oc_note = OK\<rparr>
                 else if operator = IS_PREPAID then \<lparr>oc_matched = (of_paymentMode order = PREPAID), oc_operand = shown, oc_note = OK\<rparr>
                 else MISSING)
         | PINCODE \<Rightarrow> (case of_destinationPincode order of None \<Rightarrow> MISSING
             | Some pin \<Rightarrow>
                 (let pins = (if operator = IN_SAVED_ZONE \<or> operator = CSV_UPLOAD
                        then (case cv_pincodes val of None \<Rightarrow> [] | Some p \<Rightarrow> p) else items);
                      inside = pin \<in> set (map trim pins)
                  in \<lparr>oc_matched = (if operator = NOT_IN_LIST then \<not> inside
                          else if operator = IN_LIST \<or> operator = IN_SAVED_ZONE \<or> operator = CSV_UPLOAD
                          then inside else False),
                      oc_operand = TextOperand pin, oc_note = OK\<rparr>))
         | SKU \<Rightarrow> listOutcome operator items (of_skus order)
         | PRODUCT \<Rightarrow> listOutcome operator items (of_products order)
         | VENDOR \<Rightarrow> listOutcome operator items (of_vendors order)
         | COLLECTION \<Rightarrow> listOutcome operator items (of_collections order)
         | TAG \<Rightarrow> listOutcome operator items (map Some (of_tags order))
         | DEST_STATE \<Rightarrow> (case of_destState order of None \<Rightarrow> MISSING | Some t \<Rightarrow> foldedOutcome operator items t)
         | DEST_CITY \<Rightarrow> (case of_destCity order of None \<Rightarrow> MISSING | Some t \<Rightarrow> foldedOutcome operator items t)
         | CHECKOUT_SHIPPING_TITLE \<Rightarrow> (case of_checkoutShippingTitle order of None \<Rightarrow> MISSING
             | Some t \<Rightarrow>
                 if operator = CONTAINS then
                   (let needle = ruleFold (case items of l # _ \<Rightarrow> l
                          | [] \<Rightarrow> (case cv_value val of Some v \<Rightarrow> v | None \<Rightarrow> []))
                    in if needle = [] then MISSING
                       else \<lparr>oc_matched = includes_str needle (ruleFold t),
                             oc_operand = TextOperand t, oc_note = OK\<rparr>)
                 else foldedOutcome operator items t)
         | RISK_FLAG \<Rightarrow> (case of_riskFlag order of None \<Rightarrow> MISSING
             | Some flag \<Rightarrow>
                 if trim flag = [] then MISSING
                 else (let high = (to_upper (trim flag) = ''HIGH'')
                       in \<lparr>oc_matched = (if operator = IS_HIGH then high else \<not> high),
                           oc_operand = TextOperand flag, oc_note = OK\<rparr>))
         | WEEKDAY \<Rightarrow>
             (let wanted = List.map_filter normalizeWeekday items
              in if wanted = [] then MISSING
                 else \<lparr>oc_matched = (lp_weekday localParts \<in> set wanted),
                       oc_operand = TextOperand (weekdayText (lp_weekday localParts)), oc_note = OK\<rparr>)
         | TIME_OF_DAY \<Rightarrow>
             (case (cv_min val, cv_max val) of
                (Some mn, Some mx) \<Rightarrow>
                  if operator \<noteq> BETWEEN then MISSING
                  else (case (parseTimeOfDay mn, parseTimeOfDay mx) of
                     (Some lo, Some hi) \<Rightarrow>
                       (let t = lp_minutesOfDay localParts
                        in \<lparr>oc_matched = (if lo \<le> hi then lo \<le> t \<and> t \<le> hi else lo \<le> t \<or> t \<le> hi),
                            oc_operand = TextOperand (pad_start 2 (CHR ''0'') (show_int (t div 60)) @ '':''
                               @ pad_start 2 (CHR ''0'') (show_int (t mod 60))), oc_note = OK\<rparr>)
                   | _ \<Rightarrow> MISSING)
              | _ \<Rightarrow> MISSING)
         | _ \<Rightarrow> MISSING))"

end
