(* ===== verification/RuleEvaluate.thy ===== *)
theory RuleEvaluate
  imports RuleConditions
begin

text \<open>
  The second half of \<open>src/modules/rules/evaluate.ts\<close>: candidate filters, elimination, the
  four actions and the default chain.  The code keeps one mutable \<open>CandidateResult\<close> per
  Service and every run over candidates shares it, so the results are an explicit store,
  keyed by Service id, that each step takes and returns; a run candidate holds the key.
\<close>

section \<open>Candidates, results and traces\<close>

record CandidateQuote =
  cq_serviceable :: bool
  cq_failureReasons :: "string list"
  cq_rateAvailable :: bool
  cq_total :: "string option"
  cq_eddFrom :: "string option"
  cq_eddTo :: "string option"
  cq_fetchedAt :: "string option"

datatype CostSource = RATE_CARD | LIVE_QUOTE | NONE_SOURCE

record CandidateFacts =
  cf_serviceId :: string
  cf_courierAccountId :: "string option"
  cf_costSource :: CostSource
  cf_bookable :: bool
  cf_notBookableReason :: "string option"
  cf_priorityTiebreakOrder :: int
  cf_quote :: "CandidateQuote option"
  cf_quoteError :: "string option"
  cf_zone :: "string option"
  cf_volumetricWeightKg :: "string option"

record EvaluateInput =
  ev_now :: int
  ev_shopTimezone :: string
  ev_eddStaleMs :: int
  ev_rules :: "RuleDef list"
  ev_order :: OrderFacts
  ev_candidates :: "CandidateFacts list"
  ev_defaultChainServiceIds :: "string list option"

datatype RuleTraceStatus = MATCHED | NO_MATCH | SKIPPED_INACTIVE | SKIPPED_SCHEDULE | NOT_EVALUATED

record ConditionTrace =
  ct_cond :: ConditionDef
  ct_outcome :: ConditionOutcome

record GroupTrace =
  gt_position :: int
  gt_matched :: bool
  gt_conditions :: "ConditionTrace list"

record RuleTrace =
  rt_ruleId :: string
  rt_name :: string
  rt_version :: int
  rt_position :: int
  rt_status :: RuleTraceStatus
  rt_groups :: "GroupTrace list"

datatype EliminationCode =
    SERVICE_UNKNOWN | EXCLUDED_BY_RULE | NOT_BOOKABLE | NOT_SERVICEABLE | ZONE_FILTERED
  | ESTIMATED_FREIGHT_FILTERED | VOLUMETRIC_WEIGHT_FILTERED | PRICE_UNAVAILABLE | EDD_MISSING
  | EDD_STALE

record EliminationReason =
  er_code :: EliminationCode
  er_detail :: string

record CandidateResult =
  cr_serviceId :: string
  cr_costSource :: "CostSource option"
  cr_cost :: "string option"
  cr_eddFrom :: "string option"
  cr_eddTo :: "string option"
  cr_quoteFetchedAt :: "string option"
  cr_zone :: "string option"
  cr_volumetricWeightKg :: "string option"
  cr_eliminated :: bool
  cr_reasons :: "EliminationReason list"
  cr_selected :: bool

datatype ManualAssignmentReason =
  HELD_BY_RULE | CHAIN_EXHAUSTED | NO_SERVICEABLE_CANDIDATE | NO_RULE_AND_NO_DEFAULT_CHAIN

datatype FallbackKind = S22_DEFAULT_CHAIN | CHAIN_FALLBACK

record FallbackChainTrace =
  fc_kind :: FallbackKind
  fc_note :: string
  fc_serviceIds :: "string list"

datatype EvaluationOutcome = SELECTED string | MANUAL_ASSIGNMENT ManualAssignmentReason

record EvaluationResult =
  rs_matchedRuleId :: "string option"
  rs_matchedRuleVersion :: "int option"
  rs_ruleTraces :: "RuleTrace list"
  rs_candidateResults :: "CandidateResult list"
  rs_selectedServiceId :: "string option"
  rs_fallbackChain :: "FallbackChainTrace option"
  rs_outcome :: EvaluationOutcome

section \<open>Candidate-level filters\<close>

record CandidateFilters =
  fl_zone :: "(RuleOperator \<times> string list) option"
  fl_freight :: "ConditionDef option"
  fl_volumetric :: "ConditionDef option"

definition noFilters :: CandidateFilters where
  "noFilters = \<lparr>fl_zone = None, fl_freight = None, fl_volumetric = None\<rparr>"

definition addFilter :: "CandidateFilters \<Rightarrow> ConditionDef \<Rightarrow> CandidateFilters" where
  "addFilter filters cond =
     (if cd_field cond = ZONE \<and> fl_zone filters = None then
        filters\<lparr>fl_zone := Some (if cd_operator cond = NOT_IN_LIST then NOT_IN_LIST else IN_LIST,
          map (\<lambda>z. to_upper (trim z)) (case cv_list (cd_value cond) of None \<Rightarrow> [] | Some l \<Rightarrow> l))\<rparr>
      else if cd_field cond = ESTIMATED_FREIGHT \<and> fl_freight filters = None then
        filters\<lparr>fl_freight := Some cond\<rparr>
      else if cd_field cond = VOLUMETRIC_WEIGHT \<and> fl_volumetric filters = None then
        filters\<lparr>fl_volumetric := Some cond\<rparr>
      else filters)"

definition collectCandidateFilters :: "RuleDef \<Rightarrow> CandidateFilters" where
  "collectCandidateFilters rule =
     foldl (\<lambda>filters group. foldl addFilter filters (cg_conditions group)) noFilters (rd_groups rule)"

definition operatorText :: "RuleOperator \<Rightarrow> string" where
  "operatorText operator = (case operator of EQUALS \<Rightarrow> ''EQUALS'' | BETWEEN \<Rightarrow> ''BETWEEN'' | GTE \<Rightarrow> ''GTE''
     | LTE \<Rightarrow> ''LTE'' | IN_LIST \<Rightarrow> ''IN_LIST'' | NOT_IN_LIST \<Rightarrow> ''NOT_IN_LIST''
     | IN_SAVED_ZONE \<Rightarrow> ''IN_SAVED_ZONE'' | CSV_UPLOAD \<Rightarrow> ''CSV_UPLOAD'' | IS_COD \<Rightarrow> ''IS_COD''
     | IS_PREPAID \<Rightarrow> ''IS_PREPAID'' | CONTAINS \<Rightarrow> ''CONTAINS'' | IS_HIGH \<Rightarrow> ''IS_HIGH''
     | IS_NOT_HIGH \<Rightarrow> ''IS_NOT_HIGH'')"

abbreviation reason :: "EliminationCode \<Rightarrow> string \<Rightarrow> EliminationReason" where
  "reason code detail \<equiv> \<lparr>er_code = code, er_detail = detail\<rparr>"

definition usableTotal :: "CandidateFacts \<Rightarrow> string option" where
  "usableTotal facts = (case cf_quote facts of None \<Rightarrow> None
     | Some q \<Rightarrow> if cq_rateAvailable q then cq_total q else None)"

definition zoneReasons :: "CandidateFacts \<Rightarrow> CandidateFilters \<Rightarrow> EliminationReason list" where
  "zoneReasons facts filters = (case fl_zone filters of None \<Rightarrow> []
     | Some (operator, items) \<Rightarrow> (case cf_zone facts of
         None \<Rightarrow> [reason ZONE_FILTERED ''zone unresolved for this candidate (no matching zone-map rule)'']
       | Some zone \<Rightarrow>
           (let inside = to_upper zone \<in> set items;
                ok = (if operator = IN_LIST then inside else \<not> inside)
            in if ok then []
               else [reason ZONE_FILTERED (''zone '' @ zone @ '' fails '' @ operatorText operator
                  @ '' ['' @ joinStr '', '' items @ '']'')])))"

definition freightReasons :: "CandidateFacts \<Rightarrow> CandidateFilters \<Rightarrow> EliminationReason list" where
  "freightReasons facts filters = (case fl_freight filters of None \<Rightarrow> []
     | Some cond \<Rightarrow> (case usableTotal facts of
         None \<Rightarrow> [reason ESTIMATED_FREIGHT_FILTERED ''no usable price - filter operand unresolvable'']
       | Some ttl \<Rightarrow>
           if numericMatch (cd_operator cond) ttl (cd_value cond) = Some True then []
           else [reason ESTIMATED_FREIGHT_FILTERED (''freight '' @ ttl @ '' fails ''
                  @ operatorText (cd_operator cond))]))"

definition volumetricReasons :: "CandidateFacts \<Rightarrow> CandidateFilters \<Rightarrow> EliminationReason list" where
  "volumetricReasons facts filters = (case fl_volumetric filters of None \<Rightarrow> []
     | Some cond \<Rightarrow> (case cf_volumetricWeightKg facts of
         None \<Rightarrow> [reason VOLUMETRIC_WEIGHT_FILTERED ''volumetric weight unresolvable (missing divisor/dimensions)'']
       | Some w \<Rightarrow>
           if numericMatch (cd_operator cond) w (cd_value cond) = Some True then []
           else [reason VOLUMETRIC_WEIGHT_FILTERED (''volumetric '' @ w @ '' kg fails ''
                  @ operatorText (cd_operator cond))]))"

definition candidateFilterReasons :: "CandidateFacts \<Rightarrow> CandidateFilters \<Rightarrow> EliminationReason list" where
  "candidateFilterReasons facts filters =
     zoneReasons facts filters @ freightReasons facts filters @ volumetricReasons facts filters"

section \<open>The rule scan\<close>

definition outsideSchedule :: "(string \<Rightarrow> int option) \<Rightarrow> RuleDef \<Rightarrow> int \<Rightarrow> bool" where
  "outsideSchedule legacyParse rule t \<longleftrightarrow>
     (case Option.bind (rd_activeFrom rule) (dateParse legacyParse) of None \<Rightarrow> False | Some f \<Rightarrow> t < f)
   \<or> (case Option.bind (rd_activeTo rule) (dateParse legacyParse) of None \<Rightarrow> False | Some u \<Rightarrow> t \<ge> u)"

definition groupTrace :: "OrderFacts \<Rightarrow> LocalParts \<Rightarrow> ConditionGroupDef \<Rightarrow> GroupTrace" where
  "groupTrace order localParts g =
     (let conditions = map (\<lambda>c. \<lparr>ct_cond = c, ct_outcome = evalCondition c order localParts\<rparr>) (cg_conditions g)
      in \<lparr>gt_position = cg_position g, gt_matched = list_all (\<lambda>c. oc_matched (ct_outcome c)) conditions,
          gt_conditions = conditions\<rparr>)"

definition traceOf :: "RuleDef \<Rightarrow> RuleTraceStatus \<Rightarrow> GroupTrace list \<Rightarrow> RuleTrace" where
  "traceOf rule status groups = \<lparr>rt_ruleId = rd_ruleId rule, rt_name = rd_name rule,
     rt_version = rd_version rule, rt_position = rd_position rule, rt_status = status, rt_groups = groups\<rparr>"

fun scanRules ::
  "(string \<Rightarrow> int option) \<Rightarrow> int \<Rightarrow> OrderFacts \<Rightarrow> LocalParts \<Rightarrow> RuleDef option \<Rightarrow> RuleDef list
     \<Rightarrow> RuleDef option \<times> RuleTrace list" where
  "scanRules lp now order localParts matched [] = (matched, [])"
| "scanRules lp now order localParts (Some r) (rule # rules) =
     (let (m, ts) = scanRules lp now order localParts (Some r) rules
      in (m, traceOf rule NOT_EVALUATED [] # ts))"
| "scanRules lp now order localParts None (rule # rules) =
     (if \<not> rd_isActive rule then
        (let (m, ts) = scanRules lp now order localParts None rules
         in (m, traceOf rule SKIPPED_INACTIVE [] # ts))
      else if outsideSchedule lp rule now then
        (let (m, ts) = scanRules lp now order localParts None rules
         in (m, traceOf rule SKIPPED_SCHEDULE [] # ts))
      else
        (let groups = map (groupTrace order localParts) (rd_groups rule);
             isMatch = list_ex gt_matched groups;
             (m, ts) = scanRules lp now order localParts (if isMatch then Some rule else None) rules
         in (m, traceOf rule (if isMatch then MATCHED else NO_MATCH) groups # ts)))"

section \<open>The store of candidate results\<close>

type_synonym result_store = "(string \<times> CandidateResult) list"

definition factsFor :: "EvaluateInput \<Rightarrow> string \<Rightarrow> CandidateFacts option" where
  "factsFor inp serviceId =
     map_of (map_from (map (\<lambda>c. (cf_serviceId c, c)) (ev_candidates inp))) serviceId"

definition freshResult :: "string \<Rightarrow> CandidateFacts option \<Rightarrow> CandidateResult" where
  "freshResult serviceId facts = \<lparr>cr_serviceId = serviceId, cr_costSource = map_option cf_costSource facts,
     cr_cost = Option.bind facts usableTotal,
     cr_eddFrom = Option.bind (Option.bind facts cf_quote) cq_eddFrom,
     cr_eddTo = Option.bind (Option.bind facts cf_quote) cq_eddTo,
     cr_quoteFetchedAt = Option.bind (Option.bind facts cf_quote) cq_fetchedAt,
     cr_zone = Option.bind facts cf_zone,
     cr_volumetricWeightKg = Option.bind facts cf_volumetricWeightKg,
     cr_eliminated = False, cr_reasons = [], cr_selected = False\<rparr>"

definition resultFor :: "EvaluateInput \<Rightarrow> string \<Rightarrow> result_store \<Rightarrow> CandidateResult \<times> result_store" where
  "resultFor inp serviceId store =
     (case map_of store serviceId of
        Some existing \<Rightarrow> (existing, store)
      | None \<Rightarrow> (let created = freshResult serviceId (factsFor inp serviceId)
                 in (created, map_set serviceId created store)))"

definition update_result :: "string \<Rightarrow> (CandidateResult \<Rightarrow> CandidateResult) \<Rightarrow> result_store \<Rightarrow> result_store" where
  "update_result serviceId f store =
     (case map_of store serviceId of None \<Rightarrow> store | Some r \<Rightarrow> map_set serviceId (f r) store)"

definition eliminate :: "EliminationReason \<Rightarrow> CandidateResult \<Rightarrow> CandidateResult" where
  "eliminate why r = r\<lparr>cr_reasons := cr_reasons r @ [why], cr_eliminated := True\<rparr>"

definition select_result :: "CandidateResult \<Rightarrow> CandidateResult" where
  "select_result r = r\<lparr>cr_selected := True\<rparr>"

definition is_eliminated :: "result_store \<Rightarrow> string \<Rightarrow> bool" where
  "is_eliminated store serviceId = (case map_of store serviceId of None \<Rightarrow> False | Some r \<Rightarrow> cr_eliminated r)"

record RunCandidate =
  rc_facts :: "CandidateFacts option"
  rc_serviceId :: string
  rc_chainPosition :: nat

section \<open>Building a run\<close>

definition buildReasons ::
  "string list \<Rightarrow> CandidateFilters option \<Rightarrow> string \<Rightarrow> CandidateFacts option \<Rightarrow> EliminationReason list" where
  "buildReasons excluded filters serviceId facts =
     (case facts of
        None \<Rightarrow> [reason SERVICE_UNKNOWN ''no merchant service row'']
      | Some f \<Rightarrow>
          (if serviceId \<in> set excluded then [reason EXCLUDED_BY_RULE ''in rule excluded_service_ids''] else [])
        @ (if \<not> cf_bookable f then [reason NOT_BOOKABLE (case cf_notBookableReason f of
             Some d \<Rightarrow> d | None \<Rightarrow> ''merchant service not enabled'')] else [])
        @ (case filters of None \<Rightarrow> [] | Some fs \<Rightarrow> candidateFilterReasons f fs))"

definition buildOne ::
  "EvaluateInput \<Rightarrow> string list \<Rightarrow> CandidateFilters option \<Rightarrow> string \<Rightarrow> result_store \<Rightarrow> result_store" where
  "buildOne inp excluded filters serviceId store =
     (let (result, store) = resultFor inp serviceId store;
          rs = cr_reasons result @ buildReasons excluded filters serviceId (factsFor inp serviceId)
      in map_set serviceId (result\<lparr>cr_reasons := rs, cr_eliminated := (length rs > 0)\<rparr>) store)"

fun buildRun ::
  "EvaluateInput \<Rightarrow> string list \<Rightarrow> CandidateFilters option \<Rightarrow> nat \<Rightarrow> string list \<Rightarrow> result_store
     \<Rightarrow> RunCandidate list \<times> result_store" where
  "buildRun inp excluded filters n [] store = ([], store)"
| "buildRun inp excluded filters n (serviceId # ids) store =
     (let (run, store) = buildRun inp excluded filters (Suc n) ids (buildOne inp excluded filters serviceId store)
      in (\<lparr>rc_facts = factsFor inp serviceId, rc_serviceId = serviceId, rc_chainPosition = n\<rparr> # run, store))"

section \<open>Actions\<close>

definition quoteOf :: "RunCandidate \<Rightarrow> CandidateQuote option" where
  "quoteOf c = Option.bind (rc_facts c) cf_quote"

definition usablePrice :: "RunCandidate \<Rightarrow> bool" where
  "usablePrice c \<longleftrightarrow> (case rc_facts c of None \<Rightarrow> False
     | Some f \<Rightarrow> cf_costSource f \<noteq> NONE_SOURCE \<and> usableTotal f \<noteq> None)"

datatype EddState = USABLE | MISSING_EDD | STALE

definition eddState :: "(string \<Rightarrow> int option) \<Rightarrow> EvaluateInput \<Rightarrow> RunCandidate \<Rightarrow> EddState" where
  "eddState legacyParse inp c =
     (case quoteOf c of None \<Rightarrow> MISSING_EDD
      | Some q \<Rightarrow> (case (cq_eddTo q, cq_fetchedAt q) of
          (Some _, Some fetched) \<Rightarrow> (case dateParse legacyParse fetched of
               None \<Rightarrow> USABLE
             | Some t \<Rightarrow> if ev_now inp - t > ev_eddStaleMs inp then STALE else USABLE)
        | _ \<Rightarrow> MISSING_EDD))"

definition serviceable :: "RunCandidate \<Rightarrow> bool" where
  "serviceable c \<longleftrightarrow> (case rc_facts c of None \<Rightarrow> False
     | Some f \<Rightarrow> (case cf_quote f of None \<Rightarrow> True | Some q \<Rightarrow> cq_serviceable q))"

definition notServiceable :: "RunCandidate \<Rightarrow> EliminationReason" where
  "notServiceable c =
     (let text = joinStr ''; '' (case quoteOf c of None \<Rightarrow> [] | Some q \<Rightarrow> cq_failureReasons q)
      in reason NOT_SERVICEABLE (if text = [] then ''lane not serviceable'' else text))"

fun runPriorityChain :: "RunCandidate list \<Rightarrow> result_store \<Rightarrow> RunCandidate option \<times> result_store" where
  "runPriorityChain [] store = (None, store)"
| "runPriorityChain (c # run) store =
     (if is_eliminated store (rc_serviceId c) then runPriorityChain run store
      else if \<not> serviceable c then
        runPriorityChain run (update_result (rc_serviceId c) (eliminate (notServiceable c)) store)
      else (Some c, update_result (rc_serviceId c) select_result store))"

definition priceUnavailable :: "RunCandidate \<Rightarrow> EliminationReason" where
  "priceUnavailable c = reason PRICE_UNAVAILABLE
     (case Option.bind (rc_facts c) cf_quoteError of Some e \<Rightarrow> e
      | None \<Rightarrow> if map_option cf_costSource (rc_facts c) = Some NONE_SOURCE
               then ''COST_SOURCE = NONE'' else ''no usable price'')"

definition eddReason :: "EddState \<Rightarrow> RunCandidate \<Rightarrow> EliminationReason" where
  "eddReason state c =
     (if state = STALE then reason EDD_STALE (''quote fetched at ''
        @ (case Option.bind (quoteOf c) cq_fetchedAt of Some t \<Rightarrow> t | None \<Rightarrow> ''?'') @ '' older than S-18'')
      else reason EDD_MISSING ''no EDD on the quote'')"

fun keepPriced :: "RunCandidate list \<Rightarrow> result_store \<Rightarrow> RunCandidate list \<times> result_store" where
  "keepPriced [] store = ([], store)"
| "keepPriced (c # cs) store =
     (if \<not> serviceable c then
        keepPriced cs (update_result (rc_serviceId c) (eliminate (notServiceable c)) store)
      else if \<not> usablePrice c then
        keepPriced cs (update_result (rc_serviceId c) (eliminate (priceUnavailable c)) store)
      else (let (priced, store) = keepPriced cs store in (c # priced, store)))"

fun keepEdd ::
  "(string \<Rightarrow> int option) \<Rightarrow> EvaluateInput \<Rightarrow> RunCandidate list \<Rightarrow> result_store \<Rightarrow> RunCandidate list \<times> result_store" where
  "keepEdd lp inp [] store = ([], store)"
| "keepEdd lp inp (c # cs) store =
     (if \<not> serviceable c then
        keepEdd lp inp cs (update_result (rc_serviceId c) (eliminate (notServiceable c)) store)
      else if eddState lp inp c \<noteq> USABLE then
        keepEdd lp inp cs (update_result (rc_serviceId c) (eliminate (eddReason (eddState lp inp c) c)) store)
      else (let (usable, store) = keepEdd lp inp cs store in (c # usable, store)))"

definition tiebreak :: "RunCandidate \<Rightarrow> RunCandidate \<Rightarrow> int" where
  "tiebreak a b =
     (let order = (\<lambda>c. case rc_facts c of None \<Rightarrow> 0 | Some f \<Rightarrow> cf_priorityTiebreakOrder f);
          tie = order a - order b
      in if tie \<noteq> 0 then tie else int (rc_chainPosition a) - int (rc_chainPosition b))"

definition cheaper :: "result_store \<Rightarrow> RunCandidate \<Rightarrow> RunCandidate \<Rightarrow> int" where
  "cheaper store a b =
     (let cost = (\<lambda>c. case Option.bind (map_of store (rc_serviceId c)) cr_cost of None \<Rightarrow> ''0'' | Some t \<Rightarrow> t);
          cmp = (case cmpDecimal (cost a) (cost b) of None \<Rightarrow> 0 | Some x \<Rightarrow> x)
      in if cmp \<noteq> 0 then cmp else tiebreak a b)"

text \<open>A comparison of unreadable dates is \<open>NaN\<close>, which the sort takes as equal.\<close>

definition faster :: "(string \<Rightarrow> int option) \<Rightarrow> result_store \<Rightarrow> RunCandidate \<Rightarrow> RunCandidate \<Rightarrow> int" where
  "faster legacyParse store a b =
     (let edd = (\<lambda>c. dateParse legacyParse
            (case Option.bind (map_of store (rc_serviceId c)) cr_eddTo of None \<Rightarrow> [] | Some t \<Rightarrow> t))
      in case (edd a, edd b) of
           (Some x, Some y) \<Rightarrow> if x - y \<noteq> 0 then x - y else tiebreak a b
         | _ \<Rightarrow> 0)"

section \<open>The evaluation\<close>

definition finish ::
  "RuleDef option \<Rightarrow> RuleTrace list \<Rightarrow> result_store \<Rightarrow> EvaluationOutcome \<Rightarrow> FallbackChainTrace option
     \<Rightarrow> EvaluationResult" where
  "finish matched traces store outcome fallback = \<lparr>rs_matchedRuleId = map_option rd_ruleId matched,
     rs_matchedRuleVersion = map_option rd_version matched, rs_ruleTraces = traces,
     rs_candidateResults = map snd store,
     rs_selectedServiceId = (case outcome of SELECTED s \<Rightarrow> Some s | _ \<Rightarrow> None),
     rs_fallbackChain = fallback, rs_outcome = outcome\<rparr>"

definition runDefaultChain ::
  "EvaluateInput \<Rightarrow> RuleDef option \<Rightarrow> RuleTrace list \<Rightarrow> string \<Rightarrow> FallbackKind \<Rightarrow> result_store
     \<Rightarrow> EvaluationResult" where
  "runDefaultChain inp matched traces note kind store =
     (let chainIds = (case ev_defaultChainServiceIds inp of None \<Rightarrow> [] | Some ids \<Rightarrow> ids);
          failed = MANUAL_ASSIGNMENT (if matched \<noteq> None then NO_SERVICEABLE_CANDIDATE
                     else NO_RULE_AND_NO_DEFAULT_CHAIN)
      in if length chainIds = 0 then
           finish matched traces store failed
             (Some \<lparr>fc_kind = kind, fc_note = note @ ''; S-22 unset'', fc_serviceIds = []\<rparr>)
         else
           (let (run, store) = buildRun inp [] None 0 chainIds store;
                (picked, store) = runPriorityChain run store;
                fallback = Some \<lparr>fc_kind = kind, fc_note = note, fc_serviceIds = chainIds\<rparr>
            in case picked of
                 None \<Rightarrow> finish matched traces store failed fallback
               | Some c \<Rightarrow> finish matched traces store (SELECTED (rc_serviceId c)) fallback))"

definition runAction ::
  "(string \<Rightarrow> int option) \<Rightarrow> EvaluateInput \<Rightarrow> RuleDef \<Rightarrow> RuleTrace list \<Rightarrow> EvaluationResult" where
  "runAction legacyParse inp rule traces =
     (let filters = collectCandidateFilters rule;
          hasFilters = (fl_zone filters \<noteq> None \<or> fl_freight filters \<noteq> None \<or> fl_volumetric filters \<noteq> None);
          (run, store) = buildRun inp (rd_excludedServiceIds rule)
             (if hasFilters then Some filters else None) 0 (rd_actionServiceIds rule) [];
          survivors = filter (\<lambda>c. \<not> is_eliminated store (rc_serviceId c)) run
      in if rd_actionType rule = PRIORITY_CHAIN then
           (let (picked, store) = runPriorityChain survivors store
            in case picked of
                 None \<Rightarrow> finish (Some rule) traces store (MANUAL_ASSIGNMENT CHAIN_EXHAUSTED) None
               | Some c \<Rightarrow> finish (Some rule) traces store (SELECTED (rc_serviceId c)) None)
         else if rd_actionType rule = CHEAPEST then
           (let (priced, store) = keepPriced survivors store
            in if length priced = 0 then
                 runDefaultChain inp (Some rule) traces ''price unavailable - fell back to chain'' CHAIN_FALLBACK store
               else (let c = hd (js_sort (cheaper store) priced) in
                 finish (Some rule) traces (update_result (rc_serviceId c) select_result store)
                   (SELECTED (rc_serviceId c)) None))
         else
           (let (usable, store) = keepEdd legacyParse inp survivors store
            in if length usable = 0 then
                 runDefaultChain inp (Some rule) traces ''no usable EDD - fell back to chain'' CHAIN_FALLBACK store
               else (let c = hd (js_sort (faster legacyParse store) usable) in
                 finish (Some rule) traces (update_result (rc_serviceId c) select_result store)
                   (SELECTED (rc_serviceId c)) None)))"

definition evaluate ::
  "(string \<Rightarrow> int \<Rightarrow> int option) \<Rightarrow> (string \<Rightarrow> int option) \<Rightarrow> EvaluateInput \<Rightarrow> js_error + EvaluationResult" where
  "evaluate tzOffset legacyParse inp =
     bindR (shopLocalParts tzOffset (ev_now inp) (ev_shopTimezone inp)) (\<lambda>localParts.
     (let (matched, traces) = scanRules legacyParse (ev_now inp) (ev_order inp) localParts None (ev_rules inp)
      in case matched of
           None \<Rightarrow>
             (case ev_defaultChainServiceIds inp of
                None \<Rightarrow> Inr (finish None traces [] (MANUAL_ASSIGNMENT NO_RULE_AND_NO_DEFAULT_CHAIN) None)
              | Some ids \<Rightarrow>
                  if length ids = 0
                  then Inr (finish None traces [] (MANUAL_ASSIGNMENT NO_RULE_AND_NO_DEFAULT_CHAIN) None)
                  else Inr (runDefaultChain inp None traces
                     ''no rule matched - evaluated S-22 as PRIORITY_CHAIN'' S22_DEFAULT_CHAIN []))
         | Some rule \<Rightarrow>
             if rd_actionType rule = MANUAL_ONLY
             then Inr (finish (Some rule) traces [] (MANUAL_ASSIGNMENT HELD_BY_RULE) None)
             else Inr (runAction legacyParse inp rule traces)))"

end
