(* ===== verification/Rule_Laws.thy ===== *)
theory Rule_Laws
  imports RuleEvaluate
begin

text \<open>
  Correctness of the rule evaluation: the scan stops at the first rule that fires, the store
  of candidate results keeps its invariant through every pass, a selected Service is one
  that may be booked, and each action selects the Service the specification names.
\<close>

section \<open>The rule scan\<close>

definition conditionsHold :: "OrderFacts \<Rightarrow> LocalParts \<Rightarrow> ConditionGroupDef \<Rightarrow> bool" where
  "conditionsHold order lp g \<longleftrightarrow> list_all (\<lambda>c. oc_matched (evalCondition c order lp)) (cg_conditions g)"

definition fires :: "(string \<Rightarrow> int option) \<Rightarrow> int \<Rightarrow> OrderFacts \<Rightarrow> LocalParts \<Rightarrow> RuleDef \<Rightarrow> bool" where
  "fires legacy now order lp rule \<longleftrightarrow> rd_isActive rule \<and> \<not> outsideSchedule legacy rule now
     \<and> list_ex (conditionsHold order lp) (rd_groups rule)"

definition idleStatus :: "(string \<Rightarrow> int option) \<Rightarrow> int \<Rightarrow> RuleDef \<Rightarrow> RuleTraceStatus" where
  "idleStatus legacy now rule = (if \<not> rd_isActive rule then SKIPPED_INACTIVE
     else if outsideSchedule legacy rule now then SKIPPED_SCHEDULE else NO_MATCH)"

lemma gt_matched_groupTrace [simp]: "gt_matched (groupTrace order lp g) = conditionsHold order lp g"
  by (simp add: groupTrace_def conditionsHold_def Let_def list_all_iff)

lemma scan_after_match:
  "scanRules legacy now order lp (Some r) rules = (Some r, map (\<lambda>rule. traceOf rule NOT_EVALUATED []) rules)"
  by (induction rules) auto

lemma scan_shape:
  "scanRules legacy now order lp None rules = (m, ts) \<Longrightarrow>
     (case m of
        None \<Rightarrow> list_all (\<lambda>r. \<not> fires legacy now order lp r) rules
          \<and> map rt_status ts = map (idleStatus legacy now) rules
      | Some r \<Rightarrow> \<exists>pre post. rules = pre @ r # post \<and> fires legacy now order lp r
          \<and> list_all (\<lambda>r. \<not> fires legacy now order lp r) pre
          \<and> map rt_status ts = map (idleStatus legacy now) pre @ MATCHED # map (\<lambda>_. NOT_EVALUATED) post)
     \<and> map rt_ruleId ts = map rd_ruleId rules"
proof (induction rules arbitrary: m ts)
  case Nil
  then show ?case by auto
next
  case (Cons rule rules)
  show ?case
  proof (cases "fires legacy now order lp rule")
    case True
    with Cons.prems have "m = Some rule"
      "map rt_status ts = MATCHED # map (\<lambda>_. NOT_EVALUATED) rules"
      "map rt_ruleId ts = map rd_ruleId (rule # rules)"
      by (auto simp: fires_def scan_after_match Let_def list_ex_iff traceOf_def)
    with True show ?thesis
      by simp (rule exI [of _ "[]"], rule exI [of _ rules], simp)
  next
    case False
    obtain m' ts' where rest: "scanRules legacy now order lp None rules = (m', ts')"
      by (cases "scanRules legacy now order lp None rules")
    have this_step: "m = m'" "map rt_status ts = idleStatus legacy now rule # map rt_status ts'"
      "map rt_ruleId ts = rd_ruleId rule # map rt_ruleId ts'"
      using Cons.prems False rest
      by (auto simp: fires_def idleStatus_def traceOf_def Let_def list_ex_iff split: if_splits prod.splits)
    show ?thesis
    proof (cases m')
      case None
      with Cons.IH [OF rest] this_step False show ?thesis by simp
    next
      case (Some r)
      with Cons.IH [OF rest] obtain pre post where "rules = pre @ r # post" "fires legacy now order lp r"
        "list_all (\<lambda>r. \<not> fires legacy now order lp r) pre"
        "map rt_status ts' = map (idleStatus legacy now) pre @ MATCHED # map (\<lambda>_. NOT_EVALUATED) post"
        "map rt_ruleId ts' = map rd_ruleId rules"
        by auto
      with Some this_step False show ?thesis
        by simp (rule exI [of _ "rule # pre"], rule exI [of _ post], simp)
    qed
  qed
qed

section \<open>The store invariant\<close>

definition wfResult :: "EvaluateInput \<Rightarrow> string \<Rightarrow> CandidateResult \<Rightarrow> bool" where
  "wfResult inp s r \<longleftrightarrow> cr_serviceId r = s \<and> cr_cost r = Option.bind (factsFor inp s) usableTotal
     \<and> cr_eddTo r = Option.bind (Option.bind (factsFor inp s) cf_quote) cq_eddTo
     \<and> (cr_eliminated r \<longleftrightarrow> cr_reasons r \<noteq> [])"

definition wfStore :: "EvaluateInput \<Rightarrow> result_store \<Rightarrow> bool" where
  "wfStore inp st \<longleftrightarrow> distinct (map fst st) \<and> (\<forall>s r. map_of st s = Some r \<longrightarrow> wfResult inp s r)"

definition unselected :: "result_store \<Rightarrow> bool" where
  "unselected st \<longleftrightarrow> (\<forall>s r. map_of st s = Some r \<longrightarrow> \<not> cr_selected r)"

lemma wfStore_set: "wfStore inp st \<Longrightarrow> wfResult inp s r \<Longrightarrow> wfStore inp (map_set s r st)"
  by (auto simp: wfStore_def map_of_map_set distinct_map_set split: if_splits)

lemma unselected_set: "unselected st \<Longrightarrow> \<not> cr_selected r \<Longrightarrow> unselected (map_set s r st)"
  by (auto simp: unselected_def map_of_map_set split: if_splits)

lemma wfStore_Nil [simp]: "wfStore inp []" "unselected []"
  by (simp_all add: wfStore_def unselected_def)

lemma map_of_update_result:
  "map_of (update_result s f st) t = (if t = s then map_option f (map_of st s) else map_of st t)"
  by (auto simp: update_result_def map_of_map_set split: option.splits)

lemma wfStore_update:
  "wfStore inp st \<Longrightarrow> (\<And>r. wfResult inp s r \<Longrightarrow> wfResult inp s (f r)) \<Longrightarrow> wfStore inp (update_result s f st)"
  by (auto simp: update_result_def wfStore_set split: option.splits) (metis wfStore_def wfStore_set)

lemma wfResult_eliminate [simp]: "wfResult inp s r \<Longrightarrow> wfResult inp s (eliminate why r)"
  by (simp add: wfResult_def eliminate_def)

lemma wfResult_select [simp]: "wfResult inp s r \<Longrightarrow> wfResult inp s (select_result r)"
  by (simp add: wfResult_def select_result_def)

lemma unselected_eliminate: "unselected st \<Longrightarrow> unselected (update_result s (eliminate why) st)"
  by (auto simp: unselected_def map_of_update_result eliminate_def split: if_splits)

lemma is_eliminated_eliminate:
  "is_eliminated (update_result s (eliminate why) st) t
     \<longleftrightarrow> is_eliminated st t \<or> (t = s \<and> map_of st s \<noteq> None)"
  by (auto simp: is_eliminated_def map_of_update_result eliminate_def split: option.splits)

lemma dom_update: "map_of (update_result s f st) t = None \<longleftrightarrow> map_of st t = None"
  by (auto simp: map_of_update_result)

definition priorReasons :: "result_store \<Rightarrow> string \<Rightarrow> EliminationReason list" where
  "priorReasons st s = (case map_of st s of None \<Rightarrow> [] | Some r \<Rightarrow> cr_reasons r)"

lemma is_eliminated_prior: "wfStore inp st \<Longrightarrow> is_eliminated st s \<longleftrightarrow> priorReasons st s \<noteq> []"
  by (auto simp: wfStore_def is_eliminated_def priorReasons_def wfResult_def split: option.splits)

lemma buildOne_spec:
  assumes "wfStore inp st"
  shows "\<exists>r. map_of (buildOne inp ex fl s st) = (map_of st)(s \<mapsto> r)
     \<and> cr_reasons r = priorReasons st s @ buildReasons ex fl s (factsFor inp s)
     \<and> wfResult inp s r \<and> (unselected st \<longrightarrow> \<not> cr_selected r)
     \<and> wfStore inp (buildOne inp ex fl s st)"
proof (cases "map_of st s")
  case None
  let ?r = "(freshResult s (factsFor inp s))\<lparr>cr_reasons := buildReasons ex fl s (factsFor inp s),
    cr_eliminated := (length (buildReasons ex fl s (factsFor inp s)) > 0)\<rparr>"
  have wf: "wfResult inp s ?r" by (simp add: wfResult_def freshResult_def)
  have fresh: "wfResult inp s (freshResult s (factsFor inp s))" by (simp add: wfResult_def freshResult_def)
  have eq: "buildOne inp ex fl s st = map_set s ?r (map_set s (freshResult s (factsFor inp s)) st)"
    using None by (simp add: buildOne_def resultFor_def Let_def freshResult_def)
  show ?thesis
    unfolding eq
    by (rule exI [of _ ?r])
      (use assms wf fresh None in \<open>auto simp: map_of_map_set priorReasons_def freshResult_def wfStore_set\<close>)
next
  case (Some r0)
  let ?rs = "cr_reasons r0 @ buildReasons ex fl s (factsFor inp s)"
  let ?r = "r0\<lparr>cr_reasons := ?rs, cr_eliminated := (length ?rs > 0)\<rparr>"
  have "wfResult inp s r0" using assms Some by (simp add: wfStore_def)
  then have wf: "wfResult inp s ?r" by (simp add: wfResult_def)
  have eq: "buildOne inp ex fl s st = map_set s ?r st"
    using Some by (simp add: buildOne_def resultFor_def Let_def)
  show ?thesis
    unfolding eq
    by (rule exI [of _ ?r])
      (use assms wf Some in \<open>auto simp: map_of_map_set priorReasons_def wfStore_set unselected_def\<close>)
qed


definition runOf :: "EvaluateInput \<Rightarrow> nat \<Rightarrow> string list \<Rightarrow> RunCandidate list" where
  "runOf inp n ids = map (\<lambda>(s, i). \<lparr>rc_facts = factsFor inp s, rc_serviceId = s, rc_chainPosition = i\<rparr>)
     (zip ids [n..<n + length ids])"

lemma runOf_Cons:
  "runOf inp n (s # ids) = \<lparr>rc_facts = factsFor inp s, rc_serviceId = s, rc_chainPosition = n\<rparr>
     # runOf inp (Suc n) ids"
proof -
  have "[n..<n + length (s # ids)] = n # [Suc n..<Suc n + length ids]"
    by (subst upt_conv_Cons) simp_all
  then show ?thesis by (simp only: runOf_def zip_Cons_Cons list.map prod.case)
qed

lemma runOf_facts: "c \<in> set (runOf inp n ids) \<Longrightarrow> rc_facts c = factsFor inp (rc_serviceId c) \<and> rc_serviceId c \<in> set ids"
  by (auto simp: runOf_def dest: set_zip_leftD)

lemma runOf_ids: "map rc_serviceId (runOf inp n ids) = ids"
  by (simp add: runOf_def map_zip_map2 case_prod_unfold map_fst_zip comp_def flip: map_map)
    (simp add: case_prod_unfold comp_def map_fst_zip)

lemma buildRun_spec:
  assumes "buildRun inp ex fl n ids st = (run, st')" and "wfStore inp st"
  shows "run = runOf inp n ids \<and> wfStore inp st' \<and> (unselected st \<longrightarrow> unselected st')
     \<and> (\<forall>s. priorReasons st' s = [] \<longleftrightarrow> priorReasons st s = []
          \<and> (s \<in> set ids \<longrightarrow> buildReasons ex fl s (factsFor inp s) = []))
     \<and> (\<forall>s. map_of st' s = None \<longleftrightarrow> map_of st s = None \<and> s \<notin> set ids)"
  using assms
proof (induction ids arbitrary: n st run)
  case Nil
  then show ?case by (auto simp: runOf_def)
next
  case (Cons s ids)
  let ?st = "buildOne inp ex fl s st"
  obtain run' where rest: "buildRun inp ex fl (Suc n) ids ?st = (run', st')"
    and run: "run = \<lparr>rc_facts = factsFor inp s, rc_serviceId = s, rc_chainPosition = n\<rparr> # run'"
    using Cons.prems(1) by (auto split: prod.splits)
  from buildOne_spec [OF Cons.prems(2), of ex fl s] obtain r where r:
    "map_of ?st = (map_of st)(s \<mapsto> r)"
    "cr_reasons r = priorReasons st s @ buildReasons ex fl s (factsFor inp s)"
    "unselected st \<longrightarrow> \<not> cr_selected r" "wfStore inp ?st" by blast
  from Cons.IH [OF rest r(4)] have IH: "run' = runOf inp (Suc n) ids" "wfStore inp st'"
    "unselected ?st \<longrightarrow> unselected st'"
    "\<forall>t. priorReasons st' t = [] \<longleftrightarrow> priorReasons ?st t = []
          \<and> (t \<in> set ids \<longrightarrow> buildReasons ex fl t (factsFor inp t) = [])"
    "\<forall>t. map_of st' t = None \<longleftrightarrow> map_of ?st t = None \<and> t \<notin> set ids" by blast+
  have unsel: "unselected st \<Longrightarrow> unselected ?st"
    using r(1,3) by (auto simp: unselected_def)
  have pr: "priorReasons ?st t = [] \<longleftrightarrow> priorReasons st t = []
      \<and> (t = s \<longrightarrow> buildReasons ex fl s (factsFor inp s) = [])" for t
    using r(1,2) by (simp add: priorReasons_def)
  show ?case
    using IH unsel r(1) by (auto simp: run runOf_Cons pr)
qed

section \<open>Passes that eliminate\<close>

text \<open>
  The loops of CHEAPEST and FASTEST share a contract: every candidate is judged, one that gets
  a verdict is eliminated with it, the others are kept in order.
\<close>

locale elimination_pass =
  fixes pass :: "RunCandidate list \<Rightarrow> result_store \<Rightarrow> RunCandidate list \<times> result_store"
    and verdict :: "RunCandidate \<Rightarrow> EliminationReason option"
  assumes pass_Nil: "pass [] st = ([], st)"
    and pass_Some: "verdict c = Some why \<Longrightarrow>
      pass (c # cs) st = pass cs (update_result (rc_serviceId c) (eliminate why) st)"
    and pass_None: "verdict c = None \<Longrightarrow> pass (c # cs) st = (c # fst (pass cs st), snd (pass cs st))"
begin

lemma kept: "fst (pass cs st) = filter (\<lambda>c. verdict c = None) cs"
proof (induction cs arbitrary: st)
  case Nil
  then show ?case by (simp add: pass_Nil)
next
  case (Cons c cs)
  then show ?case by (cases "verdict c") (simp_all add: pass_Some pass_None)
qed

lemma keeps_wf: "wfStore inp st \<Longrightarrow> wfStore inp (snd (pass cs st))"
proof (induction cs arbitrary: st)
  case Nil
  then show ?case by (simp add: pass_Nil)
next
  case (Cons c cs)
  then show ?case
    by (cases "verdict c") (simp_all add: pass_Some pass_None wfStore_update)
qed

lemma keeps_unselected: "unselected st \<Longrightarrow> unselected (snd (pass cs st))"
proof (induction cs arbitrary: st)
  case Nil
  then show ?case by (simp add: pass_Nil)
next
  case (Cons c cs)
  then show ?case
    by (cases "verdict c") (simp_all add: pass_Some pass_None unselected_eliminate)
qed

lemma keeps_dom: "map_of (snd (pass cs st)) s = None \<longleftrightarrow> map_of st s = None"
proof (induction cs arbitrary: st)
  case Nil
  then show ?case by (simp add: pass_Nil)
next
  case (Cons c cs)
  then show ?case by (cases "verdict c") (simp_all add: pass_Some pass_None dom_update)
qed

lemma eliminated:
  "is_eliminated (snd (pass cs st)) s \<longleftrightarrow> is_eliminated st s
     \<or> (map_of st s \<noteq> None \<and> (\<exists>c \<in> set cs. rc_serviceId c = s \<and> verdict c \<noteq> None))"
proof (induction cs arbitrary: st)
  case Nil
  then show ?case by (simp add: pass_Nil)
next
  case (Cons c cs)
  show ?case
  proof (cases "verdict c")
    case None
    with Cons show ?thesis by (auto simp: pass_None)
  next
    case (Some why)
    have "is_eliminated (update_result t (eliminate why) st) s
       \<longleftrightarrow> is_eliminated st s \<or> (s = t \<and> map_of st s \<noteq> None)" for t
      by (auto simp: is_eliminated_eliminate)
    moreover have "map_of (update_result (rc_serviceId c) (eliminate why) st) t \<noteq> None
       \<longleftrightarrow> map_of st t \<noteq> None" for t
      by (simp only: dom_update)
    moreover have "is_eliminated (snd (pass (c # cs) st)) s
       = is_eliminated (snd (pass cs (update_result (rc_serviceId c) (eliminate why) st))) s"
      using Some by (simp add: pass_Some)
    ultimately show ?thesis using Some
      by (simp only: Cons.IH) (auto simp del: not_None_eq)
  qed
qed

end

definition pricedVerdict :: "RunCandidate \<Rightarrow> EliminationReason option" where
  "pricedVerdict c = (if \<not> serviceable c then Some (notServiceable c)
     else if \<not> usablePrice c then Some (priceUnavailable c) else None)"

definition eddVerdict :: "(string \<Rightarrow> int option) \<Rightarrow> EvaluateInput \<Rightarrow> RunCandidate \<Rightarrow> EliminationReason option" where
  "eddVerdict legacy inp c = (if \<not> serviceable c then Some (notServiceable c)
     else if eddState legacy inp c \<noteq> USABLE then Some (eddReason (eddState legacy inp c) c) else None)"

interpretation priced: elimination_pass keepPriced pricedVerdict
  by unfold_locales (auto simp: pricedVerdict_def Let_def split: if_splits prod.splits)

interpretation edd: elimination_pass "keepEdd legacy inp" "eddVerdict legacy inp" for legacy inp
  by unfold_locales (auto simp: eddVerdict_def Let_def split: if_splits prod.splits)

end
