(* ===== verification/Rule_Select.thy ===== *)
theory Rule_Select
  imports Rule_Laws
begin

text \<open>
  What the actions of a matched rule and the default chain select: the laws of selection
  for \<open>evaluate\<close> as a whole.
\<close>

section \<open>Selecting from a run\<close>

definition quoteServiceable :: "EvaluateInput \<Rightarrow> string \<Rightarrow> bool" where
  "quoteServiceable inp s \<longleftrightarrow> (case factsFor inp s of None \<Rightarrow> False
     | Some f \<Rightarrow> (case cf_quote f of None \<Rightarrow> True | Some q \<Rightarrow> cq_serviceable q))"

definition bookableService :: "EvaluateInput \<Rightarrow> string \<Rightarrow> bool" where
  "bookableService inp s \<longleftrightarrow> (case factsFor inp s of None \<Rightarrow> False | Some f \<Rightarrow> cf_bookable f)"

definition onlySelected :: "result_store \<Rightarrow> string \<Rightarrow> bool" where
  "onlySelected st s \<longleftrightarrow> (\<exists>r. map_of st s = Some r \<and> cr_selected r \<and> \<not> cr_eliminated r)
     \<and> (\<forall>t r. map_of st t = Some r \<and> cr_selected r \<longrightarrow> t = s)"

definition selectionSound :: "EvaluateInput \<Rightarrow> EvaluationResult \<Rightarrow> bool" where
  "selectionSound inp res \<longleftrightarrow> (case rs_outcome res of
      SELECTED s \<Rightarrow> rs_selectedServiceId res = Some s \<and> bookableService inp s \<and> quoteServiceable inp s
        \<and> (\<exists>r. filter cr_selected (rs_candidateResults res) = [r] \<and> cr_serviceId r = s
             \<and> \<not> cr_eliminated r \<and> cr_reasons r = [])
    | MANUAL_ASSIGNMENT _ \<Rightarrow> rs_selectedServiceId res = None
        \<and> filter cr_selected (rs_candidateResults res) = [])"

lemma serviceable_quote: "rc_facts c = factsFor inp (rc_serviceId c) \<Longrightarrow>
    serviceable c \<longleftrightarrow> quoteServiceable inp (rc_serviceId c)"
  by (simp add: serviceable_def quoteServiceable_def)

lemma buildReasons_plain: "buildReasons [] None s (factsFor inp s) = [] \<longleftrightarrow> bookableService inp s"
  by (auto simp: buildReasons_def bookableService_def split: option.splits)

lemma buildReasons_bookable: "buildReasons ex fl s (factsFor inp s) = [] \<Longrightarrow> bookableService inp s"
  by (auto simp: buildReasons_def bookableService_def split: option.splits if_splits)

lemma onlySelected_select:
  assumes "wfStore inp st" and "unselected st" and "map_of st s \<noteq> None" and "\<not> is_eliminated st s"
  shows "onlySelected (update_result s select_result st) s"
  using assms
  by (auto simp: onlySelected_def map_of_update_result select_result_def unselected_def is_eliminated_def
      split: option.splits if_splits)

lemma filter_selected_one:
  "distinct (map fst st) \<Longrightarrow> onlySelected st s \<Longrightarrow> filter cr_selected (map snd st) = [the (map_of st s)]"
proof (induction st)
  case Nil
  then show ?case by (simp add: onlySelected_def)
next
  case (Cons e st)
  obtain k r where e: "e = (k, r)" by (cases e)
  show ?case
  proof (cases "k = s")
    case True
    have "x \<in> set st \<Longrightarrow> \<not> cr_selected (snd x)" for x
    proof
      assume x: "x \<in> set st" "cr_selected (snd x)"
      with Cons.prems(1) have "map_of (e # st) (fst x) = Some (snd x)"
        by (intro map_of_is_SomeI) (simp_all add: e)
      with x(2) Cons.prems(2) have "fst x = s" unfolding onlySelected_def by blast
      with True x(1) Cons.prems(1) show False by (auto simp: e)
    qed
    then have "filter cr_selected (map snd st) = []" by (auto simp: filter_empty_conv)
    moreover have "cr_selected r" 
      using Cons.prems(2) [unfolded onlySelected_def, THEN conjunct1] True by (auto simp: e)
    ultimately show ?thesis using True by (simp add: e)
  next
    case False
    have notin: "k \<notin> fst ` set st" using Cons.prems(1) by (simp add: e)
    have "onlySelected st s"
      unfolding onlySelected_def
    proof (intro conjI allI impI)
      show "\<exists>r. map_of st s = Some r \<and> cr_selected r \<and> \<not> cr_eliminated r"
        using Cons.prems(2) [unfolded onlySelected_def, THEN conjunct1] False by (simp add: e)
      fix t r' assume a: "map_of st t = Some r' \<and> cr_selected r'"
      then have "t \<noteq> k" using notin by (force dest: map_of_SomeD)
      with a Cons.prems(2) [unfolded onlySelected_def, THEN conjunct2, rule_format, of t r']
      show "t = s" by (simp add: e)
    qed
    moreover have "\<not> cr_selected r"
      using Cons.prems(2) [unfolded onlySelected_def, THEN conjunct2, rule_format, of k r] False
      by (auto simp: e)
    ultimately show ?thesis using Cons False by (simp add: e)
  qed
qed

lemma filter_unselected: "distinct (map fst st) \<Longrightarrow> unselected st \<Longrightarrow> filter cr_selected (map snd st) = []"
  by (auto simp: filter_empty_conv unselected_def)

lemma finish_selected:
  assumes "wfStore inp st" and "onlySelected st s" and "bookableService inp s" and "quoteServiceable inp s"
  shows "selectionSound inp (finish m ts st (SELECTED s) fb)"
proof -
  from assms(2) obtain r where r: "map_of st s = Some r" "\<not> cr_eliminated r"
    by (auto simp: onlySelected_def)
  with assms(1) have "cr_serviceId r = s" "cr_reasons r = []"
    by (auto simp: wfStore_def wfResult_def)
  with r filter_selected_one [of st s] assms show ?thesis
    by (simp add: selectionSound_def finish_def wfStore_def)
qed

lemma finish_manual:
  "wfStore inp st \<Longrightarrow> unselected st \<Longrightarrow> selectionSound inp (finish m ts st (MANUAL_ASSIGNMENT why) fb)"
  by (simp add: selectionSound_def finish_def filter_unselected wfStore_def)

definition runFrom :: "EvaluateInput \<Rightarrow> result_store \<Rightarrow> RunCandidate list \<Rightarrow> bool" where
  "runFrom inp st run \<longleftrightarrow> (\<forall>c \<in> set run. rc_facts c = factsFor inp (rc_serviceId c)
     \<and> map_of st (rc_serviceId c) \<noteq> None)"

lemma runPriorityChain_spec:
  assumes "runPriorityChain run st = (p, st')" and "wfStore inp st" and "unselected st" and "runFrom inp st run"
  shows "map_option rc_serviceId p
      = List.find (\<lambda>s. \<not> is_eliminated st s \<and> quoteServiceable inp s) (map rc_serviceId run)
    \<and> wfStore inp st' \<and> (case p of None \<Rightarrow> unselected st' | Some c \<Rightarrow> onlySelected st' (rc_serviceId c))"
  using assms
proof (induction run arbitrary: st)
  case Nil
  then show ?case by auto
next
  case (Cons c run)
  let ?s = "rc_serviceId c"
  have c: "rc_facts c = factsFor inp ?s" "map_of st ?s \<noteq> None" and run: "runFrom inp st run"
    using Cons.prems(4) by (auto simp: runFrom_def)
  note sv = serviceable_quote [OF c(1)]
  show ?case
  proof (cases "is_eliminated st ?s")
    case True
    with Cons.IH [of st] Cons.prems run show ?thesis by simp
  next
    case alive: False
    show ?thesis
    proof (cases "serviceable c")
      case True
      with alive Cons.prems(1) have p: "p = Some c" "st' = update_result ?s select_result st" by auto
      have "onlySelected st' ?s"
        using Cons.prems(2,3) c(2) alive unfolding p by (rule onlySelected_select)
      with True alive sv show ?thesis by (simp add: p Cons.prems(2) wfStore_update)
    next
      case False
      let ?st = "update_result ?s (eliminate (notServiceable c)) st"
      have "wfStore inp ?st" "unselected ?st"
        using Cons.prems(2,3) by (simp_all add: wfStore_update unselected_eliminate)
      moreover have "runFrom inp ?st run"
        using run by (simp only: runFrom_def dom_update)
      moreover have "runPriorityChain run ?st = (p, st')" using Cons.prems(1) alive False by simp
      ultimately have IH: "map_option rc_serviceId p
          = List.find (\<lambda>s. \<not> is_eliminated ?st s \<and> quoteServiceable inp s) (map rc_serviceId run)
        \<and> wfStore inp st' \<and> (case p of None \<Rightarrow> unselected st' | Some c \<Rightarrow> onlySelected st' (rc_serviceId c))"
        using Cons.IH by blast
      have "\<not> is_eliminated ?st s \<and> quoteServiceable inp s
          \<longleftrightarrow> \<not> is_eliminated st s \<and> quoteServiceable inp s" for s
        using False sv by (auto simp: is_eliminated_eliminate)
      with IH False sv show ?thesis by simp
    qed
  qed
qed

section \<open>The default chain\<close>

lemma runDefaultChain_spec:
  assumes wf: "wfStore inp st" and un: "unselected st" and ids: "ev_defaultChainServiceIds inp = Some ids"
    and ne: "ids \<noteq> []"
  shows "rs_outcome (runDefaultChain inp m ts note kind st) =
     (case List.find (\<lambda>s. \<not> is_eliminated st s \<and> bookableService inp s \<and> quoteServiceable inp s) ids of
        Some s \<Rightarrow> SELECTED s
      | None \<Rightarrow> MANUAL_ASSIGNMENT (if m \<noteq> None then NO_SERVICEABLE_CANDIDATE else NO_RULE_AND_NO_DEFAULT_CHAIN))
    \<and> selectionSound inp (runDefaultChain inp m ts note kind st)"
proof -
  obtain run st1 where b: "buildRun inp [] None 0 ids st = (run, st1)"
    by (cases "buildRun inp [] None 0 ids st")
  obtain p st2 where r: "runPriorityChain run st1 = (p, st2)"
    by (cases "runPriorityChain run st1")
  from buildRun_spec [OF b wf] un have run: "run = runOf inp 0 ids" and wf1: "wfStore inp st1"
    and un1: "unselected st1" and dom1: "\<forall>s. map_of st1 s = None \<longleftrightarrow> map_of st s = None \<and> s \<notin> set ids"
    and pr: "\<forall>s. priorReasons st1 s = [] \<longleftrightarrow> priorReasons st s = []
          \<and> (s \<in> set ids \<longrightarrow> buildReasons [] None s (factsFor inp s) = [])"
    by blast+
  have el: "is_eliminated st1 s \<longleftrightarrow> is_eliminated st s \<or> \<not> bookableService inp s" if "s \<in> set ids" for s
    using pr that by (simp add: is_eliminated_prior [OF wf] is_eliminated_prior [OF wf1] buildReasons_plain)
  have "runFrom inp st1 run"
    using dom1 by (auto simp: runFrom_def run dest!: runOf_facts)
  from runPriorityChain_spec [OF r wf1 un1 this] have sel: "map_option rc_serviceId p
      = List.find (\<lambda>s. \<not> is_eliminated st1 s \<and> quoteServiceable inp s) ids"
    and wf2: "wfStore inp st2"
    and fin: "case p of None \<Rightarrow> unselected st2 | Some c \<Rightarrow> onlySelected st2 (rc_serviceId c)"
    by (auto simp: run runOf_ids)
  have find: "List.find (\<lambda>s. \<not> is_eliminated st1 s \<and> quoteServiceable inp s) ids
     = List.find (\<lambda>s. \<not> is_eliminated st s \<and> bookableService inp s \<and> quoteServiceable inp s) ids"
    by (rule find_cong [OF refl]) (auto simp: el)
  note eq = runDefaultChain_def Let_def ids ne b r
  show ?thesis
  proof (cases p)
    case None
    with fin wf2 sel find show ?thesis by (simp add: eq finish_manual) (simp add: finish_def)
  next
    case (Some c)
    with sel find have hit: "List.find (\<lambda>s. \<not> is_eliminated st s \<and> bookableService inp s
        \<and> quoteServiceable inp s) ids = Some (rc_serviceId c)" by simp
    then have "bookableService inp (rc_serviceId c)" "quoteServiceable inp (rc_serviceId c)"
      by (auto simp: find_Some_iff)
    with fin wf2 Some hit show ?thesis
      by (simp add: eq finish_selected) (simp add: finish_def)
  qed
qed

section \<open>The run of a matched rule\<close>

definition ruleFilters :: "RuleDef \<Rightarrow> CandidateFilters option" where
  "ruleFilters rule = (let filters = collectCandidateFilters rule in
     if fl_zone filters \<noteq> None \<or> fl_freight filters \<noteq> None \<or> fl_volumetric filters \<noteq> None
     then Some filters else None)"

definition admitted :: "EvaluateInput \<Rightarrow> RuleDef \<Rightarrow> string \<Rightarrow> bool" where
  "admitted inp rule s \<longleftrightarrow>
     buildReasons (rd_excludedServiceIds rule) (ruleFilters rule) s (factsFor inp s) = []"

definition ruleRun :: "EvaluateInput \<Rightarrow> RuleDef \<Rightarrow> RunCandidate list \<times> result_store" where
  "ruleRun inp rule = buildRun inp (rd_excludedServiceIds rule) (ruleFilters rule) 0 (rd_actionServiceIds rule) []"

definition survivorsOf :: "EvaluateInput \<Rightarrow> RuleDef \<Rightarrow> RunCandidate list" where
  "survivorsOf inp rule = filter (\<lambda>c. admitted inp rule (rc_serviceId c)) (runOf inp 0 (rd_actionServiceIds rule))"

lemma ruleRun_spec:
  assumes "ruleRun inp rule = (run, st)"
  shows "filter (\<lambda>c. \<not> is_eliminated st (rc_serviceId c)) run = survivorsOf inp rule"
    "wfStore inp st" "unselected st" "runFrom inp st (survivorsOf inp rule)"
    "is_eliminated st s \<longleftrightarrow> s \<in> set (rd_actionServiceIds rule) \<and> \<not> admitted inp rule s"
    "map_of st s = None \<longleftrightarrow> s \<notin> set (rd_actionServiceIds rule)"
proof -
  from buildRun_spec [OF assms [unfolded ruleRun_def] wfStore_Nil(1)]
  have run: "run = runOf inp 0 (rd_actionServiceIds rule)" and wf: "wfStore inp st" and un: "unselected st"
    and dom: "\<forall>s. map_of st s = None \<longleftrightarrow> s \<notin> set (rd_actionServiceIds rule)"
    and pr: "\<forall>s. priorReasons st s = [] \<longleftrightarrow> (s \<in> set (rd_actionServiceIds rule) \<longrightarrow> admitted inp rule s)"
    by (auto simp: admitted_def priorReasons_def)
  have el: "is_eliminated st s \<longleftrightarrow> s \<in> set (rd_actionServiceIds rule) \<and> \<not> admitted inp rule s" for s
    using pr by (simp add: is_eliminated_prior [OF wf])
  show "is_eliminated st s \<longleftrightarrow> s \<in> set (rd_actionServiceIds rule) \<and> \<not> admitted inp rule s" by (rule el)
  show "map_of st s = None \<longleftrightarrow> s \<notin> set (rd_actionServiceIds rule)" using dom by blast
  show "filter (\<lambda>c. \<not> is_eliminated st (rc_serviceId c)) run = survivorsOf inp rule"
    unfolding survivorsOf_def run by (rule filter_cong [OF refl]) (auto simp: el dest: runOf_facts)
  show "runFrom inp st (survivorsOf inp rule)"
    using dom by (auto simp: runFrom_def survivorsOf_def dest!: runOf_facts)
  show "wfStore inp st" "unselected st" by (rule wf, rule un)
qed

lemma find_survivors:
  "List.find P (map rc_serviceId (survivorsOf inp rule))
     = List.find (\<lambda>s. admitted inp rule s \<and> P s) (rd_actionServiceIds rule)"
proof -
  have "map rc_serviceId (survivorsOf inp rule) = filter (admitted inp rule) (rd_actionServiceIds rule)"
  proof -
    have "filter (admitted inp rule) (map rc_serviceId (runOf inp 0 (rd_actionServiceIds rule)))
        = filter (admitted inp rule) (rd_actionServiceIds rule)" by (simp only: runOf_ids)
    then show ?thesis by (simp add: survivorsOf_def filter_map comp_def)
  qed
  moreover have "List.find P (filter Q xs) = List.find (\<lambda>s. Q s \<and> P s) xs" for Q and xs :: "string list"
    by (induction xs) auto
  ultimately show ?thesis by simp
qed

lemma survivors_iff:
  "(\<exists>c \<in> set (survivorsOf inp rule). rc_serviceId c = s) \<longleftrightarrow> s \<in> set (rd_actionServiceIds rule) \<and> admitted inp rule s"
proof -
  have "rc_serviceId ` set (runOf inp 0 ids) = set ids" for ids
    by (metis list.set_map runOf_ids)
  then have "s \<in> set ids \<longleftrightarrow> (\<exists>c \<in> set (runOf inp 0 ids). rc_serviceId c = s)" for ids by force
  then show ?thesis by (auto simp: survivorsOf_def)
qed

lemma survivor_facts: "c \<in> set (survivorsOf inp rule) \<Longrightarrow> rc_facts c = factsFor inp (rc_serviceId c)
    \<and> rc_serviceId c \<in> set (rd_actionServiceIds rule) \<and> admitted inp rule (rc_serviceId c)"
  by (auto simp: survivorsOf_def dest: runOf_facts)

lemma admitted_bookable: "admitted inp rule s \<Longrightarrow> bookableService inp s"
  by (auto simp: admitted_def dest: buildReasons_bookable)

lemma runAction_unfold:
  assumes "ruleRun inp rule = (run, st)"
  shows "runAction legacy inp rule ts =
      (if rd_actionType rule = PRIORITY_CHAIN then
           (let (picked, store) = runPriorityChain (survivorsOf inp rule) st
            in case picked of
                 None \<Rightarrow> finish (Some rule) ts store (MANUAL_ASSIGNMENT CHAIN_EXHAUSTED) None
               | Some c \<Rightarrow> finish (Some rule) ts store (SELECTED (rc_serviceId c)) None)
         else if rd_actionType rule = CHEAPEST then
           (let (priced, store) = keepPriced (survivorsOf inp rule) st
            in if length priced = 0 then
                 runDefaultChain inp (Some rule) ts ''price unavailable - fell back to chain'' CHAIN_FALLBACK store
               else (let c = hd (js_sort (cheaper store) priced) in
                 finish (Some rule) ts (update_result (rc_serviceId c) select_result store)
                   (SELECTED (rc_serviceId c)) None))
         else
           (let (usable, store) = keepEdd legacy inp (survivorsOf inp rule) st
            in if length usable = 0 then
                 runDefaultChain inp (Some rule) ts ''no usable EDD - fell back to chain'' CHAIN_FALLBACK store
               else (let c = hd (js_sort (faster legacy store) usable) in
                 finish (Some rule) ts (update_result (rc_serviceId c) select_result store)
                   (SELECTED (rc_serviceId c)) None)))"
  using assms ruleRun_spec(1) [OF assms]
  by (simp add: runAction_def ruleRun_def ruleFilters_def Let_def)

lemma runDefaultChain_sound:
  assumes "wfStore inp st" and "unselected st"
  shows "selectionSound inp (runDefaultChain inp m ts note kind st)"
proof (cases "ev_defaultChainServiceIds inp")
  case None
  with assms show ?thesis by (simp add: runDefaultChain_def Let_def finish_manual)
next
  case (Some ids)
  then show ?thesis
    using assms runDefaultChain_spec [OF assms Some]
    by (cases "ids = []") (simp_all add: runDefaultChain_def Let_def finish_manual)
qed

text \<open>Selecting one of the candidates an elimination pass kept.\<close>

lemma selected_from_pass:
  assumes run: "ruleRun inp rule = (run, st)"
    and c: "c \<in> set (filter (\<lambda>c. verdict c = None) (survivorsOf inp rule))"
    and st': "wfStore inp st'" "unselected st'"
    and dom: "map_of st' (rc_serviceId c) = None \<longleftrightarrow> map_of st (rc_serviceId c) = None"
    and el: "is_eliminated st' (rc_serviceId c) \<longleftrightarrow> is_eliminated st (rc_serviceId c)
     \<or> (map_of st (rc_serviceId c) \<noteq> None
         \<and> (\<exists>d \<in> set (survivorsOf inp rule). rc_serviceId d = rc_serviceId c \<and> verdict d \<noteq> None))"
    and facts: "\<And>a b. rc_facts a = rc_facts b \<Longrightarrow> verdict a = None \<longleftrightarrow> verdict b = None"
    and sv: "verdict c = None \<Longrightarrow> serviceable c"
  shows "selectionSound inp (finish m ts (update_result (rc_serviceId c) select_result st')
           (SELECTED (rc_serviceId c)) fb)"
proof -
  have cs: "c \<in> set (survivorsOf inp rule)" "verdict c = None" using c by auto
  note cf = survivor_facts [OF cs(1)]
  have "\<not> is_eliminated st' (rc_serviceId c)"
  proof -
    have "\<forall>d \<in> set (survivorsOf inp rule). rc_serviceId d = rc_serviceId c \<longrightarrow> verdict d = None"
    proof (intro ballI impI)
      fix d assume "d \<in> set (survivorsOf inp rule)" "rc_serviceId d = rc_serviceId c"
      then have "rc_facts d = rc_facts c" using survivor_facts cf by metis
      then show "verdict d = None" using facts cs(2) by blast
    qed
    moreover have "\<not> is_eliminated st (rc_serviceId c)" using cf ruleRun_spec(5) [OF run] by metis
    ultimately show ?thesis using el by metis
  qed
  moreover have "map_of st' (rc_serviceId c) \<noteq> None"
    using dom ruleRun_spec(6) [OF run] cf by blast
  ultimately have "onlySelected (update_result (rc_serviceId c) select_result st') (rc_serviceId c)"
    using st' by (intro onlySelected_select)
  moreover have "quoteServiceable inp (rc_serviceId c)"
    using sv [OF cs(2)] cf by (simp add: serviceable_quote)
  moreover have "bookableService inp (rc_serviceId c)" using cf by (blast intro: admitted_bookable)
  moreover have "wfStore inp (update_result (rc_serviceId c) select_result st')"
    using st'(1) by (simp add: wfStore_update)
  ultimately show ?thesis by (intro finish_selected)
qed

lemma hd_js_sort: "xs \<noteq> [] \<Longrightarrow> hd (js_sort cmp xs) \<in> set xs"
  by (metis hd_in_set js_sort_Nil_iff set_js_sort)

lemma runAction_sound: "selectionSound inp (runAction legacy inp rule ts)"
proof -
  obtain run st where run: "ruleRun inp rule = (run, st)" by (cases "ruleRun inp rule")
  note spec = ruleRun_spec [OF run]
  note unf = runAction_unfold [OF run]
  have pf: "rc_facts a = rc_facts b \<Longrightarrow> pricedVerdict a = None \<longleftrightarrow> pricedVerdict b = None" for a b
    by (simp add: pricedVerdict_def serviceable_def usablePrice_def)
  have ef: "rc_facts a = rc_facts b \<Longrightarrow> eddVerdict legacy inp a = None \<longleftrightarrow> eddVerdict legacy inp b = None" for a b
    by (simp add: eddVerdict_def serviceable_def eddState_def quoteOf_def)
  consider "rd_actionType rule = PRIORITY_CHAIN" | "rd_actionType rule = CHEAPEST"
    | "rd_actionType rule \<noteq> PRIORITY_CHAIN" "rd_actionType rule \<noteq> CHEAPEST" by blast
  then show ?thesis
  proof cases
    case 1
    obtain p st' where r: "runPriorityChain (survivorsOf inp rule) st = (p, st')"
      by (cases "runPriorityChain (survivorsOf inp rule) st")
    from runPriorityChain_spec [OF r spec(2,3,4)] find_survivors
    have p: "map_option rc_serviceId p = List.find (\<lambda>s. admitted inp rule s
          \<and> \<not> is_eliminated st s \<and> quoteServiceable inp s) (rd_actionServiceIds rule)"
      and wf: "wfStore inp st'"
      and sel: "case p of None \<Rightarrow> unselected st' | Some c \<Rightarrow> onlySelected st' (rc_serviceId c)"
      by auto
    show ?thesis
    proof (cases p)
      case None
      with wf sel 1 r show ?thesis by (simp add: unf finish_manual)
    next
      case (Some c)
      then have "admitted inp rule (rc_serviceId c)" "quoteServiceable inp (rc_serviceId c)"
        using p by (auto simp: find_Some_iff dest!: sym [of "Some _"])
      with wf sel 1 r Some show ?thesis
        by (simp add: unf) (blast intro: finish_selected admitted_bookable)
    qed
  next
    case 2
    obtain priced' st' where r: "keepPriced (survivorsOf inp rule) st = (priced', st')"
      by (cases "keepPriced (survivorsOf inp rule) st")
    then have k: "priced' = filter (\<lambda>c. pricedVerdict c = None) (survivorsOf inp rule)" and st': "st' = snd (keepPriced (survivorsOf inp rule) st)"
      using priced.kept [of "survivorsOf inp rule" st] by simp_all
    have wf': "wfStore inp st'" and un': "unselected st'"
      unfolding st' by (rule priced.keeps_wf [OF spec(2)], rule priced.keeps_unselected [OF spec(3)])
    show ?thesis
    proof (cases "priced' = []")
      case True
      then show ?thesis
        using 2 r runDefaultChain_sound [OF wf' un'] by (simp add: unf)
    next
      case False
      from hd_js_sort [OF this, of "cheaper st'"] have c: "hd (js_sort (cheaper st') priced')
          \<in> set (filter (\<lambda>c. pricedVerdict c = None) (survivorsOf inp rule))" by (simp only: k)
      have sv: "pricedVerdict c = None \<Longrightarrow> serviceable c" for c
        by (auto simp: pricedVerdict_def split: if_splits)
      from selected_from_pass [OF run c priced.keeps_wf [OF spec(2)] priced.keeps_unselected [OF spec(3)]
          priced.keeps_dom priced.eliminated pf sv]
      show ?thesis using 2 r False by (simp add: unf Let_def flip: st')
    qed
  next
    case 3
    obtain usable st' where r: "keepEdd legacy inp (survivorsOf inp rule) st = (usable, st')"
      by (cases "keepEdd legacy inp (survivorsOf inp rule) st")
    then have k: "usable = filter (\<lambda>c. eddVerdict legacy inp c = None) (survivorsOf inp rule)"
      and st': "st' = snd (keepEdd legacy inp (survivorsOf inp rule) st)"
      using edd.kept [of legacy inp "survivorsOf inp rule" st] by simp_all
    have wf': "wfStore inp st'" and un': "unselected st'"
      unfolding st' by (rule edd.keeps_wf [OF spec(2)], rule edd.keeps_unselected [OF spec(3)])
    show ?thesis
    proof (cases "usable = []")
      case True
      then show ?thesis
        using 3 r runDefaultChain_sound [OF wf' un'] by (simp add: unf)
    next
      case False
      from hd_js_sort [OF this, of "faster legacy st'"] have c: "hd (js_sort (faster legacy st') usable)
          \<in> set (filter (\<lambda>c. eddVerdict legacy inp c = None) (survivorsOf inp rule))" by (simp only: k)
      have sv: "eddVerdict legacy inp c = None \<Longrightarrow> serviceable c" for c
        by (auto simp: eddVerdict_def split: if_splits)
      from selected_from_pass [OF run c edd.keeps_wf [OF spec(2)] edd.keeps_unselected [OF spec(3)]
          edd.keeps_dom edd.eliminated ef sv]
      show ?thesis using 3 r False by (simp add: unf Let_def flip: st')
    qed
  qed
qed

end
