(* ===== verification/Rule_Properties.thy ===== *)
theory Rule_Properties
  imports Rule_Select
begin

text \<open>
  The theorems about \<open>evaluate\<close> (\<open>src/modules/rules/evaluate.ts\<close>) as a whole, and the
  comparators of CHEAPEST and FASTEST as instances of the sorting interface.
\<close>

section \<open>The comparators\<close>

definition costKey :: "result_store \<Rightarrow> RunCandidate \<Rightarrow> int option" where
  "costKey st c = parseDecimal
     (case Option.bind (map_of st (rc_serviceId c)) cr_cost of None \<Rightarrow> ''0'' | Some t \<Rightarrow> t)"

definition eddKey :: "(string \<Rightarrow> int option) \<Rightarrow> result_store \<Rightarrow> RunCandidate \<Rightarrow> int option" where
  "eddKey legacy st c = dateParse legacy
     (case Option.bind (map_of st (rc_serviceId c)) cr_eddTo of None \<Rightarrow> [] | Some t \<Rightarrow> t)"

definition tieOrder :: "RunCandidate \<Rightarrow> int" where
  "tieOrder c = (case rc_facts c of None \<Rightarrow> 0 | Some f \<Rightarrow> cf_priorityTiebreakOrder f)"

lemma tiebreak_le: "tiebreak a b \<le> 0 \<longleftrightarrow> tieOrder a < tieOrder b
    \<or> (tieOrder a = tieOrder b \<and> rc_chainPosition a \<le> rc_chainPosition b)"
  by (auto simp: tiebreak_def Let_def tieOrder_def)

lemma cheaper_le:
  "costKey st a = Some x \<Longrightarrow> costKey st b = Some y \<Longrightarrow>
     cheaper st a b \<le> 0 \<longleftrightarrow> x < y \<or> (x = y \<and> tiebreak a b \<le> 0)"
  by (simp add: cheaper_def costKey_def cmpDecimal_def Let_def)

lemma faster_le:
  "eddKey legacy st a = Some x \<Longrightarrow> eddKey legacy st b = Some y \<Longrightarrow>
     faster legacy st a b \<le> 0 \<longleftrightarrow> x < y \<or> (x = y \<and> tiebreak a b \<le> 0)"
  by (auto simp: faster_def eddKey_def Let_def)

interpretation by_cost: js_comparator "{c. costKey st c \<noteq> None}" "cheaper st" for st
proof
  fix a b c
  assume "a \<in> {c. costKey st c \<noteq> None}" "b \<in> {c. costKey st c \<noteq> None}"
  then obtain x y where xy: "costKey st a = Some x" "costKey st b = Some y" by auto
  show "cheaper st a b \<le> 0 \<or> cheaper st b a \<le> 0"
    unfolding cheaper_le [OF xy] cheaper_le [OF xy(2,1)] tiebreak_le by auto
  assume "c \<in> {c. costKey st c \<noteq> None}"
  then obtain z where z: "costKey st c = Some z" by auto
  show "cheaper st a b \<le> 0 \<Longrightarrow> cheaper st b c \<le> 0 \<Longrightarrow> cheaper st a c \<le> 0"
    unfolding cheaper_le [OF xy] cheaper_le [OF xy(2) z] cheaper_le [OF xy(1) z] tiebreak_le by auto
qed

interpretation by_edd: js_comparator "{c. eddKey legacy st c \<noteq> None}" "faster legacy st" for legacy st
proof
  fix a b c
  assume "a \<in> {c. eddKey legacy st c \<noteq> None}" "b \<in> {c. eddKey legacy st c \<noteq> None}"
  then obtain x y where xy: "eddKey legacy st a = Some x" "eddKey legacy st b = Some y" by auto
  show "faster legacy st a b \<le> 0 \<or> faster legacy st b a \<le> 0"
    unfolding faster_le [OF xy] faster_le [OF xy(2,1)] tiebreak_le by auto
  assume "c \<in> {c. eddKey legacy st c \<noteq> None}"
  then obtain z where z: "eddKey legacy st c = Some z" by auto
  show "faster legacy st a b \<le> 0 \<Longrightarrow> faster legacy st b c \<le> 0 \<Longrightarrow> faster legacy st a c \<le> 0"
    unfolding faster_le [OF xy] faster_le [OF xy(2) z] faster_le [OF xy(1) z] tiebreak_le by auto
qed

section \<open>The rule that decides\<close>

definition decides ::
  "(string \<Rightarrow> int \<Rightarrow> int option) \<Rightarrow> (string \<Rightarrow> int option) \<Rightarrow> EvaluateInput \<Rightarrow> RuleDef option \<Rightarrow> bool" where
  "decides tz legacy inp m \<longleftrightarrow> (\<exists>lp ts. shopLocalParts tz (ev_now inp) (ev_shopTimezone inp) = Inr lp
     \<and> scanRules legacy (ev_now inp) (ev_order inp) lp None (ev_rules inp) = (m, ts))"

lemma evaluate_decided:
  "decides tz legacy inp (Some rule) \<Longrightarrow> rd_actionType rule \<noteq> MANUAL_ONLY
    \<Longrightarrow> \<exists>ts. evaluate tz legacy inp = Inr (runAction legacy inp rule ts)"
  by (auto simp: decides_def evaluate_def)

lemma evaluate_undecided:
  "decides tz legacy inp None \<Longrightarrow> ev_defaultChainServiceIds inp = Some ids \<Longrightarrow> ids \<noteq> [] \<Longrightarrow>
    \<exists>ts nt. evaluate tz legacy inp = Inr (runDefaultChain inp None ts nt S22_DEFAULT_CHAIN [])"
  by (auto simp: decides_def evaluate_def) blast

text \<open>
  C4: First match wins.  The rule that decides is the first, in the order given, that is
  active, inside its window, and has a condition group all of whose conditions hold; the
  trace names every rule in order and gives each the status the scan saw, rules below the
  match being reported as not evaluated.
\<close>

theorem rule_scan_first_match:
  assumes "evaluate tz legacy inp = Inr res"
    and "shopLocalParts tz (ev_now inp) (ev_shopTimezone inp) = Inr lp"
  shows "map rt_ruleId (rs_ruleTraces res) = map rd_ruleId (ev_rules inp)
    \<and> ((rs_matchedRuleId res = None
        \<and> list_all (\<lambda>r. \<not> fires legacy (ev_now inp) (ev_order inp) lp r) (ev_rules inp)
        \<and> map rt_status (rs_ruleTraces res) = map (idleStatus legacy (ev_now inp)) (ev_rules inp))
      \<or> (\<exists>pre r post. ev_rules inp = pre @ r # post \<and> rs_matchedRuleId res = Some (rd_ruleId r)
        \<and> fires legacy (ev_now inp) (ev_order inp) lp r
        \<and> list_all (\<lambda>r. \<not> fires legacy (ev_now inp) (ev_order inp) lp r) pre
        \<and> map rt_status (rs_ruleTraces res) = map (idleStatus legacy (ev_now inp)) pre
             @ MATCHED # map (\<lambda>_. NOT_EVALUATED) post))"
proof -
  obtain m ts where scan: "scanRules legacy (ev_now inp) (ev_order inp) lp None (ev_rules inp) = (m, ts)"
    by (cases "scanRules legacy (ev_now inp) (ev_order inp) lp None (ev_rules inp)")
  have dc: "rs_matchedRuleId (runDefaultChain inp q ts nt kind st) = map_option rd_ruleId q
      \<and> rs_ruleTraces (runDefaultChain inp q ts nt kind st) = ts" for q nt kind st
    by (auto simp: runDefaultChain_def Let_def finish_def split: prod.splits option.splits)
  have ra: "rs_matchedRuleId (runAction legacy inp q ts) = Some (rd_ruleId q)
      \<and> rs_ruleTraces (runAction legacy inp q ts) = ts" for q
    by (auto simp: runAction_def Let_def finish_def dc split: prod.splits option.splits)
  have "rs_matchedRuleId res = map_option rd_ruleId m \<and> rs_ruleTraces res = ts"
    using assms scan dc ra
    by (auto simp: evaluate_def Let_def finish_def split: option.splits if_splits)
  with scan_shape [OF scan] show ?thesis
    by (cases m) (simp, force)
qed

section \<open>A small input\<close>

definition exampleService :: "string \<Rightarrow> CostSource \<Rightarrow> CandidateQuote option \<Rightarrow> CandidateFacts" where
  "exampleService s src q = \<lparr>cf_serviceId = s, cf_courierAccountId = None, cf_costSource = src,
     cf_bookable = True, cf_notBookableReason = None, cf_priorityTiebreakOrder = 1, cf_quote = q,
     cf_quoteError = None, cf_zone = None, cf_volumetricWeightKg = None\<rparr>"

definition exampleQuote :: "string option \<Rightarrow> string option \<Rightarrow> CandidateQuote" where
  "exampleQuote cost edd = \<lparr>cq_serviceable = True, cq_failureReasons = [], cq_rateAvailable = True,
     cq_total = cost, cq_eddFrom = None, cq_eddTo = edd, cq_fetchedAt = Some ''2026-08-01T06:00:00.000Z''\<rparr>"

definition exampleRule :: "RuleActionType \<Rightarrow> string list \<Rightarrow> RuleDef" where
  "exampleRule action ids = \<lparr>rd_ruleId = ''r'', rd_name = ''n'', rd_version = 1, rd_isActive = True,
     rd_position = 1, rd_actionType = action, rd_excludedServiceIds = [], rd_activeFrom = None,
     rd_activeTo = None, rd_groups = [\<lparr>cg_position = 1, cg_conditions = []\<rparr>], rd_actionServiceIds = ids\<rparr>"

definition exampleOrder :: OrderFacts where
  "exampleOrder = \<lparr>of_deadWeightKg = Some ''1.2'', of_orderAmount = None, of_paymentMode = PREPAID,
     of_destinationPincode = None, of_skus = [], of_tags = [], of_destState = None, of_destCity = None,
     of_codAmount = None, of_checkoutShippingTitle = None, of_checkoutShippingAmount = None,
     of_itemCount = None, of_products = [], of_vendors = [], of_collections = [], of_riskFlag = None\<rparr>"

definition exampleInput :: "RuleDef list \<Rightarrow> CandidateFacts list \<Rightarrow> string list option \<Rightarrow> EvaluateInput" where
  "exampleInput rules candidates chain = \<lparr>ev_now = 1785571200000, ev_shopTimezone = ''Asia/Kolkata'',
     ev_eddStaleMs = 21600000, ev_rules = rules, ev_order = exampleOrder, ev_candidates = candidates,
     ev_defaultChainServiceIds = chain\<rparr>"

definition kolkata :: "string \<Rightarrow> int \<Rightarrow> int option" where
  "kolkata zone t = (if zone = ''Asia/Kolkata'' then Some 19800 else None)"

definition noLegacy :: "string \<Rightarrow> int option" where
  "noLegacy s = None"

lemma example_fields:
  "ev_candidates (exampleInput rs cs ch) = cs" "ev_defaultChainServiceIds (exampleInput rs cs ch) = ch"
  "ev_eddStaleMs (exampleInput rs cs ch) = 21600000" "ev_now (exampleInput rs cs ch) = 1785571200000"
  "ev_order (exampleInput rs cs ch) = exampleOrder"
  "rd_actionType (exampleRule a ids) = a" "rd_actionServiceIds (exampleRule a ids) = ids"
  "rd_excludedServiceIds (exampleRule a ids) = []" "cf_serviceId (exampleService s src q) = s"
  "cf_quote (exampleService s src q) = q" "cf_bookable (exampleService s src q)"
  "cf_costSource (exampleService s src q) = src" "cf_priorityTiebreakOrder (exampleService s src q) = 1"
  "rd_ruleId (exampleRule a ids) = ''r''" "rd_isActive (exampleRule a ids)" "rd_activeFrom (exampleRule a ids) = None"
  "rd_activeTo (exampleRule a ids) = None" "rd_groups (exampleRule a ids) = [\<lparr>cg_position = 1, cg_conditions = []\<rparr>]"
  "ev_rules (exampleInput rs cs ch) = rs" "ev_shopTimezone (exampleInput rs cs ch) = ''Asia/Kolkata''"
  by (simp_all add: exampleInput_def exampleRule_def exampleService_def)

lemma example_local: "shopLocalParts kolkata (ev_now (exampleInput rs cs ch)) (ev_shopTimezone (exampleInput rs cs ch))
    = Inr \<lparr>lp_weekday = SAT, lp_minutesOfDay = 810\<rparr>"
  "shopLocalParts kolkata 1785571200000 ''Asia/Kolkata'' = Inr \<lparr>lp_weekday = SAT, lp_minutesOfDay = 810\<rparr>"
  by (simp_all add: shopLocalParts_def kolkata_def example_fields weekdays_def)

lemma example_decides: "decides kolkata noLegacy (exampleInput (exampleRule a ids # rs) cs ch) (Some (exampleRule a ids))"
  by (simp add: decides_def example_local example_fields outsideSchedule_def groupTrace_def scan_after_match)

lemma example_decides_none: "decides kolkata noLegacy (exampleInput [] cs ch) None"
  by (simp add: decides_def example_local example_fields)

lemma example_admitted: "admitted inp (exampleRule a ids) s \<longleftrightarrow> bookableService inp s"
proof -
  have "ruleFilters (exampleRule a ids) = None"
    by (simp add: ruleFilters_def collectCandidateFilters_def noFilters_def example_fields)
  then show ?thesis
    by (simp add: admitted_def example_fields buildReasons_plain)
qed

lemma factsFor_example: "factsFor (exampleInput rs cs ch) s
    = map_of (map_from (map (\<lambda>c. (cf_serviceId c, c)) cs)) s"
  by (simp add: factsFor_def example_fields)

lemmas example_eval = example_fields factsFor_example map_from_def bookableService_def
  quoteServiceable_def exampleQuote_def

lemma rule_scan_first_match_witness:
  "\<exists>res. evaluate kolkata noLegacy (exampleInput [exampleRule MANUAL_ONLY [], exampleRule CHEAPEST [''a'']] [] None) = Inr res
     \<and> map rt_status (rs_ruleTraces res) = [MATCHED, NOT_EVALUATED]"
proof -
  let ?i = "exampleInput [exampleRule MANUAL_ONLY [], exampleRule CHEAPEST [''a'']] [] None"
  have fire: "fires noLegacy t ord lp (exampleRule a ids)" for t ord lp a ids
    by (simp add: fires_def outsideSchedule_def conditionsHold_def example_fields)
  have "\<exists>res. evaluate kolkata noLegacy ?i = Inr res"
    by (simp add: evaluate_def example_local Let_def split: prod.splits option.splits)
  then obtain res where res: "evaluate kolkata noLegacy ?i = Inr res" ..
  have "\<exists>pre r post. ev_rules ?i = pre @ r # post \<and> pre = []
      \<and> map rt_status (rs_ruleTraces res) = MATCHED # map (\<lambda>_. NOT_EVALUATED) post"
    using rule_scan_first_match [OF res example_local(1)] by (auto simp: example_fields fire Cons_eq_append_conv)
  then show ?thesis using res by (auto simp: example_fields)
qed

end
