(* ===== verification/Rule_Actions.thy ===== *)
theory Rule_Actions
  imports Rule_Properties
begin

text \<open>
  What \<open>evaluate\<close> (\<open>src/modules/rules/evaluate.ts\<close>) selects, action by action, and what the
  fallback chain can no longer select.
\<close>

section \<open>Soundness of a selection\<close>

text \<open>
  A selected Service is one that may be booked.  It is known, enabled, and its quote, if
  it has one, says the lane is serviceable; the stored results mark exactly this Service as
  selected and report no elimination reason for it.  When the outcome is a manual
  assignment no stored result is marked as selected.  (The fallback and default chains are
  included, and so are action lists that repeat a Service.)
\<close>

theorem selected_service_is_sound:
  assumes "evaluate tz legacy inp = Inr res"
  shows "selectionSound inp res"
proof -
  have manual: "selectionSound inp (finish m ts [] (MANUAL_ASSIGNMENT why) fb)" for m ts why fb
    by (rule finish_manual) simp_all
  have chain: "selectionSound inp (runDefaultChain inp m ts nt kind [])" for m ts nt kind
    by (rule runDefaultChain_sound) simp_all
  obtain lp where lp: "shopLocalParts tz (ev_now inp) (ev_shopTimezone inp) = Inr lp"
    using assms by (auto simp: evaluate_def bindR_Inr_iff)
  obtain m ts where scan: "scanRules legacy (ev_now inp) (ev_order inp) lp None (ev_rules inp) = (m, ts)"
    by (cases "scanRules legacy (ev_now inp) (ev_order inp) lp None (ev_rules inp)")
  show ?thesis
    using assms manual chain runAction_sound [of inp legacy]
    by (auto simp: evaluate_def lp scan split: option.splits if_splits)
qed

lemma selected_service_is_sound_witness:
  "\<exists>res. evaluate kolkata noLegacy (exampleInput [exampleRule PRIORITY_CHAIN [''a'']]
       [exampleService ''a'' NONE_SOURCE None] None) = Inr res
     \<and> selectionSound (exampleInput [exampleRule PRIORITY_CHAIN [''a'']]
       [exampleService ''a'' NONE_SOURCE None] None) res"
proof -
  obtain ts where "evaluate kolkata noLegacy (exampleInput [exampleRule PRIORITY_CHAIN [''a'']]
       [exampleService ''a'' NONE_SOURCE None] None)
      = Inr (runAction noLegacy (exampleInput [exampleRule PRIORITY_CHAIN [''a'']]
       [exampleService ''a'' NONE_SOURCE None] None) (exampleRule PRIORITY_CHAIN [''a'']) ts)"
    using evaluate_decided [OF example_decides [of PRIORITY_CHAIN "[''a'']" "[]"
        "[exampleService ''a'' NONE_SOURCE None]" None]] by (auto simp: example_fields)
  from selected_service_is_sound [OF this] this show ?thesis by blast
qed

section \<open>PRIORITY\_CHAIN and the default chain\<close>

text \<open>
  A priority chain moves down only past Services that cannot be booked.  A matched
  PRIORITY\_CHAIN rule selects the first Service of its list that survives the rule's
  exclusions and filters and is serviceable, whatever its price and delivery estimate; when
  no rule decides, the default chain selects the first of its Services that is enabled and
  serviceable.  With none, the reasons are CHAIN\_EXHAUSTED and
  NO\_RULE\_AND\_NO\_DEFAULT\_CHAIN.
\<close>

theorem priority_chain_first_serviceable:
  assumes "decides tz legacy inp m"
    and "m = Some rule \<and> rd_actionType rule = PRIORITY_CHAIN
         \<or> m = None \<and> ev_defaultChainServiceIds inp = Some ids \<and> ids \<noteq> []"
  shows "\<exists>res. evaluate tz legacy inp = Inr res \<and> rs_outcome res =
     (case m of
        Some _ \<Rightarrow>
          (case List.find (\<lambda>s. admitted inp rule s \<and> quoteServiceable inp s) (rd_actionServiceIds rule) of
             Some s \<Rightarrow> SELECTED s | None \<Rightarrow> MANUAL_ASSIGNMENT CHAIN_EXHAUSTED)
      | None \<Rightarrow>
          (case List.find (\<lambda>s. bookableService inp s \<and> quoteServiceable inp s) ids of
             Some s \<Rightarrow> SELECTED s | None \<Rightarrow> MANUAL_ASSIGNMENT NO_RULE_AND_NO_DEFAULT_CHAIN))"
proof (cases m)
  case None
  with assms obtain ts nt where "evaluate tz legacy inp = Inr (runDefaultChain inp None ts nt S22_DEFAULT_CHAIN [])"
    using evaluate_undecided by blast
  moreover from None assms have ids: "ev_defaultChainServiceIds inp = Some ids" "ids \<noteq> []" by auto
  ultimately show ?thesis
    using None runDefaultChain_spec [OF wfStore_Nil ids] by (simp add: is_eliminated_def)
next
  case (Some r)
  with assms have r: "r = rule" "rd_actionType rule = PRIORITY_CHAIN" by auto
  with Some assms obtain ts where ev: "evaluate tz legacy inp = Inr (runAction legacy inp rule ts)"
    using evaluate_decided [of tz legacy inp rule] by auto
  obtain run st where run: "ruleRun inp rule = (run, st)" by (cases "ruleRun inp rule")
  obtain p st' where q: "runPriorityChain (survivorsOf inp rule) st = (p, st')"
    by (cases "runPriorityChain (survivorsOf inp rule) st")
  note spec = ruleRun_spec [OF run]
  from runPriorityChain_spec [OF q spec(2,3,4)] find_survivors
  have "map_option rc_serviceId p = List.find (\<lambda>s. admitted inp rule s
        \<and> \<not> is_eliminated st s \<and> quoteServiceable inp s) (rd_actionServiceIds rule)" by simp
  also have "\<dots> = List.find (\<lambda>s. admitted inp rule s \<and> quoteServiceable inp s) (rd_actionServiceIds rule)"
    by (rule find_cong [OF refl]) (auto simp: spec(5))
  finally have "List.find (\<lambda>s. admitted inp rule s \<and> quoteServiceable inp s) (rd_actionServiceIds rule)
      = map_option rc_serviceId p" by simp
  then show ?thesis
    using ev Some r q by (cases p) (auto simp: runAction_unfold [OF run] finish_def)
qed

lemma priority_chain_first_serviceable_witness:
  "\<exists>res. evaluate kolkata noLegacy (exampleInput [exampleRule PRIORITY_CHAIN [''a'', ''b'']]
       [exampleService ''a'' RATE_CARD (Some ((exampleQuote None None)\<lparr>cq_serviceable := False\<rparr>)),
        exampleService ''b'' NONE_SOURCE None] None) = Inr res \<and> rs_outcome res = SELECTED ''b''"
  using priority_chain_first_serviceable [OF example_decides, of PRIORITY_CHAIN "[''a'', ''b'']"
      "exampleRule PRIORITY_CHAIN [''a'', ''b'']" "[]"
      "[exampleService ''a'' RATE_CARD (Some ((exampleQuote None None)\<lparr>cq_serviceable := False\<rparr>)),
        exampleService ''b'' NONE_SOURCE None]" None undefined]
  by (simp add: example_admitted example_eval)

section \<open>CHEAPEST and FASTEST\<close>

text \<open>A Service CHEAPEST compares, and one FASTEST compares.\<close>

definition pricedService :: "EvaluateInput \<Rightarrow> string \<Rightarrow> bool" where
  "pricedService inp s \<longleftrightarrow> quoteServiceable inp s \<and> (case factsFor inp s of None \<Rightarrow> False
     | Some f \<Rightarrow> cf_costSource f \<noteq> NONE_SOURCE \<and> usableTotal f \<noteq> None)"

definition serviceCost :: "EvaluateInput \<Rightarrow> string \<Rightarrow> int option" where
  "serviceCost inp s = Option.bind (Option.bind (factsFor inp s) usableTotal) parseDecimal"

definition timedService :: "(string \<Rightarrow> int option) \<Rightarrow> EvaluateInput \<Rightarrow> string \<Rightarrow> bool" where
  "timedService legacy inp s \<longleftrightarrow> quoteServiceable inp s
     \<and> (\<exists>q edd at. Option.bind (factsFor inp s) cf_quote = Some q \<and> cq_eddTo q = Some edd
        \<and> cq_fetchedAt q = Some at \<and> (case dateParse legacy at of None \<Rightarrow> True
             | Some t \<Rightarrow> ev_now inp - t \<le> ev_eddStaleMs inp))"

definition serviceEdd :: "(string \<Rightarrow> int option) \<Rightarrow> EvaluateInput \<Rightarrow> string \<Rightarrow> int option" where
  "serviceEdd legacy inp s =
     Option.bind (Option.bind (Option.bind (factsFor inp s) cf_quote) cq_eddTo) (dateParse legacy)"

definition serviceTie :: "EvaluateInput \<Rightarrow> string \<Rightarrow> int" where
  "serviceTie inp s = (case factsFor inp s of None \<Rightarrow> 0 | Some f \<Rightarrow> cf_priorityTiebreakOrder f)"

lemma pricedVerdict_None:
  "rc_facts c = factsFor inp (rc_serviceId c) \<Longrightarrow>
     pricedVerdict c = None \<longleftrightarrow> pricedService inp (rc_serviceId c)"
  by (auto simp: pricedVerdict_def serviceable_quote pricedService_def usablePrice_def split: option.splits)

lemma eddVerdict_None:
  "rc_facts c = factsFor inp (rc_serviceId c) \<Longrightarrow>
     eddVerdict legacy inp c = None \<longleftrightarrow> timedService legacy inp (rc_serviceId c)"
  by (auto simp: eddVerdict_def serviceable_quote timedService_def eddState_def quoteOf_def
      split: option.splits)

lemma costKey_service:
  "wfStore inp st \<Longrightarrow> map_of st (rc_serviceId c) \<noteq> None \<Longrightarrow> pricedService inp (rc_serviceId c) \<Longrightarrow>
     costKey st c = serviceCost inp (rc_serviceId c)"
  by (auto simp: wfStore_def wfResult_def costKey_def serviceCost_def pricedService_def split: option.splits)

lemma eddKey_service:
  "wfStore inp st \<Longrightarrow> map_of st (rc_serviceId c) \<noteq> None \<Longrightarrow> timedService legacy inp (rc_serviceId c) \<Longrightarrow>
     eddKey legacy st c = serviceEdd legacy inp (rc_serviceId c)"
  by (auto simp: wfStore_def wfResult_def eddKey_def serviceEdd_def timedService_def
      bind_eq_Some_conv split: option.splits)

lemma tieOrder_service: "rc_facts c = factsFor inp (rc_serviceId c) \<Longrightarrow> tieOrder c = serviceTie inp (rc_serviceId c)"
  by (simp add: tieOrder_def serviceTie_def)

lemma kept_services:
  "(\<exists>c \<in> set (filter (\<lambda>c. P (rc_serviceId c)) (survivorsOf inp rule)). rc_serviceId c = s)
     \<longleftrightarrow> s \<in> set (rd_actionServiceIds rule) \<and> admitted inp rule s \<and> P s"
  using survivors_iff [of inp rule s] by auto

lemma kept_eq:
  assumes "\<And>c. rc_facts c = factsFor inp (rc_serviceId c) \<Longrightarrow> verdict c = None \<longleftrightarrow> P (rc_serviceId c)"
  shows "filter (\<lambda>c. verdict c = None) (survivorsOf inp rule)
    = filter (\<lambda>c. P (rc_serviceId c)) (survivorsOf inp rule)"
  by (rule filter_cong [OF refl]) (use assms survivor_facts in blast)

text \<open>The shape of CHEAPEST and FASTEST: nothing to compare and the chain, or a least one.\<close>

lemma least_of_kept:
  assumes "c = hd (js_sort cmp (filter (\<lambda>c. P (rc_serviceId c)) (survivorsOf inp rule)))"
    and "filter (\<lambda>c. P (rc_serviceId c)) (survivorsOf inp rule) \<noteq> []"
    and "js_comparator A cmp" and "set (filter (\<lambda>c. P (rc_serviceId c)) (survivorsOf inp rule)) \<subseteq> A"
  shows "rc_serviceId c \<in> set (rd_actionServiceIds rule) \<and> admitted inp rule (rc_serviceId c) \<and> P (rc_serviceId c)
     \<and> c \<in> A \<and> rc_facts c = factsFor inp (rc_serviceId c)
     \<and> (\<forall>t. t \<in> set (rd_actionServiceIds rule) \<longrightarrow> admitted inp rule t \<longrightarrow> P t \<longrightarrow>
         (\<exists>d \<in> A. rc_serviceId d = t \<and> rc_facts d = factsFor inp t \<and> cmp c d \<le> 0))"
proof -
  let ?k = "filter (\<lambda>c. P (rc_serviceId c)) (survivorsOf inp rule)"
  have c: "c \<in> set ?k" unfolding assms(1) by (rule hd_js_sort [OF assms(2)])
  have "\<exists>d \<in> A. rc_serviceId d = t \<and> rc_facts d = factsFor inp t \<and> cmp c d \<le> 0"
    if "t \<in> set (rd_actionServiceIds rule)" "admitted inp rule t" "P t" for t
  proof -
    from that kept_services [of P inp rule t] obtain d where d: "d \<in> set ?k" "rc_serviceId d = t" by blast
    have "cmp c d \<le> 0"
      using js_comparator.hd_sort_least [OF assms(3,4) d(1)] by (simp add: assms(1))
    moreover have "rc_facts d = factsFor inp t" using d survivor_facts [of d] by auto
    ultimately show ?thesis using d assms(4) by blast
  qed
  with c assms(4) survivor_facts [of c inp rule] show ?thesis by auto
qed

text \<open>
  C5: CHEAPEST selects a least cost.  When every total in play is a readable decimal and
  some Service of the rule survives, is serviceable and has a usable price, the outcome is
  such a Service whose cost is not above that of any other, and among equal costs its
  tie-break order is not above theirs; a missing or stale delivery estimate plays no part.
\<close>

theorem cheapest_selects_least_cost:
  assumes "decides tz legacy inp (Some rule)" and "rd_actionType rule = CHEAPEST"
    and "list_all (\<lambda>s. pricedService inp s \<longrightarrow> serviceCost inp s \<noteq> None) (rd_actionServiceIds rule)"
    and "list_ex (\<lambda>s. admitted inp rule s \<and> pricedService inp s) (rd_actionServiceIds rule)"
  shows "\<exists>res s x. evaluate tz legacy inp = Inr res \<and> rs_outcome res = SELECTED s \<and> rs_fallbackChain res = None
     \<and> s \<in> set (rd_actionServiceIds rule) \<and> admitted inp rule s \<and> pricedService inp s \<and> serviceCost inp s = Some x
     \<and> (\<forall>t y. t \<in> set (rd_actionServiceIds rule) \<and> admitted inp rule t \<and> pricedService inp t
          \<and> serviceCost inp t = Some y \<longrightarrow> x < y \<or> (x = y \<and> serviceTie inp s \<le> serviceTie inp t))"
proof -
  obtain ts where ev: "evaluate tz legacy inp = Inr (runAction legacy inp rule ts)"
    using evaluate_decided [OF assms(1)] assms(2) by auto
  obtain run st where run: "ruleRun inp rule = (run, st)" by (cases "ruleRun inp rule")
  note spec = ruleRun_spec [OF run]
  define st' where "st' = snd (keepPriced (survivorsOf inp rule) st)"
  let ?k = "filter (\<lambda>c. pricedService inp (rc_serviceId c)) (survivorsOf inp rule)"
  define c where "c = hd (js_sort (cheaper st') ?k)"
  have kp: "keepPriced (survivorsOf inp rule) st = (?k, st')"
    using priced.kept [of "survivorsOf inp rule" st] kept_eq [of inp pricedVerdict "pricedService inp", OF pricedVerdict_None]
    by (simp add: st'_def prod_eq_iff)
  have wf: "wfStore inp st'" unfolding st'_def by (rule priced.keeps_wf [OF spec(2)])
  have dom: "map_of st' s \<noteq> None" if "s \<in> set (rd_actionServiceIds rule)" for s
    unfolding st'_def priced.keeps_dom using that spec(6) by blast
  have key: "costKey st' d = serviceCost inp (rc_serviceId d)"
    if "rc_serviceId d \<in> set (rd_actionServiceIds rule)" "pricedService inp (rc_serviceId d)" for d
    using costKey_service [OF wf dom [OF that(1)] that(2)] .
  have ne: "?k \<noteq> []"
    using assms(4) kept_services [of "pricedService inp" inp rule] by (fastforce simp: list_ex_iff)
  have sub: "set ?k \<subseteq> {c. costKey st' c \<noteq> None}"
    using assms(3) key survivor_facts by (auto simp: list_all_iff)
  note least = least_of_kept [OF c_def ne by_cost.js_comparator_axioms sub]
  then obtain x where x: "costKey st' c = Some x" by auto
  have "x < y \<or> (x = y \<and> serviceTie inp (rc_serviceId c) \<le> serviceTie inp t)"
    if t: "t \<in> set (rd_actionServiceIds rule)" "admitted inp rule t" "pricedService inp t" "serviceCost inp t = Some y"
    for t y
  proof -
    from least t obtain d where d: "rc_serviceId d = t" "rc_facts d = factsFor inp t" "cheaper st' c d \<le> 0"
      by blast
    then have "costKey st' d = Some y" using key [of d] t by simp
    with d(3) show ?thesis
      using least tieOrder_service [of c inp] tieOrder_service [of d inp] d
      by (auto simp: cheaper_le [OF x] tiebreak_le)
  qed
  moreover have "serviceCost inp (rc_serviceId c) = Some x" using key [of c] least x by simp
  moreover have "runAction legacy inp rule ts = finish (Some rule) ts
      (update_result (rc_serviceId c) select_result st') (SELECTED (rc_serviceId c)) None"
    using ne by (simp add: runAction_unfold [OF run] assms(2) kp Let_def c_def)
  ultimately show ?thesis using ev least by (auto simp: finish_def)
qed

lemma cheapest_selects_least_cost_witness:
  "\<exists>res. evaluate kolkata noLegacy (exampleInput [exampleRule CHEAPEST [''a'', ''b'']]
       [exampleService ''a'' RATE_CARD (Some (exampleQuote (Some ''120.50'') None)),
        exampleService ''b'' LIVE_QUOTE (Some (exampleQuote (Some ''99.9'') None))] None) = Inr res
     \<and> rs_outcome res = SELECTED ''b''"
proof -
  let ?r = "exampleRule CHEAPEST [''a'', ''b'']"
  let ?i = "exampleInput [?r] [exampleService ''a'' RATE_CARD (Some (exampleQuote (Some ''120.50'') None)),
        exampleService ''b'' LIVE_QUOTE (Some (exampleQuote (Some ''99.9'') None))] None"
  have priced: "pricedService ?i ''a''" "pricedService ?i ''b''"
    by (simp_all add: pricedService_def example_eval usableTotal_def)
  have cost: "serviceCost ?i ''a'' = Some 120500000" "serviceCost ?i ''b'' = Some 99900000"
    by (simp_all add: serviceCost_def example_eval usableTotal_def parseDecimal_def text_eval)
  have adm: "admitted ?i ?r ''a''" "admitted ?i ?r ''b''"
    by (simp_all add: example_admitted example_eval)
  show ?thesis
    using cheapest_selects_least_cost [OF example_decides [of CHEAPEST "[''a'', ''b'']" "[]"
        "[exampleService ''a'' RATE_CARD (Some (exampleQuote (Some ''120.50'') None)),
        exampleService ''b'' LIVE_QUOTE (Some (exampleQuote (Some ''99.9'') None))]" None]]
      priced cost adm
    by (fastforce simp: example_fields)
qed

text \<open>
  FASTEST selects an earliest estimate.  When the estimates in play are readable dates and
  some Service of the rule survives, is serviceable and has a fresh delivery estimate, the
  outcome is such a Service whose latest date is not after that of any other, ties going to
  the tie-break order; a missing price plays no part.
\<close>

theorem fastest_selects_earliest_edd:
  assumes "decides tz legacy inp (Some rule)" and "rd_actionType rule = FASTEST"
    and "list_all (\<lambda>s. timedService legacy inp s \<longrightarrow> serviceEdd legacy inp s \<noteq> None) (rd_actionServiceIds rule)"
    and "list_ex (\<lambda>s. admitted inp rule s \<and> timedService legacy inp s) (rd_actionServiceIds rule)"
  shows "\<exists>res s x. evaluate tz legacy inp = Inr res \<and> rs_outcome res = SELECTED s \<and> rs_fallbackChain res = None
     \<and> s \<in> set (rd_actionServiceIds rule) \<and> admitted inp rule s \<and> timedService legacy inp s
     \<and> serviceEdd legacy inp s = Some x
     \<and> (\<forall>t y. t \<in> set (rd_actionServiceIds rule) \<and> admitted inp rule t \<and> timedService legacy inp t
          \<and> serviceEdd legacy inp t = Some y \<longrightarrow> x < y \<or> (x = y \<and> serviceTie inp s \<le> serviceTie inp t))"
proof -
  obtain ts where ev: "evaluate tz legacy inp = Inr (runAction legacy inp rule ts)"
    using evaluate_decided [OF assms(1)] assms(2) by auto
  obtain run st where run: "ruleRun inp rule = (run, st)" by (cases "ruleRun inp rule")
  note spec = ruleRun_spec [OF run]
  define st' where "st' = snd (keepEdd legacy inp (survivorsOf inp rule) st)"
  let ?k = "filter (\<lambda>c. timedService legacy inp (rc_serviceId c)) (survivorsOf inp rule)"
  define c where "c = hd (js_sort (faster legacy st') ?k)"
  have kp: "keepEdd legacy inp (survivorsOf inp rule) st = (?k, st')"
    using edd.kept [of legacy inp "survivorsOf inp rule" st] kept_eq [of inp "eddVerdict legacy inp" "timedService legacy inp", OF eddVerdict_None]
    by (simp add: st'_def prod_eq_iff)
  have wf: "wfStore inp st'" unfolding st'_def by (rule edd.keeps_wf [OF spec(2)])
  have dom: "map_of st' s \<noteq> None" if "s \<in> set (rd_actionServiceIds rule)" for s
    unfolding st'_def edd.keeps_dom using that spec(6) by blast
  have key: "eddKey legacy st' d = serviceEdd legacy inp (rc_serviceId d)"
    if "rc_serviceId d \<in> set (rd_actionServiceIds rule)" "timedService legacy inp (rc_serviceId d)" for d
    using eddKey_service [OF wf dom [OF that(1)] that(2)] .
  have ne: "?k \<noteq> []"
    using assms(4) kept_services [of "timedService legacy inp" inp rule] by (fastforce simp: list_ex_iff)
  have sub: "set ?k \<subseteq> {c. eddKey legacy st' c \<noteq> None}"
    using assms(3) key survivor_facts by (auto simp: list_all_iff)
  note least = least_of_kept [OF c_def ne by_edd.js_comparator_axioms sub]
  then obtain x where x: "eddKey legacy st' c = Some x" by auto
  have "x < y \<or> (x = y \<and> serviceTie inp (rc_serviceId c) \<le> serviceTie inp t)"
    if t: "t \<in> set (rd_actionServiceIds rule)" "admitted inp rule t" "timedService legacy inp t"
      "serviceEdd legacy inp t = Some y"
    for t y
  proof -
    from least t obtain d where d: "rc_serviceId d = t" "rc_facts d = factsFor inp t" "faster legacy st' c d \<le> 0"
      by blast
    then have "eddKey legacy st' d = Some y" using key [of d] t by simp
    with d(3) show ?thesis
      using least tieOrder_service [of c inp] tieOrder_service [of d inp] d
      by (auto simp: faster_le [OF x] tiebreak_le)
  qed
  moreover have "serviceEdd legacy inp (rc_serviceId c) = Some x" using key [of c] least x by simp
  moreover have "runAction legacy inp rule ts = finish (Some rule) ts
      (update_result (rc_serviceId c) select_result st') (SELECTED (rc_serviceId c)) None"
    using ne by (simp add: runAction_unfold [OF run] assms(2) kp Let_def c_def)
  ultimately show ?thesis using ev least by (auto simp: finish_def)
qed

lemma fastest_selects_earliest_edd_witness:
  "\<exists>res. evaluate kolkata noLegacy (exampleInput [exampleRule FASTEST [''a'', ''b'']]
       [exampleService ''a'' RATE_CARD (Some (exampleQuote None (Some ''2026-08-04''))),
        exampleService ''b'' LIVE_QUOTE (Some (exampleQuote (Some ''9.00'') (Some ''2026-08-05'')))] None) = Inr res
     \<and> rs_outcome res = SELECTED ''a''"
proof -
  let ?r = "exampleRule FASTEST [''a'', ''b'']"
  let ?cs = "[exampleService ''a'' RATE_CARD (Some (exampleQuote None (Some ''2026-08-04''))),
        exampleService ''b'' LIVE_QUOTE (Some (exampleQuote (Some ''9.00'') (Some ''2026-08-05'')))]"
  let ?i = "exampleInput [?r] ?cs None"
  have dates: "dateParse noLegacy ''2026-08-04'' = Some 1785801600000"
    "dateParse noLegacy ''2026-08-05'' = Some 1785888000000"
    "dateParse noLegacy ''2026-08-01T06:00:00.000Z'' = Some 1785564000000"
    by code_simp+
  have timed: "timedService noLegacy ?i ''a''" "timedService noLegacy ?i ''b''"
    by (simp_all add: timedService_def example_eval dates)
  have edd: "serviceEdd noLegacy ?i ''a'' = Some 1785801600000" "serviceEdd noLegacy ?i ''b'' = Some 1785888000000"
    by (simp_all add: serviceEdd_def example_eval dates)
  have adm: "admitted ?i ?r ''a''" "admitted ?i ?r ''b''"
    by (simp_all add: example_admitted example_eval)
  show ?thesis
    using fastest_selects_earliest_edd [OF example_decides [of FASTEST "[''a'', ''b'']" "[]" ?cs None]]
      timed edd adm
    by (fastforce simp: example_fields)
qed

section \<open>The fallback chain\<close>

definition comparedService :: "(string \<Rightarrow> int option) \<Rightarrow> EvaluateInput \<Rightarrow> RuleDef \<Rightarrow> string \<Rightarrow> bool" where
  "comparedService legacy inp rule s \<longleftrightarrow>
     (if rd_actionType rule = CHEAPEST then pricedService inp s else timedService legacy inp s)"

lemma eliminated_after_empty_pass:
  assumes run: "ruleRun inp rule = (run, st)"
    and v: "\<And>c. rc_facts c = factsFor inp (rc_serviceId c) \<Longrightarrow> verdict c = None \<longleftrightarrow> P (rc_serviceId c)"
    and none: "list_all (\<lambda>s. \<not> (admitted inp rule s \<and> P s)) (rd_actionServiceIds rule)"
  shows "is_eliminated st s \<or> (map_of st s \<noteq> None
           \<and> (\<exists>c \<in> set (survivorsOf inp rule). rc_serviceId c = s \<and> verdict c \<noteq> None))
      \<longleftrightarrow> s \<in> set (rd_actionServiceIds rule)"
proof (cases "s \<in> set (rd_actionServiceIds rule) \<and> admitted inp rule s")
  case True
  then obtain c where c: "c \<in> set (survivorsOf inp rule)" "rc_serviceId c = s"
    using survivors_iff [of inp rule s] by blast
  have "verdict c \<noteq> None" using v [of c] survivor_facts [OF c(1)] none True c(2) by (auto simp: list_all_iff)
  then show ?thesis using c True ruleRun_spec(6) [OF run, of s] by blast
next
  case False
  then show ?thesis
    using ruleRun_spec(5,6) [OF run, of s] survivors_iff [of inp rule s] by blast
qed

text \<open>
  The fallback after CHEAPEST or FASTEST cannot return to a Service of the rule.  When no
  Service of the rule can be compared, the default chain is evaluated on the results the
  rule has already eliminated, so it selects its first enabled and serviceable Service
  that is not on the rule's own list, and with none of those the shipment needs manual
  assignment.  A Service without a price is thus lost to the chain although price never
  eliminates in a chain: the witness is a chain whose only Service is bookable and
  serviceable, selected when no rule decides and unreachable after CHEAPEST.
\<close>

theorem fallback_never_returns_to_the_rule:
  assumes "decides tz legacy inp (Some rule)"
    and act: "rd_actionType rule = CHEAPEST \<or> rd_actionType rule = FASTEST"
    and none: "list_all (\<lambda>s. \<not> (admitted inp rule s \<and> comparedService legacy inp rule s)) (rd_actionServiceIds rule)"
    and ids: "ev_defaultChainServiceIds inp = Some ids" "ids \<noteq> []"
  shows "\<exists>res. evaluate tz legacy inp = Inr res \<and> rs_outcome res =
     (case List.find (\<lambda>s. s \<notin> set (rd_actionServiceIds rule) \<and> bookableService inp s
          \<and> quoteServiceable inp s) ids of
        Some s \<Rightarrow> SELECTED s | None \<Rightarrow> MANUAL_ASSIGNMENT NO_SERVICEABLE_CANDIDATE)"
proof -
  obtain ts where ev: "evaluate tz legacy inp = Inr (runAction legacy inp rule ts)"
    using evaluate_decided [OF assms(1)] act by auto
  obtain run st where run: "ruleRun inp rule = (run, st)" by (cases "ruleRun inp rule")
  note spec = ruleRun_spec [OF run]
  have chain: "\<exists>nt st'. runAction legacy inp rule ts = runDefaultChain inp (Some rule) ts nt CHAIN_FALLBACK st'
      \<and> wfStore inp st' \<and> unselected st' \<and> (\<forall>s. is_eliminated st' s \<longleftrightarrow> s \<in> set (rd_actionServiceIds rule))"
  proof (cases "rd_actionType rule = CHEAPEST")
    case True
    let ?st = "snd (keepPriced (survivorsOf inp rule) st)"
    have none': "list_all (\<lambda>s. \<not> (admitted inp rule s \<and> pricedService inp s)) (rd_actionServiceIds rule)"
      using none True by (simp add: comparedService_def)
    have "fst (keepPriced (survivorsOf inp rule) st) = []"
      unfolding priced.kept filter_empty_conv
    proof (intro ballI notI)
      fix c assume c: "c \<in> set (survivorsOf inp rule)" "pricedVerdict c = None"
      with survivor_facts [OF c(1)] pricedVerdict_None [of c inp] none' show False by (auto simp: list_all_iff)
    qed
    then have "runAction legacy inp rule ts = runDefaultChain inp (Some rule) ts
        ''price unavailable - fell back to chain'' CHAIN_FALLBACK ?st"
      using True by (simp add: runAction_unfold [OF run] case_prod_unfold)
    moreover have "is_eliminated ?st s \<longleftrightarrow> s \<in> set (rd_actionServiceIds rule)" for s
      unfolding priced.eliminated
      by (rule eliminated_after_empty_pass [OF run pricedVerdict_None none'])
    ultimately show ?thesis
      using priced.keeps_wf [OF spec(2)] priced.keeps_unselected [OF spec(3)] by blast
  next
    case False
    let ?st = "snd (keepEdd legacy inp (survivorsOf inp rule) st)"
    have none': "list_all (\<lambda>s. \<not> (admitted inp rule s \<and> timedService legacy inp s)) (rd_actionServiceIds rule)"
      using none False by (simp add: comparedService_def)
    have "fst (keepEdd legacy inp (survivorsOf inp rule) st) = []"
      unfolding edd.kept filter_empty_conv
    proof (intro ballI notI)
      fix c assume c: "c \<in> set (survivorsOf inp rule)" "eddVerdict legacy inp c = None"
      with survivor_facts [OF c(1)] eddVerdict_None [of c inp] none' show False by (auto simp: list_all_iff)
    qed
    then have "runAction legacy inp rule ts = runDefaultChain inp (Some rule) ts
        ''no usable EDD - fell back to chain'' CHAIN_FALLBACK ?st"
      using False act by (simp add: runAction_unfold [OF run] case_prod_unfold)
    moreover have "is_eliminated ?st s \<longleftrightarrow> s \<in> set (rd_actionServiceIds rule)" for s
      unfolding edd.eliminated
      by (rule eliminated_after_empty_pass [OF run eddVerdict_None none'])
    ultimately show ?thesis
      using edd.keeps_wf [OF spec(2)] edd.keeps_unselected [OF spec(3)] by blast
  qed
  then obtain nt st' where st': "runAction legacy inp rule ts = runDefaultChain inp (Some rule) ts nt CHAIN_FALLBACK st'"
    "wfStore inp st'" "unselected st'" "\<forall>s. is_eliminated st' s \<longleftrightarrow> s \<in> set (rd_actionServiceIds rule)" by blast
  show ?thesis
    using ev runDefaultChain_spec [OF st'(2,3) ids] st'(1,4) by simp
qed

lemma fallback_never_returns_to_the_rule_witness:
  "(\<exists>res. evaluate kolkata noLegacy (exampleInput [exampleRule CHEAPEST [''a'']]
       [exampleService ''a'' NONE_SOURCE None] (Some [''a''])) = Inr res
     \<and> rs_outcome res = MANUAL_ASSIGNMENT NO_SERVICEABLE_CANDIDATE)
   \<and> (\<exists>res. evaluate kolkata noLegacy (exampleInput []
       [exampleService ''a'' NONE_SOURCE None] (Some [''a''])) = Inr res \<and> rs_outcome res = SELECTED ''a'')"
proof
  let ?cs = "[exampleService ''a'' NONE_SOURCE None]"
  show "\<exists>res. evaluate kolkata noLegacy (exampleInput [exampleRule CHEAPEST [''a'']] ?cs (Some [''a''])) = Inr res
     \<and> rs_outcome res = MANUAL_ASSIGNMENT NO_SERVICEABLE_CANDIDATE"
    using fallback_never_returns_to_the_rule [OF example_decides [of CHEAPEST "[''a'']" "[]" ?cs "Some [''a'']"]]
    by (simp add: comparedService_def pricedService_def example_eval)
  obtain ts nt where "evaluate kolkata noLegacy (exampleInput [] ?cs (Some [''a'']))
      = Inr (runDefaultChain (exampleInput [] ?cs (Some [''a''])) None ts nt S22_DEFAULT_CHAIN [])"
    using evaluate_undecided [OF example_decides_none, of ?cs "Some [''a'']" "[''a'']"]
    by (auto simp: example_fields)
  then show "\<exists>res. evaluate kolkata noLegacy (exampleInput [] ?cs (Some [''a''])) = Inr res
     \<and> rs_outcome res = SELECTED ''a''"
    using runDefaultChain_spec [OF wfStore_Nil, of "exampleInput [] ?cs (Some [''a''])" "[''a'']"]
    by (simp add: example_eval is_eliminated_def)
qed

section \<open>Candidate filters\<close>

lemma collect_concat:
  "collectCandidateFilters rule = foldl addFilter noFilters (concat (map cg_conditions (rd_groups rule)))"
proof -
  have "foldl (\<lambda>f g. foldl addFilter f (cg_conditions g)) z gs = foldl addFilter z (concat (map cg_conditions gs))"
    for z and gs :: "ConditionGroupDef list"
    by (induction gs arbitrary: z) simp_all
  then show ?thesis by (simp add: collectCandidateFilters_def)
qed

lemma foldl_addFilter:
  "fl_freight (foldl addFilter z cs) = (case fl_freight z of Some c \<Rightarrow> Some c
     | None \<Rightarrow> List.find (\<lambda>c. cd_field c = ESTIMATED_FREIGHT) cs)"
  "fl_volumetric (foldl addFilter z cs) = (case fl_volumetric z of Some c \<Rightarrow> Some c
     | None \<Rightarrow> List.find (\<lambda>c. cd_field c = VOLUMETRIC_WEIGHT) cs)"
  "fl_zone (foldl addFilter z cs) = (case fl_zone z of Some c \<Rightarrow> Some c
     | None \<Rightarrow> map_option (\<lambda>c. (if cd_operator c = NOT_IN_LIST then NOT_IN_LIST else IN_LIST,
          map (\<lambda>z. to_upper (trim z)) (case cv_list (cd_value c) of None \<Rightarrow> [] | Some l \<Rightarrow> l)))
        (List.find (\<lambda>c. cd_field c = ZONE) cs))"
  by (induction cs arbitrary: z) (auto simp: addFilter_def split: option.splits)

text \<open>
  Only the first candidate-level condition of each kind filters.  Of all the conditions of
  a rule, over all its groups in order, the first on estimated freight, the first on
  volumetric weight and the first on zone become the filters; a second bound on the same
  field is ignored even inside one group, and a condition filters whether or not its group
  is the one that matched.
\<close>

theorem candidate_filters_first_condition:
  "collectCandidateFilters rule =
     (let cs = concat (map cg_conditions (rd_groups rule)) in
      \<lparr>fl_zone = map_option (\<lambda>c. (if cd_operator c = NOT_IN_LIST then NOT_IN_LIST else IN_LIST,
          map (\<lambda>z. to_upper (trim z)) (case cv_list (cd_value c) of None \<Rightarrow> [] | Some l \<Rightarrow> l)))
          (List.find (\<lambda>c. cd_field c = ZONE) cs),
       fl_freight = List.find (\<lambda>c. cd_field c = ESTIMATED_FREIGHT) cs,
       fl_volumetric = List.find (\<lambda>c. cd_field c = VOLUMETRIC_WEIGHT) cs\<rparr>)"
  by (rule CandidateFilters.equality) (simp_all add: collect_concat foldl_addFilter noFilters_def Let_def)

end
