(* ===== verification/Pricing_Laws.thy ===== *)
theory Pricing_Laws
  imports Pricing
begin

text \<open>
  Laws of the rate-card engine of \<open>Pricing\<close>: the weight chain, zone resolution as a
  least matching rule, the exact shape of a matcher, and the arithmetic of a freight
  breakdown (totals are sums of stored components, unpriceable lanes, monotonicity in the
  billable weight, the agreement of forward and return charges).
\<close>

section \<open>An example tariff\<close>

definition exampleTariff :: TariffInput where
  "exampleTariff = \<lparr>tf_fuelPct = ''0.10'', tf_codFlat = ''30.00'', tf_codPct = ''0.015'',
     tf_gstPct = ''0.18'', tf_taxableComponents = [''F-5'', ''F-6'', ''F-7'', ''F-8''],
     tf_slabs = [\<lparr>sl_zone = ZA, sl_baseWeightKg = ''0.500'', sl_baseRate = ''40.00'',
                  sl_additionalStepKg = ''0.500'', sl_additionalRate = ''15.00''\<rparr>],
     tf_components =
       [\<lparr>cr_code = ''HANDLING'', cr_label = ''Handling'', cr_basis = FLAT, cr_value = ''5.00'',
         cr_isTaxable = True, cr_position = 2\<rparr>,
        \<lparr>cr_code = ''INS'', cr_label = ''Insurance'', cr_basis = PERCENT_OF_DECLARED_VALUE,
         cr_value = ''0.002'', cr_isTaxable = True, cr_position = 1\<rparr>]\<rparr>"

definition exampleArgs :: FreightArgs where
  "exampleArgs = \<lparr>fa_zone = Some ZA, fa_billableWeightKg = ''1.200'', fa_paymentMode = COD,
     fa_collectible = ''999.00'', fa_declaredValue = ''1999.99''\<rparr>"

definition pricedTotal :: "js_error + FreightResult \<Rightarrow> string option" where
  "pricedTotal r = (case r of Inr (Priceable b) \<Rightarrow> Some (fb_f11Total b) | _ \<Rightarrow> None)"

lemma pricedTotal_SomeE:
  assumes "pricedTotal r = Some x"
  obtains b where "r = Inr (Priceable b)" "fb_f11Total b = x"
  using assms by (auto simp: pricedTotal_def split: sum.splits FreightResult.splits)

lemma exampleTexts:
  "kgToGrams ''0.500'' = Inr 500" "kgToGrams ''1.200'' = Inr 1200" "kgToGrams ''1.600'' = Inr 1600"
  "rupeesToPaise ''40.00'' = Inr 4000" "rupeesToPaise ''15.00'' = Inr 1500"
  "rupeesToPaise ''30.00'' = Inr 3000" "rupeesToPaise ''5.00'' = Inr 500"
  "rupeesToPaise ''999.00'' = Inr 99900" "rupeesToPaise ''1999.99'' = Inr 199999"
  "rateToMillionths ''0.10'' = Inr 100000" "rateToMillionths ''0.015'' = Inr 15000"
  "rateToMillionths ''0.18'' = Inr 180000" "rateToMillionths ''0.002'' = Inr 2000"
  by (simp_all add: text_eval)

lemmas exampleEval = exampleTariff_def exampleArgs_def exampleTexts sortedRows_def codCharge_def
  surchargeAmount_def applyRate_eq ceilDiv_eq taxableRowSum_def foldl_plus

lemma exampleTotals:
  "pricedTotal (computeFreight exampleTariff exampleArgs) = Some ''136.88''"
  "pricedTotal (computeFreight exampleTariff (exampleArgs\<lparr>fa_billableWeightKg := ''1.600''\<rparr>))
     = Some ''156.35''"
  by (simp_all add: pricedTotal_def computeFreight_def exampleEval text_eval)

section \<open>Inversion of a priced lane\<close>

lemma taxableRowSum_cong:
  "length rows = length xs \<Longrightarrow> taxableRowSum True rows xs =
     sum_list (map2 (\<lambda>r a. if cr_isTaxable r then a else 0) rows xs)"
  and taxableRowSum_off: "taxableRowSum False rows xs = 0"
proof -
  have gen: "foldl (\<lambda>acc (row, a). acc + (if b \<and> cr_isTaxable row then a else (0::int))) s zs
     = s + sum_list (map (\<lambda>(r, a). if b \<and> cr_isTaxable r then a else 0) zs)" for b s zs
    by (induction zs arbitrary: s) auto
  show "length rows = length xs \<Longrightarrow> taxableRowSum True rows xs =
     sum_list (map2 (\<lambda>r a. if cr_isTaxable r then a else 0) rows xs)"
    by (simp add: taxableRowSum_def gen [of True, simplified])
  show "taxableRowSum False rows xs = 0"
  proof -
    have "sum_list (map (\<lambda>(r, a). (0::int)) zs) = 0" for zs :: "(ComponentRowInput \<times> int) list"
      by (induction zs) auto
    then show ?thesis by (simp add: taxableRowSum_def gen [of False, simplified])
  qed
qed

lemma amounts_rowComponents:
  "length rows = length xs \<Longrightarrow> map pc_amount (rowComponents b rows xs) = map paiseToRupees xs"
  by (induction rows xs rule: list_induct2) (auto simp: rowComponents_def)

definition taxableShare :: "TariffInput \<Rightarrow> string \<Rightarrow> int \<Rightarrow> int" where
  "taxableShare t c x = (if c \<in> set (tf_taxableComponents t) then x else 0)"

lemma computeFreight_PriceableE:
  assumes "computeFreight t a = Inr (Priceable b)"
  obtains zone slab w baseW step n base add fuelPct f5 f6 coll f7 dv xs gstPct f10 where
    "fa_zone a = Some zone" "List.find (\<lambda>s. sl_zone s = zone) (tf_slabs t) = Some slab"
    "kgToGrams (fa_billableWeightKg a) = Inr w"
    "kgToGrams (sl_baseWeightKg slab) = Inr baseW" "kgToGrams (sl_additionalStepKg slab) = Inr step"
    "(if w > baseW then ceilDiv (w - baseW) step else Inr 0) = Inr n"
    "rupeesToPaise (sl_baseRate slab) = Inr base" "rupeesToPaise (sl_additionalRate slab) = Inr add"
    "f5 = base + n * add"
    "rateToMillionths (tf_fuelPct t) = Inr fuelPct" "applyRate f5 fuelPct = Inr f6"
    "rupeesToPaise (fa_collectible a) = Inr coll" "codCharge t (fa_paymentMode a) coll = Inr f7"
    "rupeesToPaise (fa_declaredValue a) = Inr dv"
    "mapR (\<lambda>row. surchargeAmount row \<lparr>sb_f5 = f5, sb_f6 = f6, sb_f7 = f7, sb_billableGrams = w,
        sb_declaredValue = dv\<rparr>) (sortedRows t) = Inr xs"
    "rateToMillionths (tf_gstPct t) = Inr gstPct"
    "applyRate (taxableShare t ''F-5'' f5 + taxableShare t ''F-6'' f6 + taxableShare t ''F-7'' f7
       + taxableRowSum (''F-8'' \<in> set (tf_taxableComponents t)) (sortedRows t) xs) gstPct = Inr f10"
    "fb_f5BaseFreight b = paiseToRupees f5" "fb_f6Fuel b = paiseToRupees f6"
    "fb_f7Cod b = paiseToRupees f7" "fb_f8Other b = paiseToRupees (sum_list xs)"
    "fb_f9PreTaxSubtotal b = paiseToRupees (f5 + f6 + f7 + sum_list xs)"
    "fb_f10Gst b = paiseToRupees f10"
    "fb_f11Total b = paiseToRupees (f5 + f6 + f7 + sum_list xs + f10)"
    "map pc_amount (fb_components b) = map paiseToRupees ([f5, f6, f7] @ xs @ [f10])"
    "length xs = length (sortedRows t)"
proof -
  from assms obtain zone where zone: "fa_zone a = Some zone"
    by (auto simp: computeFreight_def split: option.splits)
  with assms obtain slab where slab: "List.find (\<lambda>s. sl_zone s = zone) (tf_slabs t) = Some slab"
    by (auto simp: computeFreight_def split: option.splits)
  have "computeFreight t a = Inr (Priceable b)" by (rule assms)
  then show thesis
    apply (simp only: computeFreight_def Let_def zone slab option.case foldl_plus add_0)
    apply (elim bindR_InrE)
    apply (rule that [OF zone slab], assumption+, rule refl, assumption+)
             apply (simp only: taxableShare_def)
            apply (auto simp: amounts_rowComponents mapR_length)
    done
qed

section \<open>Totals\<close>

lemma mapR_comp_amounts:
  "map pc_amount cs = map paiseToRupees xs \<Longrightarrow> mapR (\<lambda>c. rupeesToPaise (pc_amount c)) cs = Inr xs"
proof (induction cs arbitrary: xs)
  case Nil
  then show ?case by simp
next
  case (Cons c cs)
  then show ?case by (cases xs) auto
qed

text \<open>
  C1: INV-15 for a forward quote.  The stored total F-11 reads back as the exact sum of the
  stored, already rounded component amounts, and the pre-tax subtotal F-9 as the sum of all
  of them but the last, which is GST; nothing is ever re-rounded.
\<close>

theorem freight_total_is_sum_of_components:
  assumes "computeFreight t a = Inr (Priceable b)"
  shows "\<exists>xs. mapR (\<lambda>c. rupeesToPaise (pc_amount c)) (fb_components b) = Inr xs
     \<and> rupeesToPaise (fb_f11Total b) = Inr (sum_list xs)
     \<and> rupeesToPaise (fb_f9PreTaxSubtotal b) = Inr (sum_list (butlast xs))
     \<and> rupeesToPaise (fb_f10Gst b) = Inr (last xs)"
proof (rule computeFreight_PriceableE [OF assms], goal_cases)
  case (1 zone slab w baseW step n base add fuelPct f5 f6 coll f7 dv xs gstPct f10)
  note d = this
  have "mapR (\<lambda>c. rupeesToPaise (pc_amount c)) (fb_components b) = Inr ([f5, f6, f7] @ xs @ [f10])"
    by (rule mapR_comp_amounts) (rule d)
  moreover have "butlast ([f5, f6, f7] @ xs @ [f10]) = [f5, f6, f7] @ xs"
    by (simp add: butlast_append)
  ultimately show ?case
    by (intro exI [of _ "[f5, f6, f7] @ xs @ [f10]"]) (simp add: d add.assoc)
qed

lemma freight_total_is_sum_of_components_witness:
  "\<exists>b xs. computeFreight exampleTariff exampleArgs = Inr (Priceable b)
     \<and> mapR (\<lambda>c. rupeesToPaise (pc_amount c)) (fb_components b) = Inr xs
     \<and> rupeesToPaise ''136.88'' = Inr (sum_list xs)"
proof (rule pricedTotal_SomeE [OF exampleTotals(1)])
  fix b
  assume b: "computeFreight exampleTariff exampleArgs = Inr (Priceable b)" "fb_f11Total b = ''136.88''"
  from freight_total_is_sum_of_components [OF b(1)] b show ?thesis by auto
qed

text \<open>
  The zero/null guard.  Forward pricing reports a lane as unpriceable exactly when the
  zone did not resolve or the card has no slab for it, with that reason, and in no other
  case; in particular a missing term never becomes a price.
\<close>

theorem freight_unpriceable_iff:
  "computeFreight t a = Inr (Unpriceable r) \<longleftrightarrow>
     (fa_zone a = None \<and> r = ZONE_NOT_MATCHED)
     \<or> (\<exists>z. fa_zone a = Some z \<and> list_all (\<lambda>s. sl_zone s \<noteq> z) (tf_slabs t) \<and> r = SLAB_MISSING)"
proof (cases "fa_zone a")
  case None
  then show ?thesis by (auto simp: computeFreight_def)
next
  case (Some z)
  show ?thesis
  proof (cases "List.find (\<lambda>s. sl_zone s = z) (tf_slabs t)")
    case None
    then have "\<forall>s \<in> set (tf_slabs t). sl_zone s \<noteq> z" by (auto simp: find_None_iff)
    moreover have "computeFreight t a = Inr (Unpriceable SLAB_MISSING)"
      by (simp add: computeFreight_def None \<open>fa_zone a = Some z\<close>)
    ultimately show ?thesis using \<open>fa_zone a = Some z\<close> by (auto simp: list_all_iff)
  next
    case (Some slab)
    then have "\<exists>s \<in> set (tf_slabs t). sl_zone s = z" by (auto simp: find_Some_iff)
    moreover have "computeFreight t a \<noteq> Inr (Unpriceable r)"
      using \<open>fa_zone a = Some z\<close> Some
      by (auto simp: computeFreight_def Let_def bindR_Inr_iff)
    ultimately show ?thesis using \<open>fa_zone a = Some z\<close> by (auto simp: list_all_iff)
  qed
qed

section \<open>Monotonicity in the billable weight\<close>

lemma sum_list_all2_le: "list_all2 (\<le>) xs ys \<Longrightarrow> sum_list xs \<le> sum_list (ys :: int list)"
  by (induction rule: list_all2_induct) auto

lemma taxableRowSum_mono:
  assumes "list_all2 (\<le>) xs ys" "length rows = length xs"
  shows "taxableRowSum b rows xs \<le> taxableRowSum b rows ys"
proof (cases b)
  case False
  then show ?thesis by (simp add: taxableRowSum_off)
next
  case True
  have "list_all2 (\<le>) (map2 (\<lambda>r a. if cr_isTaxable r then a else 0) rows xs)
                      (map2 (\<lambda>r a. if cr_isTaxable r then a else 0) rows ys)"
    using assms by (auto simp: list_all2_conv_all_nth)
  with assms True show ?thesis
    by (simp add: taxableRowSum_cong sum_list_all2_le list_all2_lengthD)
qed

lemma percent_mono:
  assumes "bindR (rateToMillionths v) (\<lambda>r. applyRate p r) = Inr x"
    and "bindR (rateToMillionths v) (\<lambda>r. applyRate q r) = Inr y" and "p \<le> q"
  shows "x \<le> y"
proof -
  from assms obtain r where r: "rateToMillionths v = Inr r" "applyRate p r = Inr x" "applyRate q r = Inr y"
    by (auto simp: bindR_Inr_iff)
  from rateToMillionths_nonneg [OF r(1)] assms(3) have "p * r \<le> q * r"
    by (rule mult_right_mono [rotated])
  with r(2,3) show ?thesis by (rule applyRate_mono)
qed

lemma surchargeAmount_mono:
  assumes x: "surchargeAmount row b = Inr x" and y: "surchargeAmount row c = Inr y"
    and le: "sb_f5 b \<le> sb_f5 c" "sb_f6 b \<le> sb_f6 c" "sb_f7 b \<le> sb_f7 c"
      "sb_billableGrams b \<le> sb_billableGrams c" "sb_declaredValue b \<le> sb_declaredValue c"
    and nn: "0 \<le> sb_billableGrams b"
  shows "x \<le> y"
proof (cases "cr_basis row")
  case FLAT
  with x y show ?thesis by (simp add: surchargeAmount_def)
next
  case PER_KG_BILLABLE
  with x y obtain v where v: "divRoundHalfUp (v * sb_billableGrams b) 1000 = Inr x"
    "divRoundHalfUp (v * sb_billableGrams c) 1000 = Inr y"
    by (auto simp: surchargeAmount_def bindR_Inr_iff)
  have "v * sb_billableGrams b \<le> v * sb_billableGrams c"
  proof (cases "0 \<le> v")
    case True
    with le show ?thesis by (intro mult_left_mono)
  next
    case False
    from v(1) have "0 \<le> v * sb_billableGrams b" by (simp add: divRoundHalfUp_Inr_iff)
    with False nn have "sb_billableGrams b = 0" by (simp add: zero_le_mult_iff)
    moreover from v(2) have "0 \<le> v * sb_billableGrams c" by (simp add: divRoundHalfUp_Inr_iff)
    ultimately show ?thesis by simp
  qed
  with v show ?thesis by (rule divRoundHalfUp_mono)
next
  case PERCENT_OF_BASE_FREIGHT
  with x y le(1) show ?thesis by (simp add: surchargeAmount_def percent_mono)
next
  case PERCENT_OF_PRE_TAX_SUBTOTAL
  with x y show ?thesis using add_mono [OF add_mono [OF le(1,2)] le(3)]
    by (simp add: surchargeAmount_def percent_mono)
next
  case PERCENT_OF_DECLARED_VALUE
  with x y le(5) show ?thesis by (simp add: surchargeAmount_def percent_mono)
qed

lemma surchargeAmounts_mono:
  assumes "mapR (\<lambda>row. surchargeAmount row b) rows = Inr xs"
    and "mapR (\<lambda>row. surchargeAmount row c) rows = Inr ys"
    and "sb_f5 b \<le> sb_f5 c" "sb_f6 b \<le> sb_f6 c" "sb_f7 b \<le> sb_f7 c"
      "sb_billableGrams b \<le> sb_billableGrams c" "sb_declaredValue b \<le> sb_declaredValue c"
      "0 \<le> sb_billableGrams b"
  shows "list_all2 (\<le>) xs ys"
  using assms
proof (induction rows arbitrary: xs ys)
  case Nil
  then show ?case by simp
next
  case (Cons r rows)
  from Cons.prems(1,2) obtain x xs' y ys' where
    "surchargeAmount r b = Inr x" "mapR (\<lambda>row. surchargeAmount row b) rows = Inr xs'" "xs = x # xs'"
    "surchargeAmount r c = Inr y" "mapR (\<lambda>row. surchargeAmount row c) rows = Inr ys'" "ys = y # ys'"
    by (auto simp: bindR_Inr_iff)
  moreover have "x \<le> y"
    by (rule surchargeAmount_mono [of r b _ c]) (use calculation Cons.prems in auto)
  ultimately show ?case using Cons by auto
qed

lemma taxableShare_mono: "x \<le> y \<Longrightarrow> taxableShare t c x \<le> taxableShare t c y"
  by (simp add: taxableShare_def)

text \<open>
  C2: A heavier parcel is never quoted cheaper.  On one tariff whose slabs add a
  non-negative amount per step, with all other arguments equal, the total F-11 of the
  larger billable weight is at least that of the smaller one.
\<close>

theorem freight_total_mono_in_weight:
  assumes q1: "computeFreight t a = Inr (Priceable b)"
    and q2: "computeFreight t (a\<lparr>fa_billableWeightKg := heavier\<rparr>) = Inr (Priceable c)"
    and w1: "kgToGrams (fa_billableWeightKg a) = Inr g"
    and w2: "kgToGrams heavier = Inr h" and le: "g \<le> h"
    and add: "\<forall>s \<in> set (tf_slabs t). \<forall>r. rupeesToPaise (sl_additionalRate s) = Inr r \<longrightarrow> 0 \<le> r"
    and total: "rupeesToPaise (fb_f11Total b) = Inr x" "rupeesToPaise (fb_f11Total c) = Inr y"
  shows "x \<le> y"
proof (rule computeFreight_PriceableE [OF q1], goal_cases)
  case (1 zone slab w baseW step n base ad fuelPct f5 f6 coll f7 dv xs gstPct f10)
  note d = this
  show ?case
  proof (rule computeFreight_PriceableE [OF q2], goal_cases)
    case (1 zone' slab' w' baseW' step' n' base' ad' fuelPct' f5' f6' coll' f7' dv' xs' gstPct' f10')
    note e = this [simplified]
    have slab: "slab' = slab" using d(1,2) e(1,2) by simp
    have same: "baseW' = baseW" "step' = step" "base' = base" "ad' = ad" "fuelPct' = fuelPct"
      "coll' = coll" "dv' = dv" "gstPct' = gstPct" "w = g" "w' = h" "f7' = f7"
      using d e slab w1 w2 by simp_all
    have nn: "0 \<le> g" using w1 by (rule kgToGrams_nonneg)
    have "n \<le> n'"
    proof (cases "baseW < g")
      case True
      with d(6) e(6) same le show ?thesis by (auto intro: ceilDiv_mono)
    next
      case False
      with d(6) same have "n = 0" by simp
      moreover have "0 \<le> n'" using e(6) by (auto dest: ceilDiv_least split: if_splits)
      ultimately show ?thesis by simp
    qed
    moreover have "0 \<le> ad" using add d(2,8) by (auto simp: find_Some_iff)
    ultimately have f5: "f5 \<le> f5'" using d(9) e(9) same by (simp add: mult_right_mono)
    have f6: "f6 \<le> f6'"
      by (rule applyRate_mono [OF d(11) e(11)])
         (use f5 same rateToMillionths_nonneg [OF d(10)] in \<open>simp add: mult_right_mono\<close>)
    have xs: "list_all2 (\<le>) xs xs'"
      by (rule surchargeAmounts_mono [OF d(15) e(15)]) (use f5 f6 same le nn in auto)
    have "f10 \<le> f10'"
      by (rule applyRate_mono [OF d(17) e(17)])
         (use same rateToMillionths_nonneg [OF d(16)] f5 f6 xs d(26) in
           \<open>auto intro!: mult_right_mono add_mono taxableShare_mono taxableRowSum_mono\<close>)
    moreover have "sum_list xs \<le> sum_list xs'" using xs by (rule sum_list_all2_le)
    ultimately show ?case using total d(24) e(24) f5 f6 same by simp
  qed
qed

lemma freight_total_mono_in_weight_witness:
  "pricedTotal (computeFreight exampleTariff exampleArgs) = Some ''136.88''
   \<and> pricedTotal (computeFreight exampleTariff (exampleArgs\<lparr>fa_billableWeightKg := ''1.600''\<rparr>))
       = Some ''156.35'' \<and> (13688 :: int) \<le> 15635"
proof -
  obtain b where b: "computeFreight exampleTariff exampleArgs = Inr (Priceable b)"
    "fb_f11Total b = ''136.88''"
    by (rule pricedTotal_SomeE [OF exampleTotals(1)])
  obtain c where c: "computeFreight exampleTariff (exampleArgs\<lparr>fa_billableWeightKg := ''1.600''\<rparr>)
      = Inr (Priceable c)" "fb_f11Total c = ''156.35''"
    by (rule pricedTotal_SomeE [OF exampleTotals(2)])
  have "(13688 :: int) \<le> 15635"
  proof (rule freight_total_mono_in_weight [OF b(1) c(1)])
    show "kgToGrams (fa_billableWeightKg exampleArgs) = Inr 1200"
      by (simp add: exampleArgs_def exampleTexts)
    show "kgToGrams ''1.600'' = Inr 1600" by (rule exampleTexts)
    show "\<forall>s \<in> set (tf_slabs exampleTariff). \<forall>r. rupeesToPaise (sl_additionalRate s) = Inr r \<longrightarrow> 0 \<le> r"
      by (simp add: exampleTariff_def exampleTexts)
  qed (simp_all add: b c text_eval)
  with exampleTotals show ?thesis by blast
qed

section \<open>GST and the taxable set\<close>

text \<open>
  With the default taxable set (every component listed and every surcharge row taxable)
  the GST F-10 is the GST rate applied to the whole pre-tax subtotal F-9.
\<close>

theorem default_gst_is_rate_of_subtotal:
  assumes q: "computeFreight t a = Inr (Priceable b)"
    and all: "{''F-5'', ''F-6'', ''F-7'', ''F-8''} \<subseteq> set (tf_taxableComponents t)"
    and rows: "\<forall>r \<in> set (tf_components t). cr_isTaxable r"
    and f9: "rupeesToPaise (fb_f9PreTaxSubtotal b) = Inr f9"
    and g: "rateToMillionths (tf_gstPct t) = Inr g"
  shows "bindR (applyRate f9 g) (\<lambda>gst. Inr (paiseToRupees gst)) = Inr (fb_f10Gst b)"
proof (rule computeFreight_PriceableE [OF q], goal_cases)
  case (1 zone slab w baseW step n base add fuelPct f5 f6 coll f7 dv xs gstPct f10)
  note d = this
  have "map2 (\<lambda>r a. if cr_isTaxable r then a else 0) (sortedRows t) xs = xs"
    using rows d(26) by (auto simp: sortedRows_def intro!: nth_equalityI)
       (metis length_js_sort nth_mem set_js_sort)
  then have "taxableRowSum True (sortedRows t) xs = sum_list xs"
    using d(26) by (simp add: taxableRowSum_cong)
  with d(17) all have "applyRate (f5 + f6 + f7 + sum_list xs) gstPct = Inr f10"
    by (simp add: taxableShare_def)
  with d(16,22,23) f9 g show ?case by simp
qed

lemma default_gst_is_rate_of_subtotal_witness:
  "\<exists>b. computeFreight exampleTariff exampleArgs = Inr (Priceable b)
     \<and> bindR (applyRate 11600 180000) (\<lambda>gst. Inr (paiseToRupees gst)) = Inr (fb_f10Gst b)"
proof -
  have "\<exists>b. computeFreight exampleTariff exampleArgs = Inr (Priceable b)
     \<and> fb_f9PreTaxSubtotal b = ''116.00''"
    by (simp add: computeFreight_def exampleEval text_eval)
  then obtain b where b: "computeFreight exampleTariff exampleArgs = Inr (Priceable b)"
    "fb_f9PreTaxSubtotal b = ''116.00''" by blast
  have "bindR (applyRate 11600 180000) (\<lambda>gst. Inr (paiseToRupees gst)) = Inr (fb_f10Gst b)"
    by (rule default_gst_is_rate_of_subtotal [OF b(1)])
       (simp_all add: b(2) exampleTariff_def text_eval)
  with b(1) show ?thesis by blast
qed

section \<open>Return to origin\<close>

lemma surcharge_mapR_cong:
  "f7 = 0 \<Longrightarrow> mapR (\<lambda>row. surchargeAmount row \<lparr>sb_f5 = f5, sb_f6 = f6, sb_f7 = f7,
     sb_billableGrams = w, sb_declaredValue = dv\<rparr>) rows
   = mapR (\<lambda>row. surchargeAmount row \<lparr>sb_f5 = f5, sb_f6 = f6, sb_f7 = 0,
     sb_billableGrams = w, sb_declaredValue = dv\<rparr>) rows"
  by simp

text \<open>
  A same-as-forward return charge agrees with the forward quote it is computed from:
  for a prepaid parcel the return total F-12 equals the forward total F-11 on the same
  tariff, weight and declared value, component by component but for the COD line.
\<close>

theorem rto_same_as_forward_agrees:
  assumes q: "computeFreight t a = Inr (Priceable b)" and pre: "fa_paymentMode a = PREPAID"
    and rule: "rr_basis r = SAME_AS_FORWARD"
  shows "\<exists>c. computeRtoExpectation (Some r)
       \<lparr>rs_f5BaseFreight = fb_f5BaseFreight b, rs_billableWeightKg = fa_billableWeightKg a,
        rs_declaredValue = fa_declaredValue a\<rparr> t = Inr (Expected (fb_f5BaseFreight b) c)
     \<and> fb_f11Total c = fb_f11Total b \<and> fb_f10Gst c = fb_f10Gst b
     \<and> fb_f6Fuel c = fb_f6Fuel b \<and> fb_f8Other c = fb_f8Other b \<and> fb_f7Cod b = paiseToRupees 0"
proof (rule computeFreight_PriceableE [OF q], goal_cases)
  case (1 zone slab w baseW step n base add fuelPct f5 f6 coll f7 dv xs gstPct f10)
  note d = this
  have f7: "f7 = 0" using d(13) pre by (simp add: codCharge_def)
  have gst: "applyRate ((if ''F-5'' \<in> set (tf_taxableComponents t) then f5 else 0) +
      (if ''F-6'' \<in> set (tf_taxableComponents t) then f6 else 0) +
      taxableRowSum (''F-8'' \<in> set (tf_taxableComponents t)) (sortedRows t) xs) gstPct = Inr f10"
    using d(17) f7 by (simp add: taxableShare_def)
  show ?case
    using d(3,10,11,14,16,18-25) d(15) [unfolded f7] f7 gst rule
    by (simp add: computeRtoExpectation_def rtoCharge_def Let_def foldl_plus)
qed

lemma rto_same_as_forward_agrees_witness:
  "\<exists>b c. computeFreight exampleTariff (exampleArgs\<lparr>fa_paymentMode := PREPAID\<rparr>) = Inr (Priceable b)
     \<and> computeRtoExpectation (Some \<lparr>rr_basis = SAME_AS_FORWARD, rr_pct = None\<rparr>)
       \<lparr>rs_f5BaseFreight = fb_f5BaseFreight b, rs_billableWeightKg = ''1.200'',
        rs_declaredValue = ''1999.99''\<rparr> exampleTariff = Inr (Expected (fb_f5BaseFreight b) c)
     \<and> fb_f11Total c = fb_f11Total b"
proof -
  have "\<exists>b. computeFreight exampleTariff (exampleArgs\<lparr>fa_paymentMode := PREPAID\<rparr>) = Inr (Priceable b)"
    by (simp add: computeFreight_def exampleEval)
  then obtain b where b:
    "computeFreight exampleTariff (exampleArgs\<lparr>fa_paymentMode := PREPAID\<rparr>) = Inr (Priceable b)" ..
  show ?thesis
    using rto_same_as_forward_agrees [OF b, of "\<lparr>rr_basis = SAME_AS_FORWARD, rr_pct = None\<rparr>"] b
    by (auto simp: exampleArgs_def)
qed

section \<open>Weights\<close>

text \<open>
  The weight chain.  When F-1 to F-3 return, the raw chargeable weight is the larger of
  dead and volumetric weight, and the billable weight covers it and the minimum; it is the
  minimum itself or the least multiple of the increment that covers the raw weight.
\<close>

theorem computeWeights_correct:
  assumes "computeWeights a = Inr (Some wb)"
  shows "\<exists>dead vol raw bill min inc.
     kgToGrams (wt_deadWeightKg a) = Inr dead \<and> kgToGrams (wb_volumetricWeightKg wb) = Inr vol
     \<and> kgToGrams (wb_rawChargeableKg wb) = Inr raw \<and> kgToGrams (wb_billableWeightKg wb) = Inr bill
     \<and> map_option kgToGrams (wt_minBillableKg a) = Some (Inr min)
     \<and> map_option kgToGrams (wt_incrementKg a) = Some (Inr inc)
     \<and> raw = max dead vol \<and> raw \<le> bill \<and> min \<le> bill
     \<and> (bill = min \<or> (inc dvd bill \<and> bill - inc < raw))"
proof -
  from assms obtain f1 f2 f3 where
    v: "volumetricWeightKg (wt_lengthCm a) (wt_widthCm a) (wt_heightCm a) (wt_divisor a) = Inr (Some f1)"
    and r: "rawChargeableWeightKg (wt_deadWeightKg a) f1 = Inr f2"
    and b: "billableWeightKg f2 (wt_minBillableKg a) (wt_incrementKg a) = Inr (Some f3)"
    and wb: "wb_volumetricWeightKg wb = f1" "wb_rawChargeableKg wb = f2" "wb_billableWeightKg wb = f3"
    by (auto simp: computeWeights_def bindR_Inr_iff split: option.splits)
  from r obtain dead vol where dv: "kgToGrams (wt_deadWeightKg a) = Inr dead" "kgToGrams f1 = Inr vol"
    "f2 = gramsToKg (max dead vol)"
    by (auto simp: rawChargeableWeightKg_def bindR_Inr_iff max_def split: if_splits)
  have nn: "0 \<le> max dead vol" using kgToGrams_nonneg [OF dv(1)] by simp
  from b dv(3) nn obtain mb ic min inc steps where m: "wt_minBillableKg a = Some mb" "wt_incrementKg a = Some ic"
    "kgToGrams mb = Inr min" "kgToGrams ic = Inr inc" "0 < inc"
    "ceilDiv (max dead vol) inc = Inr steps"
    "f3 = gramsToKg (if steps * inc > min then steps * inc else min)"
    by (auto simp: billableWeightKg_def bindR_Inr_iff Let_def split: option.splits if_splits)
  have c: "max dead vol \<le> steps * inc" "0 < max dead vol \<longrightarrow> steps * inc - inc < max dead vol"
    using ceilDiv_least [OF m(6)] by (auto simp: algebra_simps)
  have mnn: "0 \<le> min" using m(3) by (rule kgToGrams_nonneg)
  define bill where "bill = (if steps * inc > min then steps * inc else min)"
  have "kgToGrams f3 = Inr bill"
    using mnn m(7) by (auto simp: bill_def)
  moreover have "max dead vol \<le> bill" "min \<le> bill" using c by (auto simp: bill_def)
  moreover have "bill = min \<or> (inc dvd bill \<and> bill - inc < max dead vol)"
  proof (cases "steps * inc > min \<and> 0 < max dead vol")
    case True
    with c(2) show ?thesis by (auto simp: bill_def)
  next
    case False
    then have "\<not> min < steps * inc \<or> \<not> 0 < max dead vol" by blast
    then show ?thesis
    proof
      assume "\<not> min < steps * inc"
      then show ?thesis by (simp add: bill_def)
    next
      assume "\<not> 0 < max dead vol"
      with m(5,6) have "steps = 0" by (auto simp: ceilDiv_def max_def split: if_splits)
      with mnn show ?thesis by (simp add: bill_def)
    qed
  qed
  moreover have "kgToGrams f2 = Inr (max dead vol)" using dv(3) nn by simp
  ultimately show ?thesis
    unfolding wb m(1,2) option.map m(3,4) using dv(1,2) by blast
qed

lemma computeWeights_correct_witness:
  "\<exists>wb. computeWeights \<lparr>wt_deadWeightKg = ''1.630'', wt_lengthCm = ''30.00'', wt_widthCm = ''20.00'',
     wt_heightCm = ''15.00'', wt_divisor = Some ''5000.0000'', wt_minBillableKg = Some ''0.500'',
     wt_incrementKg = Some ''0.500''\<rparr> = Inr (Some wb)
     \<and> (\<exists>raw bill. kgToGrams (wb_rawChargeableKg wb) = Inr raw \<and> kgToGrams (wb_billableWeightKg wb) = Inr bill
          \<and> raw \<le> bill) \<and> wb_billableWeightKg wb = ''2.000''"
proof -
  let ?a = "\<lparr>wt_deadWeightKg = ''1.630'', wt_lengthCm = ''30.00'', wt_widthCm = ''20.00'',
     wt_heightCm = ''15.00'', wt_divisor = Some ''5000.0000'', wt_minBillableKg = Some ''0.500'',
     wt_incrementKg = Some ''0.500''\<rparr>"
  have "\<exists>wb. computeWeights ?a = Inr (Some wb) \<and> wb_billableWeightKg wb = ''2.000''"
    by (simp add: computeWeights_def volumetricWeightKg_def rawChargeableWeightKg_def
        billableWeightKg_def divisorToTenThousandths_def cmToHundredths_def divRoundHalfUp_eq
        ceilDiv_eq text_eval)
  then obtain wb where wb: "computeWeights ?a = Inr (Some wb)" "wb_billableWeightKg wb = ''2.000''"
    by blast
  with computeWeights_correct [OF wb(1)] show ?thesis by auto
qed

section \<open>Zones\<close>

definition ruleHits :: "string \<times> PincodeAttributes option \<Rightarrow> string \<times> PincodeAttributes option
    \<Rightarrow> ZoneRuleInput \<Rightarrow> bool" where
  "ruleHits origin destination rule \<longleftrightarrow>
     matcherMatches (zr_originMatcher rule) (laneAttributes (fst origin) (snd origin))
     \<and> matcherMatches (zr_destinationMatcher rule) (laneAttributes (fst destination) (snd destination))"

lemma firstZone_find:
  "firstZone rules (laneAttributes (fst orig) (snd orig)) (laneAttributes (fst dest) (snd dest))
     = map_option zr_zone (List.find (ruleHits orig dest) rules)"
  by (induction rules) (auto simp: ruleHits_def)

lemma resolveZone_find:
  "resolveZone rules orig dest
     = map_option zr_zone (List.find (ruleHits orig dest) (sort_key zr_position rules))"
  by (simp add: resolveZone_def Let_def firstZone_find js_sort_key)

text \<open>
  First match wins.  A lane resolves to zone \<open>z\<close> exactly when some rule of zone \<open>z\<close>
  matches it, every matching rule listed before it has a larger position, and every
  matching rule listed after it a position at least as large; it stays unresolved exactly
  when no rule matches.
\<close>

theorem resolveZone_first_match:
  "(resolveZone rules orig dest = Some z \<longleftrightarrow>
     (\<exists>pre r post. rules = pre @ r # post \<and> ruleHits orig dest r \<and> zr_zone r = z
        \<and> (\<forall>s \<in> set pre. \<not> ruleHits orig dest s \<or> zr_position r < zr_position s)
        \<and> (\<forall>s \<in> set post. \<not> ruleHits orig dest s \<or> zr_position r \<le> zr_position s)))
   \<and> (resolveZone rules orig dest = None \<longleftrightarrow> list_all (\<lambda>r. \<not> ruleHits orig dest r) rules)"
proof
  show "resolveZone rules orig dest = Some z \<longleftrightarrow>
     (\<exists>pre r post. rules = pre @ r # post \<and> ruleHits orig dest r \<and> zr_zone r = z
        \<and> (\<forall>s \<in> set pre. \<not> ruleHits orig dest s \<or> zr_position r < zr_position s)
        \<and> (\<forall>s \<in> set post. \<not> ruleHits orig dest s \<or> zr_position r \<le> zr_position s))"
    by (auto simp: resolveZone_find find_sort_key)
  show "resolveZone rules orig dest = None \<longleftrightarrow> list_all (\<lambda>r. \<not> ruleHits orig dest r) rules"
    by (auto simp: resolveZone_find find_None_iff list_all_iff)
qed

lemma resolveZone_first_match_witness:
  "resolveZone
     [\<lparr>zr_originMatcher = [], zr_destinationMatcher = [(A_state, PExact '' kerala '')], zr_zone = ZC, zr_position = 2\<rparr>,
      \<lparr>zr_originMatcher = [], zr_destinationMatcher = [(A_pincode, PPrefix ''68'')], zr_zone = ZB, zr_position = 1\<rparr>]
     (''380001'', None) (''682001'', None) = Some ZB"
  by (subst resolveZone_first_match [THEN conjunct1])
     (rule exI [of _ "[\<lparr>zr_originMatcher = [], zr_destinationMatcher = [(A_state, PExact '' kerala '')],
        zr_zone = ZC, zr_position = 2\<rparr>]"],
      simp add: ruleHits_def matcherMatches_def predicateMatches_def laneAttributes_def
        attributeText_def foldText_def text_eval)

section \<open>The shape of a matcher\<close>

definition attributeName :: "MatcherAttribute \<Rightarrow> string" where
  "attributeName a = (case a of A_pincode \<Rightarrow> ''pincode'' | A_city \<Rightarrow> ''city''
     | A_district \<Rightarrow> ''district'' | A_state \<Rightarrow> ''state'' | A_region \<Rightarrow> ''region''
     | A_is_metro \<Rightarrow> ''is_metro'' | A_is_special \<Rightarrow> ''is_special'')"

definition encodePredicate :: "MatcherPredicate \<Rightarrow> json" where
  "encodePredicate p = (case p of PExact s \<Rightarrow> JStr s | PAnyOf ss \<Rightarrow> JArr (map JStr ss)
     | PFlag b \<Rightarrow> JBool b | PPrefix s \<Rightarrow> JObj [(''prefix'', JStr s)]
     | PPrefixAnyOf ss \<Rightarrow> JObj [(''prefix'', JArr (map JStr ss))])"

definition wellTyped :: "MatcherAttribute \<Rightarrow> MatcherPredicate \<Rightarrow> bool" where
  "wellTyped a p = (case p of PFlag _ \<Rightarrow> a = A_is_metro \<or> a = A_is_special
     | PAnyOf ss \<Rightarrow> ss \<noteq> [] \<and> a \<noteq> A_is_metro \<and> a \<noteq> A_is_special
     | PPrefixAnyOf ss \<Rightarrow> ss \<noteq> [] \<and> a \<noteq> A_is_metro \<and> a \<noteq> A_is_special
     | _ \<Rightarrow> a \<noteq> A_is_metro \<and> a \<noteq> A_is_special)"

lemma isJStr_iff: "isJStr v \<longleftrightarrow> (\<exists>s. v = JStr s)"
  by (cases v) (auto simp: isJStr_def)

lemma all_isJStr_iff: "list_all isJStr vs \<longleftrightarrow> (\<exists>ss. vs = map JStr ss)"
  by (induction vs) (auto simp: isJStr_iff Cons_eq_map_conv)

lemma matcherAttributes_names: "key \<in> set matcherAttributes \<longleftrightarrow> (\<exists>a. key = attributeName a)"
proof
  assume "key \<in> set matcherAttributes"
  then have "key \<in> attributeName ` {A_pincode, A_city, A_district, A_state, A_region, A_is_metro, A_is_special}"
    by (auto simp: matcherAttributes_def attributeName_def)
  then show "\<exists>a. key = attributeName a" by blast
next
  assume "\<exists>a. key = attributeName a"
  then obtain a where "key = attributeName a" ..
  then show "key \<in> set matcherAttributes"
    by (cases a) (simp_all add: matcherAttributes_def attributeName_def)
qed

lemma attributeName_flag:
  "attributeName a = ''is_metro'' \<longleftrightarrow> a = A_is_metro" "attributeName a = ''is_special'' \<longleftrightarrow> a = A_is_special"
  by (cases a; simp add: attributeName_def)+

lemma attributeName_known: "attributeName a \<in> set matcherAttributes"
  using matcherAttributes_names by blast

lemma validPredicate_encode: "validPredicate (attributeName a) (encodePredicate p) \<longleftrightarrow> wellTyped a p"
  by (cases p)
     (auto simp: validPredicate_def Let_def attributeName_known attributeName_flag wellTyped_def
        encodePredicate_def all_isJStr_iff)

lemma validPredicate_decode: "validPredicate key v \<Longrightarrow> \<exists>a p. key = attributeName a \<and> v = encodePredicate p"
proof -
  assume v: "validPredicate key v"
  then obtain a where a: "key = attributeName a"
    by (auto simp: validPredicate_def matcherAttributes_names split: if_splits)
  have "\<exists>p. v = encodePredicate p"
  proof (cases v)
    case (JBool b)
    then show ?thesis by (intro exI [of _ "PFlag b"]) (simp add: encodePredicate_def)
  next
    case (JStr s)
    then show ?thesis by (intro exI [of _ "PExact s"]) (simp add: encodePredicate_def)
  next
    case (JArr vs)
    with v obtain ss where "vs = map JStr ss"
      by (auto simp: validPredicate_def Let_def all_isJStr_iff split: if_splits)
    with JArr show ?thesis by (intro exI [of _ "PAnyOf ss"]) (simp add: encodePredicate_def)
  next
    case (JObj kvs)
    with v have shape: "case kvs of [(k, p)] \<Rightarrow> k = ''prefix'' \<and>
        (case p of JStr _ \<Rightarrow> True | JArr ps \<Rightarrow> ps \<noteq> [] \<and> list_all isJStr ps | _ \<Rightarrow> False) | _ \<Rightarrow> False"
      by (simp add: validPredicate_def Let_def split: if_splits)
    then obtain k q where q: "kvs = [(k, q)]"
      by (cases kvs; cases "tl kvs") auto
    with shape have q: "kvs = [(''prefix'', q)]"
      and str: "isJStr q \<or> (\<exists>ps. q = JArr ps \<and> list_all isJStr ps)"
      by (cases q; simp add: isJStr_def)+
    from str show ?thesis
    proof
      assume "isJStr q"
      then obtain s where "q = JStr s" by (auto simp: isJStr_iff)
      with JObj q show ?thesis by (intro exI [of _ "PPrefix s"]) (simp add: encodePredicate_def)
    next
      assume "\<exists>ps. q = JArr ps \<and> list_all isJStr ps"
      then obtain ss where "q = JArr (map JStr ss)" by (auto simp: all_isJStr_iff)
      with JObj q show ?thesis by (intro exI [of _ "PPrefixAnyOf ss"]) (simp add: encodePredicate_def)
    qed
  qed (use v in \<open>auto simp: validPredicate_def Let_def split: if_splits\<close>)
  with a show ?thesis by blast
qed

text \<open>
  The write-time check accepts exactly the documented matcher shape: the JSON objects
  that spell a list of well-typed predicates over the seven postal attributes, where the
  two flags take booleans only and no list is empty.
\<close>

theorem validateMatcher_exact:
  "validateMatcher v \<longleftrightarrow>
     (\<exists>m. list_all (\<lambda>(a, p). wellTyped a p) m
        \<and> v = JObj (map (\<lambda>(a, p). (attributeName a, encodePredicate p)) m))"
proof
  assume "validateMatcher v"
  then obtain entries where v: "v = JObj entries"
    and ok: "list_all (\<lambda>(key, predicate). validPredicate key predicate) entries"
    by (auto simp: validateMatcher_def split: json.splits)
  from ok have "\<exists>m. list_all (\<lambda>(a, p). wellTyped a p) m
        \<and> entries = map (\<lambda>(a, p). (attributeName a, encodePredicate p)) m"
  proof (induction entries)
    case Nil
    then show ?case by simp
  next
    case (Cons e es)
    obtain key w where e: "e = (key, w)" by (cases e)
    with Cons.prems obtain a p where ap: "key = attributeName a" "w = encodePredicate p"
      using validPredicate_decode by fastforce
    with Cons.prems e have "wellTyped a p" by (simp add: validPredicate_encode)
    moreover obtain m where "list_all (\<lambda>(a, p). wellTyped a p) m"
      "es = map (\<lambda>(a, p). (attributeName a, encodePredicate p)) m"
      using Cons by auto
    ultimately show ?case using e ap by (intro exI [of _ "(a, p) # m"]) simp
  qed
  with v show "\<exists>m. list_all (\<lambda>(a, p). wellTyped a p) m
        \<and> v = JObj (map (\<lambda>(a, p). (attributeName a, encodePredicate p)) m)" by blast
next
  assume "\<exists>m. list_all (\<lambda>(a, p). wellTyped a p) m
        \<and> v = JObj (map (\<lambda>(a, p). (attributeName a, encodePredicate p)) m)"
  then show "validateMatcher v"
    by (force simp: validateMatcher_def list_all_iff validPredicate_encode)
qed

end
