(* ===== verification/TrackingUtil.thy ===== *)
theory TrackingUtil
  imports Dates
begin

text \<open>
  \<open>src/modules/tracking/tracking.util.ts\<close> and the event types of \<open>tracking.types.ts\<close>: AWB
  normalisation F-19, status folding, the two dedupe keys, extraction of a courier payload
  and the masking of payloads for display.  \<open>sha256\<close> (the hash of \<open>node:crypto\<close>) is a
  parameter; Unicode normalisation is the identity on the modelled alphabet.
\<close>

section \<open>Normalisation\<close>

definition normalizeAwb :: "string \<Rightarrow> string" where
  "normalizeAwb awb = to_upper (filter (\<lambda>c. \<not> (is_ws c \<or> c = CHR ''-'')) (trim awb))"

function collapseWs :: "string \<Rightarrow> string" where
  "collapseWs [] = []"
| "collapseWs (c # s) = (if is_ws c then CHR '' '' # collapseWs (dropWhile is_ws s) else c # collapseWs s)"
  by pat_completeness auto
termination
  by (relation "measure length") (simp_all add: le_imp_less_Suc length_dropWhile_le)

definition foldRawStatus :: "string \<Rightarrow> string" where
  "foldRawStatus rawStatus = to_lower (collapseWs (trim rawStatus))"

definition foldOptText :: "string option \<Rightarrow> string" where
  "foldOptText text = to_lower (collapseWs (trim (case text of None \<Rightarrow> [] | Some t \<Rightarrow> t)))"

definition normalizeOccurredAt :: "(string \<Rightarrow> int option) \<Rightarrow> string \<Rightarrow> string option" where
  "normalizeOccurredAt legacyParse text = map_option toISOString (dateParse legacyParse text)"

section \<open>Canonical events and dedupe keys\<close>

record CanonicalTrackEvent =
  te_awb :: string
  te_rawStatus :: string
  te_occurredAt :: string
  te_locationText :: "string option"
  te_reasonText :: "string option"
  te_providerEventId :: "string option"

fun joinBar :: "string list \<Rightarrow> string" where
  "joinBar [] = []"
| "joinBar [x] = x"
| "joinBar (x # xs) = x @ CHR ''|'' # joinBar xs"

definition rawDedupeHash ::
  "(string \<Rightarrow> int option) \<Rightarrow> (string \<Rightarrow> string) \<Rightarrow> string \<Rightarrow> string option \<Rightarrow> string \<Rightarrow> CanonicalTrackEvent \<Rightarrow> string" where
  "rawDedupeHash legacyParse sha256 shopId courierAccountId awbNormalized event =
     (case te_providerEventId event of
        Some (c # pid) \<Rightarrow> ''pid:'' @ shopId @ '':'' @ c # pid
      | _ \<Rightarrow> ''fp:'' @ sha256 (joinBar [shopId,
           case courierAccountId of None \<Rightarrow> [] | Some a \<Rightarrow> a,
           awbNormalized, foldRawStatus (te_rawStatus event),
           case normalizeOccurredAt legacyParse (te_occurredAt event) of None \<Rightarrow> [] | Some t \<Rightarrow> t,
           foldOptText (te_locationText event), foldOptText (te_reasonText event)]))"

definition eventDedupeKey ::
  "(string \<Rightarrow> int option) \<Rightarrow> (string \<Rightarrow> string) \<Rightarrow> string \<Rightarrow> CanonicalTrackEvent \<Rightarrow> string" where
  "eventDedupeKey legacyParse sha256 shipmentId event =
     (case te_providerEventId event of
        Some (c # pid) \<Rightarrow> ''pid:'' @ c # pid
      | _ \<Rightarrow> ''fp:'' @ sha256 (joinBar [shipmentId, foldRawStatus (te_rawStatus event),
           case normalizeOccurredAt legacyParse (te_occurredAt event) of None \<Rightarrow> [] | Some t \<Rightarrow> t,
           foldOptText (te_locationText event), foldOptText (te_reasonText event)]))"

section \<open>Extraction\<close>

definition awbKeys :: "string list" where
  "awbKeys = [''awb'', ''awb_number'', ''awbNumber'', ''waybill'', ''tracking_number'', ''trackingNumber'']"

definition statusKeys :: "string list" where
  "statusKeys = [''status'', ''raw_status'', ''rawStatus'', ''scan_status'', ''status_text'', ''current_status'']"

definition occurredKeys :: "string list" where
  "occurredKeys = [''occurredAt'', ''occurred_at'', ''timestamp'', ''event_time'', ''scan_datetime'', ''status_datetime'']"

definition eventIdKeys :: "string list" where
  "eventIdKeys = [''providerEventId'', ''provider_event_id'', ''event_id'', ''eventId'', ''scan_id'']"

definition locationKeys :: "string list" where
  "locationKeys = [''location'', ''locationText'', ''location_text'', ''scan_location'', ''city'']"

definition reasonKeys :: "string list" where
  "reasonKeys = [''reason'', ''reasonText'', ''reason_text'', ''remarks'', ''ndr_reason'']"

fun pick :: "(string \<times> json) list \<Rightarrow> string list \<Rightarrow> string option" where
  "pick obj [] = None"
| "pick obj (key # keys) =
     (case map_of (rev obj) key of
        Some (JStr v) \<Rightarrow> if trim v \<noteq> [] then Some v else pick obj keys
      | Some (JNum n) \<Rightarrow> Some (show_int n)
      | _ \<Rightarrow> pick obj keys)"

definition extractTrackEvent :: "json \<Rightarrow> CanonicalTrackEvent option" where
  "extractTrackEvent payload =
     (case payload of
        JObj obj \<Rightarrow>
          (case (pick obj awbKeys, pick obj statusKeys) of
             (Some awb, Some rawStatus) \<Rightarrow>
               Some \<lparr>te_awb = awb, te_rawStatus = rawStatus,
                 te_occurredAt = (case pick obj occurredKeys of None \<Rightarrow> [] | Some t \<Rightarrow> t),
                 te_locationText = pick obj locationKeys, te_reasonText = pick obj reasonKeys,
                 te_providerEventId = pick obj eventIdKeys\<rparr>
           | _ \<Rightarrow> None)
      | _ \<Rightarrow> None)"

section \<open>Masking\<close>

definition phoneKey :: "string \<Rightarrow> bool" where
  "phoneKey key \<longleftrightarrow> list_ex (\<lambda>p. includes_str p (to_lower key))
     [''phone'', ''mobile'', ''telephone'', ''contactnumber'', ''contact_number'']"

definition emailKey :: "string \<Rightarrow> bool" where
  "emailKey key \<longleftrightarrow> list_ex (\<lambda>p. includes_str p (to_lower key)) [''email'', ''e-mail'']"

definition addressKey :: "string \<Rightarrow> bool" where
  "addressKey key \<longleftrightarrow> list_ex (\<lambda>p. includes_str p (to_lower key))
       [''address'', ''addr'', ''street'', ''landmark'', ''locality'', ''recipient'', ''customername'',
        ''customer_name'', ''consignee'']
     \<or> trim (to_lower key) = ''name''"

definition maskPhone :: "string \<Rightarrow> string" where
  "maskPhone val =
     (let digits = filter is_digit val; n = length digits
      in if n < 4 then ''***''
         else take 2 digits @ replicate (max (n - 4) 2) (CHR ''*'') @ drop (n - 2) digits)"

definition maskEmail :: "string \<Rightarrow> string" where
  "maskEmail val =
     (let local_part = takeWhile (\<lambda>c. c \<noteq> CHR ''@'') val
      in if local_part = [] \<or> local_part = val then ''***''
         else take 1 local_part @ ''***@'' @ take 1 (drop (Suc (length local_part)) val) @ ''***'')"

definition masked :: json where
  "masked = JStr ''[masked]''"

fun maskPayload :: "json \<Rightarrow> string \<Rightarrow> nat \<Rightarrow> json" where
  "maskPayload (JArr vs) key depth =
     (if depth > 8 then masked else JArr (map (\<lambda>v. maskPayload v key (depth + 1)) vs))"
| "maskPayload (JObj kvs) key depth =
     (if depth > 8 then masked else JObj (map (\<lambda>kv. (fst kv, maskPayload (snd kv) (fst kv) (depth + 1))) kvs))"
| "maskPayload (JStr val) key depth =
     (if depth > 8 then masked
      else if phoneKey key then JStr (maskPhone val)
      else if emailKey key then JStr (maskEmail val)
      else if addressKey key then masked
      else JStr val)"
| "maskPayload (JNum n) key depth =
     (if depth > 8 then masked else if phoneKey key then JStr (maskPhone (show_int n)) else JNum n)"
| "maskPayload val key depth = (if depth > 8 then masked else val)"

section \<open>Laws\<close>

lemma of_char_char_of_small: "n < 256 \<Longrightarrow> (of_char (char_of n) :: nat) = n"
  by (simp add: take_bit_nat_eq_self)

lemma upper_char_stable:
  assumes "d \<in> set (upper_char c)"
  shows "upper_char d = [d]" "is_ws d \<Longrightarrow> d = c" "d = CHR ''-'' \<Longrightarrow> d = c"
proof -
  let ?n = "of_char c :: nat"
  have shape: "d = CHR ''S'' \<or> (\<exists>n::nat. d = char_of n \<and> (65 \<le> n \<and> n \<le> 90 \<or> 192 \<le> n \<and> n \<le> 222 \<and> n \<noteq> 215))
     \<or> (d = c \<and> upper_char c = [c])"
  proof (cases "97 \<le> ?n \<and> ?n \<le> 122 \<or> 224 \<le> ?n \<and> ?n \<le> 254 \<and> ?n \<noteq> 247")
    case True
    then have "upper_char c = [char_of (?n - 32)]" by (auto simp: upper_char_def Let_def)
    with assms have "d = char_of (?n - 32)" by simp
    moreover have "65 \<le> ?n - 32 \<and> ?n - 32 \<le> 90 \<or> 192 \<le> ?n - 32 \<and> ?n - 32 \<le> 222 \<and> ?n - 32 \<noteq> 215"
      using True by auto
    ultimately show ?thesis by blast
  next
    case False
    with assms show ?thesis by (auto simp: upper_char_def Let_def split: if_splits)
  qed
  then show "upper_char d = [d]"
    by (auto simp: upper_char_def Let_def of_char_char_of_small)
  have "is_ws d \<or> d = CHR ''-'' \<Longrightarrow> d = c"
    using shape by (auto simp: is_ws_def of_char_char_of_small dest: arg_cong [of _ _ "of_char :: char \<Rightarrow> nat"])
  then show "is_ws d \<Longrightarrow> d = c" "d = CHR ''-'' \<Longrightarrow> d = c" by blast+
qed

lemma to_upper_stable: "list_all (\<lambda>c. upper_char c = [c]) s \<Longrightarrow> to_upper s = s"
  by (induction s) (auto simp: to_upper_def)

lemma to_upper_to_upper: "to_upper (to_upper s) = to_upper s"
  by (rule to_upper_stable) (auto simp: list_all_iff to_upper_def intro: upper_char_stable(1))

definition separator :: "char \<Rightarrow> bool" where
  "separator c \<longleftrightarrow> is_ws c \<or> c = CHR ''-''"

lemma filter_trim: "filter (\<lambda>c. \<not> separator c) (trim s) = filter (\<lambda>c. \<not> separator c) s"
proof -
  have dw: "filter (\<lambda>c. \<not> separator c) (dropWhile is_ws s) = filter (\<lambda>c. \<not> separator c) s" for s
    by (induction s) (auto simp: separator_def)
  show ?thesis
    unfolding trim_def by (simp only: dw rev_filter [symmetric] rev_rev_ident)
qed

lemma normalizeAwb_eq: "normalizeAwb s = to_upper (filter (\<lambda>c. \<not> separator c) s)"
  using filter_trim [of s] by (simp add: normalizeAwb_def separator_def)

lemma to_upper_append: "to_upper (s @ t) = to_upper s @ to_upper t"
  by (simp add: to_upper_def)

lemma normalizeAwb_no_separator: "c \<in> set (normalizeAwb s) \<Longrightarrow> \<not> separator c"
proof
  assume "c \<in> set (normalizeAwb s)" and sep: "separator c"
  then obtain c' where c': "\<not> separator c'" "c \<in> set (upper_char c')"
    by (auto simp: normalizeAwb_eq to_upper_def)
  have "c = c'" using sep upper_char_stable(2,3) [OF c'(2)] by (auto simp: separator_def)
  with c'(1) sep show False by simp
qed

text \<open>
  F-19 is a normal form.  Normalising an AWB twice changes nothing, the result has no
  white space or hyphen, and separators inserted anywhere, or surrounding space, make no
  difference to it.
\<close>

theorem normalizeAwb_normal_form:
  "normalizeAwb (normalizeAwb s) = normalizeAwb s
   \<and> list_all (\<lambda>c. \<not> is_ws c \<and> c \<noteq> CHR ''-'') (normalizeAwb s)
   \<and> normalizeAwb (s @ filter separator seps @ t) = normalizeAwb (s @ t)"
proof (intro conjI)
  have "filter (\<lambda>c. \<not> separator c) (normalizeAwb s) = normalizeAwb s"
    by (rule filter_True) (blast dest: normalizeAwb_no_separator)
  then show "normalizeAwb (normalizeAwb s) = normalizeAwb s"
    by (subst normalizeAwb_eq) (simp add: normalizeAwb_eq to_upper_to_upper)
  show "list_all (\<lambda>c. \<not> is_ws c \<and> c \<noteq> CHR ''-'') (normalizeAwb s)"
    using normalizeAwb_no_separator by (auto simp: list_all_iff separator_def)
  show "normalizeAwb (s @ filter separator seps @ t) = normalizeAwb (s @ t)"
    by (simp add: normalizeAwb_eq to_upper_append)
qed

section \<open>What a masked payload can still show\<close>

text \<open>The scalars of a payload with the key each is masked under (arrays pass their key on).\<close>

fun leaves :: "string \<Rightarrow> json \<Rightarrow> (string \<times> json) list" where
  "leaves key (JArr vs) = concat (map (leaves key) vs)"
| "leaves key (JObj kvs) = concat (map (\<lambda>kv. leaves (fst kv) (snd kv)) kvs)"
| "leaves key v = [(key, v)]"

definition safeLeaf :: "string \<Rightarrow> json \<Rightarrow> bool" where
  "safeLeaf key v \<longleftrightarrow> (case v of
      JStr s \<Rightarrow>
        (phoneKey key \<longrightarrow> length (filter is_digit s) \<le> 4) \<and>
        (\<not> phoneKey key \<and> emailKey key \<longrightarrow> (\<exists>a b. s = ''[masked]'' \<or> s = ''***'' \<or> s = a @ ''***@'' @ b @ ''***'' \<and> length a \<le> 1 \<and> length b \<le> 1)) \<and>
        (\<not> phoneKey key \<and> \<not> emailKey key \<and> addressKey key \<longrightarrow> s = ''[masked]'')
    | JNum n \<Rightarrow> \<not> phoneKey key
    | _ \<Rightarrow> True)"

lemma maskPhone_digits: "length (filter is_digit (maskPhone s)) \<le> 4"
proof -
  let ?d = "filter is_digit s"
  have "filter is_digit (take 2 ?d) = take 2 ?d" "filter is_digit (drop k ?d) = drop k ?d" for k
    by (auto intro!: filter_True dest: in_set_takeD in_set_dropD)
  moreover have "\<not> is_digit (CHR ''*'')" by (simp add: is_digit_def)
  ultimately show ?thesis by (simp add: maskPhone_def Let_def)
qed

lemma maskEmail_shape:
  "maskEmail s = ''***'' \<or> (\<exists>a b. maskEmail s = a @ ''***@'' @ b @ ''***'' \<and> length a \<le> 1 \<and> length b \<le> 1)"
  unfolding maskEmail_def Let_def
  by (cases "takeWhile (\<lambda>c. c \<noteq> CHR ''@'') s = [] \<or> takeWhile (\<lambda>c. c \<noteq> CHR ''@'') s = s")
     (simp, intro disjI2 exI conjI, auto)

lemma safeLeaf_masked [simp]: "safeLeaf key masked"
proof -
  have "filter is_digit ''[masked]'' = []" by (simp add: is_digit_def)
  then show ?thesis by (simp add: safeLeaf_def masked_def)
qed

lemmas safeLeaf_masked_text [simp] = safeLeaf_masked [unfolded masked_def]

text \<open>
  INV-18 for the payload viewer.  Whatever the payload and its nesting, no scalar that is
  shown under a phone-like key keeps more than four digits, one under an e-mail key keeps at
  most one character of either part, and one under an address-like key is replaced.
\<close>

theorem maskPayload_hides:
  "list_all (\<lambda>(k, v). safeLeaf k v) (leaves key (maskPayload payload key depth))"
proof (induction payload key depth rule: maskPayload.induct)
  case (1 vs key depth)
  then show ?case by (auto simp: list_all_iff masked_def)
next
  case (2 kvs key depth)
  then show ?case by (auto simp: list_all_iff masked_def)
next
  case (3 val key depth)
  show ?case
    using maskPhone_digits [of val] maskEmail_shape [of val] by (auto simp: safeLeaf_def masked_def is_digit_def)
next
  case (4 n key depth)
  then show ?case using maskPhone_digits [of "show_int n"] by (auto simp: safeLeaf_def masked_def is_digit_def)
qed (auto simp: safeLeaf_def masked_def is_digit_def)

text \<open>
  The key that decides is the nearest one: an object under a sensitive key is masked by the
  keys inside it, so the lines of an address object are shown as they are.
\<close>

lemma maskPayload_nested_address_shown:
  "maskPayload (JObj [(''address'', JObj [(''line1'', JStr s)])]) [] 0
     = JObj [(''address'', JObj [(''line1'', JStr s)])]"
  by (simp add: phoneKey_def emailKey_def addressKey_def text_eval)

end
