(* ===== verification/Movement.thy ===== *)
theory Movement
  imports TrackingUtil
begin

text \<open>
  \<open>src/modules/tracking/movement-reducer.service.ts\<close>: the reducer that owns
  \<open>shipment.movement_state\<close>.  A shipment row carries a version; the reducer reads the row,
  decides, and updates it only if the version is still the one it read, up to five times.
  Between the read and the update other writers may commit: the parameter \<open>env\<close> gives, for
  each attempt, the writes that land in that gap.  What the reducer calls (sync-back queue,
  tracking seams, buyer notifications, the review flag) is recorded as a list of effects.
\<close>

section \<open>Data\<close>

datatype CarrierEventStatus =
    EV_PICKUP_SCHEDULED | EV_PICKED_UP | EV_IN_TRANSIT | EV_OUT_FOR_DELIVERY | EV_DELIVERED
  | EV_UNDELIVERED_ATTEMPT | EV_RTO_INITIATED | EV_RTO_IN_TRANSIT | EV_RTO_OUT_FOR_DELIVERY
  | EV_RTO_DELIVERED | EV_LOST_OR_DAMAGED | EV_CANCELLED_BY_COURIER

datatype MovementState =
    NOT_SHIPPED | IN_TRANSIT | OUT_FOR_DELIVERY | NDR | DELIVERED | RTO_INITIATED | RTO_IN_TRANSIT
  | RTO_OUT_FOR_DELIVERY | RTO_DELIVERED | LOST_OR_DAMAGED | CANCELLED_BY_COURIER

datatype CustodyState =
    NOT_APPLICABLE | PICKUP_PENDING | PICKUP_SCHEDULED | IN_CUSTODY | CANCEL_REQUESTED | CANCELLED
  | CANCEL_REJECTED

definition eventToMovement :: "CarrierEventStatus \<Rightarrow> MovementState" where
  "eventToMovement ev = (case ev of
      EV_PICKUP_SCHEDULED \<Rightarrow> IN_TRANSIT
    | EV_PICKED_UP \<Rightarrow> IN_TRANSIT
    | EV_IN_TRANSIT \<Rightarrow> IN_TRANSIT
    | EV_OUT_FOR_DELIVERY \<Rightarrow> OUT_FOR_DELIVERY
    | EV_UNDELIVERED_ATTEMPT \<Rightarrow> NDR
    | EV_DELIVERED \<Rightarrow> DELIVERED
    | EV_RTO_INITIATED \<Rightarrow> RTO_INITIATED
    | EV_RTO_IN_TRANSIT \<Rightarrow> RTO_IN_TRANSIT
    | EV_RTO_OUT_FOR_DELIVERY \<Rightarrow> RTO_OUT_FOR_DELIVERY
    | EV_RTO_DELIVERED \<Rightarrow> RTO_DELIVERED
    | EV_LOST_OR_DAMAGED \<Rightarrow> LOST_OR_DAMAGED
    | EV_CANCELLED_BY_COURIER \<Rightarrow> CANCELLED_BY_COURIER)"

definition terminalMovementStates :: "MovementState list" where
  "terminalMovementStates = [DELIVERED, RTO_DELIVERED, LOST_OR_DAMAGED, CANCELLED_BY_COURIER]"

definition maxVersionRetries :: nat where
  "maxVersionRetries = 5"

record ShipmentMovementRow =
  sm_movement_state :: MovementState
  sm_custody_state :: CustodyState
  sm_delivered_at :: "string option"
  sm_version :: int

datatype ReviewReason = TerminalNotRegressed MovementState CarrierEventStatus | CustodyRace

record ReducerDecision =
  dc_targetMovement :: MovementState
  dc_movementChanges :: bool
  dc_custodyTarget :: "CustodyState option"
  dc_reviewFlag :: bool
  dc_reviewReason :: "ReviewReason option"
  dc_setDeliveredAt :: bool

definition decideTransition :: "ShipmentMovementRow \<Rightarrow> CarrierEventStatus \<Rightarrow> ReducerDecision" where
  "decideTransition current status =
     (let target = eventToMovement status;
          confirms = (status = EV_PICKED_UP \<and>
            (sm_custody_state current = PICKUP_PENDING \<or> sm_custody_state current = PICKUP_SCHEDULED
             \<or> sm_custody_state current = CANCEL_REQUESTED));
          custodyTarget = (if confirms then Some IN_CUSTODY else None);
          custodyRace = (confirms \<and> sm_custody_state current = CANCEL_REQUESTED)
      in if sm_movement_state current \<in> set terminalMovementStates \<and> target \<noteq> sm_movement_state current
         then \<lparr>dc_targetMovement = target, dc_movementChanges = False, dc_custodyTarget = None,
               dc_reviewFlag = True,
               dc_reviewReason = Some (TerminalNotRegressed (sm_movement_state current) status),
               dc_setDeliveredAt = False\<rparr>
         else (let movementChanges = (target \<noteq> sm_movement_state current) in
              \<lparr>dc_targetMovement = target, dc_movementChanges = movementChanges,
               dc_custodyTarget = custodyTarget, dc_reviewFlag = custodyRace,
               dc_reviewReason = (if custodyRace then Some CustodyRace else None),
               dc_setDeliveredAt = (movementChanges \<and> target = DELIVERED
                 \<and> (sm_delivered_at current = None \<or> sm_delivered_at current = Some []))\<rparr>))"

section \<open>Applying one event\<close>

datatype BuyerMessage = onOutForDelivery | onUndeliveredAttempt | onDelivered | onRtoInitiated

datatype Effect =
    FlagEvent string
  | EnqueueFulfillment CarrierEventStatus
  | SeamOnDelivered string
  | SeamOnNdr CarrierEventStatus string
  | SeamOnRtoInitiated string
  | SeamOnTerminalMovement MovementState string
  | NotifyBuyer BuyerMessage

record ReducerOutcome =
  ro_stateChanged :: bool
  ro_movementState :: MovementState
  ro_reviewFlag :: bool
  ro_reviewReason :: "ReviewReason option"

record TrackEvent =
  tv_eventId :: string
  tv_status :: CarrierEventStatus
  tv_occurredAt :: string

text \<open>The \<open>SET\<close> clause of the update.\<close>

definition writeRow :: "ReducerDecision \<Rightarrow> string \<Rightarrow> ShipmentMovementRow \<Rightarrow> ShipmentMovementRow" where
  "writeRow decision occurredAt row = row\<lparr>
     sm_movement_state := dc_targetMovement decision,
     sm_custody_state := (case dc_custodyTarget decision of None \<Rightarrow> sm_custody_state row | Some c \<Rightarrow> c),
     sm_delivered_at := (if dc_setDeliveredAt decision then Some occurredAt else sm_delivered_at row),
     sm_version := sm_version row + 1\<rparr>"

text \<open>The conditional update: the new row and the row count.\<close>

definition conditionalUpdate ::
  "ReducerDecision \<Rightarrow> string \<Rightarrow> int \<Rightarrow> ShipmentMovementRow \<Rightarrow> ShipmentMovementRow \<times> nat" where
  "conditionalUpdate decision occurredAt version row =
     (if sm_version row = version then (writeRow decision occurredAt row, 1) else (row, 0))"

definition noChangeEffects :: "TrackEvent \<Rightarrow> ShipmentMovementRow \<Rightarrow> Effect list" where
  "noChangeEffects ev row =
     (if tv_status ev = EV_UNDELIVERED_ATTEMPT \<and> sm_movement_state row = NDR
      then [SeamOnNdr (tv_status ev) (tv_occurredAt ev), NotifyBuyer onUndeliveredAttempt] else [])"

definition committedEffects :: "TrackEvent \<Rightarrow> ReducerDecision \<Rightarrow> Effect list" where
  "committedEffects ev decision =
     (if \<not> dc_movementChanges decision then [] else
        [EnqueueFulfillment (tv_status ev)]
      @ (if dc_targetMovement decision = DELIVERED
         then [SeamOnDelivered (tv_occurredAt ev), NotifyBuyer onDelivered] else [])
      @ (if dc_targetMovement decision = NDR
         then [SeamOnNdr (tv_status ev) (tv_occurredAt ev), NotifyBuyer onUndeliveredAttempt] else [])
      @ (if dc_targetMovement decision = OUT_FOR_DELIVERY then [NotifyBuyer onOutForDelivery] else [])
      @ (if dc_targetMovement decision = RTO_INITIATED
         then [NotifyBuyer onRtoInitiated, SeamOnRtoInitiated (tv_occurredAt ev)] else [])
      @ (if dc_targetMovement decision = RTO_DELIVERED \<or> dc_targetMovement decision = LOST_OR_DAMAGED
            \<or> dc_targetMovement decision = CANCELLED_BY_COURIER
         then [SeamOnTerminalMovement (dc_targetMovement decision) (tv_occurredAt ev)] else []))"

datatype reducer_error = ShipmentNotFound | MovementConflict

type_synonym shipment_db = "ShipmentMovementRow option"

text \<open>
  \<open>applyAttempts env ev left k row\<close>: \<open>left\<close> attempts remain, \<open>k\<close> were made.  The loop
  returns the outcome (or the conflict), the row and the effects in order.
\<close>

fun applyAttempts ::
  "(nat \<Rightarrow> ShipmentMovementRow \<Rightarrow> ShipmentMovementRow) \<Rightarrow> TrackEvent \<Rightarrow> nat \<Rightarrow> nat \<Rightarrow> ShipmentMovementRow
     \<Rightarrow> (reducer_error + ReducerOutcome) \<times> ShipmentMovementRow \<times> Effect list" where
  "applyAttempts env ev 0 k row = (Inl MovementConflict, row, [])"
| "applyAttempts env ev (Suc left) k row =
     (let decision = decideTransition row (tv_status ev);
          flag = (if dc_reviewFlag decision then [FlagEvent (tv_eventId ev)] else [])
      in if \<not> dc_movementChanges decision \<and> dc_custodyTarget decision = None then
           (Inr \<lparr>ro_stateChanged = False, ro_movementState = sm_movement_state row,
                 ro_reviewFlag = dc_reviewFlag decision, ro_reviewReason = dc_reviewReason decision\<rparr>,
            row, flag @ noChangeEffects ev row)
         else
           (let (row', rowCount) = conditionalUpdate decision (tv_occurredAt ev) (sm_version row) (env k row)
            in if rowCount = 0 then
                 (let (out, row'', effs) = applyAttempts env ev left (Suc k) row'
                  in (out, row'', flag @ effs))
               else
                 (Inr \<lparr>ro_stateChanged = dc_movementChanges decision,
                       ro_movementState = dc_targetMovement decision,
                       ro_reviewFlag = dc_reviewFlag decision, ro_reviewReason = dc_reviewReason decision\<rparr>,
                  row', flag @ committedEffects ev decision)))"

definition applyEvent ::
  "(nat \<Rightarrow> ShipmentMovementRow \<Rightarrow> ShipmentMovementRow) \<Rightarrow> TrackEvent \<Rightarrow> shipment_db
     \<Rightarrow> (reducer_error + ReducerOutcome) \<times> shipment_db \<times> Effect list" where
  "applyEvent env ev db =
     (case db of
        None \<Rightarrow> (Inl ShipmentNotFound, None, [])
      | Some row \<Rightarrow>
          (let (out, row', effs) = applyAttempts env ev maxVersionRetries 0 row in (out, Some row', effs)))"

end
