(* ===== verification/Movement_Laws.thy ===== *)
theory Movement_Laws
  imports Movement
begin

text \<open>
  The reducer under concurrent writers.  \<open>shipment_step\<close> is what any writer of the repository
  may do to the columns modelled here (the reducer's own update, or a change of custody by
  the pickup, booking and cancellation services), each bumping the version; the interface
  \<open>versioned_store\<close> draws the consequence optimistic locking rests on.
\<close>

section \<open>Versioned rows\<close>

locale versioned_store =
  fixes step :: "'r \<Rightarrow> 'r \<Rightarrow> bool" and ver :: "'r \<Rightarrow> int"
  assumes bump: "step r r' \<Longrightarrow> ver r < ver r'"
begin

lemma reach_mono: "step\<^sup>*\<^sup>* r r' \<Longrightarrow> ver r \<le> ver r'"
  by (induction rule: rtranclp_induct) (auto dest: bump)

text \<open>A version that still matches proves that nobody wrote in between.\<close>

lemma unchanged: "step\<^sup>*\<^sup>* r r' \<Longrightarrow> ver r' = ver r \<Longrightarrow> r' = r"
proof (induction rule: converse_rtranclp_induct)
  case base
  then show ?case by simp
next
  case (step r s)
  then have "ver r < ver s" "ver s \<le> ver r'" by (auto dest: bump reach_mono)
  with step.prems show ?case by simp
qed

end

definition quiet :: "ReducerDecision \<Rightarrow> bool" where
  "quiet d \<longleftrightarrow> \<not> dc_movementChanges d \<and> dc_custodyTarget d = None"

inductive shipment_step :: "ShipmentMovementRow \<Rightarrow> ShipmentMovementRow \<Rightarrow> bool" where
  reduce: "\<not> quiet (decideTransition r ev) \<Longrightarrow> shipment_step r (writeRow (decideTransition r ev) at r)"
| custody: "shipment_step r (r\<lparr>sm_custody_state := c, sm_version := sm_version r + 1\<rparr>)"

inductive_cases shipment_stepE: "shipment_step r r'"

lemma sm_version_writeRow [simp]: "sm_version (writeRow d t r) = sm_version r + 1"
  by (simp add: writeRow_def)

interpretation shipments: versioned_store shipment_step sm_version
  by unfold_locales (auto elim: shipment_stepE)

definition wfEnv :: "(nat \<Rightarrow> ShipmentMovementRow \<Rightarrow> ShipmentMovementRow) \<Rightarrow> bool" where
  "wfEnv env \<longleftrightarrow> (\<forall>k r. shipment_step\<^sup>*\<^sup>* r (env k r))"

section \<open>Terminal states\<close>

lemma decide_terminal:
  "sm_movement_state r \<in> set terminalMovementStates \<Longrightarrow> eventToMovement ev \<noteq> sm_movement_state r \<Longrightarrow>
     quiet (decideTransition r ev) \<and> dc_reviewFlag (decideTransition r ev)"
  by (simp add: decideTransition_def Let_def quiet_def)

lemma step_terminal:
  "shipment_step r r' \<Longrightarrow> sm_movement_state r \<in> set terminalMovementStates \<Longrightarrow>
     sm_movement_state r' = sm_movement_state r \<and> sm_delivered_at r' = sm_delivered_at r"
proof (erule shipment_stepE)
  fix ev at
  assume t: "sm_movement_state r \<in> set terminalMovementStates" and r': "r' = writeRow (decideTransition r ev) at r"
    and "\<not> quiet (decideTransition r ev)"
  then have "eventToMovement ev = sm_movement_state r" using decide_terminal by blast
  then show ?thesis by (simp add: r' writeRow_def decideTransition_def Let_def)
qed simp

definition deliveredStamp :: "ShipmentMovementRow \<Rightarrow> bool" where
  "deliveredStamp r \<longleftrightarrow> (sm_delivered_at r \<noteq> None \<longleftrightarrow> sm_movement_state r = DELIVERED)"

lemma step_deliveredStamp: "shipment_step r r' \<Longrightarrow> deliveredStamp r \<Longrightarrow> deliveredStamp r'"
proof (erule shipment_stepE)
  fix ev at
  assume s: "deliveredStamp r" and r': "r' = writeRow (decideTransition r ev) at r"
    and nq: "\<not> quiet (decideTransition r ev)"
  show ?thesis
  proof (cases "sm_movement_state r = DELIVERED")
    case True
    then have "eventToMovement ev = DELIVERED"
      using nq decide_terminal [of r ev] by (auto simp: terminalMovementStates_def)
    with True s show ?thesis by (simp add: r' writeRow_def decideTransition_def Let_def deliveredStamp_def)
  next
    case False
    with s nq show ?thesis
      by (auto simp: r' writeRow_def decideTransition_def Let_def deliveredStamp_def quiet_def split: if_splits)
  qed
qed (simp add: deliveredStamp_def)

text \<open>
  C6: INV-17 and the delivery stamp, over every history.  Along any sequence of reducer updates and
  custody changes by other services, a terminal movement state and its delivery time never
  change again, and a shipment that started undelivered carries a delivery time exactly
  while it is DELIVERED.
\<close>

theorem terminal_never_regressed:
  assumes "shipment_step\<^sup>*\<^sup>* r r'"
  shows "(sm_movement_state r \<in> set terminalMovementStates \<longrightarrow>
      sm_movement_state r' = sm_movement_state r \<and> sm_delivered_at r' = sm_delivered_at r)
    \<and> (sm_movement_state r = NOT_SHIPPED \<and> sm_delivered_at r = None \<longrightarrow>
      (sm_delivered_at r' \<noteq> None \<longleftrightarrow> sm_movement_state r' = DELIVERED))"
proof -
  have "sm_movement_state r \<in> set terminalMovementStates \<longrightarrow>
      sm_movement_state r' = sm_movement_state r \<and> sm_delivered_at r' = sm_delivered_at r"
    using assms by (induction rule: rtranclp_induct) (auto dest: step_terminal)
  moreover have "deliveredStamp r \<longrightarrow> deliveredStamp r'"
    using assms by (induction rule: rtranclp_induct) (auto dest: step_deliveredStamp)
  ultimately show ?thesis by (simp add: deliveredStamp_def)
qed

definition freshRow :: ShipmentMovementRow where
  "freshRow = \<lparr>sm_movement_state = NOT_SHIPPED, sm_custody_state = PICKUP_PENDING,
     sm_delivered_at = None, sm_version = 1\<rparr>"

lemma terminal_never_regressed_witness:
  "sm_delivered_at (writeRow (decideTransition freshRow EV_DELIVERED) ''2026-08-01T00:00:00.000Z'' freshRow) \<noteq> None"
proof -
  let ?r = "writeRow (decideTransition freshRow EV_DELIVERED) ''2026-08-01T00:00:00.000Z'' freshRow"
  have "shipment_step freshRow ?r"
    by (rule shipment_step.reduce) (simp add: quiet_def decideTransition_def Let_def freshRow_def
        eventToMovement_def terminalMovementStates_def)
  then have "shipment_step\<^sup>*\<^sup>* freshRow ?r" by (rule r_into_rtranclp)
  moreover have "sm_movement_state ?r = DELIVERED"
    by (simp add: writeRow_def decideTransition_def Let_def freshRow_def eventToMovement_def terminalMovementStates_def)
  ultimately show ?thesis using terminal_never_regressed [of freshRow ?r] by (simp add: freshRow_def)
qed

section \<open>One event, applied once, on the row it was decided on\<close>

definition callsOut :: "Effect \<Rightarrow> bool" where
  "callsOut e \<longleftrightarrow> (case e of FlagEvent _ \<Rightarrow> False | _ \<Rightarrow> True)"

definition appliedOn :: "TrackEvent \<Rightarrow> ShipmentMovementRow \<Rightarrow> ReducerOutcome \<Rightarrow> ShipmentMovementRow \<Rightarrow> Effect list \<Rightarrow> bool" where
  "appliedOn ev rc o' row' effs \<longleftrightarrow>
     (let d = decideTransition rc (tv_status ev) in
       row' = (if quiet d then rc else writeRow d (tv_occurredAt ev) rc)
     \<and> ro_stateChanged o' = dc_movementChanges d
     \<and> ro_movementState o' = sm_movement_state row'
     \<and> ro_reviewFlag o' = dc_reviewFlag d
     \<and> (dc_reviewFlag d \<longrightarrow> FlagEvent (tv_eventId ev) \<in> set effs)
     \<and> filter callsOut effs = (if quiet d then noChangeEffects ev rc else committedEffects ev d))"

lemma callsOut_committed: "filter callsOut (committedEffects ev d) = committedEffects ev d"
  "filter callsOut (noChangeEffects ev r) = noChangeEffects ev r"
  by (auto simp: committedEffects_def noChangeEffects_def callsOut_def)

lemma applyAttempts_spec:
  assumes "wfEnv env" and "applyAttempts env ev left k row = (out, row', effs)"
  shows "\<exists>rc. shipment_step\<^sup>*\<^sup>* row rc \<and>
     (case out of
        Inr o' \<Rightarrow> appliedOn ev rc o' row' effs
      | Inl e \<Rightarrow> e = MovementConflict \<and> row' = rc \<and> filter callsOut effs = [])"
  using assms(2)
proof (induction left arbitrary: k row out row' effs)
  case 0
  then show ?case by (auto intro!: exI [of _ row])
next
  case (Suc left)
  let ?d = "decideTransition row (tv_status ev)"
  let ?flag = "if dc_reviewFlag ?d then [FlagEvent (tv_eventId ev)] else []"
  have flag: "filter callsOut ?flag = []" by (simp add: callsOut_def)
  show ?case
  proof (cases "quiet ?d")
    case True
    with Suc.prems have "out = Inr \<lparr>ro_stateChanged = False, ro_movementState = sm_movement_state row,
                 ro_reviewFlag = dc_reviewFlag ?d, ro_reviewReason = dc_reviewReason ?d\<rparr>"
      "row' = row" "effs = ?flag @ noChangeEffects ev row"
      by (auto simp: quiet_def Let_def)
    with True flag show ?thesis
      by (intro exI [of _ row]) (simp add: appliedOn_def Let_def callsOut_committed quiet_def)
  next
    case nq: False
    have reach: "shipment_step\<^sup>*\<^sup>* row (env k row)" using assms(1) by (simp add: wfEnv_def)
    show ?thesis
    proof (cases "sm_version (env k row) = sm_version row")
      case True
      with shipments.unchanged [OF reach] have same: "env k row = row" by simp
      with Suc.prems nq have "out = Inr \<lparr>ro_stateChanged = dc_movementChanges ?d,
                 ro_movementState = dc_targetMovement ?d,
                 ro_reviewFlag = dc_reviewFlag ?d, ro_reviewReason = dc_reviewReason ?d\<rparr>"
        "row' = writeRow ?d (tv_occurredAt ev) row" "effs = ?flag @ committedEffects ev ?d"
        by (auto simp: quiet_def Let_def conditionalUpdate_def)
      with nq flag show ?thesis
        by (intro exI [of _ row]) (simp add: appliedOn_def Let_def callsOut_committed writeRow_def)
    next
      case False
      obtain out1 row1 effs1 where rest: "applyAttempts env ev left (Suc k) (env k row) = (out1, row1, effs1)"
        by (cases "applyAttempts env ev left (Suc k) (env k row)")
      with Suc.prems nq False have eqs: "out = out1" "row' = row1" "effs = ?flag @ effs1"
        by (auto simp: quiet_def Let_def conditionalUpdate_def)
      from Suc.IH [OF rest] obtain rc where rc: "shipment_step\<^sup>*\<^sup>* (env k row) rc"
        "case out1 of Inr o' \<Rightarrow> appliedOn ev rc o' row1 effs1
         | Inl e \<Rightarrow> e = MovementConflict \<and> row1 = rc \<and> filter callsOut effs1 = []" by blast
      have "shipment_step\<^sup>*\<^sup>* row rc" using reach rc(1) by (rule rtranclp_trans)
      with rc(2) flag show ?thesis
        by (intro exI [of _ rc]) (auto simp: eqs appliedOn_def Let_def split: sum.splits)
    qed
  qed
qed

text \<open>
  C7: INV-22, the reducer as an atomic step.  Whatever other writers commit while \<open>applyEvent\<close> runs,
  a normal return means there was a moment at which the row had some value reached by those
  writers, the decision was taken on exactly that value and applied to it, the review flag
  was stored when the decision asked for it, and the calls to sync-back, the seams and the
  buyer notifications were made once, for that decision.  A conflict means the row holds
  only the others' writes and nothing was called.
\<close>

theorem applyEvent_atomic:
  assumes "wfEnv env" and "applyEvent env ev (Some row) = (out, db', effs)"
  shows "\<exists>rc row'. shipment_step\<^sup>*\<^sup>* row rc \<and> db' = Some row' \<and>
     (case out of
        Inr o' \<Rightarrow> appliedOn ev rc o' row' effs
      | Inl e \<Rightarrow> e = MovementConflict \<and> row' = rc \<and> filter callsOut effs = [])"
proof -
  obtain row' where "applyAttempts env ev maxVersionRetries 0 row = (out, row', effs)" "db' = Some row'"
    using assms(2) by (auto simp: applyEvent_def split: prod.splits)
  with applyAttempts_spec [OF assms(1)] show ?thesis by blast
qed

definition pickupRace :: "nat \<Rightarrow> ShipmentMovementRow \<Rightarrow> ShipmentMovementRow" where
  "pickupRace k r = (if k = 0 then r\<lparr>sm_custody_state := CANCEL_REQUESTED, sm_version := sm_version r + 1\<rparr> else r)"

lemma wfEnv_pickupRace: "wfEnv pickupRace"
  by (auto simp: wfEnv_def pickupRace_def intro: r_into_rtranclp shipment_step.custody)

lemma pickupRace_run: "\<exists>row' effs. applyEvent pickupRace \<lparr>tv_eventId = ''e'', tv_status = EV_PICKED_UP, tv_occurredAt = ''t''\<rparr>
      (Some freshRow) = (Inr \<lparr>ro_stateChanged = True, ro_movementState = IN_TRANSIT, ro_reviewFlag = True,
        ro_reviewReason = Some CustodyRace\<rparr>, Some row', effs)"
  by (simp add: applyEvent_def maxVersionRetries_def numeral_eq_Suc Let_def decideTransition_def freshRow_def
      eventToMovement_def terminalMovementStates_def conditionalUpdate_def pickupRace_def)

lemma applyEvent_atomic_witness:
  "\<exists>rc row' effs. shipment_step\<^sup>*\<^sup>* freshRow rc \<and> appliedOn \<lparr>tv_eventId = ''e'', tv_status = EV_PICKED_UP, tv_occurredAt = ''t''\<rparr> rc
     \<lparr>ro_stateChanged = True, ro_movementState = IN_TRANSIT, ro_reviewFlag = True,
      ro_reviewReason = Some CustodyRace\<rparr> row' effs"
proof -
  obtain row' effs where "applyEvent pickupRace \<lparr>tv_eventId = ''e'', tv_status = EV_PICKED_UP, tv_occurredAt = ''t''\<rparr>
      (Some freshRow) = (Inr \<lparr>ro_stateChanged = True, ro_movementState = IN_TRANSIT, ro_reviewFlag = True,
        ro_reviewReason = Some CustodyRace\<rparr>, Some row', effs)"
    using pickupRace_run by blast
  from applyEvent_atomic [OF wfEnv_pickupRace this] show ?thesis by auto
qed

text \<open>
  The reducer returns as soon as one attempt is undisturbed: if in one of the five attempts no
  other writer commits between the read and the update, \<open>applyEvent\<close> ends normally.
\<close>

theorem applyEvent_returns:
  assumes "k < maxVersionRetries" and "\<forall>r. env k r = r"
  shows "\<exists>o'. fst (applyEvent env ev (Some row)) = Inr o'"
proof -
  have "\<exists>o'. fst (applyAttempts env ev left j row) = Inr o'" if "j \<le> k" "k < j + left" for left j row
    using that
  proof (induction left arbitrary: j row)
    case 0
    then show ?case by simp
  next
    case (Suc left)
    show ?case
    proof (cases "j = k")
      case True
      with assms(2) show ?thesis by (simp add: Let_def conditionalUpdate_def)
    next
      case False
      with Suc show ?thesis by (simp add: Let_def conditionalUpdate_def case_prod_unfold)
    qed
  qed
  from this [of 0 maxVersionRetries row] assms(1) show ?thesis
    by (simp add: applyEvent_def case_prod_unfold Let_def)
qed

lemma applyEvent_returns_witness:
  "\<exists>o'. fst (applyEvent pickupRace \<lparr>tv_eventId = ''e'', tv_status = EV_RTO_DELIVERED, tv_occurredAt = ''t''\<rparr>
     (Some freshRow)) = Inr o'"
  by (rule applyEvent_returns [of 1]) (simp_all add: maxVersionRetries_def pickupRace_def)

end
