(* ===== verification/Ingest.thy ===== *)
theory Ingest
  imports Movement_Laws
begin

text \<open>
  \<open>src/modules/tracking/tracking-ingest.service.ts\<close>: the normalisation of one raw courier
  event into at most one tracking event and one run of the reducer.  The tables it reads and
  writes are the fields of \<open>IngestWorld\<close>; ids handed out by the database are the parameter
  \<open>freshId\<close>, and \<open>env\<close>, \<open>legacyParse\<close> and \<open>sha256\<close> are those of the theories below.
\<close>

section \<open>Tables\<close>

datatype TrackingParseResult =
  PENDING | ACCEPTED | DUPLICATE | UNMAPPED_STATUS | SIGNATURE_FAILURE | AWB_QUARANTINED

record RawEventRow =
  raw_event_id :: string
  raw_shop_id :: string
  raw_courier_account_id :: "string option"
  raw_awb_normalized :: "string option"
  raw_payload :: json
  raw_received_at :: int
  raw_parse_result :: TrackingParseResult

record StoredEvent =
  se_event_id :: string
  se_shop_id :: string
  se_shipment_id :: string
  se_carrier_event_status :: "CarrierEventStatus option"
  se_raw_status :: string
  se_occurred_at :: string
  se_location_text :: "string option"
  se_reason_text :: "string option"
  se_provider_event_id :: "string option"
  se_dedupe_key :: string
  se_review_flag :: bool

record ShipmentRef =
  sh_shipment_id :: string
  sh_shop_id :: string
  sh_awb_normalized :: "string option"
  sh_courier_account_id :: "string option"

datatype HealthState = UNVERIFIED | HEALTHY | DEGRADED | DISCONNECTED | DISABLED

record AccountHealth =
  ah_courier_account_id :: string
  ah_shop_id :: string
  ah_health_state :: HealthState
  ah_touched :: bool

text \<open>Shipments are listed in order of creation.\<close>

record IngestWorld =
  iw_raws :: "RawEventRow list"
  iw_shipments :: "ShipmentRef list"
  iw_statusMap :: "string \<times> string \<Rightarrow> CarrierEventStatus option"
  iw_events :: "StoredEvent list"
  iw_rows :: "string \<Rightarrow> ShipmentMovementRow option"
  iw_accounts :: "AccountHealth list"
  iw_effects :: "Effect list"

record ProcessResult =
  pr_rawEventId :: string
  pr_parseResult :: TrackingParseResult
  pr_shipmentId :: "string option"
  pr_eventId :: "string option"
  pr_carrierEventStatus :: "CarrierEventStatus option"
  pr_stateChanged :: bool
  pr_reviewFlag :: bool

section \<open>Queries\<close>

definition loadRaw :: "IngestWorld \<Rightarrow> string \<Rightarrow> RawEventRow option" where
  "loadRaw w rawEventId = List.find (\<lambda>r. raw_event_id r = rawEventId) (iw_raws w)"

definition resolveShipment :: "IngestWorld \<Rightarrow> string \<Rightarrow> string \<Rightarrow> ShipmentRef option" where
  "resolveShipment w shopId awbNormalized =
     List.find (\<lambda>s. sh_shop_id s = shopId \<and> sh_awb_normalized s = Some awbNormalized) (rev (iw_shipments w))"

definition mapStatus :: "IngestWorld \<Rightarrow> RawEventRow \<Rightarrow> string option \<Rightarrow> string \<Rightarrow> CarrierEventStatus option" where
  "mapStatus w raw shipmentAccountId rawStatus =
     (case (case raw_courier_account_id raw of Some a \<Rightarrow> Some a | None \<Rightarrow> shipmentAccountId) of
        None \<Rightarrow> None
      | Some accountId \<Rightarrow>
          if accountId = [] then None else iw_statusMap w (accountId, foldRawStatus rawStatus))"

definition setParseResult ::
  "RawEventRow \<Rightarrow> TrackingParseResult \<Rightarrow> string option \<Rightarrow> IngestWorld \<Rightarrow> IngestWorld" where
  "setParseResult raw parseResult awbNormalized w = w\<lparr>iw_raws := map (\<lambda>r.
     if raw_event_id r = raw_event_id raw
     then r\<lparr>raw_parse_result := parseResult,
            raw_awb_normalized := (case awbNormalized of None \<Rightarrow> raw_awb_normalized r | Some a \<Rightarrow> Some a)\<rparr>
     else r) (iw_raws w)\<rparr>"

definition touchAccountHealth :: "RawEventRow \<Rightarrow> IngestWorld \<Rightarrow> IngestWorld" where
  "touchAccountHealth raw w =
     (case raw_courier_account_id raw of
        None \<Rightarrow> w
      | Some [] \<Rightarrow> w
      | Some accountId \<Rightarrow> w\<lparr>iw_accounts := map (\<lambda>a.
          if ah_courier_account_id a = accountId \<and> ah_shop_id a = raw_shop_id raw
          then a\<lparr>ah_touched := True, ah_health_state :=
            (if ah_health_state a = UNVERIFIED \<or> ah_health_state a = DEGRADED then HEALTHY
             else ah_health_state a)\<rparr>
          else a) (iw_accounts w)\<rparr>)"

definition resultOf ::
  "RawEventRow \<Rightarrow> TrackingParseResult \<Rightarrow> string option \<Rightarrow> string option \<Rightarrow> CarrierEventStatus option
     \<Rightarrow> bool \<Rightarrow> bool \<Rightarrow> ProcessResult" where
  "resultOf raw parseResult shipmentId eventId status stateChanged reviewFlag =
     \<lparr>pr_rawEventId = raw_event_id raw, pr_parseResult = parseResult, pr_shipmentId = shipmentId,
      pr_eventId = eventId, pr_carrierEventStatus = status, pr_stateChanged = stateChanged,
      pr_reviewFlag = reviewFlag\<rparr>"

text \<open>The transaction that inserts the event unless its key is already stored.\<close>

definition isDuplicate :: "IngestWorld \<Rightarrow> string \<Rightarrow> string \<Rightarrow> bool" where
  "isDuplicate w shipmentId dedupeKey \<longleftrightarrow>
     list_ex (\<lambda>e. se_shipment_id e = shipmentId \<and> se_dedupe_key e = dedupeKey) (iw_events w)"

text \<open>\<open>UPDATE tracking_event SET review_flag = true\<close>, and the other calls, are recorded.\<close>

definition applyEffects :: "Effect list \<Rightarrow> IngestWorld \<Rightarrow> IngestWorld" where
  "applyEffects effs w = w\<lparr>
     iw_events := map (\<lambda>e. if FlagEvent (se_event_id e) \<in> set effs then e\<lparr>se_review_flag := True\<rparr> else e)
       (iw_events w),
     iw_effects := iw_effects w @ filter callsOut effs\<rparr>"

datatype ingest_error = RawEventNotFound | ReducerFailed reducer_error

section \<open>Processing one raw event\<close>

definition processRawEvent ::
  "(string \<Rightarrow> int option) \<Rightarrow> (string \<Rightarrow> string) \<Rightarrow> (StoredEvent list \<Rightarrow> string)
     \<Rightarrow> (nat \<Rightarrow> ShipmentMovementRow \<Rightarrow> ShipmentMovementRow)
     \<Rightarrow> string \<Rightarrow> IngestWorld \<Rightarrow> (ingest_error + ProcessResult) \<times> IngestWorld" where
  "processRawEvent legacyParse sha256 freshId env rawEventId w =
     (case loadRaw w rawEventId of
        None \<Rightarrow> (Inl RawEventNotFound, w)
      | Some raw \<Rightarrow>
          if raw_parse_result raw = SIGNATURE_FAILURE
          then (Inr (resultOf raw SIGNATURE_FAILURE None None None False False), w)
          else (case extractTrackEvent (raw_payload raw) of
            None \<Rightarrow> (Inr (resultOf raw AWB_QUARANTINED None None None False False),
                     setParseResult raw AWB_QUARANTINED None w)
          | Some extracted \<Rightarrow>
              (let awbNormalized = normalizeAwb (te_awb extracted);
                   occurredAt = (case normalizeOccurredAt legacyParse (te_occurredAt extracted) of
                       Some t \<Rightarrow> t | None \<Rightarrow> toISOString (raw_received_at raw))
               in case resolveShipment w (raw_shop_id raw) awbNormalized of
                    None \<Rightarrow> (Inr (resultOf raw AWB_QUARANTINED None None None False False),
                             setParseResult raw AWB_QUARANTINED (Some awbNormalized) w)
                  | Some shipment \<Rightarrow>
                      (let shipmentId = sh_shipment_id shipment;
                           carrierStatus = mapStatus w raw (sh_courier_account_id shipment) (te_rawStatus extracted);
                           dedupeKey = eventDedupeKey legacyParse sha256 shipmentId
                             (extracted\<lparr>te_occurredAt := occurredAt\<rparr>)
                       in if isDuplicate w shipmentId dedupeKey then
                            (Inr (resultOf raw DUPLICATE (Some shipmentId) None carrierStatus False False),
                             setParseResult raw DUPLICATE (Some awbNormalized) w)
                          else
                            (let eventId = freshId (iw_events w);
                                 stored = \<lparr>se_event_id = eventId, se_shop_id = raw_shop_id raw,
                                   se_shipment_id = shipmentId, se_carrier_event_status = carrierStatus,
                                   se_raw_status = te_rawStatus extracted, se_occurred_at = occurredAt,
                                   se_location_text = te_locationText extracted,
                                   se_reason_text = te_reasonText extracted,
                                   se_provider_event_id = te_providerEventId extracted,
                                   se_dedupe_key = dedupeKey, se_review_flag = (carrierStatus = None)\<rparr>;
                                 w1 = w\<lparr>iw_events := iw_events w @ [stored]\<rparr>
                             in case carrierStatus of
                                  None \<Rightarrow>
                                    (Inr (resultOf raw UNMAPPED_STATUS (Some shipmentId) (Some eventId) None False True),
                                     touchAccountHealth raw (setParseResult raw UNMAPPED_STATUS (Some awbNormalized) w1))
                                | Some status \<Rightarrow>
                                    (let (out, row', effs) = applyEvent env \<lparr>tv_eventId = eventId, tv_status = status,
                                           tv_occurredAt = occurredAt\<rparr> (iw_rows w1 shipmentId);
                                         w2 = applyEffects effs (w1\<lparr>iw_rows := (iw_rows w1)(shipmentId := row')\<rparr>)
                                     in case out of
                                          Inl e \<Rightarrow> (Inl (ReducerFailed e), w2)
                                        | Inr outcome \<Rightarrow>
                                            (Inr (resultOf raw ACCEPTED (Some shipmentId) (Some eventId) (Some status)
                                               (ro_stateChanged outcome) (ro_reviewFlag outcome)),
                                             touchAccountHealth raw
                                               (setParseResult raw ACCEPTED (Some awbNormalized) w2))))))))"

end
