(* ===== verification/Ingest_Laws.thy ===== *)
theory Ingest_Laws
  imports Ingest
begin

text \<open>
  Replaying a raw event (ADD-18): the second processing never moves anything, also when the
  first one failed between the insert of the event and the reducer's update.
\<close>

lemma setParse_fields [simp]:
  "iw_shipments (setParseResult raw p a w) = iw_shipments w"
  "iw_events (setParseResult raw p a w) = iw_events w"
  "iw_rows (setParseResult raw p a w) = iw_rows w"
  "iw_effects (setParseResult raw p a w) = iw_effects w"
  by (simp_all add: setParseResult_def)

lemma touch_fields [simp]:
  "iw_shipments (touchAccountHealth raw w) = iw_shipments w"
  "iw_events (touchAccountHealth raw w) = iw_events w"
  "iw_rows (touchAccountHealth raw w) = iw_rows w"
  "iw_effects (touchAccountHealth raw w) = iw_effects w"
  "iw_raws (touchAccountHealth raw w) = iw_raws w"
  by (simp_all add: touchAccountHealth_def split: option.splits list.splits)

lemma applyEffects_fields [simp]:
  "iw_shipments (applyEffects effs w) = iw_shipments w"
  "iw_rows (applyEffects effs w) = iw_rows w"
  "iw_raws (applyEffects effs w) = iw_raws w"
  by (simp_all add: applyEffects_def)

lemma list_ex_map_keep: "(\<And>x. P (f x) = P x) \<Longrightarrow> list_ex P (map f xs) = list_ex P xs"
  by (induction xs) auto

lemma isDuplicate_fields [simp]:
  "isDuplicate (setParseResult raw p a w) s k = isDuplicate w s k"
  "isDuplicate (touchAccountHealth raw w) s k = isDuplicate w s k"
  "isDuplicate (applyEffects effs w) s k = isDuplicate w s k"
  "isDuplicate (w\<lparr>iw_rows := f\<rparr>) s k = isDuplicate w s k"
  by (simp_all add: isDuplicate_def applyEffects_def setParseResult_def list_ex_map_keep)

lemma isDuplicate_snoc: "isDuplicate (w\<lparr>iw_events := es @ [e]\<rparr>) (se_shipment_id e) (se_dedupe_key e)"
  by (simp add: isDuplicate_def)

lemma resolve_cong: "iw_shipments w = iw_shipments w' \<Longrightarrow> resolveShipment w = resolveShipment w'"
  by (simp add: resolveShipment_def fun_eq_iff)

text \<open>What processing reads of a raw row is never changed by it.\<close>

definition sameRaw :: "RawEventRow \<Rightarrow> RawEventRow \<Rightarrow> bool" where
  "sameRaw r r' \<longleftrightarrow> raw_event_id r = raw_event_id r' \<and> raw_shop_id r = raw_shop_id r'
     \<and> raw_courier_account_id r = raw_courier_account_id r' \<and> raw_payload r = raw_payload r'
     \<and> raw_received_at r = raw_received_at r'"

lemma find_map_keep:
  "(\<And>x. P (f x) = P x) \<Longrightarrow> List.find P (map f xs) = map_option f (List.find P xs)"
  by (induction xs) auto

lemma loadRaw_id: "loadRaw w i = Some raw \<Longrightarrow> raw_event_id raw = i"
  by (auto simp: loadRaw_def find_Some_iff)

lemma loadRaw_setParse:
  assumes "loadRaw w i = Some raw"
  shows "\<exists>r. loadRaw (setParseResult raw p a w) i = Some r \<and> sameRaw raw r \<and> raw_parse_result r = p"
  using assms loadRaw_id [OF assms]
  by (auto simp: loadRaw_def setParseResult_def find_map_keep sameRaw_def)

lemma loadRaw_cong: "iw_raws w = iw_raws w' \<Longrightarrow> loadRaw w = loadRaw w'"
  by (simp add: loadRaw_def fun_eq_iff)

text \<open>Where a raw row leads: its shipment and dedupe key, if it leads to one.\<close>

definition routeOf ::
  "(string \<Rightarrow> int option) \<Rightarrow> (string \<Rightarrow> string) \<Rightarrow> IngestWorld \<Rightarrow> RawEventRow \<Rightarrow> (string \<times> string) option" where
  "routeOf legacy sha w raw =
     (case extractTrackEvent (raw_payload raw) of None \<Rightarrow> None
      | Some ex \<Rightarrow> (case resolveShipment w (raw_shop_id raw) (normalizeAwb (te_awb ex)) of None \<Rightarrow> None
          | Some sh \<Rightarrow> Some (sh_shipment_id sh, eventDedupeKey legacy sha (sh_shipment_id sh)
              (ex\<lparr>te_occurredAt := (case normalizeOccurredAt legacy (te_occurredAt ex) of
                 Some t \<Rightarrow> t | None \<Rightarrow> toISOString (raw_received_at raw))\<rparr>))))"

lemma routeOf_same: "sameRaw r r' \<Longrightarrow> iw_shipments w = iw_shipments w' \<Longrightarrow> routeOf legacy sha w r = routeOf legacy sha w' r'"
  by (simp add: routeOf_def sameRaw_def resolve_cong [of w w'] split: option.split)

lemma process_quarantined:
  assumes "loadRaw w i = Some raw" and "raw_parse_result raw \<noteq> SIGNATURE_FAILURE" and "routeOf legacy sha w raw = None"
  shows "\<exists>a. processRawEvent legacy sha freshId env i w
    = (Inr (resultOf raw AWB_QUARANTINED None None None False False), setParseResult raw AWB_QUARANTINED a w)"
  using assms by (auto simp: processRawEvent_def routeOf_def Let_def split: option.splits)

lemma process_duplicate:
  assumes "loadRaw w i = Some raw" and "raw_parse_result raw \<noteq> SIGNATURE_FAILURE"
    and "routeOf legacy sha w raw = Some (s, k)" and "isDuplicate w s k"
  shows "\<exists>a st. processRawEvent legacy sha freshId env i w
    = (Inr (resultOf raw DUPLICATE (Some s) None st False False), setParseResult raw DUPLICATE a w)"
  using assms by (auto simp: processRawEvent_def routeOf_def Let_def split: option.splits)

lemma process_new:
  assumes "loadRaw w i = Some raw" and "raw_parse_result raw \<noteq> SIGNATURE_FAILURE"
    and "routeOf legacy sha w raw = Some (s, k)" and "\<not> isDuplicate w s k"
    and "processRawEvent legacy sha freshId env i w = (out, w')"
  shows "isDuplicate w' s k \<and> iw_shipments w' = iw_shipments w
    \<and> (case out of
         Inr r \<Rightarrow> pr_parseResult r \<in> {ACCEPTED, UNMAPPED_STATUS}
           \<and> (\<exists>w0 a. loadRaw w' = loadRaw (setParseResult raw (pr_parseResult r) a w0) \<and> loadRaw w0 = loadRaw w)
       | Inl e \<Rightarrow> loadRaw w' = loadRaw w)"
proof -
  obtain ex sh where ex: "extractTrackEvent (raw_payload raw) = Some ex"
    and sh: "resolveShipment w (raw_shop_id raw) (normalizeAwb (te_awb ex)) = Some sh"
    and s: "s = sh_shipment_id sh"
    and k: "k = eventDedupeKey legacy sha (sh_shipment_id sh)
              (ex\<lparr>te_occurredAt := (case normalizeOccurredAt legacy (te_occurredAt ex) of
                 Some t \<Rightarrow> t | None \<Rightarrow> toISOString (raw_received_at raw))\<rparr>)"
    using assms(3) by (auto simp: routeOf_def split: option.splits)
  let ?at = "case normalizeOccurredAt legacy (te_occurredAt ex) of Some t \<Rightarrow> t | None \<Rightarrow> toISOString (raw_received_at raw)"
  let ?status = "mapStatus w raw (sh_courier_account_id sh) (te_rawStatus ex)"
  let ?stored = "\<lparr>se_event_id = freshId (iw_events w), se_shop_id = raw_shop_id raw,
                   se_shipment_id = s, se_carrier_event_status = ?status,
                   se_raw_status = te_rawStatus ex, se_occurred_at = ?at,
                   se_location_text = te_locationText ex, se_reason_text = te_reasonText ex,
                   se_provider_event_id = te_providerEventId ex,
                   se_dedupe_key = k, se_review_flag = (?status = None)\<rparr>"
  let ?w1 = "w\<lparr>iw_events := iw_events w @ [?stored]\<rparr>"
  have dup: "isDuplicate ?w1 s k" using isDuplicate_snoc [where w = w and es = "iw_events w" and e = ?stored] by simp
  have k': "eventDedupeKey legacy sha s (ex\<lparr>te_occurredAt := ?at\<rparr>) = k" by (simp add: k s)
  note run = assms(5) [unfolded processRawEvent_def assms(1) option.case Let_def ex sh s [symmetric]
      if_not_P [OF assms(2)] k' if_not_P [OF assms(4)]]
  show ?thesis
  proof (cases ?status)
    case None
    with run dup show ?thesis
      by (auto simp: resultOf_def intro!: exI [of _ ?w1] exI [of _ "Some (normalizeAwb (te_awb ex))"] loadRaw_cong)
  next
    case (Some st)
    obtain ro row' effs where ap: "applyEvent env \<lparr>tv_eventId = freshId (iw_events w), tv_status = st,
        tv_occurredAt = ?at\<rparr> (iw_rows w s) = (ro, row', effs)"
      by (cases "applyEvent env \<lparr>tv_eventId = freshId (iw_events w), tv_status = st,
        tv_occurredAt = ?at\<rparr> (iw_rows w s)")
    let ?w2 = "applyEffects effs (?w1\<lparr>iw_rows := (iw_rows ?w1)(s := row')\<rparr>)"
    have d2: "isDuplicate ?w2 s k" using dup by simp
    have l2: "loadRaw ?w2 = loadRaw w" by (rule loadRaw_cong) simp
    show ?thesis
    proof (cases ro)
      case (Inl e)
      with run Some ap d2 l2 show ?thesis by auto
    next
      case (Inr o')
      with run Some ap d2 l2 show ?thesis
        by (auto simp: resultOf_def intro!: exI [of _ ?w2] exI [of _ "Some (normalizeAwb (te_awb ex))"] loadRaw_cong)
    qed
  qed
qed

lemma process_signature:
  "loadRaw w i = Some raw \<Longrightarrow> raw_parse_result raw = SIGNATURE_FAILURE \<Longrightarrow>
   processRawEvent legacy sha freshId env i w
     = (Inr (resultOf raw SIGNATURE_FAILURE None None None False False), w)"
  by (simp add: processRawEvent_def)

lemma sameRaw_refl [simp]: "sameRaw r r"
  by (simp add: sameRaw_def)

text \<open>
  C8: ADD-18, replay is a no-op.  Whatever the first processing of a stored raw event did, processing
  it again inserts no event, leaves every shipment row as it is and calls nothing out; it
  reports DUPLICATE unless the event was a signature failure or quarantined, which it then
  is again.  This includes a first processing that failed in the reducer: the event it had
  inserted makes the retry a duplicate, so its transition is never applied.
\<close>

theorem replay_is_noop:
  assumes "loadRaw w i = Some raw"
    and "processRawEvent legacy sha freshId env i w = (out1, w1)"
    and "processRawEvent legacy sha freshId' env' i w1 = (out2, w2)"
  shows "iw_events w2 = iw_events w1 \<and> iw_rows w2 = iw_rows w1 \<and> iw_effects w2 = iw_effects w1
    \<and> (\<exists>r2. out2 = Inr r2 \<and> \<not> pr_stateChanged r2 \<and> pr_parseResult r2 =
        (case out1 of Inl e \<Rightarrow> DUPLICATE
         | Inr r1 \<Rightarrow> if pr_parseResult r1 \<in> {SIGNATURE_FAILURE, AWB_QUARANTINED}
                    then pr_parseResult r1 else DUPLICATE))"
proof (cases "raw_parse_result raw = SIGNATURE_FAILURE")
  case True
  note sig = process_signature [OF assms(1) True, of legacy sha]
  have "w1 = w" "out1 = Inr (resultOf raw SIGNATURE_FAILURE None None None False False)"
    using assms(2) sig by simp_all
  then show ?thesis using assms(3) sig by (auto simp: resultOf_def)
next
  case ns: False
  show ?thesis
  proof (cases "routeOf legacy sha w raw")
    case None
    from process_quarantined [OF assms(1) ns None, of freshId env] assms(2) obtain a where
      w1: "w1 = setParseResult raw AWB_QUARANTINED a w"
      and out1: "out1 = Inr (resultOf raw AWB_QUARANTINED None None None False False)" by auto
    obtain r where r: "loadRaw w1 i = Some r" "sameRaw raw r" "raw_parse_result r = AWB_QUARANTINED"
      unfolding w1 using loadRaw_setParse [OF assms(1)] by blast
    have route: "routeOf legacy sha w1 r = None" using routeOf_same [OF r(2), of w w1] None w1 by simp
    have "raw_parse_result r \<noteq> SIGNATURE_FAILURE" using r(3) by simp
    from process_quarantined [OF r(1) this route, of freshId' env'] assms(3) obtain a' where
      "w2 = setParseResult r AWB_QUARANTINED a' w1"
      "out2 = Inr (resultOf r AWB_QUARANTINED None None None False False)" by auto
    then show ?thesis by (simp add: out1 resultOf_def)
  next
    case (Some sk)
    obtain s k where sk: "sk = (s, k)" by (cases sk)
    show ?thesis
    proof (cases "isDuplicate w s k")
      case True
      from process_duplicate [OF assms(1) ns Some [unfolded sk] True, of freshId env] assms(2) obtain a st where
        w1: "w1 = setParseResult raw DUPLICATE a w"
        and out1: "out1 = Inr (resultOf raw DUPLICATE (Some s) None st False False)" by auto
      obtain r where r: "loadRaw w1 i = Some r" "sameRaw raw r" "raw_parse_result r = DUPLICATE"
        unfolding w1 using loadRaw_setParse [OF assms(1)] by blast
      have route: "routeOf legacy sha w1 r = Some (s, k)" using routeOf_same [OF r(2), of w w1] Some w1 sk by simp
      have dup: "isDuplicate w1 s k" and nsr: "raw_parse_result r \<noteq> SIGNATURE_FAILURE"
        using True w1 r(3) by simp_all
      from process_duplicate [OF r(1) nsr route dup, of freshId' env'] assms(3) obtain a' st' where
        "w2 = setParseResult r DUPLICATE a' w1"
        "out2 = Inr (resultOf r DUPLICATE (Some s) None st' False False)" by auto
      then show ?thesis by (simp add: out1 resultOf_def)
    next
      case False
      note new = process_new [OF assms(1) ns Some [unfolded sk] False assms(2)]
      obtain r where r: "loadRaw w1 i = Some r" "sameRaw raw r" "raw_parse_result r \<noteq> SIGNATURE_FAILURE"
      proof (cases out1)
        case (Inl e)
        with new assms(1) ns that [of raw] show thesis by simp
      next
        case (Inr q)
        with new obtain w0 a where "loadRaw w1 = loadRaw (setParseResult raw (pr_parseResult q) a w0)"
          "loadRaw w0 = loadRaw w" "pr_parseResult q \<in> {ACCEPTED, UNMAPPED_STATUS}" by auto
        with loadRaw_setParse [of w0 i raw "pr_parseResult q" a] assms(1) that show thesis by auto
      qed
      have route: "routeOf legacy sha w1 r = Some (s, k)"
        using routeOf_same [OF r(2), of w w1] Some new sk by simp
      have dup: "isDuplicate w1 s k" using new by blast
      from process_duplicate [OF r(1,3) route dup, of freshId' env'] assms(3) obtain a' st' where
        "w2 = setParseResult r DUPLICATE a' w1"
        "out2 = Inr (resultOf r DUPLICATE (Some s) None st' False False)" by auto
      then show ?thesis using new by (auto simp: resultOf_def split: sum.splits)
    qed
  qed
qed

definition exampleRaw :: RawEventRow where
  "exampleRaw = \<lparr>raw_event_id = ''r1'', raw_shop_id = ''shop'', raw_courier_account_id = Some ''acc'',
     raw_awb_normalized = None,
     raw_payload = JObj [(''awb'', JStr ''ab-1 2''), (''status'', JStr ''Delivered''), (''event_id'', JNum 7)],
     raw_received_at = 0, raw_parse_result = PENDING\<rparr>"

definition exampleWorld :: IngestWorld where
  "exampleWorld = \<lparr>iw_raws = [exampleRaw],
     iw_shipments = [\<lparr>sh_shipment_id = ''s1'', sh_shop_id = ''shop'', sh_awb_normalized = Some ''AB12'',
        sh_courier_account_id = Some ''acc''\<rparr>],
     iw_statusMap = (\<lambda>(a, st). if a = ''acc'' \<and> st = ''delivered'' then Some EV_DELIVERED else None),
     iw_events = [], iw_rows = (\<lambda>s. if s = ''s1'' then Some freshRow else None),
     iw_accounts = [], iw_effects = []\<rparr>"

text \<open>A writer that commits in every gap: the reducer runs out of attempts.\<close>

definition busy :: "nat \<Rightarrow> ShipmentMovementRow \<Rightarrow> ShipmentMovementRow" where
  "busy k r = r\<lparr>sm_version := sm_version r + 1\<rparr>"

lemma wfEnv_busy: "wfEnv busy"
proof -
  have "shipment_step r (busy k r)" for k r
    using shipment_step.custody [of r "sm_custody_state r"] by (simp add: busy_def)
  then show ?thesis by (auto simp: wfEnv_def intro: r_into_rtranclp)
qed

lemma busy_conflict: "fst (processRawEvent (\<lambda>_. None) id (\<lambda>_. ''e1'') busy ''r1'' exampleWorld)
    = Inl (ReducerFailed MovementConflict)"
proof -
  have route: "extractTrackEvent (raw_payload exampleRaw) = Some \<lparr>te_awb = ''ab-1 2'', te_rawStatus = ''Delivered'',
      te_occurredAt = [], te_locationText = None, te_reasonText = None, te_providerEventId = Some ''7''\<rparr>"
    by (simp add: extractTrackEvent_def exampleRaw_def awbKeys_def statusKeys_def occurredKeys_def
        eventIdKeys_def locationKeys_def reasonKeys_def text_eval)
  have awb: "normalizeAwb ''ab-1 2'' = ''AB12''" by code_simp
  have st: "foldRawStatus ''Delivered'' = ''delivered''" by code_simp
  have red: "fst (applyEvent busy \<lparr>tv_eventId = e, tv_status = EV_DELIVERED, tv_occurredAt = t\<rparr> (Some freshRow))
      = Inl MovementConflict" for e t
    by (simp add: applyEvent_def maxVersionRetries_def numeral_eq_Suc Let_def decideTransition_def freshRow_def
        eventToMovement_def terminalMovementStates_def conditionalUpdate_def busy_def)
  have load: "loadRaw exampleWorld ''r1'' = Some exampleRaw"
    by (simp add: loadRaw_def exampleWorld_def exampleRaw_def)
  have res: "resolveShipment exampleWorld ''shop'' ''AB12'' = Some \<lparr>sh_shipment_id = ''s1'', sh_shop_id = ''shop'',
      sh_awb_normalized = Some ''AB12'', sh_courier_account_id = Some ''acc''\<rparr>"
    by (simp add: resolveShipment_def exampleWorld_def)
  have ms: "mapStatus exampleWorld exampleRaw a ''Delivered'' = Some EV_DELIVERED" for a
    by (simp add: mapStatus_def exampleRaw_def exampleWorld_def st)
  have nodup: "\<not> isDuplicate exampleWorld s k" for s k by (simp add: isDuplicate_def exampleWorld_def)
  have pr: "raw_parse_result exampleRaw = PENDING" "raw_shop_id exampleRaw = ''shop''"
    by (simp_all add: exampleRaw_def)
  have row: "iw_rows exampleWorld ''s1'' = Some freshRow" by (simp add: exampleWorld_def)
  show ?thesis
    using red by (simp add: processRawEvent_def load route pr awb res ms nodup Let_def row case_prod_unfold
        split: sum.split)
qed

lemma replay_is_noop_witness:
  "\<exists>w1 w2 r2. processRawEvent (\<lambda>_. None) id (\<lambda>_. ''e1'') busy ''r1'' exampleWorld
      = (Inl (ReducerFailed MovementConflict), w1)
    \<and> processRawEvent (\<lambda>_. None) id (\<lambda>_. ''e2'') (\<lambda>_ r. r) ''r1'' w1 = (Inr r2, w2)
    \<and> pr_parseResult r2 = DUPLICATE \<and> iw_rows w2 = iw_rows w1"
proof -
  have load: "loadRaw exampleWorld ''r1'' = Some exampleRaw"
    by (simp add: loadRaw_def exampleWorld_def exampleRaw_def)
  obtain w1 where w1: "processRawEvent (\<lambda>_. None) id (\<lambda>_. ''e1'') busy ''r1'' exampleWorld
      = (Inl (ReducerFailed MovementConflict), w1)"
    using busy_conflict by (metis prod.collapse)
  obtain out2 w2 where w2: "processRawEvent (\<lambda>_. None) id (\<lambda>_. ''e2'') (\<lambda>_ r. r) ''r1'' w1 = (out2, w2)"
    by (cases "processRawEvent (\<lambda>_. None) id (\<lambda>_. ''e2'') (\<lambda>_ r. r) ''r1'' w1")
  from replay_is_noop [OF load w1 w2] w1 w2 show ?thesis by auto
qed

end
