(* ===== verification/NdrCase.thy ===== *)
theory NdrCase
  imports Movement_Laws
begin

text \<open>
  \<open>src/modules/ndr/ndr-case.service.ts\<close> and the reason folding of \<open>ndr.types.ts\<close>: the case of
  a failed delivery, machine F.  The case table is a list in order of creation; \<open>env k\<close> is
  what other writers commit before the k-th update of the operation reaches the table.
  Instants are milliseconds.
\<close>

section \<open>Reasons\<close>

datatype NdrReason = CUSTOMER_REFUSED | UNCONTACTABLE | ADDRESS_ISSUE | COD_NOT_READY | OTHER

definition is_word_char :: "char \<Rightarrow> bool" where
  "is_word_char c \<longleftrightarrow> is_digit c \<or> c = CHR ''_''
     \<or> (let n = (of_char c :: nat) in (65 \<le> n \<and> n \<le> 90) \<or> (97 \<le> n \<and> n \<le> 122))"

text \<open>The regular expression \<open>\bw\b\<close> for a word \<open>w\<close>; \<open>inside\<close> says the previous character is a word one.\<close>

fun has_word :: "string \<Rightarrow> bool \<Rightarrow> string \<Rightarrow> bool" where
  "has_word w inside [] = False"
| "has_word w inside (c # s) =
     ((\<not> inside \<and> starts_with w (c # s)
        \<and> (case drop (length w) (c # s) of [] \<Rightarrow> True | d # _ \<Rightarrow> \<not> is_word_char d))
      \<or> has_word w (is_word_char c) s)"

fun has_pin_code :: "string \<Rightarrow> bool" where
  "has_pin_code [] = False"
| "has_pin_code (c # s) =
     ((starts_with ''pin'' (c # s)
        \<and> (starts_with ''code'' (drop 2 s)
           \<or> (case drop 2 s of d # t \<Rightarrow> is_ws d \<and> starts_with ''code'' t | [] \<Rightarrow> False)))
      \<or> has_pin_code s)"

definition mentions :: "string list \<Rightarrow> string \<Rightarrow> bool" where
  "mentions needles t \<longleftrightarrow> list_ex (\<lambda>n. includes_str n t) needles"

definition normalizeNdrReason :: "string option \<Rightarrow> NdrReason" where
  "normalizeNdrReason reasonText =
     (case reasonText of
        None \<Rightarrow> OTHER
      | Some text \<Rightarrow>
          (let t = to_lower text in
           if text = [] then OTHER
           else if has_word ''cod'' False t \<or> mentions [''cash on delivery'', ''payment not ready'',
               ''amount not ready'', ''cash not ready'', ''no cash''] t then COD_NOT_READY
           else if mentions [''refus'', ''declin'', ''not accept'', ''reject''] t then CUSTOMER_REFUSED
           else if mentions [''address'', ''incomplete'', ''landmark'', ''wrong location'', ''not traceable'',
               ''house'', ''door'', ''flat'', ''locate''] t \<or> has_pin_code t then ADDRESS_ISSUE
           else if mentions [''uncontact'', ''not reachable'', ''no response'', ''no answer'', ''unavailable'',
               ''switched off'', ''not picking'', ''phone'', ''call''] t then UNCONTACTABLE
           else OTHER))"

section \<open>Cases\<close>

datatype NdrCaseState = OPEN | ACTION_SUBMITTED | REATTEMPT_SCHEDULED | RTO_REQUESTED | CLOSED

record NdrCaseRow =
  nc_ndr_case_id :: string
  nc_shop_id :: string
  nc_shipment_id :: string
  nc_attempt_count :: int
  nc_reason_code :: NdrReason
  nc_first_ndr_at :: int
  nc_last_ndr_at :: int
  nc_state :: NdrCaseState
  nc_auto_rto_warn_at :: int
  nc_version :: int

datatype NdrOpenKind = OPENED | ATTEMPT_RECORDED | REOPENED | IGNORED

datatype ndr_error = NdrCaseNotFound | NotListed NdrCaseState NdrCaseState | NdrVersionConflict

definition autoRtoWarnHours :: int where
  "autoRtoWarnHours = 48"

definition ndrMaxVersionRetries :: nat where
  "ndrMaxVersionRetries = 3"

definition fromStates :: "NdrCaseState \<Rightarrow> NdrCaseState list" where
  "fromStates to = (case to of
      OPEN \<Rightarrow> [ACTION_SUBMITTED, REATTEMPT_SCHEDULED]
    | ACTION_SUBMITTED \<Rightarrow> [OPEN]
    | REATTEMPT_SCHEDULED \<Rightarrow> [ACTION_SUBMITTED]
    | RTO_REQUESTED \<Rightarrow> [ACTION_SUBMITTED]
    | CLOSED \<Rightarrow> [OPEN, ACTION_SUBMITTED, REATTEMPT_SCHEDULED, RTO_REQUESTED])"

type_synonym case_table = "NdrCaseRow list"

definition getCase :: "case_table \<Rightarrow> string \<Rightarrow> string \<Rightarrow> NdrCaseRow option" where
  "getCase db shopId caseId = List.find (\<lambda>c. nc_shop_id c = shopId \<and> nc_ndr_case_id c = caseId) db"

definition findOpenCase :: "case_table \<Rightarrow> string \<Rightarrow> string \<Rightarrow> NdrCaseRow option" where
  "findOpenCase db shopId shipmentId =
     List.find (\<lambda>c. nc_shop_id c = shopId \<and> nc_shipment_id c = shipmentId \<and> nc_state c \<noteq> CLOSED) (rev db)"

definition findLatestCase :: "case_table \<Rightarrow> string \<Rightarrow> string \<Rightarrow> NdrCaseRow option" where
  "findLatestCase db shopId shipmentId =
     List.find (\<lambda>c. nc_shop_id c = shopId \<and> nc_shipment_id c = shipmentId) (rev db)"

text \<open>\<open>UPDATE ndr_case SET ... WHERE shop_id = $1 AND ndr_case_id = $2 AND version = $n RETURNING *\<close>.\<close>

definition updateCase ::
  "case_table \<Rightarrow> NdrCaseRow \<Rightarrow> (NdrCaseRow \<Rightarrow> NdrCaseRow) \<Rightarrow> case_table \<times> NdrCaseRow option" where
  "updateCase db c f =
     (let hit = (\<lambda>r. nc_shop_id r = nc_shop_id c \<and> nc_ndr_case_id r = nc_ndr_case_id c
                   \<and> nc_version r = nc_version c)
      in (map (\<lambda>r. if hit r then f r else r) db, map_option f (List.find hit db)))"

definition moveTo :: "NdrCaseState \<Rightarrow> (NdrCaseRow \<Rightarrow> NdrCaseRow) \<Rightarrow> NdrCaseRow \<Rightarrow> NdrCaseRow" where
  "moveTo to extra r = extra (r\<lparr>nc_state := to, nc_version := nc_version r + 1\<rparr>)"

fun transitionLoop ::
  "(nat \<Rightarrow> case_table \<Rightarrow> case_table) \<Rightarrow> NdrCaseState \<Rightarrow> (NdrCaseRow \<Rightarrow> NdrCaseRow) \<Rightarrow> NdrCaseRow
     \<Rightarrow> nat \<Rightarrow> nat \<Rightarrow> NdrCaseRow \<Rightarrow> case_table \<Rightarrow> (ndr_error + NdrCaseRow) \<times> case_table" where
  "transitionLoop env to extra caseRow 0 k current db = (Inl NdrVersionConflict, db)"
| "transitionLoop env to extra caseRow (Suc left) k current db =
     (if nc_state current = to then (Inr current, db)
      else if nc_state current \<notin> set (filter (\<lambda>s. s \<noteq> to) (fromStates to))
      then (Inl (NotListed (nc_state current) to), db)
      else (let (db', updated) = updateCase (env k db) current (moveTo to extra) in
        case updated of
          Some next_row \<Rightarrow> (Inr next_row, db')
        | None \<Rightarrow> (case getCase db' (nc_shop_id caseRow) (nc_ndr_case_id caseRow) of
              None \<Rightarrow> (Inl NdrCaseNotFound, db')
            | Some c \<Rightarrow> transitionLoop env to extra caseRow left (Suc k) c db')))"

definition ndrTransition ::
  "(nat \<Rightarrow> case_table \<Rightarrow> case_table) \<Rightarrow> NdrCaseState \<Rightarrow> (NdrCaseRow \<Rightarrow> NdrCaseRow) \<Rightarrow> NdrCaseRow
     \<Rightarrow> case_table \<Rightarrow> (ndr_error + NdrCaseRow) \<times> case_table" where
  "ndrTransition env to extra caseRow db =
     transitionLoop env to extra caseRow ndrMaxVersionRetries 0 caseRow db"

text \<open>The columns of one more attempt.\<close>

definition countAttempt :: "int \<Rightarrow> NdrReason \<Rightarrow> NdrCaseRow \<Rightarrow> NdrCaseRow" where
  "countAttempt occurredAt why r = r\<lparr>nc_attempt_count := nc_attempt_count r + 1,
     nc_last_ndr_at := occurredAt, nc_reason_code := why\<rparr>"

definition handleUndeliveredAttempt ::
  "(nat \<Rightarrow> case_table \<Rightarrow> case_table) \<Rightarrow> (case_table \<Rightarrow> string) \<Rightarrow> string \<Rightarrow> string \<Rightarrow> int \<Rightarrow> string option
     \<Rightarrow> case_table \<Rightarrow> (ndr_error + NdrOpenKind \<times> NdrCaseRow) \<times> case_table" where
  "handleUndeliveredAttempt env freshId shopId shipmentId occurredAt latestReason db =
     (let why = normalizeNdrReason latestReason in
      case findLatestCase db shopId shipmentId of
        None \<Rightarrow>
          (let db' = env 0 db;
               c = \<lparr>nc_ndr_case_id = freshId db', nc_shop_id = shopId, nc_shipment_id = shipmentId,
                 nc_attempt_count = 1, nc_reason_code = why, nc_first_ndr_at = occurredAt,
                 nc_last_ndr_at = occurredAt, nc_state = OPEN,
                 nc_auto_rto_warn_at = occurredAt + autoRtoWarnHours * 3600000, nc_version = 1\<rparr>
           in (Inr (OPENED, c), db' @ [c]))
      | Some existing \<Rightarrow>
          if nc_state existing = CLOSED then (Inr (IGNORED, existing), db)
          else if nc_state existing = REATTEMPT_SCHEDULED then
            (let (out, db') = ndrTransition env OPEN (countAttempt occurredAt why) existing db
             in (case out of Inl e \<Rightarrow> Inl e | Inr c \<Rightarrow> Inr (REOPENED, c), db'))
          else
            (let (db', updated) = updateCase (env 0 db) existing
                   (\<lambda>r. (countAttempt occurredAt why r)\<lparr>nc_version := nc_version r + 1\<rparr>)
             in case updated of
                  Some c \<Rightarrow> (Inr (ATTEMPT_RECORDED, c), db')
                | None \<Rightarrow> (case getCase db' shopId (nc_ndr_case_id existing) of
                      None \<Rightarrow> (Inl NdrCaseNotFound, db')
                    | Some c \<Rightarrow> (Inr (ATTEMPT_RECORDED, c), db'))))"

definition closeOnTerminalMovement ::
  "(nat \<Rightarrow> case_table \<Rightarrow> case_table) \<Rightarrow> string \<Rightarrow> string \<Rightarrow> MovementState \<Rightarrow> case_table
     \<Rightarrow> (ndr_error + NdrCaseRow option) \<times> case_table" where
  "closeOnTerminalMovement env shopId shipmentId movementState db =
     (if movementState \<notin> set terminalMovementStates then (Inr None, db)
      else (case findOpenCase db shopId shipmentId of
          None \<Rightarrow> (Inr None, db)
        | Some existing \<Rightarrow>
            (let (out, db') = ndrTransition env CLOSED id existing db
             in (case out of Inl e \<Rightarrow> Inl e | Inr c \<Rightarrow> Inr (Some c), db'))))"

definition markActionSubmitted where "markActionSubmitted env = ndrTransition env ACTION_SUBMITTED id"
definition markReattemptScheduled where "markReattemptScheduled env = ndrTransition env REATTEMPT_SCHEDULED id"
definition markRtoRequested where "markRtoRequested env = ndrTransition env RTO_REQUESTED id"
definition returnToOpenOnProviderRejection where "returnToOpenOnProviderRejection env = ndrTransition env OPEN id"

end
