(* ===== verification/Ndr_Laws.thy ===== *)
theory Ndr_Laws
  imports NdrCase
begin

text \<open>
  Machine F as a step relation and the operations of the case service against it, with other
  writers interleaved; and what the attempt counter guarantees.
\<close>

section \<open>Machine F\<close>

inductive ndr_step :: "NdrCaseRow \<Rightarrow> NdrCaseRow \<Rightarrow> bool" where
  move: "nc_state r \<in> set (fromStates to) \<Longrightarrow> ndr_step r (moveTo to id r)"
| reopen: "nc_state r \<in> set (fromStates OPEN) \<Longrightarrow> ndr_step r (moveTo OPEN (countAttempt at why) r)"
| attempt: "nc_state r \<in> {OPEN, ACTION_SUBMITTED, RTO_REQUESTED} \<Longrightarrow>
    ndr_step r ((countAttempt at why r)\<lparr>nc_version := nc_version r + 1\<rparr>)"

inductive_cases ndr_stepE: "ndr_step r r'"

lemma moveTo_fields [simp]:
  "nc_state (moveTo to id r) = to" "nc_version (moveTo to id r) = nc_version r + 1"
  "nc_state (moveTo to (countAttempt at why) r) = to"
  "nc_version (moveTo to (countAttempt at why) r) = nc_version r + 1"
  "nc_attempt_count (moveTo to (countAttempt at why) r) = nc_attempt_count r + 1"
  "nc_attempt_count (moveTo to id r) = nc_attempt_count r"
  by (simp_all add: moveTo_def countAttempt_def)

interpretation ndr: versioned_store ndr_step nc_version
  by unfold_locales (auto elim!: ndr_stepE simp: countAttempt_def)

text \<open>The columns no operation changes.\<close>

definition caseIdentity :: "NdrCaseRow \<Rightarrow> string \<times> string \<times> string \<times> int \<times> int" where
  "caseIdentity r = (nc_ndr_case_id r, nc_shop_id r, nc_shipment_id r, nc_first_ndr_at r, nc_auto_rto_warn_at r)"

lemma ndr_step_identity: "ndr_step r r' \<Longrightarrow> caseIdentity r' = caseIdentity r"
  by (auto elim!: ndr_stepE simp: caseIdentity_def moveTo_def countAttempt_def)

lemma ndr_step_closed: "ndr_step r r' \<Longrightarrow> nc_state r \<noteq> CLOSED"
  by (auto elim!: ndr_stepE simp: fromStates_def split: NdrCaseState.splits)

lemma ndr_step_rto: "ndr_step r r' \<Longrightarrow> nc_state r = RTO_REQUESTED \<Longrightarrow> nc_state r' \<in> {RTO_REQUESTED, CLOSED}"
  by (auto elim!: ndr_stepE simp: countAttempt_def fromStates_def split: NdrCaseState.splits)

lemma ndr_step_count: "ndr_step r r' \<Longrightarrow> nc_attempt_count r' \<in> {nc_attempt_count r, nc_attempt_count r + 1}"
  by (auto elim!: ndr_stepE simp: countAttempt_def)

lemma ndr_steps_version:
  "ndr_step\<^sup>*\<^sup>* r r' \<Longrightarrow> nc_attempt_count r' - nc_attempt_count r \<le> nc_version r' - nc_version r"
proof (induction rule: rtranclp_induct)
  case base
  then show ?case by simp
next
  case (step s t)
  have "nc_version t = nc_version s + 1" using step.hyps(2) by (auto elim!: ndr_stepE simp: countAttempt_def)
  with step ndr_step_count [OF step.hyps(2)] show ?case by auto
qed

text \<open>What a row has become after any number of steps.\<close>

lemma machine_F_row:
  assumes "ndr_step\<^sup>*\<^sup>* r r'"
  shows "(nc_state r = CLOSED \<longrightarrow> r' = r)
    \<and> (nc_state r = RTO_REQUESTED \<longrightarrow> nc_state r' \<in> {RTO_REQUESTED, CLOSED})
    \<and> nc_attempt_count r \<le> nc_attempt_count r' \<and> caseIdentity r' = caseIdentity r"
proof -
  have "nc_state r = CLOSED \<Longrightarrow> r' = r"
    using assms by (cases rule: converse_rtranclpE) (auto dest: ndr_step_closed)
  moreover have "nc_state r = RTO_REQUESTED \<Longrightarrow> nc_state r' \<in> {RTO_REQUESTED, CLOSED}"
    using assms
  proof (induction rule: rtranclp_induct)
    case base
    then show ?case by simp
  next
    case (step s t)
    then show ?case by (auto dest: ndr_step_rto ndr_step_closed)
  qed
  moreover have "nc_attempt_count r \<le> nc_attempt_count r' \<and> caseIdentity r' = caseIdentity r"
    using assms by (induction rule: rtranclp_induct) (fastforce dest: ndr_step_count ndr_step_identity)+
  ultimately show ?thesis by blast
qed

definition exampleCase :: "NdrCaseState \<Rightarrow> NdrCaseRow" where
  "exampleCase st = \<lparr>nc_ndr_case_id = ''c1'', nc_shop_id = ''shop'', nc_shipment_id = ''s1'',
     nc_attempt_count = 1, nc_reason_code = OTHER, nc_first_ndr_at = 0, nc_last_ndr_at = 0,
     nc_state = st, nc_auto_rto_warn_at = 172800000, nc_version = 1\<rparr>"

section \<open>The table under other writers\<close>

text \<open>What other writers may do to the table: move rows along machine F, and add cases.\<close>

definition wfCases :: "case_table \<Rightarrow> bool" where
  "wfCases db \<longleftrightarrow> distinct (map (\<lambda>c. (nc_shop_id c, nc_ndr_case_id c)) db)"

definition evolves :: "case_table \<Rightarrow> case_table \<Rightarrow> bool" where
  "evolves db db' \<longleftrightarrow> (\<exists>old new. db' = old @ new \<and> list_all2 (ndr_step\<^sup>*\<^sup>*) db old)"

definition wfCaseEnv :: "(nat \<Rightarrow> case_table \<Rightarrow> case_table) \<Rightarrow> bool" where
  "wfCaseEnv env \<longleftrightarrow> (\<forall>k db. wfCases db \<longrightarrow> evolves db (env k db) \<and> wfCases (env k db))"

lemma getCase_member: "wfCases db \<Longrightarrow> c \<in> set db \<Longrightarrow> getCase db (nc_shop_id c) (nc_ndr_case_id c) = Some c"
proof (induction db)
  case Nil
  then show ?case by simp
next
  case (Cons x db)
  then show ?case by (cases "c = x") (force simp: getCase_def wfCases_def)+
qed

lemma getCase_Some: "getCase db s i = Some c \<Longrightarrow> c \<in> set db \<and> nc_shop_id c = s \<and> nc_ndr_case_id c = i"
  by (auto simp: getCase_def find_Some_iff)

lemma evolves_member:
  "evolves db db' \<Longrightarrow> c \<in> set db \<Longrightarrow> \<exists>c' \<in> set db'. ndr_step\<^sup>*\<^sup>* c c'"
  by (fastforce simp: evolves_def list_all2_conv_all_nth in_set_conv_nth)

lemma step_key: "ndr_step\<^sup>*\<^sup>* c c' \<Longrightarrow> nc_shop_id c' = nc_shop_id c \<and> nc_ndr_case_id c' = nc_ndr_case_id c"
  by (induction rule: rtranclp_induct) (auto dest!: ndr_step_identity simp: caseIdentity_def)

lemma find_unique:
  "wfCases db \<Longrightarrow> c \<in> set db \<Longrightarrow> List.find (\<lambda>r. nc_shop_id r = nc_shop_id c
     \<and> nc_ndr_case_id r = nc_ndr_case_id c \<and> Q r) db = (if Q c then Some c else None)"
proof (induction db)
  case Nil
  then show ?case by simp
next
  case (Cons x db)
  show ?case
  proof (cases "x = c")
    case True
    with Cons.prems(1) have "\<forall>y \<in> set db. \<not> (nc_shop_id y = nc_shop_id c \<and> nc_ndr_case_id y = nc_ndr_case_id c)"
      by (fastforce simp: wfCases_def image_iff)
    with True show ?thesis by (auto simp: find_None_iff)
  next
    case False
    with Cons.prems have "c \<in> set db" by simp
    with Cons.prems(1) have "\<not> (nc_shop_id x = nc_shop_id c \<and> nc_ndr_case_id x = nc_ndr_case_id c)"
      by (force simp: wfCases_def)
    moreover have "wfCases db" using Cons.prems(1) by (simp add: wfCases_def)
    ultimately show ?thesis using Cons.IH \<open>c \<in> set db\<close> by auto
  qed
qed

text \<open>The conditional update on a row read as \<open>old\<close> when the table now holds \<open>now\<close>.\<close>

lemma updateCase_spec:
  assumes "wfCases db" and "now \<in> set db" and "ndr_step\<^sup>*\<^sup>* old now"
    and f: "\<And>r. nc_shop_id (f r) = nc_shop_id r \<and> nc_ndr_case_id (f r) = nc_ndr_case_id r"
  shows "snd (updateCase db old f) = (if now = old then Some (f old) else None)
    \<and> wfCases (fst (updateCase db old f))
    \<and> getCase (fst (updateCase db old f)) (nc_shop_id old) (nc_ndr_case_id old)
        = Some (if now = old then f old else now)"
proof -
  let ?hit = "\<lambda>r. nc_shop_id r = nc_shop_id old \<and> nc_ndr_case_id r = nc_ndr_case_id old
      \<and> nc_version r = nc_version old"
  let ?g = "\<lambda>r. if ?hit r then f r else r"
  have key: "nc_shop_id now = nc_shop_id old" "nc_ndr_case_id now = nc_ndr_case_id old"
    using step_key [OF assms(3)] by simp_all
  have same: "nc_version now = nc_version old \<longleftrightarrow> now = old"
    using ndr.unchanged [OF assms(3)] by auto
  have found: "List.find ?hit db = (if now = old then Some old else None)"
    using find_unique [OF assms(1,2), of "\<lambda>r. nc_version r = nc_version old"] by (auto simp: key same)
  have keys: "map (\<lambda>c. (nc_shop_id c, nc_ndr_case_id c)) (map ?g db) = map (\<lambda>c. (nc_shop_id c, nc_ndr_case_id c)) db"
    using f by simp
  have wf: "wfCases (map ?g db)" using assms(1) by (simp only: wfCases_def keys)
  have "?g now \<in> set (map ?g db)" using assms(2) by (simp only: set_map image_eqI)
  from getCase_member [OF wf this] have "getCase (map ?g db) (nc_shop_id old) (nc_ndr_case_id old) = Some (?g now)"
    using f key by (auto split: if_splits)
  then show ?thesis
    using found wf key same by (auto simp: updateCase_def Let_def)
qed

lemma transitionLoop_spec:
  assumes "wfCaseEnv env" and "wfCases db" and "now \<in> set db" and "ndr_step\<^sup>*\<^sup>* current now"
    and "ndr_step\<^sup>*\<^sup>* caseRow current"
    and ex: "extra = id \<or> to = OPEN \<and> (\<exists>at why. extra = countAttempt at why)"
    and "transitionLoop env to extra caseRow left k current db = (out, db')"
  shows "case out of
      Inr r \<Rightarrow> nc_state r = to \<and> ndr_step\<^sup>*\<^sup>* caseRow r
    | Inl e \<Rightarrow> e = NdrVersionConflict \<or> (\<exists>from. e = NotListed from to \<and> from \<notin> set (fromStates to))"
  using assms(2-5,7)
proof (induction left arbitrary: k current db now)
  case 0
  then show ?case by auto
next
  case (Suc left)
  have notTo: "to \<notin> set (fromStates to)" by (cases to) (simp_all add: fromStates_def)
  show ?case
  proof (cases "nc_state current = to")
    case True
    with Suc.prems show ?thesis by auto
  next
    case nt: False
    show ?thesis
    proof (cases "nc_state current \<in> set (fromStates to)")
      case False
      with nt Suc.prems show ?thesis by auto
    next
      case listed: True
      have step: "ndr_step current (moveTo to extra current)"
        using ex listed by (auto intro: ndr_step.intros)
      obtain nw where nw: "nw \<in> set (env k db)" "ndr_step\<^sup>*\<^sup>* now nw" and wf: "wfCases (env k db)"
        using assms(1) Suc.prems(1,2) evolves_member by (metis wfCaseEnv_def)
      have reach: "ndr_step\<^sup>*\<^sup>* current nw" using Suc.prems(3) nw(2) by (rule rtranclp_trans)
      have fk: "nc_shop_id (moveTo to extra r) = nc_shop_id r \<and> nc_ndr_case_id (moveTo to extra r) = nc_ndr_case_id r" for r
        using ex by (auto simp: moveTo_def countAttempt_def)
      from updateCase_spec [of "env k db" nw current "moveTo to extra", OF wf nw(1) reach fk]
      obtain db1 u where upd: "updateCase (env k db) current (moveTo to extra) = (db1, u)"
        "u = (if nw = current then Some (moveTo to extra current) else None)" "wfCases db1"
        "getCase db1 (nc_shop_id current) (nc_ndr_case_id current)
          = Some (if nw = current then moveTo to extra current else nw)"
        by (metis prod.collapse)
      have key: "nc_shop_id current = nc_shop_id caseRow" "nc_ndr_case_id current = nc_ndr_case_id caseRow"
        using step_key [OF Suc.prems(4)] by simp_all
      show ?thesis
      proof (cases "nw = current")
        case True
        with Suc.prems(5) nt listed notTo upd have "out = Inr (moveTo to extra current)" by (auto simp: Let_def)
        moreover have "nc_state (moveTo to extra current) = to" using ex by auto
        moreover have "ndr_step\<^sup>*\<^sup>* caseRow (moveTo to extra current)"
          using Suc.prems(4) step by (rule rtranclp.rtrancl_into_rtrancl)
        ultimately show ?thesis by simp
      next
        case False
        have got: "getCase db1 (nc_shop_id caseRow) (nc_ndr_case_id caseRow) = Some nw"
          using upd(4) False by (simp add: key)
        have "transitionLoop env to extra caseRow left (Suc k) nw db1 = (out, db')"
          using Suc.prems(5) nt listed notTo upd(1,2) False got by (simp add: Let_def)
        from Suc.IH [OF upd(3) conjunct1 [OF getCase_Some [OF got]] rtranclp.rtrancl_refl _ this]
          rtranclp_trans [OF Suc.prems(4) reach]
        show ?thesis by blast
      qed
    qed
  qed
qed

text \<open>Whatever the outcome, the writes of a transition move rows along machine F and nothing else.\<close>

lemma evolves_map: "(\<And>r. r \<in> set db \<Longrightarrow> ndr_step\<^sup>*\<^sup>* r (g r)) \<Longrightarrow> evolves db (map g db)"
  unfolding evolves_def by (intro exI [of _ "map g db"] exI [of _ "[]"]) (auto simp: list_all2_conv_all_nth)

lemma updateCase_evolves:
  assumes "wfCases db" and "now \<in> set db" and "ndr_step\<^sup>*\<^sup>* old now" and "ndr_step old (f old)"
  shows "evolves db (fst (updateCase db old f))"
proof -
  have "r = old" if r: "r \<in> set db" "nc_shop_id r = nc_shop_id old" "nc_ndr_case_id r = nc_ndr_case_id old"
    "nc_version r = nc_version old" for r
  proof -
    have "r = now"
      using getCase_member [OF assms(1,2)] getCase_member [OF assms(1) r(1)] r(2,3) step_key [OF assms(3)] by simp
    with r(4) ndr.unchanged [OF assms(3)] show ?thesis by simp
  qed
  then show ?thesis
    using assms(4) unfolding updateCase_def Let_def fst_conv by (intro evolves_map) auto
qed

lemma evolves_refl [simp]: "evolves db db"
  by (auto simp: evolves_def list_all2_conv_all_nth)

lemma evolves_trans: "evolves a b \<Longrightarrow> evolves b c \<Longrightarrow> evolves a c"
proof -
  assume "evolves a b" and "evolves b c"
  then obtain o1 n1 o2 n2 where *: "b = o1 @ n1" "list_all2 (ndr_step\<^sup>*\<^sup>*) a o1"
    "c = o2 @ n2" "list_all2 (ndr_step\<^sup>*\<^sup>*) (o1 @ n1) o2" by (auto simp: evolves_def)
  then obtain u v where "o2 = u @ v" "list_all2 (ndr_step\<^sup>*\<^sup>*) o1 u" by (auto simp: list_all2_append1)
  moreover from this *(2) have "list_all2 (ndr_step\<^sup>*\<^sup>*) a u"
    by (auto intro: list_all2_trans [rotated] rtranclp_trans)
  ultimately show ?thesis using * by (auto simp: evolves_def)
qed

lemma transitionLoop_evolves:
  assumes "wfCaseEnv env" and "wfCases db" and "now \<in> set db" and "ndr_step\<^sup>*\<^sup>* current now"
    and ex: "extra = id \<or> to = OPEN \<and> (\<exists>at why. extra = countAttempt at why)"
  shows "evolves db (snd (transitionLoop env to extra caseRow left k current db))
    \<and> wfCases (snd (transitionLoop env to extra caseRow left k current db))"
  using assms(2-4)
proof (induction left arbitrary: k current db now)
  case 0
  then show ?case by simp
next
  case (Suc left)
  show ?case
  proof (cases "nc_state current = to \<or> nc_state current \<notin> set (fromStates to)")
    case True
    with Suc.prems show ?thesis by auto
  next
    case goes: False
    have step: "ndr_step current (moveTo to extra current)"
      using ex goes by (auto intro: ndr_step.intros)
    obtain nw where nw: "nw \<in> set (env k db)" "ndr_step\<^sup>*\<^sup>* now nw" and wf: "wfCases (env k db)"
      and ev: "evolves db (env k db)"
      using assms(1) Suc.prems(1,2) evolves_member by (metis wfCaseEnv_def)
    have reach: "ndr_step\<^sup>*\<^sup>* current nw" using Suc.prems(3) nw(2) by (rule rtranclp_trans)
    have fk: "nc_shop_id (moveTo to extra r) = nc_shop_id r \<and> nc_ndr_case_id (moveTo to extra r) = nc_ndr_case_id r" for r
      using ex by (auto simp: moveTo_def countAttempt_def)
    obtain db1 u where upd: "updateCase (env k db) current (moveTo to extra) = (db1, u)" by fastforce
    have db1: "evolves db db1" "wfCases db1"
      using evolves_trans [OF ev updateCase_evolves [where f = "moveTo to extra", OF wf nw(1) reach step]]
        updateCase_spec [of "env k db" nw current "moveTo to extra", OF wf nw(1) reach fk] upd by simp_all
    have "evolves db1 (snd (transitionLoop env to extra caseRow left (Suc k) c db1))
      \<and> wfCases (snd (transitionLoop env to extra caseRow left (Suc k) c db1))"
      if "getCase db1 (nc_shop_id caseRow) (nc_ndr_case_id caseRow) = Some c" for c
      using Suc.IH [OF db1(2) conjunct1 [OF getCase_Some [OF that]] rtranclp.rtrancl_refl] .
    with goes upd db1 show ?thesis
      by (auto split: option.split intro: evolves_trans)
  qed
qed

text \<open>
  C10: The state writer follows machine F under concurrency.  Called on a row that was read at some
  time from a table other writers keep changing, a transition that returns gives a row in the
  target state reached along machine F from the row it was called on (its own move, or
  another writer's that had the same effect); an error is a version conflict after the
  retries or names a state from which the target is not listed.
\<close>

theorem ndr_transition_follows_machine:
  assumes "wfCaseEnv env" and "wfCases db" and "now \<in> set db" and "ndr_step\<^sup>*\<^sup>* caseRow now"
    and "ndrTransition env to id caseRow db = (out, db')"
  shows "case out of
      Inr r \<Rightarrow> nc_state r = to \<and> ndr_step\<^sup>*\<^sup>* caseRow r
    | Inl e \<Rightarrow> e = NdrVersionConflict \<or> (\<exists>from. e = NotListed from to \<and> from \<notin> set (fromStates to))"
  using transitionLoop_spec [OF assms(1-4) rtranclp.rtrancl_refl _ assms(5) [unfolded ndrTransition_def]] by simp

lemma wfCaseEnv_idle: "wfCaseEnv (\<lambda>k db. db)"
  by (simp add: wfCaseEnv_def)

lemma wfCases_example: "wfCases [exampleCase st]"
  by (simp add: wfCases_def)

lemma ndr_transition_follows_machine_witness:
  "\<exists>db'. ndrTransition (\<lambda>k db. db) CLOSED id (exampleCase OPEN) [exampleCase OPEN] = (Inr (moveTo CLOSED id (exampleCase OPEN)), db')
     \<and> ndr_step\<^sup>*\<^sup>* (exampleCase OPEN) (moveTo CLOSED id (exampleCase OPEN))"
proof -
  obtain db' where t: "ndrTransition (\<lambda>k db. db) CLOSED id (exampleCase OPEN) [exampleCase OPEN]
      = (Inr (moveTo CLOSED id (exampleCase OPEN)), db')"
    by (simp add: ndrTransition_def ndrMaxVersionRetries_def numeral_eq_Suc updateCase_def fromStates_def
        exampleCase_def Let_def)
  from ndr_transition_follows_machine [OF wfCaseEnv_idle wfCases_example _ rtranclp.rtrancl_refl this] t
  show ?thesis by simp
qed

section \<open>Runs of the case service\<close>

text \<open>
  Everything \<open>ndr-case.service.ts\<close> does, called in any order.  While an operation runs, other
  runs of the service may take place in each gap it leaves between its statements (the
  premise on \<open>env\<close>).  A case handed to a transition was read from the table the call starts
  with; what is written between that reading and the transition's first statement is in its first
  gap.  The database gives a new case an id no case of the shop has.
\<close>

abbreviation caseKey :: "NdrCaseRow \<Rightarrow> string \<times> string" where
  "caseKey c \<equiv> (nc_shop_id c, nc_ndr_case_id c)"

inductive case_run :: "case_table \<Rightarrow> case_table \<Rightarrow> bool" where
  idle: "case_run db db"
| next_run: "case_run db mid \<Longrightarrow> case_run mid db' \<Longrightarrow> case_run db db'"
| attempt: "(\<And>k d. case_run d (env k d)) \<Longrightarrow> (\<And>d. (shopId, freshId d) \<notin> caseKey ` set d) \<Longrightarrow>
    case_run db (snd (handleUndeliveredAttempt env freshId shopId shipmentId occurredAt latestReason db))"
| close: "(\<And>k d. case_run d (env k d)) \<Longrightarrow>
    case_run db (snd (closeOnTerminalMovement env shopId shipmentId movementState db))"
| submitted: "(\<And>k d. case_run d (env k d)) \<Longrightarrow> c \<in> set db \<Longrightarrow> case_run db (snd (markActionSubmitted env c db))"
| reattempt: "(\<And>k d. case_run d (env k d)) \<Longrightarrow> c \<in> set db \<Longrightarrow> case_run db (snd (markReattemptScheduled env c db))"
| rto: "(\<And>k d. case_run d (env k d)) \<Longrightarrow> c \<in> set db \<Longrightarrow> case_run db (snd (markRtoRequested env c db))"
| rejected: "(\<And>k d. case_run d (env k d)) \<Longrightarrow> c \<in> set db \<Longrightarrow>
    case_run db (snd (returnToOpenOnProviderRejection env c db))"

lemma ndrTransition_evolves:
  assumes "wfCaseEnv env" and "wfCases db" and "c \<in> set db"
    and "extra = id \<or> to = OPEN \<and> (\<exists>at why. extra = countAttempt at why)"
  shows "evolves db (snd (ndrTransition env to extra c db)) \<and> wfCases (snd (ndrTransition env to extra c db))"
  unfolding ndrTransition_def by (rule transitionLoop_evolves [OF assms(1-3) rtranclp.rtrancl_refl assms(4)])

lemma findLatestCase_Some: "findLatestCase db shopId shipmentId = Some c \<Longrightarrow> c \<in> set db \<and> nc_shop_id c = shopId"
  by (auto simp: findLatestCase_def find_Some_iff) (metis nth_mem length_rev set_rev)

lemma findOpenCase_Some: "findOpenCase db shopId shipmentId = Some c \<Longrightarrow> c \<in> set db"
  by (auto simp: findOpenCase_def find_Some_iff) (metis nth_mem length_rev set_rev)

lemma closeOnTerminalMovement_evolves:
  assumes "wfCaseEnv env" and "wfCases db"
  shows "evolves db (snd (closeOnTerminalMovement env shopId shipmentId movementState db))
    \<and> wfCases (snd (closeOnTerminalMovement env shopId shipmentId movementState db))"
  using assms ndrTransition_evolves [OF assms, of _ id] findOpenCase_Some
  by (auto simp: closeOnTerminalMovement_def case_prod_beta split: option.split)

text \<open>A first attempt adds a case; a further one counts on the row it read, or on none.\<close>

lemma handleUndeliveredAttempt_evolves:
  assumes env: "wfCaseEnv env" and wf: "wfCases db"
    and fresh: "\<And>d. (shopId, freshId d) \<notin> caseKey ` set d"
  shows "evolves db (snd (handleUndeliveredAttempt env freshId shopId shipmentId occurredAt why db))
    \<and> wfCases (snd (handleUndeliveredAttempt env freshId shopId shipmentId occurredAt why db))"
proof (cases "findLatestCase db shopId shipmentId")
  case None
  have gap: "evolves db (env 0 db)" "wfCases (env 0 db)" using env wf by (auto simp: wfCaseEnv_def)
  have "evolves (env 0 db) (env 0 db @ [c])" for c by (auto simp: evolves_def list_all2_conv_all_nth)
  then show ?thesis
    using None gap fresh [of "env 0 db"] evolves_trans
    by (fastforce simp: handleUndeliveredAttempt_def Let_def wfCases_def)
next
  case (Some existing)
  have ex: "existing \<in> set db" using findLatestCase_Some [OF Some] by simp
  let ?f = "\<lambda>r. (countAttempt occurredAt (normalizeNdrReason why) r)\<lparr>nc_version := nc_version r + 1\<rparr>"
  have count: "evolves db (fst (updateCase (env 0 db) existing ?f)) \<and> wfCases (fst (updateCase (env 0 db) existing ?f))"
    if "nc_state existing \<in> {OPEN, ACTION_SUBMITTED, RTO_REQUESTED}"
  proof -
    have gap: "evolves db (env 0 db)" "wfCases (env 0 db)" using env wf by (auto simp: wfCaseEnv_def)
    obtain now where now: "now \<in> set (env 0 db)" "ndr_step\<^sup>*\<^sup>* existing now"
      using evolves_member [OF gap(1) ex] by blast
    have fk: "nc_shop_id (?f r) = nc_shop_id r \<and> nc_ndr_case_id (?f r) = nc_ndr_case_id r" for r
      by (simp add: countAttempt_def)
    show ?thesis
      using updateCase_evolves [where f = ?f, OF gap(2) now ndr_step.attempt [OF that]]
        updateCase_spec [where f = ?f, OF gap(2) now fk] evolves_trans [OF gap(1)] by blast
  qed
  show ?thesis
    using Some wf count ndrTransition_evolves [OF env wf ex, of "countAttempt occurredAt (normalizeNdrReason why)" OPEN]
    by (cases "nc_state existing")
       (auto simp: handleUndeliveredAttempt_def Let_def case_prod_beta split: option.split)
qed

lemma case_run_evolves: "case_run db db' \<Longrightarrow> wfCases db \<Longrightarrow> evolves db db' \<and> wfCases db'"
proof (induction rule: case_run.induct)
  case (next_run db mid db')
  then show ?case using evolves_trans by blast
next
  case (attempt env shopId freshId db shipmentId occurredAt latestReason)
  then have "wfCaseEnv env" by (simp add: wfCaseEnv_def)
  with attempt show ?case by (intro handleUndeliveredAttempt_evolves)
next
  case (close env db shopId shipmentId movementState)
  then have "wfCaseEnv env" by (simp add: wfCaseEnv_def)
  with close show ?case by (intro closeOnTerminalMovement_evolves)
qed (use ndrTransition_evolves in \<open>simp_all add: wfCaseEnv_def markActionSubmitted_def markReattemptScheduled_def
      markRtoRequested_def returnToOpenOnProviderRejection_def\<close>)

text \<open>So runs of the service are among the writers a transition tolerates in its gaps.\<close>

lemma wfCaseEnv_runs: "(\<And>k d. case_run d (env k d)) \<Longrightarrow> wfCaseEnv env"
  using case_run_evolves unfolding wfCaseEnv_def by blast

text \<open>
  C9: Machine F over every history of the case service.  After any sequence of its operations
  (attempts reported by the carrier, terminal movements, actions submitted, acknowledged or
  rejected; failed calls included), interleaved with each other between their statements in any
  way, a case that was in the table is still found under its id, and: if it was CLOSED its row
  is the very same row; if its return to sender was requested it is in that state or CLOSED; its attempt
  count has not gone down, and has grown by no more than its version; an unchanged version
  means an unchanged row; and its shipment, first attempt time and warning time are what they
  were.  Only these operations insert or update a case; the purge of old test shipments, which
  deletes the whole case of a test shipment, is not one of them.
\<close>

theorem machine_F_history:
  assumes "case_run db db'" and "wfCases db" and "r \<in> set db"
  shows "wfCases db' \<and> (\<exists>r'. getCase db' (nc_shop_id r) (nc_ndr_case_id r) = Some r'
    \<and> (nc_state r = CLOSED \<longrightarrow> r' = r)
    \<and> (nc_state r = RTO_REQUESTED \<longrightarrow> nc_state r' \<in> {RTO_REQUESTED, CLOSED})
    \<and> nc_attempt_count r \<le> nc_attempt_count r'
    \<and> nc_attempt_count r' - nc_attempt_count r \<le> nc_version r' - nc_version r
    \<and> (nc_version r' = nc_version r \<longrightarrow> r' = r)
    \<and> caseIdentity r' = caseIdentity r)"
proof -
  from case_run_evolves [OF assms(1,2)] have ev: "evolves db db'" and wf: "wfCases db'" by simp_all
  from evolves_member [OF ev assms(3)] obtain r' where r': "r' \<in> set db'" "ndr_step\<^sup>*\<^sup>* r r'" by blast
  from getCase_member [OF wf r'(1)] step_key [OF r'(2)]
  have "getCase db' (nc_shop_id r) (nc_ndr_case_id r) = Some r'" by simp
  with machine_F_row [OF r'(2)] ndr_steps_version [OF r'(2)] ndr.unchanged [OF r'(2)] wf show ?thesis by blast
qed

text \<open>A carrier reports another attempt while the return to sender is under way.\<close>

lemma machine_F_history_witness:
  "\<exists>r'. getCase (snd (handleUndeliveredAttempt (\<lambda>k d. d) (\<lambda>d. concat (map nc_ndr_case_id d) @ ''x'') ''shop'' ''s1'' 5 None
      [exampleCase RTO_REQUESTED])) ''shop'' ''c1'' = Some r' \<and> nc_state r' = RTO_REQUESTED \<and> nc_attempt_count r' = 2
    \<and> nc_attempt_count r' - 1 \<le> nc_version r' - 1"
proof -
  let ?fresh = "\<lambda>d. concat (map nc_ndr_case_id d) @ ''x''"
  have "length (nc_ndr_case_id c) \<le> length (concat (map nc_ndr_case_id d))" if "c \<in> set d" for c d
    using that by (induction d) auto
  then have fresh: "(''shop'', ?fresh d) \<notin> caseKey ` set d" for d by (fastforce dest!: arg_cong [of _ _ length])
  have run: "case_run [exampleCase RTO_REQUESTED]
      (snd (handleUndeliveredAttempt (\<lambda>k d. d) ?fresh ''shop'' ''s1'' 5 None [exampleCase RTO_REQUESTED]))"
    by (rule case_run.attempt [OF case_run.idle fresh])
  from machine_F_history [OF run _ list.set_intros(1)]
  show ?thesis
    by (auto simp: wfCases_def exampleCase_def handleUndeliveredAttempt_def findLatestCase_def updateCase_def
        getCase_def countAttempt_def Let_def)
qed

section \<open>Counting attempts\<close>

text \<open>
  An attempt is counted exactly when nobody else writes the case meanwhile.  For a case that is
  OPEN, ACTION\_SUBMITTED or RTO\_REQUESTED the operation always reports the attempt as
  recorded; if the row is still the one it read, the stored count is one higher, and if
  another writer got in between, the stored row is that writer's and this attempt is not in
  the count.
\<close>

theorem attempt_counted_iff_undisturbed:
  assumes "wfCaseEnv env" and "wfCases db" and "findLatestCase db shopId shipmentId = Some existing"
    and "nc_state existing \<in> {OPEN, ACTION_SUBMITTED, RTO_REQUESTED}"
    and "getCase (env 0 db) (nc_shop_id existing) (nc_ndr_case_id existing) = Some now"
  shows "\<exists>db' r. handleUndeliveredAttempt env freshId shopId shipmentId at why db = (Inr (ATTEMPT_RECORDED, r), db')
    \<and> getCase db' (nc_shop_id existing) (nc_ndr_case_id existing) = Some r
    \<and> nc_attempt_count r = nc_attempt_count now + (if now = existing then 1 else 0)"
proof -
  have ex: "existing \<in> set db" "nc_shop_id existing = shopId"
    using assms(3) by (auto simp: findLatestCase_def find_Some_iff) (metis nth_mem length_rev set_rev)
  have wf: "wfCases (env 0 db)" and ev: "evolves db (env 0 db)"
    using assms(1,2) by (auto simp: wfCaseEnv_def)
  from evolves_member [OF ev ex(1)] obtain c where c: "c \<in> set (env 0 db)" "ndr_step\<^sup>*\<^sup>* existing c" by blast
  from getCase_member [OF wf c(1)] step_key [OF c(2)] assms(5) have "c = now" by simp
  let ?f = "\<lambda>r. (countAttempt at (normalizeNdrReason why) r)\<lparr>nc_version := nc_version r + 1\<rparr>"
  have fk: "nc_shop_id (?f r) = nc_shop_id r \<and> nc_ndr_case_id (?f r) = nc_ndr_case_id r" for r
    by (simp add: countAttempt_def)
  from updateCase_spec [of "env 0 db" now existing ?f, OF wf _ _ fk] c \<open>c = now\<close>
  have spec: "snd (updateCase (env 0 db) existing ?f) = (if now = existing then Some (?f existing) else None)"
    "getCase (fst (updateCase (env 0 db) existing ?f)) (nc_shop_id existing) (nc_ndr_case_id existing)
       = Some (if now = existing then ?f existing else now)"
    by simp_all
  define db1 where "db1 = fst (updateCase (env 0 db) existing ?f)"
  have upd: "updateCase (env 0 db) existing ?f = (db1, if now = existing then Some (?f existing) else None)"
    "getCase db1 (nc_shop_id existing) (nc_ndr_case_id existing) = Some (if now = existing then ?f existing else now)"
    using spec by (simp_all only: db1_def prod_eq_iff fst_conv snd_conv)
  have st: "nc_state existing \<noteq> CLOSED" "nc_state existing \<noteq> REATTEMPT_SCHEDULED" using assms(4) by auto
  show ?thesis
  proof (cases "now = existing")
    case True
    with upd assms(3) st show ?thesis
      by (intro exI [of _ db1] exI [of _ "?f existing"]) (simp add: handleUndeliveredAttempt_def countAttempt_def)
  next
    case False
    with upd assms(3) st ex(2) show ?thesis
      by (intro exI [of _ db1] exI [of _ now]) (simp add: handleUndeliveredAttempt_def)
  qed
qed

text \<open>Two carriers' scans at once: the other one is counted in the gap.\<close>

definition otherAttempt :: "nat \<Rightarrow> case_table \<Rightarrow> case_table" where
  "otherAttempt k db = map (\<lambda>r. if nc_state r = OPEN
     then (countAttempt 1 OTHER r)\<lparr>nc_version := nc_version r + 1\<rparr> else r) db"

lemma wfCaseEnv_otherAttempt: "wfCaseEnv otherAttempt"
proof -
  have step: "ndr_step\<^sup>*\<^sup>* r (if nc_state r = OPEN then (countAttempt 1 OTHER r)\<lparr>nc_version := nc_version r + 1\<rparr> else r)" for r
    by (auto intro!: r_into_rtranclp ndr_step.attempt)
  have "evolves db (otherAttempt k db)" for k db
    unfolding evolves_def
    by (rule exI [of _ "otherAttempt k db"], rule exI [of _ "[]"])
       (use step in \<open>simp add: otherAttempt_def list_all2_conv_all_nth\<close>)
  moreover have "wfCases db \<Longrightarrow> wfCases (otherAttempt k db)" for k db
    by (simp add: wfCases_def otherAttempt_def comp_def countAttempt_def if_distrib [of nc_shop_id]
        if_distrib [of nc_ndr_case_id] cong: if_cong)
  ultimately show ?thesis by (simp add: wfCaseEnv_def)
qed

lemma attempt_counted_iff_undisturbed_witness:
  "\<exists>db' r. handleUndeliveredAttempt otherAttempt (\<lambda>_. ''c2'') ''shop'' ''s1'' 2 None [exampleCase OPEN]
     = (Inr (ATTEMPT_RECORDED, r), db') \<and> nc_attempt_count r = 2"
proof -
  let ?now = "(countAttempt 1 OTHER (exampleCase OPEN))\<lparr>nc_version := nc_version (exampleCase OPEN) + 1\<rparr>"
  have latest: "findLatestCase [exampleCase OPEN] ''shop'' ''s1'' = Some (exampleCase OPEN)"
    by (simp add: findLatestCase_def exampleCase_def)
  have st: "nc_state (exampleCase OPEN) \<in> {OPEN, ACTION_SUBMITTED, RTO_REQUESTED}" by (simp add: exampleCase_def)
  have got: "getCase (otherAttempt 0 [exampleCase OPEN]) (nc_shop_id (exampleCase OPEN))
      (nc_ndr_case_id (exampleCase OPEN)) = Some ?now"
    by (simp add: getCase_def otherAttempt_def exampleCase_def countAttempt_def)
  have ne: "?now \<noteq> exampleCase OPEN" by (simp add: exampleCase_def countAttempt_def)
  from attempt_counted_iff_undisturbed [OF wfCaseEnv_otherAttempt wfCases_example latest st got, of "\<lambda>_. ''c2''" 2 None]
  show ?thesis using ne by (auto simp: countAttempt_def exampleCase_def)
qed

end
