(* ===== verification/ReconMatching.thy ===== *)
theory ReconMatching
  imports Pricing_Laws
begin

text \<open>
  \<open>src/modules/recon-freight/recon-matching.ts\<close> and the comparison of weights and the limits
  of \<open>recon-freight.types.ts\<close>: what a courier's invoice rows are expected to cost, and the
  control total of a batch.  Of a booking snapshot the record keeps the fields the code reads.
\<close>

section \<open>Data\<close>

datatype ChargeType = FORWARD | RTO | REATTEMPT | COD_FEE | ADJUSTMENT | OTHER

datatype ControlTotalState = WITHIN_THRESHOLD | MISMATCH | ACCEPTED_WITH_REMARK

datatype ExpectedCostBasis = SNAPSHOT_QUOTE | PROVIDER_CONFIRMED_CHARGE | NO_BASIS

definition controlTotalFloorPaise :: int where "controlTotalFloorPaise = 10000"
definition controlTotalPctNumerator :: int where "controlTotalPctNumerator = 5"
definition controlTotalPctDenominator :: int where "controlTotalPctDenominator = 1000"

record SnapshotQuote =
  sq_total :: string
  sq_components :: "PricedComponent list"
  sq_rtoRule :: "RtoRule option"

record BookingSnapshot =
  bs_zone :: "ZoneCode option"
  bs_rateCardVersionId :: "string option"
  bs_paymentMode :: payment_mode
  bs_collectible :: string
  bs_billableWeightKg :: "string option"
  bs_declaredValue :: string
  bs_expectedQuote :: "SnapshotQuote option"

record ShipmentReconView =
  rv_shipmentId :: string
  rv_awbNormalized :: string
  rv_expectedCostBasis :: "ExpectedCostBasis option"
  rv_providerConfirmedCharge :: "string option"
  rv_snapshot :: "BookingSnapshot option"

record MatchGroupInput =
  mg_awbNormalized :: string
  mg_chargeType :: ChargeType
  mg_chargeTypeUnmapped :: bool
  mg_invoicedAmountTotal :: "int option"
  mg_adjustmentTotal :: int
  mg_shipment :: "ShipmentReconView option"
  mg_freightTolerance :: int
  mg_weightToleranceGrams :: int
  mg_tariff :: "TariffInput option"
  mg_invoicedWeightKg :: "string option"

record MatchGroupResult =
  mr_flagAwbNotFound :: bool
  mr_flagAmountMismatch :: bool
  mr_flagReview :: bool
  mr_expectedAmount :: "string option"
  mr_auditedAmount :: "string option"

section \<open>Comparisons\<close>

definition amountMismatch :: "int \<Rightarrow> int \<Rightarrow> int \<Rightarrow> int \<Rightarrow> bool" where
  "amountMismatch invoicedTotal adjustmentTotal expected tolerance \<longleftrightarrow>
     (let diff = invoicedTotal + adjustmentTotal - expected;
          abs_diff = (if diff < 0 then - diff else diff)
      in abs_diff > tolerance)"

definition controlTotal :: "int \<Rightarrow> int \<Rightarrow> int \<Rightarrow> int \<times> ControlTotalState" where
  "controlTotal declared matched review =
     (let residual = declared - matched - review;
          pctThreshold = (declared * controlTotalPctNumerator) sdiv controlTotalPctDenominator;
          threshold = (if pctThreshold > controlTotalFloorPaise then pctThreshold else controlTotalFloorPaise);
          abs_res = (if residual < 0 then - residual else residual)
      in (residual, if abs_res > threshold then MISMATCH else WITHIN_THRESHOLD))"

definition kgGrams :: "string \<Rightarrow> js_error + int" where
  "kgGrams value =
     (case parse_fixed 3 value of None \<Rightarrow> Inl (InvalidWeight value) | Some g \<Rightarrow> Inr g)"

definition weightMismatch :: "string option \<Rightarrow> string option \<Rightarrow> int \<Rightarrow> js_error + bool" where
  "weightMismatch invoicedWeightKg snapshotBillableKg toleranceGrams =
     (case (invoicedWeightKg, snapshotBillableKg) of
        (Some i, Some b) \<Rightarrow>
          bindR (kgGrams i) (\<lambda>invoiced.
          bindR (kgGrams b) (\<lambda>booked.
          Inr ((if invoiced > booked then invoiced - booked else booked - invoiced) > toleranceGrams)))
      | _ \<Rightarrow> Inr False)"

section \<open>Expectations\<close>

record ForwardExpectation =
  fe_expected :: "string option"
  fe_audited :: "string option"
  fe_review :: bool

definition noExpectation :: ForwardExpectation where
  "noExpectation = \<lparr>fe_expected = None, fe_audited = None, fe_review = True\<rparr>"

definition billableOf :: "string option \<Rightarrow> BookingSnapshot \<Rightarrow> string option" where
  "billableOf invoicedWeightKg snapshot =
     (case invoicedWeightKg of Some w \<Rightarrow> Some w | None \<Rightarrow> bs_billableWeightKg snapshot)"

definition snapshotArgs :: "BookingSnapshot \<Rightarrow> string \<Rightarrow> FreightArgs" where
  "snapshotArgs snapshot billable = \<lparr>fa_zone = bs_zone snapshot, fa_billableWeightKg = billable,
     fa_paymentMode = bs_paymentMode snapshot, fa_collectible = bs_collectible snapshot,
     fa_declaredValue = bs_declaredValue snapshot\<rparr>"

definition forwardExpectation ::
  "ShipmentReconView \<Rightarrow> TariffInput option \<Rightarrow> string option \<Rightarrow> js_error + ForwardExpectation" where
  "forwardExpectation shipment tariff invoicedWeightKg =
     (if rv_expectedCostBasis shipment = Some NO_BASIS then Inr noExpectation
      else if rv_expectedCostBasis shipment = Some PROVIDER_CONFIRMED_CHARGE then
        (case rv_providerConfirmedCharge shipment of
           None \<Rightarrow> Inr noExpectation
         | Some c \<Rightarrow> Inr \<lparr>fe_expected = Some c, fe_audited = None, fe_review = False\<rparr>)
      else (case rv_snapshot shipment of None \<Rightarrow> Inr noExpectation
        | Some snapshot \<Rightarrow> (case bs_expectedQuote snapshot of None \<Rightarrow> Inr noExpectation
          | Some quote \<Rightarrow>
              (case (bs_rateCardVersionId snapshot, tariff) of
                 (Some _, Some t) \<Rightarrow>
                   (case billableOf invoicedWeightKg snapshot of None \<Rightarrow> Inr noExpectation
                    | Some billable \<Rightarrow>
                        bindR (auditedQuote t (snapshotArgs snapshot billable)) (\<lambda>result.
                        case result of
                          Unpriceable _ \<Rightarrow> Inr noExpectation
                        | Priceable b \<Rightarrow> Inr \<lparr>fe_expected = Some (fb_f11Total b),
                            fe_audited = Some (fb_f11Total b), fe_review = False\<rparr>))
               | _ \<Rightarrow> Inr \<lparr>fe_expected = Some (sq_total quote), fe_audited = None, fe_review = False\<rparr>))))"

definition componentAmount :: "string \<Rightarrow> SnapshotQuote \<Rightarrow> string option" where
  "componentAmount code quote = map_option pc_amount (List.find (\<lambda>c. pc_code c = code) (sq_components quote))"

definition rtoExpectation ::
  "ShipmentReconView \<Rightarrow> TariffInput option \<Rightarrow> string option \<Rightarrow> js_error + string option" where
  "rtoExpectation shipment tariff invoicedWeightKg =
     (case rv_snapshot shipment of None \<Rightarrow> Inr None
      | Some snapshot \<Rightarrow> (case bs_expectedQuote snapshot of None \<Rightarrow> Inr None
        | Some quote \<Rightarrow> (case sq_rtoRule quote of None \<Rightarrow> Inr None
          | Some rtoRule \<Rightarrow> (case billableOf invoicedWeightKg snapshot of None \<Rightarrow> Inr None
            | Some billable \<Rightarrow>
                (case (bs_rateCardVersionId snapshot, tariff) of
                   (Some _, Some t) \<Rightarrow>
                     (case componentAmount ''F-5'' quote of None \<Rightarrow> Inr None
                      | Some f5 \<Rightarrow>
                          bindR (computeRtoExpectation (Some rtoRule)
                            \<lparr>rs_f5BaseFreight = f5, rs_billableWeightKg = billable,
                             rs_declaredValue = bs_declaredValue snapshot\<rparr> t) (\<lambda>result.
                          case result of Expected _ b \<Rightarrow> Inr (Some (fb_f11Total b))
                          | NoExpectation _ \<Rightarrow> Inr None))
                 | _ \<Rightarrow>
                     bindR (rupeesToPaise (sq_total quote)) (\<lambda>ttl.
                     if rr_basis rtoRule = SAME_AS_FORWARD then Inr (Some (paiseToRupees ttl))
                     else (case rr_pct rtoRule of None \<Rightarrow> Inr None
                       | Some pct \<Rightarrow> bindR (rateToMillionths pct) (\<lambda>r.
                           bindR (applyRate ttl r) (\<lambda>x. Inr (Some (paiseToRupees x)))))))))))"

text \<open>The expectation of a group's charge type: expected, audited, and whether to review.\<close>

definition groupExpectation :: "MatchGroupInput \<Rightarrow> ShipmentReconView \<Rightarrow> js_error + ForwardExpectation" where
  "groupExpectation inp shipment =
     (case mg_chargeType inp of
        FORWARD \<Rightarrow> forwardExpectation shipment (mg_tariff inp) (mg_invoicedWeightKg inp)
      | RTO \<Rightarrow> bindR (rtoExpectation shipment (mg_tariff inp) (mg_invoicedWeightKg inp)) (\<lambda>e.
          Inr \<lparr>fe_expected = e, fe_audited = None, fe_review = (e = None)\<rparr>)
      | COD_FEE \<Rightarrow>
          (case Option.bind (Option.bind (rv_snapshot shipment) bs_expectedQuote) (componentAmount ''F-7'') of
             Some f7 \<Rightarrow> Inr \<lparr>fe_expected = Some f7, fe_audited = None, fe_review = False\<rparr>
           | None \<Rightarrow> Inr noExpectation)
      | REATTEMPT \<Rightarrow> Inr noExpectation
      | OTHER \<Rightarrow> Inr noExpectation
      | ADJUSTMENT \<Rightarrow> Inr noExpectation)"

definition matchGroup :: "MatchGroupInput \<Rightarrow> js_error + MatchGroupResult" where
  "matchGroup inp =
     (case mg_shipment inp of
        None \<Rightarrow> Inr \<lparr>mr_flagAwbNotFound = True, mr_flagAmountMismatch = False,
          mr_flagReview = mg_chargeTypeUnmapped inp, mr_expectedAmount = None, mr_auditedAmount = None\<rparr>
      | Some shipment \<Rightarrow>
          bindR (groupExpectation inp shipment) (\<lambda>e.
          let negative = (mg_chargeType inp \<noteq> ADJUSTMENT
                \<and> (case mg_invoicedAmountTotal inp of None \<Rightarrow> False | Some t \<Rightarrow> t < 0));
              review = (mg_chargeTypeUnmapped inp \<or> fe_review e \<or> negative)
          in bindR (case (fe_expected e, mg_invoicedAmountTotal inp) of
               (Some x, Some invoiced) \<Rightarrow> bindR (rupeesToPaise x) (\<lambda>expected.
                  Inr (amountMismatch invoiced (mg_adjustmentTotal inp) expected (mg_freightTolerance inp)))
             | _ \<Rightarrow> Inr False) (\<lambda>flagAmountMismatch.
             Inr \<lparr>mr_flagAwbNotFound = False, mr_flagAmountMismatch = flagAmountMismatch,
               mr_flagReview = (review \<or> mg_invoicedAmountTotal inp = None),
               mr_expectedAmount = fe_expected e, mr_auditedAmount = fe_audited e\<rparr>)))"

section \<open>Laws\<close>

lemma amountMismatch_iff: "amountMismatch i a e t \<longleftrightarrow> \<bar>i + a - e\<bar> > t"
  by (auto simp: amountMismatch_def Let_def)

text \<open>
  F-14 without rounding.  For a declared total that is not negative, the residual is what the
  matched and reviewed rows leave over, and the batch mismatches exactly when the residual
  exceeds both 100 rupees and one half percent of the declared amount, compared exactly
  although the code divides integers.
\<close>

theorem control_total_exact:
  assumes "0 \<le> declared"
  shows "fst (controlTotal declared matched review) + matched + review = declared
    \<and> (snd (controlTotal declared matched review) = MISMATCH \<longleftrightarrow>
        \<bar>declared - matched - review\<bar> > 10000 \<and> 1000 * \<bar>declared - matched - review\<bar> > 5 * declared)"
proof -
  let ?r = "\<bar>declared - matched - review\<bar>"
  have q: "(declared * 5) sdiv 1000 = (declared * 5) div 1000"
    using assms by (simp add: sdiv_pos)
  have "x > (d * 5) div 1000 \<longleftrightarrow> 1000 * x > 5 * d" for x d :: int
    using mult_div_mod_eq [of 1000 "d * 5"] pos_mod_bound [of 1000 "d * 5"] pos_mod_sign [of 1000 "d * 5"]
    by linarith
  then have p: "?r > (declared * 5) div 1000 \<longleftrightarrow> 1000 * ?r > 5 * declared" .
  have t: "(if a > b then a else b) = max a b" for a b :: int by simp
  have "controlTotal declared matched review
      = (declared - matched - review, if ?r > max ((declared * 5) div 1000) 10000 then MISMATCH else WITHIN_THRESHOLD)"
    unfolding controlTotal_def Let_def controlTotalPctNumerator_def controlTotalPctDenominator_def
      controlTotalFloorPaise_def q t abs_if ..
  moreover have "?r > max ((declared * 5) div 1000) 10000 \<longleftrightarrow> ?r > 10000 \<and> 1000 * ?r > 5 * declared"
    unfolding p [symmetric] by (simp only: max_less_iff_conj conj_commute)
  ultimately show ?thesis by simp
qed

lemma control_total_exact_witness:
  "snd (controlTotal 10000000 9900000 49999) = MISMATCH \<and> snd (controlTotal 10000000 9900000 50000) \<noteq> MISMATCH"
  using control_total_exact [of 10000000 9900000 49999] control_total_exact [of 10000000 9900000 50000] by simp

lemma audited_without_expectation_is_reviewed:
  assumes "bindR m (\<lambda>result. case result of Unpriceable _ \<Rightarrow> Inr noExpectation
      | Priceable b \<Rightarrow> Inr \<lparr>fe_expected = Some (fb_f11Total b),
          fe_audited = Some (fb_f11Total b), fe_review = False\<rparr>) = Inr e" "fe_expected e = None"
  shows "fe_review e"
proof -
  obtain x where "m = Inr x" using assms(1) by (auto simp: bindR_Inr_iff)
  with assms show ?thesis by (cases x) (auto simp: noExpectation_def)
qed

lemma forward_without_expectation_is_reviewed:
  "forwardExpectation shipment tariff w = Inr e \<Longrightarrow> fe_expected e = None \<Longrightarrow> fe_review e"
  unfolding forwardExpectation_def
  by (auto simp: noExpectation_def [symmetric] split: option.split_asm if_split_asm
      intro: audited_without_expectation_is_reviewed)
    (simp_all add: noExpectation_def)

lemma group_without_expectation_is_reviewed:
  "groupExpectation inp shipment = Inr e \<Longrightarrow> fe_expected e = None \<Longrightarrow> fe_review e"
  by (cases "mg_chargeType inp")
    (auto simp: groupExpectation_def noExpectation_def bindR_Inr_iff
      dest: forward_without_expectation_is_reviewed split: option.split_asm)

text \<open>
  INV-20 for invoice rows, and no false mismatch.  Every group that is evaluated is reported as
  not found, or flagged for review, or was compared with an expectation; an amount mismatch
  is flagged exactly when there is both an invoiced amount and an expectation and they
  differ, adjustments included, by more than the tolerance; and a group without an
  expectation is always flagged for review.
\<close>

theorem every_group_accounted_for:
  assumes "matchGroup inp = Inr r"
  shows "(mr_flagAwbNotFound r \<longleftrightarrow> mg_shipment inp = None)
    \<and> (mr_flagAwbNotFound r \<or> mr_flagReview r \<or>
        (\<exists>i x. mg_invoicedAmountTotal inp = Some i \<and> mr_expectedAmount r = Some x))
    \<and> (mr_flagAmountMismatch r \<longleftrightarrow> (\<exists>i x e. mg_invoicedAmountTotal inp = Some i
         \<and> mr_expectedAmount r = Some x \<and> rupeesToPaise x = Inr e
         \<and> \<bar>i + mg_adjustmentTotal inp - e\<bar> > mg_freightTolerance inp))
    \<and> (mr_expectedAmount r = None \<longrightarrow> mr_flagAwbNotFound r \<or> mr_flagReview r)"
proof (cases "mg_shipment inp")
  case None
  with assms show ?thesis by (auto simp: matchGroup_def)
next
  case (Some shipment)
  then obtain e where e: "groupExpectation inp shipment = Inr e"
    using assms by (auto simp: matchGroup_def bindR_Inr_iff)
  have rev: "fe_expected e = None \<Longrightarrow> fe_review e"
    using e by (rule group_without_expectation_is_reviewed)
  show ?thesis
    using assms rev by (cases "fe_expected e"; cases "mg_invoicedAmountTotal inp")
      (auto simp: matchGroup_def Some e Let_def bindR_Inr_iff amountMismatch_iff)
qed

definition exampleView :: ShipmentReconView where
  "exampleView = \<lparr>rv_shipmentId = ''s1'', rv_awbNormalized = ''AWB1'',
     rv_expectedCostBasis = Some SNAPSHOT_QUOTE, rv_providerConfirmedCharge = None,
     rv_snapshot = Some \<lparr>bs_zone = Some ZA, bs_rateCardVersionId = Some ''v1'', bs_paymentMode = COD,
       bs_collectible = ''999.00'', bs_billableWeightKg = Some ''1.200'', bs_declaredValue = ''1999.99'',
       bs_expectedQuote = Some \<lparr>sq_total = ''136.88'',
         sq_components = [\<lparr>pc_code = ''F-5'', pc_label = ''Base freight'', pc_amount = ''70.00'', pc_taxable = True\<rparr>],
         sq_rtoRule = Some \<lparr>rr_basis = SAME_AS_FORWARD, rr_pct = None\<rparr>\<rparr>\<rparr>\<rparr>"

definition exampleGroup :: MatchGroupInput where
  "exampleGroup = \<lparr>mg_awbNormalized = ''AWB1'', mg_chargeType = FORWARD, mg_chargeTypeUnmapped = False,
     mg_invoicedAmountTotal = Some 15635, mg_adjustmentTotal = 0, mg_shipment = Some exampleView,
     mg_freightTolerance = 100, mg_weightToleranceGrams = 50, mg_tariff = Some exampleTariff,
     mg_invoicedWeightKg = Some ''1.200''\<rparr>"

lemma exampleGroup_result:
  "matchGroup exampleGroup = Inr \<lparr>mr_flagAwbNotFound = False, mr_flagAmountMismatch = True,
     mr_flagReview = False, mr_expectedAmount = Some ''136.88'', mr_auditedAmount = Some ''136.88''\<rparr>"
proof -
  have a: "snapshotArgs (the (rv_snapshot exampleView)) ''1.200'' = exampleArgs"
    by (simp add: snapshotArgs_def exampleView_def exampleArgs_def)
  obtain b where b: "computeFreight exampleTariff exampleArgs = Inr (Priceable b)" "fb_f11Total b = ''136.88''"
    using pricedTotal_SomeE [OF exampleTotals(1)] by blast
  have "forwardExpectation exampleView (Some exampleTariff) (Some ''1.200'')
      = Inr \<lparr>fe_expected = Some ''136.88'', fe_audited = Some ''136.88'', fe_review = False\<rparr>"
    using b a by (simp add: forwardExpectation_def exampleView_def auditedQuote_def billableOf_def)
  moreover have "rupeesToPaise ''136.88'' = Inr 13688" by (simp add: text_eval)
  ultimately show ?thesis
    by (simp add: matchGroup_def groupExpectation_def exampleGroup_def amountMismatch_iff)
qed

lemma every_group_accounted_for_witness:
  "matchGroup exampleGroup = Inr \<lparr>mr_flagAwbNotFound = False, mr_flagAmountMismatch = True,
     mr_flagReview = False, mr_expectedAmount = Some ''136.88'', mr_auditedAmount = Some ''136.88''\<rparr>
   \<and> (\<exists>i x e. mg_invoicedAmountTotal exampleGroup = Some i \<and> rupeesToPaise x = Inr e
         \<and> \<bar>i + mg_adjustmentTotal exampleGroup - e\<bar> > mg_freightTolerance exampleGroup)"
  using every_group_accounted_for [OF exampleGroup_result] exampleGroup_result by auto

lemma rtoCharge_weight_cong:
  assumes "list_all (\<lambda>row. cr_basis row \<noteq> PER_KG_BILLABLE) (tf_components t)"
    and "kgToGrams w1 = Inr g1" "kgToGrams w2 = Inr g2"
  shows "rtoCharge b \<lparr>rs_f5BaseFreight = f, rs_billableWeightKg = w1, rs_declaredValue = d\<rparr> t
       = rtoCharge b \<lparr>rs_f5BaseFreight = f, rs_billableWeightKg = w2, rs_declaredValue = d\<rparr> t"
proof -
  have "mapR (\<lambda>row. surchargeAmount row \<lparr>sb_f5 = b, sb_f6 = fuel, sb_f7 = 0, sb_billableGrams = g1,
          sb_declaredValue = dv\<rparr>) (sortedRows t)
      = mapR (\<lambda>row. surchargeAmount row \<lparr>sb_f5 = b, sb_f6 = fuel, sb_f7 = 0, sb_billableGrams = g2,
          sb_declaredValue = dv\<rparr>) (sortedRows t)" for fuel dv
    using assms(1)
    by (intro mapR_cong refl) (auto simp: surchargeAmount_def sortedRows_def list_all_iff split: ComponentBasis.split)
  then show ?thesis using assms(2,3) by (simp add: rtoCharge_def)
qed

text \<open>
  What an RTO audit can see of the invoiced weight.  When no surcharge row of the tariff is
  charged per kilogram, the RTO expectation is the same for every well-formed invoiced weight:
  the return base is taken from the forward base freight frozen at booking and is not
  repriced on the invoiced slab, so a courier's inflated or deflated weight on a return
  changes the expectation only through per-kilogram rows.
\<close>

theorem rto_audit_weight_only_per_kg:
  assumes "list_all (\<lambda>row. cr_basis row \<noteq> PER_KG_BILLABLE) (tf_components t)"
    and "kgToGrams w1 = Inr g1" "kgToGrams w2 = Inr g2"
  shows "rtoExpectation shipment (Some t) (Some w1) = rtoExpectation shipment (Some t) (Some w2)"
proof -
  have "computeRtoExpectation r \<lparr>rs_f5BaseFreight = f, rs_billableWeightKg = w1, rs_declaredValue = d\<rparr> t
      = computeRtoExpectation r \<lparr>rs_f5BaseFreight = f, rs_billableWeightKg = w2, rs_declaredValue = d\<rparr> t" for r f d
    by (simp add: computeRtoExpectation_def rtoCharge_weight_cong [OF assms] cong: option.case_cong RtoBasis.case_cong)
  then show ?thesis
    by (auto simp: rtoExpectation_def billableOf_def split: option.split)
qed

lemma rto_audit_weight_only_per_kg_witness:
  "rtoExpectation exampleView (Some exampleTariff) (Some ''0.500'')
     = rtoExpectation exampleView (Some exampleTariff) (Some ''1.600'')"
  by (rule rto_audit_weight_only_per_kg [of exampleTariff "''0.500''" 500 "''1.600''" 1600])
    (simp_all add: exampleTariff_def exampleTexts)

end
