(* ===== verification/ReconWorkflow.thy ===== *)
theory ReconWorkflow
  imports ReconMatching
begin

text \<open>
  \<open>src/modules/recon-freight/recon-workflow.service.ts\<close> with the transition table of
  \<open>recon-freight.types.ts\<close>: row actions, dispute evidence, acceptance of a residual and the
  gate that resolves a batch.  \<open>env k\<close> is what other writers do between two statements of an
  operation; the audit log is part of the database.
\<close>

section \<open>Data\<close>

datatype ReconWorkflowState = OPEN | ACCEPTED | DISPUTE_PREPARED | SUBMITTED | RESOLVED | IGNORED

definition openDisputeStates :: "ReconWorkflowState list" where
  "openDisputeStates = [OPEN, DISPUTE_PREPARED, SUBMITTED]"

definition terminalWorkflowStates :: "ReconWorkflowState list" where
  "terminalWorkflowStates = [ACCEPTED, RESOLVED, IGNORED]"

datatype ReconBatchState = BATCH_UPLOADED | BATCH_PARSED | BATCH_MATCHED | BATCH_RESOLVED | BATCH_FAILED

datatype ReconRowAction = Accept | Dispute | Submit | Resolve | Ignore

record RowTransition =
  rt_from :: "ReconWorkflowState list"
  rt_to :: ReconWorkflowState
  rt_remarkRequired :: bool

definition rowTransitions :: "ReconRowAction \<Rightarrow> RowTransition" where
  "rowTransitions action = (case action of
      Accept \<Rightarrow> \<lparr>rt_from = [OPEN], rt_to = ACCEPTED, rt_remarkRequired = False\<rparr>
    | Dispute \<Rightarrow> \<lparr>rt_from = [OPEN, DISPUTE_PREPARED], rt_to = DISPUTE_PREPARED, rt_remarkRequired = True\<rparr>
    | Submit \<Rightarrow> \<lparr>rt_from = [DISPUTE_PREPARED], rt_to = SUBMITTED, rt_remarkRequired = False\<rparr>
    | Resolve \<Rightarrow> \<lparr>rt_from = [DISPUTE_PREPARED, SUBMITTED], rt_to = RESOLVED, rt_remarkRequired = False\<rparr>
    | Ignore \<Rightarrow> \<lparr>rt_from = [OPEN], rt_to = IGNORED, rt_remarkRequired = False\<rparr>)"

record RowRecord =
  fr_row_id :: string
  fr_batch_id :: string
  fr_workflow_state :: ReconWorkflowState
  fr_remark :: "string option"
  fr_dispute_evidence :: "string option"
  fr_version :: int

record BatchRecord =
  bt_batch_id :: string
  bt_shop_id :: string
  bt_courier_account_id :: string
  bt_declared_invoice_total :: "string option"
  bt_state :: ReconBatchState
  bt_control_total_state :: ControlTotalState
  bt_residual_remark :: "string option"
  bt_version :: int

datatype ReconAudit =
    RowAction ReconRowAction string "ReconWorkflowState \<times> string option \<times> int"
      "ReconWorkflowState \<times> string option \<times> bool"
  | EvidenceAttached string "string option" string
  | ResidualAccepted string "ControlTotalState \<times> int" "string \<times> bool"

record ReconDb =
  db_rows :: "RowRecord list"
  db_batches :: "BatchRecord list"
  db_audit :: "ReconAudit list"

datatype RowErrorCode = ROW_NOT_FOUND | INVALID_TRANSITION | VERSION_CONFLICT | REMARK_REQUIRED

datatype RowActionResult =
    RowDone string ReconWorkflowState bool
  | RowRefused RowErrorCode "ReconWorkflowState option" "int option"

datatype ResidualErrorCode = BATCH_NOT_FOUND | INVALID_STATE | RESIDUAL_CONFLICT | RESIDUAL_REMARK_REQUIRED

datatype ResidualAcceptanceResult =
    ResidualDone string ControlTotalState bool
  | ResidualRefused ResidualErrorCode "ControlTotalState option" "int option"

record ActInput =
  ai_shopId :: string
  ai_rowId :: string
  ai_action :: ReconRowAction
  ai_remark :: "string option"
  ai_expectedVersion :: int

section \<open>Statements\<close>

definition loadRow :: "ReconDb \<Rightarrow> string \<Rightarrow> string \<Rightarrow> RowRecord option" where
  "loadRow db shopId rowId = List.find (\<lambda>r. fr_row_id r = rowId
     \<and> list_ex (\<lambda>b. bt_batch_id b = fr_batch_id r \<and> bt_shop_id b = shopId) (db_batches db)) (db_rows db)"

text \<open>An UPDATE of the rows that satisfy a condition, with the number of rows hit.\<close>

definition updateRows :: "(RowRecord \<Rightarrow> bool) \<Rightarrow> (RowRecord \<Rightarrow> RowRecord) \<Rightarrow> ReconDb \<Rightarrow> ReconDb \<times> nat" where
  "updateRows cond f db = (db\<lparr>db_rows := map (\<lambda>r. if cond r then f r else r) (db_rows db)\<rparr>,
     length (filter cond (db_rows db)))"

definition updateBatches ::
  "(BatchRecord \<Rightarrow> bool) \<Rightarrow> (BatchRecord \<Rightarrow> BatchRecord) \<Rightarrow> ReconDb \<Rightarrow> ReconDb \<times> nat" where
  "updateBatches cond f db = (db\<lparr>db_batches := map (\<lambda>b. if cond b then f b else b) (db_batches db)\<rparr>,
     length (filter cond (db_batches db)))"

definition audit :: "ReconAudit \<Rightarrow> ReconDb \<Rightarrow> ReconDb" where
  "audit a db = db\<lparr>db_audit := db_audit db @ [a]\<rparr>"

definition mayResolve :: "ReconDb \<Rightarrow> string \<Rightarrow> BatchRecord \<Rightarrow> bool" where
  "mayResolve db batchId b \<longleftrightarrow> bt_batch_id b = batchId \<and> bt_state b = BATCH_MATCHED
     \<and> bt_control_total_state b \<noteq> MISMATCH
     \<and> \<not> list_ex (\<lambda>r. fr_batch_id r = bt_batch_id b
           \<and> fr_workflow_state r \<notin> set terminalWorkflowStates) (db_rows db)"

definition maybeResolveBatch :: "string \<Rightarrow> ReconDb \<Rightarrow> ReconDb \<times> bool" where
  "maybeResolveBatch batchId db =
     (let (db', rowCount) = updateBatches (mayResolve db batchId)
        (\<lambda>b. b\<lparr>bt_state := BATCH_RESOLVED, bt_version := bt_version b + 1\<rparr>) db
      in (db', rowCount = 1))"

text \<open>What the UPDATE of a row action matches, and what it writes.\<close>

definition rowMatches :: "string \<Rightarrow> int \<Rightarrow> ReconWorkflowState \<Rightarrow> RowRecord \<Rightarrow> bool" where
  "rowMatches rowId version state r \<longleftrightarrow>
     fr_row_id r = rowId \<and> fr_version r = version \<and> fr_workflow_state r = state"

definition moveRow :: "ReconWorkflowState \<Rightarrow> string option \<Rightarrow> RowRecord \<Rightarrow> RowRecord" where
  "moveRow to remark r = r\<lparr>fr_workflow_state := to,
     fr_remark := (case remark of Some x \<Rightarrow> Some x | None \<Rightarrow> fr_remark r), fr_version := fr_version r + 1\<rparr>"

definition rowConflict :: "ReconDb \<Rightarrow> string \<Rightarrow> string \<Rightarrow> RowActionResult" where
  "rowConflict db shopId rowId = (let current = loadRow db shopId rowId in
     RowRefused VERSION_CONFLICT (map_option fr_workflow_state current) (map_option fr_version current))"

section \<open>Operations\<close>

definition act :: "(nat \<Rightarrow> ReconDb \<Rightarrow> ReconDb) \<Rightarrow> ActInput \<Rightarrow> ReconDb \<Rightarrow> RowActionResult \<times> ReconDb" where
  "act env inp db =
     (let transition = rowTransitions (ai_action inp) in
      case loadRow db (ai_shopId inp) (ai_rowId inp) of
        None \<Rightarrow> (RowRefused ROW_NOT_FOUND None None, db)
      | Some row \<Rightarrow>
          if fr_workflow_state row \<notin> set (rt_from transition) then
            (RowRefused INVALID_TRANSITION (Some (fr_workflow_state row)) (Some (fr_version row)), db)
          else if rt_remarkRequired transition
              \<and> trim (case ai_remark inp of Some x \<Rightarrow> x | None \<Rightarrow> '''') = '''' then
            (RowRefused REMARK_REQUIRED None None, db)
          else
            (let (db1, rowCount) = updateRows
                   (rowMatches (ai_rowId inp) (ai_expectedVersion inp) (fr_workflow_state row))
                   (moveRow (rt_to transition) (ai_remark inp)) (env 0 db)
             in if rowCount \<noteq> 1 then
                  (rowConflict (env 1 db1) (ai_shopId inp) (ai_rowId inp), env 1 db1)
                else
                  (let (db2, batchResolved) = maybeResolveBatch (fr_batch_id row) (env 1 db1)
                   in (RowDone (ai_rowId inp) (rt_to transition) batchResolved,
                       audit (RowAction (ai_action inp) (ai_rowId inp)
                           (fr_workflow_state row, fr_remark row, fr_version row)
                           (rt_to transition,
                            case ai_remark inp of Some x \<Rightarrow> Some x | None \<Rightarrow> fr_remark row, batchResolved))
                         db2))))"

definition attachEvidence ::
  "(nat \<Rightarrow> ReconDb \<Rightarrow> ReconDb) \<Rightarrow> string \<Rightarrow> string \<Rightarrow> string \<Rightarrow> int \<Rightarrow> ReconDb \<Rightarrow> RowActionResult \<times> ReconDb" where
  "attachEvidence env shopId rowId objectKey expectedVersion db =
     (case loadRow db shopId rowId of
        None \<Rightarrow> (RowRefused ROW_NOT_FOUND None None, db)
      | Some row \<Rightarrow>
          if \<not> starts_with (''shops/'' @ shopId @ ''/'') objectKey \<or> includes_str ''..'' objectKey then
            (RowRefused INVALID_TRANSITION None None, db)
          else
            (let (db1, rowCount) = updateRows
                   (\<lambda>r. fr_row_id r = rowId \<and> fr_version r = expectedVersion)
                   (\<lambda>r. r\<lparr>fr_dispute_evidence := Some objectKey, fr_version := fr_version r + 1\<rparr>) (env 0 db)
             in if rowCount \<noteq> 1 then (rowConflict (env 1 db1) shopId rowId, env 1 db1)
                else (RowDone rowId (fr_workflow_state row) False,
                      audit (EvidenceAttached rowId (fr_dispute_evidence row) objectKey) (env 1 db1))))"

definition acceptResidual ::
  "(nat \<Rightarrow> ReconDb \<Rightarrow> ReconDb) \<Rightarrow> string \<Rightarrow> string \<Rightarrow> string \<Rightarrow> int \<Rightarrow> ReconDb
     \<Rightarrow> ResidualAcceptanceResult \<times> ReconDb" where
  "acceptResidual env shopId batchId remark expectedVersion db =
     (if trim remark = '''' then (ResidualRefused RESIDUAL_REMARK_REQUIRED None None, db)
      else case List.find (\<lambda>b. bt_batch_id b = batchId \<and> bt_shop_id b = shopId) (db_batches db) of
        None \<Rightarrow> (ResidualRefused BATCH_NOT_FOUND None None, db)
      | Some batch \<Rightarrow>
          if bt_control_total_state batch = ACCEPTED_WITH_REMARK \<or> bt_state batch \<noteq> BATCH_MATCHED then
            (ResidualRefused INVALID_STATE (Some (bt_control_total_state batch)) (Some (bt_version batch)), db)
          else
            (let (db1, rowCount) = updateBatches
                   (\<lambda>b. bt_batch_id b = batchId \<and> bt_version b = expectedVersion
                      \<and> bt_control_total_state b \<noteq> ACCEPTED_WITH_REMARK)
                   (\<lambda>b. b\<lparr>bt_control_total_state := ACCEPTED_WITH_REMARK,
                      bt_residual_remark := Some remark, bt_version := bt_version b + 1\<rparr>) (env 0 db)
             in if rowCount \<noteq> 1 then
                  (ResidualRefused RESIDUAL_CONFLICT (Some (bt_control_total_state batch))
                     (Some (bt_version batch)), db1)
                else
                  (let (db2, batchResolved) = maybeResolveBatch batchId (env 1 db1)
                   in (ResidualDone batchId ACCEPTED_WITH_REMARK batchResolved,
                       audit (ResidualAccepted batchId (bt_control_total_state batch, bt_version batch)
                         (remark, batchResolved)) db2))))"

definition openDisputeRowCount :: "ReconDb \<Rightarrow> string \<Rightarrow> nat" where
  "openDisputeRowCount db batchId = length (filter (\<lambda>r. fr_batch_id r = batchId
     \<and> fr_workflow_state r \<in> set openDisputeStates) (db_rows db))"

end
