(* ===== verification/Recon_Laws.thy ===== *)
theory Recon_Laws
  imports ReconWorkflow
begin

text \<open>
  The workflow of recon rows under concurrent writers.  \<open>recon_step\<close> lists every write of the
  repository to the two tables, the import and the processing worker included; a RESOLVED
  batch stays justified along all of them, and undisturbed operations are exact.
\<close>

section \<open>Writes\<close>

text \<open>The fields no write of a row changes, and what a write may do to its state.\<close>

inductive recon_step :: "ReconDb \<Rightarrow> ReconDb \<Rightarrow> bool" where
  row_action: "s \<in> set (rt_from (rowTransitions a)) \<Longrightarrow>
    recon_step db (fst (updateRows (rowMatches rowId v s) (moveRow (rt_to (rowTransitions a)) remark) db))"
| evidence: "recon_step db (fst (updateRows (\<lambda>r. fr_row_id r = rowId \<and> fr_version r = v)
      (\<lambda>r. r\<lparr>fr_dispute_evidence := Some key, fr_version := fr_version r + 1\<rparr>) db))"
| residual: "trim remark \<noteq> '''' \<Longrightarrow>
    recon_step db (fst (updateBatches
      (\<lambda>b. bt_batch_id b = batchId \<and> bt_version b = v \<and> bt_control_total_state b \<noteq> ACCEPTED_WITH_REMARK)
      (\<lambda>b. b\<lparr>bt_control_total_state := ACCEPTED_WITH_REMARK,
         bt_residual_remark := Some remark, bt_version := bt_version b + 1\<rparr>) db))"
| resolve: "recon_step db (fst (maybeResolveBatch batchId db))"
| log: "recon_step db (audit a db)"
| upload: "bt_state b = BATCH_UPLOADED \<Longrightarrow> bt_batch_id b \<notin> bt_batch_id ` set (db_batches db) \<Longrightarrow>
    recon_step db (db\<lparr>db_batches := db_batches db @ [b]\<rparr>)"
| parse: "list_all (\<lambda>b. c b \<longrightarrow> bt_state b \<in> {BATCH_UPLOADED, BATCH_PARSED}) (db_batches db) \<Longrightarrow>
    st \<in> {BATCH_PARSED, BATCH_FAILED} \<Longrightarrow>
    recon_step db (fst (updateBatches c (\<lambda>b. b\<lparr>bt_state := st, bt_version := bt_version b + 1\<rparr>) db))"
| match: "list_all (\<lambda>b. bt_batch_id b = batchId \<longrightarrow> c b \<and> bt_state b = BATCH_PARSED) (db_batches db) \<Longrightarrow>
    list_all (\<lambda>b. c b \<longrightarrow> bt_batch_id b = batchId) (db_batches db) \<Longrightarrow>
    list_all (\<lambda>r. fr_batch_id r = batchId \<and> fr_workflow_state r = OPEN) new \<Longrightarrow>
    recon_step db ((fst (updateBatches c
      (\<lambda>b. b\<lparr>bt_state := BATCH_MATCHED, bt_control_total_state := ct, bt_version := bt_version b + 1\<rparr>) db))
      \<lparr>db_rows := db_rows db @ new\<rparr>)"

inductive_cases recon_stepE: "recon_step db db'"

definition wfReconEnv :: "(nat \<Rightarrow> ReconDb \<Rightarrow> ReconDb) \<Rightarrow> bool" where
  "wfReconEnv env \<longleftrightarrow> (\<forall>k db. recon_step\<^sup>*\<^sup>* db (env k db))"

text \<open>Section 3.18: a RESOLVED batch has no open row and no control-total mismatch.\<close>

definition rowsTerminal :: "ReconDb \<Rightarrow> string \<Rightarrow> bool" where
  "rowsTerminal db batchId \<longleftrightarrow> list_all (\<lambda>r. fr_batch_id r = batchId \<longrightarrow>
     fr_workflow_state r \<in> set terminalWorkflowStates) (db_rows db)"

definition resolvedSound :: "ReconDb \<Rightarrow> bool" where
  "resolvedSound db \<longleftrightarrow> list_all (\<lambda>b. bt_state b = BATCH_RESOLVED \<longrightarrow>
     bt_control_total_state b \<noteq> MISMATCH \<and> rowsTerminal db (bt_batch_id b)) (db_batches db)"

lemma updateRows_fields [simp]:
  "db_rows (fst (updateRows c f db)) = map (\<lambda>r. if c r then f r else r) (db_rows db)"
  "db_batches (fst (updateRows c f db)) = db_batches db"
  "db_audit (fst (updateRows c f db)) = db_audit db"
  by (simp_all add: updateRows_def)

lemma updateBatches_fields [simp]:
  "db_batches (fst (updateBatches d g db)) = map (\<lambda>b. if d b then g b else b) (db_batches db)"
  "db_rows (fst (updateBatches d g db)) = db_rows db"
  "db_audit (fst (updateBatches d g db)) = db_audit db"
  by (simp_all add: updateBatches_def)

lemma maybeResolveBatch_fields [simp]:
  "db_rows (fst (maybeResolveBatch batchId db)) = db_rows db"
  "db_batches (fst (maybeResolveBatch batchId db)) = map (\<lambda>b. if mayResolve db batchId b
     then b\<lparr>bt_state := BATCH_RESOLVED, bt_version := bt_version b + 1\<rparr> else b) (db_batches db)"
  by (simp_all add: maybeResolveBatch_def updateBatches_def Let_def)

lemma audit_fields [simp]:
  "db_rows (audit a db) = db_rows db" "db_batches (audit a db) = db_batches db"
  by (simp_all add: audit_def)

lemma moveRow_fields [simp]:
  "fr_batch_id (moveRow to rm r) = fr_batch_id r" "fr_row_id (moveRow to rm r) = fr_row_id r"
  "fr_workflow_state (moveRow to rm r) = to" "fr_version (moveRow to rm r) = fr_version r + 1"
  by (simp_all add: moveRow_def)

lemma from_not_terminal: "s \<in> set (rt_from (rowTransitions a)) \<Longrightarrow> s \<notin> set terminalWorkflowStates"
  by (cases a) (auto simp: rowTransitions_def terminalWorkflowStates_def)

lemma rowsTerminal_update:
  "rowsTerminal db b \<Longrightarrow> (\<And>r. c r \<Longrightarrow> fr_batch_id (f r) = fr_batch_id r) \<Longrightarrow>
   (\<And>r. c r \<Longrightarrow> fr_workflow_state r \<in> set terminalWorkflowStates \<Longrightarrow>
      fr_workflow_state (f r) \<in> set terminalWorkflowStates) \<Longrightarrow>
   rowsTerminal (fst (updateRows c f db)) b"
  by (auto simp: rowsTerminal_def list_all_iff)

lemma rowsTerminal_cong: "db_rows db' = db_rows db \<Longrightarrow> rowsTerminal db' b = rowsTerminal db b"
  by (simp add: rowsTerminal_def)

lemma mayResolve_iff: "mayResolve db batchId b \<longleftrightarrow> bt_batch_id b = batchId \<and> bt_state b = BATCH_MATCHED
    \<and> bt_control_total_state b \<noteq> MISMATCH \<and> rowsTerminal db batchId"
  by (auto simp: mayResolve_def rowsTerminal_def list_ex_iff list_all_iff)

lemma step_resolvedSound: "recon_step db db' \<Longrightarrow> resolvedSound db \<Longrightarrow> resolvedSound db'"
proof (induction rule: recon_step.induct)
  case (row_action s a db rowId v remark)
  have "rowsTerminal db b \<Longrightarrow> rowsTerminal (fst (updateRows (rowMatches rowId v s)
      (moveRow (rt_to (rowTransitions a)) remark) db)) b" for b
    using from_not_terminal [OF row_action.hyps] by (rule_tac rowsTerminal_update) (auto simp: rowMatches_def)
  with row_action.prems show ?case by (auto simp: resolvedSound_def list_all_iff)
next
  case (evidence db rowId v key)
  have "rowsTerminal db b \<Longrightarrow> rowsTerminal (fst (updateRows (\<lambda>r. fr_row_id r = rowId \<and> fr_version r = v)
      (\<lambda>r. r\<lparr>fr_dispute_evidence := Some key, fr_version := fr_version r + 1\<rparr>) db)) b" for b
    by (rule rowsTerminal_update) auto
  with evidence show ?case by (auto simp: resolvedSound_def list_all_iff)
next
  case (residual remark db batchId v)
  then show ?case
    by (auto simp: resolvedSound_def list_all_iff rowsTerminal_cong [of "fst (updateBatches _ _ db)" db])
next
  case (resolve db batchId)
  then show ?case
    by (auto simp: resolvedSound_def list_all_iff mayResolve_iff
        rowsTerminal_cong [of "fst (maybeResolveBatch batchId db)" db])
next
  case (log db a)
  then show ?case by (simp add: resolvedSound_def rowsTerminal_def)
next
  case (upload b db)
  then show ?case by (simp add: resolvedSound_def rowsTerminal_def)
next
  case (parse c db st)
  then show ?case
    by (auto simp: resolvedSound_def list_all_iff rowsTerminal_cong [of "fst (updateBatches _ _ db)" db])
next
  case (match batchId c db new ct)
  then show ?case
    by (auto simp: resolvedSound_def list_all_iff rowsTerminal_def)
qed

interpretation resolution: invariant_system recon_step resolvedSound
  by unfold_locales (rule step_resolvedSound)

text \<open>A row in a terminal state is never moved again.\<close>

definition rowSettled :: "string \<Rightarrow> ReconWorkflowState \<Rightarrow> string option \<Rightarrow> ReconDb \<Rightarrow> bool" where
  "rowSettled rowId st remark db \<longleftrightarrow> st \<in> set terminalWorkflowStates
     \<and> (\<exists>r \<in> set (db_rows db). fr_row_id r = rowId \<and> fr_workflow_state r = st \<and> fr_remark r = remark)"

lemma rowSettled_map:
  assumes "rowSettled rowId st remark db" "db_rows db' = map g (db_rows db) @ new"
    and g: "\<And>r. fr_workflow_state r \<in> set terminalWorkflowStates \<Longrightarrow>
      fr_row_id (g r) = fr_row_id r \<and> fr_workflow_state (g r) = fr_workflow_state r \<and> fr_remark (g r) = fr_remark r"
  shows "rowSettled rowId st remark db'"
proof -
  obtain r where "r \<in> set (db_rows db)" "fr_row_id r = rowId" "fr_workflow_state r = st" "fr_remark r = remark"
    "st \<in> set terminalWorkflowStates" using assms(1) by (auto simp: rowSettled_def)
  with g [of r] have "g r \<in> set (db_rows db')" "fr_row_id (g r) = rowId"
    "fr_workflow_state (g r) = st" "fr_remark (g r) = remark" "st \<in> set terminalWorkflowStates"
    using assms(2) by auto
  then show ?thesis by (auto simp: rowSettled_def)
qed

lemma rowSettled_same: "rowSettled rowId st remark db \<Longrightarrow> db_rows db' = db_rows db \<Longrightarrow> rowSettled rowId st remark db'"
  by (simp add: rowSettled_def)

lemma step_rowSettled: "recon_step db db' \<Longrightarrow> rowSettled rowId st remark db \<Longrightarrow> rowSettled rowId st remark db'"
proof (induction rule: recon_step.induct)
  case (row_action s a db rowId' v remark')
  show ?case
    by (rule rowSettled_map [where new = "[]" and g = "\<lambda>r. if rowMatches rowId' v s r
          then moveRow (rt_to (rowTransitions a)) remark' r else r", OF row_action.prems], simp)
      (use from_not_terminal [OF row_action.hyps] in \<open>auto simp: rowMatches_def\<close>)
next
  case (evidence db rowId' v key)
  show ?case
    by (rule rowSettled_map [where new = "[]" and g = "\<lambda>r. if fr_row_id r = rowId' \<and> fr_version r = v
          then r\<lparr>fr_dispute_evidence := Some key, fr_version := fr_version r + 1\<rparr> else r", OF evidence.prems]) simp_all
next
  case (match batchId c db new ct)
  show ?case by (rule rowSettled_map [where g = id and new = new, OF match.prems]) simp_all
qed (simp_all add: rowSettled_def)

interpretation settled_row: invariant_system recon_step "rowSettled rowId st remark" for rowId st remark
  by unfold_locales (rule step_rowSettled)

section \<open>Operations under other writers\<close>

lemma envReach: "wfReconEnv env \<Longrightarrow> recon_step\<^sup>*\<^sup>* db0 db \<Longrightarrow> recon_step\<^sup>*\<^sup>* db0 (env k db)"
  unfolding wfReconEnv_def by (meson rtranclp_trans)

lemma stepReach: "recon_step db db' \<Longrightarrow> recon_step\<^sup>*\<^sup>* db0 db \<Longrightarrow> recon_step\<^sup>*\<^sup>* db0 db'"
  by (rule rtranclp.rtrancl_into_rtrancl)

lemmas reach_intros = rtranclp.rtrancl_refl stepReach [OF recon_step.log] stepReach [OF recon_step.resolve]
  stepReach [OF recon_step.evidence] stepReach [OF recon_step.residual] stepReach [OF recon_step.row_action]

lemma act_reaches:
  assumes "wfReconEnv env"
  shows "recon_step\<^sup>*\<^sup>* db (snd (act env inp db))"
  unfolding act_def Let_def split_def
  by (simp split: option.split) (intro allI impI reach_intros envReach [OF assms] conjI; assumption)

lemma attachEvidence_reaches:
  assumes "wfReconEnv env"
  shows "recon_step\<^sup>*\<^sup>* db (snd (attachEvidence env s r k v db))"
  unfolding attachEvidence_def Let_def split_def
  by (simp split: option.split) (intro allI impI reach_intros envReach [OF assms] conjI)

lemma acceptResidual_reaches:
  assumes "wfReconEnv env"
  shows "recon_step\<^sup>*\<^sup>* db (snd (acceptResidual env s b rm v db))"
  unfolding acceptResidual_def Let_def split_def
  by (simp split: option.split) (intro allI impI reach_intros envReach [OF assms] conjI; simp)

text \<open>
  C11: A resolved batch stays justified, under every interleaving.  Whatever other members, imports
  and workers write between the statements of a row action, an attachment of evidence or an
  acceptance of a residual, afterwards every RESOLVED batch still has only terminal rows and
  no control-total mismatch, and every row that was terminal keeps its state and remark.
\<close>

theorem resolved_batches_stay_justified:
  assumes "wfReconEnv env" "resolvedSound db"
    and "db' \<in> {snd (act env inp db), snd (attachEvidence env shop rowId key v db),
                 snd (acceptResidual env shop batchId remark v db)}"
  shows "resolvedSound db' \<and> (rowSettled r st rm db \<longrightarrow> rowSettled r st rm db')"
proof -
  have "recon_step\<^sup>*\<^sup>* db db'"
    using assms(1,3) by (auto intro: act_reaches attachEvidence_reaches acceptResidual_reaches)
  then show ?thesis using assms(2) resolution.reachable settled_row.reachable by blast
qed

definition exampleDb :: ReconDb where
  "exampleDb = \<lparr>
     db_rows = [\<lparr>fr_row_id = ''r1'', fr_batch_id = ''b1'', fr_workflow_state = OPEN, fr_remark = None,
                  fr_dispute_evidence = None, fr_version = 1\<rparr>,
                \<lparr>fr_row_id = ''r2'', fr_batch_id = ''b1'', fr_workflow_state = ACCEPTED, fr_remark = None,
                  fr_dispute_evidence = None, fr_version = 2\<rparr>],
     db_batches = [\<lparr>bt_batch_id = ''b1'', bt_shop_id = ''shop'',
                  bt_courier_account_id = ''acc'', bt_declared_invoice_total = None, bt_state = BATCH_MATCHED,
                  bt_control_total_state = WITHIN_THRESHOLD, bt_residual_remark = None, bt_version = 3\<rparr>],
     db_audit = []\<rparr>"

definition exampleAct :: ActInput where
  "exampleAct = \<lparr>ai_shopId = ''shop'', ai_rowId = ''r1'', ai_action = Accept, ai_remark = None,
     ai_expectedVersion = 1\<rparr>"

definition quietEnv :: "nat \<Rightarrow> ReconDb \<Rightarrow> ReconDb" where
  "quietEnv k db = db"

lemma wf_quietEnv [simp]: "wfReconEnv quietEnv"
  by (simp add: wfReconEnv_def quietEnv_def)

lemma exampleDb_sound: "resolvedSound exampleDb"
  by (simp add: resolvedSound_def exampleDb_def)

lemma resolved_batches_stay_justified_witness:
  "resolvedSound (snd (act quietEnv exampleAct exampleDb))
   \<and> rowSettled ''r2'' ACCEPTED None (snd (act quietEnv exampleAct exampleDb))"
proof -
  have "rowSettled ''r2'' ACCEPTED None exampleDb"
    by (simp add: rowSettled_def exampleDb_def terminalWorkflowStates_def)
  then show ?thesis
    using resolved_batches_stay_justified [OF wf_quietEnv exampleDb_sound insertI1, of exampleAct] by blast
qed

section \<open>Undisturbed row actions\<close>

definition distinctDb :: "ReconDb \<Rightarrow> bool" where
  "distinctDb db \<longleftrightarrow> distinct (map fr_row_id (db_rows db)) \<and> distinct (map bt_batch_id (db_batches db))"

text \<open>When the request is acceptable: the transition table, the remark and the version.\<close>

definition actAllowed :: "ActInput \<Rightarrow> RowRecord \<Rightarrow> bool" where
  "actAllowed inp row \<longleftrightarrow> fr_workflow_state row \<in> set (rt_from (rowTransitions (ai_action inp)))
     \<and> (ai_action inp = Dispute \<longrightarrow> (\<exists>x. ai_remark inp = Some x \<and> trim x \<noteq> []))
     \<and> fr_version row = ai_expectedVersion inp"

lemma filter_key: "distinct (map f xs) \<Longrightarrow> x \<in> set xs \<Longrightarrow>
    filter (\<lambda>y. f y = f x \<and> P y) xs = (if P x then [x] else [])"
proof (induction xs)
  case Nil
  then show ?case by simp
next
  case (Cons z xs)
  have none: "filter (\<lambda>y. f y = f z \<and> P y) xs = []"
    using Cons.prems(1) by (simp add: filter_empty_conv image_iff) metis
  show ?case
  proof (cases "x = z")
    case True
    with none show ?thesis by simp
  next
    case False
    with Cons.prems have "f z \<noteq> f x" by (metis distinct.simps(2) image_eqI list.simps(9) set_ConsD set_map)
    with False Cons show ?thesis by simp
  qed
qed

lemma rowMatches_count:
  assumes "distinct (map fr_row_id (db_rows db))" "row \<in> set (db_rows db)" "fr_row_id row = rowId"
  shows "snd (updateRows (rowMatches rowId v (fr_workflow_state row)) f db) = (if fr_version row = v then 1 else 0)"
  using filter_key [OF assms(1,2), of "\<lambda>r. fr_version r = v \<and> fr_workflow_state r = fr_workflow_state row"] assms(3)
  by (simp add: updateRows_def rowMatches_def [abs_def])

lemma refused_update: "snd (updateRows c f db) = 0 \<Longrightarrow> fst (updateRows c f db) = db"
  by (auto simp: updateRows_def filter_empty_conv intro!: ReconDb.equality map_idI)

lemma resolved_count:
  assumes "distinct (map bt_batch_id (db_batches db))"
  shows "snd (maybeResolveBatch batchId db) \<longleftrightarrow> (\<exists>b \<in> set (db_batches db). bt_batch_id b = batchId
    \<and> bt_state b = BATCH_MATCHED \<and> bt_control_total_state b \<noteq> MISMATCH \<and> rowsTerminal db batchId)"
proof (cases "\<exists>b \<in> set (db_batches db). bt_batch_id b = batchId")
  case True
  then obtain b where b: "b \<in> set (db_batches db)" "bt_batch_id b = batchId" by blast
  have u: "b' = b" if "b' \<in> set (db_batches db)" "bt_batch_id b' = batchId" for b'
    using that b assms by (metis distinct_map inj_onD)
  have "mayResolve db batchId = (\<lambda>y. bt_batch_id y = bt_batch_id b \<and> bt_state y = BATCH_MATCHED
      \<and> bt_control_total_state y \<noteq> MISMATCH \<and> rowsTerminal db batchId)"
    using b(2) by (simp add: fun_eq_iff mayResolve_iff)
  then have "filter (mayResolve db batchId) (db_batches db) = (if bt_state b = BATCH_MATCHED
      \<and> bt_control_total_state b \<noteq> MISMATCH \<and> rowsTerminal db batchId then [b] else [])"
    using filter_key [OF assms b(1)] by simp
  then have "snd (maybeResolveBatch batchId db) \<longleftrightarrow> bt_state b = BATCH_MATCHED
      \<and> bt_control_total_state b \<noteq> MISMATCH \<and> rowsTerminal db batchId"
    by (simp add: maybeResolveBatch_def updateBatches_def Let_def)
  with b u show ?thesis by blast
next
  case False
  then have "filter (mayResolve db batchId) (db_batches db) = []"
    by (auto simp: filter_empty_conv mayResolve_iff)
  with False show ?thesis by (auto simp: maybeResolveBatch_def updateBatches_def Let_def)
qed

lemma loadRow_Some: "loadRow db s i = Some r \<Longrightarrow> r \<in> set (db_rows db) \<and> fr_row_id r = i"
  by (auto simp: loadRow_def find_Some_iff)

text \<open>
  An undisturbed row action is exact.  It succeeds precisely when the row exists in the shop,
  the transition table lists its state, a dispute brings a remark and the version is the
  expected one; then exactly that row changes, to the listed target, and the batch is reported
  resolved exactly when it was MATCHED without a control-total mismatch and this was its last
  open row.  When it is refused, the database does not change.
\<close>

theorem act_exact:
  assumes "distinctDb db"
  shows "(case loadRow db (ai_shopId inp) (ai_rowId inp) of
      None \<Rightarrow> act quietEnv inp db = (RowRefused ROW_NOT_FOUND None None, db)
    | Some row \<Rightarrow>
        (if actAllowed inp row then
           (\<exists>resolved. fst (act quietEnv inp db)
                = RowDone (ai_rowId inp) (rt_to (rowTransitions (ai_action inp))) resolved
            \<and> db_rows (snd (act quietEnv inp db)) = map (\<lambda>r. if fr_row_id r = ai_rowId inp
                then moveRow (rt_to (rowTransitions (ai_action inp))) (ai_remark inp) r else r) (db_rows db)
            \<and> (resolved \<longleftrightarrow> (\<exists>b \<in> set (db_batches db). bt_batch_id b = fr_batch_id row
                \<and> bt_state b = BATCH_MATCHED \<and> bt_control_total_state b \<noteq> MISMATCH
                \<and> rowsTerminal (snd (act quietEnv inp db)) (fr_batch_id row))))
         else (\<exists>code st ver. act quietEnv inp db = (RowRefused code st ver, db))))"
proof (cases "loadRow db (ai_shopId inp) (ai_rowId inp)")
  case None
  then show ?thesis by (simp add: act_def)
next
  case (Some row)
  note row = loadRow_Some [OF Some]
  let ?t = "rowTransitions (ai_action inp)"
  let ?c = "rowMatches (ai_rowId inp) (ai_expectedVersion inp) (fr_workflow_state row)"
  let ?db1 = "fst (updateRows ?c (moveRow (rt_to ?t) (ai_remark inp)) db)"
  have d: "distinct (map fr_row_id (db_rows db))" "distinct (map bt_batch_id (db_batches db))"
    using assms by (simp_all add: distinctDb_def)
  note count = rowMatches_count [OF d(1) conjunct1 [OF row] conjunct2 [OF row]]
  have remark: "rt_remarkRequired ?t \<and> trim (case ai_remark inp of Some x \<Rightarrow> x | None \<Rightarrow> []) = []
      \<longleftrightarrow> \<not> (ai_action inp = Dispute \<longrightarrow> (\<exists>x. ai_remark inp = Some x \<and> trim x \<noteq> []))"
    by (cases "ai_action inp"; cases "ai_remark inp") (simp_all add: rowTransitions_def)
  show ?thesis
  proof (cases "actAllowed inp row")
    case True
    have v: "fr_version row = ai_expectedVersion inp" using True by (simp add: actAllowed_def)
    have a: "fst (act quietEnv inp db) = RowDone (ai_rowId inp) (rt_to ?t) (snd (maybeResolveBatch (fr_batch_id row) ?db1))"
      "db_rows (snd (act quietEnv inp db)) = db_rows ?db1"
      using True remark Some count by (auto simp: act_def Let_def split_def actAllowed_def quietEnv_def)
    have only: "?c r \<longleftrightarrow> fr_row_id r = ai_rowId inp" if "r \<in> set (db_rows db)" for r
      using that row v d(1) by (auto simp: rowMatches_def distinct_map inj_on_def)
    have rows: "db_rows ?db1 = map (\<lambda>r. if fr_row_id r = ai_rowId inp
        then moveRow (rt_to ?t) (ai_remark inp) r else r) (db_rows db)"
      using only by simp
    have "snd (maybeResolveBatch (fr_batch_id row) ?db1) \<longleftrightarrow> (\<exists>b \<in> set (db_batches db). bt_batch_id b = fr_batch_id row
        \<and> bt_state b = BATCH_MATCHED \<and> bt_control_total_state b \<noteq> MISMATCH \<and> rowsTerminal ?db1 (fr_batch_id row))"
      using resolved_count [of ?db1] d(2) by simp
    with a rows Some True rowsTerminal_cong [OF a(2)] show ?thesis by simp
  next
    case False
    with remark Some count show ?thesis
      by (auto simp: act_def Let_def split_def actAllowed_def quietEnv_def rowConflict_def refused_update)
  qed
qed

lemma act_exact_witness:
  "\<exists>resolved. fst (act quietEnv exampleAct exampleDb) = RowDone ''r1'' ACCEPTED resolved \<and> resolved"
proof -
  have "distinctDb exampleDb" by (simp add: distinctDb_def exampleDb_def)
  from act_exact [OF this, of exampleAct] show ?thesis
    by (simp add: loadRow_def exampleAct_def exampleDb_def actAllowed_def rowTransitions_def
        act_def Let_def split_def quietEnv_def updateRows_def rowMatches_def moveRow_def maybeResolveBatch_def
        updateBatches_def mayResolve_def terminalWorkflowStates_def rowsTerminal_def audit_def)
qed

end
