(* ===== verification/ReconProcessing.thy ===== *)
theory ReconProcessing
  imports Recon_Laws
begin

text \<open>
  \<open>src/modules/recon-freight/recon-processing.service.ts\<close>: an imported invoice is grouped by AWB
  and charge type, adjustments are linked to the rows they adjust, every group is evaluated,
  and the rows, links and control total are written in one transaction.  What the database and
  the object store answer are arguments: the parsed file, the shipments of the shop, the
  sealed tariffs, the earlier row an adjustment may refer to, and fresh row ids.
\<close>

section \<open>Data\<close>

record ParsedInvoiceRow =
  pi_lineNumber :: nat
  pi_awbRaw :: string
  pi_awbNormalized :: string
  pi_chargeType :: ChargeType
  pi_chargeTypeUnmapped :: bool
  pi_invoicedAmount :: "string option"
  pi_invoicedWeightKg :: "string option"
  pi_shipperCompany :: "string option"
  pi_invoiceReference :: "string option"
  pi_invoiceDate :: "string option"
  pi_shipmentDate :: "string option"
  pi_originStation :: "string option"
  pi_destinationStation :: "string option"
  pi_remark :: "string option"

type_synonym group_key = "string \<times> ChargeType"

record GroupPlan =
  gp_rows :: "ParsedInvoiceRow list"
  gp_rowIds :: "string list"
  gp_chargeTypeUnmapped :: bool
  gp_shipment :: "ShipmentReconView option"
  gp_adjustmentTotal :: int
  gp_adjustsRowId :: "string option"
  gp_outcome :: "MatchGroupResult option"

text \<open>A shipment as the lookup reads it, and the earlier row an adjustment refers to.\<close>

record ShipmentCandidate =
  sc_view :: ShipmentReconView
  sc_shop_id :: string
  sc_courier_account_id :: string
  sc_is_test :: bool
  sc_created_at :: int

record EarlierRow =
  er_row_id :: string
  er_invoiced_amount :: "string option"
  er_expected_amount :: "string option"
  er_prior_adjustments :: "string option"

record CrossBatchTarget =
  ct_rowId :: string
  ct_invoicedAmount :: "string option"
  ct_expectedAmount :: "string option"
  ct_priorAdjustments :: int

record ReconSources =
  src_shipments :: "ShipmentCandidate list"
  src_loadTariff :: "string \<Rightarrow> TariffInput option"
  src_earlier :: "string \<Rightarrow> EarlierRow option"
  src_uuid :: "nat \<Rightarrow> string"
  src_freightTolerance :: int
  src_weightToleranceGrams :: int

definition adjustTargetPreference :: "ChargeType list" where
  "adjustTargetPreference = [FORWARD, RTO, COD_FEE, REATTEMPT, OTHER]"

section \<open>Grouping\<close>

definition newGroup :: "bool \<Rightarrow> GroupPlan" where
  "newGroup unmapped = \<lparr>gp_rows = [], gp_rowIds = [], gp_chargeTypeUnmapped = unmapped, gp_shipment = None,
     gp_adjustmentTotal = 0, gp_adjustsRowId = None, gp_outcome = None\<rparr>"

definition rowKey :: "ParsedInvoiceRow \<Rightarrow> group_key" where
  "rowKey row = (pi_awbNormalized row, pi_chargeType row)"

definition addRow ::
  "string \<Rightarrow> ParsedInvoiceRow \<Rightarrow> (group_key \<times> GroupPlan) list \<Rightarrow> (group_key \<times> GroupPlan) list" where
  "addRow rowId row groups =
     (let g = (case map_of groups (rowKey row) of Some g \<Rightarrow> g | None \<Rightarrow> newGroup (pi_chargeTypeUnmapped row))
      in map_set (rowKey row) (g\<lparr>gp_rows := gp_rows g @ [row], gp_rowIds := gp_rowIds g @ [rowId],
           gp_chargeTypeUnmapped := (gp_chargeTypeUnmapped g \<or> pi_chargeTypeUnmapped row)\<rparr>) groups)"

fun groupRows ::
  "(nat \<Rightarrow> string) \<Rightarrow> nat \<Rightarrow> ParsedInvoiceRow list \<Rightarrow> (group_key \<times> GroupPlan) list
     \<Rightarrow> (group_key \<times> GroupPlan) list" where
  "groupRows uuid i [] groups = groups"
| "groupRows uuid i (row # rows) groups = groupRows uuid (Suc i) rows (addRow (uuid i) row groups)"

text \<open>\<open>DISTINCT ON (awb) ... ORDER BY (same account) DESC, created_at DESC\<close>, test shipments excluded.\<close>

definition shipmentOrder :: "string \<Rightarrow> ShipmentCandidate \<Rightarrow> ShipmentCandidate \<Rightarrow> int" where
  "shipmentOrder account a b =
     (let pa = (if sc_courier_account_id a = account then 1 else 0);
          pb = (if sc_courier_account_id b = account then 1 else (0::int))
      in if pa \<noteq> pb then pb - pa else sc_created_at b - sc_created_at a)"

definition loadShipment :: "ShipmentCandidate list \<Rightarrow> string \<Rightarrow> string \<Rightarrow> string \<Rightarrow> ShipmentReconView option" where
  "loadShipment candidates shopId account awb =
     (case js_sort (shipmentOrder account) (filter (\<lambda>s. sc_shop_id s = shopId
            \<and> rv_awbNormalized (sc_view s) = awb \<and> \<not> sc_is_test s) candidates) of
        [] \<Rightarrow> None | s # _ \<Rightarrow> Some (sc_view s))"

definition withShipment ::
  "ReconSources \<Rightarrow> BatchRecord \<Rightarrow> group_key \<times> GroupPlan \<Rightarrow> group_key \<times> GroupPlan" where
  "withShipment src batch = (\<lambda>(key, g). (key, g\<lparr>gp_shipment :=
     (if fst key = '''' then None
      else loadShipment (src_shipments src) (bt_shop_id batch) (bt_courier_account_id batch) (fst key))\<rparr>))"

definition tariffOf :: "ReconSources \<Rightarrow> GroupPlan \<Rightarrow> TariffInput option" where
  "tariffOf src g =
     (case Option.bind (Option.bind (gp_shipment g) rv_snapshot) bs_rateCardVersionId of
        None \<Rightarrow> None | Some v \<Rightarrow> if v = '''' then None else src_loadTariff src v)"

section \<open>Adjustments\<close>

fun sumAmounts :: "ParsedInvoiceRow list \<Rightarrow> js_error + int" where
  "sumAmounts [] = Inr 0"
| "sumAmounts (r # rs) = bindR (case pi_invoicedAmount r of None \<Rightarrow> Inr 0 | Some a \<Rightarrow> rupeesToPaise a) (\<lambda>a.
     bindR (sumAmounts rs) (\<lambda>s. Inr (a + s)))"

definition sameBatchTarget :: "(group_key \<times> GroupPlan) list \<Rightarrow> string \<Rightarrow> (group_key \<times> GroupPlan) option" where
  "sameBatchTarget groups awb =
     (case filter (\<lambda>ct. map_of groups (awb, ct) \<noteq> None) adjustTargetPreference of
        [] \<Rightarrow> None | ct # _ \<Rightarrow> Some ((awb, ct), the (map_of groups (awb, ct))))"

type_synonym link_state = "(group_key \<times> GroupPlan) list \<times> (group_key \<times> CrossBatchTarget option) list"

definition linkAdjustment :: "ReconSources \<Rightarrow> group_key \<times> GroupPlan \<Rightarrow> link_state \<Rightarrow> js_error + link_state" where
  "linkAdjustment src = (\<lambda>(key, adj) (groups, cross).
     case sameBatchTarget groups (fst key) of
       Some (tkey, t) \<Rightarrow> bindR (sumAmounts (gp_rows adj)) (\<lambda>s.
         Inr (map_set tkey (t\<lparr>gp_adjustmentTotal := gp_adjustmentTotal t + s\<rparr>)
                (map_set key (adj\<lparr>gp_adjustsRowId := Some (hd (gp_rowIds t))\<rparr>) groups), cross))
     | None \<Rightarrow> (case src_earlier src (fst key) of
           Some t \<Rightarrow> bindR (rupeesToPaise (case er_prior_adjustments t of Some p \<Rightarrow> p | None \<Rightarrow> ''0'')) (\<lambda>p.
             Inr (map_set key (adj\<lparr>gp_adjustsRowId := Some (er_row_id t)\<rparr>) groups,
                  map_set key (Some \<lparr>ct_rowId = er_row_id t, ct_invoicedAmount = er_invoiced_amount t,
                     ct_expectedAmount = er_expected_amount t, ct_priorAdjustments = p\<rparr>) cross))
         | None \<Rightarrow> Inr (groups, map_set key None cross)))"

fun linkAll :: "ReconSources \<Rightarrow> (group_key \<times> GroupPlan) list \<Rightarrow> link_state \<Rightarrow> js_error + link_state" where
  "linkAll src [] st = Inr st"
| "linkAll src (a # as) st = bindR (linkAdjustment src a st) (\<lambda>st'. linkAll src as st')"

section \<open>Outcomes\<close>

definition groupInput :: "ReconSources \<Rightarrow> group_key \<Rightarrow> GroupPlan \<Rightarrow> int option \<Rightarrow> MatchGroupInput" where
  "groupInput src key g invoicedTotal = \<lparr>mg_awbNormalized = fst key, mg_chargeType = snd key,
     mg_chargeTypeUnmapped = gp_chargeTypeUnmapped g, mg_invoicedAmountTotal = invoicedTotal,
     mg_adjustmentTotal = gp_adjustmentTotal g, mg_shipment = gp_shipment g,
     mg_freightTolerance = src_freightTolerance src, mg_weightToleranceGrams = src_weightToleranceGrams src,
     mg_tariff = tariffOf src g,
     mg_invoicedWeightKg = Option.bind (List.find (\<lambda>r. pi_invoicedWeightKg r \<noteq> None) (gp_rows g)) pi_invoicedWeightKg\<rparr>"

definition finalizeTarget :: "ReconSources \<Rightarrow> group_key \<times> GroupPlan \<Rightarrow> js_error + group_key \<times> GroupPlan" where
  "finalizeTarget src = (\<lambda>(key, g).
     if snd key = ADJUSTMENT then Inr (key, g)
     else bindR (if list_ex (\<lambda>r. pi_invoicedAmount r = None) (gp_rows g) then Inr None
                 else bindR (sumAmounts (gp_rows g)) (\<lambda>s. Inr (Some s))) (\<lambda>invoicedTotal.
          bindR (matchGroup (groupInput src key g invoicedTotal)) (\<lambda>result.
          Inr (key, g\<lparr>gp_outcome := Some result\<rparr>))))"

definition finalizeAdjustment ::
  "ReconSources \<Rightarrow> (group_key \<times> GroupPlan) list \<Rightarrow> (group_key \<times> CrossBatchTarget option) list
     \<Rightarrow> group_key \<times> GroupPlan \<Rightarrow> js_error + group_key \<times> GroupPlan" where
  "finalizeAdjustment src groups cross = (\<lambda>(key, adj).
     if snd key \<noteq> ADJUSTMENT then Inr (key, adj)
     else bindR (case gp_adjustsRowId adj of
        None \<Rightarrow> Inr \<lparr>mr_flagAwbNotFound = (gp_shipment adj = None), mr_flagAmountMismatch = False,
                  mr_flagReview = True, mr_expectedAmount = None, mr_auditedAmount = None\<rparr>
      | Some rowId \<Rightarrow>
          (case Option.bind (List.find (\<lambda>(k, g). snd k \<noteq> ADJUSTMENT \<and> hd (gp_rowIds g) = rowId) groups)
                  (\<lambda>(k, g). gp_outcome g) of
             Some outcome \<Rightarrow> Inr (outcome\<lparr>mr_flagAwbNotFound := False\<rparr>)
           | None \<Rightarrow>
               (case Option.bind (map_of cross key) id of
                  None \<Rightarrow> Inr \<lparr>mr_flagAwbNotFound = False, mr_flagAmountMismatch = False, mr_flagReview = True,
                    mr_expectedAmount = None, mr_auditedAmount = None\<rparr>
                | Some c \<Rightarrow>
                    (case (ct_expectedAmount c, ct_invoicedAmount c) of
                       (Some ex, Some iv) \<Rightarrow>
                         bindR (sumAmounts (gp_rows adj)) (\<lambda>s.
                         bindR (rupeesToPaise iv) (\<lambda>invoiced.
                         bindR (rupeesToPaise ex) (\<lambda>expected.
                         let diff = (invoiced + ct_priorAdjustments c + s) - expected;
                             abs_diff = (if diff < 0 then - diff else diff)
                         in Inr \<lparr>mr_flagAwbNotFound = False,
                              mr_flagAmountMismatch = (abs_diff > src_freightTolerance src),
                              mr_flagReview = False, mr_expectedAmount = Some ex, mr_auditedAmount = None\<rparr>)))
                     | _ \<Rightarrow> Inr \<lparr>mr_flagAwbNotFound = False, mr_flagAmountMismatch = False, mr_flagReview = True,
                         mr_expectedAmount = ct_expectedAmount c, mr_auditedAmount = None\<rparr>)))) (\<lambda>outcome.
        Inr (key, adj\<lparr>gp_outcome := Some outcome\<rparr>)))"

section \<open>What is written\<close>

record InsertedRow =
  in_row_id :: string
  in_row :: ParsedInvoiceRow
  in_charge_type :: ChargeType
  in_flag_awb_not_found :: bool
  in_flag_weight_mismatch :: bool
  in_flag_amount_mismatch :: bool
  in_flag_review :: bool
  in_expected_amount :: "string option"
  in_audited_amount :: "string option"
  in_shipment_id :: "string option"
  in_adjusts_row_id :: "string option"

record AdjustmentLink =
  al_row_id :: string
  al_amount :: string
  al_note :: "string option"

record MatchOutcome =
  mo_rows :: "InsertedRow list"
  mo_links :: "AdjustmentLink list"
  mo_residual :: string
  mo_control :: ControlTotalState
  mo_flaggedRows :: nat
  mo_notify :: bool

definition billableOfGroup :: "GroupPlan \<Rightarrow> string option" where
  "billableOfGroup g = Option.bind (Option.bind (gp_shipment g) rv_snapshot) bs_billableWeightKg"

definition insertedRow ::
  "ReconSources \<Rightarrow> group_key \<Rightarrow> GroupPlan \<Rightarrow> MatchGroupResult \<Rightarrow> string \<times> ParsedInvoiceRow \<Rightarrow> js_error + InsertedRow" where
  "insertedRow src key g o1 = (\<lambda>(rowId, row).
     bindR (weightMismatch (pi_invoicedWeightKg row) (billableOfGroup g) (src_weightToleranceGrams src)) (\<lambda>weight.
     Inr \<lparr>in_row_id = rowId, in_row = row, in_charge_type = snd key,
       in_flag_awb_not_found = mr_flagAwbNotFound o1, in_flag_weight_mismatch = weight,
       in_flag_amount_mismatch = mr_flagAmountMismatch o1, in_flag_review = mr_flagReview o1,
       in_expected_amount = mr_expectedAmount o1, in_audited_amount = mr_auditedAmount o1,
       in_shipment_id = map_option rv_shipmentId (gp_shipment g),
       in_adjusts_row_id = (if snd key = ADJUSTMENT then gp_adjustsRowId g else None)\<rparr>))"

definition groupInserts :: "ReconSources \<Rightarrow> group_key \<times> GroupPlan \<Rightarrow> js_error + InsertedRow list" where
  "groupInserts src = (\<lambda>(key, g). mapR (insertedRow src key g (the (gp_outcome g))) (zip (gp_rowIds g) (gp_rows g)))"

definition groupLinks :: "group_key \<times> GroupPlan \<Rightarrow> AdjustmentLink list" where
  "groupLinks = (\<lambda>(key, g).
     case (snd key, gp_adjustsRowId g) of
       (ADJUSTMENT, Some target) \<Rightarrow> map (\<lambda>row. \<lparr>al_row_id = target,
          al_amount = (case pi_invoicedAmount row of Some a \<Rightarrow> a | None \<Rightarrow> ''0.00''), al_note = pi_remark row\<rparr>) (gp_rows g)
     | _ \<Rightarrow> [])"

definition isReview :: "GroupPlan \<Rightarrow> bool" where
  "isReview g = (mr_flagReview (the (gp_outcome g)) \<or> mr_flagAwbNotFound (the (gp_outcome g)))"

text \<open>The sums of F-14: \<open>(matchedSum, reviewSum)\<close>.\<close>

fun controlSums :: "(group_key \<times> GroupPlan) list \<Rightarrow> js_error + int \<times> int" where
  "controlSums [] = Inr (0, 0)"
| "controlSums ((key, g) # gs) = bindR (sumAmounts (gp_rows g)) (\<lambda>a.
     bindR (controlSums gs) (\<lambda>(matched, review).
     Inr (if isReview g then (matched, a + review) else (a + matched, review))))"

definition flaggedCount :: "InsertedRow list \<Rightarrow> GroupPlan \<Rightarrow> nat" where
  "flaggedCount inserted g =
     (let o1 = the (gp_outcome g) in
      if mr_flagReview o1 \<or> mr_flagAwbNotFound o1 \<or> mr_flagAmountMismatch o1
        \<or> list_ex in_flag_weight_mismatch inserted
      then length (gp_rows g) else 0)"

definition persistGroups ::
  "ReconSources \<Rightarrow> string option \<Rightarrow> (group_key \<times> GroupPlan) list \<Rightarrow> js_error + MatchOutcome" where
  "persistGroups src declaredTotal groups =
     bindR (controlSums groups) (\<lambda>(matchedSum, reviewSum).
     bindR (rupeesToPaise (case declaredTotal of Some d \<Rightarrow> d | None \<Rightarrow> ''0'')) (\<lambda>declared.
     let (residual, control) = controlTotal declared matchedSum reviewSum in
     bindR (mapR (groupInserts src) groups) (\<lambda>inserts.
     let flagged = sum_list (map2 (\<lambda>ins (key, g). flaggedCount ins g) inserts groups) in
     Inr \<lparr>mo_rows = concat inserts, mo_links = concat (map groupLinks groups),
       mo_residual = paiseToRupees residual, mo_control = control, mo_flaggedRows = flagged,
       mo_notify = (flagged > 0 \<or> control = MISMATCH)\<rparr>)))"

definition matchAndPersist ::
  "ReconSources \<Rightarrow> BatchRecord \<Rightarrow> ParsedInvoiceRow list \<Rightarrow> js_error + MatchOutcome" where
  "matchAndPersist src batch parsed =
     (let groups = map (withShipment src batch) (groupRows (src_uuid src) 0 parsed []) in
      bindR (linkAll src (filter (\<lambda>(key, g). snd key = ADJUSTMENT) groups) (groups, [])) (\<lambda>(linked, cross).
      bindR (mapR (finalizeTarget src) linked) (\<lambda>targets.
      bindR (mapR (finalizeAdjustment src targets cross) targets) (\<lambda>done_groups.
      persistGroups src (bt_declared_invoice_total batch) done_groups))))"

section \<open>The worker\<close>

definition freightImportMaxRows :: nat where
  "freightImportMaxRows = 250000"

datatype BatchProcessing =
    BatchMissing
  | AlreadyProcessed
  | BatchFailed string
  | BatchConflict
  | BatchThrew js_error
  | BatchMatched MatchOutcome

definition isVersion :: "string \<Rightarrow> int \<Rightarrow> BatchRecord \<Rightarrow> bool" where
  "isVersion batchId version b \<longleftrightarrow> bt_batch_id b = batchId \<and> bt_version b = version"

definition failBatch :: "BatchRecord \<Rightarrow> ReconDb \<Rightarrow> ReconDb" where
  "failBatch batch db = fst (updateBatches (isVersion (bt_batch_id batch) (bt_version batch))
     (\<lambda>b. b\<lparr>bt_state := BATCH_FAILED, bt_version := bt_version b + 1\<rparr>) db)"

definition markState :: "BatchRecord \<Rightarrow> ReconDb \<Rightarrow> ReconDb \<times> nat" where
  "markState batch db = updateBatches (isVersion (bt_batch_id batch) (bt_version batch))
     (\<lambda>b. b\<lparr>bt_state := BATCH_PARSED, bt_version := bt_version b + 1\<rparr>) db"

definition openRow :: "string \<Rightarrow> InsertedRow \<Rightarrow> RowRecord" where
  "openRow batchId r = \<lparr>fr_row_id = in_row_id r, fr_batch_id = batchId, fr_workflow_state = OPEN,
     fr_remark = pi_remark (in_row r), fr_dispute_evidence = None, fr_version = 1\<rparr>"

text \<open>The transaction: the rows and the MATCHED state together, or nothing.\<close>

definition commitMatched :: "BatchRecord \<Rightarrow> MatchOutcome \<Rightarrow> ReconDb \<Rightarrow> BatchProcessing \<times> ReconDb" where
  "commitMatched batch out db =
     (let (db', rowCount) = updateBatches (isVersion (bt_batch_id batch) (bt_version batch + 1))
        (\<lambda>b. b\<lparr>bt_state := BATCH_MATCHED, bt_control_total_state := mo_control out,
           bt_version := bt_version b + 1\<rparr>) db
      in if rowCount \<noteq> 1 then (BatchConflict, db)
         else (BatchMatched out, db'\<lparr>db_rows := db_rows db @ map (openRow (bt_batch_id batch)) (mo_rows out)\<rparr>))"

definition processBatch ::
  "(nat \<Rightarrow> ReconDb \<Rightarrow> ReconDb) \<Rightarrow> ReconSources \<Rightarrow> string \<Rightarrow> string + ParsedInvoiceRow list \<Rightarrow> ReconDb
     \<Rightarrow> BatchProcessing \<times> ReconDb" where
  "processBatch env src batchId parsedFile db =
     (case List.find (\<lambda>b. bt_batch_id b = batchId) (db_batches db) of
        None \<Rightarrow> (BatchMissing, db)
      | Some batch \<Rightarrow>
          if bt_state batch \<noteq> BATCH_UPLOADED \<and> bt_state batch \<noteq> BATCH_PARSED then (AlreadyProcessed, db)
          else (case parsedFile of
              Inl msg \<Rightarrow> (BatchFailed msg, failBatch batch (env 0 db))
            | Inr parsed \<Rightarrow>
                if length parsed > freightImportMaxRows then
                  (BatchFailed (''row limit exceeded ('' @ [CHR 0xA7] @ ''5.1: 250000)''), failBatch batch (env 0 db))
                else (let (db1, rowCount) = markState batch (env 0 db) in
                  if rowCount \<noteq> 1 then (BatchConflict, db1)
                  else (case matchAndPersist src batch parsed of
                      Inl e \<Rightarrow> (BatchThrew e, db1)
                    | Inr out \<Rightarrow> commitMatched batch out (env 1 db1)))))"

end
