(* ===== verification/ReconProcessing_Laws.thy ===== *)
theory ReconProcessing_Laws
  imports ReconProcessing "HOL-Library.Multiset"
begin

text \<open>
  What the import of an invoice conserves: every parsed row is written once, the control total
  counts every amount once; what it does to an adjustment of an unknown AWB; and the worker
  under concurrent writers.
\<close>

section \<open>Rows are conserved\<close>

text \<open>The part of the groups that no later phase changes.\<close>

definition rowView :: "(group_key \<times> GroupPlan) list \<Rightarrow> (group_key \<times> string list \<times> ParsedInvoiceRow list) list" where
  "rowView groups = map (\<lambda>(k, g). (k, gp_rowIds g, gp_rows g)) groups"

definition storedPairs :: "(group_key \<times> string list \<times> ParsedInvoiceRow list) list \<Rightarrow> (string \<times> ParsedInvoiceRow) list" where
  "storedPairs v = concat (map (\<lambda>(k, ids, rows). zip ids rows) v)"

definition goodView :: "(group_key \<times> string list \<times> ParsedInvoiceRow list) list \<Rightarrow> bool" where
  "goodView v \<longleftrightarrow> (\<forall>(k, ids, rows) \<in> set v. length ids = length rows \<and> (\<forall>r \<in> set rows. rowKey r = k))"

lemma map_of_rowView: "map_of (rowView gs) k = map_option (\<lambda>g. (gp_rowIds g, gp_rows g)) (map_of gs k)"
  by (induction gs) (auto simp: rowView_def)

lemma rowView_map_set:
  "map_of (rowView gs) k = Some (gp_rowIds g, gp_rows g) \<Longrightarrow> rowView (map_set k g gs) = rowView gs"
  by (induction gs) (auto simp: rowView_def split: if_splits)

lemma map_set_present:
  "map_of m k = Some v \<Longrightarrow> \<exists>xs ys. m = xs @ (k, v) # ys \<and> (\<forall>w. map_set k w m = xs @ (k, w) # ys)"
proof (induction m)
  case Nil
  then show ?case by simp
next
  case (Cons e m)
  obtain k' v' where e: "e = (k', v')" by fastforce
  show ?case
  proof (cases "k = k'")
    case True
    with Cons.prems e show ?thesis by (intro exI [of _ "[]"] exI [of _ m]) simp
  next
    case False
    with Cons e obtain xs ys where "m = xs @ (k, v) # ys" "\<forall>w. map_set k w m = xs @ (k, w) # ys" by auto
    with False e show ?thesis by (intro exI [of _ "e # xs"] exI [of _ ys]) simp
  qed
qed

lemma addRow_view:
  assumes "goodView (rowView gs)"
  shows "goodView (rowView (addRow i r gs))
    \<and> mset (storedPairs (rowView (addRow i r gs))) = add_mset (i, r) (mset (storedPairs (rowView gs)))"
proof (cases "map_of gs (rowKey r)")
  case None
  then have "map_set (rowKey r) x gs = gs @ [(rowKey r, x)]" for x
    by (induction gs) (auto split: if_splits)
  with None assms show ?thesis
    by (simp add: addRow_def newGroup_def rowView_def goodView_def storedPairs_def)
next
  case (Some g)
  have "goodView (rowView (map_set (rowKey r) (g\<lparr>gp_rows := gp_rows g @ [r], gp_rowIds := gp_rowIds g @ [i],
        gp_chargeTypeUnmapped := u\<rparr>) gs))
    \<and> mset (storedPairs (rowView (map_set (rowKey r) (g\<lparr>gp_rows := gp_rows g @ [r], gp_rowIds := gp_rowIds g @ [i],
        gp_chargeTypeUnmapped := u\<rparr>) gs))) = add_mset (i, r) (mset (storedPairs (rowView gs)))" for u
  proof -
    obtain xs ys where "gs = xs @ (rowKey r, g) # ys" "\<And>v. map_set (rowKey r) v gs = xs @ (rowKey r, v) # ys"
      using map_set_present [OF Some] by blast
    with assms show ?thesis by (auto simp: rowView_def goodView_def storedPairs_def)
  qed
  with Some show ?thesis by (simp add: addRow_def)
qed

lemma groupRows_view:
  "goodView (rowView gs) \<Longrightarrow> goodView (rowView (groupRows uuid i rows gs))
    \<and> mset (storedPairs (rowView (groupRows uuid i rows gs)))
      = mset (storedPairs (rowView gs)) + mset (zip (map uuid [i..<i + length rows]) rows)"
proof (induction rows arbitrary: i gs)
  case Nil
  then show ?case by simp
next
  case (Cons r rows)
  have "[i..<i + length (r # rows)] = i # [Suc i..<Suc i + length rows]"
    using upt_conv_Cons [of i "Suc (i + length rows)"] by simp
  with addRow_view [OF Cons.prems, of "uuid i" r] Cons.IH [of "addRow (uuid i) r gs" "Suc i"]
  show ?case by simp
qed

lemma withShipment_view: "rowView (map (withShipment src b) gs) = rowView gs"
  by (induction gs) (auto simp: rowView_def withShipment_def)

lemma sameBatchTarget_Some:
  "sameBatchTarget gs awb = Some (k, t) \<Longrightarrow> map_of gs k = Some t \<and> snd k \<noteq> ADJUSTMENT \<and> fst k = awb"
proof -
  assume a: "sameBatchTarget gs awb = Some (k, t)"
  then obtain ct rest where "filter (\<lambda>ct. map_of gs (awb, ct) \<noteq> None) adjustTargetPreference = ct # rest"
    and k: "k = (awb, ct)" "t = the (map_of gs (awb, ct))"
    by (auto simp: sameBatchTarget_def split: list.splits)
  then have "ct \<in> {ct \<in> set adjustTargetPreference. map_of gs (awb, ct) \<noteq> None}"
    by (metis list.set_intros(1) set_filter)
  with k show ?thesis by (auto simp: adjustTargetPreference_def)
qed

lemma linkAdjustment_view:
  assumes "linkAdjustment src (key, adj) (gs, cross) = Inr (gs', cross')"
    and "map_of (rowView gs) key = Some (gp_rowIds adj, gp_rows adj)"
  shows "rowView gs' = rowView gs"
proof (cases "sameBatchTarget gs (fst key)")
  case None
  with assms show ?thesis
    by (auto simp: linkAdjustment_def bindR_Inr_iff rowView_map_set split: option.splits)
next
  case (Some kt)
  obtain tkey t where kt: "kt = (tkey, t)" by fastforce
  let ?a = "adj\<lparr>gp_adjustsRowId := Some (hd (gp_rowIds t))\<rparr>"
  have 1: "rowView (map_set key ?a gs) = rowView gs"
    by (rule rowView_map_set) (simp add: assms(2))
  have "map_of (rowView gs) tkey = Some (gp_rowIds t, gp_rows t)"
    using sameBatchTarget_Some [OF Some [unfolded kt]] by (simp add: map_of_rowView)
  then have "rowView (map_set tkey (t\<lparr>gp_adjustmentTotal := s\<rparr>) (map_set key ?a gs)) = rowView gs" for s
    by (subst rowView_map_set) (simp_all add: 1)
  with assms(1) Some kt show ?thesis by (auto simp: linkAdjustment_def bindR_Inr_iff)
qed

lemma linkAll_view:
  "linkAll src as (gs, cross) = Inr (gs', cross') \<Longrightarrow>
   (\<And>key adj. (key, adj) \<in> set as \<Longrightarrow> map_of (rowView gs) key = Some (gp_rowIds adj, gp_rows adj)) \<Longrightarrow>
   rowView gs' = rowView gs"
proof (induction as arbitrary: gs cross)
  case Nil
  then show ?case by simp
next
  case (Cons a as)
  obtain key adj where a: "a = (key, adj)" by fastforce
  from Cons.prems(1) a obtain gs1 cross1 where l: "linkAdjustment src (key, adj) (gs, cross) = Inr (gs1, cross1)"
    and r: "linkAll src as (gs1, cross1) = Inr (gs', cross')" by (auto simp: bindR_Inr_iff)
  have v: "rowView gs1 = rowView gs"
    using linkAdjustment_view [OF l] Cons.prems(2) [of key adj] a by simp
  then show ?case using Cons.IH [OF r] Cons.prems(2) a by simp
qed

lemma finalize_view:
  "finalizeTarget src kg = Inr kg' \<Longrightarrow> rowView [kg'] = rowView [kg]"
  "finalizeAdjustment src gs cross kg = Inr kg' \<Longrightarrow> rowView [kg'] = rowView [kg]"
  by (auto simp: finalizeTarget_def finalizeAdjustment_def bindR_Inr_iff rowView_def split: prod.splits if_splits)

lemma mapR_view:
  "mapR f gs = Inr gs' \<Longrightarrow> (\<And>kg kg'. f kg = Inr kg' \<Longrightarrow> rowView [kg'] = rowView [kg]) \<Longrightarrow> rowView gs' = rowView gs"
  unfolding mapR_Inr_iff
  by (induction rule: list_all2_induct) (auto simp: rowView_def)

lemma groupRows_keys: "distinct (map fst gs) \<Longrightarrow> distinct (map fst (groupRows uuid i rows gs))"
  by (induction rows arbitrary: i gs) (simp_all add: addRow_def distinct_map_set Let_def)

lemma withShipment_keys: "map fst (map (withShipment src b) gs) = map fst gs"
  by (simp add: withShipment_def split_def)

section \<open>Amounts\<close>

definition amountOf :: "ParsedInvoiceRow \<Rightarrow> int" where
  "amountOf r = (case pi_invoicedAmount r of None \<Rightarrow> 0
     | Some a \<Rightarrow> (case rupeesToPaise a of Inr x \<Rightarrow> x | Inl e \<Rightarrow> 0))"

lemma sumAmounts_value: "sumAmounts rs = Inr s \<Longrightarrow> s = sum_list (map amountOf rs)"
  by (induction rs arbitrary: s) (auto simp: bindR_Inr_iff amountOf_def split: option.splits)

lemma controlSums_value:
  "controlSums gs = Inr (m, r) \<Longrightarrow> m + r = sum_list (map (amountOf \<circ> snd) (storedPairs (rowView gs)))"
  if "goodView (rowView gs)"
  using that
proof (induction gs arbitrary: m r)
  case Nil
  then show ?case by (simp add: rowView_def storedPairs_def)
next
  case (Cons kg gs)
  obtain k g where kg: "kg = (k, g)" by fastforce
  from Cons.prems(1) kg obtain a m' r' where a: "sumAmounts (gp_rows g) = Inr a" "controlSums gs = Inr (m', r')"
    and mr: "m + r = a + (m' + r')" by (auto simp: bindR_Inr_iff split: if_splits)
  have len: "length (gp_rowIds g) = length (gp_rows g)" and good: "goodView (rowView gs)"
    using Cons.prems(2) kg by (auto simp: goodView_def rowView_def)
  have "sum_list (map (amountOf \<circ> snd) (storedPairs (rowView (kg # gs))))
      = sum_list (map amountOf (map snd (zip (gp_rowIds g) (gp_rows g)))) + (m' + r')"
    unfolding Cons.IH [OF a(2) good] map_map [symmetric] sum_list_append [symmetric] map_append [symmetric]
    by (simp add: kg rowView_def storedPairs_def comp_def split_def)
  also have "\<dots> = a + (m' + r')"
    using sumAmounts_value [OF a(1)] len by (simp add: map_snd_zip)
  finally show ?case using mr by (simp only:)
qed

lemma groupInserts_pairs:
  "groupInserts src (k, g) = Inr ins \<Longrightarrow>
     map (\<lambda>r. (in_row_id r, in_row r)) ins = zip (gp_rowIds g) (gp_rows g)
     \<and> list_all (\<lambda>r. in_charge_type r = snd k) ins"
  unfolding groupInserts_def prod.case mapR_Inr_iff
  by (induction rule: list_all2_induct) (auto simp: insertedRow_def bindR_Inr_iff split: prod.splits)

lemma inserts_pairs:
  "mapR (groupInserts src) gs = Inr inss \<Longrightarrow>
     map (\<lambda>r. (in_row_id r, in_row r)) (concat inss) = storedPairs (rowView gs)"
  unfolding mapR_Inr_iff
  by (induction rule: list_all2_induct) (auto simp: rowView_def storedPairs_def dest: groupInserts_pairs)

lemma inserts_types:
  assumes "mapR (groupInserts src) gs = Inr inss" "goodView (rowView gs)"
  shows "list_all (\<lambda>r. in_charge_type r = pi_chargeType (in_row r)) (concat inss)"
  using assms unfolding mapR_Inr_iff
proof (induction rule: list_all2_induct)
  case Nil
  then show ?case by simp
next
  case (Cons kg gs ins inss)
  obtain k g where kg: "kg = (k, g)" by fastforce
  note i = groupInserts_pairs [OF Cons.hyps(1) [unfolded kg]]
  have good: "\<forall>r \<in> set (gp_rows g). rowKey r = k" "goodView (rowView gs)"
    using Cons.prems kg by (auto simp: goodView_def rowView_def)
  have "in_charge_type r = pi_chargeType (in_row r)" if "r \<in> set ins" for r
  proof -
    have "(in_row_id r, in_row r) \<in> set (zip (gp_rowIds g) (gp_rows g))"
      using that i by (metis (mono_tags, lifting) image_eqI set_map)
    then have "in_row r \<in> set (gp_rows g)" by (rule set_zip_rightD)
    with good(1) i that show ?thesis by (auto simp: list_all_iff rowKey_def)
  qed
  then show ?case using Cons.IH good(2) by (auto simp: list_all_iff)
qed

text \<open>Everything a successful run of the matching goes through.\<close>

lemma matchAndPersist_InrE:
  assumes "matchAndPersist src batch parsed = Inr out"
  obtains gs m r d inss where
    "goodView (rowView gs)"
    "mset (storedPairs (rowView gs)) = mset (zip (map (src_uuid src) [0..<length parsed]) parsed)"
    "controlSums gs = Inr (m, r)" "rupeesToPaise (case bt_declared_invoice_total batch of Some d \<Rightarrow> d | None \<Rightarrow> ''0'') = Inr d"
    "mapR (groupInserts src) gs = Inr inss" "mo_rows out = concat inss"
    "mo_residual out = paiseToRupees (fst (controlTotal d m r))" "mo_control out = snd (controlTotal d m r)"
proof -
  let ?g0 = "map (withShipment src batch) (groupRows (src_uuid src) 0 parsed [])"
  from assms obtain linked cross targets gs where
    l: "linkAll src (filter (\<lambda>(key, g). snd key = ADJUSTMENT) ?g0) (?g0, []) = Inr (linked, cross)"
    and t: "mapR (finalizeTarget src) linked = Inr targets"
    and a: "mapR (finalizeAdjustment src targets cross) targets = Inr gs"
    and p: "persistGroups src (bt_declared_invoice_total batch) gs = Inr out"
    by (auto simp: matchAndPersist_def bindR_Inr_iff Let_def)
  have v0: "goodView (rowView ?g0)
      \<and> mset (storedPairs (rowView ?g0)) = mset (zip (map (src_uuid src) [0..<length parsed]) parsed)"
    using groupRows_view [of "[]" "src_uuid src" 0 parsed]
    by (simp add: withShipment_view) (simp add: rowView_def goodView_def storedPairs_def)
  have "rowView linked = rowView ?g0"
  proof (rule linkAll_view [OF l])
    fix key adj
    assume "(key, adj) \<in> set (filter (\<lambda>(key, g). snd key = ADJUSTMENT) ?g0)"
    then have "(key, adj) \<in> set ?g0" by simp
    then have "map_of ?g0 key = Some adj" 
      using groupRows_keys [of "[]" "src_uuid src" 0 parsed] by (intro map_of_is_SomeI) (simp_all only: withShipment_keys list.map distinct.simps simp_thms)
    then show "map_of (rowView ?g0) key = Some (gp_rowIds adj, gp_rows adj)" by (simp add: map_of_rowView)
  qed
  then have v: "rowView gs = rowView ?g0"
    using mapR_view [OF t finalize_view(1)] mapR_view [OF a finalize_view(2)] by simp
  from p obtain m r d inss where "controlSums gs = Inr (m, r)"
    "rupeesToPaise (case bt_declared_invoice_total batch of Some d \<Rightarrow> d | None \<Rightarrow> ''0'') = Inr d"
    "mapR (groupInserts src) gs = Inr inss" "mo_rows out = concat inss"
    "mo_residual out = paiseToRupees (fst (controlTotal d m r))" "mo_control out = snd (controlTotal d m r)"
    by (auto simp: persistGroups_def bindR_Inr_iff Let_def split_def)
  then show ?thesis by (rule that [rotated 2]) (simp_all add: v v0)
qed

text \<open>
  C12: INV-20 for an invoice, and F-14 counts every rupee once.  When an import succeeds, every
  parsed row is stored exactly once under an id of its own and under its own charge type, and
  the residual of the control total is the declared amount less the sum of every amount of
  the file, however the rows were grouped, linked, matched or flagged.
\<close>

theorem import_conserves_rows_and_money:
  assumes "matchAndPersist src batch parsed = Inr out"
  shows "mset (map (\<lambda>r. (in_row_id r, in_row r)) (mo_rows out))
        = mset (zip (map (src_uuid src) [0..<length parsed]) parsed)
    \<and> list_all (\<lambda>r. in_charge_type r = pi_chargeType (in_row r)) (mo_rows out)
    \<and> (\<exists>d. rupeesToPaise (case bt_declared_invoice_total batch of Some x \<Rightarrow> x | None \<Rightarrow> ''0'') = Inr d
         \<and> mo_residual out = paiseToRupees (d - sum_list (map amountOf parsed)))"
proof (rule matchAndPersist_InrE [OF assms], goal_cases)
  case (1 gs m r d inss)
  have pairs: "map (\<lambda>r. (in_row_id r, in_row r)) (mo_rows out) = storedPairs (rowView gs)"
    using inserts_pairs [OF 1(5)] 1(6) by simp
  have "mset (map (amountOf \<circ> snd) (storedPairs (rowView gs))) = mset (map amountOf parsed)"
    using arg_cong [OF 1(2), of "image_mset (amountOf \<circ> snd)"]
    by (simp flip: mset_map) (simp add: map_snd_zip flip: map_map)
  then have "m + r = sum_list (map amountOf parsed)"
    using controlSums_value [OF 1(1,3)] by (metis sum_mset_sum_list)
  then have res: "fst (controlTotal d m r) = d - sum_list (map amountOf parsed)"
    by (simp add: controlTotal_def Let_def)
  have types: "list_all (\<lambda>r. in_charge_type r = pi_chargeType (in_row r)) (concat inss)"
    using 1(5) 1(1) by (rule inserts_types)
  show ?case using pairs 1(2,4,6,7) res types by simp
qed

section \<open>An adjustment of an AWB the shop does not know\<close>

definition flagsOf :: "InsertedRow \<Rightarrow> bool \<times> bool \<times> bool \<times> bool" where
  "flagsOf r = (in_flag_awb_not_found r, in_flag_weight_mismatch r, in_flag_amount_mismatch r, in_flag_review r)"

lemma unknown_awb_groups:
  assumes "rowKey r1 = (awb, FORWARD)" "rowKey r2 = (awb, ADJUSTMENT)"
    and "\<not> pi_chargeTypeUnmapped r1" "\<not> pi_chargeTypeUnmapped r2"
    and "loadShipment (src_shipments src) (bt_shop_id batch) (bt_courier_account_id batch) awb = None"
  shows "map (withShipment src batch) (groupRows uuid 0 [r1, r2] [])
    = [((awb, FORWARD), (newGroup False)\<lparr>gp_rows := [r1], gp_rowIds := [uuid 0]\<rparr>),
       ((awb, ADJUSTMENT), (newGroup False)\<lparr>gp_rows := [r2], gp_rowIds := [uuid (Suc 0)]\<rparr>)]"
  using assms by (simp add: addRow_def newGroup_def withShipment_def Let_def)

lemma unknown_awb_import:
  assumes keys: "rowKey r1 = (awb, FORWARD)" "rowKey r2 = (awb, ADJUSTMENT)"
    and mapped: "\<not> pi_chargeTypeUnmapped r1" "\<not> pi_chargeTypeUnmapped r2"
    and amounts: "pi_invoicedAmount r1 = Some a1" "rupeesToPaise a1 = Inr x"
      "pi_invoicedAmount r2 = Some a2" "rupeesToPaise a2 = Inr y"
      "bt_declared_invoice_total batch = Some d0" "rupeesToPaise d0 = Inr d"
    and unknown: "loadShipment (src_shipments src) (bt_shop_id batch) (bt_courier_account_id batch) awb = None"
  shows "\<exists>out. matchAndPersist src batch [r1, r2] = Inr out
    \<and> map flagsOf (mo_rows out) = [(True, False, False, False), (False, False, False, False)]"
  unfolding matchAndPersist_def unknown_awb_groups [OF keys mapped unknown]
  using amounts
  by (simp add: newGroup_def linkAdjustment_def sameBatchTarget_def adjustTargetPreference_def Let_def
      finalizeTarget_def finalizeAdjustment_def matchGroup_def groupInput_def persistGroups_def
      groupInserts_def insertedRow_def billableOfGroup_def weightMismatch_def split_def flagsOf_def isReview_def
      split: option.split)

definition exampleRow :: "ChargeType \<Rightarrow> string \<Rightarrow> ParsedInvoiceRow" where
  "exampleRow ct amount = \<lparr>pi_lineNumber = 1, pi_awbRaw = ''AWB1'', pi_awbNormalized = ''AWB1'',
     pi_chargeType = ct, pi_chargeTypeUnmapped = False, pi_invoicedAmount = Some amount,
     pi_invoicedWeightKg = None, pi_shipperCompany = None, pi_invoiceReference = None,
     pi_invoiceDate = None, pi_shipmentDate = None, pi_originStation = None,
     pi_destinationStation = None, pi_remark = None\<rparr>"

definition exampleFile :: "ParsedInvoiceRow list" where
  "exampleFile = [exampleRow FORWARD ''100.00'', exampleRow ADJUSTMENT ''20.00'']"

definition exampleSources :: ReconSources where
  "exampleSources = \<lparr>src_shipments = [], src_loadTariff = (\<lambda>_. None), src_earlier = (\<lambda>_. None),
     src_uuid = (\<lambda>i. ''row'' @ show_nat i), src_freightTolerance = 100, src_weightToleranceGrams = 10\<rparr>"

definition exampleBatch :: BatchRecord where
  "exampleBatch = \<lparr>bt_batch_id = ''b2'', bt_shop_id = ''shop'', bt_courier_account_id = ''acc'',
     bt_declared_invoice_total = Some ''120.00'', bt_state = BATCH_UPLOADED,
     bt_control_total_state = WITHIN_THRESHOLD, bt_residual_remark = None, bt_version = 1\<rparr>"

lemma exampleTexts_recon: "rupeesToPaise ''100.00'' = Inr 10000" "rupeesToPaise ''20.00'' = Inr 2000"
  "rupeesToPaise ''120.00'' = Inr 12000"
  by (simp_all add: rupeesToPaise_def text_eval)

lemma example_unknown: "loadShipment (src_shipments exampleSources) s a awb = None"
  by (simp add: loadShipment_def exampleSources_def)

lemma example_import:
  "\<exists>out. matchAndPersist exampleSources exampleBatch exampleFile = Inr out
    \<and> map flagsOf (mo_rows out) = [(True, False, False, False), (False, False, False, False)]"
  unfolding exampleFile_def
  by (rule unknown_awb_import [OF _ _ _ _ _ exampleTexts_recon(1) _ exampleTexts_recon(2) _ exampleTexts_recon(3)])
    (simp_all add: exampleRow_def rowKey_def exampleBatch_def example_unknown)

lemma import_conserves_rows_and_money_witness:
  "\<exists>out. matchAndPersist exampleSources exampleBatch exampleFile = Inr out
     \<and> mset (map (\<lambda>r. (in_row_id r, in_row r)) (mo_rows out))
       = mset (zip (map (src_uuid exampleSources) [0..<2]) exampleFile)
     \<and> mo_residual out = paiseToRupees (12000 - (10000 + 2000))"
proof -
  obtain out where o: "matchAndPersist exampleSources exampleBatch exampleFile = Inr out"
    using example_import by blast
  have "length exampleFile = 2" "map amountOf exampleFile = [10000, 2000]"
    by (simp_all add: exampleFile_def amountOf_def exampleRow_def exampleTexts_recon)
  with import_conserves_rows_and_money [OF o] o show ?thesis
    by (auto simp: exampleBatch_def exampleTexts_recon)
qed

text \<open>
  An adjustment to an unknown AWB slips through.  When an invoice bills an AWB the shop has
  no shipment for and adjusts it in the same file, the billed row is flagged as not found, but
  the adjustment inherits that outcome with the flag cleared: it is stored with no flag at all,
  although nothing was compared.
\<close>

theorem adjustment_of_unknown_awb_unflagged:
  assumes "rowKey r1 = (awb, FORWARD)" "rowKey r2 = (awb, ADJUSTMENT)"
    and "\<not> pi_chargeTypeUnmapped r1" "\<not> pi_chargeTypeUnmapped r2"
    and "pi_invoicedAmount r1 = Some a1" "rupeesToPaise a1 = Inr x"
    and "pi_invoicedAmount r2 = Some a2" "rupeesToPaise a2 = Inr y"
    and "bt_declared_invoice_total batch = Some d0" "rupeesToPaise d0 = Inr d"
    and "loadShipment (src_shipments src) (bt_shop_id batch) (bt_courier_account_id batch) awb = None"
  shows "\<exists>out. matchAndPersist src batch [r1, r2] = Inr out
    \<and> map flagsOf (mo_rows out) = [(True, False, False, False), (False, False, False, False)]"
  by (rule unknown_awb_import [OF assms])

lemma adjustment_of_unknown_awb_unflagged_witness:
  "\<exists>out. matchAndPersist exampleSources exampleBatch [exampleRow FORWARD ''100.00'', exampleRow ADJUSTMENT ''20.00''] = Inr out
    \<and> map flagsOf (mo_rows out) = [(True, False, False, False), (False, False, False, False)]"
  by (rule adjustment_of_unknown_awb_unflagged
      [OF _ _ _ _ _ exampleTexts_recon(1) _ exampleTexts_recon(2) _ exampleTexts_recon(3)])
    (simp_all add: exampleRow_def rowKey_def exampleBatch_def example_unknown)

section \<open>The worker\<close>

definition batchTracked :: "BatchRecord \<Rightarrow> ReconDb \<Rightarrow> bool" where
  "batchTracked b0 db \<longleftrightarrow> distinct (map bt_batch_id (db_batches db))
     \<and> bt_batch_id b0 \<in> bt_batch_id ` set (db_batches db)
     \<and> (\<forall>b \<in> set (db_batches db). bt_batch_id b = bt_batch_id b0 \<longrightarrow> b = b0 \<or> bt_version b0 < bt_version b)"

lemma batchTracked_map:
  assumes "batchTracked b0 db" "db_batches db' = map f (db_batches db)"
    and "\<And>b. f b = b \<or> bt_batch_id (f b) = bt_batch_id b \<and> bt_version (f b) = bt_version b + 1"
  shows "batchTracked b0 db'"
proof -
  have ids: "bt_batch_id (f b) = bt_batch_id b" for b using assms(3) [of b] by auto
  have "f b = b0 \<or> bt_version b0 < bt_version (f b)"
    if "b \<in> set (db_batches db)" "bt_batch_id b = bt_batch_id b0" for b
    using assms(1) assms(3) [of b] that by (fastforce simp: batchTracked_def)
  moreover have m: "map (bt_batch_id \<circ> f) (db_batches db) = map bt_batch_id (db_batches db)"
    and "bt_batch_id ` f ` set (db_batches db) = bt_batch_id ` set (db_batches db)"
    by (simp_all add: ids image_image)
  ultimately show ?thesis using assms(1) by (simp add: batchTracked_def assms(2) ids m del: map_eq_conv)
qed

lemma batchTracked_same: "batchTracked b0 db \<Longrightarrow> db_batches db' = db_batches db \<Longrightarrow> batchTracked b0 db'"
  by (simp add: batchTracked_def)

lemma step_batchTracked: "recon_step db db' \<Longrightarrow> batchTracked b0 db \<Longrightarrow> batchTracked b0 db'"
proof (induction rule: recon_step.induct)
  case (upload b db)
  then show ?case by (auto simp: batchTracked_def)
next
  case (residual remark db batchId v)
  show ?case by (rule batchTracked_map [OF residual.prems updateBatches_fields(1)]) simp
next
  case (resolve db batchId)
  show ?case by (rule batchTracked_map [OF resolve.prems maybeResolveBatch_fields(2)]) simp
next
  case (parse c db st)
  show ?case by (rule batchTracked_map [OF parse.prems updateBatches_fields(1)]) simp
next
  case (match batchId c db new ct)
  have "batchTracked b0 (fst (updateBatches c
      (\<lambda>b. b\<lparr>bt_state := BATCH_MATCHED, bt_control_total_state := ct, bt_version := bt_version b + 1\<rparr>) db))"
    by (rule batchTracked_map [OF match.prems updateBatches_fields(1)]) simp
  then show ?case by (simp add: batchTracked_def)
qed (simp_all add: batchTracked_same)

interpretation tracked: invariant_system recon_step "batchTracked b0" for b0
  by unfold_locales (rule step_batchTracked)

text \<open>A version that still matches is the batch that was read.\<close>

lemma batchTracked_version:
  "batchTracked b0 db \<Longrightarrow> b \<in> set (db_batches db) \<Longrightarrow> isVersion (bt_batch_id b0) (bt_version b0) b \<Longrightarrow> b = b0"
  by (auto simp: batchTracked_def isVersion_def)

lemma batchTracked_start: "distinct (map bt_batch_id (db_batches db)) \<Longrightarrow> b0 \<in> set (db_batches db) \<Longrightarrow> batchTracked b0 db"
  by (auto simp: batchTracked_def distinct_map inj_on_def)

lemma parse_step:
  assumes "batchTracked b0 db" "bt_state b0 \<in> {BATCH_UPLOADED, BATCH_PARSED}" "st \<in> {BATCH_PARSED, BATCH_FAILED}"
  shows "recon_step db (fst (updateBatches (isVersion (bt_batch_id b0) (bt_version b0))
      (\<lambda>b. b\<lparr>bt_state := st, bt_version := bt_version b + 1\<rparr>) db))"
  using assms batchTracked_version [OF assms(1)] by (intro recon_step.parse) (auto simp: list_all_iff)

definition parsedBatch :: "BatchRecord \<Rightarrow> BatchRecord" where
  "parsedBatch b = b\<lparr>bt_state := BATCH_PARSED, bt_version := bt_version b + 1\<rparr>"

lemma markState_tracks:
  assumes "batchTracked b0 db" "snd (markState b0 db) = 1"
  shows "batchTracked (parsedBatch b0) (fst (markState b0 db))"
proof -
  have d: "distinct (map bt_batch_id (db_batches db))" using assms(1) by (simp add: batchTracked_def)
  have "filter (isVersion (bt_batch_id b0) (bt_version b0)) (db_batches db) \<noteq> []"
    using assms(2) by (auto simp: markState_def updateBatches_def)
  then obtain b where "b \<in> set (db_batches db)" "isVersion (bt_batch_id b0) (bt_version b0) b"
    by (auto simp: filter_empty_conv)
  with batchTracked_version [OF assms(1)] have "b0 \<in> set (db_batches db)" by blast
  then have "parsedBatch b0 \<in> set (db_batches (fst (markState b0 db)))"
    by (auto simp: markState_def parsedBatch_def isVersion_def image_iff)
  moreover have "map bt_batch_id (db_batches (fst (markState b0 db))) = map bt_batch_id (db_batches db)"
    by (simp add: markState_def)
  ultimately show ?thesis using d by (intro batchTracked_start) simp_all
qed

lemma commit_step:
  assumes "batchTracked (parsedBatch b0) db" "fst (commitMatched b0 out db) = BatchMatched out'"
  shows "recon_step db (snd (commitMatched b0 out db))"
proof -
  let ?c = "isVersion (bt_batch_id b0) (bt_version b0 + 1)"
  have n: "length (filter ?c (db_batches db)) = 1"
    using assms(2) by (auto simp: commitMatched_def updateBatches_def Let_def split: if_splits)
  then have "filter ?c (db_batches db) \<noteq> []" by auto
  then obtain b where b: "b \<in> set (db_batches db)" "?c b" by (auto simp: filter_empty_conv)
  have p: "bt_batch_id (parsedBatch b0) = bt_batch_id b0" "bt_version (parsedBatch b0) = bt_version b0 + 1"
    "bt_state (parsedBatch b0) = BATCH_PARSED" by (simp_all add: parsedBatch_def)
  have only: "b' = parsedBatch b0" if "b' \<in> set (db_batches db)" "bt_batch_id b' = bt_batch_id b0" for b'
  proof -
    have "b = parsedBatch b0" using batchTracked_version [OF assms(1) b(1)] b(2) p by simp
    moreover have "b' = b"
      using assms(1) that b by (auto simp: batchTracked_def isVersion_def distinct_map inj_on_def)
    ultimately show ?thesis by simp
  qed
  have "snd (commitMatched b0 out db) = (fst (updateBatches ?c
      (\<lambda>b. b\<lparr>bt_state := BATCH_MATCHED, bt_control_total_state := mo_control out, bt_version := bt_version b + 1\<rparr>) db))
      \<lparr>db_rows := db_rows db @ map (openRow (bt_batch_id b0)) (mo_rows out)\<rparr>"
    using n by (simp add: commitMatched_def Let_def split_def) (simp add: updateBatches_def)
  also have "recon_step db \<dots>"
    using only p by (intro recon_step.match [where batchId = "bt_batch_id b0"])
      (auto simp: list_all_iff isVersion_def openRow_def)
  finally show ?thesis .
qed

lemma commit_result: "commitMatched b0 out db = (result, db') \<Longrightarrow> result \<in> {BatchConflict, BatchMatched out}"
  by (auto simp: commitMatched_def Let_def split_def split: if_splits)

lemma commit_marks:
  assumes "fst (commitMatched b0 out db) = BatchMatched out'"
  shows "\<exists>b \<in> set (db_batches (snd (commitMatched b0 out db))).
    bt_batch_id b = bt_batch_id b0 \<and> bt_state b = BATCH_MATCHED"
proof -
  let ?c = "isVersion (bt_batch_id b0) (bt_version b0 + 1)"
  have n: "length (filter ?c (db_batches db)) = 1"
    using assms by (auto simp: commitMatched_def updateBatches_def Let_def split: if_splits)
  then have "filter ?c (db_batches db) \<noteq> []" by auto
  then obtain b where "b \<in> set (db_batches db)" "?c b" by (auto simp: filter_empty_conv)
  then have m: "b\<lparr>bt_state := BATCH_MATCHED, bt_control_total_state := mo_control out, bt_version := bt_version b + 1\<rparr>
      \<in> set (db_batches (snd (commitMatched b0 out db)))" "bt_batch_id b = bt_batch_id b0"
    using n by (auto simp: commitMatched_def Let_def split_def isVersion_def updateBatches_def image_iff)
  show ?thesis by (rule bexI [OF _ m(1)]) (simp add: m(2))
qed

lemma processBatch_reaches:
  assumes env: "wfReconEnv env" and d: "distinct (map bt_batch_id (db_batches db))"
  shows "recon_step\<^sup>*\<^sup>* db (snd (processBatch env src batchId f db))"
proof (cases "List.find (\<lambda>b. bt_batch_id b = batchId) (db_batches db)")
  case None
  then show ?thesis by (simp add: processBatch_def)
next
  case (Some b0)
  then have "b0 \<in> set (db_batches db)" by (auto simp: find_Some_iff)
  then have t0: "batchTracked b0 db" using d by (rule_tac batchTracked_start)
  note r0 = envReach [OF env rtranclp.rtrancl_refl, of db 0]
  have t: "batchTracked b0 (env 0 db)" by (rule tracked.reachable [OF r0 t0])
  show ?thesis
  proof (cases "bt_state b0 \<in> {BATCH_UPLOADED, BATCH_PARSED}")
    case False
    with Some show ?thesis by (auto simp: processBatch_def)
  next
    case True
    have fail: "recon_step\<^sup>*\<^sup>* db (failBatch b0 (env 0 db))"
      unfolding failBatch_def by (rule stepReach [OF parse_step [OF t True] r0]) simp
    let ?db1 = "fst (markState b0 (env 0 db))"
    have r1: "recon_step\<^sup>*\<^sup>* db ?db1"
      unfolding markState_def by (rule stepReach [OF parse_step [OF t True] r0]) simp
    note r2 = envReach [OF env r1, of 1]
    have commit: "recon_step\<^sup>*\<^sup>* db (snd (commitMatched b0 out (env 1 ?db1)))" if "snd (markState b0 (env 0 db)) = 1" for out
    proof -
      have "batchTracked (parsedBatch b0) (env 1 ?db1)"
        by (rule tracked.reachable [OF envReach [OF env rtranclp.rtrancl_refl] markState_tracks [OF t that]])
      then show ?thesis
        using stepReach [OF commit_step r2] r2
        by (cases "fst (commitMatched b0 out (env 1 ?db1)) = BatchMatched out")
          (auto simp: commitMatched_def Let_def split_def split: if_splits)
    qed
    show ?thesis
      using Some True fail r1 commit
      by (auto simp: processBatch_def Let_def split_def split: sum.split)
  qed
qed

text \<open>
  C13: The import worker is safe under every interleaving and retry.  Whatever else is written
  between its statements, a run follows the writes allowed to the tables, so resolved batches
  stay justified and settled rows stay as they are; it writes nothing for a batch that is not
  waiting; and once it has reported a batch as matched, a second delivery of the job changes
  nothing.
\<close>

theorem processing_safe_and_retryable:
  assumes "wfReconEnv env" "distinct (map bt_batch_id (db_batches db))" "resolvedSound db"
    and run: "processBatch env src batchId f db = (result, db')"
  shows "resolvedSound db' \<and> (rowSettled r st rm db \<longrightarrow> rowSettled r st rm db')
    \<and> (result \<in> {BatchMissing, AlreadyProcessed} \<longrightarrow> db' = db)
    \<and> (\<forall>out. result = BatchMatched out \<longrightarrow> processBatch env2 src2 batchId f2 db' = (AlreadyProcessed, db'))"
proof -
  have reach: "recon_step\<^sup>*\<^sup>* db db'" using processBatch_reaches [OF assms(1,2)] run by (metis snd_conv)
  have same: "db' = db" if "result \<in> {BatchMissing, AlreadyProcessed}"
    using run that commit_result by (fastforce simp: processBatch_def Let_def split_def
        split: option.splits if_splits sum.splits)
  have again: "processBatch env2 src2 batchId f2 db' = (AlreadyProcessed, db')" if "result = BatchMatched out" for out
  proof -
    note matched = that
    obtain b0 out2 db2 where "List.find (\<lambda>b. bt_batch_id b = batchId) (db_batches db) = Some b0"
      and c: "commitMatched b0 out2 db2 = (BatchMatched out, db')"
      using run matched by (auto simp: processBatch_def Let_def split_def split: option.splits if_splits sum.splits)
    then have b0: "b0 \<in> set (db_batches db)" "bt_batch_id b0 = batchId" by (auto simp: find_Some_iff)
    have d: "distinct (map bt_batch_id (db_batches db'))"
      using tracked.reachable [OF reach batchTracked_start [OF assms(2) b0(1)]] by (simp add: batchTracked_def)
    obtain b where b: "b \<in> set (db_batches db')" "bt_batch_id b = batchId" "bt_state b = BATCH_MATCHED"
      using commit_marks [of b0 out2 db2 out] c b0 by auto
    then have "List.find (\<lambda>b. bt_batch_id b = batchId) (db_batches db') \<noteq> None"
      by (auto simp: find_None_iff)
    then obtain b' where f: "List.find (\<lambda>b. bt_batch_id b = batchId) (db_batches db') = Some b'" by blast
    then have "b' = b" using b d by (auto simp: find_Some_iff distinct_map inj_on_def)
    with f b show ?thesis by (simp add: processBatch_def)
  qed
  show ?thesis
    using resolution.reachable [OF reach assms(3)] settled_row.reachable [OF reach] same again by blast
qed

lemma processing_safe_and_retryable_witness:
  "\<exists>out db'. processBatch quietEnv exampleSources ''b2'' (Inr exampleFile)
       (exampleDb\<lparr>db_batches := db_batches exampleDb @ [exampleBatch]\<rparr>) = (BatchMatched out, db')
     \<and> resolvedSound db'
     \<and> processBatch quietEnv exampleSources ''b2'' (Inr exampleFile) db' = (AlreadyProcessed, db')"
proof -
  let ?db = "exampleDb\<lparr>db_batches := db_batches exampleDb @ [exampleBatch]\<rparr>"
  obtain out where o: "matchAndPersist exampleSources exampleBatch exampleFile = Inr out"
    using example_import by blast
  have "\<exists>db'. processBatch quietEnv exampleSources ''b2'' (Inr exampleFile) ?db = (BatchMatched out, db')"
    using o [unfolded exampleBatch_def]
    by (simp add: processBatch_def exampleDb_def exampleBatch_def markState_def updateBatches_def isVersion_def
        quietEnv_def commitMatched_def exampleFile_def freightImportMaxRows_def Let_def)
  then obtain db' where r: "processBatch quietEnv exampleSources ''b2'' (Inr exampleFile) ?db = (BatchMatched out, db')" ..
  have "distinct (map bt_batch_id (db_batches ?db))" "resolvedSound ?db"
    by (simp_all add: exampleDb_def exampleBatch_def resolvedSound_def)
  from processing_safe_and_retryable [OF wf_quietEnv this r] r show ?thesis by blast
qed

end
