(* ===== verification/Transport.thy ===== *)
theory Transport
  imports Prelude Complex_Main
begin

text \<open>
  \<open>src/modules/courier-framework/transport-policy.ts\<close>, the health transitions of
  \<open>courier-health.service.ts\<close> and the call path of \<open>adapter-caller.service.ts\<close>: the token bucket,
  the circuit breaker and what a courier call does to them.  The state is that of one courier
  account (every key carries the account id).  Token counts are exact rationals where the
  script computes in double precision; a Redis key past its expiry reads as absent.
\<close>

section \<open>Errors and options\<close>

datatype CallPriority = BOOKING | QUOTE

datatype AdapterError =
    CircuitOpenError int
  | AccountBudgetExhaustedError CallPriority int
  | AdapterRateLimitError
  | CourierAuthError
  | UnsupportedCapabilityError
  | AdapterTimeoutError
  | CourierProviderError string
  | NotFoundException
  | ForbiddenException
  | BadRequestException
  | UnknownError string

record RateLimiterOptions =
  ro_quotesPerMinute :: nat
  ro_bookingReserveFraction :: rat

record CircuitBreakerOptions =
  co_failureThreshold :: nat
  co_cooldownMs :: int

definition defaultRateLimiterOptions :: RateLimiterOptions where
  "defaultRateLimiterOptions = \<lparr>ro_quotesPerMinute = 600, ro_bookingReserveFraction = 1 / 10\<rparr>"

definition defaultCircuitBreakerOptions :: CircuitBreakerOptions where
  "defaultCircuitBreakerOptions = \<lparr>co_failureThreshold = 5, co_cooldownMs = 60000\<rparr>"

datatype CourierAccountHealth = UNVERIFIED | HEALTHY | DEGRADED | DISCONNECTED | DISABLED

section \<open>State\<close>

record Bucket =
  bk_tokens :: rat
  bk_ts :: int
  bk_expires :: int

record Breaker =
  br_failures :: nat
  br_open_until :: "int option"
  br_expires :: int

record AccountTransport =
  at_bucket :: "Bucket option"
  at_breaker :: "Breaker option"
  at_health :: CourierAccountHealth

section \<open>The token bucket\<close>

text \<open>\<open>TOKEN_BUCKET_LUA\<close>: whether the call may spend, the retry hint, and the bucket left behind.\<close>

definition bucketLevel :: "rat \<Rightarrow> rat \<Rightarrow> int \<Rightarrow> Bucket option \<Rightarrow> rat" where
  "bucketLevel capacity refillPerMs now bucket =
     (case bucket of None \<Rightarrow> capacity
      | Some b \<Rightarrow> if now \<ge> bk_expires b then capacity
          else min capacity (bk_tokens b + of_int (now - bk_ts b) * refillPerMs))"

definition tokenBucket ::
  "rat \<Rightarrow> rat \<Rightarrow> rat \<Rightarrow> rat \<Rightarrow> int \<Rightarrow> Bucket option \<Rightarrow> (bool \<times> int) \<times> Bucket" where
  "tokenBucket capacity refillPerMs cost floor_tokens now bucket =
     (let tokens = bucketLevel capacity refillPerMs now bucket in
      if tokens - cost \<ge> floor_tokens
      then ((True, 0), \<lparr>bk_tokens = tokens - cost, bk_ts = now, bk_expires = now + 300000\<rparr>)
      else ((False, \<lceil>(floor_tokens + cost - tokens) / refillPerMs\<rceil>),
            \<lparr>bk_tokens = tokens, bk_ts = now, bk_expires = now + 300000\<rparr>))"

definition bucketCapacity :: "RateLimiterOptions \<Rightarrow> rat" where
  "bucketCapacity opts = of_nat (ro_quotesPerMinute opts)"

definition bucketRefill :: "RateLimiterOptions \<Rightarrow> rat" where
  "bucketRefill opts = bucketCapacity opts / 60000"

definition bucketFloor :: "RateLimiterOptions \<Rightarrow> CallPriority \<Rightarrow> rat" where
  "bucketFloor opts priority =
     (case priority of QUOTE \<Rightarrow> of_int \<lfloor>bucketCapacity opts * ro_bookingReserveFraction opts\<rfloor> | BOOKING \<Rightarrow> 0)"

definition consumeBudget ::
  "RateLimiterOptions \<Rightarrow> CallPriority \<Rightarrow> int \<Rightarrow> Bucket option \<Rightarrow> (AdapterError + unit) \<times> Bucket option" where
  "consumeBudget opts priority nowMs bucket =
     (let ((allowed, retryAfterMs), b) = tokenBucket (bucketCapacity opts) (bucketRefill opts) 1
            (bucketFloor opts priority) nowMs bucket
      in (if allowed then Inr () else Inl (AccountBudgetExhaustedError priority retryAfterMs), Some b))"

section \<open>The circuit breaker\<close>

datatype FailureDisposition = NOT_A_FAILURE | AUTH | COUNTED

definition classifyAdapterError :: "AdapterError \<Rightarrow> FailureDisposition" where
  "classifyAdapterError err = (case err of
      UnsupportedCapabilityError \<Rightarrow> NOT_A_FAILURE
    | AdapterRateLimitError \<Rightarrow> NOT_A_FAILURE
    | AccountBudgetExhaustedError _ _ \<Rightarrow> NOT_A_FAILURE
    | CourierAuthError \<Rightarrow> AUTH
    | _ \<Rightarrow> COUNTED)"

definition liveBreaker :: "int \<Rightarrow> Breaker option \<Rightarrow> Breaker option" where
  "liveBreaker now breaker = (case breaker of None \<Rightarrow> None | Some b \<Rightarrow> if now \<ge> br_expires b then None else Some b)"

definition transition :: "CourierAccountHealth \<Rightarrow> AccountTransport \<Rightarrow> AccountTransport" where
  "transition to st = (if at_health st \<noteq> to \<and> at_health st \<noteq> DISABLED then st\<lparr>at_health := to\<rparr> else st)"

definition openUntil :: "int \<Rightarrow> Breaker option \<Rightarrow> int" where
  "openUntil now breaker = (case liveBreaker now breaker of None \<Rightarrow> 0
     | Some b \<Rightarrow> (case br_open_until b of None \<Rightarrow> 0 | Some u \<Rightarrow> u))"

definition beforeCall :: "int \<Rightarrow> Breaker option \<Rightarrow> AdapterError + unit" where
  "beforeCall nowMs breaker =
     (let until = openUntil nowMs breaker in
      if until > nowMs then Inl (CircuitOpenError (until - nowMs)) else Inr ())"

definition afterSuccess :: "int \<Rightarrow> AccountTransport \<Rightarrow> AccountTransport" where
  "afterSuccess now st =
     (case liveBreaker now (at_breaker st) of None \<Rightarrow> st
      | Some b \<Rightarrow> if br_failures b > 0 then transition HEALTHY (st\<lparr>at_breaker := None\<rparr>) else st)"

definition afterFailure ::
  "CircuitBreakerOptions \<Rightarrow> AdapterError \<Rightarrow> int \<Rightarrow> AccountTransport \<Rightarrow> FailureDisposition \<times> AccountTransport" where
  "afterFailure opts err nowMs st =
     (let disposition = classifyAdapterError err in
      (disposition, case disposition of
          NOT_A_FAILURE \<Rightarrow> st
        | AUTH \<Rightarrow> transition DISCONNECTED st
        | COUNTED \<Rightarrow>
            (let old = liveBreaker nowMs (at_breaker st);
                 failures = (case old of None \<Rightarrow> 1 | Some b \<Rightarrow> br_failures b + 1);
                 expires = nowMs + co_cooldownMs opts * 10;
                 previous = (case old of None \<Rightarrow> None | Some b \<Rightarrow> br_open_until b)
             in if failures \<ge> co_failureThreshold opts
                then transition DEGRADED (st\<lparr>at_breaker := Some \<lparr>br_failures = failures,
                       br_open_until = Some (nowMs + co_cooldownMs opts), br_expires = expires\<rparr>\<rparr>)
                else st\<lparr>at_breaker := Some \<lparr>br_failures = failures,
                       br_open_until = previous, br_expires = expires\<rparr>\<rparr>)))"

definition breakerState :: "int \<Rightarrow> Breaker option \<Rightarrow> nat \<times> int" where
  "breakerState now breaker =
     ((case liveBreaker now breaker of None \<Rightarrow> 0 | Some b \<Rightarrow> br_failures b), openUntil now breaker)"

section \<open>The call path\<close>

record CourierAccountRow =
  ca_disabled :: bool
  ca_has_credentials :: bool

text \<open>
  \<open>AdapterCallerService.call\<close>: the adapter is \<open>invoke\<close>, the clock is read before the two checks
  and after the call.  The result says whether the adapter was reached.
\<close>

definition adapterCall ::
  "RateLimiterOptions \<Rightarrow> CircuitBreakerOptions \<Rightarrow> CourierAccountRow option \<Rightarrow> CallPriority \<Rightarrow> int \<Rightarrow> int
     \<Rightarrow> AdapterError + 'a \<Rightarrow> AccountTransport \<Rightarrow> (bool \<times> (AdapterError + 'a)) \<times> AccountTransport" where
  "adapterCall limiter breaker account priority nowMs laterMs invoke st =
     (case account of None \<Rightarrow> ((False, Inl NotFoundException), st)
      | Some a \<Rightarrow>
          if ca_disabled a then ((False, Inl ForbiddenException), st)
          else if \<not> ca_has_credentials a then ((False, Inl BadRequestException), st)
          else (case beforeCall nowMs (at_breaker st) of
              Inl e \<Rightarrow> ((False, Inl e), st)
            | Inr _ \<Rightarrow>
                (let (budget, bucket) = consumeBudget limiter priority nowMs (at_bucket st);
                     st1 = st\<lparr>at_bucket := bucket\<rparr>
                 in case budget of
                      Inl e \<Rightarrow> ((False, Inl e), st1)
                    | Inr _ \<Rightarrow> (case invoke of
                          Inr result \<Rightarrow> ((True, Inr result), afterSuccess laterMs st1)
                        | Inl e \<Rightarrow> ((True, Inl e), snd (afterFailure breaker e laterMs st1))))))"

end
