(* ===== verification/Transport_Laws.thy ===== *)
theory Transport_Laws
  imports Transport
begin

text \<open>
  What the limiter and the breaker guarantee over whole histories of calls: the rate in any
  window, the slice kept for bookings, the exactness of the retry hint, and when the breaker
  is open.
\<close>

section \<open>Token bucket\<close>

definition validOptions :: "RateLimiterOptions \<Rightarrow> bool" where
  "validOptions opts \<longleftrightarrow> ro_quotesPerMinute opts > 0 \<and> 0 \<le> ro_bookingReserveFraction opts
     \<and> ro_bookingReserveFraction opts \<le> 1"

definition validBucket :: "Bucket option \<Rightarrow> bool" where
  "validBucket bucket = (case bucket of None \<Rightarrow> True
     | Some b \<Rightarrow> 0 \<le> bk_tokens b \<and> bk_expires b = bk_ts b + 300000)"

definition lastSeen :: "int \<Rightarrow> Bucket option \<Rightarrow> int" where
  "lastSeen now bucket = (case bucket of None \<Rightarrow> now | Some b \<Rightarrow> bk_ts b)"

lemma capacity_pos [simp]: "validOptions opts \<Longrightarrow> 0 < bucketCapacity opts"
  by (simp add: validOptions_def bucketCapacity_def)

lemma refill_pos [simp]: "validOptions opts \<Longrightarrow> 0 < bucketRefill opts"
  by (simp add: bucketRefill_def)

lemma floor_nonneg [simp]: "validOptions opts \<Longrightarrow> 0 \<le> bucketFloor opts p"
  by (cases p) (simp_all add: bucketFloor_def validOptions_def bucketCapacity_def)

text \<open>Expiry does not matter: a bucket that old has refilled.\<close>

lemma bucketLevel_expired:
  assumes "validOptions opts" "validBucket (Some b)" "bk_ts b \<le> now"
  shows "bucketLevel (bucketCapacity opts) (bucketRefill opts) now (Some b)
    = min (bucketCapacity opts) (bk_tokens b + of_int (now - bk_ts b) * bucketRefill opts)"
proof (cases "now \<ge> bk_expires b")
  case True
  with assms have "(300000::rat) \<le> of_int (now - bk_ts b)" by (simp add: validBucket_def)
  moreover have "0 \<le> bucketRefill opts" using assms(1) by (simp add: less_imp_le)
  ultimately have "300000 * bucketRefill opts \<le> of_int (now - bk_ts b) * bucketRefill opts"
    by (rule mult_right_mono)
  moreover have "300000 * bucketRefill opts = 5 * bucketCapacity opts" by (simp add: bucketRefill_def)
  ultimately have "bucketCapacity opts \<le> bk_tokens b + of_int (now - bk_ts b) * bucketRefill opts"
    using capacity_pos [OF assms(1)] assms(2) by (simp add: validBucket_def)
  then show ?thesis using True by (simp add: bucketLevel_def min_def)
qed (simp add: bucketLevel_def)

lemma bucketLevel_bounds:
  assumes "validOptions opts" "validBucket bucket" "lastSeen now bucket \<le> now"
  shows "0 \<le> bucketLevel (bucketCapacity opts) (bucketRefill opts) now bucket
    \<and> bucketLevel (bucketCapacity opts) (bucketRefill opts) now bucket \<le> bucketCapacity opts"
  using assms less_imp_le [OF capacity_pos [OF assms(1)]] less_imp_le [OF refill_pos [OF assms(1)]]
  by (auto simp: bucketLevel_def validBucket_def lastSeen_def split: option.splits)

fun runBudget ::
  "RateLimiterOptions \<Rightarrow> (CallPriority \<times> int) list \<Rightarrow> Bucket option \<Rightarrow> nat \<times> Bucket option" where
  "runBudget opts [] bucket = (0, bucket)"
| "runBudget opts ((p, now) # calls) bucket =
     (let (r, bucket') = consumeBudget opts p now bucket;
          (n, b) = runBudget opts calls bucket'
      in ((if r = Inr () then 1 else 0) + n, b))"

lemma consumeBudget_result:
  "fst (consumeBudget opts p now bucket) = Inr () \<longleftrightarrow>
     bucketFloor opts p + 1 \<le> bucketLevel (bucketCapacity opts) (bucketRefill opts) now bucket"
  by (auto simp: consumeBudget_def tokenBucket_def Let_def)

lemma consumeBudget_bucket:
  "snd (consumeBudget opts p now bucket) = Some \<lparr>bk_tokens =
       bucketLevel (bucketCapacity opts) (bucketRefill opts) now bucket
         - (if fst (consumeBudget opts p now bucket) = Inr () then 1 else 0),
     bk_ts = now, bk_expires = now + 300000\<rparr>"
  by (auto simp: consumeBudget_def tokenBucket_def Let_def)

lemma consumeBudget_valid:
  assumes "validOptions opts" "validBucket bucket" "lastSeen now bucket \<le> now"
  shows "validBucket (snd (consumeBudget opts p now bucket))"
proof -
  have "0 \<le> bucketFloor opts p" using assms(1) by simp
  then show ?thesis
    using bucketLevel_bounds [OF assms] unfolding consumeBudget_bucket
    by (auto simp: validBucket_def consumeBudget_result)
qed

definition momentsFrom :: "int \<Rightarrow> (CallPriority \<times> int) list \<Rightarrow> bool" where
  "momentsFrom t calls \<longleftrightarrow> sorted (t # map snd calls)"

text \<open>Calls granted never exceed the tokens there were plus what was refilled meanwhile.\<close>

lemma runBudget_Cons:
  "fst (runBudget opts ((p, t) # calls) bucket) =
     (if fst (consumeBudget opts p t bucket) = Inr () then 1 else 0)
     + fst (runBudget opts calls (snd (consumeBudget opts p t bucket)))"
  by (simp add: Let_def split_def)

lemma granted_le:
  assumes "validOptions opts"
  shows "\<lbrakk>validBucket bucket; lastSeen t bucket \<le> t; momentsFrom t calls; list_all (\<lambda>(p, u). u \<le> until) calls; t \<le> until\<rbrakk> \<Longrightarrow>
    of_nat (fst (runBudget opts ((p, t) # calls) bucket))
      \<le> bucketLevel (bucketCapacity opts) (bucketRefill opts) t bucket + of_int (until - t) * bucketRefill opts"
proof (induction calls arbitrary: bucket p t)
  case Nil
  have "0 \<le> of_int (until - t) * bucketRefill opts"
    using Nil.prems less_imp_le [OF refill_pos [OF assms]] by simp
  moreover have "0 \<le> bucketFloor opts p" using assms by simp
  moreover note bucketLevel_bounds [OF assms Nil.prems(1,2)]
  ultimately show ?case by (auto simp: consumeBudget_result Let_def split_def)
next
  case (Cons c calls)
  obtain q u where c: "c = (q, u)" by fastforce
  have u: "t \<le> u" "u \<le> until" and tail: "momentsFrom u calls" "list_all (\<lambda>(p, u). u \<le> until) calls"
    using Cons.prems c by (auto simp: momentsFrom_def)
  let ?l = "bucketLevel (bucketCapacity opts) (bucketRefill opts) t bucket"
  let ?g = "fst (consumeBudget opts p t bucket) = Inr ()"
  let ?b = "\<lparr>bk_tokens = ?l - (if ?g then 1 else 0), bk_ts = t, bk_expires = t + 300000\<rparr>"
  have b: "snd (consumeBudget opts p t bucket) = Some ?b" by (rule consumeBudget_bucket)
  have v: "validBucket (Some ?b)"
    using consumeBudget_valid [OF assms Cons.prems(1,2), of p] b by simp
  have "of_nat (fst (runBudget opts (c # calls) (Some ?b)))
      \<le> bucketLevel (bucketCapacity opts) (bucketRefill opts) u (Some ?b) + of_int (until - u) * bucketRefill opts"
    unfolding c by (rule Cons.IH [OF v _ tail u(2)]) (simp add: lastSeen_def u)
  moreover have "bucketLevel (bucketCapacity opts) (bucketRefill opts) u (Some ?b)
      \<le> bk_tokens ?b + of_int (u - t) * bucketRefill opts"
    using bucketLevel_expired [OF assms v, of u] u by simp
  moreover have "of_int (u - t) * bucketRefill opts + of_int (until - u) * bucketRefill opts
      = of_int (until - t) * bucketRefill opts"
    by (simp add: algebra_simps)
  ultimately have "of_nat (fst (runBudget opts (c # calls) (Some ?b)))
      \<le> ?l - (if ?g then 1 else 0) + of_int (until - t) * bucketRefill opts" by simp
  then show ?case unfolding runBudget_Cons b by (cases ?g) simp_all
qed

text \<open>
  C14: S-17 as a bound on any window.  Whatever bookings and quotes arrive between two instants, the
  limiter lets at most one bucket plus the refill of the window through: with the default of
  600 calls a minute, at most 600 and ten more per second.
\<close>

theorem rate_limit_window:
  assumes "validOptions opts" "validBucket bucket" "lastSeen from bucket \<le> from"
    and "sorted (from # map snd calls @ [until])"
  shows "int (fst (runBudget opts calls bucket)) * 60000
    \<le> int (ro_quotesPerMinute opts) * (60000 + (until - from))"
proof (cases calls)
  case Nil
  with assms(4) show ?thesis by simp
next
  case (Cons c rest)
  obtain p t where c: "c = (p, t)" by fastforce
  have t: "from \<le> t" "t \<le> until" "momentsFrom t rest" "list_all (\<lambda>(p, u). u \<le> until) rest"
    using assms(4) Cons c by (auto simp: momentsFrom_def sorted_append list_all_iff)
  have ls: "lastSeen t bucket \<le> t" using assms(3) t(1) by (auto simp: lastSeen_def split: option.splits)
  let ?n = "fst (runBudget opts calls bucket)"
  have r: "0 \<le> bucketRefill opts" using assms(1) by (simp add: less_imp_le)
  have "of_nat ?n \<le> bucketCapacity opts + of_int (until - t) * bucketRefill opts"
    using granted_le [OF assms(1,2) ls t(3,4,2), of p] bucketLevel_bounds [OF assms(1,2) ls] Cons c by simp
  also have "\<dots> \<le> bucketCapacity opts + of_int (until - from) * bucketRefill opts"
    using t(1) r by (intro add_left_mono mult_right_mono) auto
  finally have "of_nat ?n * 60000 \<le> (bucketCapacity opts + of_int (until - from) * bucketRefill opts) * 60000"
    by simp
  also have "\<dots> = of_int (int (ro_quotesPerMinute opts) * (60000 + (until - from)))"
    by (simp add: bucketRefill_def bucketCapacity_def field_simps)
  finally have "(of_int (int ?n * 60000) :: rat) \<le> of_int (int (ro_quotesPerMinute opts) * (60000 + (until - from)))"
    by simp
  then show ?thesis by (simp only: of_int_le_iff)
qed

lemma valid_default [simp]: "validOptions defaultRateLimiterOptions"
  by (simp add: validOptions_def defaultRateLimiterOptions_def)

lemma rate_limit_window_witness:
  "int (fst (runBudget defaultRateLimiterOptions [(QUOTE, 5), (BOOKING, 9)] None)) * 60000
     \<le> int (ro_quotesPerMinute defaultRateLimiterOptions) * (60000 + (10 - 0))"
  by (rule rate_limit_window [OF valid_default]) (simp_all add: validBucket_def lastSeen_def)

text \<open>
  Quotes never starve bookings.  If the account's bucket would let a booking through, it still
  does after any number of quote calls, at any later time; this is the slice S-17 reserves,
  of at least one call.
\<close>

theorem quotes_never_starve_bookings:
  assumes "validOptions opts" "bucketFloor opts QUOTE \<ge> 1"
    and "validBucket bucket" "lastSeen now bucket \<le> now"
    and "fst (consumeBudget opts BOOKING now bucket) = Inr ()"
    and "sorted (now # moments @ [later])"
  shows "fst (consumeBudget opts BOOKING later (snd (runBudget opts (map (\<lambda>t. (QUOTE, t)) moments) bucket))) = Inr ()"
proof -
  have cap: "1 \<le> bucketLevel (bucketCapacity opts) (bucketRefill opts) now bucket"
    using assms(5) by (simp add: consumeBudget_result bucketFloor_def)
  have grow: "1 \<le> bucketLevel (bucketCapacity opts) (bucketRefill opts) t b"
    if "validBucket b" "lastSeen now b \<le> now" "now \<le> t" "1 \<le> bucketLevel (bucketCapacity opts) (bucketRefill opts) now b" for b now t
  proof (cases b)
    case None
    with that show ?thesis by (simp add: bucketLevel_def)
  next
    case (Some x)
    have le: "bk_ts x \<le> now" "bk_ts x \<le> t" using that Some by (auto simp: lastSeen_def)
    have "of_int (now - bk_ts x) * bucketRefill opts \<le> of_int (t - bk_ts x) * bucketRefill opts"
      using that(3) less_imp_le [OF refill_pos [OF assms(1)]] by (intro mult_right_mono) auto
    with that(4) show ?thesis
      using bucketLevel_expired [OF assms(1) that(1) [unfolded Some]] le unfolding Some by simp
  qed
  have "\<lbrakk>validBucket b; lastSeen now b \<le> now; 1 \<le> bucketLevel (bucketCapacity opts) (bucketRefill opts) now b;
      sorted (now # moments @ [later])\<rbrakk> \<Longrightarrow>
      1 \<le> bucketLevel (bucketCapacity opts) (bucketRefill opts) later
        (snd (runBudget opts (map (\<lambda>t. (QUOTE, t)) moments) b))" for b now moments
  proof (induction moments arbitrary: b now)
    case Nil
    then show ?case using grow by simp
  next
    case (Cons t ts)
    have t: "now \<le> t" "sorted (t # ts @ [later])" using Cons.prems by auto
    have ls: "lastSeen t b \<le> t" using Cons.prems(2) t by (auto simp: lastSeen_def split: option.splits)
    have l: "1 \<le> bucketLevel (bucketCapacity opts) (bucketRefill opts) t b" by (rule grow [OF Cons.prems(1,2) t(1) Cons.prems(3)])
    let ?b = "snd (consumeBudget opts QUOTE t b)"
    have v: "validBucket ?b" by (rule consumeBudget_valid [OF assms(1) Cons.prems(1) ls])
    have "1 \<le> bucketLevel (bucketCapacity opts) (bucketRefill opts) t b
        - (if fst (consumeBudget opts QUOTE t b) = Inr () then 1 else 0)"
      using l assms(2) by (auto simp: consumeBudget_result)
    then have "1 \<le> bucketLevel (bucketCapacity opts) (bucketRefill opts) t ?b"
      unfolding consumeBudget_bucket using bucketLevel_bounds [OF assms(1) Cons.prems(1) ls]
      by (auto simp: bucketLevel_def)
    moreover have "lastSeen t ?b \<le> t" by (simp add: consumeBudget_bucket lastSeen_def)
    ultimately have "1 \<le> bucketLevel (bucketCapacity opts) (bucketRefill opts) later
        (snd (runBudget opts (map (\<lambda>t. (QUOTE, t)) ts) ?b))"
      using Cons.IH [OF v _ _ t(2)] by blast
    then show ?case by (simp add: Let_def split_def)
  qed
  from this [OF assms(3,4) cap assms(6)] show ?thesis by (simp add: consumeBudget_result bucketFloor_def)
qed

lemma quotes_never_starve_bookings_witness:
  "fst (consumeBudget defaultRateLimiterOptions BOOKING 3
     (snd (runBudget defaultRateLimiterOptions (map (\<lambda>t. (QUOTE, t)) [1, 2]) None))) = Inr ()"
proof (rule quotes_never_starve_bookings [of _ None 0])
  show "1 \<le> bucketFloor defaultRateLimiterOptions QUOTE"
    by (simp add: bucketFloor_def bucketCapacity_def defaultRateLimiterOptions_def)
qed (simp_all add: validOptions_def validBucket_def lastSeen_def consumeBudget_result bucketLevel_def bucketFloor_def
  bucketCapacity_def defaultRateLimiterOptions_def)

text \<open>
  The retry hint is exact: a refused call is refused again at every instant before the hint has
  passed and granted at that instant, if nothing else is called.
\<close>

lemma refused_level:
  assumes "validOptions opts" "validBucket bucket" "lastSeen now bucket \<le> now" "0 \<le> j"
  shows "bucketLevel (bucketCapacity opts) (bucketRefill opts) (now + j) (snd (consumeBudget opts p now bucket))
    = min (bucketCapacity opts) (bucketLevel (bucketCapacity opts) (bucketRefill opts) now bucket
        - (if fst (consumeBudget opts p now bucket) = Inr () then 1 else 0) + of_int j * bucketRefill opts)"
  using bucketLevel_expired [OF assms(1) consumeBudget_valid [OF assms(1-3), of p, unfolded consumeBudget_bucket], of "now + j"]
    assms(4)
  by (simp add: consumeBudget_bucket)

text \<open>
  The retry hint is exact.  When the limiter refuses a call for lack of tokens and asks to come
  back in k milliseconds, k is positive, the same call is still refused at any earlier
  instant, and it is granted after k milliseconds, if nothing else is called meanwhile.
\<close>

theorem retry_hint_exact:
  assumes "validOptions opts" "validBucket bucket" "lastSeen now bucket \<le> now"
    and fits: "bucketFloor opts p + 1 \<le> bucketCapacity opts"
    and refused: "consumeBudget opts p now bucket = (Inl (AccountBudgetExhaustedError q k), bucket')"
  shows "0 < k \<and> fst (consumeBudget opts p (now + k) bucket') = Inr ()
    \<and> (\<forall>j. 0 \<le> j \<and> j < k \<longrightarrow> fst (consumeBudget opts p (now + j) bucket') \<noteq> Inr ())"
proof -
  let ?l = "bucketLevel (bucketCapacity opts) (bucketRefill opts) now bucket"
  let ?d = "bucketFloor opts p + 1 - ?l"
  have r: "0 < bucketRefill opts" using assms(1) by simp
  have d: "0 < ?d" using consumeBudget_result [of opts p now bucket] refused by auto
  have k: "k = \<lceil>?d / bucketRefill opts\<rceil>"
    using refused by (auto simp: consumeBudget_def tokenBucket_def Let_def split: if_splits)
  have b': "bucket' = snd (consumeBudget opts p now bucket)" using refused by simp
  have n: "fst (consumeBudget opts p now bucket) \<noteq> Inr ()" using refused by simp
  have level: "fst (consumeBudget opts p (now + j) bucket') = Inr () \<longleftrightarrow> ?d \<le> of_int j * bucketRefill opts" if "0 \<le> j" for j
  proof -
    have "fst (consumeBudget opts p (now + j) bucket') = Inr ()
        \<longleftrightarrow> bucketFloor opts p + 1 \<le> min (bucketCapacity opts) (?l + of_int j * bucketRefill opts)"
      unfolding b' consumeBudget_result [of opts p "now + j"] refused_level [OF assms(1-3) that, of p]
      using n by simp
    then show ?thesis using fits by (simp add: algebra_simps)
  qed
  have kd: "?d \<le> of_int j * bucketRefill opts \<longleftrightarrow> k \<le> j" for j
    using r by (simp add: k ceiling_le_iff pos_divide_le_eq)
  have "0 < k" unfolding k using d r by simp
  then show ?thesis using level kd by auto
qed

lemma retry_hint_exact_witness:
  "0 < (100::int) \<and> fst (consumeBudget defaultRateLimiterOptions BOOKING (0 + 100)
     (Some \<lparr>bk_tokens = 0, bk_ts = 0, bk_expires = 300000\<rparr>)) = Inr ()"
proof -
  have c: "consumeBudget defaultRateLimiterOptions BOOKING 0 (Some \<lparr>bk_tokens = 0, bk_ts = 0, bk_expires = 300000\<rparr>)
      = (Inl (AccountBudgetExhaustedError BOOKING 100), Some \<lparr>bk_tokens = 0, bk_ts = 0, bk_expires = 300000\<rparr>)"
    by (simp add: consumeBudget_def tokenBucket_def bucketLevel_def bucketRefill_def bucketCapacity_def
        bucketFloor_def defaultRateLimiterOptions_def Let_def)
  have "bucketFloor defaultRateLimiterOptions BOOKING + 1 \<le> bucketCapacity defaultRateLimiterOptions"
    by (simp add: bucketFloor_def bucketCapacity_def defaultRateLimiterOptions_def)
  moreover have "validBucket (Some \<lparr>bk_tokens = 0, bk_ts = 0, bk_expires = 300000\<rparr>)"
    "lastSeen 0 (Some \<lparr>bk_tokens = 0, bk_ts = 0, bk_expires = 300000\<rparr>) \<le> 0"
    by (simp_all add: validBucket_def lastSeen_def)
  ultimately show ?thesis using retry_hint_exact [OF valid_default _ _ _ c] by blast
qed

section \<open>Circuit breaker\<close>

text \<open>A history of finished calls: when, and with which error if any.\<close>

type_synonym call_history = "(int \<times> AdapterError option) list"

definition finishCall :: "CircuitBreakerOptions \<Rightarrow> AccountTransport \<Rightarrow> int \<times> AdapterError option \<Rightarrow> AccountTransport" where
  "finishCall opts st = (\<lambda>(t, err). case err of None \<Rightarrow> afterSuccess t st | Some e \<Rightarrow> snd (afterFailure opts e t st))"

definition countedFailures :: "call_history \<Rightarrow> call_history" where
  "countedFailures h = filter (\<lambda>(t, err). err \<noteq> None \<and> classifyAdapterError (the err) = COUNTED) h"

definition noSuccess :: "call_history \<Rightarrow> bool" where
  "noSuccess h \<longleftrightarrow> list_all (\<lambda>(t, err). err \<noteq> None) h"

lemma transition_breaker [simp]: "at_breaker (transition to st) = at_breaker st"
  by (simp add: transition_def)

text \<open>What a breaker key says about the history, unless it has expired.\<close>

definition breakerJustified :: "CircuitBreakerOptions \<Rightarrow> call_history \<Rightarrow> int \<Rightarrow> Breaker \<Rightarrow> bool" where
  "breakerJustified opts h now b \<longleftrightarrow> br_expires b \<le> now \<or>
     (\<exists>pre suf. h = pre @ suf \<and> noSuccess suf \<and> br_failures b \<le> length (countedFailures suf) \<and> 0 < br_failures b
        \<and> (\<forall>u. br_open_until b = Some u \<longrightarrow> co_failureThreshold opts \<le> br_failures b
            \<and> u \<in> (\<lambda>(t, e). t + co_cooldownMs opts) ` set (countedFailures suf)))"

lemma countedFailures_snoc: "countedFailures (h @ [(t, err)]) = countedFailures h
    @ (if err \<noteq> None \<and> classifyAdapterError (the err) = COUNTED then [(t, err)] else [])"
  by (simp add: countedFailures_def)

lemma breakerJustified_later: "breakerJustified opts h now b \<Longrightarrow> now \<le> t \<Longrightarrow> breakerJustified opts h t b"
  by (auto simp: breakerJustified_def)

lemma breakerJustified_failure:
  assumes "breakerJustified opts h t b"
  shows "breakerJustified opts (h @ [(t, Some e)]) t b"
  using assms unfolding breakerJustified_def
proof (elim disjE exE conjE, goal_cases)
  case (2 pre suf)
  then show ?case
    by (rule_tac disjI2, rule_tac exI [of _ pre], rule_tac exI [of _ "suf @ [(t, Some e)]"])
      (auto simp: noSuccess_def countedFailures_snoc)
qed simp

lemma finish_justified:
  assumes inv: "\<And>b. at_breaker st = Some b \<Longrightarrow> breakerJustified opts h t b"
    and b: "at_breaker (finishCall opts st (t, err)) = Some b"
  shows "breakerJustified opts (h @ [(t, err)]) t b"
proof (cases err)
  case None
  with b have old: "at_breaker st = Some b" and "br_expires b \<le> t \<or> br_failures b = 0"
    by (auto simp: finishCall_def afterSuccess_def liveBreaker_def split: option.splits if_splits)
  with inv [OF old] show ?thesis by (auto simp: breakerJustified_def)
next
  case (Some e)
  show ?thesis
  proof (cases "classifyAdapterError e = COUNTED")
    case False
    with b Some have "at_breaker st = Some b"
      by (cases "classifyAdapterError e") (auto simp: finishCall_def afterFailure_def Let_def)
    with Some show ?thesis using breakerJustified_failure [OF inv] by simp
  next
    case True
    let ?h = "h @ [(t, Some e)]"
    show ?thesis
    proof (cases "liveBreaker t (at_breaker st)")
      case None
      with b Some True have "br_failures b = 1" "br_open_until b = None \<or>
          br_open_until b = Some (t + co_cooldownMs opts) \<and> co_failureThreshold opts \<le> 1"
        by (auto simp: finishCall_def afterFailure_def Let_def split: if_splits)
      with Some True show ?thesis unfolding breakerJustified_def
        by (rule_tac disjI2, rule_tac exI [of _ h], rule_tac exI [of _ "[(t, Some e)]"]) (auto simp: noSuccess_def countedFailures_def)
    next
      case (Some b0)
      then have b0: "at_breaker st = Some b0" "\<not> br_expires b0 \<le> t"
        by (auto simp: liveBreaker_def split: option.splits if_splits)
      from inv [OF b0(1)] b0(2) obtain pre suf where s: "h = pre @ suf" "noSuccess suf"
        "br_failures b0 \<le> length (countedFailures suf)" "0 < br_failures b0"
        "\<forall>u. br_open_until b0 = Some u \<longrightarrow> co_failureThreshold opts \<le> br_failures b0
            \<and> u \<in> (\<lambda>(t, e). t + co_cooldownMs opts) ` set (countedFailures suf)"
        by (auto simp: breakerJustified_def)
      have "br_failures b = br_failures b0 + 1" "br_open_until b = br_open_until b0 \<or>
          br_open_until b = Some (t + co_cooldownMs opts) \<and> co_failureThreshold opts \<le> br_failures b"
        using b \<open>err = Some e\<close> True Some
        by (auto simp: finishCall_def afterFailure_def Let_def split: if_splits)
      with s \<open>err = Some e\<close> True show ?thesis unfolding breakerJustified_def
        by (rule_tac disjI2, rule_tac exI [of _ pre], rule_tac exI [of _ "suf @ [(t, Some e)]"])
          (auto simp: noSuccess_def countedFailures_snoc)
    qed
  qed
qed

lemma history_justified:
  "sorted (map fst h) \<Longrightarrow> at_breaker st = None \<Longrightarrow> list_all (\<lambda>(t, e). t \<le> now) h \<Longrightarrow>
     at_breaker (foldl (finishCall opts) st h) = Some b \<Longrightarrow> breakerJustified opts h now b"
proof (induction h arbitrary: now b rule: rev_induct)
  case Nil
  then show ?case by simp
next
  case (snoc c h)
  obtain t err where c: "c = (t, err)" by fastforce
  have t: "sorted (map fst h)" "list_all (\<lambda>(u, e). u \<le> t) h" "t \<le> now"
    using snoc.prems c by (auto simp: sorted_append list_all_iff)
  have "breakerJustified opts (h @ [(t, err)]) t b"
    by (rule finish_justified [OF snoc.IH [OF t(1) snoc.prems(2) t(2)]]) (use snoc.prems c in simp_all)
  with t(3) c show ?case by (simp add: breakerJustified_later)
qed

text \<open>
  When the breaker is open.  After any history of finished calls, calls fail fast at an instant
  only if the history ends in a run without a success that holds at least the threshold of
  counted failures, one of them within the cooldown; authentication errors, rate limits and
  unsupported operations never open it, and the first success after a counted failure closes it.
\<close>

theorem breaker_open_only_after_failures:
  assumes "sorted (map fst h)" "list_all (\<lambda>(t, e). t \<le> now) h" "at_breaker st = None" "0 \<le> now"
    and "beforeCall now (at_breaker (foldl (finishCall opts) st h)) = Inl (CircuitOpenError wait)"
  shows "\<exists>pre suf t e. h = pre @ suf \<and> noSuccess suf
    \<and> co_failureThreshold opts \<le> length (countedFailures suf)
    \<and> (t, e) \<in> set (countedFailures suf) \<and> now + wait = t + co_cooldownMs opts \<and> 0 < wait"
proof -
  let ?st = "foldl (finishCall opts) st h"
  obtain b u where b: "at_breaker ?st = Some b" "\<not> br_expires b \<le> now" "br_open_until b = Some u"
    "now < u" "wait = u - now"
    using assms(4,5) by (auto simp: beforeCall_def openUntil_def liveBreaker_def Let_def split: option.splits if_splits)
  have "breakerJustified opts h now b" by (rule history_justified [OF assms(1,3,2) b(1)])
  then obtain pre suf where
    s: "h = pre @ suf" "noSuccess suf" "br_failures b \<le> length (countedFailures suf)"
    "co_failureThreshold opts \<le> br_failures b"
    "u \<in> (\<lambda>(t, e). t + co_cooldownMs opts) ` set (countedFailures suf)"
    using b(2,3) unfolding breakerJustified_def by blast
  from s(5) obtain t e where "(t, e) \<in> set (countedFailures suf)" "u = t + co_cooldownMs opts" by auto
  with s(1-4) b(4,5) show ?thesis
    by (rule_tac exI [of _ pre], rule_tac exI [of _ suf], rule_tac exI [of _ t], rule_tac exI [of _ e]) simp
qed

definition exampleTransport :: AccountTransport where
  "exampleTransport = \<lparr>at_bucket = None, at_breaker = None, at_health = HEALTHY\<rparr>"

definition exampleFailures :: call_history where
  "exampleFailures = map (\<lambda>t. (t, Some AdapterTimeoutError)) [10, 20, 30, 40, 50]"

lemma breaker_open_only_after_failures_witness:
  "\<exists>pre suf t e. exampleFailures = pre @ suf \<and> noSuccess suf \<and> 5 \<le> length (countedFailures suf)
    \<and> (t, e) \<in> set (countedFailures suf) \<and> 60 + 59990 = t + (60000::int)"
proof -
  have o: "beforeCall 60 (at_breaker (foldl (finishCall defaultCircuitBreakerOptions) exampleTransport exampleFailures))
      = Inl (CircuitOpenError 59990)"
    by (simp add: exampleFailures_def exampleTransport_def finishCall_def afterFailure_def classifyAdapterError_def
        liveBreaker_def beforeCall_def openUntil_def transition_def defaultCircuitBreakerOptions_def Let_def)
  have "sorted (map fst exampleFailures)" "list_all (\<lambda>(t, e). t \<le> 60) exampleFailures"
    by (simp_all add: exampleFailures_def)
  from breaker_open_only_after_failures [OF this _ _ o] show ?thesis
    by (auto simp: exampleTransport_def defaultCircuitBreakerOptions_def)
qed

end
