(* ===== verification/Ledger.thy ===== *)
theory Ledger
  imports Prelude
begin

text \<open>
  \<open>src/modules/platform/ledger/entitlement-ledger.service.ts\<close>: the append-only AWB entitlement
  ledger.  The table is a list of entries in insertion order; the two partial unique indexes of
  migration 0002 (one DEBIT and one REVERSAL per shipment) are the check of \<open>insertEntry\<close>.  The
  argument \<open>up\<close> says whether the database accepts the statement at all.  An entry is written with
  its audit record, which is not modelled; the entry's database id is its position.
\<close>

section \<open>Data\<close>

datatype LedgerDirection = DEBIT | REVERSAL

record LedgerEntry =
  le_shop_id :: string
  le_subscription_id :: string
  le_cycle_start_at :: string
  le_shipment_id :: string
  le_direction :: LedgerDirection
  le_booking_intent_id :: "string option"

record LedgerInput =
  li_shopId :: string
  li_subscriptionId :: string
  li_cycleStartAt :: string
  li_shipmentId :: string
  li_bookingIntentId :: "string option"

datatype LedgerDebitResult = Debited nat | TestShipment | AlreadyDebited

datatype LedgerReverseResult = Reversed nat | AlreadyReversed | NotCourierConfirmedPrePickup

record AllowanceBalance =
  al_debits :: int
  al_reversals :: int
  al_consumed :: int

datatype ledger_error = LedgerUnavailable

section \<open>Operations\<close>

definition ledgerEntry :: "LedgerInput \<Rightarrow> LedgerDirection \<Rightarrow> LedgerEntry" where
  "ledgerEntry inp direction = \<lparr>le_shop_id = li_shopId inp, le_subscription_id = li_subscriptionId inp,
     le_cycle_start_at = li_cycleStartAt inp, le_shipment_id = li_shipmentId inp,
     le_direction = direction, le_booking_intent_id = li_bookingIntentId inp\<rparr>"

definition hasEntry :: "LedgerEntry list \<Rightarrow> string \<Rightarrow> LedgerDirection \<Rightarrow> bool" where
  "hasEntry ledger shipmentId direction =
     list_ex (\<lambda>e. le_shipment_id e = shipmentId \<and> le_direction e = direction) ledger"

text \<open>The INSERT: None is the unique violation.\<close>

definition insertEntry ::
  "LedgerInput \<Rightarrow> LedgerDirection \<Rightarrow> LedgerEntry list \<Rightarrow> (nat \<times> LedgerEntry list) option" where
  "insertEntry inp direction ledger =
     (if hasEntry ledger (li_shipmentId inp) direction then None
      else Some (length ledger, ledger @ [ledgerEntry inp direction]))"

definition debit ::
  "bool \<Rightarrow> LedgerInput \<Rightarrow> bool \<Rightarrow> LedgerEntry list \<Rightarrow> (ledger_error + LedgerDebitResult) \<times> LedgerEntry list" where
  "debit up inp isTest ledger =
     (if isTest then (Inr TestShipment, ledger)
      else if \<not> up then (Inl LedgerUnavailable, ledger)
      else case insertEntry inp DEBIT ledger of
        None \<Rightarrow> (Inr AlreadyDebited, ledger)
      | Some (entryId, ledger') \<Rightarrow> (Inr (Debited entryId), ledger'))"

definition reverse ::
  "bool \<Rightarrow> LedgerInput \<Rightarrow> bool \<Rightarrow> LedgerEntry list \<Rightarrow> (ledger_error + LedgerReverseResult) \<times> LedgerEntry list" where
  "reverse up inp courierConfirmedPrePickup ledger =
     (if \<not> courierConfirmedPrePickup then (Inr NotCourierConfirmedPrePickup, ledger)
      else if \<not> up then (Inl LedgerUnavailable, ledger)
      else case insertEntry inp REVERSAL ledger of
        None \<Rightarrow> (Inr AlreadyReversed, ledger)
      | Some (entryId, ledger') \<Rightarrow> (Inr (Reversed entryId), ledger'))"

definition entryCount :: "LedgerEntry list \<Rightarrow> string \<Rightarrow> string \<Rightarrow> LedgerDirection \<Rightarrow> nat" where
  "entryCount ledger subscriptionId cycleStartAt direction =
     length (filter (\<lambda>e. le_subscription_id e = subscriptionId
       \<and> le_cycle_start_at e = cycleStartAt \<and> le_direction e = direction) ledger)"

definition allowanceBalance :: "LedgerEntry list \<Rightarrow> string \<Rightarrow> string \<Rightarrow> AllowanceBalance" where
  "allowanceBalance ledger subscriptionId cycleStartAt =
     (let debits = int (entryCount ledger subscriptionId cycleStartAt DEBIT);
          reversals = int (entryCount ledger subscriptionId cycleStartAt REVERSAL)
      in \<lparr>al_debits = debits, al_reversals = reversals, al_consumed = debits - reversals\<rparr>)"

section \<open>Laws\<close>

text \<open>INV-12: at most one entry of each direction per shipment.\<close>

definition ledgerUnique :: "LedgerEntry list \<Rightarrow> bool" where
  "ledgerUnique ledger \<longleftrightarrow> distinct (map (\<lambda>e. (le_shipment_id e, le_direction e)) ledger)"

lemma insertEntry_Some: "insertEntry inp d ledger = Some (n, ledger') \<longleftrightarrow>
    \<not> hasEntry ledger (li_shipmentId inp) d \<and> n = length ledger \<and> ledger' = ledger @ [ledgerEntry inp d]"
  by (auto simp: insertEntry_def)

lemma ledgerEntry_sel [simp]:
  "le_shipment_id (ledgerEntry inp d) = li_shipmentId inp" "le_direction (ledgerEntry inp d) = d"
  "le_subscription_id (ledgerEntry inp d) = li_subscriptionId inp"
  "le_cycle_start_at (ledgerEntry inp d) = li_cycleStartAt inp" "le_shop_id (ledgerEntry inp d) = li_shopId inp"
  by (simp_all add: ledgerEntry_def)

lemma ledgerUnique_snoc: "ledgerUnique (ledger @ [ledgerEntry inp d]) \<longleftrightarrow>
    ledgerUnique ledger \<and> \<not> hasEntry ledger (li_shipmentId inp) d"
  by (auto simp: ledgerUnique_def hasEntry_def list_ex_iff image_iff)

text \<open>Each operation leaves the ledger alone or appends its entry under a free key.\<close>

lemma debit_ledger: "snd (debit up inp isTest ledger) =
    (if \<not> isTest \<and> up \<and> \<not> hasEntry ledger (li_shipmentId inp) DEBIT
     then ledger @ [ledgerEntry inp DEBIT] else ledger)"
  by (simp add: debit_def insertEntry_def)

lemma reverse_ledger: "snd (reverse up inp confirmed ledger) =
    (if confirmed \<and> up \<and> \<not> hasEntry ledger (li_shipmentId inp) REVERSAL
     then ledger @ [ledgerEntry inp REVERSAL] else ledger)"
  by (simp add: reverse_def insertEntry_def)

lemma hasEntry_append [simp]: "hasEntry (xs @ ys) s d \<longleftrightarrow> hasEntry xs s d \<or> hasEntry ys s d"
  by (auto simp: hasEntry_def)

lemma hasEntry_single [simp]: "hasEntry [ledgerEntry inp d] s d' \<longleftrightarrow> li_shipmentId inp = s \<and> d = d'"
  by (auto simp: hasEntry_def)

lemma hasEntry_Nil [simp]: "\<not> hasEntry [] s d"
  by (simp add: hasEntry_def)

lemma entryCount_snoc [simp]: "entryCount (ledger @ [ledgerEntry inp d]) s c d' = entryCount ledger s c d'
    + (if li_subscriptionId inp = s \<and> li_cycleStartAt inp = c \<and> d = d' then 1 else 0)"
  by (simp add: entryCount_def)

end
