(* ===== verification/Booking.thy ===== *)
theory Booking
  imports Ledger Movement ReconMatching Transport
begin

text \<open>
  The tables of the booking state machine (\<open>src/modules/booking/booking.types.ts\<close>) and their
  writes: shipments with the row guards of the database (migrations 0003 and 0009), booking
  intents, courier accounts, subscriptions, the entitlement ledger and the dead-letter queue.
  A table is a list of rows in creation order.  Amounts of the column \<open>collectible\<close> are paise;
  the time stamps \<open>booked_at\<close> and \<open>resolved_at\<close> are left out.  Calls to other services and audit
  records are kept in the order in which they are made.
\<close>

section \<open>Data\<close>

datatype BookingState =
    DRAFT | NEEDS_MANUAL_ASSIGNMENT | QUEUED | SUBMITTED | CONFIRMED | FAILED | OUTCOME_UNKNOWN | VOID

datatype BookingIntentOutcome =
    IO_IN_FLIGHT | IO_CONFIRMED | IO_FAILED | IO_UNKNOWN | IO_RESOLVED_CONFIRMED | IO_RESOLVED_FAILED

datatype CourierAccountMode = MODE_TEST | MODE_LIVE

datatype AccountState = TRIALING | ACTIVE | RESTRICTED | READ_ONLY | UNINSTALLED

record SnapshotRecipient =
  sr_name :: "string option"
  sr_addressLines :: "string list"
  sr_city :: "string option"
  sr_state :: "string option"
  sr_pincode :: "string option"
  sr_phone :: "string option"
  sr_email :: "string option"

record SnapshotFormulaInputs =
  fi_originPincode :: string
  fi_destinationPincode :: string
  fi_deadWeightKg :: string
  fi_lengthCm :: string
  fi_widthCm :: string
  fi_heightCm :: string
  fi_paymentMode :: payment_mode
  fi_collectible :: string
  fi_declaredValue :: string

text \<open>The fields of the frozen snapshot the worker reads.\<close>

record FrozenSnapshot =
  fz_serviceId :: string
  fz_formulaInputs :: SnapshotFormulaInputs
  fz_recipient :: "SnapshotRecipient option"
  fz_pickupLocationId :: "string option"

record ShipmentLockRow =
  bs_shipment_id :: string
  bs_shop_id :: string
  bs_order_id :: string
  bs_courier_account_id :: "string option"
  bs_booking_state :: BookingState
  bs_custody_state :: CustodyState
  bs_expected_cost_basis :: "ExpectedCostBasis option"
  bs_provider_confirmed_charge :: "string option"
  bs_snapshot :: "FrozenSnapshot option"
  bs_awb_raw :: "string option"
  bs_awb_normalized :: "string option"
  bs_is_test :: bool
  bs_collectible :: int
  bs_version :: int

record IntentRow =
  bi_booking_intent_id :: string
  bi_shipment_id :: string
  bi_outcome :: BookingIntentOutcome
  bi_merchant_reference :: string
  bi_request_digest :: string
  bi_resolved_by :: "string option"

record SubscriptionRow =
  su_subscription_id :: string
  su_shop_id :: string
  su_state :: AccountState
  su_cycle_start_at :: "string option"

record AccountRow =
  ar_courier_account_id :: string
  ar_shop_id :: string
  ar_mode :: CourierAccountMode

record DlqItem =
  dq_shop_id :: string
  dq_shipment_id :: string
  dq_booking_intent_id :: string
  dq_conflicting :: string

record BookingJobData =
  jd_shopId :: string
  jd_shipmentId :: string
  jd_bookingIntentId :: string
  jd_merchantReference :: string
  jd_serviceId :: string
  jd_courierAccountId :: string

record BookingIntent =
  in_bookingIntentId :: string
  in_requestDigest :: string
  in_merchantReference :: string

record RequestRecipient =
  rr_name :: string
  rr_addressLines :: "string list"
  rr_city :: string
  rr_state :: string
  rr_pincode :: string
  rr_phone :: string
  rr_email :: "string option"

record CreateShipmentRequest =
  cq_intent :: BookingIntent
  cq_serviceId :: string
  cq_formulaInputs :: SnapshotFormulaInputs
  cq_recipient :: RequestRecipient
  cq_pickupLocationId :: string

text \<open>What is called or recorded outside the tables.\<close>

datatype BookingCall =
    CreateShipment CreateShipmentRequest
  | CancelShipment string
  | LookupByReference string
  | RecordOverage string
  | ReverseOverage string
  | CheckAllowance string
  | RecomputeCodAssignment string
  | EnqueueFulfillmentCreate string
  | GstOnShipmentConfirmed string
  | BuyerOnShipmentBooked string
  | AuditBooking string string

record BookingDb =
  bd_shipments :: "ShipmentLockRow list"
  bd_intents :: "IntentRow list"
  bd_accounts :: "AccountRow list"
  bd_subscriptions :: "SubscriptionRow list"
  bd_ledger :: "LedgerEntry list"
  bd_dlq :: "DlqItem list"
  bd_calls :: "BookingCall list"

datatype booking_error =
    CallFailed AdapterError
  | NoSnapshot
  | GuardRaised
  | LedgerFailed

text \<open>
  What surrounds one run: the writes other transactions commit in its gaps, and whether the
  ledger's database statements go through.
\<close>

record BookingEnv =
  be_others :: "nat \<Rightarrow> BookingDb \<Rightarrow> BookingDb"
  be_ledger_up :: bool

section \<open>Row guards\<close>

text \<open>\<open>guard_shipment_row\<close>: the snapshot changes only at DRAFT to QUEUED, \<open>is_test\<close> once at CONFIRMED.\<close>

definition guardShipmentRow :: "ShipmentLockRow \<Rightarrow> ShipmentLockRow \<Rightarrow> bool" where
  "guardShipmentRow old new \<longleftrightarrow>
     (bs_snapshot new = bs_snapshot old \<or> bs_booking_state old = DRAFT \<and> bs_booking_state new = QUEUED)
   \<and> (bs_is_test new = bs_is_test old \<or> \<not> bs_is_test old \<and> bs_booking_state new = CONFIRMED)"

definition carriesCollectible :: "ShipmentLockRow \<Rightarrow> bool" where
  "carriesCollectible s \<longleftrightarrow> bs_collectible s > 0 \<and> bs_awb_normalized s \<noteq> None \<and> bs_booking_state s \<noteq> VOID"

text \<open>\<open>enforce_single_collectible\<close> (INV-9): true when the new row is accepted.\<close>

definition enforceSingleCollectible :: "BookingDb \<Rightarrow> ShipmentLockRow \<Rightarrow> bool" where
  "enforceSingleCollectible db new \<longleftrightarrow> \<not> (bs_collectible new > 0
     \<and> list_ex (\<lambda>s. bs_order_id s = bs_order_id new \<and> bs_shipment_id s \<noteq> bs_shipment_id new
          \<and> carriesCollectible s) (bd_shipments db))"

text \<open>
  An UPDATE of shipments, with the number of rows; None when a guard raises.  The flag says
  whether the statement sets collectible, awb_normalized or booking_state, on which the second
  guard fires.
\<close>

definition updateShipments ::
  "bool \<Rightarrow> (ShipmentLockRow \<Rightarrow> bool) \<Rightarrow> (ShipmentLockRow \<Rightarrow> ShipmentLockRow) \<Rightarrow> BookingDb \<Rightarrow> (BookingDb \<times> nat) option" where
  "updateShipments fires cond f db =
     (if list_all (\<lambda>s. cond s \<longrightarrow> guardShipmentRow s (f s) \<and> (fires \<longrightarrow> enforceSingleCollectible db (f s)))
          (bd_shipments db)
      then Some (db\<lparr>bd_shipments := map (\<lambda>s. if cond s then f s else s) (bd_shipments db)\<rparr>,
                 length (filter cond (bd_shipments db)))
      else None)"

section \<open>Reads and other writes\<close>

definition isShipment :: "string \<Rightarrow> string \<Rightarrow> ShipmentLockRow \<Rightarrow> bool" where
  "isShipment shopId shipmentId s \<longleftrightarrow> bs_shop_id s = shopId \<and> bs_shipment_id s = shipmentId"

definition findShipment :: "BookingDb \<Rightarrow> string \<Rightarrow> string \<Rightarrow> ShipmentLockRow option" where
  "findShipment db shopId shipmentId = List.find (isShipment shopId shipmentId) (bd_shipments db)"

definition findIntent :: "BookingDb \<Rightarrow> string \<Rightarrow> string \<Rightarrow> IntentRow option" where
  "findIntent db shipmentId bookingIntentId =
     List.find (\<lambda>i. bi_shipment_id i = shipmentId \<and> bi_booking_intent_id i = bookingIntentId) (bd_intents db)"

text \<open>ORDER BY created_at DESC LIMIT 1.\<close>

definition lastSuch :: "('a \<Rightarrow> bool) \<Rightarrow> 'a list \<Rightarrow> 'a option" where
  "lastSuch P xs = List.find P (rev xs)"

definition activeCycle :: "BookingDb \<Rightarrow> string \<Rightarrow> (string \<times> string) option" where
  "activeCycle db shopId =
     (case lastSuch (\<lambda>u. su_shop_id u = shopId \<and> su_state u \<in> {TRIALING, ACTIVE}) (bd_subscriptions db) of
        None \<Rightarrow> None
      | Some u \<Rightarrow> map_option (\<lambda>c. (su_subscription_id u, c)) (su_cycle_start_at u))"

definition updateIntent :: "string \<Rightarrow> (IntentRow \<Rightarrow> IntentRow) \<Rightarrow> BookingDb \<Rightarrow> BookingDb" where
  "updateIntent bookingIntentId f db = db\<lparr>bd_intents :=
     map (\<lambda>i. if bi_booking_intent_id i = bookingIntentId then f i else i) (bd_intents db)\<rparr>"

definition setState :: "BookingState \<Rightarrow> ShipmentLockRow \<Rightarrow> ShipmentLockRow" where
  "setState st s = s\<lparr>bs_booking_state := st, bs_version := bs_version s + 1\<rparr>"

definition setCustody :: "CustodyState \<Rightarrow> ShipmentLockRow \<Rightarrow> ShipmentLockRow" where
  "setCustody c s = s\<lparr>bs_custody_state := c, bs_version := bs_version s + 1\<rparr>"

definition callOut :: "BookingCall \<Rightarrow> BookingDb \<Rightarrow> BookingDb" where
  "callOut c db = db\<lparr>bd_calls := bd_calls db @ [c]\<rparr>"

definition ledgerInput :: "string \<Rightarrow> string \<times> string \<Rightarrow> string \<Rightarrow> string option \<Rightarrow> LedgerInput" where
  "ledgerInput shopId cycle shipmentId intent = \<lparr>li_shopId = shopId, li_subscriptionId = fst cycle,
     li_cycleStartAt = snd cycle, li_shipmentId = shipmentId, li_bookingIntentId = intent\<rparr>"

definition debitEntry :: "bool \<Rightarrow> LedgerInput \<Rightarrow> BookingDb \<Rightarrow> (ledger_error + LedgerDebitResult) \<times> BookingDb" where
  "debitEntry up inp db =
     (let (r, ledger') = debit up inp False (bd_ledger db) in (r, db\<lparr>bd_ledger := ledger'\<rparr>))"

definition reverseEntry :: "bool \<Rightarrow> LedgerInput \<Rightarrow> BookingDb \<Rightarrow> (ledger_error + LedgerReverseResult) \<times> BookingDb" where
  "reverseEntry up inp db =
     (let (r, ledger') = reverse up inp True (bd_ledger db) in (r, db\<lparr>bd_ledger := ledger'\<rparr>))"

end
