(* ===== verification/BookingWorker.thy ===== *)
theory BookingWorker
  imports Booking
begin

text \<open>
  \<open>src/modules/booking/booking-worker.service.ts\<close>: the job that claims a queued shipment, issues
  the create to the courier and settles its outcome, and the resolution of unknown outcomes.
  The courier call (\<open>AdapterCallerService.call\<close>) is an argument; it says whether the adapter
  was reached and what came back.  Other transactions may commit between the transactions of an
  operation: in gap 0 while the courier is called, in gap 1 after a confirmation commits, in gap
  2 between the read of the subscription and the debit.
\<close>

section \<open>Results of the courier\<close>

datatype CreateShipmentKind = KIND_CONFIRMED | KIND_FAILED | KIND_OUTCOME_UNKNOWN

record CreateShipmentResult =
  cr_kind :: CreateShipmentKind
  cr_awb :: "string option"
  cr_confirmedCharge :: "string option"
  cr_failureReasons :: "string list"

record LookupByReferenceResult =
  lk_found :: bool
  lk_awb :: "string option"

text \<open>JavaScript truthiness of a nullable string.\<close>

definition truthy :: "string option \<Rightarrow> bool" where
  "truthy s = (case s of None \<Rightarrow> False | Some t \<Rightarrow> t \<noteq> '''')"

definition orEmpty :: "string option \<Rightarrow> string" where
  "orEmpty s = (case s of None \<Rightarrow> '''' | Some t \<Rightarrow> t)"

section \<open>Claim\<close>

definition claimable :: "ShipmentLockRow \<Rightarrow> IntentRow \<Rightarrow> bool" where
  "claimable s i \<longleftrightarrow> bi_outcome i = IO_IN_FLIGHT \<and> bs_booking_state s \<in> {QUEUED, SUBMITTED}"

definition claimBooking ::
  "BookingJobData \<Rightarrow> BookingDb \<Rightarrow> (booking_error + (ShipmentLockRow \<times> IntentRow) option) \<times> BookingDb" where
  "claimBooking job db =
     (case findShipment db (jd_shopId job) (jd_shipmentId job) of
        None \<Rightarrow> (Inr None, db)
      | Some s \<Rightarrow> (case findIntent db (jd_shipmentId job) (jd_bookingIntentId job) of
          None \<Rightarrow> (Inr None, db)
        | Some i \<Rightarrow>
            if \<not> claimable s i then (Inr None, db)
            else if bs_booking_state s = QUEUED then
              (case updateShipments True (\<lambda>r. isShipment (jd_shopId job) (jd_shipmentId job) r
                      \<and> bs_booking_state r = QUEUED) (setState SUBMITTED) db of
                 None \<Rightarrow> (Inl GuardRaised, db)
               | Some (db', _) \<Rightarrow> (Inr (Some (s, i)), db'))
            else (Inr (Some (s, i)), db)))"

definition requestRecipient :: "SnapshotRecipient option \<Rightarrow> RequestRecipient" where
  "requestRecipient r = \<lparr>
     rr_name = orEmpty (Option.bind r sr_name),
     rr_addressLines = (case r of None \<Rightarrow> [] | Some x \<Rightarrow> sr_addressLines x),
     rr_city = orEmpty (Option.bind r sr_city),
     rr_state = orEmpty (Option.bind r sr_state),
     rr_pincode = orEmpty (Option.bind r sr_pincode),
     rr_phone = orEmpty (Option.bind r sr_phone),
     rr_email = Option.bind r sr_email\<rparr>"

definition createRequest :: "FrozenSnapshot \<Rightarrow> IntentRow \<Rightarrow> CreateShipmentRequest" where
  "createRequest snapshot i = \<lparr>
     cq_intent = \<lparr>in_bookingIntentId = bi_booking_intent_id i, in_requestDigest = bi_request_digest i,
                  in_merchantReference = bi_merchant_reference i\<rparr>,
     cq_serviceId = fz_serviceId snapshot,
     cq_formulaInputs = fz_formulaInputs snapshot,
     cq_recipient = requestRecipient (fz_recipient snapshot),
     cq_pickupLocationId = orEmpty (fz_pickupLocationId snapshot)\<rparr>"

section \<open>Confirmation\<close>

record ConfirmArgs =
  cf_job :: BookingJobData
  cf_awbRaw :: string
  cf_confirmedCharge :: "string option"
  cf_intentOutcome :: BookingIntentOutcome
  cf_resolvedByMemberId :: "string option"

datatype ConfirmTx =
    TxInvalidState
  | TxQuarantined string
  | TxConfirmed string bool ExpectedCostBasis

text \<open>The other shipment that already carries the AWB on this courier account (INV-6).\<close>

definition awbHolder :: "BookingDb \<Rightarrow> string \<Rightarrow> string \<Rightarrow> string option \<Rightarrow> string \<Rightarrow> ShipmentLockRow option" where
  "awbHolder db shopId shipmentId account awb =
     (case account of None \<Rightarrow> None
      | Some a \<Rightarrow> List.find (\<lambda>s. bs_shop_id s = shopId \<and> bs_courier_account_id s = Some a
          \<and> bs_awb_normalized s = Some awb \<and> bs_shipment_id s \<noteq> shipmentId
          \<and> bs_booking_state s \<noteq> VOID) (bd_shipments db))"

definition accountIsTest :: "BookingDb \<Rightarrow> string \<Rightarrow> string option \<Rightarrow> bool" where
  "accountIsTest db shopId account =
     (case account of None \<Rightarrow> False
      | Some a \<Rightarrow> (case List.find (\<lambda>r. ar_courier_account_id r = a \<and> ar_shop_id r = shopId) (bd_accounts db) of
          None \<Rightarrow> False | Some r \<Rightarrow> ar_mode r = MODE_TEST))"

definition confirmedBasis :: "ExpectedCostBasis option \<Rightarrow> string option \<Rightarrow> ExpectedCostBasis" where
  "confirmedBasis frozen charge =
     (if frozen = Some SNAPSHOT_QUOTE then SNAPSHOT_QUOTE
      else if truthy charge then PROVIDER_CONFIRMED_CHARGE else NO_BASIS)"

definition confirmRow ::
  "string \<Rightarrow> string \<Rightarrow> ExpectedCostBasis \<Rightarrow> bool \<Rightarrow> string option \<Rightarrow> ShipmentLockRow \<Rightarrow> ShipmentLockRow" where
  "confirmRow awbRaw awb basis isTest charge s = s\<lparr>
     bs_booking_state := CONFIRMED,
     bs_awb_raw := Some awbRaw,
     bs_awb_normalized := Some awb,
     bs_custody_state := PICKUP_PENDING,
     bs_expected_cost_basis := Some basis,
     bs_provider_confirmed_charge := (if basis = PROVIDER_CONFIRMED_CHARGE then charge else None),
     bs_is_test := isTest,
     bs_version := bs_version s + 1\<rparr>"

definition settleIntent :: "BookingIntentOutcome \<Rightarrow> string option \<Rightarrow> IntentRow \<Rightarrow> IntentRow" where
  "settleIntent outcome resolvedBy i = i\<lparr>bi_outcome := outcome, bi_resolved_by := resolvedBy\<rparr>"

text \<open>The duplicate is quarantined: the shipment fails, the intent fails, a DLQ item is kept.\<close>

definition quarantine :: "BookingJobData \<Rightarrow> string \<Rightarrow> BookingDb \<Rightarrow> BookingDb option" where
  "quarantine job conflicting db =
     (case updateShipments True (isShipment (jd_shopId job) (jd_shipmentId job)) (setState FAILED) db of
        None \<Rightarrow> None
      | Some (db1, _) \<Rightarrow>
          Some ((updateIntent (jd_bookingIntentId job) (\<lambda>i. i\<lparr>bi_outcome := IO_FAILED\<rparr>) db1)
            \<lparr>bd_dlq := bd_dlq db1 @ [\<lparr>dq_shop_id = jd_shopId job, dq_shipment_id = jd_shipmentId job,
               dq_booking_intent_id = jd_bookingIntentId job, dq_conflicting = conflicting\<rparr>]\<rparr>))"

definition confirmTx :: "ConfirmArgs \<Rightarrow> BookingDb \<Rightarrow> (booking_error + ConfirmTx) \<times> BookingDb" where
  "confirmTx args db =
     (let job = cf_job args; awb = normalizeAwb (cf_awbRaw args) in
      case findShipment db (jd_shopId job) (jd_shipmentId job) of
        None \<Rightarrow> (Inr TxInvalidState, db)
      | Some s \<Rightarrow>
          if bs_booking_state s \<notin> {SUBMITTED, OUTCOME_UNKNOWN} then (Inr TxInvalidState, db)
          else (case awbHolder db (jd_shopId job) (jd_shipmentId job) (bs_courier_account_id s) awb of
              Some d \<Rightarrow> (case quarantine job (bs_shipment_id d) db of
                  None \<Rightarrow> (Inl GuardRaised, db)
                | Some db' \<Rightarrow> (Inr (TxQuarantined (bs_shipment_id d)), db'))
            | None \<Rightarrow>
                (let isTest = accountIsTest db (jd_shopId job) (bs_courier_account_id s);
                     basis = confirmedBasis (bs_expected_cost_basis s) (cf_confirmedCharge args)
                 in case updateShipments True (isShipment (jd_shopId job) (jd_shipmentId job))
                        (confirmRow (cf_awbRaw args) awb basis isTest (cf_confirmedCharge args)) db of
                      None \<Rightarrow> (Inl GuardRaised, db)
                    | Some (db1, _) \<Rightarrow> (Inr (TxConfirmed (bs_order_id s) isTest basis),
                        updateIntent (jd_bookingIntentId job)
                          (settleIntent (cf_intentOutcome args) (cf_resolvedByMemberId args)) db1))))"

text \<open>The debit after the commit and the calls that never gate the booking.\<close>

definition afterConfirmDebit :: "BookingEnv \<Rightarrow> BookingJobData \<Rightarrow> BookingDb \<Rightarrow> (booking_error + unit) \<times> BookingDb" where
  "afterConfirmDebit env job db =
     (case activeCycle db (jd_shopId job) of
        None \<Rightarrow> (Inr (), db)
      | Some cycle \<Rightarrow>
          (let (r, db1) = debitEntry (be_ledger_up env)
                 (ledgerInput (jd_shopId job) cycle (jd_shipmentId job) (Some (jd_bookingIntentId job)))
                 (be_others env 2 db)
           in case r of
                Inl _ \<Rightarrow> (Inl LedgerFailed, db1)
              | Inr _ \<Rightarrow> (Inr (), callOut (CheckAllowance (jd_shopId job))
                  (callOut (RecordOverage (jd_shipmentId job)) db1))))"

definition confirmedCalls :: "ConfirmArgs \<Rightarrow> string \<Rightarrow> bool \<Rightarrow> BookingDb \<Rightarrow> BookingDb" where
  "confirmedCalls args orderId isTest db =
     (let sid = jd_shipmentId (cf_job args);
          action = (if cf_intentOutcome args = IO_RESOLVED_CONFIRMED
                    then ''booking.outcome_unknown_resolved'' else ''booking.confirmed'');
          db1 = callOut (RecomputeCodAssignment orderId) (callOut (AuditBooking action sid) db);
          db2 = (if isTest then db1 else callOut (EnqueueFulfillmentCreate sid) db1)
      in callOut (BuyerOnShipmentBooked sid) (callOut (GstOnShipmentConfirmed sid) db2))"

datatype ConfirmResult =
    ConfirmDone string
  | ConfirmInvalidState
  | ConfirmQuarantined

definition confirmBooking ::
  "BookingEnv \<Rightarrow> ConfirmArgs \<Rightarrow> BookingDb \<Rightarrow> (booking_error + ConfirmResult) \<times> BookingDb" where
  "confirmBooking env args db =
     (case confirmTx args db of
        (Inl e, db1) \<Rightarrow> (Inl e, db1)
      | (Inr TxInvalidState, db1) \<Rightarrow> (Inr ConfirmInvalidState, db1)
      | (Inr (TxQuarantined _), db1) \<Rightarrow>
          (Inr ConfirmQuarantined,
           callOut (AuditBooking ''booking.awb_duplicate_quarantined'' (jd_shipmentId (cf_job args))) db1)
      | (Inr (TxConfirmed orderId isTest basis), db1) \<Rightarrow>
          (let (r, db2) = (if isTest then (Inr (), db1)
                           else afterConfirmDebit env (cf_job args) (be_others env 1 db1))
           in case r of
                Inl e \<Rightarrow> (Inl e, db2)
              | Inr _ \<Rightarrow> (Inr (ConfirmDone (normalizeAwb (cf_awbRaw args))),
                  confirmedCalls args orderId isTest db2)))"

section \<open>Failure and unknown outcome\<close>

definition settleTx ::
  "BookingJobData \<Rightarrow> BookingState \<Rightarrow> BookingState \<Rightarrow> (IntentRow \<Rightarrow> IntentRow) \<Rightarrow> BookingDb \<Rightarrow> BookingDb option" where
  "settleTx job fromState toState f db =
     (case updateShipments True (\<lambda>s. isShipment (jd_shopId job) (jd_shipmentId job) s
              \<and> bs_booking_state s = fromState) (setState toState) db of
        None \<Rightarrow> None
      | Some (db1, n) \<Rightarrow> Some (if n = 1 then updateIntent (jd_bookingIntentId job) f db1 else db1))"

definition settleFailed ::
  "BookingJobData \<Rightarrow> BookingState \<Rightarrow> BookingIntentOutcome \<Rightarrow> string option \<Rightarrow> BookingDb
     \<Rightarrow> (booking_error + unit) \<times> BookingDb" where
  "settleFailed job fromState outcome actorId db =
     (case settleTx job fromState FAILED (settleIntent outcome actorId) db of
        None \<Rightarrow> (Inl GuardRaised, db)
      | Some db1 \<Rightarrow> (Inr (), callOut (AuditBooking (if outcome = IO_RESOLVED_FAILED
            then ''booking.outcome_unknown_resolved'' else ''booking.failed'') (jd_shipmentId job)) db1))"

definition markOutcomeUnknown :: "BookingJobData \<Rightarrow> BookingDb \<Rightarrow> (booking_error + unit) \<times> BookingDb" where
  "markOutcomeUnknown job db =
     (case settleTx job SUBMITTED OUTCOME_UNKNOWN (\<lambda>i. i\<lparr>bi_outcome := IO_UNKNOWN\<rparr>) db of
        None \<Rightarrow> (Inl GuardRaised, db)
      | Some db1 \<Rightarrow> (Inr (), callOut (AuditBooking ''booking.outcome_unknown'' (jd_shipmentId job)) db1))"

section \<open>The job\<close>

definition backPressure :: "AdapterError \<Rightarrow> bool" where
  "backPressure err = (case err of CircuitOpenError _ \<Rightarrow> True | AccountBudgetExhaustedError _ _ \<Rightarrow> True
     | AdapterRateLimitError \<Rightarrow> True | _ \<Rightarrow> False)"

definition definitiveRejection :: "AdapterError \<Rightarrow> bool" where
  "definitiveRejection err = (err = CourierAuthError \<or> err = UnsupportedCapabilityError)"

definition discardResult :: "(booking_error + 'a) \<times> BookingDb \<Rightarrow> (booking_error + unit) \<times> BookingDb" where
  "discardResult r = (case fst r of Inl e \<Rightarrow> Inl e | Inr _ \<Rightarrow> Inr (), snd r)"

definition settleCreate ::
  "BookingEnv \<Rightarrow> BookingJobData \<Rightarrow> AdapterError + CreateShipmentResult \<Rightarrow> BookingDb \<Rightarrow> (booking_error + unit) \<times> BookingDb" where
  "settleCreate env job response db =
     (case response of
        Inl err \<Rightarrow>
          if backPressure err then (Inl (CallFailed err), db)
          else if definitiveRejection err then settleFailed job SUBMITTED IO_FAILED None db
          else markOutcomeUnknown job db
      | Inr result \<Rightarrow>
          if cr_kind result = KIND_CONFIRMED \<and> truthy (cr_awb result) then
            discardResult (confirmBooking env \<lparr>cf_job = job, cf_awbRaw = orEmpty (cr_awb result),
              cf_confirmedCharge = cr_confirmedCharge result, cf_intentOutcome = IO_CONFIRMED,
              cf_resolvedByMemberId = None\<rparr> db)
          else if cr_kind result = KIND_FAILED then settleFailed job SUBMITTED IO_FAILED None db
          else markOutcomeUnknown job db)"

definition processBooking ::
  "BookingEnv \<Rightarrow> (CreateShipmentRequest \<Rightarrow> bool \<times> (AdapterError + CreateShipmentResult)) \<Rightarrow> BookingJobData
     \<Rightarrow> BookingDb \<Rightarrow> (booking_error + unit) \<times> BookingDb" where
  "processBooking env call job db =
     (case claimBooking job db of
        (Inl e, db1) \<Rightarrow> (Inl e, db1)
      | (Inr None, db1) \<Rightarrow> (Inr (), db1)
      | (Inr (Some (s, i)), db1) \<Rightarrow>
          (case bs_snapshot s of
             None \<Rightarrow> (Inl NoSnapshot, db1)
           | Some snapshot \<Rightarrow>
               (let request = createRequest snapshot i;
                    (reached, response) = call request;
                    db2 = (if reached then callOut (CreateShipment request) db1 else db1)
                in settleCreate env job response (be_others env 0 db2))))"

section \<open>Resolution of an unknown outcome\<close>

datatype ResolveOutcome =
    ResolvedConfirmed string
  | ResolvedFailed
  | ResolveShipmentNotFound
  | ResolveInvalidState "BookingState option"

definition loadOutcomeUnknown :: "string \<Rightarrow> string \<Rightarrow> BookingDb \<Rightarrow> ResolveOutcome + (IntentRow \<times> string)" where
  "loadOutcomeUnknown shopId shipmentId db =
     (case findShipment db shopId shipmentId of
        None \<Rightarrow> Inl ResolveShipmentNotFound
      | Some s \<Rightarrow>
          if bs_booking_state s \<noteq> OUTCOME_UNKNOWN then Inl (ResolveInvalidState (Some (bs_booking_state s)))
          else (case (lastSuch (\<lambda>i. bi_shipment_id i = shipmentId \<and> bi_outcome i = IO_UNKNOWN) (bd_intents db),
                      bs_courier_account_id s) of
              (Some i, Some account) \<Rightarrow> Inr (i, account)
            | _ \<Rightarrow> Inl (ResolveInvalidState (Some (bs_booking_state s)))))"

definition resolveJob :: "string \<Rightarrow> string \<Rightarrow> IntentRow \<Rightarrow> string \<Rightarrow> BookingJobData" where
  "resolveJob shopId shipmentId i account = \<lparr>jd_shopId = shopId, jd_shipmentId = shipmentId,
     jd_bookingIntentId = bi_booking_intent_id i, jd_merchantReference = bi_merchant_reference i,
     jd_serviceId = '''', jd_courierAccountId = account\<rparr>"

definition confirmResolved ::
  "BookingEnv \<Rightarrow> BookingJobData \<Rightarrow> string \<Rightarrow> string option \<Rightarrow> BookingDb \<Rightarrow> (booking_error + ResolveOutcome) \<times> BookingDb" where
  "confirmResolved env job awb memberId db =
     (case confirmBooking env \<lparr>cf_job = job, cf_awbRaw = awb, cf_confirmedCharge = None,
          cf_intentOutcome = IO_RESOLVED_CONFIRMED, cf_resolvedByMemberId = memberId\<rparr> db of
        (Inl e, db1) \<Rightarrow> (Inl e, db1)
      | (Inr (ConfirmDone a), db1) \<Rightarrow> (Inr (ResolvedConfirmed a), db1)
      | (Inr _, db1) \<Rightarrow> (Inr (ResolveInvalidState None), db1))"

definition failResolved ::
  "BookingJobData \<Rightarrow> string option \<Rightarrow> BookingDb \<Rightarrow> (booking_error + ResolveOutcome) \<times> BookingDb" where
  "failResolved job memberId db =
     (case settleFailed job OUTCOME_UNKNOWN IO_RESOLVED_FAILED memberId db of
        (Inl e, db1) \<Rightarrow> (Inl e, db1)
      | (Inr _, db1) \<Rightarrow> (Inr ResolvedFailed, db1))"

definition resolveOutcomeUnknown ::
  "BookingEnv \<Rightarrow> (string \<Rightarrow> bool \<times> (AdapterError + LookupByReferenceResult)) \<Rightarrow> string \<Rightarrow> string \<Rightarrow> BookingDb
     \<Rightarrow> (booking_error + ResolveOutcome) \<times> BookingDb" where
  "resolveOutcomeUnknown env call shopId shipmentId db =
     (case loadOutcomeUnknown shopId shipmentId db of
        Inl r \<Rightarrow> (Inr r, db)
      | Inr (i, account) \<Rightarrow>
          (let (reached, response) = call (bi_merchant_reference i);
               db1 = (if reached then callOut (LookupByReference (bi_merchant_reference i)) db else db);
               db2 = be_others env 0 db1;
               job = resolveJob shopId shipmentId i account
           in case response of
                Inl err \<Rightarrow> (Inl (CallFailed err), db2)
              | Inr lookup \<Rightarrow>
                  if lk_found lookup \<and> truthy (lk_awb lookup)
                  then confirmResolved env job (orEmpty (lk_awb lookup)) None db2
                  else failResolved job None db2))"

datatype OperatorDecision = DecideConfirmed string | DecideFailed

definition resolveOutcomeUnknownByOperator ::
  "BookingEnv \<Rightarrow> string \<Rightarrow> string \<Rightarrow> string \<Rightarrow> OperatorDecision \<Rightarrow> BookingDb
     \<Rightarrow> (booking_error + ResolveOutcome) \<times> BookingDb" where
  "resolveOutcomeUnknownByOperator env shopId shipmentId memberId decision db =
     (case loadOutcomeUnknown shopId shipmentId db of
        Inl r \<Rightarrow> (Inr r, db)
      | Inr (i, account) \<Rightarrow>
          (let job = resolveJob shopId shipmentId i account; db1 = be_others env 0 db in
           case decision of
             DecideConfirmed awb \<Rightarrow> confirmResolved env job awb (Some memberId) db1
           | DecideFailed \<Rightarrow> failResolved job (Some memberId) db1))"

end
