(* ===== verification/BookingCancel.thy ===== *)
theory BookingCancel
  imports BookingWorker
begin

text \<open>
  \<open>src/modules/booking/cancellation.service.ts\<close>: cancellation before pickup.  The courier call is
  an argument.  Other transactions may commit in gap 0, while the courier is called, in gap 1,
  after the cancellation commits, and in gap 2, between the read of the subscription and the
  reversal.
\<close>

datatype CancelShipmentResult =
    CourierCancelled
  | CourierRejected "string option"
  | CourierOutcomeUnknown "string option"

datatype CancelResult =
    Cancelled
  | CancelShipmentNotFound
  | InvalidBookingState BookingState
  | InvalidCustodyState CustodyState
  | CancelRejected CustodyState "string option"
  | CancelOutcomeUnknown
  | CancelPickupRace

record CancelInput =
  ci_shopId :: string
  ci_shipmentId :: string
  ci_actorId :: string

definition cancelStep ::
  "CancelInput \<Rightarrow> (ShipmentLockRow \<Rightarrow> bool) \<Rightarrow> bool \<Rightarrow> (ShipmentLockRow \<Rightarrow> ShipmentLockRow) \<Rightarrow> BookingDb \<Rightarrow> BookingDb option" where
  "cancelStep inp cond fires f db =
     map_option fst (updateShipments fires
       (\<lambda>s. isShipment (ci_shopId inp) (ci_shipmentId inp) s \<and> cond s) f db)"

text \<open>Phase 1: the guard and CANCEL_REQUESTED; the row read and the newest intent are kept.\<close>

definition requestTx ::
  "CancelInput \<Rightarrow> BookingDb \<Rightarrow> (booking_error + (CancelResult + ShipmentLockRow \<times> string option)) \<times> BookingDb" where
  "requestTx inp db =
     (case findShipment db (ci_shopId inp) (ci_shipmentId inp) of
        None \<Rightarrow> (Inr (Inl CancelShipmentNotFound), db)
      | Some s \<Rightarrow>
          if bs_booking_state s \<noteq> CONFIRMED then (Inr (Inl (InvalidBookingState (bs_booking_state s))), db)
          else if bs_custody_state s \<notin> {PICKUP_PENDING, PICKUP_SCHEDULED}
          then (Inr (Inl (InvalidCustodyState (bs_custody_state s))), db)
          else (case cancelStep inp (\<lambda>s. True) False (setCustody CANCEL_REQUESTED) db of
              None \<Rightarrow> (Inl GuardRaised, db)
            | Some db1 \<Rightarrow> (Inr (Inr (s, map_option bi_booking_intent_id
                (lastSuch (\<lambda>i. bi_shipment_id i = ci_shipmentId inp) (bd_intents db)))), db1)))"

definition voidRow :: "ShipmentLockRow \<Rightarrow> ShipmentLockRow" where
  "voidRow s = s\<lparr>bs_custody_state := CANCELLED, bs_booking_state := VOID, bs_collectible := 0,
     bs_version := bs_version s + 1\<rparr>"

definition afterCancelReversal ::
  "BookingEnv \<Rightarrow> CancelInput \<Rightarrow> string option \<Rightarrow> BookingDb \<Rightarrow> (booking_error + unit) \<times> BookingDb" where
  "afterCancelReversal env inp intent db =
     (case activeCycle db (ci_shopId inp) of
        None \<Rightarrow> (Inr (), db)
      | Some cycle \<Rightarrow>
          (let (r, db1) = reverseEntry (be_ledger_up env)
                 (ledgerInput (ci_shopId inp) cycle (ci_shipmentId inp) intent) (be_others env 2 db)
           in case r of
                Inl _ \<Rightarrow> (Inl LedgerFailed, db1)
              | Inr (Reversed _) \<Rightarrow> (Inr (), callOut (ReverseOverage (ci_shipmentId inp)) db1)
              | Inr _ \<Rightarrow> (Inr (), db1)))"

text \<open>The courier confirmed the cancellation.\<close>

definition settleCancelled ::
  "BookingEnv \<Rightarrow> CancelInput \<Rightarrow> ShipmentLockRow \<Rightarrow> string option \<Rightarrow> BookingDb \<Rightarrow> (booking_error + CancelResult) \<times> BookingDb" where
  "settleCancelled env inp shipment intent db =
     (let custody = map_option bs_custody_state (findShipment db (ci_shopId inp) (ci_shipmentId inp)) in
      if custody = Some IN_CUSTODY then
        (Inr CancelPickupRace, callOut (AuditBooking ''booking.cancel_pickup_race'' (ci_shipmentId inp)) db)
      else if custody \<noteq> Some CANCEL_REQUESTED then (Inr Cancelled, db)
      else (case cancelStep inp (\<lambda>s. bs_custody_state s = CANCEL_REQUESTED) True voidRow db of
          None \<Rightarrow> (Inl GuardRaised, db)
        | Some db1 \<Rightarrow>
            (let (r, db2) = (if bs_is_test shipment then (Inr (), db1)
                             else afterCancelReversal env inp intent (be_others env 1 db1))
             in case r of
                  Inl e \<Rightarrow> (Inl e, db2)
                | Inr _ \<Rightarrow> (Inr Cancelled, callOut (AuditBooking ''booking.cancelled'' (ci_shipmentId inp))
                    (callOut (RecomputeCodAssignment (bs_order_id shipment)) db2)))))"

text \<open>CANCEL_REQUESTED to CANCEL_REJECTED and back to the previous state, in one transaction.\<close>

definition settleRejected ::
  "CancelInput \<Rightarrow> CustodyState \<Rightarrow> string option \<Rightarrow> BookingDb \<Rightarrow> (booking_error + CancelResult) \<times> BookingDb" where
  "settleRejected inp previousCustody reason db =
     (case Option.bind (cancelStep inp (\<lambda>s. bs_custody_state s = CANCEL_REQUESTED) False
               (setCustody CANCEL_REJECTED) db)
             (cancelStep inp (\<lambda>s. bs_custody_state s = CANCEL_REJECTED) False (setCustody previousCustody)) of
        None \<Rightarrow> (Inl GuardRaised, db)
      | Some db1 \<Rightarrow> (Inr (CancelRejected previousCustody reason),
          callOut (AuditBooking ''booking.cancel_rejected'' (ci_shipmentId inp)) db1))"

definition flagOutcomeUnknown :: "CancelInput \<Rightarrow> BookingDb \<Rightarrow> (booking_error + CancelResult) \<times> BookingDb" where
  "flagOutcomeUnknown inp db = (Inr CancelOutcomeUnknown,
     callOut (AuditBooking ''booking.cancel_outcome_unknown'' (ci_shipmentId inp)) db)"

definition cancelAwb :: "ShipmentLockRow \<Rightarrow> string" where
  "cancelAwb s = (case bs_awb_raw s of Some a \<Rightarrow> a | None \<Rightarrow> orEmpty (bs_awb_normalized s))"

definition requestCancellation ::
  "BookingEnv \<Rightarrow> (string \<Rightarrow> bool \<times> (AdapterError + CancelShipmentResult)) \<Rightarrow> CancelInput \<Rightarrow> BookingDb
     \<Rightarrow> (booking_error + CancelResult) \<times> BookingDb" where
  "requestCancellation env call inp db =
     (case requestTx inp db of
        (Inl e, db1) \<Rightarrow> (Inl e, db1)
      | (Inr (Inl refused), db1) \<Rightarrow> (Inr refused, db1)
      | (Inr (Inr (shipment, intent)), db1) \<Rightarrow>
          (let db2 = callOut (AuditBooking ''booking.cancel_requested'' (ci_shipmentId inp)) db1;
               (reached, response) = call (cancelAwb shipment);
               db3 = be_others env 0
                 (if reached then callOut (CancelShipment (cancelAwb shipment)) db2 else db2)
           in case response of
                Inl _ \<Rightarrow> flagOutcomeUnknown inp db3
              | Inr CourierCancelled \<Rightarrow> settleCancelled env inp shipment intent db3
              | Inr (CourierRejected reason) \<Rightarrow> settleRejected inp (bs_custody_state shipment) reason db3
              | Inr (CourierOutcomeUnknown _) \<Rightarrow> flagOutcomeUnknown inp db3))"

end
