(* ===== verification/Booking_Laws.thy ===== *)
theory Booking_Laws
  imports BookingCancel
begin

text \<open>
  What booking, resolution and cancellation guarantee while any other writers run between their
  transactions: \<open>booking_step\<close> lists the committed writes, the operations are sequences of them,
  and the invariants INV-6, INV-9 and INV-12 hold along every sequence.
\<close>

section \<open>Writes\<close>

definition booked :: "ShipmentLockRow \<Rightarrow> bool" where
  "booked s \<longleftrightarrow> bs_booking_state s \<in> {CONFIRMED, VOID}"

text \<open>What any write other than a confirmation may do to a shipment.\<close>

definition rowStep :: "ShipmentLockRow \<Rightarrow> ShipmentLockRow \<Rightarrow> bool" where
  "rowStep s t \<longleftrightarrow> bs_shipment_id t = bs_shipment_id s \<and> bs_shop_id t = bs_shop_id s
     \<and> bs_order_id t = bs_order_id s \<and> bs_awb_normalized t = bs_awb_normalized s
     \<and> bs_is_test t = bs_is_test s \<and> booked t = booked s
     \<and> (booked s \<longrightarrow> bs_courier_account_id t = bs_courier_account_id s
          \<and> (bs_booking_state s = VOID \<longrightarrow> bs_booking_state t = VOID))"

definition quietColumns :: "ShipmentLockRow \<Rightarrow> ShipmentLockRow \<Rightarrow> bool" where
  "quietColumns s t \<longleftrightarrow> bs_collectible t = bs_collectible s \<and> bs_booking_state t = bs_booking_state s"

definition isBooked :: "BookingDb \<Rightarrow> string \<Rightarrow> bool \<Rightarrow> bool" where
  "isBooked db shipmentId void \<longleftrightarrow> (\<exists>s \<in> set (bd_shipments db). bs_shipment_id s = shipmentId
     \<and> booked s \<and> \<not> bs_is_test s \<and> (void \<longrightarrow> bs_booking_state s = VOID))"

inductive booking_step :: "BookingDb \<Rightarrow> BookingDb \<Rightarrow> bool" where
  row: "updateShipments fires c f db = Some (db', n) \<Longrightarrow>
    (\<And>s. c s \<Longrightarrow> bs_shipment_id s = sid) \<Longrightarrow>
    (\<And>s. s \<in> set (bd_shipments db) \<Longrightarrow> c s \<Longrightarrow> rowStep s (f s) \<and> (fires \<or> quietColumns s (f s))) \<Longrightarrow>
    booking_step db db'"
| confirm: "confirmTx args db = (r, db') \<Longrightarrow> booking_step db db'"
| draft: "\<not> booked s \<Longrightarrow> \<not> bs_is_test s \<Longrightarrow> bs_awb_normalized s = None \<Longrightarrow>
    bs_shipment_id s \<notin> bs_shipment_id ` set (bd_shipments db) \<Longrightarrow>
    booking_step db (db\<lparr>bd_shipments := bd_shipments db @ [s]\<rparr>)"
| debited: "isBooked db (li_shipmentId inp) False \<Longrightarrow>
    booking_step db (snd (debitEntry up inp db))"
| reversed: "isBooked db (li_shipmentId inp) True \<Longrightarrow>
    booking_step db (snd (reverseEntry up inp db))"
| tables: "booking_step db (db\<lparr>bd_intents := its, bd_accounts := ac, bd_subscriptions := su,
    bd_dlq := dl, bd_calls := cs\<rparr>)"

inductive_cases booking_stepE: "booking_step db db'"

definition wfBookingEnv :: "BookingEnv \<Rightarrow> bool" where
  "wfBookingEnv env \<longleftrightarrow> (\<forall>k db. booking_step\<^sup>*\<^sup>* db (be_others env k db))"

section \<open>Invariants\<close>

text \<open>INV-6: an AWB is on one live shipment of a courier account.\<close>

definition awbUnique :: "BookingDb \<Rightarrow> bool" where
  "awbUnique db \<longleftrightarrow> (\<forall>s \<in> set (bd_shipments db). \<forall>t \<in> set (bd_shipments db).
     bs_shop_id s = bs_shop_id t \<and> bs_courier_account_id s \<noteq> None
     \<and> bs_courier_account_id s = bs_courier_account_id t
     \<and> bs_awb_normalized s \<noteq> None \<and> bs_awb_normalized s = bs_awb_normalized t
     \<and> bs_booking_state s \<noteq> VOID \<and> bs_booking_state t \<noteq> VOID
     \<longrightarrow> bs_shipment_id s = bs_shipment_id t)"

text \<open>INV-9: at most one live AWB of an order carries its collectible.\<close>

definition singleCollectible :: "BookingDb \<Rightarrow> bool" where
  "singleCollectible db \<longleftrightarrow> (\<forall>s \<in> set (bd_shipments db). \<forall>t \<in> set (bd_shipments db).
     bs_order_id s = bs_order_id t \<and> carriesCollectible s \<and> carriesCollectible t
     \<longrightarrow> bs_shipment_id s = bs_shipment_id t)"

text \<open>INV-12 and INV-19: the ledger holds one entry of each kind, for booked live shipments only.\<close>

definition ledgerJustified :: "BookingDb \<Rightarrow> bool" where
  "ledgerJustified db \<longleftrightarrow> ledgerUnique (bd_ledger db)
     \<and> (\<forall>e \<in> set (bd_ledger db). isBooked db (le_shipment_id e) (le_direction e = REVERSAL))"

definition bookingInv :: "BookingDb \<Rightarrow> bool" where
  "bookingInv db \<longleftrightarrow> distinct (map bs_shipment_id (bd_shipments db))
     \<and> (\<forall>s \<in> set (bd_shipments db). bs_awb_normalized s \<noteq> None \<or> bs_is_test s \<longrightarrow> booked s)
     \<and> awbUnique db \<and> singleCollectible db \<and> ledgerJustified db"

text \<open>A booked shipment keeps its AWB and its test flag, and VOID is final.\<close>

definition stays :: "string \<Rightarrow> string option \<Rightarrow> bool \<Rightarrow> bool \<Rightarrow> BookingDb \<Rightarrow> bool" where
  "stays shipmentId awb isTest void db \<longleftrightarrow> (\<exists>s \<in> set (bd_shipments db). bs_shipment_id s = shipmentId
     \<and> booked s \<and> bs_awb_normalized s = awb \<and> bs_is_test s = isTest \<and> (void \<longrightarrow> bs_booking_state s = VOID))"

lemma awbUniqueD:
  assumes "awbUnique db" "s \<in> set (bd_shipments db)" "t \<in> set (bd_shipments db)"
    "bs_shop_id s = bs_shop_id t" "bs_courier_account_id s \<noteq> None"
    "bs_courier_account_id s = bs_courier_account_id t" "bs_awb_normalized s \<noteq> None"
    "bs_awb_normalized s = bs_awb_normalized t" "bs_booking_state s \<noteq> VOID" "bs_booking_state t \<noteq> VOID"
  shows "bs_shipment_id s = bs_shipment_id t"
  using assms(1) [unfolded awbUnique_def, THEN bspec, OF assms(2), THEN bspec, OF assms(3)] assms(4-) by simp

lemma singleCollectibleD:
  assumes "singleCollectible db" "s \<in> set (bd_shipments db)" "t \<in> set (bd_shipments db)"
    "bs_order_id s = bs_order_id t" "carriesCollectible s" "carriesCollectible t"
  shows "bs_shipment_id s = bs_shipment_id t"
  using assms(1) [unfolded singleCollectible_def, THEN bspec, OF assms(2), THEN bspec, OF assms(3)] assms(4-) by simp

lemma stays_isBooked: "stays sid awb False void db \<Longrightarrow> isBooked db sid void"
  by (auto simp: stays_def isBooked_def)

lemma updateShipments_Some: "updateShipments fires c f db = Some (db', n) \<longleftrightarrow>
    (\<forall>s \<in> set (bd_shipments db). c s \<longrightarrow> guardShipmentRow s (f s) \<and> (fires \<longrightarrow> enforceSingleCollectible db (f s)))
    \<and> db' = db\<lparr>bd_shipments := map (\<lambda>s. if c s then f s else s) (bd_shipments db)\<rparr>
    \<and> n = length (filter c (bd_shipments db))"
  by (auto simp: updateShipments_def list_all_iff)

lemma rowStep_refl [simp]: "rowStep s s"
  by (simp add: rowStep_def)

lemma rowStep_sel:
  assumes "rowStep s t"
  shows "bs_shipment_id t = bs_shipment_id s" "bs_shop_id t = bs_shop_id s" "bs_order_id t = bs_order_id s"
    "bs_awb_normalized t = bs_awb_normalized s" "bs_is_test t = bs_is_test s" "booked t = booked s"
  using assms by (simp_all add: rowStep_def)

lemma isBooked_mono:
  assumes "isBooked db sid void" "bd_shipments db' = map g (bd_shipments db) @ new"
    and "\<And>s. s \<in> set (bd_shipments db) \<Longrightarrow> rowStep s (g s) \<or> \<not> booked s"
  shows "isBooked db' sid void"
proof -
  obtain s where s: "s \<in> set (bd_shipments db)" "bs_shipment_id s = sid" "booked s" "\<not> bs_is_test s"
    "void \<longrightarrow> bs_booking_state s = VOID" using assms(1) by (auto simp: isBooked_def)
  with assms(3) have r: "rowStep s (g s)" by blast
  have "g s \<in> set (bd_shipments db')" using s(1) assms(2) by simp
  with s r show ?thesis by (auto simp: isBooked_def rowStep_def)
qed

lemma stays_mono:
  assumes "stays sid awb test void db" "bd_shipments db' = map g (bd_shipments db) @ new"
    and "\<And>s. s \<in> set (bd_shipments db) \<Longrightarrow> rowStep s (g s) \<or> \<not> booked s"
  shows "stays sid awb test void db'"
proof -
  obtain s where s: "s \<in> set (bd_shipments db)" "bs_shipment_id s = sid" "booked s" "bs_is_test s = test"
    "bs_awb_normalized s = awb" "void \<longrightarrow> bs_booking_state s = VOID" using assms(1) by (auto simp: stays_def)
  with assms(3) have r: "rowStep s (g s)" by blast
  have "g s \<in> set (bd_shipments db')" using s(1) assms(2) by simp
  with s r show ?thesis by (auto simp: stays_def rowStep_def)
qed

lemma ledgerJustified_mono:
  assumes "ledgerJustified db" "bd_shipments db' = map g (bd_shipments db) @ new" "bd_ledger db' = bd_ledger db"
    and "\<And>s. s \<in> set (bd_shipments db) \<Longrightarrow> rowStep s (g s) \<or> \<not> booked s"
  shows "ledgerJustified db'"
  using assms isBooked_mono [OF _ assms(2,4)] by (auto simp: ledgerJustified_def)

lemma awbUnique_mono:
  assumes "awbUnique db" "bd_shipments db' = map g (bd_shipments db)"
    and inv: "\<And>s. s \<in> set (bd_shipments db) \<Longrightarrow> bs_awb_normalized s \<noteq> None \<Longrightarrow> booked s"
    and step: "\<And>s. s \<in> set (bd_shipments db) \<Longrightarrow> rowStep s (g s)"
  shows "awbUnique db'"
proof -
  have keep: "bs_shipment_id (g s) = bs_shipment_id s \<and> bs_shop_id (g s) = bs_shop_id s
      \<and> bs_awb_normalized (g s) = bs_awb_normalized s
      \<and> (bs_awb_normalized s \<noteq> None \<longrightarrow> bs_courier_account_id (g s) = bs_courier_account_id s
         \<and> (bs_booking_state (g s) \<noteq> VOID \<longrightarrow> bs_booking_state s \<noteq> VOID))"
    if "s \<in> set (bd_shipments db)" for s
    using step [OF that] inv [OF that] by (auto simp: rowStep_def)
  show ?thesis
    unfolding awbUnique_def
  proof (intro ballI impI, elim conjE)
    fix s' t' assume a: "s' \<in> set (bd_shipments db')" "t' \<in> set (bd_shipments db')"
      "bs_shop_id s' = bs_shop_id t'" "bs_courier_account_id s' \<noteq> None"
      "bs_courier_account_id s' = bs_courier_account_id t'" "bs_awb_normalized s' \<noteq> None"
      "bs_awb_normalized s' = bs_awb_normalized t'" "bs_booking_state s' \<noteq> VOID" "bs_booking_state t' \<noteq> VOID"
    then obtain s t where s: "s \<in> set (bd_shipments db)" "s' = g s" and t: "t \<in> set (bd_shipments db)" "t' = g t"
      using assms(2) by auto
    note ks = keep [OF s(1), folded s(2)] and kt = keep [OF t(1), folded t(2)]
    have awb: "bs_awb_normalized s = bs_awb_normalized t" "bs_awb_normalized s \<noteq> None" "bs_awb_normalized t \<noteq> None"
      using a(6,7) ks kt by simp_all
    have acc: "bs_courier_account_id s' = bs_courier_account_id s" "bs_courier_account_id t' = bs_courier_account_id t"
      and live: "bs_booking_state s \<noteq> VOID" "bs_booking_state t \<noteq> VOID"
      using awb a(8,9) ks kt by simp_all
    have "bs_shop_id s = bs_shop_id t" using a(3) ks kt by simp
    moreover have "bs_courier_account_id s \<noteq> None" using a(4) acc(1) by simp
    moreover have "bs_courier_account_id s = bs_courier_account_id t" using a(5) acc by simp
    ultimately have "bs_shipment_id s = bs_shipment_id t"
      by (rule awbUniqueD [OF assms(1) s(1) t(1) _ _ _ awb(2,1) live])
    moreover have "bs_shipment_id s' = bs_shipment_id s" "bs_shipment_id t' = bs_shipment_id t"
      using ks kt by (blast, blast)
    ultimately show "bs_shipment_id s' = bs_shipment_id t'" by (simp only:)
  qed
qed

lemma singleCollectible_map:
  assumes "singleCollectible db" "bd_shipments db' = map g (bd_shipments db)"
    and keep: "\<And>s. s \<in> set (bd_shipments db) \<Longrightarrow> bs_shipment_id (g s) = bs_shipment_id s"
      "\<And>s. s \<in> set (bd_shipments db) \<Longrightarrow> bs_order_id (g s) = bs_order_id s"
      "\<And>s. s \<in> set (bd_shipments db) \<Longrightarrow> carriesCollectible (g s) \<Longrightarrow> carriesCollectible s"
  shows "singleCollectible db'"
  unfolding singleCollectible_def
proof (intro ballI impI, elim conjE)
  fix s' t' assume a: "s' \<in> set (bd_shipments db')" "t' \<in> set (bd_shipments db')"
    "bs_order_id s' = bs_order_id t'" "carriesCollectible s'" "carriesCollectible t'"
  then obtain s t where s: "s \<in> set (bd_shipments db)" "s' = g s" and t: "t \<in> set (bd_shipments db)" "t' = g t"
    using assms(2) by auto
  have "bs_order_id s = bs_order_id t" using a(3) keep(2) s t by metis
  then have "bs_shipment_id s = bs_shipment_id t"
    using singleCollectibleD [OF assms(1) s(1) t(1)] keep(3) a(4,5) s t by blast
  then show "bs_shipment_id s' = bs_shipment_id t'" using keep(1) s t by metis
qed

lemma singleCollectible_fires:
  assumes "singleCollectible db" "updateShipments True c f db = Some (db', n)"
    and one: "\<And>s. c s \<Longrightarrow> bs_shipment_id s = sid"
    and keep: "\<And>s. s \<in> set (bd_shipments db) \<Longrightarrow> c s \<Longrightarrow> bs_shipment_id (f s) = bs_shipment_id s \<and> bs_order_id (f s) = bs_order_id s"
  shows "singleCollectible db'"
proof -
  let ?g = "\<lambda>s. if c s then f s else s"
  have db': "bd_shipments db' = map ?g (bd_shipments db)"
    and guard: "\<And>s. s \<in> set (bd_shipments db) \<Longrightarrow> c s \<Longrightarrow> enforceSingleCollectible db (f s)"
    using assms(2) by (auto simp: updateShipments_Some)
  have id: "bs_shipment_id (?g s) = bs_shipment_id s" "bs_order_id (?g s) = bs_order_id s"
    if "s \<in> set (bd_shipments db)" for s using keep that by auto
  have pair: "bs_shipment_id s = bs_shipment_id t"
    if "s \<in> set (bd_shipments db)" "t \<in> set (bd_shipments db)" "bs_order_id s = bs_order_id t"
      "carriesCollectible (?g s)" "carriesCollectible (?g t)" "c s" for s t
  proof (cases "c t")
    case True
    with that one show ?thesis by metis
  next
    case False
    have "enforceSingleCollectible db (f s)" using guard that by blast
    then show ?thesis
      using that False keep [OF that(1,6)] by (auto simp: enforceSingleCollectible_def carriesCollectible_def list_ex_iff)
  qed
  show ?thesis
    unfolding singleCollectible_def
  proof (intro ballI impI, elim conjE)
    fix s' t' assume a: "s' \<in> set (bd_shipments db')" "t' \<in> set (bd_shipments db')"
      "bs_order_id s' = bs_order_id t'" "carriesCollectible s'" "carriesCollectible t'"
    then obtain s t where s: "s \<in> set (bd_shipments db)" "s' = ?g s" and t: "t \<in> set (bd_shipments db)" "t' = ?g t"
      using db' by auto
    have o: "bs_order_id s = bs_order_id t" using a(3) id [OF s(1)] id [OF t(1)] s t by simp
    have "bs_shipment_id s = bs_shipment_id t"
    proof (cases "c s \<or> c t")
      case True
      have c: "carriesCollectible (?g s)" "carriesCollectible (?g t)" using a(4,5) unfolding s(2) t(2) .
      from True show ?thesis
        using pair [OF s(1) t(1) o c] pair [OF t(1) s(1) o [symmetric] c(2,1)] by (elim disjE) simp_all
    next
      case False
      then have "carriesCollectible s" "carriesCollectible t" using a(4,5) s(2) t(2) by simp_all
      then show ?thesis by (rule singleCollectibleD [OF assms(1) s(1) t(1) o])
    qed
    then show "bs_shipment_id s' = bs_shipment_id t'" unfolding s(2) t(2) id(1) [OF s(1)] id(1) [OF t(1)] .
  qed
qed

text \<open>What the confirmation transaction writes.\<close>

lemma find_shipment:
  "findShipment db shop sid = Some s \<Longrightarrow> s \<in> set (bd_shipments db) \<and> isShipment shop sid s"
  by (auto simp: findShipment_def find_Some_iff)

lemma confirmTx_cases:
  assumes "confirmTx args db = (r, db')"
  obtains (same) "db' = db" "r = Inl GuardRaised \<or> r = Inr TxInvalidState"
  | (quarantined) s db1 n d where
      "findShipment db (jd_shopId (cf_job args)) (jd_shipmentId (cf_job args)) = Some s"
      "bs_booking_state s \<in> {SUBMITTED, OUTCOME_UNKNOWN}" "r = Inr (TxQuarantined d)"
      "updateShipments True (isShipment (jd_shopId (cf_job args)) (jd_shipmentId (cf_job args))) (setState FAILED) db = Some (db1, n)"
      "bd_shipments db' = bd_shipments db1" "bd_ledger db' = bd_ledger db"
  | (confirmed) s db1 n where
      "findShipment db (jd_shopId (cf_job args)) (jd_shipmentId (cf_job args)) = Some s"
      "bs_booking_state s \<in> {SUBMITTED, OUTCOME_UNKNOWN}"
      "awbHolder db (jd_shopId (cf_job args)) (jd_shipmentId (cf_job args)) (bs_courier_account_id s)
         (normalizeAwb (cf_awbRaw args)) = None"
      "r = Inr (TxConfirmed (bs_order_id s) (accountIsTest db (jd_shopId (cf_job args)) (bs_courier_account_id s))
         (confirmedBasis (bs_expected_cost_basis s) (cf_confirmedCharge args)))"
      "updateShipments True (isShipment (jd_shopId (cf_job args)) (jd_shipmentId (cf_job args)))
         (confirmRow (cf_awbRaw args) (normalizeAwb (cf_awbRaw args))
            (confirmedBasis (bs_expected_cost_basis s) (cf_confirmedCharge args))
            (accountIsTest db (jd_shopId (cf_job args)) (bs_courier_account_id s)) (cf_confirmedCharge args)) db
         = Some (db1, n)"
      "db' = updateIntent (jd_bookingIntentId (cf_job args))
         (settleIntent (cf_intentOutcome args) (cf_resolvedByMemberId args)) db1"
proof (cases "findShipment db (jd_shopId (cf_job args)) (jd_shipmentId (cf_job args))")
  case None
  with assms have "db' = db" "r = Inr TxInvalidState" by (simp_all add: confirmTx_def Let_def)
  then show ?thesis using same by simp
next
  case (Some s)
  let ?awb = "normalizeAwb (cf_awbRaw args)"
  let ?c = "isShipment (jd_shopId (cf_job args)) (jd_shipmentId (cf_job args))"
  show ?thesis
  proof (cases "bs_booking_state s \<in> {SUBMITTED, OUTCOME_UNKNOWN}")
    case False
    with assms Some have "db' = db" "r = Inr TxInvalidState" by (auto simp: confirmTx_def Let_def)
    then show ?thesis using same by simp
  next
    case state: True
    show ?thesis
    proof (cases "awbHolder db (jd_shopId (cf_job args)) (jd_shipmentId (cf_job args)) (bs_courier_account_id s) ?awb")
      case None
      show ?thesis
      proof (cases "updateShipments True ?c (confirmRow (cf_awbRaw args) ?awb
            (confirmedBasis (bs_expected_cost_basis s) (cf_confirmedCharge args))
            (accountIsTest db (jd_shopId (cf_job args)) (bs_courier_account_id s)) (cf_confirmedCharge args)) db")
        case u: None
        have "db' = db" "r = Inl GuardRaised" using assms state by (auto simp: confirmTx_def Let_def Some None u)
        then show ?thesis using same by simp
      next
        case (Some p)
        obtain db1 n where p: "p = (db1, n)" by fastforce
        show ?thesis
          by (rule confirmed [OF \<open>findShipment _ _ _ = Some s\<close> state None _ Some [unfolded p]])
            (use assms state in \<open>auto simp: confirmTx_def Let_def \<open>findShipment _ _ _ = Some s\<close> None Some p\<close>)
      qed
    next
      case holder: (Some d)
      show ?thesis
      proof (cases "updateShipments True ?c (setState FAILED) db")
        case u: None
        have "db' = db" "r = Inl GuardRaised"
          using assms state by (auto simp: confirmTx_def Let_def Some holder quarantine_def u)
        then show ?thesis using same by simp
      next
        case u: (Some p)
        obtain db1 n where p: "p = (db1, n)" by fastforce
        have "r = Inr (TxQuarantined (bs_shipment_id d))" "bd_shipments db' = bd_shipments db1" "bd_ledger db' = bd_ledger db"
          using assms state u [unfolded p updateShipments_Some]
          by (auto simp: confirmTx_def Let_def Some holder quarantine_def u p updateIntent_def)
        then show ?thesis using quarantined [OF Some state _ u [unfolded p]] by blast
      qed
    qed
  qed
qed

lemma confirmRow_sel [simp]:
  "bs_shipment_id (confirmRow raw awb basis t ch s) = bs_shipment_id s"
  "bs_shop_id (confirmRow raw awb basis t ch s) = bs_shop_id s"
  "bs_order_id (confirmRow raw awb basis t ch s) = bs_order_id s"
  "bs_awb_normalized (confirmRow raw awb basis t ch s) = Some awb"
  "bs_courier_account_id (confirmRow raw awb basis t ch s) = bs_courier_account_id s"
  "bs_booking_state (confirmRow raw awb basis t ch s) = CONFIRMED"
  "bs_is_test (confirmRow raw awb basis t ch s) = t"
  "bs_collectible (confirmRow raw awb basis t ch s) = bs_collectible s"
  "bs_snapshot (confirmRow raw awb basis t ch s) = bs_snapshot s"
  by (simp_all add: confirmRow_def)

lemma setState_sel [simp]:
  "bs_shipment_id (setState st s) = bs_shipment_id s" "bs_shop_id (setState st s) = bs_shop_id s"
  "bs_order_id (setState st s) = bs_order_id s" "bs_awb_normalized (setState st s) = bs_awb_normalized s"
  "bs_courier_account_id (setState st s) = bs_courier_account_id s"
  "bs_booking_state (setState st s) = st" "bs_is_test (setState st s) = bs_is_test s"
  "bs_collectible (setState st s) = bs_collectible s" "bs_snapshot (setState st s) = bs_snapshot s"
  "bs_custody_state (setState st s) = bs_custody_state s"
  by (simp_all add: setState_def)

lemma setCustody_sel [simp]:
  "bs_shipment_id (setCustody st s) = bs_shipment_id s" "bs_shop_id (setCustody st s) = bs_shop_id s"
  "bs_order_id (setCustody st s) = bs_order_id s" "bs_awb_normalized (setCustody st s) = bs_awb_normalized s"
  "bs_courier_account_id (setCustody st s) = bs_courier_account_id s"
  "bs_booking_state (setCustody st s) = bs_booking_state s" "bs_is_test (setCustody st s) = bs_is_test s"
  "bs_collectible (setCustody st s) = bs_collectible s" "bs_snapshot (setCustody st s) = bs_snapshot s"
  "bs_custody_state (setCustody st s) = st"
  by (simp_all add: setCustody_def)

lemma voidRow_sel [simp]:
  "bs_shipment_id (voidRow s) = bs_shipment_id s" "bs_shop_id (voidRow s) = bs_shop_id s"
  "bs_order_id (voidRow s) = bs_order_id s" "bs_awb_normalized (voidRow s) = bs_awb_normalized s"
  "bs_courier_account_id (voidRow s) = bs_courier_account_id s"
  "bs_booking_state (voidRow s) = VOID" "bs_is_test (voidRow s) = bs_is_test s"
  "bs_collectible (voidRow s) = 0" "bs_snapshot (voidRow s) = bs_snapshot s"
  "bs_custody_state (voidRow s) = CANCELLED"
  by (simp_all add: voidRow_def)

lemma bookingInvD:
  assumes "bookingInv db"
  shows "distinct (map bs_shipment_id (bd_shipments db))" "awbUnique db" "singleCollectible db" "ledgerJustified db"
    "s \<in> set (bd_shipments db) \<Longrightarrow> bs_awb_normalized s \<noteq> None \<Longrightarrow> booked s"
    "s \<in> set (bd_shipments db) \<Longrightarrow> bs_is_test s \<Longrightarrow> booked s"
  using assms by (auto simp: bookingInv_def)

lemma only_shipment:
  assumes "distinct (map bs_shipment_id (bd_shipments db))" "findShipment db shop sid = Some s"
    "t \<in> set (bd_shipments db)" "isShipment shop sid t"
  shows "t = s"
  using assms find_shipment [OF assms(2)] by (auto simp: isShipment_def distinct_map inj_on_def)

text \<open>A write that is not a confirmation keeps everything.\<close>

lemma row_keeps:
  assumes u: "updateShipments fires c f db = Some (db', n)"
    and one: "\<And>s. c s \<Longrightarrow> bs_shipment_id s = sid"
    and r: "\<And>s. s \<in> set (bd_shipments db) \<Longrightarrow> c s \<Longrightarrow> rowStep s (f s) \<and> (fires \<or> quietColumns s (f s))"
    and inv: "bookingInv db"
  shows "bookingInv db'"
proof -
  let ?g = "\<lambda>s. if c s then f s else s"
  have db': "bd_shipments db' = map ?g (bd_shipments db)" "bd_ledger db' = bd_ledger db"
    using u by (auto simp: updateShipments_Some)
  have g: "rowStep s (?g s)" if "s \<in> set (bd_shipments db)" for s using r [OF that] by simp
  have ids: "map bs_shipment_id (bd_shipments db') = map bs_shipment_id (bd_shipments db)"
    unfolding db' using rowStep_sel(1) [OF g] by simp
  have "singleCollectible db'"
  proof (cases fires)
    case True
    then show ?thesis
      using u r rowStep_sel(1,3) by (intro singleCollectible_fires [OF bookingInvD(3) [OF inv], of c f db' n, OF _ one]) auto
  next
    case False
    have same: "bs_shipment_id (?g s) = bs_shipment_id s \<and> bs_order_id (?g s) = bs_order_id s
        \<and> carriesCollectible (?g s) = carriesCollectible s" if "s \<in> set (bd_shipments db)" for s
      using r [OF that] False by (auto simp: quietColumns_def carriesCollectible_def rowStep_def)
    show ?thesis
      by (rule singleCollectible_map [OF bookingInvD(3) [OF inv] db'(1)]) (use same in blast)+
  qed
  moreover have "awbUnique db'"
    by (rule awbUnique_mono [OF bookingInvD(2) [OF inv] db'(1) bookingInvD(5) [OF inv] g])
  moreover have "ledgerJustified db'"
    by (rule ledgerJustified_mono [where g = ?g and new = "[]", OF bookingInvD(4) [OF inv]]) (use db' g in simp_all)
  moreover have "\<forall>s \<in> set (bd_shipments db'). bs_awb_normalized s \<noteq> None \<or> bs_is_test s \<longrightarrow> booked s"
  proof
    fix s' assume "s' \<in> set (bd_shipments db')"
    then obtain s where s: "s \<in> set (bd_shipments db)" "s' = ?g s" using db' by auto
    then show "bs_awb_normalized s' \<noteq> None \<or> bs_is_test s' \<longrightarrow> booked s'"
      using rowStep_sel [OF g [OF s(1)], folded s(2)] bookingInvD(5,6) [OF inv s(1)] by auto
  qed
  ultimately show ?thesis using bookingInvD(1) [OF inv] ids by (simp add: bookingInv_def)
qed

text \<open>The confirmation itself: the found shipment is the only one written, and it was not booked.\<close>

lemma update_shape: "updateShipments fires c f db = Some (db1, n) \<Longrightarrow>
    bd_shipments db1 = map (\<lambda>s. if c s then f s else s) (bd_shipments db) \<and> bd_ledger db1 = bd_ledger db"
  by (simp add: updateShipments_Some)

lemma updateIntent_sel [simp]:
  "bd_shipments (updateIntent i f db) = bd_shipments db" "bd_ledger (updateIntent i f db) = bd_ledger db"
  "bd_calls (updateIntent i f db) = bd_calls db"
  by (simp_all add: updateIntent_def)

lemma bookingInv_cong: "bd_shipments db' = bd_shipments db \<Longrightarrow> bd_ledger db' = bd_ledger db \<Longrightarrow> bookingInv db' = bookingInv db"
  by (simp add: bookingInv_def awbUnique_def singleCollectible_def ledgerJustified_def isBooked_def)

lemma stays_cong: "bd_shipments db' = bd_shipments db \<Longrightarrow> stays sid awb t v db' = stays sid awb t v db"
  by (simp add: stays_def)

lemma awbHolder_None:
  assumes "awbHolder db shop sid acc awb = None" "t \<in> set (bd_shipments db)" "bs_shop_id t = shop"
    "acc \<noteq> None" "bs_courier_account_id t = acc" "bs_awb_normalized t = Some awb" "bs_booking_state t \<noteq> VOID"
  shows "bs_shipment_id t = sid"
  using assms by (auto simp: awbHolder_def find_None_iff split: option.splits)

lemma confirmed_keeps:
  assumes f: "findShipment db shop sid = Some s" and st: "bs_booking_state s \<in> {SUBMITTED, OUTCOME_UNKNOWN}"
    and h: "awbHolder db shop sid (bs_courier_account_id s) awb = None"
    and u: "updateShipments True (isShipment shop sid) (confirmRow raw awb basis t ch) db = Some (db', n)"
    and inv: "bookingInv db"
  shows "bookingInv db'"
proof -
  let ?g = "\<lambda>s. if isShipment shop sid s then confirmRow raw awb basis t ch s else s"
  have db': "bd_shipments db' = map ?g (bd_shipments db)" "bd_ledger db' = bd_ledger db"
    using update_shape [OF u] by blast+
  note s = find_shipment [OF f] and only = only_shipment [OF bookingInvD(1) [OF inv] f]
  have id [simp]: "bs_shipment_id (?g x) = bs_shipment_id x" "bs_shop_id (?g x) = bs_shop_id x"
    "bs_courier_account_id (?g x) = bs_courier_account_id x" for x by simp_all
  have unbooked: "\<not> booked s" using st by (auto simp: booked_def)
  have new: "rowStep x (?g x) \<or> \<not> booked x" if "x \<in> set (bd_shipments db)" for x
    using only [OF that] unbooked by auto
  have ids: "map bs_shipment_id (bd_shipments db') = map bs_shipment_id (bd_shipments db)"
    unfolding db' by simp
  have "singleCollectible db'"
    by (rule singleCollectible_fires [OF bookingInvD(3) [OF inv] u, of sid]) (auto simp: isShipment_def)
  moreover have "ledgerJustified db'"
    by (rule ledgerJustified_mono [where g = ?g and new = "[]", OF bookingInvD(4) [OF inv]]) (use db' new in simp_all)
  moreover have "\<forall>x \<in> set (bd_shipments db'). bs_awb_normalized x \<noteq> None \<or> bs_is_test x \<longrightarrow> booked x"
  proof
    fix x' assume "x' \<in> set (bd_shipments db')"
    then obtain x where x: "x \<in> set (bd_shipments db)" "x' = ?g x" using db' by auto
    then show "bs_awb_normalized x' \<noteq> None \<or> bs_is_test x' \<longrightarrow> booked x'"
      using bookingInvD(5,6) [OF inv x(1)] by (auto simp: booked_def)
  qed
  moreover have "awbUnique db'"
    unfolding awbUnique_def
  proof (intro ballI impI, elim conjE)
    fix x' y' assume a: "x' \<in> set (bd_shipments db')" "y' \<in> set (bd_shipments db')"
      "bs_shop_id x' = bs_shop_id y'" "bs_courier_account_id x' \<noteq> None"
      "bs_courier_account_id x' = bs_courier_account_id y'" "bs_awb_normalized x' \<noteq> None"
      "bs_awb_normalized x' = bs_awb_normalized y'" "bs_booking_state x' \<noteq> VOID" "bs_booking_state y' \<noteq> VOID"
    then obtain x y where x: "x \<in> set (bd_shipments db)" "x' = ?g x" and y: "y \<in> set (bd_shipments db)" "y' = ?g y"
      using db' by auto
    have other: "bs_shipment_id z = sid" if "z \<in> set (bd_shipments db)" "bs_shop_id z = shop"
        "bs_courier_account_id s \<noteq> None" "bs_courier_account_id z = bs_courier_account_id s"
        "bs_awb_normalized z = Some awb" "bs_booking_state z \<noteq> VOID" for z
      by (rule awbHolder_None [OF h that])
    have "bs_shipment_id x = bs_shipment_id y"
    proof (cases "isShipment shop sid x")
      case True
      then have xs: "x = s" using only [OF x(1)] by blast
      show ?thesis
      proof (cases "isShipment shop sid y")
        case True
        then show ?thesis using only [OF y(1)] xs by blast
      next
        case False
        then have ye: "y' = y" and xe: "x' = confirmRow raw awb basis t ch s" using x(2) y(2) True xs by simp_all
        have "bs_shop_id y = shop" "bs_courier_account_id s \<noteq> None"
          "bs_courier_account_id y = bs_courier_account_id s" "bs_awb_normalized y = Some awb" "bs_booking_state y \<noteq> VOID"
          using a(3,4,5,7,9) True unfolding xe ye xs by (simp_all add: isShipment_def)
        then have "bs_shipment_id y = sid" by (rule other [OF y(1)])
        with True show ?thesis by (simp add: isShipment_def)
      qed
    next
      case nx: False
      show ?thesis
      proof (cases "isShipment shop sid y")
        case True
        then have ys: "y = s" using only [OF y(1)] by blast
        have xe: "x' = x" and ye: "y' = confirmRow raw awb basis t ch s" using x(2) y(2) True ys nx by simp_all
        have "bs_shop_id x = shop" "bs_courier_account_id s \<noteq> None"
          "bs_courier_account_id x = bs_courier_account_id s" "bs_awb_normalized x = Some awb" "bs_booking_state x \<noteq> VOID"
          using a(3,4,5,7,8) True unfolding xe ye ys by (simp_all add: isShipment_def)
        then have "bs_shipment_id x = sid" by (rule other [OF x(1)])
        with True show ?thesis by (simp add: isShipment_def)
      next
        case False
        then have "x' = x" "y' = y" using x(2) y(2) nx by simp_all
        then show ?thesis by (intro awbUniqueD [OF bookingInvD(2) [OF inv] x(1) y(1)]) (use a(3-9) in blast)+
      qed
    qed
    then show "bs_shipment_id x' = bs_shipment_id y'" using x(2) y(2) by simp
  qed
  ultimately show ?thesis using bookingInvD(1) [OF inv] ids by (simp add: bookingInv_def)
qed

lemma confirmTx_keeps:
  assumes "confirmTx args db = (r, db')" "bookingInv db"
  shows "bookingInv db'"
  using assms(1)
proof (cases rule: confirmTx_cases)
  case same
  then show ?thesis using assms(2) by simp
next
  case (quarantined s db1 n d)
  have unbooked: "\<not> booked s" using quarantined(2) by (auto simp: booked_def)
  have "bookingInv db1"
    by (rule row_keeps [OF quarantined(4) _ _ assms(2), of "jd_shipmentId (cf_job args)"])
      (use only_shipment [OF bookingInvD(1) [OF assms(2)] quarantined(1)] unbooked
       in \<open>auto simp: isShipment_def rowStep_def booked_def\<close>)
  then show ?thesis using quarantined(5,6) update_shape [OF quarantined(4)] bookingInv_cong [of db' db1] by simp
next
  case (confirmed s db1 n)
  have "bookingInv db1" by (rule confirmed_keeps [OF confirmed(1-3) confirmed(5) assms(2)])
  then show ?thesis using confirmed(6) bookingInv_cong [of db' db1] by simp
qed

lemma found_update_stays:
  assumes "bookingInv db" "stays sid awb t v db" "findShipment db shop i = Some s" "\<not> booked s"
    "updateShipments fires (isShipment shop i) f db = Some (db1, n)"
  shows "stays sid awb t v db1"
proof (rule stays_mono [OF assms(2), where new = "[]"])
  show "bd_shipments db1 = map (\<lambda>s. if isShipment shop i s then f s else s) (bd_shipments db) @ []"
    using update_shape [OF assms(5)] by simp
  show "rowStep x (if isShipment shop i x then f x else x) \<or> \<not> booked x" if "x \<in> set (bd_shipments db)" for x
    using only_shipment [OF bookingInvD(1) [OF assms(1)] assms(3) that] assms(4) by auto
qed

lemma confirmTx_stays:
  assumes "confirmTx args db = (r, db')" "bookingInv db" "stays sid awb t v db"
  shows "stays sid awb t v db'"
  using assms(1)
proof (cases rule: confirmTx_cases)
  case same
  then show ?thesis using assms(3) by simp
next
  case (quarantined s db1 n d)
  have "\<not> booked s" using quarantined(2) by (auto simp: booked_def)
  then have "stays sid awb t v db1" by (rule found_update_stays [OF assms(2,3) quarantined(1) _ quarantined(4)])
  then show ?thesis using quarantined(5) stays_cong [of db' db1] by simp
next
  case (confirmed s db1 n)
  have "\<not> booked s" using confirmed(2) by (auto simp: booked_def)
  then have "stays sid awb t v db1" by (rule found_update_stays [OF assms(2,3) confirmed(1) _ confirmed(5)])
  then show ?thesis using confirmed(6) stays_cong [of db' db1] by simp
qed

lemma ledgerUnique_debit: "ledgerUnique ledger \<Longrightarrow> ledgerUnique (snd (debit up inp t ledger))"
  by (simp add: debit_ledger ledgerUnique_snoc)

lemma ledgerUnique_reverse: "ledgerUnique ledger \<Longrightarrow> ledgerUnique (snd (reverse up inp t ledger))"
  by (simp add: reverse_ledger ledgerUnique_snoc)

lemma debitEntry_sel [simp]:
  "bd_shipments (snd (debitEntry up inp db)) = bd_shipments db"
  "bd_ledger (snd (debitEntry up inp db)) = snd (debit up inp False (bd_ledger db))"
  "fst (debitEntry up inp db) = fst (debit up inp False (bd_ledger db))"
  by (simp_all add: debitEntry_def split_def Let_def)

lemma reverseEntry_sel [simp]:
  "bd_shipments (snd (reverseEntry up inp db)) = bd_shipments db"
  "bd_ledger (snd (reverseEntry up inp db)) = snd (reverse up inp True (bd_ledger db))"
  "fst (reverseEntry up inp db) = fst (reverse up inp True (bd_ledger db))"
  by (simp_all add: reverseEntry_def split_def Let_def)

lemma ledger_write_keeps:
  assumes "bookingInv db" "bd_shipments db' = bd_shipments db" "ledgerUnique (bd_ledger db')"
    and "\<And>e. e \<in> set (bd_ledger db') \<Longrightarrow> e \<in> set (bd_ledger db) \<or> isBooked db (le_shipment_id e) (le_direction e = REVERSAL)"
  shows "bookingInv db'"
proof -
  have "awbUnique db' = awbUnique db" "singleCollectible db' = singleCollectible db"
    by (simp_all add: awbUnique_def singleCollectible_def assms(2))
  moreover have "isBooked db' sid v = isBooked db sid v" for sid v by (simp add: isBooked_def assms(2))
  then have "ledgerJustified db'"
    using assms(3,4) bookingInvD(4) [OF assms(1)] by (auto simp: ledgerJustified_def)
  ultimately show ?thesis using assms(1,2) by (simp add: bookingInv_def)
qed

lemma awbUnique_append:
  assumes "awbUnique db" "bs_awb_normalized s = None"
  shows "awbUnique (db\<lparr>bd_shipments := bd_shipments db @ [s]\<rparr>)"
  unfolding awbUnique_def
proof (intro ballI impI, elim conjE)
  fix x y assume a: "x \<in> set (bd_shipments (db\<lparr>bd_shipments := bd_shipments db @ [s]\<rparr>))"
    "y \<in> set (bd_shipments (db\<lparr>bd_shipments := bd_shipments db @ [s]\<rparr>))"
    "bs_shop_id x = bs_shop_id y" "bs_courier_account_id x \<noteq> None"
    "bs_courier_account_id x = bs_courier_account_id y" "bs_awb_normalized x \<noteq> None"
    "bs_awb_normalized x = bs_awb_normalized y" "bs_booking_state x \<noteq> VOID" "bs_booking_state y \<noteq> VOID"
  have "x \<noteq> s" "y \<noteq> s" using a(6,7) assms(2) by metis+
  then have "x \<in> set (bd_shipments db)" "y \<in> set (bd_shipments db)" using a(1,2) by simp_all
  then show "bs_shipment_id x = bs_shipment_id y" by (rule awbUniqueD [OF assms(1) _ _ a(3-9)])
qed

lemma singleCollectible_append:
  assumes "singleCollectible db" "bs_awb_normalized s = None"
  shows "singleCollectible (db\<lparr>bd_shipments := bd_shipments db @ [s]\<rparr>)"
  unfolding singleCollectible_def
proof (intro ballI impI, elim conjE)
  fix x y assume a: "x \<in> set (bd_shipments (db\<lparr>bd_shipments := bd_shipments db @ [s]\<rparr>))"
    "y \<in> set (bd_shipments (db\<lparr>bd_shipments := bd_shipments db @ [s]\<rparr>))"
    "bs_order_id x = bs_order_id y" "carriesCollectible x" "carriesCollectible y"
  have "x \<noteq> s" "y \<noteq> s" using a(4,5) assms(2) by (auto simp: carriesCollectible_def)
  then have "x \<in> set (bd_shipments db)" "y \<in> set (bd_shipments db)" using a(1,2) by simp_all
  then show "bs_shipment_id x = bs_shipment_id y" by (rule singleCollectibleD [OF assms(1) _ _ a(3-5)])
qed

lemma step_bookingInv: "booking_step db db' \<Longrightarrow> bookingInv db \<Longrightarrow> bookingInv db'"
proof (induction rule: booking_step.induct)
  case (row fires c f db db' n sid)
  then show ?case using row_keeps [of fires c f db db' n sid] by blast
next
  case (confirm args db r db')
  then show ?case by (rule confirmTx_keeps)
next
  case (draft s db)
  let ?db' = "db\<lparr>bd_shipments := bd_shipments db @ [s]\<rparr>"
  note awbUnique_append [OF bookingInvD(2) [OF draft.prems] draft.hyps(3)]
    singleCollectible_append [OF bookingInvD(3) [OF draft.prems] draft.hyps(3)]
  moreover have "ledgerJustified ?db'"
    by (rule ledgerJustified_mono [where g = id and new = "[s]", OF bookingInvD(4) [OF draft.prems]]) simp_all
  ultimately show ?case using draft.hyps bookingInvD(1,5,6) [OF draft.prems] by (auto simp: bookingInv_def)
next
  case (debited db inp up)
  then show ?case
    by (intro ledger_write_keeps [OF debited.prems])
      (use bookingInvD(4) [OF debited.prems] in \<open>auto simp: debit_ledger ledgerUnique_snoc ledgerJustified_def split: if_splits\<close>)
next
  case (reversed db inp up)
  then show ?case
    by (intro ledger_write_keeps [OF reversed.prems])
      (use bookingInvD(4) [OF reversed.prems] in \<open>auto simp: reverse_ledger ledgerUnique_snoc ledgerJustified_def split: if_splits\<close>)
next
  case tables
  then show ?case by (rule iffD2 [OF bookingInv_cong, rotated 2]) simp_all
qed

lemma step_stays: "booking_step db db' \<Longrightarrow> bookingInv db \<and> stays sid awb t v db \<Longrightarrow> bookingInv db' \<and> stays sid awb t v db'"
proof -
  assume st: "booking_step db db'" and inv: "bookingInv db \<and> stays sid awb t v db"
  from st have "stays sid awb t v db'" using inv
  proof (induction rule: booking_step.induct)
    case (row fires c f db db' n sid')
    have "stays sid awb t v db" using row.prems by blast
    then show ?case
      by (rule stays_mono [where g = "\<lambda>s. if c s then f s else s" and new = "[]"])
        (use update_shape [OF row.hyps(1)] row.hyps(3) in simp_all)
  next
    case (confirm args db r db')
    then show ?case using confirmTx_stays by blast
  next
    case (draft s db)
    then have "stays sid awb t v db" by blast
    then show ?case by (rule stays_mono [where g = id and new = "[s]"]) simp_all
  next
    case (debited db inp up)
    then show ?case by (simp add: stays_cong [of "snd (debitEntry up inp db)" db])
  next
    case (reversed db inp up)
    then show ?case by (simp add: stays_cong [of "snd (reverseEntry up inp db)" db])
  next
    case tables
    then show ?case by (simp add: stays_def)
  qed
  then show ?thesis using step_bookingInv [OF st] inv by blast
qed

interpretation booking: invariant_system booking_step bookingInv
  by unfold_locales (rule step_bookingInv)

interpretation booked_stays: invariant_system booking_step "\<lambda>db. bookingInv db \<and> stays sid awb t v db" for sid awb t v
  by unfold_locales (rule step_stays)

section \<open>Operations under other writers\<close>

lemma otherReach: "wfBookingEnv env \<Longrightarrow> booking_step\<^sup>*\<^sup>* db0 db \<Longrightarrow> booking_step\<^sup>*\<^sup>* db0 (be_others env k db)"
  unfolding wfBookingEnv_def by (meson rtranclp_trans)

lemma bookReach: "booking_step db db' \<Longrightarrow> booking_step\<^sup>*\<^sup>* db0 db \<Longrightarrow> booking_step\<^sup>*\<^sup>* db0 db'"
  by (rule rtranclp.rtrancl_into_rtrancl)

lemma callOut_sel [simp]:
  "bd_shipments (callOut c db) = bd_shipments db" "bd_ledger (callOut c db) = bd_ledger db"
  "bd_intents (callOut c db) = bd_intents db" "bd_calls (callOut c db) = bd_calls db @ [c]"
  "bd_subscriptions (callOut c db) = bd_subscriptions db"
  by (simp_all add: callOut_def)

lemma callOut_step: "booking_step db (callOut c db)"
  using tables [where db = db and its = "bd_intents db" and ac = "bd_accounts db" and su = "bd_subscriptions db"
      and dl = "bd_dlq db" and cs = "bd_calls db @ [c]"]
  by (simp add: callOut_def)

lemma updateIntent_step: "booking_step db (updateIntent i f db)"
  using tables [where db = db and its = "map (\<lambda>j. if bi_booking_intent_id j = i then f j else j) (bd_intents db)" and ac = "bd_accounts db" and su = "bd_subscriptions db"
      and dl = "bd_dlq db" and cs = "bd_calls db"]
  by (simp add: updateIntent_def)

lemma state_step:
  assumes "updateShipments True (\<lambda>s. isShipment shop sid s \<and> bs_booking_state s = old) (setState new) db = Some (db', n)"
    "old \<notin> {CONFIRMED, VOID}" "new \<notin> {CONFIRMED, VOID}"
  shows "booking_step db db'"
  by (rule row [OF assms(1), of sid]) (use assms(2,3) in \<open>auto simp: isShipment_def rowStep_def booked_def\<close>)

lemma callReach: "booking_step\<^sup>*\<^sup>* db0 db \<Longrightarrow> booking_step\<^sup>*\<^sup>* db0 (callOut c db)"
  by (rule bookReach [OF callOut_step])

lemma intentReach: "booking_step\<^sup>*\<^sup>* db0 db \<Longrightarrow> booking_step\<^sup>*\<^sup>* db0 (updateIntent i f db)"
  by (rule bookReach [OF updateIntent_step])

lemma debit_reaches:
  assumes env: "wfBookingEnv env" and inv: "bookingInv db" and st: "stays (jd_shipmentId job) awb False v db"
  shows "booking_step\<^sup>*\<^sup>* db (snd (afterConfirmDebit env job db))"
proof (cases "activeCycle db (jd_shopId job)")
  case (Some cycle)
  let ?inp = "ledgerInput (jd_shopId job) cycle (jd_shipmentId job) (Some (jd_bookingIntentId job))"
  let ?db2 = "be_others env 2 db"
  have r2: "booking_step\<^sup>*\<^sup>* db ?db2" by (rule otherReach [OF env rtranclp.rtrancl_refl])
  then have "stays (jd_shipmentId job) awb False v ?db2" using booked_stays.reachable inv st by blast
  then have "stays (jd_shipmentId job) awb False False ?db2" by (auto simp: stays_def)
  then have "booking_step ?db2 (snd (debitEntry (be_ledger_up env) ?inp ?db2))"
    by (intro booking_step.debited) (auto simp: ledgerInput_def dest: stays_isBooked)
  then have "booking_step\<^sup>*\<^sup>* db (snd (debitEntry (be_ledger_up env) ?inp ?db2))" by (rule bookReach [OF _ r2])
  then show ?thesis
    by (auto simp: afterConfirmDebit_def Some Let_def split_def intro: callReach split: sum.split)
qed (simp add: afterConfirmDebit_def)

lemma confirmedCalls_reach: "booking_step\<^sup>*\<^sup>* db0 db \<Longrightarrow> booking_step\<^sup>*\<^sup>* db0 (confirmedCalls args o' t db)"
  by (auto simp: confirmedCalls_def Let_def intro!: callReach)

lemma confirmTx_booked:
  assumes "confirmTx args db = (Inr (TxConfirmed o' t b), db1)"
  shows "stays (jd_shipmentId (cf_job args)) (Some (normalizeAwb (cf_awbRaw args))) t False db1"
  using assms
proof (cases rule: confirmTx_cases)
  case (confirmed s d n)
  note s = find_shipment [OF confirmed(1)]
  have "confirmRow (cf_awbRaw args) (normalizeAwb (cf_awbRaw args))
      (confirmedBasis (bs_expected_cost_basis s) (cf_confirmedCharge args)) t (cf_confirmedCharge args) s \<in> set (bd_shipments db1)"
    using update_shape [OF confirmed(5)] confirmed(4,6) s by (auto simp: image_iff intro!: bexI [of _ s])
  then show ?thesis
    unfolding stays_def by (rule bexI [rotated]) (use s in \<open>simp add: booked_def isShipment_def\<close>)
next
  case same
  then show ?thesis by blast
qed simp_all

lemma confirmBooking_reaches:
  assumes env: "wfBookingEnv env" and inv: "bookingInv db"
  shows "booking_step\<^sup>*\<^sup>* db (snd (confirmBooking env args db))"
proof -
  obtain r db1 where tx: "confirmTx args db = (r, db1)" by fastforce
  have r1: "booking_step\<^sup>*\<^sup>* db db1" using booking_step.confirm [OF tx] by (rule r_into_rtranclp)
  show ?thesis
  proof (cases "\<exists>o' b. r = Inr (TxConfirmed o' False b)")
    case True
    then obtain o' b where r: "r = Inr (TxConfirmed o' False b)" by blast
    let ?db2 = "be_others env 1 db1"
    have r2: "booking_step\<^sup>*\<^sup>* db1 ?db2" by (rule otherReach [OF env rtranclp.rtrancl_refl])
    have inv1: "bookingInv db1" by (rule confirmTx_keeps [OF tx inv])
    have "stays (jd_shipmentId (cf_job args)) (Some (normalizeAwb (cf_awbRaw args))) False False db1"
      using confirmTx_booked tx r by blast
    then have "bookingInv ?db2 \<and> stays (jd_shipmentId (cf_job args)) (Some (normalizeAwb (cf_awbRaw args))) False False ?db2"
      using booked_stays.reachable [OF r2] inv1 by blast
    then have "booking_step\<^sup>*\<^sup>* ?db2 (snd (afterConfirmDebit env (cf_job args) ?db2))"
      using debit_reaches [OF env] by blast
    with r1 r2 have "booking_step\<^sup>*\<^sup>* db (snd (afterConfirmDebit env (cf_job args) ?db2))" by (meson rtranclp_trans)
    then show ?thesis
      by (auto simp: confirmBooking_def tx r Let_def split_def intro!: confirmedCalls_reach split: sum.split)
  next
    case False
    then show ?thesis
      using r1 by (auto simp: confirmBooking_def tx Let_def intro: callReach confirmedCalls_reach split: sum.split ConfirmTx.split)
  qed
qed

lemma settleTx_reaches:
  assumes "settleTx job old new f db = Some db'" "old \<notin> {CONFIRMED, VOID}" "new \<notin> {CONFIRMED, VOID}"
  shows "booking_step\<^sup>*\<^sup>* db db'"
proof -
  obtain db1 n where u: "updateShipments True (\<lambda>s. isShipment (jd_shopId job) (jd_shipmentId job) s
      \<and> bs_booking_state s = old) (setState new) db = Some (db1, n)"
    "db' = (if n = 1 then updateIntent (jd_bookingIntentId job) f db1 else db1)"
    using assms(1) by (auto simp: settleTx_def split: option.splits)
  have "booking_step\<^sup>*\<^sup>* db db1" using state_step [OF u(1) assms(2,3)] by (rule r_into_rtranclp)
  then show ?thesis by (simp add: u(2) intentReach)
qed

lemma settleFailed_reaches: "old \<notin> {CONFIRMED, VOID} \<Longrightarrow> booking_step\<^sup>*\<^sup>* db (snd (settleFailed job old out a db))"
  by (auto simp: settleFailed_def intro!: callReach settleTx_reaches split: option.split)

lemma markOutcomeUnknown_reaches: "booking_step\<^sup>*\<^sup>* db (snd (markOutcomeUnknown job db))"
  by (auto simp: markOutcomeUnknown_def intro!: callReach settleTx_reaches split: option.split)

lemma discardResult_snd [simp]: "snd (discardResult r) = snd r"
  by (simp add: discardResult_def)

lemma settleCreate_reaches:
  assumes "wfBookingEnv env" "bookingInv db"
  shows "booking_step\<^sup>*\<^sup>* db (snd (settleCreate env job response db))"
  using confirmBooking_reaches [OF assms]
  by (auto simp: settleCreate_def intro!: settleFailed_reaches markOutcomeUnknown_reaches split: sum.split)

lemma claim_reaches: "claimBooking job db = (r, db') \<Longrightarrow> booking_step\<^sup>*\<^sup>* db db'"
  by (auto simp: claimBooking_def split: option.splits if_splits intro!: r_into_rtranclp state_step)

lemma reach_continue:
  assumes "booking_step\<^sup>*\<^sup>* db db1" "bookingInv db" "\<And>d. d = db1 \<Longrightarrow> bookingInv d \<Longrightarrow> booking_step\<^sup>*\<^sup>* d db2"
  shows "booking_step\<^sup>*\<^sup>* db db2"
  using assms booking.reachable rtranclp_trans by metis

lemma processBooking_reaches:
  assumes env: "wfBookingEnv env" and inv: "bookingInv db"
  shows "booking_step\<^sup>*\<^sup>* db (snd (processBooking env call job db))"
proof -
  obtain r db1 where c: "claimBooking job db = (r, db1)" by fastforce
  note r1 = claim_reaches [OF c]
  show ?thesis
  proof (cases "\<exists>s i snap. r = Inr (Some (s, i)) \<and> bs_snapshot s = Some snap")
    case True
    then obtain s i snap where r: "r = Inr (Some (s, i))" "bs_snapshot s = Some snap" by blast
    let ?req = "createRequest snap i"
    let ?db2 = "be_others env 0 (if fst (call ?req) then callOut (CreateShipment ?req) db1 else db1)"
    have "booking_step\<^sup>*\<^sup>* db ?db2" by (rule otherReach [OF env]) (simp add: r1 callReach)
    then have "booking_step\<^sup>*\<^sup>* db (snd (settleCreate env job (snd (call ?req)) ?db2))"
      by (rule reach_continue [OF _ inv]) (blast intro: settleCreate_reaches [OF env])
    then show ?thesis by (cases "fst (call ?req)") (simp_all add: processBooking_def c r Let_def split_def)
  next
    case False
    then show ?thesis using r1 by (auto simp: processBooking_def c split: sum.split option.split)
  qed
qed

lemma confirmResolved_snd [simp]: "snd (confirmResolved env job awb m db) = snd (confirmBooking env
    \<lparr>cf_job = job, cf_awbRaw = awb, cf_confirmedCharge = None, cf_intentOutcome = IO_RESOLVED_CONFIRMED,
     cf_resolvedByMemberId = m\<rparr> db)"
  by (auto simp: confirmResolved_def split: prod.split sum.split ConfirmResult.split)

lemma failResolved_snd [simp]: "snd (failResolved job m db) = snd (settleFailed job OUTCOME_UNKNOWN IO_RESOLVED_FAILED m db)"
  by (auto simp: failResolved_def split: prod.split sum.split)

lemma resolve_reaches:
  assumes env: "wfBookingEnv env" and inv: "bookingInv db"
  shows "booking_step\<^sup>*\<^sup>* db (snd (resolveOutcomeUnknown env call shop sid db))"
proof (cases "loadOutcomeUnknown shop sid db")
  case (Inr p)
  obtain i acc where p: "p = (i, acc)" by fastforce
  let ?ref = "bi_merchant_reference i" and ?job = "resolveJob shop sid i acc"
  let ?db2 = "be_others env 0 (if fst (call ?ref) then callOut (LookupByReference ?ref) db else db)"
  have r2: "booking_step\<^sup>*\<^sup>* db ?db2" by (rule otherReach [OF env]) (simp add: callReach)
  have c: "booking_step\<^sup>*\<^sup>* db (snd (confirmBooking env args ?db2))" for args
    by (rule reach_continue [OF r2 inv]) (blast intro: confirmBooking_reaches [OF env])
  have f: "booking_step\<^sup>*\<^sup>* db (snd (settleFailed ?job OUTCOME_UNKNOWN IO_RESOLVED_FAILED None ?db2))"
    by (rule rtranclp_trans [OF r2]) (simp add: settleFailed_reaches)
  show ?thesis
    using r2 c f by (cases "fst (call ?ref)")
      (auto simp: resolveOutcomeUnknown_def Inr p Let_def split_def split: sum.split)
qed (simp add: resolveOutcomeUnknown_def)

lemma operator_reaches:
  assumes env: "wfBookingEnv env" and inv: "bookingInv db"
  shows "booking_step\<^sup>*\<^sup>* db (snd (resolveOutcomeUnknownByOperator env shop sid m d db))"
proof (cases "loadOutcomeUnknown shop sid db")
  case (Inr p)
  obtain i acc where p: "p = (i, acc)" by fastforce
  let ?db2 = "be_others env 0 db"
  have r2: "booking_step\<^sup>*\<^sup>* db ?db2" by (rule otherReach [OF env rtranclp.rtrancl_refl])
  have c: "booking_step\<^sup>*\<^sup>* db (snd (confirmBooking env args ?db2))" for args
    by (rule reach_continue [OF r2 inv]) (blast intro: confirmBooking_reaches [OF env])
  have f: "booking_step\<^sup>*\<^sup>* db (snd (settleFailed j OUTCOME_UNKNOWN IO_RESOLVED_FAILED x ?db2))" for j x
    by (rule rtranclp_trans [OF r2]) (simp add: settleFailed_reaches)
  show ?thesis using c f by (cases d) (simp_all add: resolveOutcomeUnknownByOperator_def Inr p Let_def)
qed (simp add: resolveOutcomeUnknownByOperator_def)

text \<open>Cancellation.\<close>

lemma quiet_step:
  assumes "cancelStep inp c False (setCustody k) db = Some db'"
  shows "booking_step db db'"
  using assms unfolding cancelStep_def
  by (auto intro!: row [where sid = "ci_shipmentId inp" and c = "\<lambda>s. isShipment (ci_shopId inp) (ci_shipmentId inp) s \<and> c s"]
      simp: isShipment_def rowStep_def quietColumns_def booked_def)

lemma requestTx_reaches: "requestTx inp db = (r, db') \<Longrightarrow> booking_step\<^sup>*\<^sup>* db db'"
  by (auto simp: requestTx_def split: option.splits if_splits intro!: r_into_rtranclp quiet_step)

lemma void_step:
  assumes u: "cancelStep inp (\<lambda>s. bs_custody_state s = CANCEL_REQUESTED) True voidRow db = Some db'"
    and inv: "bookingInv db" and st: "stays (ci_shipmentId inp) awb t v db"
  shows "booking_step db db'"
proof -
  obtain s where s: "s \<in> set (bd_shipments db)" "bs_shipment_id s = ci_shipmentId inp" "booked s"
    using st by (auto simp: stays_def)
  have only: "x = s" if "x \<in> set (bd_shipments db)" "bs_shipment_id x = ci_shipmentId inp" for x
    using that s bookingInvD(1) [OF inv] by (metis distinct_map inj_onD)
  obtain n where "updateShipments True (\<lambda>s. isShipment (ci_shopId inp) (ci_shipmentId inp) s
      \<and> bs_custody_state s = CANCEL_REQUESTED) voidRow db = Some (db', n)"
    using u by (auto simp: cancelStep_def)
  then show ?thesis
    by (rule row [where sid = "ci_shipmentId inp"])
      (use only s(3) in \<open>auto simp: isShipment_def rowStep_def booked_def\<close>)
qed

lemma void_stays:
  assumes u: "cancelStep inp (\<lambda>s. bs_custody_state s = CANCEL_REQUESTED) True voidRow db = Some db'"
    and inv: "bookingInv db" and st: "stays (ci_shipmentId inp) awb t v db"
    and cu: "map_option bs_custody_state (findShipment db (ci_shopId inp) (ci_shipmentId inp)) = Some CANCEL_REQUESTED"
  shows "stays (ci_shipmentId inp) awb t True db'"
proof -
  obtain r where r: "findShipment db (ci_shopId inp) (ci_shipmentId inp) = Some r" "bs_custody_state r = CANCEL_REQUESTED"
    using cu by auto
  obtain s where s: "s \<in> set (bd_shipments db)" "bs_shipment_id s = ci_shipmentId inp" "booked s"
    "bs_awb_normalized s = awb" "bs_is_test s = t"
    using st by (auto simp: stays_def)
  have "r = s" using find_shipment [OF r(1)] s bookingInvD(1) [OF inv]
    by (auto simp: isShipment_def distinct_map inj_on_def)
  then have "isShipment (ci_shopId inp) (ci_shipmentId inp) s \<and> bs_custody_state s = CANCEL_REQUESTED"
    using find_shipment [OF r(1)] r(2) by blast
  moreover have "bd_shipments db' = map (\<lambda>s. if isShipment (ci_shopId inp) (ci_shipmentId inp) s
      \<and> bs_custody_state s = CANCEL_REQUESTED then voidRow s else s) (bd_shipments db)"
    using u by (auto simp: cancelStep_def updateShipments_Some)
  ultimately have "voidRow s \<in> set (bd_shipments db')" using s(1) imageI [of s "set (bd_shipments db)"
      "\<lambda>s. if isShipment (ci_shopId inp) (ci_shipmentId inp) s \<and> bs_custody_state s = CANCEL_REQUESTED then voidRow s else s"]
    by (metis (no_types, lifting) list.set_map)
  then show ?thesis unfolding stays_def by (rule bexI [rotated]) (use s in \<open>simp add: booked_def\<close>)
qed

lemma reversal_reaches:
  assumes env: "wfBookingEnv env" and inv: "bookingInv db" and st: "stays (ci_shipmentId inp) awb False True db"
  shows "booking_step\<^sup>*\<^sup>* db (snd (afterCancelReversal env inp intent db))"
proof (cases "activeCycle db (ci_shopId inp)")
  case (Some cycle)
  let ?inp = "ledgerInput (ci_shopId inp) cycle (ci_shipmentId inp) intent"
  let ?db2 = "be_others env 2 db"
  have r2: "booking_step\<^sup>*\<^sup>* db ?db2" by (rule otherReach [OF env rtranclp.rtrancl_refl])
  then have "stays (ci_shipmentId inp) awb False True ?db2" using booked_stays.reachable inv st by blast
  then have "booking_step ?db2 (snd (reverseEntry (be_ledger_up env) ?inp ?db2))"
    by (intro booking_step.reversed) (auto simp: ledgerInput_def dest: stays_isBooked)
  then have "booking_step\<^sup>*\<^sup>* db (snd (reverseEntry (be_ledger_up env) ?inp ?db2))" by (rule bookReach [OF _ r2])
  then show ?thesis
    by (auto simp: afterCancelReversal_def Some Let_def split_def intro: callReach
        split: sum.split LedgerReverseResult.split)
qed (simp add: afterCancelReversal_def)

lemma settleCancelled_reaches:
  assumes env: "wfBookingEnv env" and inv: "bookingInv db"
    and st: "stays (ci_shipmentId inp) awb (bs_is_test shipment) v db"
  shows "booking_step\<^sup>*\<^sup>* db (snd (settleCancelled env inp shipment intent db))"
proof (cases "map_option bs_custody_state (findShipment db (ci_shopId inp) (ci_shipmentId inp)) = Some CANCEL_REQUESTED")
  case cu: True
  show ?thesis
  proof (cases "cancelStep inp (\<lambda>s. bs_custody_state s = CANCEL_REQUESTED) True voidRow db")
    case (Some db1)
    let ?db2 = "be_others env 1 db1"
    have r1: "booking_step\<^sup>*\<^sup>* db db1" using void_step [OF Some inv st] by (rule r_into_rtranclp)
    have r2: "booking_step\<^sup>*\<^sup>* db1 ?db2" by (rule otherReach [OF env rtranclp.rtrancl_refl])
    have "bookingInv db1" using booking.reachable [OF r1 inv] .
    then have "bookingInv ?db2 \<and> stays (ci_shipmentId inp) awb (bs_is_test shipment) True ?db2"
      using booked_stays.reachable [OF r2] void_stays [OF Some inv st cu] by blast
    then have "\<not> bs_is_test shipment \<Longrightarrow> booking_step\<^sup>*\<^sup>* ?db2 (snd (afterCancelReversal env inp intent ?db2))"
      using reversal_reaches [OF env] by (metis (full_types))
    with r1 r2 have "\<not> bs_is_test shipment \<Longrightarrow> booking_step\<^sup>*\<^sup>* db (snd (afterCancelReversal env inp intent ?db2))"
      by (meson rtranclp_trans)
    with r1 show ?thesis
      using cu by (auto simp: settleCancelled_def Some Let_def split_def intro!: callReach split: sum.split)
  qed (use cu in \<open>auto simp: settleCancelled_def\<close>)
next
  case False
  then show ?thesis by (auto simp: settleCancelled_def Let_def intro!: callReach)
qed

lemma settleRejected_reaches: "booking_step\<^sup>*\<^sup>* db (snd (settleRejected inp k r db))"
proof (cases "Option.bind (cancelStep inp (\<lambda>s. bs_custody_state s = CANCEL_REQUESTED) False (setCustody CANCEL_REJECTED) db)
    (cancelStep inp (\<lambda>s. bs_custody_state s = CANCEL_REJECTED) False (setCustody k))")
  case (Some db2)
  then obtain db1 where "cancelStep inp (\<lambda>s. bs_custody_state s = CANCEL_REQUESTED) False (setCustody CANCEL_REJECTED) db = Some db1"
    "cancelStep inp (\<lambda>s. bs_custody_state s = CANCEL_REJECTED) False (setCustody k) db1 = Some db2"
    by (auto simp: bind_eq_Some_conv)
  then have "booking_step\<^sup>*\<^sup>* db db2" by (meson quiet_step bookReach r_into_rtranclp)
  then show ?thesis by (simp add: settleRejected_def Some callReach)
qed (simp add: settleRejected_def)

lemma requestTx_stays:
  assumes "requestTx inp db = (Inr (Inr (s, intent)), db')" "bookingInv db"
  shows "stays (ci_shipmentId inp) (bs_awb_normalized s) (bs_is_test s) False db'"
proof -
  have f: "findShipment db (ci_shopId inp) (ci_shipmentId inp) = Some s" "bs_booking_state s = CONFIRMED"
    using assms(1) by (auto simp: requestTx_def split: option.splits if_splits)
  then have "stays (ci_shipmentId inp) (bs_awb_normalized s) (bs_is_test s) False db"
    using find_shipment [OF f(1)] by (auto simp: stays_def booked_def isShipment_def)
  then show ?thesis using booked_stays.reachable [OF requestTx_reaches [OF assms(1)]] assms(2) by blast
qed

lemma requestCancellation_reaches:
  assumes env: "wfBookingEnv env" and inv: "bookingInv db"
  shows "booking_step\<^sup>*\<^sup>* db (snd (requestCancellation env call inp db))"
proof -
  obtain r db1 where tx: "requestTx inp db = (r, db1)" by fastforce
  note r1 = requestTx_reaches [OF tx]
  show ?thesis
  proof (cases "\<exists>s i. r = Inr (Inr (s, i))")
    case True
    then obtain s i where r: "r = Inr (Inr (s, i))" by blast
    let ?call = "call (cancelAwb s)" and ?a = "callOut (AuditBooking ''booking.cancel_requested'' (ci_shipmentId inp)) db1"
    let ?db3 = "be_others env 0 (if fst ?call then callOut (CancelShipment (cancelAwb s)) ?a else ?a)"
    have r3: "booking_step\<^sup>*\<^sup>* db1 ?db3" by (rule otherReach [OF env]) (simp add: callReach)
    have st: "bookingInv ?db3 \<and> stays (ci_shipmentId inp) (bs_awb_normalized s) (bs_is_test s) False ?db3"
      using booked_stays.reachable [OF r3] requestTx_stays [OF tx [unfolded r] inv] booking.reachable [OF r1 inv] by blast
    have all: "booking_step\<^sup>*\<^sup>* ?db3 (snd (settleCancelled env inp s i ?db3))"
      "booking_step\<^sup>*\<^sup>* ?db3 (snd (settleRejected inp k x ?db3))"
      "booking_step\<^sup>*\<^sup>* ?db3 (snd (flagOutcomeUnknown inp ?db3))" for k x
      using settleCancelled_reaches [OF env] st settleRejected_reaches by (blast, blast, simp add: flagOutcomeUnknown_def callReach)
    have r03: "booking_step\<^sup>*\<^sup>* db ?db3" using r1 r3 by (rule rtranclp_trans)
    show ?thesis
      using all [THEN rtranclp_trans [OF r03]]
      by (cases "fst ?call") (auto simp: requestCancellation_def tx r Let_def split_def split: sum.split CancelShipmentResult.split)
  next
    case False
    then show ?thesis using r1 by (auto simp: requestCancellation_def tx split: sum.split)
  qed
qed

end
