(* ===== verification/Booking_Properties.thy ===== *)
theory Booking_Properties
  imports Booking_Laws
begin

text \<open>
  The properties of booking and cancellation: the invariants under every interleaving, what a
  redelivery of a job may and may not do, and what cancellation does to the entitlement ledger.
\<close>

section \<open>An example shop\<close>

definition quietBooking :: "bool \<Rightarrow> BookingEnv" where
  "quietBooking up = \<lparr>be_others = (\<lambda>k db. db), be_ledger_up = up\<rparr>"

lemma quietBooking_sel [simp]: "be_others (quietBooking up) k db = db" "be_ledger_up (quietBooking up) = up"
  by (simp_all add: quietBooking_def)

lemma wf_quietBooking [simp]: "wfBookingEnv (quietBooking up)"
  by (simp add: wfBookingEnv_def)

definition exampleSnapshot :: FrozenSnapshot where
  "exampleSnapshot = \<lparr>fz_serviceId = ''svc'', fz_formulaInputs = \<lparr>fi_originPincode = ''560001'',
     fi_destinationPincode = ''110001'', fi_deadWeightKg = ''0.500'', fi_lengthCm = ''10.00'', fi_widthCm = ''10.00'',
     fi_heightCm = ''10.00'', fi_paymentMode = COD, fi_collectible = ''499.00'', fi_declaredValue = ''499.00''\<rparr>,
     fz_recipient = None, fz_pickupLocationId = Some ''loc''\<rparr>"

definition exampleShipment :: "string \<Rightarrow> BookingState \<Rightarrow> string option \<Rightarrow> ShipmentLockRow" where
  "exampleShipment sid st awb = \<lparr>bs_shipment_id = sid, bs_shop_id = ''shop'', bs_order_id = ''order'',
     bs_courier_account_id = Some ''acc'', bs_booking_state = st,
     bs_custody_state = (if st = CONFIRMED then PICKUP_PENDING else NOT_APPLICABLE),
     bs_expected_cost_basis = None, bs_provider_confirmed_charge = None, bs_snapshot = Some exampleSnapshot,
     bs_awb_raw = awb, bs_awb_normalized = awb, bs_is_test = False, bs_collectible = 49900, bs_version = 1\<rparr>"

definition exampleIntent :: "string \<Rightarrow> string \<Rightarrow> BookingIntentOutcome \<Rightarrow> IntentRow" where
  "exampleIntent iid sid oc = \<lparr>bi_booking_intent_id = iid, bi_shipment_id = sid, bi_outcome = oc,
     bi_merchant_reference = ''ref'', bi_request_digest = ''digest'', bi_resolved_by = None\<rparr>"

definition exampleBooking :: "ShipmentLockRow list \<Rightarrow> BookingDb" where
  "exampleBooking ships = \<lparr>bd_shipments = ships,
     bd_intents = [exampleIntent ''i1'' ''s1'' IO_IN_FLIGHT],
     bd_accounts = [\<lparr>ar_courier_account_id = ''acc'', ar_shop_id = ''shop'', ar_mode = MODE_LIVE\<rparr>],
     bd_subscriptions = [\<lparr>su_subscription_id = ''sub'', su_shop_id = ''shop'', su_state = ACTIVE,
                          su_cycle_start_at = Some ''2026-07-01''\<rparr>],
     bd_ledger = [], bd_dlq = [], bd_calls = []\<rparr>"

definition exampleJob :: BookingJobData where
  "exampleJob = \<lparr>jd_shopId = ''shop'', jd_shipmentId = ''s1'', jd_bookingIntentId = ''i1'',
     jd_merchantReference = ''ref'', jd_serviceId = ''svc'', jd_courierAccountId = ''acc''\<rparr>"

definition confirmsAs :: "string \<Rightarrow> CreateShipmentRequest \<Rightarrow> bool \<times> (AdapterError + CreateShipmentResult)" where
  "confirmsAs awb req = (True, Inr \<lparr>cr_kind = KIND_CONFIRMED, cr_awb = Some awb, cr_confirmedCharge = None,
     cr_failureReasons = []\<rparr>)"

lemmas example_defs = exampleBooking_def exampleShipment_def exampleIntent_def exampleJob_def confirmsAs_def
  exampleSnapshot_def

lemma example_inv: "bookingInv (exampleBooking [exampleShipment ''s1'' QUEUED None])"
  by (simp add: bookingInv_def example_defs awbUnique_def singleCollectible_def ledgerJustified_def ledgerUnique_def)

section \<open>Invariants\<close>

definition bookingRuns ::
  "BookingEnv \<Rightarrow> BookingDb \<Rightarrow> BookingDb \<Rightarrow> bool" where
  "bookingRuns env db db' \<longleftrightarrow>
     (\<exists>call job. db' = snd (processBooking env call job db))
   \<or> (\<exists>call shop sid. db' = snd (resolveOutcomeUnknown env call shop sid db))
   \<or> (\<exists>shop sid m d. db' = snd (resolveOutcomeUnknownByOperator env shop sid m d db))
   \<or> (\<exists>call inp. db' = snd (requestCancellation env call inp db))"

lemma runs_reach: "bookingRuns env db db' \<Longrightarrow> wfBookingEnv env \<Longrightarrow> bookingInv db \<Longrightarrow> booking_step\<^sup>*\<^sup>* db db'"
  by (auto simp: bookingRuns_def intro: processBooking_reaches resolve_reaches operator_reaches requestCancellation_reaches)

text \<open>
  C15: INV-6 and INV-9 under every interleaving.  Let any other booking, resolution, cancellation,
  draft edit or ledger write commit between the transactions of a run of the worker, of either
  resolver or of a cancellation: afterwards no AWB is on two live shipments of a courier account,
  at most one live AWB of an order carries its collectible, an AWB is only on a CONFIRMED or VOID
  shipment, and a shipment that was booked keeps its AWB, its test flag and a final VOID.
\<close>

theorem awb_invariants:
  assumes "wfBookingEnv env" "bookingInv db" "bookingRuns env db db'"
  shows "awbUnique db' \<and> singleCollectible db'
    \<and> list_all (\<lambda>s. bs_awb_normalized s = None \<or> booked s) (bd_shipments db')
    \<and> (stays sid awb t v db \<longrightarrow> stays sid awb t v db')"
proof -
  note r = runs_reach [OF assms(3,1,2)]
  have "bookingInv db'" by (rule booking.reachable [OF r assms(2)])
  then have "list_all (\<lambda>s. bs_awb_normalized s = None \<or> booked s) (bd_shipments db')"
    using bookingInvD(5) unfolding list_all_iff by blast
  then show ?thesis
    using \<open>bookingInv db'\<close> bookingInvD(2,3) booked_stays.reachable [OF r] assms(2) by blast
qed

lemma runs_process: "bookingRuns env db (snd (processBooking env call job db))"
  by (auto simp: bookingRuns_def)

lemma awb_invariants_witness:
  "awbUnique (snd (processBooking (quietBooking True) (confirmsAs ''A1'') exampleJob
     (exampleBooking [exampleShipment ''s1'' QUEUED None])))"
  using awb_invariants [OF wf_quietBooking example_inv runs_process, of True "confirmsAs ''A1''" exampleJob] by blast

text \<open>
  C16: INV-12 and INV-19 for the entitlement ledger, under every interleaving: entries are only
  ever appended, there is at most one DEBIT and one REVERSAL per shipment, none for a test
  shipment or one that was never confirmed, and a REVERSAL only for a shipment that is VOID.
\<close>

theorem ledger_entries_justified:
  assumes "wfBookingEnv env" "bookingInv db" "bookingRuns env db db'"
  shows "ledgerUnique (bd_ledger db') \<and> (\<exists>new. bd_ledger db' = bd_ledger db @ new)
    \<and> list_all (\<lambda>e. list_ex (\<lambda>s. bs_shipment_id s = le_shipment_id e \<and> booked s \<and> \<not> bs_is_test s
         \<and> (le_direction e = DEBIT \<or> bs_booking_state s = VOID)) (bd_shipments db')) (bd_ledger db')"
proof -
  note r = runs_reach [OF assms(3,1,2)]
  have inv: "ledgerJustified db'" using booking.reachable [OF r assms(2)] by (rule bookingInvD(4))
  from r have "\<exists>new. bd_ledger db' = bd_ledger db @ new"
  proof (induction rule: rtranclp_induct)
    case (step d d')
    have "\<exists>new. bd_ledger d' = bd_ledger d @ new"
      using step.hyps(2)
    proof (cases rule: booking_step.cases)
      case (confirm args r)
      from confirm show ?thesis
        by (cases rule: confirmTx_cases) (simp_all add: update_shape)
    qed (auto dest: update_shape simp: debit_ledger reverse_ledger)
    with step.IH show ?case by auto
  qed simp
  moreover have "list_ex (\<lambda>s. bs_shipment_id s = le_shipment_id e \<and> booked s \<and> \<not> bs_is_test s
      \<and> (le_direction e = DEBIT \<or> bs_booking_state s = VOID)) (bd_shipments db')" if "e \<in> set (bd_ledger db')" for e
    using inv that by (cases "le_direction e") (fastforce simp: ledgerJustified_def isBooked_def list_ex_iff)+
  ultimately show ?thesis using inv by (simp add: ledgerJustified_def list_all_iff)
qed

lemma ledger_entries_justified_witness:
  "ledgerUnique (bd_ledger (snd (processBooking (quietBooking True) (confirmsAs ''A1'') exampleJob
     (exampleBooking [exampleShipment ''s1'' QUEUED None]))))"
  using ledger_entries_justified [OF wf_quietBooking example_inv runs_process, of True "confirmsAs ''A1''" exampleJob]
  by blast

section \<open>Deliveries of a job\<close>

definition stateOf :: "BookingJobData \<Rightarrow> BookingDb \<Rightarrow> BookingState option" where
  "stateOf job db = map_option bs_booking_state (findShipment db (jd_shopId job) (jd_shipmentId job))"

lemma find_map_comp: "List.find P (map g xs) = map_option g (List.find (P \<circ> g) xs)"
  by (induction xs) auto

lemma find_update:
  assumes "updateShipments fires c f db = Some (db1, n)"
    and "\<And>s. isShipment shop sid (f s) = isShipment shop sid s"
  shows "findShipment db1 shop sid = map_option (\<lambda>s. if c s then f s else s) (findShipment db shop sid)"
proof -
  have "isShipment shop sid \<circ> (\<lambda>s. if c s then f s else s) = isShipment shop sid"
    using assms(2) by (auto simp: fun_eq_iff)
  then show ?thesis using update_shape [OF assms(1)] by (simp add: findShipment_def find_map_comp)
qed

lemma isShipment_sel [simp]:
  "isShipment shop sid (setState st s) = isShipment shop sid s"
  "isShipment shop sid (confirmRow raw awb b t ch s) = isShipment shop sid s"
  "isShipment shop sid (setCustody k s) = isShipment shop sid s"
  "isShipment shop sid (voidRow s) = isShipment shop sid s"
  by (simp_all add: isShipment_def)

lemma findShipment_cong: "bd_shipments db' = bd_shipments db \<Longrightarrow> findShipment db' shop sid = findShipment db shop sid"
  by (simp add: findShipment_def)

lemma claimBooking_Some:
  assumes "claimBooking job db = (Inr (Some (s, i)), db1)"
  shows "findShipment db (jd_shopId job) (jd_shipmentId job) = Some s"
    "findIntent db (jd_shipmentId job) (jd_bookingIntentId job) = Some i"
    "claimable s i" "stateOf job db1 = Some SUBMITTED" "bd_intents db1 = bd_intents db" "bd_ledger db1 = bd_ledger db"
    "bd_calls db1 = bd_calls db"
proof -
  show f: "findShipment db (jd_shopId job) (jd_shipmentId job) = Some s"
    and "findIntent db (jd_shipmentId job) (jd_bookingIntentId job) = Some i" and "claimable s i"
    using assms by (auto simp: claimBooking_def split: option.splits if_splits)
  from assms f show "bd_intents db1 = bd_intents db" "bd_ledger db1 = bd_ledger db" "bd_calls db1 = bd_calls db"
    by (auto simp: claimBooking_def updateShipments_Some split: option.splits if_splits)
  show "stateOf job db1 = Some SUBMITTED"
  proof (cases "bs_booking_state s = QUEUED")
    case True
    then obtain n where "updateShipments True (\<lambda>r. isShipment (jd_shopId job) (jd_shipmentId job) r
        \<and> bs_booking_state r = QUEUED) (setState SUBMITTED) db = Some (db1, n)"
      using assms by (auto simp: claimBooking_def split: option.splits if_splits)
    then show ?thesis
      using f find_shipment [OF f] True by (simp add: stateOf_def find_update)
  next
    case False
    with assms have "db1 = db" "bs_booking_state s = SUBMITTED"
      by (auto simp: claimBooking_def claimable_def split: option.splits if_splits)
    then show ?thesis using f by (simp add: stateOf_def)
  qed
qed

lemma claimBooking_None: "claimBooking job db = (Inr None, db1) \<Longrightarrow> db1 = db"
  by (auto simp: claimBooking_def split: option.splits if_splits)

lemma claim_settled: "stateOf job db \<noteq> Some QUEUED \<Longrightarrow> stateOf job db \<noteq> Some SUBMITTED \<Longrightarrow> claimBooking job db = (Inr None, db)"
  by (auto simp: claimBooking_def stateOf_def claimable_def split: option.splits)

lemma processBooking_unclaimed:
  "claimBooking job db = (Inr None, db) \<Longrightarrow> processBooking env call job db = (Inr (), db)"
  by (simp add: processBooking_def)

lemma settleTx_state:
  assumes "settleTx job old new f db = Some db'" "stateOf job db = Some old"
  shows "stateOf job db' = Some new \<and> bd_ledger db' = bd_ledger db"
proof -
  obtain db1 n where u: "updateShipments True (\<lambda>s. isShipment (jd_shopId job) (jd_shipmentId job) s
      \<and> bs_booking_state s = old) (setState new) db = Some (db1, n)"
    "db' = (if n = 1 then updateIntent (jd_bookingIntentId job) f db1 else db1)"
    using assms(1) by (auto simp: settleTx_def split: option.splits)
  obtain s where s: "findShipment db (jd_shopId job) (jd_shipmentId job) = Some s" "bs_booking_state s = old"
    using assms(2) by (auto simp: stateOf_def)
  have "stateOf job db1 = Some new" using s find_shipment [OF s(1)] by (simp add: stateOf_def find_update [OF u(1)])
  then show ?thesis using u(2) update_shape [OF u(1)] by (auto simp: stateOf_def findShipment_def)
qed

lemma confirmTx_invalid:
  assumes "confirmTx args db = (Inr TxInvalidState, db')"
  shows "stateOf (cf_job args) db \<notin> {Some SUBMITTED, Some OUTCOME_UNKNOWN}"
proof (cases "findShipment db (jd_shopId (cf_job args)) (jd_shipmentId (cf_job args))")
  case (Some s)
  then have "bs_booking_state s \<notin> {SUBMITTED, OUTCOME_UNKNOWN}"
    using assms unfolding confirmTx_def Let_def Some option.case
    by (auto split: option.splits prod.splits simp del: not_None_eq)
  then show ?thesis using Some by (simp add: stateOf_def)
qed (simp add: stateOf_def)

lemma confirmTx_state:
  assumes "confirmTx args db = (r, db')"
  shows "(r = Inr TxInvalidState \<longrightarrow> db' = db \<and> stateOf (cf_job args) db \<notin> {Some SUBMITTED, Some OUTCOME_UNKNOWN})
    \<and> (\<forall>d. r = Inr (TxQuarantined d) \<longrightarrow> stateOf (cf_job args) db' = Some FAILED)
    \<and> (\<forall>o' t b. r = Inr (TxConfirmed o' t b) \<longrightarrow> stateOf (cf_job args) db' = Some CONFIRMED)"
  using assms
proof (cases rule: confirmTx_cases)
  case same
  then show ?thesis using confirmTx_invalid [of args db] assms by auto
next
  case (quarantined s db1 n d)
  then show ?thesis
    using find_shipment [OF quarantined(1)] by (simp add: stateOf_def findShipment_cong [of db' db1] find_update)
next
  case (confirmed s db1 n)
  have "findShipment db' (jd_shopId (cf_job args)) (jd_shipmentId (cf_job args))
      = findShipment db1 (jd_shopId (cf_job args)) (jd_shipmentId (cf_job args))"
    using confirmed(6) by (simp add: findShipment_def)
  then show ?thesis
    using confirmed(4) find_shipment [OF confirmed(1)] confirmed(1) by (simp add: stateOf_def find_update [OF confirmed(5)])
qed

lemma stateOf_cong: "bd_shipments db' = bd_shipments db \<Longrightarrow> stateOf job db' = stateOf job db"
  by (simp add: stateOf_def findShipment_def)

lemma afterConfirmDebit_ships: "bd_shipments (snd (afterConfirmDebit (quietBooking up) job db)) = bd_shipments db"
  by (auto simp: afterConfirmDebit_def Let_def split_def split: option.split sum.split)

lemma confirmedCalls_ships [simp]: "bd_shipments (confirmedCalls args o' t db) = bd_shipments db"
  "bd_ledger (confirmedCalls args o' t db) = bd_ledger db"
  by (simp_all add: confirmedCalls_def Let_def)

lemma confirmBooking_state:
  assumes "confirmBooking (quietBooking up) args db = (Inr r, db')" "stateOf (cf_job args) db = Some SUBMITTED"
  shows "stateOf (cf_job args) db' \<in> {Some CONFIRMED, Some FAILED}"
proof -
  obtain x db1 where tx: "confirmTx args db = (x, db1)" by fastforce
  note st = confirmTx_state [OF tx]
  show ?thesis
  proof (cases x)
    case (Inr y)
    then show ?thesis
    proof (cases y)
      case (TxConfirmed o' t b)
      then have "stateOf (cf_job args) db1 = Some CONFIRMED" using st Inr by blast
      moreover have "bd_shipments db' = bd_shipments db1"
        using assms(1) afterConfirmDebit_ships [of up "cf_job args" db1]
        by (auto simp: confirmBooking_def tx Inr TxConfirmed Let_def split_def split: sum.splits if_splits)
      ultimately show ?thesis using stateOf_cong [of db' db1 "cf_job args"] by simp
    next
      case (TxQuarantined d)
      then have "stateOf (cf_job args) db1 = Some FAILED" using st Inr by blast
      moreover have "bd_shipments db' = bd_shipments db1"
        using assms(1) by (auto simp: confirmBooking_def tx Inr TxQuarantined)
      ultimately show ?thesis using stateOf_cong [of db' db1 "cf_job args"] by simp
    qed (use st Inr assms(2) in auto)
  qed (use assms tx in \<open>simp add: confirmBooking_def\<close>)
qed

lemma settleFailed_state:
  assumes "settleFailed job old out a db = (Inr (), db')" "stateOf job db = Some old"
  shows "stateOf job db' = Some FAILED"
proof -
  obtain d where "settleTx job old FAILED (settleIntent out a) db = Some d" "bd_shipments db' = bd_shipments d"
    using assms(1) by (auto simp: settleFailed_def split: option.splits)
  then show ?thesis using settleTx_state assms(2) stateOf_cong by metis
qed

lemma markOutcomeUnknown_state:
  assumes "markOutcomeUnknown job db = (Inr (), db')" "stateOf job db = Some SUBMITTED"
  shows "stateOf job db' = Some OUTCOME_UNKNOWN"
proof -
  obtain d where "settleTx job SUBMITTED OUTCOME_UNKNOWN (\<lambda>i. i\<lparr>bi_outcome := IO_UNKNOWN\<rparr>) db = Some d"
    "bd_shipments db' = bd_shipments d"
    using assms(1) by (auto simp: markOutcomeUnknown_def split: option.splits)
  then show ?thesis using settleTx_state assms(2) stateOf_cong by metis
qed

lemma discardResult_Inr: "discardResult r = (Inr (), db') \<Longrightarrow> \<exists>y. r = (Inr y, db')"
  by (cases r) (auto simp: discardResult_def split: sum.splits)

lemma settleCreate_state:
  assumes "settleCreate (quietBooking up) job response db = (Inr (), db')" "stateOf job db = Some SUBMITTED"
  shows "stateOf job db' \<in> {Some CONFIRMED, Some FAILED, Some OUTCOME_UNKNOWN}"
proof -
  have c: "stateOf job db' \<in> {Some CONFIRMED, Some FAILED}"
    if "discardResult (confirmBooking (quietBooking up) args db) = (Inr (), db')" "cf_job args = job" for args
    using discardResult_Inr [OF that(1)] confirmBooking_state [of up args db _ db'] that(2) assms(2) by blast
  show ?thesis
  proof (cases response)
    case (Inl e)
    then show ?thesis
      using assms settleFailed_state markOutcomeUnknown_state by (auto simp: settleCreate_def split: if_splits)
  next
    case (Inr res)
    show ?thesis
    proof (cases "cr_kind res = KIND_CONFIRMED \<and> truthy (cr_awb res)")
      case True
      then show ?thesis using assms(1) c unfolding settleCreate_def Inr by auto
    next
      case False
      then show ?thesis
        using assms settleFailed_state markOutcomeUnknown_state by (auto simp: settleCreate_def Inr split: if_splits)
    qed
  qed
qed

lemma unclaimed_again:
  assumes "processBooking (quietBooking up) call job db = (Inr (), db')"
  shows "claimBooking job db' = (Inr None, db')"
proof -
  obtain r db1 where c: "claimBooking job db = (r, db1)" by fastforce
  show ?thesis
  proof (cases "\<exists>s i. r = Inr (Some (s, i))")
    case True
    then obtain s i where r: "r = Inr (Some (s, i))" by blast
    then obtain snap where snap: "bs_snapshot s = Some snap"
      using assms c by (auto simp: processBooking_def split: option.splits)
    let ?req = "createRequest snap i"
    let ?d = "if fst (call ?req) then callOut (CreateShipment ?req) db1 else db1"
    have "settleCreate (quietBooking up) job (snd (call ?req)) ?d = (Inr (), db')"
      using assms c r snap by (auto simp: processBooking_def Let_def split_def)
    moreover have "stateOf job ?d = Some SUBMITTED"
      using claimBooking_Some(4) [OF c [unfolded r]] stateOf_cong [of ?d db1 job] by simp
    ultimately have "stateOf job db' \<in> {Some CONFIRMED, Some FAILED, Some OUTCOME_UNKNOWN}"
      by (rule settleCreate_state)
    then show ?thesis by (intro claim_settled) auto
  next
    case False
    then have "r = Inr None" using assms c by (auto simp: processBooking_def split: sum.splits option.splits)
    then show ?thesis using assms c claimBooking_None [of job db db1] by (simp add: processBooking_def)
  qed
qed

text \<open>
  C17: INV-5 for a finished job.  Once a delivery of a booking job has returned, with no other
  writer in between, whatever the courier answered and whatever became of the shipment, any
  further delivery of the same job does nothing at all: no courier call, no row, no entry.
\<close>

theorem finished_job_never_creates_again:
  assumes "processBooking (quietBooking up) call job db = (Inr (), db')"
  shows "processBooking env call' job db' = (Inr (), db')"
  using unclaimed_again [OF assms] by (rule processBooking_unclaimed)

lemma finished_job_never_creates_again_witness:
  "processBooking (quietBooking False) (confirmsAs ''A2'') exampleJob (snd (processBooking (quietBooking True) (confirmsAs ''A1'') exampleJob
       (exampleBooking [exampleShipment ''s1'' QUEUED None])))
     = (Inr (), snd (processBooking (quietBooking True) (confirmsAs ''A1'') exampleJob
         (exampleBooking [exampleShipment ''s1'' QUEUED None])))"
proof (rule finished_job_never_creates_again [of True "confirmsAs ''A1''" exampleJob "exampleBooking [exampleShipment ''s1'' QUEUED None]"])
  have "fst (processBooking (quietBooking True) (confirmsAs ''A1'') exampleJob
      (exampleBooking [exampleShipment ''s1'' QUEUED None])) = Inr ()"
    by code_simp
  then show "processBooking (quietBooking True) (confirmsAs ''A1'') exampleJob
      (exampleBooking [exampleShipment ''s1'' QUEUED None])
    = (Inr (), snd (processBooking (quietBooking True) (confirmsAs ''A1'') exampleJob
        (exampleBooking [exampleShipment ''s1'' QUEUED None])))"
    by (metis prod.collapse)
qed

text \<open>A debit that fails after the confirmation has committed.\<close>

lemma debit_fails:
  assumes "confirmBooking (quietBooking False) args db = (Inl LedgerFailed, db')"
  shows "\<exists>o' b db1. confirmTx args db = (Inr (TxConfirmed o' False b), db1) \<and> db' = db1"
proof -
  obtain x db1 where tx: "confirmTx args db = (x, db1)" by fastforce
  have "x \<noteq> Inl LedgerFailed" using tx by (cases rule: confirmTx_cases) auto
  then show ?thesis
    using assms tx
    by (auto simp: confirmBooking_def afterConfirmDebit_def debitEntry_def debit_def Let_def split_def
        split: sum.splits ConfirmTx.splits if_splits option.splits)
qed

lemma settleCreate_debit_fails:
  assumes "settleCreate (quietBooking False) job response db = (Inl LedgerFailed, db')"
  shows "\<exists>args o' b. cf_job args = job \<and> confirmTx args db = (Inr (TxConfirmed o' False b), db')"
proof -
  have "\<exists>args. cf_job args = job \<and> fst (confirmBooking (quietBooking False) args db) = Inl LedgerFailed
      \<and> snd (confirmBooking (quietBooking False) args db) = db'"
    using assms
    by (auto simp: settleCreate_def settleFailed_def markOutcomeUnknown_def discardResult_def
        intro!: exI [of _ "\<lparr>cf_job = job, cf_awbRaw = _, cf_confirmedCharge = _, cf_intentOutcome = _,
          cf_resolvedByMemberId = _\<rparr>"] split: sum.splits if_splits option.splits)
  then obtain args where "cf_job args = job" "confirmBooking (quietBooking False) args db = (Inl LedgerFailed, db')"
    by (metis prod.collapse)
  then show ?thesis using debit_fails by blast
qed

text \<open>
  INV-12 is at most one debit, not exactly one.  When the ledger is unavailable right after
  a booking has committed, the delivery fails, the shipment is CONFIRMED and live with no DEBIT,
  and nothing makes it up: every further delivery of the job returns at once without a debit,
  and both resolvers refuse a CONFIRMED shipment.
\<close>

theorem failed_debit_is_never_made_up:
  assumes "bookingInv db" "processBooking (quietBooking False) call job db = (Inl LedgerFailed, db')"
  shows "isBooked db' (jd_shipmentId job) False \<and> \<not> hasEntry (bd_ledger db') (jd_shipmentId job) DEBIT
    \<and> processBooking env call' job db' = (Inr (), db')
    \<and> resolveOutcomeUnknown env look (jd_shopId job) (jd_shipmentId job) db'
        = (Inr (ResolveInvalidState (Some CONFIRMED)), db')
    \<and> resolveOutcomeUnknownByOperator env (jd_shopId job) (jd_shipmentId job) member decision db'
        = (Inr (ResolveInvalidState (Some CONFIRMED)), db')"
proof -
  obtain r db1 where c: "claimBooking job db = (r, db1)" by fastforce
  have "\<exists>s i snap. r = Inr (Some (s, i)) \<and> bs_snapshot s = Some snap"
    using assms(2) c
    by (auto simp: processBooking_def claimBooking_def split: sum.splits option.splits if_splits)
  then obtain s i snap where r: "r = Inr (Some (s, i))" "bs_snapshot s = Some snap" by blast
  let ?req = "createRequest snap i"
  let ?d = "if fst (call ?req) then callOut (CreateShipment ?req) db1 else db1"
  have "settleCreate (quietBooking False) job (snd (call ?req)) ?d = (Inl LedgerFailed, db')"
    using assms(2) c r by (auto simp: processBooking_def Let_def split_def)
  then obtain args o' b where args: "cf_job args = job" "confirmTx args ?d = (Inr (TxConfirmed o' False b), db')"
    using settleCreate_debit_fails by blast
  note cl = claimBooking_Some [OF c [unfolded r]]
  have state: "stateOf job db' = Some CONFIRMED" using confirmTx_state [OF args(2)] args(1) by blast
  have "isBooked db' (jd_shipmentId job) False"
    using confirmTx_booked [OF args(2)] args(1) stays_isBooked by blast
  moreover have "\<not> hasEntry (bd_ledger db') (jd_shipmentId job) DEBIT"
  proof
    assume "hasEntry (bd_ledger db') (jd_shipmentId job) DEBIT"
    moreover have "bd_ledger db' = bd_ledger db"
      using args(2) cl(6) by (cases rule: confirmTx_cases) (auto dest: update_shape)
    ultimately obtain e where e: "e \<in> set (bd_ledger db)" "le_shipment_id e = jd_shipmentId job" "le_direction e = DEBIT"
      by (auto simp: hasEntry_def list_ex_iff)
    then have "isBooked db (jd_shipmentId job) False"
      using bookingInvD(4) [OF assms(1)] unfolding ledgerJustified_def by fastforce
    then obtain t where t: "t \<in> set (bd_shipments db)" "bs_shipment_id t = jd_shipmentId job" "booked t"
      by (auto simp: isBooked_def)
    have "t = s" using find_shipment [OF cl(1)] t bookingInvD(1) [OF assms(1)]
      by (auto simp: isShipment_def distinct_map inj_on_def)
    then show False using t(3) cl(3) by (auto simp: booked_def claimable_def)
  qed
  moreover have "processBooking env call' job db' = (Inr (), db')"
    using state by (intro processBooking_unclaimed claim_settled) simp_all
  ultimately show ?thesis
    using state by (auto simp: resolveOutcomeUnknown_def resolveOutcomeUnknownByOperator_def
        loadOutcomeUnknown_def stateOf_def)
qed

lemma failed_debit_is_never_made_up_witness:
  "\<not> hasEntry (bd_ledger (snd (processBooking (quietBooking False) (confirmsAs ''A1'') exampleJob
       (exampleBooking [exampleShipment ''s1'' QUEUED None])))) ''s1'' DEBIT"
proof -
  let ?run = "processBooking (quietBooking False) (confirmsAs ''A1'') exampleJob
      (exampleBooking [exampleShipment ''s1'' QUEUED None])"
  have "fst ?run = Inl LedgerFailed" by code_simp
  then have "?run = (Inl LedgerFailed, snd ?run)" by (metis prod.collapse)
  from failed_debit_is_never_made_up [OF example_inv this] show ?thesis by (simp add: exampleJob_def)
qed

text \<open>Repeated deliveries of a job.\<close>

fun deliveries ::
  "nat \<Rightarrow> BookingEnv \<Rightarrow> (CreateShipmentRequest \<Rightarrow> bool \<times> (AdapterError + CreateShipmentResult)) \<Rightarrow> BookingJobData
     \<Rightarrow> BookingDb \<Rightarrow> BookingDb" where
  "deliveries 0 env call job db = db"
| "deliveries (Suc n) env call job db = deliveries n env call job (snd (processBooking env call job db))"

lemma blocked_update:
  assumes s: "findShipment db shop sid = Some s" "c s" "bs_collectible (f s) > 0"
    and keep: "bs_order_id (f s) = bs_order_id s" "bs_shipment_id (f s) = bs_shipment_id s"
    and t: "t \<in> set (bd_shipments db)" "bs_order_id t = bs_order_id s" "bs_shipment_id t \<noteq> bs_shipment_id s" "carriesCollectible t"
  shows "updateShipments True c f db = None"
proof -
  have "\<not> enforceSingleCollectible db (f s)"
    using s(3) keep t by (auto simp: enforceSingleCollectible_def list_ex_iff)
  then have "\<not> list_all (\<lambda>x. c x \<longrightarrow> guardShipmentRow x (f x) \<and> (True \<longrightarrow> enforceSingleCollectible db (f x))) (bd_shipments db)"
    using s(2) find_shipment [OF s(1)] by (auto simp: list_all_iff)
  then show ?thesis by (simp add: updateShipments_def)
qed

lemma blocked_settle:
  assumes s: "findShipment db (jd_shopId job) (jd_shipmentId job) = Some s" "bs_booking_state s = SUBMITTED"
      "bs_collectible s > 0"
    and t: "t \<in> set (bd_shipments db)" "bs_order_id t = bs_order_id s" "bs_shipment_id t \<noteq> bs_shipment_id s" "carriesCollectible t"
  shows "\<exists>e. settleCreate env job response db = (Inl e, db)"
proof -
  have key: "isShipment (jd_shopId job) (jd_shipmentId job) s" using find_shipment [OF s(1)] by blast
  have c: "\<exists>e. confirmBooking env args db = (Inl e, db)" if "cf_job args = job" for args
    unfolding confirmBooking_def confirmTx_def Let_def that s(1) option.case
    using blocked_update [where c = "isShipment (jd_shopId job) (jd_shipmentId job)", OF s(1) key _ _ _ t] s(2,3)
    by (auto simp: quarantine_def split: option.split)
  have "settleTx job SUBMITTED new f db = None" for new f
    using blocked_update [where c = "\<lambda>x. isShipment (jd_shopId job) (jd_shipmentId job) x \<and> bs_booking_state x = SUBMITTED"
        and f = "setState new", OF s(1) _ _ _ _ t] key s(2,3) by (simp add: settleTx_def)
  then have m: "settleFailed job SUBMITTED out a db = (Inl GuardRaised, db)" "markOutcomeUnknown job db = (Inl GuardRaised, db)" for out a
    by (simp_all add: settleFailed_def markOutcomeUnknown_def)
  show ?thesis
  proof (cases response)
    case (Inr res)
    obtain e where "confirmBooking env \<lparr>cf_job = job, cf_awbRaw = orEmpty (cr_awb res),
        cf_confirmedCharge = cr_confirmedCharge res, cf_intentOutcome = IO_CONFIRMED, cf_resolvedByMemberId = None\<rparr> db = (Inl e, db)"
      using c [of "\<lparr>cf_job = job, cf_awbRaw = orEmpty (cr_awb res),
        cf_confirmedCharge = cr_confirmedCharge res, cf_intentOutcome = IO_CONFIRMED, cf_resolvedByMemberId = None\<rparr>"] by auto
    with Inr m show ?thesis by (auto simp: settleCreate_def discardResult_def)
  qed (use m in \<open>auto simp: settleCreate_def\<close>)
qed

lemma blocked_delivery:
  assumes s: "findShipment db (jd_shopId job) (jd_shipmentId job) = Some s" "bs_booking_state s = SUBMITTED"
      "bs_collectible s > 0" "bs_snapshot s = Some snap"
    and i: "findIntent db (jd_shipmentId job) (jd_bookingIntentId job) = Some i" "bi_outcome i = IO_IN_FLIGHT"
    and t: "t \<in> set (bd_shipments db)" "bs_order_id t = bs_order_id s" "bs_shipment_id t \<noteq> bs_shipment_id s" "carriesCollectible t"
    and reached: "fst (call (createRequest snap i))"
  shows "\<exists>e. processBooking (quietBooking up) call job db = (Inl e, callOut (CreateShipment (createRequest snap i)) db)"
proof -
  let ?d = "callOut (CreateShipment (createRequest snap i)) db"
  have "claimBooking job db = (Inr (Some (s, i)), db)"
    using s i by (simp add: claimBooking_def claimable_def)
  moreover have "findShipment ?d (jd_shopId job) (jd_shipmentId job) = Some s"
    using s(1) by (simp add: findShipment_def)
  with blocked_settle [of ?d job s t "quietBooking up" "snd (call (createRequest snap i))"] s(2,3) t
  obtain e where "settleCreate (quietBooking up) job (snd (call (createRequest snap i))) ?d = (Inl e, ?d)" by auto
  ultimately show ?thesis using s(4) reached by (simp add: processBooking_def Let_def split_def)
qed

text \<open>
  Two COD shipments of one order can be booked at once.  Suppose a shipment with a collectible has
  been submitted when a sibling of its order that also carries a collectible is confirmed
  (both were queued before either had an AWB, so both froze the whole balance).  Then whatever
  the courier answers, the guard of INV-9 rolls the settlement back, the delivery throws, the job
  stays claimable, and n deliveries issue n creates to the courier while no row ever changes:
  every AWB obtained is lost.
\<close>

theorem cod_sibling_repeats_create:
  assumes "findShipment db (jd_shopId job) (jd_shipmentId job) = Some s" "bs_booking_state s = SUBMITTED"
    "bs_collectible s > 0" "bs_snapshot s = Some snap"
    "findIntent db (jd_shipmentId job) (jd_bookingIntentId job) = Some i" "bi_outcome i = IO_IN_FLIGHT"
    "t \<in> set (bd_shipments db)" "bs_order_id t = bs_order_id s" "bs_shipment_id t \<noteq> bs_shipment_id s" "carriesCollectible t"
    "fst (call (createRequest snap i))"
  shows "deliveries n (quietBooking up) call job db
    = db\<lparr>bd_calls := bd_calls db @ replicate n (CreateShipment (createRequest snap i))\<rparr>"
  using assms
proof (induction n arbitrary: db)
  case (Suc n)
  let ?d = "callOut (CreateShipment (createRequest snap i)) db"
  have "snd (processBooking (quietBooking up) call job db) = ?d"
    using blocked_delivery [where call = call and up = up, OF Suc.prems] by (metis snd_conv)
  moreover have "deliveries n (quietBooking up) call job ?d
      = ?d\<lparr>bd_calls := bd_calls ?d @ replicate n (CreateShipment (createRequest snap i))\<rparr>"
    by (rule Suc.IH) (use Suc.prems in \<open>simp_all add: findShipment_def findIntent_def\<close>)
  ultimately show ?case by (simp add: callOut_def)
qed simp

lemma cod_sibling_repeats_create_witness:
  "map (\<lambda>c. case c of CreateShipment r \<Rightarrow> in_merchantReference (cq_intent r) | _ \<Rightarrow> '''')
     (bd_calls (deliveries 3 (quietBooking True) (confirmsAs ''A2'') exampleJob
       (exampleBooking [exampleShipment ''s1'' SUBMITTED None, exampleShipment ''s2'' CONFIRMED (Some ''A1'')])))
     = [''ref'', ''ref'', ''ref'']"
proof -
  let ?db = "exampleBooking [exampleShipment ''s1'' SUBMITTED None, exampleShipment ''s2'' CONFIRMED (Some ''A1'')]"
  have "deliveries 3 (quietBooking True) (confirmsAs ''A2'') exampleJob ?db = ?db\<lparr>bd_calls := bd_calls ?db
      @ replicate 3 (CreateShipment (createRequest exampleSnapshot (exampleIntent ''i1'' ''s1'' IO_IN_FLIGHT)))\<rparr>"
    by (rule cod_sibling_repeats_create [where s = "exampleShipment ''s1'' SUBMITTED None"
          and t = "exampleShipment ''s2'' CONFIRMED (Some ''A1'')"])
      (simp_all add: findShipment_def findIntent_def isShipment_def carriesCollectible_def exampleBooking_def
        exampleShipment_def exampleIntent_def exampleJob_def confirmsAs_def)
  then show ?thesis
    by (simp add: exampleBooking_def createRequest_def exampleIntent_def numeral_3_eq_3)
qed

section \<open>Crash between the create and its settlement\<close>

lemma callOut_prefix: "\<exists>rest. bd_calls (callOut c db) = bd_calls db @ rest"
  by simp

lemma update_calls: "updateShipments fires c f db = Some (db1, n) \<Longrightarrow> bd_calls db1 = bd_calls db"
  by (auto simp: updateShipments_Some)

lemma confirmTx_calls: "confirmTx args db = (r, db') \<Longrightarrow> bd_calls db' = bd_calls db"
  by (auto simp: confirmTx_def quarantine_def Let_def dest: update_calls split: option.splits if_splits)

lemma settleTx_calls: "settleTx job old new f db = Some db' \<Longrightarrow> bd_calls db' = bd_calls db"
  by (auto simp: settleTx_def dest: update_calls split: option.splits if_splits)

lemma afterConfirmDebit_calls: "\<exists>rest. bd_calls (snd (afterConfirmDebit (quietBooking up) job db)) = bd_calls db @ rest"
  by (auto simp: afterConfirmDebit_def debitEntry_def Let_def split_def split: option.split sum.split)

lemma confirmBooking_calls: "\<exists>rest. bd_calls (snd (confirmBooking (quietBooking up) args db)) = bd_calls db @ rest"
proof -
  obtain r db1 where tx: "confirmTx args db = (r, db1)" by fastforce
  obtain rest where "bd_calls (snd (afterConfirmDebit (quietBooking up) (cf_job args) db1)) = bd_calls db1 @ rest"
    using afterConfirmDebit_calls by blast
  then show ?thesis
    using confirmTx_calls [OF tx]
    by (auto simp: confirmBooking_def tx Let_def split_def confirmedCalls_def split: sum.split ConfirmTx.split)
qed

lemma settleCreate_calls: "\<exists>rest. bd_calls (snd (settleCreate (quietBooking up) job response db)) = bd_calls db @ rest"
  using confirmBooking_calls
  by (auto simp: settleCreate_def settleFailed_def markOutcomeUnknown_def dest: settleTx_calls
      split: sum.split option.split)

text \<open>
  A crash between the courier call and its settlement repeats the create.  If the worker
  dies after the courier was called, the shipment is SUBMITTED and the intent still in flight, so
  the next delivery of the job issues the very same request a second time.
\<close>

theorem crash_after_create_repeats_it:
  assumes "claimBooking job db = (Inr (Some (s, i)), db1)" "bs_snapshot s = Some snap"
    "fst (call (createRequest snap i))"
  shows "\<exists>rest. bd_calls (snd (processBooking (quietBooking up) call job
      (callOut (CreateShipment (createRequest snap i)) db1)))
    = bd_calls db @ [CreateShipment (createRequest snap i), CreateShipment (createRequest snap i)] @ rest"
proof -
  let ?c = "CreateShipment (createRequest snap i)" and ?d = "callOut (CreateShipment (createRequest snap i)) db1"
  note cl = claimBooking_Some [OF assms(1)]
  obtain s' where s': "findShipment db1 (jd_shopId job) (jd_shipmentId job) = Some s'" "bs_booking_state s' = SUBMITTED"
    "bs_snapshot s' = Some snap"
  proof (cases "bs_booking_state s = QUEUED")
    case True
    then obtain n where u: "updateShipments True (\<lambda>r. isShipment (jd_shopId job) (jd_shipmentId job) r
        \<and> bs_booking_state r = QUEUED) (setState SUBMITTED) db = Some (db1, n)"
      using assms(1) cl(1) by (auto simp: claimBooking_def split: option.splits if_splits)
    then show ?thesis
      using that [of "setState SUBMITTED s"] cl(1) find_shipment [OF cl(1)] True assms(2) by (simp add: find_update)
  next
    case False
    with assms(1) cl(1) have "db1 = db" "bs_booking_state s = SUBMITTED"
      by (auto simp: claimBooking_def claimable_def split: option.splits if_splits)
    then show ?thesis using that cl(1) assms(2) by blast
  qed
  have "findShipment ?d (jd_shopId job) (jd_shipmentId job) = Some s'" using s'(1) by (simp add: findShipment_def)
  moreover have "findIntent ?d (jd_shipmentId job) (jd_bookingIntentId job) = Some i"
    using cl(2,5) by (simp add: findIntent_def)
  ultimately have "claimBooking job ?d = (Inr (Some (s', i)), ?d)"
    using s'(2) cl(3) by (simp add: claimBooking_def claimable_def)
  then have "snd (processBooking (quietBooking up) call job ?d)
      = snd (settleCreate (quietBooking up) job (snd (call (createRequest snap i))) (callOut ?c ?d))"
    using s'(3) assms(3) by (simp add: processBooking_def Let_def split_def)
  then show ?thesis
    using settleCreate_calls [of up job "snd (call (createRequest snap i))" "callOut ?c ?d"] cl(7) by auto
qed

lemma crash_after_create_repeats_it_witness:
  "\<exists>rest. bd_calls (snd (processBooking (quietBooking True) (confirmsAs ''A2'') exampleJob
      (callOut (CreateShipment (createRequest exampleSnapshot (exampleIntent ''i1'' ''s1'' IO_IN_FLIGHT)))
        (exampleBooking [exampleShipment ''s1'' SUBMITTED None]))))
    = [CreateShipment (createRequest exampleSnapshot (exampleIntent ''i1'' ''s1'' IO_IN_FLIGHT)),
       CreateShipment (createRequest exampleSnapshot (exampleIntent ''i1'' ''s1'' IO_IN_FLIGHT))] @ rest"
proof -
  have "claimBooking exampleJob (exampleBooking [exampleShipment ''s1'' SUBMITTED None])
      = (Inr (Some (exampleShipment ''s1'' SUBMITTED None, exampleIntent ''i1'' ''s1'' IO_IN_FLIGHT)),
         exampleBooking [exampleShipment ''s1'' SUBMITTED None])"
    by (simp add: claimBooking_def findShipment_def findIntent_def isShipment_def claimable_def exampleBooking_def
        exampleShipment_def exampleIntent_def exampleJob_def)
  from crash_after_create_repeats_it [OF this, of exampleSnapshot "confirmsAs ''A2''" True] show ?thesis
    by (simp add: exampleShipment_def confirmsAs_def) (simp add: exampleBooking_def exampleShipment_def)
qed

section \<open>Composition with the call path\<close>

text \<open>The booking call made through the transport policy of the courier account.\<close>

definition callCourier ::
  "RateLimiterOptions \<Rightarrow> CircuitBreakerOptions \<Rightarrow> CourierAccountRow option \<Rightarrow> int \<Rightarrow> int
     \<Rightarrow> (CreateShipmentRequest \<Rightarrow> AdapterError + CreateShipmentResult) \<Rightarrow> AccountTransport
     \<Rightarrow> CreateShipmentRequest \<Rightarrow> bool \<times> (AdapterError + CreateShipmentResult)" where
  "callCourier limiter breaker account now later invoke st req =
     fst (adapterCall limiter breaker account BOOKING now later (invoke req) st)"

definition usableAccount :: "CourierAccountRow option \<Rightarrow> bool" where
  "usableAccount account = (case account of None \<Rightarrow> False
     | Some a \<Rightarrow> \<not> ca_disabled a \<and> ca_has_credentials a)"

text \<open>
  A booking that never left the process can end as OUTCOME_UNKNOWN.  When the courier account
  has been disabled or lost its credentials since the shipment was queued, the adapter is never
  reached, and yet the worker treats the refusal as ambiguous: the shipment is OUTCOME_UNKNOWN and
  the automatic resolver, which calls through the same account, throws as well.  An open breaker,
  an exhausted budget or a rate limit instead leaves the shipment SUBMITTED for the next delivery.
\<close>

theorem refused_call_marks_unknown:
  assumes "claimBooking job db = (Inr (Some (s, i)), db1)" "bs_snapshot s = Some snap" "\<not> usableAccount account"
    and "fst (processBooking (quietBooking up) (callCourier limiter breaker account now later invoke st) job db) = Inr ()"
  shows "stateOf job (snd (processBooking (quietBooking up) (callCourier limiter breaker account now later invoke st) job db))
      = Some OUTCOME_UNKNOWN
    \<and> bd_calls (snd (processBooking (quietBooking up) (callCourier limiter breaker account now later invoke st) job db))
      = bd_calls db @ [AuditBooking ''booking.outcome_unknown'' (jd_shipmentId job)]"
proof -
  let ?req = "createRequest snap i"
  have "\<exists>e. callCourier limiter breaker account now later invoke st ?req = (False, Inl e)
      \<and> e \<in> {NotFoundException, ForbiddenException, BadRequestException}"
    using assms(3) by (cases account) (auto simp: callCourier_def adapterCall_def usableAccount_def)
  then obtain e where e: "callCourier limiter breaker account now later invoke st ?req = (False, Inl e)"
    "\<not> backPressure e" "\<not> definitiveRejection e"
    by (auto simp: backPressure_def definitiveRejection_def)
  then have run: "processBooking (quietBooking up) (callCourier limiter breaker account now later invoke st) job db
      = markOutcomeUnknown job db1"
    using assms(1,2) by (simp add: processBooking_def Let_def settleCreate_def)
  with assms(4) obtain d where d: "settleTx job SUBMITTED OUTCOME_UNKNOWN (\<lambda>i. i\<lparr>bi_outcome := IO_UNKNOWN\<rparr>) db1 = Some d"
    "markOutcomeUnknown job db1 = (Inr (), callOut (AuditBooking ''booking.outcome_unknown'' (jd_shipmentId job)) d)"
    by (auto simp: markOutcomeUnknown_def split: option.splits)
  then show ?thesis
    using markOutcomeUnknown_state [OF d(2)] claimBooking_Some(4,7) [OF assms(1)] settleTx_calls [OF d(1)] run by simp
qed

lemma refused_call_marks_unknown_witness:
  "stateOf exampleJob (snd (processBooking (quietBooking True)
      (callCourier defaultRateLimiterOptions defaultCircuitBreakerOptions (Some \<lparr>ca_disabled = True, ca_has_credentials = True\<rparr>)
        0 1 (\<lambda>r. snd (confirmsAs ''A2'' r)) \<lparr>at_bucket = None, at_breaker = None, at_health = HEALTHY\<rparr>) exampleJob
      (exampleBooking [exampleShipment ''s1'' SUBMITTED None]))) = Some OUTCOME_UNKNOWN"
proof -
  let ?db = "exampleBooking [exampleShipment ''s1'' SUBMITTED None]"
  let ?call = "callCourier defaultRateLimiterOptions defaultCircuitBreakerOptions (Some \<lparr>ca_disabled = True, ca_has_credentials = True\<rparr>)
        0 1 (\<lambda>r. snd (confirmsAs ''A2'' r)) \<lparr>at_bucket = None, at_breaker = None, at_health = HEALTHY\<rparr>"
  have c: "claimBooking exampleJob ?db
      = (Inr (Some (exampleShipment ''s1'' SUBMITTED None, exampleIntent ''i1'' ''s1'' IO_IN_FLIGHT)), ?db)"
    by (simp add: claimBooking_def findShipment_def findIntent_def isShipment_def claimable_def exampleBooking_def
        exampleShipment_def exampleIntent_def exampleJob_def)
  have s: "bs_snapshot (exampleShipment ''s1'' SUBMITTED None) = Some exampleSnapshot"
    by (simp add: exampleShipment_def)
  have u: "\<not> usableAccount (Some \<lparr>ca_disabled = True, ca_has_credentials = True\<rparr>)"
    by (simp add: usableAccount_def)
  have "fst (processBooking (quietBooking True) ?call exampleJob ?db) = Inr ()"
    by (simp add: processBooking_def c s Let_def callCourier_def adapterCall_def settleCreate_def backPressure_def
        definitiveRejection_def markOutcomeUnknown_def)
      (simp add: settleTx_def updateShipments_def guardShipmentRow_def
        enforceSingleCollectible_def exampleBooking_def carriesCollectible_def exampleShipment_def)
  from refused_call_marks_unknown [OF c s u this] show ?thesis by blast
qed

section \<open>Cancellation\<close>

lemma cancelStep_none:
  assumes "bookingInv db" "findShipment db (ci_shopId inp) (ci_shipmentId inp) = Some s" "\<not> c s"
  shows "cancelStep inp c fires f db = Some db"
proof -
  have no: "\<not> (isShipment (ci_shopId inp) (ci_shipmentId inp) x \<and> c x)" if "x \<in> set (bd_shipments db)" for x
    using only_shipment [OF bookingInvD(1) [OF assms(1)] assms(2) that] assms(3) by blast
  then have "map (\<lambda>x. if isShipment (ci_shopId inp) (ci_shipmentId inp) x \<and> c x then f x else x) (bd_shipments db) = bd_shipments db"
    by (intro map_idI) auto
  with no show ?thesis by (auto simp: cancelStep_def updateShipments_Some)
qed

text \<open>
  The race between cancellation and pickup.  If the parcel was picked up while the courier was
  being asked, then whatever the courier answers, the cancellation is not reported as done and
  nothing is written but an audit record: no VOID, no REVERSAL, custody stays IN_CUSTODY; a
  courier that claims to have cancelled is reported as the race.
\<close>

theorem pickup_race_writes_nothing:
  assumes "wfBookingEnv env" "bookingInv db" "requestTx inp db = (Inr (Inr (s, intent)), db1)"
    and gap: "gap = be_others env 0 (if fst (call (cancelAwb s))
        then callOut (CancelShipment (cancelAwb s)) (callOut (AuditBooking ''booking.cancel_requested'' (ci_shipmentId inp)) db1)
        else callOut (AuditBooking ''booking.cancel_requested'' (ci_shipmentId inp)) db1)"
    and picked: "map_option bs_custody_state (findShipment gap (ci_shopId inp) (ci_shipmentId inp)) = Some IN_CUSTODY"
  shows "\<exists>result c. requestCancellation env call inp db = (Inr result, callOut c gap) \<and> result \<noteq> Cancelled
    \<and> (snd (call (cancelAwb s)) = Inr CourierCancelled \<longrightarrow> result = CancelPickupRace)"
proof -
  have "booking_step\<^sup>*\<^sup>* db gap"
    unfolding gap by (rule otherReach [OF assms(1)]) (simp add: callReach requestTx_reaches [OF assms(3)])
  then have inv: "bookingInv gap" using booking.reachable assms(2) by blast
  obtain g where g: "findShipment gap (ci_shopId inp) (ci_shipmentId inp) = Some g" "bs_custody_state g = IN_CUSTODY"
    using picked by auto
  have "cancelStep inp (\<lambda>s. bs_custody_state s = CANCEL_REQUESTED) False (setCustody CANCEL_REJECTED) gap = Some gap"
    "cancelStep inp (\<lambda>s. bs_custody_state s = CANCEL_REJECTED) False (setCustody k) gap = Some gap" for k
    using cancelStep_none [OF inv g(1)] g(2) by simp_all
  then have "settleRejected inp k r gap = (Inr (CancelRejected k r),
      callOut (AuditBooking ''booking.cancel_rejected'' (ci_shipmentId inp)) gap)" for k r
    by (simp add: settleRejected_def)
  moreover have "settleCancelled env inp s intent gap = (Inr CancelPickupRace,
      callOut (AuditBooking ''booking.cancel_pickup_race'' (ci_shipmentId inp)) gap)"
    using picked by (simp add: settleCancelled_def)
  moreover have "requestCancellation env call inp db = (case snd (call (cancelAwb s)) of
        Inl _ \<Rightarrow> flagOutcomeUnknown inp gap
      | Inr CourierCancelled \<Rightarrow> settleCancelled env inp s intent gap
      | Inr (CourierRejected reason) \<Rightarrow> settleRejected inp (bs_custody_state s) reason gap
      | Inr (CourierOutcomeUnknown _) \<Rightarrow> flagOutcomeUnknown inp gap)"
    unfolding gap by (cases "call (cancelAwb s)") (simp add: requestCancellation_def assms(3) Let_def)
  ultimately show ?thesis
    by (auto simp: flagOutcomeUnknown_def split: sum.split CancelShipmentResult.split)
qed

definition exampleCancel :: CancelInput where
  "exampleCancel = \<lparr>ci_shopId = ''shop'', ci_shipmentId = ''s1'', ci_actorId = ''m''\<rparr>"

definition pickupMeanwhile :: BookingEnv where
  "pickupMeanwhile = \<lparr>be_others = (\<lambda>k db. case updateShipments False (isShipment ''shop'' ''s1'') (setCustody IN_CUSTODY) db of
      None \<Rightarrow> db | Some (db', _) \<Rightarrow> db'), be_ledger_up = True\<rparr>"

lemma wf_pickupMeanwhile: "wfBookingEnv pickupMeanwhile"
proof -
  have "booking_step db db'" if "updateShipments False (isShipment ''shop'' ''s1'') (setCustody IN_CUSTODY) db = Some (db', n)" for db db' n
    by (rule row [OF that, of "''s1''"]) (auto simp: isShipment_def rowStep_def quietColumns_def booked_def)
  then show ?thesis by (auto simp: wfBookingEnv_def pickupMeanwhile_def split: option.split)
qed

lemma example_confirmed_inv: "bookingInv (exampleBooking [exampleShipment ''s1'' CONFIRMED (Some ''A1'')])"
  by (simp add: bookingInv_def example_defs awbUnique_def singleCollectible_def ledgerJustified_def ledgerUnique_def booked_def)

lemma pickup_race_writes_nothing_witness:
  "\<exists>result c gap. requestCancellation pickupMeanwhile (\<lambda>awb. (True, Inr CourierCancelled)) exampleCancel
      (exampleBooking [exampleShipment ''s1'' CONFIRMED (Some ''A1'')]) = (Inr result, callOut c gap)
    \<and> result = CancelPickupRace"
proof -
  let ?db = "exampleBooking [exampleShipment ''s1'' CONFIRMED (Some ''A1'')]"
  let ?db1 = "?db\<lparr>bd_shipments := [setCustody CANCEL_REQUESTED (exampleShipment ''s1'' CONFIRMED (Some ''A1''))]\<rparr>"
  have tx: "requestTx exampleCancel ?db = (Inr (Inr (exampleShipment ''s1'' CONFIRMED (Some ''A1''), Some ''i1'')), ?db1)"
    by (simp add: requestTx_def findShipment_def isShipment_def cancelStep_def updateShipments_def guardShipmentRow_def
        exampleBooking_def exampleShipment_def exampleCancel_def setCustody_def lastSuch_def exampleIntent_def)
  show ?thesis
    using pickup_race_writes_nothing [OF wf_pickupMeanwhile example_confirmed_inv tx refl, of "\<lambda>awb. (True, Inr CourierCancelled)"]
    by (fastforce simp: pickupMeanwhile_def updateShipments_def guardShipmentRow_def findShipment_def isShipment_def
        exampleCancel_def exampleShipment_def setCustody_def callOut_def exampleBooking_def)
qed

lemma find_keyed: "(\<And>x. P (f x) = P x) \<Longrightarrow> List.find P (map (\<lambda>x. if P x then f x else x) xs) = map_option f (List.find P xs)"
  by (induction xs) auto

lemma cancelStep_found:
  assumes "bookingInv db" "findShipment db (ci_shopId inp) (ci_shipmentId inp) = Some s" "c s"
    "guardShipmentRow s (f s)" "fires \<longrightarrow> enforceSingleCollectible db (f s)"
  shows "cancelStep inp c fires f db = Some (db\<lparr>bd_shipments :=
    map (\<lambda>x. if isShipment (ci_shopId inp) (ci_shipmentId inp) x then f x else x) (bd_shipments db)\<rparr>)"
proof -
  have only: "(isShipment (ci_shopId inp) (ci_shipmentId inp) x \<and> c x) = isShipment (ci_shopId inp) (ci_shipmentId inp) x"
    "isShipment (ci_shopId inp) (ci_shipmentId inp) x \<Longrightarrow> x = s" if "x \<in> set (bd_shipments db)" for x
    using only_shipment [OF bookingInvD(1) [OF assms(1)] assms(2) that] assms(3) by blast+
  have "map (\<lambda>x. if isShipment (ci_shopId inp) (ci_shipmentId inp) x \<and> c x then f x else x) (bd_shipments db)
      = map (\<lambda>x. if isShipment (ci_shopId inp) (ci_shipmentId inp) x then f x else x) (bd_shipments db)"
    using only(1) by (intro map_cong) auto
  moreover have "\<forall>x \<in> set (bd_shipments db). isShipment (ci_shopId inp) (ci_shipmentId inp) x \<and> c x \<longrightarrow>
      guardShipmentRow x (f x) \<and> (fires \<longrightarrow> enforceSingleCollectible db (f x))"
    using only(2) assms(4,5) by blast
  ultimately show ?thesis by (simp add: cancelStep_def updateShipments_def list_all_iff)
qed

definition cancelledRow :: "ShipmentLockRow \<Rightarrow> ShipmentLockRow" where
  "cancelledRow s = voidRow (setCustody CANCEL_REQUESTED s)"

text \<open>
  C18: What an undisturbed, courier-confirmed cancellation does.  The shipment becomes VOID and
  CANCELLED and gives up its collectible, no other row changes, and exactly one REVERSAL is
  appended, in the cycle that is current at that moment: its consumption drops by one whether or
  not the shipment was ever debited, and if it was, whatever the cycle of the DEBIT.
\<close>

theorem cancellation_effect:
  assumes "bookingInv db" "findShipment db (ci_shopId inp) (ci_shipmentId inp) = Some s"
    "bs_booking_state s = CONFIRMED" "bs_custody_state s \<in> {PICKUP_PENDING, PICKUP_SCHEDULED}" "\<not> bs_is_test s"
    "snd (call (cancelAwb s)) = Inr CourierCancelled" "activeCycle db (ci_shopId inp) = Some (sub, cycle)"
  shows "\<exists>db'. requestCancellation (quietBooking True) call inp db = (Inr Cancelled, db')
    \<and> bd_shipments db' = map (\<lambda>x. if isShipment (ci_shopId inp) (ci_shipmentId inp) x then cancelledRow x else x) (bd_shipments db)
    \<and> (\<exists>e. bd_ledger db' = bd_ledger db @ [e] \<and> le_direction e = REVERSAL \<and> le_shipment_id e = ci_shipmentId inp)
    \<and> al_consumed (allowanceBalance (bd_ledger db') sub cycle) = al_consumed (allowanceBalance (bd_ledger db) sub cycle) - 1"
proof -
  let ?is = "isShipment (ci_shopId inp) (ci_shipmentId inp)"
  let ?db1 = "db\<lparr>bd_shipments := map (\<lambda>x. if ?is x then setCustody CANCEL_REQUESTED x else x) (bd_shipments db)\<rparr>"
  let ?intent = "map_option bi_booking_intent_id (lastSuch (\<lambda>i. bi_shipment_id i = ci_shipmentId inp) (bd_intents db))"
  have "cancelStep inp (\<lambda>s. True) False (setCustody CANCEL_REQUESTED) db = Some ?db1"
    by (rule cancelStep_found [OF assms(1,2)]) (simp_all add: guardShipmentRow_def)
  then have tx: "requestTx inp db = (Inr (Inr (s, ?intent)), ?db1)"
    using assms(2-4) by (auto simp: requestTx_def)
  obtain gap where gap: "gap = (if fst (call (cancelAwb s))
      then callOut (CancelShipment (cancelAwb s)) (callOut (AuditBooking ''booking.cancel_requested'' (ci_shipmentId inp)) ?db1)
      else callOut (AuditBooking ''booking.cancel_requested'' (ci_shipmentId inp)) ?db1)" by blast
  have run: "requestCancellation (quietBooking True) call inp db = settleCancelled (quietBooking True) inp s ?intent gap"
    using assms(6) unfolding gap by (cases "call (cancelAwb s)") (simp add: requestCancellation_def tx Let_def)
  have sel: "bd_shipments gap = bd_shipments ?db1" "bd_ledger gap = bd_ledger db" "bd_subscriptions gap = bd_subscriptions db"
    by (simp_all add: gap)
  have found: "findShipment gap (ci_shopId inp) (ci_shipmentId inp) = Some (setCustody CANCEL_REQUESTED s)"
    using assms(2) by (simp add: findShipment_def sel find_keyed)
  have inv: "bookingInv gap"
    using booking.reachable [OF requestTx_reaches [OF tx] assms(1)] bookingInv_cong [of gap ?db1] sel by simp
  let ?db2 = "gap\<lparr>bd_shipments := map (\<lambda>x. if ?is x then voidRow x else x) (bd_shipments gap)\<rparr>"
  have void: "cancelStep inp (\<lambda>s. bs_custody_state s = CANCEL_REQUESTED) True voidRow gap = Some ?db2"
    by (rule cancelStep_found [OF inv found]) (simp_all add: guardShipmentRow_def enforceSingleCollectible_def)
  have cyc: "activeCycle ?db2 (ci_shopId inp) = Some (sub, cycle)" using assms(7) by (simp add: activeCycle_def sel)
  have "\<not> hasEntry (bd_ledger db) (ci_shipmentId inp) REVERSAL"
  proof
    assume "hasEntry (bd_ledger db) (ci_shipmentId inp) REVERSAL"
    then obtain e where "e \<in> set (bd_ledger db)" "le_shipment_id e = ci_shipmentId inp" "le_direction e = REVERSAL"
      by (auto simp: hasEntry_def list_ex_iff)
    then have "isBooked db (ci_shipmentId inp) True"
      using bookingInvD(4) [OF assms(1)] unfolding ledgerJustified_def by fastforce
    then obtain t where "t \<in> set (bd_shipments db)" "bs_shipment_id t = ci_shipmentId inp" "bs_booking_state t = VOID"
      by (auto simp: isBooked_def)
    then show False
      using find_shipment [OF assms(2)] bookingInvD(1) [OF assms(1)] assms(3)
      by (auto simp: isShipment_def distinct_map inj_on_def)
  qed
  then have "settleCancelled (quietBooking True) inp s ?intent gap = (Inr Cancelled,
      callOut (AuditBooking ''booking.cancelled'' (ci_shipmentId inp)) (callOut (RecomputeCodAssignment (bs_order_id s))
        (callOut (ReverseOverage (ci_shipmentId inp)) (?db2\<lparr>bd_ledger := bd_ledger db @
           [ledgerEntry (ledgerInput (ci_shopId inp) (sub, cycle) (ci_shipmentId inp) ?intent) REVERSAL]\<rparr>))))"
    using assms(5) cyc
    by (simp add: settleCancelled_def found void afterCancelReversal_def reverseEntry_def reverse_def insertEntry_def
        sel ledgerInput_def Let_def)
  moreover have "map (\<lambda>x. if ?is x then voidRow x else x) (bd_shipments gap)
      = map (\<lambda>x. if ?is x then cancelledRow x else x) (bd_shipments db)"
    by (simp add: sel cancelledRow_def)
  ultimately show ?thesis
    unfolding run by (simp add: allowanceBalance_def Let_def ledgerInput_def)
qed

lemma cancellation_effect_witness:
  "\<exists>db'. requestCancellation (quietBooking True) (\<lambda>awb. (True, Inr CourierCancelled)) exampleCancel
      (exampleBooking [exampleShipment ''s1'' CONFIRMED (Some ''A1'')]) = (Inr Cancelled, db')
    \<and> al_consumed (allowanceBalance (bd_ledger db') ''sub'' ''2026-07-01'') = -1"
proof -
  let ?db = "exampleBooking [exampleShipment ''s1'' CONFIRMED (Some ''A1'')]"
  have f: "findShipment ?db (ci_shopId exampleCancel) (ci_shipmentId exampleCancel) = Some (exampleShipment ''s1'' CONFIRMED (Some ''A1''))"
    by (simp add: findShipment_def isShipment_def exampleBooking_def exampleShipment_def exampleCancel_def)
  have a: "activeCycle ?db (ci_shopId exampleCancel) = Some (''sub'', ''2026-07-01'')"
    by (simp add: activeCycle_def lastSuch_def exampleBooking_def exampleCancel_def)
  show ?thesis
    using cancellation_effect [OF example_confirmed_inv f _ _ _ _ a, of "\<lambda>awb. (True, Inr CourierCancelled)"]
    by (auto simp: exampleShipment_def exampleBooking_def allowanceBalance_def entryCount_def Let_def)
qed

end
