(* ===== verification/GstTax.thy ===== *)
theory GstTax
  imports Money Dates
begin

text \<open>
  \<open>src/modules/gst/gst-tax.ts\<close>: the tax split of a line, the totals of an invoice, the financial
  year and the invoice number.  The zone of a shop is the parameter \<open>tzOffset\<close>, the offset in
  milliseconds of a zone at an instant.
\<close>

section \<open>Definitions\<close>

definition defaultGstRate :: int where
  "defaultGstRate = 180000"

record LineTaxPaise =
  lt_cgst :: int
  lt_sgst :: int
  lt_igst :: int

datatype TaxType = CGST | SGST | IGST

record TaxComponentJson =
  tc_type :: TaxType
  tc_rate :: string
  tc_amount :: string

record InvoiceTotalsJson =
  tt_taxableValue :: string
  tt_cgst :: string
  tt_sgst :: string
  tt_igst :: string
  tt_taxTotal :: string
  tt_grandTotal :: string

definition millionthsToRateString :: "int \<Rightarrow> string" where
  "millionthsToRateString rate =
     (let whole = rate sdiv 1000000; frac = rate smod 1000000
      in show_int whole @ ''.'' @ pad_start 6 (CHR ''0'') (show_int frac))"

definition computeLineTax :: "int \<Rightarrow> int \<Rightarrow> bool \<Rightarrow> js_error + LineTaxPaise" where
  "computeLineTax taxableValue rate intraState =
     (if intraState then
        (let half = rate sdiv 2 in
         bindR (applyRate taxableValue half) (\<lambda>cgst.
         bindR (applyRate taxableValue (rate - half)) (\<lambda>sgst.
         Inr \<lparr>lt_cgst = cgst, lt_sgst = sgst, lt_igst = 0\<rparr>)))
      else bindR (applyRate taxableValue rate) (\<lambda>igst.
         Inr \<lparr>lt_cgst = 0, lt_sgst = 0, lt_igst = igst\<rparr>))"

definition taxComponentsJson :: "LineTaxPaise \<Rightarrow> int \<Rightarrow> TaxComponentJson list" where
  "taxComponentsJson tax rate =
     (let half = rate sdiv 2 in
      (if lt_cgst tax > 0 \<or> lt_sgst tax > 0 then
         [\<lparr>tc_type = CGST, tc_rate = millionthsToRateString half, tc_amount = paiseToRupees (lt_cgst tax)\<rparr>,
          \<lparr>tc_type = SGST, tc_rate = millionthsToRateString (rate - half), tc_amount = paiseToRupees (lt_sgst tax)\<rparr>]
       else [])
      @ (if lt_igst tax > 0 then
           [\<lparr>tc_type = IGST, tc_rate = millionthsToRateString rate, tc_amount = paiseToRupees (lt_igst tax)\<rparr>]
         else []))"

definition lineTotalPaise :: "int \<Rightarrow> LineTaxPaise \<Rightarrow> int" where
  "lineTotalPaise taxableValue tax = sumComponents [taxableValue, lt_cgst tax, lt_sgst tax, lt_igst tax]"

definition addTotals :: "int \<times> int \<times> int \<times> int \<Rightarrow> int \<times> LineTaxPaise \<Rightarrow> int \<times> int \<times> int \<times> int" where
  "addTotals acc l = (case acc of (taxable, cgst, sgst, igst) \<Rightarrow>
     (taxable + fst l, cgst + lt_cgst (snd l), sgst + lt_sgst (snd l), igst + lt_igst (snd l)))"

definition computeTotals :: "(int \<times> LineTaxPaise) list \<Rightarrow> InvoiceTotalsJson" where
  "computeTotals lines =
     (let (taxable, cgst, sgst, igst) = foldl addTotals (0, 0, 0, 0) lines;
          taxTotal = sumComponents [cgst, sgst, igst]
      in \<lparr>tt_taxableValue = paiseToRupees taxable, tt_cgst = paiseToRupees cgst, tt_sgst = paiseToRupees sgst,
          tt_igst = paiseToRupees igst, tt_taxTotal = paiseToRupees taxTotal,
          tt_grandTotal = paiseToRupees (taxable + taxTotal)\<rparr>)"

definition taxableValuePaise :: "string option \<Rightarrow> int \<Rightarrow> js_error + int option" where
  "taxableValuePaise unitPrice quantity =
     (case unitPrice of None \<Rightarrow> Inr None
      | Some p \<Rightarrow> bindR (rupeesToPaise p) (\<lambda>paise. Inr (Some (paise * quantity))))"

definition gstShopLocalParts :: "(string \<Rightarrow> int \<Rightarrow> int) \<Rightarrow> int \<Rightarrow> string \<Rightarrow> int \<times> int \<times> int" where
  "gstShopLocalParts tzOffset now timeZone = civilDate ((now + tzOffset timeZone now) div 86400000)"

definition financialYearForShopLocal :: "int \<Rightarrow> int \<Rightarrow> string" where
  "financialYearForShopLocal year month =
     (let start = (if month \<ge> 4 then year else year - 1)
      in show_int start @ ''-'' @ pad_start 2 (CHR ''0'') (show_int ((start + 1) smod 100)))"

definition financialYearAt :: "(string \<Rightarrow> int \<Rightarrow> int) \<Rightarrow> int \<Rightarrow> string \<Rightarrow> string" where
  "financialYearAt tzOffset now timeZone =
     (case gstShopLocalParts tzOffset now timeZone of (year, month, day) \<Rightarrow> financialYearForShopLocal year month)"

definition formatInvoiceNumber :: "string \<Rightarrow> string \<Rightarrow> int \<Rightarrow> string" where
  "formatInvoiceNumber series financialYear seq_no =
     series @ ''/'' @ financialYear @ ''/'' @ pad_start 6 (CHR ''0'') (show_int seq_no)"

section \<open>Laws\<close>

lemma millionths_text: "0 \<le> rate \<Longrightarrow> rateToMillionths (millionthsToRateString rate) = Inr rate"
  using rateToMillionths_show [of rate] by (simp add: millionthsToRateString_def show_fixed_def Let_def)

lemma half_rate: "0 \<le> (rate::int) \<Longrightarrow> 0 \<le> rate sdiv 2 \<and> rate sdiv 2 \<le> rate"
  by (auto simp: sdiv_pos)

text \<open>Rounding two addends apart or together differs by at most one.\<close>

lemma round_apart:
  fixes x y :: int
  shows "\<bar>(x + 500000) div 1000000 + (y + 500000) div 1000000 - (x + y + 500000) div 1000000\<bar> \<le> 1"
proof -
  have less: "\<bar>qa + qb - qc\<bar> \<le> 1"
    if "qa * 1000000 + ra = x + 500000" "qb * 1000000 + rb = y + 500000" "qc * 1000000 + rc = x + y + 500000"
      "0 \<le> ra" "ra < 1000000" "0 \<le> rb" "rb < 1000000" "0 \<le> rc" "rc < 1000000" for qa qb qc ra rb rc :: int
    using that by linarith
  show ?thesis by (rule less) (rule div_mult_mod_eq pos_mod_sign pos_mod_bound; simp)+
qed

lemma computeLineTax_nonneg:
  assumes "computeLineTax v r intra = Inr tax"
  shows "0 \<le> lt_cgst tax \<and> 0 \<le> lt_sgst tax \<and> 0 \<le> lt_igst tax
    \<and> (intra \<longrightarrow> lt_igst tax = 0) \<and> (\<not> intra \<longrightarrow> lt_cgst tax = 0 \<and> lt_sgst tax = 0)"
  using assms by (auto simp: computeLineTax_def Let_def bindR_Inr_iff split: if_splits dest: applyRate_nonneg)

lemma computeLineTax_ok: "0 \<le> v \<Longrightarrow> 0 \<le> r \<Longrightarrow> \<exists>tax. computeLineTax v r intra = Inr tax"
  using applyRate_ok [of v "r sdiv 2"] applyRate_ok [of v "r - r sdiv 2"] applyRate_ok [of v r] half_rate [of r]
  by (auto simp: computeLineTax_def Let_def)

text \<open>Distinct sequence numbers print distinctly.\<close>

lemma formatInvoiceNumber_inj:
  assumes "0 \<le> a" "0 \<le> b" "formatInvoiceNumber s fy a = formatInvoiceNumber s fy b"
  shows "a = b"
proof -
  have "dec_val (pad_start 6 (CHR ''0'') (show_int a)) = dec_val (pad_start 6 (CHR ''0'') (show_int b))"
    using assms(3) by (simp add: formatInvoiceNumber_def)
  then show ?thesis using assms(1,2) by (simp add: show_int_nonneg)
qed

text \<open>Totals are sums.\<close>

lemma addTotals_foldl:
  "foldl addTotals (a, b, c, d) ls = (a + sum_list (map fst ls), b + sum_list (map (lt_cgst \<circ> snd) ls),
     c + sum_list (map (lt_sgst \<circ> snd) ls), d + sum_list (map (lt_igst \<circ> snd) ls))"
  by (induction ls arbitrary: a b c d) (simp_all add: addTotals_def)

lemma grandTotal_sum:
  "tt_grandTotal (computeTotals ls) = paiseToRupees (sum_list (map (\<lambda>l. lineTotalPaise (fst l) (snd l)) ls))"
proof -
  have "sum_list (map fst ls) + (sum_list (map (lt_cgst \<circ> snd) ls) + (sum_list (map (lt_sgst \<circ> snd) ls)
      + sum_list (map (lt_igst \<circ> snd) ls))) = sum_list (map (\<lambda>l. lineTotalPaise (fst l) (snd l)) ls)"
    by (induction ls) (simp_all add: lineTotalPaise_def)
  then show ?thesis by (simp add: computeTotals_def addTotals_foldl)
qed

text \<open>
  The two ways of taxing a line agree to the paisa.  For a line of non-negative value and rate,
  the two halves of an intra-state supply are computed, their sum differs from the tax of the
  same line across states by at most one paisa, the central half is never above the state's, and
  the two are equal at every even rate.
\<close>

theorem split_agrees_to_a_paisa:
  assumes "0 \<le> v" "0 \<le> r" "computeLineTax v r True = Inr intra" "computeLineTax v r False = Inr whole"
  shows "\<bar>lt_cgst intra + lt_sgst intra - lt_igst whole\<bar> \<le> 1
    \<and> lt_cgst intra \<le> lt_sgst intra
    \<and> (even r \<longrightarrow> lt_cgst intra = lt_sgst intra)"
proof -
  define h where "h = r sdiv 2"
  have h: "h = r div 2" "0 \<le> h" "h \<le> r - h" "even r \<Longrightarrow> r - h = h" using assms(2) by (auto simp: h_def sdiv_pos)
  have c: "applyRate v h = Inr (lt_cgst intra)" and s: "applyRate v (r - h) = Inr (lt_sgst intra)"
    and i: "applyRate v r = Inr (lt_igst whole)"
    using assms(3,4) by (auto simp: computeLineTax_def Let_def bindR_Inr_iff h_def)
  have nn: "0 \<le> v * h" "0 \<le> v * (r - h)" "0 \<le> v * r" using assms(1,2) h by simp_all
  have eq: "lt_cgst intra = (v * h + 500000) div 1000000" "lt_sgst intra = (v * (r - h) + 500000) div 1000000"
    "lt_igst whole = (v * r + 500000) div 1000000"
    using c s i applyRate_eq nn by auto
  have sum: "v * h + v * (r - h) = v * r" by (simp add: algebra_simps)
  have "\<bar>lt_cgst intra + lt_sgst intra - lt_igst whole\<bar> \<le> 1"
    using round_apart [of "v * h" "v * (r - h)"] unfolding eq sum .
  moreover have "v * h \<le> v * (r - h)" using assms(1) h(3) by (simp add: mult_left_mono)
  then have "lt_cgst intra \<le> lt_sgst intra" unfolding eq by (intro zdiv_mono1) simp_all
  moreover have "even r \<Longrightarrow> lt_cgst intra = lt_sgst intra" using c s h(4) by simp
  ultimately show ?thesis by blast
qed

lemma split_agrees_to_a_paisa_witness:
  "\<bar>9 + 9 - 18\<bar> \<le> (1::int) \<and> computeLineTax 101 180000 True = Inr \<lparr>lt_cgst = 9, lt_sgst = 9, lt_igst = 0\<rparr>"
proof -
  have a: "computeLineTax 101 180000 True = Inr \<lparr>lt_cgst = 9, lt_sgst = 9, lt_igst = 0\<rparr>" by code_simp
  have b: "computeLineTax 101 180000 False = Inr \<lparr>lt_cgst = 0, lt_sgst = 0, lt_igst = 18\<rparr>" by code_simp
  show ?thesis using split_agrees_to_a_paisa [OF _ _ a b] a by simp
qed

end
