(* ===== verification/GstInvoice.thy ===== *)
theory GstInvoice
  imports GstTax
begin

text \<open>
  \<open>src/modules/gst/gst-invoice.service.ts\<close>, creation and issue, over the tables of migrations 0012
  and 0013: invoices, their lines and the number sequences.  A table is a list of rows in
  creation order; time stamps and the id of a line are left out, the amounts of a line are
  paise.  The id of a new invoice, the clock and the zones are parameters, and other transactions
  may commit between two transactions of an operation.
\<close>

section \<open>Data\<close>

datatype InvoiceState = ISSUE_PENDING | ISSUED | VOID

datatype MissingFieldCode =
    SELLER_GSTIN | SELLER_LEGAL_NAME | SELLER_ADDRESS | BUYER_NAME | BUYER_ADDRESS | BUYER_PINCODE
  | PLACE_OF_SUPPLY | LINE_HSN | LINE_TAXABLE_VALUE | LINE_GST_RATE

record MissingField =
  mf_code :: MissingFieldCode
  mf_orderLineId :: "string option"

text \<open>\<open>None\<close> is null or undefined.\<close>

record InvoicePartySnapshot =
  ip_legalName :: "string option"
  ip_gstin :: "string option"
  ip_addressLines :: "string list option"
  ip_city :: "string option"
  ip_state :: "string option"
  ip_pincode :: "string option"

record InvoiceLineInput =
  nl_orderLineId :: "string option"
  nl_hsnCode :: "string option"
  nl_quantity :: int
  nl_unitPrice :: "string option"
  nl_gstRate :: "string option"

record InvoiceDraft =
  dr_seller :: InvoicePartySnapshot
  dr_buyer :: InvoicePartySnapshot
  dr_placeOfSupply :: "string option"
  dr_lines :: "InvoiceLineInput list"

record GstInvoiceRow =
  gi_invoice_id :: string
  gi_shop_id :: string
  gi_order_id :: string
  gi_state :: InvoiceState
  gi_series_code :: string
  gi_invoice_number :: "string option"
  gi_financial_year :: "string option"
  gi_seller_snapshot :: InvoicePartySnapshot
  gi_buyer_snapshot :: InvoicePartySnapshot
  gi_place_of_supply :: "string option"
  gi_totals :: "InvoiceTotalsJson option"
  gi_missing_fields :: "MissingField list"
  gi_void_of_invoice_id :: "string option"
  gi_version :: int

record GstInvoiceLineRow =
  gl_invoice_id :: string
  gl_order_line_id :: "string option"
  gl_hsn_code :: "string option"
  gl_quantity :: int
  gl_taxable_value :: int
  gl_tax_components :: "TaxComponentJson list"
  gl_line_total :: int

text \<open>What the invoice reads of a frozen booking snapshot.\<close>

record GstPickupLocation =
  gp_name :: "string option"
  gp_gstin :: "string option"
  gp_addressLines :: "string list option"
  gp_city :: "string option"
  gp_state :: "string option"
  gp_pincode :: "string option"

record GstSnapshotLine =
  gs_orderLineId :: string
  gs_hsnCode :: "string option"
  gs_quantity :: int
  gs_unitPrice :: "string option"

record GstSnapshot =
  gs_pickupLocation :: "GstPickupLocation option"
  gs_recipient :: "GstPickupLocation option"
  gs_lines :: "GstSnapshotLine list"

record ShipmentInvoiceRow =
  gh_shipment_id :: string
  gh_shop_id :: string
  gh_order_id :: string
  gh_confirmed :: bool
  gh_is_test :: bool
  gh_snapshot :: "GstSnapshot option"

record ShopZone =
  sz_shop_id :: string
  sz_iana_timezone :: "string option"
  sz_settings_timezone :: "string option"

text \<open>The unique indexes of \<open>gst_invoice\<close> besides its key: of migration 0012 and of 0013.\<close>

datatype OrderIndex = ShopOrderUnique | OnePrimaryPerOrder

type_synonym SequenceKey = "string \<times> string \<times> string \<times> string"

datatype GstAudit =
    AuditCreated string
  | AuditIssued string string
  | AuditFieldsSupplied string "MissingFieldCode list"
  | AuditVoided string string
  | AuditCreditNote string string

record GstDb =
  gd_indexes :: "OrderIndex list"
  gd_invoices :: "GstInvoiceRow list"
  gd_lines :: "GstInvoiceLineRow list"
  gd_sequences :: "(SequenceKey \<times> int) list"
  gd_shipments :: "ShipmentInvoiceRow list"
  gd_shops :: "ShopZone list"
  gd_audit :: "GstAudit list"

datatype gst_error =
    InvoiceNotFound
  | Conflict string
  | BadRequest string
  | Arithmetic js_error
  | UndefinedLength
  | NoArbiter
  | UniqueViolation
  | CheckViolation
  | IntegerOutOfRange
  | SellerGstinAbsent

record GstEnv =
  ge_now :: int
  ge_tzOffset :: "string \<Rightarrow> int \<Rightarrow> int"
  ge_newId :: "GstDb \<Rightarrow> string"
  ge_others :: "nat \<Rightarrow> GstDb \<Rightarrow> GstDb"

definition arith :: "js_error + 'a \<Rightarrow> gst_error + 'a" where
  "arith r = (case r of Inl e \<Rightarrow> Inl (Arithmetic e) | Inr x \<Rightarrow> Inr x)"

section \<open>Required data\<close>

definition emptyParty :: InvoicePartySnapshot where
  "emptyParty = \<lparr>ip_legalName = None, ip_gstin = None, ip_addressLines = Some [], ip_city = None,
     ip_state = None, ip_pincode = None\<rparr>"

definition blank :: "string option \<Rightarrow> bool" where
  "blank s = (case s of None \<Rightarrow> True | Some t \<Rightarrow> trim t = '''')"

definition missingField :: "bool \<Rightarrow> MissingFieldCode \<Rightarrow> string option \<Rightarrow> MissingField list" where
  "missingField absent code line = (if absent then [\<lparr>mf_code = code, mf_orderLineId = line\<rparr>] else [])"

definition missingOfLine :: "InvoiceLineInput \<Rightarrow> MissingField list" where
  "missingOfLine line = missingField (blank (nl_hsnCode line)) LINE_HSN (nl_orderLineId line)
     @ missingField (nl_unitPrice line = None) LINE_TAXABLE_VALUE (nl_orderLineId line)"

definition computeMissingFields :: "InvoiceDraft \<Rightarrow> gst_error + MissingField list" where
  "computeMissingFields args =
     (let seller = dr_seller args; buyer = dr_buyer args in
      case (ip_addressLines seller, ip_addressLines buyer) of
        (Some sellerLines, Some buyerLines) \<Rightarrow> Inr (
          missingField (blank (ip_gstin seller)) SELLER_GSTIN None
          @ missingField (blank (ip_legalName seller)) SELLER_LEGAL_NAME None
          @ missingField (sellerLines = [] \<or> blank (ip_city seller) \<or> blank (ip_state seller)
              \<or> blank (ip_pincode seller)) SELLER_ADDRESS None
          @ missingField (blank (ip_legalName buyer)) BUYER_NAME None
          @ missingField (buyerLines = [] \<or> blank (ip_city buyer)) BUYER_ADDRESS None
          @ missingField (blank (ip_pincode buyer)) BUYER_PINCODE None
          @ missingField (blank (dr_placeOfSupply args)) PLACE_OF_SUPPLY None
          @ concat (map missingOfLine (dr_lines args)))
      | _ \<Rightarrow> Inl UndefinedLength)"

definition isIntraState :: "InvoicePartySnapshot \<Rightarrow> string option \<Rightarrow> bool" where
  "isIntraState seller placeOfSupply \<longleftrightarrow>
     \<not> blank (ip_state seller) \<and> \<not> blank placeOfSupply \<and> ip_state seller = placeOfSupply"

section \<open>Lines\<close>

fun sumRates :: "int \<Rightarrow> TaxComponentJson list \<Rightarrow> js_error + int" where
  "sumRates acc [] = Inr acc"
| "sumRates acc (c # cs) = bindR (rateToMillionths (tc_rate c)) (\<lambda>r. sumRates (acc + r) cs)"

definition rateFromComponents :: "TaxComponentJson list \<Rightarrow> js_error + int" where
  "rateFromComponents components = (if components = [] then Inr defaultGstRate else sumRates 0 components)"

definition componentsForStorage :: "LineTaxPaise \<Rightarrow> int \<Rightarrow> bool \<Rightarrow> TaxComponentJson list" where
  "componentsForStorage tax rate intraState =
     (let json = taxComponentsJson tax rate; half = rate sdiv 2 in
      if json \<noteq> [] then json
      else if intraState then
        [\<lparr>tc_type = CGST, tc_rate = millionthsToRateString half, tc_amount = ''0.00''\<rparr>,
         \<lparr>tc_type = SGST, tc_rate = millionthsToRateString (rate - half), tc_amount = ''0.00''\<rparr>]
      else [\<lparr>tc_type = IGST, tc_rate = millionthsToRateString rate, tc_amount = ''0.00''\<rparr>])"

text \<open>\<open>numeric(19,4)\<close> and the CHECK constraints of a line.\<close>

definition lineChecks :: "GstInvoiceLineRow \<Rightarrow> bool" where
  "lineChecks l \<longleftrightarrow> 0 < gl_quantity l \<and> 0 \<le> gl_taxable_value l \<and> gl_taxable_value l < 10 ^ 17
     \<and> 0 \<le> gl_line_total l \<and> gl_line_total l < 10 ^ 17"

definition taxLine :: "int \<Rightarrow> int \<Rightarrow> bool \<Rightarrow> GstInvoiceLineRow \<Rightarrow> gst_error + GstInvoiceLineRow" where
  "taxLine taxable rate intraState l =
     bindR (arith (computeLineTax taxable rate intraState)) (\<lambda>tax.
       (let l' = l\<lparr>gl_taxable_value := taxable, gl_tax_components := componentsForStorage tax rate intraState,
                   gl_line_total := lineTotalPaise taxable tax\<rparr>
        in if lineChecks l' then Inr l' else Inl CheckViolation))"

definition rateOr :: "js_error + int \<Rightarrow> string option \<Rightarrow> js_error + int" where
  "rateOr other rate = (case rate of None \<Rightarrow> other | Some t \<Rightarrow> if t = '''' then other else rateToMillionths t)"

definition draftLine :: "string \<Rightarrow> bool \<Rightarrow> InvoiceLineInput \<Rightarrow> gst_error + GstInvoiceLineRow" where
  "draftLine invoiceId intraState line =
     bindR (arith (rateOr (Inr defaultGstRate) (nl_gstRate line))) (\<lambda>rate.
     bindR (arith (taxableValuePaise (nl_unitPrice line) (nl_quantity line))) (\<lambda>taxable.
     taxLine (case taxable of None \<Rightarrow> 0 | Some t \<Rightarrow> t) rate intraState
       \<lparr>gl_invoice_id = invoiceId, gl_order_line_id = nl_orderLineId line, gl_hsn_code = nl_hsnCode line,
        gl_quantity = nl_quantity line, gl_taxable_value = 0, gl_tax_components = [], gl_line_total = 0\<rparr>))"

definition addLine :: "GstInvoiceLineRow \<Rightarrow> GstDb \<Rightarrow> GstDb" where
  "addLine l db = db\<lparr>gd_lines := gd_lines db @ [l]\<rparr>"

text \<open>One INSERT per line, each its own transaction.\<close>

fun insertLines :: "string \<Rightarrow> bool \<Rightarrow> InvoiceLineInput list \<Rightarrow> GstDb \<Rightarrow> (gst_error + unit) \<times> GstDb" where
  "insertLines invoiceId intraState [] db = (Inr (), db)"
| "insertLines invoiceId intraState (line # rest) db =
     (case draftLine invoiceId intraState line of
        Inl e \<Rightarrow> (Inl e, db)
      | Inr l \<Rightarrow> insertLines invoiceId intraState rest (addLine l db))"

section \<open>Tables\<close>

definition findInvoice :: "GstDb \<Rightarrow> string \<Rightarrow> string \<Rightarrow> GstInvoiceRow option" where
  "findInvoice db shopId invoiceId =
     List.find (\<lambda>r. gi_shop_id r = shopId \<and> gi_invoice_id r = invoiceId) (gd_invoices db)"

definition linesOf :: "GstDb \<Rightarrow> string \<Rightarrow> GstInvoiceLineRow list" where
  "linesOf db invoiceId = filter (\<lambda>l. gl_invoice_id l = invoiceId) (gd_lines db)"

definition updateInvoices :: "(GstInvoiceRow \<Rightarrow> bool) \<Rightarrow> (GstInvoiceRow \<Rightarrow> GstInvoiceRow) \<Rightarrow> GstDb \<Rightarrow> GstDb" where
  "updateInvoices cond f db = db\<lparr>gd_invoices := map (\<lambda>r. if cond r then f r else r) (gd_invoices db)\<rparr>"

fun indexClash :: "OrderIndex \<Rightarrow> GstInvoiceRow \<Rightarrow> GstInvoiceRow \<Rightarrow> bool" where
  "indexClash ShopOrderUnique r s \<longleftrightarrow> gi_shop_id r = gi_shop_id s \<and> gi_order_id r = gi_order_id s"
| "indexClash OnePrimaryPerOrder r s \<longleftrightarrow> gi_void_of_invoice_id r = None \<and> gi_void_of_invoice_id s = None
     \<and> gi_shop_id r = gi_shop_id s \<and> gi_order_id r = gi_order_id s"

definition clashesOn :: "OrderIndex \<Rightarrow> GstInvoiceRow \<Rightarrow> GstDb \<Rightarrow> bool" where
  "clashesOn i row db = list_ex (indexClash i row) (gd_invoices db)"

definition insertInvoice :: "GstInvoiceRow \<Rightarrow> GstDb \<Rightarrow> gst_error + GstDb" where
  "insertInvoice row db =
     (if list_ex (\<lambda>i. clashesOn i row db) (gd_indexes db) then Inl UniqueViolation
      else Inr (db\<lparr>gd_invoices := gd_invoices db @ [row]\<rparr>))"

text \<open>
  INSERT with \<open>ON CONFLICT (shop_id, order_id) DO NOTHING\<close>: without a WHERE clause only an index
  without a predicate is inferred as the arbiter; without an arbiter the statement is an error.
\<close>

definition insertOnConflict :: "GstInvoiceRow \<Rightarrow> GstDb \<Rightarrow> gst_error + GstDb option" where
  "insertOnConflict row db =
     (if ShopOrderUnique \<notin> set (gd_indexes db) then Inl NoArbiter
      else if clashesOn ShopOrderUnique row db then Inr None
      else bindR (insertInvoice row db) (\<lambda>db'. Inr (Some db')))"

definition schema0012 :: "OrderIndex list" where
  "schema0012 = [ShopOrderUnique]"

definition schema0013 :: "OrderIndex list" where
  "schema0013 = [OnePrimaryPerOrder]"

definition auditOut :: "GstAudit \<Rightarrow> GstDb \<Rightarrow> GstDb" where
  "auditOut a db = db\<lparr>gd_audit := gd_audit db @ [a]\<rparr>"

section \<open>Issue\<close>

datatype IssueReason = MISSING_FIELDS | ALREADY_ISSUED | ALREADY_VOID

datatype IssueResult = NotIssued IssueReason | IssuedAs string string

fun addComponents :: "LineTaxPaise \<Rightarrow> TaxComponentJson list \<Rightarrow> js_error + LineTaxPaise" where
  "addComponents tax [] = Inr tax"
| "addComponents tax (c # cs) = bindR (rupeesToPaise (tc_amount c)) (\<lambda>paise.
     addComponents (case tc_type c of
         CGST \<Rightarrow> tax\<lparr>lt_cgst := lt_cgst tax + paise\<rparr>
       | SGST \<Rightarrow> tax\<lparr>lt_sgst := lt_sgst tax + paise\<rparr>
       | IGST \<Rightarrow> tax\<lparr>lt_igst := lt_igst tax + paise\<rparr>) cs)"

definition lineTax :: "GstInvoiceLineRow \<Rightarrow> js_error + int \<times> LineTaxPaise" where
  "lineTax l = bindR (addComponents \<lparr>lt_cgst = 0, lt_sgst = 0, lt_igst = 0\<rparr> (gl_tax_components l))
     (\<lambda>tax. Inr (gl_taxable_value l, tax))"

definition totalsFromLines :: "GstInvoiceLineRow list \<Rightarrow> js_error + InvoiceTotalsJson" where
  "totalsFromLines lines = bindR (mapR lineTax lines) (\<lambda>ls. Inr (computeTotals ls))"

definition timezoneOf :: "GstDb \<Rightarrow> string \<Rightarrow> string" where
  "timezoneOf db shopId =
     (case Option.bind (List.find (\<lambda>s. sz_shop_id s = shopId) (gd_shops db))
         (\<lambda>s. case sz_settings_timezone s of Some z \<Rightarrow> Some z | None \<Rightarrow> sz_iana_timezone s) of
        Some z \<Rightarrow> z | None \<Rightarrow> ''Asia/Kolkata'')"

definition lastNumber :: "GstDb \<Rightarrow> SequenceKey \<Rightarrow> int" where
  "lastNumber db key = (case map_of (gd_sequences db) key of None \<Rightarrow> 0 | Some n \<Rightarrow> n)"

definition allocateNumber :: "SequenceKey \<Rightarrow> GstDb \<Rightarrow> gst_error + int \<times> GstDb" where
  "allocateNumber key db =
     (let n = lastNumber db key + 1 in
      if n > 2147483647 then Inl IntegerOutOfRange
      else Inr (n, db\<lparr>gd_sequences := map_set key n (gd_sequences db)\<rparr>))"

definition issueRow :: "string \<Rightarrow> string \<Rightarrow> InvoiceTotalsJson \<Rightarrow> GstInvoiceRow \<Rightarrow> GstInvoiceRow" where
  "issueRow number financialYear totals r = r\<lparr>gi_state := ISSUED, gi_invoice_number := Some number,
     gi_financial_year := Some financialYear, gi_totals := Some totals, gi_version := gi_version r + 1\<rparr>"

definition issueComplete ::
  "GstEnv \<Rightarrow> GstInvoiceRow \<Rightarrow> string \<Rightarrow> GstDb \<Rightarrow> gst_error + IssueResult \<times> GstDb" where
  "issueComplete env invoice gstin db =
     (let shopId = gi_shop_id invoice; financialYear = financialYearAt (ge_tzOffset env) (ge_now env) (timezoneOf db shopId)
      in bindR (arith (totalsFromLines (linesOf db (gi_invoice_id invoice)))) (\<lambda>totals.
         bindR (allocateNumber (shopId, gstin, financialYear, gi_series_code invoice) db) (\<lambda>(seq, db1).
           (let number = formatInvoiceNumber (gi_series_code invoice) financialYear seq
            in Inr (IssuedAs number financialYear,
                 updateInvoices (\<lambda>r. gi_shop_id r = shopId \<and> gi_invoice_id r = gi_invoice_id invoice
                     \<and> gi_state r = ISSUE_PENDING) (issueRow number financialYear totals) db1)))))"

definition issueTx :: "GstEnv \<Rightarrow> string \<Rightarrow> string \<Rightarrow> GstDb \<Rightarrow> gst_error + IssueResult \<times> GstDb" where
  "issueTx env shopId invoiceId db =
     (case findInvoice db shopId invoiceId of
        None \<Rightarrow> Inl InvoiceNotFound
      | Some invoice \<Rightarrow>
          if gi_state invoice = ISSUED then Inr (NotIssued ALREADY_ISSUED, db)
          else if gi_state invoice = VOID then Inr (NotIssued ALREADY_VOID, db)
          else if gi_missing_fields invoice \<noteq> [] then Inr (NotIssued MISSING_FIELDS, db)
          else (case ip_gstin (gi_seller_snapshot invoice) of
              None \<Rightarrow> Inl SellerGstinAbsent
            | Some gstin \<Rightarrow> if gstin = '''' then Inl SellerGstinAbsent else issueComplete env invoice gstin db))"

definition attemptIssue :: "GstEnv \<Rightarrow> string \<Rightarrow> string \<Rightarrow> GstDb \<Rightarrow> (gst_error + IssueResult) \<times> GstDb" where
  "attemptIssue env shopId invoiceId db =
     (case issueTx env shopId invoiceId db of
        Inl e \<Rightarrow> (Inl e, db)
      | Inr (NotIssued r, db1) \<Rightarrow> (Inr (NotIssued r), db1)
      | Inr (IssuedAs number fy, db1) \<Rightarrow> (Inr (IssuedAs number fy), auditOut (AuditIssued invoiceId number) db1))"

section \<open>Creation\<close>

definition partyOf :: "bool \<Rightarrow> GstPickupLocation option \<Rightarrow> InvoicePartySnapshot" where
  "partyOf seller p =
     (case p of None \<Rightarrow> emptyParty
      | Some x \<Rightarrow> \<lparr>ip_legalName = gp_name x, ip_gstin = (if seller then gp_gstin x else None),
          ip_addressLines = Some (case gp_addressLines x of None \<Rightarrow> [] | Some ls \<Rightarrow> ls),
          ip_city = gp_city x, ip_state = gp_state x, ip_pincode = gp_pincode x\<rparr>)"

definition draftFromSnapshot :: "ShipmentInvoiceRow \<Rightarrow> InvoiceDraft" where
  "draftFromSnapshot shipment =
     (let snap = gh_snapshot shipment; recipient = Option.bind snap gs_recipient in
      \<lparr>dr_seller = partyOf True (Option.bind snap gs_pickupLocation),
       dr_buyer = partyOf False recipient,
       dr_placeOfSupply = Option.bind recipient gp_state,
       dr_lines = map (\<lambda>l. \<lparr>nl_orderLineId = Some (gs_orderLineId l), nl_hsnCode = gs_hsnCode l,
           nl_quantity = gs_quantity l, nl_unitPrice = gs_unitPrice l, nl_gstRate = None\<rparr>)
         (case snap of None \<Rightarrow> [] | Some s \<Rightarrow> gs_lines s)\<rparr>)"

definition newInvoice :: "string \<Rightarrow> string \<Rightarrow> string \<Rightarrow> InvoiceDraft \<Rightarrow> MissingField list \<Rightarrow> GstInvoiceRow" where
  "newInvoice invoiceId shopId orderId draft missing =
     \<lparr>gi_invoice_id = invoiceId, gi_shop_id = shopId, gi_order_id = orderId, gi_state = ISSUE_PENDING,
      gi_series_code = ''INV'', gi_invoice_number = None, gi_financial_year = None,
      gi_seller_snapshot = dr_seller draft, gi_buyer_snapshot = dr_buyer draft,
      gi_place_of_supply = dr_placeOfSupply draft, gi_totals = None, gi_missing_fields = missing,
      gi_void_of_invoice_id = None, gi_version = 1\<rparr>"

text \<open>The first invoice of an order, as a bare SELECT returns it.\<close>

definition invoiceOfOrder :: "GstDb \<Rightarrow> string \<Rightarrow> string \<Rightarrow> string option" where
  "invoiceOfOrder db shopId orderId = map_option gi_invoice_id
     (List.find (\<lambda>r. gi_shop_id r = shopId \<and> gi_order_id r = orderId) (gd_invoices db))"

definition discardIssue :: "(gst_error + IssueResult) \<times> GstDb \<Rightarrow> (gst_error + unit) \<times> GstDb" where
  "discardIssue r = (case fst r of Inl e \<Rightarrow> Inl e | Inr _ \<Rightarrow> Inr (), snd r)"

definition createFrom :: "GstEnv \<Rightarrow> ShipmentInvoiceRow \<Rightarrow> GstDb \<Rightarrow> (gst_error + unit) \<times> GstDb" where
  "createFrom env shipment db =
     (let shopId = gh_shop_id shipment; orderId = gh_order_id shipment; draft = draftFromSnapshot shipment;
          invoiceId = ge_newId env db
      in case bindR (computeMissingFields draft) (\<lambda>missing.
             insertOnConflict (newInvoice invoiceId shopId orderId draft missing) db) of
           Inl e \<Rightarrow> (Inl e, db)
         | Inr (Some db1) \<Rightarrow>
             (case insertLines invoiceId (isIntraState (dr_seller draft) (dr_placeOfSupply draft)) (dr_lines draft)
                 (ge_others env 0 db1) of
                (Inl e, db2) \<Rightarrow> (Inl e, db2)
              | (Inr _, db2) \<Rightarrow> discardIssue (attemptIssue env shopId invoiceId
                    (ge_others env 1 (auditOut (AuditCreated invoiceId) db2))))
         | Inr None \<Rightarrow>
             (case invoiceOfOrder (ge_others env 0 db) shopId orderId of
                None \<Rightarrow> (Inr (), ge_others env 0 db)
              | Some existing \<Rightarrow> discardIssue (attemptIssue env shopId existing (ge_others env 1 (ge_others env 0 db)))))"

definition onShipmentConfirmed :: "GstEnv \<Rightarrow> string \<Rightarrow> string \<Rightarrow> GstDb \<Rightarrow> (gst_error + unit) \<times> GstDb" where
  "onShipmentConfirmed env shopId shipmentId db =
     (case List.find (\<lambda>s. gh_shop_id s = shopId \<and> gh_shipment_id s = shipmentId) (gd_shipments db) of
        None \<Rightarrow> (Inr (), db)
      | Some shipment \<Rightarrow>
          if gh_is_test shipment \<or> \<not> gh_confirmed shipment then (Inr (), db)
          else createFrom env shipment db)"

end
