(* ===== verification/GstCorrections.thy ===== *)
theory GstCorrections
  imports GstInvoice
begin

text \<open>
  \<open>src/modules/gst/gst-invoice.service.ts\<close>: the patch of a pending invoice, the void of an issued
  one and the credit note that corrects a void one.  A field of a patch is absent, undefined,
  null or a value: the four cases the spread of an object tells apart.
\<close>

section \<open>Patches\<close>

datatype 'a PatchField = Absent | PUndefined | PNull | PValue 'a

record PatchParty =
  pp_legalName :: "string PatchField"
  pp_gstin :: "string PatchField"
  pp_addressLines :: "string list PatchField"
  pp_city :: "string PatchField"
  pp_state :: "string PatchField"
  pp_pincode :: "string PatchField"

record PatchLine =
  pl_orderLineId :: string
  pl_hsnCode :: "string PatchField"
  pl_unitPrice :: "string PatchField"
  pl_gstRate :: "string PatchField"

record InvoicePatch =
  ph_version :: int
  ph_seller :: "PatchParty option"
  ph_buyer :: "PatchParty option"
  ph_placeOfSupply :: "string PatchField"
  ph_lines :: "PatchLine list"

fun overField :: "'a PatchField \<Rightarrow> 'a option \<Rightarrow> 'a option" where
  "overField Absent x = x"
| "overField (PValue v) x = Some v"
| "overField _ x = None"

text \<open>The operator \<open>??\<close>.\<close>

fun orElse :: "'a PatchField \<Rightarrow> 'a option \<Rightarrow> 'a option" where
  "orElse (PValue v) x = Some v"
| "orElse _ x = x"

fun fieldValue :: "'a PatchField \<Rightarrow> 'a option" where
  "fieldValue (PValue v) = Some v"
| "fieldValue _ = None"

definition isSupplied :: "'a PatchField \<Rightarrow> bool" where
  "isSupplied f = (case f of PNull \<Rightarrow> True | PValue _ \<Rightarrow> True | _ \<Rightarrow> False)"

definition mergeParty :: "PatchParty option \<Rightarrow> InvoicePartySnapshot \<Rightarrow> InvoicePartySnapshot" where
  "mergeParty patch p =
     (case patch of None \<Rightarrow> p
      | Some x \<Rightarrow> \<lparr>ip_legalName = overField (pp_legalName x) (ip_legalName p),
          ip_gstin = overField (pp_gstin x) (ip_gstin p),
          ip_addressLines = overField (pp_addressLines x) (ip_addressLines p),
          ip_city = overField (pp_city x) (ip_city p),
          ip_state = overField (pp_state x) (ip_state p),
          ip_pincode = overField (pp_pincode x) (ip_pincode p)\<rparr>)"

definition patchedLine :: "bool \<Rightarrow> PatchLine \<Rightarrow> GstInvoiceLineRow \<Rightarrow> gst_error + GstInvoiceLineRow" where
  "patchedLine intraState lp current =
     bindR (arith (rateOr (rateFromComponents (gl_tax_components current)) (fieldValue (pl_gstRate lp)))) (\<lambda>rate.
     bindR (arith (if isSupplied (pl_unitPrice lp)
                   then taxableValuePaise (fieldValue (pl_unitPrice lp)) (gl_quantity current)
                   else Inr (Some (gl_taxable_value current)))) (\<lambda>taxable.
     taxLine (case taxable of None \<Rightarrow> 0 | Some t \<Rightarrow> t) rate intraState
       (current\<lparr>gl_hsn_code := orElse (pl_hsnCode lp) (gl_hsn_code current)\<rparr>)))"

text \<open>The columns the UPDATE of a line sets.\<close>

definition setLine :: "GstInvoiceLineRow \<Rightarrow> GstInvoiceLineRow \<Rightarrow> GstInvoiceLineRow" where
  "setLine new l = l\<lparr>gl_hsn_code := gl_hsn_code new, gl_taxable_value := gl_taxable_value new,
     gl_tax_components := gl_tax_components new, gl_line_total := gl_line_total new\<rparr>"

definition updateLines :: "string \<Rightarrow> string \<Rightarrow> GstInvoiceLineRow \<Rightarrow> GstDb \<Rightarrow> GstDb" where
  "updateLines invoiceId orderLineId new db = db\<lparr>gd_lines :=
     map (\<lambda>l. if gl_invoice_id l = invoiceId \<and> gl_order_line_id l = Some orderLineId then setLine new l else l)
       (gd_lines db)\<rparr>"

fun patchLines ::
  "string \<Rightarrow> bool \<Rightarrow> GstInvoiceLineRow list \<Rightarrow> PatchLine list \<Rightarrow> GstDb \<Rightarrow> gst_error + GstDb" where
  "patchLines invoiceId intraState lineRows [] db = Inr db"
| "patchLines invoiceId intraState lineRows (lp # rest) db =
     (case List.find (\<lambda>l. gl_order_line_id l = Some (pl_orderLineId lp)) lineRows of
        None \<Rightarrow> Inl (BadRequest (''unknown order line '' @ pl_orderLineId lp))
      | Some current \<Rightarrow> bindR (patchedLine intraState lp current) (\<lambda>new.
          patchLines invoiceId intraState lineRows rest (updateLines invoiceId (pl_orderLineId lp) new db)))"

text \<open>A price never supplied stays missing.\<close>

definition stillUnpriced :: "MissingField list \<Rightarrow> PatchLine list \<Rightarrow> GstInvoiceLineRow \<Rightarrow> bool" where
  "stillUnpriced missing patched l =
     (let key = (case gl_order_line_id l of None \<Rightarrow> '''' | Some i \<Rightarrow> i) in
      list_ex (\<lambda>m. mf_code m = LINE_TAXABLE_VALUE \<and> mf_orderLineId m = Some key) missing
      \<and> \<not> list_ex (\<lambda>lp. isSupplied (pl_unitPrice lp) \<and> pl_orderLineId lp = key) patched)"

definition mergedInput :: "MissingField list \<Rightarrow> PatchLine list \<Rightarrow> GstInvoiceLineRow \<Rightarrow> InvoiceLineInput" where
  "mergedInput missing patched l =
     \<lparr>nl_orderLineId = gl_order_line_id l, nl_hsnCode = gl_hsn_code l, nl_quantity = gl_quantity l,
      nl_unitPrice = (if stillUnpriced missing patched l then None else Some (paiseToRupees (gl_taxable_value l))),
      nl_gstRate = None\<rparr>"

definition patchRow :: "InvoiceDraft \<Rightarrow> MissingField list \<Rightarrow> GstInvoiceRow \<Rightarrow> GstInvoiceRow" where
  "patchRow draft missing r = r\<lparr>gi_seller_snapshot := dr_seller draft, gi_buyer_snapshot := dr_buyer draft,
     gi_place_of_supply := dr_placeOfSupply draft, gi_missing_fields := missing, gi_version := gi_version r + 1\<rparr>"

definition onlyState :: "string \<Rightarrow> InvoiceState \<Rightarrow> string" where
  "onlyState what st = ''invoice is '' @ (case st of ISSUE_PENDING \<Rightarrow> ''ISSUE_PENDING'' | ISSUED \<Rightarrow> ''ISSUED''
     | VOID \<Rightarrow> ''VOID'') @ what"

definition patchTx :: "string \<Rightarrow> string \<Rightarrow> InvoicePatch \<Rightarrow> GstDb \<Rightarrow> gst_error + MissingField list \<times> GstDb" where
  "patchTx shopId invoiceId patch db =
     (case findInvoice db shopId invoiceId of
        None \<Rightarrow> Inl InvoiceNotFound
      | Some invoice \<Rightarrow>
          if gi_state invoice \<noteq> ISSUE_PENDING
          then Inl (Conflict (onlyState ''; only ISSUE_PENDING is editable'' (gi_state invoice)))
          else
            (let seller = mergeParty (ph_seller patch) (gi_seller_snapshot invoice);
                 buyer = mergeParty (ph_buyer patch) (gi_buyer_snapshot invoice);
                 placeOfSupply = orElse (ph_placeOfSupply patch) (gi_place_of_supply invoice)
             in bindR (patchLines invoiceId (isIntraState seller placeOfSupply) (linesOf db invoiceId) (ph_lines patch) db)
               (\<lambda>db1. let draft = \<lparr>dr_seller = seller, dr_buyer = buyer, dr_placeOfSupply = placeOfSupply,
                        dr_lines = map (mergedInput (gi_missing_fields invoice) (ph_lines patch)) (linesOf db1 invoiceId)\<rparr>
                 in bindR (computeMissingFields draft) (\<lambda>missing.
                   if gi_version invoice \<noteq> ph_version patch
                   then Inl (Conflict ''version conflict; refresh and reapply'')
                   else Inr (missing, updateInvoices (\<lambda>r. gi_shop_id r = shopId \<and> gi_invoice_id r = invoiceId
                        \<and> gi_version r = ph_version patch) (patchRow draft missing) db1)))))"

text \<open>The detail every mutation returns.\<close>

definition getInvoice :: "GstDb \<Rightarrow> string \<Rightarrow> string \<Rightarrow> gst_error + GstInvoiceRow \<times> GstInvoiceLineRow list" where
  "getInvoice db shopId invoiceId =
     (case findInvoice db shopId invoiceId of
        None \<Rightarrow> Inl InvoiceNotFound
      | Some r \<Rightarrow> Inr (r, linesOf db invoiceId))"

type_synonym InvoiceDetail = "(GstInvoiceRow \<times> GstInvoiceLineRow list) \<times> IssueResult option"

definition issueAndRead ::
  "GstEnv \<Rightarrow> string \<Rightarrow> string \<Rightarrow> GstDb \<Rightarrow> (gst_error + InvoiceDetail) \<times> GstDb" where
  "issueAndRead env shopId invoiceId db =
     (case attemptIssue env shopId invoiceId db of
        (Inl e, db1) \<Rightarrow> (Inl e, db1)
      | (Inr issue, db1) \<Rightarrow> (bindR (getInvoice db1 shopId invoiceId) (\<lambda>d. Inr (d, Some issue)), db1))"

definition patchInvoice ::
  "GstEnv \<Rightarrow> string \<Rightarrow> string \<Rightarrow> InvoicePatch \<Rightarrow> GstDb \<Rightarrow> (gst_error + InvoiceDetail) \<times> GstDb" where
  "patchInvoice env shopId invoiceId patch db =
     (case patchTx shopId invoiceId patch db of
        Inl e \<Rightarrow> (Inl e, db)
      | Inr (missing, db1) \<Rightarrow>
          (let db2 = ge_others env 0 (auditOut (AuditFieldsSupplied invoiceId (map mf_code missing)) db1)
           in if missing = [] then issueAndRead env shopId invoiceId db2
              else (bindR (getInvoice db2 shopId invoiceId) (\<lambda>d. Inr (d, None)), db2)))"

section \<open>Void and credit note\<close>

definition voidInvoiceRow :: "GstInvoiceRow \<Rightarrow> GstInvoiceRow" where
  "voidInvoiceRow r = r\<lparr>gi_state := VOID, gi_version := gi_version r + 1\<rparr>"

definition voidTx :: "string \<Rightarrow> string \<Rightarrow> GstDb \<Rightarrow> gst_error + GstDb" where
  "voidTx shopId invoiceId db =
     (case findInvoice db shopId invoiceId of
        None \<Rightarrow> Inl InvoiceNotFound
      | Some invoice \<Rightarrow>
          if gi_state invoice \<noteq> ISSUED then Inl (Conflict (onlyState ''; only ISSUED can be voided'' (gi_state invoice)))
          else Inr (updateInvoices (\<lambda>r. gi_shop_id r = shopId \<and> gi_invoice_id r = invoiceId \<and> gi_state r = ISSUED)
                 voidInvoiceRow db))"

definition voidInvoice ::
  "GstEnv \<Rightarrow> string \<Rightarrow> string \<Rightarrow> string \<Rightarrow> GstDb \<Rightarrow> (gst_error + GstInvoiceRow) \<times> GstDb" where
  "voidInvoice env shopId invoiceId reason db =
     (if blank (Some reason) then (Inl (BadRequest ''a void reason is mandatory''), db)
      else (case voidTx shopId invoiceId db of
          Inl e \<Rightarrow> (Inl e, db)
        | Inr db1 \<Rightarrow> (let db2 = ge_others env 0 (auditOut (AuditVoided invoiceId reason) db1)
            in (bindR (getInvoice db2 shopId invoiceId) (\<lambda>d. Inr (fst d)), db2))))"

definition creditNoteRow :: "string \<Rightarrow> GstInvoiceRow \<Rightarrow> GstInvoiceRow" where
  "creditNoteRow creditNoteId original =
     \<lparr>gi_invoice_id = creditNoteId, gi_shop_id = gi_shop_id original, gi_order_id = gi_order_id original,
      gi_state = ISSUE_PENDING, gi_series_code = ''CN'', gi_invoice_number = None, gi_financial_year = None,
      gi_seller_snapshot = gi_seller_snapshot original, gi_buyer_snapshot = gi_buyer_snapshot original,
      gi_place_of_supply = gi_place_of_supply original, gi_totals = None, gi_missing_fields = [],
      gi_void_of_invoice_id = Some (gi_invoice_id original), gi_version = 1\<rparr>"

definition copyLines :: "string \<Rightarrow> string \<Rightarrow> GstDb \<Rightarrow> GstDb" where
  "copyLines invoiceId creditNoteId db = db\<lparr>gd_lines :=
     gd_lines db @ map (\<lambda>l. l\<lparr>gl_invoice_id := creditNoteId\<rparr>) (linesOf db invoiceId)\<rparr>"

definition creditNoteTx :: "GstEnv \<Rightarrow> string \<Rightarrow> string \<Rightarrow> GstDb \<Rightarrow> gst_error + string \<times> GstDb" where
  "creditNoteTx env shopId invoiceId db =
     (case findInvoice db shopId invoiceId of
        None \<Rightarrow> Inl InvoiceNotFound
      | Some original \<Rightarrow>
          if gi_state original \<noteq> VOID then Inl (Conflict ''a credit note requires a VOID original'')
          else (let creditNoteId = ge_newId env db in
            bindR (insertInvoice (creditNoteRow creditNoteId original) db) (\<lambda>db1.
              Inr (creditNoteId, copyLines invoiceId creditNoteId db1))))"

definition createCreditNote ::
  "GstEnv \<Rightarrow> string \<Rightarrow> string \<Rightarrow> GstDb \<Rightarrow> (gst_error + InvoiceDetail) \<times> GstDb" where
  "createCreditNote env shopId invoiceId db =
     (case creditNoteTx env shopId invoiceId db of
        Inl e \<Rightarrow> (Inl e, db)
      | Inr (creditNoteId, db1) \<Rightarrow>
          issueAndRead env shopId creditNoteId (ge_others env 0 (auditOut (AuditCreditNote creditNoteId invoiceId) db1)))"

section \<open>Redaction of the buyer\<close>

text \<open>
  \<open>stripGstBuyerSnapshots\<close> of \<open>src/modules/health/full-redaction.service.ts\<close>: one UPDATE over the
  invoices of the redacted orders, whatever their state, that replaces the buyer's name and
  address and keeps the GSTIN.  It returns the number of rows it changed.
\<close>

definition strippedBuyer :: "InvoicePartySnapshot \<Rightarrow> InvoicePartySnapshot" where
  "strippedBuyer p = \<lparr>ip_legalName = None, ip_gstin = ip_gstin p, ip_addressLines = Some [],
     ip_city = None, ip_state = None, ip_pincode = None\<rparr>"

definition stripRow :: "GstInvoiceRow \<Rightarrow> GstInvoiceRow" where
  "stripRow r = r\<lparr>gi_buyer_snapshot := strippedBuyer (gi_buyer_snapshot r), gi_version := gi_version r + 1\<rparr>"

definition stripGstBuyerSnapshots :: "string \<Rightarrow> string list \<Rightarrow> GstDb \<Rightarrow> nat \<times> GstDb" where
  "stripGstBuyerSnapshots shopId orderIds db =
     (if orderIds = [] then (0, db)
      else (let hit = (\<lambda>r. gi_shop_id r = shopId \<and> gi_order_id r \<in> set orderIds
                  \<and> ip_legalName (gi_buyer_snapshot r) \<noteq> None)
        in (length (filter hit (gd_invoices db)), updateInvoices hit stripRow db)))"

section \<open>Queries\<close>

record InvoiceListFilters =
  if_state :: "InvoiceState option"
  if_missingFieldsPresent :: bool

text \<open>\<open>listInvoices\<close> without the range of creation times, newest first.\<close>

definition listInvoices :: "GstDb \<Rightarrow> string \<Rightarrow> InvoiceListFilters \<Rightarrow> GstInvoiceRow list" where
  "listInvoices db shopId filters = rev (filter (\<lambda>r. gi_shop_id r = shopId
     \<and> (case if_state filters of None \<Rightarrow> True | Some st \<Rightarrow> gi_state r = st)
     \<and> (if_missingFieldsPresent filters \<longrightarrow> gi_missing_fields r \<noteq> [])) (gd_invoices db))"

end
