(* ===== verification/Gst_Laws.thy ===== *)
theory Gst_Laws
  imports GstCorrections "HOL-Library.Multiset"
begin

text \<open>
  What the invoice service guarantees while any other of its transactions run in between:
  \<open>gst_step\<close> lists the committed writes, the operations are sequences of them, and along every
  sequence the numbers of a series stay gapless (INV-13), the issued rows frozen (INV-16) and the
  lines internally consistent (INV-15).
\<close>

section \<open>Stored lines\<close>

lemma zero_text: "rupeesToPaise ''0.00'' = Inr 0"
  by code_simp

lemma components_rate:
  assumes "0 \<le> rate"
  shows "rateFromComponents (componentsForStorage tax rate intra) =
    (if lt_igst tax > 0 \<and> (lt_cgst tax > 0 \<or> lt_sgst tax > 0) then Inr (rate + rate) else Inr rate)"
  using assms half_rate [OF assms]
  by (auto simp: rateFromComponents_def componentsForStorage_def taxComponentsJson_def Let_def millionths_text)

lemma components_tax:
  assumes "computeLineTax v rate intra = Inr tax"
  shows "addComponents \<lparr>lt_cgst = 0, lt_sgst = 0, lt_igst = 0\<rparr> (componentsForStorage tax rate intra) = Inr tax"
  using computeLineTax_nonneg [OF assms]
  by (cases tax) (auto simp: componentsForStorage_def taxComponentsJson_def Let_def zero_text)

definition lineOk :: "GstInvoiceLineRow \<Rightarrow> bool" where
  "lineOk l \<longleftrightarrow> lineChecks l \<and> (\<exists>tax. lineTax l = Inr (gl_taxable_value l, tax)
     \<and> gl_line_total l = lineTotalPaise (gl_taxable_value l) tax)"

lemma taxLine_ok: "taxLine v rate intra l = Inr l' \<Longrightarrow> lineOk l'"
  by (auto simp: taxLine_def lineOk_def lineTax_def Let_def bindR_Inr_iff arith_def components_tax
      split: sum.splits if_splits)

lemma draftLine_ok: "draftLine i intra line = Inr l \<Longrightarrow> lineOk l \<and> gl_invoice_id l = i"
  by (auto simp: draftLine_def bindR_Inr_iff dest: taxLine_ok) (auto simp: taxLine_def Let_def bindR_Inr_iff split: if_splits)

lemma patchedLine_ok: "patchedLine intra lp l = Inr l' \<Longrightarrow> lineOk l'"
  by (auto simp: patchedLine_def bindR_Inr_iff dest: taxLine_ok)

lemma lineTax_cong: "gl_tax_components l = gl_tax_components m \<Longrightarrow> gl_taxable_value l = gl_taxable_value m \<Longrightarrow> lineTax l = lineTax m"
  by (simp add: lineTax_def)

lemma lineOk_cong:
  assumes "lineOk l" "gl_taxable_value m = gl_taxable_value l" "gl_tax_components m = gl_tax_components l"
    "gl_line_total m = gl_line_total l" "0 < gl_quantity m"
  shows "lineOk m"
  using assms by (auto simp: lineOk_def lineChecks_def lineTax_def)

text \<open>Totals of consistent lines are the sums of their columns.\<close>

lemma totals_ok:
  assumes "\<And>l. l \<in> set ls \<Longrightarrow> lineOk l"
  shows "\<exists>t. totalsFromLines ls = Inr t \<and> tt_grandTotal t = paiseToRupees (sum_list (map gl_line_total ls))
    \<and> tt_taxableValue t = paiseToRupees (sum_list (map gl_taxable_value ls))"
proof -
  define g where "g l = (gl_taxable_value l, projr (map_sum id snd (lineTax l)))" for l
  have g: "lineTax l = Inr (g l) \<and> gl_line_total l = lineTotalPaise (fst (g l)) (snd (g l))" if "l \<in> set ls" for l
    using assms [OF that] by (auto simp: lineOk_def g_def)
  then have "mapR lineTax ls = Inr (map g ls)" by (intro mapR_map_ok) blast
  then have "totalsFromLines ls = Inr (computeTotals (map g ls))" by (simp add: totalsFromLines_def)
  moreover have "map (\<lambda>l. lineTotalPaise (fst (g l)) (snd (g l))) ls = map gl_line_total ls" using g by simp
  then have "tt_grandTotal (computeTotals (map g ls)) = paiseToRupees (sum_list (map gl_line_total ls))"
    unfolding grandTotal_sum map_map o_def by (simp only:)
  moreover have "tt_taxableValue (computeTotals (map g ls)) = paiseToRupees (sum_list (map gl_taxable_value ls))"
    by (simp add: computeTotals_def addTotals_foldl o_def g_def Let_def)
  ultimately show ?thesis by blast
qed

section \<open>Writes\<close>

inductive gst_step :: "GstDb \<Rightarrow> GstDb \<Rightarrow> bool" where
  created: "insertInvoice row db = Inr db' \<Longrightarrow> gi_state row = ISSUE_PENDING \<Longrightarrow> gi_invoice_number row = None \<Longrightarrow>
    gi_invoice_id row \<notin> gi_invoice_id ` set (gd_invoices db) \<Longrightarrow> gst_step db db'"
| line_added: "lineOk l \<Longrightarrow> gst_step db (addLine l db)"
| issued: "issueTx env shopId i db = Inr (r, db') \<Longrightarrow> gst_step db db'"
| patched: "patchTx shopId i patch db = Inr (m, db') \<Longrightarrow> gst_step db db'"
| voided: "voidTx shopId i db = Inr db' \<Longrightarrow> gst_step db db'"
| corrected: "creditNoteTx env shopId i db = Inr (c, db') \<Longrightarrow>
    ge_newId env db \<notin> gi_invoice_id ` set (gd_invoices db) \<Longrightarrow> gst_step db db'"
| redacted: "gst_step db (snd (stripGstBuyerSnapshots shopId orderIds db))"
| tables: "gst_step db (db\<lparr>gd_indexes := ix, gd_shipments := sh, gd_shops := sp, gd_audit := au\<rparr>)"

inductive_cases gst_stepE: "gst_step db db'"

definition wfGstEnv :: "GstEnv \<Rightarrow> bool" where
  "wfGstEnv env \<longleftrightarrow> (\<forall>k db. gst_step\<^sup>*\<^sup>* db (ge_others env k db))
     \<and> (\<forall>db. ge_newId env db \<notin> gi_invoice_id ` set (gd_invoices db))"

section \<open>Invariants\<close>

fun numberedUnder :: "SequenceKey \<Rightarrow> GstInvoiceRow \<Rightarrow> bool" where
  "numberedUnder (shopId, gstin, financialYear, series) r \<longleftrightarrow> gi_invoice_number r \<noteq> None
     \<and> gi_shop_id r = shopId \<and> ip_gstin (gi_seller_snapshot r) = Some gstin
     \<and> gi_financial_year r = Some financialYear \<and> gi_series_code r = series"

definition numbersUnder :: "SequenceKey \<Rightarrow> GstInvoiceRow list \<Rightarrow> string list" where
  "numbersUnder key rows = map (\<lambda>r. the (gi_invoice_number r)) (filter (numberedUnder key) rows)"

fun numbersUpTo :: "SequenceKey \<Rightarrow> int \<Rightarrow> string list" where
  "numbersUpTo (shopId, gstin, financialYear, series) n = map (formatInvoiceNumber series financialYear) [1..n]"

text \<open>INV-13: the numbers given under a key are 1, 2, ..., n, each once.\<close>

definition gapless :: "GstDb \<Rightarrow> bool" where
  "gapless db \<longleftrightarrow> (\<forall>key. 0 \<le> lastNumber db key
     \<and> mset (numbersUnder key (gd_invoices db)) = mset (numbersUpTo key (lastNumber db key)))"

definition gstInv :: "GstDb \<Rightarrow> bool" where
  "gstInv db \<longleftrightarrow> distinct (map gi_invoice_id (gd_invoices db))
     \<and> (\<forall>r \<in> set (gd_invoices db). gi_state r = ISSUE_PENDING \<longleftrightarrow> gi_invoice_number r = None)
     \<and> gapless db \<and> (\<forall>l \<in> set (gd_lines db). lineOk l)"

lemma gaplessD: "gapless db \<Longrightarrow> 0 \<le> lastNumber db key"
  "gapless db \<Longrightarrow> mset (numbersUnder key (gd_invoices db)) = mset (numbersUpTo key (lastNumber db key))"
  unfolding gapless_def by (blast, blast)

lemma gapless_cong:
  assumes "gapless db" "gd_sequences db' = gd_sequences db"
    "\<And>key. numbersUnder key (gd_invoices db') = numbersUnder key (gd_invoices db)"
  shows "gapless db'"
  using assms by (simp add: gapless_def lastNumber_def)

lemma numbersUnder_append [simp]: "numbersUnder key (xs @ ys) = numbersUnder key xs @ numbersUnder key ys"
  by (simp add: numbersUnder_def)

lemma numbersUnder_pending: "gi_invoice_number r = None \<Longrightarrow> numbersUnder key [r] = []"
  by (cases key) (simp add: numbersUnder_def)

lemma numbersUnder_map:
  assumes "\<And>r. r \<in> set rows \<Longrightarrow> gi_invoice_number (f r) = gi_invoice_number r
    \<and> (gi_invoice_number r \<noteq> None \<longrightarrow> gi_shop_id (f r) = gi_shop_id r \<and> gi_financial_year (f r) = gi_financial_year r
      \<and> gi_series_code (f r) = gi_series_code r \<and> gi_seller_snapshot (f r) = gi_seller_snapshot r)"
  shows "numbersUnder key (map f rows) = numbersUnder key rows"
proof -
  have "numberedUnder key (f r) = numberedUnder key r \<and> gi_invoice_number (f r) = gi_invoice_number r"
    if "r \<in> set rows" for r
    using assms [OF that] by (cases key) auto
  then show ?thesis by (induction rows) (auto simp: numbersUnder_def)
qed

lemma numbersUpTo_step: "0 \<le> n \<Longrightarrow> numbersUpTo (s, g, f, c) (n + 1) = numbersUpTo (s, g, f, c) n @ [formatInvoiceNumber c f (n + 1)]"
  by (simp add: upto_rec2)

text \<open>Rows with distinct ids: a conditional update touches one.\<close>

lemma find_invoice: "findInvoice db shopId i = Some r \<Longrightarrow>
    r \<in> set (gd_invoices db) \<and> gi_shop_id r = shopId \<and> gi_invoice_id r = i"
  by (auto simp: findInvoice_def find_Some_iff)

lemma update_one:
  assumes "distinct (map gi_invoice_id rows)" "r \<in> set rows" "c r" "\<And>x. c x \<Longrightarrow> gi_invoice_id x = gi_invoice_id r"
  shows "\<exists>xs ys. rows = xs @ r # ys \<and> map (\<lambda>x. if c x then f x else x) rows = xs @ f r # ys"
proof -
  obtain xs ys where rows: "rows = xs @ r # ys" using split_list [OF assms(2)] by blast
  have "\<not> c x" if "x \<in> set xs \<union> set ys" for x
  proof
    assume "c x"
    then have "gi_invoice_id x = gi_invoice_id r" by (rule assms(4))
    then have "gi_invoice_id r \<in> gi_invoice_id ` (set xs \<union> set ys)" using that by (metis image_eqI)
    then show False using assms(1) by (auto simp: rows)
  qed
  then have "map (\<lambda>x. if c x then f x else x) xs = xs" "map (\<lambda>x. if c x then f x else x) ys = ys"
    by (auto intro: map_idI)
  then show ?thesis using rows assms(3) by auto
qed

lemma issueTx_NotIssued: "issueTx env shopId i db = Inr (NotIssued reason, db') \<Longrightarrow> db' = db"
  by (auto simp: issueTx_def issueComplete_def Let_def bindR_Inr_iff split: option.splits if_splits prod.splits)

lemma issueTx_IssuedAs:
  assumes "issueTx env shopId i db = Inr (IssuedAs number fy, db')"
  shows "\<exists>r gstin totals. findInvoice db shopId i = Some r \<and> gi_state r = ISSUE_PENDING \<and> gi_missing_fields r = []
    \<and> ip_gstin (gi_seller_snapshot r) = Some gstin
    \<and> fy = financialYearAt (ge_tzOffset env) (ge_now env) (timezoneOf db shopId)
    \<and> totalsFromLines (linesOf db i) = Inr totals
    \<and> number = formatInvoiceNumber (gi_series_code r) fy (lastNumber db (shopId, gstin, fy, gi_series_code r) + 1)
    \<and> db' = updateInvoices (\<lambda>x. gi_shop_id x = shopId \<and> gi_invoice_id x = i \<and> gi_state x = ISSUE_PENDING)
        (issueRow number fy totals)
        (db\<lparr>gd_sequences := map_set (shopId, gstin, fy, gi_series_code r)
           (lastNumber db (shopId, gstin, fy, gi_series_code r) + 1) (gd_sequences db)\<rparr>)"
proof -
  obtain r where r: "findInvoice db shopId i = Some r"
    using assms by (cases "findInvoice db shopId i") (simp_all add: issueTx_def)
  have st: "gi_state r = ISSUE_PENDING" using assms by (cases "gi_state r") (simp_all add: issueTx_def r)
  have ms: "gi_missing_fields r = []" using assms by (rule contrapos_pp) (simp add: issueTx_def r st)
  obtain gstin where g: "ip_gstin (gi_seller_snapshot r) = Some gstin"
    using assms by (cases "ip_gstin (gi_seller_snapshot r)") (simp_all add: issueTx_def r st ms)
  have c: "issueComplete env r gstin db = Inr (IssuedAs number fy, db')"
    using assms by (cases "gstin = ''''") (simp_all add: issueTx_def r st ms g)
  note f = r st ms g c
  have id: "gi_shop_id r = shopId" "gi_invoice_id r = i" using find_invoice [OF f(1)] by simp_all
  show ?thesis
    using f(5) unfolding issueComplete_def Let_def id bindR_Inr_iff
    by (elim exE conjE) (auto simp: f(1-4) id allocateNumber_def Let_def arith_def split: if_splits sum.splits)
qed

lemma issue_gapless:
  assumes inv: "gstInv db" and tx: "issueTx env shopId i db = Inr (IssuedAs number fy, db')"
  shows "gapless db'"
proof -
  obtain r gstin totals where r: "findInvoice db shopId i = Some r" "gi_state r = ISSUE_PENDING"
    "ip_gstin (gi_seller_snapshot r) = Some gstin"
    and number: "number = formatInvoiceNumber (gi_series_code r) fy (lastNumber db (shopId, gstin, fy, gi_series_code r) + 1)"
    and db': "db' = updateInvoices (\<lambda>x. gi_shop_id x = shopId \<and> gi_invoice_id x = i \<and> gi_state x = ISSUE_PENDING)
        (issueRow number fy totals)
        (db\<lparr>gd_sequences := map_set (shopId, gstin, fy, gi_series_code r)
           (lastNumber db (shopId, gstin, fy, gi_series_code r) + 1) (gd_sequences db)\<rparr>)"
    using issueTx_IssuedAs [OF tx] by blast
  let ?key = "(shopId, gstin, fy, gi_series_code r)"
  note m = find_invoice [OF r(1)]
  have none: "gi_invoice_number r = None" using inv m r(2) by (auto simp: gstInv_def)
  obtain xs ys where rows: "gd_invoices db = xs @ r # ys" and rows': "gd_invoices db' = xs @ issueRow number fy totals r # ys"
    using update_one [of "gd_invoices db" r "\<lambda>x. gi_shop_id x = shopId \<and> gi_invoice_id x = i \<and> gi_state x = ISSUE_PENDING"
        "issueRow number fy totals"] inv m r(2)
    by (auto simp: db' updateInvoices_def gstInv_def)
  have last: "lastNumber db' key = (if key = ?key then lastNumber db key + 1 else lastNumber db key)" for key
    by (auto simp: db' updateInvoices_def lastNumber_def map_of_map_set)
  have new: "numbersUnder key [issueRow number fy totals r] = (if key = ?key then [number] else [])" for key
    using m r(3) by (cases key) (auto simp: numbersUnder_def issueRow_def)
  have old: "numbersUnder key (gd_invoices db) = numbersUnder key (xs @ ys)" for key
    using numbersUnder_pending [OF none, of key] numbersUnder_append [of key "[r]" ys] by (simp add: rows)
  have ms: "mset (numbersUnder key (gd_invoices db'))
      = mset (numbersUnder key (gd_invoices db)) + (if key = ?key then {#number#} else {#})" for key
    using new [of key] numbersUnder_append [of key "[issueRow number fy totals r]" ys] by (simp add: rows' old)
  have gl: "0 \<le> lastNumber db key" "mset (numbersUnder key (gd_invoices db)) = mset (numbersUpTo key (lastNumber db key))" for key
    using inv gaplessD by (auto simp: gstInv_def)
  show ?thesis
    unfolding gapless_def
  proof
    fix key
    show "0 \<le> lastNumber db' key \<and> mset (numbersUnder key (gd_invoices db')) = mset (numbersUpTo key (lastNumber db' key))"
    proof (cases "key = ?key")
      case True
      then show ?thesis using ms [of key] last [of key] gl [of key] numbersUpTo_step [of "lastNumber db ?key"]
        by (simp add: number)
    qed (use ms [of key] last [of key] gl [of key] in simp)
  qed
qed

text \<open>What a step may do to the table of invoices and to the lines of a frozen one.\<close>

definition rowChange :: "GstInvoiceRow \<Rightarrow> GstInvoiceRow \<Rightarrow> bool" where
  "rowChange r s \<longleftrightarrow> gi_invoice_id s = gi_invoice_id r
     \<and> (gi_state r \<noteq> ISSUE_PENDING \<longrightarrow> s = r \<or> gi_state r = ISSUED \<and> s = voidInvoiceRow r
          \<or> ip_legalName (gi_buyer_snapshot r) \<noteq> None \<and> s = stripRow r)"

definition tableChange :: "GstDb \<Rightarrow> GstDb \<Rightarrow> bool" where
  "tableChange db db' \<longleftrightarrow>
     (\<exists>f new. gd_invoices db' = map f (gd_invoices db) @ new \<and> (\<forall>r \<in> set (gd_invoices db). rowChange r (f r)))
   \<and> (\<forall>r \<in> set (gd_invoices db). gi_state r \<noteq> ISSUE_PENDING \<longrightarrow>
        (\<exists>extra. linesOf db' (gi_invoice_id r) = linesOf db (gi_invoice_id r) @ extra))"

lemma gstInvD:
  assumes "gstInv db"
  shows "distinct (map gi_invoice_id (gd_invoices db))"
    "r \<in> set (gd_invoices db) \<Longrightarrow> gi_state r = ISSUE_PENDING \<longleftrightarrow> gi_invoice_number r = None"
    "gapless db" "l \<in> set (gd_lines db) \<Longrightarrow> lineOk l"
  using assms by (simp_all add: gstInv_def)

lemma same_id:
  assumes "gstInv db" "r \<in> set (gd_invoices db)" "s \<in> set (gd_invoices db)" "gi_invoice_id r = gi_invoice_id s"
  shows "r = s"
  using assms gstInvD(1) [OF assms(1)] by (metis distinct_map inj_onD)

text \<open>A conditional update that keeps the numbers.\<close>

lemma update_keeps:
  assumes inv: "gstInv db" and rows: "gd_invoices db' = map f (gd_invoices db)"
    and seqs: "gd_sequences db' = gd_sequences db" and lines: "\<And>l. l \<in> set (gd_lines db') \<Longrightarrow> lineOk l"
    and f: "\<And>r. r \<in> set (gd_invoices db) \<Longrightarrow> gi_invoice_id (f r) = gi_invoice_id r
      \<and> gi_invoice_number (f r) = gi_invoice_number r \<and> (gi_state (f r) = ISSUE_PENDING \<longleftrightarrow> gi_state r = ISSUE_PENDING)
      \<and> (gi_invoice_number r \<noteq> None \<longrightarrow> gi_shop_id (f r) = gi_shop_id r \<and> gi_financial_year (f r) = gi_financial_year r
        \<and> gi_series_code (f r) = gi_series_code r \<and> gi_seller_snapshot (f r) = gi_seller_snapshot r)"
  shows "gstInv db'"
proof -
  have "map gi_invoice_id (gd_invoices db') = map gi_invoice_id (gd_invoices db)" using f by (simp add: rows)
  moreover have "numbersUnder key (gd_invoices db') = numbersUnder key (gd_invoices db)" for key
    unfolding rows using f by (intro numbersUnder_map) blast
  then have "gapless db'" using gapless_cong [OF gstInvD(3) [OF inv] seqs] by blast
  moreover have "gi_state r = ISSUE_PENDING \<longleftrightarrow> gi_invoice_number r = None" if r: "r \<in> set (gd_invoices db')" for r
  proof -
    obtain x where "x \<in> set (gd_invoices db)" "r = f x" using r by (auto simp: rows)
    then show ?thesis using f [of x] gstInvD(2) [OF inv, of x] by simp
  qed
  ultimately show ?thesis using lines gstInvD(1) [OF inv] by (simp add: gstInv_def)
qed

lemma insert_keeps:
  assumes inv: "gstInv db" and rows: "gd_invoices db' = gd_invoices db @ [row]"
    and seqs: "gd_sequences db' = gd_sequences db" and lines: "\<And>l. l \<in> set (gd_lines db') \<Longrightarrow> lineOk l"
    and row: "gi_state row = ISSUE_PENDING" "gi_invoice_number row = None"
      "gi_invoice_id row \<notin> gi_invoice_id ` set (gd_invoices db)"
  shows "gstInv db'"
proof -
  have "gapless db'"
    using gapless_cong [OF gstInvD(3) [OF inv] seqs] numbersUnder_pending [OF row(2)] by (simp add: rows)
  then show ?thesis using inv row lines by (simp add: gstInv_def rows)
qed

lemma insertInvoice_Inr: "insertInvoice row db = Inr db' \<Longrightarrow> db' = db\<lparr>gd_invoices := gd_invoices db @ [row]\<rparr>"
  by (simp add: insertInvoice_def split: if_splits)

lemma insert_change: "gd_invoices db' = gd_invoices db @ [row] \<Longrightarrow>
    (\<And>i. \<exists>extra. linesOf db' i = linesOf db i @ extra) \<Longrightarrow> tableChange db db'"
  unfolding tableChange_def by (intro conjI exI [of _ "\<lambda>x. x"] exI [of _ "[row]"]) (simp_all add: rowChange_def)

lemma update_change:
  assumes "gd_invoices db' = map f (gd_invoices db)" "\<And>r. r \<in> set (gd_invoices db) \<Longrightarrow> rowChange r (f r)"
    "\<And>r. r \<in> set (gd_invoices db) \<Longrightarrow> gi_state r \<noteq> ISSUE_PENDING \<Longrightarrow> linesOf db' (gi_invoice_id r) = linesOf db (gi_invoice_id r)"
  shows "tableChange db db'"
  unfolding tableChange_def using assms by (intro conjI exI [of _ f] exI [of _ "[]"]) simp_all

text \<open>Lines of a patch.\<close>

lemma patchLines_props:
  assumes "patchLines i intra rows ps db = Inr db'" "\<And>l. l \<in> set (gd_lines db) \<Longrightarrow> lineOk l"
  shows "gd_invoices db' = gd_invoices db \<and> gd_sequences db' = gd_sequences db
    \<and> (\<forall>l \<in> set (gd_lines db'). lineOk l) \<and> (\<forall>j. j \<noteq> i \<longrightarrow> linesOf db' j = linesOf db j)"
  using assms
proof (induction ps arbitrary: db)
  case (Cons p ps)
  obtain cur new where new: "patchedLine intra p cur = Inr new"
    and rest: "patchLines i intra rows ps (updateLines i (pl_orderLineId p) new db) = Inr db'"
    using Cons.prems(1) by (auto simp: bindR_Inr_iff split: option.splits)
  let ?db = "updateLines i (pl_orderLineId p) new db"
  have ok: "lineOk (setLine new l)" if "lineOk l" for l
    by (rule lineOk_cong [OF patchedLine_ok [OF new]]) (use that in \<open>simp_all add: setLine_def lineOk_def lineChecks_def\<close>)
  then have "\<And>l. l \<in> set (gd_lines ?db) \<Longrightarrow> lineOk l" using Cons.prems(2) by (auto simp: updateLines_def)
  note ih = Cons.IH [OF rest this]
  have "filter (\<lambda>l. gl_invoice_id l = j) (map (\<lambda>l. if gl_invoice_id l = i \<and> q l then setLine new l else l) ls)
      = filter (\<lambda>l. gl_invoice_id l = j) ls" if "j \<noteq> i" for j q ls
    using that by (induction ls) (auto simp: setLine_def)
  then have "linesOf ?db j = linesOf db j" if "j \<noteq> i" for j
    using that by (simp add: linesOf_def updateLines_def)
  with ih show ?case by (simp add: updateLines_def)
qed simp

lemma patchTx_props:
  assumes tx: "patchTx shopId i patch db = Inr (m, db')" and inv: "gstInv db"
  shows "gstInv db' \<and> tableChange db db'"
proof -
  obtain r where r: "findInvoice db shopId i = Some r" "gi_state r = ISSUE_PENDING"
    using tx by (auto simp: patchTx_def split: option.splits if_splits)
  obtain intra db1 draft where p: "patchLines i intra (linesOf db i) (ph_lines patch) db = Inr db1"
    and db': "db' = updateInvoices (\<lambda>x. gi_shop_id x = shopId \<and> gi_invoice_id x = i \<and> gi_version x = ph_version patch)
        (patchRow draft m) db1"
    using tx by (auto simp: patchTx_def r Let_def bindR_Inr_iff split: if_splits)
  note p' = patchLines_props [OF p gstInvD(4) [OF inv]]
  let ?c = "\<lambda>x. gi_shop_id x = shopId \<and> gi_invoice_id x = i \<and> gi_version x = ph_version patch"
  let ?f = "\<lambda>x. if ?c x then patchRow draft m x else x"
  have rows: "gd_invoices db' = map ?f (gd_invoices db)" using p' by (simp add: db' updateInvoices_def)
  have only: "x = r" if "x \<in> set (gd_invoices db)" "gi_invoice_id x = i" for x
    using same_id [OF inv that(1)] find_invoice [OF r(1)] that(2) by blast
  have none: "gi_invoice_number r = None" using gstInvD(2) [OF inv] find_invoice [OF r(1)] r(2) by blast
  have "gstInv db'"
  proof (rule update_keeps [OF inv rows])
    show "gd_sequences db' = gd_sequences db" using p' by (simp add: db' updateInvoices_def)
    show "lineOk l" if "l \<in> set (gd_lines db')" for l using that p' by (simp add: db' updateInvoices_def)
  qed (use only none in \<open>auto simp: patchRow_def\<close>)
  moreover have "tableChange db db'"
  proof (rule update_change [OF rows])
    show "rowChange x (?f x)" if "x \<in> set (gd_invoices db)" for x
      using only [OF that] r(2) by (auto simp: rowChange_def patchRow_def)
    show "linesOf db' (gi_invoice_id x) = linesOf db (gi_invoice_id x)"
      if "x \<in> set (gd_invoices db)" "gi_state x \<noteq> ISSUE_PENDING" for x
    proof -
      have "gi_invoice_id x \<noteq> i" using only that r(2) by blast
      then show ?thesis using p' by (simp add: db' updateInvoices_def linesOf_def)
    qed
  qed
  ultimately show ?thesis ..
qed

lemma issueTx_props:
  assumes tx: "issueTx env shopId i db = Inr (res, db')" and inv: "gstInv db"
  shows "gstInv db' \<and> tableChange db db'"
proof (cases res)
  case (NotIssued reason)
  then have "db' = db" using tx issueTx_NotIssued by blast
  then show ?thesis using inv by (auto intro!: update_change [where f = "\<lambda>x. x"] simp: rowChange_def)
next
  case (IssuedAs number fy)
  obtain r totals n key where r: "findInvoice db shopId i = Some r" "gi_state r = ISSUE_PENDING"
    and db': "db' = updateInvoices (\<lambda>x. gi_shop_id x = shopId \<and> gi_invoice_id x = i \<and> gi_state x = ISSUE_PENDING)
        (issueRow number fy totals) (db\<lparr>gd_sequences := map_set key n (gd_sequences db)\<rparr>)"
    using issueTx_IssuedAs [OF tx [unfolded IssuedAs]] by blast
  let ?f = "\<lambda>x. if gi_shop_id x = shopId \<and> gi_invoice_id x = i \<and> gi_state x = ISSUE_PENDING
      then issueRow number fy totals x else x"
  have rows: "gd_invoices db' = map ?f (gd_invoices db)" and lines: "gd_lines db' = gd_lines db"
    by (simp_all add: db' updateInvoices_def)
  have "map gi_invoice_id (gd_invoices db') = map gi_invoice_id (gd_invoices db)" by (simp add: rows issueRow_def)
  moreover have "\<forall>x \<in> set (gd_invoices db'). gi_state x = ISSUE_PENDING \<longleftrightarrow> gi_invoice_number x = None"
    using gstInvD(2) [OF inv] by (auto simp: rows issueRow_def)
  moreover have "gapless db'" using issue_gapless [OF inv tx [unfolded IssuedAs]] .
  ultimately have "gstInv db'" using gstInvD(1,4) [OF inv] by (simp add: gstInv_def lines)
  moreover have "tableChange db db'"
    by (rule update_change [OF rows]) (auto simp: rowChange_def issueRow_def linesOf_def lines)
  ultimately show ?thesis ..
qed

lemma voidTx_props:
  assumes tx: "voidTx shopId i db = Inr db'" and inv: "gstInv db"
  shows "gstInv db' \<and> tableChange db db'"
proof -
  let ?f = "\<lambda>x. if gi_shop_id x = shopId \<and> gi_invoice_id x = i \<and> gi_state x = ISSUED then voidInvoiceRow x else x"
  have db': "db' = db\<lparr>gd_invoices := map ?f (gd_invoices db)\<rparr>"
    using tx by (auto simp: voidTx_def updateInvoices_def split: option.splits if_splits)
  then have rows: "gd_invoices db' = map ?f (gd_invoices db)" by simp
  have "gstInv db'"
    by (rule update_keeps [OF inv rows]) (auto simp: db' voidInvoiceRow_def gstInvD(4) [OF inv])
  moreover have "tableChange db db'"
    by (rule update_change [OF rows]) (auto simp: rowChange_def db' linesOf_def voidInvoiceRow_def)
  ultimately show ?thesis ..
qed

lemma creditNoteTx_props:
  assumes tx: "creditNoteTx env shopId i db = Inr (c, db')" and inv: "gstInv db"
    and fresh: "ge_newId env db \<notin> gi_invoice_id ` set (gd_invoices db)"
  shows "gstInv db' \<and> tableChange db db'"
proof -
  obtain r where db': "db' = copyLines i c (db\<lparr>gd_invoices := gd_invoices db @ [creditNoteRow c r]\<rparr>)"
    and c: "c = ge_newId env db"
    using tx by (auto simp: creditNoteTx_def Let_def bindR_Inr_iff dest!: insertInvoice_Inr split: option.splits if_splits)
  have rows: "gd_invoices db' = gd_invoices db @ [creditNoteRow c r]" by (simp add: db' copyLines_def)
  have copied: "lineOk (l\<lparr>gl_invoice_id := c\<rparr>)" if "l \<in> set (gd_lines db)" for l
    by (rule lineOk_cong [OF gstInvD(4) [OF inv that]]) (use gstInvD(4) [OF inv that] in \<open>simp_all add: lineOk_def lineChecks_def\<close>)
  have "gstInv db'"
  proof (rule insert_keeps [OF inv rows])
    show "lineOk l" if "l \<in> set (gd_lines db')" for l
      using that gstInvD(4) [OF inv] copied by (auto simp: db' copyLines_def linesOf_def)
  qed (use fresh in \<open>simp_all add: db' copyLines_def creditNoteRow_def c\<close>)
  moreover have "tableChange db db'"
    by (rule insert_change [OF rows]) (simp add: linesOf_def db' copyLines_def)
  ultimately show ?thesis ..
qed

lemma created_props:
  assumes "insertInvoice row db = Inr db'" "gstInv db" "gi_state row = ISSUE_PENDING" "gi_invoice_number row = None"
    "gi_invoice_id row \<notin> gi_invoice_id ` set (gd_invoices db)"
  shows "gstInv db' \<and> tableChange db db'"
  using insertInvoice_Inr [OF assms(1)] assms gstInvD(4) [OF assms(2)]
  by (auto intro!: insert_keeps [OF assms(2)] insert_change simp: linesOf_def)

lemma untouched_props:
  assumes "gstInv db" "gd_invoices db' = gd_invoices db" "gd_sequences db' = gd_sequences db"
    "gd_lines db' = gd_lines db @ new" "\<And>l. l \<in> set new \<Longrightarrow> lineOk l"
  shows "gstInv db' \<and> tableChange db db'"
proof
  show "gstInv db'"
    by (rule update_keeps [OF assms(1), where f = "\<lambda>x. x"]) (use assms gstInvD(4) [OF assms(1)] in auto)
  show "tableChange db db'"
    unfolding tableChange_def by (intro conjI exI [of _ "\<lambda>x. x"] exI [of _ "[]"]) (simp_all add: assms rowChange_def linesOf_def)
qed

lemma redacted_props:
  assumes inv: "gstInv db"
  shows "gstInv (snd (stripGstBuyerSnapshots shopId orderIds db)) \<and> tableChange db (snd (stripGstBuyerSnapshots shopId orderIds db))"
proof (cases "orderIds = []")
  case True
  then show ?thesis using untouched_props [OF inv, of db "[]"] by (simp add: stripGstBuyerSnapshots_def)
next
  case False
  let ?db = "snd (stripGstBuyerSnapshots shopId orderIds db)"
  let ?f = "\<lambda>r. if gi_shop_id r = shopId \<and> gi_order_id r \<in> set orderIds
      \<and> ip_legalName (gi_buyer_snapshot r) \<noteq> None then stripRow r else r"
  have db: "?db = db\<lparr>gd_invoices := map ?f (gd_invoices db)\<rparr>"
    using False by (simp add: stripGstBuyerSnapshots_def updateInvoices_def Let_def)
  then have rows: "gd_invoices ?db = map ?f (gd_invoices db)" by simp
  have "gstInv ?db"
    by (rule update_keeps [OF inv rows]) (auto simp: db stripRow_def gstInvD(4) [OF inv])
  moreover have "tableChange db ?db"
    by (rule update_change [OF rows]) (auto simp: rowChange_def db linesOf_def stripRow_def)
  ultimately show ?thesis ..
qed

lemma step_props:
  assumes "gst_step db db'" "gstInv db"
  shows "gstInv db' \<and> tableChange db db'"
  using assms(1)
proof (cases rule: gst_step.cases)
  case (created row)
  then show ?thesis using assms(2) by (intro created_props)
next
  case (line_added l)
  then show ?thesis using assms(2) by (intro untouched_props [of db db' "[l]"]) (simp_all add: addLine_def)
next
  case (issued env shopId i r)
  then show ?thesis using issueTx_props [OF _ assms(2)] by metis
next
  case (patched shopId i patch m)
  then show ?thesis using patchTx_props [OF _ assms(2)] by metis
next
  case (voided shopId i)
  then show ?thesis using voidTx_props [OF _ assms(2)] by metis
next
  case (corrected env shopId i c)
  then show ?thesis using creditNoteTx_props [OF _ assms(2)] by metis
next
  case (redacted shopId orderIds)
  then show ?thesis using redacted_props [OF assms(2)] by simp
next
  case tables
  then show ?thesis using assms(2) by (intro untouched_props [of db db' "[]"]) simp_all
qed

text \<open>What a row that has left ISSUE_PENDING can become, and the lines it had.\<close>

definition frozenForm :: "GstInvoiceRow \<Rightarrow> GstInvoiceRow \<Rightarrow> bool" where
  "frozenForm r s \<longleftrightarrow> s = r \<or> gi_state r = ISSUED \<and> s = voidInvoiceRow r
     \<or> ip_legalName (gi_buyer_snapshot r) \<noteq> None
       \<and> (s = stripRow r \<or> gi_state r = ISSUED \<and> s = voidInvoiceRow (stripRow r))"

lemma frozen_simps [simp]:
  "gi_state (voidInvoiceRow r) = VOID" "gi_invoice_id (voidInvoiceRow r) = gi_invoice_id r"
  "gi_buyer_snapshot (voidInvoiceRow r) = gi_buyer_snapshot r"
  "gi_state (stripRow r) = gi_state r" "gi_invoice_id (stripRow r) = gi_invoice_id r"
  "ip_legalName (gi_buyer_snapshot (stripRow r)) = None"
  by (simp_all add: voidInvoiceRow_def stripRow_def strippedBuyer_def)

lemma strip_void: "stripRow (voidInvoiceRow r) = voidInvoiceRow (stripRow r)"
  by (simp add: voidInvoiceRow_def stripRow_def)

lemma frozenForm_kept: "gi_state r \<noteq> ISSUE_PENDING \<Longrightarrow> frozenForm r x \<Longrightarrow> gi_invoice_id x = gi_invoice_id r \<and> gi_state x \<noteq> ISSUE_PENDING"
  by (auto simp: frozenForm_def)

lemma frozenForm_change:
  "gi_state r \<noteq> ISSUE_PENDING \<Longrightarrow> frozenForm r x \<Longrightarrow> rowChange x y \<Longrightarrow> frozenForm r y"
  by (auto simp: frozenForm_def rowChange_def strip_void)

definition frozenIn :: "GstInvoiceRow \<Rightarrow> GstInvoiceLineRow list \<Rightarrow> GstDb \<Rightarrow> bool" where
  "frozenIn r ls db \<longleftrightarrow> gi_state r \<noteq> ISSUE_PENDING \<and> (\<exists>x \<in> set (gd_invoices db). frozenForm r x)
     \<and> (\<exists>extra. linesOf db (gi_invoice_id r) = ls @ extra)"

lemma frozenIn_step:
  assumes ch: "tableChange db db'" and fr: "frozenIn r ls db"
  shows "frozenIn r ls db'"
proof -
  obtain f new where rows: "gd_invoices db' = map f (gd_invoices db) @ new"
    and f: "\<And>x. x \<in> set (gd_invoices db) \<Longrightarrow> rowChange x (f x)" using ch by (auto simp: tableChange_def)
  obtain x where x: "x \<in> set (gd_invoices db)" "frozenForm r x" and st: "gi_state r \<noteq> ISSUE_PENDING"
    using fr by (auto simp: frozenIn_def)
  from frozenForm_change [OF st x(2) f [OF x(1)]] x(1)
  have "\<exists>y \<in> set (gd_invoices db'). frozenForm r y" by (auto simp: rows)
  moreover obtain extra where "linesOf db' (gi_invoice_id r) = linesOf db (gi_invoice_id r) @ extra"
    using ch x(1) frozenForm_kept [OF st x(2)] unfolding tableChange_def by metis
  ultimately show ?thesis using fr by (auto simp: frozenIn_def)
qed

interpretation invoices: invariant_system gst_step gstInv
  by unfold_locales (simp add: step_props)

interpretation frozen_rows: invariant_system gst_step "\<lambda>db. gstInv db \<and> frozenIn r ls db"
  by unfold_locales (blast dest: step_props intro: frozenIn_step)

section \<open>Operations are sequences of writes\<close>

lemma othersReach: "wfGstEnv env \<Longrightarrow> gst_step\<^sup>*\<^sup>* db d \<Longrightarrow> gst_step\<^sup>*\<^sup>* db (ge_others env k d)"
  unfolding wfGstEnv_def by (meson rtranclp_trans)

lemma gstReach: "gst_step d d' \<Longrightarrow> gst_step\<^sup>*\<^sup>* db d \<Longrightarrow> gst_step\<^sup>*\<^sup>* db d'"
  by (rule rtranclp.rtrancl_into_rtrancl)

lemma auditReach: "gst_step\<^sup>*\<^sup>* db d \<Longrightarrow> gst_step\<^sup>*\<^sup>* db (auditOut a d)"
  using tables [where db = d and ix = "gd_indexes d" and sh = "gd_shipments d" and sp = "gd_shops d"
      and au = "gd_audit d @ [a]"]
  by (auto simp: auditOut_def elim: gstReach)

lemma attemptIssue_reaches: "gst_step\<^sup>*\<^sup>* db d \<Longrightarrow> gst_step\<^sup>*\<^sup>* db (snd (attemptIssue env shopId i d))"
proof (cases "issueTx env shopId i d")
  case (Inr p)
  obtain r d' where p: "p = (r, d')" by fastforce
  assume "gst_step\<^sup>*\<^sup>* db d"
  with issued [OF Inr [unfolded p]] have "gst_step\<^sup>*\<^sup>* db d'" by (rule gstReach)
  then show ?thesis by (cases r) (simp_all add: attemptIssue_def Inr p auditReach)
qed (simp add: attemptIssue_def)

lemma insertLines_reaches: "gst_step\<^sup>*\<^sup>* db d \<Longrightarrow> gst_step\<^sup>*\<^sup>* db (snd (insertLines i intra ls d))"
proof (induction ls arbitrary: d)
  case (Cons l ls)
  then show ?case
    using draftLine_ok [of i intra l] by (cases "draftLine i intra l") (auto intro: gstReach line_added)
qed simp

lemma discardIssue_snd [simp]: "snd (discardIssue r) = snd r"
  by (simp add: discardIssue_def)

lemma insertOnConflict_Some: "insertOnConflict row db = Inr (Some db') \<Longrightarrow> insertInvoice row db = Inr db'"
  by (auto simp: insertOnConflict_def bindR_Inr_iff split: if_splits)

lemma createFrom_reaches:
  assumes env: "wfGstEnv env"
  shows "gst_step\<^sup>*\<^sup>* db (snd (createFrom env shipment db))"
proof -
  let ?draft = "draftFromSnapshot shipment" and ?id = "ge_newId env db"
  let ?ins = "bindR (computeMissingFields ?draft) (\<lambda>missing.
    insertOnConflict (newInvoice ?id (gh_shop_id shipment) (gh_order_id shipment) ?draft missing) db)"
  consider (err) e where "?ins = Inl e" | (sibling) "?ins = Inr None" | (new) db1 where "?ins = Inr (Some db1)"
    by (cases ?ins) auto
  then show ?thesis
  proof cases
    case err
    then show ?thesis by (simp add: createFrom_def Let_def)
  next
    case sibling
    have "gst_step\<^sup>*\<^sup>* db (ge_others env 0 db)" "gst_step\<^sup>*\<^sup>* db (ge_others env 1 (ge_others env 0 db))"
      by (simp_all add: othersReach [OF env])
    then show ?thesis using attemptIssue_reaches sibling
      by (auto simp: createFrom_def Let_def split: option.split)
  next
    case (new db1)
    then obtain missing where "insertInvoice (newInvoice ?id (gh_shop_id shipment) (gh_order_id shipment) ?draft missing) db = Inr db1"
      by (auto simp: bindR_Inr_iff dest: insertOnConflict_Some)
    then have "gst_step db db1"
      by (rule created) (use env in \<open>simp_all add: newInvoice_def wfGstEnv_def\<close>)
    then have "gst_step\<^sup>*\<^sup>* db (ge_others env 0 db1)" by (intro othersReach [OF env]) (rule r_into_rtranclp)
    note r2 = insertLines_reaches [OF this]
    obtain res db2 where ins: "insertLines ?id (isIntraState (dr_seller ?draft) (dr_placeOfSupply ?draft)) (dr_lines ?draft)
        (ge_others env 0 db1) = (res, db2)" by fastforce
    have "gst_step\<^sup>*\<^sup>* db db2" using r2 ins by (metis snd_conv)
    then show ?thesis
      by (auto simp: createFrom_def Let_def new ins split: sum.split intro!: attemptIssue_reaches othersReach [OF env] auditReach)
  qed
qed

lemma onShipmentConfirmed_reaches: "wfGstEnv env \<Longrightarrow> gst_step\<^sup>*\<^sup>* db (snd (onShipmentConfirmed env shopId sid db))"
  by (auto simp: onShipmentConfirmed_def createFrom_reaches split: option.split)

lemma issueAndRead_reaches: "gst_step\<^sup>*\<^sup>* db d \<Longrightarrow> gst_step\<^sup>*\<^sup>* db (snd (issueAndRead env shopId i d))"
  using attemptIssue_reaches [of db d env shopId i]
  by (auto simp: issueAndRead_def split: prod.split sum.split)

lemma patchInvoice_reaches:
  assumes env: "wfGstEnv env"
  shows "gst_step\<^sup>*\<^sup>* db (snd (patchInvoice env shopId i patch db))"
proof (cases "patchTx shopId i patch db")
  case (Inr p)
  obtain m db1 where p: "p = (m, db1)" by fastforce
  have "gst_step\<^sup>*\<^sup>* db db1" using patched [OF Inr [unfolded p]] by (rule r_into_rtranclp)
  then show ?thesis
    by (auto simp: patchInvoice_def Inr p Let_def intro!: issueAndRead_reaches othersReach [OF env] auditReach)
qed (simp add: patchInvoice_def)

lemma voidInvoice_reaches:
  assumes env: "wfGstEnv env"
  shows "gst_step\<^sup>*\<^sup>* db (snd (voidInvoice env shopId i reason db))"
proof (cases "voidTx shopId i db")
  case (Inr db1)
  have "gst_step\<^sup>*\<^sup>* db db1" using voided [OF Inr] by (rule r_into_rtranclp)
  then show ?thesis by (auto simp: voidInvoice_def Inr Let_def intro!: othersReach [OF env] auditReach)
qed (simp add: voidInvoice_def)

lemma stripGstBuyerSnapshots_reaches: "gst_step\<^sup>*\<^sup>* db (snd (stripGstBuyerSnapshots shopId orderIds db))"
  by (rule r_into_rtranclp) (rule redacted)

lemma createCreditNote_reaches:
  assumes env: "wfGstEnv env"
  shows "gst_step\<^sup>*\<^sup>* db (snd (createCreditNote env shopId i db))"
proof (cases "creditNoteTx env shopId i db")
  case (Inr p)
  obtain c db1 where p: "p = (c, db1)" by fastforce
  have "gst_step\<^sup>*\<^sup>* db db1" using env by (intro r_into_rtranclp corrected [OF Inr [unfolded p]]) (simp add: wfGstEnv_def)
  then show ?thesis
    by (auto simp: createCreditNote_def Inr p intro!: issueAndRead_reaches othersReach [OF env] auditReach)
qed (simp add: createCreditNote_def)

end
