(* ===== verification/Gst_Properties.thy ===== *)
theory Gst_Properties
  imports Gst_Laws
begin

text \<open>
  The properties of the invoices: their numbers, the finality of an issued one, its totals, the
  stored form of a line, and the calls that cannot succeed or go wrong.
\<close>

text \<open>The states one operation can end in, its other writers included.\<close>

definition gstOutcomes :: "GstEnv \<Rightarrow> string \<Rightarrow> string \<Rightarrow> GstDb \<Rightarrow> GstDb set" where
  "gstOutcomes env shopId i db = {snd (onShipmentConfirmed env shopId i db), snd (attemptIssue env shopId i db),
     snd (createCreditNote env shopId i db)} \<union> range (\<lambda>patch. snd (patchInvoice env shopId i patch db))
     \<union> range (\<lambda>reason. snd (voidInvoice env shopId i reason db))
     \<union> range (\<lambda>orderIds. snd (stripGstBuyerSnapshots shopId orderIds db))"

lemma outcomes_reached: "wfGstEnv env \<Longrightarrow> db' \<in> gstOutcomes env shopId i db \<Longrightarrow> gst_step\<^sup>*\<^sup>* db db'"
  by (auto simp: gstOutcomes_def onShipmentConfirmed_reaches attemptIssue_reaches createCreditNote_reaches
      patchInvoice_reaches voidInvoice_reaches stripGstBuyerSnapshots_reaches)

lemma numbersUpTo_distinct: "distinct (numbersUpTo key n)"
  by (cases key) (auto simp: distinct_map intro!: inj_onI dest: formatInvoiceNumber_inj [rotated 2])

text \<open>The row with an id is the one found.\<close>

lemma find_the:
  assumes "gstInv db" "r \<in> set (gd_invoices db)" "gi_shop_id r = shopId" "gi_invoice_id r = i"
    "gd_invoices d = gd_invoices db"
  shows "findInvoice d shopId i = Some r"
proof (cases "findInvoice d shopId i")
  case None
  then show ?thesis using assms(2-5) unfolding findInvoice_def find_None_iff by (metis assms(2))
next
  case (Some x)
  have "x = r" by (rule same_id [OF assms(1)]) (use find_invoice [OF Some] assms in simp_all)
  with Some show ?thesis by simp
qed

text \<open>A small database for the witnesses.\<close>

definition sellerParty :: InvoicePartySnapshot where
  "sellerParty = \<lparr>ip_legalName = Some ''Acme'', ip_gstin = Some ''27A'', ip_addressLines = Some [''1 Road''],
     ip_city = Some ''Pune'', ip_state = Some ''MH'', ip_pincode = Some ''411001''\<rparr>"

definition pendingInvoice :: GstInvoiceRow where
  "pendingInvoice = newInvoice ''i1'' ''s1'' ''o1'' \<lparr>dr_seller = sellerParty, dr_buyer = sellerParty,
     dr_placeOfSupply = Some ''MH'', dr_lines = []\<rparr> []"

definition localLine :: GstInvoiceLineRow where
  "localLine = \<lparr>gl_invoice_id = ''i1'', gl_order_line_id = Some ''l1'', gl_hsn_code = Some ''6109'', gl_quantity = 1,
     gl_taxable_value = 10000, gl_tax_components = componentsForStorage \<lparr>lt_cgst = 900, lt_sgst = 900, lt_igst = 0\<rparr> 180000 True,
     gl_line_total = 11800\<rparr>"

definition smallDb :: GstDb where
  "smallDb = \<lparr>gd_indexes = schema0013, gd_invoices = [pendingInvoice], gd_lines = [localLine], gd_sequences = [],
     gd_shipments = [\<lparr>gh_shipment_id = ''h1'', gh_shop_id = ''s1'', gh_order_id = ''o2'', gh_confirmed = True,
       gh_is_test = False, gh_snapshot = None\<rparr>], gd_shops = [], gd_audit = []\<rparr>"

text \<open>An id no row has: longer than all of them.\<close>

definition longId :: "GstDb \<Rightarrow> string" where
  "longId db = replicate (Suc (sum_list (map (length \<circ> gi_invoice_id) (gd_invoices db)))) (CHR ''n'')"

definition alone :: GstEnv where
  "alone = \<lparr>ge_now = 1767225600000, ge_tzOffset = (\<lambda>_ _. 19800000), ge_newId = longId, ge_others = (\<lambda>_ db. db)\<rparr>"

lemma longId_fresh: "longId db \<notin> gi_invoice_id ` set (gd_invoices db)"
proof
  assume "longId db \<in> gi_invoice_id ` set (gd_invoices db)"
  then obtain r where "r \<in> set (gd_invoices db)" "longId db = gi_invoice_id r" by blast
  then have "length (longId db) \<le> sum_list (map (length \<circ> gi_invoice_id) (gd_invoices db))"
    by (auto intro!: member_le_sum_list)
  then show False by (simp add: longId_def)
qed

lemma alone_wf: "wfGstEnv alone"
  by (simp add: wfGstEnv_def alone_def longId_fresh)

lemma local_components: "addComponents \<lparr>lt_cgst = 0, lt_sgst = 0, lt_igst = 0\<rparr>
    (componentsForStorage \<lparr>lt_cgst = 900, lt_sgst = 900, lt_igst = 0\<rparr> 180000 True)
    = Inr \<lparr>lt_cgst = 900, lt_sgst = 900, lt_igst = 0\<rparr>"
proof -
  have "computeLineTax 10000 180000 True = Inr \<lparr>lt_cgst = 900, lt_sgst = 900, lt_igst = 0\<rparr>" by code_simp
  then show ?thesis by (rule components_tax)
qed

lemma localLine_ok: "lineOk localLine"
proof -
  note local_components
  then show ?thesis by (simp add: lineOk_def lineChecks_def lineTax_def localLine_def lineTotalPaise_def)
qed

lemma smallDb_inv: "gstInv smallDb"
proof -
  have "gapless smallDb"
    unfolding gapless_def
  proof
    fix key
    show "0 \<le> lastNumber smallDb key
        \<and> mset (numbersUnder key (gd_invoices smallDb)) = mset (numbersUpTo key (lastNumber smallDb key))"
      by (cases key) (simp add: smallDb_def lastNumber_def numbersUnder_def pendingInvoice_def newInvoice_def)
  qed
  then show ?thesis
    using localLine_ok by (simp add: gstInv_def) (simp add: smallDb_def pendingInvoice_def newInvoice_def)
qed

text \<open>
  C19: INV-13.  Whatever operation runs and whatever other operations commit between its
  transactions, the numbers given under a shop, GSTIN, financial year and series are those of
  1, 2, ..., n, each exactly once, where n is the last number of the sequence: no gap, no reuse,
  also when an issue fails.
\<close>

theorem invoice_numbers_gapless:
  assumes "wfGstEnv env" "gstInv db" "db' \<in> gstOutcomes env shopId i db"
  shows "mset (numbersUnder (s, g, f, c) (gd_invoices db')) = mset (map (formatInvoiceNumber c f) [1..lastNumber db' (s, g, f, c)])
    \<and> distinct (numbersUnder (s, g, f, c) (gd_invoices db'))"
proof -
  have "gstInv db'" using invoices.reachable [OF outcomes_reached [OF assms(1,3)] assms(2)] .
  then have m: "mset (numbersUnder (s, g, f, c) (gd_invoices db')) = mset (numbersUpTo (s, g, f, c) (lastNumber db' (s, g, f, c)))"
    using gstInvD(3) gaplessD(2) by blast
  moreover have "distinct (numbersUnder (s, g, f, c) (gd_invoices db'))"
    using numbersUpTo_distinct mset_eq_imp_distinct_iff [OF m] by blast
  ultimately show ?thesis by simp
qed

lemma invoice_numbers_gapless_witness:
  "distinct (numbersUnder (''s1'', ''27A'', ''2025-26'', ''INV'') (gd_invoices (snd (attemptIssue alone ''s1'' ''i1'' smallDb))))"
  using invoice_numbers_gapless [OF alone_wf smallDb_inv, of "snd (attemptIssue alone ''s1'' ''i1'' smallDb)" "''s1''" "''i1''"]
  by (simp add: gstOutcomes_def)

text \<open>
  C20: INV-16.  An invoice that has left ISSUE_PENDING stays in the table under its id whatever
  operation runs afterwards, the redaction of a buyer included, and whatever other operations
  commit in between.  Its state is unchanged, or went from ISSUED to VOID; its buyer snapshot is
  unchanged, or was the one a redaction leaves of it (the name and the address gone, the GSTIN
  kept), which only happens to a buyer that still had a name; its version counts exactly these
  two changes; and every other column (number, financial year, series, seller, place of supply,
  totals and the rest) is what it was.  The lines it has are never changed or removed, though
  lines may be appended.
\<close>

theorem issued_invoices_frozen:
  assumes "wfGstEnv env" "gstInv db" "db' \<in> gstOutcomes env shopId i db"
    and "r \<in> set (gd_invoices db)" "gi_state r \<noteq> ISSUE_PENDING"
  shows "(\<exists>s. findInvoice db' (gi_shop_id r) (gi_invoice_id r) = Some s
      \<and> (gi_state s = gi_state r \<or> gi_state r = ISSUED \<and> gi_state s = VOID)
      \<and> (gi_buyer_snapshot s = gi_buyer_snapshot r \<or> ip_legalName (gi_buyer_snapshot r) \<noteq> None
          \<and> gi_buyer_snapshot s = \<lparr>ip_legalName = None, ip_gstin = ip_gstin (gi_buyer_snapshot r),
              ip_addressLines = Some [], ip_city = None, ip_state = None, ip_pincode = None\<rparr>)
      \<and> gi_version s = gi_version r + (if gi_state s = gi_state r then 0 else 1)
          + (if gi_buyer_snapshot s = gi_buyer_snapshot r then 0 else 1)
      \<and> s\<lparr>gi_state := gi_state r, gi_buyer_snapshot := gi_buyer_snapshot r, gi_version := gi_version r\<rparr> = r)
    \<and> (\<exists>extra. linesOf db' (gi_invoice_id r) = linesOf db (gi_invoice_id r) @ extra)"
proof -
  have "frozenIn r (linesOf db (gi_invoice_id r)) db" using assms(4,5) by (auto simp: frozenIn_def frozenForm_def)
  then have inv: "gstInv db'" and fr: "frozenIn r (linesOf db (gi_invoice_id r)) db'"
    using frozen_rows.reachable [OF outcomes_reached [OF assms(1,3)]] assms(2) by blast+
  then obtain s where s: "s \<in> set (gd_invoices db')" "frozenForm r s" by (auto simp: frozenIn_def)
  have "findInvoice db' (gi_shop_id r) (gi_invoice_id r) = Some s"
    by (rule find_the [OF inv s(1)]) (use s(2) in \<open>auto simp: frozenForm_def voidInvoiceRow_def stripRow_def\<close>)
  then show ?thesis
    using s(2) fr by (auto simp: frozenIn_def frozenForm_def voidInvoiceRow_def stripRow_def strippedBuyer_def
        dest: arg_cong [of _ _ ip_legalName])
qed

text \<open>
  C21: INV-15.  An issue freezes totals that are the sums of the stored lines: the grand total is
  the text of the sum of the line totals, the taxable value that of the taxable values, and the
  lines are left as they are.
\<close>

theorem issued_totals_are_line_sums:
  assumes "gstInv db" "issueTx env shopId i db = Inr (IssuedAs number fy, db')"
  shows "\<exists>r t. r \<in> set (gd_invoices db') \<and> gi_invoice_id r = i \<and> gi_state r = ISSUED
    \<and> gi_invoice_number r = Some number \<and> gi_totals r = Some t
    \<and> tt_grandTotal t = paiseToRupees (sum_list (map gl_line_total (linesOf db i)))
    \<and> tt_taxableValue t = paiseToRupees (sum_list (map gl_taxable_value (linesOf db i)))
    \<and> gd_lines db' = gd_lines db"
proof -
  obtain r totals key n where r: "findInvoice db shopId i = Some r" "gi_state r = ISSUE_PENDING"
    and t: "totalsFromLines (linesOf db i) = Inr totals"
    and db': "db' = updateInvoices (\<lambda>x. gi_shop_id x = shopId \<and> gi_invoice_id x = i \<and> gi_state x = ISSUE_PENDING)
        (issueRow number fy totals) (db\<lparr>gd_sequences := map_set key n (gd_sequences db)\<rparr>)"
    using issueTx_IssuedAs [OF assms(2)] by blast
  have "issueRow number fy totals r \<in> set (gd_invoices db')"
    using find_invoice [OF r(1)] r(2) by (force simp: db' updateInvoices_def)
  moreover have "tt_grandTotal totals = paiseToRupees (sum_list (map gl_line_total (linesOf db i)))
      \<and> tt_taxableValue totals = paiseToRupees (sum_list (map gl_taxable_value (linesOf db i)))"
    using totals_ok [of "linesOf db i"] gstInvD(4) [OF assms(1)] t by (auto simp: linesOf_def)
  moreover have "gd_lines db' = gd_lines db" by (simp add: db' updateInvoices_def)
  ultimately show ?thesis using find_invoice [OF r(1)]
    by (intro exI [of _ "issueRow number fy totals r"] exI [of _ totals]) (simp add: issueRow_def)
qed

text \<open>
  What is stored of a taxed line reads back exactly: a patch that does not name a rate finds
  the line's own rate in its components, also when the tax was zero, and the totals find the tax
  that was computed.
\<close>

theorem stored_line_roundtrip:
  assumes "0 \<le> rate" "computeLineTax taxable rate intraState = Inr tax"
  shows "rateFromComponents (componentsForStorage tax rate intraState) = Inr rate
    \<and> addComponents \<lparr>lt_cgst = 0, lt_sgst = 0, lt_igst = 0\<rparr> (componentsForStorage tax rate intraState) = Inr tax"
  using components_rate [OF assms(1), of tax intraState] components_tax [OF assms(2)] computeLineTax_nonneg [OF assms(2)]
  by (cases intraState) auto

lemma stored_line_roundtrip_witness:
  "rateFromComponents (componentsForStorage \<lparr>lt_cgst = 0, lt_sgst = 0, lt_igst = 18\<rparr> 180000 False) = Inr 180000"
proof -
  have "computeLineTax 101 180000 False = Inr \<lparr>lt_cgst = 0, lt_sgst = 0, lt_igst = 18\<rparr>" by code_simp
  then show ?thesis using stored_line_roundtrip [of 180000] by simp
qed

text \<open>
  C22: An attempt on a complete invoice issues it.  Undisturbed, with a pending invoice that misses
  nothing, a GSTIN and a sequence not exhausted, the transaction never fails, gives the next number
  of the sequence and reports it.
\<close>

theorem complete_invoice_issues:
  assumes "gstInv db" "findInvoice db shopId i = Some r" "gi_state r = ISSUE_PENDING" "gi_missing_fields r = []"
    and "ip_gstin (gi_seller_snapshot r) = Some gstin" "gstin \<noteq> ''''"
    and fy: "fy = financialYearAt (ge_tzOffset env) (ge_now env) (timezoneOf db shopId)"
    and room: "lastNumber db (shopId, gstin, fy, gi_series_code r) < 2147483647"
  shows "\<exists>db'. attemptIssue env shopId i db = (Inr (IssuedAs
      (formatInvoiceNumber (gi_series_code r) fy (lastNumber db (shopId, gstin, fy, gi_series_code r) + 1)) fy), db')
    \<and> lastNumber db' (shopId, gstin, fy, gi_series_code r) = lastNumber db (shopId, gstin, fy, gi_series_code r) + 1"
proof -
  note id = find_invoice [OF assms(2)]
  obtain t where t: "totalsFromLines (linesOf db i) = Inr t"
    using totals_ok [of "linesOf db i"] gstInvD(4) [OF assms(1)] by (auto simp: linesOf_def)
  show ?thesis
    using assms(2-6) room id t
    by (simp add: attemptIssue_def issueTx_def issueComplete_def allocateNumber_def arith_def Let_def flip: fy)
      (simp add: auditOut_def updateInvoices_def lastNumber_def map_of_map_set)
qed

lemma issueComplete_ok:
  assumes "totalsFromLines (linesOf db (gi_invoice_id r)) = Inr t" "\<And>key. lastNumber db key < 2147483647"
  shows "\<exists>n fy d. issueComplete env r g db = Inr (IssuedAs n fy, d)"
proof -
  have "\<exists>n d. allocateNumber key db = Inr (n, d)" for key
    using assms(2) [of key] by (simp add: allocateNumber_def Let_def)
  then obtain n d where "allocateNumber (gi_shop_id r, g, financialYearAt (ge_tzOffset env) (ge_now env)
      (timezoneOf db (gi_shop_id r)), gi_series_code r) db = Inr (n, d)" by blast
  then show ?thesis using assms(1) by (simp add: issueComplete_def arith_def Let_def)
qed

lemma small_find: "findInvoice smallDb ''s1'' ''i1'' = Some pendingInvoice"
  by (simp add: findInvoice_def smallDb_def pendingInvoice_def newInvoice_def)

lemma small_lines: "linesOf smallDb ''i1'' = [localLine]"
  by (simp add: linesOf_def smallDb_def localLine_def)

lemma pending_simps [simp]: "gi_buyer_snapshot pendingInvoice = sellerParty"  "gi_state pendingInvoice = ISSUE_PENDING" "gi_missing_fields pendingInvoice = []"
  "gi_seller_snapshot pendingInvoice = sellerParty" "ip_gstin sellerParty = Some ''27A''"
  "gi_series_code pendingInvoice = ''INV''" "gi_place_of_supply pendingInvoice = Some ''MH''"
  "gi_version pendingInvoice = 1" "gi_invoice_id pendingInvoice = ''i1''" "gi_shop_id pendingInvoice = ''s1''"
  by (simp_all add: pendingInvoice_def newInvoice_def sellerParty_def)

lemma complete_invoice_issues_witness:
  "\<exists>n fy d. attemptIssue alone ''s1'' ''i1'' smallDb = (Inr (IssuedAs n fy), d)"
proof -
  have "lastNumber smallDb key < 2147483647" for key by (simp add: smallDb_def lastNumber_def)
  then show ?thesis using complete_invoice_issues [OF smallDb_inv small_find, of "''27A''" _ alone] by fastforce
qed

lemma small_issue: "\<exists>n fy d. issueTx alone ''s1'' ''i1'' smallDb = Inr (IssuedAs n fy, d)"
proof -
  obtain t where "totalsFromLines (linesOf smallDb ''i1'') = Inr t"
    using totals_ok [of "linesOf smallDb ''i1''"] localLine_ok by (auto simp: small_lines)
  moreover have "lastNumber smallDb key < 2147483647" for key by (simp add: smallDb_def lastNumber_def)
  ultimately have "\<exists>n fy d. issueComplete alone pendingInvoice ''27A'' smallDb = Inr (IssuedAs n fy, d)"
    by (intro issueComplete_ok) simp_all
  then show ?thesis by (simp add: issueTx_def small_find)
qed

lemma issued_totals_are_line_sums_witness:
  "\<exists>(d::GstDb) r t. r \<in> set (gd_invoices d) \<and> gi_state r = ISSUED \<and> gi_totals r = Some t
    \<and> tt_grandTotal t = paiseToRupees 11800 \<and> gd_lines d = gd_lines smallDb"
proof -
  obtain n fy d where d: "issueTx alone ''s1'' ''i1'' smallDb = Inr (IssuedAs n fy, d)" using small_issue by blast
  have "sum_list (map gl_line_total (linesOf smallDb ''i1'')) = 11800"
    by (simp add: linesOf_def smallDb_def localLine_def)
  moreover obtain r t where "r \<in> set (gd_invoices d)" "gi_state r = ISSUED" "gi_totals r = Some t"
    "tt_grandTotal t = paiseToRupees (sum_list (map gl_line_total (linesOf smallDb ''i1'')))" "gd_lines d = gd_lines smallDb"
    using issued_totals_are_line_sums [OF smallDb_inv d] by blast
  ultimately show ?thesis by (intro exI [of _ d] exI [of _ r] exI [of _ t]) simp
qed

definition issuedInvoice :: GstInvoiceRow where
  "issuedInvoice = issueRow ''INV/2025-26/000001'' ''2025-26'' (computeTotals []) pendingInvoice"

definition issuedDb :: GstDb where
  "issuedDb = smallDb\<lparr>gd_invoices := [issuedInvoice], gd_sequences := [((''s1'', ''27A'', ''2025-26'', ''INV''), 1)]\<rparr>"

lemma issuedDb_inv: "gstInv issuedDb"
proof -
  have one: "formatInvoiceNumber ''INV'' ''2025-26'' 1 = ''INV/2025-26/000001''" by code_simp
  have "gapless issuedDb"
    unfolding gapless_def
  proof
    fix key
    show "0 \<le> lastNumber issuedDb key
        \<and> mset (numbersUnder key (gd_invoices issuedDb)) = mset (numbersUpTo key (lastNumber issuedDb key))"
      by (cases key) (auto simp: issuedDb_def lastNumber_def numbersUnder_def issuedInvoice_def issueRow_def
          pendingInvoice_def newInvoice_def sellerParty_def one)
  qed
  then show ?thesis
    using localLine_ok by (simp add: gstInv_def)
      (simp add: issuedDb_def smallDb_def issuedInvoice_def issueRow_def pendingInvoice_def newInvoice_def)
qed

lemma issued_invoices_frozen_witness:
  "\<exists>s. findInvoice (snd (stripGstBuyerSnapshots ''s1'' [''o1''] issuedDb)) ''s1'' ''i1'' = Some s
    \<and> gi_invoice_number s = Some ''INV/2025-26/000001'' \<and> gi_seller_snapshot s = sellerParty
    \<and> ip_legalName (gi_buyer_snapshot s) = None \<and> ip_gstin (gi_buyer_snapshot s) = Some ''27A'' \<and> gi_version s = 3"
proof -
  let ?db = "snd (stripGstBuyerSnapshots ''s1'' [''o1''] issuedDb)"
  have r: "issuedInvoice \<in> set (gd_invoices issuedDb)" "gi_state issuedInvoice \<noteq> ISSUE_PENDING"
    and key: "gi_shop_id issuedInvoice = ''s1''" "gi_invoice_id issuedInvoice = ''i1''" "gi_version issuedInvoice = 2"
      "gi_invoice_number issuedInvoice = Some ''INV/2025-26/000001''" "gi_seller_snapshot issuedInvoice = sellerParty"
    by (simp_all add: issuedDb_def issuedInvoice_def issueRow_def)
  have row: "findInvoice ?db ''s1'' ''i1'' = Some (stripRow issuedInvoice)"
    by (simp add: findInvoice_def stripGstBuyerSnapshots_def updateInvoices_def issuedDb_def issuedInvoice_def issueRow_def
        pendingInvoice_def newInvoice_def sellerParty_def stripRow_def)
  from issued_invoices_frozen [OF alone_wf issuedDb_inv _ r, of ?db "''s1''" "''i1''"]
  obtain s where s: "findInvoice ?db ''s1'' ''i1'' = Some s"
    and undo: "s\<lparr>gi_state := gi_state issuedInvoice, gi_buyer_snapshot := gi_buyer_snapshot issuedInvoice,
      gi_version := gi_version issuedInvoice\<rparr> = issuedInvoice"
    unfolding key by (auto simp: gstOutcomes_def)
  have "ip_legalName (gi_buyer_snapshot (stripRow issuedInvoice)) = None"
    "ip_gstin (gi_buyer_snapshot (stripRow issuedInvoice)) = Some ''27A''" "gi_version (stripRow issuedInvoice) = 3"
    by (simp_all add: stripRow_def strippedBuyer_def issuedInvoice_def issueRow_def)
  moreover have "s = stripRow issuedInvoice" using s row by simp
  ultimately show ?thesis
    using arg_cong [OF undo, of gi_invoice_number] arg_cong [OF undo, of gi_seller_snapshot] s key(4,5) by simp
qed

text \<open>
  No schema serves both operations.  Under the indexes of migration 0013 every confirmation
  of a live shipment fails, because the statement that creates an invoice names a conflict target
  no index matches, and nothing is written; under those of migration 0012 every credit note fails
  on the unique index it shares with its original.
\<close>

theorem no_schema_serves_both:
  assumes "List.find (\<lambda>s. gh_shop_id s = shopId \<and> gh_shipment_id s = shipmentId) (gd_shipments db) = Some shipment"
    and "gh_confirmed shipment" "\<not> gh_is_test shipment"
    and "findInvoice db shopId original = Some row" "gi_state row = VOID"
  shows "onShipmentConfirmed env shopId shipmentId (db\<lparr>gd_indexes := schema0013\<rparr>)
      = (Inl NoArbiter, db\<lparr>gd_indexes := schema0013\<rparr>)
    \<and> createCreditNote env shopId original (db\<lparr>gd_indexes := schema0012\<rparr>)
      = (Inl UniqueViolation, db\<lparr>gd_indexes := schema0012\<rparr>)"
proof
  have "\<exists>missing. computeMissingFields (draftFromSnapshot shipment) = Inr missing"
    by (auto simp: computeMissingFields_def draftFromSnapshot_def partyOf_def emptyParty_def Let_def
        split: option.split)
  then show "onShipmentConfirmed env shopId shipmentId (db\<lparr>gd_indexes := schema0013\<rparr>)
      = (Inl NoArbiter, db\<lparr>gd_indexes := schema0013\<rparr>)"
    using assms(1-3) by (auto simp: onShipmentConfirmed_def createFrom_def Let_def insertOnConflict_def schema0013_def)
  have "clashesOn ShopOrderUnique (creditNoteRow i row) (db\<lparr>gd_indexes := schema0012\<rparr>)" for i
    using find_invoice [OF assms(4)] by (auto simp: clashesOn_def creditNoteRow_def list_ex_iff)
  then show "createCreditNote env shopId original (db\<lparr>gd_indexes := schema0012\<rparr>)
      = (Inl UniqueViolation, db\<lparr>gd_indexes := schema0012\<rparr>)"
    using assms(4,5)
    by (simp add: createCreditNote_def creditNoteTx_def findInvoice_def insertInvoice_def schema0012_def Let_def)
qed

lemma no_schema_serves_both_witness:
  "fst (onShipmentConfirmed alone ''s1'' ''h1'' (smallDb\<lparr>gd_invoices := [voidInvoiceRow issuedInvoice], gd_indexes := schema0013\<rparr>))
    = Inl NoArbiter"
  using no_schema_serves_both [of "''s1''" "''h1''" "smallDb\<lparr>gd_invoices := [voidInvoiceRow issuedInvoice]\<rparr>" _
      "''i1''" "voidInvoiceRow issuedInvoice" alone]
  by (simp add: smallDb_def findInvoice_def voidInvoiceRow_def issuedInvoice_def issueRow_def pendingInvoice_def newInvoice_def)

lemma patchTx_no_lines:
  assumes "findInvoice db shopId i = Some r" "patchTx shopId i patch db = Inr (missing, db')" "ph_lines patch = []"
  shows "\<exists>draft. dr_seller draft = mergeParty (ph_seller patch) (gi_seller_snapshot r)
    \<and> dr_placeOfSupply draft = orElse (ph_placeOfSupply patch) (gi_place_of_supply r)
    \<and> gi_version r = ph_version patch
    \<and> db' = updateInvoices (\<lambda>x. gi_shop_id x = shopId \<and> gi_invoice_id x = i \<and> gi_version x = ph_version patch)
        (patchRow draft missing) db"
proof -
  have st: "gi_state r = ISSUE_PENDING" using assms(1,2) by (auto simp: patchTx_def split: if_splits)
  then show ?thesis
    using assms by (intro exI [of _ "\<lparr>dr_seller = mergeParty (ph_seller patch) (gi_seller_snapshot r),
        dr_buyer = mergeParty (ph_buyer patch) (gi_buyer_snapshot r),
        dr_placeOfSupply = orElse (ph_placeOfSupply patch) (gi_place_of_supply r),
        dr_lines = map (mergedInput (gi_missing_fields r) []) (linesOf db i)\<rparr>"])
      (auto simp: patchTx_def Let_def bindR_Inr_iff split: if_splits)
qed

text \<open>
  A patch splits anew only the lines it names.  When it changes the place of supply, or the
  seller's state, and names no line, the issue that follows freezes the new place together with
  the totals of the old one: the CGST, SGST and IGST of lines taxed for a supply that is no
  longer the invoice's.
\<close>

theorem patch_keeps_stale_split:
  assumes inv: "gstInv db" and r: "findInvoice db shopId i = Some r"
    and patch: "patchTx shopId i patch db = Inr (missing, db1)" "ph_lines patch = []"
    and issue: "issueTx env shopId i db1 = Inr (IssuedAs number fy, db2)"
  shows "\<exists>s t. s \<in> set (gd_invoices db2) \<and> gi_invoice_id s = i \<and> gi_state s = ISSUED
    \<and> gi_place_of_supply s = orElse (ph_placeOfSupply patch) (gi_place_of_supply r)
    \<and> gi_seller_snapshot s = mergeParty (ph_seller patch) (gi_seller_snapshot r)
    \<and> gi_totals s = Some t \<and> totalsFromLines (linesOf db i) = Inr t"
proof -
  obtain draft where d: "dr_seller draft = mergeParty (ph_seller patch) (gi_seller_snapshot r)"
      "dr_placeOfSupply draft = orElse (ph_placeOfSupply patch) (gi_place_of_supply r)" "gi_version r = ph_version patch"
    and db1: "db1 = updateInvoices (\<lambda>x. gi_shop_id x = shopId \<and> gi_invoice_id x = i \<and> gi_version x = ph_version patch)
        (patchRow draft missing) db"
    using patchTx_no_lines [OF r patch] by blast
  have lines: "linesOf db1 i = linesOf db i" by (simp add: db1 updateInvoices_def linesOf_def)
  obtain q totals key n where q: "findInvoice db1 shopId i = Some q" "gi_state q = ISSUE_PENDING"
    and t: "totalsFromLines (linesOf db1 i) = Inr totals"
    and db2: "db2 = updateInvoices (\<lambda>x. gi_shop_id x = shopId \<and> gi_invoice_id x = i \<and> gi_state x = ISSUE_PENDING)
        (issueRow number fy totals) (db1\<lparr>gd_sequences := map_set key n (gd_sequences db1)\<rparr>)"
    using issueTx_IssuedAs [OF issue] by blast
  have "q = patchRow draft missing r"
  proof -
    have "q \<in> set (gd_invoices db1)" "gi_invoice_id q = i" "gi_shop_id q = shopId" using find_invoice [OF q(1)] by simp_all
    then obtain x where x: "x \<in> set (gd_invoices db)"
        "q = (if gi_shop_id x = shopId \<and> gi_invoice_id x = i \<and> gi_version x = ph_version patch then patchRow draft missing x else x)"
      unfolding db1 updateInvoices_def by auto
    then have "gi_invoice_id x = i" using \<open>gi_invoice_id q = i\<close> by (simp add: patchRow_def split: if_splits)
    then have "x = r" using same_id [OF inv x(1)] find_invoice [OF r] by simp
    then show ?thesis using x(2) find_invoice [OF r] d(3) by simp
  qed
  moreover have "issueRow number fy totals q \<in> set (gd_invoices db2)"
    using find_invoice [OF q(1)] q(2) by (force simp: db2 updateInvoices_def)
  ultimately show ?thesis
    using find_invoice [OF q(1)] d(1,2) t lines
    by (intro exI [of _ "issueRow number fy totals q"] exI [of _ totals]) (simp add: issueRow_def, simp add: patchRow_def)
qed

definition movePlace :: "string \<Rightarrow> InvoicePatch" where
  "movePlace place = \<lparr>ph_version = 1, ph_seller = None, ph_buyer = None, ph_placeOfSupply = PValue place, ph_lines = []\<rparr>"

lemma moved_missing: "computeMissingFields \<lparr>dr_seller = sellerParty, dr_buyer = sellerParty,
    dr_placeOfSupply = Some ''KA'', dr_lines = [mergedInput [] [] localLine]\<rparr> = Inr []"
  by (simp add: computeMissingFields_def Let_def sellerParty_def missingField_def missingOfLine_def mergedInput_def
      stillUnpriced_def localLine_def blank_def trim_def is_ws_def)

lemma patch_keeps_stale_split_witness:
  "\<exists>(d::GstDb) s t. s \<in> set (gd_invoices d) \<and> gi_state s = ISSUED \<and> gi_totals s = Some t
    \<and> \<not> isIntraState (gi_seller_snapshot s) (gi_place_of_supply s) \<and> tt_igst t = ''0.00'' \<and> tt_cgst t = ''9.00''"
proof -
  have "\<exists>d. patchTx ''s1'' ''i1'' (movePlace ''KA'') smallDb = Inr ([], d)"
    by (simp add: patchTx_def small_find movePlace_def mergeParty_def Let_def small_lines moved_missing)
  then obtain d1 where d1: "patchTx ''s1'' ''i1'' (movePlace ''KA'') smallDb = Inr ([], d1)" by blast
  obtain draft where d1': "d1 = updateInvoices (\<lambda>x. gi_shop_id x = ''s1'' \<and> gi_invoice_id x = ''i1'' \<and> gi_version x = 1)
      (patchRow draft []) smallDb" "ip_gstin (dr_seller draft) = Some ''27A''"
    using patchTx_no_lines [OF small_find d1] by (auto simp: movePlace_def mergeParty_def)
  have "findInvoice d1 ''s1'' ''i1'' = Some (patchRow draft [] pendingInvoice)"
    by (simp add: d1' findInvoice_def updateInvoices_def smallDb_def) (simp add: patchRow_def)
  moreover have "\<exists>t. totalsFromLines (linesOf d1 ''i1'') = Inr t"
    using totals_ok [of "linesOf d1 ''i1''"] localLine_ok by (auto simp: linesOf_def smallDb_def d1' updateInvoices_def)
  ultimately obtain n fy d2 where d2: "issueTx alone ''s1'' ''i1'' d1 = Inr (IssuedAs n fy, d2)"
    by (auto simp: issueTx_def patchRow_def d1'(2) issueComplete_def allocateNumber_def arith_def Let_def)
      (simp add: lastNumber_def smallDb_def d1' updateInvoices_def)
  have "lineTax localLine = Inr (10000, \<lparr>lt_cgst = 900, lt_sgst = 900, lt_igst = 0\<rparr>)"
    by (simp add: lineTax_def localLine_def local_components)
  then have t: "totalsFromLines (linesOf smallDb ''i1'') = Inr (computeTotals [(10000, \<lparr>lt_cgst = 900, lt_sgst = 900, lt_igst = 0\<rparr>)])"
    by (simp add: totalsFromLines_def linesOf_def smallDb_def) (simp add: localLine_def)
  from patch_keeps_stale_split [OF smallDb_inv small_find d1 _ d2] obtain s u where
    s: "s \<in> set (gd_invoices d2)" "gi_state s = ISSUED" "gi_place_of_supply s = Some ''KA''"
      "gi_seller_snapshot s = sellerParty" "gi_totals s = Some u" "totalsFromLines (linesOf smallDb ''i1'') = Inr u"
    by (auto simp: movePlace_def mergeParty_def)
  have "\<not> isIntraState (gi_seller_snapshot s) (gi_place_of_supply s)" by (simp add: s isIntraState_def sellerParty_def)
  moreover have "tt_igst u = ''0.00''" "tt_cgst u = ''9.00''"
    using t s(6) by (auto simp: computeTotals_def addTotals_def text_eval pad_start_def)
  ultimately show ?thesis using s by blast
qed

text \<open>
  A patch object whose class declares its fields carries the omitted ones as undefined.  When
  it names the seller and leaves out the address lines, the spread replaces the stored ones, the
  check of required data reads the length of undefined, and the patch fails: whatever else it
  carries, nothing is written.
\<close>

theorem partial_party_patch_fails:
  assumes "ph_seller patch = Some p" "pp_addressLines p = PUndefined"
  shows "\<exists>e. patchInvoice env shopId i patch db = (Inl e, db)
    \<and> (\<forall>r. findInvoice db shopId i = Some r \<and> gi_state r = ISSUE_PENDING \<and> ph_lines patch = [] \<longrightarrow> e = UndefinedLength)"
proof -
  have none: "computeMissingFields \<lparr>dr_seller = mergeParty (ph_seller patch) x, dr_buyer = b, dr_placeOfSupply = ps, dr_lines = ls\<rparr>
      = Inl UndefinedLength" for x b ps ls
    using assms by (simp add: computeMissingFields_def mergeParty_def Let_def)
  show ?thesis
  proof (cases "patchTx shopId i patch db")
    case (Inl e)
    then show ?thesis by (auto simp: patchInvoice_def) (auto simp: patchTx_def none Let_def)
  next
    case (Inr q)
    then show ?thesis by (cases q) (auto simp: patchTx_def none Let_def bindR_Inr_iff split: option.splits if_splits)
  qed
qed

definition sellerPatch :: PatchParty where
  "sellerPatch = \<lparr>pp_legalName = PUndefined, pp_gstin = PValue ''27B'', pp_addressLines = PUndefined,
     pp_city = PUndefined, pp_state = PUndefined, pp_pincode = PUndefined\<rparr>"

lemma partial_party_patch_fails_witness:
  "\<exists>e. patchInvoice alone ''s1'' ''i1'' ((movePlace ''MH'')\<lparr>ph_seller := Some sellerPatch\<rparr>) smallDb = (Inl e, smallDb)"
  using partial_party_patch_fails [of "(movePlace ''MH'')\<lparr>ph_seller := Some sellerPatch\<rparr>" sellerPatch alone "''s1''" "''i1''" smallDb]
  by (auto simp: movePlace_def sellerPatch_def)

text \<open>A sibling's confirmation just after the invoice row was inserted.\<close>

lemma insertOnConflict_NewD:
  assumes "insertOnConflict row db = Inr (Some db1)"
  shows "db1 = db\<lparr>gd_invoices := gd_invoices db @ [row]\<rparr>" "ShopOrderUnique \<in> set (gd_indexes db)"
    "\<not> clashesOn ShopOrderUnique row db"
  using assms by (auto simp: insertOnConflict_def insertInvoice_def bindR_Inr_iff split: if_splits)

lemma find_snoc: "List.find P xs = None \<Longrightarrow> P y \<Longrightarrow> List.find P (xs @ [y]) = Some y"
  by (induction xs) (auto split: if_splits)

lemma draft_missing: "\<exists>missing. computeMissingFields (draftFromSnapshot shipment) = Inr missing"
  by (auto simp: computeMissingFields_def draftFromSnapshot_def partyOf_def emptyParty_def Let_def split: option.split)

lemma sibling_attempts:
  assumes new: "insertOnConflict (newInvoice i (gh_shop_id sibling) (gh_order_id sibling) draft missing) db = Inr (Some db1)"
    and others: "ge_others sib = (\<lambda>_ d. d)"
  shows "snd (createFrom sib sibling db1) = snd (attemptIssue sib (gh_shop_id sibling) i db1)"
proof -
  let ?row = "newInvoice i (gh_shop_id sibling) (gh_order_id sibling) draft missing"
  note n = insertOnConflict_NewD [OF new]
  obtain m where m: "computeMissingFields (draftFromSnapshot sibling) = Inr m" using draft_missing by blast
  have "insertOnConflict (newInvoice (ge_newId sib db1) (gh_shop_id sibling) (gh_order_id sibling) (draftFromSnapshot sibling) m) db1
      = Inr None"
    using n(2) by (simp add: insertOnConflict_def n(1) clashesOn_def newInvoice_def)
  moreover have "invoiceOfOrder db1 (gh_shop_id sibling) (gh_order_id sibling) = Some i"
  proof -
    have "List.find (\<lambda>r. gi_shop_id r = gh_shop_id sibling \<and> gi_order_id r = gh_order_id sibling) (gd_invoices db) = None"
      using n(3) by (auto simp: find_None_iff clashesOn_def list_ex_iff newInvoice_def)
    then have "List.find (\<lambda>r. gi_shop_id r = gh_shop_id sibling \<and> gi_order_id r = gh_order_id sibling)
        (gd_invoices db @ [?row]) = Some ?row"
      by (rule find_snoc) (simp add: newInvoice_def)
    then show ?thesis by (simp add: invoiceOfOrder_def n(1)) (simp add: newInvoice_def)
  qed
  ultimately show ?thesis by (simp add: createFrom_def m others Let_def)
qed

lemma insertLines_props:
  "insertLines i intra ls db = (Inr (), db') \<Longrightarrow> gd_invoices db' = gd_invoices db
    \<and> length (linesOf db' i) = length (linesOf db i) + length ls"
proof (induction ls arbitrary: db)
  case (Cons l ls)
  then obtain x where x: "draftLine i intra l = Inr x" "insertLines i intra ls (addLine x db) = (Inr (), db')"
    by (auto split: sum.splits)
  with Cons.IH [OF x(2)] draftLine_ok [OF x(1)] show ?case by (simp add: addLine_def linesOf_def)
qed simp

text \<open>
  The row of a new invoice and its lines are written by different transactions.  When a sibling
  shipment of the order is confirmed between the row and the first line, its confirmation issues
  the invoice: it is frozen with a number and the totals of no line at all, and all its lines are
  then added to the issued invoice.
\<close>

theorem sibling_race_issues_without_lines:
  fixes env sib shipment sibling db
  defines "draft \<equiv> draftFromSnapshot shipment" and "i \<equiv> ge_newId env db"
  assumes env: "wfGstEnv env" "gstInv db" "linesOf db i = []"
    and new: "computeMissingFields draft = Inr []"
      "insertOnConflict (newInvoice i (gh_shop_id shipment) (gh_order_id shipment) draft []) db = Inr (Some db1)"
    and sibling: "gh_shop_id sibling = gh_shop_id shipment" "gh_order_id sibling = gh_order_id shipment"
      "ge_others sib = (\<lambda>_ d. d)" "\<And>key. lastNumber db key < 2147483647"
    and gaps: "ge_others env 0 db1 = snd (createFrom sib sibling db1)" "ge_others env 1 = (\<lambda>d. d)"
    and lines: "insertLines i (isIntraState (dr_seller draft) (dr_placeOfSupply draft)) (dr_lines draft) (ge_others env 0 db1)
      = (Inr (), db2)"
  shows "\<exists>r. r \<in> set (gd_invoices (snd (createFrom env shipment db))) \<and> gi_invoice_id r = i \<and> gi_state r = ISSUED
    \<and> gi_totals r = Some (computeTotals [])
    \<and> length (linesOf (snd (createFrom env shipment db)) i) = length (dr_lines draft)"
proof -
  let ?shop = "gh_shop_id shipment" and ?row = "newInvoice i (gh_shop_id shipment) (gh_order_id shipment) draft []"
  note n = insertOnConflict_NewD [OF new(2)]
  have fresh: "i \<notin> gi_invoice_id ` set (gd_invoices db)" using env(1) by (simp add: wfGstEnv_def i_def)
  have inv1: "gstInv db1"
    using created_props [OF insertOnConflict_Some [OF new(2)] env(2)] fresh by (simp add: newInvoice_def)
  have l1: "linesOf db1 i = []" using env(3) by (simp add: n(1) linesOf_def)
  have find: "findInvoice db1 ?shop i = Some ?row"
    by (rule find_the [OF inv1]) (use n(1) in \<open>simp_all add: newInvoice_def\<close>)
  have "\<not> blank (ip_gstin (dr_seller draft))"
    using new(1) by (auto simp: computeMissingFields_def Let_def missingField_def split: option.splits if_splits)
  then obtain g where g: "ip_gstin (dr_seller draft) = Some g" "g \<noteq> ''''"
    by (cases "ip_gstin (dr_seller draft)") (force simp: blank_def)+
  have "gd_sequences db1 = gd_sequences db" by (simp add: n(1))
  then have room: "lastNumber db1 key < 2147483647" for key using sibling(4) by (simp add: lastNumber_def)
  have "issueTx sib ?shop i db1 = issueComplete sib ?row g db1"
    using find g by (simp add: issueTx_def newInvoice_def)
  moreover have "totalsFromLines (linesOf db1 (gi_invoice_id ?row)) = Inr (computeTotals [])"
    using l1 by (simp add: totalsFromLines_def newInvoice_def)
  ultimately obtain num fy d where tx: "issueTx sib ?shop i db1 = Inr (IssuedAs num fy, d)"
    using issueComplete_ok room by metis
  obtain t key k where t: "totalsFromLines (linesOf db1 i) = Inr t"
    and d: "d = updateInvoices (\<lambda>x. gi_shop_id x = ?shop \<and> gi_invoice_id x = i \<and> gi_state x = ISSUE_PENDING)
        (issueRow num fy t) (db1\<lparr>gd_sequences := map_set key k (gd_sequences db1)\<rparr>)"
    using issueTx_IssuedAs [OF tx] by blast
  let ?r = "issueRow num fy t ?row"
  have o: "ge_others env 0 db1 = auditOut (AuditIssued i num) d"
    using sibling_attempts [of i sibling draft "[]" db db1 sib] new(2) sibling tx by (simp add: gaps(1) attemptIssue_def)
  have r: "?r \<in> set (gd_invoices d)" by (simp add: d updateInvoices_def n(1) newInvoice_def)
  have p: "gd_invoices db2 = gd_invoices d" "length (linesOf db2 i) = length (dr_lines draft)"
    using insertLines_props [OF lines] l1 by (simp_all add: o auditOut_def d updateInvoices_def linesOf_def)
  let ?final = "auditOut (AuditCreated i) db2"
  have inv: "gstInv d" using issueTx_props [OF tx inv1] by blast
  have "findInvoice ?final ?shop i = Some ?r"
    by (rule find_the [OF inv r]) (simp_all add: newInvoice_def issueRow_def auditOut_def p)
  then have "attemptIssue env ?shop i ?final = (Inr (NotIssued ALREADY_ISSUED), ?final)"
    by (simp add: attemptIssue_def issueTx_def issueRow_def)
  then have "snd (createFrom env shipment db) = ?final"
    using new lines by (simp add: createFrom_def Let_def flip: draft_def i_def) (simp add: gaps(2) [unfolded One_nat_def])
  moreover have "t = computeTotals []" using t l1 by (simp add: totalsFromLines_def)
  ultimately show ?thesis
    using r p by (intro exI [of _ ?r]) (simp add: auditOut_def linesOf_def issueRow_def newInvoice_def)
qed

definition racePlace :: GstPickupLocation where
  "racePlace = \<lparr>gp_name = Some ''Acme'', gp_gstin = Some ''27A'', gp_addressLines = Some [''1 Road''],
     gp_city = Some ''Pune'', gp_state = Some ''MH'', gp_pincode = Some ''411001''\<rparr>"

definition raceShipment :: ShipmentInvoiceRow where
  "raceShipment = \<lparr>gh_shipment_id = ''h1'', gh_shop_id = ''s1'', gh_order_id = ''o1'', gh_confirmed = True,
     gh_is_test = False, gh_snapshot = Some \<lparr>gs_pickupLocation = Some racePlace, gs_recipient = Some racePlace,
       gs_lines = [\<lparr>gs_orderLineId = ''l1'', gs_hsnCode = Some ''6109'', gs_quantity = 1, gs_unitPrice = Some ''100.00''\<rparr>]\<rparr>\<rparr>"

definition raceDb :: GstDb where
  "raceDb = \<lparr>gd_indexes = schema0012, gd_invoices = [], gd_lines = [], gd_sequences = [], gd_shipments = [raceShipment],
     gd_shops = [], gd_audit = []\<rparr>"

definition raceEnv :: GstEnv where
  "raceEnv = alone\<lparr>ge_others := (\<lambda>k d. if k = 0 then snd (createFrom alone raceShipment d) else d)\<rparr>"

lemma raceEnv_wf: "wfGstEnv raceEnv"
  using createFrom_reaches [OF alone_wf] by (simp add: wfGstEnv_def raceEnv_def alone_def longId_fresh)

lemma sibling_race_issues_without_lines_witness:
  "\<exists>r. r \<in> set (gd_invoices (snd (createFrom raceEnv raceShipment raceDb))) \<and> gi_state r = ISSUED
    \<and> gi_totals r = Some (computeTotals []) \<and> length (linesOf (snd (createFrom raceEnv raceShipment raceDb)) ''n'') = 1"
proof -
  let ?draft = "draftFromSnapshot raceShipment" and ?i = "ge_newId raceEnv raceDb"
  let ?row = "newInvoice ?i (gh_shop_id raceShipment) (gh_order_id raceShipment) ?draft []"
  have i: "?i = ''n''" by (simp add: raceEnv_def alone_def longId_def raceDb_def)
  have inv: "gstInv raceDb"
    by (auto simp: gstInv_def raceDb_def gapless_def lastNumber_def numbersUnder_def)
  have ms: "computeMissingFields ?draft = Inr []"
    by (simp add: computeMissingFields_def draftFromSnapshot_def raceShipment_def racePlace_def partyOf_def Let_def
        missingField_def missingOfLine_def blank_def trim_def is_ws_def)
  have new: "insertOnConflict ?row raceDb = Inr (Some (raceDb\<lparr>gd_invoices := [?row]\<rparr>))"
    by (simp add: insertOnConflict_def insertInvoice_def clashesOn_def raceDb_def schema0012_def)
  have "is_ok (draftLine ''n'' True \<lparr>nl_orderLineId = Some ''l1'', nl_hsnCode = Some ''6109'', nl_quantity = 1,
      nl_unitPrice = Some ''100.00'', nl_gstRate = None\<rparr>)"
  proof -
    have "taxableValuePaise (Some ''100.00'') 1 = Inr (Some 10000)" by code_simp
    moreover have "computeLineTax 10000 defaultGstRate True = Inr \<lparr>lt_cgst = 900, lt_sgst = 900, lt_igst = 0\<rparr>" by code_simp
    ultimately show ?thesis by (simp add: draftLine_def rateOr_def arith_def taxLine_def lineTotalPaise_def lineChecks_def)
  qed
  then obtain l where l: "draftLine ''n'' True \<lparr>nl_orderLineId = Some ''l1'', nl_hsnCode = Some ''6109'', nl_quantity = 1,
      nl_unitPrice = Some ''100.00'', nl_gstRate = None\<rparr> = Inr l" by (auto simp: is_ok_iff)
  have intra: "isIntraState (dr_seller ?draft) (dr_placeOfSupply ?draft)"
    by (simp add: isIntraState_def draftFromSnapshot_def raceShipment_def racePlace_def partyOf_def Let_def blank_def trim_def is_ws_def)
  have dl: "dr_lines ?draft = [\<lparr>nl_orderLineId = Some ''l1'', nl_hsnCode = Some ''6109'', nl_quantity = 1,
      nl_unitPrice = Some ''100.00'', nl_gstRate = None\<rparr>]"
    by (simp add: draftFromSnapshot_def raceShipment_def Let_def)
  have ins: "insertLines ?i (isIntraState (dr_seller ?draft) (dr_placeOfSupply ?draft)) (dr_lines ?draft) d = (Inr (), addLine l d)" for d
    using l intra by (simp add: i dl)
  have "\<exists>r. r \<in> set (gd_invoices (snd (createFrom raceEnv raceShipment raceDb))) \<and> gi_invoice_id r = ?i \<and> gi_state r = ISSUED
    \<and> gi_totals r = Some (computeTotals []) \<and> length (linesOf (snd (createFrom raceEnv raceShipment raceDb)) ?i) = length (dr_lines ?draft)"
    by (rule sibling_race_issues_without_lines [where sibling = raceShipment and sib = alone, OF raceEnv_wf inv _ ms new _ _ _ _ _ _ ins])
      (simp_all add: linesOf_def raceDb_def lastNumber_def raceEnv_def alone_def)
  then show ?thesis by (auto simp: i dl)
qed

end
