(* ===== verification/Csv.thy ===== *)
theory Csv
  imports Prelude
begin

text \<open>
  The two readers of comma-separated values: \<open>parseCsv\<close> of
  \<open>src/modules/recon-freight/recon-csv.ts\<close> and \<open>parseCsvText\<close> of
  \<open>src/modules/rate-engine/rate-card-csv.ts\<close>.  Each is one pass over the text with the state of
  its loop as arguments.  A character is a byte, so the byte order mark the first one skips does
  not occur.  A relation says which texts a conforming writer may print for a table, and both
  readers read back any of them; \<open>csvCell\<close> and \<open>renderReport\<close> of
  \<open>src/modules/reports/csv-renderer.ts\<close>, the writer of the reports, print such a text.
\<close>

section \<open>The readers\<close>

abbreviation quote :: char where "quote \<equiv> CHR 0x22"
abbreviation cr :: char where "cr \<equiv> CHR 0x0D"
abbreviation lf :: char where "lf \<equiv> CHR 0x0A"

type_synonym grid = "string list list"

function csvLoop :: "string \<Rightarrow> bool \<Rightarrow> string \<Rightarrow> string list \<Rightarrow> grid \<Rightarrow> grid option" where
  "csvLoop [] inQuotes cell row rows =
     (if inQuotes then None
      else if cell \<noteq> '''' \<or> row \<noteq> [] then Some (rows @ [row @ [cell]]) else Some rows)"
| "csvLoop (ch # rest) inQuotes cell row rows =
     (if inQuotes then
        (if ch = quote then
           (if rest \<noteq> [] \<and> hd rest = quote then csvLoop (tl rest) True (cell @ [quote]) row rows
            else csvLoop rest False cell row rows)
         else csvLoop rest True (cell @ [ch]) row rows)
      else if ch = quote \<and> cell = '''' then csvLoop rest True cell row rows
      else if ch = CHR '','' then csvLoop rest False '''' (row @ [cell]) rows
      else if ch = lf \<or> ch = cr then
        csvLoop (if ch = cr \<and> rest \<noteq> [] \<and> hd rest = lf then tl rest else rest) False '''' [] (rows @ [row @ [cell]])
      else csvLoop rest False (cell @ [ch]) row rows)"
  by pat_completeness auto
termination by (relation "measure (\<lambda>(s, _). length s)") auto

definition blankRow :: "string list \<Rightarrow> bool" where
  "blankRow row \<longleftrightarrow> list_all (\<lambda>c. trim c = '''') row"

definition dropBlankEnd :: "grid \<Rightarrow> grid" where
  "dropBlankEnd rows = rev (dropWhile blankRow (rev rows))"

text \<open>\<open>None\<close> is the error of an unterminated quoted cell.\<close>

definition parseCsv :: "string \<Rightarrow> grid option" where
  "parseCsv text = map_option dropBlankEnd (csvLoop text False '''' [] [])"

function csvTextLoop :: "string \<Rightarrow> bool \<Rightarrow> bool \<Rightarrow> string \<Rightarrow> string list \<Rightarrow> grid \<Rightarrow> grid option" where
  "csvTextLoop [] inQuotes fieldStarted field row rows =
     (if inQuotes then None
      else if fieldStarted \<or> row \<noteq> [] then Some (rows @ [row @ [field]]) else Some rows)"
| "csvTextLoop (ch # rest) inQuotes fieldStarted field row rows =
     (if inQuotes then
        (if ch = quote then
           (if rest \<noteq> [] \<and> hd rest = quote then csvTextLoop (tl rest) True fieldStarted (field @ [quote]) row rows
            else csvTextLoop rest False fieldStarted field row rows)
         else csvTextLoop rest True fieldStarted (field @ [ch]) row rows)
      else if ch = quote \<and> \<not> fieldStarted then csvTextLoop rest True True field row rows
      else if ch = CHR '','' then csvTextLoop rest False False '''' (row @ [field]) rows
      else if ch = lf \<or> ch = cr then
        csvTextLoop (if ch = cr \<and> rest \<noteq> [] \<and> hd rest = lf then tl rest else rest) False False '''' [] (rows @ [row @ [field]])
      else csvTextLoop rest False True (field @ [ch]) row rows)"
  by pat_completeness auto
termination by (relation "measure (\<lambda>(s, _). length s)") auto

definition parseCsvText :: "string \<Rightarrow> grid option" where
  "parseCsvText text = csvTextLoop text False False '''' [] []"

section \<open>The writer of the reports\<close>

text \<open>A cell is a text or null.\<close>

type_synonym ReportCell = "string option"

abbreviation escaped :: "string \<Rightarrow> string" where
  "escaped c \<equiv> concat (map (\<lambda>ch. if ch = quote then [quote, quote] else [ch]) c)"

definition csvCell :: "ReportCell \<Rightarrow> string" where
  "csvCell value = (case value of None \<Rightarrow> ''''
     | Some s \<Rightarrow> if list_ex (\<lambda>ch. ch \<in> {quote, CHR '','', cr, lf}) s then quote # escaped s @ [quote] else s)"

text \<open>The header lines are an argument: the report's name, its instant and its filters.\<close>

definition renderReport :: "string list \<Rightarrow> string list \<Rightarrow> ReportCell list list \<Rightarrow> string" where
  "renderReport header columns rows =
     joinStr [cr, lf] (header @ [joinStr '','' (map (csvCell \<circ> Some) columns)]
       @ map (\<lambda>r. joinStr '','' (map csvCell r)) rows) @ [cr, lf]"

section \<open>Conforming texts\<close>

text \<open>
  A cell is printed in quotes, its quotes doubled, or bare when no comma and no line end is in it
  and it does not begin with a quote.
\<close>

inductive prints_cell :: "string \<Rightarrow> string \<Rightarrow> bool" where
  quoted: "prints_cell c (quote # escaped c @ [quote])"
| bare: "set c \<inter> {CHR '','', cr, lf} = {} \<Longrightarrow> c = '''' \<or> hd c \<noteq> quote \<Longrightarrow> prints_cell c c"

inductive prints_row :: "string list \<Rightarrow> string \<Rightarrow> bool" where
  single: "prints_cell c t \<Longrightarrow> prints_row [c] t"
| more: "prints_cell c t \<Longrightarrow> prints_row cs u \<Longrightarrow> prints_row (c # cs) (t @ CHR '','' # u)"

text \<open>
  A line ends with a line feed, a carriage return or both, and the last one may have no end unless
  it is empty; a carriage return alone is not followed by a line feed.
\<close>

inductive prints :: "grid \<Rightarrow> string \<Rightarrow> bool" where
  none: "prints [] ''''"
| last_line: "prints_row r t \<Longrightarrow> t \<noteq> '''' \<Longrightarrow> prints [r] t"
| line: "prints_row r t \<Longrightarrow> e \<in> {[lf], [cr, lf], [cr]} \<Longrightarrow> e = [cr] \<longrightarrow> u = '''' \<or> hd u \<noteq> lf \<Longrightarrow>
    prints g u \<Longrightarrow> prints (r # g) (t @ e @ u)"

section \<open>Reading back\<close>

text \<open>Inside the quotes, and at the quote that closes them; a bare cell; a line end.\<close>

lemma csvLoop_quoted:
  assumes "rest = [] \<or> hd rest \<noteq> quote"
  shows "csvLoop (escaped c @ quote # rest) True cell row rows = csvLoop rest False (cell @ c) row rows"
  by (induction c arbitrary: cell) (use assms in auto)

lemma csvTextLoop_quoted:
  assumes "rest = [] \<or> hd rest \<noteq> quote"
  shows "csvTextLoop (escaped c @ quote # rest) True st cell row rows = csvTextLoop rest False st (cell @ c) row rows"
  by (induction c arbitrary: cell) (use assms in auto)

lemma csvLoop_bare:
  "set c \<inter> {CHR '','', cr, lf} = {} \<Longrightarrow> cell \<noteq> '''' \<or> c = '''' \<or> hd c \<noteq> quote \<Longrightarrow>
    csvLoop (c @ rest) False cell row rows = csvLoop rest False (cell @ c) row rows"
  by (induction c arbitrary: cell) auto

lemma csvTextLoop_bare:
  "set c \<inter> {CHR '','', cr, lf} = {} \<Longrightarrow> st \<or> c = '''' \<or> hd c \<noteq> quote \<Longrightarrow>
    csvTextLoop (c @ rest) False st cell row rows = csvTextLoop rest False (st \<or> c \<noteq> '''') (cell @ c) row rows"
  by (induction c arbitrary: cell st) auto

lemma line_end:
  assumes "e \<in> {[lf], [cr, lf], [cr]}" "e = [cr] \<longrightarrow> u = '''' \<or> hd u \<noteq> lf"
  shows "csvLoop (e @ u) False cell row rows = csvLoop u False '''' [] (rows @ [row @ [cell]])"
    and "csvTextLoop (e @ u) False st cell row rows = csvTextLoop u False False '''' [] (rows @ [row @ [cell]])"
  using assms by auto

text \<open>A cell up to its delimiter, and a row up to its line end.\<close>

abbreviation at_end :: "string \<Rightarrow> bool" where
  "at_end rest \<equiv> rest = '''' \<or> hd rest \<in> {CHR '','', cr, lf}"

lemma csvLoop_cell:
  assumes "prints_cell c t" "at_end rest"
  shows "csvLoop (t @ rest) False '''' row rows = csvLoop rest False c row rows"
  using assms(1)
proof cases
  case quoted
  then show ?thesis using csvLoop_quoted [of rest c "''''" row rows] assms(2) by auto
next
  case bare
  then show ?thesis using csvLoop_bare [of c "''''" rest row rows] by simp
qed

lemma csvTextLoop_cell:
  assumes "prints_cell c t" "at_end rest"
  shows "csvTextLoop (t @ rest) False False '''' row rows = csvTextLoop rest False (t \<noteq> '''') c row rows"
  using assms(1)
proof cases
  case quoted
  then show ?thesis using csvTextLoop_quoted [of rest c True "''''" row rows] assms(2) by auto
next
  case bare
  then show ?thesis using csvTextLoop_bare [of c False rest "''''" row rows] by simp
qed

lemma csvLoop_row:
  "prints_row cs t \<Longrightarrow> rest = '''' \<or> hd rest \<in> {cr, lf} \<Longrightarrow>
    csvLoop (t @ rest) False '''' row rows = csvLoop rest False (last cs) (row @ butlast cs) rows \<and> cs \<noteq> []"
proof (induction arbitrary: row rule: prints_row.induct)
  case (single c t)
  then show ?case using csvLoop_cell [of c t rest row rows] by auto
next
  case (more c t cs u)
  then show ?case using csvLoop_cell [of c t "CHR '','' # u @ rest" row rows] by auto
qed

lemma csvTextLoop_row:
  "prints_row cs t \<Longrightarrow> rest = '''' \<or> hd rest \<in> {cr, lf} \<Longrightarrow>
    \<exists>st. csvTextLoop (t @ rest) False False '''' row rows = csvTextLoop rest False st (last cs) (row @ butlast cs) rows
      \<and> (t \<noteq> '''' \<longrightarrow> st \<or> butlast cs \<noteq> [])"
proof (induction arbitrary: row rule: prints_row.induct)
  case (single c t)
  then show ?case using csvTextLoop_cell [of c t rest row rows] by (intro exI [of _ "t \<noteq> ''''"]) auto
next
  case (more c t cs u)
  then obtain st where "csvTextLoop (u @ rest) False False '''' (row @ [c]) rows
      = csvTextLoop rest False st (last cs) ((row @ [c]) @ butlast cs) rows" by blast
  moreover have "cs \<noteq> []" using more.hyps(2) by (auto elim: prints_row.cases)
  ultimately show ?case
    using csvTextLoop_cell [OF more.hyps(1), of "CHR '','' # u @ rest" row rows] by (intro exI [of _ st]) auto
qed

lemma row_nonempty: "prints_row cs t \<Longrightarrow> butlast cs @ [last cs] = cs"
  by (erule prints_row.cases) (auto elim: prints_row.cases)

lemma hd_line_end: "e \<in> {[lf], [cr, lf], [cr]} \<Longrightarrow> hd (e @ u) \<in> {cr, lf}"
  by auto

lemma csvTextLoop_prints: "prints grid text \<Longrightarrow> csvTextLoop text False False '''' [] rows = Some (rows @ grid)"
proof (induction arbitrary: rows rule: prints.induct)
  case (last_line r t)
  then show ?case
    using csvTextLoop_row [OF last_line.hyps(1), of "''''" "[]" rows] row_nonempty [OF last_line.hyps(1)] by auto
next
  case (line r t e u g)
  obtain st where "csvTextLoop (t @ e @ u) False False '''' [] rows = csvTextLoop (e @ u) False st (last r) ([] @ butlast r) rows"
    using csvTextLoop_row [OF line.hyps(1) disjI2 [OF hd_line_end [OF line.hyps(2)]]] by blast
  also have "\<dots> = csvTextLoop u False False '''' [] (rows @ [r])"
    unfolding line_end(2) [OF line.hyps(2,3)] append_Nil row_nonempty [OF line.hyps(1)] ..
  finally show ?case using line.IH [of "rows @ [r]"] by simp
qed simp

text \<open>The reader of invoices loses a last line that is one quoted empty cell without a line end.\<close>

lemma csvLoop_prints:
  "prints grid text \<Longrightarrow> \<exists>g. csvLoop text False '''' [] rows = Some (rows @ g) \<and> (g = grid \<or> grid = g @ [['''']])"
proof (induction arbitrary: rows rule: prints.induct)
  case (last_line r t)
  have "csvLoop t False '''' [] rows = csvLoop '''' False (last r) (butlast r) rows" "r \<noteq> []"
    using csvLoop_row [OF last_line.hyps(1), of "''''" "[]" rows] by auto
  then show ?case using row_nonempty [OF last_line.hyps(1)]
    by (cases "last r = '''' \<and> butlast r = []") auto
next
  case (line r t e u g)
  obtain h where h: "csvLoop u False '''' [] (rows @ [r]) = Some ((rows @ [r]) @ h)" "h = g \<or> g = h @ [['''']]"
    using line.IH by blast
  have "csvLoop (t @ e @ u) False '''' [] rows = csvLoop (e @ u) False (last r) ([] @ butlast r) rows"
    using csvLoop_row [OF line.hyps(1) disjI2 [OF hd_line_end [OF line.hyps(2)]]] by blast
  also have "\<dots> = csvLoop u False '''' [] (rows @ [r])"
    unfolding line_end(1) [OF line.hyps(2,3)] append_Nil row_nonempty [OF line.hyps(1)] ..
  finally show ?case using h by (intro exI [of _ "r # h"]) auto
qed simp

lemma dropBlankEnd_id: "grid = [] \<or> \<not> blankRow (last grid) \<Longrightarrow> dropBlankEnd grid = grid"
  by (cases grid rule: rev_cases) (auto simp: dropBlankEnd_def)

lemma dropBlankEnd_empty: "dropBlankEnd (g @ [['''']]) = dropBlankEnd g"
  by (simp add: dropBlankEnd_def blankRow_def trim_def)

lemma both_read:
  assumes "prints grid text"
  shows "parseCsvText text = Some grid \<and> parseCsv text = Some (dropBlankEnd grid)"
  using csvTextLoop_prints [OF assms, of "[]"] csvLoop_prints [OF assms, of "[]"] dropBlankEnd_empty
  by (auto simp: parseCsvText_def parseCsv_def)

text \<open>The writer of the reports conforms.\<close>

lemma csvCell_prints: "prints_cell (case v of None \<Rightarrow> '''' | Some s \<Rightarrow> s) (csvCell v)"
proof (cases v)
  case (Some s)
  then show ?thesis
  proof (cases "list_ex (\<lambda>ch. ch \<in> {quote, CHR '','', cr, lf}) s")
    case False
    then have plain: "\<forall>ch \<in> set s. ch \<notin> {quote, CHR '','', cr, lf}" by (simp only: list_ex_iff) blast
    then have "s = '''' \<or> hd s \<noteq> quote" using hd_in_set by blast
    moreover have "set s \<inter> {CHR '','', cr, lf} = {}" using plain by blast
    ultimately have "prints_cell s s" by (intro prints_cell.bare)
    with False Some show ?thesis by (simp add: csvCell_def)
  qed (simp add: csvCell_def prints_cell.quoted)
qed (simp add: csvCell_def prints_cell.bare)

abbreviation reportTexts :: "ReportCell list \<Rightarrow> string list" where
  "reportTexts r \<equiv> map (\<lambda>v. case v of None \<Rightarrow> '''' | Some s \<Rightarrow> s) r"

lemma row_prints: "r \<noteq> [] \<Longrightarrow> prints_row (reportTexts r) (joinStr '','' (map csvCell r))"
proof (induction r rule: induct_list012)
  case (3 v w r)
  then show ?case using prints_row.more [OF csvCell_prints, of "reportTexts (w # r)"] by simp
qed (simp_all add: prints_row.single csvCell_prints)

lemma joinStr_ends: "ls \<noteq> [] \<Longrightarrow> joinStr sep ls @ sep = concat (map (\<lambda>l. l @ sep) ls)"
  by (induction sep ls rule: joinStr.induct) auto

lemma lines_print: "[] \<notin> set rows \<Longrightarrow>
    prints (map reportTexts rows) (concat (map (\<lambda>r. joinStr '','' (map csvCell r) @ [cr, lf]) rows))"
proof (induction rows)
  case (Cons r rows)
  then show ?case using prints.line [OF row_prints, of r "[cr, lf]"] by auto
qed (simp add: prints.none)

lemma report_read:
  assumes "columns \<noteq> []" "[] \<notin> set rows"
  shows "\<exists>table. renderReport header columns rows = concat (map (\<lambda>l. l @ [cr, lf]) header) @ table
    \<and> parseCsvText table = Some (columns # map reportTexts rows)
    \<and> parseCsv table = Some (dropBlankEnd (columns # map reportTexts rows))"
proof -
  have *: "[] \<notin> set (map Some columns # rows)" using assms by auto
  let ?table = "concat (map (\<lambda>r. joinStr '','' (map csvCell r) @ [cr, lf]) (map Some columns # rows))"
  have "renderReport header columns rows = concat (map (\<lambda>l. l @ [cr, lf]) header) @ ?table"
    using joinStr_ends [of "header @ map (\<lambda>r. joinStr '','' (map csvCell r)) (map Some columns # rows)" "[cr, lf]"]
    by (simp add: renderReport_def comp_def)
  moreover have "map reportTexts (map Some columns # rows) = columns # map reportTexts rows" by (simp add: comp_def)
  ultimately show ?thesis using both_read [OF lines_print [OF *]] by metis
qed

text \<open>The file of a table, its first row the column names, for concrete inputs.\<close>

definition tableFile :: "grid \<Rightarrow> string" where
  "tableFile grid = renderReport [] (hd grid) (map (map Some) (tl grid))"

lemma tableFile_read:
  assumes "grid \<noteq> []" "[] \<notin> set grid"
  shows "parseCsvText (tableFile grid) = Some grid" "parseCsv (tableFile grid) = Some (dropBlankEnd grid)"
proof -
  have "hd grid \<noteq> []" "[] \<notin> set (map (map Some) (tl grid))" using assms by (cases grid; auto)+
  from report_read [OF this, of "[]"] assms(1)
  show "parseCsvText (tableFile grid) = Some grid" "parseCsv (tableFile grid) = Some (dropBlankEnd grid)"
    by (auto simp: tableFile_def comp_def)
qed

text \<open>
  C23: Both readers read back any text a conforming writer prints for a table: the text of each
  cell quoted or bare, any characters in a quoted one, each line ended by a line feed, a carriage
  return or both, the last line also by nothing.  The reader of rate cards returns the table; the
  reader of invoices the table without its trailing blank rows.  What the report renderer
  writes after its header lines is such a text, with a null cell as an empty one.
\<close>

theorem csv_roundtrip:
  "(prints grid text \<longrightarrow> parseCsvText text = Some grid \<and> parseCsv text = Some (dropBlankEnd grid)
      \<and> (grid = [] \<or> \<not> blankRow (last grid) \<longrightarrow> parseCsv text = Some grid))
    \<and> (columns \<noteq> [] \<and> [] \<notin> set rows \<longrightarrow>
      (\<exists>table. renderReport header columns rows = concat (map (\<lambda>l. l @ [cr, lf]) header) @ table
        \<and> parseCsvText table = Some (columns # map (map (\<lambda>v. case v of None \<Rightarrow> '''' | Some s \<Rightarrow> s)) rows)
        \<and> parseCsv table = Some (dropBlankEnd (columns # map (map (\<lambda>v. case v of None \<Rightarrow> '''' | Some s \<Rightarrow> s)) rows))))"
  using both_read dropBlankEnd_id report_read by auto

text \<open>Bare and quoted cells, a line end of each kind and none at the end; and a report of one line.\<close>

lemma csv_roundtrip_witness:
  "parseCsv (''a,'' @ [quote, quote, cr, lf, quote, lf, quote, quote, quote, cr] @ ''b'') = Some [[''a'', ''''], [[lf, quote]], [''b'']]
    \<and> (\<exists>table. renderReport [''# filters: {}''] [''awb'', ''note''] [[Some ''X1'', None]] = ''# filters: {}'' @ [cr, lf] @ table
        \<and> parseCsvText table = Some [[''awb'', ''note''], [''X1'', '''']])"
proof -
  have bare: "prints_cell ''a'' ''a''" "prints_cell ''b'' ''b''" by (auto intro: prints_cell.bare)
  have r1: "prints_row [''a'', ''''] (''a,'' @ [quote, quote])"
    using prints_row.more [OF bare(1) prints_row.single [OF prints_cell.quoted [of "''''"]]] by simp
  have r2: "prints_row [[lf, quote]] [quote, lf, quote, quote, quote]"
    using prints_row.single [OF prints_cell.quoted [of "[lf, quote]"]] by simp
  have "prints [[''b'']] ''b''" by (rule prints.last_line [OF prints_row.single [OF bare(2)]]) simp
  from prints.line [OF r1 _ _ prints.line [OF r2 _ _ this, of "[cr]"], of "[cr, lf]"]
  have "prints [[''a'', ''''], [[lf, quote]], [''b'']]
      (''a,'' @ [quote, quote, cr, lf, quote, lf, quote, quote, quote, cr] @ ''b'')" by simp
  moreover have "\<not> blankRow (last [[''a'', ''''], [[lf, quote]], [''b'']])"
    by (simp add: blankRow_def trim_def is_ws_def)
  ultimately have "parseCsv (''a,'' @ [quote, quote, cr, lf, quote, lf, quote, quote, quote, cr] @ ''b'')
      = Some [[''a'', ''''], [[lf, quote]], [''b'']]"
    using csv_roundtrip [of "[[''a'', ''''], [[lf, quote]], [''b'']]" _ "[]" "[]" "[]"] by blast
  moreover have "\<exists>table. renderReport [''# filters: {}''] [''awb'', ''note''] [[Some ''X1'', None]] = ''# filters: {}'' @ [cr, lf] @ table
      \<and> parseCsvText table = Some [[''awb'', ''note''], [''X1'', '''']]"
    using conjunct2 [OF csv_roundtrip [of "[]" "''''" "[''awb'', ''note'']" "[[Some ''X1'', None]]" "[''# filters: {}'']"]] by auto
  ultimately show ?thesis by blast
qed

end
