(* ===== verification/ReconCsv.thy ===== *)
theory ReconCsv
  imports Csv ReconProcessing TrackingUtil Dates
begin

text \<open>
  \<open>src/modules/recon-freight/recon-csv.ts\<close>: the cells of a courier invoice and the mapping of its
  lines to the rows \<open>ReconProcessing\<close> works on.  The rupee sign is no byte and does not occur.
\<close>

section \<open>Data\<close>

datatype FreightField =
    F_awb | F_amount | F_weight | F_shipper_company | F_invoice_reference | F_invoice_date | F_shipment_date
  | F_origin_station | F_destination_station | F_remark

record FreightColumnMap =
  fm_mappings :: "(FreightField \<times> string) list"
  fm_chargeTypeColumn :: "string option"
  fm_chargeTypeValueMap :: "(string \<times> ChargeType) list option"

datatype csv_error =
    UnterminatedCell
  | RowParseFailure string nat
  | CellArithmetic js_error

definition cellArith :: "js_error + 'a \<Rightarrow> csv_error + 'a" where
  "cellArith r = (case r of Inl e \<Rightarrow> Inl (CellArithmetic e) | Inr x \<Rightarrow> Inr x)"

section \<open>Cells\<close>

definition neutralizeFormula :: "string \<Rightarrow> string" where
  "neutralizeFormula cell =
     (if cell \<noteq> '''' \<and> hd cell \<in> set ''=+-@'' then CHR 0x27 # cell else cell)"

definition tenThousandthsOf :: "string \<Rightarrow> int option" where
  "tenThousandthsOf cleaned = (case dec_re 4 cleaned of None \<Rightarrow> None | Some (whole, frac) \<Rightarrow> Some (scaled 4 whole frac))"

definition withoutSeparators :: "string \<Rightarrow> string" where
  "withoutSeparators s = filter (\<lambda>c. c \<noteq> CHR '','' \<and> \<not> is_ws c) s"

definition parseInvoiceAmount :: "string option \<Rightarrow> js_error + int option" where
  "parseInvoiceAmount raw =
     (case raw of None \<Rightarrow> Inr None
      | Some r \<Rightarrow>
          (let cleaned = withoutSeparators r; sign = (cleaned \<noteq> '''' \<and> hd cleaned = CHR ''-'')
           in case tenThousandthsOf (if sign then tl cleaned else cleaned) of
                None \<Rightarrow> Inr None
              | Some t \<Rightarrow> bindR (divRoundHalfUp t 100) (\<lambda>paise. Inr (Some (if sign then - paise else paise)))))"

definition stripKg :: "string \<Rightarrow> string" where
  "stripKg s = (let n = length s - 2 in if length s \<ge> 2 \<and> to_lower (drop n s) = ''kg'' then take n s else s)"

definition parseWeightKg :: "string option \<Rightarrow> js_error + string option" where
  "parseWeightKg raw =
     (case raw of None \<Rightarrow> Inr None
      | Some r \<Rightarrow> (case tenThousandthsOf (stripKg (withoutSeparators r)) of
            None \<Rightarrow> Inr None
          | Some t \<Rightarrow> bindR (divRoundHalfUp (t * 1000) 10000) (\<lambda>grams. Inr (Some (show_fixed 3 grams)))))"

text \<open>\<open>^(\d{4})-(\d{2})-(\d{2})$\<close>, as year, month and day.\<close>

definition isoParts :: "string \<Rightarrow> (nat \<times> nat \<times> nat) option" where
  "isoParts t =
     (if length t = 10 \<and> t ! 4 = CHR ''-'' \<and> t ! 7 = CHR ''-'' \<and> list_all is_digit (take 4 t)
         \<and> list_all is_digit (take 2 (drop 5 t)) \<and> list_all is_digit (drop 8 t)
      then Some (dec_val (take 4 t), dec_val (take 2 (drop 5 t)), dec_val (drop 8 t)) else None)"

text \<open>\<open>(\d{1,2})[-/]\<close> at the start of a text, with what follows.\<close>

definition shortNumber :: "string \<Rightarrow> (nat \<times> string) option" where
  "shortNumber t =
     (let ds = takeWhile is_digit t; rest = dropWhile is_digit t in
      if (length ds = 1 \<or> length ds = 2) \<and> rest \<noteq> [] \<and> (hd rest = CHR ''-'' \<or> hd rest = CHR ''/'')
      then Some (dec_val ds, tl rest) else None)"

definition dmyParts :: "string \<Rightarrow> (nat \<times> nat \<times> nat) option" where
  "dmyParts t =
     (case shortNumber t of None \<Rightarrow> None
      | Some (d, t1) \<Rightarrow> (case shortNumber t1 of None \<Rightarrow> None
          | Some (mo, t2) \<Rightarrow>
              if length t2 = 4 \<and> list_all is_digit t2 then Some (dec_val t2, mo, d) else None))"

text \<open>\<open>Date.UTC\<close> reads the years 0 to 99 as 1900 to 1999; days past the end of a month roll over.\<close>

definition realDay :: "nat \<Rightarrow> nat \<Rightarrow> nat \<Rightarrow> bool" where
  "realDay y mo d =
     (let year = (if y \<le> 99 then 1900 + int y else int y)
      in snd (civilDate (civilDays year (int mo) (int d))) = (int mo, int d))"

definition showDay :: "nat \<Rightarrow> nat \<Rightarrow> nat \<Rightarrow> string" where
  "showDay y mo d = pad_start 4 (CHR ''0'') (show_nat y) @ ''-'' @ pad_start 2 (CHR ''0'') (show_nat mo) @ ''-''
     @ pad_start 2 (CHR ''0'') (show_nat d)"

definition parseInvoiceDate :: "string option \<Rightarrow> string option" where
  "parseInvoiceDate raw =
     (case raw of None \<Rightarrow> None
      | Some r \<Rightarrow>
          (let t = trim r in
           if t = '''' then None
           else case (case isoParts t of Some p \<Rightarrow> Some p | None \<Rightarrow> dmyParts t) of
               None \<Rightarrow> None
             | Some (y, mo, d) \<Rightarrow>
                 if mo < 1 \<or> mo > 12 \<or> d < 1 \<or> d > 31 then None
                 else if \<not> realDay y mo d then None
                 else Some (showDay y mo d)))"

definition textCell :: "string option \<Rightarrow> string option" where
  "textCell raw =
     (case raw of None \<Rightarrow> None
      | Some r \<Rightarrow> (let t = trim r in if t = '''' then None else Some (neutralizeFormula t)))"

section \<open>Lines\<close>

text \<open>\<open>findIndex\<close>; \<open>None\<close> is -1.\<close>

fun findCol :: "string list \<Rightarrow> string \<Rightarrow> nat option" where
  "findCol [] name = None"
| "findCol (h # hs) name = (if h = name then Some 0 else map_option Suc (findCol hs name))"

definition colOf :: "string list \<Rightarrow> string option \<Rightarrow> nat option" where
  "colOf header headerName = Option.bind headerName (findCol header)"

definition cellAt :: "string list \<Rightarrow> nat option \<Rightarrow> string option" where
  "cellAt row idx = (case idx of None \<Rightarrow> None | Some i \<Rightarrow> if i < length row then Some (row ! i) else None)"

definition trimmedCell :: "string option \<Rightarrow> string" where
  "trimmedCell c = trim (case c of None \<Rightarrow> '''' | Some s \<Rightarrow> s)"

definition chargeValues :: "FreightColumnMap \<Rightarrow> (string \<times> ChargeType) list" where
  "chargeValues cm = map_from (map (\<lambda>(k, v). (to_lower (trim k), v))
     (case fm_chargeTypeValueMap cm of None \<Rightarrow> [] | Some kvs \<Rightarrow> kvs))"

definition chargeOf :: "(string \<times> ChargeType) list \<Rightarrow> string \<Rightarrow> ChargeType \<times> bool" where
  "chargeOf values chargeRaw =
     (if chargeRaw = '''' then (FORWARD, False)
      else case map_of values (to_lower chargeRaw) of Some c \<Rightarrow> (c, False) | None \<Rightarrow> (OTHER, True))"

definition mapRow :: "FreightColumnMap \<Rightarrow> string list \<Rightarrow> nat \<times> string list \<Rightarrow> js_error + ParsedInvoiceRow" where
  "mapRow cm header line =
     (let row = snd line;
          field = (\<lambda>f. cellAt row (colOf header (map_of (fm_mappings cm) f)));
          awbRaw = trimmedCell (field F_awb);
          chargeCol = (case fm_chargeTypeColumn cm of None \<Rightarrow> None | Some c \<Rightarrow> if c = '''' then None else colOf header (Some c));
          (chargeType, chargeTypeUnmapped) = chargeOf (chargeValues cm) (trimmedCell (cellAt row chargeCol))
      in bindR (parseInvoiceAmount (field F_amount)) (\<lambda>amountPaise.
         bindR (parseWeightKg (field F_weight)) (\<lambda>weight.
         Inr \<lparr>pi_lineNumber = fst line, pi_awbRaw = awbRaw,
              pi_awbNormalized = (if awbRaw = '''' then '''' else normalizeAwb awbRaw),
              pi_chargeType = chargeType, pi_chargeTypeUnmapped = chargeTypeUnmapped,
              pi_invoicedAmount = map_option paiseToRupees amountPaise, pi_invoicedWeightKg = weight,
              pi_shipperCompany = textCell (field F_shipper_company),
              pi_invoiceReference = textCell (field F_invoice_reference),
              pi_invoiceDate = parseInvoiceDate (field F_invoice_date),
              pi_shipmentDate = parseInvoiceDate (field F_shipment_date),
              pi_originStation = textCell (field F_origin_station),
              pi_destinationStation = textCell (field F_destination_station),
              pi_remark = textCell (field F_remark)\<rparr>)))"

definition dataLines :: "grid \<Rightarrow> (nat \<times> string list) list" where
  "dataLines grid = filter (\<lambda>line. \<not> blankRow (snd line)) (enumerate 1 (tl grid))"

definition mapInvoiceRows :: "grid \<Rightarrow> FreightColumnMap \<Rightarrow> csv_error + ParsedInvoiceRow list" where
  "mapInvoiceRows grid cm =
     (if grid = [] then Inl (RowParseFailure ''empty file'' 0)
      else (let header = map trim (hd grid) in
        if colOf header (map_of (fm_mappings cm) F_awb) = None \<or> colOf header (map_of (fm_mappings cm) F_amount) = None
        then Inl (RowParseFailure ''required awb/amount columns not found in header'' 0)
        else cellArith (mapR (mapRow cm header) (dataLines grid))))"

text \<open>\<open>parseFile\<close> of the worker: text to rows.\<close>

definition parseInvoiceFile :: "string \<Rightarrow> FreightColumnMap \<Rightarrow> csv_error + ParsedInvoiceRow list" where
  "parseInvoiceFile text cm = (case parseCsv text of None \<Rightarrow> Inl UnterminatedCell | Some grid \<Rightarrow> mapInvoiceRows grid cm)"

section \<open>Laws\<close>

lemma tenThousandths_nonneg: "tenThousandthsOf s = Some t \<Longrightarrow> 0 \<le> t"
  by (auto simp: tenThousandthsOf_def scaled_def split: option.splits)

lemma parseInvoiceAmount_ok: "\<exists>p. parseInvoiceAmount raw = Inr p"
  by (auto simp: parseInvoiceAmount_def Let_def divRoundHalfUp_eq dest: tenThousandths_nonneg split: option.split)

lemma parseWeightKg_ok: "\<exists>w. parseWeightKg raw = Inr w \<and> (\<forall>t. w = Some t \<longrightarrow> (\<exists>g. kgToGrams t = Inr g \<and> 0 \<le> g))"
proof -
  have "kgToGrams (show_fixed 3 g) = Inr g" if "0 \<le> g" for g
    using kgToGrams_gramsToKg [OF that] by (simp add: gramsToKg_def)
  then show ?thesis
    by (auto simp: parseWeightKg_def divRoundHalfUp_eq dest: tenThousandths_nonneg split: option.split)
qed

lemma padded_digits: "0 < k \<Longrightarrow> n < 10 ^ k \<Longrightarrow> length (pad_start k (CHR ''0'') (show_nat n)) = k
    \<and> list_all is_digit (pad_start k (CHR ''0'') (show_nat n)) \<and> dec_val (pad_start k (CHR ''0'') (show_nat n)) = n"
  using length_show_nat [of k n] by (simp add: max_def)

lemma isoParts_showDay:
  assumes "y < 10 ^ 4" "mo < 10 ^ 2" "d < 10 ^ 2"
  shows "isoParts (showDay y mo d) = Some (y, mo, d) \<and> length (showDay y mo d) = 10 \<and> trim (showDay y mo d) = showDay y mo d"
proof -
  define Y where "Y = pad_start 4 (CHR ''0'') (show_nat y)"
  define M where "M = pad_start 2 (CHR ''0'') (show_nat mo)"
  define D where "D = pad_start 2 (CHR ''0'') (show_nat d)"
  have Y: "length Y = 4" "list_all is_digit Y" "dec_val Y = y" using padded_digits [of 4 y] assms(1) by (simp_all add: Y_def)
  have M: "length M = 2" "list_all is_digit M" "dec_val M = mo" using padded_digits [of 2 mo] assms(2) by (simp_all add: M_def)
  have D: "length D = 2" "list_all is_digit D" "dec_val D = d" using padded_digits [of 2 d] assms(3) by (simp_all add: D_def)
  have s: "showDay y mo d = Y @ ''-'' @ M @ ''-'' @ D" by (simp add: showDay_def Y_def M_def D_def)
  have "list_all (\<lambda>c. \<not> is_ws c) (showDay y mo d)"
    using digits_no_ws [OF Y(2)] digits_no_ws [OF M(2)] digits_no_ws [OF D(2)] by (simp add: s)
  moreover have "isoParts (showDay y mo d) = Some (y, mo, d)"
    using Y M D by (simp add: isoParts_def s nth_append)
  ultimately show ?thesis using Y(1) M(1) D(1) by (simp add: trim_no_ws) (simp add: s)
qed

lemma parts_bound:
  assumes "isoParts t = Some (y, mo, d) \<or> dmyParts t = Some (y, mo, d)"
  shows "y < 10 ^ 4"
  using assms
proof
  assume a: "isoParts t = Some (y, mo, d)"
  then have "list_all is_digit (take 4 t)" "length (take 4 t) = 4" "y = dec_val (take 4 t)"
    by (auto simp: isoParts_def split: if_splits)
  then show ?thesis using dec_val_bound by metis
next
  assume "dmyParts t = Some (y, mo, d)"
  then obtain t2 where "list_all is_digit t2" "length t2 = 4" "y = dec_val t2"
    by (auto simp: dmyParts_def split: option.splits if_splits)
  then show ?thesis using dec_val_bound by metis
qed

lemma parseInvoiceDate_Some:
  "parseInvoiceDate (Some raw) = Some s \<Longrightarrow> \<exists>y mo d. s = showDay y mo d \<and> y < 10 ^ 4 \<and> 0 < mo \<and> mo \<le> 12
     \<and> 0 < d \<and> d \<le> 31 \<and> realDay y mo d"
proof (cases "case isoParts (trim raw) of Some p \<Rightarrow> Some p | None \<Rightarrow> dmyParts (trim raw)")
  case (Some p)
  obtain y mo d where p: "p = (y, mo, d)" using prod_cases3 by blast
  have "isoParts (trim raw) = Some (y, mo, d) \<or> dmyParts (trim raw) = Some (y, mo, d)"
    using Some by (auto simp: p split: option.splits)
  note parts_bound [OF this]
  moreover assume "parseInvoiceDate (Some raw) = Some s"
  ultimately show ?thesis
    using Some by (intro exI [of _ y] exI [of _ mo] exI [of _ d])
      (simp add: parseInvoiceDate_def p Let_def not_less Suc_le_eq split: if_splits)
qed (auto simp: parseInvoiceDate_def Let_def split: if_splits)

lemma parseInvoiceDate_showDay:
  assumes "y < 10 ^ 4" "0 < mo" "mo \<le> 12" "0 < d" "d \<le> 31" "realDay y mo d"
  shows "parseInvoiceDate (Some (showDay y mo d)) = Some (showDay y mo d)"
proof -
  have i: "isoParts (showDay y mo d) = Some (y, mo, d)" "length (showDay y mo d) = 10" "trim (showDay y mo d) = showDay y mo d"
    using isoParts_showDay [of y mo d] assms by simp_all
  then have "showDay y mo d \<noteq> ''''" by (metis list.size(3) zero_neq_numeral)
  then show ?thesis using assms(2-6) by (simp add: parseInvoiceDate_def i not_less)
qed

lemma isoDay_showDay:
  assumes "y < 10 ^ 4" "0 < mo" "mo \<le> 12" "0 < d" "d \<le> 31"
  shows "isoDay (showDay y mo d) = Some (civilDays (int y) (int mo) (int d))"
proof -
  have i: "isoParts (showDay y mo d) = Some (y, mo, d)" using isoParts_showDay [of y mo d] assms by simp
  then have "length (showDay y mo d) = 10" "showDay y mo d ! 4 = CHR ''-''" "showDay y mo d ! 7 = CHR ''-''"
      "list_all is_digit (take 4 (showDay y mo d))" "list_all is_digit (take 2 (drop 5 (showDay y mo d)))"
      "list_all is_digit (drop 8 (showDay y mo d))"
    and v: "dec_val (take 4 (showDay y mo d)) = y" "dec_val (take 2 (drop 5 (showDay y mo d))) = mo"
      "dec_val (drop 8 (showDay y mo d)) = d"
    unfolding isoParts_def by (auto split: if_splits)
  moreover from this(1) have "showDay y mo d \<noteq> ''''" by (metis list.size(3) zero_neq_numeral)
  ultimately show ?thesis using assms by (simp add: isoDay_def digits_int_def)
qed

section \<open>Properties\<close>

text \<open>
  A date cell that is read becomes a calendar date in one normal form: ten characters, a fixed
  point of the reader, and a day the date parser of the standard library accepts too.
\<close>

theorem invoice_date_normal_form:
  assumes "parseInvoiceDate (Some raw) = Some s"
  shows "length s = 10 \<and> parseInvoiceDate (Some s) = Some s \<and> isoDay s \<noteq> None"
proof -
  obtain y mo d where s: "s = showDay y mo d" "y < 10 ^ 4" "0 < mo" "mo \<le> 12" "0 < d" "d \<le> 31" "realDay y mo d"
    using parseInvoiceDate_Some [OF assms] by blast
  have "length s = 10" unfolding s(1) using isoParts_showDay [of y mo d] s(2-6) by simp
  then show ?thesis using parseInvoiceDate_showDay [OF s(2-7)] isoDay_showDay [OF s(2-6)] by (simp add: s(1))
qed

lemma invoice_date_normal_form_witness: "parseInvoiceDate (Some ''2026-03-05'') = Some ''2026-03-05''"
proof -
  have "trim ''5/03/2026 '' = ''5/03/2026''" "isoParts ''5/03/2026'' = None" "dmyParts ''5/03/2026'' = Some (2026, 3, 5)"
    "realDay 2026 3 5" by code_simp+
  moreover have "showDay 2026 3 5 = ''2026-03-05''" by (simp add: showDay_def pad_start_def text_eval)
  ultimately have "parseInvoiceDate (Some ''5/03/2026 '') = Some ''2026-03-05''" by (simp add: parseInvoiceDate_def)
  then show ?thesis using invoice_date_normal_form by blast
qed

text \<open>What a stored cell of each kind can be.\<close>

definition wfText :: "string option \<Rightarrow> bool" where
  "wfText c \<longleftrightarrow> (case c of None \<Rightarrow> True | Some t \<Rightarrow> t \<noteq> '''' \<and> hd t \<notin> set ''=+-@'')"

definition wfParsedRow :: "ParsedInvoiceRow \<Rightarrow> bool" where
  "wfParsedRow r \<longleftrightarrow>
     (case pi_invoicedAmount r of None \<Rightarrow> True | Some a \<Rightarrow> is_ok (rupeesToPaise a))
   \<and> (case pi_invoicedWeightKg r of None \<Rightarrow> True | Some w \<Rightarrow> is_ok (kgToGrams w))
   \<and> (case pi_invoiceDate r of None \<Rightarrow> True | Some d \<Rightarrow> isoDay d \<noteq> None)
   \<and> (case pi_shipmentDate r of None \<Rightarrow> True | Some d \<Rightarrow> isoDay d \<noteq> None)
   \<and> wfText (pi_shipperCompany r) \<and> wfText (pi_invoiceReference r) \<and> wfText (pi_originStation r)
   \<and> wfText (pi_destinationStation r) \<and> wfText (pi_remark r)
   \<and> (pi_chargeTypeUnmapped r \<longrightarrow> pi_chargeType r = OTHER)"

lemma textCell_wf: "wfText (textCell c)"
  by (auto simp: wfText_def textCell_def neutralizeFormula_def Let_def split: option.split)

lemma date_wf: "case parseInvoiceDate c of None \<Rightarrow> True | Some d \<Rightarrow> isoDay d \<noteq> None"
proof (cases "parseInvoiceDate c")
  case (Some s)
  then obtain raw where "parseInvoiceDate (Some raw) = Some s" by (cases c) (auto simp: parseInvoiceDate_def)
  from parseInvoiceDate_Some [OF this] obtain y mo d where "s = showDay y mo d" "y < 10 ^ 4" "0 < mo" "mo \<le> 12"
    "0 < d" "d \<le> 31" by blast
  then show ?thesis using isoDay_showDay Some by simp
qed simp

lemma chargeOf_unmapped: "chargeOf vs raw = (c, True) \<Longrightarrow> c = OTHER"
  by (auto simp: chargeOf_def split: if_splits option.splits)

lemma mapRow_ok: "\<exists>r. mapRow cm header line = Inr r \<and> wfParsedRow r \<and> pi_lineNumber r = fst line"
proof -
  let ?field = "\<lambda>f. cellAt (snd line) (colOf header (map_of (fm_mappings cm) f))"
  obtain p where p: "parseInvoiceAmount (?field F_amount) = Inr p" using parseInvoiceAmount_ok by blast
  obtain w where w: "parseWeightKg (?field F_weight) = Inr w" "\<And>t. w = Some t \<Longrightarrow> is_ok (kgToGrams t)"
    using parseWeightKg_ok [of "?field F_weight"] by (auto simp: is_ok_iff)
  obtain c u where c: "chargeOf (chargeValues cm) (trimmedCell (cellAt (snd line) (case fm_chargeTypeColumn cm of None \<Rightarrow> None
      | Some c \<Rightarrow> if c = '''' then None else colOf header (Some c)))) = (c, u)" by fastforce
  have "u \<longrightarrow> c = OTHER" using chargeOf_unmapped [of "chargeValues cm"] c by (cases u) auto
  then show ?thesis
    using w(2) by (simp add: mapRow_def Let_def p w(1) c wfParsedRow_def textCell_wf date_wf split: option.split)
qed

lemma mapInvoiceRows_Inr:
  assumes "mapInvoiceRows grid cm = Inr rows"
  shows "list_all2 (\<lambda>line r. wfParsedRow r \<and> pi_lineNumber r = fst line) (dataLines grid) rows"
proof -
  obtain header where "mapR (mapRow cm header) (dataLines grid) = Inr rows"
    using assms by (auto simp: mapInvoiceRows_def Let_def cellArith_def split: if_splits sum.splits)
  then have "list_all2 (\<lambda>line r. mapRow cm header line = Inr r) (dataLines grid) rows" by (simp add: mapR_Inr_iff)
  moreover have "wfParsedRow r \<and> pi_lineNumber r = fst line" if "mapRow cm header line = Inr r" for line r
    using mapRow_ok [of cm header line] that by auto
  ultimately show ?thesis by (blast intro: list_all2_mono)
qed

lemma sumAmounts_ok: "list_all wfParsedRow rows \<Longrightarrow> is_ok (sumAmounts rows)"
proof (induction rows)
  case (Cons r rows)
  then have "is_ok (case pi_invoicedAmount r of None \<Rightarrow> Inr 0 | Some a \<Rightarrow> rupeesToPaise a)"
    by (auto simp: wfParsedRow_def split: option.splits)
  with Cons show ?case by (auto simp: is_ok_bindR is_ok_iff)
qed simp

text \<open>
  C24: The rows a file is mapped to are well formed, whatever the file holds: amounts and weights
  are texts the money and weight readers accept, dates are calendar dates, no text cell is empty
  or starts like a formula, an unmapped charge type is OTHER; so the sums of the worker never fail.
\<close>

theorem mapped_rows_well_formed:
  assumes "parseInvoiceFile text cm = Inr rows"
  shows "list_all wfParsedRow rows \<and> is_ok (sumAmounts rows)"
proof -
  obtain grid where "mapInvoiceRows grid cm = Inr rows"
    using assms by (auto simp: parseInvoiceFile_def split: option.splits)
  from mapInvoiceRows_Inr [OF this] have "list_all wfParsedRow rows"
    by (auto simp: list_all2_conv_all_nth list_all_length)
  then show ?thesis using sumAmounts_ok by blast
qed

text \<open>
  INV-20.  A file fails as a whole, and only for an unterminated quote, no line at all or a
  header without the mapped columns; otherwise every line after the header that is not blank is
  one row, in the order of the file and under its line number.
\<close>

theorem every_data_line_is_a_row:
  "(\<forall>rows. parseInvoiceFile text cm = Inr rows \<longrightarrow> (\<exists>grid. parseCsv text = Some grid
      \<and> map pi_lineNumber rows = [r \<leftarrow> [1..<length grid]. \<not> blankRow (grid ! r)]))
   \<and> (\<forall>e. parseInvoiceFile text cm = Inl e \<longrightarrow> e = UnterminatedCell \<and> parseCsv text = None
      \<or> (\<exists>why. e = RowParseFailure why 0))"
proof (intro conjI allI impI)
  fix rows assume a: "parseInvoiceFile text cm = Inr rows"
  then obtain grid where g: "parseCsv text = Some grid" "mapInvoiceRows grid cm = Inr rows"
    by (auto simp: parseInvoiceFile_def split: option.splits)
  have "map pi_lineNumber rows = map fst (dataLines grid)"
    using mapInvoiceRows_Inr [OF g(2)] by (induction rule: list_all2_induct) auto
  also have "\<dots> = [r \<leftarrow> [1..<length grid]. \<not> blankRow (grid ! r)]"
  proof (cases grid)
    case (Cons h ls)
    have "enumerate 1 ls = map (\<lambda>r. (r, grid ! r)) [1..<length grid]"
      by (rule nth_equalityI) (auto simp: Cons nth_enumerate_eq simp del: upt_Suc)
    then show ?thesis by (simp add: dataLines_def Cons filter_map o_def)
  qed (simp add: dataLines_def)
  finally show "\<exists>grid. parseCsv text = Some grid \<and> map pi_lineNumber rows = [r \<leftarrow> [1..<length grid]. \<not> blankRow (grid ! r)]"
    using g(1) by blast
next
  fix e assume e: "parseInvoiceFile text cm = Inl e"
  have "is_ok (mapR (mapRow cm header) ls)" for header ls
  proof (induction ls)
    case (Cons l ls)
    then show ?case using mapRow_ok [of cm header l] by (auto simp: is_ok_iff)
  qed simp
  then have ok: "\<exists>x. mapR (mapRow cm header) ls = Inr x" for header ls by (simp add: is_ok_iff)
  have "cellArith (mapR (mapRow cm header) ls) \<noteq> Inl e" for header ls
    using ok [of header ls] by (auto simp: cellArith_def)
  with e show "e = UnterminatedCell \<and> parseCsv text = None \<or> (\<exists>why. e = RowParseFailure why 0)"
    by (auto simp: parseInvoiceFile_def mapInvoiceRows_def Let_def split: option.splits if_splits)
qed

definition awbAmountMap :: FreightColumnMap where
  "awbAmountMap = \<lparr>fm_mappings = [(F_awb, ''AWB''), (F_amount, ''Amt'')], fm_chargeTypeColumn = None,
     fm_chargeTypeValueMap = None\<rparr>"

lemma mapped_rows_well_formed_witness:
  "\<exists>rows. parseInvoiceFile (tableFile [[''AWB'', ''Amt''], [''a-1'', ''12.50'']]) awbAmountMap = Inr rows \<and> rows \<noteq> []
    \<and> list_all wfParsedRow rows"
proof -
  let ?text = "tableFile [[''AWB'', ''Amt''], [''a-1'', ''12.50'']]"
  have p: "parseCsv ?text = Some [[''AWB'', ''Amt''], [''a-1'', ''12.50'']]"
    using tableFile_read(2) [of "[[''AWB'', ''Amt''], [''a-1'', ''12.50'']]"]
    by (simp add: dropBlankEnd_def blankRow_def trim_def is_ws_def)
  have d: "dataLines [[''AWB'', ''Amt''], [''a-1'', ''12.50'']] = [(1, [''a-1'', ''12.50''])]"
    by (simp add: dataLines_def blankRow_def trim_def is_ws_def)
  have header: "trim ''AWB'' = ''AWB''" "trim ''Amt'' = ''Amt''"
    "colOf [''AWB'', ''Amt''] (map_of (fm_mappings awbAmountMap) F_awb) = Some 0"
    "colOf [''AWB'', ''Amt''] (map_of (fm_mappings awbAmountMap) F_amount) = Some 1"
    by (simp_all add: colOf_def awbAmountMap_def trim_def is_ws_def)
  obtain r where "mapRow awbAmountMap (map trim [''AWB'', ''Amt'']) (1, [''a-1'', ''12.50'']) = Inr r"
    using mapRow_ok by blast
  then have "parseInvoiceFile ?text awbAmountMap = Inr [r]"
    using d by (simp add: parseInvoiceFile_def p mapInvoiceRows_def cellArith_def Let_def header)
  then show ?thesis using mapped_rows_well_formed by (intro exI [of _ "[r]"]) blast
qed

lemma every_data_line_is_a_row_witness:
  "\<exists>why. parseInvoiceFile '''' awbAmountMap = Inl (RowParseFailure why 0)"
proof -
  have "parseInvoiceFile '''' awbAmountMap = Inl (RowParseFailure ''empty file'' 0)"
    by (simp add: parseInvoiceFile_def parseCsv_def dropBlankEnd_def mapInvoiceRows_def)
  then show ?thesis using every_data_line_is_a_row [of "''''" awbAmountMap] by simp
qed

end
