(* ===== verification/RateCardCsv.thy ===== *)
theory RateCardCsv
  imports Csv Pricing_Laws
begin

text \<open>
  \<open>src/modules/rate-engine/rate-card-csv.ts\<close>: the preview of an uploaded rate card.  An error
  message is a constructor with the values it quotes.  The last property ties the preview to the
  engine: an accepted card can be priced.
\<close>

section \<open>Data\<close>

datatype CsvRowError =
    FileTooLarge
  | Unparseable
  | TooManyRows nat
  | NoDataRows
  | FormulaCell string
  | WrongColumns string nat
  | BadZone string
  | BadWeight string string
  | BadAmount string string
  | DuplicateZone ZoneCode
  | BadCode string
  | EmptyLabel
  | BadBasis string
  | BadComponentValue string string
  | BadTaxable string
  | BadKind string

datatype CsvRowKind = SLAB | COMPONENT

record CsvPreviewRow =
  vr_rowNumber :: nat
  vr_kind :: "CsvRowKind option"
  vr_ok :: bool
  vr_errors :: "CsvRowError list"

record CsvValidationPreview =
  pv_ok :: bool
  pv_totalRows :: nat
  pv_okRows :: nat
  pv_errorRows :: nat
  pv_slabs :: "SlabInput list"
  pv_components :: "ComponentRowInput list"
  pv_rows :: "CsvPreviewRow list"

definition csvMaxBytes :: nat where
  "csvMaxBytes = 25 * 1024 * 1024"

definition csvMaxRows :: nat where
  "csvMaxRows = 100000"

definition expectedHeader :: "string list" where
  "expectedHeader = [''kind'', ''zone_or_code'', ''base_weight_kg_or_label'', ''base_rate_or_basis'',
     ''additional_step_kg_or_value'', ''additional_rate_or_is_taxable'']"

section \<open>Cells\<close>

definition moneyRe :: "string \<Rightarrow> bool" where
  "moneyRe s \<longleftrightarrow> dec_re 2 s \<noteq> None"

definition weightRe :: "string \<Rightarrow> bool" where
  "weightRe s \<longleftrightarrow> dec_re 3 s \<noteq> None"

definition rateRe :: "string \<Rightarrow> bool" where
  "rateRe s \<longleftrightarrow> (case dec_re 6 s of None \<Rightarrow> False
     | Some (w, f) \<Rightarrow> w = ''0'' \<or> w = ''1'' \<and> list_all (\<lambda>c. c = CHR ''0'') f)"

definition codeChar :: "char \<Rightarrow> bool" where
  "codeChar c \<longleftrightarrow> is_digit c \<or> c \<in> set ''ABCDEFGHIJKLMNOPQRSTUVWXYZabcdefghijklmnopqrstuvwxyz_-''"

definition codeRe :: "string \<Rightarrow> bool" where
  "codeRe s \<longleftrightarrow> 1 \<le> length s \<and> length s \<le> 32 \<and> list_all codeChar s"

text \<open>A weight is positive when one of its digits is not 0.\<close>

definition isPositiveWeight :: "string \<Rightarrow> bool" where
  "isPositiveWeight s \<longleftrightarrow> (case dec_re 3 s of None \<Rightarrow> False | Some (w, f) \<Rightarrow> scaled 3 w f > 0)"

definition checkFormula :: "string \<Rightarrow> CsvRowError list" where
  "checkFormula cell = (if cell \<noteq> '''' \<and> hd cell \<in> set ''=+-@'' then [FormulaCell cell] else [])"

definition zoneOf :: "string \<Rightarrow> ZoneCode option" where
  "zoneOf s = map_of [(''A'', ZA), (''B'', ZB), (''C'', ZC), (''D'', ZD), (''E'', ZE)] s"

definition basisOf :: "string \<Rightarrow> ComponentBasis option" where
  "basisOf s = map_of [(''FLAT'', FLAT), (''PERCENT_OF_BASE_FREIGHT'', PERCENT_OF_BASE_FREIGHT),
     (''PERCENT_OF_PRE_TAX_SUBTOTAL'', PERCENT_OF_PRE_TAX_SUBTOTAL), (''PER_KG_BILLABLE'', PER_KG_BILLABLE),
     (''PERCENT_OF_DECLARED_VALUE'', PERCENT_OF_DECLARED_VALUE)] s"

definition percentBasis :: "ComponentBasis \<Rightarrow> bool" where
  "percentBasis b \<longleftrightarrow> b \<in> {PERCENT_OF_BASE_FREIGHT, PERCENT_OF_PRE_TAX_SUBTOTAL, PERCENT_OF_DECLARED_VALUE}"

definition errorIf :: "bool \<Rightarrow> CsvRowError \<Rightarrow> CsvRowError list" where
  "errorIf b e = (if b then [e] else [])"

section \<open>Rows\<close>

definition validateSlabRow :: "string list \<Rightarrow> CsvRowError list + SlabInput" where
  "validateSlabRow cells =
     (case cells of
        [_, zone, baseWeight, baseRate, stepKg, stepRate] \<Rightarrow>
          (let errors = errorIf (zoneOf zone = None) (BadZone zone)
                 @ errorIf (\<not> isPositiveWeight baseWeight) (BadWeight ''base_weight_kg'' baseWeight)
                 @ errorIf (\<not> moneyRe baseRate) (BadAmount ''base_rate'' baseRate)
                 @ errorIf (\<not> isPositiveWeight stepKg) (BadWeight ''additional_step_kg'' stepKg)
                 @ errorIf (\<not> moneyRe stepRate) (BadAmount ''additional_rate'' stepRate)
           in case zoneOf zone of
                Some z \<Rightarrow> if errors = [] then Inr \<lparr>sl_zone = z, sl_baseWeightKg = baseWeight, sl_baseRate = baseRate,
                              sl_additionalStepKg = stepKg, sl_additionalRate = stepRate\<rparr>
                          else Inl errors
              | None \<Rightarrow> Inl errors)
      | _ \<Rightarrow> Inl [WrongColumns ''SLAB'' (length cells)])"

definition badValue :: "string \<Rightarrow> string \<Rightarrow> bool" where
  "badValue basis v = (case basisOf basis of None \<Rightarrow> False
     | Some b \<Rightarrow> if percentBasis b then \<not> rateRe v else \<not> moneyRe v)"

definition validateComponentRow :: "string list \<Rightarrow> int \<Rightarrow> CsvRowError list + ComponentRowInput" where
  "validateComponentRow cells position =
     (case cells of
        [_, code, label, basis, v, isTaxable] \<Rightarrow>
          (let errors = errorIf (\<not> codeRe code) (BadCode code)
                 @ errorIf (trim label = '''') EmptyLabel
                 @ errorIf (basisOf basis = None) (BadBasis basis)
                 @ errorIf (badValue basis v) (BadComponentValue basis v)
                 @ errorIf (isTaxable \<noteq> ''true'' \<and> isTaxable \<noteq> ''false'') (BadTaxable isTaxable)
           in case basisOf basis of
                Some b \<Rightarrow> if errors = [] then Inr \<lparr>cr_code = code, cr_label = trim label, cr_basis = b, cr_value = v,
                              cr_isTaxable = (isTaxable = ''true''), cr_position = position\<rparr>
                          else Inl errors
              | None \<Rightarrow> Inl errors)
      | _ \<Rightarrow> Inl [WrongColumns ''COMPONENT'' (length cells)])"

definition isHeaderRow :: "string list \<Rightarrow> bool" where
  "isHeaderRow cells \<longleftrightarrow> length cells = length expectedHeader
     \<and> list_all2 (\<lambda>c h. to_lower (trim c) = h) cells expectedHeader"

section \<open>The preview\<close>

record PreviewState =
  ps_seenZones :: "ZoneCode list"
  ps_position :: int
  ps_slabs :: "SlabInput list"
  ps_components :: "ComponentRowInput list"
  ps_rows :: "CsvPreviewRow list"

definition previewRow :: "nat \<Rightarrow> CsvRowKind option \<Rightarrow> CsvRowError list \<Rightarrow> PreviewState \<Rightarrow> PreviewState" where
  "previewRow rowNumber kind errors st = st\<lparr>ps_rows := ps_rows st
     @ [\<lparr>vr_rowNumber = rowNumber, vr_kind = kind, vr_ok = (errors = []), vr_errors = errors\<rparr>]\<rparr>"

definition slabStep :: "nat \<Rightarrow> string list \<Rightarrow> PreviewState \<Rightarrow> PreviewState" where
  "slabStep rowNumber cells st =
     (case validateSlabRow cells of
        Inl errors \<Rightarrow> previewRow rowNumber (Some SLAB) errors st
      | Inr slab \<Rightarrow>
          if sl_zone slab \<in> set (ps_seenZones st)
          then previewRow rowNumber (Some SLAB) [DuplicateZone (sl_zone slab)] st
          else previewRow rowNumber (Some SLAB) []
                 (st\<lparr>ps_seenZones := sl_zone slab # ps_seenZones st, ps_slabs := ps_slabs st @ [slab]\<rparr>))"

definition componentStep :: "nat \<Rightarrow> string list \<Rightarrow> PreviewState \<Rightarrow> PreviewState" where
  "componentStep rowNumber cells st =
     (let st1 = st\<lparr>ps_position := ps_position st + 1\<rparr> in
      case validateComponentRow cells (ps_position st1) of
        Inl errors \<Rightarrow> previewRow rowNumber (Some COMPONENT) errors st1
      | Inr c \<Rightarrow> previewRow rowNumber (Some COMPONENT) [] (st1\<lparr>ps_components := ps_components st1 @ [c]\<rparr>))"

definition previewStep :: "PreviewState \<Rightarrow> nat \<times> string list \<Rightarrow> PreviewState" where
  "previewStep st line =
     (let trimmed = map trim (snd line); formulas = concat (map checkFormula trimmed);
          kindCell = (case trimmed of [] \<Rightarrow> '''' | c # _ \<Rightarrow> c)
      in if formulas \<noteq> [] then previewRow (fst line) None formulas st
         else if kindCell = ''SLAB'' then slabStep (fst line) trimmed st
         else if kindCell = ''COMPONENT'' then componentStep (fst line) trimmed st
         else previewRow (fst line) None [BadKind kindCell] st)"

definition failedPreview :: "CsvRowError \<Rightarrow> nat \<Rightarrow> CsvValidationPreview" where
  "failedPreview e totalRows = \<lparr>pv_ok = False, pv_totalRows = totalRows, pv_okRows = 0, pv_errorRows = 1,
     pv_slabs = [], pv_components = [], pv_rows = [\<lparr>vr_rowNumber = 0, vr_kind = None, vr_ok = False, vr_errors = [e]\<rparr>]\<rparr>"

definition utf8Length :: "string \<Rightarrow> nat" where
  "utf8Length s = sum_list (map (\<lambda>c. if (of_char c :: nat) < 128 then 1 else 2) s)"

definition singleBlank :: "string list \<Rightarrow> bool" where
  "singleBlank r \<longleftrightarrow> (case r of [c] \<Rightarrow> trim c = '''' | _ \<Rightarrow> False)"

definition validateRows :: "nat \<Rightarrow> grid \<Rightarrow> CsvValidationPreview" where
  "validateRows headerOffset rows =
     (let st = foldl previewStep \<lparr>ps_seenZones = [], ps_position = 0, ps_slabs = [], ps_components = [], ps_rows = []\<rparr>
                 (enumerate (1 + headerOffset) rows);
          total = length (ps_rows st); good = length (filter vr_ok (ps_rows st))
      in if total = 0 then failedPreview NoDataRows 0
         else \<lparr>pv_ok = (total - good = 0), pv_totalRows = total, pv_okRows = good, pv_errorRows = total - good,
               pv_slabs = ps_slabs st, pv_components = ps_components st, pv_rows = ps_rows st\<rparr>)"

definition validateRateCardCsv :: "string \<Rightarrow> CsvValidationPreview" where
  "validateRateCardCsv text =
     (if utf8Length text > csvMaxBytes then failedPreview FileTooLarge 0
      else case parseCsvText text of
          None \<Rightarrow> failedPreview Unparseable 0
        | Some parsed \<Rightarrow>
            (let dataRows = (case parsed of h # rest \<Rightarrow> if isHeaderRow h then rest else parsed | [] \<Rightarrow> parsed);
                 rows = filter (\<lambda>r. \<not> singleBlank r) dataRows
             in if length rows > csvMaxRows then failedPreview (TooManyRows (length rows)) (length rows)
                else validateRows (length parsed - length dataRows) rows))"

section \<open>Accepted cells are readable\<close>

lemma dec_re_Some:
  assumes "dec_re k s = Some (w, f)"
  shows "w \<noteq> [] \<and> list_all is_digit w \<and> list_all is_digit f \<and> length f \<le> k \<and> (s = w \<and> f = [] \<or> s = w @ ''.'' @ f \<and> f \<noteq> [])"
proof -
  define v r where "v = takeWhile is_digit s" and "r = dropWhile is_digit s"
  have s: "s = v @ r" by (simp add: v_def r_def)
  have d: "list_all is_digit v" by (auto simp: v_def list_all_iff dest: set_takeWhileD)
  have "(if v = [] then None else case r of [] \<Rightarrow> Some (v, [])
      | c # f \<Rightarrow> if c = CHR ''.'' \<and> f \<noteq> [] \<and> length f \<le> k \<and> list_all is_digit f then Some (v, f) else None) = Some (w, f)"
    using assms unfolding dec_re_def Let_def v_def r_def .
  then show ?thesis using d by (cases r) (auto simp: s split: if_splits)
qed

lemma dec_re_widen:
  assumes "dec_re j s = Some (w, f)" "j \<le> k"
  shows "dec_re k s = Some (w, f)"
proof -
  note d = dec_re_Some [OF assms(1)]
  then consider "s = w" "f = []" | "s = w @ ''.'' @ f" "f \<noteq> []" by blast
  then show ?thesis
  proof cases
    case 1
    have t: "takeWhile is_digit w = w" "dropWhile is_digit w = []" "(w = []) = False"
      using d by (auto simp: list_all_iff takeWhile_eq_all_conv)
    show ?thesis unfolding 1 dec_re_def Let_def t by simp
  next
    case 2
    then show ?thesis using d assms(2) by (simp add: dec_re_show)
  qed
qed

lemma dec_re_plain:
  assumes "dec_re k s = Some (w, f)"
  shows "trim s = s \<and> s \<noteq> '''' \<and> hd s \<noteq> CHR ''-''"
proof -
  note d = dec_re_Some [OF assms]
  have "list_all (\<lambda>c. \<not> is_ws c) s"
    using d digits_no_ws [of w] digits_no_ws [of f] by auto
  moreover have "is_digit (hd s)" using d by (cases w) auto
  then have "hd s \<noteq> CHR ''-''" by (auto simp: is_digit_def)
  ultimately show ?thesis using d by (auto simp: trim_no_ws)
qed

lemma money_ok:
  assumes "moneyRe s"
  shows "\<exists>x. rupeesToPaise s = Inr x \<and> 0 \<le> x"
proof -
  obtain w f where wf: "dec_re 2 s = Some (w, f)" using assms by (auto simp: moneyRe_def)
  have f: "length f \<le> 2" using dec_re_Some [OF wf] by blast
  then have "drop 2 (take 4 (f @ ''0000'')) = ''00''"
    by (cases f; cases "tl f") auto
  then show ?thesis using dec_re_widen [OF wf, of 4] dec_re_plain [OF wf] by (simp add: rupeesToPaise_def Let_def)
qed

lemma weight_ok: "isPositiveWeight s \<Longrightarrow> \<exists>g. kgToGrams s = Inr g \<and> 0 < g"
  using dec_re_plain [of 3 s] by (auto simp: isPositiveWeight_def kgToGrams_def parse_fixed_def split: option.splits)

lemma rate_ok:
  assumes "rateRe s"
  shows "\<exists>r. rateToMillionths s = Inr r \<and> 0 \<le> r"
proof -
  obtain w f where wf: "dec_re 6 s = Some (w, f)" using assms by (auto simp: rateRe_def split: option.splits)
  then have "rateToMillionths s = Inr (scaled 6 w f)"
    using dec_re_plain [OF wf] by (simp add: rateToMillionths_def parse_fixed_def)
  then show ?thesis using rateToMillionths_nonneg by blast
qed

definition slabOk :: "SlabInput \<Rightarrow> bool" where
  "slabOk s \<longleftrightarrow> isPositiveWeight (sl_baseWeightKg s) \<and> moneyRe (sl_baseRate s)
     \<and> isPositiveWeight (sl_additionalStepKg s) \<and> moneyRe (sl_additionalRate s)"

definition componentOk :: "ComponentRowInput \<Rightarrow> bool" where
  "componentOk c \<longleftrightarrow> codeRe (cr_code c) \<and> cr_label c \<noteq> ''''
     \<and> (if percentBasis (cr_basis c) then rateRe (cr_value c) else moneyRe (cr_value c))"

lemma validateSlabRow_ok: "validateSlabRow cells = Inr s \<Longrightarrow> slabOk s"
  by (auto simp: validateSlabRow_def slabOk_def errorIf_def Let_def split: list.splits option.splits if_splits)

lemma validateComponentRow_ok: "validateComponentRow cells n = Inr c \<Longrightarrow> componentOk c \<and> cr_position c = n"
  by (auto simp: validateComponentRow_def componentOk_def errorIf_def badValue_def Let_def
      split: list.splits option.splits if_splits)

lemma validateErrors:
  "validateSlabRow cells = Inl es \<Longrightarrow> es \<noteq> []" "validateComponentRow cells n = Inl es \<Longrightarrow> es \<noteq> []"
  by (auto simp: validateSlabRow_def validateComponentRow_def errorIf_def Let_def
      split: list.splits option.splits if_splits)

section \<open>Invariant of the loop\<close>

definition previewInv :: "PreviewState \<Rightarrow> bool" where
  "previewInv st \<longleftrightarrow> list_all slabOk (ps_slabs st) \<and> list_all componentOk (ps_components st)
     \<and> distinct (map sl_zone (ps_slabs st)) \<and> set (ps_seenZones st) = sl_zone ` set (ps_slabs st)
     \<and> length (filter vr_ok (ps_rows st)) = length (ps_slabs st) + length (ps_components st)
     \<and> (\<forall>r \<in> set (ps_rows st). vr_ok r \<longleftrightarrow> vr_errors r = [])
     \<and> sorted_wrt (<) (map cr_position (ps_components st)) \<and> (\<forall>c \<in> set (ps_components st). cr_position c \<le> ps_position st)"

lemma previewRow_sel [simp]: "ps_slabs (previewRow n k es st) = ps_slabs st"
  "ps_components (previewRow n k es st) = ps_components st" "ps_seenZones (previewRow n k es st) = ps_seenZones st"
  "ps_position (previewRow n k es st) = ps_position st"
  "ps_rows (previewRow n k es st) = ps_rows st @ [\<lparr>vr_rowNumber = n, vr_kind = k, vr_ok = (es = []), vr_errors = es\<rparr>]"
  by (simp_all add: previewRow_def)

lemma previewRow_bad: "previewInv st \<Longrightarrow> es \<noteq> [] \<Longrightarrow> previewInv (previewRow n k es st)"
  by (auto simp: previewInv_def)

lemma slabStep_inv:
  assumes "previewInv st"
  shows "previewInv (slabStep n cells st)"
proof (cases "validateSlabRow cells")
  case (Inl es)
  then show ?thesis using previewRow_bad [OF assms] validateErrors(1) by (simp add: slabStep_def)
next
  case (Inr s)
  show ?thesis
  proof (cases "sl_zone s \<in> set (ps_seenZones st)")
    case True
    then show ?thesis using previewRow_bad [OF assms] by (simp add: slabStep_def Inr)
  next
    case False
    then show ?thesis using assms validateSlabRow_ok [OF Inr] by (auto simp: slabStep_def Inr previewInv_def)
  qed
qed

lemma componentStep_inv:
  assumes "previewInv st"
  shows "previewInv (componentStep n cells st)"
proof -
  let ?st = "st\<lparr>ps_position := ps_position st + 1\<rparr>"
  have st: "previewInv ?st" using assms by (auto simp: previewInv_def)
  show ?thesis
  proof (cases "validateComponentRow cells (ps_position ?st)")
    case (Inl es)
    then show ?thesis using previewRow_bad [OF st] validateErrors(2) by (simp add: componentStep_def Let_def)
  next
    case (Inr c)
    have "\<forall>d \<in> set (ps_components st). cr_position d < cr_position c"
      using assms validateComponentRow_ok [OF Inr] by (force simp: previewInv_def)
    then show ?thesis using assms Inr validateComponentRow_ok [OF Inr]
      by (auto simp: componentStep_def Let_def previewInv_def sorted_wrt_append)
  qed
qed

lemma previewStep_inv: "previewInv st \<Longrightarrow> previewInv (previewStep st line)"
  by (auto simp: previewStep_def Let_def intro: previewRow_bad slabStep_inv componentStep_inv)

lemma previewStep_rows: "map vr_rowNumber (ps_rows (previewStep st line)) = map vr_rowNumber (ps_rows st) @ [fst line]"
  by (auto simp: previewStep_def slabStep_def componentStep_def Let_def split: sum.split)

lemma preview_foldl:
  assumes "previewInv st"
  shows "previewInv (foldl previewStep st ls)
    \<and> map vr_rowNumber (ps_rows (foldl previewStep st ls)) = map vr_rowNumber (ps_rows st) @ map fst ls"
  using assms by (induction ls arbitrary: st) (simp_all add: previewStep_inv previewStep_rows)

text \<open>What every preview satisfies.\<close>

definition cardOk :: "CsvValidationPreview \<Rightarrow> bool" where
  "cardOk p \<longleftrightarrow> list_all slabOk (pv_slabs p) \<and> list_all componentOk (pv_components p)
     \<and> distinct (map sl_zone (pv_slabs p)) \<and> sorted_wrt (<) (map cr_position (pv_components p))
     \<and> pv_okRows p = length (pv_slabs p) + length (pv_components p)
     \<and> (pv_ok p \<longleftrightarrow> pv_rows p \<noteq> [] \<and> list_all (\<lambda>r. vr_errors r = []) (pv_rows p))"

lemma validateRows_ok: "cardOk (validateRows n rows)"
proof -
  let ?init = "\<lparr>ps_seenZones = [], ps_position = 0, ps_slabs = [], ps_components = [], ps_rows = []\<rparr>"
  let ?st = "foldl previewStep ?init (enumerate (1 + n) rows)"
  have inv: "previewInv ?st" using preview_foldl [of ?init "enumerate (1 + n) rows"] by (simp add: previewInv_def)
  have "length (ps_rows ?st) - length (filter vr_ok (ps_rows ?st)) = 0 \<longleftrightarrow> (\<forall>r \<in> set (ps_rows ?st). vr_ok r)"
  proof -
    have "length (filter vr_ok (ps_rows ?st)) \<le> length (ps_rows ?st)" by simp
    then have "length (ps_rows ?st) - length (filter vr_ok (ps_rows ?st)) = 0
        \<longleftrightarrow> length (filter vr_ok (ps_rows ?st)) = length (ps_rows ?st)" by linarith
    then show ?thesis by (metis filter_True length_filter_less less_irrefl)
  qed
  then show ?thesis
    using inv by (auto simp: validateRows_def Let_def cardOk_def failedPreview_def previewInv_def list_all_iff)
qed

lemma validateRateCardCsv_ok: "cardOk (validateRateCardCsv text)"
  using validateRows_ok by (auto simp: validateRateCardCsv_def Let_def failedPreview_def cardOk_def split: option.split)

section \<open>An accepted card can be priced\<close>

lemma surcharge_ok:
  assumes "componentOk c" "0 \<le> f5" "0 \<le> f6" "0 \<le> f7" "0 \<le> w" "0 \<le> dv"
  shows "\<exists>x. surchargeAmount c \<lparr>sb_f5 = f5, sb_f6 = f6, sb_f7 = f7, sb_billableGrams = w, sb_declaredValue = dv\<rparr> = Inr x \<and> 0 \<le> x"
proof (cases "percentBasis (cr_basis c)")
  case True
  then obtain r where "rateToMillionths (cr_value c) = Inr r" "0 \<le> r"
    using assms(1) rate_ok by (auto simp: componentOk_def)
  moreover have "\<exists>x. applyRate b r = Inr x \<and> 0 \<le> x" if "0 \<le> b" "0 \<le> r" for b r
    using applyRate_ok [OF that] applyRate_nonneg by blast
  ultimately show ?thesis using True assms(2-) by (auto simp: surchargeAmount_def percentBasis_def)
next
  case False
  then obtain v where v: "rupeesToPaise (cr_value c) = Inr v" "0 \<le> v"
    using assms(1) money_ok by (auto simp: componentOk_def)
  have "divRoundHalfUp (v * w) 1000 = Inr ((v * w + 500) div 1000)" "0 \<le> (v * w + 500) div 1000" if "0 \<le> v * w"
    using that by (simp_all add: divRoundHalfUp_eq pos_imp_zdiv_nonneg_iff)
  then show ?thesis using False v assms(5) by (cases "cr_basis c") (auto simp: surchargeAmount_def percentBasis_def)
qed

lemma taxableRowSum_nonneg:
  assumes "list_all (\<lambda>x. 0 \<le> x) xs"
  shows "0 \<le> taxableRowSum b rows xs"
proof -
  have "0 \<le> s \<Longrightarrow> 0 \<le> foldl (\<lambda>acc (row, a). acc + (if b \<and> cr_isTaxable row then a else 0)) s (zip rows xs)" for s :: int
    using assms
  proof (induction xs arbitrary: rows s)
    case (Cons x xs)
    then show ?case by (cases rows) auto
  qed simp
  then show ?thesis by (simp add: taxableRowSum_def)
qed

lemma mapR_nonneg:
  assumes "\<And>c. c \<in> set cs \<Longrightarrow> \<exists>x. f c = Inr x \<and> (0::int) \<le> x"
  shows "\<exists>xs. mapR f cs = Inr xs \<and> list_all (\<lambda>x. 0 \<le> x) xs"
  using assms
proof (induction cs)
  case (Cons c cs)
  obtain x where "f c = Inr x" "0 \<le> x" using Cons.prems by auto
  moreover obtain xs where "mapR f cs = Inr xs" "list_all (\<lambda>x. 0 \<le> x) xs" using Cons by auto
  ultimately show ?case by auto
qed simp

lemma codCharge_ok:
  assumes "is_ok (rateToMillionths (tf_codPct t))" "rupeesToPaise (tf_codFlat t) = Inr flat" "0 \<le> flat"
  shows "\<exists>x. codCharge t m c = Inr x \<and> 0 \<le> x"
proof (cases "m \<noteq> COD \<or> c \<le> 0")
  case False
  obtain r where r: "rateToMillionths (tf_codPct t) = Inr r" using assms(1) by (auto simp: is_ok_iff)
  then obtain x where "applyRate c r = Inr x" using applyRate_ok [of c r] rateToMillionths_nonneg False by auto
  then show ?thesis using False r assms(2,3) by (auto simp: codCharge_def)
qed (auto simp: codCharge_def)

lemma computeFreight_ok:
  assumes zone: "fa_zone a = Some z" "List.find (\<lambda>s. sl_zone s = z) (tf_slabs t) = Some slab" and slab: "slabOk slab"
    and comps: "list_all componentOk (tf_components t)"
    and rates: "is_ok (rateToMillionths (tf_fuelPct t))" "is_ok (rateToMillionths (tf_codPct t))"
      "is_ok (rateToMillionths (tf_gstPct t))"
    and flat: "rupeesToPaise (tf_codFlat t) = Inr flat" "0 \<le> flat"
    and args: "kgToGrams (fa_billableWeightKg a) = Inr w" "rupeesToPaise (fa_collectible a) = Inr coll"
      "rupeesToPaise (fa_declaredValue a) = Inr dv" "0 \<le> dv"
  shows "\<exists>b. computeFreight t a = Inr (Priceable b)"
proof -
  obtain baseW where bw: "kgToGrams (sl_baseWeightKg slab) = Inr baseW" using slab weight_ok by (auto simp: slabOk_def)
  obtain step where st: "kgToGrams (sl_additionalStepKg slab) = Inr step" "0 < step" using slab weight_ok by (auto simp: slabOk_def)
  obtain base where ba: "rupeesToPaise (sl_baseRate slab) = Inr base" "0 \<le> base" using slab money_ok by (auto simp: slabOk_def)
  obtain add where ad: "rupeesToPaise (sl_additionalRate slab) = Inr add" "0 \<le> add" using slab money_ok by (auto simp: slabOk_def)
  obtain n where n: "(if w > baseW then ceilDiv (w - baseW) step else Inr 0) = Inr n" "0 \<le> n"
    using st(2) by (cases "w > baseW") (auto simp: ceilDiv_eq pos_imp_zdiv_nonneg_iff)
  define f5 where "f5 = base + n * add"
  have f5: "0 \<le> f5" using ba ad n by (simp add: f5_def)
  obtain fuel where fu: "rateToMillionths (tf_fuelPct t) = Inr fuel" "0 \<le> fuel" using rates(1) rateToMillionths_nonneg by (auto simp: is_ok_iff)
  obtain gst where gs: "rateToMillionths (tf_gstPct t) = Inr gst" "0 \<le> gst" using rates(3) rateToMillionths_nonneg by (auto simp: is_ok_iff)
  obtain f6 where f6: "applyRate f5 fuel = Inr f6" "0 \<le> f6" using applyRate_ok [OF f5 fu(2)] applyRate_nonneg by blast
  obtain f7 where f7: "codCharge t (fa_paymentMode a) coll = Inr f7" "0 \<le> f7" using codCharge_ok [OF rates(2) flat] by blast
  have w: "0 \<le> w" using kgToGrams_nonneg [OF args(1)] .
  have "\<And>c. c \<in> set (sortedRows t) \<Longrightarrow> componentOk c" using comps by (simp add: sortedRows_def list_all_iff)
  then obtain xs where xs: "mapR (\<lambda>row. surchargeAmount row \<lparr>sb_f5 = f5, sb_f6 = f6, sb_f7 = f7, sb_billableGrams = w,
      sb_declaredValue = dv\<rparr>) (sortedRows t) = Inr xs" "list_all (\<lambda>x. 0 \<le> x) xs"
    using mapR_nonneg [of "sortedRows t"] surcharge_ok f5 f6(2) f7(2) w args(4) by metis
  define base' where "base' = (if ''F-5'' \<in> set (tf_taxableComponents t) then f5 else 0)
    + (if ''F-6'' \<in> set (tf_taxableComponents t) then f6 else 0) + (if ''F-7'' \<in> set (tf_taxableComponents t) then f7 else 0)
    + taxableRowSum (''F-8'' \<in> set (tf_taxableComponents t)) (sortedRows t) xs"
  have "0 \<le> base'" using f5 f6(2) f7(2) taxableRowSum_nonneg [OF xs(2)] by (simp add: base'_def)
  then obtain f10 where f10: "applyRate base' gst = Inr f10" using applyRate_ok gs(2) by blast
  show ?thesis
    by (simp add: computeFreight_def zone args bw st n(1) ba(1) ad(1) fu(1) gs(1) f6(1) f7(1) xs(1) Let_def
        f10 [unfolded base'_def f5_def] split del: if_split flip: f5_def)
qed

text \<open>
  C25: Progress from the upload to the engine.  Whatever file is previewed, the slabs and components
  that the preview accepts are well typed for the engine: under a header with readable terms, and
  for a readable weight, collectible and declared value, pricing never fails, and it gives a price
  for every zone with an accepted slab and for no other.
\<close>

theorem accepted_card_prices:
  assumes "tf_slabs t = pv_slabs (validateRateCardCsv text)" "tf_components t = pv_components (validateRateCardCsv text)"
    and "is_ok (rateToMillionths (tf_fuelPct t))" "is_ok (rateToMillionths (tf_codPct t))"
      "is_ok (rateToMillionths (tf_gstPct t))"
    and "rupeesToPaise (tf_codFlat t) = Inr flat" "0 \<le> flat"
    and "kgToGrams (fa_billableWeightKg a) = Inr w" "rupeesToPaise (fa_collectible a) = Inr coll"
      "rupeesToPaise (fa_declaredValue a) = Inr dv" "0 \<le> dv"
  shows "is_ok (computeFreight t a)
    \<and> ((\<exists>b. computeFreight t a = Inr (Priceable b)) \<longleftrightarrow> (\<exists>s \<in> set (tf_slabs t). fa_zone a = Some (sl_zone s)))"
proof (cases "fa_zone a")
  case None
  then show ?thesis by (simp add: computeFreight_def)
next
  case (Some z)
  show ?thesis
  proof (cases "List.find (\<lambda>s. sl_zone s = z) (tf_slabs t)")
    case None
    then have "computeFreight t a = Inr (Unpriceable SLAB_MISSING)" using Some by (simp add: computeFreight_def)
    moreover have "\<forall>s \<in> set (tf_slabs t). sl_zone s \<noteq> z" using None by (auto simp: find_None_iff)
    ultimately show ?thesis using Some by auto
  next
    case (Some slab)
    have card: "cardOk (validateRateCardCsv text)" by (rule validateRateCardCsv_ok)
    then have "slabOk slab" using Some assms(1) by (auto simp: cardOk_def find_Some_iff list_all_length)
    moreover have "list_all componentOk (tf_components t)" using card assms(2) by (simp add: cardOk_def)
    ultimately obtain b where "computeFreight t a = Inr (Priceable b)"
      using computeFreight_ok [OF \<open>fa_zone a = Some z\<close> Some _ _ assms(3-)] by blast
    moreover have "slab \<in> set (tf_slabs t) \<and> sl_zone slab = z" using Some by (auto simp: find_Some_iff)
    ultimately show ?thesis using \<open>fa_zone a = Some z\<close> by auto
  qed
qed


definition previewTariff :: "string \<Rightarrow> TariffInput" where
  "previewTariff text = exampleTariff\<lparr>tf_slabs := pv_slabs (validateRateCardCsv text),
     tf_components := pv_components (validateRateCardCsv text)\<rparr>"

lemma accepted_card_prices_witness:
  "is_ok (computeFreight (previewTariff (tableFile [[''SLAB'', ''A'', ''0.5'', ''40'', ''0.5'', ''15.00'']])) exampleArgs)"
proof -
  have "is_ok (rateToMillionths (tf_fuelPct (previewTariff t)))" "is_ok (rateToMillionths (tf_codPct (previewTariff t)))"
    "is_ok (rateToMillionths (tf_gstPct (previewTariff t)))" "rupeesToPaise (tf_codFlat (previewTariff t)) = Inr 3000" for t
    by (simp_all add: previewTariff_def exampleTariff_def exampleTexts)
  moreover have "kgToGrams (fa_billableWeightKg exampleArgs) = Inr 1200" "rupeesToPaise (fa_collectible exampleArgs) = Inr 99900"
    "rupeesToPaise (fa_declaredValue exampleArgs) = Inr 199999"
    by (simp_all add: exampleArgs_def exampleTexts)
  ultimately show ?thesis
    using accepted_card_prices [of "previewTariff t" t 3000 exampleArgs 1200 99900 199999 for t]
    by (simp add: previewTariff_def)
qed

end
