(* ===== verification/Calendar.thy ===== *)
theory Calendar
  imports Dates
begin

text \<open>
  The Gregorian calendar behind \<open>Date\<close> and \<open>Intl\<close>: the day number of a calendar date is inverse to
  the date of a day number, and the dates of four-digit years, written \<open>YYYY-MM-DD\<close>, compare as texts
  the way the days do.  The day count of a year is taken from March, so that a leap day ends it.
\<close>

section \<open>Years\<close>

definition yearStart :: "int \<Rightarrow> int" where
  "yearStart y = 365 * y + y div 4 - y div 100 + y div 400"

definition shiftedDay :: "int \<Rightarrow> int" where
  "shiftedDay doe = doe - doe div 1460 + doe div 36524 - doe div 146096"

lemma div_succ:
  assumes "0 < (n::int)"
  shows "(x + 1) div n = x div n + (if n dvd x + 1 then 1 else 0)"
proof -
  have q: "(x + 1) div n = x div n + (x mod n + 1) div n"
    using div_mult_self1 [of n "x mod n + 1" "x div n"] assms by (simp add: algebra_simps mult_div_mod_eq)
  have b: "0 \<le> x mod n" "x mod n + 1 \<le> n" using pos_mod_sign [OF assms, of x] pos_mod_bound [OF assms, of x] by (simp, simp only: add1_zle_eq)
  have "n dvd x + 1 \<longleftrightarrow> n dvd x mod n + 1" by (simp add: dvd_eq_mod_eq_0 mod_add_left_eq)
  then have "n dvd x + 1 \<longleftrightarrow> x mod n + 1 = n" using b zdvd_imp_le [of n "x mod n + 1"] by auto
  then show ?thesis using b assms by (auto simp: q)
qed

lemma shiftedDay_step:
  assumes "0 \<le> x" "x + 1 \<le> 146096"
  shows "shiftedDay x \<le> shiftedDay (x + 1)"
proof (cases "x + 1 = 146096")
  case True
  then have "x = 146095" by simp
  then show ?thesis by (simp add: shiftedDay_def)
next
  case False
  then have "\<not> 146096 dvd x + 1" using assms zdvd_imp_le [of 146096 "x + 1"] by auto
  then show ?thesis by (simp add: shiftedDay_def div_succ)
qed

lemma shiftedDay_mono:
  assumes "0 \<le> x" "x \<le> y" "y \<le> 146096"
  shows "shiftedDay x \<le> shiftedDay y"
  using assms(2,3)
proof (induction y rule: int_ge_induct)
  case (step i)
  then show ?case using shiftedDay_step [of i] assms(1) by simp
qed simp

lemma shiftedDay_bounds: "list_all (\<lambda>y. 365 * y \<le> shiftedDay (yearStart y)
    \<and> shiftedDay (yearStart (y + 1) - 1) < 365 * (y + 1)) [0..399]"
  by code_simp

lemma yearStart_step: "yearStart y + 365 \<le> yearStart (y + 1)" "yearStart (y + 1) \<le> yearStart y + 366"
proof -
  have "100 dvd y + 1 \<Longrightarrow> 4 dvd y + 1" "400 dvd y + 1 \<Longrightarrow> 100 dvd y + 1"
    by (auto elim: dvd_trans [rotated])
  then show "yearStart y + 365 \<le> yearStart (y + 1)" "yearStart (y + 1) \<le> yearStart y + 366"
    by (simp_all add: yearStart_def div_succ)
qed

lemma yearStart_mono: "x \<le> y \<Longrightarrow> yearStart x \<le> yearStart y"
proof (induction y rule: int_ge_induct)
  case (step i)
  then show ?case using yearStart_step(1) [of i] by linarith
qed simp

lemma year_exists:
  assumes "0 \<le> doe" "doe < yearStart (int n)"
  shows "\<exists>y. 0 \<le> y \<and> y < int n \<and> yearStart y \<le> doe \<and> doe < yearStart (y + 1)"
  using assms(2)
proof (induction n)
  case 0
  then show ?case using assms(1) by (simp add: yearStart_def)
next
  case (Suc n)
  show ?case
  proof (cases "doe < yearStart (int n)")
    case True
    then obtain y where "0 \<le> y" "y < int n" "yearStart y \<le> doe" "doe < yearStart (y + 1)" using Suc.IH by blast
    then show ?thesis by (intro exI [of _ y]) simp
  next
    case False
    then show ?thesis using Suc.prems by (intro exI [of _ "int n"]) (simp add: add.commute)
  qed
qed

lemma year_of_era:
  assumes "0 \<le> doe" "doe < 146097"
  shows "0 \<le> shiftedDay doe div 365" "shiftedDay doe div 365 < 400"
    "yearStart (shiftedDay doe div 365) \<le> doe" "doe < yearStart (shiftedDay doe div 365 + 1)"
proof -
  have last: "yearStart 400 = 146097" by (simp add: yearStart_def)
  then obtain y where y: "0 \<le> y" "y < 400" "yearStart y \<le> doe" "doe < yearStart (y + 1)"
    using year_exists [of doe 400] assms last by auto
  have "0 \<le> yearStart y" using yearStart_mono [OF y(1)] by (simp add: yearStart_def)
  then have "shiftedDay (yearStart y) \<le> shiftedDay doe" "shiftedDay doe \<le> shiftedDay (yearStart (y + 1) - 1)"
    using yearStart_mono [of "y + 1" 400] y assms last by (auto intro!: shiftedDay_mono)
  moreover have "365 * y \<le> shiftedDay (yearStart y)" "shiftedDay (yearStart (y + 1) - 1) < 365 * (y + 1)"
    using shiftedDay_bounds y by (auto simp: list_all_iff)
  ultimately have "shiftedDay doe div 365 = y"
    by (intro int_div_pos_eq [of _ 365 y "shiftedDay doe - 365 * y"]) simp_all
  with y show "0 \<le> shiftedDay doe div 365" "shiftedDay doe div 365 < 400"
    "yearStart (shiftedDay doe div 365) \<le> doe" "doe < yearStart (shiftedDay doe div 365 + 1)" by simp_all
qed

section \<open>Dates\<close>

lemma yearStart_era: "yearStart (x + e * 400) = yearStart x + e * 146097"
proof -
  have "(x + e * 400) div 4 = x div 4 + 100 * e" "(x + e * 400) div 100 = x div 100 + 4 * e"
    using div_mult_self1 [of 4 x "100 * e"] div_mult_self1 [of 100 x "4 * e"] by (simp_all add: algebra_simps)
  then show ?thesis by (simp add: yearStart_def)
qed

text \<open>The month, counted from March, of a day of the year, and the day it starts on.\<close>

definition marchMonth :: "int \<Rightarrow> int" where
  "marchMonth doy = (5 * doy + 2) div 153"

definition monthStart :: "int \<Rightarrow> int" where
  "monthStart mp = (153 * mp + 2) div 5"

lemma month_of_day:
  assumes "0 \<le> doy" "doy \<le> 365"
  shows "0 \<le> marchMonth doy" "marchMonth doy \<le> 11" "monthStart (marchMonth doy) \<le> doy" "doy \<le> monthStart (marchMonth doy) + 30"
proof -
  have "list_all (\<lambda>x. 0 \<le> marchMonth x \<and> marchMonth x \<le> 11 \<and> monthStart (marchMonth x) \<le> x
      \<and> x \<le> monthStart (marchMonth x) + 30) [0..365]"
    by code_simp
  then show "0 \<le> marchMonth doy" "marchMonth doy \<le> 11" "monthStart (marchMonth doy) \<le> doy" "doy \<le> monthStart (marchMonth doy) + 30"
    using assms unfolding list_all_iff by simp_all
qed

lemma marchMonth_mono: "x \<le> y \<Longrightarrow> marchMonth x \<le> marchMonth y"
  unfolding marchMonth_def by (rule zdiv_mono1) simp_all

text \<open>\<open>civilDate z\<close> by its parts: the year from March, its day, and the month from March.\<close>

definition marchYear :: "int \<Rightarrow> int" where
  "marchYear z = shiftedDay ((z + 719468) mod 146097) div 365 + (z + 719468) div 146097 * 400"

definition marchDay :: "int \<Rightarrow> int" where
  "marchDay z = z + 719468 - yearStart (marchYear z)"

lemma marchYear_bounds: "yearStart (marchYear z) \<le> z + 719468" "z + 719468 < yearStart (marchYear z + 1)"
proof -
  define e where "e = (z + 719468) div 146097"
  define doe where "doe = (z + 719468) mod 146097"
  have z: "z + 719468 = doe + e * 146097" by (simp add: e_def doe_def)
  have "0 \<le> doe" "doe < 146097" by (simp_all add: doe_def)
  note y = year_of_era [OF this]
  have m: "marchYear z = shiftedDay doe div 365 + e * 400" by (simp only: marchYear_def e_def doe_def)
  show "yearStart (marchYear z) \<le> z + 719468" using y(3) unfolding m yearStart_era z by simp
  have "marchYear z + 1 = shiftedDay doe div 365 + 1 + e * 400" by (simp add: m)
  then show "z + 719468 < yearStart (marchYear z + 1)" using y(4) unfolding z by (simp only: yearStart_era)
qed

lemma marchDay_bounds: "0 \<le> marchDay z" "marchDay z \<le> 365"
  using marchYear_bounds [of z] yearStart_step(2) [of "marchYear z"] by (simp_all add: marchDay_def)

lemmas marchMonth_bounds = month_of_day [OF marchDay_bounds]

definition fromMarch :: "int \<Rightarrow> int \<Rightarrow> int \<Rightarrow> int \<times> int \<times> int" where
  "fromMarch y mp d = (if mp < 10 then (y, mp + 3, d) else (y + 1, mp - 9, d))"

lemma civilDate_march: "civilDate z
    = fromMarch (marchYear z) (marchMonth (marchDay z)) (marchDay z - monthStart (marchMonth (marchDay z)) + 1)"
proof -
  define e where "e = (z + 719468) div 146097"
  define doe where "doe = (z + 719468) mod 146097"
  define yoe where "yoe = shiftedDay doe div 365"
  have z: "z + 719468 = doe + e * 146097" by (simp add: e_def doe_def)
  have "0 \<le> doe" "doe < 146097" by (simp_all add: doe_def)
  note y = year_of_era [OF this, folded yoe_def]
  have m: "marchYear z = yoe + e * 400" by (simp only: marchYear_def e_def doe_def yoe_def)
  have "yoe div 400 = 0" using y(1,2) by simp
  then have doy: "marchDay z = doe - (365 * yoe + yoe div 4 - yoe div 100)"
    unfolding marchDay_def m yearStart_era z by (simp add: yearStart_def)
  have "civilDate z = (let mp = marchMonth (marchDay z); d = marchDay z - monthStart mp + 1;
      mo = (if mp < 10 then mp + 3 else mp - 9) in (yoe + e * 400 + (if mo \<le> 2 then 1 else 0), mo, d))"
    unfolding civilDate_def Let_def e_def [symmetric] doe_def [symmetric] shiftedDay_def [symmetric] yoe_def [symmetric]
      doy [symmetric] marchMonth_def [symmetric] monthStart_def [symmetric] by (rule refl)
  then show ?thesis using marchMonth_bounds [of z] by (simp add: Let_def fromMarch_def m)
qed

lemma civilDate_bounds: "civilDate z = (y, m, d) \<Longrightarrow> 1 \<le> m \<and> m \<le> 12 \<and> 1 \<le> d \<and> d \<le> 31"
  using marchMonth_bounds [of z] by (auto simp: civilDate_march fromMarch_def split: if_splits)

lemma civilDays_march:
  assumes "0 \<le> mp" "mp \<le> 11" "fromMarch Y mp d = (y, m, d')"
  shows "civilDays y m d' = yearStart Y + monthStart mp + d - 1 - 719468"
proof -
  have p: "(if m \<le> 2 then y - 1 else y) = Y" "m + 9 = (if mp < 10 then mp + 12 else mp)" "d' = d"
    using assms by (auto simp: fromMarch_def split: if_splits)
  have "(mp + 12) mod 12 = mp" "mp mod 12 = mp" using mod_pos_pos_trivial [OF assms(1), of 12] assms(2) by simp_all
  then have q: "(m + 9) mod 12 = mp" by (simp add: p(2))
  have "yearStart Y = yearStart (Y mod 400) + Y div 400 * 146097"
    using yearStart_era [of "Y mod 400" "Y div 400"] by simp
  then show ?thesis by (simp add: civilDays_def p(1,3) q Let_def monthStart_def) (simp add: yearStart_def)
qed

theorem civilDays_civilDate:
  assumes "civilDate z = (y, m, d)"
  shows "civilDays y m d = z"
proof -
  have "fromMarch (marchYear z) (marchMonth (marchDay z)) (marchDay z - monthStart (marchMonth (marchDay z)) + 1) = (y, m, d)"
    using assms by (simp add: civilDate_march)
  from civilDays_march [OF marchMonth_bounds(1,2) this] show ?thesis by (simp add: marchDay_def)
qed

text \<open>The calendar keeps the order of days.\<close>

lemma civilDate_less:
  assumes "a < b" "civilDate a = (y, m, d)" "civilDate b = (y', m', d')"
  shows "y < y' \<or> y = y' \<and> (m < m' \<or> m = m' \<and> d < d')"
proof -
  define mp where "mp = marchMonth (marchDay a)"
  define mp' where "mp' = marchMonth (marchDay b)"
  have bounds: "0 \<le> mp" "mp \<le> 11" "0 \<le> mp'" "mp' \<le> 11" using marchMonth_bounds by (simp_all add: mp_def mp'_def)
  have le: "marchYear a \<le> marchYear b"
  proof (rule ccontr)
    assume "\<not> marchYear a \<le> marchYear b"
    then have "yearStart (marchYear b + 1) \<le> yearStart (marchYear a)" by (intro yearStart_mono) simp
    then show False using marchYear_bounds(1) [of a] marchYear_bounds(2) [of b] assms(1) by linarith
  qed
  have same: "mp < mp' \<or> mp = mp' \<and> marchDay a < marchDay b" if "marchYear a = marchYear b"
  proof -
    have "marchDay a < marchDay b" using assms(1) that by (simp add: marchDay_def)
    moreover then have "mp \<le> mp'" unfolding mp_def mp'_def by (intro marchMonth_mono) simp
    ultimately show ?thesis by auto
  qed
  have dates: "fromMarch (marchYear a) mp (marchDay a - monthStart mp + 1) = (y, m, d)"
    "fromMarch (marchYear b) mp' (marchDay b - monthStart mp' + 1) = (y', m', d')"
    using assms(2,3) by (simp_all add: civilDate_march mp_def mp'_def)
  show ?thesis
  proof (cases "marchYear a = marchYear b")
    case True
    then show ?thesis using dates same bounds by (auto simp: fromMarch_def split: if_splits)
  next
    case False
    then show ?thesis using le dates bounds by (auto simp: fromMarch_def split: if_splits)
  qed
qed

end
