(* ===== verification/CodState.thy ===== *)
theory CodState
  imports Money Calendar
begin

text \<open>
  \<open>recon-cod/cod-state.ts\<close>: the dates of an expectation (F-21) and its derived state (F-13).
  Dates are texts \<open>YYYY-MM-DD\<close> in the shop's time zone; an instant is milliseconds since the
  epoch and the offset of a time zone a parameter.
\<close>

section \<open>Definitions\<close>

datatype CodExpectedState = AWAITING | TALLIED | SHORT | EXCESS | PENDING_OVERDUE | RTO_UNCOLLECTED

definition defaultTimezone :: string where
  "defaultTimezone = ''Asia/Kolkata''"

definition localDay :: "(string \<Rightarrow> int \<Rightarrow> int) \<Rightarrow> int \<Rightarrow> string \<Rightarrow> int" where
  "localDay tzOffset at timeZone = (at + tzOffset timeZone at) div 86400000"

definition dateText :: "int \<times> int \<times> int \<Rightarrow> string" where
  "dateText p = (case p of (y, m, d) \<Rightarrow> show_int y @ ''-'' @ pad_int 2 m @ ''-'' @ pad_int 2 d)"

definition localDateString :: "(string \<Rightarrow> int \<Rightarrow> int) \<Rightarrow> int \<Rightarrow> string \<Rightarrow> string" where
  "localDateString tzOffset at timeZone = dateText (civilDate (localDay tzOffset at timeZone))"

text \<open>\<open>split\<close> at a character.\<close>

fun splitAt :: "char \<Rightarrow> string \<Rightarrow> string list" where
  "splitAt c [] = [[]]"
| "splitAt c (x # xs) = (if x = c then [] # splitAt c xs else (x # hd (splitAt c xs)) # tl (splitAt c xs))"

text \<open>The three numbers of a date; a text whose fields are not all digits is \<open>NaN\<close> to the arithmetic.\<close>

definition dateParts :: "string \<Rightarrow> (int \<times> int \<times> int) option" where
  "dateParts date =
     (case map digits_int (splitAt (CHR ''-'') date) of
        Some y # Some m # Some d # _ \<Rightarrow> Some (y, m, d)
      | _ \<Rightarrow> None)"

text \<open>
  \<open>Date.UTC\<close> in days: months roll over into years, days into months, and a year below 100 is one
  of the twentieth century.  An instant is at most a hundred million days from the epoch.
\<close>

definition timeClip :: "int \<Rightarrow> int option" where
  "timeClip day = (if \<bar>day\<bar> \<le> 100000000 then Some day else None)"

definition utcDay :: "int \<times> int \<times> int \<Rightarrow> int option" where
  "utcDay p = (case p of (y, m, d) \<Rightarrow>
     (let year = (if 0 \<le> y \<and> y \<le> 99 then 1900 + y else y)
      in timeClip (civilDays (year + (m - 1) div 12) ((m - 1) mod 12 + 1) 1 + d - 1)))"

text \<open>\<open>None\<close> is the text of an invalid date, which no statement accepts.\<close>

definition addDays :: "string \<Rightarrow> int \<Rightarrow> string option" where
  "addDays date days =
     (case Option.bind (dateParts date) utcDay of None \<Rightarrow> None
      | Some t \<Rightarrow> map_option (\<lambda>out. dateText (civilDate out)) (timeClip (t + days)))"

definition daysBetween :: "string \<Rightarrow> string \<Rightarrow> int option" where
  "daysBetween a b =
     (case (Option.bind (dateParts a) utcDay, Option.bind (dateParts b) utcDay) of
        (Some s, Some t) \<Rightarrow> Some (t - s)
      | _ \<Rightarrow> None)"

definition computeDueDate :: "(string \<Rightarrow> int \<Rightarrow> int) \<Rightarrow> int \<Rightarrow> int \<Rightarrow> string \<Rightarrow> string option" where
  "computeDueDate tzOffset deliveredAt dueDays timeZone = addDays (localDateString tzOffset deliveredAt timeZone) dueDays"

definition agingDays :: "string \<Rightarrow> string \<Rightarrow> int option" where
  "agingDays dueAt todayLocal = map_option (max 0) (daysBetween dueAt todayLocal)"

text \<open>\<open>a < b\<close> on texts.\<close>

fun textLess :: "string \<Rightarrow> string \<Rightarrow> bool" where
  "textLess _ [] \<longleftrightarrow> False"
| "textLess [] (_ # _) \<longleftrightarrow> True"
| "textLess (a # as) (b # bs) \<longleftrightarrow> (of_char a :: nat) < of_char b \<or> a = b \<and> textLess as bs"

definition deriveCodState :: "int \<Rightarrow> int \<Rightarrow> int \<Rightarrow> string \<Rightarrow> string \<Rightarrow> CodExpectedState \<Rightarrow> CodExpectedState" where
  "deriveCodState expected r tol dueAt todayLocal current =
     (if current = RTO_UNCOLLECTED then RTO_UNCOLLECTED
      else
        (let pastDue = textLess dueAt todayLocal in
         if r = 0 then (if pastDue then PENDING_OVERDUE else AWAITING)
         else
           (let diff = (if r > expected then r - expected else expected - r) in
            if diff \<le> tol then TALLIED
            else if r > expected + tol then EXCESS
            else if pastDue then PENDING_OVERDUE
            else SHORT)))"

section \<open>Texts of dates\<close>

lemma textLess_append:
  "length s = length t \<Longrightarrow> textLess (s @ u) (t @ v) \<longleftrightarrow> textLess s t \<or> s = t \<and> textLess u v"
  by (induction s t rule: list_induct2) auto

lemma dec_val_Cons: "dec_val (c # s) = digit_val c * 10 ^ length s + dec_val s"
  using dec_val_append [of "[c]" s] dec_val_append [of "[]" "[c]"] by (simp add: dec_val_snoc [of "[]", simplified])

lemma digit_order: "is_digit a \<Longrightarrow> is_digit b \<Longrightarrow> (of_char a :: nat) < of_char b \<longleftrightarrow> digit_val a < digit_val b"
  by (auto simp: is_digit_def digit_val_def)

lemma digit_eq: "is_digit a \<Longrightarrow> is_digit b \<Longrightarrow> a = b \<longleftrightarrow> digit_val a = digit_val b"
  by (auto simp: is_digit_def digit_val_def) (metis add_diff_inverse_nat le_antisym less_le_not_le nat_le_linear of_char_eq_iff)

lemma digits_order:
  "length s = length t \<Longrightarrow> list_all is_digit s \<Longrightarrow> list_all is_digit t \<Longrightarrow> textLess s t \<longleftrightarrow> dec_val s < dec_val t"
proof (induction s t rule: list_induct2)
  case (Cons a s b t)
  have b: "dec_val s < 10 ^ length s" "dec_val t < 10 ^ length s" using dec_val_bound [of s] dec_val_bound [of t] Cons.prems Cons.hyps by simp_all
  show ?case
  proof (cases "digit_val a" "digit_val b" rule: linorder_cases)
    case less
    then have "digit_val a * 10 ^ length s + 10 ^ length s \<le> digit_val b * 10 ^ length s"
      by (metis Suc_leI add.commute mult_Suc mult_le_mono1)
    then show ?thesis using Cons.prems Cons.hyps b less by (simp add: dec_val_Cons digit_order)
  next
    case equal
    then show ?thesis using Cons by (simp add: dec_val_Cons digit_order digit_eq)
  next
    case greater
    then have "digit_val b * 10 ^ length s + 10 ^ length s \<le> digit_val a * 10 ^ length s"
      by (metis Suc_leI add.commute mult_Suc mult_le_mono1)
    then show ?thesis using Cons.prems Cons.hyps b greater by (simp add: dec_val_Cons digit_order digit_eq)
  qed
qed simp


lemma splitAt_field: "list_all is_digit s \<Longrightarrow> splitAt (CHR ''-'') (s @ CHR ''-'' # t) = s # splitAt (CHR ''-'') t"
  by (induction s) (auto simp: is_digit_def)

lemma splitAt_last: "list_all is_digit s \<Longrightarrow> splitAt (CHR ''-'') s = [s]"
  by (induction s) (auto simp: is_digit_def)

lemma pad2:
  assumes "0 \<le> i" "i < 100"
  shows "length (pad_int 2 i) = 2" "list_all is_digit (pad_int 2 i)" "int (dec_val (pad_int 2 i)) = i"
proof -
  have "nat i < 10 ^ 2" using assms by simp
  then have "length (show_nat (nat i)) \<le> 2" by (intro length_show_nat) simp_all
  then show "length (pad_int 2 i) = 2" "list_all is_digit (pad_int 2 i)" "int (dec_val (pad_int 2 i)) = i"
    using assms by (simp_all add: pad_int_def show_int_nonneg max_def)
qed

lemma year4:
  assumes "1000 \<le> y" "y \<le> 9999"
  shows "length (show_int y) = 4" "list_all is_digit (show_int y)" "int (dec_val (show_int y)) = y"
proof -
  have s: "show_int y = show_nat (nat y)" using assms by (simp add: show_int_nonneg)
  have "nat y < 10 ^ length (show_nat (nat y))" using dec_val_bound [of "show_nat (nat y)"] by simp
  moreover have "(10::nat) ^ length (show_nat (nat y)) \<le> 10 ^ 3" if "length (show_nat (nat y)) \<le> 3"
    using that by (intro power_increasing) simp_all
  moreover have "\<not> nat y < 10 ^ 3" "nat y < 10 ^ 4" using assms by simp_all
  ultimately have "\<not> length (show_nat (nat y)) \<le> 3" "length (show_nat (nat y)) \<le> 4"
    by (meson less_le_trans, intro length_show_nat) simp_all
  then show "length (show_int y) = 4" by (simp add: s)
  show "list_all is_digit (show_int y)" "int (dec_val (show_int y)) = y" using assms by (simp_all add: s)
qed

text \<open>A day whose year has four digits.\<close>

definition plainDay :: "int \<Rightarrow> bool" where
  "plainDay day \<longleftrightarrow> - 354285 \<le> day \<and> day \<le> 2932896"

lemma plainDay_limits: "civilDate (- 354285) = (1000, 1, 1)" "civilDate 2932896 = (9999, 12, 31)"
  by code_simp+

lemma plainDay_date:
  assumes "plainDay day" "civilDate day = (y, m, d)"
  shows "1000 \<le> y" "y \<le> 9999" "1 \<le> m" "m \<le> 12" "1 \<le> d" "d \<le> 31"
proof -
  show "1 \<le> m" "m \<le> 12" "1 \<le> d" "d \<le> 31" using civilDate_bounds [OF assms(2)] by simp_all
  show "1000 \<le> y" using civilDate_less [of "- 354285" day] plainDay_limits(1) assms
    by (cases "day = - 354285") (force simp: plainDay_def)+
  show "y \<le> 9999" using civilDate_less [of day 2932896] plainDay_limits(2) assms
    by (cases "day = 2932896") (force simp: plainDay_def)+
qed

definition dayText :: "int \<Rightarrow> string" where
  "dayText day = dateText (civilDate day)"

lemma dateParts_dayText: "plainDay day \<Longrightarrow> dateParts (dayText day) = Some (civilDate day)"
proof -
  assume p: "plainDay day"
  obtain y m d where c: "civilDate day = (y, m, d)" by (metis prod_cases3)
  note b = plainDay_date [OF p c]
  have m: "0 \<le> m" "m < 100" and d: "0 \<le> d" "d < 100" using b by simp_all
  note Y = year4 [OF b(1,2)] and M = pad2 [OF m] and D = pad2 [OF d]
  have "splitAt (CHR ''-'') (dayText day) = [show_int y, pad_int 2 m, pad_int 2 d]"
    using splitAt_field [OF Y(2), of "pad_int 2 m @ ''-'' @ pad_int 2 d"] splitAt_field [OF M(2), of "pad_int 2 d"] splitAt_last [OF D(2)]
    by (simp add: dayText_def dateText_def c)
  moreover have "digits_int (show_int y) = Some y" "digits_int (pad_int 2 m) = Some m" "digits_int (pad_int 2 d) = Some d"
    using Y M D by (auto simp: digits_int_def)
  ultimately show ?thesis by (simp add: dateParts_def c)
qed

lemma utcDay_civilDate: "plainDay day \<Longrightarrow> utcDay (civilDate day) = Some day"
proof -
  assume p: "plainDay day"
  obtain y m d where c: "civilDate day = (y, m, d)" by (metis prod_cases3)
  note b = plainDay_date [OF p c]
  have "civilDays y m 1 + d - 1 = civilDays y m d" by (simp add: civilDays_def Let_def)
  moreover have "(m - 1) div 12 = 0" "(m - 1) mod 12 = m - 1" using b by simp_all
  moreover have "\<bar>day\<bar> \<le> 100000000" using p unfolding plainDay_def by arith
  ultimately show ?thesis using b civilDays_civilDate [OF c] by (simp add: c utcDay_def timeClip_def)
qed

lemma dayText_less: "plainDay a \<Longrightarrow> plainDay b \<Longrightarrow> textLess (dayText a) (dayText b) \<longleftrightarrow> a < b"
proof -
  assume pa: "plainDay a" and pb: "plainDay b"
  have lt: "textLess (dayText a) (dayText b)" if "a < b" "plainDay a" "plainDay b" for a b
  proof -
    obtain y m d where c: "civilDate a = (y, m, d)" by (metis prod_cases3)
    obtain y' m' d' where c': "civilDate b = (y', m', d')" by (metis prod_cases3)
    note x = plainDay_date [OF that(2) c] and x' = plainDay_date [OF that(3) c']
    have m: "0 \<le> m" "m < 100" "0 \<le> m'" "m' < 100" and d: "0 \<le> d" "d < 100" "0 \<le> d'" "d' < 100" using x x' by simp_all
    note Y = year4 [OF x(1,2)] year4 [OF x'(1,2)] and M = pad2 [OF m(1,2)] pad2 [OF m(3,4)] and D = pad2 [OF d(1,2)] pad2 [OF d(3,4)]
    have "textLess (show_int y) (show_int y') \<longleftrightarrow> y < y'" "textLess (pad_int 2 m) (pad_int 2 m') \<longleftrightarrow> m < m'"
      "textLess (pad_int 2 d) (pad_int 2 d') \<longleftrightarrow> d < d'"
      using digits_order Y M D by (metis of_nat_less_iff)+
    then show ?thesis using civilDate_less [OF that(1) c c'] Y M D
      by (auto simp: dayText_def dateText_def c c' textLess_append)
  qed
  have irrefl: "\<not> textLess s s" for s by (induction s) auto
  have asym: "textLess s t \<Longrightarrow> \<not> textLess t s" for s t
    by (induction s t rule: textLess.induct) auto
  show ?thesis using lt [of a b] lt [of b a] asym irrefl pa pb by (metis linorder_neqE)
qed

lemma localDateString_dayText: "localDateString tzOffset at tz = dayText (localDay tzOffset at tz)"
  by (simp add: localDateString_def dayText_def)

lemma addDays_dayText: "plainDay day \<Longrightarrow> plainDay (day + n) \<Longrightarrow> addDays (dayText day) n = Some (dayText (day + n))"
proof -
  assume p: "plainDay day" "plainDay (day + n)"
  have "\<bar>day + n\<bar> \<le> 100000000" using p(2) unfolding plainDay_def by arith
  then show ?thesis by (simp add: addDays_def dateParts_dayText p(1) utcDay_civilDate timeClip_def) (simp add: dayText_def)
qed

lemma daysBetween_dayText: "plainDay a \<Longrightarrow> plainDay b \<Longrightarrow> daysBetween (dayText a) (dayText b) = Some (b - a)"
  by (simp add: daysBetween_def dateParts_dayText utcDay_civilDate)

end
