(* ===== verification/CodRemittance.thy ===== *)
theory CodRemittance
  imports Csv Money TrackingUtil "HOL-Library.Multiset"
begin

text \<open>
  \<open>recon-cod/cod-remittance-csv.ts\<close>: a courier's remittance file becomes rows to allocate and items
  to surface.  The rupee sign is outside the character set.
\<close>

section \<open>Definitions\<close>

datatype UnmatchedReason = NO_EXPECTATION | INVALID_AMOUNT | FORMULA_CONTENT | MISSING_AWB

record UnmatchedItem =
  um_rowIndex :: nat
  um_awb :: "string option"
  um_amount :: "string option"
  um_reason :: UnmatchedReason

record RemittanceColumnMapping =
  rm_awb :: string
  rm_amount :: string

definition defaultRemittanceMapping :: RemittanceColumnMapping where
  "defaultRemittanceMapping = \<lparr>rm_awb = ''awb'', rm_amount = ''amount''\<rparr>"

text \<open>The messages of \<open>RemittanceStructureError\<close>.\<close>

datatype structure_error =
    CsvParseFailed
  | EmptyFile
  | MissingColumns RemittanceColumnMapping
  | RowLimitExceeded nat
  | ColumnMapIncomplete

record ParsedRemittanceRow =
  pm_rowIndex :: nat
  pm_awbRaw :: string
  pm_awbNormalized :: string
  pm_amountPaise :: int

record RemittanceParseResult =
  pr_rows :: "ParsedRemittanceRow list"
  pr_invalid :: "UnmatchedItem list"
  pr_totalDataRows :: nat

definition remittanceAwb :: "string \<Rightarrow> string" where
  "remittanceAwb raw = to_upper (filter (\<lambda>c. \<not> (is_ws c \<or> c = CHR ''-'')) (trim raw))"

definition isFormulaContent :: "string \<Rightarrow> bool" where
  "isFormulaContent cell \<longleftrightarrow> take 1 cell \<in> {''='', ''+'', ''-'', ''@''}"

definition normalizeHeader :: "string \<Rightarrow> string" where
  "normalizeHeader h = to_lower (trim h)"

text \<open>\<open>None\<close> is a missing property; an array or a primitive has neither.\<close>

definition textProperty :: "json \<Rightarrow> string \<Rightarrow> string option" where
  "textProperty j name =
     (case j of JObj m \<Rightarrow> (case map_of m name of Some (JStr s) \<Rightarrow> (if s = '''' then None else Some s) | _ \<Rightarrow> None)
      | _ \<Rightarrow> None)"

definition mappingFromColumnMap :: "json \<Rightarrow> structure_error + RemittanceColumnMapping" where
  "mappingFromColumnMap mappingsJson =
     (case (textProperty mappingsJson ''awb'', textProperty mappingsJson ''amount'') of
        (Some a, Some b) \<Rightarrow> Inr \<lparr>rm_awb = a, rm_amount = b\<rparr>
      | _ \<Rightarrow> Inl ColumnMapIncomplete)"

definition parseAmountPaise :: "string \<Rightarrow> int option" where
  "parseAmountPaise cell =
     (let cleaned = filter (\<lambda>c. c \<noteq> CHR '','' \<and> \<not> is_ws c) cell in
      case dec_re 2 cleaned of None \<Rightarrow> None
      | Some _ \<Rightarrow> (case rupeesToPaise cleaned of Inl _ \<Rightarrow> None | Inr p \<Rightarrow> Some p))"

text \<open>\<open>indexOf\<close>; \<open>None\<close> is -1.\<close>

fun indexOf :: "string list \<Rightarrow> string \<Rightarrow> nat option" where
  "indexOf [] name = None"
| "indexOf (h # hs) name = (if h = name then Some 0 else map_option Suc (indexOf hs name))"

definition remittanceCell :: "string list \<Rightarrow> nat \<Rightarrow> string" where
  "remittanceCell cells i = trim (if i < length cells then cells ! i else '''')"

definition parseRemittanceRow :: "nat \<Rightarrow> nat \<Rightarrow> nat \<Rightarrow> string list \<Rightarrow> UnmatchedItem + ParsedRemittanceRow" where
  "parseRemittanceRow awbCol amountCol rowIndex cells =
     (let awbCell = remittanceCell cells awbCol; amountCell = remittanceCell cells amountCol in
      if isFormulaContent awbCell \<or> isFormulaContent amountCell
      then Inl \<lparr>um_rowIndex = rowIndex, um_awb = None, um_amount = None, um_reason = FORMULA_CONTENT\<rparr>
      else if awbCell = ''''
      then Inl \<lparr>um_rowIndex = rowIndex, um_awb = None, um_amount = None, um_reason = MISSING_AWB\<rparr>
      else (case parseAmountPaise amountCell of
          None \<Rightarrow> Inl \<lparr>um_rowIndex = rowIndex, um_awb = Some awbCell, um_amount = None, um_reason = INVALID_AMOUNT\<rparr>
        | Some p \<Rightarrow> Inr \<lparr>pm_rowIndex = rowIndex, pm_awbRaw = awbCell, pm_awbNormalized = remittanceAwb awbCell, pm_amountPaise = p\<rparr>))"

fun addParsed :: "UnmatchedItem + ParsedRemittanceRow \<Rightarrow> RemittanceParseResult \<Rightarrow> RemittanceParseResult" where
  "addParsed (Inl u) r = r\<lparr>pr_invalid := pr_invalid r @ [u]\<rparr>"
| "addParsed (Inr p) r = r\<lparr>pr_rows := pr_rows r @ [p]\<rparr>"

definition codImportMaxRows :: nat where
  "codImportMaxRows = 250000"

definition parseRemittanceCsv :: "string \<Rightarrow> RemittanceColumnMapping \<Rightarrow> structure_error + RemittanceParseResult" where
  "parseRemittanceCsv text mapping =
     (case parseCsvText text of None \<Rightarrow> Inl CsvParseFailed
      | Some grid \<Rightarrow>
          (case filter (\<lambda>r. \<not> blankRow r) grid of
             [] \<Rightarrow> Inl EmptyFile
           | first # dataRows \<Rightarrow>
               (let header = map normalizeHeader first in
                case (indexOf header (normalizeHeader (rm_awb mapping)), indexOf header (normalizeHeader (rm_amount mapping))) of
                  (Some awbCol, Some amountCol) \<Rightarrow>
                    if length dataRows > codImportMaxRows then Inl (RowLimitExceeded (length dataRows))
                    else Inr (fold (\<lambda>(i, cells). addParsed (parseRemittanceRow awbCol amountCol (i + 1) cells))
                           (enumerate 0 dataRows) \<lparr>pr_rows = [], pr_invalid = [], pr_totalDataRows = length dataRows\<rparr>)
                | _ \<Rightarrow> Inl (MissingColumns mapping))))"

section \<open>Laws\<close>

text \<open>Both modules normalise an AWB alike.\<close>

lemma remittanceAwb_normalizeAwb: "remittanceAwb raw = normalizeAwb raw"
  by (simp add: remittanceAwb_def normalizeAwb_def)

lemma parseAmountPaise_nonneg:
  assumes "parseAmountPaise cell = Some p"
  shows "0 \<le> p"
proof -
  define c where "c = filter (\<lambda>c. c \<noteq> CHR '','' \<and> \<not> is_ws c) cell"
  have re: "dec_re 2 c \<noteq> None" and p: "rupeesToPaise c = Inr p"
    using assms by (auto simp: parseAmountPaise_def c_def Let_def split: option.splits sum.splits)
  have "trim c = c" by (rule trim_no_ws) (simp add: c_def list_all_iff)
  moreover have "c \<noteq> []" "is_digit (hd c)" using re by (cases c; auto simp: dec_re_def Let_def split: if_splits)+
  moreover from this have "hd c \<noteq> CHR ''-''" by (auto simp: is_digit_def)
  ultimately show ?thesis using p by (auto simp: rupeesToPaise_def Let_def split: option.splits prod.splits if_splits)
qed

definition rowIndexes :: "RemittanceParseResult \<Rightarrow> nat multiset" where
  "rowIndexes r = mset (map pm_rowIndex (pr_rows r)) + mset (map um_rowIndex (pr_invalid r))"

lemma parseRemittanceRow_index:
  "parseRemittanceRow a b i cells = Inr p \<Longrightarrow> pm_rowIndex p = i \<and> 0 \<le> pm_amountPaise p \<and> pm_awbNormalized p = normalizeAwb (pm_awbRaw p)"
  "parseRemittanceRow a b i cells = Inl u \<Longrightarrow> um_rowIndex u = i"
  by (auto simp: parseRemittanceRow_def Let_def remittanceAwb_normalizeAwb split: if_splits option.splits dest: parseAmountPaise_nonneg)

lemma addParsed_total [simp]: "pr_totalDataRows (addParsed x r) = pr_totalDataRows r"
  by (cases x) simp_all

lemma addParsed_index: "rowIndexes (addParsed (parseRemittanceRow a b i cells) r) = add_mset i (rowIndexes r)"
  by (cases "parseRemittanceRow a b i cells") (auto simp: rowIndexes_def dest: parseRemittanceRow_index)

lemma parsed_rows:
  defines "step a b \<equiv> \<lambda>(i, cells). addParsed (parseRemittanceRow a b (i + 1) cells)"
  shows "rowIndexes (fold (step a b) (enumerate n lines) r) = mset [n + 1..<n + 1 + length lines] + rowIndexes r
    \<and> pr_totalDataRows (fold (step a b) (enumerate n lines) r) = pr_totalDataRows r
    \<and> (\<forall>p \<in> set (pr_rows (fold (step a b) (enumerate n lines) r)).
         p \<in> set (pr_rows r) \<or> (\<exists>k < length lines. parseRemittanceRow a b (n + k + 1) (lines ! k) = Inr p))"
proof (induction lines arbitrary: n r)
  case (Cons l lines)
  define r' where "r' = addParsed (parseRemittanceRow a b (n + 1) l) r"
  define R where "R = fold (step a b) (enumerate (Suc n) lines) r'"
  have R: "fold (step a b) (enumerate n (l # lines)) r = R" by (simp add: R_def r'_def step_def)
  have upt: "[n + 1..<n + 1 + length (l # lines)] = (n + 1) # [Suc n + 1..<Suc n + 1 + length lines]"
    by (simp add: upt_rec)
  have new: "\<forall>p \<in> set (pr_rows r'). p \<in> set (pr_rows r) \<or> parseRemittanceRow a b (n + 1) l = Inr p"
    by (cases "parseRemittanceRow a b (n + 1) l") (auto simp: r'_def)
  note IH = Cons.IH [of "Suc n" r', folded R_def]
  have "p \<in> set (pr_rows r) \<or> (\<exists>k < length (l # lines). parseRemittanceRow a b (n + k + 1) ((l # lines) ! k) = Inr p)"
    if "p \<in> set (pr_rows R)" for p
  proof -
    have "p \<in> set (pr_rows r') \<or> (\<exists>k < length lines. parseRemittanceRow a b (Suc n + k + 1) (lines ! k) = Inr p)"
      using IH that by blast
    then show ?thesis
    proof
      assume "p \<in> set (pr_rows r')"
      then show ?thesis using new by (auto intro!: exI [of _ 0])
    next
      assume "\<exists>k < length lines. parseRemittanceRow a b (Suc n + k + 1) (lines ! k) = Inr p"
      then obtain k where "k < length lines" "parseRemittanceRow a b (Suc n + k + 1) (lines ! k) = Inr p" by blast
      then show ?thesis by (intro disjI2 exI [of _ "Suc k"]) simp
    qed
  qed
  moreover have "rowIndexes R = mset [n + 1..<n + 1 + length (l # lines)] + rowIndexes r"
    using IH addParsed_index [of a b "n + 1" l r] unfolding upt by (simp add: r'_def)
  moreover have "pr_totalDataRows R = pr_totalDataRows r" using IH by (simp add: r'_def)
  ultimately show ?case unfolding R by blast
qed simp

lemma parseRemittanceCsv_Inr:
  "parseRemittanceCsv text mapping = Inr r \<Longrightarrow> \<exists>a b lines. length lines \<le> codImportMaxRows
    \<and> r = fold (\<lambda>(i, cells). addParsed (parseRemittanceRow a b (i + 1) cells)) (enumerate 0 lines)
        \<lparr>pr_rows = [], pr_invalid = [], pr_totalDataRows = length lines\<rparr>"
  by (auto simp: parseRemittanceCsv_def Let_def not_less split: option.splits list.splits if_splits)

lemma distinct_indexes:
  assumes "rowIndexes r = mset [a..<b]"
  shows "distinct (map pm_rowIndex (pr_rows r))" "distinct (map um_rowIndex (pr_invalid r))"
    "set (map pm_rowIndex (pr_rows r)) \<inter> set (map um_rowIndex (pr_invalid r)) = {}"
proof -
  have "mset (map pm_rowIndex (pr_rows r) @ map um_rowIndex (pr_invalid r)) = mset [a..<b]"
    using assms by (simp add: rowIndexes_def)
  then have "distinct (map pm_rowIndex (pr_rows r) @ map um_rowIndex (pr_invalid r))"
    by (metis distinct_upt mset_eq_imp_distinct_iff)
  then show "distinct (map pm_rowIndex (pr_rows r))" "distinct (map um_rowIndex (pr_invalid r))"
    "set (map pm_rowIndex (pr_rows r)) \<inter> set (map um_rowIndex (pr_invalid r)) = {}" by simp_all
qed


lemma parsed_index:
  "parseRemittanceCsv content m = Inr r \<Longrightarrow> rowIndexes r = mset [1..<pr_totalDataRows r + 1]"
proof -
  assume "parseRemittanceCsv content m = Inr r"
  then obtain a b lines where "length lines \<le> codImportMaxRows"
    and r: "r = fold (\<lambda>(i, cells). addParsed (parseRemittanceRow a b (i + 1) cells)) (enumerate 0 lines)
        \<lparr>pr_rows = [], pr_invalid = [], pr_totalDataRows = length lines\<rparr>"
    using parseRemittanceCsv_Inr by blast
  show ?thesis using parsed_rows [of a b 0 lines "\<lparr>pr_rows = [], pr_invalid = [], pr_totalDataRows = length lines\<rparr>", folded r]
    by (simp add: rowIndexes_def)
qed

text \<open>
  INV-20 for remittance files.  A file that parses loses no line: every data line is either one row to
  allocate or one item to surface, told apart by its number; a row carries a non-negative amount, the
  normal form of its AWB, and was read from the line of its number.
\<close>

theorem remittance_lines_accounted:
  assumes "parseRemittanceCsv text mapping = Inr r"
  shows "mset (map pm_rowIndex (pr_rows r)) + mset (map um_rowIndex (pr_invalid r)) = mset [1..<pr_totalDataRows r + 1]
    \<and> pr_totalDataRows r \<le> codImportMaxRows
    \<and> (\<exists>a b lines. length lines = pr_totalDataRows r \<and> (\<forall>p \<in> set (pr_rows r). pm_rowIndex p \<in> {1..length lines}
        \<and> 0 \<le> pm_amountPaise p \<and> pm_awbNormalized p = normalizeAwb (pm_awbRaw p)
        \<and> pm_awbRaw p = remittanceCell (lines ! (pm_rowIndex p - 1)) a
        \<and> parseAmountPaise (remittanceCell (lines ! (pm_rowIndex p - 1)) b) = Some (pm_amountPaise p)))"
proof -
  obtain a b lines where n: "length lines \<le> codImportMaxRows"
    and r: "r = fold (\<lambda>(i, cells). addParsed (parseRemittanceRow a b (i + 1) cells)) (enumerate 0 lines)
        \<lparr>pr_rows = [], pr_invalid = [], pr_totalDataRows = length lines\<rparr>"
    using parseRemittanceCsv_Inr [OF assms] by blast
  note p = parsed_rows [of a b 0 lines "\<lparr>pr_rows = [], pr_invalid = [], pr_totalDataRows = length lines\<rparr>", folded r]
  have rows: "pm_rowIndex p \<in> {1..length lines} \<and> 0 \<le> pm_amountPaise p \<and> pm_awbNormalized p = normalizeAwb (pm_awbRaw p)
      \<and> pm_awbRaw p = remittanceCell (lines ! (pm_rowIndex p - 1)) a
      \<and> parseAmountPaise (remittanceCell (lines ! (pm_rowIndex p - 1)) b) = Some (pm_amountPaise p)" if m: "p \<in> set (pr_rows r)" for p
  proof -
    obtain k where k: "k < length lines" "parseRemittanceRow a b (k + 1) (lines ! k) = Inr p"
      using p m by (auto simp del: upt_Suc)
    then have "pm_rowIndex p = k + 1" using parseRemittanceRow_index(1) by blast
    then show ?thesis using k parseRemittanceRow_index(1) [OF k(2)]
      by (auto simp: parseRemittanceRow_def Let_def split: if_splits option.splits)
  qed
  have "mset (map pm_rowIndex (pr_rows r)) + mset (map um_rowIndex (pr_invalid r)) = mset [1..<length lines + 1]"
    "pr_totalDataRows r = length lines"
    using p by (simp_all add: rowIndexes_def)
  then show ?thesis using n rows by auto
qed

definition sampleGrid :: grid where
  "sampleGrid = [['' AWB'', ''Amount''], [''ab-1'', ''1,010.50''], [''=x'', ''2''], ['''', ''3''], [''ab-2'', ''y'']]"

lemma sample_parsed: "parseRemittanceCsv (tableFile sampleGrid) defaultRemittanceMapping = Inr
    \<lparr>pr_rows = [\<lparr>pm_rowIndex = 1, pm_awbRaw = ''ab-1'', pm_awbNormalized = ''AB1'', pm_amountPaise = 101050\<rparr>],
     pr_invalid = [\<lparr>um_rowIndex = 2, um_awb = None, um_amount = None, um_reason = FORMULA_CONTENT\<rparr>,
       \<lparr>um_rowIndex = 3, um_awb = None, um_amount = None, um_reason = MISSING_AWB\<rparr>,
       \<lparr>um_rowIndex = 4, um_awb = Some ''ab-2'', um_amount = None, um_reason = INVALID_AMOUNT\<rparr>],
     pr_totalDataRows = 4\<rparr>"
proof -
  have "parseCsvText (tableFile sampleGrid) = Some sampleGrid"
    by (rule tableFile_read) (simp_all add: sampleGrid_def)
  moreover have "filter (\<lambda>r. \<not> blankRow r) sampleGrid
    = hd sampleGrid # [sampleGrid ! 1, sampleGrid ! 2, sampleGrid ! 3, sampleGrid ! 4]" by code_simp
  moreover have "map normalizeHeader (hd sampleGrid) = [''awb'', ''amount'']"
    "normalizeHeader ''awb'' = ''awb''" "normalizeHeader ''amount'' = ''amount''" by code_simp+
  moreover have "parseRemittanceRow 0 1 1 (sampleGrid ! 1) = Inr
      \<lparr>pm_rowIndex = 1, pm_awbRaw = ''ab-1'', pm_awbNormalized = ''AB1'', pm_amountPaise = 101050\<rparr>"
    "parseRemittanceRow 0 1 2 (sampleGrid ! 2) = Inl \<lparr>um_rowIndex = 2, um_awb = None, um_amount = None, um_reason = FORMULA_CONTENT\<rparr>"
    "parseRemittanceRow 0 1 3 (sampleGrid ! 3) = Inl \<lparr>um_rowIndex = 3, um_awb = None, um_amount = None, um_reason = MISSING_AWB\<rparr>"
    "parseRemittanceRow 0 1 4 (sampleGrid ! 4) = Inl \<lparr>um_rowIndex = 4, um_awb = Some ''ab-2'', um_amount = None, um_reason = INVALID_AMOUNT\<rparr>"
    by code_simp+
  moreover have "(4::nat) = Suc (Suc (Suc (Suc 0)))" by simp
  ultimately show ?thesis
    by (simp add: parseRemittanceCsv_def defaultRemittanceMapping_def codImportMaxRows_def numeral_2_eq_2 numeral_3_eq_3)
qed

lemma remittance_lines_accounted_witness:
  "\<exists>(r::RemittanceParseResult). parseRemittanceCsv (tableFile sampleGrid) defaultRemittanceMapping = Inr r
    \<and> length (pr_rows r) = 1 \<and> mset (map pm_rowIndex (pr_rows r)) + mset (map um_rowIndex (pr_invalid r)) = mset [1..<5]"
  using remittance_lines_accounted [OF sample_parsed] sample_parsed by simp

end
