(* ===== verification/CodRecon.thy ===== *)
theory CodRecon
  imports CodState CodRemittance Movement
begin

text \<open>
  COD reconciliation, the tables and the expectation service: \<open>recon-cod/cod-expectation.service.ts\<close>,
  \<open>cod-due-sweep.service.ts\<close>, the effective values of \<open>cod-settings.service.ts\<close>, the seam that the
  movement reducer calls, and migration 0015.  Amounts are paise, dates day numbers; shipments are
  listed in the order of their creation.  Every statement commits on its own: \<open>cv_others\<close> are the
  writes of other workers between two statements, numbered along the call.
\<close>

section \<open>Tables\<close>

record CodShipment =
  cs_shop_id :: string
  cs_shipment_id :: string
  cs_courier_account_id :: "string option"
  cs_is_test :: bool
  cs_awb_normalized :: "string option"
  cs_collectible :: string
  cs_snapshot_collectible :: "string option"

record CodExpectedRow =
  ce_expected_id :: string
  ce_shop_id :: string
  ce_shipment_id :: string
  ce_expected_amount :: int
  ce_delivered_at :: int
  ce_due_at :: int
  ce_state :: CodExpectedState
  ce_version :: int

datatype CodBatchState = COD_UPLOADED | COD_PARSED | COD_MATCHED | COD_RESOLVED | COD_FAILED

record CodBatchRow =
  cb_cod_batch_id :: string
  cb_shop_id :: string
  cb_courier_account_id :: string
  cb_batch_reference :: string
  cb_filename :: string
  cb_content_hash :: string
  cb_column_map_id :: "string option"
  cb_remittance_reference :: "string option"
  cb_remittance_date :: "string option"
  cb_declared_total :: "string option"
  cb_state :: CodBatchState
  cb_matched_count :: nat
  cb_unmatched_count :: nat
  cb_unmatched_json :: "UnmatchedItem list"
  cb_version :: int

record CodAllocation =
  al_cod_batch_id :: string
  al_expected_id :: string
  al_amount :: int
  al_idempotency_key :: string

record CodAccount =
  cx_courier_account_id :: string
  cx_shop_id :: string
  cx_cod_tolerance :: "int option"
  cx_cod_due_days :: "int option"

record CodSettings =
  ss_cod_tolerance :: int
  ss_cod_due_days :: int

datatype CodAudit =
    AuditExpected string
  | AuditRtoUncollected string CodExpectedState
  | AuditDueSweep string nat
  | AuditUpload string
  | AuditReupload string
  | AuditFailed string structure_error
  | AuditMatched string nat nat

record CodDb =
  cd_shipments :: "CodShipment list"
  cd_expected :: "CodExpectedRow list"
  cd_batches :: "CodBatchRow list"
  cd_allocations :: "CodAllocation list"
  cd_accounts :: "CodAccount list"
  cd_settings :: "string \<rightharpoonup> CodSettings"
  cd_timezones :: "string \<rightharpoonup> string"
  cd_columnMaps :: "string \<rightharpoonup> json"
  cd_audit :: "CodAudit list"

datatype cod_error =
    CodMoney js_error
  | NumericOverflow
  | InvalidDateText
  | BatchNotFound
  | UnknownColumnMap string
  | Unprocessable structure_error
  | UploadRefused string
  | ForeignKey

record CodEnv =
  cv_others :: "nat \<Rightarrow> CodDb \<Rightarrow> CodDb"
  cv_now :: "nat \<Rightarrow> int"
  cv_parse :: "string \<Rightarrow> int option"
  cv_newId :: "CodDb \<Rightarrow> string"
  cv_tzOffset :: "string \<Rightarrow> int \<Rightarrow> int"

type_synonym 'a cod = "(cod_error + 'a) \<times> CodDb"

definition bindC :: "'a cod \<Rightarrow> ('a \<Rightarrow> CodDb \<Rightarrow> 'b cod) \<Rightarrow> 'b cod" where
  "bindC r f = (case r of (Inl e, db) \<Rightarrow> (Inl e, db) | (Inr a, db) \<Rightarrow> f a db)"

definition codAudit :: "CodAudit \<Rightarrow> CodDb \<Rightarrow> CodDb" where
  "codAudit a db = db\<lparr>cd_audit := cd_audit db @ [a]\<rparr>"

text \<open>\<open>numeric(19,4)\<close>.\<close>

definition inNumeric :: "int \<Rightarrow> bool" where
  "inNumeric paise \<longleftrightarrow> \<bar>paise\<bar> < 10 ^ 17"

text \<open>A DATE column is read as a text of at least four digits of the year.\<close>

definition dateColumn :: "string \<Rightarrow> int option" where
  "dateColumn text = map_option (\<lambda>(y, m, d). civilDays y m d) (dateParts text)"

definition dateOut :: "int \<Rightarrow> string" where
  "dateOut day = (case civilDate day of (y, m, d) \<Rightarrow> pad_int 4 y @ ''-'' @ pad_int 2 m @ ''-'' @ pad_int 2 d)"

section \<open>Settings\<close>

definition accountOf :: "CodDb \<Rightarrow> string \<Rightarrow> string option \<Rightarrow> CodAccount option" where
  "accountOf db shopId account =
     List.find (\<lambda>a. Some (cx_courier_account_id a) = account \<and> cx_shop_id a = shopId) (cd_accounts db)"

text \<open>\<open>COALESCE(ca.x, rs.x, fallback)\<close>.\<close>

definition effective :: "(CodAccount \<Rightarrow> 'a option) \<Rightarrow> (CodSettings \<Rightarrow> 'a) \<Rightarrow> 'a \<Rightarrow> CodDb \<Rightarrow> string \<Rightarrow> string option \<Rightarrow> 'a" where
  "effective override setting fallback db shopId account =
     (case Option.bind (accountOf db shopId account) override of
        Some x \<Rightarrow> x
      | None \<Rightarrow> (case cd_settings db shopId of Some s \<Rightarrow> setting s | None \<Rightarrow> fallback))"

definition effectiveCodTolerance :: "CodDb \<Rightarrow> string \<Rightarrow> string option \<Rightarrow> int" where
  "effectiveCodTolerance = effective cx_cod_tolerance ss_cod_tolerance 100"

definition effectiveCodDueDays :: "CodDb \<Rightarrow> string \<Rightarrow> string option \<Rightarrow> int" where
  "effectiveCodDueDays = effective cx_cod_due_days ss_cod_due_days 7"

definition codTimezone :: "CodDb \<Rightarrow> string \<Rightarrow> string" where
  "codTimezone db shopId = (case cd_timezones db shopId of Some z \<Rightarrow> z | None \<Rightarrow> defaultTimezone)"

section \<open>Expectations\<close>

definition findCodShipment :: "CodDb \<Rightarrow> string \<Rightarrow> string \<Rightarrow> CodShipment option" where
  "findCodShipment db shopId shipmentId =
     List.find (\<lambda>s. cs_shop_id s = shopId \<and> cs_shipment_id s = shipmentId) (cd_shipments db)"

definition collectibleText :: "CodShipment \<Rightarrow> string" where
  "collectibleText s = (case cs_snapshot_collectible s of Some c \<Rightarrow> c | None \<Rightarrow> cs_collectible s)"

definition newExpected :: "string \<Rightarrow> string \<Rightarrow> string \<Rightarrow> int \<Rightarrow> int \<Rightarrow> int \<Rightarrow> CodExpectedRow" where
  "newExpected expectedId shopId shipmentId amount deliveredAt dueAt =
     \<lparr>ce_expected_id = expectedId, ce_shop_id = shopId, ce_shipment_id = shipmentId, ce_expected_amount = amount,
      ce_delivered_at = deliveredAt, ce_due_at = dueAt, ce_state = AWAITING, ce_version = 1\<rparr>"

text \<open>INSERT ... ON CONFLICT (shipment_id) DO NOTHING RETURNING; \<open>None\<close> is no row.\<close>

definition insertExpected :: "CodExpectedRow \<Rightarrow> CodDb \<Rightarrow> string option cod" where
  "insertExpected row db =
     (if \<not> inNumeric (ce_expected_amount row) then (Inl NumericOverflow, db)
      else if list_ex (\<lambda>e. ce_shipment_id e = ce_shipment_id row) (cd_expected db) then (Inr None, db)
      else (Inr (Some (ce_expected_id row)), db\<lparr>cd_expected := cd_expected db @ [row]\<rparr>))"

definition createOnDelivered :: "CodEnv \<Rightarrow> string \<Rightarrow> string \<Rightarrow> string \<Rightarrow> CodDb \<Rightarrow> string option cod" where
  "createOnDelivered env shopId shipmentId occurredAt db =
     (case findCodShipment db shopId shipmentId of
        None \<Rightarrow> (Inr None, db)
      | Some s \<Rightarrow>
          if cs_is_test s then (Inr None, db)
          else (case rupeesToPaise (collectibleText s) of
              Inl e \<Rightarrow> (Inl (CodMoney e), db)
            | Inr collectible \<Rightarrow>
                if collectible \<le> 0 then (Inr None, db)
                else
                  (let db1 = cv_others env 0 db;
                       dueDays = effectiveCodDueDays db1 shopId (cs_courier_account_id s);
                       timeZone = codTimezone db1 shopId;
                       db2 = cv_others env 1 db1
                   in case cv_parse env occurredAt of
                        None \<Rightarrow> (Inl InvalidDateText, db1)
                      | Some deliveredAt \<Rightarrow>
                     (case Option.bind (computeDueDate (cv_tzOffset env) deliveredAt dueDays timeZone) dateColumn of
                        None \<Rightarrow> (Inl InvalidDateText, db2)
                      | Some dueAt \<Rightarrow>
                          bindC (insertExpected (newExpected (cv_newId env db2) shopId shipmentId collectible deliveredAt dueAt) db2)
                            (\<lambda>inserted db3. case inserted of
                                 None \<Rightarrow> (Inr None, db3)
                               | Some expectedId \<Rightarrow> (Inr (Some expectedId), codAudit (AuditExpected expectedId) (cv_others env 2 db3)))))))"

definition findExpected :: "CodDb \<Rightarrow> (CodExpectedRow \<Rightarrow> bool) \<Rightarrow> CodExpectedRow option" where
  "findExpected db c = List.find c (cd_expected db)"

text \<open>UPDATE ... WHERE; with the rows it matched.\<close>

definition updateExpected :: "(CodExpectedRow \<Rightarrow> bool) \<Rightarrow> CodExpectedState \<Rightarrow> CodDb \<Rightarrow> CodDb \<times> CodExpectedRow list" where
  "updateExpected c state db =
     (db\<lparr>cd_expected := map (\<lambda>e. if c e then e\<lparr>ce_state := state, ce_version := ce_version e + 1\<rparr> else e) (cd_expected db)\<rparr>,
      filter c (cd_expected db))"

definition markRtoUncollected :: "CodEnv \<Rightarrow> string \<Rightarrow> string \<Rightarrow> CodDb \<Rightarrow> bool cod" where
  "markRtoUncollected env shopId shipmentId db =
     (case findExpected db (\<lambda>e. ce_shop_id e = shopId \<and> ce_shipment_id e = shipmentId) of
        None \<Rightarrow> (Inr False, db)
      | Some existing \<Rightarrow>
          if ce_state existing = RTO_UNCOLLECTED then (Inr False, db)
          else
            (let (db1, updated) = updateExpected (\<lambda>e. ce_expected_id e = ce_expected_id existing
                   \<and> ce_version e = ce_version existing) RTO_UNCOLLECTED (cv_others env 0 db)
             in if updated = [] then (Inr False, db1)
                else (Inr True, codAudit (AuditRtoUncollected (ce_expected_id existing) (ce_state existing)) (cv_others env 1 db1))))"

definition allocated :: "CodDb \<Rightarrow> string \<Rightarrow> int" where
  "allocated db expectedId = sum_list (map al_amount (filter (\<lambda>a. al_expected_id a = expectedId) (cd_allocations db)))"

text \<open>The gaps of \<open>recomputeState\<close> are numbered from \<open>k\<close>.\<close>

definition recomputeState :: "CodEnv \<Rightarrow> nat \<Rightarrow> string \<Rightarrow> string \<Rightarrow> CodDb \<Rightarrow> CodExpectedRow option \<times> CodDb" where
  "recomputeState env k shopId expectedId db =
     (case findExpected db (\<lambda>e. ce_shop_id e = shopId \<and> ce_expected_id e = expectedId) of
        None \<Rightarrow> (None, db)
      | Some row \<Rightarrow>
          (let sum = allocated db (ce_expected_id row);
               timeZone = codTimezone db (ce_shop_id row);
               db1 = cv_others env k db;
               account = Option.bind (findCodShipment db1 shopId (ce_shipment_id row)) cs_courier_account_id;
               db2 = cv_others env (k + 1) db1;
               tol = effectiveCodTolerance db2 shopId account;
               state' = deriveCodState (ce_expected_amount row) sum tol (take 10 (dateOut (ce_due_at row)))
                 (localDateString (cv_tzOffset env) (cv_now env k) timeZone) (ce_state row)
           in if state' = ce_state row then (Some row, db2)
              else (Some (row\<lparr>ce_state := state'\<rparr>),
                    fst (updateExpected (\<lambda>e. ce_expected_id e = ce_expected_id row \<and> ce_state e \<noteq> RTO_UNCOLLECTED)
                      state' (cv_others env (k + 2) db2)))))"

section \<open>The due sweep\<close>

definition pastDueLocally :: "CodEnv \<Rightarrow> int \<Rightarrow> CodDb \<Rightarrow> CodExpectedRow \<Rightarrow> bool" where
  "pastDueLocally env now db e \<longleftrightarrow> ce_state e \<in> {AWAITING, SHORT}
     \<and> ce_due_at e < localDay (cv_tzOffset env) now (codTimezone db (ce_shop_id e))"

definition sweepTx :: "CodEnv \<Rightarrow> int \<Rightarrow> CodDb \<Rightarrow> CodDb \<times> CodExpectedRow list" where
  "sweepTx env now db = updateExpected (pastDueLocally env now db) PENDING_OVERDUE db"

definition runDueSweep :: "CodEnv \<Rightarrow> CodDb \<Rightarrow> (string \<times> nat) list \<times> CodDb" where
  "runDueSweep env db =
     (let (db1, flipped) = sweepTx env (cv_now env 0) db;
          counts = map (\<lambda>shop. (shop, length (filter (\<lambda>e. ce_shop_id e = shop) flipped))) (remdups (map ce_shop_id flipped))
      in (counts, fold (\<lambda>(i, shop, n) d. codAudit (AuditDueSweep shop n) (cv_others env i d)) (enumerate 0 counts) db1))"

section \<open>The seam of the movement reducer\<close>

definition rtoMovementStates :: "MovementState list" where
  "rtoMovementStates = [RTO_INITIATED, RTO_IN_TRANSIT, RTO_OUT_FOR_DELIVERY, RTO_DELIVERED]"

definition codOnDelivered :: "CodEnv \<Rightarrow> string \<Rightarrow> string \<Rightarrow> string \<Rightarrow> CodDb \<Rightarrow> unit cod" where
  "codOnDelivered env shopId shipmentId occurredAt db =
     bindC (createOnDelivered env shopId shipmentId occurredAt db) (\<lambda>_ db'. (Inr (), db'))"

definition codOnRtoInitiated :: "CodEnv \<Rightarrow> string \<Rightarrow> string \<Rightarrow> MovementState \<Rightarrow> CodDb \<Rightarrow> unit cod" where
  "codOnRtoInitiated env shopId shipmentId movementState db =
     (if movementState \<notin> set rtoMovementStates then (Inr (), db)
      else bindC (markRtoUncollected env shopId shipmentId db) (\<lambda>_ db'. (Inr (), db')))"

definition codOnTerminalMovement :: "CodEnv \<Rightarrow> string \<Rightarrow> string \<Rightarrow> MovementState \<Rightarrow> CodDb \<Rightarrow> unit cod" where
  "codOnTerminalMovement env shopId shipmentId movementState db =
     (if movementState \<noteq> RTO_DELIVERED then (Inr (), db)
      else bindC (markRtoUncollected env shopId shipmentId db) (\<lambda>_ db'. (Inr (), db')))"

end
