(* ===== verification/CodImport.thy ===== *)
theory CodImport
  imports CodRecon
begin

text \<open>
  \<open>recon-cod/cod-import.service.ts\<close>: upload of a remittance file and its allocation to the
  expectations, statement by statement.  \<open>sha256\<close> is a parameter, the bytes of the upload are the
  decoded content.
\<close>

section \<open>Column maps\<close>

definition loadMapping :: "CodDb \<Rightarrow> string option \<Rightarrow> cod_error + RemittanceColumnMapping \<times> string option" where
  "loadMapping db columnMapId =
     (case columnMapId of
        None \<Rightarrow> Inr (defaultRemittanceMapping, None)
      | Some i \<Rightarrow>
          if i = '''' then Inr (defaultRemittanceMapping, None)
          else (case cd_columnMaps db i of
              None \<Rightarrow> Inl (UnknownColumnMap i)
            | Some j \<Rightarrow> (case mappingFromColumnMap j of
                Inl e \<Rightarrow> Inl (Unprocessable e)
              | Inr m \<Rightarrow> Inr (m, Some i))))"

section \<open>Upload\<close>

record UploadCodBatchInput =
  up_shopId :: string
  up_filename :: string
  up_content :: string
  up_courierAccountId :: string
  up_columnMapId :: "string option"
  up_remittanceReference :: "string option"
  up_remittanceDate :: "string option"
  up_declaredTotal :: "string option"

record UploadCodBatchResult =
  ur_batch :: CodBatchRow
  ur_idempotent :: bool
  ur_reuploaded :: bool

definition codImportMaxBytes :: nat where
  "codImportMaxBytes = 52428800"

text \<open>\<open>^\d{4}-\d{2}-\d{2}$\<close>.\<close>

definition isDateText :: "string \<Rightarrow> bool" where
  "isDateText s \<longleftrightarrow> length s = 10 \<and> s ! 4 = CHR ''-'' \<and> s ! 7 = CHR ''-''
     \<and> list_all is_digit (take 4 s @ take 2 (drop 5 s) @ drop 8 s)"

text \<open>\<open>lpad(n::text, 4, '0')\<close>, which cuts a longer text.\<close>

definition lpad4 :: "nat \<Rightarrow> string" where
  "lpad4 n = take 4 (pad_start 4 (CHR ''0'') (show_nat n))"

definition batchByHash :: "CodDb \<Rightarrow> string \<Rightarrow> string \<Rightarrow> CodBatchRow option" where
  "batchByHash db shopId h = List.find (\<lambda>b. cb_shop_id b = shopId \<and> cb_content_hash b = h) (cd_batches db)"

definition resetBatch :: "UploadCodBatchInput \<Rightarrow> string option \<Rightarrow> CodBatchRow \<Rightarrow> CodBatchRow" where
  "resetBatch inp columnMapId b = b\<lparr>cb_state := COD_UPLOADED, cb_filename := up_filename inp,
     cb_courier_account_id := up_courierAccountId inp, cb_column_map_id := columnMapId,
     cb_remittance_reference := up_remittanceReference inp, cb_remittance_date := up_remittanceDate inp,
     cb_declared_total := up_declaredTotal inp, cb_matched_count := 0, cb_unmatched_count := 0, cb_unmatched_json := [],
     cb_version := cb_version b + 1\<rparr>"

definition batchReference :: "CodDb \<Rightarrow> string \<Rightarrow> string \<Rightarrow> string" where
  "batchReference db shopId yyyymmdd =
     (let stem = ''COD-'' @ yyyymmdd @ ''-'';
          n = length (filter (\<lambda>b. cb_shop_id b = shopId \<and> take (length stem) (cb_batch_reference b) = stem) (cd_batches db))
      in stem @ lpad4 (n + 1))"

definition newBatch :: "string \<Rightarrow> UploadCodBatchInput \<Rightarrow> string option \<Rightarrow> string \<Rightarrow> string \<Rightarrow> CodBatchRow" where
  "newBatch batchId inp columnMapId h reference =
     \<lparr>cb_cod_batch_id = batchId, cb_shop_id = up_shopId inp, cb_courier_account_id = up_courierAccountId inp,
      cb_batch_reference = reference, cb_filename = up_filename inp, cb_content_hash = h, cb_column_map_id = columnMapId,
      cb_remittance_reference = up_remittanceReference inp, cb_remittance_date = up_remittanceDate inp,
      cb_declared_total = up_declaredTotal inp, cb_state = COD_UPLOADED, cb_matched_count = 0, cb_unmatched_count = 0,
      cb_unmatched_json = [], cb_version = 1\<rparr>"

text \<open>The casts and constraints of the row: a calendar date, the range of the total, the account.\<close>

definition batchColumns :: "CodDb \<Rightarrow> UploadCodBatchInput \<Rightarrow> cod_error + unit" where
  "batchColumns db inp =
     (if (case up_remittanceDate inp of None \<Rightarrow> False
          | Some d \<Rightarrow> (case dateParts d of None \<Rightarrow> True
              | Some (y, m, dd) \<Rightarrow> \<not> (1 \<le> m \<and> m \<le> 12 \<and> civilDate (civilDays y m dd) = (y, m, dd))))
      then Inl InvalidDateText
      else if (case up_declaredTotal inp of None \<Rightarrow> False
               | Some t \<Rightarrow> (case rupeesToPaise t of Inl _ \<Rightarrow> True | Inr p \<Rightarrow> \<not> inNumeric p))
      then Inl NumericOverflow
      else if \<not> list_ex (\<lambda>a. cx_courier_account_id a = up_courierAccountId inp) (cd_accounts db) then Inl ForeignKey
      else Inr ())"

definition validUpload :: "CodEnv \<Rightarrow> UploadCodBatchInput \<Rightarrow> CodDb \<Rightarrow> cod_error + unit" where
  "validUpload env inp db =
     (if up_content inp = '''' then Inl (UploadRefused ''empty upload'')
      else if length (up_content inp) > codImportMaxBytes then Inl (UploadRefused ''file exceeds the 50 MB import limit'')
      else if (case up_declaredTotal inp of None \<Rightarrow> False
               | Some t \<Rightarrow> (case rupeesToPaise t of Inl _ \<Rightarrow> True | Inr p \<Rightarrow> p < 0))
      then Inl (UploadRefused ''declared_total must be a non-negative INR amount'')
      else (case up_remittanceDate inp of
          None \<Rightarrow> Inr ()
        | Some d \<Rightarrow>
            if \<not> isDateText d then Inl (UploadRefused ''remittance_date must be YYYY-MM-DD'')
            else if textLess (localDateString (cv_tzOffset env) (cv_now env 0) (codTimezone db (up_shopId inp))) d
            then Inl (UploadRefused ''remittance_date cannot be future-dated'')
            else Inr ()))"

text \<open>The reset of a FAILED batch; with the rows it matched.\<close>

definition resetTx :: "UploadCodBatchInput \<Rightarrow> string option \<Rightarrow> string \<Rightarrow> CodDb \<Rightarrow> CodDb \<times> CodBatchRow list" where
  "resetTx inp columnMapId batchId db =
     (let c = (\<lambda>b. cb_cod_batch_id b = batchId \<and> cb_shop_id b = up_shopId inp \<and> cb_state b = COD_FAILED)
      in (db\<lparr>cd_batches := map (\<lambda>b. if c b then resetBatch inp columnMapId b else b) (cd_batches db)\<rparr>,
          map (resetBatch inp columnMapId) (filter c (cd_batches db))))"

definition uploadBatch :: "(string \<Rightarrow> string) \<Rightarrow> CodEnv \<Rightarrow> UploadCodBatchInput \<Rightarrow> CodDb \<Rightarrow> UploadCodBatchResult cod" where
  "uploadBatch sha256 env inp db =
     (case validUpload env inp db of
        Inl e \<Rightarrow> (Inl e, db)
      | Inr _ \<Rightarrow>
          (let db1 = cv_others env 0 db in
           case loadMapping db1 (up_columnMapId inp) of
             Inl e \<Rightarrow> (Inl e, db1)
           | Inr (mapping, columnMapId) \<Rightarrow>
               (let h = sha256 (up_content inp); db2 = cv_others env 1 db1; db3 = cv_others env 2 db2;
                    idempotent = (\<lambda>b. \<lparr>ur_batch = b, ur_idempotent = True, ur_reuploaded = False\<rparr>)
                in case batchByHash db2 (up_shopId inp) h of
                     Some prior \<Rightarrow>
                       if cb_state prior \<noteq> COD_FAILED then (Inr (idempotent prior), db2)
                       else (case batchColumns db3 inp of
                           Inl e \<Rightarrow> (Inl e, db3)
                         | Inr _ \<Rightarrow>
                             (case resetTx inp columnMapId (cb_cod_batch_id prior) db3 of
                                (db4, []) \<Rightarrow> (Inr (idempotent prior), db4)
                              | (db4, batch # _) \<Rightarrow>
                                  (Inr \<lparr>ur_batch = batch, ur_idempotent = False, ur_reuploaded = True\<rparr>,
                                   codAudit (AuditReupload (cb_cod_batch_id batch)) (cv_others env 3 db4))))
                   | None \<Rightarrow>
                       (case batchColumns db3 inp of
                          Inl e \<Rightarrow> (Inl e, db3)
                        | Inr _ \<Rightarrow>
                            (case batchByHash db3 (up_shopId inp) h of
                               Some winner \<Rightarrow>
                                 (let db4 = cv_others env 3 db3 in
                                  (case batchByHash db4 (up_shopId inp) h of
                                     Some w \<Rightarrow> (Inr (idempotent w), db4)
                                   | None \<Rightarrow> (Inl (UploadRefused ''unique violation''), db4)))
                             | None \<Rightarrow>
                                 (let yyyymmdd = filter (\<lambda>c. c \<noteq> CHR ''-'') (localDateString (cv_tzOffset env) (cv_now env 1)
                                          (codTimezone db (up_shopId inp)));
                                      batch = newBatch (cv_newId env db3) inp columnMapId h (batchReference db3 (up_shopId inp) yyyymmdd);
                                      db4 = db3\<lparr>cd_batches := cd_batches db3 @ [batch]\<rparr>
                                  in (Inr \<lparr>ur_batch = batch, ur_idempotent = False, ur_reuploaded = False\<rparr>,
                                      codAudit (AuditUpload (cb_cod_batch_id batch)) (cv_others env 4 db4))))))))"

section \<open>Processing\<close>

definition setBatch :: "string \<Rightarrow> string \<Rightarrow> (CodBatchRow \<Rightarrow> CodBatchRow) \<Rightarrow> CodDb \<Rightarrow> CodDb" where
  "setBatch shopId batchId f db = db\<lparr>cd_batches := map (\<lambda>b. if cb_cod_batch_id b = batchId \<and> cb_shop_id b = shopId
     then (f b)\<lparr>cb_version := cb_version b + 1\<rparr> else b) (cd_batches db)\<rparr>"

text \<open>The newest shipment of the account under the AWB that has an expectation.\<close>

definition expectationFor :: "CodDb \<Rightarrow> string \<Rightarrow> string \<Rightarrow> string \<Rightarrow> CodExpectedRow option" where
  "expectationFor db shopId account awb =
     (case rev (filter (\<lambda>s. cs_shop_id s = shopId \<and> cs_courier_account_id s = Some account \<and> cs_awb_normalized s = Some awb
            \<and> list_ex (\<lambda>e. ce_shipment_id e = cs_shipment_id s \<and> ce_shop_id e = shopId) (cd_expected db)) (cd_shipments db)) of
        [] \<Rightarrow> None
      | s # _ \<Rightarrow> List.find (\<lambda>e. ce_shipment_id e = cs_shipment_id s \<and> ce_shop_id e = shopId) (cd_expected db))"

definition allocationKey :: "string \<Rightarrow> ParsedRemittanceRow \<Rightarrow> string" where
  "allocationKey batchId row = ''cod:'' @ batchId @ '':'' @ show_nat (pm_rowIndex row) @ '':'' @ pm_awbNormalized row"

text \<open>INSERT ... ON CONFLICT (idempotency_key) DO NOTHING; \<open>False\<close> is no row.\<close>

definition insertAllocation :: "string \<Rightarrow> string \<Rightarrow> ParsedRemittanceRow \<Rightarrow> CodDb \<Rightarrow> bool cod" where
  "insertAllocation batchId expectedId row db =
     (if \<not> inNumeric (pm_amountPaise row) then (Inl NumericOverflow, db)
      else if list_ex (\<lambda>a. al_idempotency_key a = allocationKey batchId row) (cd_allocations db) then (Inr False, db)
      else (Inr True, db\<lparr>cd_allocations := cd_allocations db @ [\<lparr>al_cod_batch_id = batchId, al_expected_id = expectedId,
             al_amount = pm_amountPaise row, al_idempotency_key = allocationKey batchId row\<rparr>]\<rparr>))"

definition noExpectationItem :: "ParsedRemittanceRow \<Rightarrow> UnmatchedItem" where
  "noExpectationItem row = \<lparr>um_rowIndex = pm_rowIndex row, um_awb = Some (pm_awbNormalized row),
     um_amount = Some (paiseToRupees (pm_amountPaise row)), um_reason = NO_EXPECTATION\<rparr>"

datatype RowOutcome = RowUnmatched | RowReplayed | RowAllocated

text \<open>One turn of the loop; its gaps are numbered from \<open>k\<close>.\<close>

definition allocateRow :: "CodEnv \<Rightarrow> nat \<Rightarrow> CodBatchRow \<Rightarrow> ParsedRemittanceRow \<Rightarrow> CodDb \<Rightarrow> RowOutcome cod" where
  "allocateRow env k batch row db0 =
     (let db = cv_others env k db0; shopId = cb_shop_id batch in
      case expectationFor db shopId (cb_courier_account_id batch) (pm_awbNormalized row) of
        None \<Rightarrow> (Inr RowUnmatched, db)
      | Some e \<Rightarrow>
          bindC (insertAllocation (cb_cod_batch_id batch) (ce_expected_id e) row (cv_others env (k + 1) db))
            (\<lambda>inserted db2.
               if \<not> inserted then (Inr RowReplayed, db2)
               else if ce_state e \<noteq> RTO_UNCOLLECTED
               then (Inr RowAllocated, snd (recomputeState env (k + 3) shopId (ce_expected_id e) (cv_others env (k + 2) db2)))
               else (Inr RowAllocated, db2)))"

fun allocateRows :: "CodEnv \<Rightarrow> nat \<Rightarrow> CodBatchRow \<Rightarrow> ParsedRemittanceRow list \<Rightarrow> nat \<Rightarrow> UnmatchedItem list \<Rightarrow> CodDb
    \<Rightarrow> (nat \<times> UnmatchedItem list) cod" where
  "allocateRows env k batch [] matched unmatched db = (Inr (matched, unmatched), db)"
| "allocateRows env k batch (row # rows) matched unmatched db =
     bindC (allocateRow env k batch row db)
       (\<lambda>outcome db'. allocateRows env (k + 6) batch rows
          (if outcome = RowAllocated then matched + 1 else matched)
          (if outcome = RowUnmatched then unmatched @ [noExpectationItem row] else unmatched) db')"

datatype ProcessState = PS_MATCHED | PS_FAILED | PS_SKIPPED

record CodProcessResult =
  ps_batchId :: string
  ps_state :: ProcessState
  ps_matched :: nat
  ps_unmatched :: nat

definition batchResult :: "string \<Rightarrow> ProcessState \<Rightarrow> nat \<Rightarrow> nat \<Rightarrow> CodProcessResult" where
  "batchResult batchId st m u = \<lparr>ps_batchId = batchId, ps_state = st, ps_matched = m, ps_unmatched = u\<rparr>"

definition findCodBatch :: "CodDb \<Rightarrow> string \<Rightarrow> string \<Rightarrow> CodBatchRow option" where
  "findCodBatch db shopId batchId = List.find (\<lambda>b. cb_shop_id b = shopId \<and> cb_cod_batch_id b = batchId) (cd_batches db)"

definition failCodBatch :: "CodEnv \<Rightarrow> string \<Rightarrow> string \<Rightarrow> structure_error \<Rightarrow> CodDb \<Rightarrow> CodDb" where
  "failCodBatch env shopId batchId e db =
     codAudit (AuditFailed batchId e) (cv_others env 2 (setBatch shopId batchId (\<lambda>b. b\<lparr>cb_state := COD_FAILED\<rparr>) db))"

definition matchBatch :: "nat \<Rightarrow> UnmatchedItem list \<Rightarrow> CodBatchRow \<Rightarrow> CodBatchRow" where
  "matchBatch matched unmatched b = b\<lparr>cb_state := COD_MATCHED, cb_matched_count := matched,
     cb_unmatched_count := length unmatched, cb_unmatched_json := unmatched\<rparr>"

definition allocateFile :: "CodEnv \<Rightarrow> CodBatchRow \<Rightarrow> RemittanceParseResult \<Rightarrow> CodDb \<Rightarrow> CodProcessResult cod" where
  "allocateFile env batch parsed db =
     (let shopId = cb_shop_id batch; batchId = cb_cod_batch_id batch in
      bindC (allocateRows env 4 batch (pr_rows parsed) 0 (pr_invalid parsed)
          (setBatch shopId batchId (\<lambda>b. b\<lparr>cb_state := COD_PARSED\<rparr>) db))
        (\<lambda>(matched, unmatched) db'.
           (Inr (batchResult batchId PS_MATCHED matched (length unmatched)),
            codAudit (AuditMatched batchId matched (length unmatched)) (cv_others env 3
              (setBatch shopId batchId (matchBatch matched unmatched) (cv_others env 2 db'))))))"

definition processCodBatch :: "CodEnv \<Rightarrow> string \<Rightarrow> string \<Rightarrow> string \<Rightarrow> CodDb \<Rightarrow> CodProcessResult cod" where
  "processCodBatch env shopId batchId contentText db =
     (case findCodBatch db shopId batchId of
        None \<Rightarrow> (Inl BatchNotFound, db)
      | Some batch \<Rightarrow>
          if cb_state batch \<noteq> COD_UPLOADED then (Inr (batchResult batchId PS_SKIPPED 0 0), db)
          else
            (let db1 = cv_others env 0 db in
             case loadMapping db1 (cb_column_map_id batch) of
               Inl e \<Rightarrow> (Inl e, db1)
             | Inr (mapping, columnMapId) \<Rightarrow>
                 (case parseRemittanceCsv contentText mapping of
                    Inl e \<Rightarrow> (Inr (batchResult batchId PS_FAILED 0 0), failCodBatch env shopId batchId e (cv_others env 1 db1))
                  | Inr parsed \<Rightarrow> allocateFile env batch parsed (cv_others env 1 db1))))"

end
