(* ===== verification/Cod_Laws.thy ===== *)
theory Cod_Laws
  imports CodImport
begin

text \<open>
  COD reconciliation under concurrent workers: \<open>cod_step files\<close> lists the committed writes, where
  \<open>files\<close> gives the rows of each batch; every operation is a sequence of them.  Along every sequence an
  expectation keeps its amount and dates, RTO_UNCOLLECTED is final, allocations are only
  appended and each row of a file is allocated at most once.
\<close>

section \<open>Writes\<close>

definition batchIdentity :: "CodBatchRow \<Rightarrow> string \<times> string \<times> string" where
  "batchIdentity b = (cb_cod_batch_id b, cb_shop_id b, cb_content_hash b)"

inductive cod_step :: "(string \<Rightarrow> ParsedRemittanceRow list) \<Rightarrow> CodDb \<Rightarrow> CodDb \<Rightarrow> bool" for files where
  expected: "ce_expected_id row \<notin> ce_expected_id ` set (cd_expected db) \<Longrightarrow>
    ce_shipment_id row \<notin> ce_shipment_id ` set (cd_expected db) \<Longrightarrow> 0 < ce_expected_amount row \<Longrightarrow>
    cod_step files db (db\<lparr>cd_expected := cd_expected db @ [row]\<rparr>)"
| state: "\<forall>e \<in> set (cd_expected db). c e \<and> ce_state e = RTO_UNCOLLECTED \<longrightarrow> st = RTO_UNCOLLECTED \<Longrightarrow>
    cod_step files db (fst (updateExpected c st db))"
| allocation: "insertAllocation batchId expectedId row db = (Inr True, db') \<Longrightarrow> row \<in> set (files batchId) \<Longrightarrow>
    expectedId \<in> ce_expected_id ` set (cd_expected db) \<Longrightarrow> cod_step files db db'"
| uploaded: "batchByHash db (cb_shop_id b) (cb_content_hash b) = None \<Longrightarrow>
    cb_cod_batch_id b \<notin> cb_cod_batch_id ` set (cd_batches db) \<Longrightarrow>
    cod_step files db (db\<lparr>cd_batches := cd_batches db @ [b]\<rparr>)"
| batches: "map batchIdentity bs = map batchIdentity (cd_batches db) \<Longrightarrow> cod_step files db (db\<lparr>cd_batches := bs\<rparr>)"
| tables: "cod_step files db (db\<lparr>cd_shipments := sh, cd_accounts := ac, cd_settings := se, cd_timezones := tz,
    cd_columnMaps := cm, cd_audit := au\<rparr>)"

inductive_cases cod_stepE: "cod_step files db db'"

definition wfCodEnv :: "(string \<Rightarrow> ParsedRemittanceRow list) \<Rightarrow> CodEnv \<Rightarrow> bool" where
  "wfCodEnv files env \<longleftrightarrow> (\<forall>k db. (cod_step files)\<^sup>*\<^sup>* db (cv_others env k db))
     \<and> (\<forall>db. cv_newId env db \<notin> ce_expected_id ` set (cd_expected db) \<union> cb_cod_batch_id ` set (cd_batches db))"

definition wfFiles :: "(string \<Rightarrow> ParsedRemittanceRow list) \<Rightarrow> bool" where
  "wfFiles files \<longleftrightarrow> (\<forall>b. distinct (map pm_rowIndex (files b)) \<and> (\<forall>r \<in> set (files b). 0 \<le> pm_amountPaise r))"

section \<open>Invariants\<close>

definition allocationOf :: "(string \<Rightarrow> ParsedRemittanceRow list) \<Rightarrow> CodAllocation \<Rightarrow> bool" where
  "allocationOf files a \<longleftrightarrow> (\<exists>r \<in> set (files (al_cod_batch_id a)).
     al_idempotency_key a = allocationKey (al_cod_batch_id a) r \<and> al_amount a = pm_amountPaise r)"

definition codInv :: "(string \<Rightarrow> ParsedRemittanceRow list) \<Rightarrow> CodDb \<Rightarrow> bool" where
  "codInv files db \<longleftrightarrow> distinct (map ce_expected_id (cd_expected db)) \<and> distinct (map ce_shipment_id (cd_expected db))
     \<and> (\<forall>e \<in> set (cd_expected db). 0 < ce_expected_amount e)
     \<and> distinct (map al_idempotency_key (cd_allocations db))
     \<and> (\<forall>a \<in> set (cd_allocations db). allocationOf files a \<and> al_expected_id a \<in> ce_expected_id ` set (cd_expected db))
     \<and> distinct (map (snd \<circ> batchIdentity) (cd_batches db)) \<and> distinct (map cb_cod_batch_id (cd_batches db))"

text \<open>What stays of an expectation and of the allocations.\<close>

definition sameExpectation :: "CodExpectedRow \<Rightarrow> CodExpectedRow \<Rightarrow> bool" where
  "sameExpectation e e' \<longleftrightarrow> ce_expected_id e' = ce_expected_id e \<and> ce_shop_id e' = ce_shop_id e
     \<and> ce_shipment_id e' = ce_shipment_id e \<and> ce_expected_amount e' = ce_expected_amount e
     \<and> ce_delivered_at e' = ce_delivered_at e \<and> ce_due_at e' = ce_due_at e \<and> ce_version e \<le> ce_version e'
     \<and> (ce_version e' = ce_version e \<longrightarrow> e' = e) \<and> (ce_state e = RTO_UNCOLLECTED \<longrightarrow> ce_state e' = RTO_UNCOLLECTED)"

definition grownFrom :: "CodExpectedRow \<Rightarrow> CodAllocation list \<Rightarrow> CodDb \<Rightarrow> bool" where
  "grownFrom e als db \<longleftrightarrow> (\<exists>e' \<in> set (cd_expected db). sameExpectation e e') \<and> (\<exists>more. cd_allocations db = als @ more)"

lemma updateExpected_sel [simp]:
  "cd_allocations (fst (updateExpected c st db)) = cd_allocations db" "cd_batches (fst (updateExpected c st db)) = cd_batches db"
  "map ce_expected_id (cd_expected (fst (updateExpected c st db))) = map ce_expected_id (cd_expected db)"
  "map ce_shipment_id (cd_expected (fst (updateExpected c st db))) = map ce_shipment_id (cd_expected db)"
  "map ce_expected_amount (cd_expected (fst (updateExpected c st db))) = map ce_expected_amount (cd_expected db)"
  by (simp_all add: updateExpected_def comp_def)

lemma ids_sel [simp]:
  "ce_expected_id ` set (cd_expected (fst (updateExpected c st db))) = ce_expected_id ` set (cd_expected db)"
  by (metis updateExpected_sel(3) set_map)

lemma insertAllocation_True: "insertAllocation batchId expectedId row db = (Inr True, db') \<longleftrightarrow>
    inNumeric (pm_amountPaise row) \<and> allocationKey batchId row \<notin> al_idempotency_key ` set (cd_allocations db)
    \<and> db' = db\<lparr>cd_allocations := cd_allocations db @ [\<lparr>al_cod_batch_id = batchId, al_expected_id = expectedId,
        al_amount = pm_amountPaise row, al_idempotency_key = allocationKey batchId row\<rparr>]\<rparr>"
proof -
  have "list_ex (\<lambda>a. al_idempotency_key a = allocationKey batchId row) (cd_allocations db)
      \<longleftrightarrow> allocationKey batchId row \<in> al_idempotency_key ` set (cd_allocations db)"
    unfolding list_ex_iff image_iff by metis
  then show ?thesis by (auto simp: insertAllocation_def)
qed

lemma step_codInv: "cod_step files db db' \<Longrightarrow> codInv files db \<Longrightarrow> codInv files db'"
proof (induction rule: cod_step.induct)
  case (state db c st)
  have "\<forall>e \<in> set (cd_expected (fst (updateExpected c st db))). 0 < ce_expected_amount e"
    using state.prems by (auto simp: updateExpected_def codInv_def)
  with state.prems show ?case by (simp add: codInv_def)
next
  case (allocation batchId expectedId row db db')
  then show ?case by (auto simp: insertAllocation_True codInv_def allocationOf_def)
next
  case (uploaded db b)
  have "\<not> (\<exists>x. x \<in> set (cd_batches db) \<and> cb_shop_id x = cb_shop_id b \<and> cb_content_hash x = cb_content_hash b)"
    using uploaded.hyps(1) by (simp add: batchByHash_def find_None_iff)
  then have "snd (batchIdentity b) \<notin> (snd \<circ> batchIdentity) ` set (cd_batches db)"
    unfolding batchIdentity_def comp_def image_iff snd_conv by (metis prod.inject)
  with uploaded show ?case by (simp add: codInv_def)
next
  case (batches bs db)
  have "map (snd \<circ> batchIdentity) bs = map (snd \<circ> batchIdentity) (cd_batches db)"
    "map cb_cod_batch_id bs = map cb_cod_batch_id (cd_batches db)"
    using arg_cong [OF batches.hyps, of "map snd"] arg_cong [OF batches.hyps, of "map fst"]
    by (simp_all add: batchIdentity_def comp_def)
  with batches.prems show ?case by (simp add: codInv_def)
qed (auto simp: codInv_def)

lemma sameExpectation_refl [simp]: "sameExpectation e e"
  by (simp add: sameExpectation_def)

lemma sameExpectation_update:
  "sameExpectation e e' \<Longrightarrow> (ce_state e' = RTO_UNCOLLECTED \<Longrightarrow> st = RTO_UNCOLLECTED) \<Longrightarrow>
    sameExpectation e (e'\<lparr>ce_state := st, ce_version := ce_version e' + 1\<rparr>)"
  by (auto simp: sameExpectation_def)

lemma step_grown: "cod_step files db db' \<Longrightarrow> grownFrom e als db \<Longrightarrow> grownFrom e als db'"
proof (induction rule: cod_step.induct)
  case (state db c st)
  then obtain e' where e': "e' \<in> set (cd_expected db)" "sameExpectation e e'" by (auto simp: grownFrom_def)
  let ?f = "\<lambda>e. if c e then e\<lparr>ce_state := st, ce_version := ce_version e + 1\<rparr> else e"
  have "sameExpectation e (?f e')" using e' state.hyps by (auto intro: sameExpectation_update)
  moreover have "?f e' \<in> set (cd_expected (fst (updateExpected c st db)))"
    using e'(1) by (auto simp: updateExpected_def)
  ultimately show ?case using state.prems by (auto simp: grownFrom_def)
next
  case (allocation batchId expectedId row db db')
  then show ?case by (auto simp: insertAllocation_True grownFrom_def)
qed (auto simp: grownFrom_def)

interpretation remittances: invariant_system "cod_step files" "codInv files" for files
  by unfold_locales (rule step_codInv)

interpretation grown: invariant_system "cod_step files" "grownFrom e als" for files e als
  by unfold_locales (rule step_grown)

lemma grown_from_start: "(cod_step files)\<^sup>*\<^sup>* db db' \<Longrightarrow> e \<in> set (cd_expected db) \<Longrightarrow>
    (\<exists>e' \<in> set (cd_expected db'). sameExpectation e e')"
  using grown.reachable [of files db db' e "cd_allocations db"] by (force simp: grownFrom_def)

section \<open>Operations are sequences of writes\<close>

lemma codOthers: "wfCodEnv files env \<Longrightarrow> (cod_step files)\<^sup>*\<^sup>* db d \<Longrightarrow> (cod_step files)\<^sup>*\<^sup>* db (cv_others env k d)"
  unfolding wfCodEnv_def by (meson rtranclp_trans)

lemma codReach: "cod_step files d d' \<Longrightarrow> (cod_step files)\<^sup>*\<^sup>* db d \<Longrightarrow> (cod_step files)\<^sup>*\<^sup>* db d'"
  by (rule rtranclp.rtrancl_into_rtrancl)

lemma codAuditReach: "(cod_step files)\<^sup>*\<^sup>* db d \<Longrightarrow> (cod_step files)\<^sup>*\<^sup>* db (codAudit a d)"
proof -
  have "codAudit a d = d\<lparr>cd_shipments := cd_shipments d, cd_accounts := cd_accounts d, cd_settings := cd_settings d,
      cd_timezones := cd_timezones d, cd_columnMaps := cd_columnMaps d, cd_audit := cd_audit d @ [a]\<rparr>"
    by (simp add: codAudit_def)
  then have "cod_step files d (codAudit a d)" by (metis tables)
  then show "(cod_step files)\<^sup>*\<^sup>* db d \<Longrightarrow> (cod_step files)\<^sup>*\<^sup>* db (codAudit a d)" by (rule codReach)
qed

lemma bindC_reaches:
  "(cod_step files)\<^sup>*\<^sup>* db (snd r) \<Longrightarrow>
   (\<And>a d. r = (Inr a, d) \<Longrightarrow> (cod_step files)\<^sup>*\<^sup>* db d \<Longrightarrow> (cod_step files)\<^sup>*\<^sup>* db (snd (f a d))) \<Longrightarrow>
   (cod_step files)\<^sup>*\<^sup>* db (snd (bindC r f))"
  by (cases r) (auto simp: bindC_def split: sum.split)

lemma insertExpected_reaches:
  assumes "(cod_step files)\<^sup>*\<^sup>* db d" "ce_expected_id row \<notin> ce_expected_id ` set (cd_expected d)" "0 < ce_expected_amount row"
  shows "(cod_step files)\<^sup>*\<^sup>* db (snd (insertExpected row d))"
proof -
  have "ce_shipment_id row \<notin> ce_shipment_id ` set (cd_expected d)" if "\<not> list_ex (\<lambda>e. ce_shipment_id e = ce_shipment_id row) (cd_expected d)"
    using that by (auto simp: list_ex_iff)
  then show ?thesis using assms codReach [OF expected assms(1)] by (auto simp: insertExpected_def)
qed

lemma createOnDelivered_reaches:
  assumes env: "wfCodEnv files env" and d: "(cod_step files)\<^sup>*\<^sup>* db d"
  shows "(cod_step files)\<^sup>*\<^sup>* db (snd (createOnDelivered env shopId shipmentId occurredAt d))"
  using env d
  by (auto simp: createOnDelivered_def Let_def newExpected_def wfCodEnv_def [THEN iffD1, THEN conjunct2]
      split: option.split sum.split
      intro!: bindC_reaches insertExpected_reaches codOthers [OF env] codAuditReach)
    (auto simp: wfCodEnv_def)

lemma updateExpected_step:
  assumes "\<And>e. e \<in> set (cd_expected d) \<Longrightarrow> c e \<Longrightarrow> ce_state e = RTO_UNCOLLECTED \<Longrightarrow> st = RTO_UNCOLLECTED"
    "(cod_step files)\<^sup>*\<^sup>* db d"
  shows "(cod_step files)\<^sup>*\<^sup>* db (fst (updateExpected c st d))"
  using codReach [OF state assms(2)] assms(1) by blast

lemma markRtoUncollected_reaches:
  assumes env: "wfCodEnv files env" and d: "(cod_step files)\<^sup>*\<^sup>* db d"
  shows "(cod_step files)\<^sup>*\<^sup>* db (snd (markRtoUncollected env shopId shipmentId d))"
proof (cases "findExpected d (\<lambda>e. ce_shop_id e = shopId \<and> ce_shipment_id e = shipmentId)")
  case (Some x)
  let ?u = "updateExpected (\<lambda>e. ce_expected_id e = ce_expected_id x \<and> ce_version e = ce_version x) RTO_UNCOLLECTED (cv_others env 0 d)"
  have "(cod_step files)\<^sup>*\<^sup>* db (fst ?u)" by (intro updateExpected_step codOthers [OF env] d refl)
  then show ?thesis using d
    by (auto simp: markRtoUncollected_def Some split: prod.split intro!: codAuditReach codOthers [OF env])
qed (simp add: markRtoUncollected_def d)

lemma recomputeState_reaches:
  assumes env: "wfCodEnv files env" and d: "(cod_step files)\<^sup>*\<^sup>* db d"
  shows "(cod_step files)\<^sup>*\<^sup>* db (snd (recomputeState env k shopId expectedId d))"
  by (auto simp: recomputeState_def Let_def split: option.split
      intro!: updateExpected_step codOthers [OF env] d)

lemma fold_reaches:
  assumes "\<And>x d. (cod_step files)\<^sup>*\<^sup>* db d \<Longrightarrow> (cod_step files)\<^sup>*\<^sup>* db (f x d)" "(cod_step files)\<^sup>*\<^sup>* db d"
  shows "(cod_step files)\<^sup>*\<^sup>* db (fold f xs d)"
  using assms(2) by (induction xs arbitrary: d) (simp_all add: assms(1))

lemma runDueSweep_reaches:
  assumes env: "wfCodEnv files env" and d: "(cod_step files)\<^sup>*\<^sup>* db d"
  shows "(cod_step files)\<^sup>*\<^sup>* db (snd (runDueSweep env d))"
proof -
  have "(cod_step files)\<^sup>*\<^sup>* db (fst (sweepTx env (cv_now env 0) d))"
    unfolding sweepTx_def by (intro updateExpected_step d) (auto simp: pastDueLocally_def)
  then show ?thesis
    by (auto simp: runDueSweep_def Let_def split: prod.split intro!: fold_reaches codAuditReach codOthers [OF env])
qed

lemma batches_reaches:
  assumes "(cod_step files)\<^sup>*\<^sup>* db d" "\<And>b. b \<in> set (cd_batches d) \<Longrightarrow> batchIdentity (f b) = batchIdentity b"
  shows "(cod_step files)\<^sup>*\<^sup>* db (d\<lparr>cd_batches := map f (cd_batches d)\<rparr>)"
  using assms(2) by (intro codReach [OF batches assms(1)]) simp

lemma setBatch_reaches:
  "(cod_step files)\<^sup>*\<^sup>* db d \<Longrightarrow> (\<And>b. batchIdentity (f b) = batchIdentity b) \<Longrightarrow>
    (cod_step files)\<^sup>*\<^sup>* db (setBatch shopId batchId f d)"
  unfolding setBatch_def by (rule batches_reaches) (auto simp: batchIdentity_def)

lemma uploadBatch_reaches:
  assumes env: "wfCodEnv files env" and d: "(cod_step files)\<^sup>*\<^sup>* db d"
  shows "(cod_step files)\<^sup>*\<^sup>* db (snd (uploadBatch sha256 env inp d))"
proof -
  have reset: "(cod_step files)\<^sup>*\<^sup>* db (fst (resetTx inp m i x))" if "(cod_step files)\<^sup>*\<^sup>* db x" for m i x
    unfolding resetTx_def Let_def fst_conv by (rule batches_reaches [OF that]) (simp add: resetBatch_def batchIdentity_def)
  have new: "(cod_step files)\<^sup>*\<^sup>* db (x\<lparr>cd_batches := cd_batches x @ [newBatch (cv_newId env x) inp m h ref]\<rparr>)"
    if "(cod_step files)\<^sup>*\<^sup>* db x" "batchByHash x (up_shopId inp) h = None" for m h ref x
    using that env by (intro codReach [OF uploaded that(1)]) (auto simp: newBatch_def wfCodEnv_def)
  show ?thesis
    using reset d
    by (auto simp: uploadBatch_def Let_def split: sum.split option.split prod.split list.split
        intro!: codAuditReach codOthers [OF env] new) (metis codOthers [OF env] fst_conv)+
qed

lemma expectationFor_member: "expectationFor db shopId account awb = Some e \<Longrightarrow> e \<in> set (cd_expected db)"
  by (auto simp: expectationFor_def find_Some_iff split: list.splits)

lemma allocateRow_reaches:
  assumes env: "wfCodEnv files env" and d: "(cod_step files)\<^sup>*\<^sup>* db d" and row: "row \<in> set (files (cb_cod_batch_id batch))"
  shows "(cod_step files)\<^sup>*\<^sup>* db (snd (allocateRow env k batch row d))"
proof -
  let ?d1 = "cv_others env k d" and ?id = "cb_cod_batch_id batch"
  have d1: "(cod_step files)\<^sup>*\<^sup>* db ?d1" by (rule codOthers [OF env d])
  show ?thesis
  proof (cases "expectationFor ?d1 (cb_shop_id batch) (cb_courier_account_id batch) (pm_awbNormalized row)")
    case (Some e)
    let ?d2 = "cv_others env (k + 1) ?d1"
    have d2: "(cod_step files)\<^sup>*\<^sup>* db ?d2" by (rule codOthers [OF env d1])
    have "(cod_step files)\<^sup>*\<^sup>* ?d1 ?d2" by (rule codOthers [OF env]) simp
    then obtain e' where "e' \<in> set (cd_expected ?d2)" "sameExpectation e e'"
      using grown_from_start expectationFor_member [OF Some] by blast
    then have member: "ce_expected_id e \<in> ce_expected_id ` set (cd_expected ?d2)" by (metis sameExpectation_def image_eqI)
    have ins: "(cod_step files)\<^sup>*\<^sup>* db d3" if "insertAllocation ?id (ce_expected_id e) row ?d2 = (Inr True, d3)" for d3
      using codReach [OF allocation [where files = files, OF that row member] d2] .
    have other: "d3 = ?d2" if "insertAllocation ?id (ce_expected_id e) row ?d2 = (x, d3)" "x \<noteq> Inr True" for x d3
      using that by (auto simp: insertAllocation_def split: if_splits)
    have "(cod_step files)\<^sup>*\<^sup>* db (snd (insertAllocation ?id (ce_expected_id e) row ?d2))"
      using ins other d2 by (cases "insertAllocation ?id (ce_expected_id e) row ?d2") (metis snd_conv)
    then show ?thesis
      by (auto simp: allocateRow_def Let_def Some intro!: bindC_reaches recomputeState_reaches [OF env] codOthers [OF env])
  qed (simp add: allocateRow_def Let_def d1)
qed

lemma allocateRows_reaches:
  assumes env: "wfCodEnv files env" and d: "(cod_step files)\<^sup>*\<^sup>* db d" and rows: "set rows \<subseteq> set (files (cb_cod_batch_id batch))"
  shows "(cod_step files)\<^sup>*\<^sup>* db (snd (allocateRows env k batch rows m u d))"
  using d rows
proof (induction rows arbitrary: k m u d)
  case (Cons row rows)
  then show ?case by (auto intro!: bindC_reaches allocateRow_reaches [OF env])
qed simp

text \<open>The rows a run reads are those of the batch's file.\<close>

definition readsFile :: "(string \<Rightarrow> ParsedRemittanceRow list) \<Rightarrow> CodEnv \<Rightarrow> string \<Rightarrow> string \<Rightarrow> string \<Rightarrow> CodDb \<Rightarrow> bool" where
  "readsFile files env shopId batchId content db \<longleftrightarrow> (\<forall>b m c r. findCodBatch db shopId batchId = Some b
     \<and> loadMapping (cv_others env 0 db) (cb_column_map_id b) = Inr (m, c) \<and> parseRemittanceCsv content m = Inr r
     \<longrightarrow> set (pr_rows r) \<subseteq> set (files batchId))"

lemma processCodBatch_reaches:
  assumes env: "wfCodEnv files env" and d: "(cod_step files)\<^sup>*\<^sup>* db d" and reads: "readsFile files env shopId batchId content d"
  shows "(cod_step files)\<^sup>*\<^sup>* db (snd (processCodBatch env shopId batchId content d))"
proof (cases "findCodBatch d shopId batchId")
  case (Some b)
  have id: "cb_cod_batch_id b = batchId" using Some by (auto simp: findCodBatch_def find_Some_iff)
  have d1: "(cod_step files)\<^sup>*\<^sup>* db (cv_others env 1 (cv_others env 0 d))" by (intro codOthers [OF env] d)
  have set: "batchIdentity (x\<lparr>cb_state := st\<rparr>) = batchIdentity x" "batchIdentity (matchBatch m u x) = batchIdentity x" for x st m u
    by (simp_all add: batchIdentity_def matchBatch_def)
  have "(cod_step files)\<^sup>*\<^sup>* db (snd (allocateFile env b r (cv_others env 1 (cv_others env 0 d))))"
    if "loadMapping (cv_others env 0 d) (cb_column_map_id b) = Inr (m, c)" "parseRemittanceCsv content m = Inr r" for m c r
  proof -
    have "set (pr_rows r) \<subseteq> set (files (cb_cod_batch_id b))" using reads Some that unfolding readsFile_def id by blast
    then show ?thesis
      by (auto simp: allocateFile_def Let_def set
          intro!: bindC_reaches allocateRows_reaches [OF env] setBatch_reaches codAuditReach codOthers [OF env] d)
  qed
  then show ?thesis using d1 d
    by (auto simp: processCodBatch_def Some Let_def failCodBatch_def set split: sum.split
        intro!: codOthers [OF env] codAuditReach setBatch_reaches)
qed (simp add: processCodBatch_def d)

end
