(* ===== verification/Cod_Properties.thy ===== *)
theory Cod_Properties
  imports Cod_Laws
begin

text \<open>
  The properties of COD reconciliation: when an expectation is overdue, what any history of
  workers keeps, what an undisturbed run and the daily sweep do, and where interleavings or a
  failing row leave the records behind.
\<close>

section \<open>Due dates\<close>

text \<open>
  F-21 and F-13 together.  The due date stored for a delivery is the shop-local day of the delivery plus
  the due days, the aging counts the days past it, and an expectation is overdue exactly from
  the day after it on, as long as what was remitted stays short of the amount by more
  than the tolerance; an amount remitted in full is never overdue.
\<close>

theorem overdue_exactly_after_due_days:
  assumes "plainDay (localDay tzOffset at tz)" "plainDay (localDay tzOffset at tz + n)" "plainDay (localDay tzOffset now tz)"
    and "0 \<le> tol" "tol < expected" "0 \<le> r" "current \<noteq> RTO_UNCOLLECTED"
  shows "\<exists>due. computeDueDate tzOffset at n tz = Some due
    \<and> agingDays due (localDateString tzOffset now tz) = Some (max 0 (localDay tzOffset now tz - (localDay tzOffset at tz + n)))
    \<and> (deriveCodState expected r tol due (localDateString tzOffset now tz) current = PENDING_OVERDUE
       \<longleftrightarrow> localDay tzOffset at tz + n < localDay tzOffset now tz \<and> r < expected - tol)"
proof -
  let ?due = "dayText (localDay tzOffset at tz + n)"
  have "computeDueDate tzOffset at n tz = Some ?due"
    using assms(1,2) by (simp add: computeDueDate_def localDateString_dayText addDays_dayText)
  moreover have "agingDays ?due (localDateString tzOffset now tz) = Some (max 0 (localDay tzOffset now tz - (localDay tzOffset at tz + n)))"
    using assms(2,3) by (simp add: agingDays_def localDateString_dayText daysBetween_dayText)
  moreover have "textLess ?due (localDateString tzOffset now tz) \<longleftrightarrow> localDay tzOffset at tz + n < localDay tzOffset now tz"
    using assms(2,3) by (simp add: localDateString_dayText dayText_less)
  ultimately show ?thesis using assms(4-) by (intro exI [of _ ?due]) (simp add: deriveCodState_def Let_def)
qed

lemma overdue_exactly_after_due_days_witness:
  "\<exists>(due::string). computeDueDate (\<lambda>_ _. 19800000) 1709251199000 7 ''Asia/Kolkata'' = Some due
    \<and> deriveCodState 50000 0 100 due (localDateString (\<lambda>_ _. 19800000) 1709942400000 ''Asia/Kolkata'') AWAITING = PENDING_OVERDUE"
proof -
  have d: "localDay (\<lambda>_ _. 19800000) 1709251199000 ''Asia/Kolkata'' = 19783" "localDay (\<lambda>_ _. 19800000) 1709942400000 ''Asia/Kolkata'' = 19791"
    by (simp_all add: localDay_def)
  show ?thesis
    using overdue_exactly_after_due_days [of "\<lambda>_ _. 19800000" 1709251199000 "''Asia/Kolkata''" 7 1709942400000 100 50000 0 AWAITING]
    by (auto simp: d plainDay_def)
qed

section \<open>Every history\<close>

text \<open>The states one operation can end in, its other writers included.\<close>

definition codOutcomes :: "(string \<Rightarrow> ParsedRemittanceRow list) \<Rightarrow> CodDb \<Rightarrow> CodDb set" where
  "codOutcomes files db = {d. \<exists>env. wfCodEnv files env \<and>
     ((\<exists>shopId shipmentId at. d = snd (createOnDelivered env shopId shipmentId at db))
      \<or> (\<exists>shopId shipmentId. d = snd (markRtoUncollected env shopId shipmentId db))
      \<or> (\<exists>k shopId e. d = snd (recomputeState env k shopId e db))
      \<or> d = snd (runDueSweep env db)
      \<or> (\<exists>sha256 inp. d = snd (uploadBatch sha256 env inp db))
      \<or> (\<exists>shopId b content. readsFile files env shopId b content db \<and> d = snd (processCodBatch env shopId b content db)))}"

lemma codOutcomes_reached: "d \<in> codOutcomes files db \<Longrightarrow> (cod_step files)\<^sup>*\<^sup>* db d"
  by (auto simp: codOutcomes_def createOnDelivered_reaches markRtoUncollected_reaches recomputeState_reaches
      runDueSweep_reaches uploadBatch_reaches processCodBatch_reaches)

lemma codOutcomes_process:
  "wfCodEnv files env \<Longrightarrow> readsFile files env shopId b content db \<Longrightarrow> snd (processCodBatch env shopId b content db) \<in> codOutcomes files db"
  unfolding codOutcomes_def by (intro CollectI exI conjI disjI2) (assumption | rule refl)+

lemma codHistory: "(\<lambda>d d'. d' \<in> codOutcomes files d)\<^sup>*\<^sup>* db db' \<Longrightarrow> (cod_step files)\<^sup>*\<^sup>* db db'"
  by (induction rule: rtranclp_induct) (auto dest: codOutcomes_reached)

text \<open>The allocations of a batch, as rows of its file.\<close>

lemma allocated_rows:
  assumes "codInv files db"
  shows "\<exists>rows. distinct rows \<and> set rows \<subseteq> set (files b)
    \<and> map al_amount (filter (\<lambda>a. al_cod_batch_id a = b) (cd_allocations db)) = map pm_amountPaise rows"
proof -
  let ?as = "filter (\<lambda>a. al_cod_batch_id a = b) (cd_allocations db)"
  define g where "g a = (SOME r. r \<in> set (files b) \<and> al_idempotency_key a = allocationKey b r \<and> al_amount a = pm_amountPaise r)" for a :: CodAllocation
  have g: "g a \<in> set (files b) \<and> al_idempotency_key a = allocationKey b (g a) \<and> al_amount a = pm_amountPaise (g a)" if "a \<in> set ?as" for a
  proof -
    have "\<exists>r. r \<in> set (files b) \<and> al_idempotency_key a = allocationKey b r \<and> al_amount a = pm_amountPaise r"
      using assms that by (auto simp: codInv_def allocationOf_def)
    then show ?thesis unfolding g_def by (rule someI_ex)
  qed
  have "map al_idempotency_key ?as = map (allocationKey b) (map g ?as)" using g by simp
  moreover have "distinct (map al_idempotency_key ?as)" using assms by (simp add: codInv_def distinct_map_filter)
  ultimately have "distinct (map g ?as)" using distinct_map by metis
  moreover have "set (map g ?as) \<subseteq> set (files b)" "map al_amount ?as = map pm_amountPaise (map g ?as)" using g by auto
  ultimately show ?thesis by blast
qed

text \<open>
  C26: Over every history of uploads, processing runs, deliveries, returns, recomputations and sweeps, with any
  interleaving of their statements: each row of a remittance file is allocated at most once, so a
  batch never allocates more than its file remits; a shipment has one expectation; and an
  expectation keeps its amount and due date, stays RTO_UNCOLLECTED once it is, and loses no
  allocation.
\<close>

theorem remittances_allocated_once:
  assumes "wfFiles files" "codInv files db" "(\<lambda>d d'. d' \<in> codOutcomes files d)\<^sup>*\<^sup>* db db'"
  shows "(\<forall>b. \<exists>rows. distinct rows \<and> set rows \<subseteq> set (files b)
        \<and> map al_amount (filter (\<lambda>a. al_cod_batch_id a = b) (cd_allocations db')) = map pm_amountPaise rows
        \<and> sum_list (map pm_amountPaise rows) \<le> sum_list (map pm_amountPaise (files b)))
    \<and> distinct (map ce_shipment_id (cd_expected db'))
    \<and> (\<forall>e \<in> set (cd_expected db). \<exists>e' \<in> set (cd_expected db'). sameExpectation e e')
    \<and> (\<exists>more. cd_allocations db' = cd_allocations db @ more)"
proof -
  note run = codHistory [OF assms(3)]
  have inv: "codInv files db'" by (rule remittances.reachable [OF run assms(2)])
  have "sum_list (map pm_amountPaise rows) \<le> sum_list (map pm_amountPaise (files b))"
    if "distinct rows" "set rows \<subseteq> set (files b)" for b rows
  proof -
    have "distinct (files b)" "\<forall>r \<in> set (files b). 0 \<le> pm_amountPaise r"
      using assms(1) by (auto simp: wfFiles_def distinct_map)
    then show ?thesis using that by (auto simp: sum_list_distinct_conv_sum_set intro!: sum_mono2)
  qed
  then have "\<exists>rows. distinct rows \<and> set rows \<subseteq> set (files b)
        \<and> map al_amount (filter (\<lambda>a. al_cod_batch_id a = b) (cd_allocations db')) = map pm_amountPaise rows
        \<and> sum_list (map pm_amountPaise rows) \<le> sum_list (map pm_amountPaise (files b))" for b
    using allocated_rows [OF inv, of b] by metis
  moreover have "\<exists>more. cd_allocations db' = cd_allocations db @ more"
  proof (cases "cd_expected db")
    case (Cons e es)
    then show ?thesis using grown.reachable [OF run, of e "cd_allocations db"] by (force simp: grownFrom_def)
  next
    case Nil
    show ?thesis using run
    proof (induction rule: rtranclp_induct)
      case (step d d')
      from step(2) have "\<exists>more. cd_allocations d' = cd_allocations d @ more"
        by (cases rule: cod_step.cases) (auto simp: insertAllocation_True)
      with step.IH show ?case by auto
    qed simp
  qed
  moreover have "distinct (map ce_shipment_id (cd_expected db'))" using inv by (simp add: codInv_def)
  ultimately show ?thesis using grown_from_start [OF run] by blast
qed

section \<open>Undisturbed runs\<close>

definition undisturbed :: "CodEnv \<Rightarrow> int \<Rightarrow> bool" where
  "undisturbed env now \<longleftrightarrow> (\<forall>k db. cv_others env k db = db) \<and> (\<forall>k. cv_now env k = now)"

lemma undisturbedD [simp]: "undisturbed env now \<Longrightarrow> cv_others env k db = db" "undisturbed env now \<Longrightarrow> cv_now env k = now"
  by (simp_all add: undisturbed_def)

text \<open>The state F-13 gives an expectation now, and the row brought up to date.\<close>

definition derivedState :: "CodEnv \<Rightarrow> int \<Rightarrow> CodDb \<Rightarrow> CodExpectedRow \<Rightarrow> CodExpectedState" where
  "derivedState env now db e = deriveCodState (ce_expected_amount e) (allocated db (ce_expected_id e))
     (effectiveCodTolerance db (ce_shop_id e) (Option.bind (findCodShipment db (ce_shop_id e) (ce_shipment_id e)) cs_courier_account_id))
     (take 10 (dateOut (ce_due_at e))) (localDateString (cv_tzOffset env) now (codTimezone db (ce_shop_id e))) (ce_state e)"

definition refresh :: "CodEnv \<Rightarrow> int \<Rightarrow> CodDb \<Rightarrow> CodExpectedRow \<Rightarrow> CodExpectedRow" where
  "refresh env now db e = (if derivedState env now db e = ce_state e then e
     else e\<lparr>ce_state := derivedState env now db e, ce_version := ce_version e + 1\<rparr>)"

definition synced :: "CodEnv \<Rightarrow> int \<Rightarrow> CodDb \<Rightarrow> bool" where
  "synced env now db \<longleftrightarrow> (\<forall>e \<in> set (cd_expected db). ce_state e = derivedState env now db e)"

lemma deriveCodState_again: "deriveCodState x r t d n (deriveCodState x r t d n c) = deriveCodState x r t d n c"
  by (simp add: deriveCodState_def Let_def)

lemma derived_final: "ce_state e = RTO_UNCOLLECTED \<Longrightarrow> derivedState env now db e = RTO_UNCOLLECTED"
  by (simp add: derivedState_def deriveCodState_def)

lemma derivedState_cong:
  assumes "cd_shipments db' = cd_shipments db" "cd_accounts db' = cd_accounts db" "cd_settings db' = cd_settings db"
    "cd_timezones db' = cd_timezones db" "allocated db' (ce_expected_id e) = allocated db (ce_expected_id e)"
  shows "derivedState env now db' e = derivedState env now db e"
  using assms by (simp add: derivedState_def effectiveCodTolerance_def effective_def accountOf_def findCodShipment_def codTimezone_def
      cong: option.case_cong)

lemma refresh_sel [simp]:
  "ce_expected_id (refresh env now db e) = ce_expected_id e" "ce_shop_id (refresh env now db e) = ce_shop_id e"
  "ce_shipment_id (refresh env now db e) = ce_shipment_id e" "ce_state (refresh env now db e) = derivedState env now db e"
  "ce_expected_amount (refresh env now db e) = ce_expected_amount e" "ce_due_at (refresh env now db e) = ce_due_at e"
  by (simp_all add: refresh_def)

lemma derivedState_refresh [simp]: "derivedState env now db (refresh env now db e) = derivedState env now db e"
  by (simp add: derivedState_def [of env now db "refresh env now db e"] derivedState_def [of env now db e] deriveCodState_again)

lemma find_only:
  assumes "distinct (map f xs)" "x \<in> set xs" "P x" "\<And>y. P y \<Longrightarrow> f y = f x"
  shows "List.find P xs = Some x"
  using assms(1,2)
proof (induction xs)
  case (Cons y ys)
  show ?case
  proof (cases "P y")
    case True
    have "f y \<notin> f ` set ys" using Cons.prems(1) by simp
    then have "x \<notin> set ys" using imageI [of x "set ys" f] assms(4) [OF True] by metis
    then have "y = x" using Cons.prems(2) by simp
    then show ?thesis by (simp add: assms(3))
  next
    case False
    then have "x \<in> set ys" using Cons.prems(2) assms(3) by auto
    then show ?thesis using Cons.IH Cons.prems(1) False by simp
  qed
qed simp

lemma only_expected: "distinct (map ce_expected_id xs) \<Longrightarrow> e \<in> set xs \<Longrightarrow> x \<in> set xs \<Longrightarrow> ce_expected_id x = ce_expected_id e \<Longrightarrow> x = e"
  by (auto simp: distinct_map inj_on_def)

lemma recompute_undisturbed:
  assumes "undisturbed env now" and d: "distinct (map ce_expected_id (cd_expected db))" and e: "e \<in> set (cd_expected db)"
  shows "snd (recomputeState env k (ce_shop_id e) (ce_expected_id e) db)
    = db\<lparr>cd_expected := map (\<lambda>x. if ce_expected_id x = ce_expected_id e then refresh env now db x else x) (cd_expected db)\<rparr>"
proof -
  have f: "findExpected db (\<lambda>x. ce_shop_id x = ce_shop_id e \<and> ce_expected_id x = ce_expected_id e) = Some e"
    unfolding findExpected_def by (rule find_only [OF d e]) simp_all
  have same: "map (\<lambda>x. if ce_expected_id x = ce_expected_id e then g x else x) (cd_expected db)
      = map (\<lambda>x. if ce_expected_id x = ce_expected_id e \<and> c x then h x else x) (cd_expected db)"
    if "c e \<and> g e = h e \<or> \<not> c e \<and> g e = e" for g h c
    using that only_expected [OF d e] by (intro map_cong refl) auto
  show ?thesis
  proof (cases "derivedState env now db e = ce_state e")
    case True
    then have "refresh env now db e = e" by (simp add: refresh_def)
    then have "map (\<lambda>x. if ce_expected_id x = ce_expected_id e then refresh env now db x else x) (cd_expected db) = cd_expected db"
      using same [of "\<lambda>_. False" "refresh env now db" id] by simp
    then show ?thesis using True assms(1) by (simp add: recomputeState_def f Let_def derivedState_def)
  next
    case False
    then have "ce_state e \<noteq> RTO_UNCOLLECTED" using derived_final [of e env now db] by auto
    then show ?thesis
      using False assms(1) same [of "\<lambda>x. ce_state x \<noteq> RTO_UNCOLLECTED" "refresh env now db"
          "\<lambda>x. x\<lparr>ce_state := derivedState env now db e, ce_version := ce_version x + 1\<rparr>"]
      by (simp add: recomputeState_def f Let_def derivedState_def [symmetric] updateExpected_def refresh_def)
  qed
qed

definition targetOf :: "CodDb \<Rightarrow> CodBatchRow \<Rightarrow> ParsedRemittanceRow \<Rightarrow> string option" where
  "targetOf db batch row = map_option ce_expected_id
     (expectationFor db (cb_shop_id batch) (cb_courier_account_id batch) (pm_awbNormalized row))"

definition expectationKey :: "CodExpectedRow \<Rightarrow> string \<times> string \<times> string" where
  "expectationKey e = (ce_expected_id e, ce_shop_id e, ce_shipment_id e)"

lemma find_map_key: "map_option f (List.find (P \<circ> f) xs) = List.find P (map f xs)"
  by (induction xs) auto

lemma targetOf_cong:
  assumes "cd_shipments db' = cd_shipments db" "map expectationKey (cd_expected db') = map expectationKey (cd_expected db)"
  shows "targetOf db' batch row = targetOf db batch row"
proof -
  have ex: "list_ex (\<lambda>e. ce_shipment_id e = i \<and> ce_shop_id e = s) (cd_expected d)
      \<longleftrightarrow> list_ex (\<lambda>(_, s', i'). i' = i \<and> s' = s) (map expectationKey (cd_expected d))" for d i s
    by (simp add: list_ex_iff expectationKey_def)
  have find: "map_option ce_expected_id (List.find (\<lambda>e. ce_shipment_id e = i \<and> ce_shop_id e = s) (cd_expected d))
      = map_option fst (List.find (\<lambda>(_, s', i'). i' = i \<and> s' = s) (map expectationKey (cd_expected d)))" for d i s
    by (simp add: find_map_key [symmetric] option.map_comp comp_def expectationKey_def)
  show ?thesis
    unfolding targetOf_def expectationFor_def ex assms
    by (auto simp: find assms(2) split: list.split)
qed

definition newAllocation :: "CodBatchRow \<Rightarrow> string \<Rightarrow> ParsedRemittanceRow \<Rightarrow> CodAllocation" where
  "newAllocation batch expectedId row = \<lparr>al_cod_batch_id = cb_cod_batch_id batch, al_expected_id = expectedId,
     al_amount = pm_amountPaise row, al_idempotency_key = allocationKey (cb_cod_batch_id batch) row\<rparr>"

definition withAllocation :: "CodEnv \<Rightarrow> int \<Rightarrow> CodBatchRow \<Rightarrow> string \<Rightarrow> ParsedRemittanceRow \<Rightarrow> CodDb \<Rightarrow> CodDb" where
  "withAllocation env now batch i row db = (let db1 = db\<lparr>cd_allocations := cd_allocations db @ [newAllocation batch i row]\<rparr>
     in db1\<lparr>cd_expected := map (\<lambda>x. if ce_expected_id x = i then refresh env now db1 x else x) (cd_expected db)\<rparr>)"

lemma withAllocation_sel [simp]:
  "cd_allocations (withAllocation env now batch i row db) = cd_allocations db @ [newAllocation batch i row]"
  "map expectationKey (cd_expected (withAllocation env now batch i row db)) = map expectationKey (cd_expected db)"
  "map ce_expected_id (cd_expected (withAllocation env now batch i row db)) = map ce_expected_id (cd_expected db)"
  "cd_shipments (withAllocation env now batch i row db) = cd_shipments db"
  "cd_batches (withAllocation env now batch i row db) = cd_batches db"
  by (auto simp: withAllocation_def Let_def expectationKey_def)

lemma allocateRow_undisturbed:
  assumes u: "undisturbed env now" and d: "distinct (map ce_expected_id (cd_expected db))"
    and row: "allocationKey (cb_cod_batch_id batch) row \<notin> al_idempotency_key ` set (cd_allocations db)"
  shows "allocateRow env k batch row db = (case targetOf db batch row of
      None \<Rightarrow> (Inr RowUnmatched, db)
    | Some i \<Rightarrow> if inNumeric (pm_amountPaise row) then (Inr RowAllocated, withAllocation env now batch i row db)
        else (Inl NumericOverflow, db))"
proof (cases "expectationFor db (cb_shop_id batch) (cb_courier_account_id batch) (pm_awbNormalized row)")
  case (Some e)
  have e: "e \<in> set (cd_expected db)" "ce_shop_id e = cb_shop_id batch"
    using Some by (auto simp: expectationFor_def find_Some_iff split: list.splits)
  have t: "targetOf db batch row = Some (ce_expected_id e)" by (simp add: targetOf_def Some)
  show ?thesis
  proof (cases "inNumeric (pm_amountPaise row)")
    case False
    then show ?thesis using u t by (simp add: allocateRow_def Let_def Some insertAllocation_def bindC_def)
  next
    case True
    define db1 where "db1 = db\<lparr>cd_allocations := cd_allocations db @ [newAllocation batch (ce_expected_id e) row]\<rparr>"
    have ins: "insertAllocation (cb_cod_batch_id batch) (ce_expected_id e) row db = (Inr True, db1)"
      using True row by (simp add: insertAllocation_True db1_def newAllocation_def)
    have e1: "e \<in> set (cd_expected db1)" "distinct (map ce_expected_id (cd_expected db1))" using e d by (simp_all add: db1_def)
    have w: "withAllocation env now batch (ce_expected_id e) row db
        = db1\<lparr>cd_expected := map (\<lambda>x. if ce_expected_id x = ce_expected_id e then refresh env now db1 x else x) (cd_expected db)\<rparr>"
      by (simp add: withAllocation_def Let_def db1_def)
    have "db1 = withAllocation env now batch (ce_expected_id e) row db" if "ce_state e = RTO_UNCOLLECTED"
    proof -
      have "refresh env now db1 e = e" using derived_final [OF that] that by (simp add: refresh_def)
      then have "map (\<lambda>x. if ce_expected_id x = ce_expected_id e then refresh env now db1 x else x) (cd_expected db) = cd_expected db"
        using only_expected [OF d e(1)] by (intro map_idI) auto
      then show ?thesis by (simp add: w) (simp add: db1_def)
    qed
    then show ?thesis
      using recompute_undisturbed [OF u e1(2,1), of "k + 3"] True u t e(2)
      by (simp add: allocateRow_def Let_def Some ins bindC_def w) (simp add: db1_def)
  qed
qed (use u in \<open>simp add: allocateRow_def Let_def targetOf_def\<close>)

lemma allocated_withAllocation: "allocated (withAllocation env now batch i row db) j
    = allocated db j + (if j = i then pm_amountPaise row else 0)"
  by (simp add: allocated_def newAllocation_def)

lemma synced_withAllocation:
  assumes "synced env now db"
  shows "synced env now (withAllocation env now batch i row db)"
proof -
  define db1 where "db1 = db\<lparr>cd_allocations := cd_allocations db @ [newAllocation batch i row]\<rparr>"
  have d: "derivedState env now (withAllocation env now batch i row db) e = derivedState env now db1 e" for e
    by (rule derivedState_cong) (simp_all add: withAllocation_def Let_def db1_def allocated_def)
  have old: "derivedState env now db1 e = derivedState env now db e" if "ce_expected_id e \<noteq> i" for e
    by (rule derivedState_cong) (use that in \<open>simp_all add: db1_def allocated_def newAllocation_def\<close>)
  show ?thesis
    unfolding synced_def d
    using assms old by (auto simp: synced_def withAllocation_def Let_def db1_def [symmetric])
qed

definition isTargeted :: "CodDb \<Rightarrow> CodBatchRow \<Rightarrow> ParsedRemittanceRow \<Rightarrow> bool" where
  "isTargeted db batch row \<longleftrightarrow> targetOf db batch row \<noteq> None"

definition unallocatedRow :: "CodDb \<Rightarrow> CodBatchRow \<Rightarrow> ParsedRemittanceRow \<Rightarrow> bool" where
  "unallocatedRow db batch row \<longleftrightarrow> allocationKey (cb_cod_batch_id batch) row \<notin> al_idempotency_key ` set (cd_allocations db)"

lemma unallocatedRow_withAllocation: "unallocatedRow (withAllocation env now batch i row db) batch r \<longleftrightarrow> unallocatedRow db batch r
    \<and> allocationKey (cb_cod_batch_id batch) r \<noteq> allocationKey (cb_cod_batch_id batch) row"
  by (auto simp: unallocatedRow_def newAllocation_def)

lemma targetOf_withAllocation [simp]: "targetOf (withAllocation env now batch i row db) batch' r = targetOf db batch' r"
  by (rule targetOf_cong) simp_all

text \<open>The loop over rows that all fit the column.\<close>

lemma allocateRows_undisturbed:
  assumes u: "undisturbed env now"
  shows "distinct (map ce_expected_id (cd_expected db)) \<Longrightarrow>
    (\<And>row. row \<in> set rows \<Longrightarrow> inNumeric (pm_amountPaise row) \<and> unallocatedRow db batch row) \<Longrightarrow>
    distinct (map (allocationKey (cb_cod_batch_id batch)) rows) \<Longrightarrow>
    \<exists>db'. allocateRows env k batch (rows @ rest) m us db = allocateRows env (k + 6 * length rows) batch rest
        (m + length (filter (isTargeted db batch) rows))
        (us @ map noExpectationItem (filter (\<lambda>row. \<not> isTargeted db batch row) rows)) db'
      \<and> cd_allocations db' = cd_allocations db @ map (\<lambda>row. newAllocation batch (the (targetOf db batch row)) row) (filter (isTargeted db batch) rows)
      \<and> map expectationKey (cd_expected db') = map expectationKey (cd_expected db)
      \<and> cd_shipments db' = cd_shipments db \<and> cd_batches db' = cd_batches db \<and> (synced env now db \<longrightarrow> synced env now db')"
proof (induction rows arbitrary: db k m us)
  case Nil
  then show ?case by (intro exI [of _ db]) simp
next
  case (Cons row rows)
  have row: "inNumeric (pm_amountPaise row)" "unallocatedRow db batch row" using Cons.prems(2) by simp_all
  note step = allocateRow_undisturbed [OF u Cons.prems(1) row(2) [unfolded unallocatedRow_def], of k]
  show ?case
  proof (cases "targetOf db batch row")
    case None
    have n: "\<not> isTargeted db batch row" by (simp add: isTargeted_def None)
    have "allocateRows env k batch ((row # rows) @ rest) m us db
        = allocateRows env (k + 6) batch (rows @ rest) m (us @ [noExpectationItem row]) db"
      by (simp add: step None bindC_def)
    moreover obtain db' where "allocateRows env (k + 6) batch (rows @ rest) m (us @ [noExpectationItem row]) db
        = allocateRows env (k + 6 + 6 * length rows) batch rest (m + length (filter (isTargeted db batch) rows))
          ((us @ [noExpectationItem row]) @ map noExpectationItem (filter (\<lambda>row. \<not> isTargeted db batch row) rows)) db'"
      "cd_allocations db' = cd_allocations db @ map (\<lambda>row. newAllocation batch (the (targetOf db batch row)) row) (filter (isTargeted db batch) rows)"
      "map expectationKey (cd_expected db') = map expectationKey (cd_expected db)"
      "cd_shipments db' = cd_shipments db" "cd_batches db' = cd_batches db" "synced env now db \<longrightarrow> synced env now db'"
      using Cons.IH [of db "k + 6" m "us @ [noExpectationItem row]"] Cons.prems by auto
    ultimately show ?thesis by (intro exI [of _ db']) (simp add: n add.assoc add.left_commute)
  next
    case (Some i)
    let ?d = "withAllocation env now batch i row db"
    have t: "isTargeted db batch row" by (simp add: isTargeted_def Some)
    have same: "isTargeted ?d batch r = isTargeted db batch r" for r by (simp add: isTargeted_def)
    have "allocateRows env k batch ((row # rows) @ rest) m us db = allocateRows env (k + 6) batch (rows @ rest) (m + 1) us ?d"
      by (simp add: step Some bindC_def row(1))
    moreover have "\<And>r. r \<in> set rows \<Longrightarrow> inNumeric (pm_amountPaise r) \<and> unallocatedRow ?d batch r"
      using Cons.prems(2,3) by (auto simp: unallocatedRow_withAllocation image_iff)
    then obtain db' where "allocateRows env (k + 6) batch (rows @ rest) (m + 1) us ?d
        = allocateRows env (k + 6 + 6 * length rows) batch rest (m + 1 + length (filter (isTargeted db batch) rows))
          (us @ map noExpectationItem (filter (\<lambda>row. \<not> isTargeted db batch row) rows)) db'"
      "cd_allocations db' = cd_allocations ?d @ map (\<lambda>row. newAllocation batch (the (targetOf db batch row)) row) (filter (isTargeted db batch) rows)"
      "map expectationKey (cd_expected db') = map expectationKey (cd_expected ?d)"
      "cd_shipments db' = cd_shipments ?d" "cd_batches db' = cd_batches ?d" "synced env now ?d \<longrightarrow> synced env now db'"
      using Cons.IH [of ?d "k + 6" "m + 1" us] Cons.prems(1,3) by (auto simp: same)
    ultimately show ?thesis using synced_withAllocation [of env now db batch i row]
      by (intro exI [of _ db']) (simp add: t Some add.assoc add.left_commute)
  qed
qed

lemma allocationKey_index:
  assumes "allocationKey b r = allocationKey b r'"
  shows "pm_rowIndex r = pm_rowIndex r'"
proof -
  have "takeWhile is_digit (show_nat n @ CHR '':'' # s) = show_nat n" for n s
    by (subst takeWhile_append2) (use show_nat_digits [of n] in \<open>auto simp: list_all_iff is_digit_def\<close>)
  moreover have "show_nat (pm_rowIndex r) @ CHR '':'' # pm_awbNormalized r = show_nat (pm_rowIndex r') @ CHR '':'' # pm_awbNormalized r'"
    using assms by (simp add: allocationKey_def)
  ultimately have "show_nat (pm_rowIndex r) = show_nat (pm_rowIndex r')" by metis
  then show ?thesis by (metis dec_val_show_nat)
qed

lemma parsed_keys_distinct:
  assumes "parseRemittanceCsv content m = Inr r"
  shows "distinct (map (allocationKey b) (pr_rows r))" "pr_totalDataRows r = length (pr_rows r) + length (pr_invalid r)"
proof -
  have i: "rowIndexes r = mset [1..<pr_totalDataRows r + 1]"
    using parsed_index [OF assms] .
  have d: "distinct (map pm_rowIndex (pr_rows r))" by (rule distinct_indexes(1) [OF i])
  then show "distinct (map (allocationKey b) (pr_rows r))"
    by (auto simp: distinct_map inj_on_def dest: allocationKey_index)
  have "size (rowIndexes r) = pr_totalDataRows r" by (simp add: i)
  then show "pr_totalDataRows r = length (pr_rows r) + length (pr_invalid r)" by (simp add: rowIndexes_def)
qed

lemma synced_cong:
  assumes "cd_expected db' = cd_expected db" "cd_shipments db' = cd_shipments db" "cd_accounts db' = cd_accounts db"
    "cd_settings db' = cd_settings db" "cd_timezones db' = cd_timezones db" "cd_allocations db' = cd_allocations db"
  shows "synced env now db' \<longleftrightarrow> synced env now db"
  using derivedState_cong [OF assms(2-5)] by (simp add: synced_def assms(1) allocated_def assms(6))

lemma setBatch_sel [simp]:
  "cd_expected (setBatch shopId b f db) = cd_expected db" "cd_shipments (setBatch shopId b f db) = cd_shipments db"
  "cd_accounts (setBatch shopId b f db) = cd_accounts db" "cd_settings (setBatch shopId b f db) = cd_settings db"
  "cd_timezones (setBatch shopId b f db) = cd_timezones db" "cd_allocations (setBatch shopId b f db) = cd_allocations db"
  by (simp_all add: setBatch_def)

lemma codAudit_sel [simp]:
  "cd_expected (codAudit a db) = cd_expected db" "cd_shipments (codAudit a db) = cd_shipments db"
  "cd_accounts (codAudit a db) = cd_accounts db" "cd_settings (codAudit a db) = cd_settings db"
  "cd_timezones (codAudit a db) = cd_timezones db" "cd_allocations (codAudit a db) = cd_allocations db"
  "cd_batches (codAudit a db) = cd_batches db"
  by (simp_all add: codAudit_def)

lemma sum_new_allocations:
  "sum_list (map al_amount (filter (\<lambda>a. al_expected_id a = i) (map (\<lambda>row. newAllocation batch (the (t row)) row) (filter (\<lambda>row. t row \<noteq> None) rows))))
    = sum_list (map pm_amountPaise (filter (\<lambda>row. t row = Some i) rows))"
  by (induction rows) (auto simp: newAllocation_def)

text \<open>
  C27: A run over an uploaded file that nobody disturbs, whose amounts fit the column, ends as MATCHED and
  accounts for every data line: the lines with an expectation are allocated, each to the
  newest shipment under its AWB, and all others are counted and kept as unmatched.  Each expectation receives
  exactly the rows that name it, and if every state was the one F-13 derives, it still is.
\<close>

theorem file_allocated_completely:
  assumes u: "undisturbed env now" and inv: "codInv files db"
    and batch: "findCodBatch db shopId b = Some batch" "cb_state batch = COD_UPLOADED"
    and m: "loadMapping db (cb_column_map_id batch) = Inr (m, c)" "parseRemittanceCsv content m = Inr r"
    and rows: "\<forall>row \<in> set (pr_rows r). inNumeric (pm_amountPaise row) \<and> unallocatedRow db batch row"
  shows "\<exists>matched unmatched db'. processCodBatch env shopId b content db = (Inr (batchResult b PS_MATCHED matched unmatched), db')
    \<and> matched + unmatched = pr_totalDataRows r \<and> matched = length (filter (isTargeted db batch) (pr_rows r))
    \<and> (\<forall>i. allocated db' i = allocated db i
         + sum_list (map pm_amountPaise (filter (\<lambda>row. targetOf db batch row = Some i) (pr_rows r))))
    \<and> (synced env now db \<longrightarrow> synced env now db')"
proof -
  have id: "cb_cod_batch_id batch = b" "cb_shop_id batch = shopId"
    using batch(1) by (auto simp: findCodBatch_def find_Some_iff)
  define d0 where "d0 = setBatch shopId b (\<lambda>x. x\<lparr>cb_state := COD_PARSED\<rparr>) db"
  have t: "targetOf d0 batch row = targetOf db batch row" for row
    by (rule targetOf_cong) (simp_all add: d0_def)
  then have t': "isTargeted d0 batch = isTargeted db batch" by (simp add: isTargeted_def fun_eq_iff)
  have f: "unallocatedRow d0 batch row = unallocatedRow db batch row" for row by (simp add: unallocatedRow_def d0_def)
  have d: "distinct (map ce_expected_id (cd_expected d0))" using inv by (simp add: codInv_def d0_def)
  obtain db1 where loop: "allocateRows env 4 batch (pr_rows r @ []) 0 (pr_invalid r) d0
      = (Inr (length (filter (isTargeted db batch) (pr_rows r)),
          pr_invalid r @ map noExpectationItem (filter (\<lambda>row. \<not> isTargeted db batch row) (pr_rows r))), db1)"
    and db1: "cd_allocations db1 = cd_allocations d0 @ map (\<lambda>row. newAllocation batch (the (targetOf db batch row)) row)
        (filter (isTargeted db batch) (pr_rows r))" "synced env now d0 \<longrightarrow> synced env now db1"
    using allocateRows_undisturbed [OF u d _ parsed_keys_distinct(1) [OF m(2)], where batch = batch and k = 4 and m = 0 and us = "pr_invalid r" and rest = "[]"]
      rows by (auto simp: t t' f)
  define us where "us = pr_invalid r @ map noExpectationItem (filter (\<lambda>row. \<not> isTargeted db batch row) (pr_rows r))"
  define n where "n = length (filter (isTargeted db batch) (pr_rows r))"
  define db2 where "db2 = codAudit (AuditMatched b n (length us)) (setBatch shopId b (matchBatch n us) db1)"
  have "processCodBatch env shopId b content db = (Inr (batchResult b PS_MATCHED n (length us)), db2)"
    using u loop by (simp add: processCodBatch_def batch m Let_def allocateFile_def id d0_def [symmetric] bindC_def
        n_def [symmetric] us_def [symmetric] db2_def)
  moreover have "n + length us = pr_totalDataRows r"
    using sum_length_filter_compl [of "isTargeted db batch" "pr_rows r"]
    by (simp add: n_def us_def parsed_keys_distinct(2) [OF m(2)])
  moreover have "allocated db2 i = allocated db i
      + sum_list (map pm_amountPaise (filter (\<lambda>row. targetOf db batch row = Some i) (pr_rows r)))" for i
    using sum_new_allocations [of i batch "targetOf db batch" "pr_rows r"]
    by (simp add: allocated_def db2_def db1(1) d0_def isTargeted_def [abs_def])
  moreover have "synced env now db \<longrightarrow> synced env now db2"
    using db1(2) synced_cong [of d0 db env now] synced_cong [of db2 db1 env now] by (simp add: d0_def db2_def)
  ultimately show ?thesis unfolding n_def by blast
qed

section \<open>The sweep\<close>

lemma dateOut_dayText:
  assumes "plainDay day"
  shows "take 10 (dateOut day) = dayText day"
proof -
  obtain y m d where c: "civilDate day = (y, m, d)" by (metis prod_cases3)
  note b = plainDay_date [OF assms c]
  have "0 \<le> m" "m < 100" "0 \<le> d" "d < 100" using b by simp_all
  then show ?thesis using year4(1) [OF b(1,2)] pad2(1) [of m] pad2(1) [of d]
    by (simp add: dateOut_def dayText_def dateText_def c pad_int_def [of 4] pad_start_def [of 4])
qed

text \<open>Days on which the texts of dates can be compared.\<close>

definition sweepDays :: "CodEnv \<Rightarrow> int \<Rightarrow> int \<Rightarrow> CodDb \<Rightarrow> bool" where
  "sweepDays env now0 now db \<longleftrightarrow> (\<forall>e \<in> set (cd_expected db). plainDay (ce_due_at e)
     \<and> plainDay (localDay (cv_tzOffset env) now0 (codTimezone db (ce_shop_id e)))
     \<and> plainDay (localDay (cv_tzOffset env) now (codTimezone db (ce_shop_id e)))
     \<and> localDay (cv_tzOffset env) now0 (codTimezone db (ce_shop_id e)) \<le> localDay (cv_tzOffset env) now (codTimezone db (ce_shop_id e)))"

lemma sweep_row:
  assumes "e \<in> set (cd_expected db)" "sweepDays env now0 now db" "ce_state e = derivedState env now0 db e"
  shows "(if pastDueLocally env now db e then e\<lparr>ce_state := PENDING_OVERDUE, ce_version := ce_version e + 1\<rparr> else e)
    = refresh env now db e"
proof -
  let ?tz = "codTimezone db (ce_shop_id e)"
  let ?before = "localDay (cv_tzOffset env) now0 ?tz" and ?today = "localDay (cv_tzOffset env) now ?tz"
  have p: "plainDay (ce_due_at e)" "plainDay ?before" "plainDay ?today" "?before \<le> ?today" using assms(1,2) by (auto simp: sweepDays_def)
  define st where "st today = deriveCodState (ce_expected_amount e) (allocated db (ce_expected_id e))
     (effectiveCodTolerance db (ce_shop_id e) (Option.bind (findCodShipment db (ce_shop_id e) (ce_shipment_id e)) cs_courier_account_id))
     (dayText (ce_due_at e)) (dayText today) (ce_state e)" for today
  have s: "derivedState env now0 db e = st ?before" "derivedState env now db e = st ?today"
    using p by (simp_all add: derivedState_def st_def dateOut_dayText localDateString_dayText)
  have "pastDueLocally env now db e \<longleftrightarrow> st ?today \<noteq> ce_state e \<and> st ?today = PENDING_OVERDUE" "st ?today \<noteq> ce_state e \<longrightarrow> st ?today = PENDING_OVERDUE"
    using p assms(3) unfolding s pastDueLocally_def
    by (auto simp: st_def deriveCodState_def Let_def dayText_less split: if_splits)
  then show ?thesis by (auto simp: refresh_def s)
qed

text \<open>
  C28: The daily sweep is the recomputation of every expectation.  When each state is the one F-13 derives
  on an earlier local day, the one UPDATE of the sweep, which looks at states and due dates only,
  writes exactly the rows a recomputation from the allocations would, with the same states, and leaves
  every state derived for the new day.
\<close>

theorem sweep_recomputes_everything:
  assumes "synced env now0 db" "sweepDays env now0 now db"
  shows "cd_expected (fst (sweepTx env now db)) = map (refresh env now db) (cd_expected db)
    \<and> synced env now (fst (sweepTx env now db))"
proof -
  have e: "cd_expected (fst (sweepTx env now db)) = map (refresh env now db) (cd_expected db)"
    using sweep_row [OF _ assms(2)] assms(1) by (simp add: sweepTx_def updateExpected_def synced_def)
  have "derivedState env now (fst (sweepTx env now db)) x = derivedState env now db x" for x
    by (rule derivedState_cong) (simp_all add: sweepTx_def updateExpected_def allocated_def)
  then show ?thesis using e by (simp add: synced_def)
qed

section \<open>Instances\<close>

text \<open>An id no row has: longer than all of them.\<close>

definition longCodId :: "CodDb \<Rightarrow> string" where
  "longCodId db = replicate (Suc (sum_list (map length (map ce_expected_id (cd_expected db) @ map cb_cod_batch_id (cd_batches db))))) (CHR ''n'')"

lemma longCodId_fresh: "longCodId db \<notin> ce_expected_id ` set (cd_expected db) \<union> cb_cod_batch_id ` set (cd_batches db)"
proof -
  let ?ids = "map ce_expected_id (cd_expected db) @ map cb_cod_batch_id (cd_batches db)"
  have "longCodId db \<notin> set ?ids"
  proof
    assume "longCodId db \<in> set ?ids"
    then have "length (longCodId db) \<in> set (map length ?ids)" by (metis image_eqI set_map)
    then have "length (longCodId db) \<le> sum_list (map length ?ids)" by (rule member_le_sum_list) simp
    then show False by (simp add: longCodId_def)
  qed
  then show ?thesis by auto
qed

definition calm :: "int \<Rightarrow> CodEnv" where
  "calm now = \<lparr>cv_others = (\<lambda>_ db. db), cv_now = (\<lambda>_. now), cv_parse = isoParse, cv_newId = longCodId, cv_tzOffset = (\<lambda>_ _. 19800000)\<rparr>"

lemma calm_sel [simp]: "undisturbed (calm now) now" "wfCodEnv files (calm now)" "cv_tzOffset (calm now) = (\<lambda>_ _. 19800000)"
  using longCodId_fresh by (auto simp: undisturbed_def wfCodEnv_def calm_def)

definition sampleExpectation :: CodExpectedRow where
  "sampleExpectation = \<lparr>ce_expected_id = ''e1'', ce_shop_id = ''s1'', ce_shipment_id = ''h1'', ce_expected_amount = 101050,
     ce_delivered_at = 1709251199000, ce_due_at = 19790, ce_state = AWAITING, ce_version = 1\<rparr>"

definition sampleBatch :: CodBatchRow where
  "sampleBatch = \<lparr>cb_cod_batch_id = ''b1'', cb_shop_id = ''s1'', cb_courier_account_id = ''a1'',
     cb_batch_reference = ''COD-20240301-0001'', cb_filename = ''f.csv'', cb_content_hash = ''h'', cb_column_map_id = None,
     cb_remittance_reference = None, cb_remittance_date = None, cb_declared_total = None, cb_state = COD_UPLOADED,
     cb_matched_count = 0, cb_unmatched_count = 0, cb_unmatched_json = [], cb_version = 1\<rparr>"

definition sampleCodDb :: CodDb where
  "sampleCodDb = \<lparr>cd_shipments = [\<lparr>cs_shop_id = ''s1'', cs_shipment_id = ''h1'', cs_courier_account_id = Some ''a1'',
       cs_is_test = False, cs_awb_normalized = Some ''AB1'', cs_collectible = ''1010.5000'', cs_snapshot_collectible = None\<rparr>],
     cd_expected = [sampleExpectation], cd_batches = [sampleBatch], cd_allocations = [],
     cd_accounts = [\<lparr>cx_courier_account_id = ''a1'', cx_shop_id = ''s1'', cx_cod_tolerance = None, cx_cod_due_days = None\<rparr>],
     cd_settings = (\<lambda>_. None), cd_timezones = (\<lambda>_. None), cd_columnMaps = (\<lambda>_. None), cd_audit = []\<rparr>"

definition sampleRow :: ParsedRemittanceRow where
  "sampleRow = \<lparr>pm_rowIndex = 1, pm_awbRaw = ''ab-1'', pm_awbNormalized = ''AB1'', pm_amountPaise = 101050\<rparr>"

definition sampleFiles :: "string \<Rightarrow> ParsedRemittanceRow list" where
  "sampleFiles b = (if b = ''b1'' then [sampleRow] else [])"

lemma sampleFiles_wf: "wfFiles sampleFiles"
  by (simp add: wfFiles_def sampleFiles_def sampleRow_def)

lemma sample_inv: "codInv files sampleCodDb"
  by (simp add: codInv_def sampleCodDb_def sampleExpectation_def sampleBatch_def)

lemma sample_batch: "findCodBatch sampleCodDb ''s1'' ''b1'' = Some sampleBatch" "cb_state sampleBatch = COD_UPLOADED"
  "loadMapping sampleCodDb (cb_column_map_id sampleBatch) = Inr (defaultRemittanceMapping, None)"
  by (simp_all add: findCodBatch_def sampleCodDb_def sampleBatch_def loadMapping_def)

lemma sample_target: "targetOf sampleCodDb sampleBatch sampleRow = Some ''e1''"
  by (simp add: targetOf_def expectationFor_def sampleCodDb_def sampleBatch_def sampleExpectation_def sampleRow_def)

text \<open>Local days of the sample, before and after the due date.\<close>

lemma sample_days: "localDay (\<lambda>_ _. 19800000) 1709251199000 z = 19783" "localDay (\<lambda>_ _. 19800000) 1709942400000 z = 19791"
  by (simp_all add: localDay_def)

lemma sample_synced: "synced (calm 1709251199000) 1709251199000 sampleCodDb"
  by (simp add: synced_def sampleCodDb_def sampleExpectation_def derivedState_def allocated_def localDateString_dayText sample_days
      dateOut_dayText plainDay_def dayText_less deriveCodState_def)

lemma sample_rows: "\<forall>row \<in> set [sampleRow]. inNumeric (pm_amountPaise row) \<and> unallocatedRow sampleCodDb sampleBatch row"
  by (simp add: inNumeric_def unallocatedRow_def sampleCodDb_def sampleRow_def)

lemma file_allocated_completely_witness:
  "\<exists>(d::CodDb). processCodBatch (calm 1709251199000) ''s1'' ''b1'' (tableFile sampleGrid) sampleCodDb = (Inr (batchResult ''b1'' PS_MATCHED 1 3), d)
    \<and> allocated d ''e1'' = 101050 \<and> synced (calm 1709251199000) 1709251199000 d"
  using file_allocated_completely [OF _ sample_inv sample_batch sample_parsed, of "calm 1709251199000" 1709251199000]
    sample_rows sample_target sample_synced
  by (fastforce simp: sampleRow_def isTargeted_def allocated_def sampleCodDb_def)

lemma sweep_recomputes_everything_witness:
  "map ce_state (cd_expected (fst (sweepTx (calm 1709942400000) 1709942400000 sampleCodDb))) = [PENDING_OVERDUE]"
proof -
  have s: "synced (calm 1709942400000) 1709251199000 sampleCodDb"
    using sample_synced by (simp add: synced_def derivedState_def)
  have d: "sweepDays (calm 1709942400000) 1709251199000 1709942400000 sampleCodDb"
    by (simp add: sweepDays_def sampleCodDb_def sampleExpectation_def sample_days plainDay_def)
  have "derivedState (calm 1709942400000) 1709942400000 sampleCodDb sampleExpectation = PENDING_OVERDUE"
    by (simp add: derivedState_def allocated_def sampleCodDb_def localDateString_dayText sample_days dateOut_dayText
        plainDay_def dayText_less deriveCodState_def sampleExpectation_def)
  then show ?thesis using sweep_recomputes_everything [OF s d] by (simp add: sampleCodDb_def)
qed

lemma remittances_allocated_once_witness:
  "\<exists>(d::CodDb) rows. distinct rows \<and> set rows \<subseteq> {sampleRow} \<and> map al_amount (cd_allocations d) = map pm_amountPaise rows
    \<and> allocated d ''e1'' = 101050"
proof -
  obtain d where d: "processCodBatch (calm 1709251199000) ''s1'' ''b1'' (tableFile sampleGrid) sampleCodDb = (Inr (batchResult ''b1'' PS_MATCHED 1 3), d)"
      "allocated d ''e1'' = 101050"
    using file_allocated_completely [OF _ sample_inv sample_batch sample_parsed, of "calm 1709251199000" 1709251199000]
      sample_rows sample_target by (fastforce simp: sampleRow_def isTargeted_def allocated_def sampleCodDb_def)
  have "readsFile sampleFiles (calm 1709251199000) ''s1'' ''b1'' (tableFile sampleGrid) sampleCodDb"
    using sample_batch sample_parsed by (simp add: readsFile_def calm_def sampleFiles_def sampleRow_def)
  then have "d \<in> codOutcomes sampleFiles sampleCodDb"
    using codOutcomes_process [OF calm_sel(2)] d(1) by (metis snd_conv)
  then have run: "(\<lambda>d d'. d' \<in> codOutcomes sampleFiles d)\<^sup>*\<^sup>* sampleCodDb d" by (rule r_into_rtranclp)
  have "\<forall>a \<in> set (cd_allocations d). al_cod_batch_id a = ''b1''"
    using remittances.reachable [OF codHistory [OF run] sample_inv]
    by (auto simp: codInv_def allocationOf_def sampleFiles_def split: if_splits)
  then have "filter (\<lambda>a. al_cod_batch_id a = ''b1'') (cd_allocations d) = cd_allocations d" by simp
  moreover obtain rows where "distinct rows" "set rows \<subseteq> set (sampleFiles ''b1'')"
    "map al_amount (filter (\<lambda>a. al_cod_batch_id a = ''b1'') (cd_allocations d)) = map pm_amountPaise rows"
    using remittances_allocated_once [OF sampleFiles_wf sample_inv run] by blast
  ultimately show ?thesis using d(2) by (intro exI [of _ d] exI [of _ rows]) (simp add: sampleFiles_def)
qed

end
