(* ===== verification/Cod_Failures.thy ===== *)
theory Cod_Failures
  imports Cod_Properties
begin

text \<open>
  Where COD reconciliation leaves its records behind: a row that fails the run, a return that is lost and a
  recomputation that writes an old state.
\<close>

section \<open>A batch that cannot be finished\<close>

lemma find_predicate: "List.find P xs = Some x \<Longrightarrow> P x"
  by (auto simp: find_Some_iff)

lemma findCodBatch_setBatch:
  assumes "\<And>x. batchIdentity (f x) = batchIdentity x"
  shows "findCodBatch (setBatch shopId b f db) shopId b = map_option (\<lambda>x. (f x)\<lparr>cb_version := cb_version x + 1\<rparr>) (findCodBatch db shopId b)"
proof -
  let ?P = "\<lambda>x. cb_shop_id x = shopId \<and> cb_cod_batch_id x = b"
  let ?g = "\<lambda>x. if cb_cod_batch_id x = b \<and> cb_shop_id x = shopId then (f x)\<lparr>cb_version := cb_version x + 1\<rparr> else x"
  have "cb_cod_batch_id (f x) = cb_cod_batch_id x \<and> cb_shop_id (f x) = cb_shop_id x" for x
    using assms [of x] by (simp add: batchIdentity_def)
  then have "?P \<circ> ?g = ?P" by (auto simp: fun_eq_iff)
  then have "List.find ?P (map ?g xs) = map_option ?g (List.find ?P xs)" for xs
    using find_map_key [of ?g ?P xs] by simp
  moreover have "map_option ?g (List.find ?P xs) = map_option (\<lambda>x. (f x)\<lparr>cb_version := cb_version x + 1\<rparr>) (List.find ?P xs)" for xs
    by (rule option.map_cong0) (auto dest: find_predicate)
  ultimately show ?thesis by (simp add: findCodBatch_def setBatch_def)
qed

lemma live_upload:
  assumes "undisturbed env now" "batchByHash db (up_shopId inp) (sha256 (up_content inp)) = Some prior" "cb_state prior \<noteq> COD_FAILED"
  shows "snd (uploadBatch sha256 env inp db) = db"
proof (cases "validUpload env inp db")
  case (Inr v)
  then show ?thesis using assms
    by (cases "loadMapping db (up_columnMapId inp)") (simp_all add: uploadBatch_def Let_def split: prod.split)
qed (simp add: uploadBatch_def)

text \<open>
  A row whose amount does not fit the column fails the run after the batch was marked PARSED.
  The rows before it stay allocated and the batch stays PARSED: every later run, a retry of the job
  included, skips it, and uploading the file again changes nothing, so the rows after it are
  never allocated.
\<close>

theorem overflow_strands_batch:
  assumes u: "undisturbed env now" and inv: "codInv files db"
    and batch: "findCodBatch db shopId b = Some batch" "cb_state batch = COD_UPLOADED"
    and m: "loadMapping db (cb_column_map_id batch) = Inr (m, c)" "parseRemittanceCsv content m = Inr r"
    and rows: "pr_rows r = before @ row # after" "\<forall>x \<in> set before. inNumeric (pm_amountPaise x)"
      "\<forall>x \<in> set (pr_rows r). unallocatedRow db batch x"
    and row: "isTargeted db batch row" "\<not> inNumeric (pm_amountPaise row)"
  shows "\<exists>db'. processCodBatch env shopId b content db = (Inl NumericOverflow, db')
    \<and> length (cd_allocations db') = length (cd_allocations db) + length (filter (isTargeted db batch) before)
    \<and> (\<forall>env2 content2. processCodBatch env2 shopId b content2 db' = (Inr (batchResult b PS_SKIPPED 0 0), db'))
    \<and> (\<forall>sha256 env2 now2 inp. undisturbed env2 now2 \<and> up_shopId inp = shopId \<and> sha256 (up_content inp) = cb_content_hash batch
        \<longrightarrow> snd (uploadBatch sha256 env2 inp db') = db')"
proof -
  have id: "cb_cod_batch_id batch = b" "cb_shop_id batch = shopId" "batch \<in> set (cd_batches db)"
    using batch(1) by (auto simp: findCodBatch_def find_Some_iff)
  define parsed where "parsed = batch\<lparr>cb_state := COD_PARSED, cb_version := cb_version batch + 1\<rparr>"
  define d0 where "d0 = setBatch shopId b (\<lambda>x. x\<lparr>cb_state := COD_PARSED\<rparr>) db"
  have t: "targetOf d0 batch x = targetOf db batch x" for x by (rule targetOf_cong) (simp_all add: d0_def)
  then have t': "isTargeted d0 batch = isTargeted db batch" by (simp add: isTargeted_def fun_eq_iff)
  have d: "distinct (map ce_expected_id (cd_expected d0))" using inv by (simp add: codInv_def d0_def)
  have keys: "distinct (map (allocationKey (cb_cod_batch_id batch)) (before @ row # after))"
    using parsed_keys_distinct(1) [OF m(2)] by (simp add: rows(1))
  then have db: "distinct (map (allocationKey (cb_cod_batch_id batch)) before)" by simp
  moreover have ok: "inNumeric (pm_amountPaise x) \<and> unallocatedRow d0 batch x" if "x \<in> set before" for x
    using rows that by (simp add: unallocatedRow_def d0_def)
  ultimately obtain db1 where loop: "allocateRows env 4 batch (before @ row # after) 0 (pr_invalid r) d0
      = allocateRows env (4 + 6 * length before) batch (row # after) (0 + length (filter (isTargeted db batch) before))
          (pr_invalid r @ map noExpectationItem (filter (\<lambda>x. \<not> isTargeted db batch x) before)) db1"
    and al: "cd_allocations db1 = cd_allocations d0 @ map (\<lambda>x. newAllocation batch (the (targetOf db batch x)) x) (filter (isTargeted db batch) before)"
    and db1: "map expectationKey (cd_expected db1) = map expectationKey (cd_expected d0)" "cd_shipments db1 = cd_shipments d0"
      "cd_batches db1 = cd_batches d0"
    using allocateRows_undisturbed [OF u d ok db, where k = 4 and m = 0 and us = "pr_invalid r" and rest = "row # after"]
    unfolding t t' by blast
  have fresh: "allocationKey (cb_cod_batch_id batch) row \<notin> al_idempotency_key ` set (cd_allocations db1)"
  proof -
    have "allocationKey (cb_cod_batch_id batch) row \<notin> allocationKey (cb_cod_batch_id batch) ` set before" using keys by auto
    moreover have "unallocatedRow db batch row" using rows(1,3) by simp
    ultimately show ?thesis by (auto simp: al d0_def unallocatedRow_def newAllocation_def)
  qed
  have "map ce_expected_id (cd_expected db1) = map ce_expected_id (cd_expected d0)"
    using arg_cong [OF db1(1), of "map fst"] by (simp add: expectationKey_def comp_def)
  then have d1: "distinct (map ce_expected_id (cd_expected db1))" using d by simp
  have "targetOf db1 batch row = targetOf db batch row" using targetOf_cong [OF db1(2,1)] t by simp
  then obtain i where "targetOf db1 batch row = Some i" using row(1) by (auto simp: isTargeted_def)
  then have "allocateRow env k batch row db1 = (Inl NumericOverflow, db1)" for k
    using allocateRow_undisturbed [OF u d1 fresh] row(2) by simp
  then have run: "processCodBatch env shopId b content db = (Inl NumericOverflow, db1)"
    using u loop by (simp add: processCodBatch_def batch m Let_def allocateFile_def id rows(1) d0_def [symmetric] bindC_def)
  have f: "findCodBatch db1 shopId b = Some parsed"
    using findCodBatch_setBatch [of "\<lambda>x. x\<lparr>cb_state := COD_PARSED\<rparr>" shopId b db] batch(1)
    by (simp add: findCodBatch_def db1(3) d0_def batchIdentity_def parsed_def)
  have "batchByHash db1 shopId (cb_content_hash batch) = Some parsed"
  proof -
    have "map batchIdentity (cd_batches db1) = map batchIdentity (cd_batches db)"
      by (auto simp: db1(3) d0_def setBatch_def batchIdentity_def)
    then have "map (snd \<circ> batchIdentity) (cd_batches db1) = map (snd \<circ> batchIdentity) (cd_batches db)"
      by (metis map_map)
    then have "distinct (map (snd \<circ> batchIdentity) (cd_batches db1))" using inv by (simp add: codInv_def)
    moreover have "parsed \<in> set (cd_batches db1)" using f by (auto simp: findCodBatch_def find_Some_iff)
    ultimately show ?thesis unfolding batchByHash_def
      by (rule find_only) (simp_all add: parsed_def batchIdentity_def id)
  qed
  then have up: "snd (uploadBatch sha256 env2 inp db1) = db1"
    if "undisturbed env2 now2" "up_shopId inp = shopId" "sha256 (up_content inp) = cb_content_hash batch" for sha256 env2 now2 inp
    using live_upload [of env2 now2 db1 inp sha256 parsed] that by (simp add: parsed_def)
  have "processCodBatch env2 shopId b content2 db1 = (Inr (batchResult b PS_SKIPPED 0 0), db1)" for env2 content2
    by (simp add: processCodBatch_def f) (simp add: parsed_def)
  moreover have "length (cd_allocations db1) = length (cd_allocations db) + length (filter (isTargeted db batch) before)"
    by (simp add: al d0_def)
  ultimately show ?thesis using run up by blast
qed

section \<open>Lost updates\<close>

text \<open>
  A return is recorded only when nobody wrote the expectation between the read and the UPDATE.
  Any other write, a sweep or a recomputation that leaves the state open, makes the version
  check fail; the call then returns without a retry and leaves the expectation as that writer left it.
\<close>

theorem rto_flip_iff_undisturbed:
  assumes "wfCodEnv files env" "codInv files db" "e \<in> set (cd_expected db)" "ce_state e \<noteq> RTO_UNCOLLECTED"
  shows "\<exists>e' \<in> set (cd_expected (cv_others env 0 db)). sameExpectation e e'
    \<and> (fst (markRtoUncollected env (ce_shop_id e) (ce_shipment_id e) db) = Inr True \<longleftrightarrow> e' = e)
    \<and> (e' \<noteq> e \<longrightarrow> cd_expected (snd (markRtoUncollected env (ce_shop_id e) (ce_shipment_id e) db)) = cd_expected (cv_others env 0 db))"
proof -
  let ?d = "cv_others env 0 db" and ?c = "\<lambda>x. ce_expected_id x = ce_expected_id e \<and> ce_version x = ce_version e"
  have run: "(cod_step files)\<^sup>*\<^sup>* db ?d" by (rule codOthers [OF assms(1)]) simp
  obtain e' where e': "e' \<in> set (cd_expected ?d)" "sameExpectation e e'"
    using grown_from_start [OF run assms(3)] by blast
  have d: "distinct (map ce_expected_id (cd_expected ?d))" "distinct (map ce_shipment_id (cd_expected db))"
    using remittances.reachable [OF run assms(2)] assms(2) by (simp_all add: codInv_def)
  have f: "findExpected db (\<lambda>x. ce_shop_id x = ce_shop_id e \<and> ce_shipment_id x = ce_shipment_id e) = Some e"
    unfolding findExpected_def by (rule find_only [OF d(2) assms(3)]) simp_all
  have same: "x = e'" if "x \<in> set (cd_expected ?d)" "ce_expected_id x = ce_expected_id e" for x
    using only_expected [OF d(1) e'(1) that(1)] that(2) e'(2) by (simp add: sameExpectation_def)
  have v: "ce_version e' = ce_version e \<longleftrightarrow> e' = e" using e'(2) by (auto simp: sameExpectation_def)
  have c: "(\<exists>x \<in> set (cd_expected ?d). ?c x) \<longleftrightarrow> e' = e"
    using same v e'(1) by metis
  then have "filter ?c (cd_expected ?d) \<noteq> [] \<longleftrightarrow> e' = e" by (simp add: filter_empty_conv)
  moreover have "cd_expected (fst (updateExpected ?c RTO_UNCOLLECTED ?d)) = cd_expected ?d" if "e' \<noteq> e"
    using c that by (auto simp: updateExpected_def intro!: map_idI)
  ultimately show ?thesis using e' assms(4)
    by (intro bexI [of _ e']) (auto simp: markRtoUncollected_def f updateExpected_def split: if_splits)
qed

text \<open>
  A recomputation writes the state of the sum it read, without a version check.  Whatever is
  allocated, and recomputed, by another worker before its UPDATE, the older state ends up stored
  next to the newer allocations.
\<close>

theorem recompute_overwrites_newer_state:
  assumes env: "wfCodEnv files env" and inv: "codInv files db" and e: "e \<in> set (cd_expected db)"
    and tables: "\<forall>j d. cd_shipments (cv_others env j d) = cd_shipments d \<and> cd_accounts (cv_others env j d) = cd_accounts d
        \<and> cd_settings (cv_others env j d) = cd_settings d"
    and st: "derivedState env (cv_now env k) db e \<noteq> ce_state e"
    and d3: "d3 = cv_others env (k + 2) (cv_others env (k + 1) (cv_others env k db))"
    and e3: "e3 \<in> set (cd_expected d3)" "ce_expected_id e3 = ce_expected_id e" "ce_state e3 \<noteq> RTO_UNCOLLECTED"
  shows "\<exists>e4 \<in> set (cd_expected (snd (recomputeState env k (ce_shop_id e) (ce_expected_id e) db))).
      ce_expected_id e4 = ce_expected_id e \<and> ce_state e4 = derivedState env (cv_now env k) db e
    \<and> cd_allocations (snd (recomputeState env k (ce_shop_id e) (ce_expected_id e) db)) = cd_allocations d3"
proof -
  have d: "distinct (map ce_expected_id (cd_expected db))" using inv by (simp add: codInv_def)
  have f: "findExpected db (\<lambda>x. ce_shop_id x = ce_shop_id e \<and> ce_expected_id x = ce_expected_id e) = Some e"
    unfolding findExpected_def by (rule find_only [OF d e]) simp_all
  let ?st = "derivedState env (cv_now env k) db e"
  have "effectiveCodTolerance (cv_others env (Suc k) (cv_others env k db)) s a = effectiveCodTolerance db s a" for s a
    using tables by (simp add: effectiveCodTolerance_def effective_def accountOf_def cong: option.case_cong)
  moreover have "findCodShipment (cv_others env k db) s i = findCodShipment db s i" for s i
    using tables by (simp add: findCodShipment_def)
  ultimately have r: "snd (recomputeState env k (ce_shop_id e) (ce_expected_id e) db)
      = fst (updateExpected (\<lambda>x. ce_expected_id x = ce_expected_id e \<and> ce_state x \<noteq> RTO_UNCOLLECTED) ?st d3)"
    using st by (simp add: recomputeState_def f Let_def d3 derivedState_def)
  let ?e4 = "e3\<lparr>ce_state := ?st, ce_version := ce_version e3 + 1\<rparr>"
  have "?e4 \<in> set (cd_expected (fst (updateExpected (\<lambda>x. ce_expected_id x = ce_expected_id e \<and> ce_state x \<noteq> RTO_UNCOLLECTED) ?st d3)))"
    using e3 by (force simp: updateExpected_def)
  then show ?thesis unfolding r by (intro bexI [of _ ?e4]) (simp_all add: e3(2))
qed

section \<open>Instances\<close>

definition bigGrid :: grid where
  "bigGrid = [[''awb'', ''amount''], [''ab-1'', ''1000000000000000000''], [''ab-1'', ''5'']]"

definition bigRow :: ParsedRemittanceRow where
  "bigRow = sampleRow\<lparr>pm_amountPaise := 100000000000000000000\<rparr>"

lemma big_amount: "parseAmountPaise ''1000000000000000000'' = Some 100000000000000000000"
  by (simp add: parseAmountPaise_def dec_re_def rupeesToPaise_def dec_val_def digit_val_def is_digit_def is_ws_def trim_def)

lemma big_parsed: "parseRemittanceCsv (tableFile bigGrid) defaultRemittanceMapping = Inr
    \<lparr>pr_rows = [bigRow, sampleRow\<lparr>pm_rowIndex := 2, pm_amountPaise := 500\<rparr>], pr_invalid = [], pr_totalDataRows = 2\<rparr>"
proof -
  have "parseCsvText (tableFile bigGrid) = Some bigGrid"
    by (rule tableFile_read) (simp_all add: bigGrid_def)
  moreover have "filter (\<lambda>r. \<not> blankRow r) bigGrid = hd bigGrid # [bigGrid ! 1, bigGrid ! 2]" by code_simp
  moreover have "map normalizeHeader (hd bigGrid) = [''awb'', ''amount'']"
    "normalizeHeader ''awb'' = ''awb''" "normalizeHeader ''amount'' = ''amount''" by code_simp+
  moreover have "parseRemittanceRow 0 1 1 (bigGrid ! 1) = Inr bigRow"
  proof -
    have "remittanceCell (bigGrid ! 1) 0 = ''ab-1''" "remittanceCell (bigGrid ! 1) 1 = ''1000000000000000000''"
      "isFormulaContent ''ab-1'' = False" "isFormulaContent ''1000000000000000000'' = False" "remittanceAwb ''ab-1'' = ''AB1''"
      by code_simp+
    then show ?thesis by (simp add: parseRemittanceRow_def big_amount bigRow_def sampleRow_def)
  qed
  moreover have "parseRemittanceRow 0 1 2 (bigGrid ! 2) = Inr (sampleRow\<lparr>pm_rowIndex := 2, pm_amountPaise := 500\<rparr>)"
    by code_simp
  ultimately show ?thesis
    by (simp add: parseRemittanceCsv_def defaultRemittanceMapping_def codImportMaxRows_def numeral_2_eq_2)
qed

lemma overflow_strands_batch_witness:
  "\<exists>(d::CodDb). processCodBatch (calm 1709251199000) ''s1'' ''b1'' (tableFile bigGrid) sampleCodDb = (Inl NumericOverflow, d)
    \<and> cd_allocations d = []
    \<and> processCodBatch (calm 1709251199000) ''s1'' ''b1'' (tableFile sampleGrid) d = (Inr (batchResult ''b1'' PS_SKIPPED 0 0), d)"
proof -
  have "targetOf sampleCodDb sampleBatch bigRow = Some ''e1''"
    using sample_target by (simp add: targetOf_def bigRow_def sampleRow_def)
  then have t: "isTargeted sampleCodDb sampleBatch bigRow" "\<not> inNumeric (pm_amountPaise bigRow)"
    by (simp_all add: isTargeted_def bigRow_def inNumeric_def)
  have f: "\<forall>x \<in> {bigRow, sampleRow\<lparr>pm_rowIndex := 2, pm_amountPaise := 500\<rparr>}. unallocatedRow sampleCodDb sampleBatch x"
    by (simp add: unallocatedRow_def sampleCodDb_def)
  show ?thesis
    using overflow_strands_batch [OF calm_sel(1) sample_inv sample_batch big_parsed, of "[]" bigRow
        "[sampleRow\<lparr>pm_rowIndex := 2, pm_amountPaise := 500\<rparr>]" 1709251199000] t f
    by (fastforce simp: sampleCodDb_def)
qed

text \<open>The due sweep between the read and the UPDATE.\<close>

definition sweepMeanwhile :: CodEnv where
  "sweepMeanwhile = (calm 1709942400000)\<lparr>cv_others := (\<lambda>k db. if k = 0 then fst (sweepTx (calm 1709942400000) 1709942400000 db) else db)\<rparr>"

lemma sweepMeanwhile_wf: "wfCodEnv files sweepMeanwhile"
proof -
  have "(cod_step files)\<^sup>*\<^sup>* db (fst (sweepTx (calm 1709942400000) 1709942400000 db))" for db
    unfolding sweepTx_def by (rule updateExpected_step) (auto simp: pastDueLocally_def)
  then show ?thesis using longCodId_fresh by (simp add: wfCodEnv_def sweepMeanwhile_def) (simp add: calm_def)
qed

lemma rto_flip_iff_undisturbed_witness:
  "fst (markRtoUncollected sweepMeanwhile ''s1'' ''h1'' sampleCodDb) \<noteq> Inr True
    \<and> map ce_state (cd_expected (snd (markRtoUncollected sweepMeanwhile ''s1'' ''h1'' sampleCodDb))) = [PENDING_OVERDUE]"
proof -
  let ?e = "sampleExpectation\<lparr>ce_state := PENDING_OVERDUE, ce_version := 2\<rparr>"
  have d: "cd_expected (cv_others sweepMeanwhile 0 sampleCodDb) = [?e]"
    by (simp add: sweepMeanwhile_def sweepTx_def updateExpected_def pastDueLocally_def sampleCodDb_def sampleExpectation_def sample_days)
  have e: "sampleExpectation \<in> set (cd_expected sampleCodDb)" "ce_state sampleExpectation \<noteq> RTO_UNCOLLECTED"
    "ce_shop_id sampleExpectation = ''s1''" "ce_shipment_id sampleExpectation = ''h1''" "?e \<noteq> sampleExpectation"
    by (simp_all add: sampleCodDb_def) (simp_all add: sampleExpectation_def)
  show ?thesis
    using rto_flip_iff_undisturbed [OF sweepMeanwhile_wf sample_inv e(1,2)] e(3-) by (simp add: d)
qed

text \<open>Another batch allocated, and recomputed, between the read and the UPDATE.\<close>

definition firstPart :: ParsedRemittanceRow where
  "firstPart = sampleRow\<lparr>pm_amountPaise := 60000\<rparr>"

definition secondPart :: ParsedRemittanceRow where
  "secondPart = sampleRow\<lparr>pm_amountPaise := 41050\<rparr>"

definition partFiles :: "string \<Rightarrow> ParsedRemittanceRow list" where
  "partFiles b = (if b = ''b0'' then [firstPart] else if b = ''b1'' then [secondPart] else [])"

definition partDb :: CodDb where
  "partDb = sampleCodDb\<lparr>cd_allocations := [newAllocation (sampleBatch\<lparr>cb_cod_batch_id := ''b0''\<rparr>) ''e1'' firstPart]\<rparr>"

definition allocateMeanwhile :: CodEnv where
  "allocateMeanwhile = (calm 1709251199000)\<lparr>cv_others := (\<lambda>k db.
     if k = 0 then snd (allocateRow (calm 1709251199000) 0 sampleBatch secondPart db) else db)\<rparr>"

lemma allocateMeanwhile_wf: "wfCodEnv partFiles allocateMeanwhile"
  using allocateRow_reaches [OF calm_sel(2), where files = partFiles and row = secondPart and batch = sampleBatch] longCodId_fresh
  by (auto simp: wfCodEnv_def allocateMeanwhile_def calm_def partFiles_def sampleBatch_def)

lemma allocateRow_tables:
  assumes "undisturbed env now"
  shows "cd_shipments (snd (allocateRow env k batch row d)) = cd_shipments d"
    "cd_accounts (snd (allocateRow env k batch row d)) = cd_accounts d" "cd_settings (snd (allocateRow env k batch row d)) = cd_settings d"
  using assms by (auto simp: allocateRow_def Let_def bindC_def insertAllocation_def recomputeState_def updateExpected_def
      split: option.split)

lemma recompute_overwrites_newer_state_witness:
  "\<exists>e. e \<in> set (cd_expected (snd (recomputeState allocateMeanwhile 0 ''s1'' ''e1'' partDb))) \<and> ce_state e = SHORT
    \<and> ce_expected_amount e = 101050 \<and> allocated (snd (recomputeState allocateMeanwhile 0 ''s1'' ''e1'' partDb)) ''e1'' = 101050"
proof -
  have inv: "codInv partFiles partDb"
    by (simp add: codInv_def partDb_def sampleCodDb_def sampleExpectation_def sampleBatch_def allocationOf_def partFiles_def newAllocation_def)
  have e: "sampleExpectation \<in> set (cd_expected partDb)" "ce_shop_id sampleExpectation = ''s1''" "ce_expected_id sampleExpectation = ''e1''"
    by (simp_all add: partDb_def sampleCodDb_def sampleExpectation_def)
  have st: "derivedState allocateMeanwhile (cv_now allocateMeanwhile 0) partDb sampleExpectation = SHORT"
    by (simp add: derivedState_def allocated_def partDb_def sampleCodDb_def localDateString_dayText sample_days dateOut_dayText
        plainDay_def dayText_less deriveCodState_def sampleExpectation_def newAllocation_def firstPart_def sampleRow_def
        allocateMeanwhile_def calm_def effectiveCodTolerance_def effective_def accountOf_def findCodShipment_def)
  have fresh: "allocationKey (cb_cod_batch_id sampleBatch) secondPart \<notin> al_idempotency_key ` set (cd_allocations partDb)"
    by (simp add: partDb_def newAllocation_def allocationKey_def sampleBatch_def)
  have t: "targetOf partDb sampleBatch secondPart = Some ''e1''"
    using sample_target targetOf_cong [of partDb sampleCodDb sampleBatch secondPart]
    by (simp add: targetOf_def partDb_def secondPart_def sampleRow_def)
  define d3 where "d3 = withAllocation (calm 1709251199000) 1709251199000 sampleBatch ''e1'' secondPart partDb"
  have "distinct (map ce_expected_id (cd_expected partDb))" using inv by (simp add: codInv_def)
  from allocateRow_undisturbed [OF calm_sel(1) this fresh, of 1709251199000 0]
  have "allocateRow (calm 1709251199000) 0 sampleBatch secondPart partDb = (Inr RowAllocated, d3)"
    by (simp add: t d3_def) (simp add: inNumeric_def secondPart_def)
  then have d3: "d3 = cv_others allocateMeanwhile (0 + 2) (cv_others allocateMeanwhile (0 + 1) (cv_others allocateMeanwhile 0 partDb))"
    by (simp add: allocateMeanwhile_def)
  define e3 where "e3 = refresh (calm 1709251199000) 1709251199000
    (partDb\<lparr>cd_allocations := cd_allocations partDb @ [newAllocation sampleBatch ''e1'' secondPart]\<rparr>) sampleExpectation"
  have e3: "e3 \<in> set (cd_expected d3)" "ce_expected_id e3 = ce_expected_id sampleExpectation" "ce_state e3 \<noteq> RTO_UNCOLLECTED"
  proof -
    show "e3 \<in> set (cd_expected d3)" using e(3) by (simp add: d3_def withAllocation_def e3_def) (simp add: partDb_def sampleCodDb_def)
    show "ce_expected_id e3 = ce_expected_id sampleExpectation" by (simp add: e3_def)
    show "ce_state e3 \<noteq> RTO_UNCOLLECTED" by (simp add: e3_def derivedState_def deriveCodState_def Let_def) (simp add: sampleExpectation_def)
  qed
  have "\<forall>j d. cd_shipments (cv_others allocateMeanwhile j d) = cd_shipments d \<and> cd_accounts (cv_others allocateMeanwhile j d) = cd_accounts d
      \<and> cd_settings (cv_others allocateMeanwhile j d) = cd_settings d"
    by (simp add: allocateMeanwhile_def allocateRow_tables [OF calm_sel(1)])
  from recompute_overwrites_newer_state [OF allocateMeanwhile_wf inv e(1) this _ d3 e3] st
  obtain e4 where e4: "e4 \<in> set (cd_expected (snd (recomputeState allocateMeanwhile 0 ''s1'' ''e1'' partDb)))" "ce_expected_id e4 = ''e1''"
      "ce_state e4 = SHORT" "cd_allocations (snd (recomputeState allocateMeanwhile 0 ''s1'' ''e1'' partDb)) = cd_allocations d3"
    using e by (auto simp: sampleExpectation_def)
  have run: "(cod_step partFiles)\<^sup>*\<^sup>* partDb (snd (recomputeState allocateMeanwhile 0 ''s1'' ''e1'' partDb))"
    by (rule recomputeState_reaches [OF allocateMeanwhile_wf]) simp
  obtain e' where e': "e' \<in> set (cd_expected (snd (recomputeState allocateMeanwhile 0 ''s1'' ''e1'' partDb)))" "sameExpectation sampleExpectation e'"
    using grown_from_start [OF run e(1)] by blast
  have "distinct (map ce_expected_id (cd_expected (snd (recomputeState allocateMeanwhile 0 ''s1'' ''e1'' partDb))))"
    using remittances.reachable [OF run inv] by (simp add: codInv_def)
  then have "e4 = e'" using only_expected e'(1) e4(1,2) e'(2) e(3) unfolding sameExpectation_def by metis
  then have "ce_expected_amount e4 = 101050" using e'(2) by (simp add: sameExpectation_def sampleExpectation_def)
  moreover have "allocated (snd (recomputeState allocateMeanwhile 0 ''s1'' ''e1'' partDb)) ''e1'' = 101050"
    unfolding allocated_def e4(4)
    by (simp add: d3_def) (simp add: partDb_def newAllocation_def firstPart_def secondPart_def)
  ultimately show ?thesis using e4 by blast
qed

end
