(* ===== verification/EstimateCost.thy ===== *)
theory EstimateCost
  imports Pricing Dates
begin

text \<open>
  \<open>src/modules/rate-engine/estimate-cost.service.ts\<close>: the price of a parcel from the rate card in
  force, over the tables it reads (\<open>rate-engine.types.ts\<close>, migration 0006).  A table is a list of
  rows; \<open>numeric\<close> columns are the texts the driver returns, \<open>date\<close> columns are day numbers and
  instants are milliseconds.  Where two rows tie on an \<open>ORDER BY\<close> the first one is taken.
\<close>

section \<open>Tables\<close>

record PickupRow =
  pk_pickup_location_id :: string
  pk_shop_id :: string
  pk_is_active :: bool
  pk_name :: string
  pk_contact_name :: "string option"
  pk_phone :: "string option"
  pk_address_lines :: "string list"
  pk_city :: "string option"
  pk_state :: "string option"
  pk_pincode :: "string option"
  pk_gstin :: "string option"

record RateCardRow =
  rk_rate_card_id :: string
  rk_shop_id :: string
  rk_service_id :: string

record RateCardVersionRow =
  rv_rate_card_version_id :: string
  rv_rate_card_id :: string
  rv_effective_from :: int
  rv_effective_to :: "int option"
  rv_zone_map_id :: string
  rv_fuel_pct :: string
  rv_cod_flat :: string
  rv_cod_pct :: string
  rv_rto_basis :: RtoBasis
  rv_rto_pct :: "string option"
  rv_gst_pct :: string
  rv_taxable_components :: "string list"
  rv_is_sealed :: bool
  rv_version :: int

record RateCardSlabRow =
  rl_rate_card_version_id :: string
  rl_slab :: SlabInput

record RateCardComponentRow =
  rc_rate_card_version_id :: string
  rc_component :: ComponentRowInput

record ServiceVersionRow =
  sv_service_version_id :: string
  sv_service_id :: string
  sv_effective_from :: int
  sv_volumetric_divisor :: "string option"
  sv_min_billable_kg :: "string option"
  sv_billable_increment_kg :: "string option"
  sv_is_sealed :: bool

record ZoneMapRow =
  zm_zone_map_id :: string
  zm_shop_id :: string
  zm_postal_version_id :: string
  zm_is_sealed :: bool
  zm_version :: int

record ZoneRuleRow =
  zu_zone_map_id :: string
  zu_rule :: ZoneRuleInput

record PostalPincodeRow =
  pp_postal_version_id :: string
  pp_pincode :: string
  pp_city :: "string option"
  pp_district :: "string option"
  pp_state :: "string option"
  pp_region :: "string option"
  pp_is_metro :: bool
  pp_is_special :: bool

record RateDb =
  rdb_pickups :: "PickupRow list"
  rdb_cards :: "RateCardRow list"
  rdb_versions :: "RateCardVersionRow list"
  rdb_slabs :: "RateCardSlabRow list"
  rdb_components :: "RateCardComponentRow list"
  rdb_service_versions :: "ServiceVersionRow list"
  rdb_zone_maps :: "ZoneMapRow list"
  rdb_zone_rules :: "ZoneRuleRow list"
  rdb_pincodes :: "PostalPincodeRow list"

section \<open>The quote contract\<close>

datatype EddSource = EDD_PROVIDER | EDD_RATE_CARD_SLA

record QuoteResponse =
  qr_serviceable :: bool
  qr_failureReasons :: "string list"
  qr_rateAvailable :: bool
  qr_components :: "PricedComponent list"
  qr_total :: string
  qr_rtoRule :: "RtoRule option"
  qr_eddFrom :: "string option"
  qr_eddTo :: "string option"
  qr_eddSource :: "EddSource option"
  qr_fetchedAt :: int
  qr_providerQuoteRef :: "string option"
  qr_capabilityFlags :: "string list"

record EstimateCostInput =
  ec_shopId :: string
  ec_serviceId :: string
  ec_destinationPincode :: string
  ec_deadWeightKg :: string
  ec_lengthCm :: string
  ec_widthCm :: string
  ec_heightCm :: string
  ec_paymentMode :: payment_mode
  ec_collectible :: string
  ec_declaredValue :: string
  ec_shipDate :: int

record EstimateCostResult =
  es_quote :: QuoteResponse
  es_rateCardVersionId :: "string option"
  es_zoneMapId :: "string option"

section \<open>Reads\<close>

text \<open>\<open>ORDER BY key DESC LIMIT 1\<close>.\<close>

fun latestBy :: "('a \<Rightarrow> int) \<Rightarrow> 'a list \<Rightarrow> 'a option" where
  "latestBy key [] = None"
| "latestBy key (x # xs) = (case latestBy key xs of None \<Rightarrow> Some x
     | Some y \<Rightarrow> if key y > key x then Some y else Some x)"

definition activePickup :: "'a RateDb_scheme \<Rightarrow> string \<Rightarrow> PickupRow option" where
  "activePickup db shopId = List.find (\<lambda>p. pk_shop_id p = shopId \<and> pk_is_active p) (rdb_pickups db)"

definition rateCardOf :: "'a RateDb_scheme \<Rightarrow> string \<Rightarrow> string \<Rightarrow> RateCardRow option" where
  "rateCardOf db shopId serviceId =
     List.find (\<lambda>c. rk_shop_id c = shopId \<and> rk_service_id c = serviceId) (rdb_cards db)"

definition effectiveVersion :: "'a RateDb_scheme \<Rightarrow> string \<Rightarrow> int \<Rightarrow> RateCardVersionRow option" where
  "effectiveVersion db rateCardId shipDate = latestBy rv_effective_from
     (filter (\<lambda>v. rv_rate_card_id v = rateCardId \<and> rv_effective_from v \<le> shipDate
        \<and> (case rv_effective_to v of None \<Rightarrow> True | Some u \<Rightarrow> shipDate \<le> u)) (rdb_versions db))"

definition currentServiceVersion :: "'a RateDb_scheme \<Rightarrow> string \<Rightarrow> int \<Rightarrow> ServiceVersionRow option" where
  "currentServiceVersion db serviceId shipDate = latestBy sv_effective_from
     (filter (\<lambda>v. sv_service_id v = serviceId \<and> sv_effective_from v \<le> shipDate) (rdb_service_versions db))"

definition zoneMapOf :: "'a RateDb_scheme \<Rightarrow> string \<Rightarrow> string \<Rightarrow> ZoneMapRow option" where
  "zoneMapOf db shopId zoneMapId =
     List.find (\<lambda>m. zm_zone_map_id m = zoneMapId \<and> zm_shop_id m = shopId) (rdb_zone_maps db)"

definition zoneRulesOf :: "'a RateDb_scheme \<Rightarrow> string \<Rightarrow> ZoneRuleInput list" where
  "zoneRulesOf db zoneMapId = js_sort (\<lambda>a b. zr_position a - zr_position b)
     (map zu_rule (filter (\<lambda>u. zu_zone_map_id u = zoneMapId) (rdb_zone_rules db)))"

definition pincodeAttributes :: "'a RateDb_scheme \<Rightarrow> string \<Rightarrow> string \<Rightarrow> PincodeAttributes option" where
  "pincodeAttributes db postalVersionId pincode =
     map_option (\<lambda>r. \<lparr>pa_pincode = pp_pincode r, pa_city = pp_city r, pa_district = pp_district r,
         pa_state = pp_state r, pa_region = pp_region r, pa_isMetro = Some (pp_is_metro r),
         pa_isSpecial = Some (pp_is_special r)\<rparr>)
       (List.find (\<lambda>r. pp_postal_version_id r = postalVersionId \<and> pp_pincode r = pincode) (rdb_pincodes db))"

text \<open>F-4 of a lane on a zone map: the attributes are those of the map's frozen postal version.\<close>

definition mapZone :: "'a RateDb_scheme \<Rightarrow> ZoneMapRow \<Rightarrow> string \<Rightarrow> string \<Rightarrow> ZoneCode option" where
  "mapZone db zoneMap originPincode destinationPincode =
     resolveZone (zoneRulesOf db (zm_zone_map_id zoneMap))
       (originPincode, pincodeAttributes db (zm_postal_version_id zoneMap) originPincode)
       (destinationPincode, pincodeAttributes db (zm_postal_version_id zoneMap) destinationPincode)"

definition slabsOf :: "'a RateDb_scheme \<Rightarrow> string \<Rightarrow> SlabInput list" where
  "slabsOf db versionId = map rl_slab (filter (\<lambda>s. rl_rate_card_version_id s = versionId) (rdb_slabs db))"

definition componentsOf :: "'a RateDb_scheme \<Rightarrow> string \<Rightarrow> ComponentRowInput list" where
  "componentsOf db versionId = js_sort (\<lambda>a b. cr_position a - cr_position b)
     (map rc_component (filter (\<lambda>c. rc_rate_card_version_id c = versionId) (rdb_components db)))"

definition versionTariff :: "'a RateDb_scheme \<Rightarrow> RateCardVersionRow \<Rightarrow> TariffInput" where
  "versionTariff db version = \<lparr>tf_fuelPct = rv_fuel_pct version, tf_codFlat = rv_cod_flat version,
     tf_codPct = rv_cod_pct version, tf_gstPct = rv_gst_pct version,
     tf_taxableComponents = rv_taxable_components version,
     tf_slabs = slabsOf db (rv_rate_card_version_id version),
     tf_components = componentsOf db (rv_rate_card_version_id version)\<rparr>"

section \<open>The estimate\<close>

definition unpriceableText :: "UnpriceableReason \<Rightarrow> string" where
  "unpriceableText r = (case r of RATE_CARD_MISSING \<Rightarrow> ''RATE_CARD_MISSING''
     | RATE_CARD_VERSION_MISSING \<Rightarrow> ''RATE_CARD_VERSION_MISSING''
     | SERVICE_VERSION_MISSING \<Rightarrow> ''SERVICE_VERSION_MISSING'' | DIVISOR_MISSING \<Rightarrow> ''DIVISOR_MISSING''
     | ORIGIN_MISSING \<Rightarrow> ''ORIGIN_MISSING'' | ZONE_NOT_MATCHED \<Rightarrow> ''ZONE_NOT_MATCHED''
     | SLAB_MISSING \<Rightarrow> ''SLAB_MISSING'')"

definition unpriceable :: "int \<Rightarrow> UnpriceableReason \<Rightarrow> bool \<Rightarrow> EstimateCostResult" where
  "unpriceable now r serviceable = \<lparr>es_quote = \<lparr>qr_serviceable = serviceable,
       qr_failureReasons = [unpriceableText r], qr_rateAvailable = False, qr_components = [],
       qr_total = ''0.00'', qr_rtoRule = None, qr_eddFrom = None, qr_eddTo = None, qr_eddSource = None,
       qr_fetchedAt = now, qr_providerQuoteRef = None, qr_capabilityFlags = []\<rparr>,
     es_rateCardVersionId = None, es_zoneMapId = None\<rparr>"

definition pricedQuote :: "int \<Rightarrow> RateCardVersionRow \<Rightarrow> FreightBreakdown \<Rightarrow> QuoteResponse" where
  "pricedQuote now version breakdown = \<lparr>qr_serviceable = True, qr_failureReasons = [],
     qr_rateAvailable = True, qr_components = fb_components breakdown, qr_total = fb_f11Total breakdown,
     qr_rtoRule = Some \<lparr>rr_basis = rv_rto_basis version, rr_pct = rv_rto_pct version\<rparr>,
     qr_eddFrom = None, qr_eddTo = None, qr_eddSource = None, qr_fetchedAt = now,
     qr_providerQuoteRef = None, qr_capabilityFlags = []\<rparr>"

text \<open>F-5 to F-11 once the version, the zone and the weights are known.\<close>

definition priceLane ::
  "int \<Rightarrow> 'a RateDb_scheme \<Rightarrow> EstimateCostInput \<Rightarrow> RateCardVersionRow \<Rightarrow> ZoneMapRow \<Rightarrow> ZoneCode
   \<Rightarrow> WeightBreakdown \<Rightarrow> js_error + EstimateCostResult" where
  "priceLane now db inp version zoneMap zone weights =
     bindR (computeFreight (versionTariff db version) \<lparr>fa_zone = Some zone,
         fa_billableWeightKg = wb_billableWeightKg weights, fa_paymentMode = ec_paymentMode inp,
         fa_collectible = ec_collectible inp, fa_declaredValue = ec_declaredValue inp\<rparr>) (\<lambda>result.
     Inr (case result of
        Unpriceable r \<Rightarrow> (unpriceable now r True)\<lparr>
          es_rateCardVersionId := Some (rv_rate_card_version_id version),
          es_zoneMapId := Some (zm_zone_map_id zoneMap)\<rparr>
      | Priceable breakdown \<Rightarrow> \<lparr>es_quote = pricedQuote now version breakdown,
          es_rateCardVersionId = Some (rv_rate_card_version_id version),
          es_zoneMapId = Some (zm_zone_map_id zoneMap)\<rparr>))"

definition estimateTerms :: "EstimateCostInput \<Rightarrow> ServiceVersionRow \<Rightarrow> WeightTerms" where
  "estimateTerms inp serviceVersion = \<lparr>wt_deadWeightKg = ec_deadWeightKg inp,
     wt_lengthCm = ec_lengthCm inp, wt_widthCm = ec_widthCm inp, wt_heightCm = ec_heightCm inp,
     wt_divisor = sv_volumetric_divisor serviceVersion,
     wt_minBillableKg = sv_min_billable_kg serviceVersion,
     wt_incrementKg = sv_billable_increment_kg serviceVersion\<rparr>"

definition estimateCost :: "int \<Rightarrow> 'a RateDb_scheme \<Rightarrow> EstimateCostInput \<Rightarrow> js_error + EstimateCostResult" where
  "estimateCost now db inp =
     (case Option.bind (activePickup db (ec_shopId inp)) pk_pincode of
        None \<Rightarrow> Inr (unpriceable now ORIGIN_MISSING False)
      | Some originPincode \<Rightarrow>
     (case rateCardOf db (ec_shopId inp) (ec_serviceId inp) of
        None \<Rightarrow> Inr (unpriceable now RATE_CARD_MISSING False)
      | Some rateCard \<Rightarrow>
     (case effectiveVersion db (rk_rate_card_id rateCard) (ec_shipDate inp) of
        None \<Rightarrow> Inr (unpriceable now RATE_CARD_VERSION_MISSING False)
      | Some version \<Rightarrow>
     (case currentServiceVersion db (ec_serviceId inp) (ec_shipDate inp) of
        None \<Rightarrow> Inr (unpriceable now SERVICE_VERSION_MISSING False)
      | Some serviceVersion \<Rightarrow>
     if sv_volumetric_divisor serviceVersion = None then Inr (unpriceable now DIVISOR_MISSING False)
     else
     bindR (computeWeights (estimateTerms inp serviceVersion)) (\<lambda>w.
     case w of
        None \<Rightarrow> Inr (unpriceable now DIVISOR_MISSING False)
      | Some weights \<Rightarrow>
     (case zoneMapOf db (ec_shopId inp) (rv_zone_map_id version) of
        None \<Rightarrow> Inr (unpriceable now ZONE_NOT_MATCHED False)
      | Some zoneMap \<Rightarrow>
     (case mapZone db zoneMap originPincode (ec_destinationPincode inp) of
        None \<Rightarrow> Inr (unpriceable now ZONE_NOT_MATCHED False)
      | Some zone \<Rightarrow> priceLane now db inp version zoneMap zone weights)))))))"

text \<open>
  The zone of a lane by the id of its map, as the booking and the rule services resolve it
  (\<open>resolveLaneZone\<close> in \<open>booking.service.ts\<close> and \<open>rule-evaluation.service.ts\<close>).
\<close>

definition resolveLaneZone :: "'a RateDb_scheme \<Rightarrow> string \<Rightarrow> string \<Rightarrow> string \<Rightarrow> string \<Rightarrow> ZoneCode option" where
  "resolveLaneZone db shopId zoneMapId originPincode destinationPincode =
     Option.bind (zoneMapOf db shopId zoneMapId) (\<lambda>m. mapZone db m originPincode destinationPincode)"

section \<open>What an estimate promises\<close>

lemma latestBy_None [simp]: "latestBy key xs = None \<longleftrightarrow> xs = []"
  by (cases xs) (auto split: option.splits)

lemma latestBy_Some: "latestBy key xs = Some x \<Longrightarrow> x \<in> set xs \<and> (\<forall>y \<in> set xs. key y \<le> key x)"
  by (induction xs arbitrary: x) (force split: option.splits if_splits)+

lemma unpriceable_sel [simp]:
  "es_quote (unpriceable now r s) = \<lparr>qr_serviceable = s, qr_failureReasons = [unpriceableText r],
     qr_rateAvailable = False, qr_components = [], qr_total = ''0.00'', qr_rtoRule = None,
     qr_eddFrom = None, qr_eddTo = None, qr_eddSource = None, qr_fetchedAt = now,
     qr_providerQuoteRef = None, qr_capabilityFlags = []\<rparr>"
  "es_rateCardVersionId (unpriceable now r s) = None" "es_zoneMapId (unpriceable now r s) = None"
  by (simp_all add: unpriceable_def)

text \<open>
  What made an estimate carry a price: the chain of rows it was computed from, the freight being
  that of \<open>computeFreight\<close> in the zone of the lane from the active pickup location.
\<close>

definition pricedBy :: "int \<Rightarrow> 'a RateDb_scheme \<Rightarrow> EstimateCostInput \<Rightarrow> EstimateCostResult \<Rightarrow> RateCardVersionRow
    \<Rightarrow> ZoneMapRow \<Rightarrow> ZoneCode \<Rightarrow> FreightResult \<Rightarrow> bool" where
  "pricedBy now db inp est version zoneMap zone freight \<longleftrightarrow>
     (\<exists>origin rateCard serviceVersion weights. Option.bind (activePickup db (ec_shopId inp)) pk_pincode = Some origin
        \<and> rateCardOf db (ec_shopId inp) (ec_serviceId inp) = Some rateCard
        \<and> effectiveVersion db (rk_rate_card_id rateCard) (ec_shipDate inp) = Some version
        \<and> currentServiceVersion db (ec_serviceId inp) (ec_shipDate inp) = Some serviceVersion
        \<and> computeWeights (estimateTerms inp serviceVersion) = Inr (Some weights)
        \<and> zoneMapOf db (ec_shopId inp) (rv_zone_map_id version) = Some zoneMap
        \<and> mapZone db zoneMap origin (ec_destinationPincode inp) = Some zone
        \<and> computeFreight (versionTariff db version) \<lparr>fa_zone = Some zone,
             fa_billableWeightKg = wb_billableWeightKg weights, fa_paymentMode = ec_paymentMode inp,
             fa_collectible = ec_collectible inp, fa_declaredValue = ec_declaredValue inp\<rparr> = Inr freight
        \<and> (case freight of
             Unpriceable r \<Rightarrow> es_quote est = es_quote (unpriceable now r True)
           | Priceable b \<Rightarrow> es_quote est = pricedQuote now version b)
        \<and> es_rateCardVersionId est = Some (rv_rate_card_version_id version)
        \<and> es_zoneMapId est = Some (zm_zone_map_id zoneMap))"

lemma priceLane_Inr:
  assumes "priceLane now db inp version zoneMap zone weights = Inr est"
  shows "\<exists>freight. computeFreight (versionTariff db version) \<lparr>fa_zone = Some zone,
             fa_billableWeightKg = wb_billableWeightKg weights, fa_paymentMode = ec_paymentMode inp,
             fa_collectible = ec_collectible inp, fa_declaredValue = ec_declaredValue inp\<rparr> = Inr freight
        \<and> (case freight of
             Unpriceable r \<Rightarrow> es_quote est = es_quote (unpriceable now r True)
           | Priceable b \<Rightarrow> es_quote est = pricedQuote now version b)
        \<and> es_rateCardVersionId est = Some (rv_rate_card_version_id version)
        \<and> es_zoneMapId est = Some (zm_zone_map_id zoneMap)"
  using assms unfolding priceLane_def by (elim bindR_InrE) (auto split: FreightResult.splits)

lemma estimateCost_cases:
  assumes "estimateCost now db inp = Inr est"
  obtains (unpriced) r where "est = unpriceable now r False"
  | (priced) version zoneMap zone freight where "pricedBy now db inp est version zoneMap zone freight"
proof (cases "\<exists>r. est = unpriceable now r False")
  case True
  then show ?thesis using unpriced by blast
next
  case False
  then have no: "Inr (unpriceable now r False) \<noteq> (Inr est :: js_error + EstimateCostResult)" for r by auto
  obtain origin rateCard version sv where rows: "Option.bind (activePickup db (ec_shopId inp)) pk_pincode = Some origin"
      "rateCardOf db (ec_shopId inp) (ec_serviceId inp) = Some rateCard"
      "effectiveVersion db (rk_rate_card_id rateCard) (ec_shipDate inp) = Some version"
      "currentServiceVersion db (ec_serviceId inp) (ec_shipDate inp) = Some sv"
      "sv_volumetric_divisor sv \<noteq> None"
    using assms no unfolding estimateCost_def by (simp split: option.split_asm if_split_asm)
  with assms obtain w where w: "computeWeights (estimateTerms inp sv) = Inr w"
    and rest: "(case w of None \<Rightarrow> Inr (unpriceable now DIVISOR_MISSING False)
      | Some weights \<Rightarrow>
     (case zoneMapOf db (ec_shopId inp) (rv_zone_map_id version) of
        None \<Rightarrow> Inr (unpriceable now ZONE_NOT_MATCHED False)
      | Some zoneMap \<Rightarrow>
     (case mapZone db zoneMap origin (ec_destinationPincode inp) of
        None \<Rightarrow> Inr (unpriceable now ZONE_NOT_MATCHED False)
      | Some zone \<Rightarrow> priceLane now db inp version zoneMap zone weights))) = Inr est"
    unfolding estimateCost_def by (auto elim!: bindR_InrE)
  from rest no obtain weights zoneMap zone where "w = Some weights"
      "zoneMapOf db (ec_shopId inp) (rv_zone_map_id version) = Some zoneMap"
      "mapZone db zoneMap origin (ec_destinationPincode inp) = Some zone"
      "priceLane now db inp version zoneMap zone weights = Inr est"
    by (simp split: option.split_asm)
  with rows w priceLane_Inr [OF this(4)] show ?thesis
    by (elim exE conjE) (rule priced, unfold pricedBy_def, intro exI conjI, auto)
qed

end
