(* ===== verification/QuoteCache.thy ===== *)
theory QuoteCache
  imports EstimateCost Transport
begin

text \<open>
  \<open>src/modules/booking/quote-cache.service.ts\<close>: the shared cache of live quotes.  The call through
  the limiter and the breaker of an account (\<open>Transport\<close>) to the courier is the parameter
  \<open>getQuote\<close>.  The driver reads a \<open>numeric(19,4)\<close> back with four decimals; totals are decimals of
  at most four, as the contract has them, and other texts are refused by the database.
\<close>

section \<open>Rows and requests\<close>

record QuoteRequest =
  qq_courierAccountId :: string
  qq_serviceId :: string
  qq_originPincode :: string
  qq_destinationPincode :: string
  qq_shipDate :: int
  qq_deadWeightKg :: string
  qq_lengthCm :: string
  qq_widthCm :: string
  qq_heightCm :: string
  qq_paymentMode :: payment_mode
  qq_collectible :: string
  qq_declaredValue :: string
  qq_pickupLocationId :: string

datatype ComponentsJson =
    WithRule "PricedComponent list" "RtoRule option"
  | BareComponents "PricedComponent list"

record QuoteRow =
  qt_shop_id :: string
  qt_shipment_id :: "string option"
  qt_courier_account_id :: string
  qt_service_id :: string
  qt_provider_quote_ref :: "string option"
  qt_rate_card_version_id :: "string option"
  qt_zone_map_id :: "string option"
  qt_fetched_at :: int
  qt_expires_at :: "int option"
  qt_components_json :: ComponentsJson
  qt_total :: "string option"
  qt_edd_from :: "string option"
  qt_edd_to :: "string option"
  qt_edd_source :: "EddSource option"
  qt_origin_pincode :: "string option"
  qt_destination_pincode :: "string option"
  qt_billable_weight_band :: "string option"
  qt_payment_mode :: payment_mode

record QuoteDb = RateDb +
  rdb_quotes :: "QuoteRow list"

datatype quote_error = QuoteCallFailed AdapterError | QuoteNotStored

record QuoteKey =
  ky_serviceId :: string
  ky_originPincode :: string
  ky_destinationPincode :: string
  ky_billableWeightBand :: "string option"
  ky_paymentMode :: payment_mode

definition quoteCacheTtlMs :: int where
  "quoteCacheTtlMs = 15 * 60 * 1000"

section \<open>The cache\<close>

definition rowToQuote :: "QuoteRow \<Rightarrow> QuoteResponse" where
  "rowToQuote row =
     (let components = (case qt_components_json row of WithRule cs _ \<Rightarrow> cs | BareComponents cs \<Rightarrow> cs);
          rtoRule = (case qt_components_json row of WithRule _ r \<Rightarrow> r | BareComponents _ \<Rightarrow> None)
      in \<lparr>qr_serviceable = True, qr_failureReasons = [], qr_rateAvailable = (qt_total row \<noteq> None),
          qr_components = components,
          qr_total = (case qt_total row of None \<Rightarrow> ''0.00'' | Some t \<Rightarrow> t), qr_rtoRule = rtoRule,
          qr_eddFrom = qt_edd_from row, qr_eddTo = qt_edd_to row, qr_eddSource = qt_edd_source row,
          qr_fetchedAt = qt_fetched_at row, qr_providerQuoteRef = qt_provider_quote_ref row,
          qr_capabilityFlags = []\<rparr>)"

definition matchesKey :: "int \<Rightarrow> QuoteKey \<Rightarrow> QuoteRow \<Rightarrow> bool" where
  "matchesKey now key row \<longleftrightarrow> qt_shipment_id row = None \<and> qt_service_id row = ky_serviceId key
     \<and> qt_origin_pincode row = Some (ky_originPincode key)
     \<and> qt_destination_pincode row = Some (ky_destinationPincode key)
     \<and> qt_billable_weight_band row = ky_billableWeightBand key
     \<and> qt_payment_mode row = ky_paymentMode key
     \<and> (case qt_expires_at row of None \<Rightarrow> False | Some e \<Rightarrow> e > now)"

definition findFresh :: "int \<Rightarrow> 'a QuoteDb_scheme \<Rightarrow> QuoteKey \<Rightarrow> QuoteResponse option" where
  "findFresh now db key =
     map_option rowToQuote (latestBy qt_fetched_at (filter (matchesKey now key) (rdb_quotes db)))"

text \<open>A text written to a \<open>numeric(19,4)\<close> column and read back.\<close>

definition numeric4 :: "string \<Rightarrow> string option" where
  "numeric4 t = map_option (show_fixed 4) (parse_fixed 4 t)"

definition storedTotal :: "QuoteResponse \<Rightarrow> quote_error + string option" where
  "storedTotal q = (if \<not> qr_rateAvailable q then Inr None
     else case numeric4 (qr_total q) of None \<Rightarrow> Inl QuoteNotStored | Some t \<Rightarrow> Inr (Some t))"

definition cacheRow :: "string \<Rightarrow> string \<Rightarrow> QuoteRequest \<Rightarrow> string option \<Rightarrow> QuoteResponse \<Rightarrow> string option \<Rightarrow> QuoteRow" where
  "cacheRow shopId courierAccountId request band q ttl = \<lparr>qt_shop_id = shopId, qt_shipment_id = None,
     qt_courier_account_id = courierAccountId, qt_service_id = qq_serviceId request,
     qt_provider_quote_ref = qr_providerQuoteRef q, qt_rate_card_version_id = None, qt_zone_map_id = None,
     qt_fetched_at = qr_fetchedAt q,
     qt_expires_at = Some (qr_fetchedAt q + quoteCacheTtlMs),
     qt_components_json = WithRule (qr_components q) (qr_rtoRule q), qt_total = ttl,
     qt_edd_from = qr_eddFrom q, qt_edd_to = qr_eddTo q, qt_edd_source = qr_eddSource q,
     qt_origin_pincode = Some (qq_originPincode request),
     qt_destination_pincode = Some (qq_destinationPincode request),
     qt_billable_weight_band = band, qt_payment_mode = qq_paymentMode request\<rparr>"

definition fetchAndStore ::
  "(string \<Rightarrow> string \<Rightarrow> QuoteRequest \<Rightarrow> AdapterError + QuoteResponse) \<Rightarrow> string \<Rightarrow> string \<Rightarrow> QuoteRequest
   \<Rightarrow> string option \<Rightarrow> 'a QuoteDb_scheme \<Rightarrow> (quote_error + QuoteResponse) \<times> 'a QuoteDb_scheme" where
  "fetchAndStore getQuote shopId courierAccountId request band db =
     (case getQuote shopId courierAccountId request of
        Inl e \<Rightarrow> (Inl (QuoteCallFailed e), db)
      | Inr q \<Rightarrow>
          if \<not> qr_serviceable q then (Inr q, db)
          else (case storedTotal q of
             Inl e \<Rightarrow> (Inl e, db)
           | Inr ttl \<Rightarrow>
               (Inr q, db\<lparr>rdb_quotes := rdb_quotes db @ [cacheRow shopId courierAccountId request band q ttl]\<rparr>)))"

definition requestKey :: "QuoteRequest \<Rightarrow> string option \<Rightarrow> QuoteKey" where
  "requestKey request band = \<lparr>ky_serviceId = qq_serviceId request,
     ky_originPincode = qq_originPincode request, ky_destinationPincode = qq_destinationPincode request,
     ky_billableWeightBand = band, ky_paymentMode = qq_paymentMode request\<rparr>"

definition getLiveQuote ::
  "(string \<Rightarrow> string \<Rightarrow> QuoteRequest \<Rightarrow> AdapterError + QuoteResponse) \<Rightarrow> int \<Rightarrow> string \<Rightarrow> string \<Rightarrow> QuoteRequest
   \<Rightarrow> string option \<Rightarrow> 'a QuoteDb_scheme \<Rightarrow> (quote_error + QuoteResponse) \<times> 'a QuoteDb_scheme" where
  "getLiveQuote getQuote now shopId courierAccountId request band db =
     (case findFresh now db (requestKey request band) of
        Some cached \<Rightarrow> (Inr cached, db)
      | None \<Rightarrow> fetchAndStore getQuote shopId courierAccountId request band db)"

section \<open>What the cache promises\<close>

text \<open>Every row without a shipment expires fifteen minutes after it was fetched.\<close>

definition cacheWf :: "'a QuoteDb_scheme \<Rightarrow> bool" where
  "cacheWf db \<longleftrightarrow> (\<forall>r \<in> set (rdb_quotes db). qt_shipment_id r = None
     \<longrightarrow> qt_expires_at r = Some (qt_fetched_at r + quoteCacheTtlMs))"

text \<open>The effect of one live quote on the tables: at most one shared row more, of this request.\<close>

lemma getLiveQuote_cases:
  assumes "getLiveQuote getQuote now shopId account request band db = (r, db')"
  obtains (cached) row where "r = Inr (rowToQuote row)" "row \<in> set (rdb_quotes db)"
      "matchesKey now (requestKey request band) row" "db' = db"
  | (failed) e where "r = Inl e" "db' = db"
  | (unserviceable) q where "r = Inr q" "\<not> qr_serviceable q" "db' = db"
      "getQuote shopId account request = Inr q"
  | (stored) q ttl where "r = Inr q" "qr_serviceable q" "getQuote shopId account request = Inr q"
      "storedTotal q = Inr ttl"
      "db' = db\<lparr>rdb_quotes := rdb_quotes db @ [cacheRow shopId account request band q ttl]\<rparr>"
proof (cases "findFresh now db (requestKey request band)")
  case (Some q)
  then obtain row where row: "latestBy qt_fetched_at
      (filter (matchesKey now (requestKey request band)) (rdb_quotes db)) = Some row" "q = rowToQuote row"
    by (auto simp: findFresh_def)
  have hit: "row \<in> set (rdb_quotes db)" "matchesKey now (requestKey request band) row"
    using latestBy_Some [OF row(1)] by simp_all
  have "r = Inr (rowToQuote row)" "db' = db" using assms Some row(2) by (simp_all add: getLiveQuote_def)
  from cached [OF this(1) hit this(2)] show ?thesis .
next
  case None
  then have eq: "fetchAndStore getQuote shopId account request band db = (r, db')"
    using assms by (simp add: getLiveQuote_def)
  show ?thesis
  proof (cases "getQuote shopId account request")
    case (Inl e)
    with eq have "r = Inl (QuoteCallFailed e)" "db' = db" by (simp_all add: fetchAndStore_def)
    from failed [OF this] show ?thesis .
  next
    case (Inr q)
    show ?thesis
    proof (cases "qr_serviceable q")
      case False
      with eq Inr have "r = Inr q" "db' = db" by (simp_all add: fetchAndStore_def)
      from unserviceable [OF this(1) False this(2) Inr] show ?thesis .
    next
      case True
      show ?thesis
      proof (cases "storedTotal q")
        case (Inl e)
        with eq Inr True \<open>getQuote _ _ _ = Inr q\<close> have "r = Inl e" "db' = db" by (simp_all add: fetchAndStore_def)
        from failed [OF this] show ?thesis .
      next
        case ttl: (Inr ttl)
        with eq Inr True have "r = Inr q"
          "db' = db\<lparr>rdb_quotes := rdb_quotes db @ [cacheRow shopId account request band q ttl]\<rparr>"
          by (simp_all add: fetchAndStore_def)
        from stored [OF this(1) True Inr ttl this(2)] show ?thesis .
      qed
    qed
  qed
qed

lemma getLiveQuote_wf: "cacheWf db \<Longrightarrow> getLiveQuote g now shopId account request band db = (r, db') \<Longrightarrow> cacheWf db'"
  by (elim getLiveQuote_cases) (auto simp: cacheWf_def cacheRow_def)

end
