(* ===== verification/RuleLoader.thy ===== *)
theory RuleLoader
  imports RuleEvaluate QuoteCache Booking
begin

text \<open>
  \<open>src/modules/rules/rule-evaluation.service.ts\<close>: what is read from the tables before the pure
  evaluation of the rules (\<open>RuleEvaluate\<close>): the rules with their groups, conditions and services,
  the default chain, the postal attributes, the facts of each candidate Service with its quote.
  One instant \<open>now\<close> stands for the clock and the database's \<open>now()\<close> of one run.
\<close>

section \<open>Working values\<close>

record WorkingLine =
  wl_orderLineId :: string
  wl_shopifyLineGid :: "string option"
  wl_sku :: "string option"
  wl_title :: "string option"
  wl_variant :: "string option"
  wl_quantity :: int
  wl_unitPrice :: "string option"
  wl_tags :: "string list"
  wl_hsnCode :: "string option"
  wl_vendor :: "string option"
  wl_collections :: "string list"

record WorkingPayment =
  wy_mode :: payment_mode
  wy_gatewayNames :: "string list"
  wy_collectible :: string

record WorkingPackageProfile =
  wp_packageProfileId :: string
  wp_source :: string
  wp_lengthCm :: string
  wp_widthCm :: string
  wp_heightCm :: string
  wp_tareKg :: string

record WorkingRouting =
  wr_ruleId :: "string option"
  wr_ruleVersion :: "int option"
  wr_serviceId :: string
  wr_traceId :: nat
  wr_fallbackChain :: "FallbackKind option"
  wr_evaluatedAt :: int

text \<open>The members are optional: a row without working values gets only the \<open>routing\<close> block.\<close>

record WorkingValues =
  wv_recipient :: "SnapshotRecipient option"
  wv_lines :: "WorkingLine list"
  wv_payment :: "WorkingPayment option"
  wv_fulfillmentOrderGids :: "string list"
  wv_weight :: "DeadWeightResult option"
  wv_packageProfile :: "WorkingPackageProfile option"
  wv_routing :: "WorkingRouting option"

definition emptyWorking :: WorkingValues where
  "emptyWorking = \<lparr>wv_recipient = None, wv_lines = [], wv_payment = None, wv_fulfillmentOrderGids = [],
     wv_weight = None, wv_packageProfile = None, wv_routing = None\<rparr>"

section \<open>Tables\<close>

record RuleRow =
  ru_rule_id :: string
  ru_shop_id :: string
  ru_name :: string
  ru_is_active :: bool
  ru_position :: int
  ru_action_type :: RuleActionType
  ru_excluded_service_ids :: "string list"
  ru_active_from :: "string option"
  ru_active_to :: "string option"
  ru_version :: int
  ru_created_at :: int

record RuleConditionGroupRow =
  rg_group_id :: string
  rg_rule_id :: string
  rg_position :: int

record RuleConditionRow =
  rq_rule_id :: string
  rq_group_id :: string
  rq_field :: RuleConditionField
  rq_operator :: RuleOperator
  rq_value_json :: ConditionValue

record RuleActionServiceRow =
  ra_rule_id :: string
  ra_service_id :: string
  ra_position :: int

record SavedZoneRow =
  sz_saved_zone_id :: string
  sz_shop_id :: string
  sz_pincodes :: "string list"

record MerchantServiceRow =
  ms_merchant_service_id :: string
  ms_shop_id :: string
  ms_courier_account_id :: string
  ms_service_id :: string
  ms_enabled :: bool
  ms_priority_tiebreak_order :: int

record ServiceRow =
  sc_service_id :: string
  sc_code :: string
  sc_name :: string
  sc_cost_source :: CostSource
  sc_is_active :: bool

text \<open>The columns of \<open>courier_account\<close> beside its mode, which is in \<open>bd_accounts\<close>.\<close>

record AccountColumns =
  ac_courier_account_id :: string
  ac_disabled :: bool
  ac_has_test_credentials :: bool
  ac_has_live_credentials :: bool

record PostalVersionRow =
  pv_postal_version_id :: string
  pv_published_at :: "int option"
  pv_effective_from :: int

record OrderRow =
  or_order_id :: string
  or_shop_id :: string
  or_shopify_order_gid :: "string option"
  or_payment_mode :: payment_mode
  or_order_amount :: "string option"
  or_cod_outstanding :: "string option"
  or_checkout_shipping_title :: "string option"
  or_checkout_shipping_amount :: "string option"
  or_risk_flag :: "string option"

text \<open>The columns of \<open>shipment\<close> that booking and routing use beside those of \<open>Booking\<close>.\<close>

record ShipmentColumns =
  sh_pickup_location_id :: "string option"
  sh_service_id :: "string option"
  sh_service_version_id :: "string option"
  sh_manual_assignment_reason :: "ManualAssignmentReason option"
  sh_working_values :: "WorkingValues option"

record RuleDb = QuoteDb +
  rdb_rules :: "RuleRow list"
  rdb_groups :: "RuleConditionGroupRow list"
  rdb_conditions :: "RuleConditionRow list"
  rdb_action_services :: "RuleActionServiceRow list"
  rdb_saved_zones :: "SavedZoneRow list"
  rdb_merchant_services :: "MerchantServiceRow list"
  rdb_services :: "ServiceRow list"
  rdb_accounts :: "AccountColumns list"
  rdb_default_chains :: "(string \<times> string list option) list"
  rdb_timezones :: "(string \<times> string) list"
  rdb_postal_versions :: "PostalVersionRow list"
  rdb_orders :: "OrderRow list"
  rdb_columns :: "string \<Rightarrow> ShipmentColumns"
  rdb_booking :: BookingDb

datatype rule_error =
    RuleThrew js_error
  | QuoteInsertRefused
  | RoutingWriteFailed nat
  | TraceWriteFailed

section \<open>Runs over the tables\<close>

text \<open>A run returns an error or a value, and the tables.\<close>

definition bindX :: "('e + 'a) \<times> 's \<Rightarrow> ('a \<Rightarrow> 's \<Rightarrow> ('e + 'b) \<times> 's) \<Rightarrow> ('e + 'b) \<times> 's" where
  "bindX r f = (case r of (Inl e, s) \<Rightarrow> (Inl e, s) | (Inr a, s) \<Rightarrow> f a s)"

definition liftX :: "js_error + 'a \<Rightarrow> 's \<Rightarrow> (rule_error + 'a) \<times> 's" where
  "liftX r s = (case r of Inl e \<Rightarrow> (Inl (RuleThrew e), s) | Inr a \<Rightarrow> (Inr a, s))"

text \<open>\<open>[...new Set(xs)]\<close>: the first occurrences, in order.\<close>

definition firstOccurrences :: "'a list \<Rightarrow> 'a list" where
  "firstOccurrences xs = rev (remdups (rev xs))"

text \<open>A relation that every run of a component keeps, from the tables before to those after.\<close>

locale run_relation =
  fixes rel :: "'s \<Rightarrow> 's \<Rightarrow> bool"
  assumes rel_refl: "rel s s"
    and rel_trans: "rel s t \<Longrightarrow> rel t u \<Longrightarrow> rel s u"
begin

lemma rel_bindX:
  assumes "rel s (snd r)" "\<And>a t. r = (Inr a, t) \<Longrightarrow> rel t (snd (f a t))"
  shows "rel s (snd (bindX r f))"
proof -
  obtain v t where r: "r = (v, t)" by fastforce
  then show ?thesis
    using assms rel_trans by (cases v) (auto simp: bindX_def)
qed

lemma rel_liftX: "rel s (snd (liftX r s))"
  by (cases r) (simp_all add: liftX_def rel_refl)

end

section \<open>Rules\<close>

definition zonePincodes :: "'a RuleDb_scheme \<Rightarrow> string \<Rightarrow> string \<Rightarrow> string list" where
  "zonePincodes db shopId zoneId =
     (case List.find (\<lambda>z. sz_shop_id z = shopId \<and> sz_saved_zone_id z = zoneId) (rdb_saved_zones db) of
        None \<Rightarrow> [] | Some z \<Rightarrow> sz_pincodes z)"

definition conditionOf :: "'a RuleDb_scheme \<Rightarrow> string \<Rightarrow> RuleConditionRow \<Rightarrow> ConditionDef" where
  "conditionOf db shopId c = \<lparr>cd_field = rq_field c, cd_operator = rq_operator c,
     cd_value = (if rq_operator c = IN_SAVED_ZONE
       then (rq_value_json c)\<lparr>cv_pincodes := Some (case cv_zoneId (rq_value_json c) of
          None \<Rightarrow> [] | Some z \<Rightarrow> if z = [] then [] else zonePincodes db shopId z)\<rparr>
       else rq_value_json c)\<rparr>"

definition groupsOf :: "'a RuleDb_scheme \<Rightarrow> string \<Rightarrow> string list \<Rightarrow> string \<Rightarrow> ConditionGroupDef list" where
  "groupsOf db shopId ruleIds ruleId =
     map (\<lambda>g. \<lparr>cg_position = rg_position g,
         cg_conditions = map (conditionOf db shopId)
           (filter (\<lambda>c. rq_rule_id c \<in> set ruleIds \<and> rq_group_id c = rg_group_id g) (rdb_conditions db))\<rparr>)
       (js_sort (\<lambda>a b. rg_position a - rg_position b) (filter (\<lambda>g. rg_rule_id g = ruleId) (rdb_groups db)))"

definition actionServicesOf :: "'a RuleDb_scheme \<Rightarrow> string \<Rightarrow> string list" where
  "actionServicesOf db ruleId = map ra_service_id
     (js_sort (\<lambda>a b. ra_position a - ra_position b) (filter (\<lambda>s. ra_rule_id s = ruleId) (rdb_action_services db)))"

definition loadRules :: "'a RuleDb_scheme \<Rightarrow> string \<Rightarrow> RuleDef list" where
  "loadRules db shopId =
     (let rules = js_sort (\<lambda>a b. if ru_position a \<noteq> ru_position b then ru_position a - ru_position b
            else ru_created_at a - ru_created_at b) (filter (\<lambda>r. ru_shop_id r = shopId) (rdb_rules db));
          ruleIds = map ru_rule_id rules
      in map (\<lambda>r. \<lparr>rd_ruleId = ru_rule_id r, rd_name = ru_name r, rd_version = ru_version r,
           rd_isActive = ru_is_active r, rd_position = ru_position r, rd_actionType = ru_action_type r,
           rd_excludedServiceIds = ru_excluded_service_ids r, rd_activeFrom = ru_active_from r,
           rd_activeTo = ru_active_to r, rd_groups = groupsOf db shopId ruleIds (ru_rule_id r),
           rd_actionServiceIds = actionServicesOf db (ru_rule_id r)\<rparr>) rules)"

section \<open>The default chain and the postal master\<close>

definition chainOf :: "'a RuleDb_scheme \<Rightarrow> string \<Rightarrow> string list" where
  "chainOf db shopId = (case map_of (rdb_default_chains db) shopId of Some (Some chain) \<Rightarrow> chain | _ \<Rightarrow> [])"

definition merchantServiceById :: "'a RuleDb_scheme \<Rightarrow> string \<Rightarrow> string \<Rightarrow> MerchantServiceRow option" where
  "merchantServiceById db shopId merchantServiceId = List.find (\<lambda>m. ms_shop_id m = shopId
     \<and> ms_merchant_service_id m = merchantServiceId) (rdb_merchant_services db)"

text \<open>The Service ids of the chain; an id without a row, or with an empty Service id, is skipped.\<close>

definition loadDefaultChain :: "'a RuleDb_scheme \<Rightarrow> string \<Rightarrow> string list" where
  "loadDefaultChain db shopId = firstOccurrences (filter (\<lambda>s. s \<noteq> [])
     (List.map_filter (\<lambda>i. map_option ms_service_id (merchantServiceById db shopId i)) (chainOf db shopId)))"

definition currentPostalAttributes :: "'a RuleDb_scheme \<Rightarrow> string option \<Rightarrow> string option \<times> string option" where
  "currentPostalAttributes db pincode =
     (case pincode of None \<Rightarrow> (None, None)
      | Some pin \<Rightarrow>
          if pin = [] then (None, None)
          else (let hits = [(v, r). v \<leftarrow> rdb_postal_versions db, pv_published_at v \<noteq> None,
                       r \<leftarrow> rdb_pincodes db, pp_postal_version_id r = pv_postal_version_id v \<and> pp_pincode r = pin];
                    newest = js_sort (\<lambda>(a, _) (b, _).
                       if pv_effective_from a \<noteq> pv_effective_from b then pv_effective_from b - pv_effective_from a
                       else the (pv_published_at b) - the (pv_published_at a)) hits
                in case newest of [] \<Rightarrow> (None, None) | (_, r) # _ \<Rightarrow> (pp_state r, pp_city r)))"

section \<open>Candidates\<close>

record ParcelFacts =
  pf_originPincode :: string
  pf_destinationPincode :: string
  pf_shipDate :: int
  pf_deadWeightKg :: string
  pf_lengthCm :: string
  pf_widthCm :: string
  pf_heightCm :: string
  pf_paymentMode :: payment_mode
  pf_collectible :: string
  pf_declaredValue :: string
  pf_pickupLocationId :: string

definition zoneCodeText :: "ZoneCode \<Rightarrow> string" where
  "zoneCodeText z = (case z of ZA \<Rightarrow> ''A'' | ZB \<Rightarrow> ''B'' | ZC \<Rightarrow> ''C'' | ZD \<Rightarrow> ''D'' | ZE \<Rightarrow> ''E'')"

definition adapterErrorName :: "AdapterError \<Rightarrow> string" where
  "adapterErrorName e = (case e of CircuitOpenError _ \<Rightarrow> ''CircuitOpenError''
     | AccountBudgetExhaustedError _ _ \<Rightarrow> ''AccountBudgetExhaustedError''
     | AdapterRateLimitError \<Rightarrow> ''AdapterRateLimitError'' | CourierAuthError \<Rightarrow> ''CourierAuthError''
     | UnsupportedCapabilityError \<Rightarrow> ''UnsupportedCapabilityError''
     | AdapterTimeoutError \<Rightarrow> ''AdapterTimeoutError'' | CourierProviderError _ \<Rightarrow> ''CourierProviderError''
     | NotFoundException \<Rightarrow> ''NotFoundException'' | ForbiddenException \<Rightarrow> ''ForbiddenException''
     | BadRequestException \<Rightarrow> ''BadRequestException'' | UnknownError n \<Rightarrow> n)"

definition serviceById :: "'a RuleDb_scheme \<Rightarrow> string \<Rightarrow> ServiceRow option" where
  "serviceById db serviceId = List.find (\<lambda>s. sc_service_id s = serviceId) (rdb_services db)"

definition accountById :: "'a RuleDb_scheme \<Rightarrow> string \<Rightarrow> AccountColumns option" where
  "accountById db accountId = List.find (\<lambda>a. ac_courier_account_id a = accountId) (rdb_accounts db)"

text \<open>
  A row of \<open>merchant_service\<close> joined with its Service and its account.  The rows of one Service
  share its code, so the last key of the \<open>ORDER BY\<close> of the candidates does not separate them.
\<close>

definition joinedService :: "'a RuleDb_scheme \<Rightarrow> MerchantServiceRow \<Rightarrow> (MerchantServiceRow \<times> ServiceRow \<times> AccountColumns) option" where
  "joinedService db m = Option.bind (serviceById db (ms_service_id m)) (\<lambda>s.
     map_option (\<lambda>a. (m, s, a)) (accountById db (ms_courier_account_id m)))"

definition candidateRow :: "'a RuleDb_scheme \<Rightarrow> string \<Rightarrow> string \<Rightarrow> (MerchantServiceRow \<times> ServiceRow \<times> AccountColumns) option" where
  "candidateRow db shopId serviceId =
     (case js_sort (\<lambda>(a, _) (b, _). if ms_enabled a \<noteq> ms_enabled b then (if ms_enabled a then - 1 else 1)
              else ms_priority_tiebreak_order a - ms_priority_tiebreak_order b)
            (List.map_filter (joinedService db)
              (filter (\<lambda>m. ms_shop_id m = shopId \<and> ms_service_id m = serviceId) (rdb_merchant_services db))) of
        [] \<Rightarrow> None | x # _ \<Rightarrow> Some x)"

text \<open>\<open>MerchantServicesService.isBookable\<close>.\<close>

definition isBookable :: "'a RuleDb_scheme \<Rightarrow> string \<Rightarrow> string \<Rightarrow> string \<Rightarrow> bool" where
  "isBookable db shopId accountId serviceId \<longleftrightarrow> list_ex (\<lambda>m. ms_shop_id m = shopId
     \<and> ms_courier_account_id m = accountId \<and> ms_service_id m = serviceId \<and> ms_enabled m) (rdb_merchant_services db)"

definition quoteView :: "QuoteResponse \<Rightarrow> CandidateQuote" where
  "quoteView q = \<lparr>cq_serviceable = qr_serviceable q, cq_failureReasons = qr_failureReasons q,
     cq_rateAvailable = qr_rateAvailable q, cq_total = (if qr_rateAvailable q then Some (qr_total q) else None),
     cq_eddFrom = qr_eddFrom q, cq_eddTo = qr_eddTo q, cq_fetchedAt = Some (toISOString (qr_fetchedAt q))\<rparr>"

definition parcelEstimate :: "string \<Rightarrow> string \<Rightarrow> ParcelFacts \<Rightarrow> EstimateCostInput" where
  "parcelEstimate shopId serviceId parcel = \<lparr>ec_shopId = shopId, ec_serviceId = serviceId,
     ec_destinationPincode = pf_destinationPincode parcel, ec_deadWeightKg = pf_deadWeightKg parcel,
     ec_lengthCm = pf_lengthCm parcel, ec_widthCm = pf_widthCm parcel, ec_heightCm = pf_heightCm parcel,
     ec_paymentMode = pf_paymentMode parcel, ec_collectible = pf_collectible parcel,
     ec_declaredValue = pf_declaredValue parcel, ec_shipDate = pf_shipDate parcel\<rparr>"

definition parcelRequest :: "string \<Rightarrow> string \<Rightarrow> ParcelFacts \<Rightarrow> QuoteRequest" where
  "parcelRequest accountId serviceId parcel = \<lparr>qq_courierAccountId = accountId, qq_serviceId = serviceId,
     qq_originPincode = pf_originPincode parcel, qq_destinationPincode = pf_destinationPincode parcel,
     qq_shipDate = pf_shipDate parcel, qq_deadWeightKg = pf_deadWeightKg parcel,
     qq_lengthCm = pf_lengthCm parcel, qq_widthCm = pf_widthCm parcel, qq_heightCm = pf_heightCm parcel,
     qq_paymentMode = pf_paymentMode parcel, qq_collectible = pf_collectible parcel,
     qq_declaredValue = pf_declaredValue parcel, qq_pickupLocationId = pf_pickupLocationId parcel\<rparr>"

definition parcelWeights :: "'a RuleDb_scheme \<Rightarrow> string \<Rightarrow> ParcelFacts \<Rightarrow> js_error + WeightBreakdown option" where
  "parcelWeights db serviceId parcel =
     (case currentServiceVersion db serviceId (pf_shipDate parcel) of
        None \<Rightarrow> Inr None
      | Some sv \<Rightarrow> computeWeights \<lparr>wt_deadWeightKg = pf_deadWeightKg parcel, wt_lengthCm = pf_lengthCm parcel,
          wt_widthCm = pf_widthCm parcel, wt_heightCm = pf_heightCm parcel,
          wt_divisor = sv_volumetric_divisor sv, wt_minBillableKg = sv_min_billable_kg sv,
          wt_incrementKg = sv_billable_increment_kg sv\<rparr>)"

text \<open>The quote of a candidate: the quote, the error of a failed call, and the zone.\<close>

type_synonym candidate_price = "CandidateQuote option \<times> string option \<times> string option"

type_synonym quote_call = "string \<Rightarrow> string \<Rightarrow> QuoteRequest \<Rightarrow> AdapterError + QuoteResponse"

definition candidatePrice ::
  "quote_call \<Rightarrow> int \<Rightarrow> string \<Rightarrow> ParcelFacts \<Rightarrow> string \<Rightarrow> MerchantServiceRow \<Rightarrow> ServiceRow
   \<Rightarrow> WeightBreakdown option \<Rightarrow> 'a RuleDb_scheme \<Rightarrow> (rule_error + candidate_price) \<times> 'a RuleDb_scheme" where
  "candidatePrice getQuote now shopId parcel serviceId m s weights db =
     (case sc_cost_source s of
        RATE_CARD \<Rightarrow> bindX (liftX (estimateCost now db (parcelEstimate shopId serviceId parcel)) db) (\<lambda>est db.
          (Inr (Some (quoteView (es_quote est)), None,
             Option.bind (es_zoneMapId est) (\<lambda>z. map_option zoneCodeText
               (resolveLaneZone db shopId z (pf_originPincode parcel) (pf_destinationPincode parcel)))), db))
      | LIVE_QUOTE \<Rightarrow>
          (case getLiveQuote getQuote now shopId (ms_courier_account_id m)
                  (parcelRequest (ms_courier_account_id m) serviceId parcel)
                  (map_option wb_billableWeightKg weights) db of
             (Inr q, db) \<Rightarrow> (Inr (Some (quoteView q), None, None), db)
           | (Inl (QuoteCallFailed e), db) \<Rightarrow> (Inr (None, Some (''quote call failed: '' @ adapterErrorName e), None), db)
           | (Inl QuoteNotStored, db) \<Rightarrow> (Inl QuoteInsertRefused, db))
      | NONE_SOURCE \<Rightarrow> (Inr (None, None, None), db))"

definition candidateFacts ::
  "quote_call \<Rightarrow> int \<Rightarrow> string \<Rightarrow> ParcelFacts \<Rightarrow> string \<Rightarrow> 'a RuleDb_scheme
   \<Rightarrow> (rule_error + CandidateFacts) \<times> 'a RuleDb_scheme" where
  "candidateFacts getQuote now shopId parcel serviceId db =
     (case candidateRow db shopId serviceId of
        None \<Rightarrow> (Inr \<lparr>cf_serviceId = serviceId, cf_courierAccountId = None, cf_costSource = NONE_SOURCE,
            cf_bookable = False, cf_notBookableReason = Some ''NO_MERCHANT_SERVICE'',
            cf_priorityTiebreakOrder = 0, cf_quote = None, cf_quoteError = None, cf_zone = None,
            cf_volumetricWeightKg = None\<rparr>, db)
      | Some (m, s, a) \<Rightarrow>
          (let gateFlags = (ms_enabled m \<and> sc_is_active s \<and> \<not> ac_disabled a);
               bookable = (gateFlags \<and> isBookable db shopId (ms_courier_account_id m) serviceId);
               notBookableReason = (if bookable then None
                 else if \<not> ms_enabled m then Some ''MERCHANT_SERVICE_DISABLED''
                 else if \<not> sc_is_active s then Some ''SERVICE_INACTIVE''
                 else if ac_disabled a then Some ''COURIER_ACCOUNT_DISABLED''
                 else Some ''MERCHANT_SERVICE_DISABLED'')
           in bindX (liftX (parcelWeights db serviceId parcel) db) (\<lambda>weights db.
              bindX (candidatePrice getQuote now shopId parcel serviceId m s weights db) (\<lambda>(quote, quoteError, zone) db.
              (Inr \<lparr>cf_serviceId = serviceId, cf_courierAccountId = Some (ms_courier_account_id m),
                 cf_costSource = sc_cost_source s, cf_bookable = bookable,
                 cf_notBookableReason = notBookableReason,
                 cf_priorityTiebreakOrder = ms_priority_tiebreak_order m, cf_quote = quote,
                 cf_quoteError = quoteError, cf_zone = zone,
                 cf_volumetricWeightKg = map_option wb_volumetricWeightKg weights\<rparr>, db)))))"

fun loadCandidates ::
  "quote_call \<Rightarrow> int \<Rightarrow> string \<Rightarrow> ParcelFacts \<Rightarrow> string list \<Rightarrow> 'a RuleDb_scheme
   \<Rightarrow> (rule_error + CandidateFacts list) \<times> 'a RuleDb_scheme" where
  "loadCandidates getQuote now shopId parcel [] db = (Inr [], db)"
| "loadCandidates getQuote now shopId parcel (serviceId # ids) db =
     bindX (candidateFacts getQuote now shopId parcel serviceId db) (\<lambda>c db.
     bindX (loadCandidates getQuote now shopId parcel ids db) (\<lambda>cs db. (Inr (c # cs), db)))"

section \<open>Assembly\<close>

definition shopTimezone :: "'a RuleDb_scheme \<Rightarrow> string \<Rightarrow> string" where
  "shopTimezone db shopId = (case map_of (rdb_timezones db) shopId of None \<Rightarrow> ''Asia/Kolkata'' | Some z \<Rightarrow> z)"

definition orderById :: "'a RuleDb_scheme \<Rightarrow> string \<Rightarrow> string \<Rightarrow> OrderRow option" where
  "orderById db shopId orderId = List.find (\<lambda>r. or_shop_id r = shopId \<and> or_order_id r = orderId) (rdb_orders db)"

definition pickupById :: "'a RuleDb_scheme \<Rightarrow> string \<Rightarrow> string option \<Rightarrow> PickupRow option" where
  "pickupById db shopId pickupLocationId =
     List.find (\<lambda>p. pk_shop_id p = shopId \<and> Some (pk_pickup_location_id p) = pickupLocationId) (rdb_pickups db)"

definition valueOr :: "'a option \<Rightarrow> 'a \<Rightarrow> 'a" where
  "valueOr v d = (case v of None \<Rightarrow> d | Some x \<Rightarrow> x)"

definition paymentModeOf :: "WorkingValues option \<Rightarrow> OrderRow option \<Rightarrow> payment_mode" where
  "paymentModeOf working order = (case Option.bind working wv_payment of
     Some p \<Rightarrow> wy_mode p | None \<Rightarrow> valueOr (map_option or_payment_mode order) UNRESOLVED)"

definition destinationOf :: "WorkingValues option \<Rightarrow> string option" where
  "destinationOf working = Option.bind (Option.bind working wv_recipient) sr_pincode"

definition orderFactsOf ::
  "'a RuleDb_scheme \<Rightarrow> WorkingValues option \<Rightarrow> OrderRow option \<Rightarrow> OrderFacts" where
  "orderFactsOf db working order =
     (let lines = (case working of None \<Rightarrow> [] | Some w \<Rightarrow> wv_lines w);
          (destState, destCity) = currentPostalAttributes db (destinationOf working)
      in \<lparr>of_deadWeightKg = map_option dw_deadWeightKg (Option.bind working wv_weight),
          of_orderAmount = Option.bind order or_order_amount, of_paymentMode = paymentModeOf working order,
          of_destinationPincode = destinationOf working, of_skus = map wl_sku lines,
          of_tags = firstOccurrences (concat (map wl_tags lines)), of_destState = destState,
          of_destCity = destCity, of_codAmount = Option.bind order or_cod_outstanding,
          of_checkoutShippingTitle = Option.bind order or_checkout_shipping_title,
          of_checkoutShippingAmount = Option.bind order or_checkout_shipping_amount,
          of_itemCount = Some (sum_list (map wl_quantity lines)), of_products = map wl_title lines,
          of_vendors = map wl_vendor lines,
          of_collections = map Some (concat (map wl_collections lines)),
          of_riskFlag = Option.bind order or_risk_flag\<rparr>)"

definition parcelOf ::
  "'a RuleDb_scheme \<Rightarrow> int \<Rightarrow> string \<Rightarrow> ShipmentColumns \<Rightarrow> OrderRow option \<Rightarrow> ParcelFacts" where
  "parcelOf db now shopId cols order =
     (let working = sh_working_values cols;
          profile = Option.bind working wv_packageProfile
      in \<lparr>pf_originPincode = valueOr (Option.bind (pickupById db shopId (sh_pickup_location_id cols)) pk_pincode) [],
          pf_destinationPincode = valueOr (destinationOf working) [], pf_shipDate = now div 86400000,
          pf_deadWeightKg = valueOr (map_option dw_deadWeightKg (Option.bind working wv_weight)) ''0.000'',
          pf_lengthCm = valueOr (map_option wp_lengthCm profile) ''0.00'',
          pf_widthCm = valueOr (map_option wp_widthCm profile) ''0.00'',
          pf_heightCm = valueOr (map_option wp_heightCm profile) ''0.00'',
          pf_paymentMode = paymentModeOf working order,
          pf_collectible = valueOr (map_option wy_collectible (Option.bind working wv_payment)) ''0.00'',
          pf_declaredValue = valueOr (Option.bind order or_order_amount) ''0.00'',
          pf_pickupLocationId = valueOr (sh_pickup_location_id cols) []\<rparr>)"

definition candidateServiceIds :: "RuleDef list \<Rightarrow> string list \<Rightarrow> string list" where
  "candidateServiceIds rules chain = firstOccurrences (concat (map rd_actionServiceIds rules) @ chain)"

definition eddStaleMs :: int where
  "eddStaleMs = 6 * 60 * 60 * 1000"

definition assembleInput ::
  "'a RuleDb_scheme \<Rightarrow> int \<Rightarrow> string \<Rightarrow> OrderFacts \<Rightarrow> CandidateFacts list \<Rightarrow> EvaluateInput" where
  "assembleInput db now shopId facts candidates =
     (let chain = loadDefaultChain db shopId
      in \<lparr>ev_now = now, ev_shopTimezone = shopTimezone db shopId, ev_eddStaleMs = eddStaleMs,
          ev_rules = loadRules db shopId, ev_order = facts, ev_candidates = candidates,
          ev_defaultChainServiceIds = (if chain = [] then None else Some chain)\<rparr>)"

definition loadForShipment ::
  "quote_call \<Rightarrow> int \<Rightarrow> string \<Rightarrow> string \<Rightarrow> 'a RuleDb_scheme
   \<Rightarrow> (rule_error + (ShipmentLockRow \<times> EvaluateInput) option) \<times> 'a RuleDb_scheme" where
  "loadForShipment getQuote now shopId shipmentId db =
     (case findShipment (rdb_booking db) shopId shipmentId of
        None \<Rightarrow> (Inr None, db)
      | Some shipment \<Rightarrow>
          (let cols = rdb_columns db shipmentId;
               order = orderById db shopId (bs_order_id shipment);
               facts = orderFactsOf db (sh_working_values cols) order;
               parcel = parcelOf db now shopId cols order;
               ids = candidateServiceIds (loadRules db shopId) (loadDefaultChain db shopId)
           in bindX (loadCandidates getQuote now shopId parcel ids db) (\<lambda>candidates db.
              (Inr (Some (shipment, assembleInput db now shopId facts candidates)), db))))"

text \<open>The simulator's sample order (section 9.4.6): nothing is stored but cached quotes.\<close>

record SampleOrder =
  so_destinationPincode :: string
  so_deadWeightKg :: string
  so_lengthCm :: string
  so_widthCm :: string
  so_heightCm :: string
  so_paymentMode :: payment_mode
  so_collectible :: string
  so_orderAmount :: "string option"
  so_codAmount :: "string option"
  so_skus :: "string list"
  so_tags :: "string list"
  so_checkoutShippingTitle :: "string option"
  so_checkoutShippingAmount :: "string option"
  so_itemCount :: "int option"
  so_riskFlag :: "string option"

definition sampleFacts :: "'a RuleDb_scheme \<Rightarrow> SampleOrder \<Rightarrow> OrderFacts" where
  "sampleFacts db sample =
     (let (destState, destCity) = currentPostalAttributes db (Some (so_destinationPincode sample))
      in \<lparr>of_deadWeightKg = Some (so_deadWeightKg sample), of_orderAmount = so_orderAmount sample,
          of_paymentMode = so_paymentMode sample, of_destinationPincode = Some (so_destinationPincode sample),
          of_skus = map Some (so_skus sample), of_tags = so_tags sample, of_destState = destState,
          of_destCity = destCity, of_codAmount = so_codAmount sample,
          of_checkoutShippingTitle = so_checkoutShippingTitle sample,
          of_checkoutShippingAmount = so_checkoutShippingAmount sample, of_itemCount = so_itemCount sample,
          of_products = [], of_vendors = [], of_collections = [], of_riskFlag = so_riskFlag sample\<rparr>)"

definition loadForSample ::
  "quote_call \<Rightarrow> int \<Rightarrow> string \<Rightarrow> SampleOrder \<Rightarrow> 'a RuleDb_scheme
   \<Rightarrow> (rule_error + EvaluateInput) \<times> 'a RuleDb_scheme" where
  "loadForSample getQuote now shopId sample db =
     (let parcel = \<lparr>pf_originPincode = valueOr (Option.bind (activePickup db shopId) pk_pincode) [],
            pf_destinationPincode = so_destinationPincode sample, pf_shipDate = now div 86400000,
            pf_deadWeightKg = so_deadWeightKg sample, pf_lengthCm = so_lengthCm sample,
            pf_widthCm = so_widthCm sample, pf_heightCm = so_heightCm sample,
            pf_paymentMode = so_paymentMode sample, pf_collectible = so_collectible sample,
            pf_declaredValue = valueOr (so_orderAmount sample) ''0.00'', pf_pickupLocationId = []\<rparr>;
          ids = candidateServiceIds (loadRules db shopId) (loadDefaultChain db shopId)
      in bindX (loadCandidates getQuote now shopId parcel ids db) (\<lambda>candidates db.
         (Inr (assembleInput db now shopId (sampleFacts db sample) candidates), db)))"

end
