(* ===== verification/RuleRouting.thy ===== *)
theory RuleRouting
  imports RuleLoader Booking_Laws Rule_Select
begin

text \<open>
  \<open>src/modules/rules/rule-routing.service.ts\<close> and \<open>rule-simulator.service.ts\<close>: the rules evaluated
  for a shipment, the trace stored and the outcome written, in one transaction on the locked row;
  and the two evaluations that only report.
\<close>

section \<open>Routing\<close>

text \<open>A row of \<open>rule_evaluation_trace\<close>; its id is its position.\<close>

record RuleTraceRow =
  tr_shop_id :: string
  tr_shipment_id :: string
  tr_result :: EvaluationResult

record RoutingDb = RuleDb +
  rdb_traces :: "RuleTraceRow list"

datatype RoutingResult =
    Evaluated nat EvaluationResult
  | NotEvaluated "BookingState option"

text \<open>
  What surrounds a run: the courier calls, the clock, the zones and legacy dates of the host, and
  whether an audit record and a job can be stored.
\<close>

record RoutingEnv =
  re_getQuote :: quote_call
  re_now :: int
  re_tzOffset :: "string \<Rightarrow> int \<Rightarrow> int option"
  re_legacyParse :: "string \<Rightarrow> int option"
  re_audit_up :: bool
  re_queue_up :: bool

datatype routing_error = RunFailed rule_error | RoutingGuardRaised | AuditFailed

definition routingBlock :: "int \<Rightarrow> nat \<Rightarrow> EvaluationResult \<Rightarrow> string \<Rightarrow> WorkingRouting" where
  "routingBlock now traceId result serviceId = \<lparr>wr_ruleId = rs_matchedRuleId result,
     wr_ruleVersion = rs_matchedRuleVersion result, wr_serviceId = serviceId, wr_traceId = traceId,
     wr_fallbackChain = map_option fc_kind (rs_fallbackChain result), wr_evaluatedAt = now\<rparr>"

definition mergeRouting :: "WorkingRouting \<Rightarrow> WorkingValues option \<Rightarrow> WorkingValues" where
  "mergeRouting r working = (valueOr working emptyWorking)\<lparr>wv_routing := Some r\<rparr>"

definition setColumns :: "string \<Rightarrow> (ShipmentColumns \<Rightarrow> ShipmentColumns) \<Rightarrow> 'a RuleDb_scheme \<Rightarrow> 'a RuleDb_scheme" where
  "setColumns shipmentId f db = db\<lparr>rdb_columns := (rdb_columns db)(shipmentId := f (rdb_columns db shipmentId))\<rparr>"

text \<open>
  An UPDATE of the shipment that sets its booking state: the row, with its guards, and the columns;
  None when a guard raises, else the tables and the number of rows.
\<close>

definition updateBooking ::
  "string \<Rightarrow> string \<Rightarrow> (ShipmentLockRow \<Rightarrow> bool) \<Rightarrow> (ShipmentLockRow \<Rightarrow> ShipmentLockRow)
   \<Rightarrow> (ShipmentColumns \<Rightarrow> ShipmentColumns) \<Rightarrow> 'a RuleDb_scheme \<Rightarrow> ('a RuleDb_scheme \<times> nat) option" where
  "updateBooking shopId shipmentId cond f g db =
     (case updateShipments True (\<lambda>s. isShipment shopId shipmentId s \<and> cond s) f (rdb_booking db) of
        None \<Rightarrow> None
      | Some (bdb, n) \<Rightarrow> Some (if n = 0 then db\<lparr>rdb_booking := bdb\<rparr>
            else setColumns shipmentId g (db\<lparr>rdb_booking := bdb\<rparr>), n))"

definition routedColumns :: "WorkingRouting \<Rightarrow> ShipmentColumns \<Rightarrow> ShipmentColumns" where
  "routedColumns r cols = cols\<lparr>sh_service_id := Some (wr_serviceId r), sh_manual_assignment_reason := None,
     sh_working_values := Some (mergeRouting r (sh_working_values cols))\<rparr>"

definition writeOutcome ::
  "int \<Rightarrow> nat \<Rightarrow> EvaluationResult \<Rightarrow> string \<Rightarrow> ShipmentLockRow \<Rightarrow> 'a RuleDb_scheme \<Rightarrow> ('a RuleDb_scheme \<times> nat) option" where
  "writeOutcome now traceId result shopId shipment db =
     (let sid = bs_shipment_id shipment; read = (\<lambda>s. bs_version s = bs_version shipment)
      in case rs_outcome result of
           SELECTED serviceId \<Rightarrow> updateBooking shopId sid read (setState DRAFT)
             (routedColumns (routingBlock now traceId result serviceId)) db
         | MANUAL_ASSIGNMENT r \<Rightarrow> updateBooking shopId sid read (setState NEEDS_MANUAL_ASSIGNMENT)
             (\<lambda>cols. cols\<lparr>sh_manual_assignment_reason := Some r\<rparr>) db)"

definition outcomeText :: "EvaluationResult \<Rightarrow> string" where
  "outcomeText result = (case rs_outcome result of SELECTED _ \<Rightarrow> ''SELECTED''
     | MANUAL_ASSIGNMENT r \<Rightarrow> (case r of HELD_BY_RULE \<Rightarrow> ''HELD_BY_RULE'' | CHAIN_EXHAUSTED \<Rightarrow> ''CHAIN_EXHAUSTED''
         | NO_SERVICEABLE_CANDIDATE \<Rightarrow> ''NO_SERVICEABLE_CANDIDATE''
         | NO_RULE_AND_NO_DEFAULT_CHAIN \<Rightarrow> ''NO_RULE_AND_NO_DEFAULT_CHAIN''))"

definition callOutDb :: "BookingCall \<Rightarrow> 'a RuleDb_scheme \<Rightarrow> 'a RuleDb_scheme" where
  "callOutDb c db = db\<lparr>rdb_booking := callOut c (rdb_booking db)\<rparr>"

text \<open>An audit record after the COMMIT: when it fails the call throws, with everything written.\<close>

definition auditedX ::
  "bool \<Rightarrow> string \<Rightarrow> string \<Rightarrow> 'a \<Rightarrow> 'b RuleDb_scheme \<Rightarrow> (routing_error + 'a) \<times> 'b RuleDb_scheme" where
  "auditedX up action detail r db =
     (if up then (Inr r, callOutDb (AuditBooking action detail) db) else (Inl AuditFailed, db))"

text \<open>\<open>evaluateForShipment\<close>: a failure before the COMMIT leaves the tables as they were.\<close>

definition evaluateForShipment ::
  "'e RoutingEnv_scheme \<Rightarrow> string \<Rightarrow> string \<Rightarrow> 'a RoutingDb_scheme \<Rightarrow> (routing_error + RoutingResult) \<times> 'a RoutingDb_scheme" where
  "evaluateForShipment env shopId shipmentId db =
     (case loadForShipment (re_getQuote env) (re_now env) shopId shipmentId db of
        (Inl e, _) \<Rightarrow> (Inl (RunFailed e), db)
      | (Inr None, _) \<Rightarrow> (Inr (NotEvaluated None), db)
      | (Inr (Some (shipment, inp)), db1) \<Rightarrow>
          if bs_booking_state shipment \<notin> {DRAFT, NEEDS_MANUAL_ASSIGNMENT}
          then (Inr (NotEvaluated (Some (bs_booking_state shipment))), db)
          else (case evaluate (re_tzOffset env) (re_legacyParse env) inp of
             Inl e \<Rightarrow> (Inl (RunFailed (RuleThrew e)), db)
           | Inr result \<Rightarrow>
               (let traceId = length (rdb_traces db1);
                    db2 = db1\<lparr>rdb_traces := rdb_traces db1 @ [\<lparr>tr_shop_id = shopId,
                       tr_shipment_id = shipmentId, tr_result = result\<rparr>]\<rparr>
                in case writeOutcome (re_now env) traceId result shopId shipment db2 of
                     None \<Rightarrow> (Inl RoutingGuardRaised, db)
                   | Some (db3, n) \<Rightarrow>
                       if n \<noteq> 1 then (Inl (RunFailed (RoutingWriteFailed n)), db)
                       else auditedX (re_audit_up env) ''rule.evaluated'' (outcomeText result)
                              (Evaluated traceId result) db3)))"

section \<open>Evaluations that report\<close>

definition simulate ::
  "'e RoutingEnv_scheme \<Rightarrow> string \<Rightarrow> SampleOrder \<Rightarrow> 'a RuleDb_scheme \<Rightarrow> (rule_error + EvaluationResult) \<times> 'a RuleDb_scheme" where
  "simulate env shopId sample db =
     bindX (loadForSample (re_getQuote env) (re_now env) shopId sample db) (\<lambda>inp db.
     liftX (evaluate (re_tzOffset env) (re_legacyParse env) inp) db)"

record TestFireRow =
  tf_orderId :: string
  tf_shipmentId :: string
  tf_wouldMatchRuleId :: "string option"
  tf_wouldMatchRuleName :: "string option"
  tf_selectedServiceId :: "string option"
  tf_outcome :: EvaluationOutcome
  tf_actualServiceId :: "string option"
  tf_changed :: bool

definition testFireRow :: "ShipmentLockRow \<Rightarrow> ShipmentColumns \<Rightarrow> EvaluationResult \<Rightarrow> TestFireRow" where
  "testFireRow s cols result =
     (let selected = (case rs_outcome result of SELECTED x \<Rightarrow> Some x | _ \<Rightarrow> None)
      in \<lparr>tf_orderId = bs_order_id s, tf_shipmentId = bs_shipment_id s,
          tf_wouldMatchRuleId = rs_matchedRuleId result,
          tf_wouldMatchRuleName = map_option rt_name (List.find (\<lambda>t. rt_status t = MATCHED) (rs_ruleTraces result)),
          tf_selectedServiceId = selected, tf_outcome = rs_outcome result,
          tf_actualServiceId = sh_service_id cols, tf_changed = (selected \<noteq> sh_service_id cols)\<rparr>)"

fun testFireRows ::
  "'e RoutingEnv_scheme \<Rightarrow> string \<Rightarrow> (ShipmentLockRow \<times> ShipmentColumns) list \<Rightarrow> 'a RuleDb_scheme
   \<Rightarrow> (rule_error + TestFireRow list) \<times> 'a RuleDb_scheme" where
  "testFireRows env shopId [] db = (Inr [], db)"
| "testFireRows env shopId ((s, cols) # rest) db =
     bindX (loadForShipment (re_getQuote env) (re_now env) shopId (bs_shipment_id s) db) (\<lambda>loaded db.
     case loaded of
       None \<Rightarrow> testFireRows env shopId rest db
     | Some (_, inp) \<Rightarrow>
         bindX (liftX (evaluate (re_tzOffset env) (re_legacyParse env) inp) db) (\<lambda>result db.
         bindX (testFireRows env shopId rest db) (\<lambda>rows db. (Inr (testFireRow s cols result # rows), db))))"

definition testFire ::
  "'e RoutingEnv_scheme \<Rightarrow> string \<Rightarrow> nat \<Rightarrow> 'a RuleDb_scheme \<Rightarrow> (rule_error + TestFireRow list) \<times> 'a RuleDb_scheme" where
  "testFire env shopId count db =
     testFireRows env shopId (map (\<lambda>s. (s, rdb_columns db (bs_shipment_id s))) (take count (rev
       (filter (\<lambda>s. bs_shop_id s = shopId \<and> \<not> bs_is_test s) (bd_shipments (rdb_booking db)))))) db"

end
