(* ===== verification/Snapshot.thy ===== *)
theory Snapshot
  imports RuleRouting Eligibility
begin

text \<open>
  \<open>src/modules/booking/snapshot.ts\<close> and the snapshot types of \<open>booking.types.ts\<close>: the record frozen
  when a shipment is queued, the merchant reference and the request digest.  Each reader of the
  frozen record sees a part of it: the worker (\<open>FrozenSnapshot\<close>) and freight reconciliation
  (\<open>BookingSnapshot\<close>).
\<close>

section \<open>The frozen record\<close>

record SnapshotLine =
  nl_orderLineId :: string
  nl_shopifyLineGid :: "string option"
  nl_sku :: "string option"
  nl_title :: "string option"
  nl_variant :: "string option"
  nl_quantity :: int
  nl_unitPrice :: "string option"
  nl_tags :: "string list"
  nl_hsnCode :: "string option"

record SnapshotPickupLocation =
  np_pickupLocationId :: string
  np_name :: string
  np_contactName :: "string option"
  np_phone :: "string option"
  np_addressLines :: "string list"
  np_city :: "string option"
  np_state :: "string option"
  np_pincode :: "string option"
  np_gstin :: "string option"

record SnapshotPackageProfile =
  ng_packageProfileId :: string
  ng_lengthCm :: string
  ng_widthCm :: string
  ng_heightCm :: string
  ng_tareKg :: string
  ng_source :: string

record SnapshotWeights =
  nw_deadWeightKg :: string
  nw_lineWeightTotalKg :: string
  nw_usedDefaultParcelWeight :: bool
  nw_tareKg :: string
  nw_perLine :: "DeadWeightLineResult list"
  nw_volumetricWeightKg :: "string option"
  nw_rawChargeableKg :: "string option"
  nw_billableWeightKg :: "string option"

record SnapshotService =
  ns_serviceId :: string
  ns_serviceVersionId :: "string option"
  ns_code :: string
  ns_name :: string
  ns_costSource :: CostSource
  ns_volumetricDivisor :: "string option"
  ns_minBillableKg :: "string option"
  ns_billableIncrementKg :: "string option"

record FrozenQuote =
  nq_costSource :: CostSource
  nq_components :: "PricedComponent list"
  nq_total :: string
  nq_rtoRule :: "RtoRule option"
  nq_eddFrom :: "string option"
  nq_eddTo :: "string option"
  nq_eddSource :: "EddSource option"
  nq_providerQuoteRef :: "string option"
  nq_fetchedAt :: int

record FormulaInputs = SnapshotFormulaInputs +
  fi_shipDate :: int
  fi_zone :: "ZoneCode option"
  fi_billableWeightKg :: "string option"

record FullSnapshot =
  fs_frozenAt :: int
  fs_recipient :: "SnapshotRecipient option"
  fs_lines :: "SnapshotLine list"
  fs_pickupLocation :: "SnapshotPickupLocation option"
  fs_packageProfile :: "SnapshotPackageProfile option"
  fs_paymentMode :: payment_mode
  fs_collectible :: string
  fs_weights :: SnapshotWeights
  fs_service :: SnapshotService
  fs_courierAccountId :: string
  fs_courierAccountMode :: CourierAccountMode
  fs_rateCardVersionId :: "string option"
  fs_zoneMapId :: "string option"
  fs_zone :: "ZoneCode option"
  fs_formulaInputs :: FormulaInputs
  fs_expectedQuote :: "FrozenQuote option"
  fs_shopifyOrderGid :: "string option"
  fs_shopifyLineGids :: "string list"
  fs_fulfillmentOrderGids :: "string list"
  fs_rule :: "(string \<times> int) option"

record BuildSnapshotInput =
  bn_working :: WorkingValues
  bn_pickupLocation :: "SnapshotPickupLocation option"
  bn_packageProfile :: "SnapshotPackageProfile option"
  bn_deadWeightKg :: "string option"
  bn_paymentMode :: payment_mode
  bn_collectible :: string
  bn_declaredValue :: string
  bn_originPincode :: "string option"
  bn_destinationPincode :: "string option"
  bn_shipDate :: int
  bn_service :: SnapshotService
  bn_courierAccountId :: string
  bn_courierAccountMode :: CourierAccountMode
  bn_weights :: "WeightBreakdown option"
  bn_rateCardVersionId :: "string option"
  bn_zoneMapId :: "string option"
  bn_zone :: "ZoneCode option"
  bn_quote :: "QuoteResponse option"
  bn_shopifyOrderGid :: "string option"
  bn_frozenAt :: int

section \<open>Assembly\<close>

definition toSnapshotQuote :: "CostSource \<Rightarrow> QuoteResponse \<Rightarrow> FrozenQuote" where
  "toSnapshotQuote costSource q = \<lparr>nq_costSource = costSource, nq_components = qr_components q,
     nq_total = qr_total q, nq_rtoRule = qr_rtoRule q, nq_eddFrom = qr_eddFrom q, nq_eddTo = qr_eddTo q,
     nq_eddSource = qr_eddSource q, nq_providerQuoteRef = qr_providerQuoteRef q,
     nq_fetchedAt = qr_fetchedAt q\<rparr>"

definition snapshotLine :: "WorkingLine \<Rightarrow> SnapshotLine" where
  "snapshotLine l = \<lparr>nl_orderLineId = wl_orderLineId l, nl_shopifyLineGid = wl_shopifyLineGid l,
     nl_sku = wl_sku l, nl_title = wl_title l, nl_variant = wl_variant l, nl_quantity = wl_quantity l,
     nl_unitPrice = wl_unitPrice l, nl_tags = wl_tags l, nl_hsnCode = wl_hsnCode l\<rparr>"

definition snapshotWeights :: "BuildSnapshotInput \<Rightarrow> SnapshotWeights" where
  "snapshotWeights inp =
     (let block = wv_weight (bn_working inp)
      in \<lparr>nw_deadWeightKg = valueOr (bn_deadWeightKg inp) ''0.000'',
          nw_lineWeightTotalKg = valueOr (map_option dw_lineWeightTotalKg block) ''0.000'',
          nw_usedDefaultParcelWeight = valueOr (map_option dw_usedDefaultParcelWeight block) False,
          nw_tareKg = valueOr (map_option ng_tareKg (bn_packageProfile inp))
             (valueOr (map_option dw_tareKg block) ''0.000''),
          nw_perLine = valueOr (map_option dw_lines block) [],
          nw_volumetricWeightKg = map_option wb_volumetricWeightKg (bn_weights inp),
          nw_rawChargeableKg = map_option wb_rawChargeableKg (bn_weights inp),
          nw_billableWeightKg = map_option wb_billableWeightKg (bn_weights inp)\<rparr>)"

definition formulaInputs :: "BuildSnapshotInput \<Rightarrow> FormulaInputs" where
  "formulaInputs inp = \<lparr>fi_originPincode = valueOr (bn_originPincode inp) [],
     fi_destinationPincode = valueOr (bn_destinationPincode inp) [],
     fi_deadWeightKg = nw_deadWeightKg (snapshotWeights inp),
     fi_lengthCm = valueOr (map_option ng_lengthCm (bn_packageProfile inp)) ''0.00'',
     fi_widthCm = valueOr (map_option ng_widthCm (bn_packageProfile inp)) ''0.00'',
     fi_heightCm = valueOr (map_option ng_heightCm (bn_packageProfile inp)) ''0.00'',
     fi_paymentMode = bn_paymentMode inp, fi_collectible = bn_collectible inp,
     fi_declaredValue = bn_declaredValue inp, fi_shipDate = bn_shipDate inp, fi_zone = bn_zone inp,
     fi_billableWeightKg = map_option wb_billableWeightKg (bn_weights inp)\<rparr>"

definition buildBookingSnapshot :: "BuildSnapshotInput \<Rightarrow> FullSnapshot" where
  "buildBookingSnapshot inp =
     (let working = bn_working inp; lines = map snapshotLine (wv_lines working)
      in \<lparr>fs_frozenAt = bn_frozenAt inp, fs_recipient = wv_recipient working, fs_lines = lines,
          fs_pickupLocation = bn_pickupLocation inp, fs_packageProfile = bn_packageProfile inp,
          fs_paymentMode = bn_paymentMode inp, fs_collectible = bn_collectible inp,
          fs_weights = snapshotWeights inp, fs_service = bn_service inp,
          fs_courierAccountId = bn_courierAccountId inp, fs_courierAccountMode = bn_courierAccountMode inp,
          fs_rateCardVersionId = bn_rateCardVersionId inp, fs_zoneMapId = bn_zoneMapId inp,
          fs_zone = bn_zone inp, fs_formulaInputs = formulaInputs inp,
          fs_expectedQuote = map_option (toSnapshotQuote (ns_costSource (bn_service inp))) (bn_quote inp),
          fs_shopifyOrderGid = bn_shopifyOrderGid inp,
          fs_shopifyLineGids = List.map_filter nl_shopifyLineGid lines,
          fs_fulfillmentOrderGids = wv_fulfillmentOrderGids working,
          fs_rule = (case wv_routing working of None \<Rightarrow> None
            | Some r \<Rightarrow> (case (wr_ruleId r, wr_ruleVersion r) of
                (Some i, Some v) \<Rightarrow> Some (i, v) | _ \<Rightarrow> None))\<rparr>)"

section \<open>What the readers see\<close>

text \<open>The fields the booking worker reads.\<close>

definition workerView :: "FullSnapshot \<Rightarrow> FrozenSnapshot" where
  "workerView s = \<lparr>fz_serviceId = ns_serviceId (fs_service s),
     fz_formulaInputs = SnapshotFormulaInputs.truncate (fs_formulaInputs s), fz_recipient = fs_recipient s,
     fz_pickupLocationId = map_option np_pickupLocationId (fs_pickupLocation s)\<rparr>"

text \<open>The fields freight reconciliation reads.\<close>

definition reconView :: "FullSnapshot \<Rightarrow> BookingSnapshot" where
  "reconView s = BookingSnapshot.make (fs_zone s) (fs_rateCardVersionId s) (fs_paymentMode s)
     (fs_collectible s) (nw_billableWeightKg (fs_weights s)) (fi_declaredValue (fs_formulaInputs s))
     (map_option (\<lambda>q. \<lparr>sq_total = nq_total q, sq_components = nq_components q, sq_rtoRule = nq_rtoRule q\<rparr>)
        (fs_expectedQuote s))"

section \<open>Reference, digest and tare\<close>

definition buildMerchantReference :: "string \<Rightarrow> string \<Rightarrow> int \<Rightarrow> string" where
  "buildMerchantReference shopId shipmentId attemptNumber =
     (let base = take 8 shopId @ ''-'' @ shipmentId
      in if attemptNumber \<le> 1 then base else base @ ''-'' @ show_int attemptNumber)"

definition paymentModeText :: "payment_mode \<Rightarrow> string" where
  "paymentModeText m = (case m of PREPAID \<Rightarrow> ''PREPAID'' | COD \<Rightarrow> ''COD'' | UNRESOLVED \<Rightarrow> ''UNRESOLVED'')"

text \<open>\<open>JSON.stringify\<close> of a text: quotes, backslashes and control characters are escaped.\<close>

definition hexDigit :: "nat \<Rightarrow> char" where
  "hexDigit d = (if d < 10 then digit_char d else char_of (87 + d))"

definition jsonChar :: "char \<Rightarrow> string" where
  "jsonChar c = (let n = (of_char c :: nat); bs = char_of (92 :: nat) in
     if n = 34 \<or> n = 92 then [bs, c]
     else if n = 8 then [bs, CHR ''b''] else if n = 9 then [bs, CHR ''t'']
     else if n = 10 then [bs, CHR ''n''] else if n = 12 then [bs, CHR ''f'']
     else if n = 13 then [bs, CHR ''r'']
     else if n < 32 then [bs, CHR ''u'', CHR ''0'', CHR ''0'', hexDigit (n div 16), hexDigit (n mod 16)]
     else [c])"

definition jsonText :: "string \<Rightarrow> string" where
  "jsonText s = (let q = char_of (34 :: nat) in q # concat (map jsonChar s) @ [q])"

definition jsonObject :: "(string \<times> string) list \<Rightarrow> string" where
  "jsonObject pairs = ''{'' @ joinStr '','' (map (\<lambda>(k, v). jsonText k @ '':'' @ jsonText v) pairs) @ ''}''"

record DigestFields =
  di_merchantReference :: string
  di_shipmentId :: string
  di_serviceId :: string
  di_courierAccountId :: string
  di_formula :: SnapshotFormulaInputs

text \<open>The canonical text: the fields in the order of their sorted names.\<close>

definition digestCanonical :: "DigestFields \<Rightarrow> string" where
  "digestCanonical f = (let i = di_formula f in jsonObject
     [(''collectible'', fi_collectible i), (''courierAccountId'', di_courierAccountId f),
      (''deadWeightKg'', fi_deadWeightKg i), (''declaredValue'', fi_declaredValue i),
      (''destinationPincode'', fi_destinationPincode i), (''heightCm'', fi_heightCm i),
      (''lengthCm'', fi_lengthCm i), (''merchantReference'', di_merchantReference f),
      (''originPincode'', fi_originPincode i), (''paymentMode'', paymentModeText (fi_paymentMode i)),
      (''serviceId'', di_serviceId f), (''shipmentId'', di_shipmentId f), (''widthCm'', fi_widthCm i)])"

definition buildRequestDigest :: "(string \<Rightarrow> string) \<Rightarrow> DigestFields \<Rightarrow> string" where
  "buildRequestDigest sha256 f = sha256 (digestCanonical f)"

definition deadWeightWithTare :: "string \<Rightarrow> string \<Rightarrow> string \<Rightarrow> js_error + string" where
  "deadWeightWithTare deadWeightKg oldTareKg newTareKg =
     bindR (kgToGrams deadWeightKg) (\<lambda>dead.
     bindR (kgToGrams oldTareKg) (\<lambda>old.
     (let content = dead - old in
      bindR (kgToGrams newTareKg) (\<lambda>new. Inr (gramsToKg (content + new))))))"

section \<open>References of attempts\<close>

text \<open>Attempts of shipments whose ids have one length have distinct references.\<close>

lemma show_int_inj: "show_int a = show_int b \<Longrightarrow> 0 \<le> a \<Longrightarrow> 0 \<le> b \<Longrightarrow> a = b"
proof -
  assume a: "show_int a = show_int b" "0 \<le> a" "0 \<le> b"
  then have "dec_val (show_nat (nat a)) = dec_val (show_nat (nat b))" by (simp add: show_int_def)
  with a(2,3) show ?thesis by simp
qed

lemma buildMerchantReference_inj:
  assumes "buildMerchantReference shop s m = buildMerchantReference shop' s' n"
    and "length s = length s'" "8 \<le> length shop" "8 \<le> length shop'" "1 \<le> m" "1 \<le> n"
  shows "take 8 shop = take 8 shop' \<and> s = s' \<and> m = n"
proof -
  let ?tail = "\<lambda>k. if k \<le> (1::int) then [] else ''-'' @ show_int k"
  have eq: "take 8 shop @ ''-'' @ s @ ?tail m = take 8 shop' @ ''-'' @ s' @ ?tail n"
    using assms(1) by (simp add: buildMerchantReference_def Let_def split: if_splits)
  then have "take 8 shop = take 8 shop'" "s @ ?tail m = s' @ ?tail n" using assms(3,4) by simp_all
  moreover from this(2) assms(2) have "s = s'" "?tail m = ?tail n" by simp_all
  moreover from this(2) assms(5,6) show_int_inj [of m n] have "m = n"
    by (auto split: if_splits)
  ultimately show ?thesis by simp
qed

end
