(* ===== verification/QueueBooking.thy ===== *)
theory QueueBooking
  imports Snapshot
begin

text \<open>
  \<open>src/modules/booking/booking.service.ts\<close>: the transition DRAFT to QUEUED.  The rules run first,
  in a transaction of their own; then, in one transaction on the locked shipment and order, the
  guards, the selection of a Service, INV-7, the entitlement, the expected quote, and the writes:
  intent, seals, the row with its frozen snapshot, the quote.  After the COMMIT come the audit
  record and the job.  The gap between the two transactions is the parameter \<open>qe_gap\<close>.
\<close>

section \<open>Tables\<close>

record PackageProfileRow =
  pq_package_profile_id :: string
  pq_shop_id :: string
  pq_length_cm :: string
  pq_width_cm :: string
  pq_height_cm :: string
  pq_tare_kg :: string

text \<open>The columns of \<open>subscription\<close> and its plan beside those of \<open>Booking\<close>.\<close>

record SubscriptionTerms =
  st_capped_amount :: "string option"
  st_awb_allowance_per_cycle :: int

record QueueDb = RoutingDb +
  qdb_account_states :: "(string \<times> AccountState) list"
  qdb_profiles :: "PackageProfileRow list"
  qdb_terms :: "(string \<times> SubscriptionTerms) list"
  qdb_snapshots :: "string \<Rightarrow> FullSnapshot option"
  qdb_jobs :: "BookingJobData list"

record QueueEnv = RoutingEnv +
  qe_sha256 :: "string \<Rightarrow> string"
  qe_intentId :: "nat \<Rightarrow> string"
  qe_gap :: "QueueDb \<Rightarrow> QueueDb"

record QueueBookingInput =
  qi_shopId :: string
  qi_shipmentId :: string
  qi_actorId :: "string option"
  qi_serviceId :: "string option"
  qi_packageProfileId :: "string option"
  qi_expectedVersion :: "int option"

datatype QueueFailure =
    QF_SHIPMENT_NOT_FOUND
  | QF_INVALID_STATE BookingState
  | QF_VERSION_CONFLICT BookingState int
  | QF_ACCOUNT_STATE_BLOCKED BookingState
  | QF_NO_BOOKABLE_SERVICE ManualAssignmentReason
  | QF_INV_7_BLOCKS "EligibilityCheck list" "string list"
  | QF_ENTITLEMENT_INSUFFICIENT "(int \<times> int) option"

record QueuedBooking =
  qb_bookingIntentId :: string
  qb_merchantReference :: string
  qb_attemptNumber :: int
  qb_expectedCostBasis :: "ExpectedCostBasis option"
  qb_collectible :: string

datatype QueueBookingResult = Queued QueuedBooking | NotQueued QueueFailure

datatype queue_error =
    RoutingThrew routing_error
  | QueueThrew js_error
  | QuoteThrew quote_error
  | ReferenceTaken
  | QueueGuardRaised
  | QueueRowsAffected nat
  | QueueAuditFailed
  | EnqueueFailed

section \<open>Selection of a Service\<close>

record SelectionRow =
  sel_merchant_service_id :: string
  sel_courier_account_id :: string
  sel_service_id :: string
  sel_enabled :: bool
  sel_service_code :: string
  sel_service_name :: string
  sel_cost_source :: CostSource
  sel_service_active :: bool
  sel_account_mode :: CourierAccountMode
  sel_account_disabled :: bool
  sel_has_test_credentials :: bool
  sel_has_live_credentials :: bool

definition selectionRow :: "'a RuleDb_scheme \<Rightarrow> MerchantServiceRow \<Rightarrow> SelectionRow option" where
  "selectionRow db m = Option.bind (joinedService db m) (\<lambda>(m, s, a).
     map_option (\<lambda>acc. \<lparr>sel_merchant_service_id = ms_merchant_service_id m,
         sel_courier_account_id = ms_courier_account_id m, sel_service_id = ms_service_id m,
         sel_enabled = ms_enabled m, sel_service_code = sc_code s, sel_service_name = sc_name s,
         sel_cost_source = sc_cost_source s, sel_service_active = sc_is_active s,
         sel_account_mode = ar_mode acc, sel_account_disabled = ac_disabled a,
         sel_has_test_credentials = ac_has_test_credentials a,
         sel_has_live_credentials = ac_has_live_credentials a\<rparr>)
       (List.find (\<lambda>acc. ar_courier_account_id acc = ms_courier_account_id m) (bd_accounts (rdb_booking db))))"

definition selectionRows :: "'a RuleDb_scheme \<Rightarrow> string \<Rightarrow> (MerchantServiceRow \<Rightarrow> bool) \<Rightarrow> SelectionRow list" where
  "selectionRows db shopId P =
     List.map_filter (selectionRow db) (filter (\<lambda>m. ms_shop_id m = shopId \<and> P m) (rdb_merchant_services db))"

text \<open>The \<open>for\<close> loop over the chain.\<close>

definition chainPick :: "SelectionRow list \<Rightarrow> string list \<Rightarrow> SelectionRow option" where
  "chainPick rows chain =
     (let byId = map_from (map (\<lambda>r. (sel_merchant_service_id r, r)) rows);
          hits = List.map_filter (\<lambda>i. Option.bind (map_of byId i) (\<lambda>r.
            if sel_enabled r \<and> sel_service_active r \<and> \<not> sel_account_disabled r then Some r else None)) chain
      in case hits of [] \<Rightarrow> None | r # _ \<Rightarrow> Some r)"

text \<open>\<open>override ?? stored\<close>, when it is not the empty text.\<close>

definition explicitService :: "string option \<Rightarrow> string option \<Rightarrow> string option" where
  "explicitService override stored =
     (case (case override of Some s \<Rightarrow> Some s | None \<Rightarrow> stored) of
        Some s \<Rightarrow> if s = [] then None else Some s
      | None \<Rightarrow> None)"

definition resolveSelection ::
  "'a RuleDb_scheme \<Rightarrow> string \<Rightarrow> string option \<Rightarrow> string option \<Rightarrow> SelectionRow option \<times> bool" where
  "resolveSelection db shopId stored override =
     (case explicitService override stored of
        Some e \<Rightarrow> (case selectionRows db shopId (\<lambda>m. ms_service_id m = e) of
            [] \<Rightarrow> (None, False) | r # _ \<Rightarrow> (Some r, False))
      | None \<Rightarrow>
          (let chain = chainOf db shopId
           in case chainPick (selectionRows db shopId (\<lambda>m. ms_merchant_service_id m \<in> set chain)) chain of
                None \<Rightarrow> (None, True) | Some r \<Rightarrow> (Some r, False)))"

section \<open>What is booked\<close>

text \<open>The facts the guards, the quote and the snapshot are computed from.\<close>

record BookingFacts =
  bf_shipment :: ShipmentLockRow
  bf_columns :: ShipmentColumns
  bf_order :: "OrderRow option"
  bf_selection :: SelectionRow
  bf_packageProfile :: "SnapshotPackageProfile option"
  bf_deadWeightKg :: "string option"
  bf_serviceVersion :: "ServiceVersionRow option"
  bf_pickup :: "PickupRow option"
  bf_paymentMode :: payment_mode
  bf_collectible :: string
  bf_shipDate :: int

definition bf_working :: "BookingFacts \<Rightarrow> WorkingValues option" where
  "bf_working f = sh_working_values (bf_columns f)"

definition bf_originPincode :: "BookingFacts \<Rightarrow> string option" where
  "bf_originPincode f = Option.bind (bf_pickup f) pk_pincode"

definition bf_destinationPincode :: "BookingFacts \<Rightarrow> string option" where
  "bf_destinationPincode f = destinationOf (bf_working f)"

definition bf_declaredValue :: "BookingFacts \<Rightarrow> string" where
  "bf_declaredValue f = valueOr (Option.bind (bf_order f) or_order_amount) ''0.00''"

definition profileOverride :: "'a QueueDb_scheme \<Rightarrow> QueueBookingInput \<Rightarrow> PackageProfileRow option" where
  "profileOverride db inp = (case qi_packageProfileId inp of None \<Rightarrow> None
     | Some i \<Rightarrow> if i = [] then None
         else List.find (\<lambda>p. pq_shop_id p = qi_shopId inp \<and> pq_package_profile_id p = i) (qdb_profiles db))"

definition chosenProfile :: "PackageProfileRow option \<Rightarrow> WorkingValues option \<Rightarrow> SnapshotPackageProfile option" where
  "chosenProfile row working =
     (case row of
        Some p \<Rightarrow> Some \<lparr>ng_packageProfileId = pq_package_profile_id p, ng_lengthCm = pq_length_cm p,
            ng_widthCm = pq_width_cm p, ng_heightCm = pq_height_cm p, ng_tareKg = pq_tare_kg p,
            ng_source = ''MEMBER_OVERRIDE''\<rparr>
      | None \<Rightarrow> map_option (\<lambda>p. \<lparr>ng_packageProfileId = wp_packageProfileId p, ng_lengthCm = wp_lengthCm p,
            ng_widthCm = wp_widthCm p, ng_heightCm = wp_heightCm p, ng_tareKg = wp_tareKg p,
            ng_source = wp_source p\<rparr>) (Option.bind working wv_packageProfile))"

definition chosenWeight :: "PackageProfileRow option \<Rightarrow> WorkingValues option \<Rightarrow> js_error + string option" where
  "chosenWeight row working =
     (case Option.bind working wv_weight of
        None \<Rightarrow> Inr None
      | Some block \<Rightarrow> (case row of
          None \<Rightarrow> Inr (Some (dw_deadWeightKg block))
        | Some p \<Rightarrow> bindR (deadWeightWithTare (dw_deadWeightKg block) (dw_tareKg block) (pq_tare_kg p))
            (\<lambda>kg. Inr (Some kg))))"

text \<open>INV-9 under the order lock: the whole of F-15 while no sibling carries it, else nothing.\<close>

definition siblingCarries :: "BookingDb \<Rightarrow> string \<Rightarrow> string \<Rightarrow> string \<Rightarrow> bool" where
  "siblingCarries bdb shopId orderId shipmentId \<longleftrightarrow> list_ex (\<lambda>s. bs_shop_id s = shopId
     \<and> bs_order_id s = orderId \<and> bs_shipment_id s \<noteq> shipmentId \<and> carriesCollectible s) (bd_shipments bdb)"

definition claimedCollectible :: "BookingDb \<Rightarrow> ShipmentLockRow \<Rightarrow> payment_mode \<Rightarrow> OrderRow option \<Rightarrow> string" where
  "claimedCollectible bdb s mode order =
     (if mode = COD \<and> \<not> siblingCarries bdb (bs_shop_id s) (bs_order_id s) (bs_shipment_id s)
      then (case Option.bind order or_cod_outstanding of
          None \<Rightarrow> ''0.00'' | Some c \<Rightarrow> if c = [] then ''0.00'' else c)
      else ''0.00'')"

definition gatherFacts ::
  "int \<Rightarrow> 'a QueueDb_scheme \<Rightarrow> QueueBookingInput \<Rightarrow> ShipmentLockRow \<Rightarrow> SelectionRow \<Rightarrow> js_error + BookingFacts" where
  "gatherFacts now db inp s sel =
     (let cols = rdb_columns db (bs_shipment_id s);
          order = orderById db (qi_shopId inp) (bs_order_id s);
          working = sh_working_values cols;
          row = profileOverride db inp;
          mode = paymentModeOf working order
      in bindR (chosenWeight row working) (\<lambda>deadWeightKg.
         Inr \<lparr>bf_shipment = s, bf_columns = cols, bf_order = order, bf_selection = sel,
           bf_packageProfile = chosenProfile row working, bf_deadWeightKg = deadWeightKg,
           bf_serviceVersion = currentServiceVersion db (sel_service_id sel) (now div 86400000),
           bf_pickup = pickupById db (qi_shopId inp) (sh_pickup_location_id cols), bf_paymentMode = mode,
           bf_collectible = claimedCollectible (rdb_booking db) s mode order,
           bf_shipDate = now div 86400000\<rparr>))"

section \<open>Guards\<close>

definition eligibilityInput :: "BookingFacts \<Rightarrow> EligibilityInput" where
  "eligibilityInput f = \<lparr>ei_recipient = map_option (\<lambda>r. \<lparr>er_name = sr_name r, er_addressLines = sr_addressLines r,
        er_pincode = sr_pincode r, er_phone = sr_phone r\<rparr>) (Option.bind (bf_working f) wv_recipient),
     ei_allocatedLineCount = int (length (filter (\<lambda>l. wl_quantity l > 0)
        (case bf_working f of None \<Rightarrow> [] | Some w \<Rightarrow> wv_lines w))),
     ei_deadWeightKg = bf_deadWeightKg f,
     ei_dimensionsCm = map_option (\<lambda>p. \<lparr>dim_lengthCm = ng_lengthCm p, dim_widthCm = ng_widthCm p,
        dim_heightCm = ng_heightCm p\<rparr>) (bf_packageProfile f),
     ei_pickupLocationId = sh_pickup_location_id (bf_columns f), ei_paymentMode = bf_paymentMode f,
     ei_collectible = Some (bf_collectible f)\<rparr>"

definition hardBlocks :: "'a QueueDb_scheme \<Rightarrow> string \<Rightarrow> BookingFacts \<Rightarrow> js_error + EligibilityCheck list" where
  "hardBlocks db shopId f =
     (let sel = bf_selection f;
          bookable = (sel_enabled sel \<and> sel_service_active sel \<and> \<not> sel_account_disabled sel
            \<and> isBookable db shopId (sel_courier_account_id sel) (sel_service_id sel));
          credentialsPresent = (if sel_account_mode sel = MODE_TEST then sel_has_test_credentials sel
            else sel_has_live_credentials sel)
      in bindR (evaluateEligibility (eligibilityInput f)) (\<lambda>e.
         Inr (eres_failures e @ failing (\<not> bookable) SERVICE_SERVICEABLE
           @ failing (\<not> credentialsPresent \<or> sel_account_disabled sel) COURIER_CREDENTIALS)))"

text \<open>Section 9.5.6: none when the entitlement lets the booking pass.\<close>

definition entitlementBlock :: "'a QueueDb_scheme \<Rightarrow> string \<Rightarrow> js_error + QueueFailure option" where
  "entitlementBlock db shopId =
     (case activeCycle (rdb_booking db) shopId of
        None \<Rightarrow> Inr (Some (QF_ENTITLEMENT_INSUFFICIENT None))
      | Some (sub, cycle) \<Rightarrow> (case map_of (qdb_terms db) sub of
          None \<Rightarrow> Inr (Some (QF_ENTITLEMENT_INSUFFICIENT None))
        | Some terms \<Rightarrow>
            (let consumed = al_consumed (allowanceBalance (bd_ledger (rdb_booking db)) sub cycle);
                 allowance = st_awb_allowance_per_cycle terms;
                 verdict = (\<lambda>overage. if allowance - consumed \<le> 0 \<and> \<not> overage
                   then Some (QF_ENTITLEMENT_INSUFFICIENT (Some (allowance, consumed))) else None)
             in case st_capped_amount terms of
                  None \<Rightarrow> Inr (verdict False)
                | Some c \<Rightarrow> bindR (rupeesToPaise c) (\<lambda>p. Inr (verdict (p > 0))))))"

section \<open>The expected quote\<close>

record ExpectedPrice =
  xp_weights :: "WeightBreakdown option"
  xp_quote :: "QuoteResponse option"
  xp_rateCardVersionId :: "string option"
  xp_zoneMapId :: "string option"
  xp_zone :: "ZoneCode option"

definition bookingWeights :: "BookingFacts \<Rightarrow> js_error + WeightBreakdown option" where
  "bookingWeights f =
     (case (bf_deadWeightKg f, bf_packageProfile f) of
        (Some kg, Some p) \<Rightarrow> computeWeights \<lparr>wt_deadWeightKg = kg, wt_lengthCm = ng_lengthCm p,
            wt_widthCm = ng_widthCm p, wt_heightCm = ng_heightCm p,
            wt_divisor = Option.bind (bf_serviceVersion f) sv_volumetric_divisor,
            wt_minBillableKg = Option.bind (bf_serviceVersion f) sv_min_billable_kg,
            wt_incrementKg = Option.bind (bf_serviceVersion f) sv_billable_increment_kg\<rparr>
      | _ \<Rightarrow> Inr None)"

definition profileText :: "(SnapshotPackageProfile \<Rightarrow> string) \<Rightarrow> BookingFacts \<Rightarrow> string" where
  "profileText side f = valueOr (map_option side (bf_packageProfile f)) ''0.00''"

definition estimateInput :: "string \<Rightarrow> BookingFacts \<Rightarrow> EstimateCostInput" where
  "estimateInput shopId f = \<lparr>ec_shopId = shopId, ec_serviceId = sel_service_id (bf_selection f),
     ec_destinationPincode = valueOr (bf_destinationPincode f) [],
     ec_deadWeightKg = valueOr (bf_deadWeightKg f) ''0.000'', ec_lengthCm = profileText ng_lengthCm f,
     ec_widthCm = profileText ng_widthCm f, ec_heightCm = profileText ng_heightCm f,
     ec_paymentMode = bf_paymentMode f, ec_collectible = bf_collectible f,
     ec_declaredValue = bf_declaredValue f, ec_shipDate = bf_shipDate f\<rparr>"

definition quoteRequest :: "BookingFacts \<Rightarrow> QuoteRequest" where
  "quoteRequest f = \<lparr>qq_courierAccountId = sel_courier_account_id (bf_selection f),
     qq_serviceId = sel_service_id (bf_selection f), qq_originPincode = valueOr (bf_originPincode f) [],
     qq_destinationPincode = valueOr (bf_destinationPincode f) [], qq_shipDate = bf_shipDate f,
     qq_deadWeightKg = valueOr (bf_deadWeightKg f) ''0.000'', qq_lengthCm = profileText ng_lengthCm f,
     qq_widthCm = profileText ng_widthCm f, qq_heightCm = profileText ng_heightCm f,
     qq_paymentMode = bf_paymentMode f, qq_collectible = bf_collectible f,
     qq_declaredValue = bf_declaredValue f,
     qq_pickupLocationId = valueOr (sh_pickup_location_id (bf_columns f)) []\<rparr>"

definition liftQ :: "js_error + 'a \<Rightarrow> 's \<Rightarrow> (queue_error + 'a) \<times> 's" where
  "liftQ r s = (case r of Inl e \<Rightarrow> (Inl (QueueThrew e), s) | Inr a \<Rightarrow> (Inr a, s))"

definition expectedPrice ::
  "quote_call \<Rightarrow> int \<Rightarrow> string \<Rightarrow> BookingFacts \<Rightarrow> 'a QueueDb_scheme
   \<Rightarrow> (queue_error + ExpectedPrice) \<times> 'a QueueDb_scheme" where
  "expectedPrice getQuote now shopId f db =
     bindX (liftQ (bookingWeights f) db) (\<lambda>weights db.
     case sel_cost_source (bf_selection f) of
       RATE_CARD \<Rightarrow> bindX (liftQ (estimateCost now db (estimateInput shopId f)) db) (\<lambda>est db.
         (Inr \<lparr>xp_weights = weights, xp_quote = Some (es_quote est),
            xp_rateCardVersionId = es_rateCardVersionId est, xp_zoneMapId = es_zoneMapId est,
            xp_zone = (if truthy (es_zoneMapId est) \<and> truthy (bf_originPincode f) \<and> truthy (bf_destinationPincode f)
              then resolveLaneZone db shopId (the (es_zoneMapId est)) (the (bf_originPincode f))
                     (the (bf_destinationPincode f))
              else None)\<rparr>, db))
     | LIVE_QUOTE \<Rightarrow>
         (case getLiveQuote getQuote now shopId (sel_courier_account_id (bf_selection f)) (quoteRequest f)
                 (map_option wb_billableWeightKg weights) db of
            (Inl e, db) \<Rightarrow> (Inl (QuoteThrew e), db)
          | (Inr q, db) \<Rightarrow> (Inr \<lparr>xp_weights = weights, xp_quote = Some q, xp_rateCardVersionId = None,
              xp_zoneMapId = None, xp_zone = None\<rparr>, db))
     | NONE_SOURCE \<Rightarrow> (Inr \<lparr>xp_weights = weights, xp_quote = None, xp_rateCardVersionId = None,
         xp_zoneMapId = None, xp_zone = None\<rparr>, db))"

definition expectedCostBasis :: "QuoteResponse option \<Rightarrow> ExpectedCostBasis option" where
  "expectedCostBasis quote = (case quote of None \<Rightarrow> None
     | Some q \<Rightarrow> if qr_serviceable q \<and> qr_rateAvailable q then Some SNAPSHOT_QUOTE else None)"

section \<open>Writes\<close>

definition snapshotInput :: "int \<Rightarrow> BookingFacts \<Rightarrow> ExpectedPrice \<Rightarrow> BuildSnapshotInput" where
  "snapshotInput now f price =
     (let sel = bf_selection f; sv = bf_serviceVersion f
      in \<lparr>bn_working = valueOr (bf_working f) emptyWorking,
          bn_pickupLocation = map_option (\<lambda>p. \<lparr>np_pickupLocationId = pk_pickup_location_id p,
             np_name = pk_name p, np_contactName = pk_contact_name p, np_phone = pk_phone p,
             np_addressLines = pk_address_lines p, np_city = pk_city p, np_state = pk_state p,
             np_pincode = pk_pincode p, np_gstin = pk_gstin p\<rparr>) (bf_pickup f),
          bn_packageProfile = bf_packageProfile f, bn_deadWeightKg = bf_deadWeightKg f,
          bn_paymentMode = bf_paymentMode f, bn_collectible = bf_collectible f,
          bn_declaredValue = bf_declaredValue f, bn_originPincode = bf_originPincode f,
          bn_destinationPincode = bf_destinationPincode f, bn_shipDate = bf_shipDate f,
          bn_service = \<lparr>ns_serviceId = sel_service_id sel,
             ns_serviceVersionId = map_option sv_service_version_id sv, ns_code = sel_service_code sel,
             ns_name = sel_service_name sel, ns_costSource = sel_cost_source sel,
             ns_volumetricDivisor = Option.bind sv sv_volumetric_divisor,
             ns_minBillableKg = Option.bind sv sv_min_billable_kg,
             ns_billableIncrementKg = Option.bind sv sv_billable_increment_kg\<rparr>,
          bn_courierAccountId = sel_courier_account_id sel, bn_courierAccountMode = sel_account_mode sel,
          bn_weights = xp_weights price, bn_rateCardVersionId = xp_rateCardVersionId price,
          bn_zoneMapId = xp_zoneMapId price, bn_zone = xp_zone price, bn_quote = xp_quote price,
          bn_shopifyOrderGid = Option.bind (bf_order f) or_shopify_order_gid, bn_frozenAt = now\<rparr>)"

definition frozenSnapshot :: "int \<Rightarrow> BookingFacts \<Rightarrow> ExpectedPrice \<Rightarrow> FullSnapshot" where
  "frozenSnapshot now f price = buildBookingSnapshot (snapshotInput now f price)"

definition attemptOf :: "BookingDb \<Rightarrow> string \<Rightarrow> int" where
  "attemptOf bdb shipmentId = int (length (filter (\<lambda>i. bi_shipment_id i = shipmentId) (bd_intents bdb))) + 1"

definition referenceOf :: "QueueBookingInput \<Rightarrow> BookingDb \<Rightarrow> string" where
  "referenceOf inp bdb = buildMerchantReference (qi_shopId inp) (qi_shipmentId inp) (attemptOf bdb (qi_shipmentId inp))"

definition digestOf :: "QueueEnv \<Rightarrow> QueueBookingInput \<Rightarrow> string \<Rightarrow> BookingFacts \<Rightarrow> string" where
  "digestOf env inp reference f = buildRequestDigest (qe_sha256 env) \<lparr>di_merchantReference = reference,
     di_shipmentId = qi_shipmentId inp, di_serviceId = sel_service_id (bf_selection f),
     di_courierAccountId = sel_courier_account_id (bf_selection f),
     di_formula = \<lparr>fi_originPincode = valueOr (bf_originPincode f) [],
       fi_destinationPincode = valueOr (bf_destinationPincode f) [],
       fi_deadWeightKg = valueOr (bf_deadWeightKg f) ''0.000'', fi_lengthCm = profileText ng_lengthCm f,
       fi_widthCm = profileText ng_widthCm f, fi_heightCm = profileText ng_heightCm f,
       fi_paymentMode = bf_paymentMode f, fi_collectible = bf_collectible f,
       fi_declaredValue = bf_declaredValue f\<rparr>\<rparr>"

definition newIntent :: "QueueEnv \<Rightarrow> QueueBookingInput \<Rightarrow> BookingFacts \<Rightarrow> BookingDb \<Rightarrow> IntentRow" where
  "newIntent env inp f bdb = \<lparr>bi_booking_intent_id = qe_intentId env (length (bd_intents bdb)),
     bi_shipment_id = qi_shipmentId inp, bi_outcome = IO_IN_FLIGHT,
     bi_merchant_reference = referenceOf inp bdb,
     bi_request_digest = digestOf env inp (referenceOf inp bdb) f, bi_resolved_by = None\<rparr>"

text \<open>INV-11: every version the snapshot refers to is sealed, once.\<close>

definition sealServiceVersion :: "string option \<Rightarrow> 'a QueueDb_scheme \<Rightarrow> 'a QueueDb_scheme" where
  "sealServiceVersion i db = (case i of None \<Rightarrow> db | Some v \<Rightarrow> db\<lparr>rdb_service_versions :=
     map (\<lambda>r. if sv_service_version_id r = v \<and> \<not> sv_is_sealed r then r\<lparr>sv_is_sealed := True\<rparr> else r)
       (rdb_service_versions db)\<rparr>)"

definition sealRateCardVersion :: "string \<Rightarrow> string option \<Rightarrow> 'a QueueDb_scheme \<Rightarrow> 'a QueueDb_scheme" where
  "sealRateCardVersion shopId i db = (if truthy i then db\<lparr>rdb_versions :=
     map (\<lambda>r. if Some (rv_rate_card_version_id r) = i \<and> \<not> rv_is_sealed r
            \<and> list_ex (\<lambda>c. rk_rate_card_id c = rv_rate_card_id r \<and> rk_shop_id c = shopId) (rdb_cards db)
          then r\<lparr>rv_is_sealed := True, rv_version := rv_version r + 1\<rparr> else r) (rdb_versions db)\<rparr>
     else db)"

definition sealZoneMap :: "string \<Rightarrow> string option \<Rightarrow> 'a QueueDb_scheme \<Rightarrow> 'a QueueDb_scheme" where
  "sealZoneMap shopId i db = (if truthy i then db\<lparr>rdb_zone_maps :=
     map (\<lambda>m. if Some (zm_zone_map_id m) = i \<and> zm_shop_id m = shopId \<and> \<not> zm_is_sealed m
          then m\<lparr>zm_is_sealed := True, zm_version := zm_version m + 1\<rparr> else m) (rdb_zone_maps db)\<rparr>
     else db)"

definition queuedRow ::
  "BookingFacts \<Rightarrow> int \<Rightarrow> ExpectedCostBasis option \<Rightarrow> FullSnapshot \<Rightarrow> ShipmentLockRow \<Rightarrow> ShipmentLockRow" where
  "queuedRow f paise basis snapshot s = s\<lparr>bs_booking_state := QUEUED,
     bs_courier_account_id := Some (sel_courier_account_id (bf_selection f)), bs_collectible := paise,
     bs_expected_cost_basis := basis, bs_snapshot := Some (workerView snapshot),
     bs_version := bs_version s + 1\<rparr>"

definition queuedColumns :: "BookingFacts \<Rightarrow> ShipmentColumns \<Rightarrow> ShipmentColumns" where
  "queuedColumns f cols = cols\<lparr>sh_manual_assignment_reason := None,
     sh_service_id := Some (sel_service_id (bf_selection f)),
     sh_service_version_id := map_option sv_service_version_id (bf_serviceVersion f)\<rparr>"

definition boundQuote ::
  "QueueBookingInput \<Rightarrow> BookingFacts \<Rightarrow> ExpectedPrice \<Rightarrow> QuoteResponse \<Rightarrow> string option \<Rightarrow> QuoteRow" where
  "boundQuote inp f price q ttl = \<lparr>qt_shop_id = qi_shopId inp, qt_shipment_id = Some (qi_shipmentId inp),
     qt_courier_account_id = sel_courier_account_id (bf_selection f),
     qt_service_id = sel_service_id (bf_selection f), qt_provider_quote_ref = qr_providerQuoteRef q,
     qt_rate_card_version_id = xp_rateCardVersionId price, qt_zone_map_id = xp_zoneMapId price,
     qt_fetched_at = qr_fetchedAt q, qt_expires_at = None,
     qt_components_json = WithRule (qr_components q) (qr_rtoRule q), qt_total = ttl,
     qt_edd_from = qr_eddFrom q, qt_edd_to = qr_eddTo q, qt_edd_source = qr_eddSource q,
     qt_origin_pincode = bf_originPincode f, qt_destination_pincode = bf_destinationPincode f,
     qt_billable_weight_band = map_option wb_billableWeightKg (xp_weights price),
     qt_payment_mode = bf_paymentMode f\<rparr>"

definition bindQuote ::
  "QueueBookingInput \<Rightarrow> BookingFacts \<Rightarrow> ExpectedPrice \<Rightarrow> 'a QueueDb_scheme \<Rightarrow> (queue_error + unit) \<times> 'a QueueDb_scheme" where
  "bindQuote inp f price db =
     (case xp_quote price of
        None \<Rightarrow> (Inr (), db)
      | Some q \<Rightarrow> (case storedTotal q of
          Inl e \<Rightarrow> (Inl (QuoteThrew e), db)
        | Inr ttl \<Rightarrow> (Inr (), db\<lparr>rdb_quotes := rdb_quotes db @ [boundQuote inp f price q ttl]\<rparr>)))"

text \<open>A shipment that is not DRAFT first goes back to it, without a snapshot.\<close>

definition reenterDraft ::
  "QueueBookingInput \<Rightarrow> ShipmentLockRow \<Rightarrow> 'a QueueDb_scheme \<Rightarrow> (queue_error + unit) \<times> 'a QueueDb_scheme" where
  "reenterDraft inp s db =
     (if bs_booking_state s = DRAFT then (Inr (), db)
      else case updateBooking (qi_shopId inp) (qi_shipmentId inp) (\<lambda>r. bs_booking_state r = bs_booking_state s)
             (setState DRAFT) (\<lambda>cols. cols\<lparr>sh_manual_assignment_reason := None\<rparr>) db of
         None \<Rightarrow> (Inl QueueGuardRaised, db)
       | Some (db, _) \<Rightarrow> (Inr (), db))"

definition moveToQueued ::
  "int \<Rightarrow> QueueBookingInput \<Rightarrow> BookingFacts \<Rightarrow> ExpectedPrice \<Rightarrow> 'a QueueDb_scheme \<Rightarrow> (queue_error + unit) \<times> 'a QueueDb_scheme" where
  "moveToQueued now inp f price db =
     bindX (liftQ (rupeesToPaise (bf_collectible f)) db) (\<lambda>paise db.
     case updateBooking (qi_shopId inp) (qi_shipmentId inp) (\<lambda>r. bs_booking_state r = DRAFT)
            (queuedRow f paise (expectedCostBasis (xp_quote price)) (frozenSnapshot now f price))
            (queuedColumns f) db of
       None \<Rightarrow> (Inl QueueGuardRaised, db)
     | Some (db, n) \<Rightarrow>
         if n \<noteq> 1 then (Inl (QueueRowsAffected n), db)
         else (Inr (), db\<lparr>qdb_snapshots := (qdb_snapshots db)(qi_shipmentId inp \<mapsto> frozenSnapshot now f price)\<rparr>))"

definition writeBooking ::
  "QueueEnv \<Rightarrow> QueueBookingInput \<Rightarrow> BookingFacts \<Rightarrow> ExpectedPrice \<Rightarrow> 'a QueueDb_scheme
   \<Rightarrow> (queue_error + QueuedBooking) \<times> 'a QueueDb_scheme" where
  "writeBooking env inp f price db =
     (let bdb = rdb_booking db; intent = newIntent env inp f bdb
      in if bi_merchant_reference intent \<in> bi_merchant_reference ` set (bd_intents bdb)
         then (Inl ReferenceTaken, db)
         else
           (let db = db\<lparr>rdb_booking := bdb\<lparr>bd_intents := bd_intents bdb @ [intent]\<rparr>\<rparr>;
                db = sealServiceVersion (map_option sv_service_version_id (bf_serviceVersion f)) db;
                db = sealRateCardVersion (qi_shopId inp) (xp_rateCardVersionId price) db;
                db = sealZoneMap (qi_shopId inp) (xp_zoneMapId price) db
            in bindX (reenterDraft inp (bf_shipment f) db) (\<lambda>_ db.
               bindX (moveToQueued (re_now env) inp f price db) (\<lambda>_ db.
               bindX (bindQuote inp f price db) (\<lambda>_ db.
               (Inr \<lparr>qb_bookingIntentId = bi_booking_intent_id intent,
                  qb_merchantReference = bi_merchant_reference intent,
                  qb_attemptNumber = attemptOf bdb (qi_shipmentId inp),
                  qb_expectedCostBasis = expectedCostBasis (xp_quote price),
                  qb_collectible = bf_collectible f\<rparr>, db))))))"

section \<open>The transaction\<close>

text \<open>What a transaction that did not fail did: committed a booking, parked the shipment, or nothing.\<close>

datatype QueueTx =
    TxQueued BookingFacts QueuedBooking
  | TxParked
  | TxRefused QueueFailure

definition bookPriced ::
  "QueueEnv \<Rightarrow> QueueBookingInput \<Rightarrow> BookingFacts \<Rightarrow> ExpectedPrice \<Rightarrow> 'a QueueDb_scheme
   \<Rightarrow> (queue_error + QueueTx) \<times> 'a QueueDb_scheme" where
  "bookPriced env inp f price db =
     (case xp_quote price of
        Some q \<Rightarrow>
          if \<not> qr_serviceable q
          then (Inr (TxRefused (QF_INV_7_BLOCKS [SERVICE_SERVICEABLE] (qr_failureReasons q))), db)
          else bindX (writeBooking env inp f price db) (\<lambda>b db. (Inr (TxQueued f b), db))
      | None \<Rightarrow> bindX (writeBooking env inp f price db) (\<lambda>b db. (Inr (TxQueued f b), db)))"

definition bookFacts ::
  "QueueEnv \<Rightarrow> QueueBookingInput \<Rightarrow> BookingFacts \<Rightarrow> 'a QueueDb_scheme
   \<Rightarrow> (queue_error + QueueTx) \<times> 'a QueueDb_scheme" where
  "bookFacts env inp f db =
     bindX (liftQ (hardBlocks db (qi_shopId inp) f) db) (\<lambda>failures db.
     if failures \<noteq> [] then (Inr (TxRefused (QF_INV_7_BLOCKS failures [])), db)
     else bindX (liftQ (entitlementBlock db (qi_shopId inp)) db) (\<lambda>blocked db.
     case blocked of
       Some b \<Rightarrow> (Inr (TxRefused b), db)
     | None \<Rightarrow> bindX (expectedPrice (re_getQuote env) (re_now env) (qi_shopId inp) f db) (bookPriced env inp f)))"

definition bookSelected ::
  "QueueEnv \<Rightarrow> QueueBookingInput \<Rightarrow> ShipmentLockRow \<Rightarrow> SelectionRow \<Rightarrow> 'a QueueDb_scheme
   \<Rightarrow> (queue_error + QueueTx) \<times> 'a QueueDb_scheme" where
  "bookSelected env inp s sel db =
     bindX (liftQ (gatherFacts (re_now env) db inp s sel) db) (bookFacts env inp)"

definition parkDraft ::
  "QueueBookingInput \<Rightarrow> ShipmentLockRow \<Rightarrow> 'a QueueDb_scheme \<Rightarrow> (queue_error + QueueTx) \<times> 'a QueueDb_scheme" where
  "parkDraft inp s db =
     (if bs_booking_state s = DRAFT then
        (case updateBooking (qi_shopId inp) (qi_shipmentId inp) (\<lambda>r. bs_booking_state r = DRAFT)
                (setState NEEDS_MANUAL_ASSIGNMENT)
                (\<lambda>cols. cols\<lparr>sh_manual_assignment_reason := Some NO_RULE_AND_NO_DEFAULT_CHAIN\<rparr>) db of
           None \<Rightarrow> (Inl QueueGuardRaised, db)
         | Some (db, _) \<Rightarrow> (Inr TxParked, db))
      else (Inr (TxRefused (QF_NO_BOOKABLE_SERVICE NO_RULE_AND_NO_DEFAULT_CHAIN)), db))"

definition bookableStates :: "BookingState set" where
  "bookableStates = {DRAFT, NEEDS_MANUAL_ASSIGNMENT, FAILED}"

definition blockedAccountStates :: "AccountState set" where
  "blockedAccountStates = {RESTRICTED, READ_ONLY, UNINSTALLED}"

definition versionConflict :: "QueueBookingInput \<Rightarrow> ShipmentLockRow \<Rightarrow> bool" where
  "versionConflict inp s \<longleftrightarrow> qi_expectedVersion inp \<noteq> None \<and> qi_expectedVersion inp \<noteq> Some (bs_version s)"

definition accountBlocked :: "'a QueueDb_scheme \<Rightarrow> string \<Rightarrow> bool" where
  "accountBlocked db shopId \<longleftrightarrow> (case map_of (qdb_account_states db) shopId of
     None \<Rightarrow> False | Some st \<Rightarrow> st \<in> blockedAccountStates)"

text \<open>The body between BEGIN and COMMIT; its tables count only when it commits.\<close>

definition queueBody ::
  "QueueEnv \<Rightarrow> QueueBookingInput \<Rightarrow> 'a QueueDb_scheme \<Rightarrow> (queue_error + QueueTx) \<times> 'a QueueDb_scheme" where
  "queueBody env inp db =
     (case findShipment (rdb_booking db) (qi_shopId inp) (qi_shipmentId inp) of
        None \<Rightarrow> (Inr (TxRefused QF_SHIPMENT_NOT_FOUND), db)
      | Some s \<Rightarrow>
          if bs_booking_state s \<notin> bookableStates
          then (Inr (TxRefused (QF_INVALID_STATE (bs_booking_state s))), db)
          else if versionConflict inp s
          then (Inr (TxRefused (QF_VERSION_CONFLICT (bs_booking_state s) (bs_version s))), db)
          else if accountBlocked db (qi_shopId inp)
          then (Inr (TxRefused (QF_ACCOUNT_STATE_BLOCKED (bs_booking_state s))), db)
          else (case resolveSelection db (qi_shopId inp) (sh_service_id (rdb_columns db (bs_shipment_id s)))
                       (qi_serviceId inp) of
              (Some sel, _) \<Rightarrow> bookSelected env inp s sel db
            | (None, True) \<Rightarrow> parkDraft inp s db
            | (None, False) \<Rightarrow> (Inr (TxRefused (QF_INV_7_BLOCKS [SERVICE_SERVICEABLE] [])), db)))"

definition queueTx ::
  "QueueEnv \<Rightarrow> QueueBookingInput \<Rightarrow> 'a QueueDb_scheme \<Rightarrow> (queue_error + QueueTx) \<times> 'a QueueDb_scheme" where
  "queueTx env inp db =
     (case queueBody env inp db of
        (Inl e, _) \<Rightarrow> (Inl e, db)
      | (Inr (TxRefused r), _) \<Rightarrow> (Inr (TxRefused r), db)
      | (Inr t, db') \<Rightarrow> (Inr t, db'))"

section \<open>The booking action\<close>

definition jobOf :: "QueueBookingInput \<Rightarrow> BookingFacts \<Rightarrow> QueuedBooking \<Rightarrow> BookingJobData" where
  "jobOf inp f b = \<lparr>jd_shopId = qi_shopId inp, jd_shipmentId = qi_shipmentId inp,
     jd_bookingIntentId = qb_bookingIntentId b, jd_merchantReference = qb_merchantReference b,
     jd_serviceId = sel_service_id (bf_selection f),
     jd_courierAccountId = sel_courier_account_id (bf_selection f)\<rparr>"

text \<open>After the COMMIT: the audit record, then the job; a failure of either throws.\<close>

definition announce ::
  "QueueEnv \<Rightarrow> QueueBookingInput \<Rightarrow> QueueTx \<Rightarrow> 'a QueueDb_scheme \<Rightarrow> (queue_error + QueueBookingResult) \<times> 'a QueueDb_scheme" where
  "announce env inp t db =
     (case t of
        TxRefused r \<Rightarrow> (Inr (NotQueued r), db)
      | TxParked \<Rightarrow>
          if re_audit_up env
          then (Inr (NotQueued (QF_NO_BOOKABLE_SERVICE NO_RULE_AND_NO_DEFAULT_CHAIN)),
                callOutDb (AuditBooking ''booking.needs_manual_assignment'' (qi_shipmentId inp)) db)
          else (Inl QueueAuditFailed, db)
      | TxQueued f b \<Rightarrow>
          if \<not> re_audit_up env then (Inl QueueAuditFailed, db)
          else (let db = callOutDb (AuditBooking ''booking.queued'' (qi_shipmentId inp)) db
                in if \<not> re_queue_up env then (Inl EnqueueFailed, db)
                   else (Inr (Queued b), db\<lparr>qdb_jobs := qdb_jobs db @ [jobOf inp f b]\<rparr>)))"

definition bookInTx ::
  "QueueEnv \<Rightarrow> QueueBookingInput \<Rightarrow> 'a QueueDb_scheme \<Rightarrow> (queue_error + QueueBookingResult) \<times> 'a QueueDb_scheme" where
  "bookInTx env inp db = bindX (queueTx env inp db) (announce env inp)"

definition noOverride :: "QueueBookingInput \<Rightarrow> bool" where
  "noOverride inp \<longleftrightarrow> \<not> truthy (qi_serviceId inp)"

definition routingRefusal :: "RoutingResult \<Rightarrow> QueueFailure option" where
  "routingRefusal r = (case r of
     Evaluated _ result \<Rightarrow> (case rs_outcome result of
         MANUAL_ASSIGNMENT why \<Rightarrow> Some (QF_NO_BOOKABLE_SERVICE why) | SELECTED _ \<Rightarrow> None)
   | NotEvaluated _ \<Rightarrow> None)"

definition queueBooking ::
  "QueueEnv \<Rightarrow> QueueBookingInput \<Rightarrow> QueueDb \<Rightarrow> (queue_error + QueueBookingResult) \<times> QueueDb" where
  "queueBooking env inp db =
     (if noOverride inp then
        (case evaluateForShipment env (qi_shopId inp) (qi_shipmentId inp) db of
           (Inl e, db) \<Rightarrow> (Inl (RoutingThrew e), db)
         | (Inr r, db) \<Rightarrow> (case routingRefusal r of
             Some refusal \<Rightarrow> (Inr (NotQueued refusal), db)
           | None \<Rightarrow> bookInTx env inp (qe_gap env db)))
      else bookInTx env inp db)"

end
