(* ===== verification/Queue_Laws.thy ===== *)
theory Queue_Laws
  imports QueueBooking
begin

text \<open>
  What runs over the booking tables keep.  Reading the facts and the quotes of candidates changes
  only the table of quotes; routing and queueing are sequences of the writes \<open>booking_step\<close> of
  \<open>Booking_Laws\<close>, so its invariants hold with them among the writers.
\<close>

section \<open>Relations kept by runs\<close>

context run_relation
begin

lemma rel_liftQ: "rel s (snd (liftQ r s))"
  by (cases r) (simp_all add: liftQ_def rel_refl)

end

text \<open>Only quotes are added, and the rows of the cache stay well formed.\<close>

definition quotesOnly :: "'a RuleDb_scheme \<Rightarrow> 'a RuleDb_scheme \<Rightarrow> bool" where
  "quotesOnly db db' \<longleftrightarrow> (\<exists>qs. db' = db\<lparr>rdb_quotes := rdb_quotes db @ qs\<rparr>)
     \<and> (cacheWf db \<longrightarrow> cacheWf db')"

interpretation quotes: run_relation quotesOnly
proof (unfold_locales)
  show "quotesOnly s s" for s :: "'a RuleDb_scheme"
    by (auto simp: quotesOnly_def intro: exI [of _ "[]"])
  show "quotesOnly s u" if "quotesOnly s t" "quotesOnly t u" for s t u :: "'a RuleDb_scheme"
    using that by (auto simp: quotesOnly_def)
qed

definition bookingWrites :: "'a RuleDb_scheme \<Rightarrow> 'a RuleDb_scheme \<Rightarrow> bool" where
  "bookingWrites db db' \<longleftrightarrow> (bookingInv (rdb_booking db) \<longrightarrow> booking_step\<^sup>*\<^sup>* (rdb_booking db) (rdb_booking db'))"

interpretation writes: run_relation bookingWrites
proof (unfold_locales)
  show "bookingWrites s s" for s :: "'a RuleDb_scheme" by (simp add: bookingWrites_def)
  show "bookingWrites s u" if "bookingWrites s t" "bookingWrites t u" for s t u :: "'a RuleDb_scheme"
    using that booking.reachable by (fastforce simp: bookingWrites_def)
qed

section \<open>Reads\<close>

lemma getLiveQuote_quotesOnly: "quotesOnly db (snd (getLiveQuote g now shop acc req band db))"
proof -
  obtain r db' where e: "getLiveQuote g now shop acc req band db = (r, db')" by fastforce
  have "cacheWf db \<longrightarrow> cacheWf db'" using getLiveQuote_wf [OF _ e] by blast
  moreover from e have "\<exists>qs. db' = db\<lparr>rdb_quotes := rdb_quotes db @ qs\<rparr>"
    by (cases rule: getLiveQuote_cases) (auto intro: exI [of _ "[]"])
  ultimately show ?thesis by (simp add: quotesOnly_def e)
qed

lemma candidatePrice_quotesOnly: "quotesOnly db (snd (candidatePrice g now shop parcel sid m s w db))"
proof (cases "sc_cost_source s")
  case RATE_CARD
  show ?thesis
    unfolding candidatePrice_def RATE_CARD CostSource.case(1)
    by (intro quotes.rel_bindX quotes.rel_liftX) (simp add: quotes.rel_refl)
next
  case LIVE_QUOTE
  show ?thesis
    using getLiveQuote_quotesOnly [of db g now shop "ms_courier_account_id m"
        "parcelRequest (ms_courier_account_id m) sid parcel" "map_option wb_billableWeightKg w"]
    by (auto simp: candidatePrice_def LIVE_QUOTE split: prod.splits sum.splits quote_error.splits)
qed (simp add: candidatePrice_def quotes.rel_refl)

lemma candidateFacts_quotesOnly: "quotesOnly db (snd (candidateFacts g now shop parcel sid db))"
proof (cases "candidateRow db shop sid")
  case (Some p)
  obtain m s a where p: "p = (m, s, a)" by (cases p)
  show ?thesis
    unfolding candidateFacts_def Some p option.case prod.case Let_def
    by (intro quotes.rel_bindX quotes.rel_liftX candidatePrice_quotesOnly)
      (simp add: quotes.rel_refl split: prod.split)
qed (simp add: candidateFacts_def quotes.rel_refl)

lemma loadCandidates_quotesOnly: "quotesOnly db (snd (loadCandidates g now shop parcel ids db))"
proof (induction ids arbitrary: db)
  case (Cons i ids)
  show ?case
    unfolding loadCandidates.simps
    by (intro quotes.rel_bindX candidateFacts_quotesOnly Cons) (simp add: quotes.rel_refl)
qed (simp add: quotes.rel_refl)

lemma loadForShipment_quotesOnly: "quotesOnly db (snd (loadForShipment g now shop sid db))"
proof (cases "findShipment (rdb_booking db) shop sid")
  case (Some s)
  show ?thesis
    unfolding loadForShipment_def Some option.case Let_def
    by (intro quotes.rel_bindX loadCandidates_quotesOnly) (simp add: quotes.rel_refl)
qed (simp add: loadForShipment_def quotes.rel_refl)

lemma loadForShipment_Some:
  assumes "loadForShipment g now shop sid db = (Inr (Some (s, inp)), db')"
  shows "findShipment (rdb_booking db) shop sid = Some s"
proof (cases "findShipment (rdb_booking db) shop sid")
  case (Some t)
  then show ?thesis
    using assms by (auto simp: loadForShipment_def Let_def bindX_def split: prod.splits sum.splits)
qed (use assms in \<open>simp add: loadForShipment_def\<close>)

lemma loadForShipment_None:
  assumes "loadForShipment g now shop sid db = (Inr None, db')"
  shows "findShipment (rdb_booking db) shop sid = None"
proof (cases "findShipment (rdb_booking db) shop sid")
  case (Some t)
  then show ?thesis
    using assms by (auto simp: loadForShipment_def Let_def bindX_def split: prod.splits sum.splits)
qed

lemma quotesOnly_sel:
  assumes "quotesOnly db db'"
  shows "rdb_booking db' = rdb_booking db" "rdb_columns db' = rdb_columns db"
    "RuleDb.more db' = RuleDb.more db"
  using assms by (auto simp: quotesOnly_def)

section \<open>Writes\<close>

lemma updateBooking_Some:
  "updateBooking shop sid c f g db = Some (db', n) \<longleftrightarrow> (\<exists>bdb. updateShipments True
       (\<lambda>s. isShipment shop sid s \<and> c s) f (rdb_booking db) = Some (bdb, n)
     \<and> db' = (if n = 0 then db\<lparr>rdb_booking := bdb\<rparr> else setColumns sid g (db\<lparr>rdb_booking := bdb\<rparr>)))"
  by (auto simp: updateBooking_def split: option.splits)

lemma setColumns_sel [simp]: "rdb_booking (setColumns sid g db) = rdb_booking db"
  by (simp add: setColumns_def)

lemma updateBooking_step:
  assumes "updateBooking shop sid c f g db = Some (db', n)"
    and "\<And>s. s \<in> set (bd_shipments (rdb_booking db)) \<Longrightarrow> isShipment shop sid s \<Longrightarrow> c s \<Longrightarrow> rowStep s (f s)"
  shows "booking_step (rdb_booking db) (rdb_booking db')"
proof -
  from assms(1) obtain bdb where u: "updateShipments True (\<lambda>s. isShipment shop sid s \<and> c s) f (rdb_booking db) = Some (bdb, n)"
    and db': "rdb_booking db' = bdb" by (auto simp: updateBooking_Some)
  show ?thesis
    unfolding db' by (rule booking_step.row [OF u, of sid]) (use assms(2) in \<open>auto simp: isShipment_def\<close>)
qed

lemma rowStep_setState: "\<not> booked s \<Longrightarrow> st \<notin> {CONFIRMED, VOID} \<Longrightarrow> rowStep s (setState st s)"
  by (simp add: rowStep_def booked_def)

lemma queuedRow_sel [simp]:
  "bs_shipment_id (queuedRow f p b sn s) = bs_shipment_id s" "bs_shop_id (queuedRow f p b sn s) = bs_shop_id s"
  "bs_order_id (queuedRow f p b sn s) = bs_order_id s"
  "bs_awb_normalized (queuedRow f p b sn s) = bs_awb_normalized s"
  "bs_is_test (queuedRow f p b sn s) = bs_is_test s"
  "bs_booking_state (queuedRow f p b sn s) = QUEUED" "bs_collectible (queuedRow f p b sn s) = p"
  "bs_snapshot (queuedRow f p b sn s) = Some (workerView sn)"
  "bs_version (queuedRow f p b sn s) = bs_version s + 1"
  "bs_expected_cost_basis (queuedRow f p b sn s) = b"
  "bs_courier_account_id (queuedRow f p b sn s) = Some (sel_courier_account_id (bf_selection f))"
  by (simp_all add: queuedRow_def)

lemma rowStep_queuedRow: "bs_booking_state s = DRAFT \<Longrightarrow> rowStep s (queuedRow f p b sn s)"
  by (simp add: rowStep_def booked_def)

lemma callOutDb_sel [simp]: "rdb_booking (callOutDb c db) = callOut c (rdb_booking db)"
  by (simp add: callOutDb_def)

lemma intents_step: "booking_step bdb (bdb\<lparr>bd_intents := is\<rparr>)"
  using booking_step.tables [where db = bdb and its = "is" and ac = "bd_accounts bdb"
      and su = "bd_subscriptions bdb" and dl = "bd_dlq bdb" and cs = "bd_calls bdb"]
  by simp

lemma bookingWrites_step: "booking_step (rdb_booking db) (rdb_booking db') \<Longrightarrow> bookingWrites db db'"
  by (auto simp: bookingWrites_def)

lemma bookingWrites_same: "rdb_booking db' = rdb_booking db \<Longrightarrow> bookingWrites db db'"
  by (simp add: bookingWrites_def)

lemma quotesOnly_writes: "quotesOnly db db' \<Longrightarrow> bookingWrites db db'"
  by (rule bookingWrites_same, rule quotesOnly_sel)

section \<open>Routing\<close>

lemma writeOutcome_step:
  assumes "writeOutcome now tid res shop s db = Some (db', n)" "bookingInv (rdb_booking db)"
    "findShipment (rdb_booking db) shop (bs_shipment_id s) = Some s" "bs_booking_state s \<in> {DRAFT, NEEDS_MANUAL_ASSIGNMENT}"
  shows "booking_step (rdb_booking db) (rdb_booking db')"
proof -
  have free: "\<not> booked t" if "t \<in> set (bd_shipments (rdb_booking db))" "isShipment shop (bs_shipment_id s) t" for t
    using only_shipment [OF bookingInvD(1) [OF assms(2)] assms(3) that] assms(4) by (auto simp: booked_def)
  show ?thesis
    using assms(1) unfolding writeOutcome_def Let_def
    by (auto split: EvaluationOutcome.splits elim!: updateBooking_step intro!: rowStep_setState dest: free)
qed

lemma auditedX_writes: "bookingWrites db (snd (auditedX up a d r db))"
  by (simp add: auditedX_def writes.rel_refl bookingWrites_step callOut_step)

lemma evaluateForShipment_cases:
  assumes "evaluateForShipment env shop sid db = (r, db')"
  obtains (failed) e where "r = Inl e" "db' = db"
  | (refused) st where "r = Inr (NotEvaluated st)" "db' = db"
      "\<And>s. findShipment (rdb_booking db) shop sid = Some s \<Longrightarrow> bs_booking_state s \<notin> {DRAFT, NEEDS_MANUAL_ASSIGNMENT}"
  | (written) s inp db1 result db2 n where
      "loadForShipment (re_getQuote env) (re_now env) shop sid db = (Inr (Some (s, inp)), db1)"
      "bs_booking_state s \<in> {DRAFT, NEEDS_MANUAL_ASSIGNMENT}"
      "evaluate (re_tzOffset env) (re_legacyParse env) inp = Inr result"
      "writeOutcome (re_now env) (length (rdb_traces db1)) result shop s
         (db1\<lparr>rdb_traces := rdb_traces db1 @ [\<lparr>tr_shop_id = shop, tr_shipment_id = sid, tr_result = result\<rparr>]\<rparr>)
         = Some (db2, n)" "n = 1"
      "(r, db') = auditedX (re_audit_up env) ''rule.evaluated'' (outcomeText result)
         (Evaluated (length (rdb_traces db1)) result) db2"
proof -
  obtain l db1 where l: "loadForShipment (re_getQuote env) (re_now env) shop sid db = (l, db1)" by fastforce
  note eq = assms [unfolded evaluateForShipment_def l]
  show ?thesis
  proof (cases l)
    case (Inl e)
    with eq have "r = Inl (RunFailed e)" "db' = db" by simp_all
    then show ?thesis by (rule failed)
  next
    case (Inr found)
    show ?thesis
    proof (cases found)
      case None
      with eq Inr have "r = Inr (NotEvaluated None)" "db' = db" by simp_all
      moreover have "findShipment (rdb_booking db) shop sid = None"
        using l unfolding Inr None by (rule loadForShipment_None)
      ultimately show ?thesis by (intro refused) simp_all
    next
      case (Some p)
      obtain s inp where p: "p = (s, inp)" by fastforce
      note eq = eq [unfolded Inr Some p, simplified]
      show ?thesis
      proof (cases "bs_booking_state s \<in> {DRAFT, NEEDS_MANUAL_ASSIGNMENT}")
        case False
        with eq have "r = Inr (NotEvaluated (Some (bs_booking_state s)))" "db' = db" by (auto split: if_splits)
        moreover have "findShipment (rdb_booking db) shop sid = Some s"
          using l unfolding Inr Some p by (rule loadForShipment_Some)
        ultimately show ?thesis using False by (intro refused) simp_all
      next
        case st: True
        show ?thesis
        proof (cases "evaluate (re_tzOffset env) (re_legacyParse env) inp")
          case (Inl e)
          with eq st have "r = Inl (RunFailed (RuleThrew e))" "db' = db" by (auto split: if_splits)
          then show ?thesis by (rule failed)
        next
          case ev: (Inr result)
          let ?db = "db1\<lparr>rdb_traces := rdb_traces db1 @ [\<lparr>tr_shop_id = shop, tr_shipment_id = sid, tr_result = result\<rparr>]\<rparr>"
          let ?w = "writeOutcome (re_now env) (length (rdb_traces db1)) result shop s ?db"
          show ?thesis
          proof (cases ?w)
            case None
            with eq st ev have "r = Inl RoutingGuardRaised" "db' = db" by (auto simp: Let_def split: if_splits)
            then show ?thesis by (rule failed)
          next
            case w: (Some q)
            obtain db2 n where q: "q = (db2, n)" by fastforce
            show ?thesis
            proof (cases "n = 1")
              case False
              with eq st ev w q have "r = Inl (RunFailed (RoutingWriteFailed n))" "db' = db"
                by (auto simp: Let_def split: if_splits)
              then show ?thesis by (rule failed)
            next
              case True
              with eq st ev w q have "(r, db') = auditedX (re_audit_up env) ''rule.evaluated'' (outcomeText result)
                  (Evaluated (length (rdb_traces db1)) result) db2"
                by (auto simp: Let_def split: if_splits)
              with l Inr Some p st ev w q True show ?thesis by (intro written) simp_all
            qed
          qed
        qed
      qed
    qed
  qed
qed

lemma evaluateForShipment_writes: "bookingWrites db (snd (evaluateForShipment env shop sid db))"
proof -
  obtain r db' where e: "evaluateForShipment env shop sid db = (r, db')" by fastforce
  then show ?thesis
  proof (cases rule: evaluateForShipment_cases)
    case (written s inp db1 result db2 n)
    note found = loadForShipment_Some [OF written(1)]
    have same: "rdb_booking db1 = rdb_booking db"
      using quotesOnly_sel(1) [OF loadForShipment_quotesOnly [of db "re_getQuote env" "re_now env" shop sid]]
      by (simp add: written(1))
    have sid: "bs_shipment_id s = sid" using find_shipment [OF found] by (simp add: isShipment_def)
    have "bookingWrites db db2"
      unfolding bookingWrites_def
      using writeOutcome_step [OF written(4)] found same sid written(2) by auto
    from writes.rel_trans [OF this auditedX_writes, of "re_audit_up env" "''rule.evaluated''" "outcomeText result"
        "Evaluated (length (rdb_traces db1)) result", folded written(6)]
    show ?thesis by (simp add: e)
  qed (simp_all add: e writes.rel_refl)
qed

section \<open>Queueing\<close>

lemma expectedPrice_quotesOnly: "quotesOnly db (snd (expectedPrice g now shop f db))"
proof -
  have live: "quotesOnly db (snd (case getLiveQuote g now shop acc req band db of
            (Inl e, db) \<Rightarrow> (Inl (QuoteThrew e), db) | (Inr q, db) \<Rightarrow> (Inr (h q), db)))" for acc req band h db
    using getLiveQuote_quotesOnly [of db g now shop acc req band] by (auto split: prod.splits sum.splits)
  show ?thesis
    unfolding expectedPrice_def
  proof (rule quotes.rel_bindX [OF quotes.rel_liftQ])
    fix w db' assume "liftQ (bookingWeights f) db = (Inr w, db')"
    show "quotesOnly db' (snd (case sel_cost_source (bf_selection f) of
         RATE_CARD \<Rightarrow> bindX (liftQ (estimateCost now db' (estimateInput shop f)) db') (\<lambda>est db.
           (Inr \<lparr>xp_weights = w, xp_quote = Some (es_quote est),
              xp_rateCardVersionId = es_rateCardVersionId est, xp_zoneMapId = es_zoneMapId est,
              xp_zone = (if truthy (es_zoneMapId est) \<and> truthy (bf_originPincode f) \<and> truthy (bf_destinationPincode f)
                then resolveLaneZone db shop (the (es_zoneMapId est)) (the (bf_originPincode f))
                       (the (bf_destinationPincode f)) else None)\<rparr>, db))
       | LIVE_QUOTE \<Rightarrow> (case getLiveQuote g now shop (sel_courier_account_id (bf_selection f)) (quoteRequest f)
               (map_option wb_billableWeightKg w) db' of
            (Inl e, db) \<Rightarrow> (Inl (QuoteThrew e), db)
          | (Inr q, db) \<Rightarrow> (Inr \<lparr>xp_weights = w, xp_quote = Some q, xp_rateCardVersionId = None,
              xp_zoneMapId = None, xp_zone = None\<rparr>, db))
       | NONE_SOURCE \<Rightarrow> (Inr \<lparr>xp_weights = w, xp_quote = None, xp_rateCardVersionId = None,
           xp_zoneMapId = None, xp_zone = None\<rparr>, db')))"
    proof (cases "sel_cost_source (bf_selection f)")
      case RATE_CARD
      show ?thesis
        unfolding RATE_CARD CostSource.case
        by (intro quotes.rel_bindX quotes.rel_liftQ) (simp add: quotes.rel_refl)
    next
      case LIVE_QUOTE
      show ?thesis unfolding LIVE_QUOTE CostSource.case by (rule live)
    qed (simp add: quotes.rel_refl)
  qed
qed

lemma seals_booking [simp]:
  "rdb_booking (sealServiceVersion i db) = rdb_booking db"
  "rdb_booking (sealRateCardVersion shop i db) = rdb_booking db"
  "rdb_booking (sealZoneMap shop i db) = rdb_booking db"
  by (simp_all add: sealServiceVersion_def sealRateCardVersion_def sealZoneMap_def split: option.splits)

lemma reenterDraft_writes:
  assumes "bs_booking_state s \<in> bookableStates"
  shows "bookingWrites db (snd (reenterDraft inp s db))"
proof -
  have "rowStep r (setState DRAFT r)" if "bs_booking_state r = bs_booking_state s" for r
    using assms that by (intro rowStep_setState) (auto simp: bookableStates_def booked_def)
  then show ?thesis
    unfolding reenterDraft_def
    by (auto simp: writes.rel_refl split: option.splits intro!: bookingWrites_step elim!: updateBooking_step)
qed

lemma moveToQueued_writes: "bookingWrites db (snd (moveToQueued now inp f price db))"
proof -
  have step: "bookingWrites d (snd (case updateBooking shop sid (\<lambda>r. bs_booking_state r = DRAFT)
      (queuedRow f paise b sn) g d of None \<Rightarrow> (Inl e, d)
    | Some (d, n) \<Rightarrow> if n \<noteq> 1 then (Inl (h n), d) else (Inr u, d\<lparr>qdb_snapshots := x d\<rparr>)))"
    for d :: "'a QueueDb_scheme" and shop sid paise b sn g u x and e :: 'e and h
    by (auto simp: writes.rel_refl split: option.splits intro!: bookingWrites_step
        elim!: updateBooking_step rowStep_queuedRow)
  show ?thesis
    unfolding moveToQueued_def by (intro writes.rel_bindX writes.rel_liftQ) (rule step)
qed

lemma bindQuote_writes: "bookingWrites db (snd (bindQuote inp f price db))"
  by (auto simp: bindQuote_def bookingWrites_def split: option.splits sum.splits)

lemma writeBooking_writes:
  assumes "bs_booking_state (bf_shipment f) \<in> bookableStates"
  shows "bookingWrites db (snd (writeBooking env inp f price db))"
proof -
  let ?bdb = "rdb_booking db"
  let ?sealed = "sealZoneMap (qi_shopId inp) (xp_zoneMapId price) (sealRateCardVersion (qi_shopId inp)
      (xp_rateCardVersionId price) (sealServiceVersion (map_option sv_service_version_id (bf_serviceVersion f))
        (db\<lparr>rdb_booking := ?bdb\<lparr>bd_intents := bd_intents ?bdb @ [newIntent env inp f ?bdb]\<rparr>\<rparr>)))"
  have start: "bookingWrites db ?sealed" by (simp add: bookingWrites_step intents_step)
  show ?thesis
    unfolding writeBooking_def Let_def
    by (simp add: writes.rel_refl, intro impI writes.rel_trans [OF start] writes.rel_bindX
        reenterDraft_writes [OF assms] moveToQueued_writes bindQuote_writes)
      (simp add: writes.rel_refl)
qed

lemma gatherFacts_shipment: "gatherFacts now db inp s sel = Inr f \<Longrightarrow> bf_shipment f = s"
  by (auto simp: gatherFacts_def Let_def bindR_Inr_iff)

lemma bookFacts_writes:
  assumes "bs_booking_state (bf_shipment f) \<in> bookableStates"
  shows "bookingWrites db (snd (bookFacts env inp f db))"
proof -
  have book: "bookingWrites d (snd (bindX (writeBooking env inp f price d) (\<lambda>b db. (Inr (TxQueued f b), db))))" for price d
    by (intro writes.rel_bindX writeBooking_writes [OF assms]) (simp add: writes.rel_refl)
  have price: "bookingWrites d (snd (bindX (expectedPrice (re_getQuote env) (re_now env) (qi_shopId inp) f d)
      (bookPriced env inp f)))" for d
    by (rule writes.rel_bindX [OF quotesOnly_writes [OF expectedPrice_quotesOnly]])
      (auto simp: bookPriced_def writes.rel_refl book split: option.split)
  show ?thesis
    unfolding bookFacts_def
    by (intro writes.rel_bindX writes.rel_liftQ)
      (auto simp: writes.rel_refl price split: option.split intro!: writes.rel_bindX writes.rel_liftQ)
qed

lemma bookSelected_writes:
  assumes "bs_booking_state s \<in> bookableStates"
  shows "bookingWrites db (snd (bookSelected env inp s sel db))"
  unfolding bookSelected_def
proof (rule writes.rel_bindX [OF writes.rel_liftQ], rule bookFacts_writes)
  fix f db1 assume "liftQ (gatherFacts (re_now env) db inp s sel) db = (Inr f, db1)"
  then have "gatherFacts (re_now env) db inp s sel = Inr f" by (simp add: liftQ_def split: sum.splits)
  from gatherFacts_shipment [OF this] assms show "bs_booking_state (bf_shipment f) \<in> bookableStates" by simp
qed

lemma parkDraft_writes: "bookingWrites db (snd (parkDraft inp s db))"
proof -
  have "rowStep r (setState NEEDS_MANUAL_ASSIGNMENT r)" if "bs_booking_state r = DRAFT" for r
    using that by (intro rowStep_setState) (auto simp: booked_def)
  then show ?thesis
    unfolding parkDraft_def
    by (auto simp: writes.rel_refl split: option.splits intro!: bookingWrites_step elim!: updateBooking_step)
qed

lemma queueBody_writes: "bookingWrites db (snd (queueBody env inp db))"
  unfolding queueBody_def
  by (auto simp: writes.rel_refl parkDraft_writes bookSelected_writes split: option.splits prod.splits bool.splits)

text \<open>A transaction that fails or refuses is rolled back.\<close>

lemma queueTx_writes: "bookingWrites db (snd (queueTx env inp db))"
  using queueBody_writes [of db env inp]
  by (auto simp: queueTx_def writes.rel_refl split: prod.splits sum.splits QueueTx.splits)

lemma announce_writes: "bookingWrites db (snd (announce env inp t db))"
proof -
  have "bookingWrites d (callOutDb c d)" for c and d :: "'a QueueDb_scheme"
    by (simp add: bookingWrites_step callOut_step)
  then show ?thesis
    by (auto simp: announce_def Let_def writes.rel_refl bookingWrites_def split: QueueTx.splits)
qed

lemma bookInTx_writes: "bookingWrites db (snd (bookInTx env inp db))"
  unfolding bookInTx_def by (intro writes.rel_bindX queueTx_writes announce_writes)

definition wfQueueEnv :: "QueueEnv \<Rightarrow> bool" where
  "wfQueueEnv env \<longleftrightarrow> (\<forall>db. booking_step\<^sup>*\<^sup>* (rdb_booking db) (rdb_booking (qe_gap env db)))"

lemma queueBooking_writes:
  assumes "wfQueueEnv env"
  shows "bookingWrites db (snd (queueBooking env inp db))"
proof -
  have gap: "bookingWrites d (snd (bookInTx env inp (qe_gap env d)))" for d
    using assms by (intro writes.rel_trans [OF _ bookInTx_writes]) (simp add: wfQueueEnv_def bookingWrites_def)
  obtain r db1 where e: "evaluateForShipment env (qi_shopId inp) (qi_shipmentId inp) db = (r, db1)" by fastforce
  have route: "bookingWrites db db1"
    using evaluateForShipment_writes [of db env "qi_shopId inp" "qi_shipmentId inp"] by (simp add: e)
  then show ?thesis
    unfolding queueBooking_def e
    by (auto simp: bookInTx_writes intro: writes.rel_trans [OF route gap] split: sum.split option.split)
qed

end
