(* ===== verification/Queue_Cases.thy ===== *)
theory Queue_Cases
  imports Queue_Laws Booking_Properties
begin

text \<open>What a call of \<open>queueBooking\<close> that commits a booking has read and written.\<close>

lemma bindX_Inr: "bindX r f = (Inr b, s') \<longleftrightarrow> (\<exists>a s. r = (Inr a, s) \<and> f a s = (Inr b, s'))"
  by (auto simp: bindX_def split: prod.splits sum.splits)

lemma liftQ_Inr [simp]: "liftQ r s = (Inr a, s') \<longleftrightarrow> r = Inr a \<and> s' = s"
  by (auto simp: liftQ_def split: sum.splits)

lemma bookPriced_queued:
  assumes "bookPriced env inp f price db = (Inr (TxQueued g b), db')"
  shows "g = f \<and> writeBooking env inp f price db = (Inr b, db')"
  using assms by (auto simp: bookPriced_def bindX_Inr split: option.splits if_splits)

lemma bookFacts_queued:
  assumes "bookFacts env inp f db = (Inr (TxQueued g b), db')"
  obtains price db1 where "g = f" "hardBlocks db (qi_shopId inp) f = Inr []"
    "entitlementBlock db (qi_shopId inp) = Inr None"
    "expectedPrice (re_getQuote env) (re_now env) (qi_shopId inp) f db = (Inr price, db1)"
    "writeBooking env inp f price db1 = (Inr b, db')"
  using assms by (auto simp: bookFacts_def bindX_Inr split: option.splits if_splits dest!: bookPriced_queued)

text \<open>A committed transaction that queued the shipment passed every guard on the row it locked.\<close>

lemma queueTx_queued:
  assumes "queueTx env inp db = (Inr (TxQueued f b), db')"
  obtains s price db1 where "findShipment (rdb_booking db) (qi_shopId inp) (qi_shipmentId inp) = Some s"
    "bs_booking_state s \<in> bookableStates" "\<not> versionConflict inp s" "\<not> accountBlocked db (qi_shopId inp)"
    "bf_shipment f = s" "gatherFacts (re_now env) db inp s (bf_selection f) = Inr f"
    "hardBlocks db (qi_shopId inp) f = Inr []" "entitlementBlock db (qi_shopId inp) = Inr None"
    "expectedPrice (re_getQuote env) (re_now env) (qi_shopId inp) f db = (Inr price, db1)"
    "writeBooking env inp f price db1 = (Inr b, db')"
proof -
  from assms have "queueBody env inp db = (Inr (TxQueued f b), db')"
    by (auto simp: queueTx_def split: prod.splits sum.splits QueueTx.splits)
  then obtain s sel where s: "findShipment (rdb_booking db) (qi_shopId inp) (qi_shipmentId inp) = Some s"
      "bs_booking_state s \<in> bookableStates" "\<not> versionConflict inp s" "\<not> accountBlocked db (qi_shopId inp)"
    and book: "bookSelected env inp s sel db = (Inr (TxQueued f b), db')"
    by (auto simp: queueBody_def parkDraft_def split: option.splits if_splits prod.splits bool.splits)
  then obtain g where g: "gatherFacts (re_now env) db inp s sel = Inr g"
      "bookFacts env inp g db = (Inr (TxQueued f b), db')" by (auto simp: bookSelected_def bindX_Inr)
  from g(2) show ?thesis
  proof (rule bookFacts_queued)
    fix price db1
    assume h: "f = g" "hardBlocks db (qi_shopId inp) g = Inr []" "entitlementBlock db (qi_shopId inp) = Inr None"
      "expectedPrice (re_getQuote env) (re_now env) (qi_shopId inp) g db = (Inr price, db1)"
      "writeBooking env inp g price db1 = (Inr b, db')"
    have "bf_selection g = sel" using g(1) by (auto simp: gatherFacts_def Let_def bindR_Inr_iff)
    with h g(1) gatherFacts_shipment [OF g(1)] that [of s price db1] s show ?thesis by simp
  qed
qed

text \<open>INV-9 holds again for the row an update has written, whatever its next state.\<close>

lemma accepted_again:
  assumes u: "updateShipments True c f bdb = Some (bdb', n)"
    and s: "s \<in> set (bd_shipments bdb)" "c s"
    and keep: "\<And>x. c x \<Longrightarrow> bs_shipment_id (f x) = bs_shipment_id (f s)"
    and row: "bs_collectible row = bs_collectible (f s)" "bs_order_id row = bs_order_id (f s)"
      "bs_shipment_id row = bs_shipment_id (f s)"
  shows "enforceSingleCollectible bdb' row"
proof -
  have "enforceSingleCollectible bdb (f s)" using u s by (auto simp: updateShipments_Some)
  moreover have "bd_shipments bdb' = map (\<lambda>x. if c x then f x else x) (bd_shipments bdb)"
    using u by (auto simp: updateShipments_Some)
  ultimately show ?thesis
    using keep by (auto simp: enforceSingleCollectible_def list_ex_iff row)
qed

lemma updateBooking_find:
  assumes "updateBooking shop sid c f g db = Some (db', n)" "findShipment (rdb_booking db) shop sid = Some s"
    and "\<And>r. isShipment shop sid (f r) = isShipment shop sid r"
  shows "findShipment (rdb_booking db') shop sid = Some (if c s then f s else s)"
proof -
  from assms(1) obtain bdb where u: "updateShipments True (\<lambda>r. isShipment shop sid r \<and> c r) f (rdb_booking db) = Some (bdb, n)"
    and db': "rdb_booking db' = bdb" by (auto simp: updateBooking_Some)
  show ?thesis
    unfolding db' using find_update [OF u assms(3)] assms(2) find_shipment [OF assms(2)] by simp
qed

text \<open>The rows of other shipments.\<close>

definition otherRows :: "string \<Rightarrow> string \<Rightarrow> BookingDb \<Rightarrow> ShipmentLockRow list" where
  "otherRows shop sid bdb = filter (\<lambda>r. \<not> isShipment shop sid r) (bd_shipments bdb)"

lemma otherRows_sel [simp]:
  "otherRows shop sid (bdb\<lparr>bd_intents := its\<rparr>) = otherRows shop sid bdb"
  "otherRows shop sid (callOut c bdb) = otherRows shop sid bdb"
  by (simp_all add: otherRows_def callOut_def)

lemma updateBooking_others:
  assumes "updateBooking shop sid c f g db = Some (db', n)"
    and "\<And>r. isShipment shop sid (f r) = isShipment shop sid r"
  shows "otherRows shop sid (rdb_booking db') = otherRows shop sid (rdb_booking db)"
proof -
  have "filter (\<lambda>r. \<not> isShipment shop sid r) (map (\<lambda>r. if isShipment shop sid r \<and> c r then f r else r) xs)
      = filter (\<lambda>r. \<not> isShipment shop sid r) xs" for xs
    using assms(2) by (induction xs) auto
  then show ?thesis using assms(1) by (auto simp: otherRows_def updateBooking_Some updateShipments_Some)
qed

lemma updateBooking_more:
  assumes "updateBooking shop sid c f g db = Some (db', n)"
  shows "bd_intents (rdb_booking db') = bd_intents (rdb_booking db)"
    "bd_calls (rdb_booking db') = bd_calls (rdb_booking db)"
    "map bs_shipment_id (bd_shipments (rdb_booking db')) = map bs_shipment_id (map (\<lambda>r. if isShipment shop sid r \<and> c r then f r else r) (bd_shipments (rdb_booking db)))"
    "RuleDb.more db' = RuleDb.more db" "rdb_quotes db' = rdb_quotes db"
  using assms by (auto simp: updateBooking_Some updateShipments_Some setColumns_def)

lemma updateBooking_queue:
  assumes "updateBooking shop sid c f g (db :: 'a QueueDb_scheme) = Some (db', n)"
  shows "qdb_jobs db' = qdb_jobs db" "qdb_snapshots db' = qdb_snapshots db"
  using assms by (auto simp: updateBooking_Some setColumns_def)

lemma seals_queue [simp]:
  "qdb_jobs (sealServiceVersion i db) = qdb_jobs db" "qdb_snapshots (sealServiceVersion i db) = qdb_snapshots db"
  "qdb_jobs (sealRateCardVersion shop i db) = qdb_jobs db" "qdb_snapshots (sealRateCardVersion shop i db) = qdb_snapshots db"
  "qdb_jobs (sealZoneMap shop i db) = qdb_jobs db" "qdb_snapshots (sealZoneMap shop i db) = qdb_snapshots db"
  by (simp_all add: sealServiceVersion_def sealRateCardVersion_def sealZoneMap_def split: option.splits)

lemma isShipment_queuedRow [simp]: "isShipment shop sid (queuedRow f p b sn s) = isShipment shop sid s"
  by (simp add: isShipment_def)

text \<open>The row from which the shipment is queued: itself when it is DRAFT, else the row re-entered.\<close>

definition draftOf :: "ShipmentLockRow \<Rightarrow> ShipmentLockRow" where
  "draftOf s = (if bs_booking_state s = DRAFT then s else setState DRAFT s)"

lemma draftOf_sel [simp]:
  "bs_shipment_id (draftOf s) = bs_shipment_id s" "bs_order_id (draftOf s) = bs_order_id s"
  "bs_booking_state (draftOf s) = DRAFT" "bs_snapshot (draftOf s) = bs_snapshot s"
  by (simp_all add: draftOf_def)

lemma reenterDraft_Inr:
  assumes "reenterDraft inp s db = (Inr u, db')"
    "findShipment (rdb_booking db) (qi_shopId inp) (qi_shipmentId inp) = Some s"
  shows "findShipment (rdb_booking db') (qi_shopId inp) (qi_shipmentId inp) = Some (draftOf s)"
    "bd_intents (rdb_booking db') = bd_intents (rdb_booking db)" "qdb_jobs db' = qdb_jobs db"
    "map bs_shipment_id (bd_shipments (rdb_booking db')) = map bs_shipment_id (bd_shipments (rdb_booking db))"
    "bd_calls (rdb_booking db') = bd_calls (rdb_booking db)"
    "otherRows (qi_shopId inp) (qi_shipmentId inp) (rdb_booking db') = otherRows (qi_shopId inp) (qi_shipmentId inp) (rdb_booking db)"
  using assms updateBooking_find [OF _ assms(2), where c = "\<lambda>r. bs_booking_state r = bs_booking_state s" and f = "setState DRAFT"]
  by (auto simp: reenterDraft_def draftOf_def updateBooking_more updateBooking_queue updateBooking_others
      split: if_splits option.splits)

lemma moveToQueued_Inr:
  assumes "moveToQueued now inp f price db = (Inr u, db')"
    "findShipment (rdb_booking db) (qi_shopId inp) (qi_shipmentId inp) = Some s" "bs_booking_state s = DRAFT"
    "distinct (map bs_shipment_id (bd_shipments (rdb_booking db)))"
  obtains paise where "rupeesToPaise (bf_collectible f) = Inr paise"
    "findShipment (rdb_booking db') (qi_shopId inp) (qi_shipmentId inp)
       = Some (queuedRow f paise (expectedCostBasis (xp_quote price)) (frozenSnapshot now f price) s)"
    "\<And>row. bs_collectible row = paise \<Longrightarrow> bs_order_id row = bs_order_id s \<Longrightarrow> bs_shipment_id row = bs_shipment_id s
       \<Longrightarrow> enforceSingleCollectible (rdb_booking db') row"
    "bd_intents (rdb_booking db') = bd_intents (rdb_booking db)" "qdb_jobs db' = qdb_jobs db"
    "bd_calls (rdb_booking db') = bd_calls (rdb_booking db)"
    "qdb_snapshots db' (qi_shipmentId inp) = Some (frozenSnapshot now f price)"
    "map bs_shipment_id (bd_shipments (rdb_booking db')) = map bs_shipment_id (bd_shipments (rdb_booking db))"
    "otherRows (qi_shopId inp) (qi_shipmentId inp) (rdb_booking db') = otherRows (qi_shopId inp) (qi_shipmentId inp) (rdb_booking db)"
proof -
  let ?shop = "qi_shopId inp" and ?sid = "qi_shipmentId inp"
  let ?u = "\<lambda>paise. updateBooking ?shop ?sid (\<lambda>r. bs_booking_state r = DRAFT)
        (queuedRow f paise (expectedCostBasis (xp_quote price)) (frozenSnapshot now f price)) (queuedColumns f) db"
  from assms(1) obtain paise where p: "rupeesToPaise (bf_collectible f) = Inr paise"
    and w: "(case ?u paise of None \<Rightarrow> (Inl QueueGuardRaised, db)
       | Some (db, n) \<Rightarrow> if n \<noteq> 1 then (Inl (QueueRowsAffected n), db)
           else (Inr (), db\<lparr>qdb_snapshots := (qdb_snapshots db)(?sid \<mapsto> frozenSnapshot now f price)\<rparr>)) = (Inr u, db')"
    unfolding moveToQueued_def bindX_Inr liftQ_Inr by blast
  then obtain db1 where u: "?u paise = Some (db1, 1)"
    and db': "db' = db1\<lparr>qdb_snapshots := (qdb_snapshots db1)(?sid \<mapsto> frozenSnapshot now f price)\<rparr>"
    by (cases "?u paise") (auto split: if_split_asm)
  from u obtain bdb where b: "updateShipments True (\<lambda>r. isShipment ?shop ?sid r \<and> bs_booking_state r = DRAFT)
        (queuedRow f paise (expectedCostBasis (xp_quote price)) (frozenSnapshot now f price)) (rdb_booking db) = Some (bdb, 1)"
    "rdb_booking db1 = bdb" by (auto simp: updateBooking_Some)
  note s = find_shipment [OF assms(2)]
  have "enforceSingleCollectible (rdb_booking db') row"
    if "bs_collectible row = paise" "bs_order_id row = bs_order_id s" "bs_shipment_id row = bs_shipment_id s" for row
    using accepted_again [OF b(1), of s row] s assms(3) that by (auto simp: db' b(2) isShipment_def)
  moreover note updateBooking_find [OF u assms(2)] assms(3) updateBooking_more [OF u] updateBooking_queue [OF u] updateBooking_others [OF u]
  ultimately show ?thesis by (intro that [OF p]) (simp_all add: db' comp_def if_distrib cong: if_cong)
qed

text \<open>Everything a committed booking has written.\<close>

lemma writeBooking_Inr:
  assumes "writeBooking env inp f price db = (Inr b, db')"
    "findShipment (rdb_booking db) (qi_shopId inp) (qi_shipmentId inp) = Some (bf_shipment f)"
    "distinct (map bs_shipment_id (bd_shipments (rdb_booking db)))"
  obtains paise where "rupeesToPaise (bf_collectible f) = Inr paise"
    "findShipment (rdb_booking db') (qi_shopId inp) (qi_shipmentId inp) = Some (queuedRow f paise
       (expectedCostBasis (xp_quote price)) (frozenSnapshot (re_now env) f price) (draftOf (bf_shipment f)))"
    "\<And>row. bs_collectible row = paise \<Longrightarrow> bs_order_id row = bs_order_id (bf_shipment f)
       \<Longrightarrow> bs_shipment_id row = bs_shipment_id (bf_shipment f) \<Longrightarrow> enforceSingleCollectible (rdb_booking db') row"
    "bd_intents (rdb_booking db') = bd_intents (rdb_booking db) @ [newIntent env inp f (rdb_booking db)]"
    "bi_merchant_reference (newIntent env inp f (rdb_booking db)) \<notin> bi_merchant_reference ` set (bd_intents (rdb_booking db))"
    "bd_calls (rdb_booking db') = bd_calls (rdb_booking db)"
    "qdb_jobs db' = qdb_jobs db" "qdb_snapshots db' (qi_shipmentId inp) = Some (frozenSnapshot (re_now env) f price)"
    "qb_bookingIntentId b = bi_booking_intent_id (newIntent env inp f (rdb_booking db))"
    "qb_merchantReference b = bi_merchant_reference (newIntent env inp f (rdb_booking db))"
    "map bs_shipment_id (bd_shipments (rdb_booking db')) = map bs_shipment_id (bd_shipments (rdb_booking db))"
    "otherRows (qi_shopId inp) (qi_shipmentId inp) (rdb_booking db') = otherRows (qi_shopId inp) (qi_shipmentId inp) (rdb_booking db)"
proof -
  let ?bdb = "rdb_booking db"
  let ?d = "sealZoneMap (qi_shopId inp) (xp_zoneMapId price) (sealRateCardVersion (qi_shopId inp)
      (xp_rateCardVersionId price) (sealServiceVersion (map_option sv_service_version_id (bf_serviceVersion f))
        (db\<lparr>rdb_booking := ?bdb\<lparr>bd_intents := bd_intents ?bdb @ [newIntent env inp f ?bdb]\<rparr>\<rparr>)))"
  from assms(1) obtain d1 d2 u v w where fresh: "bi_merchant_reference (newIntent env inp f ?bdb) \<notin> bi_merchant_reference ` set (bd_intents ?bdb)"
    and r: "reenterDraft inp (bf_shipment f) ?d = (Inr u, d1)"
    and m: "moveToQueued (re_now env) inp f price d1 = (Inr v, d2)"
    and q: "bindQuote inp f price d2 = (Inr w, db')"
    and b: "qb_bookingIntentId b = bi_booking_intent_id (newIntent env inp f ?bdb)"
      "qb_merchantReference b = bi_merchant_reference (newIntent env inp f ?bdb)"
    unfolding writeBooking_def Let_def by (auto simp: bindX_Inr split: if_splits)
  have "findShipment (rdb_booking ?d) (qi_shopId inp) (qi_shipmentId inp) = Some (bf_shipment f)"
    using assms(2) by (simp add: findShipment_def)
  note r = reenterDraft_Inr [OF r this]
  have same: "rdb_booking db' = rdb_booking d2" "qdb_jobs db' = qdb_jobs d2" "qdb_snapshots db' = qdb_snapshots d2"
    using q by (auto simp: bindQuote_def split: option.splits sum.splits)
  have "distinct (map bs_shipment_id (bd_shipments (rdb_booking d1)))" using r(4) assms(3) by simp
  from m r(1) draftOf_sel(3) this show ?thesis
  proof (rule moveToQueued_Inr)
    fix paise assume "rupeesToPaise (bf_collectible f) = Inr paise"
      "findShipment (rdb_booking d2) (qi_shopId inp) (qi_shipmentId inp) = Some (queuedRow f paise
         (expectedCostBasis (xp_quote price)) (frozenSnapshot (re_now env) f price) (draftOf (bf_shipment f)))"
      "\<And>row. bs_collectible row = paise \<Longrightarrow> bs_order_id row = bs_order_id (draftOf (bf_shipment f))
         \<Longrightarrow> bs_shipment_id row = bs_shipment_id (draftOf (bf_shipment f)) \<Longrightarrow> enforceSingleCollectible (rdb_booking d2) row"
      "bd_intents (rdb_booking d2) = bd_intents (rdb_booking d1)" "qdb_jobs d2 = qdb_jobs d1"
      "bd_calls (rdb_booking d2) = bd_calls (rdb_booking d1)"
      "qdb_snapshots d2 (qi_shipmentId inp) = Some (frozenSnapshot (re_now env) f price)"
      "map bs_shipment_id (bd_shipments (rdb_booking d2)) = map bs_shipment_id (bd_shipments (rdb_booking d1))"
      "otherRows (qi_shopId inp) (qi_shipmentId inp) (rdb_booking d2) = otherRows (qi_shopId inp) (qi_shipmentId inp) (rdb_booking d1)"
    with r same fresh b show ?thesis by (intro that [of paise]) simp_all
  qed
qed

end
