(* ===== verification/Queue_Example.thy ===== *)
theory Queue_Example
  imports Queue_Cases Pricing_Laws
begin

text \<open>
  One shop with one Service, priced by a rate card or without a price, and one order with its
  shipments: the concrete input at which the properties of queueing are evaluated.
\<close>

definition exampleWorking :: WorkingValues where
  "exampleWorking = \<lparr>wv_recipient = Some \<lparr>sr_name = Some ''Asha'', sr_addressLines = [''1 Road''],
       sr_city = Some ''Delhi'', sr_state = Some ''Delhi'', sr_pincode = Some ''110001'',
       sr_phone = Some ''9876543210'', sr_email = None\<rparr>,
     wv_lines = [\<lparr>wl_orderLineId = ''l1'', wl_shopifyLineGid = None, wl_sku = None, wl_title = None,
       wl_variant = None, wl_quantity = 1, wl_unitPrice = None, wl_tags = [], wl_hsnCode = None,
       wl_vendor = None, wl_collections = []\<rparr>],
     wv_payment = Some \<lparr>wy_mode = COD, wy_gatewayNames = [], wy_collectible = ''999.00''\<rparr>,
     wv_fulfillmentOrderGids = [],
     wv_weight = Some \<lparr>dw_deadWeightKg = ''1.200'', dw_lineWeightTotalKg = ''1.100'', dw_tareKg = ''0.100'',
       dw_usedDefaultParcelWeight = False, dw_lines = []\<rparr>,
     wv_packageProfile = Some \<lparr>wp_packageProfileId = ''p1'', wp_source = ''SHOP_DEFAULT'', wp_lengthCm = ''10.00'',
       wp_widthCm = ''10.00'', wp_heightCm = ''10.00'', wp_tareKg = ''0.100''\<rparr>,
     wv_routing = None\<rparr>"

definition exampleColumns :: ShipmentColumns where
  "exampleColumns = \<lparr>sh_pickup_location_id = Some ''loc'', sh_service_id = Some ''svc'',
     sh_service_version_id = None, sh_manual_assignment_reason = None,
     sh_working_values = Some exampleWorking\<rparr>"

definition exampleVersion :: RateCardVersionRow where
  "exampleVersion = \<lparr>rv_rate_card_version_id = ''v1'', rv_rate_card_id = ''card'', rv_effective_from = 0,
     rv_effective_to = None, rv_zone_map_id = ''map'', rv_fuel_pct = ''0.10'', rv_cod_flat = ''30.00'',
     rv_cod_pct = ''0.015'', rv_rto_basis = SAME_AS_FORWARD, rv_rto_pct = None, rv_gst_pct = ''0.18'',
     rv_taxable_components = [''F-5'', ''F-6'', ''F-7'', ''F-8''], rv_is_sealed = False, rv_version = 1\<rparr>"

definition exampleQueueDb :: "CostSource \<Rightarrow> ShipmentLockRow list \<Rightarrow> QueueDb" where
  "exampleQueueDb source ships = \<lparr>
     rdb_pickups = [\<lparr>pk_pickup_location_id = ''loc'', pk_shop_id = ''shop'', pk_is_active = True,
       pk_name = ''Store'', pk_contact_name = None, pk_phone = None, pk_address_lines = [], pk_city = None,
       pk_state = None, pk_pincode = Some ''560001'', pk_gstin = None\<rparr>],
     rdb_cards = [\<lparr>rk_rate_card_id = ''card'', rk_shop_id = ''shop'', rk_service_id = ''svc''\<rparr>],
     rdb_versions = [exampleVersion],
     rdb_slabs = [\<lparr>rl_rate_card_version_id = ''v1'', rl_slab = \<lparr>sl_zone = ZA, sl_baseWeightKg = ''0.500'',
       sl_baseRate = ''40.00'', sl_additionalStepKg = ''0.500'', sl_additionalRate = ''15.00''\<rparr>\<rparr>],
     rdb_components = [],
     rdb_service_versions = [\<lparr>sv_service_version_id = ''sv1'', sv_service_id = ''svc'', sv_effective_from = 0,
       sv_volumetric_divisor = Some ''5000'', sv_min_billable_kg = Some ''0.500'',
       sv_billable_increment_kg = Some ''0.100'',
       sv_is_sealed = False\<rparr>],
     rdb_zone_maps = [\<lparr>zm_zone_map_id = ''map'', zm_shop_id = ''shop'', zm_postal_version_id = ''pv'',
       zm_is_sealed = False, zm_version = 1\<rparr>],
     rdb_zone_rules = [\<lparr>zu_zone_map_id = ''map'', zu_rule = \<lparr>zr_originMatcher = [(A_is_metro, PFlag True)],
       zr_destinationMatcher = [(A_is_metro, PFlag True)], zr_zone = ZA, zr_position = 1\<rparr>\<rparr>],
     rdb_pincodes = [\<lparr>pp_postal_version_id = ''pv'', pp_pincode = ''560001'', pp_city = None, pp_district = None,
         pp_state = None, pp_region = None, pp_is_metro = True, pp_is_special = False\<rparr>,
       \<lparr>pp_postal_version_id = ''pv'', pp_pincode = ''110001'', pp_city = None, pp_district = None,
         pp_state = None, pp_region = None, pp_is_metro = True, pp_is_special = False\<rparr>],
     rdb_quotes = [], rdb_rules = [], rdb_groups = [], rdb_conditions = [], rdb_action_services = [],
     rdb_saved_zones = [],
     rdb_merchant_services = [\<lparr>ms_merchant_service_id = ''ms'', ms_shop_id = ''shop'',
       ms_courier_account_id = ''acc'', ms_service_id = ''svc'', ms_enabled = True,
       ms_priority_tiebreak_order = 0\<rparr>],
     rdb_services = [\<lparr>sc_service_id = ''svc'', sc_code = ''SURFACE'', sc_name = ''Surface'',
       sc_cost_source = source, sc_is_active = True\<rparr>],
     rdb_accounts = [\<lparr>ac_courier_account_id = ''acc'', ac_disabled = False,
       ac_has_test_credentials = False, ac_has_live_credentials = True\<rparr>],
     rdb_default_chains = [(''shop'', Some [''ms''])], rdb_timezones = [], rdb_postal_versions = [],
     rdb_orders = [\<lparr>or_order_id = ''order'', or_shop_id = ''shop'', or_shopify_order_gid = None,
       or_payment_mode = COD, or_order_amount = Some ''1999.99'', or_cod_outstanding = Some ''999.00'',
       or_checkout_shipping_title = None, or_checkout_shipping_amount = None, or_risk_flag = None\<rparr>],
     rdb_columns = (\<lambda>_. exampleColumns), rdb_booking = exampleBooking ships, rdb_traces = [],
     qdb_account_states = [(''shop'', ACTIVE)], qdb_profiles = [],
     qdb_terms = [(''sub'', \<lparr>st_capped_amount = None, st_awb_allowance_per_cycle = 100\<rparr>)],
     qdb_snapshots = (\<lambda>_. None), qdb_jobs = []\<rparr>"

definition exampleEnv :: "bool \<Rightarrow> QueueEnv" where
  "exampleEnv up = \<lparr>re_getQuote = (\<lambda>_ _ _. Inl AdapterTimeoutError), re_now = 0, re_tzOffset = (\<lambda>_ _. Some 0),
     re_legacyParse = (\<lambda>_. None), re_audit_up = True, re_queue_up = up, qe_sha256 = (\<lambda>t. t),
     qe_intentId = (\<lambda>n. replicate n (CHR ''i'') @ ''new''), qe_gap = (\<lambda>db. db)\<rparr>"

definition exampleInput :: "string option \<Rightarrow> int option \<Rightarrow> QueueBookingInput" where
  "exampleInput service version = \<lparr>qi_shopId = ''shop'', qi_shipmentId = ''s1'', qi_actorId = None,
     qi_serviceId = service, qi_packageProfileId = None, qi_expectedVersion = version\<rparr>"

section \<open>Reads\<close>

lemma example_sel [simp]:
  "rdb_pickups (exampleQueueDb c ss) = [\<lparr>pk_pickup_location_id = ''loc'', pk_shop_id = ''shop'', pk_is_active = True,
       pk_name = ''Store'', pk_contact_name = None, pk_phone = None, pk_address_lines = [], pk_city = None,
       pk_state = None, pk_pincode = Some ''560001'', pk_gstin = None\<rparr>]"
  "rdb_merchant_services (exampleQueueDb c ss) = [\<lparr>ms_merchant_service_id = ''ms'', ms_shop_id = ''shop'',
       ms_courier_account_id = ''acc'', ms_service_id = ''svc'', ms_enabled = True, ms_priority_tiebreak_order = 0\<rparr>]"
  "rdb_services (exampleQueueDb c ss) = [\<lparr>sc_service_id = ''svc'', sc_code = ''SURFACE'', sc_name = ''Surface'',
       sc_cost_source = c, sc_is_active = True\<rparr>]"
  "rdb_accounts (exampleQueueDb c ss) = [\<lparr>ac_courier_account_id = ''acc'', ac_disabled = False,
       ac_has_test_credentials = False, ac_has_live_credentials = True\<rparr>]"
  "rdb_orders (exampleQueueDb c ss) = [\<lparr>or_order_id = ''order'', or_shop_id = ''shop'', or_shopify_order_gid = None,
       or_payment_mode = COD, or_order_amount = Some ''1999.99'', or_cod_outstanding = Some ''999.00'',
       or_checkout_shipping_title = None, or_checkout_shipping_amount = None, or_risk_flag = None\<rparr>]"
  "rdb_service_versions (exampleQueueDb c ss) = [\<lparr>sv_service_version_id = ''sv1'', sv_service_id = ''svc'',
       sv_effective_from = 0, sv_volumetric_divisor = Some ''5000'', sv_min_billable_kg = Some ''0.500'',
       sv_billable_increment_kg = Some ''0.100'', sv_is_sealed = False\<rparr>]"
  "rdb_columns (exampleQueueDb c ss) sid = exampleColumns" "rdb_booking (exampleQueueDb c ss) = exampleBooking ss"
  "qdb_account_states (exampleQueueDb c ss) = [(''shop'', ACTIVE)]" "qdb_profiles (exampleQueueDb c ss) = []"
  "qdb_terms (exampleQueueDb c ss) = [(''sub'', \<lparr>st_capped_amount = None, st_awb_allowance_per_cycle = 100\<rparr>)]"
  by (simp_all add: exampleQueueDb_def)

lemma exampleEnv_sel [simp]:
  "re_now (exampleEnv up) = 0" "re_audit_up (exampleEnv up)" "re_queue_up (exampleEnv up) = up"
  "qe_intentId (exampleEnv up) n = replicate n (CHR ''i'') @ ''new''" "qe_gap (exampleEnv up) db = db"
  by (simp_all add: exampleEnv_def)

lemma wf_exampleEnv [simp]: "wfQueueEnv (exampleEnv up)"
  by (simp add: wfQueueEnv_def)

lemma exampleInput_sel [simp]:
  "qi_shopId (exampleInput sv v) = ''shop''" "qi_shipmentId (exampleInput sv v) = ''s1''"
  "qi_serviceId (exampleInput sv v) = sv" "qi_packageProfileId (exampleInput sv v) = None"
  "qi_expectedVersion (exampleInput sv v) = v"
  by (simp_all add: exampleInput_def)

definition exampleSelection :: "CostSource \<Rightarrow> SelectionRow" where
  "exampleSelection c = \<lparr>sel_merchant_service_id = ''ms'', sel_courier_account_id = ''acc'', sel_service_id = ''svc'',
     sel_enabled = True, sel_service_code = ''SURFACE'', sel_service_name = ''Surface'', sel_cost_source = c,
     sel_service_active = True, sel_account_mode = MODE_LIVE, sel_account_disabled = False,
     sel_has_test_credentials = False, sel_has_live_credentials = True\<rparr>"

lemma example_selection:
  "resolveSelection (exampleQueueDb c ss) ''shop'' stored (Some ''svc'') = (Some (exampleSelection c), False)"
  by (simp add: resolveSelection_def explicitService_def selectionRows_def selectionRow_def joinedService_def
      serviceById_def accountById_def exampleBooking_def exampleSelection_def List.map_filter_def)

definition exampleFacts :: "CostSource \<Rightarrow> string \<Rightarrow> ShipmentLockRow \<Rightarrow> BookingFacts" where
  "exampleFacts c collectible s = \<lparr>bf_shipment = s, bf_columns = exampleColumns,
     bf_order = Some \<lparr>or_order_id = ''order'', or_shop_id = ''shop'', or_shopify_order_gid = None,
       or_payment_mode = COD, or_order_amount = Some ''1999.99'', or_cod_outstanding = Some ''999.00'',
       or_checkout_shipping_title = None, or_checkout_shipping_amount = None, or_risk_flag = None\<rparr>,
     bf_selection = exampleSelection c,
     bf_packageProfile = Some \<lparr>ng_packageProfileId = ''p1'', ng_lengthCm = ''10.00'', ng_widthCm = ''10.00'',
       ng_heightCm = ''10.00'', ng_tareKg = ''0.100'', ng_source = ''SHOP_DEFAULT''\<rparr>,
     bf_deadWeightKg = Some ''1.200'',
     bf_serviceVersion = Some \<lparr>sv_service_version_id = ''sv1'', sv_service_id = ''svc'',
       sv_effective_from = 0, sv_volumetric_divisor = Some ''5000'', sv_min_billable_kg = Some ''0.500'',
       sv_billable_increment_kg = Some ''0.100'', sv_is_sealed = False\<rparr>,
     bf_pickup = Some \<lparr>pk_pickup_location_id = ''loc'', pk_shop_id = ''shop'', pk_is_active = True,
       pk_name = ''Store'', pk_contact_name = None, pk_phone = None, pk_address_lines = [], pk_city = None,
       pk_state = None, pk_pincode = Some ''560001'', pk_gstin = None\<rparr>,
     bf_paymentMode = COD, bf_collectible = collectible, bf_shipDate = 0\<rparr>"

lemma example_facts:
  assumes "bs_order_id s = ''order''" "bs_shop_id s = ''shop''"
    "siblingCarries (exampleBooking ss) ''shop'' ''order'' (bs_shipment_id s) \<longleftrightarrow> carried"
  shows "gatherFacts 0 (exampleQueueDb c ss) (exampleInput sv v) s (exampleSelection c)
    = Inr (exampleFacts c (if carried then ''0.00'' else ''999.00'') s)"
  using assms
  by (simp add: gatherFacts_def Let_def exampleFacts_def exampleColumns_def exampleWorking_def paymentModeOf_def
      orderById_def profileOverride_def chosenWeight_def chosenProfile_def currentServiceVersion_def
      pickupById_def claimedCollectible_def exampleSelection_def)

lemma example_blocks:
  assumes "collectible \<in> {''0.00'', ''999.00''}"
  shows "hardBlocks (exampleQueueDb c ss) ''shop'' (exampleFacts c collectible s) = Inr []"
  using assms
  by (auto simp: hardBlocks_def exampleFacts_def exampleSelection_def isBookable_def evaluateEligibility_def
      eligibilityInput_def bf_working_def exampleColumns_def exampleWorking_def failing_def text_eval
      validPincode_def validPhone_def nonBlank_def positiveDimension_iff Let_def)

lemma example_entitlement: "entitlementBlock (exampleQueueDb c ss) ''shop'' = Inr None"
  by (simp add: entitlementBlock_def activeCycle_def lastSuch_def exampleBooking_def allowanceBalance_def
      entryCount_def Let_def)

lemma example_weights:
  "bookingWeights (exampleFacts c collectible s) = Inr (Some \<lparr>wb_volumetricWeightKg = ''0.200'',
     wb_rawChargeableKg = ''1.200'', wb_billableWeightKg = ''1.200''\<rparr>)"
proof -
  have "computeWeights \<lparr>wt_deadWeightKg = ''1.200'', wt_lengthCm = ''10.00'', wt_widthCm = ''10.00'',
      wt_heightCm = ''10.00'', wt_divisor = Some ''5000'', wt_minBillableKg = Some ''0.500'', wt_incrementKg = Some ''0.100''\<rparr>
    = Inr (Some \<lparr>wb_volumetricWeightKg = ''0.200'', wb_rawChargeableKg = ''1.200'', wb_billableWeightKg = ''1.200''\<rparr>)"
    by code_simp
  then show ?thesis by (simp add: bookingWeights_def exampleFacts_def)
qed

definition examplePrice :: ExpectedPrice where
  "examplePrice = \<lparr>xp_weights = Some \<lparr>wb_volumetricWeightKg = ''0.200'', wb_rawChargeableKg = ''1.200'',
     wb_billableWeightKg = ''1.200''\<rparr>, xp_quote = None, xp_rateCardVersionId = None, xp_zoneMapId = None, xp_zone = None\<rparr>"

lemma example_price:
  "expectedPrice g now shop (exampleFacts NONE_SOURCE collectible s) db = (Inr examplePrice, db)"
  by (simp add: expectedPrice_def bindX_def liftQ_def example_weights examplePrice_def)
    (simp add: exampleFacts_def exampleSelection_def)

lemma example_reference: "buildMerchantReference ''shop'' ''s1'' 2 = ''shop-s1-2''"
  by (simp add: buildMerchantReference_def text_eval)

section \<open>A booking that is queued\<close>

lemma example_update:
  assumes "bd_shipments (rdb_booking db) = [s]" "isShipment shop sid s" "c s" "guardShipmentRow s (f s)"
    "bs_shipment_id (f s) = bs_shipment_id s"
  shows "\<exists>db'. updateBooking shop sid c f g db = Some (db', 1)"
  using assms by (auto simp: updateBooking_def updateShipments_def enforceSingleCollectible_def)

definition exampleDraft :: QueueDb where
  "exampleDraft = exampleQueueDb NONE_SOURCE [exampleShipment ''s1'' DRAFT None]"

lemma example_draft_writes:
  "\<exists>b d. writeBooking (exampleEnv up) (exampleInput sv v)
     (exampleFacts NONE_SOURCE ''999.00'' (exampleShipment ''s1'' DRAFT None)) examplePrice exampleDraft = (Inr b, d)"
proof -
  have n: "newIntent (exampleEnv up) (exampleInput sv v)
      (exampleFacts NONE_SOURCE ''999.00'' (exampleShipment ''s1'' DRAFT None)) (exampleBooking ss)
    = \<lparr>bi_booking_intent_id = ''inew'', bi_shipment_id = ''s1'', bi_outcome = IO_IN_FLIGHT,
        bi_merchant_reference = ''shop-s1-2'', bi_request_digest = digestOf (exampleEnv up) (exampleInput sv v) ''shop-s1-2''
          (exampleFacts NONE_SOURCE ''999.00'' (exampleShipment ''s1'' DRAFT None)), bi_resolved_by = None\<rparr>" for ss
    by (simp add: newIntent_def referenceOf_def attemptOf_def exampleBooking_def exampleIntent_def example_reference)
  have paise: "rupeesToPaise ''999.00'' = Inr 99900" by (simp add: text_eval)
  have seals: "bd_shipments (rdb_booking (sealServiceVersion x (exampleDraft\<lparr>rdb_booking := exampleBooking ss\<lparr>bd_intents := its\<rparr>\<rparr>))) = ss" for x ss its
    by (simp add: exampleBooking_def)
  let ?f = "exampleFacts NONE_SOURCE ''999.00'' (exampleShipment ''s1'' DRAFT None)"
  have move: "\<exists>d'. moveToQueued 0 (exampleInput sv v) ?f examplePrice d = (Inr (), d')"
    if "bd_shipments (rdb_booking d) = [exampleShipment ''s1'' DRAFT None]" for d :: QueueDb
    using example_update [OF that, of "''shop''" "''s1''" "\<lambda>r. bs_booking_state r = DRAFT"
        "queuedRow ?f 99900 (expectedCostBasis (xp_quote examplePrice)) (frozenSnapshot 0 ?f examplePrice)" "queuedColumns ?f"]
    by (auto simp: moveToQueued_def bindX_def liftQ_def exampleFacts_def paise exampleShipment_def isShipment_def guardShipmentRow_def)
  have no: "xp_rateCardVersionId examplePrice = None" "xp_zoneMapId examplePrice = None" "xp_quote examplePrice = None"
    by (simp_all add: examplePrice_def)
  have draft: "reenterDraft inp (bf_shipment ?f) d = (Inr (), d)" for inp and d :: QueueDb
    by (simp add: reenterDraft_def exampleFacts_def exampleShipment_def)
  have fresh: "''shop-s1-2'' \<notin> bi_merchant_reference ` set (bd_intents (exampleBooking ss))" for ss
    by (simp add: exampleBooking_def exampleIntent_def)
  have ship: "rdb_booking exampleDraft = exampleBooking [exampleShipment ''s1'' DRAFT None]" by (simp add: exampleDraft_def)
  let ?d = "sealServiceVersion (map_option sv_service_version_id (bf_serviceVersion ?f)) (exampleDraft\<lparr>rdb_booking :=
      (exampleBooking [exampleShipment ''s1'' DRAFT None])\<lparr>bd_intents := bd_intents (exampleBooking [exampleShipment ''s1'' DRAFT None])
        @ [newIntent (exampleEnv up) (exampleInput sv v) ?f (exampleBooking [exampleShipment ''s1'' DRAFT None])]\<rparr>\<rparr>)"
  obtain d' where "moveToQueued 0 (exampleInput sv v) ?f examplePrice ?d = (Inr (), d')"
    using move [OF seals] by blast
  then show ?thesis
    using fresh by (simp add: writeBooking_def Let_def ship bindX_def draft bindQuote_def no truthy_def
        sealRateCardVersion_def sealZoneMap_def n)
qed

lemma example_draft_queued:
  assumes "v \<in> {None, Some 1}"
  obtains f b d where "queueTx (exampleEnv up) (exampleInput (Some ''svc'') v) exampleDraft = (Inr (TxQueued f b), d)"
proof -
  let ?s = "exampleShipment ''s1'' DRAFT None"
  have find: "findShipment (rdb_booking exampleDraft) ''shop'' ''s1'' = Some ?s"
    by (simp add: exampleDraft_def exampleBooking_def findShipment_def isShipment_def exampleShipment_def)
  have row: "bs_booking_state ?s = DRAFT" "bs_version ?s = 1" "bs_order_id ?s = ''order''" "bs_shop_id ?s = ''shop''"
      "bs_shipment_id ?s = ''s1''" by (simp_all add: exampleShipment_def)
  have "gatherFacts 0 exampleDraft (exampleInput (Some ''svc'') v) ?s (exampleSelection NONE_SOURCE)
      = Inr (exampleFacts NONE_SOURCE ''999.00'' ?s)"
    unfolding exampleDraft_def by (subst example_facts [where carried = False])
      (simp_all add: row siblingCarries_def exampleBooking_def)
  moreover obtain b d where "writeBooking (exampleEnv up) (exampleInput (Some ''svc'') v)
     (exampleFacts NONE_SOURCE ''999.00'' ?s) examplePrice exampleDraft = (Inr b, d)" using example_draft_writes by blast
  ultimately have "queueTx (exampleEnv up) (exampleInput (Some ''svc'') v) exampleDraft
      = (Inr (TxQueued (exampleFacts NONE_SOURCE ''999.00'' ?s) b), d)"
    using find row assms example_blocks [of "''999.00''" NONE_SOURCE "[?s]" ?s] example_entitlement [of NONE_SOURCE "[?s]"]
      example_selection [of NONE_SOURCE "[?s]", folded exampleDraft_def]
    by (auto simp: queueTx_def queueBody_def bookableStates_def versionConflict_def accountBlocked_def
        blockedAccountStates_def bookSelected_def bookFacts_def bookPriced_def bindX_def liftQ_def
        example_price exampleDraft_def [symmetric] examplePrice_def)
      (simp_all add: exampleDraft_def blockedAccountStates_def)
  then show ?thesis by (rule that)
qed

lemma example_draft_booking:
  "rdb_booking exampleDraft = exampleBooking [exampleShipment ''s1'' DRAFT None]" "rdb_quotes exampleDraft = []"
  by (simp_all add: exampleDraft_def) (simp add: exampleQueueDb_def)

lemma example_draft_inv: "bookingInv (rdb_booking exampleDraft)"
  by (simp add: example_draft_booking bookingInv_def example_defs awbUnique_def singleCollectible_def
      ledgerJustified_def ledgerUnique_def)

lemma example_draft_found: "findShipment (rdb_booking exampleDraft) ''shop'' ''s1'' = Some (exampleShipment ''s1'' DRAFT None)"
  by (simp add: example_draft_booking exampleBooking_def findShipment_def isShipment_def exampleShipment_def)

lemma example_booked:
  assumes "v \<in> {None, Some 1}"
  obtains b db' where "bookInTx (exampleEnv True) (exampleInput (Some ''svc'') v) exampleDraft = (Inr (Queued b), db')"
proof (rule example_draft_queued [OF assms, of True])
  fix f b d assume "queueTx (exampleEnv True) (exampleInput (Some ''svc'') v) exampleDraft = (Inr (TxQueued f b), d)"
  then show ?thesis by (intro that) (simp add: bookInTx_def bindX_def announce_def Let_def)
qed

section \<open>A booking on the rate card\<close>

lemma example_tariff:
  "versionTariff (exampleQueueDb c ss) exampleVersion = exampleTariff\<lparr>tf_components := []\<rparr>"
  by (simp add: versionTariff_def slabsOf_def componentsOf_def exampleQueueDb_def exampleVersion_def exampleTariff_def)

lemma example_freight: "pricedTotal (computeFreight (exampleTariff\<lparr>tf_components := []\<rparr>) exampleArgs) = Some ''126.26''"
  by (simp add: pricedTotal_def computeFreight_def exampleEval text_eval)

lemma example_zone: "mapZone (exampleQueueDb c ss) \<lparr>zm_zone_map_id = ''map'', zm_shop_id = ''shop'', zm_postal_version_id = ''pv'',
       zm_is_sealed = False, zm_version = 1\<rparr> ''560001'' ''110001'' = Some ZA"
  by (simp add: mapZone_def zoneRulesOf_def pincodeAttributes_def exampleQueueDb_def) code_simp

lemma example_estimate:
  assumes "computeFreight (exampleTariff\<lparr>tf_components := []\<rparr>) exampleArgs = Inr (Priceable b)"
  shows "estimateCost 0 (exampleQueueDb RATE_CARD ss) (estimateInput ''shop'' (exampleFacts RATE_CARD ''999.00'' s))
    = Inr \<lparr>es_quote = pricedQuote 0 exampleVersion b, es_rateCardVersionId = Some ''v1'', es_zoneMapId = Some ''map''\<rparr>"
proof -
  let ?inp = "estimateInput ''shop'' (exampleFacts RATE_CARD ''999.00'' s)"
  let ?sv = "\<lparr>sv_service_version_id = ''sv1'', sv_service_id = ''svc'', sv_effective_from = 0,
      sv_volumetric_divisor = Some ''5000'', sv_min_billable_kg = Some ''0.500'',
      sv_billable_increment_kg = Some ''0.100'', sv_is_sealed = False\<rparr>"
  have w: "computeWeights (estimateTerms ?inp ?sv) = Inr (Some \<lparr>wb_volumetricWeightKg = ''0.200'',
      wb_rawChargeableKg = ''1.200'', wb_billableWeightKg = ''1.200''\<rparr>)"
    using example_weights [of RATE_CARD "''999.00''" s]
    by (simp add: bookingWeights_def exampleFacts_def estimateTerms_def estimateInput_def profileText_def valueOr_def)
  have inp: "ec_shopId ?inp = ''shop''" "ec_serviceId ?inp = ''svc''" "ec_destinationPincode ?inp = ''110001''"
      "ec_paymentMode ?inp = COD" "ec_collectible ?inp = ''999.00''" "ec_declaredValue ?inp = ''1999.99''" "ec_shipDate ?inp = 0"
    by (simp_all add: estimateInput_def exampleFacts_def exampleSelection_def bf_destinationPincode_def bf_working_def
        destinationOf_def exampleColumns_def exampleWorking_def bf_declaredValue_def valueOr_def)
  have args: "exampleArgs = \<lparr>fa_zone = Some ZA, fa_billableWeightKg = ''1.200'', fa_paymentMode = COD,
      fa_collectible = ''999.00'', fa_declaredValue = ''1999.99''\<rparr>" by (simp add: exampleArgs_def)
  have rows: "rdb_cards (exampleQueueDb RATE_CARD ss) = [\<lparr>rk_rate_card_id = ''card'', rk_shop_id = ''shop'', rk_service_id = ''svc''\<rparr>]"
      "rdb_versions (exampleQueueDb RATE_CARD ss) = [exampleVersion]"
      "zoneMapOf (exampleQueueDb RATE_CARD ss) ''shop'' ''map'' = Some \<lparr>zm_zone_map_id = ''map'', zm_shop_id = ''shop'',
         zm_postal_version_id = ''pv'', zm_is_sealed = False, zm_version = 1\<rparr>"
    by (simp_all add: exampleQueueDb_def zoneMapOf_def)
  have v: "rv_rate_card_id exampleVersion = ''card''" "rv_effective_from exampleVersion = 0" "rv_effective_to exampleVersion = None"
      "rv_zone_map_id exampleVersion = ''map''" "rv_rate_card_version_id exampleVersion = ''v1''"
    by (simp_all add: exampleVersion_def)
  show ?thesis
    by (simp add: estimateCost_def inp activePickup_def rateCardOf_def effectiveVersion_def rows v currentServiceVersion_def
        w example_zone priceLane_def example_tariff assms [unfolded args])
qed

end
