(* ===== verification/Queue_Properties.thy ===== *)
theory Queue_Properties
  imports Queue_Cases Queue_Example
begin

text \<open>
  The properties of queueing: the invariants of the booking tables, what a queued booking has
  written, and the calls that can never queue or whose booking is never made.
\<close>

section \<open>Refusals\<close>

lemma bookInTx_refused:
  assumes "queueBody env inp db = (Inr (TxRefused r), d)"
  shows "bookInTx env inp db = (Inr (NotQueued r), db)"
  using assms by (simp add: bookInTx_def queueTx_def announce_def bindX_def)

lemma bookInTx_queued:
  assumes "bookInTx env inp db = (Inr (Queued b), db')"
  obtains f d where "queueTx env inp db = (Inr (TxQueued f b), d)"
    "db' = callOutDb (AuditBooking ''booking.queued'' (qi_shipmentId inp)) d
       \<lparr>qdb_jobs := qdb_jobs d @ [jobOf inp f b]\<rparr>"
proof -
  obtain t d where t: "queueTx env inp db = (Inr t, d)" and a: "announce env inp t d = (Inr (Queued b), db')"
    using assms by (auto simp: bookInTx_def bindX_Inr)
  show ?thesis
  proof (cases t)
    case (TxQueued f c)
    with a t that [of f d] show ?thesis
      by (auto simp: announce_def Let_def callOutDb_def split: if_split_asm)
  qed (use a in \<open>auto simp: announce_def split: if_split_asm\<close>)
qed

lemma bookInTx_nothing:
  assumes "\<And>f b d. queueTx env inp db \<noteq> (Inr (TxQueued f b), d)" "\<And>d. queueTx env inp db \<noteq> (Inr TxParked, d)"
  shows "\<exists>r. bookInTx env inp db = (r, db) \<and> (\<forall>b. r \<noteq> Inr (Queued b))"
proof -
  obtain t d where t: "queueTx env inp db = (t, d)" by fastforce
  have d: "d = db" if "\<And>f b. t \<noteq> Inr (TxQueued f b)" "t \<noteq> Inr TxParked"
    using t that by (auto simp: queueTx_def split: prod.split_asm sum.split_asm QueueTx.split_asm)
  show ?thesis
  proof (cases t)
    case (Inl e)
    then show ?thesis using t d by (simp add: bookInTx_def bindX_def)
  next
    case (Inr x)
    then show ?thesis using t d assms by (cases x) (auto simp: bookInTx_def bindX_def announce_def)
  qed
qed

lemma queueBody_state:
  assumes "findShipment (rdb_booking db) (qi_shopId inp) (qi_shipmentId inp) = Some s"
    "bs_booking_state s \<notin> bookableStates"
  shows "queueBody env inp db = (Inr (TxRefused (QF_INVALID_STATE (bs_booking_state s))), db)"
  using assms by (simp add: queueBody_def)

lemma queueBody_conflict:
  assumes "findShipment (rdb_booking db) (qi_shopId inp) (qi_shipmentId inp) = Some s"
    "bs_booking_state s \<in> bookableStates" "versionConflict inp s"
  shows "queueBody env inp db = (Inr (TxRefused (QF_VERSION_CONFLICT (bs_booking_state s) (bs_version s))), db)"
  using assms by (simp add: queueBody_def)

text \<open>A shipment that is not DRAFT and not parked is not routed again.\<close>

lemma queueBooking_unrouted:
  assumes "findShipment (rdb_booking db) (qi_shopId inp) (qi_shipmentId inp) = Some s"
    "bs_booking_state s \<notin> {DRAFT, NEEDS_MANUAL_ASSIGNMENT}" "qe_gap env db = db"
  obtains (threw) e where "queueBooking env inp db = (Inl (RoutingThrew e), db)"
  | (booked) "queueBooking env inp db = bookInTx env inp db"
proof (cases "noOverride inp")
  case True
  obtain r d where e: "evaluateForShipment env (qi_shopId inp) (qi_shipmentId inp) db = (r, d)" by fastforce
  note q = queueBooking_def [of env inp db]
  from e show ?thesis
  proof (cases rule: evaluateForShipment_cases)
    case (failed x)
    then show ?thesis using threw q True e by simp
  next
    case (refused st)
    then show ?thesis using booked q True e assms(3) by (simp add: routingRefusal_def)
  next
    case (written s' inp' db1 result db2 n)
    then show ?thesis using loadForShipment_Some [OF written(1)] assms by auto
  qed
qed (use booked in \<open>simp add: queueBooking_def\<close>)

section \<open>Invariants\<close>

text \<open>
  C29: Queueing is a writer of the booking tables like the worker and cancellation.  Whatever the
  input, the courier's quotes and the writes other transactions commit between the routing and the
  booking transaction, a call of \<open>queueBooking\<close> that books, parks, refuses or throws keeps INV-6,
  INV-9, INV-12 and the uniqueness of ids, and a shipment that was booked keeps its AWB, its test
  flag and a final VOID.
\<close>

theorem queueing_keeps_booking_invariants:
  assumes "wfQueueEnv env" "bookingInv (rdb_booking db)" "queueBooking env inp db = (r, db')"
  shows "bookingInv (rdb_booking db') \<and> awbUnique (rdb_booking db') \<and> singleCollectible (rdb_booking db')
    \<and> (stays sid awb t v (rdb_booking db) \<longrightarrow> stays sid awb t v (rdb_booking db'))"
proof -
  have steps: "booking_step\<^sup>*\<^sup>* (rdb_booking db) (rdb_booking db')"
    using queueBooking_writes [OF assms(1), of db inp] assms(2,3) by (simp add: bookingWrites_def)
  have inv: "bookingInv (rdb_booking db')" by (rule booking.reachable [OF steps assms(2)])
  then show ?thesis using bookingInvD(2,3) booked_stays.reachable [OF steps] assms(2) by blast
qed

lemma queueing_keeps_booking_invariants_witness:
  "bookingInv (rdb_booking (snd (queueBooking (exampleEnv True) (exampleInput None (Some 1)) exampleDraft)))"
  using queueing_keeps_booking_invariants [OF wf_exampleEnv example_draft_inv, of True "exampleInput None (Some 1)"]
  by (metis prod.collapse)

section \<open>A queued booking\<close>

lemma find_fresh: "(\<And>x. x \<in> set xs \<Longrightarrow> \<not> P x) \<Longrightarrow> P y \<Longrightarrow> List.find P (xs @ [y]) = Some y"
  by (induction xs) auto

lemma queued_claimable:
  assumes "findShipment bdb (jd_shopId job) (jd_shipmentId job) = Some row" "bs_booking_state row = QUEUED"
    "findIntent bdb (jd_shipmentId job) (jd_bookingIntentId job) = Some i" "bi_outcome i = IO_IN_FLIGHT"
    "distinct (map bs_shipment_id (bd_shipments bdb))"
    "enforceSingleCollectible bdb (setState SUBMITTED row)"
  shows "\<exists>bdb'. claimBooking job bdb = (Inr (Some (row, i)), bdb')"
proof -
  have "updateShipments True (\<lambda>r. isShipment (jd_shopId job) (jd_shipmentId job) r \<and> bs_booking_state r = QUEUED)
      (setState SUBMITTED) bdb \<noteq> None"
    using only_shipment [OF assms(5,1)] assms(6) by (auto simp: updateShipments_def list_all_iff guardShipmentRow_def)
  then show ?thesis using assms(1-4) by (auto simp: claimBooking_def claimable_def)
qed

lemma claimed_alone:
  assumes "gatherFacts now db inp s sel = Inr f" "rupeesToPaise (bf_collectible f) = Inr paise" "paise > 0"
  shows "\<not> siblingCarries (rdb_booking db) (bs_shop_id s) (bs_order_id s) (bs_shipment_id s)"
proof
  assume "siblingCarries (rdb_booking db) (bs_shop_id s) (bs_order_id s) (bs_shipment_id s)"
  with assms(1) have "bf_collectible f = ''0.00''"
    by (auto simp: gatherFacts_def Let_def bindR_Inr_iff claimedCollectible_def)
  moreover have "rupeesToPaise ''0.00'' = Inr 0" by (simp add: text_eval)
  ultimately show False using assms(2,3) by simp
qed

text \<open>
  C30: What a booking that reports success has done.  The shipment is QUEUED and carries the frozen
  snapshot of this attempt; one intent is added, IN_FLIGHT, whose merchant reference no earlier
  intent has; the job added last names that intent, the account written to the row and the Service
  of the snapshot; a collectible is carried only when no booked sibling of the order carries one
  (INV-9); and the worker's claim of that job succeeds on exactly this row and this intent.
\<close>

theorem queued_booking_effect:
  assumes "bookInTx env inp db = (Inr (Queued b), db')" "bookingInv (rdb_booking db)"
    "qe_intentId env (length (bd_intents (rdb_booking db))) \<notin> bi_booking_intent_id ` set (bd_intents (rdb_booking db))"
  shows "\<exists>row snapshot i job bdb'.
      findShipment (rdb_booking db') (qi_shopId inp) (qi_shipmentId inp) = Some row \<and> bs_booking_state row = QUEUED
    \<and> qdb_snapshots db' (qi_shipmentId inp) = Some snapshot \<and> bs_snapshot row = Some (workerView snapshot)
    \<and> bd_intents (rdb_booking db') = bd_intents (rdb_booking db) @ [i] \<and> bi_outcome i = IO_IN_FLIGHT
    \<and> bi_merchant_reference i = qb_merchantReference b
    \<and> bi_merchant_reference i \<notin> bi_merchant_reference ` set (bd_intents (rdb_booking db))
    \<and> qdb_jobs db' = qdb_jobs db @ [job] \<and> jd_merchantReference job = qb_merchantReference b
    \<and> bs_courier_account_id row = Some (jd_courierAccountId job) \<and> fz_serviceId (workerView snapshot) = jd_serviceId job
    \<and> (bs_collectible row > 0 \<longrightarrow> \<not> siblingCarries (rdb_booking db) (qi_shopId inp) (bs_order_id row) (qi_shipmentId inp))
    \<and> claimBooking job (rdb_booking db') = (Inr (Some (row, i)), bdb')"
proof -
  from assms(1) obtain f d where tx: "queueTx env inp db = (Inr (TxQueued f b), d)"
    and db': "db' = callOutDb (AuditBooking ''booking.queued'' (qi_shipmentId inp)) d
       \<lparr>qdb_jobs := qdb_jobs d @ [jobOf inp f b]\<rparr>" by (rule bookInTx_queued)
  from tx obtain s price db1 where s: "findShipment (rdb_booking db) (qi_shopId inp) (qi_shipmentId inp) = Some s"
    and f: "bf_shipment f = s" "gatherFacts (re_now env) db inp s (bf_selection f) = Inr f"
    and p: "expectedPrice (re_getQuote env) (re_now env) (qi_shopId inp) f db = (Inr price, db1)"
    and w: "writeBooking env inp f price db1 = (Inr b, d)" by (rule queueTx_queued)
  have same: "rdb_booking db1 = rdb_booking db" "qdb_jobs db1 = qdb_jobs db"
    using expectedPrice_quotesOnly [of db "re_getQuote env" "re_now env" "qi_shopId inp" f]
    by (auto simp: p quotesOnly_def)
  note key = find_shipment [OF s]
  from w show ?thesis
  proof (rule writeBooking_Inr)
    let ?i = "newIntent env inp f (rdb_booking db)"
    let ?sn = "frozenSnapshot (re_now env) f price"
    let ?d = "rdb_booking db'" and ?job = "jobOf inp f b"
    show "findShipment (rdb_booking db1) (qi_shopId inp) (qi_shipmentId inp) = Some (bf_shipment f)"
      using s f(1) same by simp
    show "distinct (map bs_shipment_id (bd_shipments (rdb_booking db1)))" using bookingInvD(1) [OF assms(2)] same by simp
    fix paise
    let ?row = "queuedRow f paise (expectedCostBasis (xp_quote price)) ?sn (draftOf (bf_shipment f))"
    assume paise: "rupeesToPaise (bf_collectible f) = Inr paise"
      and row: "findShipment (rdb_booking d) (qi_shopId inp) (qi_shipmentId inp) = Some ?row"
      and again: "\<And>row. bs_collectible row = paise \<Longrightarrow> bs_order_id row = bs_order_id (bf_shipment f)
         \<Longrightarrow> bs_shipment_id row = bs_shipment_id (bf_shipment f) \<Longrightarrow> enforceSingleCollectible (rdb_booking d) row"
      and i: "bd_intents (rdb_booking d) = bd_intents (rdb_booking db1) @ [newIntent env inp f (rdb_booking db1)]"
        "bi_merchant_reference (newIntent env inp f (rdb_booking db1)) \<notin> bi_merchant_reference ` set (bd_intents (rdb_booking db1))"
      and more: "qdb_jobs d = qdb_jobs db1" "qdb_snapshots d (qi_shipmentId inp) = Some ?sn"
      and b: "qb_bookingIntentId b = bi_booking_intent_id (newIntent env inp f (rdb_booking db1))"
        "qb_merchantReference b = bi_merchant_reference (newIntent env inp f (rdb_booking db1))"
      and ids: "map bs_shipment_id (bd_shipments (rdb_booking d)) = map bs_shipment_id (bd_shipments (rdb_booking db1))"
    have ships: "bd_shipments ?d = bd_shipments (rdb_booking d)" and its: "bd_intents ?d = bd_intents (rdb_booking db) @ [?i]"
      using i(1) same by (simp_all add: db' callOutDb_def callOut_def)
    have found: "findShipment ?d (qi_shopId inp) (qi_shipmentId inp) = Some ?row"
      using row by (simp add: findShipment_cong [OF ships])
    have "findIntent ?d (qi_shipmentId inp) (qb_bookingIntentId b) = Some ?i"
      unfolding findIntent_def its
      by (rule find_fresh) (use assms(3) b(1) same in \<open>force simp: newIntent_def\<close>)+
    then have "\<exists>bdb'. claimBooking ?job ?d = (Inr (Some (?row, ?i)), bdb')"
      using found ids bookingInvD(1) [OF assms(2)] same again [of "setState SUBMITTED ?row"]
      by (intro queued_claimable) (simp_all add: jobOf_def newIntent_def ships enforceSingleCollectible_def)
    moreover have "\<not> siblingCarries (rdb_booking db) (qi_shopId inp) (bs_order_id ?row) (qi_shipmentId inp)"
      if "bs_collectible ?row > 0"
      using claimed_alone [OF f(2) paise] that key f(1) by (simp add: isShipment_def)
    ultimately show ?thesis
      using found its i(2) more b same
      by (intro exI [of _ ?row] exI [of _ ?sn] exI [of _ ?i] exI [of _ ?job])
        (auto simp: db' newIntent_def jobOf_def callOutDb_def workerView_def frozenSnapshot_def
          buildBookingSnapshot_def snapshotInput_def Let_def)
  qed
qed

lemma queued_booking_effect_witness:
  "\<exists>b db' row job. bookInTx (exampleEnv True) (exampleInput (Some ''svc'') None) exampleDraft = (Inr (Queued b), db')
     \<and> findShipment (rdb_booking db') ''shop'' ''s1'' = Some row \<and> bs_booking_state row = QUEUED
     \<and> qdb_jobs db' = qdb_jobs exampleDraft @ [job]"
proof (rule example_booked [of None])
  fix b db' assume b: "bookInTx (exampleEnv True) (exampleInput (Some ''svc'') None) exampleDraft = (Inr (Queued b), db')"
  have "qe_intentId (exampleEnv True) (length (bd_intents (rdb_booking exampleDraft)))
      \<notin> bi_booking_intent_id ` set (bd_intents (rdb_booking exampleDraft))"
    by (simp add: example_draft_booking exampleBooking_def exampleIntent_def)
  from queued_booking_effect [OF b example_draft_inv this] b show ?thesis by auto
qed simp

section \<open>The claim of the collectible\<close>

lemma siblingCarries_others:
  assumes "\<And>r. r \<in> set (bd_shipments bdb) \<Longrightarrow> isShipment shop sid r \<Longrightarrow> bs_awb_normalized r = None"
  shows "siblingCarries bdb shop' order sid' \<longleftrightarrow> list_ex (\<lambda>r. bs_shop_id r = shop' \<and> bs_order_id r = order
    \<and> bs_shipment_id r \<noteq> sid' \<and> carriesCollectible r) (otherRows shop sid bdb)"
  using assms by (fastforce simp: siblingCarries_def otherRows_def list_ex_iff carriesCollectible_def)

lemma claim_others:
  assumes "\<And>r. r \<in> set (bd_shipments bdb) \<Longrightarrow> isShipment shop sid r \<Longrightarrow> bs_awb_normalized r = None"
    "\<And>r. r \<in> set (bd_shipments bdb') \<Longrightarrow> isShipment shop sid r \<Longrightarrow> bs_awb_normalized r = None"
    "otherRows shop sid bdb' = otherRows shop sid bdb"
  shows "claimedCollectible bdb' s mode order = claimedCollectible bdb s mode order"
  using siblingCarries_others [of bdb shop sid, OF assms(1)] siblingCarries_others [of bdb' shop sid, OF assms(2)]
  by (simp add: claimedCollectible_def assms(3))

text \<open>
  C32: The claim of an order's collectible is not seen by its siblings until it has an AWB.  However
  much a booking has just claimed and frozen, another shipment of the same order claims exactly
  what it would have claimed before: the order lock serialises the two transactions but the first
  one leaves nothing the second one reads, so both are queued with the whole balance, and the guard
  of INV-9 then rejects the confirmation of the one that gets its AWB second.
\<close>

theorem queued_claim_is_invisible:
  assumes "bookInTx env inp db = (Inr (Queued b), db')" "bookingInv (rdb_booking db)"
    "bs_shipment_id s \<noteq> qi_shipmentId inp"
  shows "claimedCollectible (rdb_booking db') s mode order = claimedCollectible (rdb_booking db) s mode order"
proof -
  from assms(1) obtain f d where tx: "queueTx env inp db = (Inr (TxQueued f b), d)"
    and db': "bd_shipments (rdb_booking db') = bd_shipments (rdb_booking d)"
    by (rule bookInTx_queued) (simp add: callOutDb_def callOut_def)
  from tx obtain s0 price db1 where s0: "findShipment (rdb_booking db) (qi_shopId inp) (qi_shipmentId inp) = Some s0"
    and st: "bs_booking_state s0 \<in> bookableStates" and f: "bf_shipment f = s0"
    and p: "expectedPrice (re_getQuote env) (re_now env) (qi_shopId inp) f db = (Inr price, db1)"
    and w: "writeBooking env inp f price db1 = (Inr b, d)" by (rule queueTx_queued)
  have same: "rdb_booking db1 = rdb_booking db"
    using expectedPrice_quotesOnly [of db "re_getQuote env" "re_now env" "qi_shopId inp" f] by (auto simp: p quotesOnly_def)
  note ids = bookingInvD(1) [OF assms(2)]
  have "\<not> booked s0" using st by (auto simp: bookableStates_def booked_def)
  then have free: "bs_awb_normalized s0 = None" using bookingInvD(5) [OF assms(2)] find_shipment [OF s0] by blast
  from w show ?thesis
  proof (rule writeBooking_Inr)
    show "findShipment (rdb_booking db1) (qi_shopId inp) (qi_shipmentId inp) = Some (bf_shipment f)" using s0 f same by simp
    show "distinct (map bs_shipment_id (bd_shipments (rdb_booking db1)))" using ids same by simp
    fix paise
    let ?row = "queuedRow f paise (expectedCostBasis (xp_quote price)) (frozenSnapshot (re_now env) f price) (draftOf (bf_shipment f))"
    assume row: "findShipment (rdb_booking d) (qi_shopId inp) (qi_shipmentId inp) = Some ?row"
      and ids': "map bs_shipment_id (bd_shipments (rdb_booking d)) = map bs_shipment_id (bd_shipments (rdb_booking db1))"
      and others: "otherRows (qi_shopId inp) (qi_shipmentId inp) (rdb_booking d) = otherRows (qi_shopId inp) (qi_shipmentId inp) (rdb_booking db1)"
    have dist: "distinct (map bs_shipment_id (bd_shipments (rdb_booking d)))" using ids' ids same by simp
    have "bs_awb_normalized ?row = None" using f free by (simp add: draftOf_def)
    then have new: "bs_awb_normalized r = None"
      if "r \<in> set (bd_shipments (rdb_booking db'))" "isShipment (qi_shopId inp) (qi_shipmentId inp) r" for r
      using only_shipment [OF dist row that(1) [unfolded db'] that(2)] by simp
    have old: "bs_awb_normalized r = None"
      if "r \<in> set (bd_shipments (rdb_booking db))" "isShipment (qi_shopId inp) (qi_shipmentId inp) r" for r
      using only_shipment [OF ids s0 that] free by simp
    have "otherRows (qi_shopId inp) (qi_shipmentId inp) (rdb_booking db') = otherRows (qi_shopId inp) (qi_shipmentId inp) (rdb_booking db)"
      using others by (simp add: otherRows_def db' same)
    with old new show ?thesis by (rule claim_others)
  qed
qed

lemma queued_claim_is_invisible_witness:
  "\<exists>b db'. bookInTx (exampleEnv True) (exampleInput (Some ''svc'') None) exampleDraft = (Inr (Queued b), db')
     \<and> claimedCollectible (rdb_booking db') (exampleShipment ''s2'' DRAFT None) COD
         (orderById exampleDraft ''shop'' ''order'') = ''999.00''"
proof (rule example_booked [of None])
  fix b db' assume b: "bookInTx (exampleEnv True) (exampleInput (Some ''svc'') None) exampleDraft = (Inr (Queued b), db')"
  have other: "bs_shipment_id (exampleShipment ''s2'' DRAFT None) \<noteq> qi_shipmentId (exampleInput (Some ''svc'') None)"
    by (simp add: exampleShipment_def)
  have "claimedCollectible (rdb_booking exampleDraft) (exampleShipment ''s2'' DRAFT None) COD
      (orderById exampleDraft ''shop'' ''order'') = ''999.00''"
    by (simp add: claimedCollectible_def siblingCarries_def example_draft_booking exampleBooking_def orderById_def
        exampleShipment_def carriesCollectible_def) (simp add: exampleDraft_def)
  then show ?thesis using queued_claim_is_invisible [OF b example_draft_inv other] b by auto
qed simp

section \<open>Calls that never queue\<close>

text \<open>A version conflict is only ever answered when the versions differ.\<close>

lemma entitlementBlock_refusal: "entitlementBlock db shopId = Inr (Some q) \<Longrightarrow> \<exists>x. q = QF_ENTITLEMENT_INSUFFICIENT x"
  by (auto simp: entitlementBlock_def Let_def bindR_Inr_iff split: option.splits if_splits)

lemma bookFacts_conflict: "bookFacts env inp f db \<noteq> (Inr (TxRefused (QF_VERSION_CONFLICT st v)), d)"
  by (auto simp: bookFacts_def bookPriced_def bindX_Inr dest!: entitlementBlock_refusal
      split: prod.splits sum.splits option.splits if_splits)

lemma bookInTx_conflict:
  assumes "findShipment (rdb_booking db) (qi_shopId inp) (qi_shipmentId inp) = Some s" "\<not> versionConflict inp s"
  shows "fst (bookInTx env inp db) \<noteq> Inr (NotQueued (QF_VERSION_CONFLICT st v))"
proof -
  have "queueBody env inp db \<noteq> (Inr (TxRefused (QF_VERSION_CONFLICT st v)), d)" for d
    using assms by (auto simp: bookFacts_conflict queueBody_def parkDraft_def bookSelected_def bindX_Inr split: prod.splits option.splits if_splits bool.splits)
  then have "queueTx env inp db \<noteq> (Inr (TxRefused (QF_VERSION_CONFLICT st v)), d)" for d
    by (auto simp: queueTx_def split: prod.splits sum.splits QueueTx.splits)
  then show ?thesis
    by (cases "queueTx env inp db") (auto simp: bookInTx_def bindX_def announce_def Let_def split: sum.splits QueueTx.splits)
qed

lemma bookInTx_stale:
  assumes "qi_expectedVersion inp = Some v"
    "\<And>t. findShipment (rdb_booking d) (qi_shopId inp) (qi_shipmentId inp) = Some t \<Longrightarrow> v < bs_version t"
  shows "\<exists>q. bookInTx env inp d = (Inr (NotQueued q), d) \<and> (q = QF_SHIPMENT_NOT_FOUND \<or> (\<exists>st. q = QF_INVALID_STATE st)
    \<or> (\<exists>st w. v < w \<and> q = QF_VERSION_CONFLICT st w))"
proof (cases "findShipment (rdb_booking d) (qi_shopId inp) (qi_shipmentId inp)")
  case None
  then have "queueBody env inp d = (Inr (TxRefused QF_SHIPMENT_NOT_FOUND), d)" by (simp add: queueBody_def)
  from bookInTx_refused [OF this] show ?thesis by blast
next
  case (Some t)
  from assms(2) [OF this] have "v < bs_version t" .
  with assms(1) have "versionConflict inp t" by (simp add: versionConflict_def)
  show ?thesis
  proof (cases "bs_booking_state t \<in> bookableStates")
    case True
    from bookInTx_refused [OF queueBody_conflict [OF Some True \<open>versionConflict inp t\<close>]] \<open>v < bs_version t\<close>
    show ?thesis by blast
  next
    case False
    from bookInTx_refused [OF queueBody_state [OF Some False]] show ?thesis by blast
  qed
qed

text \<open>
  C33: A member who sends the version of a shipment as it is shown, and names no Service, never gets a
  shipment in DRAFT or NEEDS\_MANUAL\_ASSIGNMENT booked.  The routing transaction runs first and
  increments the version of the row, and only then is the version of the input compared: the
  answer is a failure of the routing, no bookable Service, or, whatever the other writers do in
  between as long as they do not lower versions, a shipment that is gone or in another state
  or a conflict with a later version; when nobody else writes, with the version the call itself has
  made, one higher.  Only the routing does this: for a shipment in any other state, a FAILED one included,
  which is not routed, the same call is never answered with a version conflict.
\<close>

theorem routed_version_always_conflicts:
  assumes "findShipment (rdb_booking db) (qi_shopId inp) (qi_shipmentId inp) = Some s"
    "bookingInv (rdb_booking db)" "noOverride inp" "qi_expectedVersion inp = Some (bs_version s)"
    "\<And>d t u. findShipment (rdb_booking d) (qi_shopId inp) (qi_shipmentId inp) = Some t \<Longrightarrow>
      findShipment (rdb_booking (qe_gap env d)) (qi_shopId inp) (qi_shipmentId inp) = Some u \<Longrightarrow> bs_version t \<le> bs_version u"
    "queueBooking env inp db = (r, db')"
  shows "(bs_booking_state s \<in> {DRAFT, NEEDS_MANUAL_ASSIGNMENT} \<longrightarrow>
        (\<exists>e. r = Inl (RoutingThrew e)) \<or> (\<exists>why. r = Inr (NotQueued (QF_NO_BOOKABLE_SERVICE why)))
        \<or> (if \<forall>d. qe_gap env d = d then r = Inr (NotQueued (QF_VERSION_CONFLICT DRAFT (bs_version s + 1)))
           else r = Inr (NotQueued QF_SHIPMENT_NOT_FOUND) \<or> (\<exists>st. r = Inr (NotQueued (QF_INVALID_STATE st)))
             \<or> (\<exists>st v. bs_version s < v \<and> r = Inr (NotQueued (QF_VERSION_CONFLICT st v)))))
    \<and> (bs_booking_state s \<notin> {DRAFT, NEEDS_MANUAL_ASSIGNMENT} \<and> qe_gap env db = db \<longrightarrow>
        (\<forall>st v. r \<noteq> Inr (NotQueued (QF_VERSION_CONFLICT st v))))"
proof (intro conjI impI)
  assume st: "bs_booking_state s \<notin> {DRAFT, NEEDS_MANUAL_ASSIGNMENT} \<and> qe_gap env db = db"
  have "\<not> versionConflict inp s" using assms(4) by (simp add: versionConflict_def)
  note none = bookInTx_conflict [OF assms(1) this]
  from assms(1) conjunct1 [OF st] conjunct2 [OF st] show "\<forall>st v. r \<noteq> Inr (NotQueued (QF_VERSION_CONFLICT st v))"
    by (cases rule: queueBooking_unrouted) (use assms(6) none in \<open>auto simp: prod_eq_iff\<close>)
next
  assume st: "bs_booking_state s \<in> {DRAFT, NEEDS_MANUAL_ASSIGNMENT}"
  let ?answer = "(\<exists>e. r = Inl (RoutingThrew e)) \<or> (\<exists>why. r = Inr (NotQueued (QF_NO_BOOKABLE_SERVICE why)))
        \<or> (if \<forall>d. qe_gap env d = d then r = Inr (NotQueued (QF_VERSION_CONFLICT DRAFT (bs_version s + 1)))
           else r = Inr (NotQueued QF_SHIPMENT_NOT_FOUND) \<or> (\<exists>st. r = Inr (NotQueued (QF_INVALID_STATE st)))
             \<or> (\<exists>st v. bs_version s < v \<and> r = Inr (NotQueued (QF_VERSION_CONFLICT st v))))"
  obtain q d where e: "evaluateForShipment env (qi_shopId inp) (qi_shipmentId inp) db = (q, d)" by fastforce
  note r = assms(6) [unfolded queueBooking_def e]
  from e show ?answer
  proof (cases rule: evaluateForShipment_cases)
    case (failed x)
    then show ?thesis using r assms(3) by auto
  next
    case (refused x)
    then show ?thesis using assms(1) st by blast
  next
    case (written s' inp' db1 result db2 n)
    have s': "s' = s" using loadForShipment_Some [OF written(1)] assms(1) by simp
    have same: "rdb_booking db1 = rdb_booking db"
      using quotesOnly_sel(1) [OF loadForShipment_quotesOnly [of db "re_getQuote env" "re_now env" "qi_shopId inp" "qi_shipmentId inp"]]
      by (simp add: written(1))
    have sid: "bs_shipment_id s = qi_shipmentId inp" using find_shipment [OF assms(1)] by (simp add: isShipment_def)
    show ?thesis
    proof (cases "re_audit_up env")
      case False
      then show ?thesis using r written(6) assms(3) by (auto simp: auditedX_def)
    next
      case True
      with written(6) have q: "q = Inr (Evaluated (length (rdb_traces db1)) result)"
        and d: "bd_shipments (rdb_booking d) = bd_shipments (rdb_booking db2)" by (simp_all add: auditedX_def)
      show ?thesis
      proof (cases "rs_outcome result")
        case (MANUAL_ASSIGNMENT why)
        then show ?thesis using r q assms(3) by (auto simp: routingRefusal_def)
      next
        case (SELECTED x)
        have "findShipment (rdb_booking db2) (qi_shopId inp) (qi_shipmentId inp) = Some (setState DRAFT s)"
          using written(4) assms(1) same unfolding writeOutcome_def SELECTED Let_def s' sid EvaluationOutcome.case
          by (auto dest!: updateBooking_find [where s = s])
        then have found: "findShipment (rdb_booking d) (qi_shopId inp) (qi_shipmentId inp) = Some (setState DRAFT s)"
          by (simp add: findShipment_cong [OF d])
        have higher: "bs_version (setState DRAFT s) = bs_version s + 1" by (simp add: setState_def)
        have call: "bookInTx env inp (qe_gap env d) = (r, db')"
          using r q SELECTED assms(3) by (simp add: routingRefusal_def)
        have "bs_version s < bs_version u"
          if "findShipment (rdb_booking (qe_gap env d)) (qi_shopId inp) (qi_shipmentId inp) = Some u" for u
          using assms(5) [OF found that] higher by simp
        note stale = bookInTx_stale [where env = env and d = "qe_gap env d", OF assms(4) this]
        show ?thesis
        proof (cases "\<forall>d. qe_gap env d = d")
          case True
          have "versionConflict inp (setState DRAFT s)" using assms(4) higher by (simp add: versionConflict_def)
          from bookInTx_refused [OF queueBody_conflict [OF found _ this]] call True higher
          show ?thesis by (simp add: bookableStates_def setState_def)
        next
          case False
          with stale call show ?thesis by auto
        qed
      qed
    qed
  qed
qed

lemma routed_version_always_conflicts_witness:
  "\<nexists>b. fst (queueBooking (exampleEnv True) (exampleInput None (Some 1)) exampleDraft) = Inr (Queued b)"
proof -
  have "noOverride (exampleInput None (Some 1))" by (simp add: noOverride_def truthy_def)
  from routed_version_always_conflicts [of exampleDraft "exampleInput None (Some 1)" "exampleShipment ''s1'' DRAFT None",
      OF _ example_draft_inv this _ _ prod.collapse [symmetric], of "exampleEnv True"] show ?thesis
    using example_draft_found by (auto simp: exampleShipment_def split: if_splits)
qed

lemma blocked_reenter:
  assumes "findShipment (rdb_booking db) (qi_shopId inp) (qi_shipmentId inp) = Some s"
    "bs_booking_state s \<noteq> DRAFT" "bs_collectible s > 0"
    "t \<in> set (bd_shipments (rdb_booking db))" "bs_order_id t = bs_order_id s"
    "bs_shipment_id t \<noteq> bs_shipment_id s" "carriesCollectible t"
  shows "reenterDraft inp s db = (Inl QueueGuardRaised, db)"
proof -
  have "updateShipments True (\<lambda>r. isShipment (qi_shopId inp) (qi_shipmentId inp) r \<and> bs_booking_state r = bs_booking_state s)
      (setState DRAFT) (rdb_booking db) = None"
    by (rule blocked_update [OF assms(1) _ _ _ _ assms(4-7)]) (use find_shipment [OF assms(1)] assms(3) in simp_all)
  then show ?thesis using assms(2) by (simp add: reenterDraft_def updateBooking_def)
qed

text \<open>
  A FAILED shipment whose order is collected by a sibling can never be booked again.  Its row
  still holds the collectible of the failed attempt; when a sibling has been booked with the
  balance in the meantime, the new attempt would claim nothing, but the statement that takes the
  row back to DRAFT keeps the old amount and the guard of INV-9 raises: every call throws or
  refuses and leaves every table as it was, whatever Service, package or version it names.
\<close>

theorem failed_cod_retry_never_queues:
  assumes "findShipment (rdb_booking db) (qi_shopId inp) (qi_shipmentId inp) = Some s"
    "bs_booking_state s = FAILED" "bs_collectible s > 0"
    "t \<in> set (bd_shipments (rdb_booking db))" "bs_shop_id t = bs_shop_id s" "bs_order_id t = bs_order_id s"
    "bs_shipment_id t \<noteq> bs_shipment_id s" "carriesCollectible t" "qe_gap env db = db"
  shows "claimedCollectible (rdb_booking db) s mode order = ''0.00''
    \<and> (\<exists>r. queueBooking env inp db = (r, db) \<and> (\<forall>b. r \<noteq> Inr (Queued b)))"
proof
  show "claimedCollectible (rdb_booking db) s mode order = ''0.00''"
    using assms(4-8) by (auto simp: claimedCollectible_def siblingCarries_def list_ex_iff)
  have st: "bs_booking_state s \<notin> {DRAFT, NEEDS_MANUAL_ASSIGNMENT}" using assms(2) by simp
  have no: "queueTx env inp db \<noteq> (Inr (TxQueued f b), d)" for f b d
  proof
    assume "queueTx env inp db = (Inr (TxQueued f b), d)"
    then obtain s' price db1 where s': "findShipment (rdb_booking db) (qi_shopId inp) (qi_shipmentId inp) = Some s'"
      and f: "bf_shipment f = s'" and p: "expectedPrice (re_getQuote env) (re_now env) (qi_shopId inp) f db = (Inr price, db1)"
      and w: "writeBooking env inp f price db1 = (Inr b, d)" by (rule queueTx_queued)
    have same: "rdb_booking db1 = rdb_booking db"
      using expectedPrice_quotesOnly [of db "re_getQuote env" "re_now env" "qi_shopId inp" f] by (auto simp: p quotesOnly_def)
    have "f = f \<and> reenterDraft inp s d' = (Inl QueueGuardRaised, d')"
      if "bd_shipments (rdb_booking d') = bd_shipments (rdb_booking db)" for d' :: QueueDb
      using blocked_reenter [of d' inp s t] assms that findShipment_cong [OF that] by simp
    then show False
      using w s' assms(1) f same unfolding writeBooking_def Let_def
      by (auto simp: bindX_Inr split: if_split_asm)
  qed
  have "queueTx env inp db \<noteq> (Inr TxParked, d)" for d
    using assms(1,2) by (auto simp: queueTx_def queueBody_def parkDraft_def bookSelected_def bookFacts_def bookPriced_def bindX_Inr
        split: prod.splits sum.splits QueueTx.splits option.splits if_splits bool.splits)
  then have book: "\<exists>r. bookInTx env inp db = (r, db) \<and> (\<forall>b. r \<noteq> Inr (Queued b))"
    using no by (intro bookInTx_nothing) blast+
  from assms(1) st assms(9) show "\<exists>r. queueBooking env inp db = (r, db) \<and> (\<forall>b. r \<noteq> Inr (Queued b))"
    by (cases rule: queueBooking_unrouted) (use book in auto)
qed

lemma failed_cod_retry_never_queues_witness:
  "\<exists>r. queueBooking (exampleEnv True) (exampleInput (Some ''svc'') None)
       (exampleQueueDb NONE_SOURCE [exampleShipment ''s1'' FAILED None, exampleShipment ''s2'' CONFIRMED (Some ''A1'')])
     = (r, exampleQueueDb NONE_SOURCE [exampleShipment ''s1'' FAILED None, exampleShipment ''s2'' CONFIRMED (Some ''A1'')])
     \<and> (\<forall>b. r \<noteq> Inr (Queued b))"
  by (rule failed_cod_retry_never_queues [where s = "exampleShipment ''s1'' FAILED None"
        and t = "exampleShipment ''s2'' CONFIRMED (Some ''A1'')", THEN conjunct2])
    (simp_all add: findShipment_def isShipment_def carriesCollectible_def exampleBooking_def exampleShipment_def)

section \<open>Jobs that are never stored\<close>

text \<open>
  A booking whose job cannot be stored is stranded.  The audit record and the job are written
  after the COMMIT; when either fails the call throws, but the shipment stays QUEUED with a new
  IN\_FLIGHT intent, and no job names them.  No later call repairs it: with nobody else writing,
  every call for this shipment, whatever its input and surroundings, leaves all tables as they are
  and refuses it as INVALID\_STATE, or fails in the routing.
\<close>

theorem lost_job_strands_shipment:
  assumes "queueTx env inp db = (Inr (TxQueued f b), d)" "bookingInv (rdb_booking db)"
    "\<not> (re_audit_up env \<and> re_queue_up env)" "bookInTx env inp db = (r, db')"
    "qi_shopId inp2 = qi_shopId inp" "qi_shipmentId inp2 = qi_shipmentId inp" "qe_gap env2 db' = db'"
  shows "r \<in> {Inl QueueAuditFailed, Inl EnqueueFailed}
    \<and> (\<exists>row. findShipment (rdb_booking db') (qi_shopId inp) (qi_shipmentId inp) = Some row \<and> bs_booking_state row = QUEUED)
    \<and> (\<exists>i. bd_intents (rdb_booking db') = bd_intents (rdb_booking db) @ [i] \<and> bi_outcome i = IO_IN_FLIGHT)
    \<and> qdb_jobs db' = qdb_jobs db
    \<and> (\<exists>r2. queueBooking env2 inp2 db' = (r2, db')
         \<and> (r2 = Inr (NotQueued (QF_INVALID_STATE QUEUED)) \<or> (\<exists>e. r2 = Inl (RoutingThrew e))))"
proof -
  have r: "r \<in> {Inl QueueAuditFailed, Inl EnqueueFailed}"
    and db': "bd_shipments (rdb_booking db') = bd_shipments (rdb_booking d)"
      "bd_intents (rdb_booking db') = bd_intents (rdb_booking d)" "qdb_jobs db' = qdb_jobs d"
    using assms(4,3) by (auto simp: bookInTx_def bindX_def assms(1) announce_def Let_def callOutDb_def callOut_def split: if_split_asm)
  from assms(1) obtain s0 price db1 where s0: "findShipment (rdb_booking db) (qi_shopId inp) (qi_shipmentId inp) = Some s0"
    and f: "bf_shipment f = s0"
    and p: "expectedPrice (re_getQuote env) (re_now env) (qi_shopId inp) f db = (Inr price, db1)"
    and w: "writeBooking env inp f price db1 = (Inr b, d)" by (rule queueTx_queued)
  have same: "rdb_booking db1 = rdb_booking db" "qdb_jobs db1 = qdb_jobs db"
    using expectedPrice_quotesOnly [of db "re_getQuote env" "re_now env" "qi_shopId inp" f] by (auto simp: p quotesOnly_def)
  have "findShipment (rdb_booking db1) (qi_shopId inp) (qi_shipmentId inp) = Some (bf_shipment f)" using s0 f same by simp
  moreover have "distinct (map bs_shipment_id (bd_shipments (rdb_booking db1)))" using bookingInvD(1) [OF assms(2)] same by simp
  ultimately obtain row where row: "findShipment (rdb_booking d) (qi_shopId inp) (qi_shipmentId inp) = Some row"
      "bs_booking_state row = QUEUED"
    and i: "bd_intents (rdb_booking d) = bd_intents (rdb_booking db1) @ [newIntent env inp f (rdb_booking db1)]"
    and jobs: "qdb_jobs d = qdb_jobs db1" using writeBooking_Inr [OF w] queuedRow_sel(6) by metis
  have found: "findShipment (rdb_booking db') (qi_shopId inp2) (qi_shipmentId inp2) = Some row"
    using row(1) assms(5,6) by (simp add: findShipment_cong [OF db'(1)])
  have refuse: "bookInTx env2 inp2 db' = (Inr (NotQueued (QF_INVALID_STATE QUEUED)), db')"
    using bookInTx_refused [OF queueBody_state [OF found]] row(2) by (simp add: bookableStates_def)
  have "bs_booking_state row \<notin> {DRAFT, NEEDS_MANUAL_ASSIGNMENT}" using row(2) by simp
  from found this assms(7) have "\<exists>r2. queueBooking env2 inp2 db' = (r2, db')
         \<and> (r2 = Inr (NotQueued (QF_INVALID_STATE QUEUED)) \<or> (\<exists>e. r2 = Inl (RoutingThrew e)))"
    by (cases rule: queueBooking_unrouted) (use refuse in auto)
  then show ?thesis using r found assms(5,6) row(2) i jobs same by (simp add: db' newIntent_def)
qed

lemma lost_job_strands_shipment_witness:
  "\<exists>r2. let db' = snd (bookInTx (exampleEnv False) (exampleInput (Some ''svc'') None) exampleDraft)
     in qdb_jobs db' = qdb_jobs exampleDraft
      \<and> queueBooking (exampleEnv True) (exampleInput (Some ''svc'') None) db' = (r2, db') \<and> (\<forall>b. r2 \<noteq> Inr (Queued b))"
proof (rule example_draft_queued [of None False])
  let ?db' = "snd (bookInTx (exampleEnv False) (exampleInput (Some ''svc'') None) exampleDraft)"
  fix f b d assume tx: "queueTx (exampleEnv False) (exampleInput (Some ''svc'') None) exampleDraft = (Inr (TxQueued f b), d)"
  obtain r where run: "bookInTx (exampleEnv False) (exampleInput (Some ''svc'') None) exampleDraft = (r, ?db')"
    by (metis prod.collapse)
  from lost_job_strands_shipment [OF tx example_draft_inv _ run, of "exampleInput (Some ''svc'') None" "exampleEnv True"]
  show ?thesis by (auto simp: Let_def)
qed simp

section \<open>The shared cache\<close>

text \<open>
  C34: The cache of live quotes is shared between shops and accounts.  Its key is the Service, the
  lane, the weight and the payment mode; so when a shop has just fetched a serviceable quote, every
  request with that key in the next fifteen minutes, by any shop, on any courier account, with any
  collectible, declared value and dimensions, is answered with that quote, its total and its
  components, whatever the courier would have said, and without asking it.
\<close>

theorem cached_quote_answers_other_shops:
  assumes "getLiveQuote getQuote now shop account request band db = (Inr q, db1)"
    "findFresh now db (requestKey request band) = None" "qr_serviceable q"
    "requestKey request' band' = requestKey request band" "now \<le> now'" "now' < qr_fetchedAt q + quoteCacheTtlMs"
  shows "\<exists>q2. getLiveQuote getQuote' now' shop' account' request' band' db1 = (Inr q2, db1)
    \<and> qr_components q2 = qr_components q \<and> qr_rtoRule q2 = qr_rtoRule q \<and> qr_rateAvailable q2 = qr_rateAvailable q
    \<and> (qr_rateAvailable q \<longrightarrow> Some (qr_total q2) = numeric4 (qr_total q)) \<and> qr_fetchedAt q2 = qr_fetchedAt q"
  using assms(1)
proof (cases rule: getLiveQuote_cases)
  case (cached row)
  then show ?thesis using assms(1,2) by (auto simp: findFresh_def filter_empty_conv)
next
  case (stored q' ttl)
  let ?row = "cacheRow shop account request band q ttl"
  let ?key = "requestKey request band"
  have q': "q' = q" using stored(1) by simp
  have "matchesKey now' ?key ?row" using assms(6) by (simp add: matchesKey_def cacheRow_def requestKey_def)
  moreover have "filter (matchesKey now' ?key) (rdb_quotes db) = []"
    using assms(2,5) by (fastforce simp: findFresh_def filter_empty_conv matchesKey_def split: option.splits)
  ultimately have "findFresh now' db1 ?key = Some (rowToQuote ?row)"
    by (simp add: stored(5) q' findFresh_def)
  then have "getLiveQuote getQuote' now' shop' account' request' band' db1 = (Inr (rowToQuote ?row), db1)"
    by (simp add: getLiveQuote_def assms(4))
  moreover have "(qr_rateAvailable q \<longrightarrow> ttl = numeric4 (qr_total q)) \<and> (ttl = None \<longleftrightarrow> \<not> qr_rateAvailable q)"
    using stored(4) by (cases "numeric4 (qr_total q)"; cases "qr_rateAvailable q"; simp add: q' storedTotal_def; clarsimp)
  ultimately show ?thesis by (auto simp: rowToQuote_def cacheRow_def)
qed (use assms in simp_all)

definition exampleRequest :: "string \<Rightarrow> string \<Rightarrow> QuoteRequest" where
  "exampleRequest account collectible = \<lparr>qq_courierAccountId = account, qq_serviceId = ''svc'',
     qq_originPincode = ''560001'', qq_destinationPincode = ''110001'', qq_shipDate = 0, qq_deadWeightKg = ''1.200'',
     qq_lengthCm = ''10.00'', qq_widthCm = ''10.00'', qq_heightCm = ''10.00'', qq_paymentMode = COD,
     qq_collectible = collectible, qq_declaredValue = collectible, qq_pickupLocationId = ''loc''\<rparr>"

definition exampleQuote :: QuoteResponse where
  "exampleQuote = \<lparr>qr_serviceable = True, qr_failureReasons = [], qr_rateAvailable = True, qr_components = [],
     qr_total = ''90.00'', qr_rtoRule = None, qr_eddFrom = None, qr_eddTo = None, qr_eddSource = None,
     qr_fetchedAt = 0, qr_providerQuoteRef = None, qr_capabilityFlags = []\<rparr>"

lemma cached_quote_answers_other_shops_witness:
  "\<exists>q2 db1. getLiveQuote (\<lambda>_ _ _. Inr exampleQuote) 0 ''shop'' ''acc'' (exampleRequest ''acc'' ''100.00'') (Some ''1.200'')
       exampleDraft = (Inr exampleQuote, db1)
     \<and> getLiveQuote (\<lambda>_ _ _. Inl CourierAuthError) 60000 ''other'' ''acc2'' (exampleRequest ''acc2'' ''9000.00'')
         (Some ''1.200'') db1 = (Inr q2, db1)
     \<and> qr_total q2 = ''90.0000''"
proof -
  have n: "numeric4 ''90.00'' = Some ''90.0000''" by code_simp
  have none: "findFresh 0 exampleDraft (requestKey (exampleRequest ''acc'' ''100.00'') (Some ''1.200'')) = None"
    by (simp add: findFresh_def example_draft_booking)
  obtain db1 where first: "getLiveQuote (\<lambda>_ _ _. Inr exampleQuote) 0 ''shop'' ''acc''
      (exampleRequest ''acc'' ''100.00'') (Some ''1.200'') exampleDraft = (Inr exampleQuote, db1)"
    using none n by (simp add: getLiveQuote_def fetchAndStore_def storedTotal_def exampleQuote_def)
  from cached_quote_answers_other_shops [OF first none, where request' = "exampleRequest ''acc2'' ''9000.00''"
      and band' = "Some ''1.200''" and now' = 60000 and getQuote' = "\<lambda>_ _ _. Inl CourierAuthError"
      and shop' = "''other''" and account' = "''acc2''"]
  show ?thesis using first n
    by (auto simp: requestKey_def exampleRequest_def exampleQuote_def quoteCacheTtlMs_def)
qed

section \<open>The frozen quote\<close>

lemma expectedPrice_rateCard:
  assumes "expectedPrice g now shop f db = (Inr price, db')" "sel_cost_source (bf_selection f) = RATE_CARD"
  obtains w est where "bookingWeights f = Inr w" "estimateCost now db (estimateInput shop f) = Inr est"
    "price = \<lparr>xp_weights = w, xp_quote = Some (es_quote est), xp_rateCardVersionId = es_rateCardVersionId est,
       xp_zoneMapId = es_zoneMapId est,
       xp_zone = (if truthy (es_zoneMapId est) \<and> truthy (bf_originPincode f) \<and> truthy (bf_destinationPincode f)
         then resolveLaneZone db shop (the (es_zoneMapId est)) (the (bf_originPincode f)) (the (bf_destinationPincode f))
         else None)\<rparr>"
  using assms by (auto simp: expectedPrice_def bindX_Inr)

lemma gatherFacts_service:
  assumes "gatherFacts now db inp s sel = Inr f"
  shows "bf_selection f = sel" "bf_shipDate f = now div 86400000"
    "bf_serviceVersion f = currentServiceVersion db (sel_service_id sel) (now div 86400000)"
  using assms by (auto simp: gatherFacts_def Let_def bindR_Inr_iff)

lemma bookingWeights_estimate:
  assumes "bf_deadWeightKg f = Some kg" "bf_packageProfile f = Some p" "bf_serviceVersion f = Some sv"
  shows "bookingWeights f = computeWeights (estimateTerms (estimateInput shop f) sv)"
  using assms by (simp add: bookingWeights_def estimateTerms_def estimateInput_def profileText_def valueOr_def)

lemma zoneMapOf_self: "zoneMapOf db shop i = Some m \<Longrightarrow> zoneMapOf db shop (zm_zone_map_id m) = Some m"
  by (auto simp: zoneMapOf_def find_Some_iff)

lemma truthyE: "truthy v \<Longrightarrow> (\<And>x. v = Some x \<Longrightarrow> thesis) \<Longrightarrow> thesis"
  by (cases v) (simp_all add: truthy_def)

text \<open>The chain behind a usable quote of the rate card.\<close>

lemma usable_quote:
  assumes "gatherFacts now db inp s sel = Inr f" "sel_cost_source sel = RATE_CARD"
    "bf_deadWeightKg f \<noteq> None" "bf_packageProfile f \<noteq> None"
    "expectedPrice g now shop f db = (Inr price, db')" "xp_quote price = Some q" "qr_rateAvailable q"
    "truthy (xp_zoneMapId price)" "truthy (bf_originPincode f)" "truthy (bf_destinationPincode f)"
    "bf_originPincode f = Option.bind (activePickup db shop) pk_pincode"
  obtains version zone weights b where "version \<in> set (rdb_versions db)"
    "xp_rateCardVersionId price = Some (rv_rate_card_version_id version)" "xp_zone price = Some zone"
    "xp_weights price = Some weights" "q = pricedQuote now version b"
    "computeFreight (versionTariff db version) \<lparr>fa_zone = Some zone, fa_billableWeightKg = wb_billableWeightKg weights,
       fa_paymentMode = bf_paymentMode f, fa_collectible = bf_collectible f, fa_declaredValue = bf_declaredValue f\<rparr> = Inr (Priceable b)"
proof -
  note facts = gatherFacts_service [OF assms(1)]
  have src: "sel_cost_source (bf_selection f) = RATE_CARD" using facts(1) assms(2) by simp
  from expectedPrice_rateCard [OF assms(5) src] obtain bw est where bw: "bookingWeights f = Inr bw"
    and est: "estimateCost now db (estimateInput shop f) = Inr est"
    and price: "price = \<lparr>xp_weights = bw, xp_quote = Some (es_quote est), xp_rateCardVersionId = es_rateCardVersionId est,
       xp_zoneMapId = es_zoneMapId est,
       xp_zone = (if truthy (es_zoneMapId est) \<and> truthy (bf_originPincode f) \<and> truthy (bf_destinationPincode f)
         then resolveLaneZone db shop (the (es_zoneMapId est)) (the (bf_originPincode f)) (the (bf_destinationPincode f))
         else None)\<rparr>" by blast
  have q: "q = es_quote est" using assms(6) price by simp
  obtain o' d' where od: "bf_originPincode f = Some o'" "bf_destinationPincode f = Some d'"
    using assms(9,10) by (elim truthyE)
  obtain kg p where kg: "bf_deadWeightKg f = Some kg" and p: "bf_packageProfile f = Some p" using assms(3,4) by blast
  from est show ?thesis
  proof (cases rule: estimateCost_cases)
    case (unpriced r)
    then show ?thesis using assms(7) q by simp
  next
    case (priced version zoneMap zone freight)
    then obtain sv weights where v: "version \<in> set (rdb_versions db)"
      and sv: "currentServiceVersion db (sel_service_id (bf_selection f)) (bf_shipDate f) = Some sv"
      and w: "computeWeights (estimateTerms (estimateInput shop f) sv) = Inr (Some weights)"
      and zm: "zoneMapOf db shop (rv_zone_map_id version) = Some zoneMap"
      and z: "mapZone db zoneMap o' d' = Some zone"
      and fr: "computeFreight (versionTariff db version) \<lparr>fa_zone = Some zone, fa_billableWeightKg = wb_billableWeightKg weights,
          fa_paymentMode = bf_paymentMode f, fa_collectible = bf_collectible f, fa_declaredValue = bf_declaredValue f\<rparr> = Inr freight"
      and es: "case freight of Unpriceable r \<Rightarrow> es_quote est = es_quote (unpriceable now r True)
           | Priceable b \<Rightarrow> es_quote est = pricedQuote now version b"
      and ids: "es_rateCardVersionId est = Some (rv_rate_card_version_id version)" "es_zoneMapId est = Some (zm_zone_map_id zoneMap)"
      using od assms(11) unfolding pricedBy_def estimateInput_def
      by (auto simp: effectiveVersion_def valueOr_def dest: latestBy_Some)
    from es assms(7) q obtain b where b: "freight = Priceable b" "q = pricedQuote now version b"
      by (cases freight) simp_all
    have "bw = Some weights"
      using bookingWeights_estimate [OF kg p, of sv shop] sv w facts bw by simp
    moreover have "xp_zone price = Some zone"
      using price ids(2) assms(8-10) od zoneMapOf_self [OF zm] z by (simp add: resolveLaneZone_def)
    ultimately show ?thesis using v ids(1) b fr price by (intro that) simp_all
  qed
qed

text \<open>
  C31: The quote frozen by a booking is the amount freight reconciliation expects for it.  When a
  booking on a rate card from the shop's active pickup location has frozen a usable quote, the
  rate-card version it froze is a stored one, and auditing the invoice line of the shipment on that
  version, at the frozen billable weight or without an invoiced weight, recomputes the frozen total
  to the paisa and asks for no review.
\<close>

theorem frozen_quote_is_reconciled_amount:
  assumes "gatherFacts now db inp s sel = Inr f" "sel_cost_source sel = RATE_CARD"
    "bf_deadWeightKg f \<noteq> None" "bf_packageProfile f \<noteq> None"
    "expectedPrice g now (qi_shopId inp) f db = (Inr price, db')" "xp_quote price = Some q" "qr_rateAvailable q"
    "truthy (xp_zoneMapId price)" "truthy (bf_originPincode f)" "truthy (bf_destinationPincode f)"
    "bf_originPincode f = Option.bind (activePickup db (qi_shopId inp)) pk_pincode"
    "rv_expectedCostBasis view = expectedCostBasis (Some q)"
    "rv_snapshot view = Some (reconView (frozenSnapshot now f price))"
    "w \<in> {None, bs_billableWeightKg (reconView (frozenSnapshot now f price))}"
  shows "\<exists>version. version \<in> set (rdb_versions db) \<and> Some (rv_rate_card_version_id version) = xp_rateCardVersionId price
    \<and> forwardExpectation view (Some (versionTariff db version)) w
      = Inr \<lparr>fe_expected = Some (qr_total q), fe_audited = Some (qr_total q), fe_review = False\<rparr>"
proof -
  from usable_quote [OF assms(1-11)] obtain version zone weights b where v: "version \<in> set (rdb_versions db)"
    "xp_rateCardVersionId price = Some (rv_rate_card_version_id version)" "xp_zone price = Some zone"
    "xp_weights price = Some weights" and q: "q = pricedQuote now version b"
    and fr: "computeFreight (versionTariff db version) \<lparr>fa_zone = Some zone, fa_billableWeightKg = wb_billableWeightKg weights,
       fa_paymentMode = bf_paymentMode f, fa_collectible = bf_collectible f, fa_declaredValue = bf_declaredValue f\<rparr> = Inr (Priceable b)"
    by blast
  have view: "reconView (frozenSnapshot now f price) = BookingSnapshot.make (Some zone) (xp_rateCardVersionId price)
      (bf_paymentMode f) (bf_collectible f) (Some (wb_billableWeightKg weights)) (bf_declaredValue f)
      (Some \<lparr>sq_total = qr_total q, sq_components = qr_components q, sq_rtoRule = qr_rtoRule q\<rparr>)"
    using v assms(6) by (simp add: reconView_def frozenSnapshot_def buildBookingSnapshot_def snapshotInput_def Let_def
        snapshotWeights_def formulaInputs_def toSnapshotQuote_def)
  have "billableOf w (reconView (frozenSnapshot now f price)) = Some (wb_billableWeightKg weights)"
    using assms(14) by (auto simp: billableOf_def view BookingSnapshot.defs)
  moreover have "rv_expectedCostBasis view = Some SNAPSHOT_QUOTE" "qr_total q = fb_f11Total b"
    using assms(12) by (simp_all add: q expectedCostBasis_def pricedQuote_def)
  ultimately show ?thesis
    using v assms(13) fr by (intro exI [of _ version])
      (simp add: forwardExpectation_def view BookingSnapshot.defs snapshotArgs_def auditedQuote_def)
qed

lemma frozen_quote_is_reconciled_amount_witness:
  "\<exists>price view version. expectedPrice (\<lambda>_ _ _. Inl CourierAuthError) 0 ''shop''
        (exampleFacts RATE_CARD ''999.00'' (exampleShipment ''s1'' DRAFT None))
        (exampleQueueDb RATE_CARD [exampleShipment ''s1'' DRAFT None])
      = (Inr price, exampleQueueDb RATE_CARD [exampleShipment ''s1'' DRAFT None])
    \<and> forwardExpectation view (Some (versionTariff (exampleQueueDb RATE_CARD [exampleShipment ''s1'' DRAFT None]) version)) None
      = Inr \<lparr>fe_expected = Some ''126.26'', fe_audited = Some ''126.26'', fe_review = False\<rparr>"
proof (rule pricedTotal_SomeE [OF example_freight])
  let ?s = "exampleShipment ''s1'' DRAFT None"
  let ?db = "exampleQueueDb RATE_CARD [?s]" and ?f = "exampleFacts RATE_CARD ''999.00'' ?s"
  fix b assume b: "computeFreight (exampleTariff\<lparr>tf_components := []\<rparr>) exampleArgs = Inr (Priceable b)" "fb_f11Total b = ''126.26''"
  have s: "bs_order_id ?s = ''order''" "bs_shop_id ?s = ''shop''" by (simp_all add: exampleShipment_def)
  have alone: "siblingCarries (exampleBooking [?s]) ''shop'' ''order'' (bs_shipment_id ?s) \<longleftrightarrow> False"
    by (simp add: siblingCarries_def exampleBooking_def)
  have facts: "gatherFacts 0 ?db (exampleInput (Some ''svc'') None) ?s (exampleSelection RATE_CARD) = Inr ?f"
    using example_facts [OF s alone, of RATE_CARD "Some ''svc''" None] by simp
  have src: "sel_cost_source (bf_selection ?f) = RATE_CARD" by (simp add: exampleFacts_def exampleSelection_def)
  let ?q = "pricedQuote 0 exampleVersion b"
  obtain price where p: "expectedPrice (\<lambda>_ _ _. Inl CourierAuthError) 0 ''shop'' ?f ?db = (Inr price, ?db)"
      "xp_quote price = Some ?q" "xp_zoneMapId price = Some ''map''"
    using example_estimate [OF b(1), of "[?s]" ?s] example_weights [of RATE_CARD "''999.00''" ?s] src
    by (simp add: expectedPrice_def bindX_def liftQ_def)
  have "bf_originPincode ?f = Some ''560001''" "bf_destinationPincode ?f = Some ''110001''"
    by (simp_all add: exampleFacts_def bf_originPincode_def bf_destinationPincode_def bf_working_def destinationOf_def
        exampleColumns_def exampleWorking_def)
  then obtain version where "forwardExpectation (exampleView\<lparr>rv_expectedCostBasis := expectedCostBasis (Some ?q),
      rv_snapshot := Some (reconView (frozenSnapshot 0 ?f price))\<rparr>) (Some (versionTariff ?db version)) None
    = Inr \<lparr>fe_expected = Some (qr_total ?q), fe_audited = Some (qr_total ?q), fe_review = False\<rparr>"
    using frozen_quote_is_reconciled_amount [OF facts _ _ _ p(1) [folded exampleInput_sel(1) [of "Some ''svc''" None]] p(2),
        where w = None and view = "exampleView\<lparr>rv_expectedCostBasis := expectedCostBasis (Some ?q),
          rv_snapshot := Some (reconView (frozenSnapshot 0 ?f price))\<rparr>"] p(3)
    by (auto simp: exampleSelection_def exampleFacts_def truthy_def activePickup_def pricedQuote_def)
  with p(1) b(2) show ?thesis by (auto simp: pricedQuote_def)
qed

end
