(* ===== verification/OrderMapper.thy ===== *)
theory OrderMapper
  imports Weight Booking CodState RuleEvaluate
begin

text \<open>
  \<open>src/modules/order-sync/order-mapper.ts\<close>: one Shopify order payload
  (\<open>shopify-order-payload.types.ts\<close>) as values for \<open>order\<close> and \<open>order_line\<close>.  An absent field and
  \<open>null\<close> are both None, as every reader of the payload treats them alike; the numbers of the
  payload are integers, and the text of an integer is its decimal digits.
\<close>

section \<open>The payload\<close>

record ShopifyMoney =
  sm_amount :: "string option"
  sm_currency_code :: "string option"

record ShopifyMoneySet =
  st_shop_money :: "ShopifyMoney option"
  st_presentment_money :: "ShopifyMoney option"

record ShopifyRestAddress =
  sa_name :: "string option"
  sa_first_name :: "string option"
  sa_last_name :: "string option"
  sa_address1 :: "string option"
  sa_address2 :: "string option"
  sa_city :: "string option"
  sa_province :: "string option"
  sa_zip :: "string option"
  sa_phone :: "string option"
  sa_email :: "string option"

text \<open>\<open>number | string\<close> and \<open>string | string[]\<close>.\<close>

datatype JsId = IdNumber int | IdText string

datatype JsTags = TagText string | TagList "string list"

record ShopifyRestLineItem =
  li_id :: "JsId option"
  li_admin_graphql_api_id :: "string option"
  li_sku :: "string option"
  li_title :: "string option"
  li_name :: "string option"
  li_variant_title :: "string option"
  li_quantity :: "int option"
  li_price :: "string option"
  li_price_set :: "ShopifyMoneySet option"
  li_tags :: "JsTags option"
  li_grams :: "int option"
  li_hsn_code :: "string option"
  li_harmonized_system_code :: "string option"

record ShopifyRestShippingLine =
  sl_title :: "string option"
  sl_price :: "string option"
  sl_price_set :: "ShopifyMoneySet option"

record ShopifyRestOrderPayload =
  op_id :: "JsId option"
  op_admin_graphql_api_id :: "string option"
  op_order_number :: "JsId option"
  op_name :: "string option"
  op_created_at :: "string option"
  op_email :: "string option"
  op_phone :: "string option"
  op_test :: "bool option"
  op_current_total_price_set :: "ShopifyMoneySet option"
  op_total_outstanding :: "string option"
  op_total_outstanding_set :: "ShopifyMoneySet option"
  op_payment_gateway_names :: "string option list"
  op_shipping_address :: "ShopifyRestAddress option"
  op_customer_email :: "string option"
  op_line_items :: "ShopifyRestLineItem list"
  op_shipping_lines :: "ShopifyRestShippingLine list"
  op_risk_level :: "string option"
  op_order_risks :: "string option list"
  op_fulfillment_status :: "string option"

section \<open>The mapped order\<close>

type_synonym WorkingRecipient = SnapshotRecipient

record MappedOrderLine =
  ml_shopifyLineGid :: "string option"
  ml_sku :: "string option"
  ml_title :: "string option"
  ml_variant :: "string option"
  ml_quantity :: int
  ml_unitPrice :: "string option"
  ml_tags :: "string list"
  ml_hsnCode :: "string option"
  ml_weightKgPerUnit :: "string option"

record MappedOrder =
  mo_shopifyOrderGid :: string
  mo_shopifyOrderNumber :: "string option"
  mo_createdAtShopify :: "string option"
  mo_orderAmount :: "string option"
  mo_presentmentAmount :: "string option"
  mo_presentmentCurrency :: "string option"
  mo_recipientSnapshot :: "WorkingRecipient option"
  mo_riskFlag :: "string option"
  mo_isTestOrder :: bool
  mo_gatewayNames :: "string list"
  mo_totalOutstandingShopMoney :: "string option"
  mo_checkoutShippingTitle :: "string option"
  mo_checkoutShippingAmount :: "string option"
  mo_lines :: "MappedOrderLine list"

section \<open>The mapper\<close>

text \<open>\<open>a ?? b\<close>.\<close>

definition orNull :: "'a option \<Rightarrow> 'a option \<Rightarrow> 'a option" where
  "orNull a b = (case a of None \<Rightarrow> b | Some _ \<Rightarrow> a)"

definition normalizeMoney :: "string option \<Rightarrow> string option" where
  "normalizeMoney value =
     (case value of None \<Rightarrow> None
      | Some v \<Rightarrow> if trim v = '''' then None
                  else (case rupeesToPaise v of Inl _ \<Rightarrow> None | Inr p \<Rightarrow> Some (paiseToRupees p)))"

definition nullIfBlank :: "string option \<Rightarrow> string option" where
  "nullIfBlank value =
     (case value of None \<Rightarrow> None | Some v \<Rightarrow> let trimmed = trim v in if trimmed = '''' then None else Some trimmed)"

definition nonEmpty :: "string list \<Rightarrow> string list" where
  "nonEmpty ts = filter (\<lambda>t. t \<noteq> '''') (map trim ts)"

definition mapTags :: "JsTags option \<Rightarrow> string list" where
  "mapTags tags =
     (case tags of None \<Rightarrow> []
      | Some (TagList ts) \<Rightarrow> nonEmpty ts
      | Some (TagText t) \<Rightarrow> if t = '''' then [] else nonEmpty (splitAt (CHR '','') t))"

text \<open>\<open>(grams / 1000).toFixed(3)\<close> of an integer.\<close>

definition mapWeightKg :: "int option \<Rightarrow> string option" where
  "mapWeightKg grams = (case grams of None \<Rightarrow> None | Some g \<Rightarrow> if g \<le> 0 then None else Some (gramsToKg g))"

definition shopMoney :: "ShopifyMoneySet option \<Rightarrow> string option" where
  "shopMoney m = Option.bind (Option.bind m st_shop_money) sm_amount"

definition presentmentMoney :: "ShopifyMoneySet option \<Rightarrow> ShopifyMoney option" where
  "presentmentMoney m = Option.bind m st_presentment_money"

definition idText :: "JsId \<Rightarrow> string" where
  "idText i = (case i of IdNumber n \<Rightarrow> show_int n | IdText t \<Rightarrow> t)"

definition mapLineItem :: "ShopifyRestLineItem \<Rightarrow> MappedOrderLine" where
  "mapLineItem line = \<lparr>
     ml_shopifyLineGid = orNull (nullIfBlank (li_admin_graphql_api_id line))
        (map_option (\<lambda>i. ''gid://shopify/LineItem/'' @ idText i) (li_id line)),
     ml_sku = nullIfBlank (li_sku line),
     ml_title = orNull (nullIfBlank (li_title line)) (nullIfBlank (li_name line)),
     ml_variant = nullIfBlank (li_variant_title line),
     ml_quantity = (case li_quantity line of None \<Rightarrow> 1 | Some q \<Rightarrow> if q > 0 then q else 1),
     ml_unitPrice = normalizeMoney (orNull (shopMoney (li_price_set line)) (li_price line)),
     ml_tags = mapTags (li_tags line),
     ml_hsnCode = orNull (nullIfBlank (li_hsn_code line)) (nullIfBlank (li_harmonized_system_code line)),
     ml_weightKgPerUnit = mapWeightKg (li_grams line)\<rparr>"

definition trimmedText :: "string option \<Rightarrow> string" where
  "trimmedText p = trim (case p of None \<Rightarrow> '''' | Some t \<Rightarrow> t)"

definition mapRecipient :: "ShopifyRestOrderPayload \<Rightarrow> WorkingRecipient option" where
  "mapRecipient payload =
     (case op_shipping_address payload of None \<Rightarrow> None
      | Some addr \<Rightarrow>
          (let joined = joinStr '' '' (filter (\<lambda>p. p \<noteq> '''') (map trimmedText [sa_first_name addr, sa_last_name addr]));
               name = orNull (nullIfBlank (sa_name addr)) (if joined = '''' then None else Some joined)
           in Some \<lparr>sr_name = name,
                sr_addressLines = filter (\<lambda>l. l \<noteq> '''') (map trimmedText [sa_address1 addr, sa_address2 addr]),
                sr_city = nullIfBlank (sa_city addr), sr_state = nullIfBlank (sa_province addr),
                sr_pincode = nullIfBlank (sa_zip addr),
                sr_phone = orNull (nullIfBlank (sa_phone addr)) (nullIfBlank (op_phone payload)),
                sr_email = orNull (nullIfBlank (sa_email addr))
                   (orNull (nullIfBlank (op_email payload)) (nullIfBlank (op_customer_email payload)))\<rparr>))"

datatype map_error = UnmappableOrderError

definition mapShopifyOrder :: "ShopifyRestOrderPayload \<Rightarrow> map_error + MappedOrder" where
  "mapShopifyOrder payload =
     (case orNull (nullIfBlank (op_admin_graphql_api_id payload))
             (map_option (\<lambda>i. ''gid://shopify/Order/'' @ idText i) (op_id payload)) of
        None \<Rightarrow> Inl UnmappableOrderError
      | Some gid \<Rightarrow>
          (let shippingLine = (case op_shipping_lines payload of [] \<Rightarrow> None | l # _ \<Rightarrow> Some l);
               total = op_current_total_price_set payload
           in Inr \<lparr>mo_shopifyOrderGid = gid,
                mo_shopifyOrderNumber = (case op_order_number payload of Some n \<Rightarrow> Some (idText n)
                   | None \<Rightarrow> nullIfBlank (op_name payload)),
                mo_createdAtShopify = nullIfBlank (op_created_at payload),
                mo_orderAmount = normalizeMoney (shopMoney total),
                mo_presentmentAmount = normalizeMoney (Option.bind (presentmentMoney total) sm_amount),
                mo_presentmentCurrency = nullIfBlank (Option.bind (presentmentMoney total) sm_currency_code),
                mo_recipientSnapshot = mapRecipient payload,
                mo_riskFlag = orNull (nullIfBlank (op_risk_level payload))
                   (nullIfBlank (case op_order_risks payload of [] \<Rightarrow> None | r # _ \<Rightarrow> r)),
                mo_isTestOrder = (op_test payload = Some True),
                mo_gatewayNames = filter (\<lambda>g. g \<noteq> '''') (map trimmedText (op_payment_gateway_names payload)),
                mo_totalOutstandingShopMoney = normalizeMoney
                   (orNull (shopMoney (op_total_outstanding_set payload)) (op_total_outstanding payload)),
                mo_checkoutShippingTitle = nullIfBlank (Option.bind shippingLine sl_title),
                mo_checkoutShippingAmount = normalizeMoney
                   (orNull (shopMoney (Option.bind shippingLine sl_price_set)) (Option.bind shippingLine sl_price)),
                mo_lines = map mapLineItem (op_line_items payload)\<rparr>))"

end
