(* ===== verification/Allocation.thy ===== *)
theory Allocation
  imports OrderMapper RuleLoader PackageSelection OrderStatus Eligibility
begin

text \<open>
  \<open>src/modules/order-sync\<close>: the tables of an order (migrations 0003 and 0012) and the transactions
  that write them from Shopify: \<open>allocation-plan.ts\<close>, \<open>allocation.service.ts\<close>,
  \<open>order-upsert.service.ts\<close>, \<open>location.service.ts\<close>.  A table is a list of rows; foreign keys, checks
  and the arbiter of \<open>ON CONFLICT\<close> are part of the statements.  \<open>numeric\<close> columns hold the text the
  driver returns.  The answers of Shopify are parameters.
\<close>

section \<open>The plan\<close>

datatype AllocationExclusionReason =
    EXTERNALLY_FULFILLED | LOCATION_NOT_SHIPPED_VIA_JSYXI | FULFILLMENT_ORDER_CANCELLED

record FulfillmentOrderInfo =
  fo_gid :: string
  fo_status :: string
  fo_locationGid :: "string option"
  fo_locationName :: "string option"

datatype AllocationState =
    ALLOC_OPEN | ALLOC_PARTIALLY_BOOKED | ALLOC_FULLY_BOOKED | ALLOC_EXCLUDED | ALLOC_CLOSED

datatype MergePath = CONSOLIDATED | FALLBACK_PER_FULFILLMENT_ORDER

record AllocationPlanItem =
  pi_state :: AllocationState
  pi_sourceFulfillmentOrderGids :: "string list"
  pi_shopifyLocationGid :: "string option"
  pi_exclusionReason :: "AllocationExclusionReason option"
  pi_mergePath :: "MergePath option"

definition inHouseStatuses :: "string list" where
  "inHouseStatuses = [''OPEN'', ''SCHEDULED'', ''ON_HOLD'']"

definition cancelledStatuses :: "string list" where
  "cancelledStatuses = [''CANCELLED'', ''INCOMPLETE'']"

definition excludedItem :: "FulfillmentOrderInfo \<Rightarrow> AllocationExclusionReason \<Rightarrow> AllocationPlanItem" where
  "excludedItem fo why = \<lparr>pi_state = ALLOC_EXCLUDED, pi_sourceFulfillmentOrderGids = [fo_gid fo],
     pi_shopifyLocationGid = fo_locationGid fo, pi_exclusionReason = Some why, pi_mergePath = None\<rparr>"

definition openItem :: "string list \<Rightarrow> string option \<Rightarrow> MergePath \<Rightarrow> AllocationPlanItem" where
  "openItem gids location path = \<lparr>pi_state = ALLOC_OPEN, pi_sourceFulfillmentOrderGids = gids,
     pi_shopifyLocationGid = location, pi_exclusionReason = None, pi_mergePath = Some path\<rparr>"

text \<open>The loop over the fulfillment orders: the excluded items and those in house.\<close>

fun sortOut :: "(string option \<Rightarrow> bool) \<Rightarrow> FulfillmentOrderInfo list
     \<Rightarrow> AllocationPlanItem list \<times> FulfillmentOrderInfo list" where
  "sortOut shipsViaJsyxi [] = ([], [])"
| "sortOut shipsViaJsyxi (fo # fos) =
     (case sortOut shipsViaJsyxi fos of (plan, inHouse) \<Rightarrow>
        if fo_status fo \<in> set inHouseStatuses then
          (if \<not> shipsViaJsyxi (fo_locationGid fo)
           then (excludedItem fo LOCATION_NOT_SHIPPED_VIA_JSYXI # plan, inHouse)
           else (plan, fo # inHouse))
        else (excludedItem fo (if fo_status fo \<in> set cancelledStatuses
                then FULFILLMENT_ORDER_CANCELLED else EXTERNALLY_FULFILLED) # plan, inHouse))"

definition buildAllocationPlan ::
  "FulfillmentOrderInfo list \<Rightarrow> (string option \<Rightarrow> bool) \<Rightarrow> bool \<Rightarrow> AllocationPlanItem list" where
  "buildAllocationPlan fulfillmentOrders shipsViaJsyxi canMerge =
     (let (excluded, inHouse) = sortOut shipsViaJsyxi fulfillmentOrders;
          plan = excluded @
            (if canMerge then
               (if inHouse = [] then []
                else [openItem (map fo_gid inHouse) (fo_locationGid (hd inHouse)) CONSOLIDATED])
             else map (\<lambda>fo. openItem [fo_gid fo] (fo_locationGid fo) FALLBACK_PER_FULFILLMENT_ORDER) inHouse)
      in if plan = [] then [openItem [] None CONSOLIDATED] else plan)"

section \<open>Tables\<close>

datatype OrderState =
    IMPORTED | INCOMPLETE | READY | ORDER_PARTIALLY_BOOKED | ORDER_FULLY_BOOKED | ORDER_CLOSED
  | CANCELLED_IN_SHOPIFY

definition unbookedOrderStates :: "OrderState list" where
  "unbookedOrderStates = [IMPORTED, INCOMPLETE, READY]"

definition terminalOrderStates :: "OrderState list" where
  "terminalOrderStates = [CANCELLED_IN_SHOPIFY, ORDER_CLOSED]"

record SyncOrderRow =
  os_order_id :: string
  os_shop_id :: string
  os_shopify_order_gid :: "string option"
  os_shopify_order_number :: "string option"
  os_created_at_shopify :: "string option"
  os_order_state :: OrderState
  os_payment_mode :: payment_mode
  os_cod_assignment_state :: CodAssignmentState
  os_order_amount :: "string option"
  os_cod_outstanding :: "string option"
  os_presentment_amount :: "string option"
  os_presentment_currency :: "string option"
  os_recipient_snapshot :: "WorkingRecipient option"
  os_risk_flag :: "string option"
  os_is_test_order :: bool
  os_checkout_shipping_title :: "string option"
  os_checkout_shipping_amount :: "string option"
  os_version :: int

record OrderLineRow =
  ol_order_line_id :: string
  ol_order_id :: string
  ol_shopify_line_gid :: "string option"
  ol_sku :: "string option"
  ol_title :: "string option"
  ol_variant :: "string option"
  ol_quantity :: int
  ol_unit_price :: "string option"
  ol_tags :: "string list"
  ol_hsn_code :: "string option"
  ol_weight_kg_override :: "string option"

record AllocationRow =
  aw_allocation_id :: string
  aw_order_id :: string
  aw_pickup_location_id :: "string option"
  aw_source_fulfillment_order_gids :: "string list"
  aw_state :: AllocationState
  aw_version :: int

record SyncLine =
  yl_orderLineId :: string
  yl_shopifyLineGid :: "string option"
  yl_sku :: "string option"
  yl_title :: "string option"
  yl_variant :: "string option"
  yl_quantity :: int
  yl_unitPrice :: "string option"
  yl_tags :: "string list"
  yl_hsnCode :: "string option"
  yl_weightKgPerUnit :: "string option"

record SyncPayment =
  yp_mode :: payment_mode
  yp_gatewayNames :: "string list"
  yp_collectible :: string
  yp_totalOutstanding :: "string option"

record WorkingFulfillment =
  yf_sourceFulfillmentOrderGids :: "string list"
  yf_shopifyLocationGid :: "string option"
  yf_mergePath :: MergePath

record SyncPackageProfile =
  yk_packageProfileId :: string
  yk_source :: PackageSelectionSource
  yk_matchedRuleId :: "string option"
  yk_lengthCm :: string
  yk_widthCm :: string
  yk_heightCm :: string
  yk_tareKg :: string

record SyncWorkingValues =
  yw_recipient :: "WorkingRecipient option"
  yw_lines :: "SyncLine list"
  yw_payment :: SyncPayment
  yw_fulfillment :: WorkingFulfillment
  yw_weight :: "DeadWeightResult option"
  yw_packageProfile :: "SyncPackageProfile option"
  yw_validation :: "EligibilityResult option"
  yw_routing :: "WorkingRouting option"

record SyncShipmentRow =
  hs_shipment_id :: string
  hs_shop_id :: string
  hs_order_id :: string
  hs_allocation_id :: "string option"
  hs_pickup_location_id :: "string option"
  hs_booking_state :: BookingState
  hs_awb_normalized :: "string option"
  hs_collectible :: string
  hs_working_values :: "SyncWorkingValues option"
  hs_version :: int

record ShipmentLineRow =
  hl_shipment_id :: string
  hl_order_line_id :: string
  hl_quantity :: int

record LocationRow =
  lo_shop_id :: string
  lo_shopify_location_gid :: string
  lo_name :: string
  lo_ships_via_jsyxi :: bool
  lo_version :: int

record SkuOverrideRow =
  ko_shop_id :: string
  ko_sku :: string
  ko_weight_kg :: "string option"
  ko_package_profile_id :: "string option"

text \<open>The unique index on the Shopify id of an order: with a WHERE clause, as migrated, or without.\<close>

datatype GidIndex = GidUniqueWhereNotNull | GidUnique

datatype OrderCall =
    AllocationExcluded string "AllocationExclusionReason option"
  | CodAssignmentChanged string CodAssignmentState CodAssignmentState
  | OrderCancelledAudit string
  | CodConfirmationStart string

text \<open>
  \<open>od_intents\<close> holds the shipment of each \<open>booking_intent\<close>, \<open>od_invoice_lines\<close> the order line of each
  \<open>gst_invoice_line\<close>: the rows of other components with a foreign key into these tables.
\<close>

record OrderDb =
  od_orders :: "SyncOrderRow list"
  od_lines :: "OrderLineRow list"
  od_allocations :: "AllocationRow list"
  od_shipments :: "SyncShipmentRow list"
  od_shipment_lines :: "ShipmentLineRow list"
  od_locations :: "LocationRow list"
  od_pickups :: "(string \<times> string) list"
  od_profiles :: "(string \<times> PackageProfileInput) list"
  od_package_rules :: "(string \<times> PackageRuleInput) list"
  od_sku_overrides :: "SkuOverrideRow list"
  od_parcel_weights :: "(string \<times> string) list"
  od_cod_gateways :: "(string \<times> string list) list"
  od_intents :: "string list"
  od_invoice_lines :: "string list"
  od_gid_indexes :: "GidIndex list"
  od_ids :: nat
  od_calls :: "OrderCall list"

datatype order_error =
    Unmappable
  | NoConflictArbiter
  | OrderCheckViolation
  | ForeignKeyViolation string
  | OrderAuditFailed
  | GraphqlFailed
  | DerivationThrew js_error
  | OrderNotFound

text \<open>
  The world around a run: \<open>gen_random_uuid\<close> as a stream, the texts PostgreSQL reads as a
  timestamp, whether audit records can be written, Shopify's fulfillment orders (None when the
  call throws), the merge capability, and the writes of others in the gaps between transactions.
\<close>

record OrderEnv =
  oe_uuid :: "nat \<Rightarrow> string"
  oe_timestamp :: "string \<Rightarrow> bool"
  oe_audit_up :: bool
  oe_fulfillmentOrders :: "string \<Rightarrow> string \<Rightarrow> FulfillmentOrderInfo list option"
  oe_canMerge :: "FulfillmentOrderInfo list \<Rightarrow> bool"
  oe_gap :: "nat \<Rightarrow> OrderDb \<Rightarrow> OrderDb"

type_synonym 'a order_run = "(order_error + 'a) \<times> OrderDb"

text \<open>
  \<open>BEGIN ... COMMIT\<close> with ROLLBACK on a throw.  Records of the audit trail go through another
  connection, so they survive; ids once drawn are not drawn again.
\<close>

definition inTx :: "(OrderDb \<Rightarrow> 'a order_run) \<Rightarrow> OrderDb \<Rightarrow> 'a order_run" where
  "inTx body db = (case body db of
       (Inl e, db') \<Rightarrow> (Inl e, db\<lparr>od_calls := od_calls db', od_ids := od_ids db'\<rparr>)
     | (Inr a, db') \<Rightarrow> (Inr a, db'))"

definition orderCall :: "OrderCall \<Rightarrow> OrderDb \<Rightarrow> OrderDb" where
  "orderCall c db = db\<lparr>od_calls := od_calls db @ [c]\<rparr>"

definition auditOrder :: "OrderEnv \<Rightarrow> OrderCall \<Rightarrow> OrderDb \<Rightarrow> unit order_run" where
  "auditOrder env c db = (if oe_audit_up env then (Inr (), orderCall c db) else (Inl OrderAuditFailed, db))"

section \<open>The order and its lines\<close>

text \<open>The mapper's amounts have two decimals, a \<open>numeric(19,4)\<close> column gives four back.\<close>

definition numericText :: "string option \<Rightarrow> string option" where
  "numericText amount = map_option (\<lambda>a. a @ ''00'') amount"

definition fitsNumeric :: "string option \<Rightarrow> bool" where
  "fitsNumeric amount \<longleftrightarrow> (case amount of None \<Rightarrow> True
     | Some a \<Rightarrow> (case rupeesToPaise a of Inl _ \<Rightarrow> False | Inr p \<Rightarrow> \<bar>p\<bar> < 10 ^ 17))"

definition nonNegative :: "string option \<Rightarrow> bool" where
  "nonNegative amount \<longleftrightarrow> (case amount of None \<Rightarrow> True
     | Some a \<Rightarrow> (case rupeesToPaise a of Inl _ \<Rightarrow> False | Inr p \<Rightarrow> 0 \<le> p))"

definition orderChecks :: "OrderEnv \<Rightarrow> MappedOrder \<Rightarrow> bool" where
  "orderChecks env mapped \<longleftrightarrow>
     (case mo_createdAtShopify mapped of None \<Rightarrow> True | Some t \<Rightarrow> oe_timestamp env t)
   \<and> fitsNumeric (mo_orderAmount mapped) \<and> nonNegative (mo_orderAmount mapped)
   \<and> fitsNumeric (mo_presentmentAmount mapped)
   \<and> fitsNumeric (mo_checkoutShippingAmount mapped) \<and> nonNegative (mo_checkoutShippingAmount mapped)"

definition lineColumnsFit :: "MappedOrderLine \<Rightarrow> bool" where
  "lineColumnsFit l \<longleftrightarrow> 0 < ml_quantity l \<and> ml_quantity l < 2 ^ 31
     \<and> fitsNumeric (ml_unitPrice l) \<and> nonNegative (ml_unitPrice l)
     \<and> (case ml_weightKgPerUnit l of None \<Rightarrow> True
        | Some w \<Rightarrow> (case kgToGrams w of Inl _ \<Rightarrow> False | Inr g \<Rightarrow> g < 10 ^ 10))"

text \<open>The columns both the INSERT and the DO UPDATE write.\<close>

definition mirrored :: "MappedOrder \<Rightarrow> SyncOrderRow \<Rightarrow> SyncOrderRow" where
  "mirrored mapped r = r\<lparr>os_shopify_order_number := mo_shopifyOrderNumber mapped,
     os_created_at_shopify := mo_createdAtShopify mapped,
     os_order_amount := numericText (mo_orderAmount mapped),
     os_presentment_amount := numericText (mo_presentmentAmount mapped),
     os_presentment_currency := mo_presentmentCurrency mapped,
     os_recipient_snapshot := mo_recipientSnapshot mapped,
     os_risk_flag := mo_riskFlag mapped, os_is_test_order := mo_isTestOrder mapped,
     os_checkout_shipping_title := mo_checkoutShippingTitle mapped,
     os_checkout_shipping_amount := numericText (mo_checkoutShippingAmount mapped)\<rparr>"

definition newOrder :: "string \<Rightarrow> string \<Rightarrow> MappedOrder \<Rightarrow> SyncOrderRow" where
  "newOrder orderId shopId mapped = mirrored mapped \<lparr>os_order_id = orderId, os_shop_id = shopId,
     os_shopify_order_gid = Some (mo_shopifyOrderGid mapped), os_shopify_order_number = None,
     os_created_at_shopify = None, os_order_state = IMPORTED, os_payment_mode = UNRESOLVED,
     os_cod_assignment_state = COD_NOT_APPLICABLE, os_order_amount = None, os_cod_outstanding = None,
     os_presentment_amount = None, os_presentment_currency = None, os_recipient_snapshot = None,
     os_risk_flag = None, os_is_test_order = False, os_checkout_shipping_title = None,
     os_checkout_shipping_amount = None, os_version = 1\<rparr>"

definition orderByGid :: "OrderDb \<Rightarrow> string \<Rightarrow> string \<Rightarrow> SyncOrderRow option" where
  "orderByGid db shopId gid =
     List.find (\<lambda>r. os_shop_id r = shopId \<and> os_shopify_order_gid r = Some gid) (od_orders db)"

definition freshUuid :: "OrderEnv \<Rightarrow> OrderDb \<Rightarrow> string \<times> OrderDb" where
  "freshUuid env db = (oe_uuid env (od_ids db), db\<lparr>od_ids := od_ids db + 1\<rparr>)"

text \<open>
  \<open>INSERT ... ON CONFLICT (shop_id, shopify_order_gid) DO UPDATE ... RETURNING\<close>: without a WHERE clause
  in the conflict target only an index without a predicate is inferred as the arbiter, and without
  an arbiter the statement is an error.
\<close>

definition upsertOrderRow :: "OrderEnv \<Rightarrow> string \<Rightarrow> MappedOrder \<Rightarrow> OrderDb \<Rightarrow> (SyncOrderRow \<times> bool) order_run" where
  "upsertOrderRow env shopId mapped db =
     (if GidUnique \<notin> set (od_gid_indexes db) then (Inl NoConflictArbiter, db)
      else if \<not> orderChecks env mapped then (Inl OrderCheckViolation, db)
      else (case orderByGid db shopId (mo_shopifyOrderGid mapped) of
          None \<Rightarrow> (let (orderId, db) = freshUuid env db; row = newOrder orderId shopId mapped
                  in (Inr (row, True), db\<lparr>od_orders := od_orders db @ [row]\<rparr>))
        | Some r \<Rightarrow> (let row = (mirrored mapped r)\<lparr>os_version := os_version r + 1\<rparr>
                    in (Inr (row, False), db\<lparr>od_orders :=
                          map (\<lambda>o'. if os_order_id o' = os_order_id r then row else o') (od_orders db)\<rparr>))))"

text \<open>\<open>DELETE FROM order_line\<close>: refused while another row refers to one of the lines.\<close>

definition linesOfOrder :: "OrderDb \<Rightarrow> string \<Rightarrow> OrderLineRow list" where
  "linesOfOrder db orderId = filter (\<lambda>l. ol_order_id l = orderId) (od_lines db)"

definition deleteOrderLines :: "string \<Rightarrow> OrderDb \<Rightarrow> unit order_run" where
  "deleteOrderLines orderId db =
     (let gone = map ol_order_line_id (linesOfOrder db orderId) in
      if list_ex (\<lambda>h. hl_order_line_id h \<in> set gone) (od_shipment_lines db)
      then (Inl (ForeignKeyViolation ''shipment_line''), db)
      else if list_ex (\<lambda>i. i \<in> set gone) (od_invoice_lines db)
      then (Inl (ForeignKeyViolation ''gst_invoice_line''), db)
      else (Inr (), db\<lparr>od_lines := filter (\<lambda>l. ol_order_id l \<noteq> orderId) (od_lines db)\<rparr>))"

definition lineRow :: "string \<Rightarrow> string \<Rightarrow> MappedOrderLine \<Rightarrow> OrderLineRow" where
  "lineRow orderId lineId l = \<lparr>ol_order_line_id = lineId, ol_order_id = orderId,
     ol_shopify_line_gid = ml_shopifyLineGid l, ol_sku = ml_sku l, ol_title = ml_title l,
     ol_variant = ml_variant l, ol_quantity = ml_quantity l, ol_unit_price = numericText (ml_unitPrice l),
     ol_tags = ml_tags l, ol_hsn_code = ml_hsnCode l, ol_weight_kg_override = ml_weightKgPerUnit l\<rparr>"

definition lineRows :: "OrderEnv \<Rightarrow> nat \<Rightarrow> string \<Rightarrow> MappedOrderLine list \<Rightarrow> OrderLineRow list" where
  "lineRows env n orderId ls = map (\<lambda>(i, l). lineRow orderId (oe_uuid env (n + i)) l) (enumerate 0 ls)"

definition insertOrderLines :: "OrderEnv \<Rightarrow> string \<Rightarrow> MappedOrderLine list \<Rightarrow> OrderDb \<Rightarrow> unit order_run" where
  "insertOrderLines env orderId ls db =
     (if \<not> list_all lineColumnsFit ls then (Inl OrderCheckViolation, db)
      else (Inr (), db\<lparr>od_lines := od_lines db @ lineRows env (od_ids db) orderId ls,
                       od_ids := od_ids db + length ls\<rparr>))"

record OrderUpsertResult =
  ou_orderId :: string
  ou_orderState :: OrderState
  ou_inserted :: bool
  ou_linesRewritten :: bool
  ou_unbooked :: bool

definition upsertInTx :: "OrderEnv \<Rightarrow> string \<Rightarrow> MappedOrder \<Rightarrow> OrderDb \<Rightarrow> OrderUpsertResult order_run" where
  "upsertInTx env shopId mapped db =
     bindX (upsertOrderRow env shopId mapped db) (\<lambda>(row, inserted) db.
       (let orderId = os_order_id row; unbooked = os_order_state row \<in> set unbookedOrderStates;
            result = \<lparr>ou_orderId = orderId, ou_orderState = os_order_state row, ou_inserted = inserted,
              ou_linesRewritten = unbooked, ou_unbooked = unbooked\<rparr>
        in if unbooked
           then bindX (deleteOrderLines orderId db) (\<lambda>_ db.
                bindX (insertOrderLines env orderId (mo_lines mapped) db) (\<lambda>_ db. (Inr result, db)))
           else (Inr result, db)))"

definition upsert :: "OrderEnv \<Rightarrow> string \<Rightarrow> MappedOrder \<Rightarrow> OrderDb \<Rightarrow> OrderUpsertResult order_run" where
  "upsert env shopId mapped db = inTx (upsertInTx env shopId mapped) db"

definition setOrders :: "(SyncOrderRow \<Rightarrow> bool) \<Rightarrow> (SyncOrderRow \<Rightarrow> SyncOrderRow) \<Rightarrow> OrderDb \<Rightarrow> OrderDb" where
  "setOrders cond f db = db\<lparr>od_orders :=
     map (\<lambda>r. if cond r then (f r)\<lparr>os_version := os_version r + 1\<rparr> else r) (od_orders db)\<rparr>"

definition markCancelledInShopify :: "string \<Rightarrow> string \<Rightarrow> OrderDb \<Rightarrow> bool \<times> OrderDb" where
  "markCancelledInShopify shopId orderId db =
     (let cond = (\<lambda>r. os_shop_id r = shopId \<and> os_order_id r = orderId
            \<and> os_order_state r \<notin> {CANCELLED_IN_SHOPIFY, ORDER_CLOSED})
      in (list_ex cond (od_orders db),
          setOrders cond (\<lambda>r. r\<lparr>os_order_state := CANCELLED_IN_SHOPIFY\<rparr>) db))"

definition findOrderId :: "OrderDb \<Rightarrow> string \<Rightarrow> string \<Rightarrow> string option" where
  "findOrderId db shopId gid = map_option os_order_id (orderByGid db shopId gid)"

end
