(* ===== verification/AllocationSync.thy ===== *)
theory AllocationSync
  imports Allocation
begin

text \<open>
  \<open>src/modules/order-sync/allocation.service.ts\<close> and \<open>location.service.ts\<close>: the locations of a
  shop, the rebuild of the allocations and DRAFT shipments of an unbooked order in one transaction,
  and the exclusion of what was fulfilled elsewhere, statement by statement.
\<close>

section \<open>Locations\<close>

text \<open>One \<open>INSERT ... ON CONFLICT (shop_id, shopify_location_gid) DO UPDATE\<close>.\<close>

definition upsertLocation :: "string \<Rightarrow> string \<times> string \<Rightarrow> OrderDb \<Rightarrow> OrderDb" where
  "upsertLocation shopId loc db =
     (let here = (\<lambda>l. lo_shop_id l = shopId \<and> lo_shopify_location_gid l = fst loc) in
      if list_ex here (od_locations db)
      then db\<lparr>od_locations := map (\<lambda>l. if here l then l\<lparr>lo_name := snd loc, lo_version := lo_version l + 1\<rparr> else l)
             (od_locations db)\<rparr>
      else db\<lparr>od_locations := od_locations db @ [\<lparr>lo_shop_id = shopId, lo_shopify_location_gid = fst loc,
             lo_name = snd loc, lo_ships_via_jsyxi = True, lo_version = 1\<rparr>]\<rparr>)"

definition ensureLocations :: "string \<Rightarrow> (string \<times> string) list \<Rightarrow> OrderDb \<Rightarrow> OrderDb" where
  "ensureLocations shopId locs db = foldl (\<lambda>db loc. upsertLocation shopId loc db) db locs"

text \<open>The full discovery pass: a page of locations and the cursor of the next one, until there is none.\<close>

partial_function (option) syncLocationsFrom ::
  "(string option \<Rightarrow> ((string \<times> string) list \<times> string option) option) \<Rightarrow> string \<Rightarrow> string option \<Rightarrow> nat
     \<Rightarrow> OrderDb \<Rightarrow> nat order_run option" where
  "syncLocationsFrom page shopId after synced db =
     (case page after of
        None \<Rightarrow> Some (Inl GraphqlFailed, db)
      | Some (nodes, next) \<Rightarrow>
          (case next of
             None \<Rightarrow> Some (Inr (synced + length nodes), ensureLocations shopId nodes db)
           | Some cursor \<Rightarrow> syncLocationsFrom page shopId (Some cursor) (synced + length nodes)
               (ensureLocations shopId nodes db)))"

definition syncLocations ::
  "(string option \<Rightarrow> ((string \<times> string) list \<times> string option) option) \<Rightarrow> string \<Rightarrow> OrderDb
     \<Rightarrow> nat order_run option" where
  "syncLocations page shopId db = syncLocationsFrom page shopId None 0 db"

text \<open>It returns when some number of pages leads to the last one, or to a failing call.\<close>

fun pageAfter :: "(string option \<Rightarrow> ((string \<times> string) list \<times> string option) option) \<Rightarrow> nat
     \<Rightarrow> string option \<Rightarrow> string option option" where
  "pageAfter page 0 after = Some after"
| "pageAfter page (Suc n) after =
     (case page after of Some (_, Some cursor) \<Rightarrow> pageAfter page n (Some cursor) | _ \<Rightarrow> None)"

lemma syncLocationsFrom_returns:
  "pageAfter page n after = None \<Longrightarrow> \<exists>r. syncLocationsFrom page shopId after synced db = Some r"
proof (induction n arbitrary: after synced db)
  case (Suc n)
  then show ?case
    by (subst syncLocationsFrom.simps) (auto split: option.splits prod.splits)
qed simp

lemma syncLocations_returns: "pageAfter page n None = None \<Longrightarrow> \<exists>r. syncLocations page shopId db = Some r"
  unfolding syncLocations_def by (rule syncLocationsFrom_returns)

definition getShipsViaFlags :: "OrderDb \<Rightarrow> string \<Rightarrow> string list \<Rightarrow> (string \<times> bool) list" where
  "getShipsViaFlags db shopId gids = map_from (map (\<lambda>l. (lo_shopify_location_gid l, lo_ships_via_jsyxi l))
     (filter (\<lambda>l. lo_shop_id l = shopId \<and> lo_shopify_location_gid l \<in> set gids) (od_locations db)))"

definition locationsOf :: "FulfillmentOrderInfo list \<Rightarrow> (string \<times> string) list" where
  "locationsOf fos = List.map_filter (\<lambda>fo. map_option
     (\<lambda>gid. (gid, valueOr (fo_locationName fo) ''Unknown location'')) (fo_locationGid fo)) fos"

definition shipsVia :: "(string \<times> bool) list \<Rightarrow> string option \<Rightarrow> bool" where
  "shipsVia flags gid = (case gid of None \<Rightarrow> True | Some g \<Rightarrow> valueOr (map_of flags g) True)"

section \<open>Rebuild\<close>

definition mutableStates :: "BookingState set" where
  "mutableStates = {DRAFT, NEEDS_MANUAL_ASSIGNMENT}"

definition isMutableOf :: "string \<Rightarrow> string \<Rightarrow> SyncShipmentRow \<Rightarrow> bool" where
  "isMutableOf shopId orderId s \<longleftrightarrow> hs_shop_id s = shopId \<and> hs_order_id s = orderId
     \<and> hs_booking_state s \<in> mutableStates"

definition orderOfShop :: "OrderDb \<Rightarrow> string \<Rightarrow> string \<Rightarrow> SyncOrderRow option" where
  "orderOfShop db shopId orderId =
     List.find (\<lambda>r. os_shop_id r = shopId \<and> os_order_id r = orderId) (od_orders db)"

definition syncLine :: "OrderLineRow \<Rightarrow> SyncLine" where
  "syncLine r = \<lparr>yl_orderLineId = ol_order_line_id r, yl_shopifyLineGid = ol_shopify_line_gid r,
     yl_sku = ol_sku r, yl_title = ol_title r, yl_variant = ol_variant r, yl_quantity = ol_quantity r,
     yl_unitPrice = ol_unit_price r, yl_tags = ol_tags r, yl_hsnCode = ol_hsn_code r,
     yl_weightKgPerUnit = ol_weight_kg_override r\<rparr>"

text \<open>The two deletions of mutable shipments: first their lines, then the rows.\<close>

definition deleteShipmentLines :: "(SyncShipmentRow \<Rightarrow> bool) \<Rightarrow> OrderDb \<Rightarrow> OrderDb" where
  "deleteShipmentLines cond db =
     (let gone = map hs_shipment_id (filter cond (od_shipments db)) in
      db\<lparr>od_shipment_lines := filter (\<lambda>h. hl_shipment_id h \<notin> set gone) (od_shipment_lines db)\<rparr>)"

definition deleteShipments :: "(SyncShipmentRow \<Rightarrow> bool) \<Rightarrow> OrderDb \<Rightarrow> unit order_run" where
  "deleteShipments cond db =
     (let gone = map hs_shipment_id (filter cond (od_shipments db)) in
      if list_ex (\<lambda>h. hl_shipment_id h \<in> set gone) (od_shipment_lines db)
      then (Inl (ForeignKeyViolation ''shipment_line''), db)
      else if list_ex (\<lambda>i. i \<in> set gone) (od_intents db)
      then (Inl (ForeignKeyViolation ''booking_intent''), db)
      else (Inr (), db\<lparr>od_shipments := filter (\<lambda>s. \<not> cond s) (od_shipments db)\<rparr>))"

definition deleteAllocations :: "(AllocationRow \<Rightarrow> bool) \<Rightarrow> OrderDb \<Rightarrow> unit order_run" where
  "deleteAllocations cond db =
     (let gone = map aw_allocation_id (filter cond (od_allocations db)) in
      if list_ex (\<lambda>s. case hs_allocation_id s of None \<Rightarrow> False | Some a \<Rightarrow> a \<in> set gone) (od_shipments db)
      then (Inl (ForeignKeyViolation ''shipment''), db)
      else (Inr (), db\<lparr>od_allocations := filter (\<lambda>a. \<not> cond a) (od_allocations db)\<rparr>))"

definition draftValues :: "MappedOrder \<Rightarrow> SyncLine list \<Rightarrow> AllocationPlanItem \<Rightarrow> SyncWorkingValues" where
  "draftValues mapped workingLines item = \<lparr>yw_recipient = mo_recipientSnapshot mapped, yw_lines = workingLines,
     yw_payment = \<lparr>yp_mode = UNRESOLVED, yp_gatewayNames = mo_gatewayNames mapped, yp_collectible = ''0.00'',
       yp_totalOutstanding = mo_totalOutstandingShopMoney mapped\<rparr>,
     yw_fulfillment = \<lparr>yf_sourceFulfillmentOrderGids = pi_sourceFulfillmentOrderGids item,
       yf_shopifyLocationGid = pi_shopifyLocationGid item,
       yf_mergePath = valueOr (pi_mergePath item) CONSOLIDATED\<rparr>,
     yw_weight = None, yw_packageProfile = None, yw_validation = None, yw_routing = None\<rparr>"

definition draftRow :: "string \<Rightarrow> string \<Rightarrow> string \<Rightarrow> string \<Rightarrow> string option \<Rightarrow> SyncWorkingValues \<Rightarrow> SyncShipmentRow" where
  "draftRow shipmentId shopId orderId allocationId pickup working = \<lparr>hs_shipment_id = shipmentId,
     hs_shop_id = shopId, hs_order_id = orderId, hs_allocation_id = Some allocationId,
     hs_pickup_location_id = pickup, hs_booking_state = DRAFT, hs_awb_normalized = None,
     hs_collectible = ''0.0000'', hs_working_values = Some working, hs_version = 1\<rparr>"

definition draftLines :: "string \<Rightarrow> SyncLine list \<Rightarrow> ShipmentLineRow list" where
  "draftLines shipmentId ls = map (\<lambda>l. \<lparr>hl_shipment_id = shipmentId, hl_order_line_id = yl_orderLineId l,
     hl_quantity = yl_quantity l\<rparr>) ls"

definition writePlanItem :: "OrderEnv \<Rightarrow> string \<Rightarrow> string \<Rightarrow> string option \<Rightarrow> MappedOrder \<Rightarrow> SyncLine list
     \<Rightarrow> AllocationPlanItem \<Rightarrow> OrderDb \<Rightarrow> unit order_run" where
  "writePlanItem env shopId orderId pickup mapped workingLines item db =
     (let (allocationId, db) = freshUuid env db;
          db = db\<lparr>od_allocations := od_allocations db @ [\<lparr>aw_allocation_id = allocationId, aw_order_id = orderId,
             aw_pickup_location_id = (if pi_state item = ALLOC_OPEN then pickup else None),
             aw_source_fulfillment_order_gids = pi_sourceFulfillmentOrderGids item,
             aw_state = pi_state item, aw_version = 1\<rparr>]\<rparr>
      in if pi_state item = ALLOC_EXCLUDED
         then auditOrder env (AllocationExcluded allocationId (pi_exclusionReason item)) db
         else (let (shipmentId, db) = freshUuid env db
               in (Inr (), db\<lparr>od_shipments := od_shipments db @
                      [draftRow shipmentId shopId orderId allocationId pickup (draftValues mapped workingLines item)],
                    od_shipment_lines := od_shipment_lines db @ draftLines shipmentId workingLines\<rparr>)))"

fun writePlan :: "OrderEnv \<Rightarrow> string \<Rightarrow> string \<Rightarrow> string option \<Rightarrow> MappedOrder \<Rightarrow> SyncLine list
     \<Rightarrow> AllocationPlanItem list \<Rightarrow> OrderDb \<Rightarrow> unit order_run" where
  "writePlan env shopId orderId pickup mapped ls [] db = (Inr (), db)"
| "writePlan env shopId orderId pickup mapped ls (item # items) db =
     bindX (writePlanItem env shopId orderId pickup mapped ls item db)
       (\<lambda>_ db. writePlan env shopId orderId pickup mapped ls items db)"

text \<open>The body of the transaction: whether it rebuilt, or found the order booked or gone.\<close>

definition rebuildBody :: "OrderEnv \<Rightarrow> string \<Rightarrow> string \<Rightarrow> MappedOrder \<Rightarrow> AllocationPlanItem list
     \<Rightarrow> OrderDb \<Rightarrow> bool order_run" where
  "rebuildBody env shopId orderId mapped plan db =
     (case orderOfShop db shopId orderId of
        None \<Rightarrow> (Inr False, db)
      | Some order \<Rightarrow>
          if os_order_state order \<notin> set unbookedOrderStates then (Inr False, db)
          else (let pickup = map_of (od_pickups db) shopId;
                    workingLines = map syncLine (linesOfOrder db orderId);
                    db = deleteShipmentLines (isMutableOf shopId orderId) db
                in bindX (deleteShipments (isMutableOf shopId orderId) db) (\<lambda>_ db.
                   bindX (deleteAllocations (\<lambda>a. aw_order_id a = orderId \<and> aw_state a \<in> {ALLOC_OPEN, ALLOC_EXCLUDED}) db)
                     (\<lambda>_ db. bindX (writePlan env shopId orderId pickup mapped workingLines plan db)
                     (\<lambda>_ db. (Inr True, db))))))"

definition rebuild :: "OrderEnv \<Rightarrow> string \<Rightarrow> string \<Rightarrow> MappedOrder \<Rightarrow> OrderDb \<Rightarrow> bool order_run" where
  "rebuild env shopId orderId mapped db =
     (case oe_fulfillmentOrders env shopId (mo_shopifyOrderGid mapped) of
        None \<Rightarrow> (Inl GraphqlFailed, db)
      | Some fos \<Rightarrow>
          (let locs = locationsOf fos;
               db = ensureLocations shopId locs db;
               flags = getShipsViaFlags db shopId (map fst locs);
               inHouse = filter (\<lambda>fo. fo_status fo \<in> set inHouseStatuses) fos;
               plan = buildAllocationPlan fos (shipsVia flags) (oe_canMerge env inHouse)
           in inTx (rebuildBody env shopId orderId mapped plan) (oe_gap env 1 db)))"

section \<open>Fulfilled elsewhere\<close>

definition overlaps :: "string list \<Rightarrow> string list option \<Rightarrow> bool" where
  "overlaps own gids \<longleftrightarrow> (case gids of None \<Rightarrow> True | Some gs \<Rightarrow> list_ex (\<lambda>g. g \<in> set gs) own)"

fun auditExcluded :: "OrderEnv \<Rightarrow> string list \<Rightarrow> OrderDb \<Rightarrow> unit order_run" where
  "auditExcluded env [] db = (Inr (), db)"
| "auditExcluded env (i # is) db =
     bindX (auditOrder env (AllocationExcluded i (Some EXTERNALLY_FULFILLED)) db) (\<lambda>_ db. auditExcluded env is db)"

text \<open>Every statement commits on its own.\<close>

definition markExternallyFulfilled :: "OrderEnv \<Rightarrow> string \<Rightarrow> string \<Rightarrow> string list option \<Rightarrow> OrderDb
     \<Rightarrow> string list order_run" where
  "markExternallyFulfilled env shopId orderId gids db =
     (let cond = (\<lambda>a. aw_order_id a = orderId \<and> orderOfShop db shopId orderId \<noteq> None \<and> aw_state a = ALLOC_OPEN
            \<and> overlaps (aw_source_fulfillment_order_gids a) gids);
          ids = map aw_allocation_id (filter cond (od_allocations db));
          db = db\<lparr>od_allocations := map (\<lambda>a. if cond a
                then a\<lparr>aw_state := ALLOC_EXCLUDED, aw_version := aw_version a + 1\<rparr> else a) (od_allocations db)\<rparr>;
          unbooked = (\<lambda>s. hs_shop_id s = shopId \<and> hs_booking_state s \<in> mutableStates
            \<and> (case hs_allocation_id s of None \<Rightarrow> False | Some a \<Rightarrow> a \<in> set ids));
          dropped = (if ids = [] then (Inr (), db) else deleteShipments unbooked (deleteShipmentLines unbooked db))
      in bindX dropped (\<lambda>_ db. bindX (auditExcluded env ids db) (\<lambda>_ db. (Inr ids, db))))"

end
