(* ===== verification/OrderDerivation.thy ===== *)
theory OrderDerivation
  imports AllocationSync
begin

text \<open>
  \<open>src/modules/order-derivation/order-derivation.service.ts\<close>: the derivations of \<open>Weight\<close>,
  \<open>PackageSelection\<close>, \<open>Payment\<close>, \<open>OrderStatus\<close> and \<open>Eligibility\<close> over the rows of one order, written
  back in one transaction on the locked order.
\<close>

section \<open>What is read\<close>

definition codGatewayMapSeed :: "string list" where
  "codGatewayMapSeed = [''Cash on Delivery (COD)'', ''Cash on Delivery'', ''COD'', ''cod'', ''cash_on_delivery'']"

definition defaultParcelWeightKg :: string where
  "defaultParcelWeightKg = ''0.500''"

definition bookingStateText :: "BookingState \<Rightarrow> string" where
  "bookingStateText s = (case s of DRAFT \<Rightarrow> ''DRAFT'' | NEEDS_MANUAL_ASSIGNMENT \<Rightarrow> ''NEEDS_MANUAL_ASSIGNMENT''
     | QUEUED \<Rightarrow> ''QUEUED'' | SUBMITTED \<Rightarrow> ''SUBMITTED'' | CONFIRMED \<Rightarrow> ''CONFIRMED'' | FAILED \<Rightarrow> ''FAILED''
     | OUTCOME_UNKNOWN \<Rightarrow> ''OUTCOME_UNKNOWN'' | VOID \<Rightarrow> ''VOID'')"

definition ofShop :: "string \<Rightarrow> (string \<times> 'a) list \<Rightarrow> 'a list" where
  "ofShop shopId rows = map snd (filter (\<lambda>r. fst r = shopId) rows)"

definition shipmentsOfOrder :: "OrderDb \<Rightarrow> string \<Rightarrow> string \<Rightarrow> SyncShipmentRow list" where
  "shipmentsOfOrder db shopId orderId =
     filter (\<lambda>s. hs_shop_id s = shopId \<and> hs_order_id s = orderId) (od_shipments db)"

definition skusOf :: "OrderLineRow list \<Rightarrow> string list" where
  "skusOf ls = firstOccurrences (List.map_filter ol_sku ls)"

definition overridesFor :: "OrderDb \<Rightarrow> string \<Rightarrow> string list \<Rightarrow> SkuOverrideRow list" where
  "overridesFor db shopId skus = filter (\<lambda>k. ko_shop_id k = shopId \<and> ko_sku k \<in> set skus) (od_sku_overrides db)"

section \<open>The inputs of the derivations\<close>

definition paymentOf :: "SyncShipmentRow \<Rightarrow> SyncPayment option" where
  "paymentOf s = map_option yw_payment (hs_working_values s)"

definition gatewayNamesOf :: "SyncShipmentRow list \<Rightarrow> string list" where
  "gatewayNamesOf ss = firstOccurrences (concat (map
     (\<lambda>s. case paymentOf s of None \<Rightarrow> [] | Some p \<Rightarrow> yp_gatewayNames p) ss))"

definition totalOutstandingOf :: "SyncShipmentRow list \<Rightarrow> string option" where
  "totalOutstandingOf ss =
     (case List.map_filter (\<lambda>s. Option.bind (paymentOf s) yp_totalOutstanding) ss of [] \<Rightarrow> None | t # _ \<Rightarrow> Some t)"

definition weightInput :: "(string \<times> SkuOverrideRow) list \<Rightarrow> OrderLineRow \<Rightarrow> DeadWeightLineInput" where
  "weightInput overridesBySku l = \<lparr>dwi_orderLineId = Some (ol_order_line_id l), dwi_sku = ol_sku l,
     dwi_quantity = ol_quantity l,
     dwi_skuOverrideWeightKg = Option.bind (ol_sku l) (\<lambda>k. Option.bind (map_of overridesBySku k) ko_weight_kg),
     dwi_lineOverrideWeightKg = None, dwi_shopifyWeightKg = ol_weight_kg_override l\<rparr>"

definition overrideProfiles :: "PackageProfileInput list \<Rightarrow> SkuOverrideRow list \<Rightarrow> SkuOverrideProfile list" where
  "overrideProfiles profiles overrides = List.map_filter (\<lambda>k. Option.bind (ko_package_profile_id k) (\<lambda>i.
     map_option (\<lambda>p. \<lparr>so_sku = ko_sku k, so_profile = p\<rparr>)
       (List.find (\<lambda>p. pp_packageProfileId p = i) profiles))) overrides"

definition codInput :: "SyncShipmentRow \<Rightarrow> ShipmentCodInput" where
  "codInput s = \<lparr>sc_bookingState = bookingStateText (hs_booking_state s),
     sc_awbNormalized = hs_awb_normalized s, sc_collectible = hs_collectible s\<rparr>"

definition eligibilityRecipient :: "WorkingRecipient \<Rightarrow> EligibilityRecipient" where
  "eligibilityRecipient r = \<lparr>er_name = sr_name r, er_addressLines = sr_addressLines r,
     er_pincode = sr_pincode r, er_phone = sr_phone r\<rparr>"

text \<open>Everything the transaction derives before it writes.\<close>

record Derived =
  dv_paymentMode :: payment_mode
  dv_codOutstanding :: "string option"
  dv_codAssignmentState :: CodAssignmentState
  dv_weight :: "DeadWeightResult option"
  dv_selection :: "PackageSelectionResult option"
  dv_eligibility :: EligibilityResult
  dv_gatewayNames :: "string list"
  dv_totalOutstanding :: "string option"

definition deriveCod :: "OrderDb \<Rightarrow> SyncOrderRow \<Rightarrow> SyncShipmentRow list \<Rightarrow> js_error + string option \<times> payment_mode" where
  "deriveCod db order mutables =
     (let gatewayNames = gatewayNamesOf mutables;
          codGatewayMap = valueOr (map_of (od_cod_gateways db) (os_shop_id order)) codGatewayMapSeed
      in bindR (deriveCodOutstanding \<lparr>ci_orderAmountF17 = os_order_amount order,
             ci_totalOutstandingShopMoney = totalOutstandingOf mutables,
             ci_hasCodMappedGateway = list_ex (\<lambda>g. g \<in> set codGatewayMap) gatewayNames\<rparr>) (\<lambda>cod.
         bindR (derivePaymentMode \<lparr>pm_gatewayNames = gatewayNames, pm_codGatewayMap = codGatewayMap,
             pm_codOutstanding = co_codOutstanding cod\<rparr>) (\<lambda>mode.
         Inr (co_codOutstanding cod, mode))))"

text \<open>F-24 and F-20; a throw of the selection is caught and leaves both empty.\<close>

definition deriveParcel :: "OrderDb \<Rightarrow> string \<Rightarrow> OrderLineRow list
     \<Rightarrow> js_error + DeadWeightResult option \<times> PackageSelectionResult option" where
  "deriveParcel db shopId ls =
     (let overrides = overridesFor db shopId (skusOf ls);
          overridesBySku = map_from (map (\<lambda>k. (ko_sku k, k)) overrides);
          profiles = ofShop shopId (od_profiles db);
          parcelWeightKg = valueOr (map_of (od_parcel_weights db) shopId) defaultParcelWeightKg;
          weightInputs = map (weightInput overridesBySku) ls
      in bindR (deriveDeadWeight weightInputs ''0.000'' parcelWeightKg) (\<lambda>preTare.
         (case selectPackageProfile \<lparr>ps_lineSkus = map ol_sku ls,
             ps_skuOverrideProfiles = overrideProfiles profiles overrides,
             ps_rules = js_sort (\<lambda>a b. pr_position a - pr_position b) (ofShop shopId (od_package_rules db)),
             ps_profiles = profiles,
             ps_contentWeightKg = (if dw_usedDefaultParcelWeight preTare then parcelWeightKg
               else dw_lineWeightTotalKg preTare),
             ps_totalItems = foldl (\<lambda>acc l. acc + ol_quantity l) 0 ls\<rparr> of
            Inl _ \<Rightarrow> Inr (None, None)
          | Inr selection \<Rightarrow> bindR (deriveDeadWeight weightInputs (pp_tareKg (pz_profile selection)) parcelWeightKg)
              (\<lambda>weight. Inr (Some weight, Some selection)))))"

definition dimensionsOf :: "PackageSelectionResult \<Rightarrow> DimensionsCm" where
  "dimensionsOf s = \<lparr>dim_lengthCm = pp_lengthCm (pz_profile s), dim_widthCm = pp_widthCm (pz_profile s),
     dim_heightCm = pp_heightCm (pz_profile s)\<rparr>"

definition deriveEligibility :: "SyncOrderRow \<Rightarrow> OrderLineRow list \<Rightarrow> SyncShipmentRow list
     \<Rightarrow> string option \<times> payment_mode \<Rightarrow> DeadWeightResult option \<times> PackageSelectionResult option
     \<Rightarrow> js_error + EligibilityResult" where
  "deriveEligibility order ls mutables cod parcel = evaluateEligibility \<lparr>
     ei_recipient = map_option eligibilityRecipient (os_recipient_snapshot order),
     ei_allocatedLineCount = (if length mutables > 0 then int (length (filter (\<lambda>l. ol_quantity l > 0) ls)) else 0),
     ei_deadWeightKg = map_option dw_deadWeightKg (fst parcel),
     ei_dimensionsCm = map_option dimensionsOf (snd parcel),
     ei_pickupLocationId = (case mutables of [] \<Rightarrow> None | s # _ \<Rightarrow> hs_pickup_location_id s),
     ei_paymentMode = snd cod, ei_collectible = fst cod\<rparr>"

definition deriveOrder :: "OrderDb \<Rightarrow> SyncOrderRow \<Rightarrow> js_error + Derived" where
  "deriveOrder db order =
     (let shopId = os_shop_id order; ls = linesOfOrder db (os_order_id order);
          shipments = shipmentsOfOrder db shopId (os_order_id order);
          mutables = filter (\<lambda>s. hs_booking_state s \<in> mutableStates) shipments
      in bindR (deriveCod db order mutables) (\<lambda>cod.
         bindR (deriveParcel db shopId ls) (\<lambda>parcel.
         bindR (deriveCodAssignmentState (fst cod) (map codInput shipments)) (\<lambda>codAssignmentState.
         bindR (deriveEligibility order ls mutables cod parcel) (\<lambda>eligibility.
         Inr \<lparr>dv_paymentMode = snd cod, dv_codOutstanding = fst cod,
              dv_codAssignmentState = codAssignmentState, dv_weight = fst parcel, dv_selection = snd parcel,
              dv_eligibility = eligibility, dv_gatewayNames = gatewayNamesOf mutables,
              dv_totalOutstanding = totalOutstandingOf mutables\<rparr>)))))"

section \<open>What is written\<close>

definition orderStateOf :: "Derived \<Rightarrow> OrderState" where
  "orderStateOf d = (if eres_ready (dv_eligibility d) then READY else INCOMPLETE)"

definition derivedOrderRow :: "Derived \<Rightarrow> SyncOrderRow \<Rightarrow> SyncOrderRow" where
  "derivedOrderRow d r = r\<lparr>os_payment_mode := dv_paymentMode d,
     os_cod_outstanding := numericText (dv_codOutstanding d),
     os_cod_assignment_state := dv_codAssignmentState d, os_order_state := orderStateOf d\<rparr>"

definition profileBlock :: "PackageSelectionResult \<Rightarrow> SyncPackageProfile" where
  "profileBlock s = \<lparr>yk_packageProfileId = pp_packageProfileId (pz_profile s), yk_source = pz_source s,
     yk_matchedRuleId = pz_matchedRuleId s, yk_lengthCm = pp_lengthCm (pz_profile s),
     yk_widthCm = pp_widthCm (pz_profile s), yk_heightCm = pp_heightCm (pz_profile s),
     yk_tareKg = pp_tareKg (pz_profile s)\<rparr>"

definition nextWorking :: "Derived \<Rightarrow> SyncWorkingValues option \<Rightarrow> SyncWorkingValues" where
  "nextWorking d current = \<lparr>yw_recipient = Option.bind current yw_recipient,
     yw_lines = (case current of None \<Rightarrow> [] | Some c \<Rightarrow> yw_lines c),
     yw_payment = \<lparr>yp_mode = dv_paymentMode d,
       yp_gatewayNames = (case current of None \<Rightarrow> dv_gatewayNames d | Some c \<Rightarrow> yp_gatewayNames (yw_payment c)),
       yp_collectible = valueOr (dv_codOutstanding d) ''0.00'',
       yp_totalOutstanding = orNull (Option.bind current (\<lambda>c. yp_totalOutstanding (yw_payment c)))
          (dv_totalOutstanding d)\<rparr>,
     yw_fulfillment = (case current of Some c \<Rightarrow> yw_fulfillment c
       | None \<Rightarrow> \<lparr>yf_sourceFulfillmentOrderGids = [], yf_shopifyLocationGid = None, yf_mergePath = CONSOLIDATED\<rparr>),
     yw_weight = dv_weight d, yw_packageProfile = map_option profileBlock (dv_selection d),
     yw_validation = Some (dv_eligibility d), yw_routing = None\<rparr>"

definition codOutstandingFits :: "string option \<Rightarrow> bool" where
  "codOutstandingFits c \<longleftrightarrow> fitsNumeric c \<and> nonNegative c"

definition writeDerived :: "Derived \<Rightarrow> SyncOrderRow \<Rightarrow> OrderDb \<Rightarrow> unit order_run" where
  "writeDerived d order db =
     (let shopId = os_shop_id order; orderId = os_order_id order in
      if \<not> codOutstandingFits (dv_codOutstanding d) then (Inl OrderCheckViolation, db)
      else (let db = setOrders (\<lambda>r. os_shop_id r = shopId \<and> os_order_id r = orderId
                 \<and> os_order_state r \<in> {IMPORTED, INCOMPLETE, READY}) (derivedOrderRow d) db
            in (Inr (), db\<lparr>od_shipments := map (\<lambda>s. if isMutableOf shopId orderId s
                 then s\<lparr>hs_working_values := Some (nextWorking d (hs_working_values s)), hs_version := hs_version s + 1\<rparr>
                 else s) (od_shipments db)\<rparr>)))"

definition orderRowById :: "OrderDb \<Rightarrow> string \<Rightarrow> SyncOrderRow option" where
  "orderRowById db orderId = List.find (\<lambda>r. os_order_id r = orderId) (od_orders db)"

text \<open>The transaction: the order as it was and what was derived, or None when it is not unbooked.\<close>

definition evaluateBody :: "string \<Rightarrow> OrderDb \<Rightarrow> (SyncOrderRow \<times> Derived) option order_run" where
  "evaluateBody orderId db =
     (case orderRowById db orderId of
        None \<Rightarrow> (Inr None, db)
      | Some order \<Rightarrow>
          if os_order_state order \<notin> set unbookedOrderStates then (Inr None, db)
          else (case deriveOrder db order of
              Inl e \<Rightarrow> (Inl (DerivationThrew e), db)
            | Inr d \<Rightarrow> bindX (writeDerived d order db) (\<lambda>_ db. (Inr (Some (order, d)), db))))"

text \<open>The audit record of a changed COD assignment follows the COMMIT.\<close>

definition evaluateOrder :: "OrderEnv \<Rightarrow> string \<Rightarrow> OrderDb \<Rightarrow> Derived option order_run" where
  "evaluateOrder env orderId db =
     bindX (inTx (evaluateBody orderId) db) (\<lambda>r db. case r of
        None \<Rightarrow> (Inr None, db)
      | Some (order, d) \<Rightarrow>
          if dv_codAssignmentState d = os_cod_assignment_state order then (Inr (Some d), db)
          else bindX (auditOrder env (CodAssignmentChanged orderId (os_cod_assignment_state order)
                 (dv_codAssignmentState d)) db) (\<lambda>_ db. (Inr (Some d), db)))"

definition evaluateAfterUpsert :: "OrderEnv \<Rightarrow> OrderUpsertResult \<Rightarrow> OrderDb \<Rightarrow> unit order_run" where
  "evaluateAfterUpsert env result db =
     (if \<not> ou_unbooked result then (Inr (), db)
      else bindX (evaluateOrder env (ou_orderId result) db) (\<lambda>_ db. (Inr (), db)))"

text \<open>For the booking and cancellation flows; each statement commits on its own.\<close>

definition recomputeCodAssignment :: "OrderEnv \<Rightarrow> string \<Rightarrow> string \<Rightarrow> OrderDb
     \<Rightarrow> (CodAssignmentState \<times> bool) order_run" where
  "recomputeCodAssignment env shopId orderId db =
     (case orderOfShop db shopId orderId of
        None \<Rightarrow> (Inl OrderNotFound, db)
      | Some order \<Rightarrow>
          (let db1 = oe_gap env 0 db in
           case deriveCodAssignmentState (os_cod_outstanding order)
                 (map codInput (shipmentsOfOrder db1 shopId orderId)) of
             Inl e \<Rightarrow> (Inl (DerivationThrew e), db1)
           | Inr state \<Rightarrow>
               if state = os_cod_assignment_state order then (Inr (state, False), db1)
               else (let db2 = setOrders (\<lambda>r. os_shop_id r = shopId \<and> os_order_id r = orderId)
                         (\<lambda>r. r\<lparr>os_cod_assignment_state := state\<rparr>) (oe_gap env 1 db1)
                     in bindX (auditOrder env (CodAssignmentChanged orderId (os_cod_assignment_state order) state) db2)
                          (\<lambda>_ db. (Inr (state, True), db)))))"

end
