(* ===== verification/OrderIngest.thy ===== *)
theory OrderIngest
  imports OrderDerivation
begin

text \<open>
  \<open>src/modules/order-sync/order-ingest.service.ts\<close> and \<open>handlers/order-webhook.handlers.ts\<close>: the
  pipeline map, upsert, rebuild, derive, and the four webhook topics on it.  Other writers run in
  the gaps between the transactions (\<open>oe_gap\<close>).  The start of a COD confirmation is recorded.
\<close>

record OrderIngestResult =
  ir_mapped :: MappedOrder
  ir_upsert :: OrderUpsertResult
  ir_allocationsRebuilt :: bool

definition ingestUnbooked :: "OrderEnv \<Rightarrow> string \<Rightarrow> MappedOrder \<Rightarrow> OrderUpsertResult \<Rightarrow> OrderDb \<Rightarrow> bool order_run" where
  "ingestUnbooked env shopId mapped up db =
     bindX (rebuild env shopId (ou_orderId up) mapped db) (\<lambda>rebuilt db.
     bindX (evaluateAfterUpsert env up (oe_gap env 2 db)) (\<lambda>_ db.
     (Inr rebuilt, orderCall (CodConfirmationStart (ou_orderId up)) db)))"

definition ingest :: "OrderEnv \<Rightarrow> string \<Rightarrow> ShopifyRestOrderPayload \<Rightarrow> OrderDb \<Rightarrow> OrderIngestResult order_run" where
  "ingest env shopId payload db =
     (case mapShopifyOrder payload of
        Inl UnmappableOrderError \<Rightarrow> (Inl Unmappable, db)
      | Inr mapped \<Rightarrow>
          bindX (upsert env shopId mapped db) (\<lambda>up db.
          if \<not> ou_unbooked up
          then (Inr \<lparr>ir_mapped = mapped, ir_upsert = up, ir_allocationsRebuilt = False\<rparr>, db)
          else bindX (ingestUnbooked env shopId mapped up (oe_gap env 0 db)) (\<lambda>rebuilt db.
            (Inr \<lparr>ir_mapped = mapped, ir_upsert = up, ir_allocationsRebuilt = rebuilt\<rparr>, db))))"

section \<open>The webhook handlers\<close>

definition ordersCreate :: "OrderEnv \<Rightarrow> string \<Rightarrow> ShopifyRestOrderPayload \<Rightarrow> OrderDb \<Rightarrow> unit order_run" where
  "ordersCreate env shopId payload db = bindX (ingest env shopId payload db) (\<lambda>_ db. (Inr (), db))"

definition ordersUpdated :: "OrderEnv \<Rightarrow> string \<Rightarrow> ShopifyRestOrderPayload \<Rightarrow> OrderDb \<Rightarrow> unit order_run" where
  "ordersUpdated env shopId payload db = bindX (ingest env shopId payload db) (\<lambda>_ db. (Inr (), db))"

definition ordersCancelled :: "OrderEnv \<Rightarrow> string \<Rightarrow> ShopifyRestOrderPayload \<Rightarrow> OrderDb \<Rightarrow> unit order_run" where
  "ordersCancelled env shopId payload db =
     bindX (ingest env shopId payload db) (\<lambda>result db.
       (let orderId = ou_orderId (ir_upsert result);
            (transitioned, db) = markCancelledInShopify shopId orderId (oe_gap env 3 db)
        in if transitioned then auditOrder env (OrderCancelledAudit orderId) db else (Inr (), db)))"

text \<open>None for a whole order, the list of its closed fulfillment orders otherwise.\<close>

definition fulfilledGids :: "FulfillmentOrderInfo list \<Rightarrow> string option \<Rightarrow> string list option" where
  "fulfilledGids fos status =
     (let closed = map fo_gid (filter (\<lambda>fo. fo_status fo = ''CLOSED'') fos) in
      if closed \<noteq> [] then Some closed else if status = Some ''fulfilled'' then None else Some [])"

definition ordersFulfilled :: "OrderEnv \<Rightarrow> string \<Rightarrow> ShopifyRestOrderPayload \<Rightarrow> OrderDb \<Rightarrow> unit order_run" where
  "ordersFulfilled env shopId payload db =
     bindX (ingest env shopId payload db) (\<lambda>result db.
       case oe_fulfillmentOrders env shopId (mo_shopifyOrderGid (ir_mapped result)) of
         None \<Rightarrow> (Inl GraphqlFailed, db)
       | Some fos \<Rightarrow>
           (let gids = fulfilledGids fos (op_fulfillment_status payload) in
            if gids = Some [] then (Inr (), db)
            else bindX (markExternallyFulfilled env shopId (ou_orderId (ir_upsert result)) gids (oe_gap env 3 db))
                   (\<lambda>_ db. (Inr (), db))))"

end
