(* ===== verification/Order_Plan.thy ===== *)
theory Order_Plan
  imports OrderIngest "HOL-Library.Multiset"
begin

text \<open>What an allocation plan covers.\<close>

lemma sortOut_excluded:
  "sortOut f fos = (ex, ih) \<Longrightarrow> item \<in> set ex \<Longrightarrow>
     \<exists>fo \<in> set fos. pi_state item = ALLOC_EXCLUDED \<and> pi_sourceFulfillmentOrderGids item = [fo_gid fo]"
  by (induction fos arbitrary: ex ih)
    (auto simp: excludedItem_def split: if_splits prod.splits)

text \<open>Every fulfillment order is in the excluded items or in house, and once.\<close>

lemma sortOut_gids:
  "sortOut f fos = (ex, ih) \<Longrightarrow>
     mset (concat (map pi_sourceFulfillmentOrderGids ex)) + mset (map fo_gid ih) = mset (map fo_gid fos)"
  by (induction fos arbitrary: ex ih)
    (auto simp: excludedItem_def split: if_splits prod.splits)

lemma sortOut_inHouse:
  "sortOut f fos = (ex, ih) \<Longrightarrow> ih = filter (\<lambda>fo. fo_status fo \<in> set inHouseStatuses \<and> f (fo_locationGid fo)) fos"
  by (induction fos arbitrary: ex ih) (auto split: if_splits prod.splits)

text \<open>The reason of a fulfillment order that is not shipped, or None.\<close>

definition exclusionOf :: "(string option \<Rightarrow> bool) \<Rightarrow> FulfillmentOrderInfo \<Rightarrow> AllocationExclusionReason option" where
  "exclusionOf f fo =
     (if fo_status fo \<in> set inHouseStatuses
      then (if f (fo_locationGid fo) then None else Some LOCATION_NOT_SHIPPED_VIA_JSYXI)
      else Some (if fo_status fo \<in> set cancelledStatuses then FULFILLMENT_ORDER_CANCELLED else EXTERNALLY_FULFILLED))"

lemma sortOut_reasons:
  "sortOut f fos = (ex, ih) \<Longrightarrow>
     ex = map (\<lambda>fo. excludedItem fo (the (exclusionOf f fo))) (filter (\<lambda>fo. exclusionOf f fo \<noteq> None) fos)"
  by (induction fos arbitrary: ex ih) (auto simp: exclusionOf_def split: if_splits prod.splits)

lemma excludedItem_sel [simp]:
  "pi_state (excludedItem fo why) = ALLOC_EXCLUDED" "pi_exclusionReason (excludedItem fo why) = Some why"
  "pi_sourceFulfillmentOrderGids (excludedItem fo why) = [fo_gid fo]"
  by (simp_all add: excludedItem_def)

lemma openItem_sel [simp]:
  "pi_state (openItem gs l p) = ALLOC_OPEN" "pi_sourceFulfillmentOrderGids (openItem gs l p) = gs"
  by (simp_all add: openItem_def)

lemma concat_singletons [simp]: "concat (map (\<lambda>x. [g x]) xs) = map g xs"
  by (induction xs) auto

lemma sortOut_empty: "sortOut f fos = ([], []) \<longleftrightarrow> fos = []"
  by (cases fos) (auto split: prod.splits if_splits)

end
