(* ===== verification/Order_Laws.thy ===== *)
theory Order_Laws
  imports Order_Plan
begin

text \<open>
  The statements of order synchronisation as a step relation, the consistency of the tables they
  keep, and the runs of the services as sequences of these statements.
\<close>

section \<open>Statements\<close>

definition allocationIds :: "OrderDb \<Rightarrow> string set" where
  "allocationIds db = aw_allocation_id ` set (od_allocations db)"

definition shipmentIds :: "OrderDb \<Rightarrow> string set" where
  "shipmentIds db = hs_shipment_id ` set (od_shipments db)"

definition lineIds :: "OrderDb \<Rightarrow> string set" where
  "lineIds db = ol_order_line_id ` set (od_lines db)"

definition orderIds :: "OrderDb \<Rightarrow> string set" where
  "orderIds db = os_order_id ` set (od_orders db)"

text \<open>What an UPDATE of an order never does: change its identity or leave a terminal state.\<close>

definition keepsOrder :: "SyncOrderRow \<Rightarrow> SyncOrderRow \<Rightarrow> bool" where
  "keepsOrder r r' \<longleftrightarrow> os_order_id r' = os_order_id r \<and> os_shop_id r' = os_shop_id r
     \<and> os_shopify_order_gid r' = os_shopify_order_gid r
     \<and> (os_order_state r \<in> set terminalOrderStates \<longrightarrow> os_order_state r' = os_order_state r)"

definition keepsShipment :: "SyncShipmentRow \<Rightarrow> SyncShipmentRow \<Rightarrow> bool" where
  "keepsShipment s s' \<longleftrightarrow> hs_shipment_id s' = hs_shipment_id s \<and> hs_shop_id s' = hs_shop_id s
     \<and> hs_order_id s' = hs_order_id s \<and> hs_allocation_id s' = hs_allocation_id s"

inductive order_step :: "(nat \<Rightarrow> string) \<Rightarrow> OrderDb \<Rightarrow> OrderDb \<Rightarrow> bool" for uuid where
  insertOrder: "os_order_id r = uuid (od_ids db) \<Longrightarrow>
     (\<And>gid. os_shopify_order_gid r = Some gid \<Longrightarrow> orderByGid db (os_shop_id r) gid = None) \<Longrightarrow>
     order_step uuid db (db\<lparr>od_ids := od_ids db + 1, od_orders := od_orders db @ [r]\<rparr>)"
| updateOrders: "(\<And>r. r \<in> set (od_orders db) \<Longrightarrow> keepsOrder r (f r)) \<Longrightarrow>
     order_step uuid db (db\<lparr>od_orders := map f (od_orders db)\<rparr>)"
| deleteLines: "deleteOrderLines orderId db = (Inr (), db') \<Longrightarrow> order_step uuid db db'"
| insertLines: "orderId \<in> orderIds db \<Longrightarrow> map ol_order_line_id ls = map (\<lambda>i. uuid (od_ids db + i)) [0..<length ls] \<Longrightarrow>
     (\<And>l. l \<in> set ls \<Longrightarrow> ol_order_id l = orderId) \<Longrightarrow>
     order_step uuid db (db\<lparr>od_lines := od_lines db @ ls, od_ids := od_ids db + length ls\<rparr>)"
| deleteParcelLines: "order_step uuid db (deleteShipmentLines cond db)"
| deleteParcels: "deleteShipments cond db = (Inr (), db') \<Longrightarrow> order_step uuid db db'"
| deleteAllocs: "deleteAllocations cond db = (Inr (), db') \<Longrightarrow> order_step uuid db db'"
| insertAllocation: "aw_allocation_id a = uuid (od_ids db) \<Longrightarrow> aw_order_id a \<in> orderIds db \<Longrightarrow>
     order_step uuid db (db\<lparr>od_ids := od_ids db + 1, od_allocations := od_allocations db @ [a]\<rparr>)"
| insertShipment: "hs_shipment_id s = uuid (od_ids db) \<Longrightarrow> r \<in> set (od_orders db) \<Longrightarrow>
     os_order_id r = hs_order_id s \<Longrightarrow> os_shop_id r = hs_shop_id s \<Longrightarrow>
     (\<And>a. hs_allocation_id s = Some a \<Longrightarrow> a \<in> allocationIds db) \<Longrightarrow>
     (\<And>h. h \<in> set ls \<Longrightarrow> hl_shipment_id h = hs_shipment_id s \<and> hl_order_line_id h \<in> lineIds db) \<Longrightarrow>
     order_step uuid db (db\<lparr>od_ids := od_ids db + 1, od_shipments := od_shipments db @ [s],
       od_shipment_lines := od_shipment_lines db @ ls\<rparr>)"
| updateAllocations: "(\<And>a. aw_allocation_id (f a) = aw_allocation_id a \<and> aw_order_id (f a) = aw_order_id a) \<Longrightarrow>
     order_step uuid db (db\<lparr>od_allocations := map f (od_allocations db)\<rparr>)"
| updateShipments: "(\<And>s. keepsShipment s (f s)) \<Longrightarrow> order_step uuid db (db\<lparr>od_shipments := map f (od_shipments db)\<rparr>)"
| insertIntent: "i \<in> shipmentIds db \<Longrightarrow> order_step uuid db (db\<lparr>od_intents := od_intents db @ [i]\<rparr>)"
| insertInvoiceLine: "i \<in> lineIds db \<Longrightarrow> order_step uuid db (db\<lparr>od_invoice_lines := od_invoice_lines db @ [i]\<rparr>)"
| otherTables: "od_ids db \<le> od_ids db' \<Longrightarrow> od_orders db' = od_orders db \<Longrightarrow> od_lines db' = od_lines db \<Longrightarrow>
     od_allocations db' = od_allocations db \<Longrightarrow> od_shipments db' = od_shipments db \<Longrightarrow>
     od_shipment_lines db' = od_shipment_lines db \<Longrightarrow> od_intents db' = od_intents db \<Longrightarrow>
     od_invoice_lines db' = od_invoice_lines db \<Longrightarrow> order_step uuid db db'"

section \<open>Consistency\<close>

definition gidKeys :: "OrderDb \<Rightarrow> (string \<times> string) list" where
  "gidKeys db = List.map_filter (\<lambda>r. map_option (\<lambda>g. (os_shop_id r, g)) (os_shopify_order_gid r)) (od_orders db)"

definition keysDistinct :: "OrderDb \<Rightarrow> bool" where
  "keysDistinct db \<longleftrightarrow> distinct (map os_order_id (od_orders db)) \<and> distinct (gidKeys db)
     \<and> distinct (map ol_order_line_id (od_lines db)) \<and> distinct (map aw_allocation_id (od_allocations db))
     \<and> distinct (map hs_shipment_id (od_shipments db))"

text \<open>Every foreign key has its row, and a shipment is of the shop of its order (INV-1).\<close>

definition shipmentRefs :: "OrderDb \<Rightarrow> SyncShipmentRow \<Rightarrow> bool" where
  "shipmentRefs db s \<longleftrightarrow>
     (\<exists>r \<in> set (od_orders db). os_order_id r = hs_order_id s \<and> os_shop_id r = hs_shop_id s)
     \<and> (\<forall>a. hs_allocation_id s = Some a \<longrightarrow> a \<in> allocationIds db)"

definition refsResolve :: "OrderDb \<Rightarrow> bool" where
  "refsResolve db \<longleftrightarrow> ol_order_id ` set (od_lines db) \<subseteq> orderIds db
     \<and> aw_order_id ` set (od_allocations db) \<subseteq> orderIds db
     \<and> (\<forall>s \<in> set (od_shipments db). shipmentRefs db s)
     \<and> hl_shipment_id ` set (od_shipment_lines db) \<subseteq> shipmentIds db
     \<and> hl_order_line_id ` set (od_shipment_lines db) \<subseteq> lineIds db
     \<and> set (od_intents db) \<subseteq> shipmentIds db \<and> set (od_invoice_lines db) \<subseteq> lineIds db"

definition allIds :: "OrderDb \<Rightarrow> string set" where
  "allIds db = orderIds db \<union> lineIds db \<union> allocationIds db \<union> shipmentIds db"

definition idsDrawn :: "(nat \<Rightarrow> string) \<Rightarrow> OrderDb \<Rightarrow> bool" where
  "idsDrawn uuid db \<longleftrightarrow> allIds db \<subseteq> uuid ` {..<od_ids db}"

definition orderInv :: "(nat \<Rightarrow> string) \<Rightarrow> OrderDb \<Rightarrow> bool" where
  "orderInv uuid db \<longleftrightarrow> inj uuid \<and> keysDistinct db \<and> refsResolve db \<and> idsDrawn uuid db"

lemmas order_ids = allIds_def orderIds_def lineIds_def allocationIds_def shipmentIds_def

lemma drawn_fresh: "idsDrawn uuid db \<Longrightarrow> inj uuid \<Longrightarrow> od_ids db \<le> n \<Longrightarrow> uuid n \<notin> allIds db"
  by (auto simp: idsDrawn_def inj_eq dest!: subsetD)

lemma drawn_mono: "od_ids db \<le> n \<Longrightarrow> uuid ` {..<od_ids db} \<subseteq> uuid ` {..<n}"
  by auto

lemma map_filter_map_same: "(\<And>x. x \<in> set xs \<Longrightarrow> k (f x) = k x) \<Longrightarrow> List.map_filter k (map f xs) = List.map_filter k xs"
  by (induction xs) (simp_all add: map_filter_simps split: option.split)

lemma gidKeys_map:
  "(\<And>r. r \<in> set (od_orders db) \<Longrightarrow> keepsOrder r (f r)) \<Longrightarrow>
     gidKeys (db\<lparr>od_orders := map f (od_orders db)\<rparr>) = gidKeys db"
  unfolding gidKeys_def by (simp, rule map_filter_map_same) (simp add: keepsOrder_def)

lemma orderByGid_None: "orderByGid db shop gid = None \<longleftrightarrow> (shop, gid) \<notin> set (gidKeys db)"
  by (auto simp: orderByGid_def gidKeys_def find_None_iff map_filter_def image_iff)

section \<open>Every statement keeps the tables consistent\<close>

lemma deleteOrderLines_Inr: "deleteOrderLines orderId db = (Inr (), db') \<longleftrightarrow>
    (\<forall>l \<in> set (od_lines db). ol_order_id l = orderId \<longrightarrow>
       (\<forall>h \<in> set (od_shipment_lines db). hl_order_line_id h \<noteq> ol_order_line_id l)
       \<and> (\<forall>i \<in> set (od_invoice_lines db). i \<noteq> ol_order_line_id l))
    \<and> db' = db\<lparr>od_lines := filter (\<lambda>l. ol_order_id l \<noteq> orderId) (od_lines db)\<rparr>"
  by (auto simp: deleteOrderLines_def Let_def linesOfOrder_def list_ex_iff image_iff split: if_splits)

lemma deleteShipments_Inr: "deleteShipments cond db = (Inr (), db') \<longleftrightarrow>
    (\<forall>s \<in> set (od_shipments db). cond s \<longrightarrow>
       (\<forall>h \<in> set (od_shipment_lines db). hl_shipment_id h \<noteq> hs_shipment_id s)
       \<and> (\<forall>i \<in> set (od_intents db). i \<noteq> hs_shipment_id s))
    \<and> db' = db\<lparr>od_shipments := filter (\<lambda>s. \<not> cond s) (od_shipments db)\<rparr>"
  by (auto simp: deleteShipments_def Let_def list_ex_iff image_iff split: if_splits)

lemma deleteAllocations_Inr: "deleteAllocations cond db = (Inr (), db') \<longleftrightarrow>
    (\<forall>a \<in> set (od_allocations db). cond a \<longrightarrow>
       (\<forall>s \<in> set (od_shipments db). hs_allocation_id s \<noteq> Some (aw_allocation_id a)))
    \<and> db' = db\<lparr>od_allocations := filter (\<lambda>a. \<not> cond a) (od_allocations db)\<rparr>"
  by (auto simp: deleteAllocations_def Let_def list_ex_iff split: if_splits option.splits)

lemma step_ids: "order_step uuid db db' \<Longrightarrow> od_ids db \<le> od_ids db'"
  by (cases rule: order_step.cases)
    (auto simp: deleteOrderLines_Inr deleteShipments_Inr deleteAllocations_Inr deleteShipmentLines_def Let_def)

lemma orderInvD:
  assumes "orderInv uuid db"
  shows "inj uuid" "keysDistinct db" "refsResolve db" "idsDrawn uuid db"
  using assms by (simp_all add: orderInv_def)

lemma keys_sel:
  assumes "keysDistinct db"
  shows "distinct (map os_order_id (od_orders db))" "distinct (gidKeys db)"
    "distinct (map ol_order_line_id (od_lines db))" "distinct (map aw_allocation_id (od_allocations db))"
    "distinct (map hs_shipment_id (od_shipments db))"
  using assms by (simp_all add: keysDistinct_def)

lemma fresh_id:
  assumes "orderInv uuid db" "od_ids db \<le> n"
  shows "uuid n \<notin> orderIds db" "uuid n \<notin> lineIds db" "uuid n \<notin> allocationIds db" "uuid n \<notin> shipmentIds db"
  using drawn_fresh [OF orderInvD(4,1) [OF assms(1)] assms(2)] by (simp_all add: allIds_def)

lemma refsD:
  assumes "refsResolve db"
  shows "ol_order_id ` set (od_lines db) \<subseteq> orderIds db" "aw_order_id ` set (od_allocations db) \<subseteq> orderIds db"
    "\<And>s. s \<in> set (od_shipments db) \<Longrightarrow> shipmentRefs db s"
    "hl_shipment_id ` set (od_shipment_lines db) \<subseteq> shipmentIds db"
    "hl_order_line_id ` set (od_shipment_lines db) \<subseteq> lineIds db"
    "set (od_intents db) \<subseteq> shipmentIds db" "set (od_invoice_lines db) \<subseteq> lineIds db"
  by (rule assms [unfolded refsResolve_def, THEN conjunct1] assms [unfolded refsResolve_def, THEN conjunct2, THEN conjunct1]
      | use assms in \<open>unfold refsResolve_def, elim conjE, blast\<close>)+

lemma subset_through: "A' \<subseteq> A \<union> B' \<Longrightarrow> A \<subseteq> B \<Longrightarrow> B \<subseteq> B' \<Longrightarrow> A' \<subseteq> B'"
  by blast

lemma kept_ids:
  "X \<subseteq> g ` set xs \<Longrightarrow> (\<And>x. x \<in> set xs \<Longrightarrow> \<not> P x \<Longrightarrow> g x \<notin> X) \<Longrightarrow> X \<subseteq> g ` set (filter P xs)"
  by fastforce

lemma refs_mono:
  assumes "refsResolve db" "orderIds db \<subseteq> orderIds db'" "lineIds db \<subseteq> lineIds db'" "shipmentIds db \<subseteq> shipmentIds db'"
    "\<And>s. shipmentRefs db s \<Longrightarrow> shipmentRefs db' s"
    "ol_order_id ` set (od_lines db') \<subseteq> ol_order_id ` set (od_lines db) \<union> orderIds db'"
    "aw_order_id ` set (od_allocations db') \<subseteq> aw_order_id ` set (od_allocations db) \<union> orderIds db'"
    "\<And>s. s \<in> set (od_shipments db') \<Longrightarrow> s \<in> set (od_shipments db) \<or> shipmentRefs db' s"
    "hl_shipment_id ` set (od_shipment_lines db') \<subseteq> hl_shipment_id ` set (od_shipment_lines db) \<union> shipmentIds db'"
    "hl_order_line_id ` set (od_shipment_lines db') \<subseteq> hl_order_line_id ` set (od_shipment_lines db) \<union> lineIds db'"
    "set (od_intents db') \<subseteq> set (od_intents db) \<union> shipmentIds db'"
    "set (od_invoice_lines db') \<subseteq> set (od_invoice_lines db) \<union> lineIds db'"
  shows "refsResolve db'"
proof -
  note r = refsD [OF assms(1)]
  show ?thesis
    unfolding refsResolve_def
  proof (intro conjI ballI)
    show "ol_order_id ` set (od_lines db') \<subseteq> orderIds db'" by (rule subset_through [OF assms(6) r(1) assms(2)])
    show "aw_order_id ` set (od_allocations db') \<subseteq> orderIds db'" by (rule subset_through [OF assms(7) r(2) assms(2)])
    show "shipmentRefs db' s" if "s \<in> set (od_shipments db')" for s using assms(5,8) r(3) that by blast
    show "hl_shipment_id ` set (od_shipment_lines db') \<subseteq> shipmentIds db'" by (rule subset_through [OF assms(9) r(4) assms(4)])
    show "hl_order_line_id ` set (od_shipment_lines db') \<subseteq> lineIds db'" by (rule subset_through [OF assms(10) r(5) assms(3)])
    show "set (od_intents db') \<subseteq> shipmentIds db'" by (rule subset_through [OF assms(11) r(6) assms(4)])
    show "set (od_invoice_lines db') \<subseteq> lineIds db'" by (rule subset_through [OF assms(12) r(7) assms(3)])
  qed
qed

lemma orderInv_step: "order_step uuid db db' \<Longrightarrow> orderInv uuid db \<Longrightarrow> orderInv uuid db'"
proof (induction rule: order_step.induct)
  case (insertOrder r db)
  let ?db' = "db\<lparr>od_ids := od_ids db + 1, od_orders := od_orders db @ [r]\<rparr>"
  note i = orderInvD [OF insertOrder.prems]
  have "gidKeys ?db' = gidKeys db @ (case os_shopify_order_gid r of None \<Rightarrow> [] | Some g \<Rightarrow> [(os_shop_id r, g)])"
    by (auto simp: gidKeys_def map_filter_def split: option.split)
  then have "keysDistinct ?db'"
    using i(2) fresh_id [OF insertOrder.prems] insertOrder.hyps
    by (auto simp: keysDistinct_def orderByGid_None orderIds_def split: option.splits)
  moreover have "refsResolve ?db'"
    by (rule refs_mono [OF i(3)]) (auto simp: order_ids shipmentRefs_def)
  moreover have "idsDrawn uuid ?db'"
    using i(4) insertOrder.hyps by (auto simp: idsDrawn_def order_ids lessThan_Suc)
  ultimately show ?case using i(1) by (simp add: orderInv_def)
next
  case (updateOrders db f)
  let ?db' = "db\<lparr>od_orders := map f (od_orders db)\<rparr>"
  note i = orderInvD [OF updateOrders.prems]
  have same: "map os_order_id (map f (od_orders db)) = map os_order_id (od_orders db)"
    using updateOrders.hyps by (simp add: keepsOrder_def)
  have ids: "orderIds ?db' = orderIds db"
    using arg_cong [OF same, of set] by (simp add: orderIds_def image_image)
  have "gidKeys ?db' = gidKeys db" by (rule gidKeys_map) (rule updateOrders.hyps)
  moreover have "distinct (map os_order_id (map f (od_orders db)))" unfolding same by (rule keys_sel(1) [OF i(2)])
  ultimately have "keysDistinct ?db'" using i(2) by (simp add: keysDistinct_def)
  moreover have "refsResolve ?db'"
    by (rule refs_mono [OF i(3)])
      (use ids updateOrders.hyps in \<open>auto simp: lineIds_def allocationIds_def shipmentIds_def shipmentRefs_def keepsOrder_def\<close>)
  moreover have "idsDrawn uuid ?db'"
    using i(4) ids by (simp add: idsDrawn_def allIds_def lineIds_def allocationIds_def shipmentIds_def)
  ultimately show ?case using i(1) by (simp add: orderInv_def)
next
  case (deleteLines orderId db db')
  note i = orderInvD [OF deleteLines.prems] and r = refsD [OF orderInvD(3) [OF deleteLines.prems]]
    and d = deleteLines.hyps [unfolded deleteOrderLines_Inr]
  have "distinct (map ol_order_line_id (od_lines db'))"
    using keys_sel(3) [OF i(2)] d by (simp add: distinct_map_filter)
  then have "keysDistinct db'" using i(2) d by (simp add: keysDistinct_def gidKeys_def)
  moreover have ids: "lineIds db' = ol_order_line_id ` set (filter (\<lambda>l. ol_order_id l \<noteq> orderId) (od_lines db))"
    using d by (simp add: lineIds_def)
  moreover have "hl_order_line_id ` set (od_shipment_lines db) \<subseteq> lineIds db'"
    unfolding ids by (rule kept_ids [OF r(5) [unfolded lineIds_def]]) (use d in fastforce)
  moreover have "set (od_invoice_lines db) \<subseteq> lineIds db'"
    unfolding ids by (rule kept_ids [OF r(7) [unfolded lineIds_def]]) (use d in fastforce)
  ultimately show ?case
    using i d by (auto simp: orderInv_def refsResolve_def idsDrawn_def order_ids shipmentRefs_def)
next
  case (insertLines orderId db ls)
  let ?db' = "db\<lparr>od_lines := od_lines db @ ls, od_ids := od_ids db + length ls\<rparr>"
  note i = orderInvD [OF insertLines.prems]
  have new: "ol_order_line_id ` set ls = (\<lambda>i. uuid (od_ids db + i)) ` {0..<length ls}"
    using arg_cong [OF insertLines.hyps(2), of set] by simp
  have "inj (\<lambda>k. uuid (od_ids db + k))" by (rule injI) (drule injD [OF i(1)], simp)
  then have "distinct (map ol_order_line_id ls)"
    unfolding insertLines.hyps(2) by (auto simp: distinct_map intro: inj_on_subset)
  moreover have "ol_order_line_id ` set ls \<inter> lineIds db = {}"
    unfolding new using fresh_id(2) [OF insertLines.prems le_add1] by blast
  ultimately have "keysDistinct ?db'"
    using i(2) by (auto simp: keysDistinct_def gidKeys_def lineIds_def)
  moreover have "refsResolve ?db'"
    by (rule refs_mono [OF i(3)]) (use insertLines.hyps in \<open>auto simp: order_ids shipmentRefs_def\<close>)
  moreover have "idsDrawn uuid ?db'"
    unfolding idsDrawn_def
  proof
    fix x assume "x \<in> allIds ?db'"
    then have "x \<in> allIds db \<or> x \<in> ol_order_line_id ` set ls" by (auto simp: order_ids)
    then show "x \<in> uuid ` {..<od_ids ?db'}"
      using drawn_mono [of db "od_ids ?db'" uuid] i(4) unfolding new idsDrawn_def by auto
  qed
  ultimately show ?case using i(1) by (simp add: orderInv_def)
next
  case (deleteParcelLines db cond)
  then show ?case
    by (auto simp: orderInv_def keysDistinct_def gidKeys_def refsResolve_def idsDrawn_def deleteShipmentLines_def Let_def
        order_ids shipmentRefs_def)
next
  case (deleteParcels cond db db')
  note i = orderInvD [OF deleteParcels.prems] and r = refsD [OF orderInvD(3) [OF deleteParcels.prems]]
    and d = deleteParcels.hyps [unfolded deleteShipments_Inr]
  have "distinct (map hs_shipment_id (od_shipments db'))"
    using keys_sel(5) [OF i(2)] d by (simp add: distinct_map_filter)
  then have "keysDistinct db'" using i(2) d by (simp add: keysDistinct_def gidKeys_def)
  moreover have ids: "shipmentIds db' = hs_shipment_id ` set (filter (\<lambda>s. \<not> cond s) (od_shipments db))"
    using d by (simp add: shipmentIds_def)
  moreover have "hl_shipment_id ` set (od_shipment_lines db) \<subseteq> shipmentIds db'"
    unfolding ids by (rule kept_ids [OF r(4) [unfolded shipmentIds_def]]) (use d in fastforce)
  moreover have "set (od_intents db) \<subseteq> shipmentIds db'"
    unfolding ids by (rule kept_ids [OF r(6) [unfolded shipmentIds_def]]) (use d in fastforce)
  ultimately show ?case
    using i d by (auto simp: orderInv_def refsResolve_def idsDrawn_def order_ids shipmentRefs_def)
next
  case (deleteAllocs cond db db')
  note i = orderInvD [OF deleteAllocs.prems] and r = refsD [OF orderInvD(3) [OF deleteAllocs.prems]]
    and d = deleteAllocs.hyps [unfolded deleteAllocations_Inr]
  have "distinct (map aw_allocation_id (od_allocations db'))"
    using keys_sel(4) [OF i(2)] d by (simp add: distinct_map_filter)
  then have "keysDistinct db'" using i(2) d by (simp add: keysDistinct_def gidKeys_def)
  moreover have "shipmentRefs db' s" if "s \<in> set (od_shipments db)" for s
    using r(3) [OF that] that d by (fastforce simp: shipmentRefs_def allocationIds_def)
  ultimately show ?case
    using i d by (auto simp: orderInv_def refsResolve_def idsDrawn_def orderIds_def lineIds_def shipmentIds_def
        allIds_def allocationIds_def)
next
  case (insertAllocation a db)
  let ?db' = "db\<lparr>od_ids := od_ids db + 1, od_allocations := od_allocations db @ [a]\<rparr>"
  note i = orderInvD [OF insertAllocation.prems]
  have "keysDistinct ?db'"
    using i(2) fresh_id(3) [OF insertAllocation.prems] insertAllocation.hyps
    by (auto simp: keysDistinct_def gidKeys_def allocationIds_def)
  moreover have "refsResolve ?db'"
    by (rule refs_mono [OF i(3)]) (use insertAllocation.hyps in \<open>auto simp: order_ids shipmentRefs_def\<close>)
  moreover have "idsDrawn uuid ?db'"
    using i(4) insertAllocation.hyps by (auto simp: idsDrawn_def order_ids lessThan_Suc)
  ultimately show ?case using i(1) by (simp add: orderInv_def)
next
  case (insertShipment s db r ls)
  let ?db' = "db\<lparr>od_ids := od_ids db + 1, od_shipments := od_shipments db @ [s],
       od_shipment_lines := od_shipment_lines db @ ls\<rparr>"
  note i = orderInvD [OF insertShipment.prems]
  have "keysDistinct ?db'"
    using i(2) fresh_id(4) [OF insertShipment.prems] insertShipment.hyps
    by (auto simp: keysDistinct_def gidKeys_def shipmentIds_def)
  moreover have "refsResolve ?db'"
    by (rule refs_mono [OF i(3)]) (use insertShipment.hyps in \<open>auto simp: order_ids shipmentRefs_def\<close>)
  moreover have "idsDrawn uuid ?db'"
    using i(4) insertShipment.hyps by (auto simp: idsDrawn_def order_ids lessThan_Suc)
  ultimately show ?case using i(1) by (simp add: orderInv_def)
next
  case (updateAllocations f db)
  then show ?case
    by (auto simp: orderInv_def keysDistinct_def gidKeys_def refsResolve_def idsDrawn_def order_ids shipmentRefs_def
        comp_def image_image)
next
  case (updateShipments f db)
  have "map hs_shipment_id (map f (od_shipments db)) = map hs_shipment_id (od_shipments db)"
    using updateShipments.hyps by (simp add: keepsShipment_def)
  with updateShipments show ?case
    by (auto simp: orderInv_def keysDistinct_def gidKeys_def refsResolve_def idsDrawn_def order_ids shipmentRefs_def
        keepsShipment_def image_image comp_def)
next
  case (insertIntent i db)
  then show ?case
    by (auto simp: orderInv_def keysDistinct_def gidKeys_def refsResolve_def idsDrawn_def order_ids shipmentRefs_def)
next
  case (insertInvoiceLine i db)
  then show ?case
    by (auto simp: orderInv_def keysDistinct_def gidKeys_def refsResolve_def idsDrawn_def order_ids shipmentRefs_def)
next
  case (otherTables db db')
  have "uuid ` {..<od_ids db} \<subseteq> uuid ` {..<od_ids db'}" using otherTables.hyps(1) by (rule drawn_mono)
  with otherTables show ?case
    by (auto simp: orderInv_def keysDistinct_def gidKeys_def refsResolve_def idsDrawn_def order_ids shipmentRefs_def)
qed

interpretation order_tables: invariant_system "order_step uuid" "orderInv uuid" for uuid
  by unfold_locales (rule orderInv_step)

text \<open>A row of the order in a terminal state (INV-17).\<close>

definition inState :: "string \<Rightarrow> OrderState \<Rightarrow> OrderDb \<Rightarrow> bool" where
  "inState orderId st db \<longleftrightarrow> (\<exists>r \<in> set (od_orders db). os_order_id r = orderId \<and> os_order_state r = st)"

lemma terminal_step:
  "order_step uuid db db' \<Longrightarrow> st \<in> set terminalOrderStates \<and> inState orderId st db \<Longrightarrow>
     st \<in> set terminalOrderStates \<and> inState orderId st db'"
proof (induction rule: order_step.induct)
  case (updateOrders db f)
  then show ?case by (fastforce simp: inState_def keepsOrder_def)
qed (auto simp: inState_def deleteOrderLines_Inr deleteShipments_Inr deleteAllocations_Inr deleteShipmentLines_def Let_def)

interpretation order_ends: invariant_system "order_step uuid"
    "\<lambda>db. st \<in> set terminalOrderStates \<and> inState orderId st db" for uuid st orderId
  by unfold_locales (rule terminal_step)

section \<open>Runs of the services\<close>

definition orderWrites :: "(nat \<Rightarrow> string) \<Rightarrow> OrderDb \<Rightarrow> OrderDb \<Rightarrow> bool" where
  "orderWrites uuid db db' \<longleftrightarrow> (orderInv uuid db \<longrightarrow> (order_step uuid)\<^sup>*\<^sup>* db db')"

interpretation order_writes: run_relation "orderWrites uuid" for uuid
proof (unfold_locales)
  show "orderWrites uuid db db" for db by (simp add: orderWrites_def)
  show "orderWrites uuid db db''" if "orderWrites uuid db db'" "orderWrites uuid db' db''" for db db' db''
    using that order_tables.reachable by (fastforce simp: orderWrites_def)
qed

definition wfOrderEnv :: "OrderEnv \<Rightarrow> bool" where
  "wfOrderEnv env \<longleftrightarrow> (\<forall>k db. orderWrites (oe_uuid env) db (oe_gap env k db))"

lemma writes_step: "(orderInv uuid db \<Longrightarrow> order_step uuid db db') \<Longrightarrow> orderWrites uuid db db'"
  by (auto simp: orderWrites_def)

lemma writes_gap: "wfOrderEnv env \<Longrightarrow> orderWrites (oe_uuid env) db (oe_gap env k db)"
  by (simp add: wfOrderEnv_def)

lemma writes_ids: "orderWrites uuid db db' \<Longrightarrow> orderInv uuid db \<Longrightarrow> od_ids db \<le> od_ids db'"
proof -
  have "(order_step uuid)\<^sup>*\<^sup>* db db' \<Longrightarrow> od_ids db \<le> od_ids db'"
    by (induction rule: rtranclp_induct) (auto dest: step_ids)
  then show "orderWrites uuid db db' \<Longrightarrow> orderInv uuid db \<Longrightarrow> od_ids db \<le> od_ids db'" by (simp add: orderWrites_def)
qed

text \<open>A transaction is a run of its statements when it commits, and adds audit records when not.\<close>

lemma inTx_writes:
  assumes "orderWrites uuid db (snd (body db))"
  shows "orderWrites uuid db (snd (inTx body db))"
proof -
  obtain v t where b: "body db = (v, t)" by fastforce
  show ?thesis
  proof (cases v)
    case (Inl e)
    have "order_step uuid db (db\<lparr>od_calls := od_calls t, od_ids := od_ids t\<rparr>)" if "orderInv uuid db"
      by (rule order_step.otherTables) (use writes_ids [OF assms that] in \<open>simp_all add: b\<close>)
    then show ?thesis by (simp add: inTx_def b Inl writes_step)
  next
    case (Inr a)
    then show ?thesis using assms by (simp add: inTx_def b)
  qed
qed

lemma orderCall_writes: "orderWrites uuid db (orderCall c db)"
  by (rule writes_step, rule order_step.otherTables) (simp_all add: orderCall_def)

lemma auditOrder_writes: "orderWrites uuid db (snd (auditOrder env c db))"
  by (simp add: auditOrder_def orderCall_writes order_writes.rel_refl)

lemma setOrders_step:
  assumes "\<And>r. r \<in> set (od_orders db) \<Longrightarrow> cond r \<Longrightarrow> keepsOrder r (f r)"
  shows "order_step uuid db (setOrders cond f db)"
  unfolding setOrders_def by (rule order_step.updateOrders) (use assms in \<open>auto simp: keepsOrder_def\<close>)

lemma mirrored_sel [simp]:
  "os_order_id (mirrored m r) = os_order_id r" "os_shop_id (mirrored m r) = os_shop_id r"
  "os_shopify_order_gid (mirrored m r) = os_shopify_order_gid r" "os_order_state (mirrored m r) = os_order_state r"
  by (simp_all add: mirrored_def)

lemma newOrder_sel [simp]:
  "os_order_id (newOrder i shop m) = i" "os_shop_id (newOrder i shop m) = shop"
  "os_shopify_order_gid (newOrder i shop m) = Some (mo_shopifyOrderGid m)" "os_order_state (newOrder i shop m) = IMPORTED"
  by (simp_all add: newOrder_def)

lemma orderByGid_Some:
  "orderByGid db shop gid = Some r \<Longrightarrow> r \<in> set (od_orders db) \<and> os_shop_id r = shop \<and> os_shopify_order_gid r = Some gid"
  by (auto simp: orderByGid_def find_Some_iff)

lemma same_order: "keysDistinct db \<Longrightarrow> r \<in> set (od_orders db) \<Longrightarrow> r' \<in> set (od_orders db) \<Longrightarrow>
    os_order_id r = os_order_id r' \<Longrightarrow> r = r'"
  unfolding keysDistinct_def distinct_map by (blast dest: inj_onD)

lemma upsertOrderRow_writes:
  "orderWrites (oe_uuid env) db (snd (upsertOrderRow env shop m db))"
proof (cases "orderByGid db shop (mo_shopifyOrderGid m)")
  case None
  let ?r = "newOrder (oe_uuid env (od_ids db)) shop m"
  have "order_step (oe_uuid env) db (db\<lparr>od_ids := od_ids db + 1, od_orders := od_orders db @ [?r]\<rparr>)"
    by (rule order_step.insertOrder) (use None in auto)
  then show ?thesis
    using None by (auto simp: upsertOrderRow_def freshUuid_def Let_def order_writes.rel_refl intro!: writes_step)
next
  case (Some r)
  have "order_step (oe_uuid env) db (db\<lparr>od_orders := map (\<lambda>o'. if os_order_id o' = os_order_id r
      then (mirrored m r)\<lparr>os_version := os_version r + 1\<rparr> else o') (od_orders db)\<rparr>)" if "orderInv (oe_uuid env) db"
  proof (rule order_step.updateOrders)
    fix x assume "x \<in> set (od_orders db)"
    then have "os_order_id x = os_order_id r \<Longrightarrow> x = r"
      using same_order [OF orderInvD(2) [OF that]] orderByGid_Some [OF Some] by blast
    then show "keepsOrder x (if os_order_id x = os_order_id r then (mirrored m r)\<lparr>os_version := os_version r + 1\<rparr> else x)"
      by (auto simp: keepsOrder_def)
  qed
  then show ?thesis
    using Some by (auto simp: upsertOrderRow_def Let_def order_writes.rel_refl intro!: writes_step)
qed

lemma upsertOrderRow_Inr:
  "upsertOrderRow env shop m db = (Inr (row, ins), db') \<Longrightarrow> row \<in> set (od_orders db') \<and> os_shop_id row = shop
     \<and> os_shopify_order_gid row = Some (mo_shopifyOrderGid m)"
  by (auto simp: upsertOrderRow_def freshUuid_def Let_def split: if_splits option.splits dest!: orderByGid_Some)

lemma deleteOrderLines_writes: "orderWrites uuid db (snd (deleteOrderLines i db))"
proof (cases "fst (deleteOrderLines i db)")
  case (Inl e)
  then show ?thesis by (auto simp: deleteOrderLines_def Let_def order_writes.rel_refl split: if_splits)
next
  case (Inr u)
  then have "deleteOrderLines i db = (Inr (), snd (deleteOrderLines i db))" by (cases "deleteOrderLines i db") auto
  then show ?thesis by (blast intro: writes_step order_step.deleteLines)
qed

lemma insertOrderLines_writes:
  assumes "i \<in> orderIds db"
  shows "orderWrites (oe_uuid env) db (snd (insertOrderLines env i ls db))"
proof -
  have "map ol_order_line_id (lineRows env n i ls) = map (\<lambda>k. oe_uuid env (n + k)) [0..<length ls]" for n
    by (rule nth_equalityI) (simp_all add: lineRows_def lineRow_def nth_enumerate_eq)
  moreover have "length (lineRows env n i ls) = length ls" "ol_order_id l = i" if "l \<in> set (lineRows env n i ls)" for l n
    using that by (auto simp: lineRows_def lineRow_def)
  ultimately have "order_step (oe_uuid env) db (db\<lparr>od_lines := od_lines db @ lineRows env (od_ids db) i ls,
      od_ids := od_ids db + length (lineRows env (od_ids db) i ls)\<rparr>)"
    using assms by (intro order_step.insertLines [of i]) (auto simp: lineRows_def)
  then show ?thesis
    by (auto simp: insertOrderLines_def lineRows_def order_writes.rel_refl intro!: writes_step)
qed

lemma upsertOrderRow_id: "upsertOrderRow env shop m db = (Inr (row, ins), db') \<Longrightarrow> os_order_id row \<in> orderIds db'"
  by (auto dest!: upsertOrderRow_Inr simp: orderIds_def)

lemma upsertInTx_writes: "orderWrites (oe_uuid env) db (snd (upsertInTx env shop m db))"
  unfolding upsertInTx_def
proof (intro order_writes.rel_bindX upsertOrderRow_writes)
  fix a t
  assume a: "upsertOrderRow env shop m db = (Inr a, t)"
  obtain row ins where ri: "a = (row, ins)" by fastforce
  have id: "os_order_id row \<in> orderIds t" using a upsertOrderRow_id unfolding ri by blast
  have "os_order_id row \<in> orderIds u" if "deleteOrderLines (os_order_id row) t = (Inr (), u)" for u
    using that id by (simp add: deleteOrderLines_Inr orderIds_def)
  then have "orderWrites (oe_uuid env) t (snd (bindX (deleteOrderLines (os_order_id row) t) (\<lambda>_ db.
      bindX (insertOrderLines env (os_order_id row) (mo_lines m) db) (\<lambda>_ db. (Inr r, db)))))" for r :: OrderUpsertResult
    by (intro order_writes.rel_bindX deleteOrderLines_writes insertOrderLines_writes)
      (simp_all add: order_writes.rel_refl)
  then show "orderWrites (oe_uuid env) t (snd ((case a of (row, inserted) \<Rightarrow> \<lambda>db.
       (let orderId = os_order_id row; unbooked = os_order_state row \<in> set unbookedOrderStates;
            result = \<lparr>ou_orderId = orderId, ou_orderState = os_order_state row, ou_inserted = inserted,
              ou_linesRewritten = unbooked, ou_unbooked = unbooked\<rparr>
        in if unbooked
           then bindX (deleteOrderLines orderId db) (\<lambda>_ db.
                bindX (insertOrderLines env orderId (mo_lines m) db) (\<lambda>_ db. (Inr result, db)))
           else (Inr result, db))) t))"
    by (simp add: ri Let_def order_writes.rel_refl)
qed

lemma upsert_writes: "orderWrites (oe_uuid env) db (snd (upsert env shop m db))"
  unfolding upsert_def by (rule inTx_writes, rule upsertInTx_writes)

lemma markCancelled_writes: "orderWrites uuid db (snd (markCancelledInShopify shop i db))"
  by (rule writes_step) (auto simp: markCancelledInShopify_def Let_def keepsOrder_def terminalOrderStates_def intro: setOrders_step)

section \<open>Allocations\<close>

lemma ensureLocations_sel [simp]:
  "od_orders (ensureLocations shop locs db) = od_orders db" "od_lines (ensureLocations shop locs db) = od_lines db"
  "od_allocations (ensureLocations shop locs db) = od_allocations db"
  "od_shipments (ensureLocations shop locs db) = od_shipments db"
  "od_shipment_lines (ensureLocations shop locs db) = od_shipment_lines db"
  "od_intents (ensureLocations shop locs db) = od_intents db"
  "od_invoice_lines (ensureLocations shop locs db) = od_invoice_lines db"
  "od_ids (ensureLocations shop locs db) = od_ids db"
  unfolding ensureLocations_def by (induction locs arbitrary: db) (simp_all add: upsertLocation_def Let_def)

lemma ensureLocations_writes: "orderWrites uuid db (ensureLocations shop locs db)"
  by (rule writes_step, rule order_step.otherTables) simp_all

lemma deleteShipments_writes: "orderWrites uuid db (snd (deleteShipments cond db))"
proof (cases "fst (deleteShipments cond db)")
  case (Inl e)
  then show ?thesis by (auto simp: deleteShipments_def Let_def order_writes.rel_refl split: if_splits)
next
  case (Inr u)
  then have "deleteShipments cond db = (Inr (), snd (deleteShipments cond db))" by (cases "deleteShipments cond db") auto
  then show ?thesis by (blast intro: writes_step order_step.deleteParcels)
qed

lemma deleteAllocations_writes: "orderWrites uuid db (snd (deleteAllocations cond db))"
proof (cases "fst (deleteAllocations cond db)")
  case (Inl e)
  then show ?thesis by (auto simp: deleteAllocations_def Let_def order_writes.rel_refl split: if_splits)
next
  case (Inr u)
  then have "deleteAllocations cond db = (Inr (), snd (deleteAllocations cond db))" by (cases "deleteAllocations cond db") auto
  then show ?thesis by (blast intro: writes_step order_step.deleteAllocs)
qed

lemma deleteShipmentLines_writes: "orderWrites uuid db (deleteShipmentLines cond db)"
  by (blast intro: writes_step order_step.deleteParcelLines)

lemma deleteShipmentLines_sel [simp]:
  "od_orders (deleteShipmentLines cond db) = od_orders db" "od_lines (deleteShipmentLines cond db) = od_lines db"
  "od_allocations (deleteShipmentLines cond db) = od_allocations db"
  "od_shipments (deleteShipmentLines cond db) = od_shipments db"
  by (simp_all add: deleteShipmentLines_def Let_def)

lemma auditOrder_sel [simp]:
  "od_orders (snd (auditOrder env c db)) = od_orders db" "od_lines (snd (auditOrder env c db)) = od_lines db"
  by (simp_all add: auditOrder_def orderCall_def)

lemma draftRow_sel [simp]:
  "hs_shipment_id (draftRow i shop oid al pk w) = i" "hs_shop_id (draftRow i shop oid al pk w) = shop"
  "hs_order_id (draftRow i shop oid al pk w) = oid" "hs_allocation_id (draftRow i shop oid al pk w) = Some al"
  "hs_booking_state (draftRow i shop oid al pk w) = DRAFT" "hs_pickup_location_id (draftRow i shop oid al pk w) = pk"
  "hs_working_values (draftRow i shop oid al pk w) = Some w"
  by (simp_all add: draftRow_def)

lemma writePlanItem_sel [simp]:
  "od_orders (snd (writePlanItem env shop oid pk m ls item db)) = od_orders db"
  "od_lines (snd (writePlanItem env shop oid pk m ls item db)) = od_lines db"
  by (simp_all add: writePlanItem_def freshUuid_def Let_def)

lemma writePlanItem_writes:
  assumes "r \<in> set (od_orders db)" "os_order_id r = oid" "os_shop_id r = shop" "yl_orderLineId ` set ls \<subseteq> lineIds db"
  shows "orderWrites (oe_uuid env) db (snd (writePlanItem env shop oid pk m ls item db))"
proof -
  define al where "al = \<lparr>aw_allocation_id = oe_uuid env (od_ids db), aw_order_id = oid,
     aw_pickup_location_id = (if pi_state item = ALLOC_OPEN then pk else None),
     aw_source_fulfillment_order_gids = pi_sourceFulfillmentOrderGids item,
     aw_state = pi_state item, aw_version = 1\<rparr>"
  define d1 where "d1 = db\<lparr>od_ids := od_ids db + 1, od_allocations := od_allocations db @ [al]\<rparr>"
  define d2 where "d2 = d1\<lparr>od_ids := od_ids d1 + 1,
     od_shipments := od_shipments d1 @ [draftRow (oe_uuid env (od_ids d1)) shop oid (aw_allocation_id al) pk (draftValues m ls item)],
     od_shipment_lines := od_shipment_lines d1 @ draftLines (oe_uuid env (od_ids d1)) ls\<rparr>"
  have "order_step (oe_uuid env) db d1"
    unfolding d1_def by (rule order_step.insertAllocation) (use assms(1,2) in \<open>auto simp: al_def orderIds_def\<close>)
  then have one: "orderWrites (oe_uuid env) db d1" by (blast intro: writes_step)
  have "order_step (oe_uuid env) d1 d2"
    unfolding d2_def
    by (rule order_step.insertShipment [where r = r])
      (use assms in \<open>auto simp: d1_def allocationIds_def draftLines_def lineIds_def image_subset_iff\<close>)
  then have "orderWrites (oe_uuid env) d1 d2" by (blast intro: writes_step)
  then have two: "orderWrites (oe_uuid env) db d2" by (rule order_writes.rel_trans [OF one])
  have "snd (writePlanItem env shop oid pk m ls item db) = (if pi_state item = ALLOC_EXCLUDED
      then snd (auditOrder env (AllocationExcluded (aw_allocation_id al) (pi_exclusionReason item)) d1) else d2)"
    by (simp add: writePlanItem_def freshUuid_def Let_def d1_def d2_def al_def)
  then show ?thesis using two order_writes.rel_trans [OF one auditOrder_writes] by simp
qed

definition sameOrders :: "OrderDb \<Rightarrow> OrderDb \<Rightarrow> bool" where
  "sameOrders db db' \<longleftrightarrow> od_orders db' = od_orders db \<and> od_lines db' = od_lines db"

interpretation same_orders: run_relation sameOrders
  by unfold_locales (simp_all add: sameOrders_def)

lemma writePlan_sameOrders: "sameOrders db (snd (writePlan env shop oid pk m ls items db))"
proof (induction items arbitrary: db)
  case (Cons item items)
  show ?case
    unfolding writePlan.simps
    by (rule same_orders.rel_bindX) (simp_all add: Cons.IH, simp add: sameOrders_def)
qed (simp add: same_orders.rel_refl)

lemma lineIds_cong: "od_lines db' = od_lines db \<Longrightarrow> lineIds db' = lineIds db"
  by (simp add: lineIds_def)

lemma writePlan_writes:
  assumes "r \<in> set (od_orders db)" "os_order_id r = oid" "os_shop_id r = shop" "yl_orderLineId ` set ls \<subseteq> lineIds db"
  shows "orderWrites (oe_uuid env) db (snd (writePlan env shop oid pk m ls items db))"
  using assms
proof (induction items arbitrary: db)
  case Nil
  then show ?case by (simp add: order_writes.rel_refl)
next
  case (Cons item items)
  show ?case
    unfolding writePlan.simps
  proof (rule order_writes.rel_bindX [OF writePlanItem_writes [OF Cons.prems]], rule Cons.IH)
    fix u t assume t: "writePlanItem env shop oid pk m ls item db = (Inr u, t)"
    have o: "od_orders t = od_orders db" "od_lines t = od_lines db"
      using writePlanItem_sel [of env shop oid pk m ls item db] unfolding t by simp_all
    then show "r \<in> set (od_orders t)" "yl_orderLineId ` set ls \<subseteq> lineIds t"
      using Cons.prems(1,4) lineIds_cong [OF o(2)] by simp_all
  qed (rule Cons.prems)+
qed

lemma orderOfShop_Some:
  "orderOfShop db shop i = Some r \<Longrightarrow> r \<in> set (od_orders db) \<and> os_shop_id r = shop \<and> os_order_id r = i"
  by (auto simp: orderOfShop_def find_Some_iff)

lemma syncLine_ids: "yl_orderLineId ` set (map syncLine (linesOfOrder db i)) \<subseteq> lineIds db"
  by (auto simp: syncLine_def linesOfOrder_def lineIds_def)

lemma rebuildBody_writes: "orderWrites (oe_uuid env) db (snd (rebuildBody env shop i m plan db))"
proof (cases "orderOfShop db shop i")
  case None
  then show ?thesis by (simp add: rebuildBody_def order_writes.rel_refl)
next
  case (Some r)
  note r = orderOfShop_Some [OF Some]
  let ?ls = "map syncLine (linesOfOrder db i)"
  let ?d = "deleteShipmentLines (isMutableOf shop i) db"
  have plan: "orderWrites (oe_uuid env) u (snd (bindX (writePlan env shop i pk m ?ls plan u) (\<lambda>_ db. (Inr True, db))))"
    if t: "deleteShipments (isMutableOf shop i) ?d = (Inr (), t)" and u: "deleteAllocations c t = (Inr (), u)" for t u c pk
  proof (rule order_writes.rel_bindX, rule writePlan_writes)
    have "od_orders u = od_orders db" "od_lines u = od_lines db"
      using t [unfolded deleteShipments_Inr] u [unfolded deleteAllocations_Inr] by simp_all
    then show "r \<in> set (od_orders u)" "yl_orderLineId ` set ?ls \<subseteq> lineIds u"
      using r syncLine_ids [of db i] lineIds_cong [of u db] by simp_all
  qed (use r in \<open>simp_all add: order_writes.rel_refl\<close>)
  have allocs: "orderWrites (oe_uuid env) t (snd (bindX (deleteAllocations c t) (\<lambda>_ db.
      bindX (writePlan env shop i pk m ?ls plan db) (\<lambda>_ db. (Inr True, db)))))"
    if "deleteShipments (isMutableOf shop i) ?d = (Inr (), t)" for t c pk
    by (rule order_writes.rel_bindX [OF deleteAllocations_writes], rule plan [OF that]) simp
  have "orderWrites (oe_uuid env) ?d (snd (bindX (deleteShipments (isMutableOf shop i) ?d) (\<lambda>_ db.
      bindX (deleteAllocations c db) (\<lambda>_ db. bindX (writePlan env shop i pk m ?ls plan db) (\<lambda>_ db. (Inr True, db))))))"
    for c pk
    by (rule order_writes.rel_bindX [OF deleteShipments_writes], rule allocs) simp
  note order_writes.rel_trans [OF deleteShipmentLines_writes this]
  then show ?thesis by (simp add: rebuildBody_def Some Let_def order_writes.rel_refl)
qed

lemma rebuild_writes:
  assumes "wfOrderEnv env"
  shows "orderWrites (oe_uuid env) db (snd (rebuild env shop i m db))"
proof (cases "oe_fulfillmentOrders env shop (mo_shopifyOrderGid m)")
  case None
  then show ?thesis by (simp add: rebuild_def order_writes.rel_refl)
next
  case (Some fos)
  have "orderWrites (oe_uuid env) db (oe_gap env 1 (ensureLocations shop (locationsOf fos) db))"
    by (rule order_writes.rel_trans [OF ensureLocations_writes writes_gap [OF assms]])
  then show ?thesis
    unfolding rebuild_def Some Let_def by (simp, elim order_writes.rel_trans) (rule inTx_writes, rule rebuildBody_writes)
qed

lemma auditExcluded_writes: "orderWrites uuid db (snd (auditExcluded env is db))"
  by (induction "is" arbitrary: db)
    (auto simp: order_writes.rel_refl intro!: order_writes.rel_bindX auditOrder_writes)

lemma markExternallyFulfilled_writes: "orderWrites uuid db (snd (markExternallyFulfilled env shop i gids db))"
proof -
  let ?c = "\<lambda>a. aw_order_id a = i \<and> orderOfShop db shop i \<noteq> None \<and> aw_state a = ALLOC_OPEN
      \<and> overlaps (aw_source_fulfillment_order_gids a) gids"
  let ?db = "db\<lparr>od_allocations := map (\<lambda>a. if ?c a
      then a\<lparr>aw_state := ALLOC_EXCLUDED, aw_version := aw_version a + 1\<rparr> else a) (od_allocations db)\<rparr>"
  have "order_step uuid db ?db" by (rule order_step.updateAllocations) simp
  then have one: "orderWrites uuid db ?db" by (blast intro: writes_step)
  have two: "orderWrites uuid ?db (snd (if ids = [] then (Inr (), ?db) else deleteShipments cond (deleteShipmentLines cond ?db)))"
    for ids :: "string list" and cond
    by (simp add: order_writes.rel_refl order_writes.rel_trans [OF deleteShipmentLines_writes deleteShipments_writes])
  have "orderWrites uuid ?db (snd (bindX (if ids = [] then (Inr (), ?db) else deleteShipments cond (deleteShipmentLines cond ?db))
      (\<lambda>_ db. bindX (auditExcluded env ids db) (\<lambda>_ db. (Inr ids, db)))))" for ids :: "string list" and cond
    by (intro order_writes.rel_bindX two auditExcluded_writes) (simp add: order_writes.rel_refl)
  note order_writes.rel_trans [OF one this]
  then show ?thesis by (simp only: markExternallyFulfilled_def Let_def)
qed

section \<open>Derivation, ingestion, webhooks\<close>

lemma writeDerived_writes: "orderWrites uuid db (snd (writeDerived d order db))"
proof (cases "codOutstandingFits (dv_codOutstanding d)")
  case False
  then show ?thesis by (simp add: writeDerived_def Let_def order_writes.rel_refl)
next
  case True
  let ?c = "\<lambda>r. os_shop_id r = os_shop_id order \<and> os_order_id r = os_order_id order
      \<and> os_order_state r \<in> {IMPORTED, INCOMPLETE, READY}"
  let ?db = "setOrders ?c (derivedOrderRow d) db"
  have "order_step uuid db ?db"
    by (rule setOrders_step) (auto simp: keepsOrder_def derivedOrderRow_def terminalOrderStates_def)
  moreover have "order_step uuid ?db (?db\<lparr>od_shipments := map (\<lambda>s. if isMutableOf (os_shop_id order) (os_order_id order) s
      then s\<lparr>hs_working_values := Some (nextWorking d (hs_working_values s)), hs_version := hs_version s + 1\<rparr> else s)
      (od_shipments ?db)\<rparr>)"
    by (rule order_step.updateShipments) (simp add: keepsShipment_def)
  ultimately show ?thesis
    using True by (auto simp: writeDerived_def Let_def setOrders_def orderWrites_def intro: rtranclp_trans)
qed

lemma evaluateOrder_writes: "orderWrites (oe_uuid env) db (snd (evaluateOrder env i db))"
proof -
  have "orderWrites (oe_uuid env) db (snd (evaluateBody i db))"
    by (auto simp: evaluateBody_def order_writes.rel_refl split: option.split sum.split
        intro: order_writes.rel_bindX [OF writeDerived_writes])
  then show ?thesis
    unfolding evaluateOrder_def
    by (intro order_writes.rel_bindX inTx_writes)
      (auto simp: order_writes.rel_refl split: option.split intro: order_writes.rel_bindX [OF auditOrder_writes])
qed

lemma evaluateAfterUpsert_writes: "orderWrites (oe_uuid env) db (snd (evaluateAfterUpsert env up db))"
  by (auto simp: evaluateAfterUpsert_def order_writes.rel_refl intro: order_writes.rel_bindX [OF evaluateOrder_writes])

lemma recomputeCodAssignment_writes:
  assumes "wfOrderEnv env"
  shows "orderWrites (oe_uuid env) db (snd (recomputeCodAssignment env shop i db))"
proof -
  note gap = writes_gap [OF assms]
  have one: "orderWrites (oe_uuid env) db (oe_gap env 1 (oe_gap env 0 db))"
    by (rule order_writes.rel_trans [OF gap gap])
  have "orderWrites (oe_uuid env) u (setOrders (\<lambda>r. os_shop_id r = shop \<and> os_order_id r = i)
      (\<lambda>r. r\<lparr>os_cod_assignment_state := st\<rparr>) u)" for u st
    by (rule writes_step, rule setOrders_step) (simp add: keepsOrder_def)
  note two = order_writes.rel_trans [OF one order_writes.rel_trans [OF this auditOrder_writes]]
  have "orderWrites (oe_uuid env) db (snd (bindX (auditOrder env c (setOrders (\<lambda>r. os_shop_id r = shop \<and> os_order_id r = i)
      (\<lambda>r. r\<lparr>os_cod_assignment_state := st\<rparr>) (oe_gap env 1 (oe_gap env 0 db)))) (\<lambda>_ db. (Inr v, db))))"
    for c st and v :: "CodAssignmentState \<times> bool"
    by (rule order_writes.rel_bindX [OF two]) (simp add: order_writes.rel_refl)
  then show ?thesis
    by (simp add: recomputeCodAssignment_def Let_def gap order_writes.rel_refl split: option.split sum.split)
qed

lemma ingest_writes:
  assumes "wfOrderEnv env"
  shows "orderWrites (oe_uuid env) db (snd (ingest env shop payload db))"
proof (cases "mapShopifyOrder payload")
  case (Inl e)
  then show ?thesis by (cases e) (simp add: ingest_def order_writes.rel_refl)
next
  case (Inr m)
  note gap = writes_gap [OF assms]
  have unbooked: "orderWrites (oe_uuid env) u (snd (ingestUnbooked env shop m up u))" for up u
    unfolding ingestUnbooked_def
    by (rule order_writes.rel_bindX [OF rebuild_writes [OF assms]],
        rule order_writes.rel_bindX [OF order_writes.rel_trans [OF gap evaluateAfterUpsert_writes]])
      (simp add: orderCall_writes)
  have "orderWrites (oe_uuid env) u (snd (bindX (ingestUnbooked env shop m up (oe_gap env 0 u)) (\<lambda>r db. (Inr (g r), db))))"
    for up u and g :: "bool \<Rightarrow> OrderIngestResult"
    by (rule order_writes.rel_trans [OF gap], rule order_writes.rel_bindX [OF unbooked]) (simp add: order_writes.rel_refl)
  then have after: "orderWrites (oe_uuid env) u (snd (if \<not> ou_unbooked up
      then (Inr \<lparr>ir_mapped = m, ir_upsert = up, ir_allocationsRebuilt = False\<rparr>, u)
      else bindX (ingestUnbooked env shop m up (oe_gap env 0 u)) (\<lambda>rebuilt db.
        (Inr \<lparr>ir_mapped = m, ir_upsert = up, ir_allocationsRebuilt = rebuilt\<rparr>, db))))" for up u
    by (simp add: order_writes.rel_refl)
  show ?thesis
    unfolding ingest_def Inr sum.case by (rule order_writes.rel_bindX [OF upsert_writes after])
qed

text \<open>What a webhook or a booking flow may run on the tables.\<close>

inductive orderOutcomes :: "OrderEnv \<Rightarrow> OrderDb \<Rightarrow> OrderDb \<Rightarrow> bool" for env db where
  "orderOutcomes env db (snd (ordersCreate env shop payload db))"
| "orderOutcomes env db (snd (ordersUpdated env shop payload db))"
| "orderOutcomes env db (snd (ordersCancelled env shop payload db))"
| "orderOutcomes env db (snd (ordersFulfilled env shop payload db))"
| "orderOutcomes env db (snd (evaluateOrder env orderId db))"
| "orderOutcomes env db (snd (recomputeCodAssignment env shop orderId db))"

lemma ordersCancelled_writes:
  assumes "wfOrderEnv env"
  shows "orderWrites (oe_uuid env) db (snd (ordersCancelled env shop payload db))"
  unfolding ordersCancelled_def
proof (rule order_writes.rel_bindX [OF ingest_writes [OF assms]])
  fix a u
  let ?i = "ou_orderId (ir_upsert a)"
  obtain b v where m: "markCancelledInShopify shop ?i (oe_gap env 3 u) = (b, v)" by fastforce
  have v: "orderWrites (oe_uuid env) u v"
    using order_writes.rel_trans [OF writes_gap [OF assms] markCancelled_writes [of _ _ shop ?i], of u 3] unfolding m by simp
  then show "orderWrites (oe_uuid env) u (snd (let orderId = ?i;
      (transitioned, db) = markCancelledInShopify shop orderId (oe_gap env 3 u)
      in if transitioned then auditOrder env (OrderCancelledAudit orderId) db else (Inr (), db)))"
    using order_writes.rel_trans [OF v auditOrder_writes] by (simp add: m)
qed

lemma ordersFulfilled_writes:
  assumes "wfOrderEnv env"
  shows "orderWrites (oe_uuid env) db (snd (ordersFulfilled env shop payload db))"
  unfolding ordersFulfilled_def
proof (rule order_writes.rel_bindX [OF ingest_writes [OF assms]])
  fix a u
  have "orderWrites (oe_uuid env) u (snd (bindX (markExternallyFulfilled env shop i gids (oe_gap env 3 u))
      (\<lambda>_ db. (Inr (), db))))" for i gids
    by (rule order_writes.rel_bindX, rule order_writes.rel_trans [OF writes_gap [OF assms] markExternallyFulfilled_writes])
      (simp add: order_writes.rel_refl)
  then show "orderWrites (oe_uuid env) u (snd (case oe_fulfillmentOrders env shop (mo_shopifyOrderGid (ir_mapped a)) of
      None \<Rightarrow> (Inl GraphqlFailed, u)
    | Some fos \<Rightarrow> (let gids = fulfilledGids fos (op_fulfillment_status payload) in
        if gids = Some [] then (Inr (), u)
        else bindX (markExternallyFulfilled env shop (ou_orderId (ir_upsert a)) gids (oe_gap env 3 u)) (\<lambda>_ db. (Inr (), db)))))"
    by (simp add: order_writes.rel_refl Let_def split: option.split)
qed

lemma orderOutcomes_reached:
  assumes "orderOutcomes env db db'" "wfOrderEnv env"
  shows "orderWrites (oe_uuid env) db db'"
  using assms(1)
proof cases
  case (1 shop payload)
  then show ?thesis by (auto simp: ordersCreate_def order_writes.rel_refl intro: order_writes.rel_bindX [OF ingest_writes [OF assms(2)]])
next
  case (2 shop payload)
  then show ?thesis by (auto simp: ordersUpdated_def order_writes.rel_refl intro: order_writes.rel_bindX [OF ingest_writes [OF assms(2)]])
qed (simp_all add: ordersCancelled_writes ordersFulfilled_writes evaluateOrder_writes recomputeCodAssignment_writes assms(2))

end
