(* ===== verification/Order_Runs.thy ===== *)
theory Order_Runs
  imports Order_Laws
begin

text \<open>The rows that a rebuild and an ingestion leave behind.\<close>

section \<open>Sequences\<close>

lemma bindX_eq_Inr: "bindX r f = (Inr b, s') \<longleftrightarrow> (\<exists>a s. r = (Inr a, s) \<and> f a s = (Inr b, s'))"
  by (auto simp: bindX_def split: prod.splits sum.splits)

lemma inTx_Inr [simp]: "inTx body db = (Inr a, db') \<longleftrightarrow> body db = (Inr a, db')"
  by (auto simp: inTx_def split: prod.splits sum.splits)

section \<open>Writing a plan\<close>

definition planAllocation :: "OrderEnv \<Rightarrow> nat \<Rightarrow> string \<Rightarrow> string option \<Rightarrow> AllocationPlanItem \<Rightarrow> AllocationRow" where
  "planAllocation env n oid pk item = \<lparr>aw_allocation_id = oe_uuid env n, aw_order_id = oid,
     aw_pickup_location_id = (if pi_state item = ALLOC_OPEN then pk else None),
     aw_source_fulfillment_order_gids = pi_sourceFulfillmentOrderGids item,
     aw_state = pi_state item, aw_version = 1\<rparr>"

fun planAllocations :: "OrderEnv \<Rightarrow> nat \<Rightarrow> string \<Rightarrow> string option \<Rightarrow> AllocationPlanItem list \<Rightarrow> AllocationRow list" where
  "planAllocations env n oid pk [] = []"
| "planAllocations env n oid pk (item # items) = planAllocation env n oid pk item #
     planAllocations env (if pi_state item = ALLOC_EXCLUDED then n + 1 else n + 2) oid pk items"

fun planDrafts :: "OrderEnv \<Rightarrow> nat \<Rightarrow> string \<Rightarrow> string \<Rightarrow> string option \<Rightarrow> MappedOrder \<Rightarrow> SyncLine list
     \<Rightarrow> AllocationPlanItem list \<Rightarrow> SyncShipmentRow list" where
  "planDrafts env n shop oid pk m ls [] = []"
| "planDrafts env n shop oid pk m ls (item # items) =
     (if pi_state item = ALLOC_EXCLUDED then planDrafts env (n + 1) shop oid pk m ls items
      else draftRow (oe_uuid env (n + 1)) shop oid (oe_uuid env n) pk (draftValues m ls item)
           # planDrafts env (n + 2) shop oid pk m ls items)"

text \<open>The audit records of the excluded items.\<close>

definition planCalls :: "AllocationRow list \<Rightarrow> AllocationPlanItem list \<Rightarrow> OrderCall list" where
  "planCalls as items = map (\<lambda>(a, p). AllocationExcluded (aw_allocation_id a) (pi_exclusionReason p))
     (filter (\<lambda>(a, p). pi_state p = ALLOC_EXCLUDED) (zip as items))"

text \<open>Everything a plan writes, and that it writes nothing else.\<close>

lemma writePlan_Inr:
  "writePlan env shop oid pk m ls items db = (Inr (), db') \<Longrightarrow> db' = db\<lparr>
     od_allocations := od_allocations db @ planAllocations env (od_ids db) oid pk items,
     od_shipments := od_shipments db @ planDrafts env (od_ids db) shop oid pk m ls items,
     od_shipment_lines := od_shipment_lines db
       @ concat (map (\<lambda>s. draftLines (hs_shipment_id s) ls) (planDrafts env (od_ids db) shop oid pk m ls items)),
     od_ids := od_ids db', od_calls := od_calls db @ planCalls (planAllocations env (od_ids db) oid pk items) items\<rparr>"
proof (induction items arbitrary: db)
  case Nil
  then show ?case by (simp add: planCalls_def)
next
  case (Cons item items)
  obtain t where t: "writePlanItem env shop oid pk m ls item db = (Inr (), t)"
      "writePlan env shop oid pk m ls items t = (Inr (), db')"
    using Cons.prems by (auto simp: bindX_eq_Inr)
  let ?a = "planAllocation env (od_ids db) oid pk item"
  have t': "t = db\<lparr>od_allocations := od_allocations db @ [?a],
      od_shipments := od_shipments db @ planDrafts env (od_ids db) shop oid pk m ls [item],
      od_shipment_lines := od_shipment_lines db
        @ concat (map (\<lambda>s. draftLines (hs_shipment_id s) ls) (planDrafts env (od_ids db) shop oid pk m ls [item])),
      od_ids := (if pi_state item = ALLOC_EXCLUDED then od_ids db + 1 else od_ids db + 2),
      od_calls := od_calls db @ planCalls [?a] [item]\<rparr>"
    using t(1) by (auto simp: writePlanItem_def freshUuid_def Let_def auditOrder_def orderCall_def planAllocation_def
        planCalls_def split: if_splits)
  show ?case
    by (subst Cons.IH [OF t(2)]) (cases "pi_state item = ALLOC_EXCLUDED"; simp add: t' planCalls_def)
qed

lemma planAllocations_view:
  "map (\<lambda>a. (aw_state a, aw_source_fulfillment_order_gids a)) (planAllocations env n oid pk items) =
     map (\<lambda>p. (pi_state p, pi_sourceFulfillmentOrderGids p)) items"
  by (induction items arbitrary: n) (simp_all add: planAllocation_def)

lemma planAllocations_order: "a \<in> set (planAllocations env n oid pk items) \<Longrightarrow>
    aw_order_id a = oid \<and> aw_state a \<in> pi_state ` set items"
  by (induction items arbitrary: n) (auto simp: planAllocation_def split: if_splits)

lemma planDrafts_mutable: "s \<in> set (planDrafts env n shop oid pk m ls items) \<Longrightarrow> isMutableOf shop oid s"
  by (induction items arbitrary: n) (auto simp: isMutableOf_def mutableStates_def split: if_splits)

lemma planDrafts_values:
  "map hs_working_values (planDrafts env n shop oid pk m ls items) =
     map (\<lambda>p. Some (draftValues m ls p)) (filter (\<lambda>p. pi_state p \<noteq> ALLOC_EXCLUDED) items)"
  by (induction items arbitrary: n) simp_all

lemma planDrafts_rows:
  "map (\<lambda>s. (hs_booking_state s, hs_allocation_id s, hs_pickup_location_id s, hs_awb_normalized s, hs_working_values s))
       (planDrafts env n shop oid pk m ls items) =
     map (\<lambda>(a, p). (DRAFT, Some (aw_allocation_id a), pk, None, Some (draftValues m ls p)))
       (filter (\<lambda>(a, p). pi_state p \<noteq> ALLOC_EXCLUDED) (zip (planAllocations env n oid pk items) items))"
  by (induction items arbitrary: n) (simp_all add: planAllocation_def draftRow_def)

section \<open>Locations\<close>

lemma ensureLocations_only: "\<exists>ls. ensureLocations shopId locs db = db\<lparr>od_locations := ls\<rparr>"
proof (induction locs arbitrary: db)
  case Nil
  show ?case by (simp add: ensureLocations_def) (rule exI [of _ "od_locations db"], simp)
next
  case (Cons loc locs)
  obtain ls where "upsertLocation shopId loc db = db\<lparr>od_locations := ls\<rparr>"
    by (cases "list_ex (\<lambda>l. lo_shop_id l = shopId \<and> lo_shopify_location_gid l = fst loc) (od_locations db)")
      (simp_all add: upsertLocation_def Let_def)
  with Cons.IH [of "upsertLocation shopId loc db"] show ?case by (auto simp: ensureLocations_def)
qed

abbreviation locationView :: "LocationRow \<Rightarrow> string \<times> string \<times> bool" where
  "locationView l \<equiv> (lo_shop_id l, lo_shopify_location_gid l, lo_ships_via_jsyxi l)"

definition knownLocations :: "string \<Rightarrow> OrderDb \<Rightarrow> string set" where
  "knownLocations shopId db = {gid. \<exists>flag. (shopId, gid, flag) \<in> set (map locationView (od_locations db))}"

lemma ensureLocations_view:
  "\<exists>new. map locationView (od_locations (ensureLocations shopId locs db))
      = map locationView (od_locations db) @ map (\<lambda>gid. (shopId, gid, True)) new
    \<and> set new = fst ` set locs - knownLocations shopId db"
proof (induction locs arbitrary: db)
  case Nil
  show ?case by (simp add: ensureLocations_def)
next
  case (Cons loc locs)
  let ?here = "\<lambda>l. lo_shop_id l = shopId \<and> lo_shopify_location_gid l = fst loc"
  let ?db = "upsertLocation shopId loc db"
  obtain new where new: "map locationView (od_locations (ensureLocations shopId locs ?db))
      = map locationView (od_locations ?db) @ map (\<lambda>gid. (shopId, gid, True)) new"
      "set new = fst ` set locs - knownLocations shopId ?db" using Cons.IH by blast
  have rest: "ensureLocations shopId (loc # locs) db = ensureLocations shopId locs ?db" by (simp add: ensureLocations_def)
  show ?case
  proof (cases "list_ex ?here (od_locations db)")
    case True
    then have u: "od_locations ?db = map (\<lambda>l. if ?here l then l\<lparr>lo_name := snd loc, lo_version := lo_version l + 1\<rparr> else l)
        (od_locations db)" by (simp add: upsertLocation_def Let_def)
    have same: "map locationView (od_locations ?db) = map locationView (od_locations db)" by (simp add: u)
    then have "knownLocations shopId ?db = knownLocations shopId db" by (simp only: knownLocations_def)
    moreover have "fst loc \<in> knownLocations shopId db" using True by (force simp: knownLocations_def list_ex_iff)
    ultimately have "set new = fst ` set (loc # locs) - knownLocations shopId db" unfolding new(2) by auto
    then show ?thesis
      unfolding rest new(1) same by blast
  next
    case False
    then have u: "od_locations ?db = od_locations db @ [\<lparr>lo_shop_id = shopId, lo_shopify_location_gid = fst loc,
        lo_name = snd loc, lo_ships_via_jsyxi = True, lo_version = 1\<rparr>]" by (simp add: upsertLocation_def Let_def)
    have "fst loc \<notin> knownLocations shopId db" using False by (auto simp: knownLocations_def list_ex_iff)
    moreover have "knownLocations shopId ?db = insert (fst loc) (knownLocations shopId db)"
      unfolding knownLocations_def u by auto
    ultimately have "set (fst loc # new) = fst ` set (loc # locs) - knownLocations shopId db"
      using new(2) by auto
    moreover have "map locationView (od_locations ?db) @ map (\<lambda>gid. (shopId, gid, True)) new
        = map locationView (od_locations db) @ map (\<lambda>gid. (shopId, gid, True)) (fst loc # new)" by (simp add: u)
    ultimately show ?thesis unfolding rest new(1) by blast
  qed
qed

section \<open>Rebuilding\<close>

definition plannedFor :: "string \<Rightarrow> AllocationRow \<Rightarrow> bool" where
  "plannedFor orderId a \<longleftrightarrow> aw_order_id a = orderId \<and> aw_state a \<in> {ALLOC_OPEN, ALLOC_EXCLUDED}"

text \<open>The tables after a rebuild, as an update of those before.\<close>

definition rebuiltDb :: "string \<Rightarrow> string \<Rightarrow> SyncLine list \<Rightarrow> SyncShipmentRow list \<Rightarrow> AllocationRow list
    \<Rightarrow> AllocationPlanItem list \<Rightarrow> nat \<Rightarrow> OrderDb \<Rightarrow> OrderDb" where
  "rebuiltDb shop oid ls drafts as plan ids db = db\<lparr>
     od_shipments := filter (\<lambda>s. \<not> isMutableOf shop oid s) (od_shipments db) @ drafts,
     od_allocations := filter (\<lambda>a. \<not> plannedFor oid a) (od_allocations db) @ as,
     od_shipment_lines := filter (\<lambda>h. hl_shipment_id h \<notin> hs_shipment_id ` set (filter (isMutableOf shop oid) (od_shipments db)))
         (od_shipment_lines db) @ concat (map (\<lambda>s. draftLines (hs_shipment_id s) ls) drafts),
     od_ids := ids, od_calls := od_calls db @ planCalls as plan\<rparr>"

lemma rebuiltDb_locations: "od_locations (rebuiltDb shop oid ls drafts as plan ids db) = od_locations db"
  by (simp add: rebuiltDb_def)

lemma rebuildBody_Inr:
  assumes "rebuildBody env shop oid m plan db = (Inr True, db')"
  shows "db' = rebuiltDb shop oid (map syncLine (linesOfOrder db oid))
     (planDrafts env (od_ids db) shop oid (map_of (od_pickups db) shop) m (map syncLine (linesOfOrder db oid)) plan)
     (planAllocations env (od_ids db) oid (map_of (od_pickups db) shop) plan) plan (od_ids db') db"
proof -
  let ?pk = "map_of (od_pickups db) shop"
  let ?ls = "map syncLine (linesOfOrder db oid)"
  obtain r where r: "orderOfShop db shop oid = Some r" "os_order_state r \<in> set unbookedOrderStates"
    using assms by (auto simp: rebuildBody_def split: option.splits if_splits)
  obtain t u where t: "deleteShipments (isMutableOf shop oid) (deleteShipmentLines (isMutableOf shop oid) db) = (Inr (), t)"
      "deleteAllocations (\<lambda>a. aw_order_id a = oid \<and> aw_state a \<in> {ALLOC_OPEN, ALLOC_EXCLUDED}) t = (Inr (), u)"
      "writePlan env shop oid ?pk m ?ls plan u = (Inr (), db')"
    using assms r by (auto simp: rebuildBody_def Let_def bindX_eq_Inr)
  note d = t(1) [unfolded deleteShipments_Inr, THEN conjunct2] t(2) [unfolded deleteAllocations_Inr, THEN conjunct2]
  have "u = db\<lparr>od_shipments := filter (\<lambda>s. \<not> isMutableOf shop oid s) (od_shipments db),
      od_allocations := filter (\<lambda>a. \<not> plannedFor oid a) (od_allocations db),
      od_shipment_lines := filter (\<lambda>h. hl_shipment_id h \<notin> hs_shipment_id ` set (filter (isMutableOf shop oid) (od_shipments db)))
        (od_shipment_lines db)\<rparr>"
    unfolding d plannedFor_def by (simp add: deleteShipmentLines_def Let_def)
  then show ?thesis by (subst writePlan_Inr [OF t(3)]) (simp add: rebuiltDb_def)
qed

lemma plan_states: "pi_state ` set (buildAllocationPlan fos ships canMerge) \<subseteq> {ALLOC_OPEN, ALLOC_EXCLUDED}"
proof -
  obtain ex ih where s: "sortOut ships fos = (ex, ih)" by fastforce
  show ?thesis using sortOut_excluded [OF s] by (auto simp: buildAllocationPlan_def s Let_def)
qed

definition planOf :: "OrderEnv \<Rightarrow> string \<Rightarrow> FulfillmentOrderInfo list \<Rightarrow> OrderDb \<Rightarrow> AllocationPlanItem list" where
  "planOf env shopId fos db = buildAllocationPlan fos
     (shipsVia (getShipsViaFlags db shopId (map fst (locationsOf fos))))
     (oe_canMerge env (filter (\<lambda>fo. fo_status fo \<in> set inHouseStatuses) fos))"

definition quiet :: "OrderEnv \<Rightarrow> bool" where
  "quiet env \<longleftrightarrow> (\<forall>k db. oe_gap env k db = db)"

lemma getShipsViaFlags_cong: "od_locations db' = od_locations db \<Longrightarrow> getShipsViaFlags db' = getShipsViaFlags db"
  by (intro ext) (simp add: getShipsViaFlags_def)

lemma filter_append_kept:
  "(\<And>x. x \<in> set ys \<Longrightarrow> P x) \<Longrightarrow> filter P (filter (\<lambda>x. \<not> P x) xs @ ys) = ys"
  by (simp add: filter_id_conv)

lemma filter_append_dropped:
  "(\<And>x. x \<in> set ys \<Longrightarrow> P x) \<Longrightarrow> filter (\<lambda>x. \<not> P x) ys = []"
  by (simp add: filter_empty_conv)

lemma quiet_rebuild:
  assumes "quiet env" "rebuild env shop oid m db = (Inr True, db')"
    and fos: "oe_fulfillmentOrders env shop (mo_shopifyOrderGid m) = Some fos"
  shows "db' = rebuiltDb shop oid (map syncLine (linesOfOrder db oid))
     (planDrafts env (od_ids db) shop oid (map_of (od_pickups db) shop) m (map syncLine (linesOfOrder db oid)) (planOf env shop fos db'))
     (planAllocations env (od_ids db) oid (map_of (od_pickups db) shop) (planOf env shop fos db')) (planOf env shop fos db')
     (od_ids db') (ensureLocations shop (locationsOf fos) db)"
proof -
  let ?db = "ensureLocations shop (locationsOf fos) db"
  let ?plan = "planOf env shop fos ?db"
  have body: "rebuildBody env shop oid m ?plan ?db = (Inr True, db')"
    using assms(2) by (simp add: rebuild_def fos Let_def planOf_def assms(1) [unfolded quiet_def])
  note b = rebuildBody_Inr [OF body]
  from arg_cong [OF b, of od_locations] have "od_locations db' = od_locations ?db" by (simp only: rebuiltDb_locations)
  then have "getShipsViaFlags db' = getShipsViaFlags ?db" by (rule getShipsViaFlags_cong)
  then have plan: "planOf env shop fos db' = ?plan" by (simp only: planOf_def)
  obtain ls where ls: "?db = db\<lparr>od_locations := ls\<rparr>" using ensureLocations_only by blast
  have same: "od_ids ?db = od_ids db" "od_pickups ?db = od_pickups db" "linesOfOrder ?db oid = linesOfOrder db oid"
    unfolding ls by (simp_all add: linesOfOrder_def)
  show ?thesis unfolding plan same [symmetric] by (rule b)
qed

lemma plannedFor_plan: "a \<in> set (planAllocations env n oid pk (planOf env shop fos db)) \<Longrightarrow> plannedFor oid a"
  using plan_states unfolding plannedFor_def planOf_def by (fastforce dest: planAllocations_order)

lemma planOf_states: "p \<in> set (planOf env shop fos db) \<Longrightarrow> pi_state p = ALLOC_OPEN \<longleftrightarrow> pi_state p \<noteq> ALLOC_EXCLUDED"
  using plan_states unfolding planOf_def by fastforce

lemma planDrafts_fulfillment:
  "map (\<lambda>s. map_option yw_fulfillment (hs_working_values s)) (planDrafts env n shop oid pk m ls (planOf env shop fos db)) =
     map (\<lambda>p. Some (yw_fulfillment (draftValues m [] p))) (filter (\<lambda>p. pi_state p = ALLOC_OPEN) (planOf env shop fos db))"
  using arg_cong [OF planDrafts_values, of "map (map_option yw_fulfillment)" env n shop oid pk m ls "planOf env shop fos db"]
  by (simp add: comp_def draftValues_def planOf_states cong: filter_cong)

section \<open>Orders by key\<close>

lemma map_filter_inj: "distinct (List.map_filter k xs) \<Longrightarrow> x \<in> set xs \<Longrightarrow> y \<in> set xs \<Longrightarrow>
    k x = Some v \<Longrightarrow> k y = Some v \<Longrightarrow> x = y"
proof (induction xs)
  case (Cons a xs)
  have "v \<in> set (List.map_filter k xs)" if "z \<in> set xs" "k z = Some v" for z
    using that by (force simp: map_filter_def)
  then show ?case using Cons by (auto simp: map_filter_simps split: option.splits)
qed simp

lemma orderByGid_unique:
  assumes "keysDistinct db" "r \<in> set (od_orders db)" "os_shop_id r = shop" "os_shopify_order_gid r = Some gid"
  shows "orderByGid db shop gid = Some r"
proof -
  obtain r' where r': "orderByGid db shop gid = Some r'"
    using assms(2-4) by (cases "orderByGid db shop gid") (auto simp: orderByGid_def find_None_iff)
  have "r' = r"
    by (rule map_filter_inj [OF keys_sel(2) [OF assms(1), unfolded gidKeys_def], of r' r "(shop, gid)"])
      (use orderByGid_Some [OF r'] assms(2-4) in simp_all)
  with r' show ?thesis by simp
qed

lemma orderOfShop_unique:
  assumes "keysDistinct db" "r \<in> set (od_orders db)" "os_shop_id r = shop" "os_order_id r = i"
  shows "orderOfShop db shop i = Some r"
proof -
  obtain r' where r': "orderOfShop db shop i = Some r'"
    using assms(2-4) by (cases "orderOfShop db shop i") (auto simp: orderOfShop_def find_None_iff)
  have "r' = r" using same_order [OF assms(1)] orderOfShop_Some [OF r'] assms(2,4) by blast
  with r' show ?thesis by simp
qed

section \<open>Upserting\<close>

lemma upsertInTx_unbooked:
  "upsertOrderRow env shop m db = (Inr (row, ins), u) \<Longrightarrow> upsertInTx env shop m db =
     (if os_order_state row \<in> set unbookedOrderStates
      then bindX (deleteOrderLines (os_order_id row) u) (\<lambda>_ db. bindX (insertOrderLines env (os_order_id row) (mo_lines m) db)
        (\<lambda>_ db. (Inr \<lparr>ou_orderId = os_order_id row, ou_orderState = os_order_state row, ou_inserted = ins,
           ou_linesRewritten = True, ou_unbooked = True\<rparr>, db)))
      else (Inr \<lparr>ou_orderId = os_order_id row, ou_orderState = os_order_state row, ou_inserted = ins,
           ou_linesRewritten = False, ou_unbooked = False\<rparr>, u))"
  by (simp add: upsertInTx_def bindX_def [of "(Inr _, _)"] Let_def)

lemma lineRows_quantities: "map ol_quantity (lineRows env n oid ls) = map ml_quantity ls"
  by (rule nth_equalityI) (simp_all add: lineRows_def lineRow_def nth_enumerate_eq)

lemma upsert_Inr:
  assumes "upsert env shop m db = (Inr up, d1)" "ou_unbooked up" "orderInv (oe_uuid env) db"
  obtains r where "r \<in> set (od_orders d1)" "os_order_id r = ou_orderId up" "os_shop_id r = shop"
    "os_shopify_order_gid r = Some (mo_shopifyOrderGid m)" "os_order_state r \<in> set unbookedOrderStates"
    "map ol_quantity (linesOfOrder d1 (ou_orderId up)) = map ml_quantity (mo_lines m)"
proof -
  obtain row ins u v where u: "upsertOrderRow env shop m db = (Inr (row, ins), u)"
      "deleteOrderLines (os_order_id row) u = (Inr (), v)"
      "insertOrderLines env (os_order_id row) (mo_lines m) v = (Inr (), d1)"
      "os_order_state row \<in> set unbookedOrderStates" "ou_orderId up = os_order_id row"
  proof -
    obtain a u where a: "upsertOrderRow env shop m db = (Inr a, u)"
      using assms(1) unfolding upsert_def inTx_Inr upsertInTx_def bindX_eq_Inr by blast
    obtain row ins where ri: "a = (row, ins)" by fastforce
    have body: "upsertInTx env shop m db = (Inr up, d1)" using assms(1) by (simp add: upsert_def)
    have ub: "os_order_state row \<in> set unbookedOrderStates"
      using body assms(2) unfolding upsertInTx_unbooked [OF a [unfolded ri]] by (auto split: if_splits)
    from body ub obtain v where "deleteOrderLines (os_order_id row) u = (Inr (), v)"
        "bindX (insertOrderLines env (os_order_id row) (mo_lines m) v) (\<lambda>_ db. (Inr \<lparr>ou_orderId = os_order_id row,
           ou_orderState = os_order_state row, ou_inserted = ins, ou_linesRewritten = True, ou_unbooked = True\<rparr>, db))
         = (Inr up, d1)"
      unfolding upsertInTx_unbooked [OF a [unfolded ri]] if_P [OF ub] bindX_eq_Inr [of "deleteOrderLines _ _"] by auto
    then show ?thesis using that [OF a [unfolded ri] _ _ ub] unfolding bindX_eq_Inr by auto
  qed
  note d = u(2) [unfolded deleteOrderLines_Inr, THEN conjunct2]
  have i: "od_orders d1 = od_orders v" "od_lines d1 = od_lines v @ lineRows env (od_ids v) (os_order_id row) (mo_lines m)"
    using u(3) by (auto simp: insertOrderLines_def split: if_splits)
  have mine: "linesOfOrder d1 (os_order_id row) = lineRows env (od_ids v) (os_order_id row) (mo_lines m)"
    unfolding linesOfOrder_def i(2) d filter_append
    by (simp add: filter_id_conv filter_empty_conv lineRows_def lineRow_def split_beta)
  have quantities: "map ol_quantity (linesOfOrder d1 (os_order_id row)) = map ml_quantity (mo_lines m)"
    unfolding mine by (rule lineRows_quantities)
  show thesis
    by (rule that [of row]) (use upsertOrderRow_Inr [OF u(1)] u(4,5) quantities in \<open>simp_all add: d i(1)\<close>)
qed

lemma upsert_refused:
  assumes "GidUnique \<in> set (od_gid_indexes db)"
    "orderByGid db shop (mo_shopifyOrderGid m) = Some r" "os_order_state r \<in> set unbookedOrderStates"
    "l \<in> set (linesOfOrder db (os_order_id r))" "h \<in> set (od_shipment_lines db)" "hl_order_line_id h = ol_order_line_id l"
  shows "upsert env shop m db =
    (Inl (if orderChecks env m then ForeignKeyViolation ''shipment_line'' else OrderCheckViolation), db)"
proof -
  have "deleteOrderLines (os_order_id r) u = (Inl (ForeignKeyViolation ''shipment_line''), u)"
    if "od_lines u = od_lines db" "od_shipment_lines u = od_shipment_lines db" for u
    using assms(4-6) that by (auto simp: deleteOrderLines_def Let_def linesOfOrder_def list_ex_iff)
  then have "deleteOrderLines (os_order_id r) (db\<lparr>od_orders := os\<rparr>) =
      (Inl (ForeignKeyViolation ''shipment_line''), db\<lparr>od_orders := os\<rparr>)" for os by simp
  then show ?thesis
    using assms(1-3) by (simp add: upsert_def inTx_def upsertInTx_def upsertOrderRow_def bindX_def Let_def)
qed

section \<open>Deriving\<close>

text \<open>The tables after the two statements of a derivation.\<close>

definition derivedDb :: "Derived \<Rightarrow> SyncOrderRow \<Rightarrow> OrderDb \<Rightarrow> OrderDb" where
  "derivedDb d order db = (setOrders (\<lambda>r. os_shop_id r = os_shop_id order \<and> os_order_id r = os_order_id order
       \<and> os_order_state r \<in> {IMPORTED, INCOMPLETE, READY}) (derivedOrderRow d) db)
     \<lparr>od_shipments := map (\<lambda>s. if isMutableOf (os_shop_id order) (os_order_id order) s
        then s\<lparr>hs_working_values := Some (nextWorking d (hs_working_values s)), hs_version := hs_version s + 1\<rparr> else s)
        (od_shipments db)\<rparr>"

lemma writeDerived_Inr: "writeDerived d order db = (Inr (), t) \<Longrightarrow> t = derivedDb d order db"
  by (auto simp: writeDerived_def derivedDb_def Let_def setOrders_def split: if_splits)

lemma orderRowById_Some: "orderRowById db i = Some r \<Longrightarrow> r \<in> set (od_orders db) \<and> os_order_id r = i"
  by (auto simp: orderRowById_def find_Some_iff)

lemma evaluateBody_Some:
  assumes "evaluateBody i db = (Inr (Some (order, d)), t)"
  shows "orderRowById db i = Some order" "os_order_state order \<in> set unbookedOrderStates" "deriveOrder db order = Inr d"
    "t = derivedDb d order db"
  using assms by (auto simp: evaluateBody_def bindX_eq_Inr dest!: writeDerived_Inr split: option.splits if_splits sum.splits)

lemma evaluateOrder_Some:
  assumes "evaluateOrder env i db = (Inr (Some d), db')"
  obtains order where "orderRowById db i = Some order" "os_order_state order \<in> set unbookedOrderStates"
    "deriveOrder db order = Inr d" "od_orders db' = od_orders (derivedDb d order db)"
    "od_shipments db' = od_shipments (derivedDb d order db)"
proof -
  obtain y t where y: "evaluateBody i db = (Inr y, t)" using assms by (auto simp: evaluateOrder_def bindX_eq_Inr)
  have "\<exists>order. y = Some (order, d) \<and> od_orders db' = od_orders t \<and> od_shipments db' = od_shipments t"
    using assms by (cases y) (auto simp: evaluateOrder_def bindX_eq_Inr y auditOrder_def orderCall_def split: if_splits)
  then obtain order where "y = Some (order, d)" "od_orders db' = od_orders t" "od_shipments db' = od_shipments t" by blast
  with that evaluateBody_Some [of i db order d t] y show thesis by blast
qed

lemma derivedDb_drafts:
  assumes "s \<in> set (od_shipments (derivedDb d order db))" "isMutableOf (os_shop_id order) (os_order_id order) s"
  shows "\<exists>w. hs_working_values s = Some (nextWorking d w)"
  using assms by (auto simp: derivedDb_def isMutableOf_def split: if_splits)

lemma nextWorking_sel [simp]:
  "yp_mode (yw_payment (nextWorking d w)) = dv_paymentMode d"
  "yp_collectible (yw_payment (nextWorking d w)) = valueOr (dv_codOutstanding d) ''0.00''"
  "yw_weight (nextWorking d w) = dv_weight d" "yw_validation (nextWorking d w) = Some (dv_eligibility d)"
  "yw_routing (nextWorking d w) = None"
  by (simp_all add: nextWorking_def)

lemma derivedDb_row:
  assumes "keysDistinct db" "orderRowById db i = Some r" "os_order_state r \<in> set unbookedOrderStates"
  shows "orderRowById (derivedDb d r db) i = Some ((derivedOrderRow d r)\<lparr>os_version := os_version r + 1\<rparr>)"
proof -
  let ?f = "\<lambda>x. if os_shop_id x = os_shop_id r \<and> os_order_id x = os_order_id r \<and> os_order_state x \<in> {IMPORTED, INCOMPLETE, READY}
      then (derivedOrderRow d x)\<lparr>os_version := os_version x + 1\<rparr> else x"
  have ids: "os_order_id (?f x) = os_order_id x" for x by (simp add: derivedOrderRow_def)
  have "List.find (\<lambda>x. os_order_id x = i) (map ?f xs) = map_option ?f (List.find (\<lambda>x. os_order_id x = i) xs)" for xs
    by (induction xs) (use ids in simp_all)
  then have "orderRowById (derivedDb d r db) i = map_option ?f (orderRowById db i)"
    by (simp add: orderRowById_def derivedDb_def setOrders_def)
  then show ?thesis using assms(2,3) by (simp add: unbookedOrderStates_def)
qed

lemma evaluateOrder_keeps:
  assumes "evaluateOrder env i db = (Inr x, db')"
  shows "od_lines db' = od_lines db \<and> od_shipment_lines db' = od_shipment_lines db
   \<and> (\<exists>f. od_shipments db' = map f (od_shipments db) \<and> (\<forall>s. keepsShipment s (f s) \<and> hs_booking_state (f s) = hs_booking_state s))
   \<and> (\<exists>g. od_orders db' = map g (od_orders db) \<and> (\<forall>r. os_order_id (g r) = os_order_id r \<and> os_shop_id (g r) = os_shop_id r
       \<and> os_shopify_order_gid (g r) = os_shopify_order_gid r
       \<and> (os_order_state r \<in> set unbookedOrderStates \<longrightarrow> os_order_state (g r) \<in> set unbookedOrderStates)))"
proof -
  obtain y t where t: "evaluateBody i db = (Inr y, t)" "od_lines db' = od_lines t" "od_orders db' = od_orders t"
      "od_shipments db' = od_shipments t" "od_shipment_lines db' = od_shipment_lines t"
  proof -
    obtain y t where yt: "evaluateBody i db = (Inr y, t)" using assms by (auto simp: evaluateOrder_def bindX_eq_Inr)
    have "od_lines db' = od_lines t \<and> od_orders db' = od_orders t \<and> od_shipments db' = od_shipments t
        \<and> od_shipment_lines db' = od_shipment_lines t"
      using assms by (cases y) (auto simp: evaluateOrder_def bindX_eq_Inr yt auditOrder_def orderCall_def split: if_splits)
    with yt that show ?thesis by blast
  qed
  show ?thesis
  proof (cases y)
    case None
    then have "t = db" using t(1)
      by (auto simp: evaluateBody_def bindX_eq_Inr split: option.splits if_splits sum.splits)
    then show ?thesis using t by (auto simp: keepsShipment_def intro!: exI [of _ id])
  next
    case (Some od)
    then obtain order d where d: "writeDerived d order db = (Inr (), t)"
      using t(1) by (auto simp: evaluateBody_def bindX_eq_Inr split: option.splits if_splits sum.splits)
    then have w: "t = (setOrders (\<lambda>r. os_shop_id r = os_shop_id order \<and> os_order_id r = os_order_id order
          \<and> os_order_state r \<in> {IMPORTED, INCOMPLETE, READY}) (derivedOrderRow d) db)
        \<lparr>od_shipments := map (\<lambda>s. if isMutableOf (os_shop_id order) (os_order_id order) s
          then s\<lparr>hs_working_values := Some (nextWorking d (hs_working_values s)), hs_version := hs_version s + 1\<rparr> else s)
          (od_shipments db)\<rparr>"
      by (auto simp: writeDerived_def Let_def setOrders_def split: if_splits)
    let ?f = "\<lambda>s. if isMutableOf (os_shop_id order) (os_order_id order) s
          then s\<lparr>hs_working_values := Some (nextWorking d (hs_working_values s)), hs_version := hs_version s + 1\<rparr> else s"
    let ?g = "\<lambda>r. if os_shop_id r = os_shop_id order \<and> os_order_id r = os_order_id order
          \<and> os_order_state r \<in> {IMPORTED, INCOMPLETE, READY}
          then (derivedOrderRow d r)\<lparr>os_version := os_version r + 1\<rparr> else r"
    show ?thesis
      unfolding t w setOrders_def
      by (intro conjI exI [of _ ?f] exI [of _ ?g]) (auto simp: keepsShipment_def derivedOrderRow_def orderStateOf_def unbookedOrderStates_def)
  qed
qed

end
