(* ===== verification/Order_Example.thy ===== *)
theory Order_Example
  imports Order_Runs
begin

text \<open>
  One shop with a default package, an active pickup location and no orders, and the payload of an
  order of two shirts: the concrete input of the properties of order synchronisation.
\<close>

definition exampleUuid :: "nat \<Rightarrow> string" where
  "exampleUuid n = replicate n (CHR ''i'')"

definition quietOrderEnv :: "FulfillmentOrderInfo list \<Rightarrow> OrderEnv" where
  "quietOrderEnv fos = \<lparr>oe_uuid = exampleUuid, oe_timestamp = (\<lambda>_. True), oe_audit_up = True,
     oe_fulfillmentOrders = (\<lambda>_ _. Some fos), oe_canMerge = (\<lambda>_. True), oe_gap = (\<lambda>_ db. db)\<rparr>"

definition exampleFo :: "string \<Rightarrow> string \<Rightarrow> FulfillmentOrderInfo" where
  "exampleFo gid status = \<lparr>fo_gid = gid, fo_status = status, fo_locationGid = Some ''loc'', fo_locationName = None\<rparr>"

definition emptyOrderDb :: "GidIndex list \<Rightarrow> OrderDb" where
  "emptyOrderDb indexes = \<lparr>od_orders = [], od_lines = [], od_allocations = [], od_shipments = [],
     od_shipment_lines = [], od_locations = [], od_pickups = [(''shop'', ''pick'')],
     od_profiles = [(''shop'', \<lparr>pp_packageProfileId = ''box'', pp_lengthCm = ''10.00'', pp_widthCm = ''10.00'',
       pp_heightCm = ''10.00'', pp_tareKg = ''0.100'', pp_isDefault = True\<rparr>)],
     od_package_rules = [], od_sku_overrides = [], od_parcel_weights = [], od_cod_gateways = [],
     od_intents = [], od_invoice_lines = [], od_gid_indexes = indexes, od_ids = 0, od_calls = []\<rparr>"

definition examplePayload :: ShopifyRestOrderPayload where
  "examplePayload = \<lparr>op_id = Some (IdNumber 5), op_admin_graphql_api_id = Some ''gid'', op_order_number = None,
     op_name = Some ''#1'', op_created_at = None, op_email = None, op_phone = None, op_test = None,
     op_current_total_price_set = Some \<lparr>st_shop_money = Some \<lparr>sm_amount = Some ''9.00'', sm_currency_code = None\<rparr>,
       st_presentment_money = None\<rparr>,
     op_total_outstanding = None, op_total_outstanding_set = None,
     op_payment_gateway_names = [Some ''COD''],
     op_shipping_address = Some \<lparr>sa_name = Some ''Asha'', sa_first_name = None, sa_last_name = None,
       sa_address1 = Some ''1 Road'', sa_address2 = None, sa_city = None, sa_province = None,
       sa_zip = Some ''560001'', sa_phone = Some ''9876543210'', sa_email = None\<rparr>,
     op_customer_email = None,
     op_line_items = [\<lparr>li_id = Some (IdNumber 7), li_admin_graphql_api_id = None, li_sku = Some ''TEE'',
       li_title = Some ''Tee'', li_name = None, li_variant_title = None, li_quantity = Some 2,
       li_price = None, li_price_set = None, li_tags = None, li_grams = None,
       li_hsn_code = None, li_harmonized_system_code = None\<rparr>],
     op_shipping_lines = [], op_risk_level = None, op_order_risks = [], op_fulfillment_status = None\<rparr>"

definition exampleMapped :: MappedOrder where
  "exampleMapped = (case mapShopifyOrder examplePayload of Inr m \<Rightarrow> m)"

lemma example_mapped: "mapShopifyOrder examplePayload = Inr exampleMapped"
  by code_simp

lemma example_checks: "orderChecks (quietOrderEnv []) exampleMapped"
  by code_simp

section \<open>The ingested order\<close>

abbreviation exampleIngest :: "OrderIngestResult order_run" where
  "exampleIngest \<equiv> ingest (quietOrderEnv [exampleFo ''a'' ''OPEN'']) ''shop'' examplePayload (emptyOrderDb [GidUnique])"

definition rebuiltWithLines :: "order_error + OrderIngestResult \<Rightarrow> bool" where
  "rebuiltWithLines v = (case v of Inl _ \<Rightarrow> False
     | Inr r \<Rightarrow> ir_allocationsRebuilt r \<and> mo_lines (ir_mapped r) \<noteq> [] \<and> ou_orderId (ir_upsert r) = exampleUuid 0)"

definition derivedCod :: "order_error + Derived option \<Rightarrow> bool" where
  "derivedCod v = (case v of Inr (Some d) \<Rightarrow> dv_paymentMode d = COD | _ \<Rightarrow> False)"

text \<open>All that the properties need of the run, so that it is evaluated once.\<close>

definition exampleFacts :: "OrderIngestResult order_run \<Rightarrow> bool" where
  "exampleFacts run \<longleftrightarrow> rebuiltWithLines (fst run)
     \<and> list_ex (isMutableOf ''shop'' (exampleUuid 0)) (od_shipments (snd run))
     \<and> map os_order_state (od_orders (snd run)) = [READY] \<and> od_gid_indexes (snd run) = [GidUnique]
     \<and> derivedCod (fst (evaluateOrder (quietOrderEnv [exampleFo ''a'' ''OPEN'']) (exampleUuid 0) (snd run)))"

lemma ingested_facts: "exampleFacts exampleIngest"
  by code_simp

lemma example_rebuilt: "rebuiltWithLines (fst exampleIngest)"
  using ingested_facts unfolding exampleFacts_def by blast

lemma example_draft: "list_ex (isMutableOf ''shop'' (exampleUuid 0)) (od_shipments (snd exampleIngest))"
  using ingested_facts unfolding exampleFacts_def by blast

lemma example_ready: "map os_order_state (od_orders (snd exampleIngest)) = [READY]"
  using ingested_facts unfolding exampleFacts_def by blast

lemma example_index: "od_gid_indexes (snd exampleIngest) = [GidUnique]"
  using ingested_facts unfolding exampleFacts_def by blast

lemma example_derived:
  "derivedCod (fst (evaluateOrder (quietOrderEnv [exampleFo ''a'' ''OPEN'']) (exampleUuid 0) (snd exampleIngest)))"
  using ingested_facts unfolding exampleFacts_def by blast

lemma rebuiltWithLinesE:
  assumes "rebuiltWithLines (fst run)"
  obtains r where "run = (Inr r, snd run)" "ir_allocationsRebuilt r" "mo_lines (ir_mapped r) \<noteq> []"
    "ou_orderId (ir_upsert r) = exampleUuid 0"
  using assms by (cases run; cases "fst run") (simp_all add: rebuiltWithLines_def)

lemma derivedCodE:
  assumes "derivedCod (fst run)"
  obtains d where "run = (Inr (Some d), snd run)" "dv_paymentMode d = COD"
  using assms by (cases run; cases "fst run") (simp_all add: derivedCod_def split: option.splits)

section \<open>A rebuild with a fulfillment order that is closed\<close>

abbreviation exampleFos :: "FulfillmentOrderInfo list" where
  "exampleFos \<equiv> [exampleFo ''a'' ''OPEN'', exampleFo ''b'' ''CLOSED'']"

abbreviation exampleRebuild :: "bool order_run" where
  "exampleRebuild \<equiv> rebuild (quietOrderEnv exampleFos) ''shop'' (exampleUuid 0) exampleMapped
     (snd (upsert (quietOrderEnv exampleFos) ''shop'' exampleMapped (emptyOrderDb [GidUnique])))"

definition exampleRebuilt :: "bool order_run \<Rightarrow> bool" where
  "exampleRebuilt run \<longleftrightarrow> fst run = Inr True
     \<and> map (\<lambda>p. (pi_state p, pi_sourceFulfillmentOrderGids p)) (planOf (quietOrderEnv exampleFos) ''shop'' exampleFos (snd run)) =
         [(ALLOC_EXCLUDED, [''b'']), (ALLOC_OPEN, [''a''])]"

lemma example_rebuild: "exampleRebuilt exampleRebuild"
  by code_simp

lemma exampleRebuiltD:
  assumes "exampleRebuilt run"
  shows "run = (Inr True, snd run)"
    "map (\<lambda>p. (pi_state p, pi_sourceFulfillmentOrderGids p)) (planOf (quietOrderEnv exampleFos) ''shop'' exampleFos (snd run)) =
       [(ALLOC_EXCLUDED, [''b'']), (ALLOC_OPEN, [''a''])]"
  using assms by (cases run, simp_all add: exampleRebuilt_def)

end
