(* ===== verification/Order_Properties.thy ===== *)
theory Order_Properties
  imports Order_Example "HOL-Library.Multiset"
begin

text \<open>
  The properties of order synchronisation: what a plan accounts for, what a rebuild leaves, what any
  sequence of webhooks keeps, the derived state of an order, and the webhooks that are never processed.
\<close>

section \<open>Plans\<close>

definition inHouseOf :: "(string option \<Rightarrow> bool) \<Rightarrow> FulfillmentOrderInfo list \<Rightarrow> FulfillmentOrderInfo list" where
  "inHouseOf ships fos = filter (\<lambda>fo. exclusionOf ships fo = None) fos"

lemma plan_gids:
  "mset (concat (map pi_sourceFulfillmentOrderGids (buildAllocationPlan fos ships canMerge))) = mset (map fo_gid fos)"
proof -
  obtain ex ih where s: "sortOut ships fos = (ex, ih)" by fastforce
  show ?thesis using sortOut_gids [OF s] by (auto simp: buildAllocationPlan_def s Let_def comp_def)
qed

lemma sortOut_split:
  assumes "sortOut ships fos = (ex, ih)"
  shows "ih = inHouseOf ships fos" "filter (\<lambda>i. pi_state i = ALLOC_OPEN) ex = []"
    "filter (\<lambda>i. pi_state i = ALLOC_EXCLUDED) ex = ex" "fos = [] \<longleftrightarrow> ex = [] \<and> ih = []"
proof -
  show "ih = inHouseOf ships fos"
    unfolding inHouseOf_def sortOut_inHouse [OF assms] by (rule filter_cong) (auto simp: exclusionOf_def)
  show "filter (\<lambda>i. pi_state i = ALLOC_OPEN) ex = []" "filter (\<lambda>i. pi_state i = ALLOC_EXCLUDED) ex = ex"
    unfolding sortOut_reasons [OF assms] by (auto simp: filter_empty_conv filter_id_conv)
  show "fos = [] \<longleftrightarrow> ex = [] \<and> ih = []" using sortOut_empty [of ships fos] assms by simp
qed

text \<open>
  C36: the plan of an order accounts for every fulfillment order exactly once (INV-20).  The
  fulfillment orders that are not shipped appear as excluded items with their reason, in their
  order; those in house are one open item, or one each when they cannot be merged; an order that
  Shopify has not routed yet still gets one open item.
\<close>

theorem allocation_plan_accounts:
  "mset (concat (map pi_sourceFulfillmentOrderGids (buildAllocationPlan fos ships canMerge))) = mset (map fo_gid fos)
   \<and> filter (\<lambda>i. pi_state i = ALLOC_EXCLUDED) (buildAllocationPlan fos ships canMerge) =
       map (\<lambda>fo. excludedItem fo (the (exclusionOf ships fo))) (filter (\<lambda>fo. exclusionOf ships fo \<noteq> None) fos)
   \<and> map pi_sourceFulfillmentOrderGids (filter (\<lambda>i. pi_state i = ALLOC_OPEN) (buildAllocationPlan fos ships canMerge)) =
       (if fos = [] then [[]] else if inHouseOf ships fos = [] then []
        else if canMerge then [map fo_gid (inHouseOf ships fos)]
        else map (\<lambda>fo. [fo_gid fo]) (inHouseOf ships fos))"
proof (intro conjI plan_gids)
  obtain ex ih where s: "sortOut ships fos = (ex, ih)" by fastforce
  note sp = sortOut_split [OF s]
  show "filter (\<lambda>i. pi_state i = ALLOC_EXCLUDED) (buildAllocationPlan fos ships canMerge) =
       map (\<lambda>fo. excludedItem fo (the (exclusionOf ships fo))) (filter (\<lambda>fo. exclusionOf ships fo \<noteq> None) fos)"
    unfolding sortOut_reasons [OF s, symmetric] by (auto simp: buildAllocationPlan_def s sp filter_empty_conv)
  show "map pi_sourceFulfillmentOrderGids (filter (\<lambda>i. pi_state i = ALLOC_OPEN) (buildAllocationPlan fos ships canMerge)) =
       (if fos = [] then [[]] else if inHouseOf ships fos = [] then []
        else if canMerge then [map fo_gid (inHouseOf ships fos)]
        else map (\<lambda>fo. [fo_gid fo]) (inHouseOf ships fos))"
    unfolding sp(1) [symmetric] sp(4) by (auto simp: buildAllocationPlan_def s sp(2) filter_map comp_def)
qed

section \<open>Rebuilds\<close>

lemma planned_zip:
  "filter (\<lambda>(a, p). pi_state p \<noteq> ALLOC_EXCLUDED) (zip as (planOf env shop fos db)) =
     filter (\<lambda>(a, p). pi_state p = ALLOC_OPEN) (zip as (planOf env shop fos db))"
  by (rule filter_cong) (auto dest!: set_zip_rightD simp: planOf_states)


lemma quietOrderEnv_sel [simp]:
  "quiet (quietOrderEnv fos)" "oe_fulfillmentOrders (quietOrderEnv fos) shop gid = Some fos"
  "oe_uuid (quietOrderEnv fos) = exampleUuid"
  by (simp_all add: quiet_def quietOrderEnv_def)


section \<open>Sequences of events\<close>

text \<open>A webhook or a derivation, with whatever Shopify answers and others write meanwhile.\<close>

definition orderEvent :: "(nat \<Rightarrow> string) \<Rightarrow> OrderDb \<Rightarrow> OrderDb \<Rightarrow> bool" where
  "orderEvent uuid db db' \<longleftrightarrow> (\<exists>env. oe_uuid env = uuid \<and> wfOrderEnv env \<and> orderOutcomes env db db')"

lemma orderEvent_writes: "orderEvent uuid db db' \<Longrightarrow> orderWrites uuid db db'"
  using orderOutcomes_reached unfolding orderEvent_def by blast

lemma orderEvents_reached:
  assumes "(orderEvent uuid)\<^sup>*\<^sup>* db db'" "orderInv uuid db"
  shows "(order_step uuid)\<^sup>*\<^sup>* db db'"
proof -
  from assms(1) have "orderWrites uuid db db'"
    by (induction rule: rtranclp_induct)
      (auto intro: order_writes.rel_refl order_writes.rel_trans orderEvent_writes)
  with assms(2) show ?thesis by (simp add: orderWrites_def)
qed

text \<open>
  C35: whatever sequence of order webhooks, derivations and writes of others runs, failing ones
  included, the tables stay consistent (ids and Shopify ids are unique, every foreign key has its row,
  a shipment is of the shop of its order, INV-1), and an order that was cancelled in Shopify or
  closed stays so (INV-17).
\<close>

theorem order_tables_consistent:
  assumes "orderInv uuid db" "(orderEvent uuid)\<^sup>*\<^sup>* db db'"
  shows "orderInv uuid db'
   \<and> (st \<in> set terminalOrderStates \<and> inState orderId st db \<longrightarrow> inState orderId st db')"
  using order_tables.reachable [OF orderEvents_reached [OF assms(2,1)] assms(1)]
    order_ends.reachable [OF orderEvents_reached [OF assms(2,1)]] by blast

lemma inj_exampleUuid: "inj exampleUuid"
  by (rule injI) (metis exampleUuid_def length_replicate)

lemma emptyOrderDb_inv: "orderInv exampleUuid (emptyOrderDb idx)"
  by (simp add: orderInv_def inj_exampleUuid emptyOrderDb_def keysDistinct_def gidKeys_def refsResolve_def idsDrawn_def
      order_ids map_filter_simps)

lemma quiet_wf: "quiet env \<Longrightarrow> wfOrderEnv env"
  by (simp add: wfOrderEnv_def quiet_def order_writes.rel_refl)

lemma ordersCreate_snd: "snd (ordersCreate env shop payload db) = snd (ingest env shop payload db)"
  by (simp add: ordersCreate_def bindX_def split: prod.split sum.split)

lemma example_event: "orderEvent exampleUuid (emptyOrderDb [GidUnique]) (snd exampleIngest)"
  unfolding orderEvent_def ordersCreate_snd [symmetric]
  by (rule exI [of _ "quietOrderEnv [exampleFo ''a'' ''OPEN'']"]) (simp add: quiet_wf orderOutcomes.intros(1))

theorem order_tables_consistent_witness:
  "orderInv exampleUuid (snd exampleIngest) \<and> map os_order_state (od_orders (snd exampleIngest)) = [READY]"
  using order_tables_consistent [OF emptyOrderDb_inv [of "[GidUnique]"] r_into_rtranclp [of "orderEvent exampleUuid"]]
    example_event example_ready by blast

section \<open>Orders that are never imported\<close>

lemma inTx_failed [simp]: "body db = (Inl e, db) \<Longrightarrow> inTx body db = (Inl e, db)"
  by (simp add: inTx_def)

lemma ingest_failed:
  "mapShopifyOrder payload = Inr m \<Longrightarrow> upsert env shop m db = (Inl e, db) \<Longrightarrow> ingest env shop payload db = (Inl e, db)"
  by (simp add: ingest_def bindX_def)

text \<open>A webhook that leaves everything as it was with the error of its ingestion.\<close>

definition refusesAll :: "OrderEnv \<Rightarrow> string \<Rightarrow> ShopifyRestOrderPayload \<Rightarrow> OrderDb \<Rightarrow> order_error \<Rightarrow> bool" where
  "refusesAll env shop payload db e \<longleftrightarrow> ordersCreate env shop payload db = (Inl e, db)
     \<and> ordersUpdated env shop payload db = (Inl e, db) \<and> ordersCancelled env shop payload db = (Inl e, db)
     \<and> ordersFulfilled env shop payload db = (Inl e, db)"

lemma refusesAll_ingest: "ingest env shop payload db = (Inl e, db) \<Longrightarrow> refusesAll env shop payload db e"
  by (simp add: refusesAll_def ordersCreate_def ordersUpdated_def ordersCancelled_def ordersFulfilled_def bindX_def)

text \<open>
  C39: with the unique index as migration 0003 creates it, WHERE \<open>shopify_order_gid IS NOT NULL\<close>, the
  conflict target of the upsert has no arbiter: every webhook of every order that can be mapped fails
  and no order is ever imported.
\<close>

theorem no_order_is_ever_imported:
  assumes "set (od_gid_indexes db) \<subseteq> {GidUniqueWhereNotNull}" "mapShopifyOrder payload = Inr m"
  shows "refusesAll env shop payload db NoConflictArbiter"
proof -
  have "GidUnique \<notin> set (od_gid_indexes db)" using assms(1) by auto
  then have "upsertInTx env shop m db = (Inl NoConflictArbiter, db)"
    by (simp add: upsertInTx_def upsertOrderRow_def bindX_def)
  then show ?thesis
    by (intro refusesAll_ingest ingest_failed [OF assms(2)]) (simp add: upsert_def)
qed

theorem no_order_is_ever_imported_witness:
  "ordersCreate (quietOrderEnv []) ''shop'' examplePayload (emptyOrderDb [GidUniqueWhereNotNull])
     = (Inl NoConflictArbiter, emptyOrderDb [GidUniqueWhereNotNull])"
  using no_order_is_ever_imported [OF _ example_mapped, of "emptyOrderDb [GidUniqueWhereNotNull]" "quietOrderEnv []" "''shop''"]
  by (simp add: refusesAll_def emptyOrderDb_def)

section \<open>Webhooks of an imported order\<close>

lemma ingest_Inr:
  assumes "ingest env shop payload db = (Inr r, db')" "ir_allocationsRebuilt r"
  obtains d1 d2 x d3 where "mapShopifyOrder payload = Inr (ir_mapped r)"
    "upsert env shop (ir_mapped r) db = (Inr (ir_upsert r), d1)" "ou_unbooked (ir_upsert r)"
    "rebuild env shop (ou_orderId (ir_upsert r)) (ir_mapped r) (oe_gap env 0 d1) = (Inr True, d2)"
    "evaluateOrder env (ou_orderId (ir_upsert r)) (oe_gap env 2 d2) = (Inr x, d3)"
    "db' = orderCall (CodConfirmationStart (ou_orderId (ir_upsert r))) d3"
proof (cases "mapShopifyOrder payload")
  case (Inr m)
  note run = assms(1) [unfolded ingest_def Inr sum.case]
  from run obtain up d1 where up: "upsert env shop m db = (Inr up, d1)"
      "(if \<not> ou_unbooked up then (Inr \<lparr>ir_mapped = m, ir_upsert = up, ir_allocationsRebuilt = False\<rparr>, d1)
        else bindX (ingestUnbooked env shop m up (oe_gap env 0 d1)) (\<lambda>rebuilt db.
          (Inr \<lparr>ir_mapped = m, ir_upsert = up, ir_allocationsRebuilt = rebuilt\<rparr>, db))) = (Inr r, db')"
    unfolding bindX_eq_Inr by blast
  have ub: "ou_unbooked up" using up(2) assms(2) by (auto split: if_splits)
  have r: "r = \<lparr>ir_mapped = m, ir_upsert = up, ir_allocationsRebuilt = True\<rparr>"
    and ing: "ingestUnbooked env shop m up (oe_gap env 0 d1) = (Inr True, db')"
    using up(2) assms(2) by (auto simp: ub bindX_eq_Inr)
  from ing ub obtain d2 x d3 where "rebuild env shop (ou_orderId up) m (oe_gap env 0 d1) = (Inr True, d2)"
      "evaluateOrder env (ou_orderId up) (oe_gap env 2 d2) = (Inr x, d3)"
      "db' = orderCall (CodConfirmationStart (ou_orderId up)) d3"
    by (auto simp: ingestUnbooked_def evaluateAfterUpsert_def bindX_eq_Inr)
  with that [of d1 d2 x d3] up(1) ub Inr show thesis by (simp add: r)
qed (use assms in \<open>simp add: ingest_def split: map_error.splits\<close>)

text \<open>A line of an unbooked order to which a shipment refers.\<close>

definition lineHeld :: "OrderDb \<Rightarrow> string \<Rightarrow> string \<Rightarrow> bool" where
  "lineHeld db shop gid \<longleftrightarrow> (\<exists>r l h. orderByGid db shop gid = Some r \<and> os_order_state r \<in> set unbookedOrderStates
     \<and> l \<in> set (linesOfOrder db (os_order_id r)) \<and> h \<in> set (od_shipment_lines db)
     \<and> hl_order_line_id h = ol_order_line_id l)"

lemma lineHeld_refuses:
  assumes "lineHeld db shop (mo_shopifyOrderGid m)" "mapShopifyOrder payload = Inr m" "GidUnique \<in> set (od_gid_indexes db)"
  shows "refusesAll env shop payload db
    (if orderChecks env m then ForeignKeyViolation ''shipment_line'' else OrderCheckViolation)"
proof -
  have "upsert env shop m db = (Inl (if orderChecks env m then ForeignKeyViolation ''shipment_line'' else OrderCheckViolation), db)"
    using assms(1) upsert_refused [OF assms(3)] unfolding lineHeld_def by blast
  then show ?thesis by (rule refusesAll_ingest [OF ingest_failed [OF assms(2)]])
qed

lemma rebuild_realises_rows:
  assumes "quiet env" "rebuild env shop oid m db = (Inr True, db')"
    and fos: "oe_fulfillmentOrders env shop (mo_shopifyOrderGid m) = Some fos"
  shows "od_orders db' = od_orders db" "od_lines db' = od_lines db"
    "s \<in> set (od_shipments db') \<Longrightarrow> isMutableOf shop oid s \<Longrightarrow> l \<in> set (linesOfOrder db oid) \<Longrightarrow>
       \<lparr>hl_shipment_id = hs_shipment_id s, hl_order_line_id = ol_order_line_id l, hl_quantity = ol_quantity l\<rparr>
         \<in> set (od_shipment_lines db')"
proof -
  obtain ls where ls: "ensureLocations shop (locationsOf fos) db = db\<lparr>od_locations := ls\<rparr>"
    using ensureLocations_only by blast
  note q = quiet_rebuild [OF assms(1,2) fos, unfolded ls]
  show "od_orders db' = od_orders db" "od_lines db' = od_lines db"
    using arg_cong [OF q, of od_orders] arg_cong [OF q, of od_lines] by (simp_all add: rebuiltDb_def)
  show "\<lparr>hl_shipment_id = hs_shipment_id s, hl_order_line_id = ol_order_line_id l, hl_quantity = ol_quantity l\<rparr>
         \<in> set (od_shipment_lines db')"
    if "s \<in> set (od_shipments db')" "isMutableOf shop oid s" "l \<in> set (linesOfOrder db oid)"
    using arg_cong [OF q, of od_shipments] arg_cong [OF q, of od_shipment_lines] that
    by (auto simp: rebuiltDb_def draftLines_def syncLine_def)
qed

text \<open>A rebuild with a draft leaves lines held, and a derivation does not release them.\<close>

lemma rebuild_holds:
  assumes "quiet env" "rebuild env shop oid m db = (Inr True, db')"
    and "s \<in> set (od_shipments db')" "isMutableOf shop oid s" "l \<in> set (linesOfOrder db oid)"
  shows "od_orders db' = od_orders db" "od_lines db' = od_lines db"
    "\<exists>h \<in> set (od_shipment_lines db'). hl_order_line_id h = ol_order_line_id l"
proof -
  obtain fos where fos: "oe_fulfillmentOrders env shop (mo_shopifyOrderGid m) = Some fos"
    using assms(2) by (cases "oe_fulfillmentOrders env shop (mo_shopifyOrderGid m)") (simp_all add: rebuild_def)
  note r = rebuild_realises_rows [OF assms(1,2) fos]
  show "od_orders db' = od_orders db" "od_lines db' = od_lines db" by (rule r)+
  show "\<exists>h \<in> set (od_shipment_lines db'). hl_order_line_id h = ol_order_line_id l"
    using r(3) [OF assms(3-5)] by force
qed

lemma evaluateOrder_holds:
  assumes "evaluateOrder env i db = (Inr x, db')" "keysDistinct db'"
    and "r \<in> set (od_orders db)" "os_shop_id r = shop" "os_shopify_order_gid r = Some gid"
    and "os_order_state r \<in> set unbookedOrderStates" "l \<in> set (linesOfOrder db (os_order_id r))"
    and "h \<in> set (od_shipment_lines db)" "hl_order_line_id h = ol_order_line_id l"
  shows "lineHeld db' shop gid"
proof -
  note k = evaluateOrder_keeps [OF assms(1)]
  then obtain g where g: "od_orders db' = map g (od_orders db)" "os_order_id (g r) = os_order_id r"
      "os_shop_id (g r) = shop" "os_shopify_order_gid (g r) = Some gid" "os_order_state (g r) \<in> set unbookedOrderStates"
    using assms(4-6) by metis
  have "orderByGid db' shop gid = Some (g r)"
    by (rule orderByGid_unique [OF assms(2)]) (use g assms(3) in simp_all)
  moreover have "l \<in> set (linesOfOrder db' (os_order_id (g r)))"
    using assms(7) k g(2) by (simp add: linesOfOrder_def)
  moreover have "h \<in> set (od_shipment_lines db')" using assms(8) k by simp
  ultimately show ?thesis using g(5) assms(9) unfolding lineHeld_def by blast
qed

lemma ingest_holds:
  assumes "quiet env" "orderInv (oe_uuid env) db" "ingest env shop payload db = (Inr r, db')"
    and "ir_allocationsRebuilt r" "mo_lines (ir_mapped r) \<noteq> []"
    and "list_ex (isMutableOf shop (ou_orderId (ir_upsert r))) (od_shipments db')"
  shows "lineHeld db' shop (mo_shopifyOrderGid (ir_mapped r))"
proof -
  let ?m = "ir_mapped r"
  let ?i = "ou_orderId (ir_upsert r)"
  obtain d1 d2 x d3 where d: "upsert env shop ?m db = (Inr (ir_upsert r), d1)" "ou_unbooked (ir_upsert r)"
      "rebuild env shop ?i ?m d1 = (Inr True, d2)" "evaluateOrder env ?i d2 = (Inr x, d3)"
      "db' = orderCall (CodConfirmationStart ?i) d3"
    using ingest_Inr [OF assms(3,4)] assms(1) unfolding quiet_def by metis
  obtain o' where o': "o' \<in> set (od_orders d1)" "os_order_id o' = ?i" "os_shop_id o' = shop"
      "os_shopify_order_gid o' = Some (mo_shopifyOrderGid ?m)" "os_order_state o' \<in> set unbookedOrderStates"
      "map ol_quantity (linesOfOrder d1 ?i) = map ml_quantity (mo_lines ?m)"
    by (rule upsert_Inr [OF d(1,2) assms(2)])
  obtain l where l: "l \<in> set (linesOfOrder d1 ?i)" using o'(6) assms(5) by (cases "linesOfOrder d1 ?i") auto
  obtain f where f: "od_shipments d3 = map f (od_shipments d2)"
      "\<And>s. keepsShipment s (f s) \<and> hs_booking_state (f s) = hs_booking_state s"
    using evaluateOrder_keeps [OF d(4)] by blast
  obtain s where s: "s \<in> set (od_shipments d2)" "isMutableOf shop ?i s"
    using assms(6) f by (auto simp: d(5) orderCall_def list_ex_iff isMutableOf_def keepsShipment_def)
  note b = rebuild_holds [OF assms(1) d(3) s l]
  have "orderInv (oe_uuid env) db'"
    using ingest_writes [OF quiet_wf [OF assms(1)], of db shop payload] assms(2,3) order_tables.reachable
    by (auto simp: orderWrites_def)
  from orderInvD(2) [OF this] have k: "keysDistinct d3" by (simp add: d(5) orderCall_def keysDistinct_def gidKeys_def)
  from b(3) obtain h where "h \<in> set (od_shipment_lines d2)" "hl_order_line_id h = ol_order_line_id l" by blast
  then have "lineHeld d3 shop (mo_shopifyOrderGid ?m)"
    by (intro evaluateOrder_holds [OF d(4) k, of o' _ _ l h]) (use o' b l in \<open>simp_all add: linesOfOrder_def\<close>)
  then show ?thesis by (simp add: lineHeld_def d(5) orderCall_def orderByGid_def linesOfOrder_def)
qed

text \<open>
  C40: the second obstacle behind C39.  Suppose the unique index on the Shopify id of an order had
  no predicate, as the upsert needs and no migration creates, so that orders can be imported.  Once an
  order with lines has then been ingested and has an unbooked shipment, its lines are held by \<open>shipment_line\<close>,
  and rewriting them violates that foreign key: every later webhook of the order, of any of the four
  topics, fails with the violation of \<open>shipment_line\<close> (or, when the new payload violates a column check
  of \<open>order\<close>, with that, which is tested first) and leaves every table as it was.  Edits of the order are
  lost and a cancellation in Shopify never arrives, so the order stays bookable.
\<close>

theorem imported_order_refuses_webhooks:
  assumes "quiet env" "orderInv (oe_uuid env) db" "ingest env shop payload db = (Inr r, db')"
    and "ir_allocationsRebuilt r" "mo_lines (ir_mapped r) \<noteq> []"
    and "list_ex (isMutableOf shop (ou_orderId (ir_upsert r))) (od_shipments db')"
    and "GidUnique \<in> set (od_gid_indexes db')"
    and "mapShopifyOrder payload' = Inr m'" "mo_shopifyOrderGid m' = mo_shopifyOrderGid (ir_mapped r)"
  shows "refusesAll env' shop payload' db'
    (if orderChecks env' m' then ForeignKeyViolation ''shipment_line'' else OrderCheckViolation)"
  using lineHeld_refuses [OF _ assms(8,7)] ingest_holds [OF assms(1-6)] unfolding assms(9) by blast

theorem imported_order_refuses_webhooks_witness:
  "map os_order_state (od_orders (snd exampleIngest)) = [READY]
   \<and> ordersCancelled (quietOrderEnv []) ''shop'' examplePayload (snd exampleIngest)
      = (Inl (ForeignKeyViolation ''shipment_line''), snd exampleIngest)"
proof -
  obtain r where r: "exampleIngest = (Inr r, snd exampleIngest)" "ir_allocationsRebuilt r"
      "mo_lines (ir_mapped r) \<noteq> []" "ou_orderId (ir_upsert r) = exampleUuid 0"
    by (rule rebuiltWithLinesE [OF example_rebuilt])
  have m: "mapShopifyOrder examplePayload = Inr (ir_mapped r)" by (rule ingest_Inr [OF r(1,2)])
  then have "orderChecks (quietOrderEnv []) (ir_mapped r)" using example_checks by (simp add: example_mapped)
  moreover have "refusesAll (quietOrderEnv []) ''shop'' examplePayload (snd exampleIngest)
      (if orderChecks (quietOrderEnv []) (ir_mapped r) then ForeignKeyViolation ''shipment_line'' else OrderCheckViolation)"
    by (rule imported_order_refuses_webhooks [OF _ _ r(1-3) _ _ m refl])
      (simp_all add: emptyOrderDb_inv r(4) example_draft example_index)
  ultimately show ?thesis using example_ready by (simp add: refusesAll_def)
qed

section \<open>Derivations\<close>

text \<open>
  C38: a derivation leaves the order and its unbooked shipments with one and the same result, computed
  from the rows of the order alone: the order is READY exactly when it is eligible, and payment mode,
  collectible, weight and validation of every draft are those derived with the order.  The routing
  that the rules wrote into a draft is gone.
\<close>

theorem derivation_is_one_result:
  assumes "orderInv uuid db" "evaluateOrder env i db = (Inr (Some d), db')"
  shows "\<exists>o' r. orderRowById db i = Some o' \<and> deriveOrder db o' = Inr d \<and> orderRowById db' i = Some r
   \<and> os_order_state r = (if eres_ready (dv_eligibility d) then READY else INCOMPLETE)
   \<and> os_payment_mode r = dv_paymentMode d \<and> os_cod_outstanding r = numericText (dv_codOutstanding d)
   \<and> os_cod_assignment_state r = dv_codAssignmentState d
   \<and> (\<forall>s \<in> set (od_shipments db'). isMutableOf (os_shop_id r) i s \<longrightarrow> (\<exists>w. hs_working_values s = Some w
        \<and> yp_mode (yw_payment w) = os_payment_mode r
        \<and> yp_collectible (yw_payment w) = valueOr (dv_codOutstanding d) ''0.00''
        \<and> yw_weight w = dv_weight d \<and> yw_validation w = Some (dv_eligibility d) \<and> yw_routing w = None))"
proof -
  obtain o' where o': "orderRowById db i = Some o'" "os_order_state o' \<in> set unbookedOrderStates" "deriveOrder db o' = Inr d"
      "od_orders db' = od_orders (derivedDb d o' db)" "od_shipments db' = od_shipments (derivedDb d o' db)"
    by (rule evaluateOrder_Some [OF assms(2)])
  let ?r = "(derivedOrderRow d o')\<lparr>os_version := os_version o' + 1\<rparr>"
  have "orderRowById (derivedDb d o' db) i = Some ?r"
    by (rule derivedDb_row) (use orderInvD(2) [OF assms(1)] o'(1,2) in simp_all)
  then have r: "orderRowById db' i = Some ?r" by (simp add: orderRowById_def o'(4))
  have "\<exists>w. hs_working_values s = Some w \<and> yp_mode (yw_payment w) = dv_paymentMode d
      \<and> yp_collectible (yw_payment w) = valueOr (dv_codOutstanding d) ''0.00'' \<and> yw_weight w = dv_weight d
      \<and> yw_validation w = Some (dv_eligibility d) \<and> yw_routing w = None"
    if "s \<in> set (od_shipments db')" "isMutableOf (os_shop_id o') i s" for s
    using derivedDb_drafts [of s d o' db] that orderRowById_Some [OF o'(1)] by (auto simp: o'(5))
  then show ?thesis
    by (intro exI [of _ o'] exI [of _ ?r] conjI ballI impI)
      (use o'(1,3) r in \<open>simp_all add: derivedOrderRow_def orderStateOf_def\<close>)
qed

theorem derivation_is_one_result_witness:
  "\<exists>(d :: Derived) r. orderRowById (snd (evaluateOrder (quietOrderEnv [exampleFo ''a'' ''OPEN'']) (exampleUuid 0)
       (snd exampleIngest))) (exampleUuid 0) = Some r \<and> os_payment_mode r = COD
     \<and> os_cod_outstanding r = numericText (dv_codOutstanding d)"
proof -
  obtain d where d: "evaluateOrder (quietOrderEnv [exampleFo ''a'' ''OPEN'']) (exampleUuid 0) (snd exampleIngest)
      = (Inr (Some d), snd (evaluateOrder (quietOrderEnv [exampleFo ''a'' ''OPEN'']) (exampleUuid 0) (snd exampleIngest)))"
      "dv_paymentMode d = COD"
    by (rule derivedCodE [OF example_derived])
  have "orderInv exampleUuid (snd exampleIngest)"
    by (rule order_tables.reachable [OF orderEvents_reached [OF r_into_rtranclp [of "orderEvent exampleUuid", OF example_event] emptyOrderDb_inv] emptyOrderDb_inv])
  from derivation_is_one_result [OF this d(1)] show ?thesis unfolding d(2) by blast
qed

end
