(* ===== verification/Spec2Isabelle.thy ===== *)
theory Spec2Isabelle
  imports Eligibility OrderStatus PackageSelection Payment Rule_Actions Pricing_Laws
    Ingest_Laws Ndr_Laws ReconProcessing_Laws Transport_Laws Booking_Properties
    Gst_Properties ReconCsv RateCardCsv
    Cod_Failures Queue_Properties Order_Properties
begin

text \<open>
  Verification library of the jsyxi-shipping backend, a shipping service for Shopify
  merchants (\<open>src/src\<close>).  A Shopify order is given a weight, a package, a payment mode and an
  eligibility; its fulfillment orders become allocations with draft shipments; rules choose a courier Service for it, priced by rate cards; the booking worker
  creates the courier's shipment and takes the entitlement; tracking events move the shipment and
  open delivery exceptions; courier freight invoices are reconciled against the frozen
  expectations; a GST invoice follows every confirmed booking.

  Conventions.  \<open>Prelude\<close> holds the result type (\<open>e + 'a\<close>, \<open>Inl\<close> for a throw or
  a refused statement), its sequencing \<open>bindR\<close> and \<open>mapR\<close>, decimal texts, JavaScript's
  division towards zero, stable sort and insertion-ordered maps.  Money is an integer number of
  paise, a rate an integer number of millionths, as the \<open>bigint\<close>s of \<open>common/money.ts\<close> (\<open>Money\<close>).
  Tables are lists of rows in insertion order; a statement is a function on the record of the
  tables it touches.  A service method that is several transactions is a definition with an
  environment argument: at each gap between its transactions the environment applies any sequence
  of writes of other workers that the step relation of the component allows.  So the invariants hold
  for every interleaving, and their proofs are inductions over the step relation.  Calls that never
  gate a result (buyer notifications, sync-back, audit where it matters) are recorded in a list.

  Derivations of an order (\<open>modules/order-derivation\<close>).
  \<open>Weight\<close> is \<open>weight.ts\<close> (F-24), \<open>Payment\<close> \<open>payment.ts\<close> (F-15), \<open>Eligibility\<close>
  \<open>eligibility.ts\<close> (INV-7), \<open>OrderStatus\<close> \<open>order-status.ts\<close> (F-22, INV-9) and
  \<open>PackageSelection\<close> \<open>package-selection.ts\<close> (F-20).  The lemmas give each function's result on
  every branch; \<open>Eligibility\<close> composes the first three.

  Order synchronisation (\<open>modules/order-sync\<close>, \<open>order-derivation.service.ts\<close>).  \<open>OrderMapper\<close> is
  \<open>order-mapper.ts\<close>, a Shopify payload as row values; \<open>Allocation\<close> \<open>allocation-plan.ts\<close>, the tables of
  an order with their checks, foreign keys and unique indexes, and \<open>order-upsert.service.ts\<close>;
  \<open>AllocationSync\<close> \<open>location.service.ts\<close> and \<open>allocation.service.ts\<close>; \<open>OrderDerivation\<close> the
  transaction that runs the derivations above and writes them; \<open>OrderIngest\<close> the pipeline
  \<open>order-ingest.service.ts\<close> and the four webhook topics.  \<open>Order_Plan\<close> counts what a plan covers;
  \<open>Order_Laws\<close> has the step relation of the tables, their consistency \<open>orderInv\<close>, the finality of
  terminal orders and the proof that every operation is a run of steps; \<open>Order_Runs\<close> inverts the
  operations that succeeded; \<open>Order_Example\<close> is one order, ingested by evaluation.  \<open>Order_Properties\<close>
  has what every sequence of events keeps, what a plan accounts for, what a rebuild and a derivation
  leave (a rebuild as an update of all tables), and the two ways in which webhooks are refused: the
  migrated index admits no import, and with an index without a predicate, which no migration creates,
  only the first webhook of an order succeeds.

  Rate cards (\<open>modules/rate-engine\<close>).  \<open>Pricing\<close> is \<open>pricing.ts\<close> (F-1 to F-12), its
  laws in \<open>Pricing_Laws\<close>: the total is the sum of its components and grows with the weight.
  \<open>RateCardCsv\<close> is the upload preview of \<open>rate-card-csv.ts\<close>: what it accepts never makes the
  freight engine fail.  \<open>EstimateCost\<close> is \<open>estimate-cost.service.ts\<close>, the price of a parcel from the
  card in force, with its failures as values.  \<open>Csv\<close> holds the two CSV readers, the report
  writer of \<open>modules/reports/csv-renderer.ts\<close> and the relation of a table to any conforming text of it, from which
  both readers read the table back; \<open>Dates\<close> the
  Gregorian calendar arithmetic.

  Rules (\<open>modules/rules/evaluate.ts\<close>).  \<open>RuleConditions\<close> and \<open>RuleEvaluate\<close> are the model,
  the candidate results that the actions share and mutate an explicit store; \<open>Rule_Laws\<close>,
  \<open>Rule_Select\<close>, \<open>Rule_Properties\<close> and \<open>Rule_Actions\<close> show the first match, soundness of a
  selection, the order of CHEAPEST and what the fallback cannot select.  \<open>RuleLoader\<close> is the reading
  half of \<open>rule-evaluation.service.ts\<close> (rules, chain, postal attributes, candidates with their
  quotes), \<open>RuleRouting\<close> its transaction in \<open>rule-routing.service.ts\<close> and the simulator.

  Tracking (\<open>modules/tracking\<close>, \<open>modules/ndr\<close>).  \<open>TrackingUtil\<close> is \<open>tracking.util.ts\<close>;
  \<open>Movement\<close> the reducer of \<open>movement-reducer.service.ts\<close> with its optimistic retries;
  \<open>Ingest\<close> \<open>processRawEvent\<close> of \<open>tracking-ingest.service.ts\<close>; \<open>NdrCase\<close> machine F of
  \<open>ndr-case.service.ts\<close>.  Their laws show finality of terminal states over every history,
  atomicity of an event and idempotence of a replay.  \<open>Ndr_Laws\<close> states machine F as a relation of
  rows, shows that every operation of the case service keeps its writes within it while others do, and
  concludes for every interleaved run of the operations (\<open>case_run\<close>).

  Freight reconciliation (\<open>modules/recon-freight\<close>).  \<open>ReconCsv\<close> is \<open>recon-csv.ts\<close>,
  \<open>ReconMatching\<close> \<open>recon-matching.ts\<close>, \<open>ReconProcessing\<close> the worker of
  \<open>recon-processing.service.ts\<close> and \<open>ReconWorkflow\<close> the row actions of
  \<open>recon-workflow.service.ts\<close>.  Rows and money are conserved from the file to the stored rows,
  a resolved batch stays justified, and every line of a file is a row.

  COD reconciliation (\<open>modules/recon-cod\<close>).  \<open>Calendar\<close> proves that the day number of a Gregorian
  date and the date of a day number are inverse and keep the order; \<open>CodState\<close> is \<open>cod-state.ts\<close>
  with the texts of dates; \<open>CodRemittance\<close> \<open>cod-remittance-csv.ts\<close>; \<open>CodRecon\<close> the
  expectation service, the due sweep, the effective settings and the tracking seam; \<open>CodImport\<close>
  \<open>cod-import.service.ts\<close>, each SQL statement committing on its own.  \<open>Cod_Laws\<close> has the step
  relation and its invariants, \<open>Cod_Properties\<close> what any history keeps and what an undisturbed run and
  the sweep compute, \<open>Cod_Failures\<close> the interleavings and the failure that leave records behind.

  Booking (\<open>modules/booking\<close>, \<open>modules/courier-framework\<close>, \<open>modules/platform/ledger\<close>).
  \<open>Transport\<close> is the token bucket and circuit breaker of \<open>transport-policy.ts\<close> with the call
  path of one courier account; \<open>Ledger\<close> the append-only entitlement ledger; \<open>Booking\<close> the tables
  with the row guards and triggers of the migrations; \<open>BookingWorker\<close> the job and both resolvers of
  \<open>booking-worker.service.ts\<close>; \<open>BookingCancel\<close> \<open>cancellation.service.ts\<close>.  \<open>Booking_Laws\<close> has
  the step relation, the invariant \<open>bookingInv\<close> and the proof that every operation is a run of
  steps; \<open>Booking_Properties\<close> the AWB, ledger and settlement properties.

  Queueing (\<open>modules/booking\<close>).  \<open>QuoteCache\<close> is \<open>quote-cache.service.ts\<close>, \<open>Snapshot\<close>
  \<open>snapshot.ts\<close>, \<open>QueueBooking\<close> \<open>queueBooking\<close> of \<open>booking.service.ts\<close>: the rules, then one
  transaction on the locked shipment and order, then the job.  \<open>Queue_Laws\<close> shows that every call is
  a run of the steps of \<open>Booking_Laws\<close>, so the invariants of the worker hold with queueing among the
  writers; \<open>Queue_Cases\<close> inverts a call that queued; \<open>Queue_Example\<close> is one shop on which
  the properties of \<open>Queue_Properties\<close> are evaluated: the effect of a queued booking, the agreement of
  the frozen quote with reconciliation, and the calls that can never queue or never book.

  GST (\<open>modules/gst\<close>).  \<open>GstTax\<close> is \<open>gst-tax.ts\<close>, \<open>GstInvoice\<close> creation and issue and
  \<open>GstCorrections\<close> patch, void and credit note of \<open>gst-invoice.service.ts\<close>, and the redaction of
  the buyer by \<open>modules/health/full-redaction.service.ts\<close>, the one other writer of invoices.  \<open>Gst_Laws\<close> has the
  step relation and the invariant; \<open>Gst_Properties\<close> gapless numbers, frozen invoices and what a
  schema version, a sibling or a patch can do to them.

  Interfaces.  Each locale states a contract and is interpreted on the model's own definitions:
  \<open>versioned_store\<close>, what an optimistic version check proves about competing writers (shipment
  rows, NDR cases); \<open>invariant_system\<close>, an invariant of a step relation (reconciliation, booking,
  GST, orders); \<open>codec\<close>, numbers and their database texts (money, weights); \<open>js_comparator\<close>, the comparators
  \<open>Array.sort\<close> may be given (cost, delivery estimate); \<open>elimination_pass\<close>, the filters of the rule
  actions; \<open>run_relation\<close>, a reflexive and transitive relation that a sequence of calls keeps (the
  table of quotes, the writes on booking and on order tables).

  Bounds.  The reducer retries five times and the case service three, as in the code; both lemmas
  cover the run that exhausts them.  \<open>maskPayload\<close> stops at depth 8, a parsed freight file at
  250000 rows, a rate-card upload at 25 MB and 100000 rows, an invoice number at 2147483647, all
  written as in the code.  No definition has fuel of its own: recursions are structural or have
  a termination proof, but for the discovery of locations, which is partial and returns when Shopify's
  pages end (\<open>syncLocations_returns\<close>).

  Parameters.  The part of \<open>Date.parse\<close> that depends on the host, the offset of a time zone,
  sha256, fresh database ids and intent ids, the courier's \<open>getQuote\<close>, whether the audit record and
  the job could be written (\<open>QueueEnv\<close>), Shopify's fulfillment orders, the merge capability and the
  writes between the transactions of an ingestion (\<open>OrderEnv\<close>), the sealed tariff a reconciliation loads, its query for earlier rows,
  the courier's answer and the writes of other transactions are arguments.

  Idealisations.  The numbers of the Redis scripts are rationals, not doubles.  Texts are over the
  256 characters of \<open>char\<close>, so the byte order mark and the rupee sign cannot occur, and a long dash in
  a message is a hyphen.  A composite key built with a separator is a pair.  Message texts that only
  quote values are constructors carrying the values.  Time stamps and line ids that no branch reads
  are left out, and stored line amounts are paise.

  Not modelled.  Courier adapters (JSON of third-party services), the Shopify client, labels and PDF, dashboards,
  the queries of reports, notifications, support, admin, sign-in, track page and the browser code are I/O around
  third-party services or read-only SQL.  The ship modal and bulk booking call the operations modelled
  here.  The hourly order sweep
  feeds the modelled ingestion; privacy redaction deletes recipient data, of which the redaction of invoices is
  modelled; the purge of old test shipments deletes their rows.  Open: the permission matrix
  of a team, bulk booking and the billing of overage.
\<close>

end
